(* ===== verification/Prelude.thy ===== *)
theory Prelude
  imports Complex_Main
begin

text \<open>
  What every theory of the development shares: errors as values, results and actions that may
  throw, the string operations of JavaScript the code uses, first-match lookups, and the
  duplicate check. An exception of the code is a value of type \<open>js_error\<close>; a synchronous
  function that may throw returns \<open>js_error + 'a\<close>; a use case that reads and writes the
  database is an action, a function from the state to a result and the next state.
\<close>

section \<open>Collections of facts\<close>

named_theorems ok_iff \<open>when a step that may throw returns normally\<close>
named_theorems unfold_action \<open>equations that unfold the action combinators\<close>

section \<open>Errors\<close>

text \<open>
  The HTTP errors of the \<open>@hapi/boom\<close> constructors the code calls, each with its status code.
  A thrown Boom carries its message and the fields the code adds to its payload. The
  other constructors are the remaining exceptions: a plain \<open>Error\<close>, a \<open>TypeError\<close> from reading
  a property of undefined or null, MongoDB's duplicate key error with the fields of the unique
  index, the failure to read a file from S3 with its status and code, and the classes the services
  throw to themselves.
\<close>

datatype boom = BadRequest | Unauthorized | Forbidden | NotFound | Conflict | PreconditionFailed
  | EntityTooLarge | BadData | BadImplementation | BadGateway | ServerUnavailable | GatewayTimeout

fun status_code :: "boom \<Rightarrow> nat" where
  "status_code BadRequest = 400"
| "status_code Unauthorized = 401"
| "status_code Forbidden = 403"
| "status_code NotFound = 404"
| "status_code Conflict = 409"
| "status_code PreconditionFailed = 412"
| "status_code EntityTooLarge = 413"
| "status_code BadData = 422"
| "status_code BadImplementation = 500"
| "status_code BadGateway = 502"
| "status_code ServerUnavailable = 503"
| "status_code GatewayTimeout = 504"

datatype js_error =
    Boom boom string "(string \<times> string) list"
  | JsError string
  | TypeError
  | DuplicateKey "string list"
  | RetryClaimSubmission
  | RetryCreation string
  | InvalidEntitlementData string
  | S3FetchError string nat string
  | UnresolvedReference string
  | NamedError string string
  | PermanentFailure js_error

type_synonym 'a res = "js_error + 'a"

fun is_boom :: "js_error \<Rightarrow> bool" where
  "is_boom (Boom _ _ _) = True"
| "is_boom _ = False"

fun error_message :: "js_error \<Rightarrow> string" where
  "error_message (Boom _ m _) = m"
| "error_message (JsError m) = m"
| "error_message TypeError = ''Cannot read properties''"
| "error_message (DuplicateKey _) = ''E11000 duplicate key error''"
| "error_message RetryClaimSubmission = []"
| "error_message (RetryCreation r) = ''Entitlement creation abandoned: '' @ r"
| "error_message (InvalidEntitlementData m) = m"
| "error_message (S3FetchError m _ _) = m"
| "error_message (UnresolvedReference r) = ''Unresolved reference '' @ (CHR 0x22 # r @ [CHR 0x22])"
| "error_message (NamedError _ m) = m"
| "error_message (PermanentFailure e) = error_message e"

section \<open>Results\<close>

definition bind_res :: "'a res \<Rightarrow> ('a \<Rightarrow> 'b res) \<Rightarrow> 'b res" where
  "bind_res r f = (case r of Inl e \<Rightarrow> Inl e | Inr x \<Rightarrow> f x)"

lemma bind_res_simps [simp]:
  "bind_res (Inl e) f = Inl e"
  "bind_res (Inr x) f = f x"
  by (simp_all add: bind_res_def)

lemma bind_res_Inr [ok_iff]: "bind_res r f = Inr y \<longleftrightarrow> (\<exists>x. r = Inr x \<and> f x = Inr y)"
  by (cases r) simp_all

text \<open>A \<open>for\<close> loop over checks that throw: the first failure is thrown.\<close>

fun for_each :: "('a \<Rightarrow> unit res) \<Rightarrow> 'a list \<Rightarrow> unit res" where
  "for_each f [] = Inr ()"
| "for_each f (x # xs) = bind_res (f x) (\<lambda>_. for_each f xs)"

lemma for_each_Inr [ok_iff]: "for_each f xs = Inr () \<longleftrightarrow> (\<forall>x\<in>set xs. f x = Inr ())"
  by (induction xs) (auto simp: bind_res_Inr)

lemma for_each_Inl: "for_each f xs = Inl e \<Longrightarrow> \<exists>x\<in>set xs. f x = Inl e"
  by (induction xs) (auto simp: bind_res_def split: sum.splits)

text \<open>An array's \<open>map\<close> with a callback that may throw.\<close>

fun map_res :: "('a \<Rightarrow> 'b res) \<Rightarrow> 'a list \<Rightarrow> 'b list res" where
  "map_res f [] = Inr []"
| "map_res f (x # xs) = bind_res (f x) (\<lambda>y. bind_res (map_res f xs) (\<lambda>ys. Inr (y # ys)))"

lemma map_res_Inr [ok_iff]: "map_res f xs = Inr ys \<longleftrightarrow> list_all2 (\<lambda>x y. f x = Inr y) xs ys"
  by (induction xs arbitrary: ys) (auto simp: bind_res_Inr list_all2_Cons1)

lemma map_res_ok:
  assumes "\<And>x y. f x = Inr y \<Longrightarrow> y = g x" and "map_res f xs = Inr ys"
  shows "ys = map g xs"
  using assms(2) unfolding map_res_Inr
  by (induction rule: list_all2_induct) (auto dest: assms(1))

section \<open>Actions on the database\<close>

text \<open>
  An action runs from a state and gives a result, or the error thrown, with the state it leaves.
  \<open>andThen\<close> is sequencing of awaited calls: an error stops the run and leaves what was written
  before it. Undoing those writes is the business of the transaction that encloses them.
\<close>

type_synonym ('s, 'a) action = "'s \<Rightarrow> 'a res \<times> 's"

definition ret :: "'a \<Rightarrow> ('s, 'a) action" where
  "ret x = (\<lambda>s. (Inr x, s))"

definition throw :: "js_error \<Rightarrow> ('s, 'a) action" where
  "throw e = (\<lambda>s. (Inl e, s))"

definition andThen :: "('s, 'a) action \<Rightarrow> ('a \<Rightarrow> ('s, 'b) action) \<Rightarrow> ('s, 'b) action" where
  "andThen m f = (\<lambda>s. case m s of (Inl e, t) \<Rightarrow> (Inl e, t) | (Inr x, t) \<Rightarrow> f x t)"

definition lift_res :: "'a res \<Rightarrow> ('s, 'a) action" where
  "lift_res r = (\<lambda>s. (r, s))"

definition reads :: "('s \<Rightarrow> 'a) \<Rightarrow> ('s, 'a) action" where
  "reads f = (\<lambda>s. (Inr (f s), s))"

definition writes :: "('s \<Rightarrow> 's) \<Rightarrow> ('s, unit) action" where
  "writes f = (\<lambda>s. (Inr (), f s))"

definition catch :: "('s, 'a) action \<Rightarrow> (js_error \<Rightarrow> ('s, 'a) action) \<Rightarrow> ('s, 'a) action" where
  "catch m h = (\<lambda>s. case m s of (Inl e, t) \<Rightarrow> h e t | (Inr x, t) \<Rightarrow> (Inr x, t))"

lemma ret_run [simp, unfold_action]: "ret x s = (Inr x, s)"
  by (simp add: ret_def)

lemma throw_run [simp, unfold_action]: "throw e s = (Inl e, s)"
  by (simp add: throw_def)

lemma lift_res_run [simp, unfold_action]: "lift_res r s = (r, s)"
  by (simp add: lift_res_def)

lemma reads_run [simp, unfold_action]: "reads f s = (Inr (f s), s)"
  by (simp add: reads_def)

lemma writes_run [simp, unfold_action]: "writes f s = (Inr (), f s)"
  by (simp add: writes_def)

lemma andThen_run [unfold_action]:
  "andThen m f s = (case m s of (Inl e, t) \<Rightarrow> (Inl e, t) | (Inr x, t) \<Rightarrow> f x t)"
  by (simp add: andThen_def)

lemma andThen_Inr [ok_iff]:
  "andThen m f s = (Inr y, u) \<longleftrightarrow> (\<exists>x t. m s = (Inr x, t) \<and> f x t = (Inr y, u))"
  by (auto simp: andThen_def split: prod.splits sum.splits)

lemma andThen_simps [simp]:
  "m s = (Inl e, t) \<Longrightarrow> andThen m f s = (Inl e, t)"
  "m s = (Inr x, t) \<Longrightarrow> andThen m f s = f x t"
  by (simp_all add: andThen_def)

lemma andThen_basic [simp]:
  "andThen (ret x) f s = f x s"
  "andThen (throw e) f s = (Inl e, s)"
  "andThen (reads g) f s = f (g s) s"
  "andThen (writes h) f s = f () (h s)"
  by simp_all

lemma andThen_assoc: "andThen (andThen m f) g = andThen m (\<lambda>x. andThen (f x) g)"
  by (rule ext) (auto simp: andThen_def split: prod.splits sum.splits)

fun for_each_do :: "('a \<Rightarrow> ('s, unit) action) \<Rightarrow> 'a list \<Rightarrow> ('s, unit) action" where
  "for_each_do f [] = ret ()"
| "for_each_do f (x # xs) = andThen (f x) (\<lambda>_. for_each_do f xs)"

lemma for_each_do_append:
  "for_each_do f (xs @ ys) = andThen (for_each_do f xs) (\<lambda>_. for_each_do f ys)"
proof (induction xs)
  case Nil
  show ?case by (rule ext) simp
next
  case (Cons x xs)
  then show ?case by (simp add: andThen_assoc)
qed

text \<open>
  A property of states that an action keeps, whether it returns or throws. The rule for
  sequencing lets each operation be checked on its own.
\<close>

definition keeps :: "('s \<Rightarrow> bool) \<Rightarrow> ('s, 'a) action \<Rightarrow> bool" where
  "keeps P m \<longleftrightarrow> (\<forall>s. P s \<longrightarrow> P (snd (m s)))"

lemma keepsI: "(\<And>s. P s \<Longrightarrow> P (snd (m s))) \<Longrightarrow> keeps P m"
  by (simp add: keeps_def)

lemma keepsD: "keeps P m \<Longrightarrow> P s \<Longrightarrow> P (snd (m s))"
  by (simp add: keeps_def)

lemma keeps_basic [simp, intro]:
  "keeps P (ret x)" "keeps P (throw e)" "keeps P (reads f)" "keeps P (lift_res r)"
  by (simp_all add: keeps_def)

lemma keeps_andThen [intro]:
  assumes "keeps P m" and "\<And>x. keeps P (f x)"
  shows "keeps P (andThen m f)"
proof (rule keepsI)
  fix s assume "P s"
  then have "P (snd (m s))" using assms(1) by (rule keepsD [rotated])
  then show "P (snd (andThen m f s))"
    using assms(2) by (auto simp: andThen_def keeps_def split: prod.splits sum.splits)
qed

lemma keeps_for_each_do: "(\<And>x. keeps P (f x)) \<Longrightarrow> keeps P (for_each_do f xs)"
  by (induction xs) auto

section \<open>Strings\<close>

definition quoted :: "string \<Rightarrow> string" where
  "quoted s = CHR 0x22 # s @ [CHR 0x22]"

definition single_quoted :: "string \<Rightarrow> string" where
  "single_quoted s = CHR 0x27 # s @ [CHR 0x27]"

definition starts_with :: "string \<Rightarrow> string \<Rightarrow> bool" where
  "starts_with s p \<longleftrightarrow> take (length p) s = p"

text \<open>
  \<open>String.trim\<close> on the characters the model has: the blanks are the tab, the line breaks, the space and
  the no-break space.
\<close>

definition is_blank_char :: "char \<Rightarrow> bool" where
  "is_blank_char c \<longleftrightarrow> (of_char c :: nat) \<in> {9, 10, 11, 12, 13, 32, 160}"

definition js_trim :: "string \<Rightarrow> string" where
  "js_trim s = rev (dropWhile is_blank_char (rev (dropWhile is_blank_char s)))"

text \<open>\<open>split\<close> at a one-character separator: never empty, as in JavaScript.\<close>

fun split_on :: "char \<Rightarrow> string \<Rightarrow> string list" where
  "split_on c [] = [[]]"
| "split_on c (x # xs) =
     (if x = c then [] # split_on c xs
      else (case split_on c xs of [] \<Rightarrow> [[x]] | y # ys \<Rightarrow> (x # y) # ys))"

fun join :: "string \<Rightarrow> string list \<Rightarrow> string" where
  "join sep [] = []"
| "join sep [x] = x"
| "join sep (x # y # ys) = x @ sep @ join sep (y # ys)"

lemma split_on_nonempty [simp]: "split_on c s \<noteq> []"
  by (induction s) (auto split: list.splits)

lemma split_on_join: "join [c] (split_on c s) = s"
proof (induction s)
  case Nil
  then show ?case by simp
next
  case (Cons x xs)
  obtain y ys where s: "split_on c xs = y # ys"
    by (cases "split_on c xs") auto
  with Cons show ?case by (cases ys) auto
qed

lemma split_on_plain: "c \<notin> set s \<Longrightarrow> split_on c s = [s]"
  by (induction s) auto

lemma split_on_append: "c \<notin> set s \<Longrightarrow> split_on c (s @ c # t) = s # split_on c t"
  by (induction s) auto

lemma join_split_on:
  "xs \<noteq> [] \<Longrightarrow> (\<And>x. x \<in> set xs \<Longrightarrow> c \<notin> set x) \<Longrightarrow> split_on c (join [c] xs) = xs"
proof (induction xs rule: list_nonempty_induct)
  case (single x)
  then show ?case by (simp add: split_on_plain)
next
  case (cons x xs)
  then obtain y ys where xs: "xs = y # ys" by (cases xs) auto
  with cons show ?case by (simp add: split_on_append)
qed

lemma split_on_no_sep: "x \<in> set (split_on c s) \<Longrightarrow> c \<notin> set x"
  by (induction s arbitrary: x) (auto split: if_splits list.splits)

text \<open>A natural number in a message.\<close>

fun show_nat :: "nat \<Rightarrow> string" where
  "show_nat n = (if n < 10 then [char_of (48 + n)] else show_nat (n div 10) @ [char_of (48 + n mod 10)])"

declare show_nat.simps [simp del]

section \<open>Lookups\<close>

text \<open>\<open>Array.prototype.find\<close> is \<open>List.find\<close>; these are the facts the proofs use.\<close>

lemma find_SomeD: "find P xs = Some x \<Longrightarrow> x \<in> set xs \<and> P x"
  by (auto simp: find_Some_iff)

lemma find_unique:
  assumes "x \<in> set xs" and "P x" and "\<And>y. y \<in> set xs \<Longrightarrow> P y \<Longrightarrow> y = x"
  shows "find P xs = Some x"
proof -
  have "find P xs \<noteq> None" using assms by (auto simp: find_None_iff)
  then obtain y where "find P xs = Some y" by auto
  then show ?thesis using assms(3) find_SomeD by fastforce
qed

lemma list_all2_in_left: "list_all2 P xs ys \<Longrightarrow> x \<in> set xs \<Longrightarrow> \<exists>y\<in>set ys. P x y"
  by (induction rule: list_all2_induct) auto

lemma list_all2_in_right: "list_all2 P xs ys \<Longrightarrow> y \<in> set ys \<Longrightarrow> \<exists>x\<in>set xs. P x y"
  by (induction rule: list_all2_induct) auto

lemma find_code_distinct:
  assumes "distinct (map f xs)" and "x \<in> set xs"
  shows "find (\<lambda>y. f y = f x) xs = Some x"
  using assms by (intro find_unique) (auto simp: distinct_map inj_on_def)

text \<open>The index of the first match: reference equality of an array's elements is equality of indices.\<close>

fun find_index :: "('a \<Rightarrow> bool) \<Rightarrow> 'a list \<Rightarrow> nat option" where
  "find_index P [] = None"
| "find_index P (x # xs) = (if P x then Some 0 else map_option Suc (find_index P xs))"

lemma find_index_SomeD:
  "find_index P xs = Some i \<Longrightarrow> i < length xs \<and> P (xs ! i) \<and> (\<forall>j<i. \<not> P (xs ! j))"
proof (induction xs arbitrary: i)
  case Nil
  then show ?case by simp
next
  case (Cons x xs)
  show ?case
  proof (cases "P x")
    case True
    with Cons.prems show ?thesis by simp
  next
    case False
    with Cons.prems obtain k where "find_index P xs = Some k" and "i = Suc k" by auto
    with Cons.IH [of k] False show ?thesis by (auto simp: nth_Cons split: nat.splits)
  qed
qed

lemma find_index_None: "find_index P xs = None \<longleftrightarrow> (\<forall>x\<in>set xs. \<not> P x)"
  by (induction xs) auto

lemma find_find_index: "find P xs = map_option (\<lambda>i. xs ! i) (find_index P xs)"
  by (induction xs) (auto simp: option.map_comp comp_def)

section \<open>Duplicates\<close>

text \<open>The first element of a list seen before it, as a loop over a growing \<open>Set\<close> finds it.\<close>

fun first_repeat :: "'a list \<Rightarrow> 'a list \<Rightarrow> 'a option" where
  "first_repeat seen [] = None"
| "first_repeat seen (x # xs) = (if x \<in> set seen then Some x else first_repeat (x # seen) xs)"

lemma first_repeat_None:
  "first_repeat seen xs = None \<longleftrightarrow> distinct xs \<and> set xs \<inter> set seen = {}"
  by (induction xs arbitrary: seen) auto

lemma first_repeat_Some: "first_repeat seen xs = Some x \<Longrightarrow> x \<in> set xs"
  by (induction xs arbitrary: seen) (auto split: if_splits)

section \<open>Association lists with unique keys\<close>

text \<open>
  A plain object used as a dictionary keeps its keys in order of insertion; writing an existing
  key keeps its place.
\<close>

fun obj_put :: "'k \<Rightarrow> 'v \<Rightarrow> ('k \<times> 'v) list \<Rightarrow> ('k \<times> 'v) list" where
  "obj_put k v [] = [(k, v)]"
| "obj_put k v ((k', v') # ps) = (if k' = k then (k, v) # ps else (k', v') # obj_put k v ps)"

lemma obj_put_lookup [simp]: "map_of (obj_put k v ps) = (map_of ps)(k \<mapsto> v)"
  by (induction ps) (auto simp: fun_upd_twist)

lemma obj_put_keys_old: "k \<in> fst ` set ps \<Longrightarrow> map fst (obj_put k v ps) = map fst ps"
  by (induction ps) force+

lemma obj_put_keys_new: "k \<notin> fst ` set ps \<Longrightarrow> obj_put k v ps = ps @ [(k, v)]"
  by (induction ps) auto

lemma obj_put_distinct: "distinct (map fst ps) \<Longrightarrow> distinct (map fst (obj_put k v ps))"
  by (cases "k \<in> fst ` set ps") (auto simp: obj_put_keys_old obj_put_keys_new)

lemma set_obj_put: "set (obj_put k v ps) \<subseteq> insert (k, v) (set ps)"
  by (induction k v ps rule: obj_put.induct) auto

lemma keys_obj_put [simp]: "fst ` set (obj_put k v ps) = insert k (fst ` set ps)"
  by (induction k v ps rule: obj_put.induct) auto

text \<open>Spreading one object over another: the later entries win, key by key.\<close>

definition obj_spread :: "('k \<times> 'v) list \<Rightarrow> ('k \<times> 'v) list \<Rightarrow> ('k \<times> 'v) list" where
  "obj_spread ps qs = foldl (\<lambda>acc (k, v). obj_put k v acc) ps qs"

lemma obj_spread_lookup: "map_of (obj_spread ps qs) k =
    (case map_of (rev qs) k of None \<Rightarrow> map_of ps k | Some v \<Rightarrow> Some v)"
  unfolding obj_spread_def
  by (induction qs arbitrary: ps) (auto simp: map_add_def split: option.splits)

section \<open>Updates of a collection\<close>

text \<open>
  \<open>updateMany\<close> and \<open>updateOne\<close> with the number of documents matched, and the first document by a
  sort key among those that match; ties keep the natural order.
\<close>

definition update_many :: "('r \<Rightarrow> bool) \<Rightarrow> ('r \<Rightarrow> 'r) \<Rightarrow> 'r list \<Rightarrow> 'r list" where
  "update_many p f rows = map (\<lambda>r. if p r then f r else r) rows"

fun update_one :: "('r \<Rightarrow> bool) \<Rightarrow> ('r \<Rightarrow> 'r) \<Rightarrow> 'r list \<Rightarrow> 'r list" where
  "update_one p f [] = []"
| "update_one p f (r # rows) = (if p r then f r # rows else r # update_one p f rows)"

definition matched_count :: "('r \<Rightarrow> bool) \<Rightarrow> 'r list \<Rightarrow> nat" where
  "matched_count p rows = (if \<exists>r\<in>set rows. p r then 1 else 0)"

fun first_by :: "('r \<Rightarrow> int) \<Rightarrow> 'r list \<Rightarrow> 'r option" where
  "first_by key [] = None"
| "first_by key (r # rows) =
     (case first_by key rows of None \<Rightarrow> Some r
      | Some s \<Rightarrow> if key s < key r then Some s else Some r)"

definition find_first :: "('r \<Rightarrow> int) \<Rightarrow> ('r \<Rightarrow> bool) \<Rightarrow> 'r list \<Rightarrow> 'r option" where
  "find_first key p rows = first_by key (filter p rows)"

lemma first_by_None [simp]: "first_by key rows = None \<longleftrightarrow> rows = []"
  by (cases rows) (auto split: option.splits)

lemma first_by_Some: "first_by key rows = Some r \<Longrightarrow> r \<in> set rows \<and> (\<forall>s\<in>set rows. key r \<le> key s)"
  by (induction rows arbitrary: r) (auto split: option.splits if_splits)

lemma find_first_None: "find_first key p rows = None \<longleftrightarrow> (\<forall>r\<in>set rows. \<not> p r)"
  by (auto simp: find_first_def filter_empty_conv)

lemma find_first_Some:
  "find_first key p rows = Some r \<Longrightarrow> r \<in> set rows \<and> p r \<and> (\<forall>s\<in>set rows. p s \<longrightarrow> key r \<le> key s)"
  by (auto simp: find_first_def dest!: first_by_Some)

lemma set_update_many: "set (update_many p f rows) = f ` {r \<in> set rows. p r} \<union> {r \<in> set rows. \<not> p r}"
  by (auto simp: update_many_def)

lemma map_update_many: "(\<And>r. g (f r) = g r) \<Longrightarrow> map g (update_many p f rows) = map g rows"
  by (auto simp: update_many_def)

lemma map_update_one: "(\<And>r. g (f r) = g r) \<Longrightarrow> map g (update_one p f rows) = map g rows"
  by (induction rows) auto

lemma update_one_split:
  "\<forall>y\<in>set xs. \<not> p y \<Longrightarrow> p x \<Longrightarrow> update_one p f (xs @ x # ys) = xs @ f x # ys"
  by (induction xs) simp_all

lemma set_update_one:
  "r' \<in> set (update_one p f rows) \<Longrightarrow> r' \<in> set rows \<or> (\<exists>r\<in>set rows. p r \<and> r' = f r)"
  by (induction rows) (auto split: if_splits)

lemma matched_count_pos: "0 < matched_count p rows \<longleftrightarrow> (\<exists>r\<in>set rows. p r)"
  by (simp add: matched_count_def)

lemma update_one_none: "(\<And>r. r \<in> set rows \<Longrightarrow> \<not> p r) \<Longrightarrow> update_one p f rows = rows"
  by (induction rows) auto

lemma update_one_kept: "r \<in> set rows \<Longrightarrow> \<not> p r \<Longrightarrow> r \<in> set (update_one p f rows)"
  by (induction rows) auto

text \<open>With a unique key, an update by that key is an update of one row.\<close>

lemma update_one_unique:
  assumes "distinct (map g rows)" and "\<And>r. p r \<Longrightarrow> g r = k"
  shows "update_one p f rows = update_many p f rows"
  using assms
proof (induction rows)
  case Nil
  show ?case by (simp add: update_many_def)
next
  case (Cons r rows)
  show ?case
  proof (cases "p r")
    case True
    have "\<not> p s" if "s \<in> set rows" for s
    proof
      assume "p s"
      then have "g s = g r" using Cons.prems(2) True by simp
      with Cons.prems(1) that show False by (auto simp: image_iff)
    qed
    then show ?thesis using True by (auto simp: update_many_def intro!: map_idI [symmetric])
  next
    case False
    then show ?thesis using Cons by (simp add: update_many_def)
  qed
qed

section \<open>JavaScript values\<close>

text \<open>
  A number is what its text says: \<open>Finite m d e\<close> is a coefficient with the digits of \<open>m\<close>, \<open>d\<close> of
  them behind the point, and the exponent \<open>e\<close> (zero when the text has none). An infinity or a
  NaN is \<open>NotFinite\<close>.
\<close>

datatype js_number = Finite int nat int | NotFinite

fun number_value :: "js_number \<Rightarrow> rat" where
  "number_value (Finite m d e) = of_int m * (10 powi (e - int d))"
| "number_value NotFinite = 0"

datatype json = JNull | JBool bool | JNum js_number | JStr string
  | JArr "json list" | JObj "(string \<times> json) list"

fun json_truthy :: "json option \<Rightarrow> bool" where
  "json_truthy None = False"
| "json_truthy (Some JNull) = False"
| "json_truthy (Some (JBool b)) = b"
| "json_truthy (Some (JStr s)) = (s \<noteq> [])"
| "json_truthy (Some (JNum (Finite m d e))) = (m \<noteq> 0)"
| "json_truthy (Some (JNum NotFinite)) = True"
| "json_truthy (Some (JArr _)) = True"
| "json_truthy (Some (JObj _)) = True"

fun js_truthy_string :: "string option \<Rightarrow> bool" where
  "js_truthy_string None = False"
| "js_truthy_string (Some s) = (s \<noteq> [])"

fun js_string_literal :: "json \<Rightarrow> bool" where
  "js_string_literal (JStr s) = True"
| "js_string_literal (JNum _) = True"
| "js_string_literal (JBool _) = True"
| "js_string_literal _ = False"

end
