(* ===== verification/Queue.thy ===== *)
theory Queue
  imports Prelude
begin

text \<open>
  What the inbox and the outbox share (\<open>src/events\<close>: last-error, retryable, event-retention,
  event-redrive, event-purge, event-edit, plain-json): a stored row, why an attempt failed, how
  long a row is kept, and the updates an operator makes to a row. An instant is a number of
  milliseconds; an absent time or an unset field is \<open>None\<close>. A collection is the list of its
  documents, in natural order.
\<close>

section \<open>Configuration\<close>

text \<open>
  The settings, and what the rows take from elsewhere: the stack text the engine gives an error,
  the key \<open>toErrorKey\<close> derives with its regular expressions, and \<open>Date.parse\<close> (also \<open>getTime\<close> of
  a stored date), which gives no instant for a value it cannot read.
\<close>

record queue_config =
  qcMaxRetries :: nat
  qcClaimMaxRecords :: nat
  qcExpiresMs :: int
  qcRetentionDays :: int
  qcFifoTtlMs :: int
  qcStackOf :: "js_error \<Rightarrow> string"
  qcErrorKey :: "string \<Rightarrow> string \<Rightarrow> string"
  qcParseDate :: "json \<Rightarrow> int option"

section \<open>Why an attempt failed\<close>

record last_error =
  leName :: string
  leMessage :: string
  leAt :: int
  leStack :: "string option"

record attempt =
  atAt :: int
  atName :: string
  atMessage :: string
  atStack :: "string option"

definition max_message_length :: nat where "max_message_length = 1024"
definition max_stack_length :: nat where "max_stack_length = 8192"
definition max_attempt_stack_length :: nat where "max_attempt_stack_length = 4096"
definition max_attempt_message_length :: nat where "max_attempt_message_length = 512"
definition max_attempt_history :: nat where "max_attempt_history = 10"

text \<open>The \<open>name\<close> an error carries; the services' own classes do not set one.\<close>

fun name_of :: "js_error \<Rightarrow> string" where
  "name_of TypeError = ''TypeError''"
| "name_of (DuplicateKey _) = ''MongoServerError''"
| "name_of (S3FetchError _ _ _) = ''S3FetchError''"
| "name_of (UnresolvedReference _) = ''UnresolvedReferenceError''"
| "name_of (NamedError name _) = name"
| "name_of (PermanentFailure e) = name_of e"
| "name_of _ = ''Error''"

definition message_of :: "js_error \<Rightarrow> nat \<Rightarrow> string" where
  "message_of error maxLength = take maxLength (error_message error)"

definition stack_of :: "queue_config \<Rightarrow> js_error \<Rightarrow> nat \<Rightarrow> string option" where
  "stack_of cfg error maxLength =
     (case take maxLength (qcStackOf cfg error) of [] \<Rightarrow> None | s \<Rightarrow> Some s)"

definition to_last_error :: "queue_config \<Rightarrow> int \<Rightarrow> js_error \<Rightarrow> last_error" where
  "to_last_error cfg now error =
     \<lparr>leName = name_of error, leMessage = message_of error max_message_length, leAt = now,
      leStack = stack_of cfg error max_stack_length\<rparr>"

definition error_key :: "queue_config \<Rightarrow> last_error option \<Rightarrow> string option" where
  "error_key cfg e = map_option (\<lambda>x. qcErrorKey cfg (leName x) (leMessage x)) e"

definition claim_expired_error :: "int \<Rightarrow> last_error" where
  "claim_expired_error now =
     \<lparr>leName = ''ClaimExpired'', leMessage = ''claim expired before completion'', leAt = now,
      leStack = None\<rparr>"

definition to_attempt_entry :: "queue_config \<Rightarrow> int \<Rightarrow> js_error \<Rightarrow> attempt" where
  "to_attempt_entry cfg now error =
     \<lparr>atAt = now, atName = name_of error, atMessage = message_of error max_attempt_message_length,
      atStack = stack_of cfg error max_attempt_stack_length\<rparr>"

definition claim_expired_attempt :: "int \<Rightarrow> attempt" where
  "claim_expired_attempt now =
     \<lparr>atAt = now, atName = ''ClaimExpired'', atMessage = ''claim expired before completion'',
      atStack = None\<rparr>"

text \<open>\<open>slice(-n)\<close>: the last \<open>n\<close> entries.\<close>

definition slice_last :: "nat \<Rightarrow> 'a list \<Rightarrow> 'a list" where
  "slice_last n xs = drop (length xs - n) xs"

lemma length_slice_last [simp]: "length (slice_last n xs) = min n (length xs)"
  by (simp add: slice_last_def)

lemma slice_last_all: "length xs \<le> n \<Longrightarrow> slice_last n xs = xs"
  by (simp add: slice_last_def)

lemma slice_last_snoc: "0 < n \<Longrightarrow> xs \<noteq> [] \<Longrightarrow> last (slice_last n xs) = last xs"
  by (cases "length xs \<le> n") (auto simp: slice_last_def)

definition normalise_attempt_history :: "attempt list option \<Rightarrow> attempt list" where
  "normalise_attempt_history history =
     slice_last max_attempt_history (case history of None \<Rightarrow> [] | Some xs \<Rightarrow> xs)"

definition append_attempt :: "attempt list \<Rightarrow> attempt option \<Rightarrow> attempt list" where
  "append_attempt history entry =
     (case entry of None \<Rightarrow> normalise_attempt_history (Some history)
      | Some e \<Rightarrow> normalise_attempt_history (Some (history @ [e])))"

text \<open>The same append as the server applies it: \<open>$push\<close> with \<open>$each\<close> and \<open>$slice\<close>.\<close>

definition push_attempt :: "attempt \<Rightarrow> attempt list \<Rightarrow> attempt list" where
  "push_attempt entry history = slice_last max_attempt_history (history @ [entry])"

lemma push_attempt_append: "push_attempt entry history = append_attempt history (Some entry)"
  by (simp add: push_attempt_def append_attempt_def normalise_attempt_history_def)

lemma attempt_history_bounds [simp]:
  "length (normalise_attempt_history h) \<le> max_attempt_history"
  "length (append_attempt hs e) \<le> max_attempt_history"
  "length (push_attempt a hs) \<le> max_attempt_history"
  by (simp_all add: normalise_attempt_history_def append_attempt_def push_attempt_def
      split: option.splits)

lemma normalise_id: "length h \<le> max_attempt_history \<Longrightarrow> normalise_attempt_history (Some h) = h"
  by (simp add: normalise_attempt_history_def slice_last_all)

text \<open>A failure marked permanent is the one that is not retried.\<close>

fun is_retryable_failure :: "js_error \<Rightarrow> bool" where
  "is_retryable_failure (PermanentFailure _) = False"
| "is_retryable_failure _ = True"

definition retryable_of :: "js_error option \<Rightarrow> bool" where
  "retryable_of error = (case error of None \<Rightarrow> True | Some e \<Rightarrow> is_retryable_failure e)"

definition mark_permanent_failure :: "js_error \<Rightarrow> js_error" where
  "mark_permanent_failure e = PermanentFailure e"

section \<open>Retention\<close>

definition ms_per_day :: int where "ms_per_day = 86400000"

definition expiry_from :: "int \<Rightarrow> int \<Rightarrow> int" where
  "expiry_from date days = date + days * ms_per_day"

section \<open>Rows\<close>

datatype event_status = PROCESSING | PUBLISHED | FAILED | COMPLETED | RESUBMITTED | DEAD_LETTER | PURGED

record redrive_record =
  rdAt :: int
  rdBy :: "string option"

record purge_record =
  pgAt :: int
  pgBy :: "string option"
  pgReasonCode :: string
  pgNote :: "string option"

record edit_record =
  edAt :: int
  edBy :: "string option"
  edNote :: string

record queue_row =
  qId :: "nat option"
  qPublicationDate :: int
  qEvent :: json
  qLastResubmissionDate :: "int option"
  qLastError :: "last_error option"
  qErrorKey :: "string option"
  qAttemptHistory :: "attempt list"
  qCompletionAttempts :: nat
  qStatus :: event_status
  qCompletionDate :: "int option"
  qExpireAt :: "int option"
  qLastRedrive :: "redrive_record option"
  qClaimedBy :: "string option"
  qClaimedAt :: "int option"
  qClaimExpiresAt :: "int option"
  qSegregationRef :: string
  qEventType :: "string option"
  qRefs :: "string list"
  qPayloadRevision :: "nat option"
  qLastEdit :: "edit_record option"
  qOriginalPayload :: "json option"
  qLastPurge :: "purge_record option"

abbreviation not_claimed :: "'a queue_row_scheme \<Rightarrow> 'a queue_row_scheme" where
  "not_claimed r \<equiv> r\<lparr>qClaimedBy := None, qClaimedAt := None, qClaimExpiresAt := None\<rparr>"

section \<open>Claims and sweeps\<close>

text \<open>
  The queries the inbox and outbox repositories share. A claim takes the earliest free row of
  one segregation reference, up to a number of rows; \<open>key\<close> is the column the box sorts by. A
  missing segregation reference is the empty string.
\<close>

definition free_row :: "queue_config \<Rightarrow> 'a queue_row_scheme \<Rightarrow> bool" where
  "free_row cfg r \<longleftrightarrow>
     qStatus r = PUBLISHED \<and> qClaimedBy r = None \<and> qCompletionAttempts r < qcMaxRetries cfg"

definition find_next_message ::
  "('a queue_row_scheme \<Rightarrow> int) \<Rightarrow> queue_config \<Rightarrow> string list \<Rightarrow> 'a queue_row_scheme list
     \<Rightarrow> 'a queue_row_scheme option" where
  "find_next_message key cfg lockIds rows =
     find_first key (\<lambda>r. free_row cfg r \<and> qSegregationRef r \<notin> set lockIds) rows"

definition claimed_row :: "queue_config \<Rightarrow> int \<Rightarrow> string \<Rightarrow> 'a queue_row_scheme \<Rightarrow> 'a queue_row_scheme" where
  "claimed_row cfg now claimedBy r =
     r\<lparr>qStatus := PROCESSING, qClaimedBy := Some claimedBy, qClaimedAt := Some now,
       qClaimExpiresAt := Some (now + qcExpiresMs cfg)\<rparr>"

definition claim_one ::
  "('a queue_row_scheme \<Rightarrow> int) \<Rightarrow> queue_config \<Rightarrow> int \<Rightarrow> string \<Rightarrow> string
     \<Rightarrow> 'a queue_row_scheme list \<Rightarrow> 'a queue_row_scheme option \<times> 'a queue_row_scheme list" where
  "claim_one key cfg now claimedBy ref rows =
     (case find_first key (\<lambda>r. free_row cfg r \<and> qSegregationRef r = ref) rows of
        None \<Rightarrow> (None, rows)
      | Some r \<Rightarrow> (Some (claimed_row cfg now claimedBy r),
                   update_one (\<lambda>s. s = r) (claimed_row cfg now claimedBy) rows))"

fun claim_rows ::
  "('a queue_row_scheme \<Rightarrow> int) \<Rightarrow> queue_config \<Rightarrow> int \<Rightarrow> string \<Rightarrow> string \<Rightarrow> nat
     \<Rightarrow> 'a queue_row_scheme list \<Rightarrow> 'a queue_row_scheme list \<times> 'a queue_row_scheme list" where
  "claim_rows key cfg now claimedBy ref 0 rows = ([], rows)"
| "claim_rows key cfg now claimedBy ref (Suc n) rows =
     (let (doc, rows1) = claim_one key cfg now claimedBy ref rows;
          (docs, rows2) = claim_rows key cfg now claimedBy ref n rows1 in
      (case doc of None \<Rightarrow> docs | Some d \<Rightarrow> d # docs, rows2))"

definition dead_letter_event ::
  "nat option \<Rightarrow> 'a queue_row_scheme list \<Rightarrow> 'a queue_row_scheme list" where
  "dead_letter_event rowId rows =
     update_one (\<lambda>r. qId r = rowId) (\<lambda>r. (not_claimed r)\<lparr>qStatus := DEAD_LETTER\<rparr>) rows"

definition final_statuses :: "event_status list" where
  "final_statuses = [DEAD_LETTER, COMPLETED, PURGED]"

definition claim_expired :: "int \<Rightarrow> 'a queue_row_scheme \<Rightarrow> bool" where
  "claim_expired now r \<longleftrightarrow>
     (case qClaimExpiresAt r of None \<Rightarrow> False | Some t \<Rightarrow> t < now) \<and> qStatus r \<notin> set final_statuses"

definition expired_row :: "queue_config \<Rightarrow> int \<Rightarrow> 'a queue_row_scheme \<Rightarrow> 'a queue_row_scheme" where
  "expired_row cfg now r =
     (not_claimed r)\<lparr>qStatus := FAILED, qLastError := Some (claim_expired_error now),
       qErrorKey := error_key cfg (Some (claim_expired_error now)),
       qAttemptHistory := push_attempt (claim_expired_attempt now) (qAttemptHistory r),
       qCompletionAttempts := qCompletionAttempts r + 1\<rparr>"

definition process_expired_events ::
  "queue_config \<Rightarrow> int \<Rightarrow> 'a queue_row_scheme list \<Rightarrow> 'a queue_row_scheme list" where
  "process_expired_events cfg now rows = update_many (claim_expired now) (expired_row cfg now) rows"

definition attempts_used_up :: "queue_config \<Rightarrow> 'a queue_row_scheme \<Rightarrow> bool" where
  "attempts_used_up cfg r \<longleftrightarrow>
     qCompletionAttempts r \<ge> qcMaxRetries cfg \<and> qStatus r \<notin> set final_statuses"

definition update_dead_events ::
  "queue_config \<Rightarrow> 'a queue_row_scheme list \<Rightarrow> 'a queue_row_scheme list" where
  "update_dead_events cfg rows =
     update_many (attempts_used_up cfg) (\<lambda>r. (not_claimed r)\<lparr>qStatus := DEAD_LETTER\<rparr>) rows"

definition update_failed_events :: "'a queue_row_scheme list \<Rightarrow> 'a queue_row_scheme list" where
  "update_failed_events rows =
     update_many (\<lambda>r. qStatus r = FAILED) (\<lambda>r. (not_claimed r)\<lparr>qStatus := RESUBMITTED\<rparr>) rows"

definition update_resubmitted_events :: "'a queue_row_scheme list \<Rightarrow> 'a queue_row_scheme list" where
  "update_resubmitted_events rows =
     update_many (\<lambda>r. qStatus r = RESUBMITTED) (\<lambda>r. (not_claimed r)\<lparr>qStatus := PUBLISHED\<rparr>) rows"

section \<open>Redrive, purge and edit\<close>

definition redrivable_statuses :: "event_status list" where
  "redrivable_statuses = [DEAD_LETTER, PURGED]"

text \<open>\<open>$inc\<close> of a field that is missing counts from zero.\<close>

definition inc_revision :: "nat option \<Rightarrow> nat option" where
  "inc_revision r = Some (case r of None \<Rightarrow> 1 | Some n \<Rightarrow> n + 1)"

definition redrive_update ::
  "string option \<Rightarrow> int \<Rightarrow> 'a queue_row_scheme \<Rightarrow> 'a queue_row_scheme" where
  "redrive_update by when r =
     r\<lparr>qStatus := RESUBMITTED, qCompletionAttempts := 0, qAttemptHistory := [],
       qLastRedrive := Some \<lparr>rdAt = when, rdBy = by\<rparr>, qExpireAt := None,
       qClaimedBy := None, qClaimedAt := None, qClaimExpiresAt := None,
       qPayloadRevision := inc_revision (qPayloadRevision r)\<rparr>"

definition purge_update ::
  "string option \<Rightarrow> string \<Rightarrow> string option \<Rightarrow> int \<Rightarrow> int \<Rightarrow> 'a queue_row_scheme \<Rightarrow> 'a queue_row_scheme" where
  "purge_update by reasonCode note retentionDays when r =
     r\<lparr>qStatus := PURGED,
       qLastPurge := Some \<lparr>pgAt = when, pgBy = by, pgReasonCode = reasonCode, pgNote = note\<rparr>,
       qExpireAt := Some (expiry_from when retentionDays),
       qPayloadRevision := inc_revision (qPayloadRevision r)\<rparr>"

definition payload_revision_of :: "'a queue_row_scheme \<Rightarrow> nat" where
  "payload_revision_of r = (case qPayloadRevision r of None \<Rightarrow> 0 | Some n \<Rightarrow> n)"

definition revision_filter :: "nat \<Rightarrow> nat option \<Rightarrow> bool" where
  "revision_filter revision stored \<longleftrightarrow>
     (if revision = 0 then stored = None \<or> stored = Some 0 else stored = Some revision)"

lemma revision_filter_iff: "revision_filter revision (qPayloadRevision r) \<longleftrightarrow> payload_revision_of r = revision"
  by (auto simp: revision_filter_def payload_revision_of_def split: option.splits)

text \<open>
  \<open>original\<close> is given by the first edit alone. The columns an inbox row derives from its event
  are set by the argument \<open>columns\<close>, which is the identity for the outbox.
\<close>

definition edit_update ::
  "json \<Rightarrow> string option \<Rightarrow> string \<Rightarrow> nat \<Rightarrow> json option
     \<Rightarrow> ('a queue_row_scheme \<Rightarrow> 'a queue_row_scheme) \<Rightarrow> int
     \<Rightarrow> 'a queue_row_scheme \<Rightarrow> 'a queue_row_scheme" where
  "edit_update event by note revision original columns when r =
     columns (r\<lparr>qEvent := event, qPayloadRevision := Some (revision + 1),
       qLastEdit := Some \<lparr>edAt = when, edBy = by, edNote = note\<rparr>,
       qOriginalPayload := (case original of None \<Rightarrow> qOriginalPayload r | Some p \<Rightarrow> Some p)\<rparr>)"

definition status_text :: "event_status \<Rightarrow> string" where
  "status_text s = (case s of PROCESSING \<Rightarrow> ''PROCESSING'' | PUBLISHED \<Rightarrow> ''PUBLISHED''
     | FAILED \<Rightarrow> ''FAILED'' | COMPLETED \<Rightarrow> ''COMPLETED'' | RESUBMITTED \<Rightarrow> ''RESUBMITTED''
     | DEAD_LETTER \<Rightarrow> ''DEAD_LETTER'' | PURGED \<Rightarrow> ''PURGED'')"

definition status_label_of :: "event_status \<Rightarrow> string" where
  "status_label_of s = (case s of PROCESSING \<Rightarrow> ''Processing'' | PUBLISHED \<Rightarrow> ''Queued''
     | FAILED \<Rightarrow> ''Failed'' | COMPLETED \<Rightarrow> ''Completed'' | RESUBMITTED \<Rightarrow> ''Resubmitted''
     | DEAD_LETTER \<Rightarrow> ''Dead letter'' | PURGED \<Rightarrow> ''Purged'')"

definition conflict_payload :: "event_status \<Rightarrow> (string \<times> string) list" where
  "conflict_payload s = [(''status'', status_text s), (''statusLabel'', status_label_of s)]"

definition redrivable_description :: string where
  "redrivable_description = ''redrivable (DEAD_LETTER or PURGED)''"

definition editable_description :: string where
  "editable_description = ''editable (DEAD_LETTER or PURGED)''"

definition redrive_conflict :: "string \<Rightarrow> string \<Rightarrow> event_status \<Rightarrow> js_error" where
  "redrive_conflict box rowId s =
     Boom Conflict (box @ '' event '' @ quoted rowId @ '' is '' @ status_text s @ '', not ''
       @ redrivable_description) (conflict_payload s)"

definition purge_conflict :: "string \<Rightarrow> string \<Rightarrow> event_status \<Rightarrow> js_error" where
  "purge_conflict box rowId s =
     Boom Conflict (box @ '' event '' @ quoted rowId @ '' is '' @ status_text s @ '', not DEAD_LETTER'')
       (conflict_payload s)"

definition edit_conflict :: "string \<Rightarrow> string \<Rightarrow> event_status \<Rightarrow> js_error" where
  "edit_conflict box rowId s =
     Boom Conflict (box @ '' event '' @ quoted rowId @ '' is '' @ status_text s @ '', not ''
       @ editable_description) (conflict_payload s)"

definition stale_edit :: "string \<Rightarrow> string \<Rightarrow> js_error" where
  "stale_edit box rowId =
     Boom PreconditionFailed (box @ '' event '' @ quoted rowId @ '' was edited since the revision given'') []"

definition edit_refusal :: "string \<Rightarrow> js_error" where
  "edit_refusal reason = Boom BadData (''Payload refused: '' @ reason) [(''reason'', reason)]"

text \<open>Mongo refuses to store a key starting with a dollar at any depth.\<close>

fun has_dollar_key :: "json \<Rightarrow> bool" where
  "has_dollar_key (JArr xs) = list_ex has_dollar_key xs"
| "has_dollar_key (JObj ps) =
     list_ex (\<lambda>(key, child). starts_with key ''$'' \<or> has_dollar_key child) ps"
| "has_dollar_key _ = False"

definition payload_max_bytes :: nat where "payload_max_bytes = 256 * 1024"

definition is_object :: "json \<Rightarrow> bool" where
  "is_object v = (case v of JObj _ \<Rightarrow> True | _ \<Rightarrow> False)"

text \<open>The size of the pretty-printed text is given: \<open>prettyBytes\<close>.\<close>

definition assert_storable :: "(json \<Rightarrow> nat) \<Rightarrow> json \<Rightarrow> unit res" where
  "assert_storable prettyBytes payload =
     (if \<not> is_object payload then Inl (edit_refusal ''NOT_AN_OBJECT'')
      else if prettyBytes payload > payload_max_bytes then Inl (edit_refusal ''TOO_LARGE'')
      else if has_dollar_key payload then Inl (edit_refusal ''DOLLAR_KEY'')
      else Inr ())"

definition edit_failure_reason :: "js_error \<Rightarrow> string option" where
  "edit_failure_reason e =
     (case e of
        Boom NotFound _ _ \<Rightarrow> Some ''NOT_FOUND''
      | Boom Conflict _ _ \<Rightarrow> Some ''NOT_EDITABLE''
      | Boom PreconditionFailed _ _ \<Rightarrow> Some ''STALE''
      | Boom BadData _ payload \<Rightarrow> map_of payload ''reason''
      | _ \<Rightarrow> None)"

text \<open>Every refusal of an edit is recorded with a reason of its own.\<close>

lemma edit_failure_reasons:
  "edit_failure_reason (edit_refusal reason) = Some reason"
  "edit_failure_reason (stale_edit box rowId) = Some ''STALE''"
  "edit_failure_reason (edit_conflict box rowId s) = Some ''NOT_EDITABLE''"
  by (simp_all add: edit_failure_reason_def edit_refusal_def stale_edit_def edit_conflict_def)

end
