(* ===== verification/PayloadChanges.thy ===== *)
theory PayloadChanges
  imports Queue
begin

text \<open>
  Where two payloads differ (\<open>src/events/payload-changes.js\<close>): the paths, never the values, of what
  an edit touched, one past the cap being enough to know the list was cut. A stored payload is
  JSON here, so the code's kind \<open>other\<close>, a BSON value, does not occur; an object has each key once.
\<close>

section \<open>Paths\<close>

definition changed_paths_max :: nat where "changed_paths_max = 50"

fun escape_segment :: "string \<Rightarrow> string" where
  "escape_segment [] = []"
| "escape_segment (c # cs) =
     (if c = CHR 0x7E then ''~0'' else if c = CHR ''/'' then ''~1'' else [c]) @ escape_segment cs"

definition pointer :: "string list \<Rightarrow> string" where
  "pointer segments = concat (map (\<lambda>s. CHR ''/'' # escape_segment s) segments)"

datatype json_kind = NullKind | BooleanKind | NumberKind | StringKind | ArrayKind | ObjectKind

fun json_kind_of :: "json \<Rightarrow> json_kind" where
  "json_kind_of JNull = NullKind"
| "json_kind_of (JBool _) = BooleanKind"
| "json_kind_of (JNum _) = NumberKind"
| "json_kind_of (JStr _) = StringKind"
| "json_kind_of (JArr _) = ArrayKind"
| "json_kind_of (JObj _) = ObjectKind"

fun same_number :: "js_number \<Rightarrow> js_number \<Rightarrow> bool" where
  "same_number NotFinite NotFinite = True"
| "same_number (Finite m d e) (Finite m' d' e') = (number_value (Finite m d e) = number_value (Finite m' d' e'))"
| "same_number _ _ = False"

fun same_leaf :: "json \<Rightarrow> json \<Rightarrow> bool" where
  "same_leaf JNull JNull = True"
| "same_leaf (JBool a) (JBool b) = (a = b)"
| "same_leaf (JNum a) (JNum b) = same_number a b"
| "same_leaf (JStr a) (JStr b) = (a = b)"
| "same_leaf _ _ = False"

definition path_full :: "string list \<Rightarrow> bool" where
  "path_full found \<longleftrightarrow> length found > changed_paths_max"

lemma same_leaf_kind: "same_leaf a b \<Longrightarrow> json_kind_of a = json_kind_of b"
  by (induction a b rule: same_leaf.induct) simp_all

section \<open>The walk\<close>

text \<open>
  Values of different kinds differ at their own path; \<open>same_leaf\<close> is false of them too.
  \<open>childKeys\<close> of two arrays are the indices of the longer one; of two objects the first one's keys
  and then the second's that are new.
\<close>

fun push_all :: "string list \<Rightarrow> string list list \<Rightarrow> string list" where
  "push_all found [] = found"
| "push_all found (path # paths) =
     (if path_full found then found else push_all (found @ [pointer path]) paths)"

function (sequential) walk :: "json \<Rightarrow> json \<Rightarrow> string list \<Rightarrow> string list \<Rightarrow> string list"
  and walk_array :: "json list \<Rightarrow> json list \<Rightarrow> nat \<Rightarrow> string list \<Rightarrow> string list \<Rightarrow> string list"
  and walk_object :: "(string \<times> json) list \<Rightarrow> (string \<times> json) list \<Rightarrow> string list \<Rightarrow> string list \<Rightarrow> string list"
where
  "walk (JArr xs) after segments found =
     (case after of JArr ys \<Rightarrow> walk_array xs ys 0 segments found
      | _ \<Rightarrow> found @ [pointer segments])"
| "walk (JObj ps) after segments found =
     (case after of
        JObj qs \<Rightarrow> push_all (walk_object ps qs segments found)
          (map (\<lambda>k. segments @ [k]) (filter (\<lambda>k. k \<notin> fst ` set ps) (map fst qs)))
      | _ \<Rightarrow> found @ [pointer segments])"
| "walk JNull after segments found =
     (if same_leaf JNull after then found else found @ [pointer segments])"
| "walk (JBool v) after segments found =
     (if same_leaf (JBool v) after then found else found @ [pointer segments])"
| "walk (JNum v) after segments found =
     (if same_leaf (JNum v) after then found else found @ [pointer segments])"
| "walk (JStr v) after segments found =
     (if same_leaf (JStr v) after then found else found @ [pointer segments])"
| "walk_array [] ys i segments found =
     push_all found (map (\<lambda>j. segments @ [show_nat j]) [i..<i + length ys])"
| "walk_array (x # xs) ys i segments found =
     (if path_full found then found
      else (case ys of
        [] \<Rightarrow> walk_array xs [] (i + 1) segments (found @ [pointer (segments @ [show_nat i])])
      | y # ys' \<Rightarrow> walk_array xs ys' (i + 1) segments (walk x y (segments @ [show_nat i]) found)))"
| "walk_object [] qs segments found = found"
| "walk_object ((k, v) # ps) qs segments found =
     (if path_full found then found
      else (case map_of qs k of
        None \<Rightarrow> walk_object ps qs segments (found @ [pointer (segments @ [k])])
      | Some w \<Rightarrow> walk_object ps qs segments (walk v w (segments @ [k]) found)))"
  by pat_completeness auto
termination
  by (relation "measure (\<lambda>x. case x of
      Inl (before, _) \<Rightarrow> size before
    | Inr (Inl (xs, _)) \<Rightarrow> size_list size xs
    | Inr (Inr (ps, _)) \<Rightarrow> size_list (size_prod (\<lambda>_. 0) size) ps)") auto

definition payload_changes :: "json \<Rightarrow> json \<Rightarrow> string list \<times> bool" where
  "payload_changes before after =
     (let found = walk before after [] [] in
      (take changed_paths_max found, length found > changed_paths_max))"

section \<open>What the walk finds\<close>

text \<open>
  Two payloads are the same when they have the same shape, the same keys in any order and the same
  leaves, numbers by value.
\<close>

fun same_json :: "json \<Rightarrow> json \<Rightarrow> bool"
  and same_array :: "json list \<Rightarrow> json list \<Rightarrow> bool"
  and same_entries :: "(string \<times> json) list \<Rightarrow> (string \<times> json) list \<Rightarrow> bool"
where
  "same_json (JArr xs) after = (case after of JArr ys \<Rightarrow> same_array xs ys | _ \<Rightarrow> False)"
| "same_json (JObj ps) after =
     (case after of JObj qs \<Rightarrow> same_entries ps qs \<and> fst ` set qs \<subseteq> fst ` set ps | _ \<Rightarrow> False)"
| "same_json JNull after = same_leaf JNull after"
| "same_json (JBool v) after = same_leaf (JBool v) after"
| "same_json (JNum v) after = same_leaf (JNum v) after"
| "same_json (JStr v) after = same_leaf (JStr v) after"
| "same_array [] ys = (ys = [])"
| "same_array (x # xs) ys = (case ys of [] \<Rightarrow> False | y # ys' \<Rightarrow> same_json x y \<and> same_array xs ys')"
| "same_entries [] qs = True"
| "same_entries ((k, v) # ps) qs =
     ((case map_of qs k of None \<Rightarrow> False | Some w \<Rightarrow> same_json v w) \<and> same_entries ps qs)"

lemma push_all_length: "length found \<le> length (push_all found paths)"
  by (induction found paths rule: push_all.induct) auto

lemma walk_length:
  "length found \<le> length (walk before after segments found)"
  "length found \<le> length (walk_array xs ys i segments found)"
  "length found \<le> length (walk_object ps qs segments found)"
proof (induction before after segments found and xs ys i segments found and ps qs segments found
    rule: walk_walk_array_walk_object.induct)
  case (1 xs after segments found)
  then show ?case by (cases after) auto
next
  case (2 ps after segments found)
  then show ?case by (cases after) (auto intro: le_trans [OF _ push_all_length])
next
  case (8 x xs ys i segments found)
  then show ?case by (cases ys) (auto intro: le_trans)
next
  case (10 k v ps qs segments found)
  then show ?case by (cases "map_of qs k") (auto intro: le_trans)
qed (auto simp: push_all_length)

lemma push_all_same:
  assumes "\<not> path_full found"
  shows "length (push_all found paths) = length found \<longleftrightarrow> paths = []"
proof (cases paths)
  case Nil
  then show ?thesis by simp
next
  case (Cons p ps)
  have "length (found @ [pointer p]) \<le> length (push_all (found @ [pointer p]) ps)"
    by (rule push_all_length)
  then show ?thesis using assms Cons by simp
qed

lemma filter_none: "filter (\<lambda>k. k \<notin> A) ks = [] \<longleftrightarrow> set ks \<subseteq> A"
  by (auto simp: filter_empty_conv)

text \<open>
  Below the cap, the walk adds nothing exactly when the payloads are the same. Lengths are
  enough: the walk only appends.
\<close>

lemma walk_same:
  "\<not> path_full found \<Longrightarrow> length (walk before after segments found) = length found \<longleftrightarrow> same_json before after"
  "\<not> path_full found \<Longrightarrow> length (walk_array xs ys i segments found) = length found \<longleftrightarrow> same_array xs ys"
  "\<not> path_full found \<Longrightarrow> length (walk_object ps qs segments found) = length found \<longleftrightarrow> same_entries ps qs"
proof (induction before after segments found and xs ys i segments found and ps qs segments found
    rule: walk_walk_array_walk_object.induct)
  case (1 xs after segments found)
  then show ?case by (cases after) auto
next
  case (2 ps after segments found)
  show ?case
  proof (cases after)
    case (JObj qs)
    let ?new = "map (\<lambda>k. segments @ [k]) (filter (\<lambda>k. k \<notin> fst ` set ps) (map fst qs))"
    let ?w = "walk_object ps qs segments found"
    have ih: "length ?w = length found \<longleftrightarrow> same_entries ps qs" using 2 JObj by simp
    have le: "length found \<le> length ?w" "length ?w \<le> length (push_all ?w ?new)"
      by (rule walk_length push_all_length)+
    have "length (push_all ?w ?new) = length found \<longleftrightarrow> length ?w = length found \<and> ?new = []"
    proof (cases "length ?w = length found")
      case True
      then have "\<not> path_full ?w" using "2.prems" by (simp add: path_full_def)
      then show ?thesis using push_all_same [of ?w ?new] True by simp
    next
      case False
      then show ?thesis using le by linarith
    qed
    moreover have "?new = [] \<longleftrightarrow> fst ` set qs \<subseteq> fst ` set ps"
      using filter_none [of "fst ` set ps" "map fst qs"] by simp
    ultimately show ?thesis using ih JObj by simp
  qed auto
next
  case (7 ys i segments found)
  then show ?case by (auto simp: push_all_same)
next
  case (8 x xs ys i segments found)
  show ?case
  proof (cases ys)
    case Nil
    have "length (found @ [pointer (segments @ [show_nat i])])
        \<le> length (walk_array xs [] (i + 1) segments (found @ [pointer (segments @ [show_nat i])]))"
      by (rule walk_length)
    then show ?thesis using Nil 8 by simp
  next
    case (Cons y ys')
    let ?w = "walk x y (segments @ [show_nat i]) found"
    have ih: "length ?w = length found \<longleftrightarrow> same_json x y" using 8 Cons by simp
    have le: "length found \<le> length ?w" "length ?w \<le> length (walk_array xs ys' (i + 1) segments ?w)"
      by (rule walk_length)+
    show ?thesis
    proof (cases "length ?w = length found")
      case True
      then have "\<not> path_full ?w" using "8.prems" by (simp add: path_full_def)
      then show ?thesis using 8 Cons ih True by simp
    next
      case False
      then show ?thesis using le ih Cons 8 by simp
    qed
  qed
next
  case (10 k v ps qs segments found)
  show ?case
  proof (cases "map_of qs k")
    case None
    have "length (found @ [pointer (segments @ [k])])
        \<le> length (walk_object ps qs segments (found @ [pointer (segments @ [k])]))"
      by (rule walk_length)
    then show ?thesis using None 10 by simp
  next
    case (Some w)
    let ?w = "walk v w (segments @ [k]) found"
    have ih: "length ?w = length found \<longleftrightarrow> same_json v w" using 10 Some by simp
    have le: "length found \<le> length ?w" "length ?w \<le> length (walk_object ps qs segments ?w)"
      by (rule walk_length)+
    show ?thesis
    proof (cases "length ?w = length found")
      case True
      then have "\<not> path_full ?w" using "10.prems" by (simp add: path_full_def)
      then show ?thesis using 10 Some ih True by simp
    next
      case False
      then show ?thesis using le ih Some 10 by simp
    qed
  qed
qed simp_all

lemma payload_changes_none: "fst (payload_changes before after) = [] \<longleftrightarrow> same_json before after"
proof -
  have "\<not> path_full []" by (simp add: path_full_def)
  from walk_same(1) [OF this, of before after "[]"]
  have "walk before after [] [] = [] \<longleftrightarrow> same_json before after" by simp
  then show ?thesis by (simp add: payload_changes_def Let_def changed_paths_max_def)
qed

lemma payload_changes_bound: "length (fst (payload_changes before after)) \<le> changed_paths_max"
  by (simp add: payload_changes_def Let_def)

end
