(* ===== verification/Inbox.thy ===== *)
theory Inbox
  imports Queue
begin

text \<open>
  The inbox: messages received from other services (\<open>src/events/models/inbox.js\<close>,
  \<open>src/events/repositories/inbox.repository.js\<close> and
  \<open>src/events/use-cases/save-inbox-message.use-case.js\<close>). An object of the class \<open>Inbox\<close> is an
  \<open>inbox_row\<close> in which the fields the class does not hold (the error key, the payload revision
  and the records of an edit or a purge) are unset.
\<close>

section \<open>The model\<close>

record inbox_row = queue_row +
  ibTraceparent :: "string option"
  ibSource :: string
  ibType :: "string option"
  ibMessageId :: "string option"
  ibRetryable :: bool
  ibEventTime :: int

record inbox_props =
  ipId :: "nat option"
  ipPublicationDate :: "int option"
  ipTraceparent :: "string option"
  ipSource :: string
  ipType :: "string option"
  ipEvent :: json
  ipMessageId :: "string option"
  ipLastResubmissionDate :: "int option"
  ipLastError :: "last_error option"
  ipAttemptHistory :: "attempt list option"
  ipCompletionAttempts :: "nat option"
  ipStatus :: "event_status option"
  ipRetryable :: "bool option"
  ipCompletionDate :: "int option"
  ipExpireAt :: "int option"
  ipLastRedrive :: "redrive_record option"
  ipSegregationRef :: string
  ipEventType :: "string option"
  ipRefs :: "string list option"

definition field_of :: "string \<Rightarrow> json \<Rightarrow> json option" where
  "field_of k v = (case v of JObj ps \<Rightarrow> map_of ps k | _ \<Rightarrow> None)"

definition to_epoch_ms :: "queue_config \<Rightarrow> json option \<Rightarrow> int option" where
  "to_epoch_ms cfg time =
     (case time of None \<Rightarrow> None | Some JNull \<Rightarrow> None | Some v \<Rightarrow> qcParseDate cfg v)"

text \<open>An ObjectId's first four bytes are the second it was made.\<close>

definition inserted_at :: "int \<Rightarrow> nat option \<Rightarrow> int" where
  "inserted_at now rowId =
     (case rowId of None \<Rightarrow> now | Some n \<Rightarrow> int (n div 2 ^ 64) * 1000)"

definition to_sortable_instant :: "int option \<Rightarrow> int \<Rightarrow> int" where
  "to_sortable_instant parsed fallback = (case parsed of None \<Rightarrow> fallback | Some t \<Rightarrow> t)"

definition inbox_schema :: "inbox_props \<Rightarrow> bool" where
  "inbox_schema p \<longleftrightarrow> ipSource p \<noteq> [] \<and> is_object (ipEvent p) \<and> ipSegregationRef p \<noteq> []"

definition new_inbox :: "queue_config \<Rightarrow> string \<Rightarrow> int \<Rightarrow> inbox_props \<Rightarrow> inbox_row res" where
  "new_inbox cfg joiMessage now p =
     (if \<not> inbox_schema p then Inl (Boom BadRequest (''Invalid Inbox: '' @ joiMessage) [])
      else Inr \<lparr>
        qId = ipId p,
        qPublicationDate = to_sortable_instant (ipPublicationDate p) (inserted_at now (ipId p)),
        qEvent = ipEvent p,
        qLastResubmissionDate = ipLastResubmissionDate p,
        qLastError = ipLastError p,
        qErrorKey = None,
        qAttemptHistory = normalise_attempt_history (ipAttemptHistory p),
        qCompletionAttempts = (case ipCompletionAttempts p of None \<Rightarrow> 0 | Some n \<Rightarrow> n),
        qStatus = (case ipStatus p of None \<Rightarrow> PUBLISHED | Some s \<Rightarrow> s),
        qCompletionDate = ipCompletionDate p,
        qExpireAt = ipExpireAt p,
        qLastRedrive = ipLastRedrive p,
        qClaimedBy = None, qClaimedAt = None, qClaimExpiresAt = None,
        qSegregationRef = ipSegregationRef p,
        qEventType = ipEventType p,
        qRefs = (case ipRefs p of None \<Rightarrow> [] | Some rs \<Rightarrow> rs),
        qPayloadRevision = None, qLastEdit = None, qOriginalPayload = None, qLastPurge = None,
        ibTraceparent = ipTraceparent p,
        ibSource = ipSource p,
        ibType = ipType p,
        ibMessageId = ipMessageId p,
        ibRetryable = (case ipRetryable p of None \<Rightarrow> True | Some b \<Rightarrow> b),
        ibEventTime = to_sortable_instant (to_epoch_ms cfg (field_of ''time'' (ipEvent p))) now\<rparr>)"

definition inbox_event_columns :: "queue_config \<Rightarrow> int \<Rightarrow> json \<Rightarrow> inbox_row \<Rightarrow> inbox_row" where
  "inbox_event_columns cfg now event r =
     r\<lparr>ibType := (case field_of ''type'' event of Some (JStr s) \<Rightarrow> Some s | _ \<Rightarrow> None),
       ibEventTime := to_sortable_instant (to_epoch_ms cfg (field_of ''time'' event)) now\<rparr>"

definition inbox_mark_as_complete :: "queue_config \<Rightarrow> int \<Rightarrow> inbox_row \<Rightarrow> inbox_row" where
  "inbox_mark_as_complete cfg now r =
     (not_claimed r)\<lparr>qStatus := COMPLETED, qCompletionDate := Some now,
       qExpireAt := Some (expiry_from now (qcRetentionDays cfg))\<rparr>"

definition inbox_mark_as_failed ::
  "queue_config \<Rightarrow> int \<Rightarrow> js_error option \<Rightarrow> inbox_row \<Rightarrow> inbox_row" where
  "inbox_mark_as_failed cfg now error r =
     (not_claimed r)\<lparr>ibRetryable := retryable_of error,
       qStatus := (if retryable_of error then FAILED else DEAD_LETTER),
       qExpireAt := None,
       qLastResubmissionDate := Some now,
       qLastError := (case error of None \<Rightarrow> qLastError r | Some e \<Rightarrow> Some (to_last_error cfg now e)),
       qAttemptHistory := append_attempt (qAttemptHistory r) (map_option (to_attempt_entry cfg now) error),
       qCompletionAttempts := qCompletionAttempts r + 1\<rparr>"

definition inbox_to_document :: "queue_config \<Rightarrow> inbox_row \<Rightarrow> inbox_row" where
  "inbox_to_document cfg r = r\<lparr>qErrorKey := error_key cfg (qLastError r)\<rparr>"

definition inbox_from_document :: "queue_config \<Rightarrow> string \<Rightarrow> int \<Rightarrow> inbox_row \<Rightarrow> inbox_row res" where
  "inbox_from_document cfg joiMessage now doc =
     new_inbox cfg joiMessage now \<lparr>
       ipId = qId doc, ipPublicationDate = Some (qPublicationDate doc),
       ipTraceparent = ibTraceparent doc, ipSource = ibSource doc, ipType = ibType doc,
       ipEvent = qEvent doc, ipMessageId = ibMessageId doc,
       ipLastResubmissionDate = qLastResubmissionDate doc, ipLastError = qLastError doc,
       ipAttemptHistory = Some (qAttemptHistory doc),
       ipCompletionAttempts = Some (qCompletionAttempts doc), ipStatus = Some (qStatus doc),
       ipRetryable = Some (ibRetryable doc), ipCompletionDate = qCompletionDate doc,
       ipExpireAt = qExpireAt doc, ipLastRedrive = qLastRedrive doc,
       ipSegregationRef = qSegregationRef doc, ipEventType = qEventType doc,
       ipRefs = Some (qRefs doc)\<rparr>"

section \<open>The repository\<close>

definition inbox_claim_events ::
  "queue_config \<Rightarrow> string \<Rightarrow> int \<Rightarrow> string \<Rightarrow> string \<Rightarrow> inbox_row list \<Rightarrow> inbox_row list res \<times> inbox_row list" where
  "inbox_claim_events cfg joiMessage now claimedBy ref rows =
     (let (docs, rows1) = claim_rows ibEventTime cfg now claimedBy ref (qcClaimMaxRecords cfg) rows in
      (map_res (inbox_from_document cfg joiMessage now) docs, rows1))"

text \<open>
  The write of a claimed row: every field of the document but the id and the stamps, and only
  while the claim is still the writer's.
\<close>

definition inbox_set_document :: "inbox_row \<Rightarrow> inbox_row \<Rightarrow> inbox_row" where
  "inbox_set_document doc stored =
     doc\<lparr>qId := qId stored, qEventType := qEventType stored, qRefs := qRefs stored,
         qPayloadRevision := qPayloadRevision stored, qLastEdit := qLastEdit stored,
         qOriginalPayload := qOriginalPayload stored, qLastPurge := qLastPurge stored\<rparr>"

definition inbox_update ::
  "queue_config \<Rightarrow> inbox_row \<Rightarrow> string \<Rightarrow> inbox_row list \<Rightarrow> nat \<times> inbox_row list" where
  "inbox_update cfg r claimedBy rows =
     (let mine = (\<lambda>s. qId s = qId r \<and> qClaimedBy s = Some claimedBy) in
      (matched_count mine rows,
       update_one mine (inbox_set_document (inbox_to_document cfg r)) rows))"

definition inbox_insert_one :: "queue_config \<Rightarrow> nat \<Rightarrow> inbox_row \<Rightarrow> inbox_row list \<Rightarrow> inbox_row list" where
  "inbox_insert_one cfg newId r rows = rows @ [(inbox_to_document cfg r)\<lparr>qId := Some newId\<rparr>]"

definition inbox_find_by_message_id :: "string option \<Rightarrow> inbox_row list \<Rightarrow> inbox_row option" where
  "inbox_find_by_message_id messageId rows = find (\<lambda>r. ibMessageId r = messageId) rows"

definition inbox_find_status_by_id :: "nat \<Rightarrow> inbox_row list \<Rightarrow> event_status option" where
  "inbox_find_status_by_id rowId rows = map_option qStatus (find (\<lambda>r. qId r = Some rowId) rows)"

definition inbox_redrive_by_id ::
  "nat \<Rightarrow> string option \<Rightarrow> int \<Rightarrow> inbox_row list \<Rightarrow> bool \<times> inbox_row list" where
  "inbox_redrive_by_id rowId by now rows =
     (let p = (\<lambda>r. qId r = Some rowId \<and> qStatus r \<in> set redrivable_statuses) in
      (matched_count p rows > 0,
       update_one p (\<lambda>r. (redrive_update by now r)\<lparr>ibRetryable := True\<rparr>) rows))"

definition inbox_purge_by_id ::
  "queue_config \<Rightarrow> nat \<Rightarrow> string option \<Rightarrow> string \<Rightarrow> string option \<Rightarrow> int \<Rightarrow> inbox_row list
     \<Rightarrow> bool \<times> inbox_row list" where
  "inbox_purge_by_id cfg rowId by reasonCode note now rows =
     (let p = (\<lambda>r. qId r = Some rowId \<and> qStatus r = DEAD_LETTER) in
      (matched_count p rows > 0,
       update_one p (purge_update by reasonCode note (qcRetentionDays cfg) now) rows))"

definition inbox_find_editable_by_id :: "nat \<Rightarrow> inbox_row list \<Rightarrow> inbox_row option" where
  "inbox_find_editable_by_id rowId rows = find (\<lambda>r. qId r = Some rowId) rows"

definition inbox_edit_payload_by_id ::
  "queue_config \<Rightarrow> nat \<Rightarrow> nat \<Rightarrow> json \<Rightarrow> json option \<Rightarrow> string option \<Rightarrow> string \<Rightarrow> int \<Rightarrow> inbox_row list
     \<Rightarrow> bool \<times> inbox_row list" where
  "inbox_edit_payload_by_id cfg rowId revision event original by note now rows =
     (let p = (\<lambda>r. qId r = Some rowId \<and> qStatus r \<in> set redrivable_statuses
                 \<and> revision_filter revision (qPayloadRevision r)) in
      (matched_count p rows > 0,
       update_one p (edit_update event by note revision original (inbox_event_columns cfg now event) now) rows))"

section \<open>Receiving a message\<close>

text \<open>
  \<open>getMessageGroupId\<close>, shared by every queue: the references in a message's data are strings,
  and one that is missing or empty is falsy.
\<close>

definition truthy_text :: "json \<Rightarrow> string \<Rightarrow> string option" where
  "truthy_text data k =
     (case field_of k data of Some (JStr s) \<Rightarrow> if s = [] then None else Some s | _ \<Rightarrow> None)"

definition get_message_group_id :: "string option \<Rightarrow> json \<Rightarrow> string option" where
  "get_message_group_id rowId data =
     (case rowId of
        Some (c # cs) \<Rightarrow> Some (c # cs)
      | _ \<Rightarrow>
        (case (truthy_text data ''clientRef'', truthy_text data ''grantCode'') of
           (Some c, Some g) \<Rightarrow> Some (c @ ''-'' @ g)
         | _ \<Rightarrow> (case (truthy_text data ''clientRef'', truthy_text data ''code'') of
             (Some c, Some g) \<Rightarrow> Some (c @ ''-'' @ g)
           | _ \<Rightarrow> (case truthy_text data ''caseRef'' of
               Some c \<Rightarrow> Some (c @ ''-'' @ (case field_of ''workflowCode'' data of
                                          Some (JStr w) \<Rightarrow> w | _ \<Rightarrow> ''undefined''))
             | None \<Rightarrow> (case truthy_text data ''grantCode'' of
                 Some g \<Rightarrow> Some g | None \<Rightarrow> rowId)))))"

record inbound_message =
  imId :: "string option"
  imType :: "string option"
  imTraceparent :: "string option"
  imEvent :: json

definition inbox_segregation_ref :: "json \<Rightarrow> string option res" where
  "inbox_segregation_ref event =
     (case field_of ''data'' event of
        None \<Rightarrow> Inl TypeError
      | Some JNull \<Rightarrow> Inl TypeError
      | Some data \<Rightarrow> Inr (get_message_group_id None data))"

text \<open>
  \<open>stamps\<close> is \<open>inboxStamps\<close>: the event's declared type and its references. The message is found
  again by its id; nothing is stored for one already there.
\<close>

definition save_inbox_message ::
  "queue_config \<Rightarrow> string \<Rightarrow> (json \<Rightarrow> string option \<Rightarrow> string \<times> string list) \<Rightarrow> int \<Rightarrow> nat
     \<Rightarrow> inbound_message \<Rightarrow> string \<Rightarrow> string option \<Rightarrow> (inbox_row list, unit) action" where
  "save_inbox_message cfg joiMessage stamps now newId message source segregationRef =
     andThen (reads (inbox_find_by_message_id (imId message))) (\<lambda>existing.
     if existing \<noteq> None then ret ()
     else andThen (lift_res (case segregationRef of Some r \<Rightarrow> Inr (Some r)
                             | None \<Rightarrow> inbox_segregation_ref (imEvent message))) (\<lambda>orderingKey.
     andThen (lift_res (new_inbox cfg joiMessage now \<lparr>
       ipId = None, ipPublicationDate = None, ipTraceparent = imTraceparent message,
       ipSource = source, ipType = imType message, ipEvent = imEvent message,
       ipMessageId = imId message, ipLastResubmissionDate = None, ipLastError = None,
       ipAttemptHistory = None, ipCompletionAttempts = None, ipStatus = None, ipRetryable = None,
       ipCompletionDate = None, ipExpireAt = None, ipLastRedrive = None,
       ipSegregationRef = (case orderingKey of None \<Rightarrow> [] | Some k \<Rightarrow> k),
       ipEventType = Some (fst (stamps (imEvent message) orderingKey)),
       ipRefs = Some (snd (stamps (imEvent message) orderingKey))\<rparr>)) (\<lambda>inbox.
     writes (inbox_insert_one cfg newId inbox))))"

end
