(* ===== verification/Outbox.thy ===== *)
theory Outbox
  imports Inbox
begin

text \<open>
  The outbox: events waiting to be published (\<open>src/events/models/outbox.js\<close> and
  \<open>src/events/repositories/outbox.repository.js\<close>). It differs from the inbox in what a row
  carries, in its sort key and in having no failure that is not retried.
\<close>

section \<open>The model\<close>

record outbox_row = queue_row +
  obTarget :: string

record outbox_props =
  opId :: "nat option"
  opPublicationDate :: "int option"
  opTarget :: string
  opEvent :: json
  opLastResubmissionDate :: "int option"
  opLastError :: "last_error option"
  opAttemptHistory :: "attempt list option"
  opCompletionAttempts :: "nat option"
  opStatus :: "event_status option"
  opCompletionDate :: "int option"
  opExpireAt :: "int option"
  opLastRedrive :: "redrive_record option"
  opSegregationRef :: string
  opEventType :: "string option"
  opRefs :: "string list option"

definition outbox_schema :: "outbox_props \<Rightarrow> bool" where
  "outbox_schema p \<longleftrightarrow> opTarget p \<noteq> [] \<and> is_object (opEvent p) \<and> opSegregationRef p \<noteq> []"

definition new_outbox :: "string \<Rightarrow> int \<Rightarrow> outbox_props \<Rightarrow> outbox_row res" where
  "new_outbox joiMessage now p =
     (if \<not> outbox_schema p then Inl (Boom BadRequest (''Invalid Outbox: '' @ joiMessage) [])
      else Inr \<lparr>
        qId = opId p,
        qPublicationDate = (case opPublicationDate p of None \<Rightarrow> now | Some t \<Rightarrow> t),
        qEvent = opEvent p,
        qLastResubmissionDate = opLastResubmissionDate p,
        qLastError = opLastError p,
        qErrorKey = None,
        qAttemptHistory = normalise_attempt_history (opAttemptHistory p),
        qCompletionAttempts = (case opCompletionAttempts p of None \<Rightarrow> 0 | Some n \<Rightarrow> n),
        qStatus = (case opStatus p of None \<Rightarrow> PUBLISHED | Some s \<Rightarrow> s),
        qCompletionDate = opCompletionDate p,
        qExpireAt = opExpireAt p,
        qLastRedrive = opLastRedrive p,
        qClaimedBy = None, qClaimedAt = None, qClaimExpiresAt = None,
        qSegregationRef = opSegregationRef p,
        qEventType = opEventType p,
        qRefs = (case opRefs p of None \<Rightarrow> [] | Some rs \<Rightarrow> rs),
        qPayloadRevision = None, qLastEdit = None, qOriginalPayload = None, qLastPurge = None,
        obTarget = opTarget p\<rparr>)"

definition outbox_mark_as_complete :: "queue_config \<Rightarrow> int \<Rightarrow> outbox_row \<Rightarrow> outbox_row" where
  "outbox_mark_as_complete cfg now r =
     (not_claimed r)\<lparr>qStatus := COMPLETED, qCompletionDate := Some now,
       qExpireAt := Some (expiry_from now (qcRetentionDays cfg))\<rparr>"

definition outbox_mark_as_failed ::
  "queue_config \<Rightarrow> int \<Rightarrow> js_error option \<Rightarrow> outbox_row \<Rightarrow> outbox_row" where
  "outbox_mark_as_failed cfg now error r =
     (not_claimed r)\<lparr>qStatus := FAILED,
       qExpireAt := None,
       qLastResubmissionDate := Some now,
       qLastError := (case error of None \<Rightarrow> qLastError r | Some e \<Rightarrow> Some (to_last_error cfg now e)),
       qAttemptHistory := append_attempt (qAttemptHistory r) (map_option (to_attempt_entry cfg now) error),
       qCompletionAttempts := qCompletionAttempts r + 1\<rparr>"

definition outbox_to_document :: "queue_config \<Rightarrow> outbox_row \<Rightarrow> outbox_row" where
  "outbox_to_document cfg r = r\<lparr>qErrorKey := error_key cfg (qLastError r)\<rparr>"

definition outbox_from_document :: "string \<Rightarrow> int \<Rightarrow> outbox_row \<Rightarrow> outbox_row res" where
  "outbox_from_document joiMessage now doc =
     new_outbox joiMessage now \<lparr>
       opId = qId doc, opPublicationDate = Some (qPublicationDate doc), opTarget = obTarget doc,
       opEvent = qEvent doc, opLastResubmissionDate = qLastResubmissionDate doc,
       opLastError = qLastError doc, opAttemptHistory = Some (qAttemptHistory doc),
       opCompletionAttempts = Some (qCompletionAttempts doc), opStatus = Some (qStatus doc),
       opCompletionDate = qCompletionDate doc, opExpireAt = qExpireAt doc,
       opLastRedrive = qLastRedrive doc, opSegregationRef = qSegregationRef doc,
       opEventType = qEventType doc, opRefs = Some (qRefs doc)\<rparr>"

definition outbox_segregation_ref :: "json \<Rightarrow> string option res" where
  "outbox_segregation_ref event =
     bind_res (inbox_segregation_ref event) (\<lambda>groupId.
       Inr (case groupId of Some g \<Rightarrow> Some g
            | None \<Rightarrow> (case field_of ''messageGroupId'' event of Some (JStr s) \<Rightarrow> Some s | _ \<Rightarrow> None)))"

section \<open>The repository\<close>

definition outbox_claim_events ::
  "queue_config \<Rightarrow> string \<Rightarrow> int \<Rightarrow> string \<Rightarrow> string \<Rightarrow> outbox_row list \<Rightarrow> outbox_row list res \<times> outbox_row list" where
  "outbox_claim_events cfg joiMessage now claimedBy ref rows =
     (let (docs, rows1) = claim_rows qPublicationDate cfg now claimedBy ref (qcClaimMaxRecords cfg) rows in
      (map_res (outbox_from_document joiMessage now) docs, rows1))"

definition outbox_set_document :: "outbox_row \<Rightarrow> outbox_row \<Rightarrow> outbox_row" where
  "outbox_set_document doc stored =
     doc\<lparr>qId := qId stored, qEventType := qEventType stored, qRefs := qRefs stored,
         qPayloadRevision := qPayloadRevision stored, qLastEdit := qLastEdit stored,
         qOriginalPayload := qOriginalPayload stored, qLastPurge := qLastPurge stored\<rparr>"

definition outbox_update ::
  "queue_config \<Rightarrow> outbox_row \<Rightarrow> string \<Rightarrow> outbox_row list \<Rightarrow> nat \<times> outbox_row list" where
  "outbox_update cfg r claimedBy rows =
     (let mine = (\<lambda>s. qId s = qId r \<and> qClaimedBy s = Some claimedBy) in
      (matched_count mine rows,
       update_one mine (outbox_set_document (outbox_to_document cfg r)) rows))"

definition outbox_insert_many ::
  "queue_config \<Rightarrow> nat list \<Rightarrow> outbox_row list \<Rightarrow> outbox_row list \<Rightarrow> outbox_row list" where
  "outbox_insert_many cfg newIds events rows =
     rows @ map (\<lambda>(newId, r). (outbox_to_document cfg r)\<lparr>qId := Some newId\<rparr>) (zip newIds events)"

definition outbox_find_status_by_id :: "nat \<Rightarrow> outbox_row list \<Rightarrow> event_status option" where
  "outbox_find_status_by_id rowId rows = map_option qStatus (find (\<lambda>r. qId r = Some rowId) rows)"

text \<open>An outbox row stores no class of failure; the redrive's \<open>retryable\<close> is a field it never reads.\<close>

definition outbox_redrive_by_id ::
  "nat \<Rightarrow> string option \<Rightarrow> int \<Rightarrow> outbox_row list \<Rightarrow> bool \<times> outbox_row list" where
  "outbox_redrive_by_id rowId by now rows =
     (let p = (\<lambda>r. qId r = Some rowId \<and> qStatus r \<in> set redrivable_statuses) in
      (matched_count p rows > 0, update_one p (redrive_update by now) rows))"

definition outbox_purge_by_id ::
  "queue_config \<Rightarrow> nat \<Rightarrow> string option \<Rightarrow> string \<Rightarrow> string option \<Rightarrow> int \<Rightarrow> outbox_row list
     \<Rightarrow> bool \<times> outbox_row list" where
  "outbox_purge_by_id cfg rowId by reasonCode note now rows =
     (let p = (\<lambda>r. qId r = Some rowId \<and> qStatus r = DEAD_LETTER) in
      (matched_count p rows > 0,
       update_one p (purge_update by reasonCode note (qcRetentionDays cfg) now) rows))"

definition outbox_find_editable_by_id :: "nat \<Rightarrow> outbox_row list \<Rightarrow> outbox_row option" where
  "outbox_find_editable_by_id rowId rows = find (\<lambda>r. qId r = Some rowId) rows"

definition outbox_edit_payload_by_id ::
  "nat \<Rightarrow> nat \<Rightarrow> json \<Rightarrow> json option \<Rightarrow> string option \<Rightarrow> string \<Rightarrow> int \<Rightarrow> outbox_row list
     \<Rightarrow> bool \<times> outbox_row list" where
  "outbox_edit_payload_by_id rowId revision event original by note now rows =
     (let p = (\<lambda>r. qId r = Some rowId \<and> qStatus r \<in> set redrivable_statuses
                 \<and> revision_filter revision (qPayloadRevision r)) in
      (matched_count p rows > 0,
       update_one p (edit_update event by note revision original (\<lambda>r. r) now) rows))"

section \<open>Publishing events\<close>

definition segregation_of_publication :: "string option \<Rightarrow> json \<Rightarrow> string option res" where
  "segregation_of_publication given event =
     (case given of Some r \<Rightarrow> Inr (Some r) | None \<Rightarrow> outbox_segregation_ref event)"

record publication =
  pbEvent :: json
  pbTarget :: string
  pbSegregationRef :: "string option"
  pbRefs :: "(string \<times> string) list"

text \<open>
  \<open>saveEvents\<close>: each publication becomes a row stamped with its declared type (\<open>stamps\<close>, which
  throws for a type nobody declared), and all rows go in one insert.
\<close>

definition to_outbox ::
  "string \<Rightarrow> (json \<Rightarrow> string option \<Rightarrow> (string \<times> string) list \<Rightarrow> (string \<times> string list) res) \<Rightarrow> int \<Rightarrow> publication \<Rightarrow> outbox_row res" where
  "to_outbox joiMessage stamps now p =
     bind_res (segregation_of_publication (pbSegregationRef p) (pbEvent p)) (\<lambda>orderingKey.
     bind_res (stamps (pbEvent p) orderingKey (pbRefs p)) (\<lambda>(eventType, refs).
     new_outbox joiMessage now \<lparr>
       opId = None, opPublicationDate = None, opTarget = pbTarget p, opEvent = pbEvent p,
       opLastResubmissionDate = None, opLastError = None, opAttemptHistory = None,
       opCompletionAttempts = None, opStatus = None, opCompletionDate = None, opExpireAt = None,
       opLastRedrive = None,
       opSegregationRef = (case orderingKey of None \<Rightarrow> [] | Some k \<Rightarrow> k),
       opEventType = Some eventType, opRefs = Some refs\<rparr>))"

definition save_events ::
  "queue_config \<Rightarrow> string \<Rightarrow> (json \<Rightarrow> string option \<Rightarrow> (string \<times> string) list \<Rightarrow> (string \<times> string list) res) \<Rightarrow> int \<Rightarrow> nat list
     \<Rightarrow> publication list \<Rightarrow> (outbox_row list, unit) action" where
  "save_events cfg joiMessage stamps now newIds publications =
     andThen (lift_res (map_res (to_outbox joiMessage stamps now) publications)) (\<lambda>entries.
     if entries = [] then ret () else writes (outbox_insert_many cfg newIds entries))"

end
