(* ===== verification/FifoLock.thy ===== *)
theory FifoLock
  imports Queue
begin

text \<open>
  The locks that keep one worker per segregation reference (\<open>src/events/models/fifo-lock.js\<close> and
  \<open>src/events/repositories/fifo-lock.repository.js\<close>). The collection has a unique index on the
  segregation reference and the actor, so an upsert that meets a held lock fails with a duplicate
  key instead of matching nothing. \<open>lock_store\<close> is what a user of the locks may rely on, with
  what follows from it; it is interpreted on the repository below.
\<close>

section \<open>The repository\<close>

record fifo_lock =
  flSegregationRef :: string
  flActor :: string
  flLocked :: bool
  flLockedAt :: "int option"

definition lock_is :: "string \<Rightarrow> string \<Rightarrow> fifo_lock \<Rightarrow> bool" where
  "lock_is actor ref l \<longleftrightarrow> flActor l = actor \<and> flSegregationRef l = ref"

definition get_fifo_locks :: "string \<Rightarrow> fifo_lock list \<Rightarrow> fifo_lock list" where
  "get_fifo_locks actor locks = filter (\<lambda>l. flLocked l \<and> flActor l = actor) locks"

text \<open>
  The upsert: the document for the pair is modified when it is there and free, inserted when
  there is none; when it is there and held the insert breaks the unique index.
\<close>

definition set_fifo_lock :: "int \<Rightarrow> string \<Rightarrow> string \<Rightarrow> fifo_lock list \<Rightarrow> unit res \<times> fifo_lock list" where
  "set_fifo_lock now actor ref locks =
     (if \<exists>l\<in>set locks. lock_is actor ref l \<and> \<not> flLocked l
      then (Inr (), update_one (\<lambda>l. lock_is actor ref l \<and> \<not> flLocked l)
              (\<lambda>l. l\<lparr>flLocked := True, flLockedAt := Some now\<rparr>) locks)
      else if \<exists>l\<in>set locks. lock_is actor ref l
      then (Inl (DuplicateKey [''segregationRef'', ''actor'']), locks)
      else (Inr (), locks @ [\<lparr>flSegregationRef = ref, flActor = actor, flLocked = True,
                              flLockedAt = Some now\<rparr>]))"

definition free_fifo_lock :: "string \<Rightarrow> string \<Rightarrow> fifo_lock list \<Rightarrow> fifo_lock list" where
  "free_fifo_lock actor ref locks =
     update_one (lock_is actor ref) (\<lambda>l. l\<lparr>flLockedAt := None, flLocked := False\<rparr>) locks"

definition lock_stale :: "queue_config \<Rightarrow> int \<Rightarrow> string \<Rightarrow> fifo_lock \<Rightarrow> bool" where
  "lock_stale cfg now actor l \<longleftrightarrow>
     flLocked l \<and> (case flLockedAt l of None \<Rightarrow> False | Some t \<Rightarrow> t < now - qcFifoTtlMs cfg)
     \<and> flActor l = actor"

definition cleanup_stale_locks :: "queue_config \<Rightarrow> int \<Rightarrow> string \<Rightarrow> fifo_lock list \<Rightarrow> fifo_lock list" where
  "cleanup_stale_locks cfg now actor locks =
     update_many (lock_stale cfg now actor) (\<lambda>l. l\<lparr>flLockedAt := None, flLocked := False\<rparr>) locks"

definition held :: "string \<Rightarrow> string \<Rightarrow> fifo_lock list \<Rightarrow> bool" where
  "held actor ref locks \<longleftrightarrow> (\<exists>l\<in>set locks. lock_is actor ref l \<and> flLocked l)"

definition locks_unique :: "fifo_lock list \<Rightarrow> bool" where
  "locks_unique locks \<longleftrightarrow> distinct (map (\<lambda>l. (flActor l, flSegregationRef l)) locks)"

section \<open>What each operation does to the locks held\<close>

lemma lock_is_unique:
  "locks_unique locks \<Longrightarrow> l \<in> set locks \<Longrightarrow> m \<in> set locks \<Longrightarrow> lock_is actor ref l \<Longrightarrow> lock_is actor ref m
     \<Longrightarrow> l = m"
  by (auto simp: locks_unique_def lock_is_def distinct_map inj_on_def)

lemma lock_update_many:
  assumes "locks_unique locks" and "\<And>l. p l \<Longrightarrow> lock_is actor ref l"
  shows "update_one p f locks = update_many p f locks"
  using assms
  by (intro update_one_unique [where g = "\<lambda>l. (flActor l, flSegregationRef l)" and k = "(actor, ref)"])
    (auto simp: locks_unique_def lock_is_def)

lemma locks_unique_set:
  assumes "locks_unique locks" and "set_fifo_lock now actor ref locks = (r, locks')"
  shows "locks_unique locks'"
proof (cases "\<exists>l\<in>set locks. lock_is actor ref l")
  case True
  then show ?thesis using assms
    by (auto simp: set_fifo_lock_def locks_unique_def map_update_one split: if_splits)
next
  case False
  then have "locks' = locks @ [\<lparr>flSegregationRef = ref, flActor = actor, flLocked = True, flLockedAt = Some now\<rparr>]"
    using assms(2) by (auto simp: set_fifo_lock_def split: if_splits)
  then show ?thesis using assms(1) False by (auto simp: locks_unique_def lock_is_def)
qed

lemma locks_unique_others [simp]:
  "locks_unique (free_fifo_lock actor ref locks) = locks_unique locks"
  "locks_unique (cleanup_stale_locks cfg now actor locks) = locks_unique locks"
  by (simp_all add: locks_unique_def free_fifo_lock_def cleanup_stale_locks_def map_update_one
      map_update_many)

lemma set_fifo_lock_fails:
  assumes "locks_unique locks"
  shows "(\<exists>e. fst (set_fifo_lock now actor ref locks) = Inl e) \<longleftrightarrow> held actor ref locks"
proof
  assume "\<exists>e. fst (set_fifo_lock now actor ref locks) = Inl e"
  then show "held actor ref locks" by (auto simp: set_fifo_lock_def held_def split: if_splits)
next
  assume "held actor ref locks"
  then obtain l where l: "l \<in> set locks" "lock_is actor ref l" "flLocked l"
    by (auto simp: held_def)
  then have "flLocked m" if "m \<in> set locks" "lock_is actor ref m" for m
    using lock_is_unique [OF assms l(1) that(1) l(2) that(2)] by simp
  then show "\<exists>e. fst (set_fifo_lock now actor ref locks) = Inl e"
    using l by (auto simp: set_fifo_lock_def)
qed

lemma lock_is_update [simp]:
  "lock_is a r (l\<lparr>flLocked := b, flLockedAt := t\<rparr>) = lock_is a r l"
  by (simp add: lock_is_def)

lemma held_update_many:
  "held a r (update_many p f locks) \<longleftrightarrow>
     (\<exists>l\<in>set locks. if p l then lock_is a r (f l) \<and> flLocked (f l) else lock_is a r l \<and> flLocked l)"
  by (auto simp: held_def update_many_def)

lemma lock_is_both: "lock_is a r l \<Longrightarrow> lock_is b q l \<longleftrightarrow> b = a \<and> q = r"
  by (auto simp: lock_is_def)

lemma set_fifo_lock_same: "set_fifo_lock now actor ref locks = (Inl e, locks') \<Longrightarrow> locks' = locks"
  by (auto simp: set_fifo_lock_def split: if_splits)

lemma held_set:
  assumes "locks_unique locks" and "set_fifo_lock now actor ref locks = (Inr (), locks')"
  shows "held a r locks' \<longleftrightarrow> held a r locks \<or> (a = actor \<and> r = ref)"
proof (cases "\<exists>l\<in>set locks. lock_is actor ref l \<and> \<not> flLocked l")
  case True
  then have locks': "locks' = update_many (\<lambda>l. lock_is actor ref l \<and> \<not> flLocked l)
      (\<lambda>l. l\<lparr>flLocked := True, flLockedAt := Some now\<rparr>) locks"
    using assms(2) lock_update_many [OF assms(1), of "\<lambda>l. lock_is actor ref l \<and> \<not> flLocked l"]
    by (auto simp: set_fifo_lock_def)
  obtain m where m: "m \<in> set locks" "lock_is actor ref m" "\<not> flLocked m" using True by blast
  show ?thesis
  proof (cases "a = actor \<and> r = ref")
    case True
    then show ?thesis unfolding locks' held_update_many using m by force
  next
    case False
    have "held a r locks' \<longleftrightarrow> (\<exists>l\<in>set locks. lock_is a r l \<and> flLocked l)"
      unfolding locks' held_update_many lock_is_update
    proof (rule bex_cong [OF refl])
      fix l
      show "(if lock_is actor ref l \<and> \<not> flLocked l then lock_is a r l
              \<and> flLocked (l\<lparr>flLocked := True, flLockedAt := Some now\<rparr>)
             else lock_is a r l \<and> flLocked l) \<longleftrightarrow> lock_is a r l \<and> flLocked l"
        using False by (simp add: lock_is_def) blast
    qed
    then show ?thesis using False unfolding held_def by blast
  qed
next
  case False
  then have "locks' = locks @ [\<lparr>flSegregationRef = ref, flActor = actor, flLocked = True, flLockedAt = Some now\<rparr>]"
    using assms(2) unfolding set_fifo_lock_def if_not_P [OF False] by (simp split: if_splits)
  then show ?thesis by (simp add: held_def lock_is_def) blast
qed

lemma held_free:
  assumes "locks_unique locks"
  shows "held a r (free_fifo_lock actor ref locks) \<longleftrightarrow> held a r locks \<and> \<not> (a = actor \<and> r = ref)"
proof -
  have "free_fifo_lock actor ref locks =
      update_many (lock_is actor ref) (\<lambda>l. l\<lparr>flLockedAt := None, flLocked := False\<rparr>) locks"
    unfolding free_fifo_lock_def by (rule lock_update_many [OF assms])
  then have "held a r (free_fifo_lock actor ref locks) \<longleftrightarrow>
      (\<exists>l\<in>set locks. \<not> lock_is actor ref l \<and> lock_is a r l \<and> flLocked l)"
    by (simp add: held_update_many) blast
  also have "\<dots> \<longleftrightarrow> held a r locks \<and> \<not> (a = actor \<and> r = ref)"
    by (auto simp: held_def lock_is_def)
  finally show ?thesis .
qed

lemma held_cleanup:
  "held a r (cleanup_stale_locks cfg now actor locks) \<longleftrightarrow>
     (\<exists>l\<in>set locks. lock_is a r l \<and> flLocked l \<and> \<not> lock_stale cfg now actor l)"
  by (auto simp: cleanup_stale_locks_def held_update_many split: if_splits)

lemma get_fifo_locks_held: "ref \<in> flSegregationRef ` set (get_fifo_locks actor locks) \<longleftrightarrow> held actor ref locks"
  by (auto simp: get_fifo_locks_def held_def lock_is_def)

section \<open>The interface\<close>

text \<open>
  What a worker relies on: taking a lock succeeds exactly when nobody holds it, and taking or
  freeing one changes no other.
\<close>

locale lock_store =
  fixes acquire :: "'k \<Rightarrow> 's \<Rightarrow> unit res \<times> 's"
    and release :: "'k \<Rightarrow> 's \<Rightarrow> 's"
    and taken :: "'k \<Rightarrow> 's \<Rightarrow> bool"
    and good :: "'s \<Rightarrow> bool"
  assumes acquire_ok: "good s \<Longrightarrow> acquire k s = (Inr (), t) \<Longrightarrow> \<not> taken k s \<and> good t \<and> (taken j t \<longleftrightarrow> taken j s \<or> j = k)"
    and acquire_refused: "good s \<Longrightarrow> acquire k s = (Inl e, t) \<Longrightarrow> taken k s \<and> t = s"
    and release_law: "good s \<Longrightarrow> good (release k s) \<and> (taken j (release k s) \<longleftrightarrow> taken j s \<and> j \<noteq> k)"
begin

lemma acquire_taken: "good s \<Longrightarrow> taken k s \<Longrightarrow> \<exists>e. acquire k s = (Inl e, s)"
proof -
  assume s: "good s" "taken k s"
  obtain r t where a: "acquire k s = (r, t)" by (cases "acquire k s")
  then show ?thesis using acquire_ok [OF s(1)] acquire_refused [OF s(1)] s(2) by (cases r) auto
qed

text \<open>Two workers that run one after the other cannot both hold a lock neither has freed.\<close>

lemma no_second_holder:
  assumes "good s" and "acquire k s = (Inr (), t)"
  shows "\<exists>e. acquire k t = (Inl e, t)"
  using acquire_ok [OF assms] acquire_taken by blast

lemma acquire_release:
  assumes "good s" and "acquire k s = (Inr (), t)"
  shows "taken j (release k t) \<longleftrightarrow> taken j s"
  using acquire_ok [OF assms] release_law by blast

text \<open>Freeing a lock lets the next worker take it.\<close>

lemma release_acquire:
  assumes "good s"
  shows "\<exists>t. acquire k (release k s) = (Inr (), t)"
proof -
  obtain r t where a: "acquire k (release k s) = (r, t)" by (cases "acquire k (release k s)")
  then show ?thesis
    using acquire_refused [of "release k s" k _ t] release_law [OF assms] by (cases r) auto
qed

end

definition acquire_lock :: "int \<Rightarrow> string \<times> string \<Rightarrow> fifo_lock list \<Rightarrow> unit res \<times> fifo_lock list" where
  "acquire_lock now k locks = set_fifo_lock now (fst k) (snd k) locks"

definition release_lock :: "string \<times> string \<Rightarrow> fifo_lock list \<Rightarrow> fifo_lock list" where
  "release_lock k locks = free_fifo_lock (fst k) (snd k) locks"

definition lock_taken :: "string \<times> string \<Rightarrow> fifo_lock list \<Rightarrow> bool" where
  "lock_taken k locks \<longleftrightarrow> held (fst k) (snd k) locks"

interpretation fifo: lock_store "acquire_lock now" release_lock lock_taken locks_unique for now
proof unfold_locales
  fix s t :: "fifo_lock list" and k j :: "string \<times> string" and e
  assume good: "locks_unique s"
  show "\<not> lock_taken k s \<and> locks_unique t \<and> (lock_taken j t \<longleftrightarrow> lock_taken j s \<or> j = k)"
    if "acquire_lock now k s = (Inr (), t)"
  proof -
    have a: "set_fifo_lock now (fst k) (snd k) s = (Inr (), t)" using that by (simp add: acquire_lock_def)
    show ?thesis
      using set_fifo_lock_fails [OF good, of now "fst k" "snd k"] a locks_unique_set [OF good a]
        held_set [OF good a]
      by (auto simp: lock_taken_def prod_eq_iff)
  qed
  show "lock_taken k s \<and> t = s" if "acquire_lock now k s = (Inl e, t)"
    using set_fifo_lock_fails [OF good, of now "fst k" "snd k"] that
    by (auto simp: acquire_lock_def lock_taken_def dest: set_fifo_lock_same)
  show "locks_unique (release_lock k s) \<and> (lock_taken j (release_lock k s) \<longleftrightarrow> lock_taken j s \<and> j \<noteq> k)"
    using good held_free [OF good] by (auto simp: release_lock_def lock_taken_def prod_eq_iff)
qed

end
