(* ===== verification/Poller.thy ===== *)
theory Poller
  imports Outbox FifoLock
begin

text \<open>
  The pollers that work a box (\<open>src/events/subscribers/inbox.subscriber.js\<close> and
  \<open>outbox.subscriber.js\<close>), and a box under any number of workers and operators. Both pollers run
  the same loop over the operations of their box, so the loop takes them as a record. The handler
  of an event is an argument: it answers or throws.
\<close>

section \<open>The operations of a box\<close>

record 'r box_ops =
  boKey :: "'r \<Rightarrow> int"
  boClaim :: "int \<Rightarrow> string \<Rightarrow> string \<Rightarrow> 'r list \<Rightarrow> 'r list res \<times> 'r list"
  boComplete :: "int \<Rightarrow> 'r \<Rightarrow> 'r"
  boFailed :: "int \<Rightarrow> js_error option \<Rightarrow> 'r \<Rightarrow> 'r"
  boUpdate :: "'r \<Rightarrow> string \<Rightarrow> 'r list \<Rightarrow> nat \<times> 'r list"
  boRedrive :: "nat \<Rightarrow> string option \<Rightarrow> int \<Rightarrow> 'r list \<Rightarrow> bool \<times> 'r list"
  boPurge :: "nat \<Rightarrow> string option \<Rightarrow> string \<Rightarrow> string option \<Rightarrow> int \<Rightarrow> 'r list \<Rightarrow> bool \<times> 'r list"
  boEdit :: "nat \<Rightarrow> nat \<Rightarrow> json \<Rightarrow> json option \<Rightarrow> string option \<Rightarrow> string \<Rightarrow> int \<Rightarrow> 'r list \<Rightarrow> bool \<times> 'r list"

definition inbox_ops :: "queue_config \<Rightarrow> string \<Rightarrow> inbox_row box_ops" where
  "inbox_ops cfg joiMessage =
     \<lparr>boKey = ibEventTime,
      boClaim = inbox_claim_events cfg joiMessage,
      boComplete = inbox_mark_as_complete cfg,
      boFailed = inbox_mark_as_failed cfg,
      boUpdate = inbox_update cfg,
      boRedrive = inbox_redrive_by_id,
      boPurge = inbox_purge_by_id cfg,
      boEdit = inbox_edit_payload_by_id cfg\<rparr>"

definition outbox_ops :: "queue_config \<Rightarrow> string \<Rightarrow> outbox_row box_ops" where
  "outbox_ops cfg joiMessage =
     \<lparr>boKey = qPublicationDate,
      boClaim = outbox_claim_events cfg joiMessage,
      boComplete = outbox_mark_as_complete cfg,
      boFailed = outbox_mark_as_failed cfg,
      boUpdate = outbox_update cfg,
      boRedrive = outbox_redrive_by_id,
      boPurge = outbox_purge_by_id cfg,
      boEdit = outbox_edit_payload_by_id\<rparr>"

section \<open>One tick\<close>

text \<open>
  \<open>getNextAvailable\<close> dead-letters a row without a segregation reference and looks again. The fuel
  is one more than the rows there are; \<open>get_next_available_enough\<close> shows that is enough.
\<close>

fun get_next_available ::
  "nat \<Rightarrow> ('a queue_row_scheme) box_ops \<Rightarrow> queue_config \<Rightarrow> string \<Rightarrow> fifo_lock list
     \<Rightarrow> 'a queue_row_scheme list \<Rightarrow> (string option \<times> 'a queue_row_scheme list) option" where
  "get_next_available 0 ops cfg actor locks rows = None"
| "get_next_available (Suc fuel) ops cfg actor locks rows =
     (case find_next_message (boKey ops) cfg (map flSegregationRef (get_fifo_locks actor locks)) rows of
        None \<Rightarrow> Some (None, rows)
      | Some r \<Rightarrow>
          if qSegregationRef r = []
          then get_next_available fuel ops cfg actor locks (dead_letter_event (qId r) rows)
          else Some (Some (qSegregationRef r), rows))"

definition handle_event ::
  "'r box_ops \<Rightarrow> int \<Rightarrow> ('r \<Rightarrow> unit res) \<Rightarrow> string \<Rightarrow> 'r \<Rightarrow> 'r list \<Rightarrow> 'r list" where
  "handle_event ops now dispatch claimedBy message rows =
     (case dispatch message of
        Inr _ \<Rightarrow> snd (boUpdate ops (boComplete ops now message) claimedBy rows)
      | Inl e \<Rightarrow> snd (boUpdate ops (boFailed ops now (Some e) message) claimedBy rows))"

definition process_events ::
  "'r box_ops \<Rightarrow> int \<Rightarrow> ('r \<Rightarrow> unit res) \<Rightarrow> string \<Rightarrow> 'r list \<Rightarrow> 'r list \<Rightarrow> 'r list" where
  "process_events ops now dispatch claimedBy events rows =
     foldl (\<lambda>acc ev. handle_event ops now dispatch claimedBy ev acc) rows events"

definition process_with_lock ::
  "'r box_ops \<Rightarrow> string \<Rightarrow> int \<Rightarrow> ('r \<Rightarrow> unit res) \<Rightarrow> string \<Rightarrow> string
     \<Rightarrow> ('r list \<times> fifo_lock list, unit) action" where
  "process_with_lock ops actor now dispatch claimToken ref = (\<lambda>(rows, locks).
     case set_fifo_lock now actor ref locks of
       (Inl e, locks1) \<Rightarrow> (Inl e, (rows, locks1))
     | (Inr _, locks1) \<Rightarrow>
         (case boClaim ops now claimToken ref rows of
            (Inl e, rows1) \<Rightarrow> (Inl e, (rows1, free_fifo_lock actor ref locks1))
          | (Inr events, rows1) \<Rightarrow>
              (Inr (), (process_events ops now dispatch claimToken events rows1,
                        free_fifo_lock actor ref locks1))))"

definition run_sweeps :: "queue_config \<Rightarrow> int \<Rightarrow> 'a queue_row_scheme list \<Rightarrow> 'a queue_row_scheme list" where
  "run_sweeps cfg now rows =
     process_expired_events cfg now
       (update_dead_events cfg (update_failed_events (update_resubmitted_events rows)))"

text \<open>An error is logged and ends the tick; the sweeps wait for the next one.\<close>

definition poll_tick ::
  "('a queue_row_scheme) box_ops \<Rightarrow> queue_config \<Rightarrow> string \<Rightarrow> int \<Rightarrow> ('a queue_row_scheme \<Rightarrow> unit res) \<Rightarrow> string
     \<Rightarrow> 'a queue_row_scheme list \<times> fifo_lock list \<Rightarrow> ('a queue_row_scheme list \<times> fifo_lock list) option" where
  "poll_tick ops cfg actor now dispatch claimToken = (\<lambda>(rows, locks).
     case get_next_available (Suc (length rows)) ops cfg actor locks rows of
       None \<Rightarrow> None
     | Some (available, rows1) \<Rightarrow> Some (
         let (r, rows2, locks2) =
           (case available of None \<Rightarrow> (Inr (), rows1, locks)
            | Some ref \<Rightarrow> process_with_lock ops actor now dispatch claimToken ref (rows1, locks)) in
         case r of
           Inl e \<Rightarrow> (rows2, locks2)
         | Inr _ \<Rightarrow> (run_sweeps cfg now rows2, cleanup_stale_locks cfg now actor locks2)))"

definition inbox_poll_tick ::
  "queue_config \<Rightarrow> string \<Rightarrow> int \<Rightarrow> (inbox_row \<Rightarrow> unit res) \<Rightarrow> string
     \<Rightarrow> inbox_row list \<times> fifo_lock list \<Rightarrow> (inbox_row list \<times> fifo_lock list) option" where
  "inbox_poll_tick cfg joiMessage = poll_tick (inbox_ops cfg joiMessage) cfg ''INBOX''"

text \<open>
  Where an outbox event is delivered: to a handler in this service, or to a topic. The three
  deliveries are given.
\<close>

record outbox_delivery =
  odDispatchEvent :: "json \<Rightarrow> unit res"
  odDispatchCommand :: "json \<Rightarrow> unit res"
  odPublish :: "string \<Rightarrow> json \<Rightarrow> (string option \<times> string option) option \<Rightarrow> unit res"

definition text_field :: "string \<Rightarrow> json \<Rightarrow> string option" where
  "text_field k v = (case field_of k v of Some (JStr s) \<Rightarrow> Some s | _ \<Rightarrow> None)"

definition ends_with :: "string \<Rightarrow> string \<Rightarrow> bool" where
  "ends_with s suffix \<longleftrightarrow> starts_with (rev s) (rev suffix)"

definition send_externally :: "outbox_delivery \<Rightarrow> string \<Rightarrow> json \<Rightarrow> string \<Rightarrow> unit res" where
  "send_externally d target message segregationRef =
     odPublish d target message
       (if ends_with target ''.fifo''
        then Some (case get_message_group_id (text_field ''messageGroupId'' message) message of
                     None \<Rightarrow> Some segregationRef | Some g \<Rightarrow> Some g,
                   text_field ''id'' message)
        else None)"

definition deliver :: "outbox_delivery \<Rightarrow> outbox_row \<Rightarrow> unit res" where
  "deliver d r =
     (if obTarget r = ''internal:event'' then odDispatchEvent d (qEvent r)
      else if obTarget r = ''internal:message-bus'' then odDispatchCommand d (qEvent r)
      else send_externally d (obTarget r) (qEvent r) (qSegregationRef r))"

definition outbox_poll_tick ::
  "queue_config \<Rightarrow> string \<Rightarrow> int \<Rightarrow> outbox_delivery \<Rightarrow> string
     \<Rightarrow> outbox_row list \<times> fifo_lock list \<Rightarrow> (outbox_row list \<times> fifo_lock list) option" where
  "outbox_poll_tick cfg joiMessage now d =
     poll_tick (outbox_ops cfg joiMessage) cfg ''OUTBOX'' now (deliver d)"

end
