(* ===== verification/BoxSteps.thy ===== *)
theory BoxSteps
  imports Poller
begin

text \<open>
  A box worked by any number of pollers, operators and the database at once. Every database
  operation of the pollers and of the operators' use cases is a step; steps of different workers
  interleave in any order, a worker may outlive its claim or die with it. The locale \<open>event_box\<close>
  is what a box's own operations have to satisfy for the safety of its rows; it is interpreted on
  the inbox and on the outbox.
\<close>

section \<open>States and steps\<close>

text \<open>
  \<open>bsHeld\<close> are the events that workers hold in memory, each with the claim token it was claimed
  under; a token is a random UUID, used for one claim.
\<close>

record 'r box_state =
  bsRows :: "'r list"
  bsHeld :: "(string \<times> 'r) list"
  bsTokens :: "string list"
  bsNow :: int

definition fresh_row :: "'a queue_row_scheme \<Rightarrow> bool" where
  "fresh_row r \<longleftrightarrow> qStatus r = PUBLISHED \<and> qClaimedBy r = None \<and> qClaimExpiresAt r = None
     \<and> qCompletionAttempts r = 0 \<and> qAttemptHistory r = [] \<and> qExpireAt r = None"

definition past_expiry :: "int \<Rightarrow> 'a queue_row_scheme \<Rightarrow> bool" where
  "past_expiry now r \<longleftrightarrow> (case qExpireAt r of None \<Rightarrow> False | Some t \<Rightarrow> t \<le> now)"

inductive box_step ::
  "('a queue_row_scheme) box_ops \<Rightarrow> queue_config
     \<Rightarrow> ('a queue_row_scheme) box_state \<Rightarrow> ('a queue_row_scheme) box_state \<Rightarrow> bool"
  for ops cfg where
  pass: "bsNow s \<le> t \<Longrightarrow> box_step ops cfg s (s\<lparr>bsNow := t\<rparr>)"
| insert: "fresh_row r \<Longrightarrow> qId r \<notin> qId ` set (bsRows s) \<Longrightarrow>
     box_step ops cfg s (s\<lparr>bsRows := bsRows s @ [r]\<rparr>)"
| claim: "token \<notin> set (bsTokens s) \<Longrightarrow> boClaim ops (bsNow s) token ref (bsRows s) = (Inr events, rows) \<Longrightarrow>
     box_step ops cfg s (s\<lparr>bsRows := rows, bsHeld := bsHeld s @ map (Pair token) events,
                           bsTokens := token # bsTokens s\<rparr>)"
| claim_broken: "token \<notin> set (bsTokens s) \<Longrightarrow> boClaim ops (bsNow s) token ref (bsRows s) = (Inl e, rows) \<Longrightarrow>
     box_step ops cfg s (s\<lparr>bsRows := rows, bsTokens := token # bsTokens s\<rparr>)"
| complete: "(token, ev) \<in> set (bsHeld s) \<Longrightarrow>
     box_step ops cfg s (s\<lparr>bsRows := snd (boUpdate ops (boComplete ops (bsNow s) ev) token (bsRows s)),
                           bsHeld := removeAll (token, ev) (bsHeld s)\<rparr>)"
| fail: "(token, ev) \<in> set (bsHeld s) \<Longrightarrow>
     box_step ops cfg s (s\<lparr>bsRows := snd (boUpdate ops (boFailed ops (bsNow s) (Some e) ev) token (bsRows s)),
                           bsHeld := removeAll (token, ev) (bsHeld s)\<rparr>)"
| lose: "box_step ops cfg s (s\<lparr>bsHeld := filter (\<lambda>h. fst h \<noteq> token) (bsHeld s)\<rparr>)"
| no_reference: "r \<in> set (bsRows s) \<Longrightarrow> free_row cfg r \<Longrightarrow> qSegregationRef r = [] \<Longrightarrow>
     box_step ops cfg s (s\<lparr>bsRows := dead_letter_event (qId r) (bsRows s)\<rparr>)"
| resubmitted: "box_step ops cfg s (s\<lparr>bsRows := update_resubmitted_events (bsRows s)\<rparr>)"
| failed: "box_step ops cfg s (s\<lparr>bsRows := update_failed_events (bsRows s)\<rparr>)"
| dead: "box_step ops cfg s (s\<lparr>bsRows := update_dead_events cfg (bsRows s)\<rparr>)"
| expired: "box_step ops cfg s (s\<lparr>bsRows := process_expired_events cfg (bsNow s) (bsRows s)\<rparr>)"
| redrive: "box_step ops cfg s (s\<lparr>bsRows := snd (boRedrive ops i by (bsNow s) (bsRows s))\<rparr>)"
| purge: "box_step ops cfg s (s\<lparr>bsRows := snd (boPurge ops i by code note (bsNow s) (bsRows s))\<rparr>)"
| edit: "box_step ops cfg s
     (s\<lparr>bsRows := snd (boEdit ops i revision event original by edNote' (bsNow s) (bsRows s))\<rparr>)"
| delete: "box_step ops cfg s (s\<lparr>bsRows := filter (\<lambda>r. \<not> past_expiry (bsNow s) r) (bsRows s)\<rparr>)"

inductive_cases box_stepE: "box_step ops cfg s t"

inductive reachable ::
  "('a queue_row_scheme) box_ops \<Rightarrow> queue_config \<Rightarrow> ('a queue_row_scheme) box_state \<Rightarrow> bool"
  for ops cfg where
  start: "reachable ops cfg \<lparr>bsRows = [], bsHeld = [], bsTokens = [], bsNow = t\<rparr>"
| step: "reachable ops cfg s \<Longrightarrow> box_step ops cfg s u \<Longrightarrow> reachable ops cfg u"

section \<open>What is true of a row\<close>

text \<open>
  A row is claimed exactly while it is being processed, its attempts stay within the cap and its
  history within ten entries, and it has a deletion date exactly when it is complete or purged.
\<close>

definition row_ok :: "queue_config \<Rightarrow> 'a queue_row_scheme \<Rightarrow> bool" where
  "row_ok cfg r \<longleftrightarrow>
     (qStatus r = PROCESSING \<longleftrightarrow> qClaimedBy r \<noteq> None)
     \<and> (qClaimExpiresAt r = None \<longleftrightarrow> qClaimedBy r = None)
     \<and> length (qAttemptHistory r) \<le> max_attempt_history
     \<and> qCompletionAttempts r \<le> qcMaxRetries cfg
     \<and> (qStatus r = PROCESSING \<longrightarrow> qCompletionAttempts r < qcMaxRetries cfg)
     \<and> (qExpireAt r \<noteq> None \<longleftrightarrow> qStatus r = COMPLETED \<or> qStatus r = PURGED)"

definition held_ok :: "queue_config \<Rightarrow> 'a queue_row_scheme \<Rightarrow> bool" where
  "held_ok cfg e \<longleftrightarrow> qCompletionAttempts e < qcMaxRetries cfg
     \<and> length (qAttemptHistory e) \<le> max_attempt_history"

definition box_ok :: "queue_config \<Rightarrow> ('a queue_row_scheme) box_state \<Rightarrow> bool" where
  "box_ok cfg s \<longleftrightarrow> distinct (map qId (bsRows s)) \<and> (\<forall>r\<in>set (bsRows s). row_ok cfg r)
     \<and> (\<forall>(token, e)\<in>set (bsHeld s). held_ok cfg e)"

text \<open>The moves a row's status makes.\<close>

fun status_move :: "event_status \<Rightarrow> event_status \<Rightarrow> bool" where
  "status_move PUBLISHED s = (s \<in> {PROCESSING, DEAD_LETTER})"
| "status_move PROCESSING s = (s \<in> {COMPLETED, FAILED, DEAD_LETTER})"
| "status_move FAILED s = (s \<in> {RESUBMITTED, DEAD_LETTER})"
| "status_move RESUBMITTED s = (s \<in> {PUBLISHED, DEAD_LETTER})"
| "status_move DEAD_LETTER s = (s \<in> {RESUBMITTED, PURGED})"
| "status_move PURGED s = (s = RESUBMITTED)"
| "status_move COMPLETED s = False"

definition row_move :: "'a queue_row_scheme \<Rightarrow> 'a queue_row_scheme \<Rightarrow> bool" where
  "row_move r r' \<longleftrightarrow> qId r' = qId r \<and> (qStatus r' = qStatus r \<or> status_move (qStatus r) (qStatus r'))
     \<and> (qStatus r = COMPLETED \<longrightarrow> r' = r)"

lemma row_move_refl [simp]: "row_move r r"
  by (simp add: row_move_def)

text \<open>An operation that moves each row and keeps it well formed.\<close>

definition moves_rows :: "queue_config \<Rightarrow> 'a queue_row_scheme list \<Rightarrow> 'a queue_row_scheme list \<Rightarrow> bool" where
  "moves_rows cfg rows rows' \<longleftrightarrow> list_all2 (\<lambda>r r'. row_ok cfg r \<longrightarrow> row_move r r' \<and> row_ok cfg r') rows rows'"

lemma moves_rows_many:
  assumes "\<And>r. p r \<Longrightarrow> row_ok cfg r \<Longrightarrow> row_move r (f r) \<and> row_ok cfg (f r)"
  shows "moves_rows cfg rows (update_many p f rows)"
  using assms by (auto simp: moves_rows_def update_many_def list_all2_conv_all_nth)

lemma moves_rows_one:
  assumes "\<And>r. p r \<Longrightarrow> row_ok cfg r \<Longrightarrow> row_move r (f r) \<and> row_ok cfg (f r)"
  shows "moves_rows cfg rows (update_one p f rows)"
  using assms by (induction rows) (auto simp: moves_rows_def list_all2_refl)

lemma moves_rows_ids:
  "moves_rows cfg rows rows' \<Longrightarrow> \<forall>r\<in>set rows. row_ok cfg r \<Longrightarrow> map qId rows' = map qId rows"
  unfolding moves_rows_def by (induction rule: list_all2_induct) (auto simp: row_move_def)

lemma moves_rows_ok:
  "moves_rows cfg rows rows' \<Longrightarrow> \<forall>r\<in>set rows. row_ok cfg r \<Longrightarrow> \<forall>r\<in>set rows'. row_ok cfg r"
  unfolding moves_rows_def by (induction rule: list_all2_induct) auto

lemma moves_rows_left:
  assumes "moves_rows cfg rows rows'" and "\<forall>r\<in>set rows. row_ok cfg r" and "r \<in> set rows"
  shows "\<exists>r'\<in>set rows'. row_move r r'"
  using assms(1) assms(2,3) unfolding moves_rows_def
  by (induction rule: list_all2_induct) auto

lemma sweeps_move:
  "moves_rows cfg rows (update_resubmitted_events rows)"
  "moves_rows cfg rows (update_failed_events rows)"
  "moves_rows cfg rows (update_dead_events cfg rows)"
  "moves_rows cfg rows (process_expired_events cfg now rows)"
  unfolding update_resubmitted_events_def update_failed_events_def update_dead_events_def
    process_expired_events_def
proof -
  show "moves_rows cfg rows (update_many (\<lambda>r. qStatus r = RESUBMITTED)
      (\<lambda>r. (not_claimed r)\<lparr>qStatus := PUBLISHED\<rparr>) rows)"
    by (rule moves_rows_many) (auto simp: row_move_def row_ok_def)
  show "moves_rows cfg rows (update_many (\<lambda>r. qStatus r = FAILED)
      (\<lambda>r. (not_claimed r)\<lparr>qStatus := RESUBMITTED\<rparr>) rows)"
    by (rule moves_rows_many) (auto simp: row_move_def row_ok_def)
  show "moves_rows cfg rows (update_many (attempts_used_up cfg)
      (\<lambda>r. (not_claimed r)\<lparr>qStatus := DEAD_LETTER\<rparr>) rows)"
  proof (rule moves_rows_many)
    fix r :: "'a queue_row_scheme"
    assume used: "attempts_used_up cfg r" and ok: "row_ok cfg r"
    have st: "status_move (qStatus r) DEAD_LETTER" "qStatus r \<noteq> COMPLETED" "qStatus r \<noteq> PURGED"
      using used by (cases "qStatus r"; simp add: attempts_used_up_def final_statuses_def)+
    have "qExpireAt r = None" using ok st(2,3) unfolding row_ok_def by blast
    then show "row_move r ((not_claimed r)\<lparr>qStatus := DEAD_LETTER\<rparr>)
        \<and> row_ok cfg ((not_claimed r)\<lparr>qStatus := DEAD_LETTER\<rparr>)"
      using ok st by (simp add: row_move_def row_ok_def)
  qed
  show "moves_rows cfg rows (update_many (claim_expired now) (expired_row cfg now) rows)"
  proof (rule moves_rows_many)
    fix r :: "'a queue_row_scheme"
    assume e: "claim_expired now r" and ok: "row_ok cfg r"
    have "qStatus r = PROCESSING"
      using e ok by (auto simp: claim_expired_def row_ok_def split: option.splits)
    then show "row_move r (expired_row cfg now r) \<and> row_ok cfg (expired_row cfg now r)"
      using ok by (auto simp: row_move_def row_ok_def expired_row_def)
  qed
qed

lemma dead_letter_moves:
  assumes "distinct (map qId rows)" and "r \<in> set rows" and "free_row cfg r"
  shows "moves_rows cfg rows (dead_letter_event (qId r) rows)"
proof -
  have "qStatus s = PUBLISHED" if "s \<in> set rows" "qId s = qId r" for s
  proof -
    have "s = r" using assms(1,2) that by (auto simp: distinct_map inj_on_def)
    then show ?thesis using assms(3) by (simp add: free_row_def)
  qed
  then have "dead_letter_event (qId r) rows =
      update_one (\<lambda>s. qId s = qId r \<and> qStatus s = PUBLISHED) (\<lambda>r. (not_claimed r)\<lparr>qStatus := DEAD_LETTER\<rparr>) rows"
    unfolding dead_letter_event_def by (induction rows) auto
  then show ?thesis
    by (simp only:) (rule moves_rows_one, auto simp: row_move_def row_ok_def)
qed

section \<open>Claims\<close>

definition claim_rel ::
  "queue_config \<Rightarrow> int \<Rightarrow> string \<Rightarrow> string \<Rightarrow> 'a queue_row_scheme \<Rightarrow> 'a queue_row_scheme \<Rightarrow> bool" where
  "claim_rel cfg now token ref r r' \<longleftrightarrow>
     r' = r \<or> (free_row cfg r \<and> qSegregationRef r = ref \<and> r' = claimed_row cfg now token r)"

lemma claimed_not_free [simp]: "\<not> free_row cfg (claimed_row cfg now token r)"
  by (simp add: free_row_def claimed_row_def)

lemma claim_rel_trans:
  "claim_rel cfg now token ref r s \<Longrightarrow> claim_rel cfg now token ref s t \<Longrightarrow> claim_rel cfg now token ref r t"
  by (auto simp: claim_rel_def)

lemma update_one_rel:
  "(\<And>r. p r \<Longrightarrow> R r (f r)) \<Longrightarrow> (\<And>r. R r r) \<Longrightarrow> list_all2 R rows (update_one p f rows)"
  by (induction rows) (auto simp: list_all2_refl)

lemma claim_one_rel:
  assumes "claim_one key cfg now token ref rows = (doc, rows')"
  shows "list_all2 (claim_rel cfg now token ref) rows rows'"
    and "doc = Some d \<Longrightarrow> \<exists>r\<in>set rows. free_row cfg r \<and> qSegregationRef r = ref \<and> d = claimed_row cfg now token r"
proof -
  show "list_all2 (claim_rel cfg now token ref) rows rows'"
    using assms
    by (auto simp: claim_one_def claim_rel_def list_all2_refl split: option.splits
        intro!: update_one_rel dest: find_first_Some)
  show "doc = Some d \<Longrightarrow> \<exists>r\<in>set rows. free_row cfg r \<and> qSegregationRef r = ref \<and> d = claimed_row cfg now token r"
    using assms by (auto simp: claim_one_def split: option.splits dest!: find_first_Some)
qed

lemma claim_rows_rel:
  assumes "claim_rows key cfg now token ref n rows = (docs, rows')"
  shows "list_all2 (claim_rel cfg now token ref) rows rows'
     \<and> (\<forall>d\<in>set docs. \<exists>r\<in>set rows. free_row cfg r \<and> qSegregationRef r = ref \<and> d = claimed_row cfg now token r)"
  using assms
proof (induction n arbitrary: rows docs rows')
  case 0
  then show ?case by (simp add: list_all2_refl claim_rel_def)
next
  case (Suc n)
  obtain doc rows1 where one: "claim_one key cfg now token ref rows = (doc, rows1)" by force
  obtain ds rows2 where rest: "claim_rows key cfg now token ref n rows1 = (ds, rows2)" by force
  have eq: "rows' = rows2" "docs = (case doc of None \<Rightarrow> ds | Some d \<Rightarrow> d # ds)"
    using Suc.prems by (simp_all add: one rest)
  have rel: "list_all2 (claim_rel cfg now token ref) rows rows2"
    by (rule list_all2_trans [OF _ claim_one_rel(1) [OF one] conjunct1 [OF Suc.IH [OF rest]]])
      (rule claim_rel_trans)
  have ds: "\<exists>r\<in>set rows. free_row cfg r \<and> qSegregationRef r = ref \<and> d = claimed_row cfg now token r"
    if d: "d \<in> set ds" for d
  proof -
    obtain r1 where r1: "r1 \<in> set rows1" "free_row cfg r1" "qSegregationRef r1 = ref"
      "d = claimed_row cfg now token r1"
      using Suc.IH [OF rest] d by blast
    obtain r where "r \<in> set rows" "claim_rel cfg now token ref r r1"
      using list_all2_in_right [OF claim_one_rel(1) [OF one] r1(1)] by blast
    then show ?thesis using r1 by (auto simp: claim_rel_def)
  qed
  show ?case using rel ds claim_one_rel(2) [OF one] unfolding eq by (cases doc) auto
qed

lemma claimed_row_moves:
  "free_row cfg r \<Longrightarrow> row_ok cfg r \<Longrightarrow> row_move r (claimed_row cfg now token r) \<and> row_ok cfg (claimed_row cfg now token r)"
  by (simp add: row_move_def row_ok_def free_row_def claimed_row_def)

lemma claim_moves:
  assumes "list_all2 (claim_rel cfg now token ref) rows rows'"
  shows "moves_rows cfg rows rows'"
  unfolding moves_rows_def
proof (rule list_all2_mono [OF assms])
  fix r r' :: "'a queue_row_scheme"
  assume "claim_rel cfg now token ref r r'"
  then show "row_ok cfg r \<longrightarrow> row_move r r' \<and> row_ok cfg r'"
    unfolding claim_rel_def using claimed_row_moves row_move_refl by blast
qed

section \<open>The interface\<close>

text \<open>The columns the safety of a row depends on.\<close>

definition same_columns :: "'a queue_row_scheme \<Rightarrow> 'a queue_row_scheme \<Rightarrow> bool" where
  "same_columns a b \<longleftrightarrow> qId a = qId b \<and> qStatus a = qStatus b \<and> qClaimedBy a = qClaimedBy b
     \<and> qClaimExpiresAt a = qClaimExpiresAt b \<and> qAttemptHistory a = qAttemptHistory b
     \<and> qCompletionAttempts a = qCompletionAttempts b \<and> qExpireAt a = qExpireAt b"

lemma same_columns_row_ok: "same_columns a b \<Longrightarrow> row_ok cfg a = row_ok cfg b"
  by (simp add: same_columns_def row_ok_def)

definition redrivable :: "nat \<Rightarrow> 'a queue_row_scheme \<Rightarrow> bool" where
  "redrivable i r \<longleftrightarrow> qId r = Some i \<and> qStatus r \<in> set redrivable_statuses"

locale event_box =
  fixes ops :: "('a queue_row_scheme) box_ops" and cfg :: queue_config
  assumes claim_law: "boClaim ops now token ref rows = (res, rows') \<Longrightarrow>
      rows' = snd (claim_rows (boKey ops) cfg now token ref (qcClaimMaxRecords cfg) rows)
      \<and> (\<forall>events. res = Inr events \<longrightarrow> (\<forall>e\<in>set events.
           length (qAttemptHistory e) \<le> max_attempt_history
           \<and> (\<exists>d\<in>set (fst (claim_rows (boKey ops) cfg now token ref (qcClaimMaxRecords cfg) rows)).
                qId e = qId d \<and> qCompletionAttempts e = qCompletionAttempts d)))"
    and complete_law: "let r = boComplete ops now e in qId r = qId e \<and> qStatus r = COMPLETED
      \<and> qClaimedBy r = None \<and> qClaimExpiresAt r = None \<and> qExpireAt r \<noteq> None
      \<and> qAttemptHistory r = qAttemptHistory e \<and> qCompletionAttempts r = qCompletionAttempts e"
    and failed_law: "let r = boFailed ops now x e in qId r = qId e
      \<and> (qStatus r = FAILED \<or> qStatus r = DEAD_LETTER)
      \<and> qClaimedBy r = None \<and> qClaimExpiresAt r = None \<and> qExpireAt r = None
      \<and> length (qAttemptHistory r) \<le> max_attempt_history
      \<and> qCompletionAttempts r = qCompletionAttempts e + 1"
    and update_law: "\<exists>f. (\<forall>s. same_columns (f s) (e\<lparr>qId := qId s\<rparr>))
      \<and> snd (boUpdate ops e token rows) = update_one (\<lambda>s. qId s = qId e \<and> qClaimedBy s = Some token) f rows"
    and redrive_law: "\<exists>f. (\<forall>s. same_columns (f s) (redrive_update by now s))
      \<and> snd (boRedrive ops i by now rows) = update_one (redrivable i) f rows"
    and purge_law: "\<exists>days. snd (boPurge ops i by code note now rows) =
      update_one (\<lambda>r. qId r = Some i \<and> qStatus r = DEAD_LETTER) (purge_update by code note days now) rows"
    and edit_law: "\<exists>f. (\<forall>s. same_columns (f s) s)
      \<and> snd (boEdit ops i revision event original by edNote' now rows) =
        update_one (\<lambda>r. redrivable i r \<and> revision_filter revision (qPayloadRevision r)) f rows"
begin

lemma claim_step:
  assumes "boClaim ops now token ref rows = (res, rows')"
  shows "moves_rows cfg rows rows'"
    and "res = Inr events \<Longrightarrow> e \<in> set events \<Longrightarrow> held_ok cfg e"
proof -
  obtain ds rows2 where c: "claim_rows (boKey ops) cfg now token ref (qcClaimMaxRecords cfg) rows = (ds, rows2)"
    by force
  note law = claim_law [OF assms, unfolded c fst_conv snd_conv]
  show "moves_rows cfg rows rows'"
    using law claim_moves claim_rows_rel [OF c] by blast
  assume "res = Inr events" "e \<in> set events"
  then obtain d where d: "d \<in> set ds" "qCompletionAttempts e = qCompletionAttempts d"
    and h: "length (qAttemptHistory e) \<le> max_attempt_history"
    using law by blast
  obtain r where r: "free_row cfg r" "d = claimed_row cfg now token r"
    using claim_rows_rel [OF c] d(1) by blast
  have "qCompletionAttempts d < qcMaxRetries cfg"
    using r(1) unfolding r(2) by (simp add: free_row_def claimed_row_def)
  then show "held_ok cfg e" using d(2) h by (simp add: held_ok_def)
qed

lemma finished_moves:
  assumes "same_columns f (e\<lparr>qId := qId s\<rparr>)" and "qClaimedBy s = Some token" and "row_ok cfg s"
    and "qStatus e \<in> {COMPLETED, FAILED, DEAD_LETTER}" and "qClaimedBy e = None"
    and "qClaimExpiresAt e = None" and "qExpireAt e \<noteq> None \<longleftrightarrow> qStatus e = COMPLETED"
    and "length (qAttemptHistory e) \<le> max_attempt_history"
    and "qCompletionAttempts e \<le> qcMaxRetries cfg"
  shows "row_move s f \<and> row_ok cfg f"
proof -
  have "qStatus s = PROCESSING" using assms(2,3) by (simp add: row_ok_def)
  then have "row_move s f" using assms(1,4) by (auto simp: row_move_def same_columns_def)
  moreover have "row_ok cfg (e\<lparr>qId := qId s\<rparr>)" using assms(4-9) by (auto simp: row_ok_def)
  ultimately show ?thesis using same_columns_row_ok [OF assms(1)] by simp
qed

lemma complete_moves:
  assumes "held_ok cfg ev"
  shows "moves_rows cfg rows (snd (boUpdate ops (boComplete ops now ev) token rows))"
proof -
  obtain f where f: "\<forall>s. same_columns (f s) ((boComplete ops now ev)\<lparr>qId := qId s\<rparr>)"
    and u: "snd (boUpdate ops (boComplete ops now ev) token rows)
      = update_one (\<lambda>s. qId s = qId (boComplete ops now ev) \<and> qClaimedBy s = Some token) f rows"
    using update_law [of "boComplete ops now ev" token rows] by blast
  show ?thesis unfolding u
  proof (rule moves_rows_one)
    fix r :: "'a queue_row_scheme"
    assume mine: "qId r = qId (boComplete ops now ev) \<and> qClaimedBy r = Some token" and ok: "row_ok cfg r"
    show "row_move r (f r) \<and> row_ok cfg (f r)"
      by (rule finished_moves [OF f [THEN spec] _ ok])
        (use mine complete_law [of now ev] assms in \<open>auto simp: Let_def held_ok_def\<close>)
  qed
qed

lemma fail_moves:
  assumes "held_ok cfg ev"
  shows "moves_rows cfg rows (snd (boUpdate ops (boFailed ops now x ev) token rows))"
proof -
  obtain f where f: "\<forall>s. same_columns (f s) ((boFailed ops now x ev)\<lparr>qId := qId s\<rparr>)"
    and u: "snd (boUpdate ops (boFailed ops now x ev) token rows)
      = update_one (\<lambda>s. qId s = qId (boFailed ops now x ev) \<and> qClaimedBy s = Some token) f rows"
    using update_law [of "boFailed ops now x ev" token rows] by blast
  show ?thesis unfolding u
  proof (rule moves_rows_one)
    fix r :: "'a queue_row_scheme"
    assume mine: "qId r = qId (boFailed ops now x ev) \<and> qClaimedBy r = Some token" and ok: "row_ok cfg r"
    show "row_move r (f r) \<and> row_ok cfg (f r)"
      by (rule finished_moves [OF f [THEN spec] _ ok])
        (use mine failed_law [of now x ev] assms in \<open>auto simp: Let_def held_ok_def\<close>)
  qed
qed

lemma redrive_moves: "moves_rows cfg rows (snd (boRedrive ops i by now rows))"
proof -
  obtain f where f: "\<forall>s. same_columns (f s) (redrive_update by now s)"
    and u: "snd (boRedrive ops i by now rows) = update_one (redrivable i) f rows"
    using redrive_law [of "by" now i rows] by blast
  show ?thesis unfolding u
  proof (rule moves_rows_one)
    fix r :: "'a queue_row_scheme"
    assume "redrivable i r" "row_ok cfg r"
    moreover have "same_columns (f r) (redrive_update by now r)" using f by blast
    ultimately show "row_move r (f r) \<and> row_ok cfg (f r)"
      by (auto simp: row_move_def row_ok_def same_columns_def redrive_update_def redrivable_def
          redrivable_statuses_def)
  qed
qed

lemma purge_moves: "moves_rows cfg rows (snd (boPurge ops i by code note now rows))"
proof -
  obtain days where u: "snd (boPurge ops i by code note now rows) =
      update_one (\<lambda>r. qId r = Some i \<and> qStatus r = DEAD_LETTER) (purge_update by code note days now) rows"
    using purge_law [of i "by" code "note" now rows] by blast
  show ?thesis unfolding u
    by (rule moves_rows_one) (auto simp: row_move_def row_ok_def purge_update_def)
qed

lemma edit_moves: "moves_rows cfg rows (snd (boEdit ops i revision event original by edNote' now rows))"
proof -
  obtain f where f: "\<forall>s. same_columns (f s) s"
    and u: "snd (boEdit ops i revision event original by edNote' now rows) =
        update_one (\<lambda>r. redrivable i r \<and> revision_filter revision (qPayloadRevision r)) f rows"
    using edit_law [of i revision event original "by" edNote' now rows] by blast
  show ?thesis unfolding u
  proof (rule moves_rows_one)
    fix r :: "'a queue_row_scheme"
    assume "redrivable i r \<and> revision_filter revision (qPayloadRevision r)" "row_ok cfg r"
    moreover have "same_columns (f r) r" using f by blast
    ultimately show "row_move r (f r) \<and> row_ok cfg (f r)"
      using same_columns_row_ok [of "f r" r cfg]
      by (auto simp: row_move_def same_columns_def redrivable_def redrivable_statuses_def)
  qed
qed

text \<open>Every step moves the rows, adds a fresh one, or deletes rows past their date.\<close>

lemma step_rows:
  assumes "box_ok cfg s" and "box_step ops cfg s u"
  shows "moves_rows cfg (bsRows s) (bsRows u)
    \<or> (\<exists>r. fresh_row r \<and> qId r \<notin> qId ` set (bsRows s) \<and> bsRows u = bsRows s @ [r])
    \<or> bsRows u = filter (\<lambda>r. \<not> past_expiry (bsNow s) r) (bsRows s)"
    (is "?moves \<or> _ \<or> _")
  using assms(2)
proof (rule box_stepE)
  have same: "moves_rows cfg rows rows" for rows :: "'a queue_row_scheme list"
    by (simp add: moves_rows_def list_all2_refl)
  { fix t assume "u = s\<lparr>bsNow := t\<rparr>" then show ?thesis using same by simp }
  { fix r assume "u = s\<lparr>bsRows := bsRows s @ [r]\<rparr>" "fresh_row r" "qId r \<notin> qId ` set (bsRows s)"
    then show ?thesis by auto }
  { fix token ref events rows
    assume "u = s\<lparr>bsRows := rows, bsHeld := bsHeld s @ map (Pair token) events, bsTokens := token # bsTokens s\<rparr>"
      and "boClaim ops (bsNow s) token ref (bsRows s) = (Inr events, rows)"
    then show ?thesis using claim_step(1) by auto }
  { fix token ref e rows
    assume "u = s\<lparr>bsRows := rows, bsTokens := token # bsTokens s\<rparr>"
      and "boClaim ops (bsNow s) token ref (bsRows s) = (Inl e, rows)"
    then show ?thesis using claim_step(1) by auto }
  { fix token ev
    assume "u = s\<lparr>bsRows := snd (boUpdate ops (boComplete ops (bsNow s) ev) token (bsRows s)),
        bsHeld := removeAll (token, ev) (bsHeld s)\<rparr>" and "(token, ev) \<in> set (bsHeld s)"
    then show ?thesis using complete_moves assms(1) by (force simp: box_ok_def) }
  { fix token ev e
    assume "u = s\<lparr>bsRows := snd (boUpdate ops (boFailed ops (bsNow s) (Some e) ev) token (bsRows s)),
        bsHeld := removeAll (token, ev) (bsHeld s)\<rparr>" and "(token, ev) \<in> set (bsHeld s)"
    then show ?thesis using fail_moves assms(1) by (force simp: box_ok_def) }
  { fix token assume "u = s\<lparr>bsHeld := filter (\<lambda>h. fst h \<noteq> token) (bsHeld s)\<rparr>"
    then show ?thesis using same by simp }
  { fix r assume "u = s\<lparr>bsRows := dead_letter_event (qId r) (bsRows s)\<rparr>" "r \<in> set (bsRows s)" "free_row cfg r"
    then show ?thesis using dead_letter_moves assms(1) by (auto simp: box_ok_def) }
qed (simp_all add: sweeps_move redrive_moves purge_moves edit_moves)

lemma step_held:
  assumes "box_ok cfg s" and "box_step ops cfg s u"
  shows "\<forall>(token, e)\<in>set (bsHeld u). held_ok cfg e"
  using assms(2)
proof (rule box_stepE)
  have old: "\<forall>(token, e)\<in>set (bsHeld s). held_ok cfg e" using assms(1) by (simp add: box_ok_def)
  { fix token ref events rows
    assume "u = s\<lparr>bsRows := rows, bsHeld := bsHeld s @ map (Pair token) events, bsTokens := token # bsTokens s\<rparr>"
      and "boClaim ops (bsNow s) token ref (bsRows s) = (Inr events, rows)"
    then show ?thesis using claim_step(2) old by auto }
qed (use assms(1) in \<open>auto simp: box_ok_def\<close>)

lemma fresh_row_ok: "fresh_row r \<Longrightarrow> row_ok cfg r"
  by (simp add: fresh_row_def row_ok_def)

lemma step_ok:
  assumes "box_ok cfg s" and "box_step ops cfg s u"
  shows "box_ok cfg u"
proof -
  have old: "distinct (map qId (bsRows s))" "\<forall>r\<in>set (bsRows s). row_ok cfg r"
    using assms(1) by (simp_all add: box_ok_def)
  have "distinct (map qId (bsRows u)) \<and> (\<forall>r\<in>set (bsRows u). row_ok cfg r)"
    using step_rows [OF assms]
  proof (elim disjE exE conjE)
    assume "moves_rows cfg (bsRows s) (bsRows u)"
    then show ?thesis using old moves_rows_ids moves_rows_ok by metis
  qed (use old fresh_row_ok in \<open>auto simp: distinct_map_filter\<close>)
  then show ?thesis using step_held [OF assms] by (simp add: box_ok_def)
qed

lemma reachable_ok: "reachable ops cfg s \<Longrightarrow> box_ok cfg s"
  by (induction rule: reachable.induct) (simp add: box_ok_def, rule step_ok)

text \<open>
  What a step makes of a row: it is there, moved along an arrow of the status diagram and unchanged
  when complete, or it was complete or purged and past its deletion date.
\<close>

lemma step_of_row:
  assumes "reachable ops cfg s" and "box_step ops cfg s u" and "r \<in> set (bsRows s)"
  shows "(\<exists>r'\<in>set (bsRows u). row_move r r')
    \<or> ((qStatus r = COMPLETED \<or> qStatus r = PURGED) \<and> past_expiry (bsNow s) r)"
proof -
  have ok: "box_ok cfg s" by (rule reachable_ok [OF assms(1)])
  then have rows: "\<forall>r\<in>set (bsRows s). row_ok cfg r" by (simp add: box_ok_def)
  show ?thesis using step_rows [OF ok assms(2)]
  proof (elim disjE exE conjE)
    assume "moves_rows cfg (bsRows s) (bsRows u)"
    then show ?thesis using moves_rows_left rows assms(3) by blast
  next
    fix x assume "bsRows u = bsRows s @ [x]"
    then have "r \<in> set (bsRows u)" using assms(3) by simp
    then show ?thesis using row_move_refl by blast
  next
    assume u: "bsRows u = filter (\<lambda>r. \<not> past_expiry (bsNow s) r) (bsRows s)"
    show ?thesis
    proof (cases "past_expiry (bsNow s) r")
      case True
      then have "qExpireAt r \<noteq> None" by (auto simp: past_expiry_def split: option.splits)
      then show ?thesis using True rows assms(3) by (auto simp: row_ok_def)
    next
      case False
      then have "r \<in> set (bsRows u)" using u assms(3) by simp
      then show ?thesis using row_move_refl by blast
    qed
  qed
qed

end

section \<open>The inbox and the outbox are boxes\<close>

lemma new_inbox_fields:
  "new_inbox cfg jm now p = Inr r \<Longrightarrow> qId r = ipId p
     \<and> length (qAttemptHistory r) \<le> max_attempt_history
     \<and> qCompletionAttempts r = (case ipCompletionAttempts p of None \<Rightarrow> 0 | Some n \<Rightarrow> n)"
  by (auto simp: new_inbox_def split: if_splits)

lemma new_outbox_fields:
  "new_outbox jm now p = Inr r \<Longrightarrow> qId r = opId p
     \<and> length (qAttemptHistory r) \<le> max_attempt_history
     \<and> qCompletionAttempts r = (case opCompletionAttempts p of None \<Rightarrow> 0 | Some n \<Rightarrow> n)"
  by (auto simp: new_outbox_def split: if_splits)

lemma inbox_claimed_fields:
  assumes "map_res (inbox_from_document cfg jm now) docs = Inr events" and "e \<in> set events"
  shows "length (qAttemptHistory e) \<le> max_attempt_history
    \<and> (\<exists>d\<in>set docs. qId e = qId d \<and> qCompletionAttempts e = qCompletionAttempts d)"
proof -
  obtain d where "d \<in> set docs" "inbox_from_document cfg jm now d = Inr e"
    using list_all2_in_right [OF assms(1) [unfolded map_res_Inr] assms(2)] by blast
  then show ?thesis using new_inbox_fields [of cfg jm now _ e] by (fastforce simp: inbox_from_document_def)
qed

lemma outbox_claimed_fields:
  assumes "map_res (outbox_from_document jm now) docs = Inr events" and "e \<in> set events"
  shows "length (qAttemptHistory e) \<le> max_attempt_history
    \<and> (\<exists>d\<in>set docs. qId e = qId d \<and> qCompletionAttempts e = qCompletionAttempts d)"
proof -
  obtain d where "d \<in> set docs" "outbox_from_document jm now d = Inr e"
    using list_all2_in_right [OF assms(1) [unfolded map_res_Inr] assms(2)] by blast
  then show ?thesis using new_outbox_fields [of jm now _ e] by (fastforce simp: outbox_from_document_def)
qed

lemma redrivable_alt: "redrivable i = (\<lambda>r. qId r = Some i \<and> qStatus r \<in> set redrivable_statuses)"
  by (rule ext) (simp add: redrivable_def)

interpretation inbox: event_box "inbox_ops cfg jm" cfg for cfg jm
proof unfold_locales
  fix now token ref rows res rows'
  assume c: "boClaim (inbox_ops cfg jm) now token ref rows = (res, rows')"
  obtain ds rows2 where d: "claim_rows ibEventTime cfg now token ref (qcClaimMaxRecords cfg) rows = (ds, rows2)"
    by force
  have "rows' = rows2" "res = map_res (inbox_from_document cfg jm now) ds"
    using c by (simp_all add: inbox_ops_def inbox_claim_events_def d)
  then show "rows' = snd (claim_rows (boKey (inbox_ops cfg jm)) cfg now token ref (qcClaimMaxRecords cfg) rows)
      \<and> (\<forall>events. res = Inr events \<longrightarrow> (\<forall>e\<in>set events.
           length (qAttemptHistory e) \<le> max_attempt_history
           \<and> (\<exists>d\<in>set (fst (claim_rows (boKey (inbox_ops cfg jm)) cfg now token ref (qcClaimMaxRecords cfg) rows)).
                qId e = qId d \<and> qCompletionAttempts e = qCompletionAttempts d)))"
    using inbox_claimed_fields [of cfg jm now ds] by (simp add: inbox_ops_def d)
next
  fix e :: inbox_row and token rows
  show "\<exists>f. (\<forall>s. same_columns (f s) (e\<lparr>qId := qId s\<rparr>))
      \<and> snd (boUpdate (inbox_ops cfg jm) e token rows)
        = update_one (\<lambda>s. qId s = qId e \<and> qClaimedBy s = Some token) f rows"
    by (rule exI [of _ "inbox_set_document (inbox_to_document cfg e)"])
      (simp add: inbox_ops_def inbox_update_def Let_def same_columns_def inbox_set_document_def inbox_to_document_def)
next
  fix i "by" now and rows :: "inbox_row list"
  show "\<exists>f. (\<forall>s. same_columns (f s) (redrive_update by now s))
      \<and> snd (boRedrive (inbox_ops cfg jm) i by now rows) = update_one (redrivable i) f rows"
    by (rule exI [of _ "\<lambda>r. (redrive_update by now r)\<lparr>ibRetryable := True\<rparr>"])
      (simp add: inbox_ops_def inbox_redrive_by_id_def Let_def redrivable_alt same_columns_def)
next
  fix i revision event original "by" edNote' now and rows :: "inbox_row list"
  show "\<exists>f. (\<forall>s. same_columns (f s) s)
      \<and> snd (boEdit (inbox_ops cfg jm) i revision event original by edNote' now rows) =
        update_one (\<lambda>r. redrivable i r \<and> revision_filter revision (qPayloadRevision r)) f rows"
    by (rule exI [of _ "edit_update event by edNote' revision original (inbox_event_columns cfg now event) now"])
      (simp add: inbox_ops_def inbox_edit_payload_by_id_def Let_def redrivable_alt same_columns_def
        edit_update_def inbox_event_columns_def)
qed (auto simp: inbox_ops_def inbox_mark_as_complete_def inbox_mark_as_failed_def inbox_purge_by_id_def Let_def)

interpretation outbox: event_box "outbox_ops cfg jm" cfg for cfg jm
proof unfold_locales
  fix now token ref rows res rows'
  assume c: "boClaim (outbox_ops cfg jm) now token ref rows = (res, rows')"
  obtain ds rows2 where d: "claim_rows qPublicationDate cfg now token ref (qcClaimMaxRecords cfg) rows = (ds, rows2)"
    by force
  have "rows' = rows2" "res = map_res (outbox_from_document jm now) ds"
    using c by (simp_all add: outbox_ops_def outbox_claim_events_def d)
  then show "rows' = snd (claim_rows (boKey (outbox_ops cfg jm)) cfg now token ref (qcClaimMaxRecords cfg) rows)
      \<and> (\<forall>events. res = Inr events \<longrightarrow> (\<forall>e\<in>set events.
           length (qAttemptHistory e) \<le> max_attempt_history
           \<and> (\<exists>d\<in>set (fst (claim_rows (boKey (outbox_ops cfg jm)) cfg now token ref (qcClaimMaxRecords cfg) rows)).
                qId e = qId d \<and> qCompletionAttempts e = qCompletionAttempts d)))"
    using outbox_claimed_fields [of jm now ds] by (simp add: outbox_ops_def d)
next
  fix e :: outbox_row and token rows
  show "\<exists>f. (\<forall>s. same_columns (f s) (e\<lparr>qId := qId s\<rparr>))
      \<and> snd (boUpdate (outbox_ops cfg jm) e token rows)
        = update_one (\<lambda>s. qId s = qId e \<and> qClaimedBy s = Some token) f rows"
    by (rule exI [of _ "outbox_set_document (outbox_to_document cfg e)"])
      (simp add: outbox_ops_def outbox_update_def Let_def same_columns_def outbox_set_document_def outbox_to_document_def)
next
  fix i "by" now and rows :: "outbox_row list"
  show "\<exists>f. (\<forall>s. same_columns (f s) (redrive_update by now s))
      \<and> snd (boRedrive (outbox_ops cfg jm) i by now rows) = update_one (redrivable i) f rows"
    by (rule exI [of _ "redrive_update by now"])
      (simp add: outbox_ops_def outbox_redrive_by_id_def Let_def redrivable_alt same_columns_def)
next
  fix i revision event original "by" edNote' now and rows :: "outbox_row list"
  show "\<exists>f. (\<forall>s. same_columns (f s) s)
      \<and> snd (boEdit (outbox_ops cfg jm) i revision event original by edNote' now rows) =
        update_one (\<lambda>r. redrivable i r \<and> revision_filter revision (qPayloadRevision r)) f rows"
    by (rule exI [of _ "edit_update event by edNote' revision original (\<lambda>r. r) now"])
      (simp add: outbox_ops_def outbox_edit_payload_by_id_def Let_def redrivable_alt same_columns_def edit_update_def)
qed (auto simp: outbox_ops_def outbox_mark_as_complete_def outbox_mark_as_failed_def outbox_purge_by_id_def Let_def)

end
