(* ===== verification/QueueLaws.thy ===== *)
theory QueueLaws
  imports BoxSteps
begin

text \<open>
  What the operations of the boxes do: which rows a claim takes and in what order, what the sweeps
  of a tick make of a row, that a tick ends, that a handler which outlived its claim changes
  nothing, and that an inbox row survives being stored and read back.
\<close>

section \<open>Claims are first in, first out\<close>

definition eligible :: "queue_config \<Rightarrow> string \<Rightarrow> 'a queue_row_scheme \<Rightarrow> bool" where
  "eligible cfg ref r \<longleftrightarrow> free_row cfg r \<and> qSegregationRef r = ref"

lemma first_by_sort:
  "distinct xs \<Longrightarrow> first_by key xs = Some r \<Longrightarrow> sort_key key xs = r # sort_key key (remove1 r xs)"
proof (induction xs arbitrary: r)
  case Nil
  then show ?case by simp
next
  case (Cons x xs)
  show ?case
  proof (cases "first_by key xs")
    case None
    with Cons.prems show ?thesis by simp
  next
    case (Some s)
    then have ih: "sort_key key xs = s # sort_key key (remove1 s xs)" using Cons by simp
    have "s \<in> set xs" using first_by_Some [OF Some] by blast
    then have ne: "x \<noteq> s" using Cons.prems(1) by auto
    show ?thesis
    proof (cases "key s < key x")
      case True
      then have "r = s" using Cons.prems(2) Some by simp
      then show ?thesis using True ne by (simp add: ih)
    next
      case False
      then have "r = x" using Cons.prems(2) Some by simp
      then show ?thesis using False by (simp add: ih)
    qed
  qed
qed

lemma filter_update_one_same:
  assumes "distinct rows" and "r \<in> set rows" and "p r" and "\<not> p (f r)"
  shows "filter p (update_one (\<lambda>s. s = r) f rows) = remove1 r (filter p rows)"
  using assms
proof (induction rows)
  case Nil
  then show ?case by simp
next
  case (Cons x rows)
  show ?case
  proof (cases "x = r")
    case True
    then show ?thesis using Cons.prems by simp
  next
    case False
    then show ?thesis using Cons by auto
  qed
qed

lemma claim_one_eq: "claim_one key cfg now token ref rows =
    (case first_by key (filter (eligible cfg ref) rows) of
       None \<Rightarrow> (None, rows)
     | Some r \<Rightarrow> (Some (claimed_row cfg now token r),
                  update_one (\<lambda>s. s = r) (claimed_row cfg now token) rows))"
  by (simp add: claim_one_def find_first_def eligible_def [abs_def])

lemma distinct_update_one:
  assumes "distinct (map qId rows)" and "\<And>r. qId (f r) = qId r"
  shows "distinct (map qId (update_one p f rows))"
  using assms by (simp add: map_update_one)

lemma claim_rows_fifo:
  assumes "distinct (map qId rows)"
  shows "fst (claim_rows key cfg now token ref n rows) =
    map (claimed_row cfg now token) (take n (sort_key key (filter (eligible cfg ref) rows)))"
  using assms
proof (induction n arbitrary: rows)
  case 0
  then show ?case by simp
next
  case (Suc n)
  show ?case
  proof (cases "first_by key (filter (eligible cfg ref) rows)")
    case None
    then have none: "filter (eligible cfg ref) rows = []" by simp
    have "claim_one key cfg now token ref rows = (None, rows)" using None by (simp add: claim_one_eq)
    then show ?thesis using Suc.IH [OF Suc.prems] none by (simp add: split_beta Let_def)
  next
    case (Some r)
    define rows1 where "rows1 = update_one (\<lambda>s. s = r) (claimed_row cfg now token) rows"
    have one: "claim_one key cfg now token ref rows = (Some (claimed_row cfg now token r), rows1)"
      using Some by (simp add: claim_one_eq rows1_def)
    have r: "r \<in> set rows" "eligible cfg ref r" using first_by_Some [OF Some] by auto
    have dist: "distinct rows" using Suc.prems by (simp add: distinct_map)
    have f: "filter (eligible cfg ref) rows1 = remove1 r (filter (eligible cfg ref) rows)"
      unfolding rows1_def using dist r by (intro filter_update_one_same) (simp_all add: eligible_def)
    have d1: "distinct (map qId rows1)"
      unfolding rows1_def by (rule distinct_update_one [OF Suc.prems]) (simp add: claimed_row_def)
    have "sort_key key (filter (eligible cfg ref) rows) = r # sort_key key (filter (eligible cfg ref) rows1)"
      unfolding f by (rule first_by_sort [OF _ Some]) (simp add: dist)
    then show ?thesis using Suc.IH [OF d1] by (simp add: one split_beta Let_def)
  qed
qed

section \<open>The sweeps of a tick\<close>

definition sweep_row :: "queue_config \<Rightarrow> int \<Rightarrow> 'a queue_row_scheme \<Rightarrow> 'a queue_row_scheme" where
  "sweep_row cfg now r =
     (let r1 = (if qStatus r = RESUBMITTED then (not_claimed r)\<lparr>qStatus := PUBLISHED\<rparr> else r);
          r2 = (if qStatus r1 = FAILED then (not_claimed r1)\<lparr>qStatus := RESUBMITTED\<rparr> else r1);
          r3 = (if attempts_used_up cfg r2 then (not_claimed r2)\<lparr>qStatus := DEAD_LETTER\<rparr> else r2) in
      if claim_expired now r3 then expired_row cfg now r3 else r3)"

lemma run_sweeps_map: "run_sweeps cfg now rows = map (sweep_row cfg now) rows"
  by (simp add: run_sweeps_def process_expired_events_def update_dead_events_def
      update_failed_events_def update_resubmitted_events_def update_many_def sweep_row_def Let_def)

lemma sweep_row_failed:
  assumes "qStatus r = FAILED" and "qClaimExpiresAt r = None"
  shows "sweep_row cfg now r = (not_claimed r)\<lparr>qStatus := (if qCompletionAttempts r < qcMaxRetries cfg then RESUBMITTED else DEAD_LETTER)\<rparr>"
  using assms by (simp add: sweep_row_def Let_def attempts_used_up_def final_statuses_def claim_expired_def)

lemma sweep_row_resubmitted:
  assumes "qStatus r = RESUBMITTED"
  shows "sweep_row cfg now r = (not_claimed r)\<lparr>qStatus := (if qCompletionAttempts r < qcMaxRetries cfg then PUBLISHED else DEAD_LETTER)\<rparr>"
  using assms by (simp add: sweep_row_def Let_def attempts_used_up_def final_statuses_def claim_expired_def)

lemma sweep_row_expired:
  assumes "qStatus r = PROCESSING" and "qClaimExpiresAt r = Some t" and "qCompletionAttempts r < qcMaxRetries cfg"
  shows "sweep_row cfg now r = (if t < now then expired_row cfg now r else r)"
  using assms by (simp add: sweep_row_def Let_def attempts_used_up_def final_statuses_def claim_expired_def)

section \<open>A tick ends\<close>

definition unreferenced :: "queue_config \<Rightarrow> 'a queue_row_scheme \<Rightarrow> bool" where
  "unreferenced cfg r \<longleftrightarrow> free_row cfg r \<and> qSegregationRef r = []"

lemma dead_letter_fewer:
  assumes "distinct (map qId rows)" and "r \<in> set rows" and "unreferenced cfg r"
  shows "length (filter (unreferenced cfg) (dead_letter_event (qId r) rows))
    < length (filter (unreferenced cfg) rows)"
  using assms
proof (induction rows)
  case Nil
  then show ?case by simp
next
  case (Cons x rows)
  show ?case
  proof (cases "qId x = qId r")
    case True
    then have "x = r" using Cons.prems by (auto simp: image_iff)
    then show ?thesis using Cons.prems(3)
      by (simp add: dead_letter_event_def unreferenced_def free_row_def)
  next
    case False
    then have "r \<in> set rows" using Cons.prems(2) by auto
    then show ?thesis using Cons False by (auto simp: dead_letter_event_def)
  qed
qed

lemma dead_letter_ids: "map qId (dead_letter_event i rows) = map qId rows"
  unfolding dead_letter_event_def by (rule map_update_one) simp

lemma get_next_available_enough:
  assumes "distinct (map qId rows)" and "length (filter (unreferenced cfg) rows) < fuel"
  shows "get_next_available fuel ops cfg actor locks rows \<noteq> None"
  using assms
proof (induction fuel arbitrary: rows)
  case 0
  then show ?case by simp
next
  case (Suc fuel)
  show ?case
  proof (cases "find_next_message (boKey ops) cfg (map flSegregationRef (get_fifo_locks actor locks)) rows")
    case None
    then show ?thesis by simp
  next
    case (Some r)
    have r: "r \<in> set rows" "free_row cfg r"
      using Some by (auto simp: find_next_message_def dest!: find_first_Some)
    show ?thesis
    proof (cases "qSegregationRef r = []")
      case True
      then have "unreferenced cfg r" using r(2) by (simp add: unreferenced_def)
      then have "length (filter (unreferenced cfg) (dead_letter_event (qId r) rows)) < fuel"
        using dead_letter_fewer [OF Suc.prems(1) r(1)] Suc.prems(2) by (meson less_SucE order.strict_trans less_trans_Suc not_less_eq)
      then show ?thesis using Suc.IH Suc.prems(1) Some True by (simp add: dead_letter_ids)
    next
      case False
      then show ?thesis using Some by simp
    qed
  qed
qed

lemma poll_tick_ends:
  assumes "distinct (map qId rows)"
  shows "poll_tick ops cfg actor now dispatch token (rows, locks) \<noteq> None"
proof -
  have "length (filter (unreferenced cfg) rows) < Suc (length rows)"
    by (simp add: le_imp_less_Suc)
  then show ?thesis
    using get_next_available_enough [OF assms, of cfg "Suc (length rows)" ops actor locks]
    by (auto simp: poll_tick_def split: option.splits)
qed

section \<open>A handler that outlived its claim\<close>

lemma inbox_update_lost:
  assumes "\<And>s. s \<in> set rows \<Longrightarrow> qId s = qId r \<Longrightarrow> qClaimedBy s \<noteq> Some token"
  shows "inbox_update cfg r token rows = (0, rows)"
  using assms by (auto simp: inbox_update_def Let_def matched_count_def intro!: update_one_none)

lemma outbox_update_lost:
  assumes "\<And>s. s \<in> set rows \<Longrightarrow> qId s = qId r \<Longrightarrow> qClaimedBy s \<noteq> Some token"
  shows "outbox_update cfg r token rows = (0, rows)"
  using assms by (auto simp: outbox_update_def Let_def matched_count_def intro!: update_one_none)

section \<open>Storing and reading back\<close>

text \<open>
  An object of the class \<open>Inbox\<close>: valid, unclaimed, its history within the cap, its fields that
  the class does not hold unset, and its event time the one its event gives.
\<close>

definition inbox_object :: "queue_config \<Rightarrow> inbox_row \<Rightarrow> bool" where
  "inbox_object cfg r \<longleftrightarrow> ibSource r \<noteq> [] \<and> is_object (qEvent r) \<and> qSegregationRef r \<noteq> []
     \<and> length (qAttemptHistory r) \<le> max_attempt_history
     \<and> qClaimedBy r = None \<and> qClaimedAt r = None \<and> qClaimExpiresAt r = None
     \<and> qErrorKey r = None \<and> qPayloadRevision r = None \<and> qLastEdit r = None
     \<and> qOriginalPayload r = None \<and> qLastPurge r = None
     \<and> to_epoch_ms cfg (field_of ''time'' (qEvent r)) = Some (ibEventTime r)"

lemma inbox_document_roundtrip:
  assumes "inbox_object cfg r"
  shows "inbox_from_document cfg jm now (inbox_to_document cfg r) = Inr r"
  using assms
  by (simp add: inbox_from_document_def new_inbox_def inbox_to_document_def inbox_schema_def
      inbox_object_def normalise_id to_sortable_instant_def)

lemma new_inbox_object:
  assumes "new_inbox cfg jm now p = Inr r" and "to_epoch_ms cfg (field_of ''time'' (ipEvent p)) \<noteq> None"
  shows "inbox_object cfg r"
  using assms
  by (auto simp: new_inbox_def inbox_object_def inbox_schema_def to_sortable_instant_def split: if_splits)

lemma inbox_marks_object:
  assumes "inbox_object cfg r"
  shows "inbox_object cfg (inbox_mark_as_complete cfg now r)"
    and "inbox_object cfg (inbox_mark_as_failed cfg now e r)"
  using assms by (simp_all add: inbox_object_def inbox_mark_as_complete_def inbox_mark_as_failed_def)

section \<open>A message is stored once\<close>

lemma save_inbox_message_seen:
  assumes "inbox_find_by_message_id (imId m) rows \<noteq> None"
  shows "save_inbox_message cfg jm stamps now newId m source ref rows = (Inr (), rows)"
  using assms by (simp add: save_inbox_message_def)

lemma save_inbox_message_stores:
  assumes "save_inbox_message cfg jm stamps now newId m source ref rows = (Inr (), rows')"
  shows "inbox_find_by_message_id (imId m) rows' \<noteq> None"
proof (cases "inbox_find_by_message_id (imId m) rows")
  case None
  then show ?thesis using assms
    by (auto simp: save_inbox_message_def andThen_Inr new_inbox_def inbox_insert_one_def
        inbox_to_document_def inbox_find_by_message_id_def find_None_iff split: if_splits option.splits sum.splits dest!: find_SomeD)
next
  case (Some r)
  then show ?thesis using assms save_inbox_message_seen by fastforce
qed

end
