(* ===== verification/EventAdmin.thy ===== *)
theory EventAdmin
  imports PayloadChanges QueueLaws
begin

text \<open>
  What an operator does to one row of this service's boxes (\<open>src/grant-admin/use-cases\<close>:
  redrive-event, purge-event and edit-payload; \<open>OperatorActions\<close> has their audits and the branches for
  Caseworking's boxes). Each works on the operations of the box it is for, in a transaction: a refusal leaves
  the rows as they were.
\<close>

section \<open>Ids\<close>

fun hex_value :: "char \<Rightarrow> nat" where
  "hex_value c = (let n = of_char c in
     if 48 \<le> n \<and> n \<le> 57 then n - 48 else if 97 \<le> n \<and> n \<le> 102 then n - 87 else n - 55)"

definition object_id :: "string \<Rightarrow> nat" where
  "object_id hex = foldl (\<lambda>acc c. 16 * acc + hex_value c) 0 hex"

definition find_status_by_id :: "string \<Rightarrow> 'a queue_row_scheme list \<Rightarrow> event_status option" where
  "find_status_by_id rowId rows = map_option qStatus (find (\<lambda>r. qId r = Some (object_id rowId)) rows)"

definition find_editable_by_id :: "string \<Rightarrow> 'a queue_row_scheme list \<Rightarrow> 'a queue_row_scheme option" where
  "find_editable_by_id rowId rows = find (\<lambda>r. qId r = Some (object_id rowId)) rows"

definition event_not_found :: "string \<Rightarrow> string \<Rightarrow> js_error" where
  "event_not_found box rowId =
     Boom NotFound (''gas '' @ box @ '' event '' @ quoted rowId @ '' not found'') []"

section \<open>Redrive and purge\<close>

definition redrive_gas_event ::
  "('a queue_row_scheme) box_ops \<Rightarrow> string \<Rightarrow> string \<Rightarrow> string option \<Rightarrow> int
     \<Rightarrow> ('a queue_row_scheme list, unit) action" where
  "redrive_gas_event ops box rowId actor now = (\<lambda>rows.
     let (done, rows1) = boRedrive ops (object_id rowId) actor now rows in
     if done then (Inr (), rows1)
     else case find_status_by_id rowId rows1 of
            None \<Rightarrow> (Inl (event_not_found box rowId), rows1)
          | Some s \<Rightarrow> (Inl (redrive_conflict (''gas '' @ box) rowId s), rows1))"

definition purge_gas_event ::
  "('a queue_row_scheme) box_ops \<Rightarrow> string \<Rightarrow> string \<Rightarrow> string option \<Rightarrow> string \<Rightarrow> string option \<Rightarrow> int
     \<Rightarrow> ('a queue_row_scheme list, unit) action" where
  "purge_gas_event ops box rowId actor reasonCode msg now = (\<lambda>rows.
     let (done, rows1) = boPurge ops (object_id rowId) actor reasonCode msg now rows in
     if done then (Inr (), rows1)
     else case find_status_by_id rowId rows1 of
            None \<Rightarrow> (Inl (event_not_found box rowId), rows1)
          | Some s \<Rightarrow> (Inl (purge_conflict (''gas '' @ box) rowId s), rows1))"

section \<open>Editing a payload\<close>

definition edit_refusal_for :: "string \<Rightarrow> string \<Rightarrow> event_status option \<Rightarrow> js_error" where
  "edit_refusal_for box rowId status =
     (case status of
        None \<Rightarrow> event_not_found box rowId
      | Some s \<Rightarrow> if s \<notin> set redrivable_statuses then edit_conflict (''gas '' @ box) rowId s
                  else stale_edit (''gas '' @ box) rowId)"

definition is_editable :: "'a queue_row_scheme option \<Rightarrow> nat \<Rightarrow> bool" where
  "is_editable stored revision \<longleftrightarrow>
     (case stored of None \<Rightarrow> False
      | Some r \<Rightarrow> qStatus r \<in> set redrivable_statuses \<and> payload_revision_of r = revision)"

definition find_editable ::
  "string \<Rightarrow> string \<Rightarrow> nat \<Rightarrow> 'a queue_row_scheme list \<Rightarrow> 'a queue_row_scheme res" where
  "find_editable box rowId revision rows =
     (let stored = find_editable_by_id rowId rows in
      if \<not> is_editable stored revision
      then Inl (edit_refusal_for box rowId (map_option qStatus stored))
      else (case stored of None \<Rightarrow> Inl TypeError | Some r \<Rightarrow> Inr r))"

definition changes_to ::
  "(json \<Rightarrow> nat) \<Rightarrow> 'a queue_row_scheme \<Rightarrow> json \<Rightarrow> (string list \<times> bool) res" where
  "changes_to prettyBytes stored payload =
     bind_res (assert_storable prettyBytes payload) (\<lambda>_.
     let changes = payload_changes (qEvent stored) payload in
     if fst changes = [] then Inl (edit_refusal ''UNCHANGED'') else Inr changes)"

record edit_request =
  erActor :: "string option"
  erPayload :: json
  erNote :: string
  erRevision :: nat

record edit_result =
  exPayloadRevision :: nat
  exChangedPaths :: "string list"
  exChangedPathsTruncated :: bool
  exBeforeHash :: string
  exAfterHash :: string

text \<open>\<open>payloadHash\<close> and the size of the pretty-printed text are given.\<close>

definition edit_gas_event ::
  "('a queue_row_scheme) box_ops \<Rightarrow> (json \<Rightarrow> nat) \<Rightarrow> (json \<Rightarrow> string) \<Rightarrow> string \<Rightarrow> string \<Rightarrow> edit_request \<Rightarrow> int
     \<Rightarrow> ('a queue_row_scheme list, edit_result) action" where
  "edit_gas_event ops prettyBytes payloadHash box rowId edit now =
     andThen (\<lambda>rows. (find_editable box rowId (erRevision edit) rows, rows)) (\<lambda>stored.
     andThen (lift_res (changes_to prettyBytes stored (erPayload edit))) (\<lambda>changes.
     andThen (\<lambda>rows. let (edited, rows1) = boEdit ops (object_id rowId) (erRevision edit) (erPayload edit)
                (if qLastEdit stored \<noteq> None then None else Some (qEvent stored))
                (erActor edit) (erNote edit) now rows in (Inr edited, rows1)) (\<lambda>edited.
     if \<not> edited
     then (\<lambda>rows. (Inl (edit_refusal_for box rowId (find_status_by_id rowId rows)), rows))
     else ret \<lparr>exPayloadRevision = erRevision edit + 1, exChangedPaths = fst changes,
               exChangedPathsTruncated = snd changes, exBeforeHash = payloadHash (qEvent stored),
               exAfterHash = payloadHash (erPayload edit)\<rparr>)))"

section \<open>What the operations do\<close>

text \<open>
  For the inbox and the outbox at once: the updates are one-row updates fenced by the id and the
  status, whose columns are known.
\<close>

locale operated_box =
  fixes ops :: "('a queue_row_scheme) box_ops"
    and redriven :: "string option \<Rightarrow> int \<Rightarrow> 'a queue_row_scheme \<Rightarrow> 'a queue_row_scheme"
    and days :: int
    and columns :: "int \<Rightarrow> json \<Rightarrow> 'a queue_row_scheme \<Rightarrow> 'a queue_row_scheme"
  assumes redrive_is: "boRedrive ops i by now rows =
      (matched_count (redrivable i) rows > 0, update_one (redrivable i) (redriven by now) rows)"
    and redriven_is: "same_columns (redriven by now r) (redrive_update by now r)"
    and purge_is: "boPurge ops i by reason msg now rows =
      (matched_count (\<lambda>r. qId r = Some i \<and> qStatus r = DEAD_LETTER) rows > 0,
       update_one (\<lambda>r. qId r = Some i \<and> qStatus r = DEAD_LETTER) (purge_update by reason msg days now) rows)"
    and edit_is: "boEdit ops i revision event original by comment now rows =
      (matched_count (\<lambda>r. redrivable i r \<and> revision_filter revision (qPayloadRevision r)) rows > 0,
       update_one (\<lambda>r. redrivable i r \<and> revision_filter revision (qPayloadRevision r))
         (edit_update event by comment revision original (columns now event) now) rows)"
    and columns_is: "same_columns (columns now event r) r" "qEvent (columns now event r) = qEvent r"
      "qPayloadRevision (columns now event r) = qPayloadRevision r"
      "qOriginalPayload (columns now event r) = qOriginalPayload r"
      "qLastEdit (columns now event r) = qLastEdit r"
begin

lemma found_matches:
  assumes "distinct (map qId rows)" and "find (\<lambda>r. qId r = Some i) rows = Some r"
  shows "matched_count (\<lambda>s. qId s = Some i \<and> P s) rows > 0 \<longleftrightarrow> P r"
proof -
  have r: "r \<in> set rows" "qId r = Some i" using find_SomeD [OF assms(2)] by auto
  have "s = r" if "s \<in> set rows" "qId s = Some i" for s
    using assms(1) r that by (auto simp: distinct_map inj_on_def)
  then show ?thesis using r unfolding matched_count_pos by blast
qed

lemma redrive_result:
  assumes "distinct (map qId rows)"
  shows "redrive_gas_event ops box rowId actor now rows =
    (case find_status_by_id rowId rows of
       None \<Rightarrow> (Inl (event_not_found box rowId), rows)
     | Some s \<Rightarrow>
         if s \<in> set redrivable_statuses
         then (Inr (), update_one (redrivable (object_id rowId)) (redriven actor now) rows)
         else (Inl (redrive_conflict (''gas '' @ box) rowId s), rows))"
proof (cases "find (\<lambda>r. qId r = Some (object_id rowId)) rows")
  case None
  then have "\<not> redrivable (object_id rowId) r" if "r \<in> set rows" for r
    using that by (auto simp: find_None_iff redrivable_def)
  then have "matched_count (redrivable (object_id rowId)) rows = 0"
    "update_one (redrivable (object_id rowId)) (redriven actor now) rows = rows"
    by (auto simp: matched_count_def update_one_none)
  then show ?thesis using None by (simp add: redrive_gas_event_def redrive_is find_status_by_id_def)
next
  case (Some r)
  have m: "matched_count (redrivable (object_id rowId)) rows > 0 \<longleftrightarrow> qStatus r \<in> set redrivable_statuses"
    unfolding redrivable_alt by (rule found_matches [OF assms Some])
  show ?thesis
  proof (cases "qStatus r \<in> set redrivable_statuses")
    case True
    then show ?thesis using m Some by (simp add: redrive_gas_event_def redrive_is find_status_by_id_def)
  next
    case False
    then have "\<not> redrivable (object_id rowId) s" if "s \<in> set rows" for s
      using m that by (auto simp: matched_count_def split: if_splits)
    then have "update_one (redrivable (object_id rowId)) (redriven actor now) rows = rows"
      by (rule update_one_none)
    then show ?thesis using m False Some
      by (simp add: redrive_gas_event_def redrive_is find_status_by_id_def)
  qed
qed

lemma edit_result_iff:
  assumes "distinct (map qId rows)"
  shows "(\<exists>res rows'. edit_gas_event ops bytes hash box rowId edit now rows = (Inr res, rows')) \<longleftrightarrow>
    (\<exists>r. find_editable_by_id rowId rows = Some r \<and> qStatus r \<in> set redrivable_statuses
       \<and> payload_revision_of r = erRevision edit
       \<and> assert_storable bytes (erPayload edit) = Inr ()
       \<and> \<not> same_json (qEvent r) (erPayload edit))"
proof (cases "find_editable_by_id rowId rows")
  case None
  then show ?thesis
    by (simp add: edit_gas_event_def andThen_run find_editable_def is_editable_def)
next
  case (Some r)
  have m: "matched_count (\<lambda>s. redrivable (object_id rowId) s
        \<and> revision_filter (erRevision edit) (qPayloadRevision s)) rows > 0
      \<longleftrightarrow> qStatus r \<in> set redrivable_statuses \<and> payload_revision_of r = erRevision edit"
    using found_matches [OF assms Some [unfolded find_editable_by_id_def],
        of "\<lambda>s. qStatus s \<in> set redrivable_statuses \<and> revision_filter (erRevision edit) (qPayloadRevision s)"]
    by (simp add: redrivable_alt revision_filter_iff)
  show ?thesis
    using Some m
    by (auto simp: edit_gas_event_def andThen_run find_editable_def is_editable_def changes_to_def
        payload_changes_none edit_is Let_def bind_res_def split: sum.splits)
qed

lemma edit_stored:
  assumes "distinct (map qId rows)"
    and "edit_gas_event ops bytes hash box rowId edit now rows = (Inr res, rows')"
    and "find_editable_by_id rowId rows = Some r"
  shows "\<exists>r'. find_editable_by_id rowId rows' = Some r' \<and> qEvent r' = erPayload edit
    \<and> payload_revision_of r' = erRevision edit + 1 \<and> qStatus r' = qStatus r
    \<and> qOriginalPayload r' = (if qLastEdit r = None then Some (qEvent r) else qOriginalPayload r)
    \<and> qLastEdit r' \<noteq> None"
proof -
  let ?p = "\<lambda>s. redrivable (object_id rowId) s \<and> revision_filter (erRevision edit) (qPayloadRevision s)"
  let ?orig = "if qLastEdit r \<noteq> None then None else Some (qEvent r)"
  let ?f = "edit_update (erPayload edit) (erActor edit) (erNote edit) (erRevision edit) ?orig
      (columns now (erPayload edit)) now"
  have r: "r \<in> set rows" "qId r = Some (object_id rowId)"
    using find_SomeD [OF assms(3) [unfolded find_editable_by_id_def]] by auto
  have ed: "qStatus r \<in> set redrivable_statuses" "payload_revision_of r = erRevision edit"
    using edit_result_iff [OF assms(1), of bytes hash box rowId edit now] assms(2,3) by auto
  have rows': "rows' = update_one ?p ?f rows"
    using assms(2,3)
    by (auto simp: edit_gas_event_def andThen_run find_editable_def is_editable_def edit_is Let_def
        split: sum.splits if_splits)
  have pr: "?p r" using r ed by (simp add: redrivable_def revision_filter_iff)
  have "update_one ?p ?f rows = update_many ?p ?f rows"
    by (rule update_one_unique [OF assms(1)]) (simp add: redrivable_def)
  then have in': "?f r \<in> set rows'" using rows' r(1) pr by (auto simp: set_update_many)
  have idf: "qId (?f s) = qId s" for s
    using columns_is(1) by (auto simp: edit_update_def same_columns_def)
  have "distinct (map qId rows')" unfolding rows' using assms(1) idf by (simp add: map_update_one)
  moreover have "qId (?f r) = Some (object_id rowId)" using idf r by simp
  ultimately have f: "find_editable_by_id rowId rows' = Some (?f r)"
    unfolding find_editable_by_id_def using in'
    by (intro find_unique) (auto simp: distinct_map inj_on_def)
  show ?thesis
    by (rule exI [of _ "?f r"])
      (use f columns_is in \<open>auto simp: edit_update_def payload_revision_of_def same_columns_def\<close>)
qed

end

interpretation inbox_admin: operated_box "inbox_ops cfg jm"
  "\<lambda>by now r. (redrive_update by now r)\<lparr>ibRetryable := True\<rparr>" "qcRetentionDays cfg"
  "inbox_event_columns cfg" for cfg jm
  by unfold_locales
    (simp_all add: inbox_ops_def inbox_redrive_by_id_def inbox_purge_by_id_def
      inbox_edit_payload_by_id_def Let_def redrivable_alt same_columns_def inbox_event_columns_def)

interpretation outbox_admin: operated_box "outbox_ops cfg jm" redrive_update "qcRetentionDays cfg"
  "\<lambda>_ _ r. r" for cfg jm
  by unfold_locales
    (simp_all add: outbox_ops_def outbox_redrive_by_id_def outbox_purge_by_id_def
      outbox_edit_payload_by_id_def Let_def redrivable_alt same_columns_def)

end
