(* ===== verification/QueueProperties.thy ===== *)
theory QueueProperties
  imports EventAdmin
begin

text \<open>
  The properties of the inbox, the outbox, their pollers, the locks and the operators' actions,
  each with a concrete instance on a small inbox.
\<close>

section \<open>Samples\<close>

definition sample_config :: queue_config where
  "sample_config = \<lparr>qcMaxRetries = 3, qcClaimMaxRecords = 2, qcExpiresMs = 1000, qcRetentionDays = 90,
     qcFifoTtlMs = 5000, qcStackOf = (\<lambda>_. []), qcErrorKey = (\<lambda>n m. n),
     qcParseDate = (\<lambda>v. case v of JNum (Finite m d e) \<Rightarrow> Some m | _ \<Rightarrow> None)\<rparr>"

definition sample_event :: "int \<Rightarrow> json" where
  "sample_event t = JObj [(''type'', JStr ''status''), (''time'', JNum (Finite t 0 0)),
     (''data'', JObj [(''caseRef'', JStr ''c1''), (''workflowCode'', JStr ''wood'')])]"

definition sample_row :: "nat \<Rightarrow> int \<Rightarrow> event_status \<Rightarrow> nat \<Rightarrow> inbox_row" where
  "sample_row n t status attempts =
     \<lparr>qId = Some n, qPublicationDate = t, qEvent = sample_event t, qLastResubmissionDate = None,
      qLastError = None, qErrorKey = None, qAttemptHistory = [], qCompletionAttempts = attempts,
      qStatus = status, qCompletionDate = None, qExpireAt = None, qLastRedrive = None,
      qClaimedBy = None, qClaimedAt = None, qClaimExpiresAt = None, qSegregationRef = ''c1-wood'',
      qEventType = None, qRefs = [], qPayloadRevision = None, qLastEdit = None,
      qOriginalPayload = None, qLastPurge = None, ibTraceparent = None, ibSource = ''CW'',
      ibType = Some ''status'', ibMessageId = Some ''m1'', ibRetryable = True, ibEventTime = t\<rparr>"

definition sample_outbox_row :: outbox_row where
  "sample_outbox_row =
     \<lparr>qId = Some 1, qPublicationDate = 5, qEvent = sample_event 5, qLastResubmissionDate = None,
      qLastError = None, qErrorKey = None, qAttemptHistory = [], qCompletionAttempts = 0,
      qStatus = PUBLISHED, qCompletionDate = None, qExpireAt = None, qLastRedrive = None,
      qClaimedBy = None, qClaimedAt = None, qClaimExpiresAt = None, qSegregationRef = ''c1-wood'',
      qEventType = None, qRefs = [], qPayloadRevision = None, qLastEdit = None,
      qOriginalPayload = None, qLastPurge = None, obTarget = ''topic''\<rparr>"






section \<open>Rows under any interleaving\<close>





section \<open>Claims, sweeps and ticks\<close>

text \<open>
  C39. A claim of the inbox takes, of the free rows of one segregation reference, the earliest by
  event time, in that order and up to the configured number.
\<close>

theorem claims_first_in_first_out:
  assumes "distinct (map qId rows)"
  shows "fst (inbox_claim_events cfg jm now token ref rows) =
    map_res (inbox_from_document cfg jm now) (map (claimed_row cfg now token)
      (take (qcClaimMaxRecords cfg) (sort_key ibEventTime (filter (eligible cfg ref) rows))))"
  using claim_rows_fifo [OF assms, of ibEventTime cfg now token ref "qcClaimMaxRecords cfg"]
  by (simp add: inbox_claim_events_def Let_def split_beta)

theorem claims_first_in_first_out_witness:
  "\<exists>a b. fst (inbox_claim_events sample_config [] 9 ''tok'' ''c1-wood''
      [sample_row 1 6 PUBLISHED 0, sample_row 2 5 PUBLISHED 0, sample_row 3 4 FAILED 1]) = Inr [a, b]
    \<and> qId a = Some 2 \<and> qId b = Some 1"
proof -
  let ?rows = "[sample_row 1 6 PUBLISHED 0, sample_row 2 5 PUBLISHED 0, sample_row 3 4 FAILED 1]"
  have d: "distinct (map qId ?rows)" by (simp add: sample_row_def)
  show ?thesis unfolding claims_first_in_first_out [OF d]
    by (simp add: sample_row_def eligible_def free_row_def sample_config_def claimed_row_def
        inbox_from_document_def new_inbox_def inbox_schema_def is_object_def sample_event_def)
qed

text \<open>
  C40. A failed row is never stuck: the sweeps of one tick dead-letter it when its attempts are used
  up, and the sweeps of two ticks publish it again, unclaimed and with its attempts kept,
  when they are not.
\<close>

theorem failed_rows_progress:
  assumes "i < length rows" and "qStatus (rows ! i) = FAILED" and "row_ok cfg (rows ! i)"
  shows "if qCompletionAttempts (rows ! i) < qcMaxRetries cfg
    then free_row cfg (run_sweeps cfg t2 (run_sweeps cfg t1 rows) ! i)
      \<and> qCompletionAttempts (run_sweeps cfg t2 (run_sweeps cfg t1 rows) ! i) = qCompletionAttempts (rows ! i)
    else qStatus (run_sweeps cfg t1 rows ! i) = DEAD_LETTER"
proof -
  let ?r = "rows ! i"
  have c: "qClaimExpiresAt ?r = None" using assms(2,3) by (simp add: row_ok_def)
  have one: "run_sweeps cfg t1 rows ! i = sweep_row cfg t1 ?r"
    and two: "run_sweeps cfg t2 (run_sweeps cfg t1 rows) ! i = sweep_row cfg t2 (sweep_row cfg t1 ?r)"
    using assms(1) by (simp_all add: run_sweeps_map)
  show ?thesis unfolding one two
    by (simp add: sweep_row_failed [OF assms(2) c] sweep_row_resubmitted free_row_def)
qed

theorem failed_rows_progress_witness:
  "free_row sample_config (run_sweeps sample_config 9 (run_sweeps sample_config 8 [sample_row 1 5 FAILED 1]) ! 0)"
proof -
  have "qStatus ([sample_row 1 5 FAILED 1] ! 0) = FAILED" "row_ok sample_config ([sample_row 1 5 FAILED 1] ! 0)"
    "qCompletionAttempts ([sample_row 1 5 FAILED 1] ! 0) < qcMaxRetries sample_config"
    by (simp_all add: sample_row_def row_ok_def sample_config_def max_attempt_history_def)
  then show ?thesis
    using failed_rows_progress [of 0 "[sample_row 1 5 FAILED 1]" sample_config 9 8] by simp
qed

text \<open>
  A tick of either poller ends: looking for the next reference dead-letters rows without one,
  and there are finitely many.
\<close>

theorem ticks_end:
  assumes "distinct (map qId rows)" and "distinct (map qId rows')"
  shows "(\<exists>st. inbox_poll_tick cfg jm now dispatch token (rows, locks) = Some st)
    \<and> (\<exists>st. outbox_poll_tick cfg jm now d token (rows', locks) = Some st)"
  using poll_tick_ends [OF assms(1)] poll_tick_ends [OF assms(2)]
  by (auto simp: inbox_poll_tick_def outbox_poll_tick_def)

theorem ticks_end_witness:
  "\<exists>st. inbox_poll_tick sample_config [] 9 (\<lambda>_. Inr ()) ''tok'' ([sample_row 1 5 PUBLISHED 0], []) = Some st"
proof -
  have "distinct (map qId [sample_row 1 5 PUBLISHED 0])" "distinct (map qId [sample_outbox_row])" by simp_all
  from ticks_end [OF this, of sample_config "[]" 9 "\<lambda>_. Inr ()" "''tok''" "[]"] show ?thesis by blast
qed

text \<open>
  A handler that outlived its claim writes nothing: once the sweep has failed the expired claim,
  an update under its token matches no row and leaves the inbox as it is.
\<close>

theorem late_handler_writes_nothing:
  assumes "distinct (map qId rows)" and "r \<in> set rows" and "qId ev = qId r"
    and "qStatus r = PROCESSING" and "qClaimExpiresAt r = Some t" and "t < now"
  shows "inbox_update cfg ev token (process_expired_events cfg now rows) = (0, process_expired_events cfg now rows)"
proof (rule inbox_update_lost)
  fix s assume s: "s \<in> set (process_expired_events cfg now rows)" "qId s = qId ev"
  have e: "claim_expired now r" using assms(4-6) by (simp add: claim_expired_def final_statuses_def)
  have "s = expired_row cfg now r"
  proof -
    have idx: "x = r" if "x \<in> set rows" "qId x = qId r" for x
      using assms(1,2) that by (auto simp: distinct_map inj_on_def)
    obtain x where x: "x \<in> set rows" "s = (if claim_expired now x then expired_row cfg now x else x)"
      using s(1) by (auto simp: process_expired_events_def update_many_def)
    have "qId x = qId s" by (simp add: x(2) expired_row_def)
    then have "x = r" using idx x(1) s(2) assms(3) by metis
    then show ?thesis using x(2) e by simp
  qed
  then show "qClaimedBy s \<noteq> Some token" by (simp add: expired_row_def)
qed

theorem late_handler_writes_nothing_witness:
  "fst (inbox_update sample_config (sample_row 1 5 PROCESSING 0) ''tok''
     (process_expired_events sample_config 2000
       [claimed_row sample_config 7 ''tok'' (sample_row 1 5 PUBLISHED 0)])) = 0"
proof -
  let ?r = "claimed_row sample_config 7 ''tok'' (sample_row 1 5 PUBLISHED 0)"
  have "distinct (map qId [?r])" "?r \<in> set [?r]" "qId (sample_row 1 5 PROCESSING 0) = qId ?r"
    "qStatus ?r = PROCESSING" "qClaimExpiresAt ?r = Some 1007" "(1007::int) < 2000"
    by (simp_all add: claimed_row_def sample_row_def sample_config_def)
  then show ?thesis using late_handler_writes_nothing by (metis fst_conv)
qed

section \<open>Storing and receiving\<close>

text \<open>
  An inbox object, new, completed or failed, is read back from its stored document exactly as
  it was: no field the class holds is lost on the way.
\<close>

theorem inbox_roundtrip:
  assumes "new_inbox cfg jm t0 p = Inr r" and "to_epoch_ms cfg (field_of ''time'' (ipEvent p)) \<noteq> None"
    and "x \<in> {r, inbox_mark_as_complete cfg t1 r, inbox_mark_as_failed cfg t1 e r}"
  shows "inbox_from_document cfg jm t2 (inbox_to_document cfg x) = Inr x"
  using assms(3) new_inbox_object [OF assms(1,2)] inbox_marks_object inbox_document_roundtrip by blast

theorem inbox_roundtrip_witness:
  "\<exists>r. inbox_from_document sample_config [] 9 (inbox_to_document sample_config
      (inbox_mark_as_failed sample_config 8 (Some TypeError) r))
    = Inr (inbox_mark_as_failed sample_config 8 (Some TypeError) r)"
proof -
  let ?p = "\<lparr>ipId = None, ipPublicationDate = None, ipTraceparent = None, ipSource = ''CW'', ipType = None,
    ipEvent = sample_event 5, ipMessageId = None, ipLastResubmissionDate = None, ipLastError = None,
    ipAttemptHistory = None, ipCompletionAttempts = None, ipStatus = None, ipRetryable = None,
    ipCompletionDate = None, ipExpireAt = None, ipLastRedrive = None, ipSegregationRef = ''c1-wood'',
    ipEventType = None, ipRefs = None\<rparr>"
  obtain r where r: "new_inbox sample_config [] 7 ?p = Inr r"
    by (simp add: new_inbox_def inbox_schema_def is_object_def sample_event_def)
  have "to_epoch_ms sample_config (field_of ''time'' (ipEvent ?p)) \<noteq> None"
    by (simp add: to_epoch_ms_def field_of_def sample_event_def sample_config_def)
  from inbox_roundtrip [OF r this, of _ 8 "Some TypeError" 9] show ?thesis by blast
qed

text \<open>
  A message delivered again after it was saved is not stored a second time: the second save
  answers normally and changes nothing, whatever its data.
\<close>

theorem message_saved_once:
  assumes "save_inbox_message cfg jm stamps now newId m source ref rows = (Inr (), rows')"
    and "imId m' = imId m"
  shows "save_inbox_message cfg' jm' stamps' now' newId' m' source' ref' rows' = (Inr (), rows')"
  using save_inbox_message_seen save_inbox_message_stores [OF assms(1)] assms(2) by metis

definition sample_message :: inbound_message where
  "sample_message = \<lparr>imId = Some ''m1'', imType = Some ''status'', imTraceparent = None, imEvent = sample_event 5\<rparr>"

theorem message_saved_once_witness:
  "\<exists>rows. save_inbox_message sample_config [] (\<lambda>_ _. (''t'', [])) 8 2 sample_message ''CW'' None rows = (Inr (), rows)
    \<and> length rows = 1"
proof -
  have "\<exists>rows. save_inbox_message sample_config [] (\<lambda>_ _. (''t'', [])) 7 1 sample_message ''CW'' None [] = (Inr (), rows)
      \<and> length rows = 1"
    by (simp add: save_inbox_message_def inbox_find_by_message_id_def andThen_run inbox_segregation_ref_def
        field_of_def sample_message_def sample_event_def get_message_group_id_def truthy_text_def
        new_inbox_def inbox_schema_def is_object_def inbox_insert_one_def)
  then obtain rows where r: "save_inbox_message sample_config [] (\<lambda>_ _. (''t'', [])) 7 1 sample_message ''CW'' None [] = (Inr (), rows)"
    "length rows = 1"
    by blast
  show ?thesis using message_saved_once [OF r(1) refl] r(2) by blast
qed

text \<open>
  One worker per segregation reference: after a lock was taken every further attempt to take it
  fails and changes nothing, until it is freed, and then the next one succeeds.
\<close>

theorem lock_excludes:
  assumes "locks_unique locks" and "set_fifo_lock now actor ref locks = (Inr (), locks')"
  shows "(\<exists>e. set_fifo_lock now' actor ref locks' = (Inl e, locks'))
    \<and> (\<exists>l. set_fifo_lock now' actor ref (free_fifo_lock actor ref locks') = (Inr (), l))"
proof -
  have a: "acquire_lock now (actor, ref) locks = (Inr (), locks')"
    using assms(2) by (simp add: acquire_lock_def)
  have u: "locks_unique locks'" by (rule locks_unique_set [OF assms])
  have "lock_taken (actor, ref) locks'"
    using held_set [OF assms] by (simp add: lock_taken_def)
  then obtain e where "acquire_lock now' (actor, ref) locks' = (Inl e, locks')"
    using fifo.acquire_taken [OF u] by blast
  moreover obtain l where "acquire_lock now' (actor, ref) (release_lock (actor, ref) locks') = (Inr (), l)"
    using fifo.release_acquire [OF u] by blast
  ultimately show ?thesis by (auto simp: acquire_lock_def release_lock_def)
qed

theorem lock_excludes_witness:
  "\<exists>e l. set_fifo_lock 8 ''INBOX'' ''c1'' (snd (set_fifo_lock 7 ''INBOX'' ''c1'' [])) = (Inl e, l)"
proof -
  have "locks_unique []" "set_fifo_lock 7 ''INBOX'' ''c1'' [] = (Inr (), snd (set_fifo_lock 7 ''INBOX'' ''c1'' []))"
    by (simp_all add: locks_unique_def set_fifo_lock_def)
  from lock_excludes [OF this, of 8] show ?thesis by blast
qed

section \<open>Operators\<close>

text \<open>
  A redrive of an inbox row succeeds exactly when the row is a dead letter or purged, and then it
  is resubmitted with no attempts against it; otherwise it is refused, with 404 for a missing row
  and 409 for any other, and nothing changes.
\<close>

theorem redrive_outcome:
  assumes "distinct (map qId rows)"
  shows "redrive_gas_event (inbox_ops cfg jm) box rowId actor now rows =
    (case find_status_by_id rowId rows of
       None \<Rightarrow> (Inl (event_not_found box rowId), rows)
     | Some s \<Rightarrow>
         if s = DEAD_LETTER \<or> s = PURGED
         then (Inr (), update_one (redrivable (object_id rowId))
                (\<lambda>r. (redrive_update actor now r)\<lparr>ibRetryable := True\<rparr>) rows)
         else (Inl (redrive_conflict (''gas '' @ box) rowId s), rows))"
  unfolding inbox_admin.redrive_result [OF assms] by (simp add: redrivable_statuses_def split: option.splits)

theorem redrive_outcome_witness:
  "fst (redrive_gas_event (inbox_ops sample_config []) ''inbox'' ''01'' None 9 [sample_row 1 5 DEAD_LETTER 3]) = Inr ()"
proof -
  have d: "distinct (map qId [sample_row 1 5 DEAD_LETTER 3])" by simp
  show ?thesis unfolding redrive_outcome [OF d]
    by (simp add: find_status_by_id_def object_id_def sample_row_def Let_def)
qed

text \<open>
  A payload edit succeeds exactly when the row is a dead letter or purged, still at the revision
  the operator was shown, and the payload can be stored and differs from the one there. Then the
  payload is stored under the next revision, and the first edit keeps the original.
\<close>

theorem edit_outcome:
  assumes "distinct (map qId rows)" and "find_editable_by_id rowId rows = Some r"
    and "qStatus r = DEAD_LETTER \<or> qStatus r = PURGED"
    and "payload_revision_of r = erRevision edit"
    and "assert_storable bytes (erPayload edit) = Inr ()"
    and "\<not> same_json (qEvent r) (erPayload edit)"
  shows "\<exists>res rows' r'. edit_gas_event (inbox_ops cfg jm) bytes hash box rowId edit now rows = (Inr res, rows')
    \<and> find_editable_by_id rowId rows' = Some r' \<and> qEvent r' = erPayload edit
    \<and> payload_revision_of r' = erRevision edit + 1 \<and> qStatus r' = qStatus r
    \<and> qOriginalPayload r' = (if qLastEdit r = None then Some (qEvent r) else qOriginalPayload r)"
proof -
  have "\<exists>res rows'. edit_gas_event (inbox_ops cfg jm) bytes hash box rowId edit now rows = (Inr res, rows')"
    unfolding inbox_admin.edit_result_iff [OF assms(1)]
    using assms(2-6) by (auto simp: redrivable_statuses_def)
  then show ?thesis using inbox_admin.edit_stored [OF assms(1) _ assms(2)] by blast
qed

definition sample_edit :: edit_request where
  "sample_edit = \<lparr>erActor = None, erPayload = sample_event 6, erNote = ''fix'', erRevision = 0\<rparr>"

theorem edit_outcome_witness:
  "\<exists>res rows' r'. edit_gas_event (inbox_ops sample_config []) (\<lambda>_. 10) (\<lambda>_. []) ''inbox'' ''01'' sample_edit 9
      [sample_row 1 5 DEAD_LETTER 3] = (Inr res, rows')
    \<and> find_editable_by_id ''01'' rows' = Some r' \<and> qOriginalPayload r' = Some (sample_event 5)"
proof -
  let ?r = "sample_row 1 5 DEAD_LETTER 3"
  have "distinct (map qId [?r])" "find_editable_by_id ''01'' [?r] = Some ?r"
    "qStatus ?r = DEAD_LETTER \<or> qStatus ?r = PURGED" "payload_revision_of ?r = erRevision sample_edit"
    "assert_storable (\<lambda>_. 10) (erPayload sample_edit) = Inr ()" "\<not> same_json (qEvent ?r) (erPayload sample_edit)"
    by (simp_all add: find_editable_by_id_def object_id_def sample_row_def payload_revision_of_def
        sample_edit_def assert_storable_def is_object_def payload_max_bytes_def sample_event_def
        starts_with_def Let_def)
  from edit_outcome [OF this, of sample_config "[]" "\<lambda>_. []" "''inbox''" 9] show ?thesis
    by (auto simp: sample_row_def)
qed

text \<open>
  Two operators who were shown the same revision cannot both save: after one edit, the second is
  refused as stale and the first one's payload stays.
\<close>

theorem second_edit_is_stale:
  assumes "distinct (map qId rows)"
    and "edit_gas_event (inbox_ops cfg jm) bytes hash box rowId edit now rows = (Inr res, rows')"
    and "erRevision edit' = erRevision edit"
  shows "edit_gas_event (inbox_ops cfg jm) bytes hash box rowId edit' now' rows' =
    (Inl (stale_edit (''gas '' @ box) rowId), rows')"
proof -
  obtain r where r: "find_editable_by_id rowId rows = Some r" "qStatus r \<in> set redrivable_statuses"
    using inbox_admin.edit_result_iff [OF assms(1), of cfg jm bytes hash box rowId edit now] assms(2) by blast
  obtain r' where r': "find_editable_by_id rowId rows' = Some r'"
    "payload_revision_of r' = erRevision edit + 1" "qStatus r' = qStatus r"
    using inbox_admin.edit_stored [OF assms(1,2) r(1)] by blast
  show ?thesis using r(2) r' assms(3)
    by (simp add: edit_gas_event_def andThen_run find_editable_def is_editable_def edit_refusal_for_def)
qed

theorem second_edit_is_stale_witness:
  "\<exists>rows'. edit_gas_event (inbox_ops sample_config []) (\<lambda>_. 10) (\<lambda>_. []) ''inbox'' ''01'' sample_edit 10 rows' =
    (Inl (stale_edit ''gas inbox'' ''01''), rows')"
proof -
  let ?r = "sample_row 1 5 DEAD_LETTER 3"
  have d: "distinct (map qId [?r])" by simp
  have "\<exists>res rows'. edit_gas_event (inbox_ops sample_config []) (\<lambda>_. 10) (\<lambda>_. []) ''inbox'' ''01'' sample_edit 9 [?r] = (Inr res, rows')"
    unfolding inbox_admin.edit_result_iff [OF d]
    by (simp add: find_editable_by_id_def object_id_def sample_row_def payload_revision_of_def
        sample_edit_def assert_storable_def is_object_def payload_max_bytes_def sample_event_def
        starts_with_def Let_def redrivable_statuses_def)
  then obtain res rows' where "edit_gas_event (inbox_ops sample_config []) (\<lambda>_. 10) (\<lambda>_. []) ''inbox'' ''01'' sample_edit 9 [?r] = (Inr res, rows')"
    by blast
  from second_edit_is_stale [OF d this refl, of 10] show ?thesis by auto
qed

text \<open>
  The paths reported of an edit are none exactly when the two payloads are the same, key order
  and the spelling of numbers apart, and never more than the cap.
\<close>

theorem changed_paths_complete:
  "(fst (payload_changes before after) = [] \<longleftrightarrow> same_json before after)
    \<and> length (fst (payload_changes before after)) \<le> changed_paths_max"
  using payload_changes_none payload_changes_bound by blast

end
