(* ===== verification/Lifecycle.thy ===== *)
theory Lifecycle
  imports Prelude
begin

text \<open>
  The lifecycle a grant definition declares (\<open>src/grants/models\<close>: position, valid-from, status,
  stage, phase, unique-codes, grant-lifecycle, external-status-mapping, external-status-map and
  lifecycle-phases): phases of stages of statuses, the positions they span, which codes a status
  may be entered from, and the map from another service's statuses. The first group is the plain
  data, as the Joi schemas shape it; the second the classes that hold a published definition to
  its rules. The code calls two functions given by its callers, \<open>isKnownProcess\<close> and
  \<open>compileQuestions\<close>; they are arguments here.
\<close>

section \<open>Positions\<close>

record position =
  posPhase :: string
  posStage :: string
  posStatus :: string

definition position_to_string :: "position \<Rightarrow> string" where
  "position_to_string p = posPhase p @ '':'' @ posStage p @ '':'' @ posStatus p"

definition position_parse :: "string \<Rightarrow> position option" where
  "position_parse value =
     (case split_on CHR '':'' value of
        [phase, stage, status] \<Rightarrow> Some \<lparr>posPhase = phase, posStage = stage, posStatus = status\<rparr>
      | _ \<Rightarrow> None)"

definition position_equals :: "position \<Rightarrow> position option \<Rightarrow> bool" where
  "position_equals p other =
     (case other of None \<Rightarrow> False
      | Some q \<Rightarrow> posPhase p = posPhase q \<and> posStage p = posStage q \<and> posStatus p = posStatus q)"

lemma position_equals_iff [simp]: "position_equals p other \<longleftrightarrow> other = Some p"
  by (cases other) (auto simp: position_equals_def)

text \<open>A position can be read back from its text when none of its codes holds a colon.\<close>

definition plain_code :: "string \<Rightarrow> bool" where
  "plain_code s \<longleftrightarrow> CHR '':'' \<notin> set s"

definition plain_position :: "position \<Rightarrow> bool" where
  "plain_position p \<longleftrightarrow> plain_code (posPhase p) \<and> plain_code (posStage p) \<and> plain_code (posStatus p)"

lemma position_to_string_join:
  "position_to_string p = join '':'' [posPhase p, posStage p, posStatus p]"
  by (simp add: position_to_string_def)

lemma split_position:
  assumes "plain_position p"
  shows "split_on CHR '':'' (position_to_string p) = [posPhase p, posStage p, posStatus p]"
  unfolding position_to_string_join
  using assms by (intro join_split_on) (auto simp: plain_position_def plain_code_def)

lemma parse_to_string: "plain_position p \<Longrightarrow> position_parse (position_to_string p) = Some p"
  by (simp add: position_parse_def split_position)

lemma position_parse_Some:
  "position_parse s = Some p \<longleftrightarrow> split_on CHR '':'' s = [posPhase p, posStage p, posStatus p]"
  by (cases p) (simp add: position_parse_def split: list.split)

lemma to_string_parse: "position_parse s = Some p \<Longrightarrow> position_to_string p = s"
  using split_on_join [of "CHR '':''" s] by (simp add: position_parse_Some position_to_string_join)

lemma parse_plain:
  assumes "position_parse s = Some p"
  shows "plain_position p"
proof -
  have "CHR '':'' \<notin> set x" if "x \<in> {posPhase p, posStage p, posStatus p}" for x
    using that assms by (intro split_on_no_sep [where s = s]) (auto simp: position_parse_Some)
  then show ?thesis by (simp add: plain_position_def plain_code_def)
qed

lemma position_to_string_inject:
  assumes "plain_position p" and "plain_position q"
  shows "position_to_string p = position_to_string q \<longleftrightarrow> p = q"
  using assms parse_to_string by (metis option.inject)

section \<open>The data of a definition\<close>

text \<open>
  \<open>processes\<close> of a stored status may be a list or, in old documents, a single string; the
  \<open>Status\<close> class also answers for any other value.
\<close>

datatype processes_value = ProcessList "string list" | ProcessString string | ProcessOther

record valid_from =
  vfCode :: string
  vfProcesses :: "string list"

record status_def =
  sdCode :: string
  sdName :: "string option"
  sdValidFrom :: "valid_from list option"
  sdProcesses :: "processes_value option"

record stage_def =
  tgCode :: string
  tgName :: "string option"
  tgStatuses :: "status_def list"

record 'q phase_def =
  phCode :: string
  phName :: "string option"
  phStages :: "stage_def list"
  phQuestions :: "'q option"

record external_status =
  exCode :: string
  exSource :: string
  exMappedTo :: "string option"

record external_stage =
  esCode :: string
  esStatuses :: "external_status list"

record external_phase =
  epCode :: string
  epStages :: "external_stage list"

text \<open>The external status map, absent for a grant with none.\<close>

type_synonym external_status_map = "external_phase list option"

section \<open>Unique codes\<close>

definition assert_unique_codes :: "string list \<Rightarrow> (string \<Rightarrow> string) \<Rightarrow> unit res" where
  "assert_unique_codes codes describe =
     (case first_repeat [] codes of
        Some code \<Rightarrow> Inl (Boom BadImplementation (describe code @ '' is defined more than once'') [])
      | None \<Rightarrow> Inr ())"

lemma assert_unique_codes_ok [ok_iff]: "assert_unique_codes codes d = Inr () \<longleftrightarrow> distinct codes"
proof -
  have "first_repeat [] codes = None \<longleftrightarrow> distinct codes" by (simp add: first_repeat_None)
  then show ?thesis
    by (cases "first_repeat [] codes") (auto simp: assert_unique_codes_def)
qed

section \<open>ValidFrom\<close>

datatype matched_by = ByPosition | ByStatus

definition valid_from_matched_by :: "valid_from \<Rightarrow> matched_by" where
  "valid_from_matched_by v = (if CHR '':'' \<in> set (vfCode v) then ByPosition else ByStatus)"

definition valid_from_matches :: "valid_from \<Rightarrow> string \<Rightarrow> bool" where
  "valid_from_matches v position =
     (if valid_from_matched_by v = ByPosition then vfCode v = position
      else vfCode v = last (split_on CHR '':'' position))"

lemma last_split_position:
  "plain_position p \<Longrightarrow> last (split_on CHR '':'' (position_to_string p)) = posStatus p"
  by (simp add: split_position)

lemma valid_from_matches_position:
  assumes "plain_position p"
  shows "valid_from_matches v (position_to_string p) \<longleftrightarrow>
    vfCode v = position_to_string p \<or> plain_code (vfCode v) \<and> vfCode v = posStatus p"
proof -
  have "CHR '':'' \<in> set (position_to_string p)" by (simp add: position_to_string_def)
  then show ?thesis
    using last_split_position [OF assms] assms
    by (auto simp: valid_from_matches_def valid_from_matched_by_def plain_code_def plain_position_def)
qed

section \<open>Status\<close>

record status_obj =
  soCode :: string
  soPosition :: position
  soValidFrom :: "valid_from list"
  soProcessesOnEntering :: "string list"

fun processes_length :: "processes_value \<Rightarrow> nat" where
  "processes_length (ProcessList ps) = length ps"
| "processes_length (ProcessString s) = length s"
| "processes_length ProcessOther = 0"

definition status_label :: "position \<Rightarrow> string" where
  "status_label p = ''status '' @ quoted (position_to_string p)"

definition assert_own_processes_run ::
  "position \<Rightarrow> valid_from list \<Rightarrow> processes_value option \<Rightarrow> unit res" where
  "assert_own_processes_run p validFrom processes =
     (if 0 < length validFrom \<and> (\<exists>v\<in>set_option processes. 0 < processes_length v)
      then Inl (Boom BadImplementation (status_label p
        @ '' has its own processes, which would never run because it has validFrom'') [])
      else Inr ())"

fun own_processes :: "position \<Rightarrow> processes_value option \<Rightarrow> string list res" where
  "own_processes p None = Inr []"
| "own_processes p (Some (ProcessString _)) = Inr []"
| "own_processes p (Some ProcessOther) =
     Inl (Boom BadImplementation (status_label p @ '' has processes that are not a list'') [])"
| "own_processes p (Some (ProcessList ps)) = Inr ps"

definition processes_on_entering ::
  "position \<Rightarrow> valid_from list \<Rightarrow> processes_value option \<Rightarrow> string list res" where
  "processes_on_entering p validFrom processes =
     (if 0 < length validFrom then Inr (concat (map vfProcesses validFrom))
      else own_processes p processes)"

definition assert_processes_known :: "(string \<Rightarrow> bool) \<Rightarrow> position \<Rightarrow> string list \<Rightarrow> unit res" where
  "assert_processes_known isKnownProcess p processesOnEntering =
     (case find (\<lambda>process. \<not> isKnownProcess process) processesOnEntering of
        Some unknown \<Rightarrow> Inl (Boom BadImplementation
          (status_label p @ '' runs unknown process '' @ quoted unknown) [])
      | None \<Rightarrow> Inr ())"

definition new_status :: "(string \<Rightarrow> bool) \<Rightarrow> position \<Rightarrow> status_def \<Rightarrow> status_obj res" where
  "new_status isKnownProcess p d =
     (let validFrom = (case sdValidFrom d of None \<Rightarrow> [] | Some vs \<Rightarrow> vs) in
      bind_res (assert_own_processes_run p validFrom (sdProcesses d)) (\<lambda>_.
      bind_res (processes_on_entering p validFrom (sdProcesses d)) (\<lambda>processes.
      bind_res (assert_processes_known isKnownProcess p processes) (\<lambda>_.
      Inr \<lparr>soCode = sdCode d, soPosition = p, soValidFrom = validFrom,
           soProcessesOnEntering = processes\<rparr>))))"

definition assert_valid_from_resolves :: "position \<Rightarrow> position list \<Rightarrow> valid_from \<Rightarrow> unit res" where
  "assert_valid_from_resolves p positions entry =
     (if list_ex (\<lambda>q. valid_from_matches entry (position_to_string q)) positions then Inr ()
      else Inl (Boom BadImplementation (status_label p @ '' is valid from '' @ quoted (vfCode entry)
        @ '' which does not match any position in '' @ quoted ''phases'') []))"

definition assert_valid_from_resolves_in :: "status_obj \<Rightarrow> position list \<Rightarrow> unit res" where
  "assert_valid_from_resolves_in s positions =
     for_each (assert_valid_from_resolves (soPosition s) positions) (soValidFrom s)"

lemma new_status_ok:
  "new_status known p d = Inr s \<Longrightarrow>
     soCode s = sdCode d \<and> soPosition s = p
     \<and> soValidFrom s = (case sdValidFrom d of None \<Rightarrow> [] | Some vs \<Rightarrow> vs)
     \<and> list_all known (soProcessesOnEntering s)"
  by (auto simp: new_status_def Let_def bind_res_Inr assert_processes_known_def find_None_iff
      list_all_iff split: option.splits)

lemma new_status_processes:
  "new_status known p d = Inr s \<Longrightarrow>
     soProcessesOnEntering s =
       (if soValidFrom s = [] then (case sdProcesses d of Some (ProcessList ps) \<Rightarrow> ps | _ \<Rightarrow> [])
        else concat (map vfProcesses (soValidFrom s)))"
  by (auto simp: new_status_def Let_def bind_res_Inr processes_on_entering_def
      split: option.splits processes_value.splits if_splits)

lemma assert_valid_from_resolves_in_ok [ok_iff]:
  "assert_valid_from_resolves_in s ps = Inr () \<longleftrightarrow>
     (\<forall>v\<in>set (soValidFrom s). \<exists>q\<in>set ps. valid_from_matches v (position_to_string q))"
  by (auto simp: assert_valid_from_resolves_in_def for_each_Inr assert_valid_from_resolves_def
      list_ex_iff split: if_splits)

section \<open>Stage and phase\<close>

record stage_obj =
  toCode :: string
  toStatuses :: "status_obj list"

record 'q phase_obj =
  poCode :: string
  poStages :: "stage_obj list"
  poQuestions :: "'q option"

definition new_stage :: "(string \<Rightarrow> bool) \<Rightarrow> string \<Rightarrow> stage_def \<Rightarrow> stage_obj res" where
  "new_stage isKnownProcess phaseCode d =
     bind_res (assert_unique_codes (map sdCode (tgStatuses d))
       (\<lambda>statusCode. ''status '' @ quoted (phaseCode @ '':'' @ tgCode d @ '':'' @ statusCode))) (\<lambda>_.
     bind_res (map_res (\<lambda>status. new_status isKnownProcess
         \<lparr>posPhase = phaseCode, posStage = tgCode d, posStatus = sdCode status\<rparr> status)
       (tgStatuses d)) (\<lambda>statuses.
     Inr \<lparr>toCode = tgCode d, toStatuses = statuses\<rparr>))"

definition has_questions :: "'q phase_obj \<Rightarrow> bool" where
  "has_questions p \<longleftrightarrow> poQuestions p \<noteq> None"

definition assert_questions_compile :: "('q \<Rightarrow> unit res) \<Rightarrow> 'q phase_obj \<Rightarrow> unit res" where
  "assert_questions_compile compileQuestions p =
     (case poQuestions p of None \<Rightarrow> Inr ()
      | Some qs \<Rightarrow> (case compileQuestions qs of Inr _ \<Rightarrow> Inr ()
        | Inl error \<Rightarrow> Inl (Boom BadImplementation (''phase '' @ quoted (poCode p)
            @ '' questions cannot be compiled: '' @ error_message error) [])))"

definition new_phase ::
  "(string \<Rightarrow> bool) \<Rightarrow> ('q \<Rightarrow> unit res) \<Rightarrow> 'q phase_def \<Rightarrow> 'q phase_obj res" where
  "new_phase isKnownProcess compileQuestions d =
     bind_res (assert_unique_codes (map tgCode (phStages d))
       (\<lambda>stageCode. ''stage '' @ quoted (phCode d @ '':'' @ stageCode))) (\<lambda>_.
     bind_res (map_res (new_stage isKnownProcess (phCode d)) (phStages d)) (\<lambda>stages.
     let phase = \<lparr>poCode = phCode d, poStages = stages, poQuestions = phQuestions d\<rparr> in
     bind_res (assert_questions_compile compileQuestions phase) (\<lambda>_. Inr phase)))"

lemma new_stage_ok:
  "new_stage known ph d = Inr s \<Longrightarrow> toCode s = tgCode d \<and> distinct (map sdCode (tgStatuses d)) \<and>
     list_all2 (\<lambda>x y. new_status known \<lparr>posPhase = ph, posStage = tgCode d, posStatus = sdCode x\<rparr> x
       = Inr y) (tgStatuses d) (toStatuses s)"
  by (auto simp: new_stage_def ok_iff)

lemma new_phase_ok:
  "new_phase known compileq d = Inr p \<Longrightarrow> poCode p = phCode d \<and> poQuestions p = phQuestions d \<and>
     distinct (map tgCode (phStages d)) \<and>
     list_all2 (\<lambda>x y. new_stage known (phCode d) x = Inr y) (phStages d) (poStages p)"
  by (auto simp: new_phase_def ok_iff Let_def)

section \<open>GrantLifecycle\<close>

type_synonym 'q grant_lifecycle = "'q phase_obj list"

definition lifecycle_statuses :: "'q grant_lifecycle \<Rightarrow> status_obj list" where
  "lifecycle_statuses l = concat (map (\<lambda>phase. concat (map toStatuses (poStages phase))) l)"

definition lifecycle_positions :: "'q grant_lifecycle \<Rightarrow> position list" where
  "lifecycle_positions l = map soPosition (lifecycle_statuses l)"

definition lifecycle_has :: "'q grant_lifecycle \<Rightarrow> position option \<Rightarrow> bool" where
  "lifecycle_has l p \<longleftrightarrow> list_ex (\<lambda>candidate. position_equals candidate p) (lifecycle_positions l)"

definition assert_initial_phase_has_questions :: "'q grant_lifecycle \<Rightarrow> unit res" where
  "assert_initial_phase_has_questions l =
     (case l of [] \<Rightarrow> Inl TypeError
      | initialPhase # _ \<Rightarrow> if has_questions initialPhase then Inr ()
          else Inl (Boom BadImplementation (''phase '' @ quoted (poCode initialPhase)
            @ '' has no questions to validate answers against'') []))"

definition assert_all_valid_from_resolve :: "'q grant_lifecycle \<Rightarrow> unit res" where
  "assert_all_valid_from_resolve l =
     for_each (\<lambda>status. assert_valid_from_resolves_in status (lifecycle_positions l))
       (lifecycle_statuses l)"

definition new_grant_lifecycle ::
  "(string \<Rightarrow> bool) \<Rightarrow> ('q \<Rightarrow> unit res) \<Rightarrow> 'q phase_def list \<Rightarrow> 'q grant_lifecycle res" where
  "new_grant_lifecycle isKnownProcess compileQuestions phases =
     bind_res (assert_unique_codes (map phCode phases) (\<lambda>code. ''phase '' @ quoted code)) (\<lambda>_.
     bind_res (map_res (new_phase isKnownProcess compileQuestions) phases) (\<lambda>objs.
     bind_res (assert_initial_phase_has_questions objs) (\<lambda>_.
     bind_res (assert_all_valid_from_resolve objs) (\<lambda>_. Inr objs))))"

lemma lifecycle_has_iff: "lifecycle_has l p \<longleftrightarrow> (\<exists>q\<in>set (lifecycle_positions l). p = Some q)"
  by (auto simp: lifecycle_has_def list_ex_iff)

text \<open>The positions a definition declares, status by status.\<close>

definition declared_positions :: "'q phase_def list \<Rightarrow> position list" where
  "declared_positions phases = concat (map (\<lambda>phase. concat (map (\<lambda>stage. map (\<lambda>status.
     \<lparr>posPhase = phCode phase, posStage = tgCode stage, posStatus = sdCode status\<rparr>)
     (tgStatuses stage)) (phStages phase))) phases)"

lemma stage_positions:
  assumes "new_stage known ph d = Inr s"
  shows "map soPosition (toStatuses s) =
    map (\<lambda>x. \<lparr>posPhase = ph, posStage = tgCode d, posStatus = sdCode x\<rparr>) (tgStatuses d)"
proof -
  have "list_all2 (\<lambda>x y. new_status known \<lparr>posPhase = ph, posStage = tgCode d, posStatus = sdCode x\<rparr> x
      = Inr y) (tgStatuses d) (toStatuses s)"
    using new_stage_ok [OF assms] by simp
  then show ?thesis
    by (induction rule: list_all2_induct) (auto dest: new_status_ok)
qed

lemma stages_positions:
  "list_all2 (\<lambda>x y. new_stage known ph x = Inr y) ds ss \<Longrightarrow>
     map soPosition (concat (map toStatuses ss)) = concat (map (\<lambda>stage. map (\<lambda>status.
       \<lparr>posPhase = ph, posStage = tgCode stage, posStatus = sdCode status\<rparr>) (tgStatuses stage)) ds)"
  by (induction rule: list_all2_induct) (auto dest!: stage_positions)

lemma phase_positions:
  assumes "new_phase known compileq d = Inr p"
  shows "map soPosition (concat (map toStatuses (poStages p))) = declared_positions [d]"
  using stages_positions [of known "phCode d" "phStages d" "poStages p"] new_phase_ok [OF assms]
  by (simp add: declared_positions_def)

lemma lifecycle_positions_declared:
  assumes "new_grant_lifecycle known compileq phases = Inr l"
  shows "lifecycle_positions l = declared_positions phases"
proof -
  have "list_all2 (\<lambda>x y. new_phase known compileq x = Inr y) phases l"
    using assms by (auto simp: new_grant_lifecycle_def ok_iff)
  then show ?thesis
  proof (induction rule: list_all2_induct)
    case Nil
    then show ?case
      by (simp add: lifecycle_positions_def lifecycle_statuses_def declared_positions_def)
  next
    case (Cons x xs y ys)
    then show ?case
      using phase_positions [of known compileq x y]
      by (simp add: lifecycle_positions_def lifecycle_statuses_def declared_positions_def)
  qed
qed

section \<open>External status mappings\<close>

record external_mapping =
  emEntry :: external_status
  emPhase :: string
  emStage :: string

definition in_stage :: "string \<Rightarrow> string \<Rightarrow> string \<Rightarrow> position" where
  "in_stage phase stage status = \<lparr>posPhase = phase, posStage = stage, posStatus = status\<rparr>"

definition mapping_target :: "string \<Rightarrow> string \<Rightarrow> string \<Rightarrow> position option" where
  "mapping_target mappedTo phase stage =
     (if starts_with mappedTo ''::'' then Some (in_stage phase stage (drop 2 mappedTo))
      else if CHR '':'' \<in> set mappedTo then position_parse mappedTo
      else Some (in_stage phase stage mappedTo))"

definition external_mappings :: "external_status_map \<Rightarrow> external_mapping list" where
  "external_mappings m =
     concat (map (\<lambda>phase. concat (map (\<lambda>stage. map (\<lambda>status.
       \<lparr>emEntry = status, emPhase = epCode phase, emStage = esCode stage\<rparr>)
       (esStatuses stage)) (epStages phase))) (case m of None \<Rightarrow> [] | Some phases \<Rightarrow> phases))"

definition external_mapping_target :: "external_mapping \<Rightarrow> position option res" where
  "external_mapping_target m =
     (case exMappedTo (emEntry m) of None \<Rightarrow> Inl TypeError
      | Some mappedTo \<Rightarrow> Inr (mapping_target mappedTo (emPhase m) (emStage m)))"

definition assert_target_exists :: "'q grant_lifecycle \<Rightarrow> external_mapping \<Rightarrow> unit res" where
  "assert_target_exists l m =
     bind_res (external_mapping_target m) (\<lambda>target.
     if lifecycle_has l target then Inr ()
     else Inl (Boom BadImplementation (exSource (emEntry m) @ '' status '' @ quoted (exCode (emEntry m))
       @ '' at '' @ quoted (emPhase m @ '':'' @ emStage m) @ '' is mapped to ''
       @ quoted (case exMappedTo (emEntry m) of None \<Rightarrow> [] | Some t \<Rightarrow> t)
       @ '' which does not match any position in '' @ quoted ''phases'') []))"

definition assert_targets_exist_in :: "external_status_map \<Rightarrow> 'q grant_lifecycle \<Rightarrow> unit res" where
  "assert_targets_exist_in m l = for_each (assert_target_exists l) (external_mappings m)"

lemma assert_target_exists_ok [ok_iff]:
  "assert_target_exists l m = Inr () \<longleftrightarrow>
     (\<exists>t p. exMappedTo (emEntry m) = Some t
       \<and> mapping_target t (emPhase m) (emStage m) = Some p \<and> p \<in> set (lifecycle_positions l))"
  by (cases "exMappedTo (emEntry m)")
    (auto simp: assert_target_exists_def bind_res_Inr external_mapping_target_def lifecycle_has_iff)

lemma assert_targets_exist_in_ok:
  assumes "assert_targets_exist_in m l = Inr ()" and "em \<in> set (external_mappings m)"
  shows "\<exists>t p. exMappedTo (emEntry em) = Some t
       \<and> mapping_target t (emPhase em) (emStage em) = Some p \<and> p \<in> set (lifecycle_positions l)"
  using assms by (simp add: assert_targets_exist_in_def for_each_Inr assert_target_exists_ok)

section \<open>Describing the phases\<close>

definition distinct_positions :: "'q phase_def list \<Rightarrow> position list" where
  "distinct_positions phases =
     map snd (foldl (\<lambda>acc p. obj_put (position_to_string p) p acc) [] (declared_positions phases))"

lemma foldl_obj_put_distinct:
  "distinct (map fst acc) \<Longrightarrow> distinct (map fst (foldl (\<lambda>acc p. obj_put (f p) p acc) acc ps))"
  by (induction ps arbitrary: acc) (auto intro: obj_put_distinct)

lemma obj_put_keyed: "\<forall>e\<in>set acc. fst e = f (snd e) \<Longrightarrow> \<forall>e\<in>set (obj_put (f p) p acc). fst e = f (snd e)"
  using set_obj_put [of "f p" p acc] by auto

lemma foldl_obj_put_keyed:
  "\<forall>e\<in>set acc. fst e = f (snd e) \<Longrightarrow>
     \<forall>e\<in>set (foldl (\<lambda>acc p. obj_put (f p) p acc) acc ps). fst e = f (snd e)"
proof (induction ps arbitrary: acc)
  case Nil
  then show ?case by simp
next
  case (Cons p ps)
  from Cons.IH [OF obj_put_keyed [OF Cons.prems]] show ?case by simp
qed

lemma keys_foldl_obj_put:
  "fst ` set (foldl (\<lambda>acc p. obj_put (f p) p acc) acc ps) = fst ` set acc \<union> f ` set ps"
proof (induction ps arbitrary: acc)
  case Nil
  then show ?case by simp
next
  case (Cons p ps)
  from Cons.IH [of "obj_put (f p) p acc"] show ?case by simp
qed

text \<open>The positions described are listed once each, by their text, and none is lost.\<close>

lemma distinct_positions_strings:
  "distinct (map position_to_string (distinct_positions phases))"
  "set (map position_to_string (distinct_positions phases))
     = position_to_string ` set (declared_positions phases)"
proof -
  let ?l = "foldl (\<lambda>acc p. obj_put (position_to_string p) p acc) [] (declared_positions phases)"
  have keyed: "map position_to_string (map snd ?l) = map fst ?l"
    using foldl_obj_put_keyed [of "[]" position_to_string "declared_positions phases"]
    by simp
  show "distinct (map position_to_string (distinct_positions phases))"
    unfolding distinct_positions_def keyed by (rule foldl_obj_put_distinct) simp
  show "set (map position_to_string (distinct_positions phases))
     = position_to_string ` set (declared_positions phases)"
    unfolding distinct_positions_def keyed
    using keys_foldl_obj_put [of position_to_string "[]" "declared_positions phases"]
    by simp
qed

end
