(* ===== verification/Entitlements.thy ===== *)
theory Entitlements
  imports Lifecycle
begin

text \<open>
  Entitlement templates, entitlements and what may be claimed against them
  (\<open>src/grants/models/entitlement-template.js\<close>, \<open>entitlement.js\<close>, \<open>claimable-entitlement.js\<close>,
  \<open>claims-access.js\<close> and the Joi schema \<open>src/grants/schemas/grant/entitlement-template.js\<close>). A
  template says where an application has to be, what an operator supplies and how many
  entitlements may exist; an entitlement is one instance of it in a numbered slot; a claimable
  entitlement is the pair as the claims service sees it. The types of the records carry the
  schemas' type checks; their presence and range rules are the predicates below.
\<close>

section \<open>Template data\<close>

record template_position =
  tpPhase :: string
  tpStage :: "string option"
  tpStatus :: "string option"

datatype unit_type = DecimalUnit | StringUnit

record field_def =
  fdInput :: bool
  fdLabel :: "string option"
  fdValue :: "json option"
  fdUnitType :: unit_type
  fdDecimalPlaces :: "nat option"
  fdUnit :: "string option"
  fdMinValue :: "rat option"
  fdMaxValue :: "rat option"
  fdMinLength :: "nat option"
  fdMaxLength :: "nat option"

record claim_rules =
  crClaimableAt :: "template_position list option"
  crMaximumClaims :: "nat option"
  crAllowsPartialClaims :: bool
  crRequiresApproval :: bool
  crRequiresEvidence :: bool

record template =
  tmClaimCode :: string
  tmName :: string
  tmDescription :: "string option"
  tmMaterialised :: bool
  tmFields :: "(string \<times> field_def) list option"
  tmMaxEntitlements :: nat
  tmAvailableAt :: "template_position list"
  tmHelp :: "json option"
  tmClaim :: "claim_rules option"

section \<open>The schema of a template\<close>

definition template_position_schema :: "template_position \<Rightarrow> bool" where
  "template_position_schema p \<longleftrightarrow>
     tpPhase p \<noteq> [] \<and> tpStage p \<noteq> Some [] \<and> tpStatus p \<noteq> Some []
     \<and> (tpStage p = None \<longrightarrow> tpStatus p = None)"

definition field_schema :: "field_def \<Rightarrow> bool" where
  "field_schema f \<longleftrightarrow>
     (if fdInput f then js_truthy_string (fdLabel f) \<and> fdValue f = None
      else fdLabel f = None \<and>
        (case fdValue f of None \<Rightarrow> False | Some v \<Rightarrow> js_string_literal v \<and> v \<noteq> JStr []))
     \<and> (case fdUnitType f of
          DecimalUnit \<Rightarrow> fdDecimalPlaces f \<noteq> None \<and> js_truthy_string (fdUnit f)
            \<and> fdMinLength f = None \<and> fdMaxLength f = None
        | StringUnit \<Rightarrow> fdDecimalPlaces f = None \<and> fdUnit f = None
            \<and> fdMinValue f = None \<and> fdMaxValue f = None
            \<and> (case fdMaxLength f of None \<Rightarrow> True | Some n \<Rightarrow> 1 \<le> n))"

definition template_fields :: "template \<Rightarrow> (string \<times> field_def) list" where
  "template_fields t = (case tmFields t of None \<Rightarrow> [] | Some fs \<Rightarrow> fs)"

definition persisted_collects_input :: "template \<Rightarrow> bool" where
  "persisted_collects_input t \<longleftrightarrow>
     (if tmMaterialised t then True else list_ex (\<lambda>(_, f). fdInput f) (template_fields t))"

definition claim_schema :: "claim_rules \<Rightarrow> bool" where
  "claim_schema c \<longleftrightarrow>
     (case crClaimableAt c of None \<Rightarrow> True | Some ps \<Rightarrow> list_all template_position_schema ps)
     \<and> (case crMaximumClaims c of None \<Rightarrow> True | Some n \<Rightarrow> 1 \<le> n)"

definition template_schema :: "template \<Rightarrow> bool" where
  "template_schema t \<longleftrightarrow>
     tmClaimCode t \<noteq> [] \<and> tmName t \<noteq> [] \<and> tmDescription t \<noteq> Some []
     \<and> tmFields t \<noteq> Some [] \<and> list_all (\<lambda>(_, f). field_schema f) (template_fields t)
     \<and> distinct (map fst (template_fields t))
     \<and> 1 \<le> tmMaxEntitlements t
     \<and> tmAvailableAt t \<noteq> [] \<and> list_all template_position_schema (tmAvailableAt t)
     \<and> (case tmClaim t of None \<Rightarrow> True | Some c \<Rightarrow> claim_schema c)
     \<and> persisted_collects_input t"

definition new_template :: "(template \<Rightarrow> string) \<Rightarrow> template \<Rightarrow> template res" where
  "new_template joiMessages props =
     (if template_schema props then Inr props
      else Inl (Boom BadImplementation (''Invalid entitlement template''
        @ (if tmClaimCode props \<noteq> [] then '' '' @ quoted (tmClaimCode props) else [])
        @ '': '' @ joiMessages props) []))"

section \<open>Positions a template names\<close>

definition part_matches :: "string option \<Rightarrow> string \<Rightarrow> bool" where
  "part_matches declaredPart actualPart \<longleftrightarrow> declaredPart = None \<or> declaredPart = Some actualPart"

definition position_matches :: "template_position \<Rightarrow> position \<Rightarrow> bool" where
  "position_matches declared actual \<longleftrightarrow>
     tpPhase declared = posPhase actual
     \<and> part_matches (tpStage declared) (posStage actual)
     \<and> part_matches (tpStatus declared) (posStatus actual)"

definition matches_any_position :: "template_position list \<Rightarrow> position option \<Rightarrow> bool" where
  "matches_any_position positions position =
     (case position of None \<Rightarrow> False
      | Some p \<Rightarrow> list_ex (\<lambda>declared. position_matches declared p) positions)"

definition is_available_at :: "template \<Rightarrow> position option \<Rightarrow> bool" where
  "is_available_at t position = matches_any_position (tmAvailableAt t) position"

definition claimable_positions :: "claim_rules option \<Rightarrow> template_position list" where
  "claimable_positions c =
     (case c of None \<Rightarrow> [] | Some r \<Rightarrow> (case crClaimableAt r of None \<Rightarrow> [] | Some ps \<Rightarrow> ps))"

definition is_claimable_at :: "template \<Rightarrow> position option \<Rightarrow> bool" where
  "is_claimable_at t position = matches_any_position (claimable_positions (tmClaim t)) position"

section \<open>Submitted data\<close>

text \<open>
  What an operator submits: for each field name an object whose \<open>value\<close> may be missing. The names
  of an object are distinct.
\<close>

type_synonym submitted_data = "(string \<times> json option) list"

definition input_field_names :: "template \<Rightarrow> string list" where
  "input_field_names t = map fst (filter (\<lambda>(_, f). fdInput f) (template_fields t))"

definition meets_minimum :: "rat \<Rightarrow> rat option \<Rightarrow> bool" where
  "meets_minimum v minimum \<longleftrightarrow> (case minimum of None \<Rightarrow> True | Some m \<Rightarrow> m \<le> v)"

definition meets_maximum :: "rat \<Rightarrow> rat option \<Rightarrow> bool" where
  "meets_maximum v maximum \<longleftrightarrow> (case maximum of None \<Rightarrow> True | Some m \<Rightarrow> v \<le> m)"

definition within_range :: "rat \<Rightarrow> rat option \<Rightarrow> rat option \<Rightarrow> bool" where
  "within_range v minimum maximum \<longleftrightarrow> meets_minimum v minimum \<and> meets_maximum v maximum"

fun decimal_places :: "js_number \<Rightarrow> nat" where
  "decimal_places (Finite m d e) = nat (max 0 (int d - e))"
| "decimal_places NotFinite = 0"

fun decimal_value_matches :: "field_def \<Rightarrow> json option \<Rightarrow> bool" where
  "decimal_value_matches f (Some (JNum (Finite m d e))) =
     (within_range (number_value (Finite m d e)) (fdMinValue f) (fdMaxValue f)
      \<and> (case fdDecimalPlaces f of None \<Rightarrow> False | Some p \<Rightarrow> decimal_places (Finite m d e) \<le> p))"
| "decimal_value_matches f _ = False"

fun string_value_matches :: "field_def \<Rightarrow> json option \<Rightarrow> bool" where
  "string_value_matches f (Some (JStr s)) =
     within_range (of_nat (length s)) (map_option of_nat (fdMinLength f)) (map_option of_nat (fdMaxLength f))"
| "string_value_matches f _ = False"

definition submitted_value_matches :: "field_def \<Rightarrow> json option \<Rightarrow> bool" where
  "submitted_value_matches f v =
     (case fdUnitType f of DecimalUnit \<Rightarrow> decimal_value_matches f v
      | StringUnit \<Rightarrow> string_value_matches f v)"

definition submitted_value :: "submitted_data \<Rightarrow> string \<Rightarrow> json option" where
  "submitted_value submitted name = (case map_of submitted name of None \<Rightarrow> None | Some v \<Rightarrow> v)"

definition invalid_input_field_names :: "template \<Rightarrow> submitted_data \<Rightarrow> string list" where
  "invalid_input_field_names t submitted =
     filter (\<lambda>name. name \<in> set (map fst submitted) \<and>
       \<not> (case map_of (template_fields t) name of None \<Rightarrow> False
          | Some f \<Rightarrow> submitted_value_matches f (submitted_value submitted name)))
       (input_field_names t)"

definition submitted_data_matches :: "template \<Rightarrow> submitted_data \<Rightarrow> bool" where
  "submitted_data_matches t submitted \<longleftrightarrow>
     length (input_field_names t) = length submitted
     \<and> list_all (\<lambda>name. name \<in> set (map fst submitted)) (input_field_names t)
     \<and> invalid_input_field_names t submitted = []"

text \<open>
  The check on lengths and on membership together say that exactly the input fields are
  submitted.
\<close>

lemma input_field_names_distinct:
  assumes "template_schema t"
  shows "distinct (input_field_names t)"
proof -
  have "distinct (map fst (template_fields t))"
    using assms by (simp add: template_schema_def)
  then show ?thesis
    unfolding input_field_names_def by (rule distinct_map_filter)
qed

lemma submitted_names:
  assumes "template_schema t" and "distinct (map fst submitted)" and "submitted_data_matches t submitted"
  shows "set (map fst submitted) = set (input_field_names t)"
proof -
  have "set (input_field_names t) \<subseteq> set (map fst submitted)"
    and len: "length (input_field_names t) = length (map fst submitted)"
    using assms(3) by (auto simp: submitted_data_matches_def list_all_iff)
  moreover have "card (set (input_field_names t)) = card (set (map fst submitted))"
    using len distinct_card [OF assms(2)] distinct_card [OF input_field_names_distinct [OF assms(1)]]
    by simp
  ultimately show ?thesis by (metis List.finite_set card_subset_eq)
qed

lemma input_field_def:
  assumes "template_schema t" and "name \<in> set (input_field_names t)"
  obtains f where "map_of (template_fields t) name = Some f" and "fdInput f"
    and "(name, f) \<in> set (template_fields t)"
proof -
  obtain f where f: "(name, f) \<in> set (template_fields t)" "fdInput f"
    using assms(2) by (auto simp: input_field_names_def)
  then have "map_of (template_fields t) name = Some f"
    using assms(1) by (simp add: template_schema_def)
  with f show ?thesis using that by blast
qed

lemma submitted_values:
  assumes "template_schema t" and "submitted_data_matches t submitted"
    and "map_of (template_fields t) name = Some f" and "fdInput f"
  shows "submitted_value_matches f (submitted_value submitted name)"
proof -
  have "name \<in> set (input_field_names t)"
    using assms(3,4) by (force simp: input_field_names_def dest: map_of_SomeD)
  then show ?thesis
    using assms(2,3)
    by (auto simp: submitted_data_matches_def list_all_iff invalid_input_field_names_def
        filter_empty_conv)
qed

text \<open>The digits behind the point that the code counts are enough to scale the number to an integer.\<close>

lemma decimal_places_scale:
  assumes "decimal_places (Finite m d e) \<le> p"
  shows "number_value (Finite m d e) * 10 ^ p \<in> \<int>"
proof -
  let ?k = "e - int d + int p"
  have k: "0 \<le> ?k" using assms by simp
  have "number_value (Finite m d e) * 10 ^ p = of_int m * (10 powi (e - int d) * 10 powi (int p))"
    by simp
  also have "\<dots> = of_int m * 10 powi ?k"
    by (simp add: power_int_add)
  also have "\<dots> = of_int m * 10 ^ nat ?k"
    using k by (simp add: power_int_def)
  also have "\<dots> = of_int (m * 10 ^ nat ?k)" by simp
  finally show ?thesis by (metis Ints_of_int)
qed

section \<open>Entitlements\<close>

record entitlement =
  enId :: string
  enClientRef :: string
  enCode :: string
  enClaimCode :: string
  enInstanceNumber :: nat
  enConfigVersion :: "string option"
  enData :: "(string \<times> json) list"
  enCreatedAt :: string
  enUpdatedAt :: "string option"

definition entitlement_schema :: "entitlement \<Rightarrow> bool" where
  "entitlement_schema e \<longleftrightarrow>
     enId e \<noteq> [] \<and> enClientRef e \<noteq> [] \<and> enCode e \<noteq> [] \<and> enClaimCode e \<noteq> []
     \<and> 1 \<le> enInstanceNumber e \<and> js_truthy_string (enConfigVersion e)
     \<and> enData e \<noteq> [] \<and> list_all (\<lambda>(_, v). js_string_literal v \<and> v \<noteq> JStr []) (enData e)
     \<and> enCreatedAt e \<noteq> [] \<and> enUpdatedAt e \<noteq> Some []"

definition new_entitlement :: "(entitlement \<Rightarrow> string) \<Rightarrow> entitlement \<Rightarrow> entitlement res" where
  "new_entitlement joiMessages props =
     (if entitlement_schema props then Inr props
      else Inl (Boom BadRequest (''Invalid Entitlement: '' @ joiMessages props) []))"

text \<open>A submitted field with no value becomes an undefined entry, which the schema then refuses.\<close>

definition to_stored_values :: "submitted_data \<Rightarrow> (string \<times> json) list" where
  "to_stored_values submitted =
     map (\<lambda>(name, v). (name, case v of None \<Rightarrow> JNull | Some x \<Rightarrow> x)) submitted"

definition with_input_data ::
  "(entitlement \<Rightarrow> string) \<Rightarrow> entitlement \<Rightarrow> template \<Rightarrow> submitted_data \<Rightarrow> string \<Rightarrow> entitlement res" where
  "with_input_data joiMessages e t submitted updatedAt =
     (if tmClaimCode t \<noteq> enClaimCode e
      then Inl (JsError (''Template '' @ single_quoted (tmClaimCode t)
        @ '' is not the template of entitlement '' @ single_quoted (enId e)))
      else if \<not> submitted_data_matches t submitted
      then Inl (InvalidEntitlementData (''Entitlement '' @ single_quoted (enId e)
        @ '' cannot take the data submitted''))
      else new_entitlement joiMessages
        (e\<lparr>enData := obj_spread (enData e) (to_stored_values submitted), enUpdatedAt := Some updatedAt\<rparr>))"

section \<open>The next free slot\<close>

function free_from :: "nat list \<Rightarrow> nat \<Rightarrow> nat" where
  "free_from used n = (if n \<in> set used then free_from used (n + 1) else n)"
  by pat_completeness auto
termination
proof (relation "measure (\<lambda>(used, n). card {m \<in> set used. n \<le> m})")
  fix used :: "nat list" and n
  assume n: "n \<in> set used"
  then have "n \<in> {m \<in> set used. n \<le> m}" and "n \<notin> {m \<in> set used. n + 1 \<le> m}" by simp_all
  moreover have "{m \<in> set used. n + 1 \<le> m} \<subseteq> {m \<in> set used. n \<le> m}" by auto
  ultimately have "{m \<in> set used. n + 1 \<le> m} \<subset> {m \<in> set used. n \<le> m}" by blast
  then have "card {m \<in> set used. n + 1 \<le> m} < card {m \<in> set used. n \<le> m}"
    by (intro psubset_card_mono) simp_all
  then show "((used, n + 1), (used, n)) \<in> measure (\<lambda>(used, n). card {m \<in> set used. n \<le> m})"
    by simp
qed simp

declare free_from.simps [simp del]

definition next_instance_number :: "entitlement list \<Rightarrow> nat" where
  "next_instance_number existing = free_from (map enInstanceNumber existing) 1"

lemma free_from_ge: "n \<le> free_from used n"
proof (induction used n rule: free_from.induct)
  case (1 used n)
  then show ?case by (cases "n \<in> set used") (auto simp: free_from.simps [of used n])
qed

lemma free_from_free: "free_from used n \<notin> set used"
proof (induction used n rule: free_from.induct)
  case (1 used n)
  then show ?case by (cases "n \<in> set used") (auto simp: free_from.simps [of used n])
qed

lemma free_from_least: "n \<le> k \<Longrightarrow> k < free_from used n \<Longrightarrow> k \<in> set used"
proof (induction used n rule: free_from.induct)
  case (1 used n)
  show ?case
  proof (cases "n \<in> set used")
    case True
    with "1.IH" [OF True] "1.prems" show ?thesis
      by (cases "k = n") (simp_all add: free_from.simps [of used n])
  next
    case False
    with "1.prems" show ?thesis by (simp add: free_from.simps [of used n])
  qed
qed

lemma next_instance_number_free: "next_instance_number existing \<notin> set (map enInstanceNumber existing)"
  unfolding next_instance_number_def by (rule free_from_free)

lemma next_instance_number_ge: "1 \<le> next_instance_number existing"
  unfolding next_instance_number_def by (rule free_from_ge)

lemma next_instance_number_least:
  "1 \<le> k \<Longrightarrow> k < next_instance_number existing \<Longrightarrow> k \<in> set (map enInstanceNumber existing)"
  unfolding next_instance_number_def by (rule free_from_least)

lemma next_instance_number_bound: "next_instance_number existing \<le> length existing + 1"
proof -
  let ?n = "next_instance_number existing"
  have "{1..<?n} \<subseteq> set (map enInstanceNumber existing)"
    using next_instance_number_least by auto
  then have "card {1..<?n} \<le> card (set (map enInstanceNumber existing))"
    by (intro card_mono) auto
  also have "\<dots> \<le> length existing"
    using card_length [of "map enInstanceNumber existing"] by simp
  finally show ?thesis by simp
qed

section \<open>Creating an entitlement\<close>

datatype creation_rejection = WrongPosition | MaterialisedTemplate | InvalidData | CapacityReached

type_synonym creation_decision = "creation_rejection + nat"

definition template_creation_rejection ::
  "template \<Rightarrow> entitlement list \<Rightarrow> submitted_data \<Rightarrow> creation_rejection option" where
  "template_creation_rejection t instances submitted =
     (if tmMaterialised t then Some MaterialisedTemplate
      else if \<not> submitted_data_matches t submitted then Some InvalidData
      else if tmMaxEntitlements t \<le> length instances then Some CapacityReached
      else None)"

definition creation_rejection ::
  "template \<Rightarrow> position option \<Rightarrow> entitlement list \<Rightarrow> submitted_data \<Rightarrow> creation_rejection option" where
  "creation_rejection t position instances submitted =
     (if \<not> is_available_at t position then Some WrongPosition
      else template_creation_rejection t instances submitted)"

definition instances_of :: "template \<Rightarrow> entitlement list \<Rightarrow> entitlement list" where
  "instances_of t existing = filter (\<lambda>e. enClaimCode e = tmClaimCode t) existing"

definition assess_entitlement_creation ::
  "template \<Rightarrow> position option \<Rightarrow> entitlement list \<Rightarrow> submitted_data \<Rightarrow> creation_decision" where
  "assess_entitlement_creation t position existing submitted =
     (let instances = instances_of t existing in
      case creation_rejection t position instances submitted of
        Some reason \<Rightarrow> Inl reason
      | None \<Rightarrow> Inr (next_instance_number instances))"

lemma assess_allowed:
  "assess_entitlement_creation t p existing d = Inr n \<longleftrightarrow>
     is_available_at t p \<and> \<not> tmMaterialised t \<and> submitted_data_matches t d
     \<and> length (instances_of t existing) < tmMaxEntitlements t
     \<and> n = next_instance_number (instances_of t existing)"
  by (auto simp: assess_entitlement_creation_def Let_def creation_rejection_def
      template_creation_rejection_def)

section \<open>Claimable entitlements\<close>

datatype claimable_type = Materialised | Persisted

record claimable =
  clType :: claimable_type
  clCode :: string
  clClientRef :: string
  clClaimCode :: string
  clName :: string
  clDescription :: "string option"
  clFields :: "(string \<times> field_def) list option"
  clClaim :: "claim_rules option"
  clEntitlement :: "entitlement option"

definition from_materialised :: "template \<Rightarrow> string \<Rightarrow> string \<Rightarrow> claimable" where
  "from_materialised t code clientRef =
     \<lparr>clType = Materialised, clCode = code, clClientRef = clientRef, clClaimCode = tmClaimCode t,
      clName = tmName t, clDescription = tmDescription t, clFields = tmFields t,
      clClaim = tmClaim t, clEntitlement = None\<rparr>"

definition from_persisted :: "entitlement \<Rightarrow> template \<Rightarrow> claimable" where
  "from_persisted e t =
     \<lparr>clType = Persisted, clCode = enCode e, clClientRef = enClientRef e,
      clClaimCode = enClaimCode e, clName = tmName t, clDescription = tmDescription t,
      clFields = tmFields t, clClaim = tmClaim t, clEntitlement = Some e\<rparr>"

definition maximum_claims :: "claimable \<Rightarrow> nat" where
  "maximum_claims c =
     (case clClaim c of None \<Rightarrow> 1 | Some r \<Rightarrow> (case crMaximumClaims r of None \<Rightarrow> 1 | Some n \<Rightarrow> n))"

definition has_remaining_capacity :: "claimable \<Rightarrow> nat \<Rightarrow> bool" where
  "has_remaining_capacity c count \<longleftrightarrow> count < maximum_claims c"

definition can_be_changed :: "claimable \<Rightarrow> nat \<Rightarrow> bool" where
  "can_be_changed c count \<longleftrightarrow> count = 0"

definition claimable_at :: "claimable \<Rightarrow> position option \<Rightarrow> bool" where
  "claimable_at c position = matches_any_position (claimable_positions (clClaim c)) position"

datatype claim_refusal = WrongClaimPosition | MaximumClaimsReached

definition can_accept_claim :: "claimable \<Rightarrow> position option \<Rightarrow> nat \<Rightarrow> claim_refusal + unit" where
  "can_accept_claim c position count =
     (if \<not> claimable_at c position then Inl WrongClaimPosition
      else if \<not> has_remaining_capacity c count then Inl MaximumClaimsReached
      else Inr ())"

lemma can_accept_claim_ok:
  "can_accept_claim c p n = Inr () \<longleftrightarrow> claimable_at c p \<and> n < maximum_claims c"
  by (auto simp: can_accept_claim_def has_remaining_capacity_def)

lemma maximum_claims_pos:
  assumes "template_schema t"
  shows "1 \<le> maximum_claims (from_persisted e t)"
  using assms
  by (auto simp: template_schema_def claim_schema_def maximum_claims_def from_persisted_def
      split: option.splits)

section \<open>Access to claims\<close>

record required_roles =
  rrAllOf :: "string list"
  rrAnyOf :: "string list"

datatype claims_access = AccessFull | AccessViewOnly | AccessHidden

definition has_roles :: "string list option \<Rightarrow> bool" where
  "has_roles heldRoles = (case heldRoles of None \<Rightarrow> False | Some rs \<Rightarrow> 0 < length rs)"

definition all_held :: "string list \<Rightarrow> string list \<Rightarrow> bool" where
  "all_held held allOf = list_all (\<lambda>role. role \<in> set held) allOf"

definition any_held :: "string list \<Rightarrow> string list \<Rightarrow> bool" where
  "any_held held anyOf = (length anyOf = 0 \<or> list_ex (\<lambda>role. role \<in> set held) anyOf)"

definition satisfies_roles :: "string list option \<Rightarrow> required_roles \<Rightarrow> bool" where
  "satisfies_roles heldRoles requirements =
     (if \<not> has_roles heldRoles then False
      else case heldRoles of None \<Rightarrow> False
        | Some held \<Rightarrow> all_held held (rrAllOf requirements) \<and> any_held held (rrAnyOf requirements))"

definition claims_access_for :: "required_roles option \<Rightarrow> string list option \<Rightarrow> claims_access" where
  "claims_access_for requiredRoles heldRoles =
     (case requiredRoles of None \<Rightarrow> AccessFull
      | Some required \<Rightarrow>
          if \<not> has_roles heldRoles then AccessHidden
          else if satisfies_roles heldRoles required then AccessFull else AccessViewOnly)"

definition assert_may_change_claims :: "claims_access \<Rightarrow> unit res" where
  "assert_may_change_claims access =
     (if access \<noteq> AccessFull
      then Inl (Boom Forbidden ''You do not have the required roles to perform this action'' [])
      else Inr ())"

definition assert_may_view_claims :: "claims_access \<Rightarrow> unit res" where
  "assert_may_view_claims access =
     (if access = AccessHidden
      then Inl (Boom Forbidden ''You do not have the required roles to view claims for this grant'' [])
      else Inr ())"

lemma may_change_ok [ok_iff]: "assert_may_change_claims a = Inr () \<longleftrightarrow> a = AccessFull"
  by (simp add: assert_may_change_claims_def)

lemma may_view_ok [ok_iff]: "assert_may_view_claims a = Inr () \<longleftrightarrow> a \<noteq> AccessHidden"
  by (simp add: assert_may_view_claims_def)

lemma access_full_iff:
  "claims_access_for r h = AccessFull \<longleftrightarrow>
     (case r of None \<Rightarrow> True
      | Some q \<Rightarrow> (case h of None \<Rightarrow> False | Some held \<Rightarrow> held \<noteq> []
          \<and> set (rrAllOf q) \<subseteq> set held \<and> (rrAnyOf q = [] \<or> set (rrAnyOf q) \<inter> set held \<noteq> {})))"
  by (auto simp: claims_access_for_def satisfies_roles_def has_roles_def all_held_def any_held_def
      list_all_iff list_ex_iff split: option.splits)

end
