(* ===== verification/Grant.thy ===== *)
theory Grant
  imports Entitlements
begin

text \<open>
  The Grant aggregate (\<open>src/grants/models/grant.js\<close>): the rules a grant is held to when it is built,
  the stricter ones a published definition is held to, the lookups that move an application, and
  the description of the lifecycle that the admin pages show. A list the code reads through
  optional chaining is a list here, with absent read as empty, which those reads cannot tell apart.
\<close>

section \<open>The grant\<close>

record config_position =
  cfPhase :: "string option"
  cfStage :: "string option"
  cfStatus :: "string option"

record on_claim_approval =
  ocCurrentPosition :: "config_position option"
  ocTargetPosition :: "config_position option"

record grant_claims =
  gcOnClaimApproval :: "on_claim_approval option"
  gcRequiredRoles :: "required_roles option"

datatype action_method = GET | POST

record grant_action =
  acName :: string
  acMethod :: action_method
  acUrl :: string

record 'q grant =
  grCode :: string
  grVersion :: "string option"
  grDescription :: string
  grStartDate :: string
  grActions :: "grant_action list option"
  grPhases :: "'q phase_def list"
  grExternalStatusMap :: external_status_map
  grAmendablePositions :: "string list"
  grEntitlementTemplates :: "template list"
  grPages :: "json option"
  grClaims :: "grant_claims option"
  grAdmin :: "json option"

section \<open>Navigating the hierarchy\<close>

definition find_phase :: "'q phase_def list \<Rightarrow> string option \<Rightarrow> 'q phase_def option" where
  "find_phase phases phaseCode = find (\<lambda>p. Some (phCode p) = phaseCode) phases"

definition find_stage :: "'q phase_def option \<Rightarrow> string option \<Rightarrow> stage_def option" where
  "find_stage phase stageCode =
     Option.bind phase (\<lambda>p. find (\<lambda>s. Some (tgCode s) = stageCode) (phStages p))"

definition find_status :: "stage_def option \<Rightarrow> string option \<Rightarrow> status_def option" where
  "find_status stage statusCode =
     Option.bind stage (\<lambda>s. find (\<lambda>d. Some (sdCode d) = statusCode) (tgStatuses s))"

definition find_phase_stage ::
  "'q phase_def list \<Rightarrow> string option \<Rightarrow> string option \<Rightarrow> 'q phase_def option \<times> stage_def option" where
  "find_phase_stage phases phaseCode stageCode =
     (let phase = find_phase phases phaseCode in (phase, find_stage phase stageCode))"

definition find_phase_stage_status ::
  "'q phase_def list \<Rightarrow> string option \<Rightarrow> string option \<Rightarrow> string option \<Rightarrow>
     'q phase_def option \<times> stage_def option \<times> status_def option" where
  "find_phase_stage_status phases phaseCode stageCode statusCode =
     (let (phase, stage) = find_phase_stage phases phaseCode stageCode in
      (phase, stage, find_status stage statusCode))"

definition find_status_definition :: "'q grant \<Rightarrow> position \<Rightarrow> status_def option" where
  "find_status_definition g target =
     snd (snd (find_phase_stage_status (grPhases g) (Some (posPhase target))
       (Some (posStage target)) (Some (posStatus target))))"

definition position_exists ::
  "'q grant \<Rightarrow> string option \<Rightarrow> string option \<Rightarrow> string option \<Rightarrow> bool" where
  "position_exists g phase stage status =
     (let foundPhase = find_phase (grPhases g) phase;
          foundStage = find_stage foundPhase stage;
          foundStatus = find_status foundStage status in
      if status \<noteq> None then foundStatus \<noteq> None
      else if stage \<noteq> None then foundStage \<noteq> None
      else foundPhase \<noteq> None)"

lemma find_status_definition_alt:
  "find_status_definition g p =
     find_status (find_stage (find_phase (grPhases g) (Some (posPhase p))) (Some (posStage p)))
       (Some (posStatus p))"
  by (simp add: find_status_definition_def find_phase_stage_status_def find_phase_stage_def Let_def)

lemma find_status_definition_SomeD:
  assumes "find_status_definition g p = Some d"
  obtains ph st where "find_phase (grPhases g) (Some (posPhase p)) = Some ph"
    and "find_stage (Some ph) (Some (posStage p)) = Some st"
    and "find_status (Some st) (Some (posStatus p)) = Some d"
    and "ph \<in> set (grPhases g)" and "st \<in> set (phStages ph)" and "d \<in> set (tgStatuses st)"
    and "phCode ph = posPhase p" and "tgCode st = posStage p" and "sdCode d = posStatus p"
proof -
  obtain ph st where f: "find_phase (grPhases g) (Some (posPhase p)) = Some ph"
    "find_stage (Some ph) (Some (posStage p)) = Some st"
    "find_status (Some st) (Some (posStatus p)) = Some d"
    using assms
    by (cases "find_phase (grPhases g) (Some (posPhase p))"; simp add: find_status_definition_alt;
        cases "find_stage (find_phase (grPhases g) (Some (posPhase p))) (Some (posStage p))")
      (simp_all add: find_stage_def find_status_def)
  moreover have "ph \<in> set (grPhases g) \<and> phCode ph = posPhase p"
    using f(1) by (auto simp: find_phase_def dest: find_SomeD)
  moreover have "st \<in> set (phStages ph) \<and> tgCode st = posStage p"
    using f(2) by (auto simp: find_stage_def dest: find_SomeD)
  moreover have "d \<in> set (tgStatuses st) \<and> sdCode d = posStatus p"
    using f(3) by (auto simp: find_status_def dest: find_SomeD)
  ultimately show ?thesis using that by blast
qed

lemma declared_positions_iff:
  "p \<in> set (declared_positions phases) \<longleftrightarrow>
     (\<exists>ph\<in>set phases. \<exists>st\<in>set (phStages ph). \<exists>d\<in>set (tgStatuses st).
        p = \<lparr>posPhase = phCode ph, posStage = tgCode st, posStatus = sdCode d\<rparr>)"
  by (auto simp: declared_positions_def)

lemma find_status_definition_declared:
  assumes "find_status_definition g p = Some d"
  shows "p \<in> set (declared_positions (grPhases g))"
  using assms
proof (rule find_status_definition_SomeD)
  fix ph st
  assume "ph \<in> set (grPhases g)" "st \<in> set (phStages ph)" "d \<in> set (tgStatuses st)"
    "phCode ph = posPhase p" "tgCode st = posStage p" "sdCode d = posStatus p"
  then show ?thesis unfolding declared_positions_iff by (cases p) force
qed

text \<open>
  With codes unique at every level, as a published definition has to have, every declared position
  is found.
\<close>

definition unique_codes :: "'q phase_def list \<Rightarrow> bool" where
  "unique_codes phases \<longleftrightarrow> distinct (map phCode phases)
     \<and> (\<forall>ph\<in>set phases. distinct (map tgCode (phStages ph))
          \<and> (\<forall>st\<in>set (phStages ph). distinct (map sdCode (tgStatuses st))))"

lemma find_code:
  assumes "distinct (map f xs)" and "x \<in> set xs"
  shows "find (\<lambda>y. Some (f y) = Some (f x)) xs = Some x"
  using find_code_distinct [OF assms] by simp

lemma declared_found:
  assumes "unique_codes (grPhases g)" and "p \<in> set (declared_positions (grPhases g))"
  shows "\<exists>d. find_status_definition g p = Some d"
proof -
  obtain ph st d where m: "ph \<in> set (grPhases g)" "st \<in> set (phStages ph)" "d \<in> set (tgStatuses st)"
    and p: "p = \<lparr>posPhase = phCode ph, posStage = tgCode st, posStatus = sdCode d\<rparr>"
    using assms(2) unfolding declared_positions_iff by blast
  have "find_phase (grPhases g) (Some (phCode ph)) = Some ph"
    unfolding find_phase_def using assms(1) m by (intro find_code) (auto simp: unique_codes_def)
  moreover have "find_stage (Some ph) (Some (tgCode st)) = Some st"
    unfolding find_stage_def bind.bind_lunit using assms(1) m
    by (intro find_code) (auto simp: unique_codes_def)
  moreover have "find_status (Some st) (Some (sdCode d)) = Some d"
    unfolding find_status_def bind.bind_lunit using assms(1) m
    by (intro find_code) (auto simp: unique_codes_def)
  ultimately show ?thesis by (simp add: find_status_definition_alt p)
qed

section \<open>Rules every grant is held to\<close>

definition format_position :: "string option \<Rightarrow> string option \<Rightarrow> string option \<Rightarrow> string" where
  "format_position phase stage status =
     join '':'' (concat (map (\<lambda>part. case part of None \<Rightarrow> [] | Some s \<Rightarrow> [s]) [phase, stage, status]))"

definition format_config_position :: "config_position \<Rightarrow> string" where
  "format_config_position p = format_position (cfPhase p) (cfStage p) (cfStatus p)"

definition is_non_empty_string :: "string option \<Rightarrow> bool" where
  "is_non_empty_string v = (case v of None \<Rightarrow> False | Some s \<Rightarrow> \<not> list_all is_blank_char s)"

definition assert_actions_is_array :: "'q grant \<Rightarrow> unit res" where
  "assert_actions_is_array g =
     (if grActions g = None
      then Inl (Boom BadImplementation (''Grant '' @ quoted (grCode g) @ '' actions must be an array'') [])
      else Inr ())"

definition assert_template_claim_codes_unique :: "'q grant \<Rightarrow> unit res" where
  "assert_template_claim_codes_unique g =
     (case first_repeat [] (map tmClaimCode (grEntitlementTemplates g)) of
        Some claimCode \<Rightarrow> Inl (Boom BadImplementation
          (''Duplicate entitlement template claim code '' @ quoted claimCode) [])
      | None \<Rightarrow> Inr ())"

definition assert_position_exists ::
  "'q grant \<Rightarrow> string \<Rightarrow> string \<Rightarrow> template_position \<Rightarrow> unit res" where
  "assert_position_exists g claimCode relation p =
     (if position_exists g (Some (tpPhase p)) (tpStage p) (tpStatus p) then Inr ()
      else Inl (Boom BadImplementation (''Entitlement template '' @ quoted claimCode @ '' is ''
        @ relation @ '' position '' @ quoted (format_position (Some (tpPhase p)) (tpStage p) (tpStatus p))
        @ '' which does not match any position in '' @ quoted ''phases'') []))"

definition assert_positions_exist ::
  "'q grant \<Rightarrow> string \<Rightarrow> string \<Rightarrow> template_position list \<Rightarrow> unit res" where
  "assert_positions_exist g claimCode relation positions =
     for_each (assert_position_exists g claimCode relation) positions"

definition assert_template_positions_exist :: "'q grant \<Rightarrow> template \<Rightarrow> unit res" where
  "assert_template_positions_exist g t =
     bind_res (assert_positions_exist g (tmClaimCode t) ''available at'' (tmAvailableAt t)) (\<lambda>_.
     assert_positions_exist g (tmClaimCode t) ''claimable at'' (claimable_positions (tmClaim t)))"

definition assert_entitlement_template_positions_exist :: "'q grant \<Rightarrow> unit res" where
  "assert_entitlement_template_positions_exist g =
     for_each (assert_template_positions_exist g) (grEntitlementTemplates g)"

section \<open>Transitions\<close>

record transition_check =
  trValid :: bool
  trProcesses :: "processes_value option"

definition status_valid_from :: "status_def \<Rightarrow> valid_from list" where
  "status_valid_from d = (case sdValidFrom d of None \<Rightarrow> [] | Some vs \<Rightarrow> vs)"

definition is_from_any_status :: "status_def \<Rightarrow> bool" where
  "is_from_any_status d \<longleftrightarrow> sdValidFrom d = None \<or> sdValidFrom d = Some []"

definition valid_from_match :: "valid_from list \<Rightarrow> string \<Rightarrow> valid_from option" where
  "valid_from_match validFrom currentStatus =
     find (\<lambda>entry. valid_from_matches entry currentStatus) validFrom"

text \<open>\<open>processes || []\<close>: an empty string is falsy.\<close>

definition processes_or_empty :: "processes_value option \<Rightarrow> processes_value" where
  "processes_or_empty p =
     (case p of None \<Rightarrow> ProcessList [] | Some (ProcessString []) \<Rightarrow> ProcessList [] | Some v \<Rightarrow> v)"

definition is_valid_transition :: "'q grant \<Rightarrow> position \<Rightarrow> string \<Rightarrow> transition_check" where
  "is_valid_transition g target currentStatus =
     (case find_status_definition g target of
        None \<Rightarrow> \<lparr>trValid = False, trProcesses = Some (ProcessList [])\<rparr>
      | Some d \<Rightarrow>
          if is_from_any_status d
          then \<lparr>trValid = True, trProcesses = Some (processes_or_empty (sdProcesses d))\<rparr>
          else (case valid_from_match (status_valid_from d) currentStatus of
                  None \<Rightarrow> \<lparr>trValid = False, trProcesses = None\<rparr>
                | Some entry \<Rightarrow> \<lparr>trValid = True, trProcesses = Some (ProcessList (vfProcesses entry))\<rparr>))"

lemma valid_transition_iff:
  "trValid (is_valid_transition g target current) \<longleftrightarrow>
     (\<exists>d. find_status_definition g target = Some d
       \<and> (is_from_any_status d \<or> (\<exists>v\<in>set (status_valid_from d). valid_from_matches v current)))"
  by (auto simp: is_valid_transition_def valid_from_match_def find_None_iff
      split: option.splits dest: find_SomeD)

section \<open>The claim approval transition\<close>

definition assert_claim_approval_position_complete ::
  "'q grant \<Rightarrow> string \<Rightarrow> config_position option \<Rightarrow> unit res" where
  "assert_claim_approval_position_complete g label position =
     for_each (\<lambda>(part, v).
       if is_non_empty_string v then Inr ()
       else Inl (Boom BadImplementation (''Grant '' @ quoted (grCode g) @ '' claims.onClaimApproval.''
         @ label @ ''.'' @ part @ '' must be a non-empty string'') []))
     [(''phase'', Option.bind position cfPhase), (''stage'', Option.bind position cfStage),
      (''status'', Option.bind position cfStatus)]"

definition assert_claim_approval_position_exists ::
  "'q grant \<Rightarrow> string \<Rightarrow> config_position option \<Rightarrow> config_position res" where
  "assert_claim_approval_position_exists g label position =
     bind_res (assert_claim_approval_position_complete g label position) (\<lambda>_.
     case position of None \<Rightarrow> Inl TypeError
     | Some p \<Rightarrow>
         if position_exists g (cfPhase p) (cfStage p) (cfStatus p) then Inr p
         else Inl (Boom BadImplementation (''Grant '' @ quoted (grCode g) @ '' claims.onClaimApproval.''
           @ label @ '' '' @ quoted (format_config_position p)
           @ '' does not match any position in '' @ quoted ''phases'') []))"

definition part_string :: "string option \<Rightarrow> string" where
  "part_string part = (case part of None \<Rightarrow> ''undefined'' | Some s \<Rightarrow> s)"

definition config_to_position :: "config_position \<Rightarrow> position" where
  "config_to_position p =
     \<lparr>posPhase = part_string (cfPhase p), posStage = part_string (cfStage p),
      posStatus = part_string (cfStatus p)\<rparr>"

definition assert_claim_approval_transition_valid ::
  "'q grant \<Rightarrow> config_position \<Rightarrow> config_position \<Rightarrow> unit res" where
  "assert_claim_approval_transition_valid g currentPosition targetPosition =
     (let current = format_config_position currentPosition;
          target = format_config_position targetPosition in
      if current = target then Inr ()
      else if trValid (is_valid_transition g (config_to_position targetPosition) current) then Inr ()
      else Inl (Boom BadImplementation (''Grant '' @ quoted (grCode g)
        @ '' claims.onClaimApproval target position '' @ quoted target
        @ '' is not a valid transition from '' @ quoted current) []))"

definition on_claim_approval_of :: "'q grant \<Rightarrow> on_claim_approval option" where
  "on_claim_approval_of g = Option.bind (grClaims g) gcOnClaimApproval"

definition assert_claim_approval_positions_exist :: "'q grant \<Rightarrow> unit res" where
  "assert_claim_approval_positions_exist g =
     (case on_claim_approval_of g of None \<Rightarrow> Inr ()
      | Some cfg \<Rightarrow>
          bind_res (assert_claim_approval_position_exists g ''currentPosition'' (ocCurrentPosition cfg)) (\<lambda>c.
          bind_res (assert_claim_approval_position_exists g ''targetPosition'' (ocTargetPosition cfg)) (\<lambda>t.
          assert_claim_approval_transition_valid g c t)))"

definition is_same_position :: "config_position \<Rightarrow> position \<Rightarrow> bool" where
  "is_same_position a b \<longleftrightarrow>
     cfPhase a = Some (posPhase b) \<and> cfStage a = Some (posStage b) \<and> cfStatus a = Some (posStatus b)"

definition claim_approval_transition_for :: "'q grant \<Rightarrow> position \<Rightarrow> config_position option" where
  "claim_approval_transition_for g position =
     (case on_claim_approval_of g of None \<Rightarrow> None
      | Some cfg \<Rightarrow> (case ocCurrentPosition cfg of None \<Rightarrow> None
          | Some c \<Rightarrow> if is_same_position c position then ocTargetPosition cfg else None))"

section \<open>Building a grant\<close>

definition new_grant :: "(template \<Rightarrow> string) \<Rightarrow> 'q grant \<Rightarrow> 'q grant res" where
  "new_grant joiMessages props =
     bind_res (map_res (new_template joiMessages) (grEntitlementTemplates props)) (\<lambda>templates.
     let g = props\<lparr>grEntitlementTemplates := templates\<rparr> in
     bind_res (assert_actions_is_array g) (\<lambda>_.
     bind_res (assert_template_claim_codes_unique g) (\<lambda>_.
     bind_res (assert_entitlement_template_positions_exist g) (\<lambda>_.
     bind_res (assert_claim_approval_positions_exist g) (\<lambda>_.
     Inr g)))))"

definition assert_amendable_positions_exist_in :: "'q grant \<Rightarrow> 'q grant_lifecycle \<Rightarrow> unit res" where
  "assert_amendable_positions_exist_in g l =
     for_each (\<lambda>position.
       if lifecycle_has l (position_parse position) then Inr ()
       else Inl (Boom BadImplementation (''amendable position '' @ quoted position
         @ '' does not match any position in '' @ quoted ''phases'') []))
     (grAmendablePositions g)"

definition assert_publishable ::
  "(string \<Rightarrow> bool) \<Rightarrow> ('q \<Rightarrow> unit res) \<Rightarrow> 'q grant \<Rightarrow> unit res" where
  "assert_publishable isKnownProcess compileQuestions g =
     (case bind_res (new_grant_lifecycle isKnownProcess compileQuestions (grPhases g)) (\<lambda>lifecycle.
           bind_res (assert_targets_exist_in (grExternalStatusMap g) lifecycle) (\<lambda>_.
           assert_amendable_positions_exist_in g lifecycle)) of
        Inr _ \<Rightarrow> Inr ()
      | Inl error \<Rightarrow>
          if \<not> is_boom error then Inl error
          else Inl (Boom BadImplementation (''Grant '' @ quoted (grCode g) @ '' '' @ error_message error) []))"

subsection \<open>The schema of a published definition\<close>

definition code_char :: "char \<Rightarrow> bool" where
  "code_char c \<longleftrightarrow> (let n = (of_char c :: nat) in 97 \<le> n \<and> n \<le> 122 \<or> 48 \<le> n \<and> n \<le> 57 \<or> n = 45)"

definition code_schema :: "string \<Rightarrow> bool" where
  "code_schema s \<longleftrightarrow> s \<noteq> [] \<and> list_all code_char s"

definition status_schema :: "status_def \<Rightarrow> bool" where
  "status_schema d \<longleftrightarrow> sdCode d \<noteq> [] \<and> sdName d \<noteq> Some []
     \<and> list_all (\<lambda>v. vfCode v \<noteq> [] \<and> list_all (\<lambda>p. p \<noteq> []) (vfProcesses v))
         (case sdValidFrom d of None \<Rightarrow> [] | Some vs \<Rightarrow> vs)
     \<and> (case sdProcesses d of None \<Rightarrow> True
         | Some (ProcessList ps) \<Rightarrow> list_all (\<lambda>p. p \<noteq> []) ps | Some _ \<Rightarrow> False)"

definition phases_schema :: "'q phase_def list \<Rightarrow> bool" where
  "phases_schema phases \<longleftrightarrow> phases \<noteq> [] \<and> list_all (\<lambda>ph. phCode ph \<noteq> [] \<and> phStages ph \<noteq> []
     \<and> list_all (\<lambda>st. tgCode st \<noteq> [] \<and> tgStatuses st \<noteq> []
         \<and> list_all status_schema (tgStatuses st)) (phStages ph)) phases"

definition external_map_schema :: "external_status_map \<Rightarrow> bool" where
  "external_map_schema m \<longleftrightarrow> list_all (\<lambda>ph. epCode ph \<noteq> []
     \<and> list_all (\<lambda>st. esCode st \<noteq> [] \<and> list_all (\<lambda>ex. exCode ex \<noteq> [] \<and> exSource ex \<noteq> []
         \<and> js_truthy_string (exMappedTo ex)) (esStatuses st)) (epStages ph))
     (case m of None \<Rightarrow> [] | Some ps \<Rightarrow> ps)"

definition config_position_schema :: "config_position option \<Rightarrow> bool" where
  "config_position_schema p = (case p of None \<Rightarrow> False
     | Some q \<Rightarrow> js_truthy_string (cfPhase q) \<and> js_truthy_string (cfStage q) \<and> js_truthy_string (cfStatus q))"

definition claims_schema :: "grant_claims \<Rightarrow> bool" where
  "claims_schema c \<longleftrightarrow>
     (case gcOnClaimApproval c of None \<Rightarrow> True
      | Some oc \<Rightarrow> config_position_schema (ocCurrentPosition oc) \<and> config_position_schema (ocTargetPosition oc))
     \<and> (case gcRequiredRoles c of None \<Rightarrow> True
         | Some r \<Rightarrow> list_all (\<lambda>x. x \<noteq> []) (rrAllOf r) \<and> list_all (\<lambda>x. x \<noteq> []) (rrAnyOf r))"

definition max_actions :: nat where
  "max_actions = 20"

definition definition_schema :: "'q grant \<Rightarrow> bool" where
  "definition_schema g \<longleftrightarrow>
     code_schema (grCode g)
     \<and> 1 \<le> length (grDescription g) \<and> length (grDescription g) \<le> 500
     \<and> (case grActions g of None \<Rightarrow> False
         | Some acts \<Rightarrow> distinct (map acName acts) \<and> length acts \<le> max_actions)
     \<and> phases_schema (grPhases g)
     \<and> list_all (\<lambda>p. p \<noteq> []) (grAmendablePositions g)
     \<and> external_map_schema (grExternalStatusMap g)
     \<and> list_all template_schema (grEntitlementTemplates g)
     \<and> distinct (map tmClaimCode (grEntitlementTemplates g))
     \<and> (case grClaims g of None \<Rightarrow> True | Some c \<Rightarrow> claims_schema c)"

text \<open>What Joi says of a definition the schema refuses is an argument.\<close>

definition assert_matches_definition_schema :: "('q grant \<Rightarrow> string) \<Rightarrow> 'q grant \<Rightarrow> unit res" where
  "assert_matches_definition_schema schemaMessages definition =
     (if definition_schema definition then Inr ()
      else Inl (Boom BadImplementation (''Invalid grant definition '' @ quoted (grCode definition)
        @ '': '' @ schemaMessages definition) []))"

definition from_definition ::
  "('q grant \<Rightarrow> string) \<Rightarrow> (template \<Rightarrow> string) \<Rightarrow> (string \<Rightarrow> bool) \<Rightarrow> ('q \<Rightarrow> unit res)
     \<Rightarrow> 'q grant \<Rightarrow> string \<Rightarrow> 'q grant res" where
  "from_definition schemaMessages joiMessages isKnownProcess compileQuestions definition version =
     bind_res (assert_matches_definition_schema schemaMessages definition) (\<lambda>_.
     bind_res (new_grant joiMessages (definition\<lparr>grVersion := Some version\<rparr>)) (\<lambda>g.
     bind_res (assert_publishable isKnownProcess compileQuestions g) (\<lambda>_. Inr g)))"

section \<open>Lookups\<close>

definition find_entitlement_template :: "'q grant \<Rightarrow> string \<Rightarrow> template option" where
  "find_entitlement_template g claimCode =
     find (\<lambda>t. tmClaimCode t = claimCode) (grEntitlementTemplates g)"

definition find_entitlement_templates_available_at ::
  "'q grant \<Rightarrow> position option \<Rightarrow> template list" where
  "find_entitlement_templates_available_at g position =
     filter (\<lambda>t. is_available_at t position) (grEntitlementTemplates g)"

definition has_phases :: "'q grant \<Rightarrow> bool" where
  "has_phases g \<longleftrightarrow> 0 < length (grPhases g)"

definition get_initial_state :: "'q grant \<Rightarrow> ('q phase_def \<times> stage_def \<times> status_def option) res" where
  "get_initial_state g =
     (case grPhases g of
        [] \<Rightarrow> Inl (JsError (''Grant '' @ quoted (grCode g) @ '' has no phases defined''))
      | phase # _ \<Rightarrow> (case phStages phase of [] \<Rightarrow> Inl TypeError
          | stage # _ \<Rightarrow> Inr (phase, stage,
              case tgStatuses stage of [] \<Rightarrow> None | status # _ \<Rightarrow> Some status)))"

definition external_status_match :: "string \<Rightarrow> string \<Rightarrow> external_status \<Rightarrow> bool" where
  "external_status_match requested source status \<longleftrightarrow> exCode status = requested \<and> exSource status = source"

definition find_external_stage :: "external_status_map \<Rightarrow> string \<Rightarrow> string \<Rightarrow> external_stage option" where
  "find_external_stage m phase stage =
     Option.bind (find (\<lambda>p. epCode p = phase) (case m of None \<Rightarrow> [] | Some ps \<Rightarrow> ps))
       (\<lambda>p. find (\<lambda>s. esCode s = stage) (epStages p))"

definition find_external_status_mapping ::
  "'q grant \<Rightarrow> string \<Rightarrow> string \<Rightarrow> string \<Rightarrow> string \<Rightarrow> external_status option" where
  "find_external_status_mapping g currentPhase currentStage requested source =
     (case Option.bind (find_external_stage (grExternalStatusMap g) currentPhase currentStage)
             (\<lambda>stageMap. find (external_status_match requested source) (esStatuses stageMap)) of
        None \<Rightarrow> None
      | Some statusMapping \<Rightarrow>
          if js_truthy_string (exMappedTo statusMapping) then Some statusMapping else None)"

definition has_external_status_mapping :: "'q grant \<Rightarrow> string \<Rightarrow> string \<Rightarrow> string \<Rightarrow> string \<Rightarrow> bool" where
  "has_external_status_mapping g requested source currentPhase currentStage \<longleftrightarrow>
     find_external_status_mapping g currentPhase currentStage requested source \<noteq> None"

text \<open>The internal position, or nothing for \<open>{ valid: false }\<close>.\<close>

definition map_external_state ::
  "'q grant \<Rightarrow> string \<Rightarrow> string \<Rightarrow> string \<Rightarrow> string \<Rightarrow> position option" where
  "map_external_state g currentPhase currentStage requested source =
     (case find_external_status_mapping g currentPhase currentStage requested source of
        None \<Rightarrow> None
      | Some statusMapping \<Rightarrow> (case exMappedTo statusMapping of None \<Rightarrow> None
          | Some mappedTo \<Rightarrow> mapping_target mappedTo currentPhase currentStage))"

definition find_statuses :: "'q grant \<Rightarrow> string \<Rightarrow> string \<Rightarrow> (string \<times> status_def) list" where
  "find_statuses g phase stage =
     (case snd (find_phase_stage (grPhases g) (Some phase) (Some stage)) of
        None \<Rightarrow> []
      | Some st \<Rightarrow> foldl (\<lambda>acc status. obj_put (sdCode status) status acc) [] (tgStatuses st))"

section \<open>What a built grant satisfies\<close>

lemma new_template_ok [ok_iff]: "new_template jm t = Inr t' \<longleftrightarrow> t' = t \<and> template_schema t"
  by (auto simp: new_template_def)

lemma map_new_template:
  "map_res (new_template jm) ts = Inr ts' \<Longrightarrow> ts' = ts \<and> list_all template_schema ts"
  by (induction ts arbitrary: ts') (auto simp: bind_res_Inr new_template_ok)

lemma assert_template_claim_codes_unique_ok [ok_iff]:
  "assert_template_claim_codes_unique g = Inr () \<longleftrightarrow> distinct (map tmClaimCode (grEntitlementTemplates g))"
proof -
  have "first_repeat [] (map tmClaimCode (grEntitlementTemplates g)) = None
     \<longleftrightarrow> distinct (map tmClaimCode (grEntitlementTemplates g))"
    by (simp add: first_repeat_None)
  then show ?thesis
    by (cases "first_repeat [] (map tmClaimCode (grEntitlementTemplates g))")
      (auto simp: assert_template_claim_codes_unique_def)
qed

lemma assert_positions_exist_ok [ok_iff]:
  "assert_positions_exist g c r ps = Inr () \<longleftrightarrow>
     (\<forall>p\<in>set ps. position_exists g (Some (tpPhase p)) (tpStage p) (tpStatus p))"
  by (auto simp: assert_positions_exist_def for_each_Inr assert_position_exists_def split: if_splits)

lemma new_grant_ok:
  assumes "new_grant jm props = Inr g"
  shows "g = props" and "list_all template_schema (grEntitlementTemplates g)"
    and "grActions g \<noteq> None" and "distinct (map tmClaimCode (grEntitlementTemplates g))"
    and "\<forall>t\<in>set (grEntitlementTemplates g).
           \<forall>p\<in>set (tmAvailableAt t) \<union> set (claimable_positions (tmClaim t)).
             position_exists g (Some (tpPhase p)) (tpStage p) (tpStatus p)"
    and "assert_claim_approval_positions_exist g = Inr ()"
proof -
  obtain ts where ts: "map_res (new_template jm) (grEntitlementTemplates props) = Inr ts"
    using assms by (auto simp: new_grant_def bind_res_Inr)
  then have eq: "ts = grEntitlementTemplates props" and sch: "list_all template_schema ts"
    using map_new_template by blast+
  have upd: "props\<lparr>grEntitlementTemplates := ts\<rparr> = props" by (simp add: eq)
  note all = assms [unfolded new_grant_def ts bind_res_simps Let_def upd bind_res_Inr]
  show g: "g = props" using all by auto
  show "list_all template_schema (grEntitlementTemplates g)" using sch eq g by simp
  show "grActions g \<noteq> None"
    using all g by (auto simp: assert_actions_is_array_def split: if_splits)
  show "distinct (map tmClaimCode (grEntitlementTemplates g))"
    using all g by (auto simp: assert_template_claim_codes_unique_ok)
  show "\<forall>t\<in>set (grEntitlementTemplates g).
           \<forall>p\<in>set (tmAvailableAt t) \<union> set (claimable_positions (tmClaim t)).
             position_exists g (Some (tpPhase p)) (tpStage p) (tpStatus p)"
    using all g
    by (auto simp: assert_entitlement_template_positions_exist_def for_each_Inr
        assert_template_positions_exist_def bind_res_Inr assert_positions_exist_ok)
  show "assert_claim_approval_positions_exist g = Inr ()" using all g by auto
qed

lemma find_entitlement_template_SomeD:
  "find_entitlement_template g c = Some t \<Longrightarrow> t \<in> set (grEntitlementTemplates g) \<and> tmClaimCode t = c"
  unfolding find_entitlement_template_def by (rule find_SomeD)

lemma find_entitlement_template_own:
  assumes "distinct (map tmClaimCode (grEntitlementTemplates g))" and "t \<in> set (grEntitlementTemplates g)"
  shows "find_entitlement_template g (tmClaimCode t) = Some t"
  unfolding find_entitlement_template_def by (rule find_code_distinct [OF assms])

text \<open>A published grant: its lifecycle was built, so codes are unique and every target exists.\<close>

lemma from_definition_ok:
  assumes "from_definition sm jm known compileq d v = Inr g"
  shows "g = d\<lparr>grVersion := Some v\<rparr>" and "definition_schema g" and "new_grant jm g = Inr g"
    and "\<exists>l. new_grant_lifecycle known compileq (grPhases g) = Inr l
          \<and> assert_targets_exist_in (grExternalStatusMap g) l = Inr ()
          \<and> assert_amendable_positions_exist_in g l = Inr ()"
proof -
  have sch: "definition_schema d" and ng: "new_grant jm (d\<lparr>grVersion := Some v\<rparr>) = Inr g"
    and pub: "assert_publishable known compileq g = Inr ()"
    using assms
    by (auto simp: from_definition_def bind_res_Inr assert_matches_definition_schema_def split: if_splits)
  show g: "g = d\<lparr>grVersion := Some v\<rparr>" using new_grant_ok(1) [OF ng] .
  show "definition_schema g" using sch g by (simp add: definition_schema_def)
  show "new_grant jm g = Inr g" using ng g by simp
  show "\<exists>l. new_grant_lifecycle known compileq (grPhases g) = Inr l
          \<and> assert_targets_exist_in (grExternalStatusMap g) l = Inr ()
          \<and> assert_amendable_positions_exist_in g l = Inr ()"
    using pub by (auto simp: assert_publishable_def bind_res_Inr split: sum.splits if_splits)
qed

lemma lifecycle_unique_codes:
  assumes "new_grant_lifecycle known compileq phases = Inr l"
  shows "unique_codes phases"
proof -
  have d: "distinct (map phCode phases)"
    and a2: "list_all2 (\<lambda>x y. new_phase known compileq x = Inr y) phases l"
    using assms by (auto simp: new_grant_lifecycle_def ok_iff)
  have "distinct (map tgCode (phStages ph)) \<and> (\<forall>st\<in>set (phStages ph). distinct (map sdCode (tgStatuses st)))"
    if "ph \<in> set phases" for ph
  proof -
    from list_all2_in_left [OF a2 that] obtain p where "new_phase known compileq ph = Inr p"
      by blast
    then have dt: "distinct (map tgCode (phStages ph))"
      and st: "list_all2 (\<lambda>x y. new_stage known (phCode ph) x = Inr y) (phStages ph) (poStages p)"
      using new_phase_ok by blast+
    have "distinct (map sdCode (tgStatuses s))" if "s \<in> set (phStages ph)" for s
    proof -
      from list_all2_in_left [OF st that] obtain so where "new_stage known (phCode ph) s = Inr so"
        by blast
      then show ?thesis using new_stage_ok by blast
    qed
    with dt show ?thesis by blast
  qed
  with d show ?thesis by (simp add: unique_codes_def)
qed

lemma published_lookup:
  assumes "from_definition sm jm known compileq d v = Inr g"
  shows "(\<exists>sd. find_status_definition g p = Some sd) \<longleftrightarrow> p \<in> set (declared_positions (grPhases g))"
  using from_definition_ok(4) [OF assms] lifecycle_unique_codes declared_found
    find_status_definition_declared by blast

lemma external_mapping_listed:
  assumes "find_external_status_mapping g ph st requested source = Some ex"
  shows "\<exists>em\<in>set (external_mappings (grExternalStatusMap g)). emEntry em = ex \<and> emPhase em = ph \<and> emStage em = st"
    and "exCode ex = requested" and "exSource ex = source" and "js_truthy_string (exMappedTo ex)"
proof -
  obtain sm where sm: "find_external_stage (grExternalStatusMap g) ph st = Some sm"
    and ex: "find (external_status_match requested source) (esStatuses sm) = Some ex"
    and tr: "js_truthy_string (exMappedTo ex)"
    using assms by (auto simp: find_external_status_mapping_def split: option.splits if_splits
        simp: Option.bind_eq_Some_conv)
  show "exCode ex = requested" "exSource ex = source"
    using find_SomeD [OF ex] by (auto simp: external_status_match_def)
  show "js_truthy_string (exMappedTo ex)" by (rule tr)
  obtain ps epx where ps: "grExternalStatusMap g = Some ps" and epx: "epx \<in> set ps" "epCode epx = ph"
    and smem: "sm \<in> set (epStages epx)" "esCode sm = st"
    using sm by (auto simp: find_external_stage_def Option.bind_eq_Some_conv
        split: option.splits dest!: find_SomeD)
  have "ex \<in> set (esStatuses sm)" using find_SomeD [OF ex] by simp
  then have "\<lparr>emEntry = ex, emPhase = ph, emStage = st\<rparr> \<in> set (external_mappings (grExternalStatusMap g))"
    using ps epx smem by (force simp: external_mappings_def)
  then show "\<exists>em\<in>set (external_mappings (grExternalStatusMap g)). emEntry em = ex \<and> emPhase em = ph \<and> emStage em = st"
    by (rule rev_bexI) simp
qed

text \<open>
  In a published grant an external status that is mapped at all moves the application to a
  declared position, which the lookup for transitions finds.
\<close>

lemma published_mapping_target:
  assumes pub: "from_definition sm jm known compileq d v = Inr g"
    and found: "has_external_status_mapping g requested source ph st"
  shows "\<exists>p. map_external_state g ph st requested source = Some p \<and> p \<in> set (declared_positions (grPhases g))"
proof -
  obtain ex where ex: "find_external_status_mapping g ph st requested source = Some ex"
    using found by (auto simp: has_external_status_mapping_def)
  obtain l where l: "new_grant_lifecycle known compileq (grPhases g) = Inr l"
    "assert_targets_exist_in (grExternalStatusMap g) l = Inr ()"
    using from_definition_ok(4) [OF pub] by blast
  obtain em where em: "em \<in> set (external_mappings (grExternalStatusMap g))"
    "emEntry em = ex" "emPhase em = ph" "emStage em = st"
    using external_mapping_listed(1) [OF ex] by blast
  obtain t p where "exMappedTo ex = Some t" "mapping_target t ph st = Some p"
    "p \<in> set (lifecycle_positions l)"
    using assert_targets_exist_in_ok [OF l(2) em(1)] em by auto
  then show ?thesis
    using ex lifecycle_positions_declared [OF l(1)] by (simp add: map_external_state_def)
qed

text \<open>The configured claim approval move is one the grant allows.\<close>

lemma is_non_empty_string_Some: "is_non_empty_string v \<longleftrightarrow> (\<exists>s. v = Some s \<and> \<not> list_all is_blank_char s)"
  by (cases v) (simp_all add: is_non_empty_string_def)

lemma claim_approval_position_exists_ok:
  assumes "assert_claim_approval_position_exists g label position = Inr p"
  shows "position = Some p" and "\<exists>ph st ss. cfPhase p = Some ph \<and> cfStage p = Some st \<and> cfStatus p = Some ss"
    and "position_exists g (cfPhase p) (cfStage p) (cfStatus p)"
proof -
  have c: "assert_claim_approval_position_complete g label position = Inr ()"
    and e: "position = Some p" "position_exists g (cfPhase p) (cfStage p) (cfStatus p)"
    using assms
    by (auto simp: assert_claim_approval_position_exists_def bind_res_Inr split: option.splits if_splits)
  show "position = Some p" "position_exists g (cfPhase p) (cfStage p) (cfStatus p)"
    by (fact e)+
  show "\<exists>ph st ss. cfPhase p = Some ph \<and> cfStage p = Some st \<and> cfStatus p = Some ss"
    using c e(1)
    by (auto simp: assert_claim_approval_position_complete_def bind_res_Inr is_non_empty_string_Some
        split: if_splits)
qed

lemma format_config_position_full:
  "cfPhase p = Some a \<Longrightarrow> cfStage p = Some b \<Longrightarrow> cfStatus p = Some c \<Longrightarrow>
     format_config_position p = position_to_string (config_to_position p)"
  by (simp add: format_config_position_def format_position_def position_to_string_def
      config_to_position_def part_string_def)

lemma claim_approval_valid:
  assumes ng: "new_grant jm props = Inr g"
    and t: "claim_approval_transition_for g position = Some target"
  shows "find_status_definition g (config_to_position target) \<noteq> None"
    and "position_to_string position = position_to_string (config_to_position target)
       \<or> trValid (is_valid_transition g (config_to_position target) (position_to_string position))"
proof -
  obtain cfg c where cfg: "on_claim_approval_of g = Some cfg" "ocCurrentPosition cfg = Some c"
    "is_same_position c position" "ocTargetPosition cfg = Some target"
    using t by (auto simp: claim_approval_transition_for_def split: option.splits if_splits)
  obtain c' t' where e: "assert_claim_approval_position_exists g ''currentPosition'' (ocCurrentPosition cfg) = Inr c'"
    "assert_claim_approval_position_exists g ''targetPosition'' (ocTargetPosition cfg) = Inr t'"
    "assert_claim_approval_transition_valid g c' t' = Inr ()"
    using new_grant_ok(6) [OF ng] cfg(1)
    by (auto simp: assert_claim_approval_positions_exist_def bind_res_Inr)
  have ids: "c' = c" "t' = target"
    using claim_approval_position_exists_ok(1) [OF e(1)] claim_approval_position_exists_ok(1) [OF e(2)] cfg
    by simp_all
  have cp: "config_to_position c = position"
    using cfg(3) by (cases position) (auto simp: is_same_position_def config_to_position_def part_string_def)
  have fc: "format_config_position c = position_to_string position"
    using claim_approval_position_exists_ok(2) [OF e(1)] ids cp by (metis format_config_position_full)
  have ft: "format_config_position target = position_to_string (config_to_position target)"
    using claim_approval_position_exists_ok(2) [OF e(2)] ids by (metis format_config_position_full)
  show "find_status_definition g (config_to_position target) \<noteq> None"
    using claim_approval_position_exists_ok(2,3) [OF e(2)] ids
    by (auto simp: position_exists_def Let_def find_status_definition_alt config_to_position_def part_string_def)
  show "position_to_string position = position_to_string (config_to_position target)
       \<or> trValid (is_valid_transition g (config_to_position target) (position_to_string position))"
    using e(3) unfolding ids assert_claim_approval_transition_valid_def Let_def fc ft
    by (auto split: if_splits)
qed

end
