(* ===== verification/Application.thy ===== *)
theory Application
  imports Grant
begin

text \<open>
  Applications, the agreements they hold and the series that links an application to the ones it
  replaces (\<open>src/grants/models\<close>: application.js, agreement.js, application-series.js). An instant
  is its ISO text, and an operation reads the clock once: the argument \<open>now\<close>. An object used as a
  dictionary is an association list in order of insertion; its keys are agreement numbers, which
  are never names of \<open>Object.prototype\<close> nor array indices, so lookups and \<open>Object.values\<close> behave
  as on a plain list.
\<close>

section \<open>Agreements of an application\<close>

record history_entry =
  heAgreementStatus :: string
  heCreatedAt :: "string option"

record agreement =
  agAgreementRef :: string
  agLatestStatus :: string
  agUpdatedAt :: string
  agHistory :: "history_entry list"
  agStartDate :: "string option"
  agEndDate :: "string option"
  agAcceptedDate :: "string option"

definition status_offered :: string where "status_offered = ''OFFERED''"
definition status_accepted :: string where "status_accepted = ''ACCEPTED''"
definition status_cancelled :: string where "status_cancelled = ''CANCELLED''"
definition status_withdrawn :: string where "status_withdrawn = ''WITHDRAWN''"
definition status_terminated :: string where "status_terminated = ''TERMINATED''"

lemmas agreement_statuses = status_offered_def status_accepted_def status_cancelled_def
  status_withdrawn_def status_terminated_def

definition agreement_new :: "string \<Rightarrow> string \<Rightarrow> string option \<Rightarrow> agreement" where
  "agreement_new now agreementRef date =
     \<lparr>agAgreementRef = agreementRef, agLatestStatus = status_offered, agUpdatedAt = now,
      agHistory = [\<lparr>heAgreementStatus = status_offered, heCreatedAt = date\<rparr>],
      agStartDate = None, agEndDate = None, agAcceptedDate = None\<rparr>"

record agreement_dates =
  adAcceptedDate :: "string option"
  adStartDate :: "string option"
  adEndDate :: "string option"

definition agreement_accept :: "string \<Rightarrow> agreement_dates \<Rightarrow> agreement \<Rightarrow> agreement" where
  "agreement_accept now dates a =
     a\<lparr>agLatestStatus := status_accepted, agUpdatedAt := now, agStartDate := adStartDate dates,
       agEndDate := adEndDate dates, agAcceptedDate := adAcceptedDate dates,
       agHistory := agHistory a @ [\<lparr>heAgreementStatus = status_accepted, heCreatedAt = Some now\<rparr>]\<rparr>"

definition agreement_cancel :: "string \<Rightarrow> string option \<Rightarrow> agreement \<Rightarrow> agreement" where
  "agreement_cancel now date a =
     a\<lparr>agLatestStatus := status_cancelled, agUpdatedAt := now,
       agHistory := agHistory a @ [\<lparr>heAgreementStatus = status_cancelled, heCreatedAt = date\<rparr>]\<rparr>"

definition agreement_withdraw :: "string \<Rightarrow> string option \<Rightarrow> agreement \<Rightarrow> agreement" where
  "agreement_withdraw now date a =
     a\<lparr>agLatestStatus := status_withdrawn, agUpdatedAt := now,
       agHistory := agHistory a @ [\<lparr>heAgreementStatus = status_withdrawn, heCreatedAt = date\<rparr>]\<rparr>"

definition agreement_terminate :: "string \<Rightarrow> string option \<Rightarrow> agreement \<Rightarrow> agreement" where
  "agreement_terminate now date a =
     a\<lparr>agLatestStatus := status_terminated, agUpdatedAt := now,
       agHistory := agHistory a @ [\<lparr>heAgreementStatus = status_terminated, heCreatedAt = date\<rparr>]\<rparr>"

lemmas agreement_operations = agreement_new_def agreement_accept_def agreement_cancel_def
  agreement_withdraw_def agreement_terminate_def

text \<open>An agreement's status is the last one its history records.\<close>

definition agreement_wf :: "agreement \<Rightarrow> bool" where
  "agreement_wf a \<longleftrightarrow> agHistory a \<noteq> [] \<and> heAgreementStatus (last (agHistory a)) = agLatestStatus a"

lemma agreement_wf_operations [simp]:
  "agreement_wf (agreement_new now ref date)"
  "agreement_wf (agreement_accept now dates a)"
  "agreement_wf (agreement_cancel now date a)"
  "agreement_wf (agreement_withdraw now date a)"
  "agreement_wf (agreement_terminate now date a)"
  by (simp_all add: agreement_wf_def agreement_operations)

lemma agreement_ref_operations [simp]:
  "agAgreementRef (agreement_new now ref date) = ref"
  "agAgreementRef (agreement_accept now dates a) = agAgreementRef a"
  "agAgreementRef (agreement_cancel now date a) = agAgreementRef a"
  "agAgreementRef (agreement_withdraw now date a) = agAgreementRef a"
  "agAgreementRef (agreement_terminate now date a) = agAgreementRef a"
  by (simp_all add: agreement_operations)

section \<open>The application\<close>

record app_phase =
  aphCode :: string
  aphAnswers :: "(string \<times> json) list option"

record application =
  apCurrentPhase :: string
  apCurrentStage :: string
  apCurrentStatus :: string
  apClientRef :: string
  apCode :: string
  apOriginalConfigVersion :: "string option"
  apCurrentConfigVersion :: "string option"
  apCreatedAt :: string
  apUpdatedAt :: string
  apSubmittedAt :: "string option"
  apIdentifiers :: "(string \<times> json) list"
  apMetadata :: "(string \<times> json) list"
  apPhases :: "app_phase list"
  apAgreements :: "(string \<times> agreement) list"

text \<open>\<open>a ?? b\<close> on values that may be absent.\<close>

fun or_else :: "'a option \<Rightarrow> 'a option \<Rightarrow> 'a option" where
  "or_else (Some a) b = Some a"
| "or_else None b = b"

text \<open>
  The constructor: a reference and a code that are not empty, and the legacy single version as
  the fallback of both versions.
\<close>

definition application_schema :: "application \<Rightarrow> bool" where
  "application_schema p \<longleftrightarrow> apClientRef p \<noteq> [] \<and> apCode p \<noteq> []"

definition new_application ::
  "(application \<Rightarrow> string) \<Rightarrow> string option \<Rightarrow> application \<Rightarrow> application res" where
  "new_application joiMessages configVersion props =
     (if \<not> application_schema props
      then Inl (Boom BadRequest (''Invalid Application: '' @ joiMessages props) [])
      else Inr (props\<lparr>
        apOriginalConfigVersion := or_else (apOriginalConfigVersion props) configVersion,
        apCurrentConfigVersion := or_else (apCurrentConfigVersion props) configVersion\<rparr>))"

record new_application_props =
  naCurrentPhase :: string
  naCurrentStage :: string
  naCurrentStatus :: string
  naClientRef :: string
  naCode :: string
  naConfigVersion :: "string option"
  naSubmittedAt :: "string option"
  naIdentifiers :: "(string \<times> json) list"
  naMetadata :: "(string \<times> json) list"
  naPhases :: "app_phase list"

definition application_new ::
  "(application \<Rightarrow> string) \<Rightarrow> string \<Rightarrow> new_application_props \<Rightarrow> application res" where
  "application_new joiMessages now p =
     new_application joiMessages None
       \<lparr>apCurrentPhase = naCurrentPhase p, apCurrentStage = naCurrentStage p,
        apCurrentStatus = naCurrentStatus p, apClientRef = naClientRef p, apCode = naCode p,
        apOriginalConfigVersion = naConfigVersion p, apCurrentConfigVersion = naConfigVersion p,
        apCreatedAt = now, apUpdatedAt = now, apSubmittedAt = naSubmittedAt p,
        apIdentifiers = naIdentifiers p, apMetadata = naMetadata p, apPhases = naPhases p,
        apAgreements = []\<rparr>"

definition current_position :: "application \<Rightarrow> position" where
  "current_position app =
     \<lparr>posPhase = apCurrentPhase app, posStage = apCurrentStage app, posStatus = apCurrentStatus app\<rparr>"

definition get_fully_qualified_status :: "application \<Rightarrow> string" where
  "get_fully_qualified_status app =
     apCurrentPhase app @ '':'' @ apCurrentStage app @ '':'' @ apCurrentStatus app"

lemma get_fully_qualified_status_position:
  "get_fully_qualified_status app = position_to_string (current_position app)"
  by (simp add: get_fully_qualified_status_def current_position_def position_to_string_def)

definition is_replacement_allowed :: "string list \<Rightarrow> application \<Rightarrow> bool" where
  "is_replacement_allowed positions app \<longleftrightarrow> get_fully_qualified_status app \<in> set positions"

definition approve :: "string \<Rightarrow> application \<Rightarrow> application res" where
  "approve now app =
     (if apCurrentStatus app = ''APPLICATION_APPROVED''
      then Inl (JsError (''Application with clientRef '' @ quoted (apClientRef app)
        @ '' and code '' @ quoted (apCode app) @ '' is already approved''))
      else Inr (app\<lparr>apCurrentStatus := ''APPLICATION_APPROVED'', apUpdatedAt := now\<rparr>))"

record move =
  mvChanged :: bool
  mvPrevious :: string
  mvNew :: string
  mvProcesses :: processes_value

definition move_to :: "string \<Rightarrow> position \<Rightarrow> 'q grant \<Rightarrow> application \<Rightarrow> (application \<times> move) res" where
  "move_to now target g app =
     (let previous = get_fully_qualified_status app; next = position_to_string target in
      if previous = next
      then Inr (app, \<lparr>mvChanged = False, mvPrevious = previous, mvNew = previous,
                      mvProcesses = ProcessList []\<rparr>)
      else let transition = is_valid_transition g target previous in
        if \<not> trValid transition
        then Inl (Boom BadRequest (''Invalid transition from '' @ quoted previous @ '' to ''
               @ quoted next) [])
        else Inr (app\<lparr>apCurrentPhase := posPhase target, apCurrentStage := posStage target,
                      apCurrentStatus := posStatus target, apUpdatedAt := now\<rparr>,
                  \<lparr>mvChanged = True, mvPrevious = previous, mvNew = next,
                   mvProcesses = (case trProcesses transition of None \<Rightarrow> ProcessList [] | Some p \<Rightarrow> p)\<rparr>))"

record reference_context =
  rcClientRef :: string
  rcCode :: string
  rcPhase :: string
  rcStage :: string
  rcStatus :: string
  rcIdentifiers :: "(string \<times> json) list"
  rcAnswers :: "(string \<times> json) list"

definition answers_or_empty :: "app_phase \<Rightarrow> (string \<times> json) list" where
  "answers_or_empty p = (case aphAnswers p of None \<Rightarrow> [] | Some xs \<Rightarrow> xs)"

definition reference_context_of :: "application \<Rightarrow> reference_context" where
  "reference_context_of app =
     \<lparr>rcClientRef = apClientRef app, rcCode = apCode app, rcPhase = apCurrentPhase app,
      rcStage = apCurrentStage app, rcStatus = apCurrentStatus app,
      rcIdentifiers = apIdentifiers app,
      rcAnswers = foldl (\<lambda>merged phase. obj_spread merged (answers_or_empty phase)) [] (apPhases app)\<rparr>"

definition get_answers :: "application \<Rightarrow> (string \<times> json) list" where
  "get_answers app =
     (case find (\<lambda>p. aphCode p = apCurrentPhase app) (apPhases app) of
        None \<Rightarrow> [] | Some p \<Rightarrow> answers_or_empty p)"

section \<open>Agreements on an application\<close>

definition get_agreement :: "string \<Rightarrow> application \<Rightarrow> agreement option" where
  "get_agreement agreementRef app = map_of (apAgreements app) agreementRef"

definition add_agreement :: "string \<Rightarrow> agreement \<Rightarrow> application \<Rightarrow> application res" where
  "add_agreement now a app =
     (if get_agreement (agAgreementRef a) app \<noteq> None
      then Inl (Boom Conflict (''Agreement '' @ quoted (agAgreementRef a)
             @ '' already exists on application '' @ quoted (apClientRef app)) [])
      else Inr (app\<lparr>apAgreements := obj_put (agAgreementRef a) a (apAgreements app),
                    apUpdatedAt := now\<rparr>))"

definition get_active_agreement :: "application \<Rightarrow> agreement option" where
  "get_active_agreement app =
     find (\<lambda>a. agLatestStatus a = status_offered) (map snd (apAgreements app))"

definition get_accepted_agreement :: "application \<Rightarrow> agreement option" where
  "get_accepted_agreement app =
     find (\<lambda>a. agLatestStatus a = status_accepted) (map snd (apAgreements app))"

text \<open>The guard the four status changes below share, and the write through the reference.\<close>

definition no_such_agreement :: "string \<Rightarrow> application \<Rightarrow> js_error" where
  "no_such_agreement agreementRef app =
     Boom BadData (''Agreement '' @ quoted agreementRef @ '' does not exist on application ''
       @ quoted (apClientRef app)) []"

definition change_agreement ::
  "string \<Rightarrow> string \<Rightarrow> (agreement \<Rightarrow> agreement) \<Rightarrow> application \<Rightarrow> application res" where
  "change_agreement now agreementRef change app =
     (case get_agreement agreementRef app of
        None \<Rightarrow> Inl (no_such_agreement agreementRef app)
      | Some a \<Rightarrow> Inr (app\<lparr>apAgreements := obj_put agreementRef (change a) (apAgreements app),
                          apUpdatedAt := now\<rparr>))"

definition accept_agreement :: "string \<Rightarrow> string \<Rightarrow> agreement_dates \<Rightarrow> application \<Rightarrow> application res" where
  "accept_agreement now agreementNumber dates app =
     change_agreement now agreementNumber (agreement_accept now dates) app"

definition cancel_agreement :: "string \<Rightarrow> string \<Rightarrow> string option \<Rightarrow> application \<Rightarrow> application res" where
  "cancel_agreement now agreementRef date app =
     change_agreement now agreementRef (agreement_cancel now date) app"

definition withdraw_agreement :: "string \<Rightarrow> string \<Rightarrow> string option \<Rightarrow> application \<Rightarrow> application res" where
  "withdraw_agreement now agreementRef date app =
     change_agreement now agreementRef (agreement_withdraw now date) app"

definition terminate_agreement :: "string \<Rightarrow> string \<Rightarrow> string option \<Rightarrow> application \<Rightarrow> application res" where
  "terminate_agreement now agreementRef date app =
     change_agreement now agreementRef (agreement_terminate now date) app"

definition withdraw :: "string \<Rightarrow> application \<Rightarrow> application" where
  "withdraw now app = app\<lparr>apCurrentStatus := ''APPLICATION_WITHDRAWN'', apUpdatedAt := now\<rparr>"

record agreement_data =
  gdAgreementRef :: string
  gdAgreementStatus :: string
  gdCreatedAt :: "string option"
  gdUpdatedAt :: string
  gdAcceptedDate :: "string option"
  gdStartDate :: "string option"
  gdEndDate :: "string option"

definition get_agreements_data :: "application \<Rightarrow> agreement_data list" where
  "get_agreements_data app =
     map (\<lambda>a. \<lparr>gdAgreementRef = agAgreementRef a, gdAgreementStatus = agLatestStatus a,
               gdCreatedAt = (case agHistory a of [] \<Rightarrow> None | h # _ \<Rightarrow> heCreatedAt h),
               gdUpdatedAt = agUpdatedAt a, gdAcceptedDate = agAcceptedDate a,
               gdStartDate = agStartDate a, gdEndDate = agEndDate a\<rparr>)
       (map snd (apAgreements app))"

section \<open>What the operations keep\<close>

text \<open>
  Every agreement is filed under its own reference, once, and its status is what its history
  last recorded.
\<close>

definition application_wf :: "application \<Rightarrow> bool" where
  "application_wf app \<longleftrightarrow>
     apClientRef app \<noteq> [] \<and> apCode app \<noteq> [] \<and> distinct (map fst (apAgreements app))
     \<and> (\<forall>(ref, a)\<in>set (apAgreements app). agAgreementRef a = ref \<and> agreement_wf a)"

lemma new_application_ok: "new_application jm cv props = Inr app \<longleftrightarrow>
    application_schema props
    \<and> app = props\<lparr>apOriginalConfigVersion := or_else (apOriginalConfigVersion props) cv,
        apCurrentConfigVersion := or_else (apCurrentConfigVersion props) cv\<rparr>"
  by (auto simp: new_application_def)

lemma application_new_wf: "application_new jm now p = Inr app \<Longrightarrow> application_wf app"
  by (auto simp: application_new_def new_application_ok application_schema_def application_wf_def)

lemma application_wf_put:
  assumes "application_wf app" and "agAgreementRef a = ref" and "agreement_wf a"
  shows "application_wf (app\<lparr>apAgreements := obj_put ref a (apAgreements app), apUpdatedAt := now\<rparr>)"
proof -
  have "distinct (map fst (obj_put ref a (apAgreements app)))"
    using assms(1) by (auto simp: application_wf_def intro: obj_put_distinct)
  moreover have "\<forall>(r, x)\<in>set (obj_put ref a (apAgreements app)). agAgreementRef x = r \<and> agreement_wf x"
    using assms set_obj_put [of ref a "apAgreements app"] by (auto simp: application_wf_def)
  ultimately show ?thesis using assms(1) by (simp add: application_wf_def)
qed

lemma add_agreement_wf:
  "application_wf app \<Longrightarrow> agreement_wf a \<Longrightarrow> add_agreement now a app = Inr app' \<Longrightarrow> application_wf app'"
  by (auto simp: add_agreement_def application_wf_put split: if_splits)

lemma get_agreement_ref:
  "application_wf app \<Longrightarrow> get_agreement ref app = Some a \<Longrightarrow> agAgreementRef a = ref \<and> agreement_wf a"
  by (auto simp: application_wf_def get_agreement_def dest!: map_of_SomeD)

lemma change_agreement_wf:
  assumes "application_wf app" and "change_agreement now ref f app = Inr app'"
    and "\<And>a. agAgreementRef (f a) = agAgreementRef a" and "\<And>a. agreement_wf (f a)"
  shows "application_wf app'"
proof -
  obtain a where a: "get_agreement ref app = Some a"
    and app': "app' = app\<lparr>apAgreements := obj_put ref (f a) (apAgreements app), apUpdatedAt := now\<rparr>"
    using assms(2) by (auto simp: change_agreement_def split: option.splits)
  have "agAgreementRef (f a) = ref" using get_agreement_ref [OF assms(1) a] assms(3) by simp
  then show ?thesis unfolding app' by (rule application_wf_put [OF assms(1)]) (rule assms(4))
qed

lemma agreement_changes_wf:
  assumes "application_wf app"
  shows "accept_agreement now ref dates app = Inr app' \<Longrightarrow> application_wf app'"
    and "cancel_agreement now ref date app = Inr app' \<Longrightarrow> application_wf app'"
    and "withdraw_agreement now ref date app = Inr app' \<Longrightarrow> application_wf app'"
    and "terminate_agreement now ref date app = Inr app' \<Longrightarrow> application_wf app'"
  unfolding accept_agreement_def cancel_agreement_def withdraw_agreement_def terminate_agreement_def
  by (auto intro: change_agreement_wf [OF assms])

lemma change_agreement_get:
  assumes "change_agreement now ref f app = Inr app'"
  shows "get_agreement r app' = (if r = ref then map_option f (get_agreement ref app) else get_agreement r app)"
  using assms by (auto simp: change_agreement_def get_agreement_def split: option.splits)

lemma change_agreement_position:
  "change_agreement now ref f app = Inr app' \<Longrightarrow> current_position app' = current_position app"
  by (auto simp: change_agreement_def current_position_def split: option.splits)

lemma move_to_ok:
  assumes "move_to now target g app = Inr (app', m)"
  shows "if mvChanged m
         then position_to_string target \<noteq> position_to_string (current_position app)
           \<and> trValid (is_valid_transition g target (position_to_string (current_position app)))
           \<and> current_position app' = target
         else app' = app \<and> position_to_string target = position_to_string (current_position app)"
    and "mvPrevious m = position_to_string (current_position app)"
    and "mvNew m = position_to_string target"
    and "apAgreements app' = apAgreements app"
    and "apClientRef app' = apClientRef app" and "apCode app' = apCode app"
    and "apCurrentConfigVersion app' = apCurrentConfigVersion app"
  using assms
  by (auto simp: move_to_def Let_def get_fully_qualified_status_position current_position_def
      split: if_splits)

lemma move_to_wf: "application_wf app \<Longrightarrow> move_to now target g app = Inr (app', m) \<Longrightarrow> application_wf app'"
  using move_to_ok(4,5,6) [of now target g app app' m] by (auto simp: application_wf_def)

lemma move_to_refused:
  "move_to now target g app = Inl e \<longleftrightarrow>
     position_to_string target \<noteq> position_to_string (current_position app)
     \<and> \<not> trValid (is_valid_transition g target (position_to_string (current_position app)))
     \<and> e = Boom BadRequest (''Invalid transition from ''
             @ quoted (position_to_string (current_position app)) @ '' to ''
             @ quoted (position_to_string target)) []"
  by (auto simp: move_to_def Let_def get_fully_qualified_status_position)

section \<open>Application series\<close>

definition set_add :: "'a \<Rightarrow> 'a list \<Rightarrow> 'a list" where
  "set_add x xs = (if x \<in> set xs then xs else xs @ [x])"

definition js_set :: "'a list \<Rightarrow> 'a list" where
  "js_set xs = foldl (\<lambda>acc x. set_add x acc) [] xs"

lemma set_set_add [simp]: "set (set_add x xs) = insert x (set xs)"
  by (auto simp: set_add_def)

lemma distinct_set_add [simp]: "distinct (set_add x xs) = distinct xs"
  by (auto simp: set_add_def)

lemma js_set_fold:
  "distinct acc \<Longrightarrow> distinct (foldl (\<lambda>acc x. set_add x acc) acc xs)"
  "set (foldl (\<lambda>acc x. set_add x acc) acc xs) = set acc \<union> set xs"
  by (induction xs arbitrary: acc) simp_all

lemma js_set_props [simp]: "distinct (js_set xs)" "set (js_set xs) = set xs"
  by (simp_all add: js_set_def js_set_fold)

lemma js_set_fold_distinct:
  "distinct (acc @ xs) \<Longrightarrow> foldl (\<lambda>acc x. set_add x acc) acc xs = acc @ xs"
  by (induction xs arbitrary: acc) (auto simp: set_add_def)

lemma js_set_distinct: "distinct xs \<Longrightarrow> js_set xs = xs"
  using js_set_fold_distinct [of "[]" xs] by (simp add: js_set_def)

record series =
  seId :: "string option"
  seClientRefs :: "string list"
  seCode :: string
  seLatestClientRef :: string
  seLatestClientId :: string
  seCreatedAt :: string
  seUpdatedAt :: string

definition series_schema :: "series \<Rightarrow> bool" where
  "series_schema s \<longleftrightarrow> [] \<notin> set (seClientRefs s) \<and> seCode s \<noteq> [] \<and> seLatestClientId s \<noteq> []
     \<and> seLatestClientRef s \<noteq> [] \<and> seUpdatedAt s \<noteq> [] \<and> seCreatedAt s \<noteq> []"

text \<open>The argument's \<open>seClientRefs\<close> is the array given; the result's the \<open>Set\<close> made of it.\<close>

definition new_series :: "(series \<Rightarrow> string) \<Rightarrow> series \<Rightarrow> series res" where
  "new_series joiMessages props =
     (if \<not> series_schema props
      then Inl (Boom BadRequest (''Invalid ApplicationSeries: '' @ joiMessages props) [])
      else Inr (props\<lparr>seClientRefs := js_set (seClientRefs props)\<rparr>))"

definition add_client_ref :: "string \<Rightarrow> string \<Rightarrow> string \<Rightarrow> series \<Rightarrow> series res" where
  "add_client_ref now clientRef clientId s =
     (if clientRef = []
      then Inl (Boom BadData ''ApplicationSeries can not be updated, clientRef is missing.'' [])
      else if clientId = []
      then Inl (Boom BadData ''ApplicationSeries can not be updated, clientId is missing.'' [])
      else Inr (s\<lparr>seClientRefs := set_add clientRef (seClientRefs s), seLatestClientId := clientId,
                  seLatestClientRef := clientRef, seUpdatedAt := now\<rparr>))"

definition is_replaced :: "string \<Rightarrow> series \<Rightarrow> bool" where
  "is_replaced clientRef s \<longleftrightarrow> clientRef \<in> set (seClientRefs s) \<and> seLatestClientRef s \<noteq> clientRef"

definition series_new ::
  "(series \<Rightarrow> string) \<Rightarrow> string \<Rightarrow> string \<Rightarrow> string \<Rightarrow> string \<Rightarrow> series res" where
  "series_new joiMessages now code latestClientId latestClientRef =
     new_series joiMessages \<lparr>seId = None, seClientRefs = [latestClientRef], seCode = code,
       seLatestClientRef = latestClientRef, seLatestClientId = latestClientId,
       seCreatedAt = now, seUpdatedAt = now\<rparr>"

definition series_from_document :: "(series \<Rightarrow> string) \<Rightarrow> series \<Rightarrow> series res" where
  "series_from_document joiMessages doc =
     new_series joiMessages \<lparr>seId = seId doc, seClientRefs = seClientRefs doc, seCode = seCode doc,
       seLatestClientRef = seLatestClientRef doc, seLatestClientId = seLatestClientId doc,
       seCreatedAt = seCreatedAt doc, seUpdatedAt = seUpdatedAt doc\<rparr>"

definition series_to_document :: "series \<Rightarrow> series" where
  "series_to_document s =
     \<lparr>seId = seId s, seClientRefs = seClientRefs s, seCode = seCode s,
      seLatestClientRef = seLatestClientRef s, seLatestClientId = seLatestClientId s,
      seCreatedAt = seCreatedAt s, seUpdatedAt = seUpdatedAt s\<rparr>"

definition series_wf :: "series \<Rightarrow> bool" where
  "series_wf s \<longleftrightarrow> series_schema s \<and> distinct (seClientRefs s) \<and> seLatestClientRef s \<in> set (seClientRefs s)"

lemma series_new_wf: "series_new jm now code cid ref = Inr s \<Longrightarrow> series_wf s"
  by (auto simp: series_new_def new_series_def series_wf_def series_schema_def split: if_splits)

lemma add_client_ref_wf:
  "series_wf s \<Longrightarrow> now \<noteq> [] \<Longrightarrow> add_client_ref now ref cid s = Inr t \<Longrightarrow> series_wf t"
  by (auto simp: add_client_ref_def series_wf_def series_schema_def split: if_splits)

lemma series_roundtrip: "series_wf s \<Longrightarrow> series_from_document jm (series_to_document s) = Inr s"
  by (simp add: series_from_document_def series_to_document_def new_series_def series_wf_def
      js_set_distinct series_schema_def)

lemma add_client_ref_replaces:
  assumes "series_wf s" and "add_client_ref now ref cid s = Inr t"
  shows "is_replaced r t \<longleftrightarrow> r \<in> set (seClientRefs s) \<and> r \<noteq> ref"
  using assms by (auto simp: add_client_ref_def is_replaced_def split: if_splits)

end
