(* ===== verification/CoreProperties.thy ===== *)
theory CoreProperties
  imports Application
begin

text \<open>
  The properties of positions, grants, entitlement rules, access and applications, each with a
  concrete instance. The samples are a small published grant, a template with one decimal input
  and an application.
\<close>

section \<open>Samples\<close>

definition sample_status :: "string \<Rightarrow> valid_from list option \<Rightarrow> string list \<Rightarrow> status_def" where
  "sample_status c vs ps =
     \<lparr>sdCode = c, sdName = None, sdValidFrom = vs, sdProcesses = (if vs = None then Some (ProcessList ps) else None)\<rparr>"

definition sample_field :: field_def where
  "sample_field = \<lparr>fdInput = True, fdLabel = Some ''Area'', fdValue = None, fdUnitType = DecimalUnit,
     fdDecimalPlaces = Some 2, fdUnit = Some ''ha'', fdMinValue = Some 0, fdMaxValue = Some 100,
     fdMinLength = None, fdMaxLength = None\<rparr>"

definition sample_template :: template where
  "sample_template = \<lparr>tmClaimCode = ''HEDGE'', tmName = ''Hedge'', tmDescription = None,
     tmMaterialised = False, tmFields = Some [(''area'', sample_field)], tmMaxEntitlements = 2,
     tmAvailableAt = [\<lparr>tpPhase = ''PRE'', tpStage = None, tpStatus = None\<rparr>], tmHelp = None,
     tmClaim = None\<rparr>"

definition sample_grant :: "unit grant" where
  "sample_grant = \<lparr>grCode = ''wood'', grVersion = Some ''1.0.0'', grDescription = ''A grant'',
     grStartDate = ''2026-01-01'', grActions = Some [],
     grPhases = [\<lparr>phCode = ''PRE'', phName = None,
       phStages = [\<lparr>tgCode = ''ASSESS'', tgName = None,
         tgStatuses = [sample_status ''RECEIVED'' None [],
           sample_status ''REVIEW'' (Some [\<lparr>vfCode = ''RECEIVED'', vfProcesses = [''GENERATE_OFFER'']\<rparr>]) []]\<rparr>],
       phQuestions = Some ()\<rparr>],
     grExternalStatusMap = Some [\<lparr>epCode = ''PRE'', epStages = [\<lparr>esCode = ''ASSESS'',
       esStatuses = [\<lparr>exCode = ''in-review'', exSource = ''CW'', exMappedTo = Some ''::REVIEW''\<rparr>]\<rparr>]\<rparr>],
     grAmendablePositions = [''PRE:ASSESS:RECEIVED''], grEntitlementTemplates = [sample_template],
     grPages = None,
     grClaims = Some \<lparr>gcOnClaimApproval = Some \<lparr>
       ocCurrentPosition = Some \<lparr>cfPhase = Some ''PRE'', cfStage = Some ''ASSESS'', cfStatus = Some ''RECEIVED''\<rparr>,
       ocTargetPosition = Some \<lparr>cfPhase = Some ''PRE'', cfStage = Some ''ASSESS'', cfStatus = Some ''REVIEW''\<rparr>\<rparr>,
       gcRequiredRoles = None\<rparr>,
     grAdmin = None\<rparr>"

definition position_received :: position where
  "position_received = \<lparr>posPhase = ''PRE'', posStage = ''ASSESS'', posStatus = ''RECEIVED''\<rparr>"

definition position_review :: position where
  "position_review = \<lparr>posPhase = ''PRE'', posStage = ''ASSESS'', posStatus = ''REVIEW''\<rparr>"

definition sample_application :: application where
  "sample_application = \<lparr>apCurrentPhase = ''PRE'', apCurrentStage = ''ASSESS'',
     apCurrentStatus = ''RECEIVED'', apClientRef = ''ref-1'', apCode = ''wood'',
     apOriginalConfigVersion = Some ''1.0.0'', apCurrentConfigVersion = Some ''1.0.0'',
     apCreatedAt = ''t0'', apUpdatedAt = ''t0'', apSubmittedAt = None, apIdentifiers = [],
     apMetadata = [], apPhases = [], apAgreements = []\<rparr>"

abbreviation publish :: "unit grant \<Rightarrow> unit grant res" where
  "publish g \<equiv> from_definition (\<lambda>_. []) (\<lambda>_. []) (\<lambda>_. True) (\<lambda>_. Inr ()) g ''1.0.0''"

lemma sample_published: "publish sample_grant = Inr sample_grant"
  by code_simp

section \<open>Positions\<close>

text \<open>
  Printing and parsing a position are inverse: a text parses to a position exactly when it is
  that position's text and none of its three codes holds a colon.
\<close>

theorem position_text: "position_parse s = Some p \<longleftrightarrow> plain_position p \<and> s = position_to_string p"
  using parse_to_string to_string_parse parse_plain by blast

section \<open>Grants\<close>

text \<open>
  In a published grant a transition's status lookup finds exactly the positions the phases
  declare: codes are unique at every level, so no declared status hides another.
\<close>

theorem published_lookup_declared:
  assumes "from_definition sm jm known compileq d v = Inr g"
  shows "(\<exists>sd. find_status_definition g p = Some sd) \<longleftrightarrow> p \<in> set (declared_positions (grPhases g))"
  by (rule published_lookup [OF assms])

theorem published_lookup_declared_witness:
  "(\<exists>sd. find_status_definition sample_grant position_review = Some sd)
    \<longleftrightarrow> position_review \<in> set (declared_positions (grPhases sample_grant))"
  by (rule published_lookup_declared [OF sample_published])

text \<open>
  C38. In a published grant an external status that is mapped from a phase and stage maps to a
  position the grant declares, so a mapped message never asks for a position that is not there.
\<close>

theorem published_mapping_lands:
  assumes "from_definition sm jm known compileq d v = Inr g"
    and "has_external_status_mapping g requested source ph st"
  shows "\<exists>p. map_external_state g ph st requested source = Some p
    \<and> (\<exists>sd. find_status_definition g p = Some sd)"
  using published_mapping_target [OF assms] published_lookup [OF assms(1)] by blast

theorem published_mapping_lands_witness:
  "\<exists>p. map_external_state sample_grant ''PRE'' ''ASSESS'' ''in-review'' ''CW'' = Some p
    \<and> (\<exists>sd. find_status_definition sample_grant p = Some sd)"
proof -
  have "has_external_status_mapping sample_grant ''in-review'' ''CW'' ''PRE'' ''ASSESS''"
    by code_simp
  then show ?thesis by (rule published_mapping_lands [OF sample_published])
qed

text \<open>
  A grant that could be built only configures a claim approval move to a position it has, and,
  unless it stays where it is, one its own transition rules allow.
\<close>

theorem claim_approval_allowed:
  assumes "new_grant jm props = Inr g"
    and "claim_approval_transition_for g position = Some target"
  shows "find_status_definition g (config_to_position target) \<noteq> None
    \<and> (position_to_string position = position_to_string (config_to_position target)
       \<or> trValid (is_valid_transition g (config_to_position target) (position_to_string position)))"
  using claim_approval_valid [OF assms] by blast

theorem claim_approval_allowed_witness:
  "find_status_definition sample_grant position_review \<noteq> None
    \<and> trValid (is_valid_transition sample_grant position_review (position_to_string position_received))"
proof -
  let ?t = "\<lparr>cfPhase = Some ''PRE'', cfStage = Some ''ASSESS'', cfStatus = Some ''REVIEW''\<rparr>"
  have "claim_approval_transition_for sample_grant position_received = Some ?t"
    by code_simp
  moreover have "config_to_position ?t = position_review" by code_simp
  moreover have "position_to_string position_received \<noteq> position_to_string position_review" by code_simp
  ultimately show ?thesis
    using claim_approval_allowed [OF from_definition_ok(3) [OF sample_published]] by metis
qed

section \<open>Entitlements\<close>

text \<open>
  The number of a new entitlement is the least positive number no existing one of its kind has,
  so a freed slot is used again before a higher one.
\<close>

theorem instance_number_least_free:
  "next_instance_number existing = (LEAST n. 1 \<le> n \<and> n \<notin> set (map enInstanceNumber existing))"
proof (rule sym, rule Least_equality)
  show "1 \<le> next_instance_number existing \<and> next_instance_number existing \<notin> set (map enInstanceNumber existing)"
    using next_instance_number_free next_instance_number_ge by blast
  fix n assume "1 \<le> n \<and> n \<notin> set (map enInstanceNumber existing)"
  then show "next_instance_number existing \<le> n"
    using next_instance_number_least by (meson not_less)
qed

text \<open>
  An entitlement is only allowed within its template's limit: its number is at least one, at
  most the maximum, and not one an existing entitlement of the same claim code has.
\<close>

theorem creation_within_limit:
  assumes "assess_entitlement_creation t p existing submitted = Inr n"
  shows "1 \<le> n \<and> n \<le> tmMaxEntitlements t
    \<and> n \<notin> set (map enInstanceNumber (instances_of t existing))"
proof -
  have n: "length (instances_of t existing) < tmMaxEntitlements t"
    "n = next_instance_number (instances_of t existing)"
    using assms unfolding assess_allowed by blast+
  show ?thesis
    using n(1) next_instance_number_bound [of "instances_of t existing"]
      next_instance_number_ge [of "instances_of t existing"]
      next_instance_number_free [of "instances_of t existing"]
    unfolding n(2) by linarith
qed

definition sample_data :: submitted_data where
  "sample_data = [(''area'', Some (JNum (Finite 125 2 0)))]"

theorem creation_within_limit_witness: "(1::nat) \<le> 1 \<and> 1 \<le> tmMaxEntitlements sample_template"
proof -
  have "assess_entitlement_creation sample_template (Some position_received) [] sample_data = Inr 1"
    by code_simp
  then show ?thesis using creation_within_limit by blast
qed

lemma decimal_value_shape:
  assumes "decimal_value_matches f v"
  shows "\<exists>x p. v = Some (JNum x) \<and> fdDecimalPlaces f = Some p
    \<and> within_range (number_value x) (fdMinValue f) (fdMaxValue f) \<and> number_value x * 10 ^ p \<in> \<int>"
  using assms decimal_places_scale
  by (cases "(f, v)" rule: decimal_value_matches.cases) (auto split: option.splits)

text \<open>
  Data accepted for a template has exactly the template's input fields, and a decimal field's
  value is within its range and a whole number of units of its last decimal place.
\<close>

theorem accepted_data_shape:
  assumes "template_schema t" and "distinct (map fst submitted)"
    and "submitted_data_matches t submitted"
    and "map_of (template_fields t) name = Some f" and "fdInput f" and "fdUnitType f = DecimalUnit"
  shows "set (map fst submitted) = set (input_field_names t)
    \<and> (\<exists>x p. submitted_value submitted name = Some (JNum x) \<and> fdDecimalPlaces f = Some p
        \<and> within_range (number_value x) (fdMinValue f) (fdMaxValue f)
        \<and> number_value x * 10 ^ p \<in> \<int>)"
proof -
  have "decimal_value_matches f (submitted_value submitted name)"
    using submitted_values [OF assms(1,3,4,5)] assms(6) by (simp add: submitted_value_matches_def)
  then show ?thesis using submitted_names [OF assms(1-3)] decimal_value_shape by blast
qed

theorem accepted_data_shape_witness:
  "set (map fst sample_data) = {''area''}
    \<and> (\<exists>x p. submitted_value sample_data ''area'' = Some (JNum x) \<and> fdDecimalPlaces sample_field = Some p
        \<and> within_range (number_value x) (fdMinValue sample_field) (fdMaxValue sample_field)
        \<and> number_value x * 10 ^ p \<in> \<int>)"
proof -
  have a: "template_schema sample_template" "distinct (map fst sample_data)"
    "submitted_data_matches sample_template sample_data"
    by code_simp+
  have f: "map_of (template_fields sample_template) ''area'' = Some sample_field" "fdInput sample_field"
    "fdUnitType sample_field = DecimalUnit"
    by (simp_all add: template_fields_def sample_template_def sample_field_def)
  have "set (input_field_names sample_template) = {''area''}"
    by (simp add: input_field_names_def template_fields_def sample_template_def sample_field_def)
  then show ?thesis using accepted_data_shape [OF a f] by simp
qed

section \<open>Access to claims\<close>

text \<open>
  Claims of a grant may be changed by a caller exactly when the grant requires no roles, or the
  caller holds some role, every role of \<open>allOf\<close>, and one of \<open>anyOf\<close> unless it is empty; they may be
  seen exactly when the grant requires no roles or the caller holds any role at all.
\<close>

theorem claims_access_roles:
  "(assert_may_change_claims (claims_access_for required held) = Inr () \<longleftrightarrow>
     (case required of None \<Rightarrow> True
      | Some q \<Rightarrow> (case held of None \<Rightarrow> False | Some roles \<Rightarrow> roles \<noteq> []
          \<and> set (rrAllOf q) \<subseteq> set roles \<and> (rrAnyOf q = [] \<or> (\<exists>role\<in>set roles. role \<in> set (rrAnyOf q))))))
     \<and> (assert_may_view_claims (claims_access_for required held) = Inr () \<longleftrightarrow>
          required = None \<or> (\<exists>role roles. held = Some (role # roles)))"
proof (rule conjI)
  show "assert_may_change_claims (claims_access_for required held) = Inr () \<longleftrightarrow>
     (case required of None \<Rightarrow> True
      | Some q \<Rightarrow> (case held of None \<Rightarrow> False | Some roles \<Rightarrow> roles \<noteq> []
          \<and> set (rrAllOf q) \<subseteq> set roles \<and> (rrAnyOf q = [] \<or> (\<exists>role\<in>set roles. role \<in> set (rrAnyOf q)))))"
    unfolding may_change_ok access_full_iff by (auto split: option.splits)
  show "assert_may_view_claims (claims_access_for required held) = Inr () \<longleftrightarrow>
     required = None \<or> (\<exists>role roles. held = Some (role # roles))"
    by (auto simp: may_view_ok claims_access_for_def has_roles_def neq_Nil_conv split: option.splits)
qed

section \<open>Applications\<close>

text \<open>
  Moving an application succeeds exactly when the target is where it is, and then nothing
  changes, or the grant's transition rules allow the target from where it is, and then it is there;
  its agreements, reference and pinned version are kept.
\<close>

theorem move_allowed:
  "(\<exists>app' m. move_to now target g app = Inr (app', m)
      \<and> (if mvChanged m then current_position app' = target else app' = app)
      \<and> apAgreements app' = apAgreements app \<and> apClientRef app' = apClientRef app
      \<and> apCurrentConfigVersion app' = apCurrentConfigVersion app)
   \<longleftrightarrow> position_to_string target = get_fully_qualified_status app
     \<or> trValid (is_valid_transition g target (get_fully_qualified_status app))"
proof (cases "move_to now target g app")
  case (Inl e)
  then show ?thesis
    using move_to_refused [of now target g app e] by (simp add: get_fully_qualified_status_position)
next
  case (Inr r)
  obtain app' m where r: "move_to now target g app = Inr (app', m)" using Inr by (cases r) auto
  show ?thesis using move_to_ok [OF r] r
    by (auto simp: get_fully_qualified_status_position split: if_splits)
qed

text \<open>
  Every change of an application's agreements keeps them well filed: each under its own
  reference, once, with the status its history last recorded.
\<close>

theorem agreements_well_filed:
  assumes "application_wf app"
    and "Inr app' \<in> {add_agreement now (agreement_new now ref date) app, accept_agreement now ref dates app,
      cancel_agreement now ref date app, withdraw_agreement now ref date app,
      terminate_agreement now ref date app, map_sum id fst (move_to now target g app)}"
  shows "application_wf app'"
  using assms(2) add_agreement_wf [OF assms(1) agreement_wf_operations(1), of now now ref date app']
    agreement_changes_wf [OF assms(1), of now ref _ app'] move_to_wf [OF assms(1), of now target g app']
  by (cases "move_to now target g app") auto

theorem agreements_well_filed_witness:
  "\<exists>app'. add_agreement ''t1'' (agreement_new ''t1'' ''A1'' None) sample_application = Inr app'
    \<and> application_wf app'"
proof -
  have wf: "application_wf sample_application" by (simp add: application_wf_def sample_application_def)
  obtain app' where "add_agreement ''t1'' (agreement_new ''t1'' ''A1'' None) sample_application = Inr app'"
    by (simp add: add_agreement_def get_agreement_def sample_application_def)
  then show ?thesis using agreements_well_filed [OF wf, of app' "''t1''" "''A1''" None] by auto
qed

text \<open>
  Adding a reference to a series leaves every earlier reference replaced and the new one
  current, and a series survives being stored and read back.
\<close>

theorem series_replaced:
  assumes "series_wf s" and "now \<noteq> []" and "add_client_ref now ref cid s = Inr t"
  shows "(is_replaced r t \<longleftrightarrow> r \<in> set (seClientRefs s) \<and> r \<noteq> ref)
    \<and> series_from_document jm (series_to_document t) = Inr t"
  using add_client_ref_replaces [OF assms(1,3)] series_roundtrip [OF add_client_ref_wf [OF assms]]
  by blast+

definition sample_series :: series where
  "sample_series = \<lparr>seId = None, seClientRefs = [''ref-1''], seCode = ''wood'', seLatestClientRef = ''ref-1'',
     seLatestClientId = ''1'', seCreatedAt = ''t0'', seUpdatedAt = ''t0''\<rparr>"

theorem series_replaced_witness:
  "\<exists>t. add_client_ref ''t1'' ''ref-2'' ''2'' sample_series = Inr t \<and> is_replaced ''ref-1'' t"
proof -
  have wf: "series_wf sample_series" by (simp add: series_wf_def series_schema_def sample_series_def)
  obtain t where t: "add_client_ref ''t1'' ''ref-2'' ''2'' sample_series = Inr t"
    by (simp add: add_client_ref_def)
  have "''ref-1'' \<in> set (seClientRefs sample_series)" by (simp add: sample_series_def)
  then show ?thesis using t series_replaced [OF wf _ t] by simp
qed

end
