(* ===== verification/Claims.thy ===== *)
theory Claims
  imports Entitlements
begin

text \<open>
  The record of a claim submitted against one entitlement (\<open>src/grants/models/claim.js\<close>,
  \<open>claim-details.schema.js\<close>). The request bodies are kept as sent, as the entries of their objects;
  a number sent as text arrives here as the number the schema makes of it.
\<close>

record claim =
  kmCode :: string
  kmClientRef :: string
  kmClaimCode :: string
  kmClientClaimRef :: string
  kmEntitlementId :: string
  kmMetadata :: "(string \<times> json) list"
  kmClaim :: "(string \<times> json) list"
  kmCreatedAt :: string
  kmUpdatedAt :: string

definition text_entry :: "string \<Rightarrow> (string \<times> json) list \<Rightarrow> string option" where
  "text_entry k entries = (case map_of entries k of Some (JStr s) \<Rightarrow> Some s | _ \<Rightarrow> None)"

definition non_negative :: "json option \<Rightarrow> bool" where
  "non_negative v = (case v of Some (JNum (Finite m d e)) \<Rightarrow> 0 \<le> m | _ \<Rightarrow> False)"

definition whole_number :: "json option \<Rightarrow> bool" where
  "whole_number v = (case v of Some (JNum (Finite m d e)) \<Rightarrow> number_value (Finite m d e) = of_int \<lfloor>number_value (Finite m d e)\<rfloor> | _ \<Rightarrow> False)"

definition claim_details_schema :: "(string \<times> json) list \<Rightarrow> bool" where
  "claim_details_schema entries \<longleftrightarrow>
     js_truthy_string (text_entry ''entitlementId'' entries)
     \<and> whole_number (map_of entries ''totalClaimAmountPence'')
     \<and> non_negative (map_of entries ''totalClaimAmountPence'')
     \<and> (map_of entries ''quantity'' = None \<or> non_negative (map_of entries ''quantity''))"

definition claim_record_schema :: "claim \<Rightarrow> bool" where
  "claim_record_schema c \<longleftrightarrow>
     kmCode c \<noteq> [] \<and> kmClientRef c \<noteq> [] \<and> kmClaimCode c \<noteq> [] \<and> kmClientClaimRef c \<noteq> []
     \<and> kmEntitlementId c \<noteq> [] \<and> claim_details_schema (kmClaim c)
     \<and> text_entry ''entitlementId'' (kmClaim c) = Some (kmEntitlementId c)
     \<and> kmCreatedAt c \<noteq> [] \<and> kmUpdatedAt c \<noteq> []"

definition new_claim :: "(claim \<Rightarrow> string) \<Rightarrow> claim \<Rightarrow> claim res" where
  "new_claim joiMessages props =
     (if claim_record_schema props then Inr props
      else Inl (Boom BadRequest (''Invalid Claim: '' @ joiMessages props) []))"

text \<open>A reference to the entitlement that is not there fails the schema, as an empty one does.\<close>

definition claim_create ::
  "(claim \<Rightarrow> string) \<Rightarrow> string \<Rightarrow> string \<Rightarrow> string \<Rightarrow> string \<Rightarrow> string \<Rightarrow> (string \<times> json) list
     \<Rightarrow> (string \<times> json) list \<Rightarrow> claim res" where
  "claim_create joiMessages now code clientRef claimCode clientClaimRef metadata details =
     new_claim joiMessages
       \<lparr>kmCode = code, kmClientRef = clientRef, kmClaimCode = claimCode, kmClientClaimRef = clientClaimRef,
        kmEntitlementId = (case text_entry ''entitlementId'' details of None \<Rightarrow> [] | Some i \<Rightarrow> i),
        kmMetadata = metadata, kmClaim = details, kmCreatedAt = now, kmUpdatedAt = now\<rparr>"

lemma claim_create_ok:
  assumes "claim_create jm now code ref cc ccr md d = Inr c"
  shows "kmCode c = code" "kmClientRef c = ref" "kmClaimCode c = cc" "kmClientClaimRef c = ccr"
    "text_entry ''entitlementId'' d = Some (kmEntitlementId c)" "claim_record_schema c"
  using assms
  by (auto simp: claim_create_def new_claim_def claim_record_schema_def split: if_splits option.splits)

end
