(* ===== verification/Publication.thy ===== *)
theory Publication
  imports Application Claims
begin

text \<open>
  How the use cases of a grant write: the commands and events they publish
  (\<open>src/grants/commands\<close>, \<open>src/grants/events\<close>, \<open>src/common/cloud-event.js\<close>), the audit that wraps
  a use case (\<open>src/events/with-audit.js\<close>, \<open>write-audit-event.js\<close>), the transaction around it
  (\<open>src/common/with-transaction.js\<close>) and the applications they read and write
  (\<open>src/grants/repositories/application.repository.js\<close>, \<open>application-series.repository.js\<close>).
  An event is the data its constructor puts in the envelope; the id, time and trace the envelope
  adds are left out, and an outbox row is the event with its target.
\<close>

section \<open>Events\<close>

record status_updated =
  suClientRef :: string
  suGrantCode :: string
  suCurrentConfigVersion :: "string option"
  suPreviousStatus :: string
  suCurrentStatus :: string

record supplementary_data =
  sdCurrentConfigVersion :: "string option"
  sdPhase :: string
  sdStage :: string
  sdTargetNode :: "string option"
  sdDataType :: "string option"
  sdKey :: "string option"
  sdData :: "agreement_data option"

record update_case_status =
  ucCaseRef :: string
  ucWorkflowCode :: string
  ucNewStatus :: string
  ucSupplementaryData :: supplementary_data

record create_agreement =
  caClientRef :: string
  caCode :: string
  caCurrentConfigVersion :: "string option"
  caIdentifiers :: "(string \<times> json) list"
  caMetadata :: "(string \<times> json) list"
  caAnswers :: "(string \<times> json) list"

record update_agreement_status =
  uaClientRef :: string
  uaCode :: string
  uaStatus :: string
  uaAgreementNumber :: string

record application_created =
  acClientRef :: string
  acCode :: string
  acOriginalConfigVersion :: "string option"
  acStatus :: string

record create_case =
  ccCaseRef :: string
  ccWorkflowCode :: string
  ccPreviousCaseRef :: "json option"
  ccOriginalConfigVersion :: "string option"
  ccCreatedAt :: string
  ccSubmittedAt :: "string option"
  ccIdentifiers :: "(string \<times> json) list"
  ccMetadata :: "(string \<times> json) list"
  ccAnswers :: "(string \<times> json) list"

record case_supplement =
  cuCaseRef :: string
  cuWorkflowCode :: string
  cuTargetNode :: string
  cuDataType :: string
  cuKey :: string
  cuData :: "(string \<times> json) list"

record claim_payment_request =
  cqRequestId :: string
  cqCode :: string
  cqClientRef :: string
  cqClientClaimRef :: string
  cqEntitlementId :: string
  cqAgreementNumber :: string
  cqAgreementVersion :: nat
  cqCorrelationId :: string
  cqConfigVersion :: string
  cqExecutedAt :: string
  cqSnapshot :: "(string \<times> json) list"

datatype grant_event =
    ApplicationStatusUpdated status_updated
  | UpdateCaseStatus update_case_status
  | CreateAgreement create_agreement
  | UpdateAgreementStatus update_agreement_status
  | ApplicationCreated application_created
  | CreateCase create_case
  | UpdateCaseSupplementaryData case_supplement
  | ClaimPaymentRequested claim_payment_request

text \<open>Empty texts are falsy: \<open>targetNode\<close>, \<open>dataType\<close> and \<open>key\<close> are only set when given.\<close>

definition truthy :: "string option \<Rightarrow> string option" where
  "truthy v = (case v of Some [] \<Rightarrow> None | _ \<Rightarrow> v)"

record update_case_status_props =
  upCaseRef :: string
  upWorkflowCode :: string
  upConfigVersion :: "string option"
  upNewStatus :: string
  upPhase :: string
  upStage :: string
  upTargetNode :: "string option"
  upDataType :: "string option"
  upKey :: "string option"
  upData :: "agreement_data option"

definition update_case_status_command :: "update_case_status_props \<Rightarrow> grant_event" where
  "update_case_status_command p =
     UpdateCaseStatus \<lparr>ucCaseRef = upCaseRef p, ucWorkflowCode = upWorkflowCode p,
       ucNewStatus = upNewStatus p,
       ucSupplementaryData = \<lparr>sdCurrentConfigVersion = upConfigVersion p, sdPhase = upPhase p,
         sdStage = upStage p, sdTargetNode = truthy (upTargetNode p), sdDataType = truthy (upDataType p),
         sdKey = truthy (upKey p), sdData = upData p\<rparr>\<rparr>"

definition application_status_updated_event ::
  "string \<Rightarrow> string \<Rightarrow> string option \<Rightarrow> string \<Rightarrow> string \<Rightarrow> grant_event" where
  "application_status_updated_event clientRef code currentConfigVersion previousStatus currentStatus =
     ApplicationStatusUpdated \<lparr>suClientRef = clientRef, suGrantCode = code,
       suCurrentConfigVersion = currentConfigVersion, suPreviousStatus = previousStatus,
       suCurrentStatus = currentStatus\<rparr>"

definition create_agreement_command :: "application \<Rightarrow> create_agreement" where
  "create_agreement_command app =
     \<lparr>caClientRef = apClientRef app, caCode = apCode app,
      caCurrentConfigVersion = apCurrentConfigVersion app, caIdentifiers = apIdentifiers app,
      caMetadata = apMetadata app, caAnswers = get_answers app\<rparr>"

definition application_created_event :: "application \<Rightarrow> grant_event" where
  "application_created_event app =
     ApplicationCreated \<lparr>acClientRef = apClientRef app, acCode = apCode app,
       acOriginalConfigVersion = apOriginalConfigVersion app,
       acStatus = get_fully_qualified_status app\<rparr>"

definition create_new_case_command :: "application \<Rightarrow> grant_event" where
  "create_new_case_command app =
     CreateCase \<lparr>ccCaseRef = apClientRef app, ccWorkflowCode = apCode app,
       ccPreviousCaseRef = map_of (apMetadata app) ''previousClientRef'',
       ccOriginalConfigVersion = apOriginalConfigVersion app, ccCreatedAt = apCreatedAt app,
       ccSubmittedAt = apSubmittedAt app, ccIdentifiers = apIdentifiers app,
       ccMetadata = apMetadata app, ccAnswers = get_answers app\<rparr>"

section \<open>The database\<close>

datatype audit_status = SUCCESS | FAILURE

record audit =
  auEntity :: string
  auAction :: string
  auEntityId :: string
  auDetails :: "(string \<times> json) list"
  auSegregationRef :: string

datatype outbox_entry = Message grant_event string | Audit audit audit_status

text \<open>
  A write that names no session commits on its own, whatever becomes of the transaction around it:
  the audit of a failure, and the version an application was resolved to.
\<close>

datatype outside_write = OutsideAudit audit | OutsideVersion string string string

text \<open>A claim is stored with the id the database gives it.\<close>

record grants_db =
  dbApplications :: "application list"
  dbSeries :: "series list"
  dbEntitlements :: "entitlement list"
  dbClaims :: "(string \<times> claim) list"
  dbOutbox :: "outbox_entry list"
  dbOutside :: "outside_write list"

fun apply_outside :: "outside_write \<Rightarrow> grants_db \<Rightarrow> grants_db" where
  "apply_outside (OutsideAudit a) db = db\<lparr>dbOutbox := dbOutbox db @ [Audit a FAILURE]\<rparr>"
| "apply_outside (OutsideVersion clientRef code v) db =
     db\<lparr>dbApplications := map (\<lambda>a. if apClientRef a = clientRef \<and> apCode a = code
        then a\<lparr>apCurrentConfigVersion := Some v\<rparr> else a) (dbApplications db)\<rparr>"

text \<open>
  The transaction runs its callback once: the driver's retries after a transient error start over
  from the state before. Its writes are kept when it returns and dropped when it throws; those
  outside are kept either way. Inside, \<open>dbOutside\<close> collects them.
\<close>

definition settle_outside :: "outside_write list \<Rightarrow> grants_db \<Rightarrow> grants_db" where
  "settle_outside ws db = (foldl (\<lambda>acc w. apply_outside w acc) db ws)\<lparr>dbOutside := []\<rparr>"

definition with_transaction :: "(grants_db, 'a) action \<Rightarrow> (grants_db, 'a) action" where
  "with_transaction callback = (\<lambda>db.
     case callback (db\<lparr>dbOutside := []\<rparr>) of
       (Inr x, t) \<Rightarrow> (Inr x, settle_outside (dbOutside t) t)
     | (Inl e, t) \<Rightarrow> (Inl e, settle_outside (dbOutside t) db))"

definition save_grant_events :: "(grant_event \<times> string) list \<Rightarrow> (grants_db, unit) action" where
  "save_grant_events publications =
     writes (\<lambda>db. db\<lparr>dbOutbox := dbOutbox db @ map (\<lambda>(e, target). Message e target) publications\<rparr>)"

definition write_audit_event :: "(audit \<Rightarrow> bool) \<Rightarrow> audit \<Rightarrow> audit_status \<Rightarrow> (grants_db, unit) action" where
  "write_audit_event validAudit a status =
     (if \<not> validAudit a then throw (JsError ''Audit event failed validation'')
      else writes (\<lambda>db. db\<lparr>dbOutbox := dbOutbox db @ [Audit a status]\<rparr>))"

text \<open>
  The audit of a use case that runs in its caller's transaction. \<open>dataBuilder\<close> is given what the
  use case returned, or nothing when it threw, and may itself throw or have nothing to record.
  On success the audit is part of the commit, so failing to write it aborts; on failure it is
  written outside, and whatever goes wrong with it is swallowed.
\<close>

definition with_audit ::
  "(audit \<Rightarrow> bool) \<Rightarrow> (grants_db, 'a) action \<Rightarrow> ('a option \<Rightarrow> audit option res) \<Rightarrow> (grants_db, 'a) action" where
  "with_audit validAudit f dataBuilder = (\<lambda>db.
     case f db of
       (Inr x, t) \<Rightarrow>
         (case dataBuilder (Some x) of
            Inl e \<Rightarrow> (Inl e, t)
          | Inr None \<Rightarrow> (Inr x, t)
          | Inr (Some a) \<Rightarrow> andThen (write_audit_event validAudit a SUCCESS) (\<lambda>_. ret x) t)
     | (Inl e, t) \<Rightarrow>
         (Inl e, case dataBuilder None of
            Inr (Some a) \<Rightarrow> if validAudit a then t\<lparr>dbOutside := dbOutside t @ [OutsideAudit a]\<rparr> else t
          | _ \<Rightarrow> t))"

section \<open>Applications and series\<close>

definition same_application :: "string \<Rightarrow> string \<Rightarrow> application \<Rightarrow> bool" where
  "same_application clientRef code a \<longleftrightarrow> apClientRef a = clientRef \<and> apCode a = code"

definition find_application :: "string \<Rightarrow> string \<Rightarrow> grants_db \<Rightarrow> application option" where
  "find_application clientRef code db = find (same_application clientRef code) (dbApplications db)"

definition update_failed :: "application \<Rightarrow> js_error" where
  "update_failed app = Boom NotFound (''Failed to update application with clientRef ''
     @ quoted (apClientRef app) @ '' and code '' @ quoted (apCode app)) []"

text \<open>\<open>modifiedCount\<close> is zero when there is no such document and when the document is the same.\<close>

definition update_application :: "application \<Rightarrow> (grants_db, unit) action" where
  "update_application app = (\<lambda>db.
     case find_application (apClientRef app) (apCode app) db of
       None \<Rightarrow> (Inl (update_failed app), db)
     | Some stored \<Rightarrow>
         if stored = app then (Inl (update_failed app), db)
         else (Inr (), db\<lparr>dbApplications :=
           update_one (same_application (apClientRef app) (apCode app)) (\<lambda>_. app) (dbApplications db)\<rparr>))"

definition save_application :: "application \<Rightarrow> (grants_db, unit) action" where
  "save_application app = (\<lambda>db.
     if find_application (apClientRef app) (apCode app) db \<noteq> None
     then (Inl (Boom Conflict (''Application with clientRef '' @ quoted (apClientRef app) @ '' exists'') []), db)
     else (Inr (), db\<lparr>dbApplications := dbApplications db @ [app]\<rparr>))"

definition find_series :: "(series \<Rightarrow> string) \<Rightarrow> string \<Rightarrow> string \<Rightarrow> (grants_db, series) action" where
  "find_series joiMessages clientRef code = (\<lambda>db.
     (case find (\<lambda>s. seLatestClientRef s = clientRef \<and> seCode s = code) (dbSeries db) of
        None \<Rightarrow> Inl (Boom NotFound (''Application_series with currentClientRef '' @ quoted clientRef
                 @ '' and code '' @ quoted code @ '' not found.'') [])
      | Some s \<Rightarrow> series_from_document joiMessages s, db))"

definition save_series :: "string \<Rightarrow> series \<Rightarrow> (grants_db, unit) action" where
  "save_series newId s = writes (\<lambda>db. db\<lparr>dbSeries := dbSeries db @ [(series_to_document s)\<lparr>seId := Some newId\<rparr>]\<rparr>)"

definition series_update_failed :: "series \<Rightarrow> js_error" where
  "series_update_failed s = Boom NotFound (''Failed to update application_series with _id ''
     @ quoted (part_string (seId s))) []"

definition update_series :: "series \<Rightarrow> (grants_db, unit) action" where
  "update_series s = (\<lambda>db.
     case find (\<lambda>x. seId x = seId s) (dbSeries db) of
       None \<Rightarrow> (Inl (series_update_failed s), db)
     | Some stored \<Rightarrow>
         if stored = series_to_document s then (Inl (series_update_failed s), db)
         else (Inr (), db\<lparr>dbSeries := update_one (\<lambda>x. seId x = seId s) (\<lambda>_. series_to_document s) (dbSeries db)\<rparr>))"

text \<open>\<open>persistResolvedVersion\<close> names no session.\<close>

definition persist_resolved_version ::
  "application \<Rightarrow> string option \<Rightarrow> (grants_db, application) action" where
  "persist_resolved_version app resolvedVersion =
     (case resolvedVersion of
        Some (c # cs) \<Rightarrow>
          if apCurrentConfigVersion app = Some (c # cs) then ret app
          else andThen (writes (\<lambda>db. db\<lparr>dbOutside := dbOutside db
                 @ [OutsideVersion (apClientRef app) (apCode app) (c # cs)]\<rparr>)) (\<lambda>_.
               ret (app\<lparr>apCurrentConfigVersion := Some (c # cs)\<rparr>))
      | _ \<Rightarrow> ret app)"

section \<open>What a transaction keeps\<close>

lemma with_transaction_ok:
  "with_transaction cb db = (Inr x, db') \<longleftrightarrow>
     (\<exists>t. cb (db\<lparr>dbOutside := []\<rparr>) = (Inr x, t) \<and> db' = settle_outside (dbOutside t) t)"
  by (auto simp: with_transaction_def split: prod.splits sum.splits)

lemma with_transaction_failed:
  "with_transaction cb db = (Inl e, db') \<longleftrightarrow>
     (\<exists>t. cb (db\<lparr>dbOutside := []\<rparr>) = (Inl e, t) \<and> db' = settle_outside (dbOutside t) db)"
  by (auto simp: with_transaction_def split: prod.splits sum.splits)

lemma settle_outside_series [simp]: "dbSeries (settle_outside ws db) = dbSeries db"
proof -
  have "dbSeries (foldl (\<lambda>acc w. apply_outside w acc) db ws) = dbSeries db"
  proof (induction ws arbitrary: db)
    case (Cons w ws)
    then show ?case by (cases w) simp_all
  qed simp
  then show ?thesis by (simp add: settle_outside_def)
qed

lemma settle_outside_outbox:
  "dbOutbox (settle_outside ws db) =
     dbOutbox db @ concat (map (\<lambda>w. case w of OutsideAudit a \<Rightarrow> [Audit a FAILURE] | _ \<Rightarrow> []) ws)"
proof -
  have "dbOutbox (foldl (\<lambda>acc w. apply_outside w acc) db ws) =
     dbOutbox db @ concat (map (\<lambda>w. case w of OutsideAudit a \<Rightarrow> [Audit a FAILURE] | _ \<Rightarrow> []) ws)"
  proof (induction ws arbitrary: db)
    case (Cons w ws)
    then show ?case by (cases w) simp_all
  qed simp
  then show ?thesis by (simp add: settle_outside_def)
qed

definition unversioned :: "application \<Rightarrow> application" where
  "unversioned a = a\<lparr>apCurrentConfigVersion := None\<rparr>"

lemma settle_outside_applications:
  "map unversioned (dbApplications (settle_outside ws db)) = map unversioned (dbApplications db)"
proof -
  have "map unversioned (dbApplications (foldl (\<lambda>acc w. apply_outside w acc) db ws))
      = map unversioned (dbApplications db)"
  proof (induction ws arbitrary: db)
    case (Cons w ws)
    then show ?case by (cases w) (simp_all add: unversioned_def comp_def)
  qed simp
  then show ?thesis by (simp add: settle_outside_def)
qed

text \<open>
  A transaction that throws leaves every application as it was but for the version it is pinned
  to, every series, and the outbox with at most audits of failures added.
\<close>

lemma rolled_back:
  assumes "with_transaction cb db = (Inl e, db')"
  shows "map unversioned (dbApplications db') = map unversioned (dbApplications db)
    \<and> dbSeries db' = dbSeries db
    \<and> (\<exists>audits. dbOutbox db' = dbOutbox db @ map (\<lambda>a. Audit a FAILURE) audits)"
proof -
  obtain t :: grants_db where db': "db' = settle_outside (dbOutside t) db"
    using assms unfolding with_transaction_failed by blast
  have "\<exists>audits. concat (map (\<lambda>w. case w of OutsideAudit a \<Rightarrow> [Audit a FAILURE] | _ \<Rightarrow> []) ws)
      = map (\<lambda>a. Audit a FAILURE) audits" for ws
  proof (induction ws)
    case (Cons w ws)
    then obtain audits where "concat (map (\<lambda>w. case w of OutsideAudit a \<Rightarrow> [Audit a FAILURE] | _ \<Rightarrow> []) ws)
      = map (\<lambda>a. Audit a FAILURE) audits" by blast
    then show ?case
      by (cases w) (auto intro: exI [of _ "_ # audits"] exI [of _ audits])
  qed simp
  then show ?thesis unfolding db' settle_outside_outbox using settle_outside_applications by simp
qed

end
