(* ===== verification/ConfigCatalog.thy ===== *)
theory ConfigCatalog
  imports Prelude "HOL-Library.Product_Lexorder"
begin

text \<open>
  The catalogue of configuration versions: semantic versions (\<open>src/common/semver.js\<close>), the state of
  each definition file (\<open>src/common/config-broker/fetch-state-update.js\<close>, \<open>fetch-status.js\<close>), the
  \<open>ConfigVersion\<close> class (\<open>src/grants/models/config-version.js\<close>) and the two repositories over the
  \<open>config_versions\<close> collection (\<open>src/grants/repositories/config-version.repository.js\<close>,
  \<open>src/common/config-broker/config-catalog.repository.js\<close>). The parts of a version are natural
  numbers: JavaScript's are exact below \<open>2 ^ 53\<close>.
\<close>

section \<open>Semantic versions\<close>

datatype semver = Semver (svMajor: nat) (svMinor: nat) (svPatch: nat)

definition semver_key :: "semver \<Rightarrow> nat \<times> nat \<times> nat" where
  "semver_key v = (svMajor v, svMinor v, svPatch v)"

lemma semver_key_inj: "semver_key v = semver_key w \<longleftrightarrow> v = w"
  by (cases v; cases w) (simp add: semver_key_def)

text \<open>Versions are ordered by major, then minor, then patch, as the catalogue sorts them.\<close>

instantiation semver :: linorder
begin

definition less_eq_semver :: "semver \<Rightarrow> semver \<Rightarrow> bool" where
  "v \<le> w \<longleftrightarrow> semver_key v \<le> semver_key w"

definition less_semver :: "semver \<Rightarrow> semver \<Rightarrow> bool" where
  "v < w \<longleftrightarrow> semver_key v < semver_key w"

instance
  by standard (auto simp: less_eq_semver_def less_semver_def semver_key_inj less_le_not_le)

end

definition is_digit :: "char \<Rightarrow> bool" where
  "is_digit c \<longleftrightarrow> 48 \<le> (of_char c :: nat) \<and> (of_char c :: nat) \<le> 57"

definition all_digits :: "string \<Rightarrow> bool" where
  "all_digits s \<longleftrightarrow> s \<noteq> [] \<and> list_all is_digit s"

definition parse_int :: "string \<Rightarrow> nat" where
  "parse_int s = foldl (\<lambda>n c. 10 * n + (of_char c - 48)) 0 s"

definition parse_semver :: "string \<Rightarrow> semver option" where
  "parse_semver version =
     (let parts = split_on CHR ''.'' version in
      if length parts \<noteq> 3 \<or> list_ex (\<lambda>p. \<not> all_digits p) parts then None
      else Some (Semver (parse_int (parts ! 0)) (parse_int (parts ! 1)) (parse_int (parts ! 2))))"

section \<open>The state of a definition file\<close>

datatype fetch_status = FetchPending | Fetched | FetchTransient | FetchPermanent

text \<open>Best first.\<close>

fun fetch_status_rank :: "fetch_status \<Rightarrow> nat" where
  "fetch_status_rank Fetched = 0"
| "fetch_status_rank FetchPending = 1"
| "fetch_status_rank FetchTransient = 2"
| "fetch_status_rank FetchPermanent = 3"

lemma fetch_status_rank_inj: "fetch_status_rank a = fetch_status_rank b \<longleftrightarrow> a = b"
  by (cases a; cases b) simp_all

instantiation fetch_status :: linorder
begin

definition less_eq_fetch_status :: "fetch_status \<Rightarrow> fetch_status \<Rightarrow> bool" where
  "a \<le> b \<longleftrightarrow> fetch_status_rank a \<le> fetch_status_rank b"

definition less_fetch_status :: "fetch_status \<Rightarrow> fetch_status \<Rightarrow> bool" where
  "a < b \<longleftrightarrow> fetch_status_rank a < fetch_status_rank b"

instance
  by standard (auto simp: less_eq_fetch_status_def less_fetch_status_def fetch_status_rank_inj)

end

datatype definition_type = GrantFile | AgreementFile | PaymentFile

text \<open>Both a location that is null and one that is not there are \<open>None\<close>.\<close>

record fetch_state =
  fsS3Key :: "string option"
  fsFetchedAt :: "string option"
  fsFetchStatus :: fetch_status
  fsFetchError :: "string option"
  fsFetchAttempts :: nat
  fsLastFetchAttemptAt :: "string option"

definition build_fetch_state_update ::
  "fetch_status \<Rightarrow> string option \<Rightarrow> string \<Rightarrow> fetch_state \<Rightarrow> fetch_state" where
  "build_fetch_state_update status error when s =
     (let s1 = s\<lparr>fsFetchStatus := status, fsFetchError := error, fsLastFetchAttemptAt := Some when\<rparr> in
      if status \<noteq> Fetched then s1\<lparr>fsFetchAttempts := fsFetchAttempts s + 1\<rparr>
      else s1\<lparr>fsFetchedAt := Some when, fsFetchAttempts := 0\<rparr>)"

section \<open>The documents\<close>

record config_row =
  crGrantCode :: string
  crVersion :: string
  crSemver :: semver
  crStatus :: string
  crS3Bucket :: "string option"
  crReceivedAt :: string
  crDefinitions :: "(definition_type \<times> fetch_state) list"
  crWorstFetchStatus :: "fetch_status option"

text \<open>The worst status of the files, or null without any.\<close>

definition worst_fetch_status :: "(definition_type \<times> fetch_state) list \<Rightarrow> fetch_status option" where
  "worst_fetch_status files =
     (case map (\<lambda>f. fsFetchStatus (snd f)) files of [] \<Rightarrow> None | s # ss \<Rightarrow> Some (foldl max s ss))"

definition with_worst_fetch_status :: "config_row \<Rightarrow> config_row" where
  "with_worst_fetch_status r = r\<lparr>crWorstFetchStatus := worst_fetch_status (crDefinitions r)\<rparr>"

record config_version =
  cvGrantCode :: string
  cvVersion :: string
  cvSemver :: semver
  cvStatus :: string
  cvS3Bucket :: "string option"
  cvReceivedAt :: string
  cvGrant :: fetch_state

definition config_version_schema :: "config_version \<Rightarrow> bool" where
  "config_version_schema v \<longleftrightarrow> cvGrantCode v \<noteq> [] \<and> cvVersion v \<noteq> []
     \<and> fsS3Key (cvGrant v) \<noteq> Some [] \<and> cvS3Bucket v \<noteq> Some []"

definition new_config_version :: "(config_version \<Rightarrow> string) \<Rightarrow> config_version \<Rightarrow> config_version res" where
  "new_config_version joiMessages v =
     (if config_version_schema v then Inr v
      else Inl (Boom BadRequest (''Invalid ConfigVersion: '' @ joiMessages v) []))"

definition new_fetch_state :: "string option \<Rightarrow> fetch_state" where
  "new_fetch_state s3Key = \<lparr>fsS3Key = s3Key, fsFetchedAt = None, fsFetchStatus = FetchPending,
     fsFetchError = None, fsFetchAttempts = 0, fsLastFetchAttemptAt = None\<rparr>"

definition config_version_new ::
  "(config_version \<Rightarrow> string) \<Rightarrow> string \<Rightarrow> string \<Rightarrow> string \<Rightarrow> string \<Rightarrow> string option \<Rightarrow> string option
     \<Rightarrow> config_version res" where
  "config_version_new joiMessages now grantCode version status s3Key s3Bucket =
     (case parse_semver version of
        None \<Rightarrow> Inl (Boom BadRequest (''Invalid semver version: '' @ version) [])
      | Some parsed \<Rightarrow> new_config_version joiMessages
          \<lparr>cvGrantCode = grantCode, cvVersion = version, cvSemver = parsed, cvStatus = status,
           cvS3Bucket = s3Bucket, cvReceivedAt = now, cvGrant = new_fetch_state s3Key\<rparr>)"

text \<open>A row without a grant file has no \<open>grant\<close> to take the fields of, which throws.\<close>

definition config_version_from_document ::
  "(config_version \<Rightarrow> string) \<Rightarrow> config_row option \<Rightarrow> config_version option res" where
  "config_version_from_document joiMessages doc =
     (case doc of
        None \<Rightarrow> Inr None
      | Some r \<Rightarrow>
          (case map_of (crDefinitions r) GrantFile of
             None \<Rightarrow> Inl TypeError
           | Some g \<Rightarrow> bind_res (new_config_version joiMessages
               \<lparr>cvGrantCode = crGrantCode r, cvVersion = crVersion r, cvSemver = crSemver r,
                cvStatus = crStatus r, cvS3Bucket = crS3Bucket r, cvReceivedAt = crReceivedAt r,
                cvGrant = g\<rparr>) (\<lambda>v. Inr (Some v))))"

definition config_version_to_document :: "config_version \<Rightarrow> config_row" where
  "config_version_to_document v =
     \<lparr>crGrantCode = cvGrantCode v, crVersion = cvVersion v, crSemver = cvSemver v,
      crStatus = cvStatus v, crS3Bucket = cvS3Bucket v, crReceivedAt = cvReceivedAt v,
      crDefinitions = [(GrantFile, cvGrant v)], crWorstFetchStatus = None\<rparr>"

section \<open>Selecting a version\<close>

text \<open>\<open>findOne\<close> with a descending sort: the first of the rows with the greatest key.\<close>

fun latest :: "('r \<Rightarrow> 'k::linorder) \<Rightarrow> 'r list \<Rightarrow> 'r option" where
  "latest key [] = None"
| "latest key (r # rows) =
     (case latest key rows of None \<Rightarrow> Some r | Some s \<Rightarrow> if key r \<ge> key s then Some r else Some s)"

definition active :: string where "active = ''active''"

definition find_latest_active ::
  "(config_version \<Rightarrow> string) \<Rightarrow> string \<Rightarrow> config_row list \<Rightarrow> config_version option res" where
  "find_latest_active joiMessages grantCode rows =
     config_version_from_document joiMessages
       (latest (\<lambda>r. (svMajor (crSemver r), svMinor (crSemver r), svPatch (crSemver r)))
         (filter (\<lambda>r. crGrantCode r = grantCode \<and> crStatus r = active) rows))"

definition file_status_is :: "definition_type \<Rightarrow> fetch_status \<Rightarrow> config_row \<Rightarrow> bool" where
  "file_status_is t status r \<longleftrightarrow>
     (case map_of (crDefinitions r) t of None \<Rightarrow> False | Some f \<Rightarrow> fsFetchStatus f = status)"

definition usable_for_major :: "string \<Rightarrow> nat \<Rightarrow> config_row \<Rightarrow> bool" where
  "usable_for_major grantCode major r \<longleftrightarrow>
     crGrantCode r = grantCode \<and> svMajor (crSemver r) = major \<and> crStatus r = active
     \<and> \<not> file_status_is GrantFile FetchPermanent r"

definition find_latest_for_major ::
  "(config_version \<Rightarrow> string) \<Rightarrow> string \<Rightarrow> nat \<Rightarrow> config_row list \<Rightarrow> config_version option res" where
  "find_latest_for_major joiMessages grantCode major rows =
     config_version_from_document joiMessages
       (latest (\<lambda>r. (svMinor (crSemver r), svPatch (crSemver r)))
         (filter (usable_for_major grantCode major) rows))"

record config_definition =
  cdGrantCode :: string
  cdVersion :: string
  cdStatus :: string
  cdSemver :: semver
  cdS3Bucket :: "string option"
  cdFile :: fetch_state

definition to_definition :: "definition_type \<Rightarrow> config_row option \<Rightarrow> config_definition option" where
  "to_definition t doc =
     Option.bind doc (\<lambda>r. map_option (\<lambda>f. \<lparr>cdGrantCode = crGrantCode r, cdVersion = crVersion r,
       cdStatus = crStatus r, cdSemver = crSemver r, cdS3Bucket = crS3Bucket r, cdFile = f\<rparr>)
       (map_of (crDefinitions r) t))"

definition same_version :: "string \<Rightarrow> string \<Rightarrow> config_row \<Rightarrow> bool" where
  "same_version grantCode version r \<longleftrightarrow> crGrantCode r = grantCode \<and> crVersion r = version"

definition find_config_definition ::
  "string \<Rightarrow> string \<Rightarrow> definition_type \<Rightarrow> config_row list \<Rightarrow> config_definition option" where
  "find_config_definition grantCode version t rows =
     to_definition t (find (same_version grantCode version) rows)"

text \<open>The bound is the minor and patch the version may not be later than, when it has one.\<close>

definition usable_definition ::
  "string \<Rightarrow> nat \<Rightarrow> (nat \<times> nat) option \<Rightarrow> definition_type \<Rightarrow> config_row \<Rightarrow> bool" where
  "usable_definition grantCode major bound t r \<longleftrightarrow>
     crGrantCode r = grantCode \<and> svMajor (crSemver r) = major \<and> crStatus r = active
     \<and> (case map_of (crDefinitions r) t of None \<Rightarrow> False
        | Some f \<Rightarrow> fsS3Key f \<noteq> None \<and> fsFetchStatus f \<noteq> FetchPermanent)
     \<and> (case bound of None \<Rightarrow> True
        | Some (minor, patch) \<Rightarrow> svMinor (crSemver r) < minor
            \<or> svMinor (crSemver r) = minor \<and> svPatch (crSemver r) \<le> patch)"

definition find_latest_usable_definition ::
  "string \<Rightarrow> nat \<Rightarrow> (nat \<times> nat) option \<Rightarrow> definition_type \<Rightarrow> config_row list
     \<Rightarrow> config_definition option" where
  "find_latest_usable_definition grantCode major bound t rows =
     to_definition t (latest (\<lambda>r. (svMinor (crSemver r), svPatch (crSemver r)))
       (filter (usable_definition grantCode major bound t) rows))"

section \<open>Writing\<close>

definition update_definition_fetch_status ::
  "string \<Rightarrow> string \<Rightarrow> definition_type \<Rightarrow> fetch_status \<Rightarrow> string option \<Rightarrow> string \<Rightarrow> config_row list
     \<Rightarrow> config_row list" where
  "update_definition_fetch_status grantCode version t status error when rows =
     update_one (same_version grantCode version)
       (\<lambda>r. with_worst_fetch_status (r\<lparr>crDefinitions := obj_put t
          (build_fetch_state_update status error when
             (case map_of (crDefinitions r) t of None \<Rightarrow> new_fetch_state None | Some f \<Rightarrow> f))
          (crDefinitions r)\<rparr>)) rows"

text \<open>\<open>$mergeObjects\<close>: what is stored wins over the state of a new file, and the location over both.\<close>

definition place_definition ::
  "definition_type \<Rightarrow> fetch_state \<Rightarrow> (definition_type \<times> fetch_state) list
     \<Rightarrow> (definition_type \<times> fetch_state) list" where
  "place_definition t fresh files =
     obj_put t ((case map_of files t of None \<Rightarrow> fresh | Some f \<Rightarrow> f)\<lparr>fsS3Key := fsS3Key fresh\<rparr>) files"

definition upsert_update ::
  "config_version \<Rightarrow> string option \<Rightarrow> string option \<Rightarrow> config_row \<Rightarrow> config_row" where
  "upsert_update v agreementS3Key paymentS3Key r =
     with_worst_fetch_status (r\<lparr>crSemver := cvSemver v, crStatus := cvStatus v, crS3Bucket := cvS3Bucket v,
       crDefinitions :=
         (case paymentS3Key of None \<Rightarrow> (\<lambda>ds. ds)
          | Some k \<Rightarrow> place_definition PaymentFile (new_fetch_state (Some k)))
         ((case agreementS3Key of None \<Rightarrow> (\<lambda>ds. ds)
           | Some k \<Rightarrow> place_definition AgreementFile (new_fetch_state (Some k)))
          (place_definition GrantFile (cvGrant v) (crDefinitions r)))\<rparr>)"

definition upsert ::
  "config_version \<Rightarrow> string option \<Rightarrow> string option \<Rightarrow> config_row list \<Rightarrow> config_row list" where
  "upsert v agreementS3Key paymentS3Key rows =
     (if list_ex (same_version (cvGrantCode v) (cvVersion v)) rows
      then update_one (same_version (cvGrantCode v) (cvVersion v))
             (upsert_update v agreementS3Key paymentS3Key) rows
      else rows @ [upsert_update v agreementS3Key paymentS3Key
             ((config_version_to_document v)\<lparr>crDefinitions := []\<rparr>)])"

section \<open>What selections and writes promise\<close>

lemma latest_None [simp]: "latest key rows = None \<longleftrightarrow> rows = []"
  by (cases rows) (auto split: option.splits)

lemma latest_Some:
  "latest key rows = Some r \<Longrightarrow> r \<in> set rows \<and> (\<forall>s\<in>set rows. key s \<le> key r)"
  by (induction rows arbitrary: r) (fastforce split: option.splits if_splits)+

lemma latest_exists: "x \<in> set rows \<Longrightarrow> \<exists>r. latest key rows = Some r"
  by (cases "latest key rows") auto

lemma minor_patch_order:
  assumes "svMajor v = svMajor w"
  shows "(svMinor v, svPatch v) \<le> (svMinor w, svPatch w) \<longleftrightarrow> v \<le> w"
  using assms by (simp add: less_eq_semver_def semver_key_def)

lemma config_version_document:
  assumes "config_version_schema v"
  shows "config_version_from_document jm (Some (config_version_to_document v)) = Inr (Some v)"
  using assms
  by (cases v) (simp add: config_version_from_document_def config_version_to_document_def
      new_config_version_def config_version_schema_def)

text \<open>The version chosen for a major is the greatest that is active and not permanently failed.\<close>

lemma find_latest_for_major_Some:
  assumes "find_latest_for_major jm code major rows = Inr (Some v)"
  shows "\<exists>r\<in>set rows. usable_for_major code major r \<and> cvVersion v = crVersion r \<and> cvSemver v = crSemver r
      \<and> cvGrantCode v = code \<and> map_of (crDefinitions r) GrantFile = Some (cvGrant v)
      \<and> (\<forall>s\<in>set rows. usable_for_major code major s \<longrightarrow> crSemver s \<le> crSemver r)"
proof -
  let ?key = "\<lambda>r. (svMinor (crSemver r), svPatch (crSemver r))"
  let ?us = "filter (usable_for_major code major) rows"
  obtain r g where r: "latest ?key ?us = Some r" and g: "map_of (crDefinitions r) GrantFile = Some g"
    and v: "v = \<lparr>cvGrantCode = crGrantCode r, cvVersion = crVersion r, cvSemver = crSemver r,
                cvStatus = crStatus r, cvS3Bucket = crS3Bucket r, cvReceivedAt = crReceivedAt r, cvGrant = g\<rparr>"
    using assms unfolding find_latest_for_major_def config_version_from_document_def
    by (auto simp: bind_res_Inr new_config_version_def split: option.splits if_splits)
  have "r \<in> set ?us" and max: "\<forall>s\<in>set ?us. ?key s \<le> ?key r" using latest_Some [OF r] by blast+
  then have us: "r \<in> set rows" "usable_for_major code major r" by simp_all
  have "crSemver s \<le> crSemver r" if "s \<in> set rows" "usable_for_major code major s" for s
    using max that us(2) minor_patch_order [of "crSemver s" "crSemver r"]
    by (simp add: usable_for_major_def)
  then show ?thesis using us g v by (auto simp: usable_for_major_def intro!: bexI [of _ r])
qed

definition row_key :: "config_row \<Rightarrow> string \<times> string" where
  "row_key r = (crGrantCode r, crVersion r)"

definition config_row_ok :: "config_row \<Rightarrow> bool" where
  "config_row_ok r \<longleftrightarrow> distinct (map fst (crDefinitions r))
     \<and> crWorstFetchStatus r = worst_fetch_status (crDefinitions r)
     \<and> parse_semver (crVersion r) = Some (crSemver r)
     \<and> map_of (crDefinitions r) GrantFile \<noteq> None"

definition catalog_ok :: "config_row list \<Rightarrow> bool" where
  "catalog_ok rows \<longleftrightarrow> distinct (map row_key rows) \<and> (\<forall>r\<in>set rows. config_row_ok r)"

lemma catalog_ok_update:
  assumes "catalog_ok rows" and "\<And>r. row_key (f r) = row_key r"
    and "\<And>r. p r \<Longrightarrow> config_row_ok r \<Longrightarrow> config_row_ok (f r)"
  shows "catalog_ok (update_one p f rows)"
  using assms map_update_one [of row_key f p rows] unfolding catalog_ok_def
  by (metis set_update_one)

lemma place_definition_keys:
  "distinct (map fst ds) \<Longrightarrow> distinct (map fst (place_definition t f ds))"
  "map_of (place_definition t f ds) = (map_of ds)(t \<mapsto> (case map_of ds t of None \<Rightarrow> f | Some g \<Rightarrow> g)\<lparr>fsS3Key := fsS3Key f\<rparr>)"
  by (simp_all add: place_definition_def obj_put_distinct)

lemma update_status_catalog_ok:
  assumes "catalog_ok rows"
  shows "catalog_ok (update_definition_fetch_status code version t st e w rows)"
  unfolding update_definition_fetch_status_def
  by (rule catalog_ok_update [OF assms])
    (simp_all add: row_key_def with_worst_fetch_status_def config_row_ok_def obj_put_distinct del: not_None_eq)

lemma upsert_row_key: "row_key (upsert_update v a p r) = row_key r"
  by (simp add: upsert_update_def with_worst_fetch_status_def row_key_def)

lemma upsert_row_ok:
  assumes "distinct (map fst (crDefinitions r))" and "parse_semver (crVersion r) = Some (cvSemver v)"
  shows "config_row_ok (upsert_update v a p r)"
  using assms
  by (cases a; cases p)
    (simp_all add: config_row_ok_def upsert_update_def with_worst_fetch_status_def place_definition_keys
      del: not_None_eq)

lemma upsert_catalog_ok:
  assumes "catalog_ok rows" and "parse_semver (cvVersion v) = Some (cvSemver v)"
  shows "catalog_ok (upsert v a p rows)"
proof (cases "list_ex (same_version (cvGrantCode v) (cvVersion v)) rows")
  case True
  have "catalog_ok (update_one (same_version (cvGrantCode v) (cvVersion v)) (upsert_update v a p) rows)"
    by (rule catalog_ok_update [OF assms(1) upsert_row_key], rule upsert_row_ok)
      (simp_all add: config_row_ok_def same_version_def assms(2))
  then show ?thesis using True by (simp add: upsert_def)
next
  case False
  let ?new = "upsert_update v a p ((config_version_to_document v)\<lparr>crDefinitions := []\<rparr>)"
  have "row_key ?new = (cvGrantCode v, cvVersion v)"
    by (simp add: upsert_row_key) (simp add: row_key_def config_version_to_document_def)
  moreover have "(cvGrantCode v, cvVersion v) \<notin> row_key ` set rows"
    using False by (auto simp: list_ex_iff same_version_def row_key_def)
  moreover have "config_row_ok ?new"
    by (rule upsert_row_ok) (simp_all add: config_version_to_document_def assms(2))
  ultimately show ?thesis using assms(1) False by (simp add: catalog_ok_def upsert_def)
qed

lemma worst_fetch_status_Max:
  "files \<noteq> [] \<Longrightarrow> worst_fetch_status files = Some (Max ((fsFetchStatus \<circ> snd) ` set files))"
proof (cases files)
  case (Cons f fs)
  have "foldl max s ss = Max (set (s # ss))" for s :: fetch_status and ss
  proof -
    have "(\<lambda>x y :: fetch_status. max y x) = max" by (simp add: fun_eq_iff max.commute)
    then show ?thesis using Max.set_eq_fold [of s ss] by (simp add: foldl_conv_fold)
  qed
  then show ?thesis using Cons by (simp add: worst_fetch_status_def image_image del: foldl.simps)
qed simp

end
