(* ===== verification/GrantResolution.thy ===== *)
theory GrantResolution
  imports Publication Inbox ConfigCatalog
begin

text \<open>
  Which definition of a grant is in force, and where it comes from: reading a file from S3
  (\<open>src/common/s3-client.js\<close>), the stored grants
  (\<open>src/grants/repositories/grant.repository.js\<close>, \<open>src/grants/models/grant-document.js\<close>), fetching
  and storing a published definition
  (\<open>src/grants/services/resolve-config-version.service.js\<close>, \<open>definition-defect.js\<close>) and the process's
  cache in front of it (\<open>src/grants/use-cases/resolve-current-grant.use-case.js\<close>). The reply of S3,
  the reading of a file as JSON and the validation of a date are given by the environment. The
  memo of a request is left out: no caller passes one.
\<close>

section \<open>The environment and the state\<close>

datatype aws_reply =
    AwsBody string
  | AwsFailed "nat option" string string
  | AwsBroken string

text \<open>
  A file that is JSON and has the shape of a grant is given with its start date as published; one
  that has not is given with what building a grant of it throws.
\<close>

datatype 'q raw_definition = Shaped "'q grant" "json option" | Malformed js_error

text \<open>\<open>feMeanwhile\<close> is what others write between the two selections of a version.\<close>

record 'q config_store =
  csRows :: "config_row list"
  csGrants :: "'q grant list"
  csCache :: "(string \<times> 'q grant) list"

record 'q fetch_env =
  feNow :: string
  feSend :: "string option \<Rightarrow> string option \<Rightarrow> aws_reply"
  feParse :: "string \<Rightarrow> 'q raw_definition option"
  feInstant :: "json option \<Rightarrow> string option option"
  feVersionMessages :: "config_version \<Rightarrow> string"
  feTemplateMessages :: "template \<Rightarrow> string"
  feMeanwhile :: "'q config_store \<Rightarrow> 'q config_store"

section \<open>Reading a file\<close>

definition classify_s3_error :: "nat option \<Rightarrow> string \<Rightarrow> string \<Rightarrow> string \<Rightarrow> js_error" where
  "classify_s3_error statusCode name message key =
     (if statusCode = Some 404 \<or> name = ''NoSuchKey''
      then S3FetchError (''S3 object not found: '' @ key) 404 ''NoSuchKey''
      else if statusCode = Some 403 \<or> name = ''AccessDenied''
      then S3FetchError (''S3 access denied: '' @ key) 403 ''AccessDenied''
      else S3FetchError (''S3 service error fetching '' @ key @ '': '' @ message)
             (case statusCode of Some (Suc n) \<Rightarrow> Suc n | _ \<Rightarrow> 500) ''SERVICE_ERROR'')"

fun s3_is_permanent :: "js_error \<Rightarrow> bool" where
  "s3_is_permanent (S3FetchError _ statusCode _) = (statusCode = 404 \<or> statusCode = 403)"
| "s3_is_permanent _ = False"

fun s3_is_parse_error :: "js_error \<Rightarrow> bool" where
  "s3_is_parse_error (S3FetchError _ _ code) = (code = ''PARSE_ERROR'')"
| "s3_is_parse_error _ = False"

definition parse_response_body ::
  "'q fetch_env \<Rightarrow> string \<Rightarrow> string \<Rightarrow> 'q raw_definition res" where
  "parse_response_body env body key =
     (case feParse env body of
        None \<Rightarrow> Inl (S3FetchError (''Invalid JSON in S3 object: '' @ key) 200 ''PARSE_ERROR'')
      | Some d \<Rightarrow> Inr d)"

definition key_text :: "string option \<Rightarrow> string" where
  "key_text k = (case k of None \<Rightarrow> ''null'' | Some s \<Rightarrow> s)"

definition fetch_config_file ::
  "'q fetch_env \<Rightarrow> string option \<Rightarrow> string option \<Rightarrow> 'q raw_definition res" where
  "fetch_config_file env bucket key =
     (case feSend env bucket key of
        AwsFailed statusCode name message \<Rightarrow> Inl (classify_s3_error statusCode name message (key_text key))
      | AwsBroken message \<Rightarrow> Inl (JsError message)
      | AwsBody body \<Rightarrow> parse_response_body env body (key_text key))"

section \<open>The stored grants\<close>

definition assert_instant ::
  "(json option \<Rightarrow> string option option) \<Rightarrow> json option \<Rightarrow> string res" where
  "assert_instant instant value =
     (case instant value of
        None \<Rightarrow> Inl (Boom BadImplementation ''Grant start date is not an instant'' [])
      | Some None \<Rightarrow> Inl TypeError
      | Some (Some isoText) \<Rightarrow> Inr isoText)"

text \<open>A text is stored as it is; anything else as the ISO text of its instant.\<close>

definition to_stored_start_date ::
  "(json option \<Rightarrow> string option option) \<Rightarrow> json option \<Rightarrow> string res" where
  "to_stored_start_date instant startDate =
     (case Option.bind startDate (field_of ''$date'') of
        Some d \<Rightarrow> assert_instant instant (Some d)
      | None \<Rightarrow>
          (case startDate of
             Some (JStr s) \<Rightarrow> bind_res (assert_instant instant startDate) (\<lambda>_. Inr s)
           | _ \<Rightarrow> assert_instant instant startDate))"

definition grant_document ::
  "'q fetch_env \<Rightarrow> 'q grant \<Rightarrow> json option \<Rightarrow> 'q grant res" where
  "grant_document env g startDate =
     bind_res (to_stored_start_date (feInstant env) startDate) (\<lambda>isoText. Inr (g\<lparr>grStartDate := isoText\<rparr>))"

text \<open>The collection has a unique index on code and version.\<close>

definition same_grant :: "string \<Rightarrow> string option \<Rightarrow> 'q grant \<Rightarrow> bool" where
  "same_grant code version g \<longleftrightarrow> grCode g = code \<and> grVersion g = version"

definition save_grant ::
  "'q fetch_env \<Rightarrow> 'q grant \<Rightarrow> json option \<Rightarrow> ('q config_store, unit) action" where
  "save_grant env g startDate =
     andThen (lift_res (grant_document env g startDate)) (\<lambda>doc store.
       if list_ex (same_grant (grCode g) (grVersion g)) (csGrants store)
       then (Inl (Boom Conflict (''Grant with code '' @ quoted (grCode g) @ '' version ''
               @ quoted (part_string (grVersion g)) @ '' already exists'') []), store)
       else (Inr (), store\<lparr>csGrants := csGrants store @ [doc]\<rparr>))"

definition find_by_code ::
  "'q fetch_env \<Rightarrow> string \<Rightarrow> string option \<Rightarrow> ('q config_store, 'q grant option) action" where
  "find_by_code env code version = (\<lambda>store.
     (case find (same_grant code (Some (case version of None \<Rightarrow> ''0.0.0'' | Some v \<Rightarrow> v))) (csGrants store) of
        None \<Rightarrow> Inr None
      | Some doc \<Rightarrow> bind_res (new_grant (feTemplateMessages env) doc) (\<lambda>g. Inr (Some g)), store))"

definition save_from_definition ::
  "'q fetch_env \<Rightarrow> 'q raw_definition \<Rightarrow> string \<Rightarrow> ('q config_store, 'q grant) action" where
  "save_from_definition env definition version =
     (case definition of
        Malformed e \<Rightarrow> throw e
      | Shaped d startDate \<Rightarrow>
          andThen (lift_res (new_grant (feTemplateMessages env) (d\<lparr>grVersion := Some version\<rparr>))) (\<lambda>g.
          andThen (save_grant env g startDate) (\<lambda>_. ret g)))"

section \<open>Resolving a published version\<close>

datatype definition_source = FromMongoDB | FromS3 | FromCache

definition max_fetch_attempts :: nat where "max_fetch_attempts = 5"

definition update_fetch_status ::
  "'q fetch_env \<Rightarrow> string \<Rightarrow> string \<Rightarrow> fetch_status \<Rightarrow> string option
     \<Rightarrow> ('q config_store, unit) action" where
  "update_fetch_status env grantCode version status error =
     writes (\<lambda>store. store\<lparr>csRows :=
       update_definition_fetch_status grantCode version GrantFile status error (feNow env) (csRows store)\<rparr>)"

text \<open>An invalid grant answers with a 500; one without its shape dies of a \<open>TypeError\<close>.\<close>

fun is_definition_defect :: "js_error \<Rightarrow> bool" where
  "is_definition_defect (Boom b _ _) = (status_code b = 500)"
| "is_definition_defect e = (e = TypeError)"

fun is_conflict :: "js_error \<Rightarrow> bool" where
  "is_conflict (Boom b _ _) = (status_code b = 409)"
| "is_conflict _ = False"

definition at_version :: "string \<Rightarrow> string \<Rightarrow> string" where
  "at_version grantCode version = grantCode @ ''@'' @ version"

definition handle_s3_error ::
  "'q fetch_env \<Rightarrow> js_error \<Rightarrow> string \<Rightarrow> string \<Rightarrow> ('q config_store, 'a) action" where
  "handle_s3_error env err grantCode version =
     (if s3_is_permanent err \<or> s3_is_parse_error err
      then andThen (update_fetch_status env grantCode version FetchPermanent (Some (error_message err))) (\<lambda>_.
           throw (Boom BadGateway (''Permanent S3 error for '' @ at_version grantCode version @ '': ''
             @ error_message err) []))
      else andThen (update_fetch_status env grantCode version FetchTransient (Some (error_message err))) (\<lambda>_.
           throw (Boom ServerUnavailable (''Transient S3 error for '' @ at_version grantCode version @ '': ''
             @ error_message err) [])))"

definition guard_fetch_status ::
  "'q fetch_env \<Rightarrow> config_version \<Rightarrow> string \<Rightarrow> string \<Rightarrow> ('q config_store, unit) action" where
  "guard_fetch_status env configVersion grantCode resolvedVersion =
     (let file = cvGrant configVersion in
      if fsFetchStatus file = Fetched then ret ()
      else if fsFetchStatus file = FetchPermanent
      then throw (Boom BadGateway (''Permanent error for '' @ at_version grantCode resolvedVersion @ '': ''
             @ key_text (fsFetchError file)) [])
      else if fsFetchAttempts file \<ge> max_fetch_attempts
      then andThen (update_fetch_status env grantCode resolvedVersion FetchPermanent
             (Some (''Exceeded '' @ show_nat max_fetch_attempts @ '' fetch attempts''))) (\<lambda>_.
           throw (Boom BadGateway (''Max fetch attempts exceeded for ''
             @ at_version grantCode resolvedVersion) []))
      else ret ())"

fun is_s3_error :: "js_error \<Rightarrow> bool" where
  "is_s3_error (S3FetchError _ _ _) = True"
| "is_s3_error _ = False"

definition fetch_from_s3 ::
  "'q fetch_env \<Rightarrow> config_version \<Rightarrow> string \<Rightarrow> string
     \<Rightarrow> ('q config_store, 'q raw_definition) action" where
  "fetch_from_s3 env configVersion grantCode resolvedVersion =
     catch (lift_res (fetch_config_file env (cvS3Bucket configVersion) (fsS3Key (cvGrant configVersion))))
       (\<lambda>err. andThen (if is_s3_error err then handle_s3_error env err grantCode resolvedVersion else ret ())
          (\<lambda>_. throw err))"

definition latch_invalid_definition ::
  "'q fetch_env \<Rightarrow> js_error \<Rightarrow> string \<Rightarrow> string \<Rightarrow> ('q config_store, unit) action" where
  "latch_invalid_definition env err grantCode resolvedVersion =
     (if \<not> is_definition_defect err then ret ()
      else update_fetch_status env grantCode resolvedVersion FetchPermanent (Some (error_message err)))"

definition save_or_fallback ::
  "'q fetch_env \<Rightarrow> 'q raw_definition \<Rightarrow> string \<Rightarrow> string
     \<Rightarrow> ('q config_store, 'q grant option) action" where
  "save_or_fallback env grantDefinition grantCode resolvedVersion =
     catch (andThen (save_from_definition env grantDefinition resolvedVersion) (\<lambda>g.
            andThen (update_fetch_status env grantCode resolvedVersion Fetched None) (\<lambda>_. ret (Some g))))
       (\<lambda>err.
          if is_conflict err
          then andThen (update_fetch_status env grantCode resolvedVersion Fetched None) (\<lambda>_.
               find_by_code env grantCode (Some resolvedVersion))
          else andThen (latch_invalid_definition env err grantCode resolvedVersion) (\<lambda>_. throw err))"

definition fetch_and_store_grant ::
  "'q fetch_env \<Rightarrow> config_version \<Rightarrow> string \<Rightarrow> string
     \<Rightarrow> ('q config_store, 'q grant option) action" where
  "fetch_and_store_grant env configVersion grantCode resolvedVersion =
     andThen (fetch_from_s3 env configVersion grantCode resolvedVersion) (\<lambda>grantDefinition.
     save_or_fallback env grantDefinition grantCode resolvedVersion)"

definition find_stored_grant ::
  "'q fetch_env \<Rightarrow> config_version \<Rightarrow> string \<Rightarrow> string
     \<Rightarrow> ('q config_store, 'q grant option) action" where
  "find_stored_grant env configVersion grantCode resolvedVersion =
     (if fsFetchStatus (cvGrant configVersion) \<noteq> Fetched then ret None
      else find_by_code env grantCode (Some resolvedVersion))"

definition select_version ::
  "(config_row list \<Rightarrow> config_version option res) \<Rightarrow> ('q config_store, config_version option) action" where
  "select_version query = (\<lambda>store. (query (csRows store), store))"

definition no_active_version :: "string \<Rightarrow> js_error" where
  "no_active_version what = Boom NotFound (''No active config version found for '' @ what) []"

definition major_of :: "string \<Rightarrow> nat res" where
  "major_of version =
     (case parse_semver version of
        None \<Rightarrow> Inl (Boom BadRequest (''Invalid semver version: '' @ version) [])
      | Some v \<Rightarrow> Inr (svMajor v))"

definition resolve_config_version ::
  "'q fetch_env \<Rightarrow> string \<Rightarrow> string \<Rightarrow> ('q config_store, config_version) action" where
  "resolve_config_version env grantCode requestedVersion =
     andThen (lift_res (major_of requestedVersion)) (\<lambda>major.
     andThen (select_version (find_latest_for_major (feVersionMessages env) grantCode major)) (\<lambda>found.
     case found of
       None \<Rightarrow> throw (no_active_version (at_version grantCode (show_nat major @ ''.x'')))
     | Some v \<Rightarrow> ret v))"

record 'q resolution =
  rsGrant :: "'q grant option"
  rsVersion :: "string option"
  rsSource :: definition_source

definition resolve_and_fetch_grant ::
  "'q fetch_env \<Rightarrow> string \<Rightarrow> string option \<Rightarrow> ('q config_store, 'q resolution) action" where
  "resolve_and_fetch_grant env grantCode requestedVersion =
     andThen (case requestedVersion of
         None \<Rightarrow> select_version (find_latest_active (feVersionMessages env) grantCode)
       | Some v \<Rightarrow> andThen (resolve_config_version env grantCode v) (\<lambda>cv. ret (Some cv))) (\<lambda>found.
     case found of
       None \<Rightarrow> throw (no_active_version grantCode)
     | Some configVersion \<Rightarrow>
         let resolvedVersion = cvVersion configVersion in
         andThen (guard_fetch_status env configVersion grantCode resolvedVersion) (\<lambda>_.
         andThen (find_stored_grant env configVersion grantCode resolvedVersion) (\<lambda>cached.
         case cached of
           Some g \<Rightarrow> ret \<lparr>rsGrant = Some g, rsVersion = Some resolvedVersion, rsSource = FromMongoDB\<rparr>
         | None \<Rightarrow>
             andThen (fetch_and_store_grant env configVersion grantCode resolvedVersion) (\<lambda>g.
             ret \<lparr>rsGrant = g, rsVersion = Some resolvedVersion, rsSource = FromS3\<rparr>))))"

section \<open>The process's cache\<close>

definition max_cache_entries :: nat where "max_cache_entries = 100"

definition get_cached_definition :: "string \<Rightarrow> string \<Rightarrow> 'q config_store \<Rightarrow> 'q grant option" where
  "get_cached_definition code version store = map_of (csCache store) (at_version code version)"

definition set_cached_definition ::
  "string \<Rightarrow> string \<Rightarrow> 'q grant option \<Rightarrow> ('q config_store, unit) action" where
  "set_cached_definition code version grant =
     (case grant of
        None \<Rightarrow> ret ()
      | Some g \<Rightarrow>
          if version = [] then ret ()
          else writes (\<lambda>store. store\<lparr>csCache := obj_put (at_version code version) g
            (if length (csCache store) \<ge> max_cache_entries then tl (csCache store) else csCache store)\<rparr>))"

definition load_definition ::
  "'q fetch_env \<Rightarrow> string \<Rightarrow> string
     \<Rightarrow> ('q config_store, 'q grant option \<times> definition_source) action" where
  "load_definition env grantCode resolvedVersion =
     andThen (reads (get_cached_definition grantCode resolvedVersion)) (\<lambda>cached.
     case cached of
       Some g \<Rightarrow> ret (Some g, FromCache)
     | None \<Rightarrow>
         andThen (resolve_and_fetch_grant env grantCode (Some resolvedVersion)) (\<lambda>r.
         andThen (set_cached_definition grantCode resolvedVersion (rsGrant r)) (\<lambda>_.
         ret (rsGrant r, rsSource r))))"

definition resolve_rolled_forward ::
  "'q fetch_env \<Rightarrow> string \<Rightarrow> nat \<Rightarrow> ('q config_store, 'q resolution) action" where
  "resolve_rolled_forward env grantCode major =
     andThen (select_version (find_latest_for_major (feVersionMessages env) grantCode major)) (\<lambda>found.
     case found of
       None \<Rightarrow> throw (no_active_version (at_version grantCode (show_nat major @ ''.x'')))
     | Some configVersion \<Rightarrow>
         let resolvedVersion = cvVersion configVersion in
         andThen (writes (feMeanwhile env)) (\<lambda>_.
         andThen (load_definition env grantCode resolvedVersion) (\<lambda>(g, source).
         ret \<lparr>rsGrant = g, rsVersion = Some resolvedVersion, rsSource = source\<rparr>)))"

definition legacy_resolution ::
  "'q fetch_env \<Rightarrow> string \<Rightarrow> ('q config_store, 'q resolution) action" where
  "legacy_resolution env grantCode =
     andThen (find_by_code env grantCode None) (\<lambda>g.
     ret \<lparr>rsGrant = g, rsVersion = None, rsSource = FromMongoDB\<rparr>)"

definition resolve_current_grant_use_case ::
  "'q fetch_env \<Rightarrow> string \<Rightarrow> string option \<Rightarrow> ('q config_store, 'q resolution) action" where
  "resolve_current_grant_use_case env grantCode pinnedVersion =
     (case truthy pinnedVersion of
        None \<Rightarrow> legacy_resolution env grantCode
      | Some v \<Rightarrow> andThen (lift_res (major_of v)) (\<lambda>major. resolve_rolled_forward env grantCode major))"

definition pinned_version_of :: "application \<Rightarrow> string option" where
  "pinned_version_of app =
     (case apCurrentConfigVersion app of Some v \<Rightarrow> Some v | None \<Rightarrow> apOriginalConfigVersion app)"

datatype resolution_type = LegacyResolution | RollForward | VersionMatch

definition determine_resolution_type :: "string option \<Rightarrow> string option \<Rightarrow> resolution_type" where
  "determine_resolution_type pinnedVersion resolvedVersion =
     (case truthy pinnedVersion of
        None \<Rightarrow> LegacyResolution
      | Some v \<Rightarrow> if resolvedVersion \<noteq> Some v then RollForward else VersionMatch)"

definition resolve_grant_for_application ::
  "'q fetch_env \<Rightarrow> application
     \<Rightarrow> ('q config_store, 'q grant \<times> string option \<times> definition_source \<times> resolution_type) action" where
  "resolve_grant_for_application env app =
     (let pinned = pinned_version_of app in
      andThen (resolve_current_grant_use_case env (apCode app) pinned) (\<lambda>r.
      case rsGrant r of
        None \<Rightarrow> throw (Boom NotFound (''Grant with code '' @ quoted (apCode app) @ '' not found'') [])
      | Some g \<Rightarrow> ret (g, rsVersion r, rsSource r, determine_resolution_type pinned (rsVersion r))))"

definition resolve_grant_for_submission ::
  "'q fetch_env \<Rightarrow> string \<Rightarrow> string option
     \<Rightarrow> ('q config_store, 'q grant option \<times> string option) action" where
  "resolve_grant_for_submission env code requestedVersion =
     andThen (resolve_and_fetch_grant env code requestedVersion) (\<lambda>r. ret (rsGrant r, rsVersion r))"

section \<open>What a resolution returns\<close>

lemma catch_Inr [ok_iff]:
  "catch m h s = (Inr y, u) \<longleftrightarrow> m s = (Inr y, u) \<or> (\<exists>e t. m s = (Inl e, t) \<and> h e t = (Inr y, u))"
  by (auto simp: catch_def split: prod.splits sum.splits)

lemma keeps_catch [intro]:
  assumes "keeps P m" and "\<And>e. keeps P (h e)"
  shows "keeps P (catch m h)"
proof (rule keepsI)
  fix s assume "P s"
  then have "P (snd (m s))" using assms(1) by (rule keepsD [rotated])
  then show "P (snd (catch m h s))"
    using assms(2) by (auto simp: catch_def keeps_def split: prod.splits sum.splits)
qed

lemma select_version_Inr [ok_iff]:
  "select_version query s = (Inr x, t) \<longleftrightarrow> query (csRows s) = Inr x \<and> t = s"
  by (auto simp: select_version_def)

lemma handle_s3_error_throws: "\<exists>e t. handle_s3_error env err code v s = (Inl e, t)"
  by (auto simp: handle_s3_error_def update_fetch_status_def)

lemma new_grant_version: "new_grant jm p = Inr g \<Longrightarrow> grVersion g = grVersion p"
  using new_grant_ok(1) by blast

lemma find_by_code_version:
  assumes "find_by_code env code (Some v) s = (Inr (Some g), t)"
  shows "grVersion g = Some v \<and> grCode g = code \<and> t = s"
  using assms
  by (auto simp: find_by_code_def bind_res_Inr same_grant_def dest!: find_SomeD new_grant_ok(1)
      split: option.splits)

lemma save_from_definition_version:
  assumes "save_from_definition env d v s = (Inr g, t)"
  shows "grVersion g = Some v"
  using assms by (auto simp: save_from_definition_def andThen_Inr dest: new_grant_version
      split: raw_definition.splits)

lemma save_or_fallback_version:
  assumes "save_or_fallback env d code v s = (Inr (Some g), t)"
  shows "grVersion g = Some v"
  using assms
  by (auto simp: save_or_fallback_def ok_iff latch_invalid_definition_def split: if_splits
      dest!: save_from_definition_version find_by_code_version)

lemma fetched_version:
  assumes "resolve_and_fetch_grant env code (Some req) s = (Inr r, t)"
  shows "\<exists>m cv. major_of req = Inr m \<and> find_latest_for_major (feVersionMessages env) code m (csRows s) = Inr (Some cv)
    \<and> rsVersion r = Some (cvVersion cv) \<and> (\<forall>g. rsGrant r = Some g \<longrightarrow> grVersion g = Some (cvVersion cv))"
proof -
  obtain m cv where sel: "major_of req = Inr m"
      "find_latest_for_major (feVersionMessages env) code m (csRows s) = Inr (Some cv)"
    and rest: "(let resolvedVersion = cvVersion cv in
         andThen (guard_fetch_status env cv code resolvedVersion) (\<lambda>_.
         andThen (find_stored_grant env cv code resolvedVersion) (\<lambda>cached.
         case cached of
           Some g \<Rightarrow> ret \<lparr>rsGrant = Some g, rsVersion = Some resolvedVersion, rsSource = FromMongoDB\<rparr>
         | None \<Rightarrow>
             andThen (fetch_and_store_grant env cv code resolvedVersion) (\<lambda>g.
             ret \<lparr>rsGrant = g, rsVersion = Some resolvedVersion, rsSource = FromS3\<rparr>)))) s = (Inr r, t)"
    using assms
    by (auto simp: resolve_and_fetch_grant_def resolve_config_version_def ok_iff split: option.splits)
  have "rsVersion r = Some (cvVersion cv) \<and> (\<forall>g. rsGrant r = Some g \<longrightarrow> grVersion g = Some (cvVersion cv))"
    using rest
    by (auto simp: Let_def ok_iff find_stored_grant_def fetch_and_store_grant_def
        split: option.splits if_splits dest!: find_by_code_version save_or_fallback_version)
  with sel show ?thesis by blast
qed

end
