(* ===== verification/ResolutionLaws.thy ===== *)
theory ResolutionLaws
  imports GrantResolution
begin

text \<open>
  What resolving a grant promises: the version in force is the greatest usable one of the pinned
  major, the cache only holds definitions under their own version, and a version that cannot be
  fetched is given up after a bounded number of attempts.
\<close>

section \<open>The cache\<close>

definition cache_ok :: "(string \<times> 'q grant) list \<Rightarrow> bool" where
  "cache_ok cache \<longleftrightarrow> (\<forall>(k, g)\<in>set cache. \<exists>c v. grVersion g = Some v \<and> CHR ''@'' \<notin> set v \<and> k = at_version c v)"

definition store_ok :: "'q config_store \<Rightarrow> bool" where
  "store_ok s \<longleftrightarrow> catalog_ok (csRows s) \<and> cache_ok (csCache s)"

lemma at_version_eq:
  assumes "at_version c v = at_version d w" and "CHR ''@'' \<notin> set v" and "CHR ''@'' \<notin> set w"
  shows "v = w"
proof -
  have "rev v = takeWhile (\<lambda>x. x \<noteq> CHR ''@'') (rev (at_version c v))" if "CHR ''@'' \<notin> set v" for c v
    using that by (simp add: at_version_def) (subst takeWhile_append2; auto)
  then show ?thesis using assms by (metis rev_rev_ident)
qed

lemma semver_plain:
  assumes "parse_semver v = Some sv"
  shows "CHR ''@'' \<notin> set v" and "v \<noteq> []"
proof -
  have digits: "list_all all_digits (split_on CHR ''.'' v)" and three: "length (split_on CHR ''.'' v) = 3"
    using assms by (auto simp: parse_semver_def Let_def list_ex_iff list_all_iff split: if_splits)
  have "CHR ''@'' \<notin> set p" if "p \<in> set (split_on CHR ''.'' v)" for p
  proof
    assume "CHR ''@'' \<in> set p"
    then have "is_digit CHR ''@''" using digits that by (auto simp: list_all_iff all_digits_def)
    then show False by (simp add: is_digit_def)
  qed
  moreover have "set (join [CHR ''.''] ps) \<subseteq> insert CHR ''.'' (\<Union>p\<in>set ps. set p)" for ps
    by (induction "[CHR ''.'']" ps rule: join.induct) auto
  ultimately show "CHR ''@'' \<notin> set v"
  proof -
    assume sub: "\<And>ps. set (join [CHR ''.''] ps) \<subseteq> insert CHR ''.'' (\<Union>p\<in>set ps. set p)"
      and none: "\<And>p. p \<in> set (split_on CHR ''.'' v) \<Longrightarrow> CHR ''@'' \<notin> set p"
    have "set v \<subseteq> insert CHR ''.'' (\<Union>p\<in>set (split_on CHR ''.'' v). set p)"
      using sub [of "split_on CHR ''.'' v"] by (simp add: split_on_join)
    then show ?thesis using none by auto
  qed
  show "v \<noteq> []" using three by auto
qed

lemma cached_version:
  assumes "cache_ok (csCache s)" and "get_cached_definition code v s = Some g" and "CHR ''@'' \<notin> set v"
  shows "grVersion g = Some v"
proof -
  have "(at_version code v, g) \<in> set (csCache s)"
    using assms(2) by (simp add: get_cached_definition_def map_of_SomeD)
  then obtain c w where "grVersion g = Some w" "CHR ''@'' \<notin> set w" "at_version code v = at_version c w"
    using assms(1) unfolding cache_ok_def by blast
  then show ?thesis using at_version_eq [of code v c w] assms(3) by simp
qed

lemma cache_ok_put:
  assumes "cache_ok cache" and "grVersion g = Some v" and "CHR ''@'' \<notin> set v"
  shows "cache_ok (obj_put (at_version code v) g cache)"
  unfolding cache_ok_def
proof (rule ballI)
  fix x assume "x \<in> set (obj_put (at_version code v) g cache)"
  then have "x = (at_version code v, g) \<or> x \<in> set cache" using set_obj_put by fastforce
  then show "case x of (k, g) \<Rightarrow> \<exists>c v. grVersion g = Some v \<and> CHR ''@'' \<notin> set v \<and> k = at_version c v"
    using assms unfolding cache_ok_def by blast
qed

lemma cache_ok_tl: "cache_ok cache \<Longrightarrow> cache_ok (tl cache)"
  by (cases cache) (auto simp: cache_ok_def)

section \<open>What a resolution keeps\<close>

lemma keeps_select [intro]: "keeps P (select_version q)"
  by (simp add: keeps_def select_version_def)

lemma keeps_if [intro]: "keeps P m \<Longrightarrow> keeps P n \<Longrightarrow> keeps P (if c then m else n)"
  by simp

lemma keeps_option [intro]:
  "keeps P m \<Longrightarrow> (\<And>x. keeps P (f x)) \<Longrightarrow> keeps P (case v of None \<Rightarrow> m | Some x \<Rightarrow> f x)"
  by (cases v) simp_all

lemma keeps_rows:
  assumes "\<And>s rows. P s \<Longrightarrow> rows = update_definition_fetch_status code v GrantFile st e (feNow env) (csRows s)
    \<Longrightarrow> P (s\<lparr>csRows := rows\<rparr>)"
  shows "keeps P (update_fetch_status env code v st e)"
  using assms by (simp add: keeps_def update_fetch_status_def)

text \<open>What the writes to the catalogue and to the stored grants keep, a resolution keeps.\<close>

lemma resolution_keeps:
  assumes rows: "\<And>v st e. keeps P (update_fetch_status env code v st e)"
    and grants: "\<And>s gs. P s \<Longrightarrow> P (s\<lparr>csGrants := gs\<rparr>)"
  shows "keeps P (resolve_and_fetch_grant env code req)"
proof -
  have save: "keeps P (save_grant env g d)" for g d
    using grants by (auto simp: save_grant_def keeps_def andThen_def split: sum.splits)
  then have def: "keeps P (save_from_definition env d v)" for d v
    by (auto simp: save_from_definition_def split: raw_definition.splits)
  have code: "keeps P (find_by_code env code v)" for v
    by (simp add: keeps_def find_by_code_def)
  have sf: "keeps P (save_or_fallback env d code v)" for d v
    unfolding save_or_fallback_def latch_invalid_definition_def
    by (intro keeps_catch keeps_andThen keeps_if keeps_basic rows def code)
  have s3: "keeps P (fetch_from_s3 env cv code v)" for cv v
    unfolding fetch_from_s3_def handle_s3_error_def
    by (intro keeps_catch keeps_andThen keeps_if keeps_basic rows)
  have g: "keeps P (guard_fetch_status env cv code v)" for cv v
    unfolding guard_fetch_status_def Let_def by (intro keeps_andThen keeps_if keeps_basic rows)
  have fst: "keeps P (find_stored_grant env cv code v)" for cv v
    unfolding find_stored_grant_def by (intro keeps_if keeps_basic code)
  show ?thesis
    unfolding resolve_and_fetch_grant_def resolve_config_version_def fetch_and_store_grant_def Let_def
    by (intro keeps_andThen keeps_option keeps_basic keeps_select sf s3 g fst)
qed

lemma resolution_catalog: "keeps (\<lambda>s. catalog_ok (csRows s)) (resolve_and_fetch_grant env code req)"
  by (rule resolution_keeps) (auto intro!: keeps_rows update_status_catalog_ok)

lemma resolution_cache: "keeps (\<lambda>s. csCache s = c) (resolve_and_fetch_grant env code req)"
  by (rule resolution_keeps) (auto intro!: keeps_rows)

section \<open>The version in force\<close>

lemma latest_major:
  assumes "catalog_ok rows" and "find_latest_for_major jm code m rows = Inr (Some cv)"
  shows "major_of (cvVersion cv) = Inr m" and "CHR ''@'' \<notin> set (cvVersion cv)" and "cvVersion cv \<noteq> []"
proof -
  obtain r where r: "r \<in> set rows" "usable_for_major code m r" "cvVersion cv = crVersion r"
    using find_latest_for_major_Some [OF assms(2)] by blast
  then have p: "parse_semver (cvVersion cv) = Some (crSemver r)"
    using assms(1) by (auto simp: catalog_ok_def config_row_ok_def)
  then show "major_of (cvVersion cv) = Inr m"
    using r(2) by (simp add: major_of_def usable_for_major_def)
  show "CHR ''@'' \<notin> set (cvVersion cv)" "cvVersion cv \<noteq> []" using semver_plain [OF p] by blast+
qed

text \<open>Loading the version that is selected gives the definition of that version.\<close>

lemma load_definition_version:
  assumes ok: "store_ok s" and sel: "find_latest_for_major (feVersionMessages env) code m (csRows s) = Inr (Some cv)"
    and load: "load_definition env code (cvVersion cv) s = (Inr (g, src), t)"
  shows "(\<forall>x. g = Some x \<longrightarrow> grVersion x = Some (cvVersion cv)) \<and> store_ok t"
proof (cases "get_cached_definition code (cvVersion cv) s")
  case (Some x)
  then show ?thesis
    using load ok cached_version [OF _ Some] latest_major(2) [OF _ sel]
    by (auto simp: load_definition_def store_ok_def)
next
  case None
  obtain r u where fetch: "resolve_and_fetch_grant env code (Some (cvVersion cv)) s = (Inr r, u)"
    and set: "set_cached_definition code (cvVersion cv) (rsGrant r) u = (Inr (), t)" and g: "g = rsGrant r"
    using load None by (auto simp: load_definition_def andThen_Inr)
  have cat: "catalog_ok (csRows s)" and cache: "cache_ok (csCache s)" using ok by (simp_all add: store_ok_def)
  have grant: "\<forall>x. rsGrant r = Some x \<longrightarrow> grVersion x = Some (cvVersion cv)"
    using fetched_version [OF fetch] latest_major(1) [OF cat sel] sel by auto
  have "catalog_ok (csRows u)"
    using keepsD [OF resolution_catalog [of env code "Some (cvVersion cv)"] cat] fetch by simp
  moreover have "csCache u = csCache s"
    using keepsD [OF resolution_cache [of "csCache s" env code "Some (cvVersion cv)"] refl] fetch by simp
  ultimately have "store_ok t"
    using set cache grant latest_major(2) [OF cat sel]
    by (auto intro!: cache_ok_put cache_ok_tl simp: set_cached_definition_def store_ok_def split: option.splits if_splits)
  then show ?thesis using grant g by simp
qed

section \<open>The state of the file after an attempt\<close>

lemma catalog_update_map:
  assumes "catalog_ok rows"
  shows "update_one (same_version code v) f rows = map (\<lambda>r. if same_version code v r then f r else r) rows"
proof -
  have "distinct (map row_key rows)" using assms by (simp add: catalog_ok_def)
  then show ?thesis
  proof (induction rows)
    case (Cons r rows)
    have none: "map (\<lambda>r. if same_version code v r then f r else r) rows = rows" if "same_version code v r"
    proof (rule map_idI)
      fix x assume x: "x \<in> set rows"
      have "row_key r \<notin> row_key ` set rows" using Cons.prems by simp
      then have "row_key x \<noteq> row_key r" using x by (metis image_eqI)
      then show "(if same_version code v x then f x else x) = x"
        using that by (auto simp: same_version_def row_key_def)
    qed
    then show ?case using Cons by auto
  qed simp
qed

lemma latest_map:
  assumes "\<And>r. key (h r) = key r"
  shows "latest key (map h rows) = map_option h (latest key rows)"
  by (induction rows) (auto simp: assms split: option.splits)

definition attempted :: "fetch_status \<Rightarrow> string option \<Rightarrow> string \<Rightarrow> config_row \<Rightarrow> config_row" where
  "attempted st e w r = with_worst_fetch_status (r\<lparr>crDefinitions := obj_put GrantFile
     (build_fetch_state_update st e w
       (case map_of (crDefinitions r) GrantFile of None \<Rightarrow> new_fetch_state None | Some f \<Rightarrow> f))
     (crDefinitions r)\<rparr>)"

lemma attempted_fields [simp]:
  "crGrantCode (attempted st e w r) = crGrantCode r" "crVersion (attempted st e w r) = crVersion r"
  "crSemver (attempted st e w r) = crSemver r" "crStatus (attempted st e w r) = crStatus r"
  "crS3Bucket (attempted st e w r) = crS3Bucket r" "crReceivedAt (attempted st e w r) = crReceivedAt r"
  by (simp_all add: attempted_def with_worst_fetch_status_def)

lemma attempted_file:
  "map_of (crDefinitions r) GrantFile = Some f \<Longrightarrow>
     map_of (crDefinitions (attempted st e w r)) GrantFile = Some (build_fetch_state_update st e w f)"
  by (simp add: attempted_def with_worst_fetch_status_def)

lemma build_fetch_state_status [simp]:
  "fsFetchStatus (build_fetch_state_update st e w f) = st"
  "fsS3Key (build_fetch_state_update st e w f) = fsS3Key f"
  "st \<noteq> Fetched \<Longrightarrow> fsFetchAttempts (build_fetch_state_update st e w f) = Suc (fsFetchAttempts f)"
  by (simp_all add: build_fetch_state_update_def Let_def)

text \<open>A version whose attempt is recorded stays selected, unless it is given up.\<close>

lemma find_latest_attempted:
  assumes ok: "catalog_ok rows" and sel: "find_latest_for_major jm code m rows = Inr (Some cv)"
    and st: "st \<noteq> FetchPermanent"
  shows "find_latest_for_major jm code m
      (update_definition_fetch_status code (cvVersion cv) GrantFile st e w rows)
    = Inr (Some (cv\<lparr>cvGrant := build_fetch_state_update st e w (cvGrant cv)\<rparr>))"
proof -
  let ?key = "\<lambda>r. (svMinor (crSemver r), svPatch (crSemver r))"
  let ?us = "\<lambda>rs. filter (usable_for_major code m) rs"
  let ?p = "same_version code (cvVersion cv)"
  let ?h = "\<lambda>r. if ?p r then attempted st e w r else r"
  obtain r g where r: "latest ?key (?us rows) = Some r" and g: "map_of (crDefinitions r) GrantFile = Some g"
    and cv: "new_config_version jm \<lparr>cvGrantCode = crGrantCode r, cvVersion = crVersion r,
        cvSemver = crSemver r, cvStatus = crStatus r, cvS3Bucket = crS3Bucket r,
        cvReceivedAt = crReceivedAt r, cvGrant = g\<rparr> = Inr cv"
    using sel unfolding find_latest_for_major_def config_version_from_document_def
    by (auto simp: bind_res_Inr split: option.splits)
  then have cv_eq: "cv = \<lparr>cvGrantCode = crGrantCode r, cvVersion = crVersion r, cvSemver = crSemver r,
        cvStatus = crStatus r, cvS3Bucket = crS3Bucket r, cvReceivedAt = crReceivedAt r, cvGrant = g\<rparr>"
    and schema: "config_version_schema cv"
    by (auto simp: new_config_version_def split: if_splits)
  have ur: "usable_for_major code m r" and rr: "r \<in> set rows" using latest_Some [OF r] by simp_all
  then have pr: "?p r" by (simp add: same_version_def usable_for_major_def cv_eq)
  have up: "update_definition_fetch_status code (cvVersion cv) GrantFile st e w rows = map ?h rows"
    unfolding update_definition_fetch_status_def catalog_update_map [OF ok] attempted_def [symmetric] by simp
  have unique: "x = r" if "x \<in> set rows" "?p x" for x
  proof -
    have "row_key x = row_key r" using that pr by (simp add: row_key_def same_version_def)
    then show ?thesis using ok that rr unfolding catalog_ok_def by (metis inj_onD distinct_map)
  qed
  have us: "usable_for_major code m (?h x) = usable_for_major code m x" if "x \<in> set rows" for x
    using unique [OF that] ur st g
    by (auto simp: usable_for_major_def file_status_is_def attempted_file)
  have "?us (map ?h rows) = map ?h (?us rows)"
    using us by (simp add: filter_map comp_def cong: filter_cong)
  then have "latest ?key (?us (map ?h rows)) = Some (attempted st e w r)"
    using latest_map [of ?key ?h "?us rows"] r pr by simp
  then have "find_latest_for_major jm code m (map ?h rows)
      = config_version_from_document jm (Some (attempted st e w r))"
    unfolding find_latest_for_major_def by (rule arg_cong)
  moreover have "config_version_schema (cv\<lparr>cvGrant := build_fetch_state_update st e w g\<rparr>)"
    using schema by (simp add: config_version_schema_def cv_eq)
  ultimately show ?thesis unfolding up
    by (simp add: config_version_from_document_def attempted_file [OF g] new_config_version_def cv_eq)
qed

definition given_up :: "string \<Rightarrow> string \<Rightarrow> config_row list \<Rightarrow> bool" where
  "given_up code v rows \<longleftrightarrow> (\<forall>r\<in>set rows. same_version code v r \<longrightarrow> file_status_is GrantFile FetchPermanent r)"

lemma given_up_after:
  assumes "catalog_ok rows"
  shows "given_up code v (update_definition_fetch_status code v GrantFile FetchPermanent e w rows)"
proof -
  have "update_definition_fetch_status code v GrantFile FetchPermanent e w rows
      = map (\<lambda>r. if same_version code v r then attempted FetchPermanent e w r else r) rows"
    unfolding update_definition_fetch_status_def catalog_update_map [OF assms] attempted_def [symmetric] by simp
  moreover have "file_status_is GrantFile FetchPermanent (attempted FetchPermanent e w r)" for r
    by (simp add: file_status_is_def attempted_def with_worst_fetch_status_def)
  moreover have "same_version code v (attempted FetchPermanent e w r) = same_version code v r" for r
    by (simp add: same_version_def)
  ultimately show ?thesis by (auto simp: given_up_def)
qed

text \<open>A version given up is not selected again.\<close>

lemma given_up_not_selected:
  assumes "given_up code v rows" and "find_latest_for_major jm code m rows = Inr (Some cv)"
  shows "cvVersion cv \<noteq> v"
  using find_latest_for_major_Some [OF assms(2)] assms(1)
  by (auto simp: given_up_def usable_for_major_def same_version_def)

section \<open>Giving up\<close>

definition s3_unavailable :: "'q fetch_env \<Rightarrow> bool" where
  "s3_unavailable env \<longleftrightarrow> (\<forall>b k. case feSend env b k of
     AwsFailed st name m \<Rightarrow> \<not> s3_is_permanent (classify_s3_error st name m (key_text k)) | _ \<Rightarrow> False)"

lemma classify_is_s3: "is_s3_error (classify_s3_error st n m k)" "\<not> s3_is_parse_error (classify_s3_error st n m k)"
  by (auto simp: classify_s3_error_def)

text \<open>With S3 unavailable an attempt fails and is counted, or is the last one and gives up.\<close>

lemma unavailable_attempt:
  assumes "s3_unavailable env" and "major_of req = Inr m"
    and "find_latest_for_major (feVersionMessages env) code m (csRows s) = Inr (Some cv)"
    and "fsFetchStatus (cvGrant cv) \<in> {FetchPending, FetchTransient}"
  shows "\<exists>st e err. resolve_and_fetch_grant env code (Some req) s = (Inl err,
      s\<lparr>csRows := update_definition_fetch_status code (cvVersion cv) GrantFile st e (feNow env) (csRows s)\<rparr>)
    \<and> st = (if fsFetchAttempts (cvGrant cv) \<ge> max_fetch_attempts then FetchPermanent else FetchTransient)"
proof -
  obtain st n msg where reply: "feSend env (cvS3Bucket cv) (fsS3Key (cvGrant cv)) = AwsFailed st n msg"
    and np: "\<not> s3_is_permanent (classify_s3_error st n msg (key_text (fsS3Key (cvGrant cv))))"
    using assms(1) [unfolded s3_unavailable_def, rule_format, of "fsS3Key (cvGrant cv)" "cvS3Bucket cv"]
    by (cases "feSend env (cvS3Bucket cv) (fsS3Key (cvGrant cv))") auto
  show ?thesis
    using assms(2-4) reply np classify_is_s3
    by (auto simp: resolve_and_fetch_grant_def resolve_config_version_def select_version_def Let_def
        guard_fetch_status_def find_stored_grant_def fetch_and_store_grant_def fetch_from_s3_def
        fetch_config_file_def handle_s3_error_def update_fetch_status_def catch_def andThen_def)
qed

definition attempt :: "'q fetch_env \<Rightarrow> string \<Rightarrow> string \<Rightarrow> 'q config_store \<Rightarrow> 'q config_store" where
  "attempt env code req s = snd (resolve_and_fetch_grant env code (Some req) s)"

lemma attempts_counted:
  assumes "s3_unavailable env" and "major_of req = Inr m" and "catalog_ok (csRows s)"
    and "find_latest_for_major (feVersionMessages env) code m (csRows s) = Inr (Some cv)"
    and "fsFetchStatus (cvGrant cv) \<in> {FetchPending, FetchTransient}"
    and "fsFetchAttempts (cvGrant cv) + n \<le> max_fetch_attempts"
  shows "\<exists>cv'. find_latest_for_major (feVersionMessages env) code m (csRows ((attempt env code req ^^ n) s)) = Inr (Some cv')
    \<and> cvVersion cv' = cvVersion cv \<and> fsFetchStatus (cvGrant cv') \<in> {FetchPending, FetchTransient}
    \<and> fsFetchAttempts (cvGrant cv') = fsFetchAttempts (cvGrant cv) + n
    \<and> catalog_ok (csRows ((attempt env code req ^^ n) s))"
  using assms(6)
proof (induction n)
  case 0
  then show ?case using assms(3-5) by simp
next
  case (Suc n)
  let ?s = "(attempt env code req ^^ n) s"
  obtain c where c: "find_latest_for_major (feVersionMessages env) code m (csRows ?s) = Inr (Some c)"
    "cvVersion c = cvVersion cv" "fsFetchStatus (cvGrant c) \<in> {FetchPending, FetchTransient}"
    "fsFetchAttempts (cvGrant c) = fsFetchAttempts (cvGrant cv) + n" "catalog_ok (csRows ?s)"
    using Suc by auto
  obtain e where "attempt env code req ?s = ?s\<lparr>csRows := update_definition_fetch_status code (cvVersion cv)
      GrantFile FetchTransient e (feNow env) (csRows ?s)\<rparr>"
    using unavailable_attempt [OF assms(1,2) c(1,3)] c(2,4) Suc.prems by (auto simp: attempt_def)
  then show ?case
    using find_latest_attempted [OF c(5,1), of FetchTransient e "feNow env"] c(2,4)
      update_status_catalog_ok [OF c(5)] by simp
qed

text \<open>A file that can never be used: it is not there, is not JSON or is no grant.\<close>

definition unusable_file :: "'q fetch_env \<Rightarrow> config_version \<Rightarrow> bool" where
  "unusable_file env cv \<longleftrightarrow>
     (case fetch_config_file env (cvS3Bucket cv) (fsS3Key (cvGrant cv)) of
        Inl e \<Rightarrow> s3_is_permanent e \<or> s3_is_parse_error e
      | Inr (Malformed e) \<Rightarrow> is_definition_defect e
      | Inr (Shaped d startDate) \<Rightarrow>
          (case bind_res (new_grant (feTemplateMessages env) (d\<lparr>grVersion := Some (cvVersion cv)\<rparr>))
                 (\<lambda>g. grant_document env g startDate) of
             Inl e \<Rightarrow> is_definition_defect e | Inr _ \<Rightarrow> False))"

lemma s3_kinds: "s3_is_permanent e \<or> s3_is_parse_error e \<Longrightarrow> is_s3_error e"
  by (cases e) simp_all

lemma defect_not_conflict: "is_definition_defect e \<Longrightarrow> \<not> is_conflict e"
  by (cases e) simp_all

lemma save_defect:
  assumes "bind_res (new_grant (feTemplateMessages env) (d\<lparr>grVersion := Some v\<rparr>))
                 (\<lambda>g. grant_document env g startDate) = Inl e"
  shows "save_from_definition env (Shaped d startDate) v s = (Inl e, s)"
  using assms by (auto simp: save_from_definition_def save_grant_def andThen_def bind_res_def split: sum.splits)

lemma unusable_attempt:
  assumes "unusable_file env cv" and "major_of req = Inr m"
    and "find_latest_for_major (feVersionMessages env) code m (csRows s) = Inr (Some cv)"
    and "fsFetchStatus (cvGrant cv) \<noteq> Fetched" "fsFetchAttempts (cvGrant cv) < max_fetch_attempts"
  shows "\<exists>e err. resolve_and_fetch_grant env code (Some req) s = (Inl err,
      s\<lparr>csRows := update_definition_fetch_status code (cvVersion cv) GrantFile FetchPermanent e (feNow env) (csRows s)\<rparr>)"
proof -
  have not_given_up: "fsFetchStatus (cvGrant cv) \<noteq> FetchPermanent"
    using find_latest_for_major_Some [OF assms(3)] by (auto simp: usable_for_major_def file_status_is_def)
  have start: "resolve_and_fetch_grant env code (Some req) s
      = andThen (fetch_and_store_grant env cv code (cvVersion cv)) (\<lambda>g.
             ret \<lparr>rsGrant = g, rsVersion = Some (cvVersion cv), rsSource = FromS3\<rparr>) s"
    using assms(2-5) not_given_up
    by (simp add: resolve_and_fetch_grant_def resolve_config_version_def select_version_def Let_def
        guard_fetch_status_def find_stored_grant_def andThen_def)
  have "\<exists>e err. fetch_and_store_grant env cv code (cvVersion cv) s = (Inl err,
      s\<lparr>csRows := update_definition_fetch_status code (cvVersion cv) GrantFile FetchPermanent e (feNow env) (csRows s)\<rparr>)"
  proof (cases "fetch_config_file env (cvS3Bucket cv) (fsS3Key (cvGrant cv))")
    case (Inl err)
    then have "s3_is_permanent err \<or> s3_is_parse_error err" using assms(1) by (simp add: unusable_file_def)
    then show ?thesis
      using Inl s3_kinds by (auto simp: fetch_and_store_grant_def fetch_from_s3_def handle_s3_error_def
          update_fetch_status_def catch_def andThen_def)
  next
    case (Inr d)
    obtain e where "save_from_definition env d (cvVersion cv) s = (Inl e, s)" and e: "is_definition_defect e"
    proof (cases d)
      case (Shaped g sd)
      then show ?thesis
        using that assms(1) Inr save_defect by (fastforce simp: unusable_file_def split: sum.splits)
    next
      case (Malformed x)
      then show ?thesis
        using that assms(1) Inr by (simp add: unusable_file_def save_from_definition_def)
    qed
    then show ?thesis
      using Inr e defect_not_conflict [OF e]
      by (auto simp: fetch_and_store_grant_def fetch_from_s3_def save_or_fallback_def latch_invalid_definition_def
          update_fetch_status_def catch_def andThen_def)
  qed
  then show ?thesis unfolding start by (auto simp: andThen_def)
qed

end
