(* ===== verification/ResolutionProperties.thy ===== *)
theory ResolutionProperties
  imports CoreProperties ResolutionLaws
begin

text \<open>
  The properties of resolving a grant, each with a concrete instance: a catalogue with one version
  of the sample grant that has not been read yet.
\<close>

section \<open>Samples\<close>

definition sample_file :: "fetch_status \<Rightarrow> fetch_state" where
  "sample_file st = (new_fetch_state (Some ''wood/1.0.0/grant.json''))\<lparr>fsFetchStatus := st\<rparr>"

definition sample_row :: "string \<Rightarrow> semver \<Rightarrow> fetch_status \<Rightarrow> config_row" where
  "sample_row v sv st = with_worst_fetch_status \<lparr>crGrantCode = ''wood'', crVersion = v, crSemver = sv,
     crStatus = active, crS3Bucket = Some ''configs'', crReceivedAt = ''t0'',
     crDefinitions = [(GrantFile, sample_file st)], crWorstFetchStatus = None\<rparr>"

definition sample_store :: "unit config_store" where
  "sample_store = \<lparr>csRows = [sample_row ''1.0.0'' (Semver 1 0 0) FetchPending], csGrants = [], csCache = []\<rparr>"

definition sample_fetch :: "unit fetch_env" where
  "sample_fetch = \<lparr>feNow = ''t1'', feSend = (\<lambda>_ _. AwsBody ''{}''),
     feParse = (\<lambda>_. Some (Shaped sample_grant (Some (JStr ''2026-01-01'')))),
     feInstant = (\<lambda>_. Some (Some ''2026-01-01'')), feVersionMessages = (\<lambda>_. ''invalid''),
     feTemplateMessages = (\<lambda>_. ''invalid''), feMeanwhile = (\<lambda>s. s)\<rparr>"

definition sample_pinned :: application where
  "sample_pinned = sample_application\<lparr>apCurrentConfigVersion := Some ''1.0.0''\<rparr>"

lemma sample_store_ok: "store_ok sample_store"
  by (simp add: store_ok_def sample_store_def catalog_ok_def config_row_ok_def sample_row_def cache_ok_def
      with_worst_fetch_status_def parse_semver_def all_digits_def is_digit_def parse_int_def)

lemma sample_selected:
  "find_latest_for_major jm ''wood'' 1 (csRows sample_store) = Inr (Some \<lparr>cvGrantCode = ''wood'',
     cvVersion = ''1.0.0'', cvSemver = Semver 1 0 0, cvStatus = active, cvS3Bucket = Some ''configs'',
     cvReceivedAt = ''t0'', cvGrant = sample_file FetchPending\<rparr>)"
  by (simp add: find_latest_for_major_def sample_store_def sample_row_def with_worst_fetch_status_def
      usable_for_major_def file_status_is_def sample_file_def new_fetch_state_def active_def
      config_version_from_document_def new_config_version_def config_version_schema_def)

lemma sample_major: "major_of ''1.0.0'' = Inr 1"
  by (simp add: major_of_def parse_semver_def all_digits_def is_digit_def parse_int_def)

section \<open>The version in force\<close>

text \<open>
  C26. When nothing is published meanwhile, an application pinned to a version is served the
  definition of the greatest version of that version's major that is active and not given up, under
  that version, and the catalogue and the cache stay in order.
\<close>

theorem resolved_grant_current:
  assumes "\<And>s. feMeanwhile env s = s" and "store_ok s" and "truthy (pinned_version_of app) = Some v"
    and "resolve_grant_for_application env app s = (Inr (g, ver, src, kind), t)"
  shows "\<exists>m. \<exists>r\<in>set (csRows s). major_of v = Inr m \<and> usable_for_major (apCode app) m r
      \<and> (\<forall>q\<in>set (csRows s). usable_for_major (apCode app) m q \<longrightarrow> crSemver q \<le> crSemver r)
      \<and> ver = Some (crVersion r) \<and> grVersion g = Some (crVersion r) \<and> store_ok t"
proof -
  obtain m cv x where m: "major_of v = Inr m"
    and sel: "find_latest_for_major (feVersionMessages env) (apCode app) m (csRows s) = Inr (Some cv)"
    and load: "load_definition env (apCode app) (cvVersion cv) s = (Inr (Some g, src), t)"
    and ver: "ver = Some (cvVersion cv)"
    using assms(1,3,4)
    by (auto simp: resolve_grant_for_application_def resolve_current_grant_use_case_def Let_def
        resolve_rolled_forward_def ok_iff split: option.splits)
  then show ?thesis
    using load_definition_version [OF assms(2) sel load] find_latest_for_major_Some [OF sel] by auto
qed

theorem resolved_grant_current_witness:
  "\<exists>g ver src kind t. resolve_grant_for_application sample_fetch sample_pinned sample_store = (Inr (g, ver, src, kind), t)
    \<and> grVersion g = ver \<and> store_ok t"
proof -
  have pinned: "truthy (pinned_version_of sample_pinned) = Some ''1.0.0''"
    by (simp add: sample_pinned_def pinned_version_of_def truthy_def)
  have code: "apCode sample_pinned = ''wood''" by (simp add: sample_pinned_def sample_application_def)
  have "new_grant (\<lambda>_. ''invalid'') (sample_grant\<lparr>grVersion := Some ''1.0.0''\<rparr>) = Inr sample_grant"
    by code_simp
  then obtain g ver src kind t where run:
      "resolve_grant_for_application sample_fetch sample_pinned sample_store = (Inr (g, ver, src, kind), t)"
    using sample_selected sample_major
    by (simp add: resolve_grant_for_application_def resolve_current_grant_use_case_def pinned code
        resolve_rolled_forward_def load_definition_def get_cached_definition_def resolve_and_fetch_grant_def
        resolve_config_version_def select_version_def guard_fetch_status_def find_stored_grant_def
        fetch_and_store_grant_def fetch_from_s3_def fetch_config_file_def parse_response_body_def
        save_or_fallback_def save_from_definition_def save_grant_def grant_document_def to_stored_start_date_def
        assert_instant_def field_of_def update_fetch_status_def set_cached_definition_def
        catch_def andThen_def Let_def sample_fetch_def sample_file_def new_fetch_state_def
        max_fetch_attempts_def sample_store_def)
  then show ?thesis
    using resolved_grant_current [OF _ sample_store_ok pinned run] by (auto simp: sample_fetch_def)
qed

text \<open>
  C28. While S3 cannot be reached, a version is attempted again until it has five failed attempts
  against it; until then it stays the one selected, and one more resolution gives it up for good.
\<close>

theorem unreachable_version_given_up:
  assumes "s3_unavailable env" and "major_of req = Inr m" and "catalog_ok (csRows s)"
    and "find_latest_for_major (feVersionMessages env) code m (csRows s) = Inr (Some cv)"
    and "fsFetchStatus (cvGrant cv) \<in> {FetchPending, FetchTransient}"
    and "fsFetchAttempts (cvGrant cv) + n = max_fetch_attempts"
  shows "(\<exists>cv'. find_latest_for_major (feVersionMessages env) code m (csRows ((attempt env code req ^^ n) s)) = Inr (Some cv')
      \<and> cvVersion cv' = cvVersion cv \<and> fsFetchAttempts (cvGrant cv') = max_fetch_attempts)
    \<and> given_up code (cvVersion cv) (csRows ((attempt env code req ^^ Suc n) s))"
proof -
  let ?s = "(attempt env code req ^^ n) s"
  obtain c where c: "find_latest_for_major (feVersionMessages env) code m (csRows ?s) = Inr (Some c)"
    "cvVersion c = cvVersion cv" "fsFetchStatus (cvGrant c) \<in> {FetchPending, FetchTransient}"
    "fsFetchAttempts (cvGrant c) = max_fetch_attempts" "catalog_ok (csRows ?s)"
    using attempts_counted [OF assms(1-5), of n] assms(6) by auto
  obtain e where "attempt env code req ?s = ?s\<lparr>csRows := update_definition_fetch_status code (cvVersion cv)
      GrantFile FetchPermanent e (feNow env) (csRows ?s)\<rparr>"
    using unavailable_attempt [OF assms(1,2) c(1,3)] c(2,4) by (auto simp: attempt_def)
  then show ?thesis using c given_up_after [OF c(5)] by auto
qed

definition sample_unreachable :: "unit fetch_env" where
  "sample_unreachable = sample_fetch\<lparr>feSend := (\<lambda>_ _. AwsFailed (Some 503) ''SlowDown'' ''slow down'')\<rparr>"

theorem unreachable_version_given_up_witness:
  "given_up ''wood'' ''1.0.0'' (csRows ((attempt sample_unreachable ''wood'' ''1.0.0'' ^^ 6) sample_store))"
proof -
  have "s3_unavailable sample_unreachable"
    by (simp add: s3_unavailable_def sample_unreachable_def sample_fetch_def classify_s3_error_def)
  moreover have "catalog_ok (csRows sample_store)" using sample_store_ok by (simp add: store_ok_def)
  ultimately show ?thesis
    using unreachable_version_given_up [OF _ sample_major _ sample_selected, of sample_unreachable 5]
    by (simp add: sample_file_def new_fetch_state_def max_fetch_attempts_def)
qed

text \<open>
  A published file that is not there, is not JSON or is not a grant fails the resolution that
  reads it and is given up at once: nothing of it is stored, and no later selection is that version,
  so the next one falls back to an older version of the major or finds none.
\<close>

theorem unusable_definition_skipped:
  assumes "unusable_file env cv" and "major_of req = Inr m" and "catalog_ok (csRows s)"
    and "find_latest_for_major (feVersionMessages env) code m (csRows s) = Inr (Some cv)"
    and "fsFetchStatus (cvGrant cv) \<noteq> Fetched" and "fsFetchAttempts (cvGrant cv) < max_fetch_attempts"
  shows "\<exists>e t. resolve_and_fetch_grant env code (Some req) s = (Inl e, t) \<and> csGrants t = csGrants s
    \<and> csCache t = csCache s \<and> given_up code (cvVersion cv) (csRows t)
    \<and> \<not> (\<exists>cv'. find_latest_for_major (feVersionMessages env) code m (csRows t) = Inr (Some cv')
            \<and> cvVersion cv' = cvVersion cv)"
proof -
  obtain e err where run: "resolve_and_fetch_grant env code (Some req) s = (Inl err,
      s\<lparr>csRows := update_definition_fetch_status code (cvVersion cv) GrantFile FetchPermanent e (feNow env) (csRows s)\<rparr>)"
    using unusable_attempt [OF assms(1,2,4,5,6)] by blast
  have up: "given_up code (cvVersion cv)
      (update_definition_fetch_status code (cvVersion cv) GrantFile FetchPermanent e (feNow env) (csRows s))"
    by (rule given_up_after [OF assms(3)])
  then show ?thesis using run given_up_not_selected [OF up] by auto
qed

definition sample_garbled :: "unit fetch_env" where
  "sample_garbled = sample_fetch\<lparr>feParse := (\<lambda>_. None)\<rparr>"

theorem unusable_definition_skipped_witness:
  "\<exists>e t. resolve_and_fetch_grant sample_garbled ''wood'' (Some ''1.0.0'') sample_store = (Inl e, t)
    \<and> given_up ''wood'' ''1.0.0'' (csRows t)"
proof -
  have "catalog_ok (csRows sample_store)" using sample_store_ok by (simp add: store_ok_def)
  then show ?thesis
    using unusable_definition_skipped [OF _ sample_major _ sample_selected, of sample_garbled]
    by (auto simp: unusable_file_def sample_garbled_def sample_fetch_def fetch_config_file_def
        parse_response_body_def sample_file_def new_fetch_state_def max_fetch_attempts_def)
qed

text \<open>
  C29. The definition is selected once by the version to load and once more by loading it. When
  another version of the major comes to be the one selected between the two, the application is
  served the definition of the second under the version of the first, and the process keeps it
  under that version.
\<close>

theorem newer_definition_under_older_version:
  assumes "truthy (pinned_version_of app) = Some v" and "major_of v = Inr m" and "catalog_ok (csRows s)"
    and "find_latest_for_major (feVersionMessages env) (apCode app) m (csRows s) = Inr (Some cv1)"
    and "get_cached_definition (apCode app) (cvVersion cv1) (feMeanwhile env s) = None"
    and "find_latest_for_major (feVersionMessages env) (apCode app) m (csRows (feMeanwhile env s)) = Inr (Some cv2)"
    and "resolve_grant_for_application env app s = (Inr (g, ver, src, kind), t)"
  shows "ver = Some (cvVersion cv1) \<and> grVersion g = Some (cvVersion cv2)
    \<and> get_cached_definition (apCode app) (cvVersion cv1) t = Some g"
proof -
  note major = latest_major [OF assms(3,4)]
  obtain r u where fetch: "resolve_and_fetch_grant env (apCode app) (Some (cvVersion cv1)) (feMeanwhile env s) = (Inr r, u)"
    and set: "set_cached_definition (apCode app) (cvVersion cv1) (rsGrant r) u = (Inr (), t)"
    and g: "rsGrant r = Some g" and ver: "ver = Some (cvVersion cv1)"
    using assms(1,2,4,5,7)
    by (auto simp: resolve_grant_for_application_def resolve_current_grant_use_case_def Let_def
        resolve_rolled_forward_def load_definition_def ok_iff split: option.splits)
  have "grVersion g = Some (cvVersion cv2)"
    using fetched_version [OF fetch] major(1) assms(6) g by auto
  moreover have "get_cached_definition (apCode app) (cvVersion cv1) t = Some g"
    using set g major(3) by (auto simp: set_cached_definition_def get_cached_definition_def)
  ultimately show ?thesis using ver by simp
qed

definition sample_publish_minor :: "unit config_store \<Rightarrow> unit config_store" where
  "sample_publish_minor s = s\<lparr>csRows := csRows s @ [sample_row ''1.1.0'' (Semver 1 1 0) FetchPending]\<rparr>"

definition sample_racing :: "unit fetch_env" where
  "sample_racing = sample_fetch\<lparr>feMeanwhile := sample_publish_minor\<rparr>"

lemma sample_selected_minor:
  "\<exists>cv. find_latest_for_major jm ''wood'' 1 (csRows (sample_publish_minor sample_store)) = Inr (Some cv)
     \<and> cvVersion cv = ''1.1.0'' \<and> cvGrant cv = sample_file FetchPending"
  by (simp add: find_latest_for_major_def sample_store_def sample_row_def with_worst_fetch_status_def
      usable_for_major_def file_status_is_def sample_file_def new_fetch_state_def active_def
      config_version_from_document_def new_config_version_def config_version_schema_def sample_publish_minor_def)

theorem newer_definition_under_older_version_witness:
  "\<exists>g src kind t. resolve_grant_for_application sample_racing sample_pinned sample_store
      = (Inr (g, Some ''1.0.0'', src, kind), t) \<and> grVersion g = Some ''1.1.0''"
proof -
  have pinned: "truthy (pinned_version_of sample_pinned) = Some ''1.0.0''"
    by (simp add: sample_pinned_def pinned_version_of_def truthy_def)
  have code: "apCode sample_pinned = ''wood''" by (simp add: sample_pinned_def sample_application_def)
  have ok: "catalog_ok (csRows sample_store)" using sample_store_ok by (simp add: store_ok_def)
  obtain cv where cv: "find_latest_for_major (\<lambda>_. ''invalid'') ''wood'' 1 (csRows (sample_publish_minor sample_store)) = Inr (Some cv)"
      "cvVersion cv = ''1.1.0''" "cvGrant cv = sample_file FetchPending"
    using sample_selected_minor by blast
  have "new_grant (\<lambda>_. ''invalid'') (sample_grant\<lparr>grVersion := Some ''1.1.0''\<rparr>) = Inr (sample_grant\<lparr>grVersion := Some ''1.1.0''\<rparr>)"
    by code_simp
  then obtain g ver src kind t where run:
      "resolve_grant_for_application sample_racing sample_pinned sample_store = (Inr (g, ver, src, kind), t)"
    using sample_selected sample_major cv
    by (simp add: resolve_grant_for_application_def resolve_current_grant_use_case_def pinned code
        resolve_rolled_forward_def load_definition_def get_cached_definition_def resolve_and_fetch_grant_def
        resolve_config_version_def select_version_def guard_fetch_status_def find_stored_grant_def
        fetch_and_store_grant_def fetch_from_s3_def fetch_config_file_def parse_response_body_def
        save_or_fallback_def save_from_definition_def save_grant_def grant_document_def to_stored_start_date_def
        assert_instant_def field_of_def update_fetch_status_def set_cached_definition_def
        catch_def andThen_def Let_def sample_fetch_def sample_racing_def sample_file_def new_fetch_state_def
        max_fetch_attempts_def sample_store_def sample_publish_minor_def)
  have "get_cached_definition ''wood'' ''1.0.0'' (sample_publish_minor sample_store) = None"
    by (simp add: get_cached_definition_def sample_publish_minor_def sample_store_def)
  then show ?thesis
    using newer_definition_under_older_version [OF pinned sample_major ok _ _ _ run] code sample_selected cv run
    by (fastforce simp: sample_racing_def sample_fetch_def)
qed

end
