(* ===== verification/Transition.thy ===== *)
theory Transition
  imports Publication Inbox
begin

text \<open>
  Moving an application (\<open>src/grants/use-cases/transition-application.use-case.js\<close> and the nine
  processes a transition runs, \<open>create-status-transition-update.use-case.js\<close>,
  \<open>src/grants/services/apply-event-status-change.service.js\<close> and
  \<open>src/grants/handlers/handle-grant-status-message.js\<close>). The topics, the commands this service
  handles itself, the check of an audit payload, the clock and the resolution of a grant are given
  by the environment. An agreement number missing from a message is the key \<open>undefined\<close>.
\<close>

section \<open>The environment\<close>

record 'q env =
  evNow :: string
  evUpdateCaseStatusTopic :: string
  evStatusUpdatedTopic :: string
  evCreateAgreementTopic :: string
  evUpdateAgreementTopic :: string
  evHandlesCreate :: "create_agreement \<Rightarrow> bool res"
  evHandlesStatus :: "update_agreement_status \<Rightarrow> bool res"
  evValidAudit :: "audit \<Rightarrow> bool"
  evResolve :: "application \<Rightarrow> ('q grant \<times> string option) res"

definition internal_command_target :: string where
  "internal_command_target = ''internal:message-bus''"

record state_command =
  scSourceSystem :: string
  scClientRef :: string
  scCode :: string
  scRequestedState :: string
  scEventData :: "json option"

definition event_text :: "string \<Rightarrow> json option \<Rightarrow> string option" where
  "event_text k d =
     (case d of None \<Rightarrow> None | Some v \<Rightarrow> (case field_of k v of Some (JStr s) \<Rightarrow> Some s | _ \<Rightarrow> None))"

definition agreement_key :: "json option \<Rightarrow> string" where
  "agreement_key d = part_string (event_text ''agreementNumber'' d)"

text \<open>Taking fields from an absent \<open>eventData\<close> throws.\<close>

definition event_data_of :: "state_command \<Rightarrow> json option res" where
  "event_data_of c = (case scEventData c of None \<Rightarrow> Inl TypeError | Some JNull \<Rightarrow> Inl TypeError | Some d \<Rightarrow> Inr (Some d))"

text \<open>Reading a property of an application that was not found throws.\<close>

definition loaded_application :: "state_command \<Rightarrow> (grants_db, application) action" where
  "loaded_application c = (\<lambda>db.
     (case find_application (scClientRef c) (scCode c) db of None \<Rightarrow> Inl TypeError | Some a \<Rightarrow> Inr a, db))"

definition resolve_agreement_command_target :: "'q env \<Rightarrow> create_agreement \<Rightarrow> string res" where
  "resolve_agreement_command_target env command =
     bind_res (evHandlesCreate env command) (\<lambda>mine.
       Inr (if mine then internal_command_target else evCreateAgreementTopic env))"

definition resolve_agreement_status_command_target :: "'q env \<Rightarrow> update_agreement_status \<Rightarrow> string res" where
  "resolve_agreement_status_command_target env command =
     bind_res (evHandlesStatus env command) (\<lambda>mine.
       Inr (if mine then internal_command_target else evUpdateAgreementTopic env))"

section \<open>Telling Caseworking\<close>

definition get_agreement_data :: "application \<Rightarrow> string \<Rightarrow> agreement_data option" where
  "get_agreement_data app agreementNumber =
     find (\<lambda>a. gdAgreementRef a = agreementNumber) (get_agreements_data app)"

definition agreement_case_update ::
  "'q env \<Rightarrow> state_command \<Rightarrow> application \<Rightarrow> string \<Rightarrow> grant_event \<times> string" where
  "agreement_case_update env c app agreementNumber =
     (update_case_status_command
        \<lparr>upCaseRef = scClientRef c, upWorkflowCode = scCode c,
         upConfigVersion = apCurrentConfigVersion app, upNewStatus = get_fully_qualified_status app,
         upPhase = apCurrentPhase app, upStage = apCurrentStage app, upTargetNode = Some ''agreements'',
         upDataType = Some ''ARRAY'', upKey = Some ''agreementRef'',
         upData = get_agreement_data app agreementNumber\<rparr>,
      evUpdateCaseStatusTopic env)"

definition command_details :: "state_command \<Rightarrow> (string \<times> json) list" where
  "command_details c =
     [(''clientRef'', JStr (scClientRef c)), (''code'', JStr (scCode c))]
       @ (case scEventData c of None \<Rightarrow> [] | Some d \<Rightarrow> [(''eventData'', d)])"

definition agreement_audit :: "string \<Rightarrow> string \<Rightarrow> state_command \<Rightarrow> audit option res" where
  "agreement_audit auditAction prefix c =
     bind_res (event_data_of c) (\<lambda>d.
       Inr (Some \<lparr>auEntity = ''AGREEMENT'', auAction = auditAction, auEntityId = agreement_key d,
              auDetails = command_details c, auSegregationRef = prefix @ agreement_key d\<rparr>))"

definition application_audit :: "string \<Rightarrow> string \<Rightarrow> state_command \<Rightarrow> audit" where
  "application_audit auditAction prefix c =
     \<lparr>auEntity = ''APPLICATION'', auAction = auditAction, auEntityId = scClientRef c,
      auDetails = [(''clientRef'', JStr (scClientRef c)), (''code'', JStr (scCode c))],
      auSegregationRef = prefix @ scClientRef c\<rparr>"

section \<open>The processes\<close>

definition create_agreement_use_case :: "'q env \<Rightarrow> state_command \<Rightarrow> (grants_db, unit) action" where
  "create_agreement_use_case env c =
     with_audit (evValidAudit env)
       (andThen (loaded_application c) (\<lambda>app.
        let command = create_agreement_command app in
        andThen (lift_res (resolve_agreement_command_target env command)) (\<lambda>target.
        save_grant_events [(CreateAgreement command, target)])))
       (\<lambda>_. Inr (Some (application_audit ''CREATE_AGREEMENT'' ''create-agreement-'' c)))"

definition add_agreement_use_case :: "'q env \<Rightarrow> state_command \<Rightarrow> (grants_db, unit) action" where
  "add_agreement_use_case env c =
     with_audit (evValidAudit env)
       (andThen (lift_res (event_data_of c)) (\<lambda>d.
        andThen (loaded_application c) (\<lambda>app.
        andThen (lift_res (add_agreement (evNow env)
          (agreement_new (evNow env) (agreement_key d) (event_text ''date'' d)) app)) (\<lambda>app1.
        andThen (update_application app1) (\<lambda>_.
        save_grant_events [agreement_case_update env c app1 (agreement_key d)])))))
       (\<lambda>_. bind_res (event_data_of c) (\<lambda>d. Inr (Some
          \<lparr>auEntity = ''AGREEMENT'', auAction = ''ADD_AGREEMENT'', auEntityId = agreement_key d,
           auDetails = [(''clientRef'', JStr (scClientRef c)), (''code'', JStr (scCode c))]
             @ (case event_text ''date'' d of None \<Rightarrow> [] | Some t \<Rightarrow> [(''agreementDate'', JStr t)]),
           auSegregationRef = ''add-agreement-'' @ agreement_key d\<rparr>)))"

definition accept_agreement_use_case :: "'q env \<Rightarrow> state_command \<Rightarrow> (grants_db, unit) action" where
  "accept_agreement_use_case env c =
     with_audit (evValidAudit env)
       (andThen (lift_res (event_data_of c)) (\<lambda>d.
        andThen (loaded_application c) (\<lambda>app.
        andThen (lift_res (accept_agreement (evNow env) (agreement_key d)
          \<lparr>adAcceptedDate = event_text ''date'' d, adStartDate = event_text ''startDate'' d,
           adEndDate = event_text ''endDate'' d\<rparr> app)) (\<lambda>app1.
        andThen (update_application app1) (\<lambda>_.
        save_grant_events [agreement_case_update env c app1 (agreement_key d)])))))
       (\<lambda>_. agreement_audit ''ACCEPT_AGREEMENT'' ''accept-agreement-'' c)"

definition cancel_agreement_use_case :: "'q env \<Rightarrow> state_command \<Rightarrow> (grants_db, unit) action" where
  "cancel_agreement_use_case env c =
     with_audit (evValidAudit env)
       (andThen (lift_res (event_data_of c)) (\<lambda>d.
        andThen (loaded_application c) (\<lambda>app.
        andThen (lift_res (cancel_agreement (evNow env) (agreement_key d) (event_text ''date'' d) app)) (\<lambda>app1.
        andThen (update_application app1) (\<lambda>_.
        save_grant_events [agreement_case_update env c app1 (agreement_key d)])))))
       (\<lambda>_. agreement_audit ''CANCEL_AGREEMENT'' ''cancel-agreement-'' c)"

definition apply_agreement_termination_use_case :: "'q env \<Rightarrow> state_command \<Rightarrow> (grants_db, unit) action" where
  "apply_agreement_termination_use_case env c =
     with_audit (evValidAudit env)
       (andThen (lift_res (event_data_of c)) (\<lambda>d.
        andThen (loaded_application c) (\<lambda>app.
        andThen (lift_res (terminate_agreement (evNow env) (agreement_key d) (event_text ''date'' d) app)) (\<lambda>app1.
        andThen (update_application app1) (\<lambda>_.
        save_grant_events [agreement_case_update env c app1 (agreement_key d)])))))
       (\<lambda>_. agreement_audit ''APPLY_AGREEMENT_TERMINATION'' ''apply-agreement-termination-'' c)"

text \<open>
  This one changes the agreement itself, through the reference \<open>getAgreement\<close> returns: an agreement
  that is not there is null, and the application's own \<open>updatedAt\<close> stays.
\<close>

definition withdraw_agreement_use_case :: "'q env \<Rightarrow> state_command \<Rightarrow> (grants_db, unit) action" where
  "withdraw_agreement_use_case env c =
     with_audit (evValidAudit env)
       (andThen (lift_res (event_data_of c)) (\<lambda>d.
        andThen (loaded_application c) (\<lambda>app.
        andThen (lift_res (case get_agreement (agreement_key d) app of
            None \<Rightarrow> Inl TypeError
          | Some a \<Rightarrow> Inr (app\<lparr>apAgreements := obj_put (agreement_key d)
              (agreement_withdraw (evNow env) (Some (evNow env)) a) (apAgreements app)\<rparr>))) (\<lambda>app1.
        andThen (update_application app1) (\<lambda>_.
        save_grant_events [agreement_case_update env c app1 (agreement_key d)])))))
       (\<lambda>_. agreement_audit ''WITHDRAW_AGREEMENT'' ''withdraw-agreement-'' c)"

definition withdraw_application_use_case :: "'q env \<Rightarrow> state_command \<Rightarrow> (grants_db, unit) action" where
  "withdraw_application_use_case env c =
     with_audit (evValidAudit env)
       (andThen (loaded_application c) (\<lambda>app.
        case get_active_agreement app of
          Some a \<Rightarrow>
            let command = \<lparr>uaClientRef = scClientRef c, uaCode = scCode c, uaStatus = ''withdrawn'',
                           uaAgreementNumber = agAgreementRef a\<rparr> in
            andThen (lift_res (resolve_agreement_status_command_target env command)) (\<lambda>target.
            save_grant_events [(UpdateAgreementStatus command, target)])
        | None \<Rightarrow>
            let app1 = withdraw (evNow env) app in
            andThen (update_application app1) (\<lambda>_.
            save_grant_events
              [(update_case_status_command
                  \<lparr>upCaseRef = scClientRef c, upWorkflowCode = scCode c,
                   upConfigVersion = apCurrentConfigVersion app1,
                   upNewStatus = get_fully_qualified_status app1, upPhase = apCurrentPhase app,
                   upStage = apCurrentStage app, upTargetNode = None, upDataType = None, upKey = None,
                   upData = None\<rparr>, evUpdateCaseStatusTopic env),
               (application_status_updated_event (scClientRef c) (scCode c)
                  (apCurrentConfigVersion app1) (get_fully_qualified_status app)
                  (get_fully_qualified_status app1), evStatusUpdatedTopic env)])))
       (\<lambda>_. Inr (Some (application_audit ''WITHDRAW_APPLICATION'' ''withdraw-application-'' c)))"

definition request_audit :: "string \<Rightarrow> string \<Rightarrow> state_command \<Rightarrow> string option option \<Rightarrow> audit option res" where
  "request_audit auditAction prefix c result =
     Inr (case result of Some (Some (n # ns)) \<Rightarrow>
            Some \<lparr>auEntity = ''AGREEMENT'', auAction = auditAction, auEntityId = n # ns,
              auDetails = [(''clientRef'', JStr (scClientRef c)), (''code'', JStr (scCode c)),
                (''agreementNumber'', JStr (n # ns))],
              auSegregationRef = prefix @ n # ns\<rparr>
          | _ \<Rightarrow> None)"

definition request_agreement_status ::
  "'q env \<Rightarrow> state_command \<Rightarrow> string \<Rightarrow> agreement option \<Rightarrow> (grants_db, string option) action" where
  "request_agreement_status env c status agreement =
     (case agreement of
        None \<Rightarrow> ret None
      | Some a \<Rightarrow>
          let command = \<lparr>uaClientRef = scClientRef c, uaCode = scCode c, uaStatus = status,
                         uaAgreementNumber = agAgreementRef a\<rparr> in
          andThen (lift_res (resolve_agreement_status_command_target env command)) (\<lambda>target.
          andThen (save_grant_events [(UpdateAgreementStatus command, target)]) (\<lambda>_.
          ret (Some (agAgreementRef a)))))"

definition request_agreement_cancellation_use_case ::
  "'q env \<Rightarrow> state_command \<Rightarrow> (grants_db, string option) action" where
  "request_agreement_cancellation_use_case env c =
     with_audit (evValidAudit env)
       (andThen (reads (find_application (scClientRef c) (scCode c))) (\<lambda>found.
        request_agreement_status env c ''cancelled'' (Option.bind found get_active_agreement)))
       (request_audit ''REQUEST_AGREEMENT_CANCELLATION'' ''request-agreement-cancellation-'' c)"

definition request_agreement_termination_use_case ::
  "'q env \<Rightarrow> state_command \<Rightarrow> (grants_db, string option) action" where
  "request_agreement_termination_use_case env c =
     with_audit (evValidAudit env)
       (andThen (loaded_application c) (\<lambda>app.
        request_agreement_status env c ''terminated'' (get_accepted_agreement app)))
       (request_audit ''REQUEST_AGREEMENT_TERMINATION'' ''request-agreement-termination-'' c)"

section \<open>What each process does\<close>

definition ignored :: "('s, 'a) action \<Rightarrow> ('s, unit) action" where
  "ignored m = andThen m (\<lambda>_. ret ())"

record 'q grant_process =
  gpName :: string
  gpHandle :: "'q env \<Rightarrow> state_command \<Rightarrow> (grants_db, unit) action"
  gpSetsStatus :: "string option"
  gpTellsCw :: bool
  gpOnlyWhen :: "string option"

definition plain_process ::
  "string \<Rightarrow> ('q env \<Rightarrow> state_command \<Rightarrow> (grants_db, unit) action) \<Rightarrow> 'q grant_process" where
  "plain_process name handle =
     \<lparr>gpName = name, gpHandle = handle, gpSetsStatus = None, gpTellsCw = False, gpOnlyWhen = None\<rparr>"

definition grant_processes :: "'q grant_process list" where
  "grant_processes =
     [plain_process ''GENERATE_OFFER'' create_agreement_use_case,
      (plain_process ''STORE_AGREEMENT_CASE'' add_agreement_use_case)\<lparr>gpTellsCw := True\<rparr>,
      (plain_process ''ACCEPT_AGREEMENT'' accept_agreement_use_case)\<lparr>gpTellsCw := True\<rparr>,
      (plain_process ''CANCEL_AGREEMENT'' cancel_agreement_use_case)\<lparr>gpTellsCw := True\<rparr>,
      (plain_process ''REQUEST_APPLICATION_WITHDRAWAL'' withdraw_application_use_case)
        \<lparr>gpSetsStatus := Some ''APPLICATION_WITHDRAWN'', gpTellsCw := True,
         gpOnlyWhen := Some ''no agreement is on offer''\<rparr>,
      plain_process ''REQUEST_AGREEMENT_CANCELLATION''
        (\<lambda>env c. ignored (request_agreement_cancellation_use_case env c)),
      (plain_process ''WITHDRAW_AGREEMENT'' withdraw_agreement_use_case)\<lparr>gpTellsCw := True\<rparr>,
      plain_process ''REQUEST_AGREEMENT_TERMINATION''
        (\<lambda>env c. ignored (request_agreement_termination_use_case env c)),
      (plain_process ''APPLY_AGREEMENT_TERMINATION'' apply_agreement_termination_use_case)
        \<lparr>gpTellsCw := True\<rparr>]"

definition find_grant_process :: "string \<Rightarrow> 'q grant_process option" where
  "find_grant_process processName = find (\<lambda>p. gpName p = processName) grant_processes"

definition is_grant_process :: "string \<Rightarrow> bool" where
  "is_grant_process processName \<longleftrightarrow> processName \<in> set (map gpName (grant_processes :: unit grant_process list))"

record process_effects =
  peProcess :: string
  peSetsStatus :: "string option"
  peTellsCw :: bool
  peOnlyWhen :: "string option"

definition process_effects_of :: "string \<Rightarrow> process_effects option" where
  "process_effects_of processName =
     map_option (\<lambda>p :: unit grant_process. \<lparr>peProcess = processName, peSetsStatus = gpSetsStatus p,
        peTellsCw = gpTellsCw p, peOnlyWhen = gpOnlyWhen p\<rparr>) (find_grant_process processName)"

text \<open>A single string, from an old definition, runs nothing.\<close>

fun get_handlers_for_all_processes ::
  "processes_value \<Rightarrow> ('q env \<Rightarrow> state_command \<Rightarrow> (grants_db, unit) action) list" where
  "get_handlers_for_all_processes (ProcessList ps) =
     concat (map (\<lambda>p. case find_grant_process p of None \<Rightarrow> [] | Some g \<Rightarrow> [gpHandle g]) ps)"
| "get_handlers_for_all_processes _ = []"

definition run_transition_processes ::
  "'q env \<Rightarrow> processes_value \<Rightarrow> state_command \<Rightarrow> (grants_db, unit) action" where
  "run_transition_processes env processes context =
     for_each_do (\<lambda>handler. handler env context) (get_handlers_for_all_processes processes)"

section \<open>The transition\<close>

definition status_transition_audit :: "string \<Rightarrow> string \<Rightarrow> string \<Rightarrow> string \<Rightarrow> audit" where
  "status_transition_audit clientRef code previousStatus currentStatus =
     \<lparr>auEntity = ''APPLICATION'', auAction = ''STATUS_TRANSITION'', auEntityId = clientRef,
      auDetails = [(''code'', JStr code), (''fromStatus'', JStr previousStatus),
        (''toStatus'', JStr currentStatus), (''entityIdKey'', JStr ''clientRef'')],
      auSegregationRef = ''status-transition-'' @ clientRef\<rparr>"

definition create_status_transition_update ::
  "'q env \<Rightarrow> string \<Rightarrow> string \<Rightarrow> string option \<Rightarrow> string \<Rightarrow> string \<Rightarrow> (grants_db, unit) action" where
  "create_status_transition_update env clientRef code configVersion previousStatus currentStatus =
     (if previousStatus = currentStatus then ret ()
      else with_audit (evValidAudit env)
        (save_grant_events [(application_status_updated_event clientRef code configVersion previousStatus
            currentStatus, evStatusUpdatedTopic env)])
        (\<lambda>_. Inr (Some (status_transition_audit clientRef code previousStatus currentStatus))))"

definition publish_case_working_update ::
  "'q env \<Rightarrow> bool \<Rightarrow> application \<Rightarrow> position \<Rightarrow> string \<Rightarrow> (grants_db, unit) action" where
  "publish_case_working_update env requested app previousPosition newStatus =
     (if \<not> requested then ret ()
      else save_grant_events [(update_case_status_command
        \<lparr>upCaseRef = apClientRef app, upWorkflowCode = apCode app,
         upConfigVersion = apCurrentConfigVersion app, upNewStatus = newStatus,
         upPhase = posPhase previousPosition, upStage = posStage previousPosition,
         upTargetNode = None, upDataType = None, upKey = None, upData = None\<rparr>,
        evUpdateCaseStatusTopic env)])"

definition transition_application ::
  "'q env \<Rightarrow> application \<Rightarrow> 'q grant \<Rightarrow> position \<Rightarrow> state_command \<Rightarrow> bool \<Rightarrow> (grants_db, unit) action" where
  "transition_application env app g target sideEffectContext publishCaseWorkingStatusUpdate =
     andThen (lift_res (move_to (evNow env) target g app)) (\<lambda>(app1, m).
     if \<not> mvChanged m then ret ()
     else
       andThen (update_application app1) (\<lambda>_.
       andThen (create_status_transition_update env (apClientRef app) (apCode app)
         (apCurrentConfigVersion app) (mvPrevious m) (mvNew m)) (\<lambda>_.
       andThen (publish_case_working_update env publishCaseWorkingStatusUpdate app1 (current_position app)
         (mvNew m)) (\<lambda>_.
       run_transition_processes env (mvProcesses m) sideEffectContext))))"

section \<open>A status from another service\<close>

text \<open>\<open>processStateTransition\<close>: false stands for the null it answers when nothing can be done.\<close>

definition process_state_transition ::
  "'q env \<Rightarrow> application \<Rightarrow> 'q grant \<Rightarrow> state_command \<Rightarrow> (grants_db, bool) action" where
  "process_state_transition env app g c =
     (case map_external_state g (apCurrentPhase app) (apCurrentStage app) (scRequestedState c)
             (scSourceSystem c) of
        None \<Rightarrow> ret False
      | Some target \<Rightarrow>
          if get_fully_qualified_status app = position_to_string target
          then andThen (transition_application env app g target c False) (\<lambda>_. ret True)
          else if \<not> trValid (is_valid_transition g target (get_fully_qualified_status app))
          then ret False
          else andThen (transition_application env app g target c False) (\<lambda>_. ret True))"

definition apply_external_state_change :: "'q env \<Rightarrow> state_command \<Rightarrow> (grants_db, unit) action" where
  "apply_external_state_change env c =
     with_transaction
       (andThen (reads (find_application (scClientRef c) (scCode c))) (\<lambda>found.
        case found of
          None \<Rightarrow> throw (Boom NotFound (''Application with clientRef '' @ quoted (scClientRef c) @ '' not found'') [])
        | Some app0 \<Rightarrow>
            andThen (lift_res (evResolve env app0)) (\<lambda>(g, resolvedVersion).
            andThen (persist_resolved_version app0 resolvedVersion) (\<lambda>app.
            if \<not> has_external_status_mapping g (scRequestedState c) (scSourceSystem c)
                   (apCurrentPhase app) (apCurrentStage app)
            then ret ()
            else andThen (process_state_transition env app g c) (\<lambda>done.
              if done then ret ()
              else throw (JsError (''Unable to process state change from ''
                @ get_fully_qualified_status app @ '' to '' @ scRequestedState c)))))))"

definition first_present :: "string option list \<Rightarrow> string option" where
  "first_present values =
     (case find (\<lambda>v. truthy v \<noteq> None) values of None \<Rightarrow> None | Some v \<Rightarrow> v)"

definition handle_grant_status_message ::
  "'q env \<Rightarrow> string \<Rightarrow> string \<Rightarrow> json \<Rightarrow> (grants_db, unit) action" where
  "handle_grant_status_message env messageId source event =
     (case field_of ''data'' event of
        None \<Rightarrow> throw TypeError
      | Some JNull \<Rightarrow> throw TypeError
      | Some data \<Rightarrow>
          let status = first_present [event_text ''currentStatus'' (Some data), event_text ''status'' (Some data)];
              clientRef = first_present [event_text ''clientRef'' (Some data), event_text ''caseRef'' (Some data)];
              code = first_present [event_text ''workflowCode'' (Some data), event_text ''code'' (Some data)] in
          case status of
            None \<Rightarrow> throw (JsError (''Unable to handle inbox message '' @ messageId))
          | Some s \<Rightarrow>
              if source = [] then throw (JsError (''Unable to handle inbox message '' @ messageId))
              else apply_external_state_change env
                \<lparr>scSourceSystem = source, scClientRef = (case clientRef of None \<Rightarrow> [] | Some r \<Rightarrow> r),
                 scCode = (case code of None \<Rightarrow> [] | Some r \<Rightarrow> r), scRequestedState = s,
                 scEventData = Some data\<rparr>)"

end
