(* ===== verification/TransitionLaws.thy ===== *)
theory TransitionLaws
  imports Transition
begin

text \<open>
  What the processes of a transition do to the database: they are confined to the application their
  command names, keep every application well filed, and only add to the outbox. The predicate
  \<open>confined\<close> is carried through each use case by the rules of \<open>keeps\<close>; the functional lemmas say
  what each use case publishes.
\<close>

section \<open>Confinement\<close>

definition application_key :: "application \<Rightarrow> string \<times> string" where
  "application_key a = (apClientRef a, apCode a)"

definition db_ok :: "grants_db \<Rightarrow> bool" where
  "db_ok db \<longleftrightarrow> distinct (map application_key (dbApplications db))
     \<and> (\<forall>a\<in>set (dbApplications db). application_wf a)"

text \<open>What is written outside the transaction may only pin the version of that application.\<close>

fun outside_of :: "state_command \<Rightarrow> outside_write \<Rightarrow> bool" where
  "outside_of c (OutsideAudit a) \<longleftrightarrow> True"
| "outside_of c (OutsideVersion r g v) \<longleftrightarrow> (r, g) = (scClientRef c, scCode c)"

text \<open>\<open>confined c s0\<close>: reached from \<open>s0\<close> by changes of the one application \<open>c\<close> names.\<close>

definition confined :: "state_command \<Rightarrow> grants_db \<Rightarrow> grants_db \<Rightarrow> bool" where
  "confined c s0 s \<longleftrightarrow> db_ok s
     \<and> filter (\<lambda>a. application_key a \<noteq> (scClientRef c, scCode c)) (dbApplications s)
         = filter (\<lambda>a. application_key a \<noteq> (scClientRef c, scCode c)) (dbApplications s0)
     \<and> map application_key (dbApplications s) = map application_key (dbApplications s0)
     \<and> dbSeries s = dbSeries s0
     \<and> dbEntitlements s = dbEntitlements s0 \<and> dbClaims s = dbClaims s0
     \<and> (\<exists>added. dbOutbox s = dbOutbox s0 @ added)
     \<and> (\<forall>w\<in>set (dbOutside s). outside_of c w)"

lemma confined_start: "db_ok s \<Longrightarrow> confined c s (s\<lparr>dbOutside := []\<rparr>)"
  by (simp add: confined_def db_ok_def)

lemma confinedI:
  assumes "confined c s0 s"
    and "map application_key (dbApplications t) = map application_key (dbApplications s)"
    and "filter (\<lambda>a. application_key a \<noteq> (scClientRef c, scCode c)) (dbApplications t)
      = filter (\<lambda>a. application_key a \<noteq> (scClientRef c, scCode c)) (dbApplications s)"
    and "\<forall>a\<in>set (dbApplications t). application_wf a"
    and "dbSeries t = dbSeries s" and "dbOutbox t = dbOutbox s @ added"
    and "dbEntitlements t = dbEntitlements s" and "dbClaims t = dbClaims s"
    and "\<forall>w\<in>set (dbOutside t). outside_of c w"
  shows "confined c s0 t"
proof -
  obtain earlier where e: "dbOutbox s = dbOutbox s0 @ earlier" using assms(1) unfolding confined_def by blast
  have "dbOutbox t = dbOutbox s0 @ (earlier @ added)" using assms(6) e by simp
  then show ?thesis
    using assms(1,4,9) unfolding confined_def db_ok_def assms(2,3,5,7,8) by blast
qed

lemma find_application_key:
  "find_application r g db = Some a \<Longrightarrow> a \<in> set (dbApplications db) \<and> apClientRef a = r \<and> apCode a = g"
  by (auto simp: find_application_def same_application_def find_Some_iff in_set_conv_nth)

lemma find_application_wf:
  "db_ok db \<Longrightarrow> find_application r g db = Some a \<Longrightarrow> application_wf a"
  using find_application_key by (auto simp: db_ok_def)

lemma filter_update_one:
  "(\<And>r. p r \<Longrightarrow> \<not> q r \<and> \<not> q (f r)) \<Longrightarrow> filter q (update_one p f rows) = filter q rows"
  by (induction rows) auto

lemma map_update_one_to:
  "(\<And>r. p r \<Longrightarrow> g (f r) = g r) \<Longrightarrow> map g (update_one p f rows) = map g rows"
  by (induction rows) auto

lemma confined_update_application:
  assumes "application_wf app" and "application_key app = (scClientRef c, scCode c)"
  shows "keeps (confined c s0) (update_application app)"
proof (rule keepsI)
  fix s assume s: "confined c s0 s"
  let ?p = "same_application (apClientRef app) (apCode app)"
  let ?u = "update_one ?p (\<lambda>_. app) (dbApplications s)"
  have same: "?p r \<longleftrightarrow> application_key r = (scClientRef c, scCode c)" for r
    using assms(2) by (auto simp: same_application_def application_key_def)
  have keys: "map application_key ?u = map application_key (dbApplications s)"
    by (rule map_update_one_to) (simp add: same assms(2))
  have rest: "filter (\<lambda>a. application_key a \<noteq> (scClientRef c, scCode c)) ?u
    = filter (\<lambda>a. application_key a \<noteq> (scClientRef c, scCode c)) (dbApplications s)"
    by (rule filter_update_one) (simp add: same assms(2))
  have "\<forall>a\<in>set ?u. application_wf a"
    using s assms(1) by (auto simp: confined_def db_ok_def dest: set_update_one)
  then show "confined c s0 (snd (update_application app s))"
    using s keys rest by (auto simp: update_application_def confined_def db_ok_def split: option.splits)
qed

lemma confined_appends:
  assumes "confined c s0 s"
  shows "confined c s0 (s\<lparr>dbOutbox := dbOutbox s @ xs\<rparr>)"
    and "confined c s0 (s\<lparr>dbOutside := dbOutside s @ [OutsideAudit a]\<rparr>)"
proof -
  have ok: "\<forall>a\<in>set (dbApplications s). application_wf a" "\<forall>w\<in>set (dbOutside s). outside_of c w"
    using assms by (simp_all add: confined_def db_ok_def)
  show "confined c s0 (s\<lparr>dbOutbox := dbOutbox s @ xs\<rparr>)"
    by (rule confinedI [OF assms, where added = xs]) (simp_all add: ok)
  show "confined c s0 (s\<lparr>dbOutside := dbOutside s @ [OutsideAudit a]\<rparr>)"
    by (rule confinedI [OF assms, where added = "[]"]) (use ok in auto)
qed

lemma confined_writes:
  "keeps (confined c s0) (save_grant_events ps)" "keeps (confined c s0) (write_audit_event v a st)"
  by (simp_all add: keeps_def save_grant_events_def write_audit_event_def confined_appends)

lemma with_audit_state:
  "snd (with_audit v f d s) = snd (f s)
    \<or> (\<exists>a. snd (with_audit v f d s) = (snd (f s))\<lparr>dbOutbox := dbOutbox (snd (f s)) @ [Audit a SUCCESS]\<rparr>)
    \<or> (\<exists>a. snd (with_audit v f d s) = (snd (f s))\<lparr>dbOutside := dbOutside (snd (f s)) @ [OutsideAudit a]\<rparr>)"
proof -
  obtain r t where f: "f s = (r, t)" by (cases "f s")
  show ?thesis
  proof (cases r)
    case (Inl e)
    then show ?thesis unfolding with_audit_def using f
      by (cases "d None") (auto split: option.splits)
  next
    case (Inr x)
    then show ?thesis unfolding with_audit_def using f
      by (cases "d (Some x)") (auto simp: write_audit_event_def andThen_run split: option.splits)
  qed
qed

lemma confined_with_audit:
  assumes "keeps (confined c s0) f"
  shows "keeps (confined c s0) (with_audit v f d)"
proof (rule keepsI)
  fix s assume "confined c s0 s"
  then have "confined c s0 (snd (f s))" using assms by (rule keepsD [rotated])
  then show "confined c s0 (snd (with_audit v f d s))"
    using with_audit_state [of v f d s] by (auto simp: confined_appends)
qed

text \<open>The application a use case loads is the one the command names.\<close>

lemma confined_loaded:
  assumes "\<And>app. application_wf app \<Longrightarrow> application_key app = (scClientRef c, scCode c)
    \<Longrightarrow> keeps (confined c s0) (f app)"
  shows "keeps (confined c s0) (andThen (loaded_application c) f)"
proof (rule keepsI)
  fix s assume s: "confined c s0 s"
  show "confined c s0 (snd (andThen (loaded_application c) f s))"
  proof (cases "find_application (scClientRef c) (scCode c) s")
    case None
    then show ?thesis using s by (simp add: loaded_application_def andThen_run)
  next
    case (Some app)
    have "application_wf app" using find_application_wf [OF _ Some] s by (simp add: confined_def)
    moreover have "application_key app = (scClientRef c, scCode c)"
      using find_application_key [OF Some] by (simp add: application_key_def)
    ultimately have "keeps (confined c s0) (f app)" by (rule assms)
    then show ?thesis using Some s by (simp add: loaded_application_def andThen_run keeps_def)
  qed
qed

lemma keeps_lift_res:
  assumes "\<And>x. r = Inr x \<Longrightarrow> keeps P (f x)"
  shows "keeps P (andThen (lift_res r) f)"
  using assms by (cases r) (auto simp: keeps_def andThen_run)

lemma application_key_change:
  "change_agreement now ref f app = Inr app' \<Longrightarrow> application_key app' = application_key app"
  "add_agreement now a app = Inr app' \<Longrightarrow> application_key app' = application_key app"
  "application_key (withdraw now app) = application_key app"
  by (auto simp: change_agreement_def add_agreement_def withdraw_def application_key_def
      split: option.splits if_splits)

lemma withdraw_wf: "application_wf app \<Longrightarrow> application_wf (withdraw now app)"
  by (simp add: application_wf_def withdraw_def)

lemma agreement_withdraw_filed:
  assumes "application_wf app" and "get_agreement ref app = Some a"
  shows "application_wf (app\<lparr>apAgreements := obj_put ref (agreement_withdraw now d a) (apAgreements app)\<rparr>)"
proof -
  have "Inr ((app\<lparr>apAgreements := obj_put ref (agreement_withdraw now d a) (apAgreements app)\<rparr>)
      \<lparr>apUpdatedAt := now\<rparr>) = withdraw_agreement now ref d app"
    using assms(2) by (simp add: withdraw_agreement_def change_agreement_def)
  from agreement_changes_wf(3) [OF assms(1) this [symmetric]] show ?thesis
    by (simp add: application_wf_def)
qed

lemma find_filter: "(\<And>x. p x \<Longrightarrow> q x) \<Longrightarrow> find p (filter q xs) = find p xs"
  by (induction xs) auto

text \<open>Any other application is found as it was.\<close>

lemma confined_others:
  assumes "confined c s0 s" and "(r, g) \<noteq> (scClientRef c, scCode c)"
  shows "find_application r g s = find_application r g s0"
proof -
  let ?q = "\<lambda>a. application_key a \<noteq> (scClientRef c, scCode c)"
  have "find_application r g u = find (same_application r g) (filter ?q (dbApplications u))" for u :: grants_db
    unfolding find_application_def
    by (rule find_filter [symmetric]) (use assms(2) in \<open>auto simp: same_application_def application_key_def\<close>)
  then show ?thesis using assms(1) by (simp add: confined_def)
qed

section \<open>The processes are confined\<close>

text \<open>The four use cases that change an agreement and tell Caseworking share this run.\<close>

lemma confined_agreement_run:
  assumes "\<And>d app app1. application_wf app \<Longrightarrow> application_key app = (scClientRef c, scCode c)
    \<Longrightarrow> change d app = Inr app1
    \<Longrightarrow> application_wf app1 \<and> application_key app1 = (scClientRef c, scCode c)"
  shows "keeps (confined c s0) (with_audit v
    (andThen (lift_res (event_data_of c)) (\<lambda>d.
     andThen (loaded_application c) (\<lambda>app.
     andThen (lift_res (change d app)) (\<lambda>app1.
     andThen (update_application app1) (\<lambda>_.
     save_grant_events (ps d app1)))))) b)"
proof (rule confined_with_audit, rule keeps_lift_res, rule confined_loaded, rule keeps_lift_res)
  fix d app app1
  assume "application_wf app" "application_key app = (scClientRef c, scCode c)" "change d app = Inr app1"
  from assms [OF this] show "keeps (confined c s0)
      (andThen (update_application app1) (\<lambda>_. save_grant_events (ps d app1)))"
    by (auto intro: confined_update_application confined_writes)
qed

lemma process_confined:
  assumes "g \<in> set grant_processes"
  shows "keeps (confined c s0) (gpHandle g env c)"
proof -
  have create: "keeps (confined c s0) (create_agreement_use_case env c)"
    unfolding create_agreement_use_case_def Let_def
    by (intro confined_with_audit confined_loaded keeps_lift_res confined_writes)
  have agreements: "keeps (confined c s0) (add_agreement_use_case env c)"
    "keeps (confined c s0) (accept_agreement_use_case env c)"
    "keeps (confined c s0) (cancel_agreement_use_case env c)"
    "keeps (confined c s0) (apply_agreement_termination_use_case env c)"
    "keeps (confined c s0) (withdraw_agreement_use_case env c)"
    unfolding add_agreement_use_case_def accept_agreement_use_case_def cancel_agreement_use_case_def
      apply_agreement_termination_use_case_def withdraw_agreement_use_case_def
    by (rule confined_agreement_run;
        auto simp: accept_agreement_def cancel_agreement_def terminate_agreement_def application_key_change
          split: option.splits
          intro: add_agreement_wf agreement_wf_operations agreement_withdraw_filed
          dest: agreement_changes_wf [unfolded accept_agreement_def cancel_agreement_def terminate_agreement_def];
        simp add: application_key_def)+
  have request: "keeps (confined c s0) (request_agreement_status env c st a)" for st a
    unfolding request_agreement_status_def
    by (auto simp: Let_def split: option.splits intro!: keeps_lift_res keeps_andThen confined_writes)
  have requests: "keeps (confined c s0) (ignored (request_agreement_cancellation_use_case env c))"
    "keeps (confined c s0) (ignored (request_agreement_termination_use_case env c))"
    unfolding ignored_def request_agreement_cancellation_use_case_def request_agreement_termination_use_case_def
    by (intro keeps_andThen confined_with_audit confined_loaded request keeps_basic)+
  have withdrawal: "keeps (confined c s0) (withdraw_application_use_case env c)"
    unfolding withdraw_application_use_case_def
    by (rule confined_with_audit, rule confined_loaded)
      (auto simp: Let_def application_key_change withdraw_wf split: option.splits
        intro!: keeps_lift_res keeps_andThen confined_writes confined_update_application)
  show ?thesis
    using assms create agreements requests withdrawal
    by (auto simp: grant_processes_def plain_process_def)
qed


section \<open>Transactions are confined\<close>

lemma confined_apply_outside:
  assumes "confined c s0 s" and "outside_of c w"
  shows "confined c s0 (apply_outside w s)"
proof (cases w)
  case (OutsideAudit a)
  then show ?thesis using assms by (auto simp: confined_def db_ok_def)
next
  case (OutsideVersion r g v)
  let ?f = "\<lambda>a. if apClientRef a = r \<and> apCode a = g then a\<lparr>apCurrentConfigVersion := Some v\<rparr> else a"
  have key: "application_key (?f a) = application_key a" for a by (simp add: application_key_def)
  have keys: "map application_key (map ?f xs) = map application_key xs" for xs
    using key by (induction xs) simp_all
  have rest: "filter (\<lambda>a. application_key a \<noteq> (scClientRef c, scCode c)) (map ?f xs)
    = filter (\<lambda>a. application_key a \<noteq> (scClientRef c, scCode c)) xs" for xs
    using assms(2) OutsideVersion by (induction xs) (auto simp: application_key_def)
  have wf: "application_wf (?f a) \<longleftrightarrow> application_wf a" for a by (simp add: application_wf_def)
  have all: "\<forall>a\<in>set (map ?f (dbApplications s)). application_wf a"
    using assms(1) unfolding set_map ball_simps(9) wf by (simp add: confined_def db_ok_def)
  let ?s = "s\<lparr>dbApplications := map ?f (dbApplications s)\<rparr>"
  have s: "dbApplications ?s = map ?f (dbApplications s)" "dbSeries ?s = dbSeries s"
    "dbOutbox ?s = dbOutbox s @ []" "dbOutside ?s = dbOutside s"
    "dbEntitlements ?s = dbEntitlements s" "dbClaims ?s = dbClaims s"
    by simp_all
  have out: "\<forall>w\<in>set (dbOutside s). outside_of c w" using assms(1) by (simp add: confined_def)
  have "confined c s0 ?s"
    by (rule confinedI [OF assms(1), of ?s "[]"]) (unfold s keys rest, (rule refl all out)+)
  then show ?thesis by (simp add: OutsideVersion)
qed

lemma confined_reset:
  assumes "confined c s0 s"
  shows "confined c s0 (s\<lparr>dbOutside := []\<rparr>)"
  by (rule confinedI [OF assms, where added = "[]"]) (use assms in \<open>auto simp: confined_def db_ok_def\<close>)

lemma confined_settle:
  assumes "confined c s0 s" and "\<forall>w\<in>set ws. outside_of c w"
  shows "confined c s0 (settle_outside ws s)"
proof -
  have "confined c s0 (foldl (\<lambda>acc w. apply_outside w acc) s ws)"
    using assms by (induction ws arbitrary: s) (simp_all add: confined_apply_outside)
  then show ?thesis unfolding settle_outside_def by (rule confined_reset)
qed

lemma confined_with_transaction:
  assumes "keeps (confined c db) cb" and "db_ok db"
  shows "confined c db (snd (with_transaction cb db))"
proof -
  obtain r t where run: "cb (db\<lparr>dbOutside := []\<rparr>) = (r, t)" by (cases "cb (db\<lparr>dbOutside := []\<rparr>)")
  have t: "confined c db t"
    using keepsD [OF assms(1) confined_start [OF assms(2)]] run by simp
  have "confined c db (settle_outside (dbOutside t) (db\<lparr>dbOutside := []\<rparr>))"
    using t by (intro confined_settle confined_start assms(2)) (simp add: confined_def)
  moreover have "settle_outside ws (db\<lparr>dbOutside := []\<rparr>) = settle_outside ws db" for ws
  proof -
    have "(foldl (\<lambda>acc w. apply_outside w acc) (d\<lparr>dbOutside := []\<rparr>) ws)
      = (foldl (\<lambda>acc w. apply_outside w acc) d ws)\<lparr>dbOutside := []\<rparr>" for d
    proof (induction ws arbitrary: d)
      case (Cons w ws)
      have "apply_outside w (d\<lparr>dbOutside := []\<rparr>) = (apply_outside w d)\<lparr>dbOutside := []\<rparr>"
        by (cases w) simp_all
      then show ?case using Cons [of "apply_outside w d"] by simp
    qed simp
    then show ?thesis by (simp add: settle_outside_def)
  qed
  moreover have "confined c db (settle_outside (dbOutside t) t)"
    using t by (intro confined_settle) (simp_all add: confined_def)
  ultimately show ?thesis using run by (cases r) (simp_all add: with_transaction_def)
qed

section \<open>The transition is confined\<close>

lemma keeps_for_each_do_set:
  "(\<And>x. x \<in> set xs \<Longrightarrow> keeps P (f x)) \<Longrightarrow> keeps P (for_each_do f xs)"
  by (induction xs) auto

lemma handlers_are_processes:
  fixes h :: "'q env \<Rightarrow> state_command \<Rightarrow> (grants_db, unit) action"
  assumes "h \<in> set (get_handlers_for_all_processes ps)"
  shows "\<exists>g\<in>set grant_processes. h = gpHandle g"
proof (cases ps)
  case (ProcessList names)
  then obtain p where "h \<in> set (case find_grant_process p of None \<Rightarrow> [] | Some g \<Rightarrow> [gpHandle g])"
    using assms by auto
  then obtain g where "(find_grant_process p :: 'q grant_process option) = Some g" "h = gpHandle g"
    by (cases "find_grant_process p :: 'q grant_process option") auto
  then show ?thesis unfolding find_grant_process_def using find_SomeD by metis
qed (use assms in simp_all)

lemma run_processes_confined: "keeps (confined c s0) (run_transition_processes env ps c)"
  unfolding run_transition_processes_def
  by (rule keeps_for_each_do_set) (use handlers_are_processes process_confined in blast)

lemma transition_confined:
  assumes "application_wf app" and "application_key app = (scClientRef c, scCode c)"
  shows "keeps (confined c s0) (transition_application env app g target c publish)"
  unfolding transition_application_def
proof (rule keeps_lift_res)
  fix r assume r: "move_to (evNow env) target g app = Inr r"
  obtain app1 m where m: "r = (app1, m)" by (cases r)
  have "application_wf app1" "application_key app1 = (scClientRef c, scCode c)"
    using move_to_wf [OF assms(1)] move_to_ok(5,6) [of "evNow env" target g app app1 m] r m assms(2)
    by (auto simp: application_key_def)
  then show "keeps (confined c s0) (case r of (app1, m) \<Rightarrow>
     if \<not> mvChanged m then ret ()
     else
       andThen (update_application app1) (\<lambda>_.
       andThen (create_status_transition_update env (apClientRef app) (apCode app)
         (apCurrentConfigVersion app) (mvPrevious m) (mvNew m)) (\<lambda>_.
       andThen (publish_case_working_update env publish app1 (current_position app)
         (mvNew m)) (\<lambda>_.
       run_transition_processes env (mvProcesses m) c))))"
    unfolding m
    by (auto simp: create_status_transition_update_def publish_case_working_update_def
        intro!: keeps_andThen confined_update_application confined_with_audit confined_writes
          run_processes_confined)
qed

lemma keeps_andThen_value:
  assumes "keeps P m" and "\<And>s x t. m s = (Inr x, t) \<Longrightarrow> keeps P (f x)"
  shows "keeps P (andThen m f)"
proof (rule keepsI)
  fix s assume "P s"
  obtain r t where r: "m s = (r, t)" by (cases "m s")
  have t: "P t" using keepsD [OF assms(1) \<open>P s\<close>] r by simp
  show "P (snd (andThen m f s))"
  proof (cases r)
    case (Inr x)
    have "keeps P (f x)" using assms(2) r Inr by blast
    then show ?thesis using t r Inr by (simp add: keeps_def)
  qed (use t r in simp)
qed

lemma persist_confined:
  assumes "application_key app = (scClientRef c, scCode c)"
  shows "keeps (confined c s0) (persist_resolved_version app v)"
  using assms
  by (auto simp: persist_resolved_version_def keeps_def andThen_run confined_def db_ok_def application_key_def
      split: option.splits list.splits)

lemma persist_value:
  assumes "persist_resolved_version app v s = (Inr app', t)"
  shows "application_key app' = application_key app \<and> (application_wf app \<longrightarrow> application_wf app')
    \<and> current_position app' = current_position app"
  using assms
  by (auto simp: persist_resolved_version_def andThen_run application_key_def application_wf_def
      current_position_def split: option.splits list.splits if_splits)

lemma find_confined:
  assumes "\<And>app. application_wf app \<Longrightarrow> application_key app = (scClientRef c, scCode c)
    \<Longrightarrow> keeps (confined c s0) (f (Some app))"
    and "keeps (confined c s0) (f None)"
  shows "keeps (confined c s0) (andThen (reads (find_application (scClientRef c) (scCode c))) f)"
proof (rule keepsI)
  fix s assume s: "confined c s0 s"
  have "keeps (confined c s0) (f (find_application (scClientRef c) (scCode c) s))"
  proof (cases "find_application (scClientRef c) (scCode c) s")
    case (Some app)
    then show ?thesis
      using assms(1) [of app] s find_application_key [OF Some] find_application_wf [OF _ Some]
      by (simp add: confined_def application_key_def)
  qed (simp add: assms(2))
  then show "confined c s0 (snd (andThen (reads (find_application (scClientRef c) (scCode c))) f s))"
    using s by (simp add: keeps_def)
qed

lemma external_change_confined:
  assumes "db_ok db"
  shows "confined c db (snd (apply_external_state_change env c db))"
  unfolding apply_external_state_change_def
proof (rule confined_with_transaction [OF _ assms], rule find_confined)
  have step: "keeps (confined c db) (process_state_transition env app g c)"
    if "application_wf app" "application_key app = (scClientRef c, scCode c)" for app g
    unfolding process_state_transition_def
    by (auto split: option.splits intro!: keeps_andThen transition_confined that)
  fix app0 assume app0: "application_wf app0" "application_key app0 = (scClientRef c, scCode c)"
  have rest: "keeps (confined c db) (if \<not> has_external_status_mapping g (scRequestedState c)
        (scSourceSystem c) (apCurrentPhase app) (apCurrentStage app)
      then ret ()
      else andThen (process_state_transition env app g c) (\<lambda>done. if done then ret () else throw e))"
    if "persist_resolved_version app0 v s = (Inr app, t)" for g v s app t e
    using step [of app g] persist_value [OF that] app0 by (auto intro!: keeps_andThen)
  show "keeps (confined c db) (case Some app0 of
      None \<Rightarrow> throw (Boom NotFound (''Application with clientRef '' @ quoted (scClientRef c) @ '' not found'') [])
    | Some app0 \<Rightarrow> andThen (lift_res (evResolve env app0)) (\<lambda>(g, resolvedVersion).
        andThen (persist_resolved_version app0 resolvedVersion) (\<lambda>app.
        if \<not> has_external_status_mapping g (scRequestedState c) (scSourceSystem c)
               (apCurrentPhase app) (apCurrentStage app)
        then ret ()
        else andThen (process_state_transition env app g c) (\<lambda>done.
          if done then ret ()
          else throw (JsError (''Unable to process state change from ''
            @ get_fully_qualified_status app @ '' to '' @ scRequestedState c))))))"
    unfolding option.case
    by (rule keeps_lift_res, clarify, rule keeps_andThen_value [OF persist_confined [OF app0(2)]], erule rest)
qed simp

end
