(* ===== verification/TransitionEffects.thy ===== *)
theory TransitionEffects
  imports TransitionLaws
begin

text \<open>
  What each process publishes and where it leaves the application, against what the registry of
  processes declares of it, and what a status change as a whole publishes.
\<close>

section \<open>What a process publishes\<close>

lemma with_audit_ok [ok_iff]:
  "with_audit v f d s = (Inr x, u) \<longleftrightarrow>
     (\<exists>t r. f s = (Inr x, t) \<and> d (Some x) = Inr r
       \<and> (case r of None \<Rightarrow> u = t | Some a \<Rightarrow> v a \<and> u = t\<lparr>dbOutbox := dbOutbox t @ [Audit a SUCCESS]\<rparr>))"
proof -
  obtain r t where f: "f s = (r, t)" by (cases "f s")
  show ?thesis unfolding with_audit_def f
    by (auto simp: write_audit_event_def andThen_run split: sum.splits option.splits)
qed

lemma find_update_one:
  "find p rows = Some r \<Longrightarrow> p x \<Longrightarrow> find p (update_one p (\<lambda>_. x) rows) = Some x"
  by (induction rows) (auto split: if_splits)

lemma update_application_ok:
  "update_application app s = (Inr (), t) \<longleftrightarrow>
     (\<exists>stored. find_application (apClientRef app) (apCode app) s = Some stored \<and> stored \<noteq> app
       \<and> t = s\<lparr>dbApplications := update_one (same_application (apClientRef app) (apCode app)) (\<lambda>_. app)
                 (dbApplications s)\<rparr>)"
  by (auto simp: update_application_def split: option.splits)

lemma update_application_stores:
  assumes "update_application app s = (Inr (), t)"
  shows "find_application (apClientRef app) (apCode app) t = Some app \<and> dbOutbox t = dbOutbox s"
  using assms unfolding update_application_ok
  by (auto simp: find_application_def intro!: find_update_one simp: same_application_def)

lemma loaded_ok [ok_iff]:
  "loaded_application c s = (Inr app, t) \<longleftrightarrow> t = s \<and> find_application (scClientRef c) (scCode c) s = Some app"
  by (auto simp: loaded_application_def split: option.splits)

lemma find_application_writes [simp]:
  "find_application r g (s\<lparr>dbOutbox := xs\<rparr>) = find_application r g s"
  by (simp add: find_application_def)

fun case_update :: "outbox_entry \<Rightarrow> string list" where
  "case_update (Message (UpdateCaseStatus u) t) = [ucNewStatus u]"
| "case_update _ = []"

definition case_updates :: "outbox_entry list \<Rightarrow> string list" where
  "case_updates entries = concat (map case_update entries)"

lemma case_updates_simps [simp]:
  "case_updates [] = []" "case_updates (e # es) = case_update e @ case_updates es"
  by (simp_all add: case_updates_def)

text \<open>The result of a process: where the application is and what Caseworking was told.\<close>

definition told :: "state_command \<Rightarrow> grants_db \<Rightarrow> grants_db \<Rightarrow> application \<Rightarrow> string list \<Rightarrow> bool" where
  "told c s t app' updates \<longleftrightarrow> find_application (scClientRef c) (scCode c) t = Some app'
     \<and> (\<exists>added. dbOutbox t = dbOutbox s @ added \<and> case_updates added = updates)"

lemma agreement_run_told:
  assumes "with_audit v
      (andThen (lift_res (event_data_of c)) (\<lambda>d.
       andThen (loaded_application c) (\<lambda>app.
       andThen (lift_res (change d app)) (\<lambda>app1.
       andThen (update_application app1) (\<lambda>_.
       save_grant_events [agreement_case_update env c app1 (agreement_key d)])))))
      (\<lambda>_. b) s = (Inr (), t)"
    and "find_application (scClientRef c) (scCode c) s = Some app"
    and same: "\<And>d app1. change d app = Inr app1 \<Longrightarrow> current_position app1 = current_position app
      \<and> application_key app1 = application_key app"
  shows "\<exists>app'. told c s t app' [get_fully_qualified_status app'] \<and> current_position app' = current_position app"
proof -
  obtain t0 r where t0: "andThen (lift_res (event_data_of c)) (\<lambda>d.
       andThen (loaded_application c) (\<lambda>app.
       andThen (lift_res (change d app)) (\<lambda>app1.
       andThen (update_application app1) (\<lambda>_.
       save_grant_events [agreement_case_update env c app1 (agreement_key d)])))) s = (Inr (), t0)"
    and t: "case r of None \<Rightarrow> t = t0 | Some a \<Rightarrow> v a \<and> t = t0\<lparr>dbOutbox := dbOutbox t0 @ [Audit a SUCCESS]\<rparr>"
    using assms(1) unfolding with_audit_ok by blast
  obtain d app1 s1 where run: "change d app = Inr app1" "update_application app1 s = (Inr (), s1)"
    and t0: "save_grant_events [agreement_case_update env c app1 (agreement_key d)] s1 = (Inr (), t0)"
    using t0 assms(2) by (auto simp: andThen_Inr loaded_ok)
  have key: "apClientRef app1 = scClientRef c" "apCode app1 = scCode c"
    using same [OF run(1)] find_application_key [OF assms(2)] by (simp_all add: application_key_def)
  have stored: "find_application (scClientRef c) (scCode c) s1 = Some app1" "dbOutbox s1 = dbOutbox s"
    using update_application_stores [OF run(2)] key by simp_all
  have "told c s t app1 [get_fully_qualified_status app1]"
    using t t0 stored
    by (cases r) (auto simp: told_def agreement_case_update_def update_case_status_command_def save_grant_events_def)
  then show ?thesis using same [OF run(1)] by blast
qed


lemma change_agreement_same:
  "change_agreement now ref f app = Inr app1 \<Longrightarrow>
     current_position app1 = current_position app \<and> application_key app1 = application_key app"
  "add_agreement now a app = Inr app1 \<Longrightarrow>
     current_position app1 = current_position app \<and> application_key app1 = application_key app"
  by (auto simp: change_agreement_def add_agreement_def current_position_def application_key_def
      split: option.splits if_splits)

lemma agreement_processes_told:
  assumes "find_application (scClientRef c) (scCode c) s = Some app"
    and "h \<in> {add_agreement_use_case, accept_agreement_use_case, cancel_agreement_use_case,
      apply_agreement_termination_use_case, withdraw_agreement_use_case}"
    and "h env c s = (Inr (), t)"
  shows "\<exists>app'. told c s t app' [get_fully_qualified_status app'] \<and> current_position app' = current_position app"
proof -
  have "h = add_agreement_use_case \<or> h = accept_agreement_use_case \<or> h = cancel_agreement_use_case
      \<or> h = apply_agreement_termination_use_case \<or> h = withdraw_agreement_use_case"
    using assms(2) by blast
  then show ?thesis
    using assms(1,3)
    unfolding add_agreement_use_case_def accept_agreement_use_case_def cancel_agreement_use_case_def
      apply_agreement_termination_use_case_def withdraw_agreement_use_case_def
      accept_agreement_def cancel_agreement_def terminate_agreement_def
    by (elim disjE; clarify; elim agreement_run_told;
        auto simp: current_position_def application_key_def split: option.splits dest: change_agreement_same)
qed

lemma create_agreement_told:
  assumes "find_application (scClientRef c) (scCode c) s = Some app"
    and "create_agreement_use_case env c s = (Inr (), t)"
  shows "told c s t app []"
  using assms
  by (auto simp: create_agreement_use_case_def Let_def with_audit_ok andThen_Inr loaded_ok save_grant_events_def
      told_def)

lemma request_told:
  assumes "find_application (scClientRef c) (scCode c) s = Some app"
    and "request_agreement_status env c st a s = (Inr x, t)"
  shows "told c s t app []"
  using assms
  by (auto simp: request_agreement_status_def Let_def andThen_Inr save_grant_events_def told_def ret_def
      split: option.splits)

lemma audited_told:
  assumes "with_audit v f b s = (Inr x, t)"
    and "\<And>u. f s = (Inr x, u) \<Longrightarrow> told c s u app []"
  shows "told c s t app []"
  using assms unfolding with_audit_ok
  by (fastforce simp: told_def case_updates_def split: option.splits)

lemma requests_told:
  assumes "find_application (scClientRef c) (scCode c) s = Some app"
  shows "ignored (request_agreement_cancellation_use_case env c) s = (Inr (), t) \<Longrightarrow> told c s t app []"
    and "ignored (request_agreement_termination_use_case env c) s = (Inr (), t) \<Longrightarrow> told c s t app []"
proof -
  assume "ignored (request_agreement_cancellation_use_case env c) s = (Inr (), t)"
  then obtain x where "request_agreement_cancellation_use_case env c s = (Inr x, t)"
    by (auto simp: ignored_def andThen_Inr ret_def)
  then show "told c s t app []"
    unfolding request_agreement_cancellation_use_case_def
    by (rule audited_told) (use assms request_told in \<open>auto\<close>)
next
  assume "ignored (request_agreement_termination_use_case env c) s = (Inr (), t)"
  then obtain x where "request_agreement_termination_use_case env c s = (Inr x, t)"
    by (auto simp: ignored_def andThen_Inr ret_def)
  then show "told c s t app []"
    unfolding request_agreement_termination_use_case_def
    by (rule audited_told) (use assms request_told in \<open>auto simp: andThen_Inr loaded_ok\<close>)
qed

lemma withdrawal_told:
  assumes "find_application (scClientRef c) (scCode c) s = Some app"
    and "withdraw_application_use_case env c s = (Inr (), t)"
  shows "if get_active_agreement app = None
    then \<exists>app'. told c s t app' [get_fully_qualified_status app']
      \<and> current_position app' = (current_position app)\<lparr>posStatus := ''APPLICATION_WITHDRAWN''\<rparr>
    else \<exists>app'. told c s t app' [] \<and> current_position app' = current_position app"
proof (cases "get_active_agreement app")
  case (Some a)
  then show ?thesis using assms
    by (auto simp: withdraw_application_use_case_def Let_def with_audit_ok andThen_Inr loaded_ok
        save_grant_events_def told_def)
next
  case None
  let ?app1 = "withdraw (evNow env) app"
  have key: "apClientRef ?app1 = scClientRef c" "apCode ?app1 = scCode c"
    using find_application_key [OF assms(1)] by (simp_all add: withdraw_def)
  obtain u where u: "update_application ?app1 s = (Inr (), u)"
    and t: "\<exists>a. dbOutbox t = dbOutbox u @ a \<and> case_updates a = [get_fully_qualified_status ?app1]"
      "find_application (scClientRef c) (scCode c) t = find_application (scClientRef c) (scCode c) u"
    using assms None
    by (auto simp: withdraw_application_use_case_def Let_def with_audit_ok andThen_Inr loaded_ok
        save_grant_events_def update_case_status_command_def application_status_updated_event_def)
  have "told c s t ?app1 [get_fully_qualified_status ?app1]"
    using t update_application_stores [OF u] key by (simp add: told_def)
  moreover have "current_position ?app1 = (current_position app)\<lparr>posStatus := ''APPLICATION_WITHDRAWN''\<rparr>"
    by (simp add: withdraw_def current_position_def)
  ultimately show ?thesis using None by auto
qed

lemma process_told:
  assumes "g \<in> set grant_processes" and "gpHandle g env c s = (Inr (), t)"
    and "find_application (scClientRef c) (scCode c) s = Some app"
  shows "\<exists>app'. told c s t app'
      (if gpTellsCw g \<and> (gpOnlyWhen g = None \<or> get_active_agreement app = None)
       then [get_fully_qualified_status app'] else [])
    \<and> current_position app' =
        (case gpSetsStatus g of
           Some st \<Rightarrow> if get_active_agreement app = None then (current_position app)\<lparr>posStatus := st\<rparr>
                       else current_position app
         | None \<Rightarrow> current_position app)"
  using assms(1)
    agreement_processes_told [OF assms(3), of "gpHandle g" env t] create_agreement_told [OF assms(3), of env t]
    requests_told [OF assms(3), of env t] withdrawal_told [OF assms(3), of env t] assms(2)
  unfolding grant_processes_def plain_process_def
  by (auto split: if_splits) blast


section \<open>What a status change publishes\<close>

lemma persist_ok:
  assumes "persist_resolved_version app v s = (Inr app', t)"
  shows "dbOutbox t = dbOutbox s \<and> dbApplications t = dbApplications s
    \<and> (\<exists>ws. dbOutside t = dbOutside s @ ws \<and> (\<forall>w\<in>set ws. \<exists>x. w = OutsideVersion (apClientRef app) (apCode app) x))"
  using assms
  by (auto simp: persist_resolved_version_def andThen_run ret_def split: option.splits list.splits if_splits)

lemma settle_versions:
  assumes "\<forall>w\<in>set ws. \<exists>r g x. w = OutsideVersion r g x"
  shows "dbOutbox (settle_outside ws s) = dbOutbox s"
proof -
  have "concat (map (\<lambda>w. case w of OutsideAudit a \<Rightarrow> [Audit a FAILURE] | _ \<Rightarrow> []) ws) = []"
    using assms by (induction ws) auto
  then show ?thesis by (simp add: settle_outside_outbox)
qed

lemma confined_again: "confined c s0 s \<Longrightarrow> confined c s s"
  by (simp add: confined_def)

lemma grows_from:
  assumes "confined c s0 s" and "keeps (confined c s) m" and "m s = (r, t)"
  shows "\<exists>added. dbOutbox t = dbOutbox s @ added"
  using keepsD [OF assms(2) confined_again [OF assms(1)]] assms(3) unfolding confined_def by auto

text \<open>A transition that succeeds publishes its event and its audit before anything else.\<close>

lemma transition_outcome:
  assumes "transition_application env app g target c publish s = (Inr (), t)"
    and "confined c s0 s" and "application_wf app" and "application_key app = (scClientRef c, scCode c)"
  shows "if position_to_string target = get_fully_qualified_status app then t = s
    else trValid (is_valid_transition g target (get_fully_qualified_status app))
      \<and> (\<exists>rest. dbOutbox t = dbOutbox s @
          [Message (application_status_updated_event (scClientRef c) (scCode c) (apCurrentConfigVersion app)
             (get_fully_qualified_status app) (position_to_string target)) (evStatusUpdatedTopic env),
           Audit (status_transition_audit (scClientRef c) (scCode c) (get_fully_qualified_status app)
             (position_to_string target)) SUCCESS] @ rest)"
proof -
  obtain app1 m where m: "move_to (evNow env) target g app = Inr (app1, m)"
    and run: "(if \<not> mvChanged m then ret ()
      else andThen (update_application app1) (\<lambda>_.
       andThen (create_status_transition_update env (apClientRef app) (apCode app)
         (apCurrentConfigVersion app) (mvPrevious m) (mvNew m)) (\<lambda>_.
       andThen (publish_case_working_update env publish app1 (current_position app) (mvNew m)) (\<lambda>_.
       run_transition_processes env (mvProcesses m) c)))) s = (Inr (), t)"
    using assms(1) by (auto simp: transition_application_def andThen_Inr split: prod.splits)
  note mv = move_to_ok [OF m]
  show ?thesis
  proof (cases "mvChanged m")
    case False
    then show ?thesis using run mv(1) by (simp add: ret_def get_fully_qualified_status_position)
  next
    case True
    have key: "application_wf app1" "application_key app1 = (scClientRef c, scCode c)"
      using move_to_wf [OF assms(3) m] mv(5,6) assms(4) by (simp_all add: application_key_def)
    obtain s1 s2 s3 where s1: "update_application app1 s = (Inr (), s1)"
      and s2: "create_status_transition_update env (apClientRef app) (apCode app)
         (apCurrentConfigVersion app) (mvPrevious m) (mvNew m) s1 = (Inr (), s2)"
      and s3: "publish_case_working_update env publish app1 (current_position app) (mvNew m) s2 = (Inr (), s3)"
      and t: "run_transition_processes env (mvProcesses m) c s3 = (Inr (), t)"
      using run True by (auto simp: andThen_Inr)
    have neq: "position_to_string target \<noteq> get_fully_qualified_status app"
      and ok: "trValid (is_valid_transition g target (get_fully_qualified_status app))"
      using mv(1) True by (simp_all add: get_fully_qualified_status_position)
    have c1: "confined c s0 s1"
      using keepsD [OF confined_update_application [OF key] assms(2)] s1 by simp
    have a: "dbOutbox s2 = dbOutbox s1 @
        [Message (application_status_updated_event (scClientRef c) (scCode c) (apCurrentConfigVersion app)
           (get_fully_qualified_status app) (position_to_string target)) (evStatusUpdatedTopic env),
         Audit (status_transition_audit (scClientRef c) (scCode c) (get_fully_qualified_status app)
           (position_to_string target)) SUCCESS]"
      using s2 mv(2,3) neq assms(4)
      by (auto simp: create_status_transition_update_def with_audit_ok save_grant_events_def application_key_def
          get_fully_qualified_status_position)
    have c2: "confined c s0 s2"
      using s2 c1 keepsD [of "confined c s0" "create_status_transition_update env (apClientRef app) (apCode app)
         (apCurrentConfigVersion app) (mvPrevious m) (mvNew m)" s1]
      by (auto simp: create_status_transition_update_def intro!: confined_with_audit confined_writes split: if_splits)
    have k: "keeps (confined c u) (publish_case_working_update env publish app1 (current_position app) (mvNew m))" for u
      by (auto simp: publish_case_working_update_def intro!: confined_writes)
    obtain x where x: "dbOutbox s3 = dbOutbox s2 @ x" using grows_from [OF c2 k s3] by blast
    have c3: "confined c s0 s3" using keepsD [OF k c2] s3 by simp
    obtain y where y: "dbOutbox t = dbOutbox s3 @ y"
      using grows_from [OF c3 run_processes_confined t] by blast
    have "dbOutbox s1 = dbOutbox s" using update_application_stores [OF s1] by simp
    then show ?thesis using neq ok a x y by auto
  qed
qed

text \<open>What a status change from outside comes to, in the application it was sent to.\<close>

lemma external_outcome:
  assumes "db_ok db" and "apply_external_state_change env c db = (Inr (), db')"
    and "find_application (scClientRef c) (scCode c) db = Some app" and "evResolve env app = Inr (g, v)"
  shows "if \<not> has_external_status_mapping g (scRequestedState c) (scSourceSystem c)
            (apCurrentPhase app) (apCurrentStage app)
    then dbOutbox db' = dbOutbox db \<and> map unversioned (dbApplications db') = map unversioned (dbApplications db)
    else \<exists>target. map_external_state g (apCurrentPhase app) (apCurrentStage app) (scRequestedState c)
          (scSourceSystem c) = Some target
      \<and> (if position_to_string target = get_fully_qualified_status app
         then dbOutbox db' = dbOutbox db \<and> map unversioned (dbApplications db') = map unversioned (dbApplications db)
         else trValid (is_valid_transition g target (get_fully_qualified_status app))
           \<and> (\<exists>version rest. dbOutbox db' = dbOutbox db @
                [Message (application_status_updated_event (scClientRef c) (scCode c) version
                   (get_fully_qualified_status app) (position_to_string target)) (evStatusUpdatedTopic env),
                 Audit (status_transition_audit (scClientRef c) (scCode c) (get_fully_qualified_status app)
                   (position_to_string target)) SUCCESS] @ rest))"
proof -
  let ?s = "db\<lparr>dbOutside := []\<rparr>"
  have found: "find_application (scClientRef c) (scCode c) ?s = Some app"
    using assms(3) by (simp add: find_application_def)
  obtain app1 s1 t where p: "persist_resolved_version app v ?s = (Inr app1, s1)"
    and run: "(if \<not> has_external_status_mapping g (scRequestedState c) (scSourceSystem c)
                 (apCurrentPhase app1) (apCurrentStage app1) then ret ()
      else andThen (process_state_transition env app1 g c) (\<lambda>done. if done then ret ()
        else throw (JsError (''Unable to process state change from ''
            @ get_fully_qualified_status app1 @ '' to '' @ scRequestedState c)))) s1 = (Inr (), t)"
    and db': "db' = settle_outside (dbOutside t) t"
    using assms(2,4) found
    unfolding apply_external_state_change_def with_transaction_ok by (auto simp: andThen_Inr)
  note pv = persist_ok [OF p] and val = persist_value [OF p]
  have key: "application_key app1 = (scClientRef c, scCode c)"
    using val find_application_key [OF assms(3)] by (simp add: application_key_def)
  have wf: "application_wf app1" using val find_application_wf [OF assms(1,3)] by simp
  have pos: "apCurrentPhase app1 = apCurrentPhase app" "apCurrentStage app1 = apCurrentStage app"
    "get_fully_qualified_status app1 = get_fully_qualified_status app"
    using val by (simp_all add: current_position_def get_fully_qualified_status_def)
  have ws: "\<forall>w\<in>set (dbOutside s1). \<exists>r g x. w = OutsideVersion r g x" using pv by auto
  have same: "dbOutbox db' = dbOutbox db \<and> map unversioned (dbApplications db') = map unversioned (dbApplications db)"
    if "t = s1"
    unfolding db' that settle_outside_applications settle_versions [OF ws] using pv by simp
  show ?thesis
  proof (cases "has_external_status_mapping g (scRequestedState c) (scSourceSystem c)
                 (apCurrentPhase app) (apCurrentStage app)")
    case False
    then show ?thesis using run same by (simp add: pos ret_def)
  next
    case True
    then obtain target where target: "map_external_state g (apCurrentPhase app) (apCurrentStage app)
        (scRequestedState c) (scSourceSystem c) = Some target"
      and tr: "transition_application env app1 g target c False s1 = (Inr (), t)"
      using run unfolding process_state_transition_def
      by (auto simp: andThen_Inr pos ret_def throw_def split: option.splits if_splits)
    have c1: "confined c ?s s1"
      using keepsD [OF persist_confined [of app c ?s v], of ?s] p confined_again [OF confined_start [OF assms(1)]]
        find_application_key [OF assms(3)] by (simp add: application_key_def)
    have out: "\<exists>more. dbOutbox db' = dbOutbox t @ more" unfolding db' settle_outside_outbox by simp
    show ?thesis
      using transition_outcome [OF tr c1 wf key] target True same out pv pos
      by (auto split: if_splits)
  qed
qed

end
