(* ===== verification/TransitionProperties.thy ===== *)
theory TransitionProperties
  imports CoreProperties TransitionEffects
begin

text \<open>
  The properties of moving an application, each with a concrete instance on the sample grant: an
  application that has been received and a Caseworking message that puts it in review.
\<close>

section \<open>Samples\<close>

definition sample_env :: "unit env" where
  "sample_env = \<lparr>evNow = ''t1'', evUpdateCaseStatusTopic = ''cw'', evStatusUpdatedTopic = ''status'',
     evCreateAgreementTopic = ''create'', evUpdateAgreementTopic = ''update'',
     evHandlesCreate = (\<lambda>_. Inr False), evHandlesStatus = (\<lambda>_. Inr True), evValidAudit = (\<lambda>_. True),
     evResolve = (\<lambda>_. Inr (sample_grant, Some ''1.0.0''))\<rparr>"

definition sample_db :: grants_db where
  "sample_db = \<lparr>dbApplications = [sample_application], dbSeries = [sample_series], dbEntitlements = [], dbClaims = [],
     dbOutbox = [], dbOutside = []\<rparr>"

definition sample_command :: state_command where
  "sample_command = \<lparr>scSourceSystem = ''CW'', scClientRef = ''ref-1'', scCode = ''wood'',
     scRequestedState = ''in-review'', scEventData = None\<rparr>"

lemma sample_db_ok: "db_ok sample_db"
  by (simp add: db_ok_def sample_db_def application_wf_def sample_application_def)

lemma sample_found: "find_application (scClientRef sample_command) (scCode sample_command) sample_db = Some sample_application"
  by (simp add: find_application_def same_application_def sample_command_def sample_db_def sample_application_def)

section \<open>A status change from another service\<close>



text \<open>
  C35. Whether it succeeds or not, a status change only touches the application it names: any other
  is found as it was, the series stay, the outbox only grows, and the applications stay well filed
  and one for each reference and grant.
\<close>

theorem status_change_confined:
  assumes "db_ok db" and "apply_external_state_change env c db = (r, db')"
    and "(ref, code) \<noteq> (scClientRef c, scCode c)"
  shows "db_ok db' \<and> find_application ref code db' = find_application ref code db
    \<and> dbSeries db' = dbSeries db \<and> (\<exists>added. dbOutbox db' = dbOutbox db @ added)"
proof -
  have "confined c db db'" using external_change_confined [OF assms(1), of c env] assms(2) by simp
  then show ?thesis using confined_others [OF _ assms(3)] by (simp add: confined_def)
qed

theorem status_change_confined_witness:
  "find_application ''ref-2'' ''wood'' (snd (apply_external_state_change sample_env sample_command sample_db)) = None"
proof -
  have "(''ref-2'', ''wood'') \<noteq> (scClientRef sample_command, scCode sample_command)"
    by (simp add: sample_command_def)
  from status_change_confined [OF sample_db_ok prod.collapse [symmetric] this, of sample_env]
  have "find_application ''ref-2'' ''wood'' (snd (apply_external_state_change sample_env sample_command sample_db))
    = find_application ''ref-2'' ''wood'' sample_db" by blast
  then show ?thesis
    by (simp add: find_application_def same_application_def sample_db_def sample_application_def)
qed



text \<open>
  C34. What the registry declares of a process is what it does: after a process succeeds,
  Caseworking is told the application's status exactly once when the process is declared to tell
  it, and otherwise not at all; the application's status is the one the process is declared to set,
  or unchanged. A process declared to do so only when no agreement is on offer does neither when
  one is.
\<close>

theorem process_effects_hold:
  assumes "g \<in> set grant_processes" and "gpHandle g env c s = (Inr (), t)"
    and "find_application (scClientRef c) (scCode c) s = Some app"
  shows "\<exists>app' added. find_application (scClientRef c) (scCode c) t = Some app'
    \<and> dbOutbox t = dbOutbox s @ added
    \<and> case_updates added = (if gpTellsCw g \<and> (gpOnlyWhen g = None \<or> get_active_agreement app = None)
        then [get_fully_qualified_status app'] else [])
    \<and> current_position app' =
        (case gpSetsStatus g of
           Some st \<Rightarrow> if get_active_agreement app = None then (current_position app)\<lparr>posStatus := st\<rparr>
                       else current_position app
         | None \<Rightarrow> current_position app)"
  using process_told [OF assms] unfolding told_def by blast

theorem process_effects_hold_witness:
  "\<exists>app'. find_application ''ref-1'' ''wood'' (snd (withdraw_application_use_case sample_env sample_command sample_db)) = Some app'
    \<and> apCurrentStatus app' = ''APPLICATION_WITHDRAWN''"
proof -
  let ?g = "(plain_process ''REQUEST_APPLICATION_WITHDRAWAL'' withdraw_application_use_case)
        \<lparr>gpSetsStatus := Some ''APPLICATION_WITHDRAWN'', gpTellsCw := True,
         gpOnlyWhen := Some ''no agreement is on offer''\<rparr> :: unit grant_process"
  have g: "?g \<in> set grant_processes" by (simp add: grant_processes_def)
  have "fst (withdraw_application_use_case sample_env sample_command sample_db) = Inr ()" by code_simp
  then have run: "gpHandle ?g sample_env sample_command sample_db
      = (Inr (), snd (withdraw_application_use_case sample_env sample_command sample_db))"
    by (simp add: plain_process_def prod_eq_iff)
  have "get_active_agreement sample_application = None"
    by (simp add: get_active_agreement_def sample_application_def)
  then show ?thesis
    using process_effects_hold [OF g run sample_found]
    by (auto simp: plain_process_def current_position_def sample_command_def)
qed

end
