(* ===== verification/Submission.thy ===== *)
theory Submission
  imports TransitionEffects
begin

text \<open>
  Submitting an application and replacing one that was submitted
  (\<open>src/grants/use-cases/create-application.use-case.js\<close>, \<open>submit-application.use-case.js\<close>,
  \<open>replace-application.use-case.js\<close>, \<open>find-application-by-client-ref-and-code.use-case.js\<close>,
  \<open>get-application-status.use-case.js\<close>). The metadata of a submission are the entries of its object.
  Given by the environment: the resolution of a grant, the validation of answers (Ajv), and the ids
  the database gives to what is inserted. The search references kept on an application are derived
  data that nothing here reads, so \<open>linkSeries\<close>, which only writes them, is left out.
\<close>

section \<open>The environment\<close>

record 'q submit_env =
  smEnv :: "'q env"
  smResolve :: "string \<Rightarrow> string option \<Rightarrow> ('q grant option \<times> string option) res"
  smCreatedTopic :: string
  smCaseTopic :: string
  smValidateAnswers :: "string \<Rightarrow> 'q option \<Rightarrow> (string \<times> json) list \<Rightarrow> (string \<times> json) list res"
  smNewId :: "grants_db \<Rightarrow> string"
  smApplicationMessages :: "application \<Rightarrow> string"
  smSeriesMessages :: "series \<Rightarrow> string"

record submission =
  sbMetadata :: "(string \<times> json) list"
  sbAnswers :: "(string \<times> json) list"

definition metadata_text :: "string \<Rightarrow> submission \<Rightarrow> string" where
  "metadata_text k sub = (case text_entry k (sbMetadata sub) of None \<Rightarrow> [] | Some s \<Rightarrow> s)"

definition known_metadata :: "string list" where
  "known_metadata = [''configVersion'', ''clientRef'', ''submittedAt'', ''sbi'', ''frn'', ''crn'']"

definition extra_metadata :: "submission \<Rightarrow> (string \<times> json) list" where
  "extra_metadata sub = filter (\<lambda>(k, _). k \<notin> set known_metadata) (sbMetadata sub)"

definition submitted_identifiers :: "submission \<Rightarrow> (string \<times> json) list" where
  "submitted_identifiers sub = filter (\<lambda>(k, _). k \<in> {''sbi'', ''frn'', ''crn''}) (sbMetadata sub)"

section \<open>Creating\<close>

definition create_application_use_case ::
  "'q submit_env \<Rightarrow> string \<Rightarrow> submission \<Rightarrow> (grants_db, string) action" where
  "create_application_use_case env code sub =
     (let clientRef = metadata_text ''clientRef'' sub in
      andThen (lift_res (smResolve env code (text_entry ''configVersion'' (sbMetadata sub)))) (\<lambda>(found, resolvedVersion).
      andThen (lift_res (case found of None \<Rightarrow> Inl TypeError | Some g \<Rightarrow> get_initial_state g)) (\<lambda>(phase, stage, first_status).
      andThen (lift_res (case first_status of None \<Rightarrow> Inl TypeError | Some s \<Rightarrow> Inr s)) (\<lambda>status.
      andThen (lift_res (smValidateAnswers env clientRef (phQuestions phase) (sbAnswers sub))) (\<lambda>answers.
      andThen (lift_res (application_new (smApplicationMessages env) (evNow (smEnv env))
        \<lparr>naCurrentPhase = phCode phase, naCurrentStage = tgCode stage, naCurrentStatus = sdCode status,
         naClientRef = clientRef, naCode = code, naConfigVersion = resolvedVersion,
         naSubmittedAt = text_entry ''submittedAt'' (sbMetadata sub),
         naIdentifiers = submitted_identifiers sub, naMetadata = extra_metadata sub,
         naPhases = [\<lparr>aphCode = phCode phase, aphAnswers = Some answers\<rparr>]\<rparr>)) (\<lambda>app.
      andThen (reads (smNewId env)) (\<lambda>applicationID.
      andThen (save_application app) (\<lambda>_.
      andThen (save_grant_events [(application_created_event app, smCreatedTopic env),
                                  (create_new_case_command app, smCaseTopic env)]) (\<lambda>_.
      ret applicationID)))))))))"

section \<open>Submitting\<close>

definition submission_segregation :: "submission \<Rightarrow> string" where
  "submission_segregation sub = ''submission-'' @ metadata_text ''clientRef'' sub"

definition audited_identifiers :: "submission \<Rightarrow> (string \<times> json) list" where
  "audited_identifiers sub = concat (map (\<lambda>k. case map_of (sbMetadata sub) k of None \<Rightarrow> [] | Some v \<Rightarrow> [(k, v)])
     [''sbi'', ''frn'', ''crn''])"

definition submit_audit :: "string \<Rightarrow> submission \<Rightarrow> audit" where
  "submit_audit code sub =
     \<lparr>auEntity = ''APPLICATION'', auAction = ''SUBMIT_APPLICATION'', auEntityId = metadata_text ''clientRef'' sub,
      auDetails = [(''clientRef'', JStr (metadata_text ''clientRef'' sub)), (''code'', JStr code)] @ audited_identifiers sub,
      auSegregationRef = submission_segregation sub\<rparr>"

definition submit_application :: "'q submit_env \<Rightarrow> string \<Rightarrow> submission \<Rightarrow> (grants_db, string) action" where
  "submit_application env code sub =
     andThen (create_application_use_case env code sub) (\<lambda>applicationID.
     andThen (lift_res (series_new (smSeriesMessages env) (evNow (smEnv env)) code applicationID
       (metadata_text ''clientRef'' sub))) (\<lambda>s db.
     andThen (save_series (smNewId env db) s) (\<lambda>_. ret applicationID) db))"

definition submit_application_use_case :: "'q submit_env \<Rightarrow> string \<Rightarrow> submission \<Rightarrow> (grants_db, unit) action" where
  "submit_application_use_case env code sub =
     with_transaction (andThen (with_audit (evValidAudit (smEnv env)) (submit_application env code sub)
       (\<lambda>_. Inr (Some (submit_audit code sub)))) (\<lambda>_. ret ()))"

section \<open>Replacing\<close>

definition application_missing :: "string \<Rightarrow> string \<Rightarrow> js_error" where
  "application_missing clientRef code = Boom NotFound (''Application with clientRef '' @ quoted clientRef
     @ '' and code '' @ quoted code @ '' not found'') []"

definition find_application_by_client_ref_and_code ::
  "string \<Rightarrow> string \<Rightarrow> (grants_db, application) action" where
  "find_application_by_client_ref_and_code clientRef code = (\<lambda>db.
     (case find_application clientRef code db of
        None \<Rightarrow> Inl (application_missing clientRef code) | Some a \<Rightarrow> Inr a, db))"

definition replacement_refused :: "string \<Rightarrow> string \<Rightarrow> js_error" where
  "replacement_refused previousClientRef clientRef =
     Boom Conflict (''Can not replace existing Application with clientRef: '' @ previousClientRef
       @ '' with new clientRef: '' @ clientRef @ '' - replacement is not allowed'') []"

definition replace_application :: "'q submit_env \<Rightarrow> string \<Rightarrow> submission \<Rightarrow> (grants_db, string) action" where
  "replace_application env code sub =
     (let clientRef = metadata_text ''clientRef'' sub;
          previousClientRef = metadata_text ''previousClientRef'' sub in
      andThen (find_application_by_client_ref_and_code previousClientRef code) (\<lambda>previous.
      andThen (lift_res (evResolve (smEnv env) previous)) (\<lambda>(g, resolvedVersion).
      andThen (persist_resolved_version previous resolvedVersion) (\<lambda>previousAppl.
      if is_replacement_allowed (grAmendablePositions g) previousAppl
      then andThen (create_application_use_case env code sub) (\<lambda>applicationID.
           andThen (find_series (smSeriesMessages env) previousClientRef code) (\<lambda>s.
           andThen (lift_res (add_client_ref (evNow (smEnv env)) clientRef applicationID s)) (\<lambda>s1.
           andThen (update_series s1) (\<lambda>_.
           ret applicationID))))
      else throw (replacement_refused previousClientRef clientRef)))))"

definition replace_audit :: "string \<Rightarrow> submission \<Rightarrow> audit" where
  "replace_audit code sub =
     \<lparr>auEntity = ''APPLICATION'', auAction = ''REPLACE_APPLICATION'', auEntityId = metadata_text ''clientRef'' sub,
      auDetails = [(''newApplication'', JObj [(''metadata'', JObj (sbMetadata sub)), (''answers'', JObj (sbAnswers sub))]),
        (''code'', JStr code)] @ audited_identifiers sub,
      auSegregationRef = submission_segregation sub\<rparr>"

definition replace_application_use_case :: "'q submit_env \<Rightarrow> string \<Rightarrow> submission \<Rightarrow> (grants_db, unit) action" where
  "replace_application_use_case env code sub =
     with_transaction (andThen (with_audit (evValidAudit (smEnv env)) (replace_application env code sub)
       (\<lambda>_. Inr (Some (replace_audit code sub)))) (\<lambda>_. ret ()))"

section \<open>Reading the status\<close>

record application_status =
  asPhase :: string
  asStage :: string
  asStatus :: string
  asClientRef :: string
  asGrantCode :: string
  asOriginalConfigVersion :: "string option"
  asCurrentConfigVersion :: "string option"

text \<open>There is no transaction here, so the version is pinned at once.\<close>

definition get_application_status ::
  "'q env \<Rightarrow> string \<Rightarrow> string \<Rightarrow> (grants_db, application_status) action" where
  "get_application_status env code clientRef = (\<lambda>db.
     case andThen (find_application_by_client_ref_and_code clientRef code) (\<lambda>app.
          andThen (lift_res (evResolve env app)) (\<lambda>(g, resolvedVersion).
          andThen (persist_resolved_version app resolvedVersion) (\<lambda>app1.
          ret \<lparr>asPhase = apCurrentPhase app, asStage = apCurrentStage app, asStatus = apCurrentStatus app,
               asClientRef = clientRef, asGrantCode = code,
               asOriginalConfigVersion = apOriginalConfigVersion app,
               asCurrentConfigVersion = apCurrentConfigVersion app1\<rparr>))) (db\<lparr>dbOutside := []\<rparr>) of
       (r, t) \<Rightarrow> (r, settle_outside (dbOutside t) t))"

section \<open>Applications and series\<close>

text \<open>
  Every application is in one series, by its reference, and a series names the latest of its
  references. What a submission or a replacement leaves is held to this.
\<close>

definition series_refs :: "series \<Rightarrow> (string \<times> string) list" where
  "series_refs s = map (\<lambda>r. (r, seCode s)) (seClientRefs s)"

definition series_ok :: "grants_db \<Rightarrow> bool" where
  "series_ok db \<longleftrightarrow> db_ok db
     \<and> distinct (map seId (dbSeries db)) \<and> None \<notin> set (map seId (dbSeries db))
     \<and> (\<forall>s\<in>set (dbSeries db). series_wf s)
     \<and> distinct (concat (map series_refs (dbSeries db)))
     \<and> set (concat (map series_refs (dbSeries db))) = application_key ` set (dbApplications db)"

lemma application_new_fields:
  assumes "application_new jm now p = Inr app"
  shows "application_key app = (naClientRef p, naCode p)" and "application_wf app"
    and "current_position app = \<lparr>posPhase = naCurrentPhase p, posStage = naCurrentStage p, posStatus = naCurrentStatus p\<rparr>"
    and "apOriginalConfigVersion app = naConfigVersion p" and "apCurrentConfigVersion app = naConfigVersion p"
proof -
  have e: "or_else v None = v" for v :: "string option" by (cases v) simp_all
  show "application_key app = (naClientRef p, naCode p)"
    "current_position app = \<lparr>posPhase = naCurrentPhase p, posStage = naCurrentStage p, posStatus = naCurrentStatus p\<rparr>"
    "apOriginalConfigVersion app = naConfigVersion p" "apCurrentConfigVersion app = naConfigVersion p"
    using assms e
    by (auto simp: application_new_def new_application_def application_key_def current_position_def split: if_splits)
  show "application_wf app" using assms by (rule application_new_wf)
qed

text \<open>What creating an application writes, and where the application starts.\<close>

lemma created_application:
  assumes "create_application_use_case env code sub s = (Inr i, t)"
  obtains app g v phase stage status where "find_application (metadata_text ''clientRef'' sub) code s = None"
    and "t = s\<lparr>dbApplications := dbApplications s @ [app],
            dbOutbox := dbOutbox s @ [Message (application_created_event app) (smCreatedTopic env),
              Message (create_new_case_command app) (smCaseTopic env)]\<rparr>"
    and "application_key app = (metadata_text ''clientRef'' sub, code)" and "application_wf app"
    and "smResolve env code (text_entry ''configVersion'' (sbMetadata sub)) = Inr (Some g, v)"
    and "get_initial_state g = Inr (phase, stage, Some status)"
    and "current_position app = \<lparr>posPhase = phCode phase, posStage = tgCode stage, posStatus = sdCode status\<rparr>"
    and "apOriginalConfigVersion app = v" and "apCurrentConfigVersion app = v" and "i = smNewId env s"
proof -
  obtain app g v phase stage status answers p where
    g: "smResolve env code (text_entry ''configVersion'' (sbMetadata sub)) = Inr (Some g, v)"
    and i: "get_initial_state g = Inr (phase, stage, Some status)"
    and new: "application_new (smApplicationMessages env) (evNow (smEnv env)) p = Inr app"
    and p: "p = \<lparr>naCurrentPhase = phCode phase, naCurrentStage = tgCode stage, naCurrentStatus = sdCode status,
         naClientRef = metadata_text ''clientRef'' sub, naCode = code, naConfigVersion = v,
         naSubmittedAt = text_entry ''submittedAt'' (sbMetadata sub),
         naIdentifiers = submitted_identifiers sub, naMetadata = extra_metadata sub,
         naPhases = [\<lparr>aphCode = phCode phase, aphAnswers = Some answers\<rparr>]\<rparr>"
    and fresh: "find_application (apClientRef app) (apCode app) s = None"
    and t: "t = s\<lparr>dbApplications := dbApplications s @ [app],
            dbOutbox := dbOutbox s @ [Message (application_created_event app) (smCreatedTopic env),
              Message (create_new_case_command app) (smCaseTopic env)]\<rparr>"
    and id: "i = smNewId env s"
    using assms
    by (auto simp: create_application_use_case_def Let_def ok_iff save_application_def save_grant_events_def
        split: if_splits option.splits)
  have "application_key app = (metadata_text ''clientRef'' sub, code)"
    using application_new_fields(1) [OF new] by (simp add: p)
  then have "find_application (metadata_text ''clientRef'' sub) code s = None"
    using fresh by (simp add: application_key_def)
  then show ?thesis
    using that g i t id application_new_fields [OF new] by (simp add: p)
qed

end
