(* ===== verification/SubmissionLaws.thy ===== *)
theory SubmissionLaws
  imports Submission
begin

text \<open>
  What submitting and replacing applications keep: each application stays in one series, and each
  series lists exactly applications there are.
\<close>

section \<open>Series\<close>

lemma db_ok_add:
  assumes "db_ok db" and "find_application ref code db = None" and "application_key app = (ref, code)"
    and "application_wf app"
  shows "db_ok (db\<lparr>dbApplications := dbApplications db @ [app], dbOutbox := ob\<rparr>)"
proof -
  have "(ref, code) \<notin> application_key ` set (dbApplications db)"
    using assms(2) by (auto simp: find_application_def find_None_iff same_application_def application_key_def)
  then show ?thesis using assms by (auto simp: db_ok_def)
qed

lemma find_series_ok:
  assumes "series_ok db" and "find_series jm ref code db = (Inr s, t)"
  shows "t = db \<and> s \<in> set (dbSeries db) \<and> seLatestClientRef s = ref \<and> seCode s = code"
proof -
  obtain d where f: "find (\<lambda>s. seLatestClientRef s = ref \<and> seCode s = code) (dbSeries db) = Some d"
    and s: "series_from_document jm d = Inr s" and t: "t = db"
    using assms(2)
    by (cases "find (\<lambda>s. seLatestClientRef s = ref \<and> seCode s = code) (dbSeries db)") (simp_all add: find_series_def)
  have d: "d \<in> set (dbSeries db)" "seLatestClientRef d = ref" "seCode d = code"
    using find_SomeD [OF f] by simp_all
  have "series_wf d" using assms(1) d(1) by (simp add: series_ok_def)
  moreover have "series_to_document d = d" by (simp add: series_to_document_def)
  ultimately have "s = d" using s series_roundtrip [of d jm] by simp
  then show ?thesis using d t by simp
qed

lemma settled_keys:
  "map application_key (dbApplications (settle_outside ws db)) = map application_key (dbApplications db)"
  "(\<forall>a\<in>set (dbApplications (settle_outside ws db)). application_wf a) \<longleftrightarrow> (\<forall>a\<in>set (dbApplications db). application_wf a)"
proof -
  have u: "map unversioned (dbApplications (settle_outside ws db)) = map unversioned (dbApplications db)"
    by (rule settle_outside_applications)
  have k: "application_key a = application_key (unversioned a)" "application_wf a = application_wf (unversioned a)" for a
    by (simp_all add: application_key_def unversioned_def application_wf_def)
  show "map application_key (dbApplications (settle_outside ws db)) = map application_key (dbApplications db)"
    using arg_cong [OF u, of "map application_key"] k(1) by (simp add: comp_def flip: k(1))
  show "(\<forall>a\<in>set (dbApplications (settle_outside ws db)). application_wf a) \<longleftrightarrow> (\<forall>a\<in>set (dbApplications db). application_wf a)"
    using arg_cong [OF u, of "\<lambda>as. \<forall>a\<in>set as. application_wf a"] by (simp flip: k(2))
qed

lemma db_ok_settle [simp]: "db_ok (settle_outside ws db) = db_ok db"
  by (simp add: db_ok_def settled_keys)

lemma series_ok_settle: "series_ok db \<Longrightarrow> series_ok (settle_outside ws db)"
  using arg_cong [OF settled_keys(1) [of ws db], of set] by (simp add: series_ok_def)

lemma one_series:
  assumes "series_ok db" and "x \<in> set (dbSeries db)" and "y \<in> set (dbSeries db)"
    and "k \<in> set (series_refs x)" and "k \<in> set (series_refs y)"
  shows "x = y"
proof -
  obtain xs ys where split: "dbSeries db = xs @ x # ys" using assms(2) by (meson split_list)
  have "distinct (concat (map series_refs (xs @ x # ys)))" using assms(1) by (simp add: series_ok_def split)
  then have "\<forall>z\<in>set xs \<union> set ys. k \<notin> set (series_refs z)" using assms(4) by auto
  then show ?thesis using assms(3,5) split by auto
qed

text \<open>A new application in a series of its own.\<close>

lemma series_ok_new:
  assumes "series_ok db" and "find_application ref code db = None" and "application_key app = (ref, code)"
    and "application_wf app" and "series_wf s" and "seClientRefs s = [ref]" and "seCode s = code"
    and "seId s = Some i" and "Some i \<notin> seId ` set (dbSeries db)"
  shows "series_ok (db\<lparr>dbApplications := dbApplications db @ [app], dbOutbox := ob, dbSeries := dbSeries db @ [s]\<rparr>)"
proof -
  have "(ref, code) \<notin> application_key ` set (dbApplications db)"
    using assms(2) by (auto simp: find_application_def find_None_iff same_application_def application_key_def)
  moreover have "series_refs s = [(ref, code)]" using assms(6,7) by (simp add: series_refs_def)
  ultimately show ?thesis
    using assms(1,3-5,8,9) db_ok_add [of db ref code app] assms(2)
    by (auto simp: series_ok_def db_ok_def)
qed

text \<open>A new application added to the series of the one it replaces.\<close>

lemma series_ok_replaced:
  assumes ok: "series_ok db" and new: "find_application ref code db = None"
    and app: "application_key app = (ref, code)" "application_wf app"
    and s: "s \<in> set (dbSeries db)" "seCode s = code"
    and s1: "add_client_ref now ref i s = Inr s1" and now: "now \<noteq> []"
  shows "series_ok (db\<lparr>dbApplications := dbApplications db @ [app], dbOutbox := ob,
      dbSeries := update_one (\<lambda>x. seId x = seId s1) (\<lambda>_. series_to_document s1) (dbSeries db)\<rparr>)"
proof -
  obtain xs ys where split: "dbSeries db = xs @ s # ys" using s(1) by (meson split_list)
  have wf: "series_wf s" and ids: "distinct (map seId (dbSeries db))" "None \<notin> set (map seId (dbSeries db))"
    and all: "\<forall>x\<in>set (dbSeries db). series_wf x"
    using ok s(1) by (auto simp: series_ok_def)
  have s1_fields: "seId s1 = seId s" "seCode s1 = code" "series_to_document s1 = s1"
    using s1 s(2) by (auto simp: add_client_ref_def series_to_document_def split: if_splits)
  have wf1: "series_wf s1" using add_client_ref_wf [OF wf now s1] .
  have up: "update_one (\<lambda>x. seId x = seId s1) (\<lambda>_. series_to_document s1) (dbSeries db) = xs @ s1 # ys"
  proof -
    have "\<forall>y\<in>set xs. seId y \<noteq> seId s" using ids(1) by (simp add: split) (metis image_eqI)
    then show ?thesis unfolding split s1_fields by (subst update_one_split) simp_all
  qed
  have fresh: "(ref, code) \<notin> application_key ` set (dbApplications db)"
    using new by (auto simp: find_application_def find_None_iff same_application_def application_key_def)
  then have "(ref, code) \<notin> set (series_refs s)"
    using ok s(1) by (fastforce simp: series_ok_def)
  then have "ref \<notin> set (seClientRefs s)" using s(2) by (auto simp: series_refs_def)
  then have "series_refs s1 = series_refs s @ [(ref, code)]"
    using s1 s(2) by (auto simp: add_client_ref_def series_refs_def set_add_def split: if_splits)
  moreover have "db_ok (db\<lparr>dbApplications := dbApplications db @ [app], dbOutbox := ob\<rparr>)"
    using ok new app by (intro db_ok_add) (simp_all add: series_ok_def)
  ultimately show ?thesis
    using ok fresh app wf1 s1_fields ids all split unfolding up series_ok_def
    by (auto simp: db_ok_def)
qed

section \<open>The use cases\<close>

text \<open>The ids the database gives are new.\<close>

definition fresh_ids :: "'q submit_env \<Rightarrow> bool" where
  "fresh_ids env \<longleftrightarrow> (\<forall>db. Some (smNewId env db) \<notin> seId ` set (dbSeries db))"

lemma series_ok_outbox [simp]: "series_ok (db\<lparr>dbOutbox := ob\<rparr>) = series_ok db"
  by (simp add: series_ok_def db_ok_def)

lemma series_ok_outside [simp]: "series_ok (db\<lparr>dbOutside := ws\<rparr>) = series_ok db"
  by (simp add: series_ok_def db_ok_def)

lemma find_application_outside [simp]: "find_application r g (db\<lparr>dbOutside := ws\<rparr>) = find_application r g db"
  by (simp add: find_application_def)

lemma created_series:
  assumes "create_application_use_case env code sub s = (Inr i, t)"
  shows "dbSeries t = dbSeries s"
proof -
  obtain app :: application where "t = s\<lparr>dbApplications := dbApplications s @ [app],
      dbOutbox := dbOutbox s @ [Message (application_created_event app) (smCreatedTopic env),
              Message (create_new_case_command app) (smCaseTopic env)]\<rparr>"
    using created_application [OF assms] by metis
  then show ?thesis by simp
qed

lemma submitted_series:
  assumes "submit_application env code sub s = (Inr i, t)" and "series_ok s" and "fresh_ids env"
  shows "series_ok t \<and> (\<exists>app. dbApplications t = dbApplications s @ [app])"
proof -
  obtain u ser where c: "create_application_use_case env code sub s = (Inr i, u)"
    and n: "series_new (smSeriesMessages env) (evNow (smEnv env)) code i (metadata_text ''clientRef'' sub) = Inr ser"
    and t: "t = u\<lparr>dbSeries := dbSeries u @ [(series_to_document ser)\<lparr>seId := Some (smNewId env u)\<rparr>]\<rparr>"
    using assms(1) by (auto simp: submit_application_def ok_iff save_series_def)
  obtain app where new: "find_application (metadata_text ''clientRef'' sub) code s = None"
    and u: "u = s\<lparr>dbApplications := dbApplications s @ [app],
            dbOutbox := dbOutbox s @ [Message (application_created_event app) (smCreatedTopic env),
              Message (create_new_case_command app) (smCaseTopic env)]\<rparr>"
    and app: "application_key app = (metadata_text ''clientRef'' sub, code)" "application_wf app"
    using created_application [OF c] by metis
  let ?doc = "(series_to_document ser)\<lparr>seId := Some (smNewId env u)\<rparr>"
  have "series_wf ser" using series_new_wf [OF n] .
  then have doc: "series_wf ?doc" by (simp add: series_wf_def series_to_document_def series_schema_def)
  have refs: "seClientRefs ?doc = [metadata_text ''clientRef'' sub]" "seCode ?doc = code"
    using n by (auto simp: series_new_def new_series_def series_to_document_def js_set_distinct split: if_splits)
  have "Some (smNewId env u) \<notin> seId ` set (dbSeries u)" using assms(3) by (simp add: fresh_ids_def)
  then have "Some (smNewId env u) \<notin> seId ` set (dbSeries s)" by (simp add: u)
  then have "series_ok t" unfolding t
    using series_ok_new [OF assms(2) new app doc refs, of "smNewId env u"] by (simp add: u)
  then show ?thesis by (simp add: t u)
qed

text \<open>What a replacement that returns did, step by step.\<close>

lemma replaced_steps:
  assumes "replace_application env code sub s = (Inr i, t)"
  obtains previous g v previous1 w u ser ser1
  where "find_application (metadata_text ''previousClientRef'' sub) code s = Some previous"
    and "evResolve (smEnv env) previous = Inr (g, v)"
    and "persist_resolved_version previous v s = (Inr previous1, w)"
    and "is_replacement_allowed (grAmendablePositions g) previous1"
    and "create_application_use_case env code sub w = (Inr i, u)"
    and "find_series (smSeriesMessages env) (metadata_text ''previousClientRef'' sub) code u = (Inr ser, u)"
    and "add_client_ref (evNow (smEnv env)) (metadata_text ''clientRef'' sub) i ser = Inr ser1"
    and "t = u\<lparr>dbSeries := update_one (\<lambda>x. seId x = seId ser1) (\<lambda>_. series_to_document ser1) (dbSeries u)\<rparr>"
proof -
  have same: "snd (find_series jm r c u) = u" for jm r c u by (simp add: find_series_def)
  obtain previous g v previous1 w u ser ser1 t0
  where 1: "find_application (metadata_text ''previousClientRef'' sub) code s = Some previous"
    and 2: "evResolve (smEnv env) previous = Inr (g, v)"
    and 3: "persist_resolved_version previous v s = (Inr previous1, w)"
    and 4: "is_replacement_allowed (grAmendablePositions g) previous1"
    and 5: "create_application_use_case env code sub w = (Inr i, u)"
    and 6: "find_series (smSeriesMessages env) (metadata_text ''previousClientRef'' sub) code u = (Inr ser, t0)"
    and 7: "add_client_ref (evNow (smEnv env)) (metadata_text ''clientRef'' sub) i ser = Inr ser1"
    and 8: "update_series ser1 t0 = (Inr (), t)"
    using assms
    by (auto simp: replace_application_def Let_def ok_iff find_application_by_client_ref_and_code_def
        split: if_splits option.splits)
  have "t0 = u" using same [of "smSeriesMessages env" "metadata_text ''previousClientRef'' sub" code u] 6 by simp
  then show ?thesis using that 1 2 3 4 5 6 7 8
    by (auto simp: update_series_def split: option.splits if_splits)
qed

lemma persist_series:
  assumes "persist_resolved_version a v s = (Inr b, t)"
  shows "\<exists>ws. t = s\<lparr>dbOutside := ws\<rparr>" and "current_position b = current_position a"
proof -
  show "\<exists>ws. t = s\<lparr>dbOutside := ws\<rparr>"
    using assms by (auto simp: persist_resolved_version_def andThen_Inr split: option.splits list.splits if_splits
        intro: exI [of _ "dbOutside s"])
  show "current_position b = current_position a"
    using assms by (auto simp: persist_resolved_version_def andThen_Inr current_position_def
        split: option.splits list.splits if_splits)
qed

lemma replaced_series:
  assumes run: "replace_application env code sub s = (Inr i, t)" and ok: "series_ok s"
    and now: "evNow (smEnv env) \<noteq> []"
  shows "series_ok t \<and> (\<exists>app. dbApplications t = dbApplications s @ [app])
    \<and> (\<exists>ser\<in>set (dbSeries t). seCode ser = code \<and> seLatestClientRef ser = metadata_text ''clientRef'' sub
          \<and> metadata_text ''previousClientRef'' sub \<in> set (seClientRefs ser))
    \<and> metadata_text ''previousClientRef'' sub \<noteq> metadata_text ''clientRef'' sub"
  using run
proof (rule replaced_steps)
  let ?new = "metadata_text ''clientRef'' sub" and ?old = "metadata_text ''previousClientRef'' sub"
  fix previous g v previous1 w u ser ser1
  assume prev: "find_application ?old code s = Some previous"
    and persist: "persist_resolved_version previous v s = (Inr previous1, w)"
    and c: "create_application_use_case env code sub w = (Inr i, u)"
    and f: "find_series (smSeriesMessages env) ?old code u = (Inr ser, u)"
    and ser1: "add_client_ref (evNow (smEnv env)) ?new i ser = Inr ser1"
    and t: "t = u\<lparr>dbSeries := update_one (\<lambda>x. seId x = seId ser1) (\<lambda>_. series_to_document ser1) (dbSeries u)\<rparr>"
  obtain ws where w: "w = s\<lparr>dbOutside := ws\<rparr>" using persist_series(1) [OF persist] by blast
  obtain app where new: "find_application ?new code w = None"
    and u: "u = w\<lparr>dbApplications := dbApplications w @ [app],
            dbOutbox := dbOutbox w @ [Message (application_created_event app) (smCreatedTopic env),
              Message (create_new_case_command app) (smCaseTopic env)]\<rparr>"
    and app: "application_key app = (?new, code)" "application_wf app"
    using created_application [OF c] by metis
  have wok: "series_ok w" using ok w by simp
  have "find_series (smSeriesMessages env) ?old code w = (Inr ser, w)"
    using f by (auto simp: find_series_def u split: option.splits)
  from find_series_ok [OF wok this]
  have ser: "ser \<in> set (dbSeries w)" "seLatestClientRef ser = ?old" "seCode ser = code" by auto
  have tok: "series_ok t"
    using series_ok_replaced [OF wok new app ser(1,3) ser1 now] by (simp add: t u)
  have "seId ser1 = seId ser" "seCode ser1 = code" "seLatestClientRef ser1 = ?new"
    "set (seClientRefs ser1) = insert ?new (set (seClientRefs ser))" "series_to_document ser1 = ser1"
    using ser1 ser(3) by (auto simp: add_client_ref_def set_add_def series_to_document_def split: if_splits)
  moreover have "?old \<in> set (seClientRefs ser)"
    using wok ser by (auto simp: series_ok_def series_wf_def)
  moreover have "ser1 \<in> set (dbSeries t)"
  proof -
    obtain xs ys where "dbSeries w = xs @ ser # ys" using ser(1) by (meson split_list)
    moreover have "list_ex (\<lambda>x. seId x = seId ser1) (dbSeries w)"
      using ser(1) calculation(1) \<open>seId ser1 = seId ser\<close> by (simp add: list_ex_iff)
    moreover have "list_ex p rows \<Longrightarrow> x \<in> set (update_one p (\<lambda>_. x) rows)" for p rows and x :: series
      by (induction rows) auto
    ultimately show ?thesis using \<open>series_to_document ser1 = ser1\<close> by (simp add: t u)
  qed
  moreover have "?old \<noteq> ?new" using prev new w by auto
  ultimately show ?thesis using tok by (auto simp: t u w)
qed

lemma submit_use_case_ok:
  assumes "submit_application_use_case env code sub db = (Inr x, db')"
  shows "\<exists>i t a. submit_application env code sub (db\<lparr>dbOutside := []\<rparr>) = (Inr i, t)
    \<and> db' = settle_outside (dbOutside t) (t\<lparr>dbOutbox := dbOutbox t @ [a]\<rparr>)"
  using assms unfolding submit_application_use_case_def with_transaction_ok by (auto simp: ok_iff)

lemma replace_use_case_ok:
  assumes "replace_application_use_case env code sub db = (Inr x, db')"
  shows "\<exists>i t a. replace_application env code sub (db\<lparr>dbOutside := []\<rparr>) = (Inr i, t)
    \<and> db' = settle_outside (dbOutside t) (t\<lparr>dbOutbox := dbOutbox t @ [a]\<rparr>)"
  using assms unfolding replace_application_use_case_def with_transaction_ok by (auto simp: ok_iff)

end
