(* ===== verification/SubmissionProperties.thy ===== *)
theory SubmissionProperties
  imports TransitionProperties SubmissionLaws
begin

text \<open>
  The properties of submitting and replacing applications, each on a database with one application
  and its series.
\<close>

section \<open>Samples\<close>

definition sample_filed :: grants_db where
  "sample_filed = sample_db\<lparr>dbSeries := [sample_series\<lparr>seId := Some ''s1''\<rparr>]\<rparr>"

text \<open>An id longer than every id there is.\<close>

definition sample_id :: "grants_db \<Rightarrow> string" where
  "sample_id db = concat (map (\<lambda>s. part_string (seId s)) (dbSeries db)) @ ''x''"

definition sample_submit :: "unit submit_env" where
  "sample_submit = \<lparr>smEnv = sample_env, smResolve = (\<lambda>_ _. Inr (Some sample_grant, Some ''1.0.0'')),
     smCreatedTopic = ''created'', smCaseTopic = ''case'', smValidateAnswers = (\<lambda>_ _ answers. Inr answers),
     smNewId = sample_id, smApplicationMessages = (\<lambda>_. ''invalid''), smSeriesMessages = (\<lambda>_. ''invalid'')\<rparr>"

definition sample_submission :: submission where
  "sample_submission = \<lparr>sbMetadata = [(''clientRef'', JStr ''ref-2''), (''previousClientRef'', JStr ''ref-1'')],
     sbAnswers = []\<rparr>"

lemma sample_filed_ok: "series_ok sample_filed"
  using sample_db_ok
  by (simp add: series_ok_def sample_filed_def db_ok_def sample_db_def series_wf_def series_schema_def
      sample_series_def series_refs_def sample_application_def application_key_def)

lemma sample_ids_fresh: "fresh_ids sample_submit"
proof -
  have len: "length (part_string (seId s)) < length (sample_id db)" if "s \<in> set (dbSeries db)" for s db
    using that member_le_sum_list [of "length (part_string (seId s))"
        "map (length \<circ> (\<lambda>s. part_string (seId s))) (dbSeries db)"]
    by (force simp: sample_id_def length_concat comp_def)
  have "Some (sample_id db) \<notin> seId ` set (dbSeries db)" for db
  proof (rule notI)
    assume "Some (sample_id db) \<in> seId ` set (dbSeries db)"
    then obtain s where "s \<in> set (dbSeries db)" "seId s = Some (sample_id db)" by auto
    then show False using len [of s db] by (simp add: part_string_def)
  qed
  then show ?thesis by (simp add: fresh_ids_def sample_submit_def)
qed

section \<open>Series\<close>

text \<open>
  C17. Whether they succeed or not, submitting and replacing applications keep every application in
  one series, by its reference, and every series to the references of applications there are, and
  take no application away.
\<close>

theorem submissions_keep_series:
  assumes "series_ok db" and "fresh_ids env" and "evNow (smEnv env) \<noteq> []"
    and "submit_application_use_case env code sub db = (r, db')
      \<or> replace_application_use_case env code sub db = (r, db')"
  shows "series_ok db' \<and> (\<exists>added. map unversioned (dbApplications db') = map unversioned (dbApplications db) @ added)"
proof -
  let ?s = "db\<lparr>dbOutside := []\<rparr>"
  have step: "series_ok t \<and> (\<exists>added. dbApplications t = dbApplications db @ added)"
    if "submit_application env code sub ?s = (Inr i, t) \<or> replace_application env code sub ?s = (Inr i, t)" for i t
    using that submitted_series [of env code sub ?s] replaced_series [of env code sub ?s] assms(1-3) by fastforce
  have settled: "series_ok (settle_outside ws t) \<and> (\<exists>added. map unversioned (dbApplications (settle_outside ws t))
      = map unversioned (dbApplications db) @ added)"
    if "series_ok t \<and> (\<exists>added. dbApplications t = dbApplications db @ added)" for ws t
    using that series_ok_settle [of t ws] by (auto simp: settle_outside_applications)
  show ?thesis
  proof (cases r)
    case (Inl e)
    then show ?thesis using assms(4) settled assms(1)
      by (auto simp: submit_application_use_case_def replace_application_use_case_def with_transaction_failed)
  next
    case (Inr x)
    then obtain i t a where run: "submit_application env code sub ?s = (Inr i, t) \<or> replace_application env code sub ?s = (Inr i, t)"
      and db': "db' = settle_outside (dbOutside t) (t\<lparr>dbOutbox := dbOutbox t @ [a]\<rparr>)"
      using assms(4) submit_use_case_ok replace_use_case_ok by metis
    show ?thesis unfolding db' using step [OF run] by (intro settled) simp
  qed
qed

theorem submissions_keep_series_witness:
  "series_ok (snd (replace_application_use_case sample_submit ''wood'' sample_submission sample_filed))"
proof -
  have "evNow (smEnv sample_submit) \<noteq> []" by (simp add: sample_submit_def sample_env_def)
  then show ?thesis
    using submissions_keep_series [OF sample_filed_ok sample_ids_fresh] prod.collapse by metis
qed

text \<open>
  C18. An application can only be replaced once: after a replacement, the series of the previous
  application has the new one as its latest, and every further replacement of the previous one
  fails, whatever is submitted.
\<close>

theorem replaced_only_once:
  assumes "series_ok db" and "evNow (smEnv env) \<noteq> []"
    and "replace_application_use_case env code sub db = (Inr (), db')"
    and "metadata_text ''previousClientRef'' again = metadata_text ''previousClientRef'' sub"
  shows "(\<exists>s\<in>set (dbSeries db'). seCode s = code \<and> seLatestClientRef s = metadata_text ''clientRef'' sub
        \<and> metadata_text ''previousClientRef'' sub \<in> set (seClientRefs s))
    \<and> (\<exists>e db''. replace_application_use_case env2 code again db' = (Inl e, db''))"
proof -
  let ?old = "metadata_text ''previousClientRef'' sub" and ?new = "metadata_text ''clientRef'' sub"
  obtain i t a where run: "replace_application env code sub (db\<lparr>dbOutside := []\<rparr>) = (Inr i, t)"
    and u: "db' = settle_outside (dbOutside t) (t\<lparr>dbOutbox := dbOutbox t @ [a]\<rparr>)"
    using replace_use_case_ok [OF assms(3)] by blast
  have t: "series_ok t" and ne: "?old \<noteq> ?new"
    using replaced_series [OF run] assms(1,2) by simp_all
  obtain s where s: "s \<in> set (dbSeries t)" "seCode s = code" "seLatestClientRef s = ?new" "?old \<in> set (seClientRefs s)"
    using replaced_series [OF run] assms(1,2) by auto
  have none: "find (\<lambda>x. seLatestClientRef x = ?old \<and> seCode x = code) (dbSeries t) = None"
  proof (rule ccontr)
    assume "find (\<lambda>x. seLatestClientRef x = ?old \<and> seCode x = code) (dbSeries t) \<noteq> None"
    then obtain x where x: "x \<in> set (dbSeries t)" "seLatestClientRef x = ?old" "seCode x = code"
      by (auto simp: find_None_iff)
    then have "(?old, code) \<in> set (series_refs x)" "(?old, code) \<in> set (series_refs s)"
      using t s by (auto simp: series_ok_def series_wf_def series_refs_def)
    then have "x = s" using one_series [OF t x(1) s(1)] by blast
    then show False using x s ne by simp
  qed
  have "fst (replace_application_use_case env2 code again db') \<noteq> Inr ()"
  proof
    assume "fst (replace_application_use_case env2 code again db') = Inr ()"
    then obtain db'' where "replace_application_use_case env2 code again db' = (Inr (), db'')"
      by (metis prod.collapse)
    then obtain j w where again: "replace_application env2 code again (db'\<lparr>dbOutside := []\<rparr>) = (Inr j, w)"
      using replace_use_case_ok by blast
    show False using again
    proof (rule replaced_steps)
      fix previous1 v w u ser previous
      assume p: "persist_resolved_version previous v (db'\<lparr>dbOutside := []\<rparr>) = (Inr previous1, w)"
        and c: "create_application_use_case env2 code again w = (Inr j, u)"
        and f: "find_series (smSeriesMessages env2) (metadata_text ''previousClientRef'' again) code u = (Inr ser, u)"
      have "dbSeries u = dbSeries w" by (rule created_series [OF c])
      moreover have "dbSeries w = dbSeries db'" using persist_series(1) [OF p] by auto
      moreover have "dbSeries db' = dbSeries t" using u by simp
      ultimately show False using f none assms(4) by (simp add: find_series_def)
    qed
  qed
  then obtain e db'' where "replace_application_use_case env2 code again db' = (Inl e, db'')"
    by (cases "replace_application_use_case env2 code again db'"; cases "fst (replace_application_use_case env2 code again db')") auto
  then show ?thesis using s u by (auto intro!: bexI [of _ s])
qed

theorem replaced_only_once_witness:
  "\<exists>db'. replace_application_use_case sample_submit ''wood'' sample_submission sample_filed = (Inr (), db')
    \<and> (\<exists>e db''. replace_application_use_case sample_submit ''wood'' sample_submission db' = (Inl e, db''))"
proof -
  have now: "evNow (smEnv sample_submit) \<noteq> []" by (simp add: sample_submit_def sample_env_def)
  have "fst (replace_application_use_case sample_submit ''wood'' sample_submission sample_filed) = Inr ()"
    by code_simp
  then obtain db' where run: "replace_application_use_case sample_submit ''wood'' sample_submission sample_filed = (Inr (), db')"
    by (metis prod.collapse)
  then show ?thesis using replaced_only_once [OF sample_filed_ok now run refl] by blast
qed

end
