(* ===== verification/References.thy ===== *)
theory References
  imports PayloadChanges
begin

text \<open>
  References in configured values (\<open>src/common/resolve-refs.js\<close>): a text may be a JSONata
  expression, a lone reference such as \<open>$.answers.area\<close>, or prose with references in it. The
  evaluation of an expression is JSONata's, and the text of a number JavaScript's: both are given
  by the scope. The pattern of a reference is matched as the regular expression matches it, greedily
  from the left; its continuation never has to give characters back.
\<close>

section \<open>The scope\<close>

text \<open>\<open>None\<close> is the undefined value: what the data does not answer.\<close>

record scope =
  spEvaluate :: "json option \<Rightarrow> string \<Rightarrow> json option res"
  spRow :: "json option"
  spNumberText :: "js_number \<Rightarrow> string"

definition jsonata_prefix :: string where "jsonata_prefix = ''jsonata:''"

section \<open>The pattern of a reference\<close>

definition between :: "nat \<Rightarrow> nat \<Rightarrow> char \<Rightarrow> bool" where
  "between a b c \<longleftrightarrow> a \<le> of_char c \<and> (of_char c :: nat) \<le> b"

definition identifier_start :: "char \<Rightarrow> bool" where
  "identifier_start c \<longleftrightarrow> between 65 90 c \<or> between 97 122 c \<or> c = CHR ''_'' \<or> c = CHR 0x24"

definition digit :: "char \<Rightarrow> bool" where "digit c \<longleftrightarrow> between 48 57 c"

definition identifier_part :: "char \<Rightarrow> bool" where
  "identifier_part c \<longleftrightarrow> identifier_start c \<or> digit c"

definition identifier_at :: "string \<Rightarrow> (string \<times> string) option" where
  "identifier_at s =
     (case s of [] \<Rightarrow> None
      | c # cs \<Rightarrow> if identifier_start c
          then Some (c # takeWhile identifier_part cs, dropWhile identifier_part cs) else None)"

text \<open>One more step of a path: a dot and a name, or an index in brackets.\<close>

definition path_step :: "string \<Rightarrow> (string \<times> string) option" where
  "path_step s =
     (case s of [] \<Rightarrow> None
      | c # cs \<Rightarrow>
          if c = CHR ''.'' then map_option (\<lambda>(name, rest). (c # name, rest)) (identifier_at cs)
          else if c = CHR ''['' then
            (case (takeWhile digit cs, dropWhile digit cs) of
               (d # ds, x # rest) \<Rightarrow> if x = CHR '']'' then Some (c # d # ds @ [x], rest) else None
             | _ \<Rightarrow> None)
          else None)"

lemma identifier_at_append: "identifier_at s = Some (m, rest) \<Longrightarrow> s = m @ rest \<and> m \<noteq> []"
  by (auto simp: identifier_at_def split: list.splits if_splits)

lemma path_step_append: "path_step s = Some (m, rest) \<Longrightarrow> s = m @ rest \<and> m \<noteq> []"
proof (cases s)
  case (Cons c cs)
  assume a: "path_step s = Some (m, rest)"
  show ?thesis
  proof (cases "c = CHR ''.''")
    case True
    then show ?thesis using a Cons by (auto simp: path_step_def dest: identifier_at_append)
  next
    case False
    then have "c = CHR ''[''" using a Cons by (auto simp: path_step_def split: if_splits)
    then obtain d ds x where t: "takeWhile digit cs = d # ds" and r: "dropWhile digit cs = x # rest"
      and m: "m = c # d # ds @ [x]"
      using a Cons False
      by (auto simp: path_step_def split: list.splits if_splits)
    have "cs = (d # ds) @ x # rest" using takeWhile_dropWhile_id [of digit cs] t r by simp
    then show ?thesis using Cons m by simp
  qed
qed (simp add: path_step_def)

function path_tail :: "string \<Rightarrow> string \<times> string" where
  "path_tail s =
     (case path_step s of None \<Rightarrow> ([], s)
      | Some (m, rest) \<Rightarrow> (let (ms, end) = path_tail rest in (m @ ms, end)))"
  by pat_completeness auto
termination
  by (relation "measure length") (auto dest!: path_step_append)

declare path_tail.simps [simp del]

definition ref_at :: "string \<Rightarrow> (string \<times> string) option" where
  "ref_at s =
     (case s of
        c # d # cs \<Rightarrow>
          if c \<in> {CHR 0x24, CHR ''@''} \<and> d = CHR ''.'' then
            map_option (\<lambda>(name, rest). (c # d # name @ fst (path_tail rest), snd (path_tail rest))) (identifier_at cs)
          else None
      | _ \<Rightarrow> None)"

lemma path_tail_append: "fst (path_tail s) @ snd (path_tail s) = s"
proof (induction s rule: path_tail.induct)
  case (1 s)
  show ?case
  proof (cases "path_step s")
    case None
    then show ?thesis by (simp add: path_tail.simps [of s])
  next
    case (Some p)
    then show ?thesis using "1.IH" path_step_append
      by (cases p) (fastforce simp: path_tail.simps [of s] split_beta)
  qed
qed

lemma ref_at_append:
  assumes "ref_at s = Some (m, rest)"
  shows "s = m @ rest" and "m \<noteq> []"
  using assms by (auto simp: ref_at_def path_tail_append split: list.splits if_splits dest!: identifier_at_append)

datatype segment = Plain char | Ref string

function segments :: "string \<Rightarrow> segment list" where
  "segments [] = []"
| "segments (c # cs) =
     (case ref_at (c # cs) of None \<Rightarrow> Plain c # segments cs | Some (m, rest) \<Rightarrow> Ref m # segments rest)"
  by pat_completeness auto
termination
proof (relation "measure length")
  fix c cs m rest and p assume "ref_at (c # cs) = Some p" "(m, rest) = p"
  then have "c # cs = m @ rest" "m \<noteq> []" using ref_at_append [of "c # cs" m rest] by simp_all
  then have "length (c # cs) = length m + length rest" "0 < length m" by (metis length_append, simp)
  then show "(rest, c # cs) \<in> measure length" by simp
qed simp_all

definition find_refs :: "string \<Rightarrow> string list" where
  "find_refs value = concat (map (\<lambda>s. case s of Plain _ \<Rightarrow> [] | Ref r \<Rightarrow> [r]) (segments value))"

section \<open>Resolving\<close>

definition is_jsonata_expression :: "string \<Rightarrow> bool" where
  "is_jsonata_expression value = starts_with value jsonata_prefix"

definition is_value_ref :: "string \<Rightarrow> string list \<Rightarrow> bool" where
  "is_value_ref value refs \<longleftrightarrow> length refs = 1 \<and> hd refs = value"

text \<open>A row reference that opens a term becomes a reference to the bound row.\<close>

definition term_char :: "char \<Rightarrow> bool" where
  "term_char c \<longleftrightarrow> identifier_part c \<or> c \<in> {CHR 0x27, CHR 0x22, CHR ''@'', CHR 0x24}"

fun row_refs :: "bool \<Rightarrow> string \<Rightarrow> string"
and row_refs_after :: "string \<Rightarrow> string" where
  "row_refs opens (a # d # cs) =
     (if opens \<and> a = CHR ''@'' \<and> d = CHR ''.'' then ''$row.'' @ row_refs_after cs
      else a # row_refs (\<not> term_char a) (d # cs))"
| "row_refs opens cs = cs"
| "row_refs_after [] = []"
| "row_refs_after (c # cs) = c # row_refs (\<not> term_char c) cs"

definition to_expression :: "string \<Rightarrow> string" where
  "to_expression value = row_refs True value"

definition evaluate :: "scope \<Rightarrow> string \<Rightarrow> json option res" where
  "evaluate scope expression = spEvaluate scope (spRow scope) (to_expression expression)"

definition unresolved_reference :: "string \<Rightarrow> js_error" where
  "unresolved_reference reference = UnresolvedReference reference"

definition require_resolved :: "json option \<Rightarrow> string \<Rightarrow> json res" where
  "require_resolved resolved reference =
     (case resolved of None \<Rightarrow> Inl (unresolved_reference reference) | Some v \<Rightarrow> Inr v)"

fun to_text :: "(js_number \<Rightarrow> string) \<Rightarrow> string \<Rightarrow> json \<Rightarrow> string res"
and to_texts :: "(js_number \<Rightarrow> string) \<Rightarrow> string \<Rightarrow> json list \<Rightarrow> string list res" where
  "to_text numText reference JNull = Inr []"
| "to_text numText reference (JArr items) =
     bind_res (to_texts numText reference items) (\<lambda>ts. Inr (join '' '' ts))"
| "to_text numText reference (JObj _) = Inl (JsError (''Reference '' @ quoted reference
     @ '' resolves to an object and cannot be used in text''))"
| "to_text numText reference (JStr s) = Inr s"
| "to_text numText reference (JBool b) = Inr (if b then ''true'' else ''false'')"
| "to_text numText reference (JNum n) = Inr (numText n)"
| "to_texts numText reference [] = Inr []"
| "to_texts numText reference (v # vs) =
     bind_res (to_text numText reference v) (\<lambda>t. bind_res (to_texts numText reference vs) (\<lambda>ts. Inr (t # ts)))"

definition ref_text :: "scope \<Rightarrow> string \<Rightarrow> string res" where
  "ref_text scope ref =
     bind_res (evaluate scope ref) (\<lambda>v. bind_res (require_resolved v ref) (to_text (spNumberText scope) ref))"

definition interpolate :: "scope \<Rightarrow> string \<Rightarrow> json res" where
  "interpolate scope value =
     bind_res (map_res (\<lambda>s. case s of Plain c \<Rightarrow> Inr [c] | Ref r \<Rightarrow> ref_text scope r) (segments value))
       (\<lambda>parts. Inr (JStr (concat parts)))"

definition resolve_string :: "scope \<Rightarrow> string \<Rightarrow> json res" where
  "resolve_string scope value =
     (if is_jsonata_expression value then
        bind_res (evaluate scope (drop (length jsonata_prefix) value)) (\<lambda>v. require_resolved v value)
      else
        let refs = find_refs value in
        if length refs = 0 then Inr (JStr value)
        else if is_value_ref value refs then bind_res (evaluate scope value) (\<lambda>v. require_resolved v value)
        else interpolate scope value)"

fun resolve_refs :: "scope \<Rightarrow> json \<Rightarrow> json res"
and resolve_items :: "scope \<Rightarrow> json list \<Rightarrow> json list res"
and resolve_object :: "scope \<Rightarrow> (string \<times> json) list \<Rightarrow> (string \<times> json) list res" where
  "resolve_refs scope (JStr s) = resolve_string scope s"
| "resolve_refs scope (JArr items) = bind_res (resolve_items scope items) (\<lambda>vs. Inr (JArr vs))"
| "resolve_refs scope (JObj entries) = bind_res (resolve_object scope entries) (\<lambda>es. Inr (JObj es))"
| "resolve_refs scope v = Inr v"
| "resolve_items scope [] = Inr []"
| "resolve_items scope (v # vs) =
     bind_res (resolve_refs scope v) (\<lambda>w. bind_res (resolve_items scope vs) (\<lambda>ws. Inr (w # ws)))"
| "resolve_object scope [] = Inr []"
| "resolve_object scope ((k, v) # es) =
     bind_res (resolve_refs scope v) (\<lambda>w. bind_res (resolve_object scope es) (\<lambda>fs. Inr ((k, w) # fs)))"

fun is_truthy :: "json option \<Rightarrow> bool" where
  "is_truthy (Some (JArr (v # _))) = json_truthy (Some v)"
| "is_truthy (Some (JArr [])) = False"
| "is_truthy v = json_truthy v"

definition resolve_condition :: "scope \<Rightarrow> string \<Rightarrow> bool res" where
  "resolve_condition scope condition =
     bind_res (evaluate scope
       (if is_jsonata_expression condition then drop (length jsonata_prefix) condition else condition))
       (\<lambda>v. Inr (is_truthy v))"

section \<open>Values without references\<close>

text \<open>A text without a reference, and a value of such texts, is left as it is whatever the scope.\<close>

definition plain_text :: "string \<Rightarrow> bool" where
  "plain_text s \<longleftrightarrow> \<not> is_jsonata_expression s \<and> find_refs s = []"

fun plain_json :: "json \<Rightarrow> bool"
and plain_items :: "json list \<Rightarrow> bool"
and plain_entries :: "(string \<times> json) list \<Rightarrow> bool" where
  "plain_json (JStr s) = plain_text s"
| "plain_json (JArr items) = plain_items items"
| "plain_json (JObj entries) = plain_entries entries"
| "plain_json v = True"
| "plain_items [] = True"
| "plain_items (v # vs) = (plain_json v \<and> plain_items vs)"
| "plain_entries [] = True"
| "plain_entries ((k, v) # es) = (plain_json v \<and> plain_entries es)"

lemma resolve_string_plain: "plain_text s \<Longrightarrow> resolve_string scope s = Inr (JStr s)"
  by (simp add: resolve_string_def plain_text_def)

lemma resolve_refs_plain:
  "plain_json v \<Longrightarrow> resolve_refs scope v = Inr v"
  "plain_items vs \<Longrightarrow> resolve_items scope vs = Inr vs"
  "plain_entries es \<Longrightarrow> resolve_object scope es = Inr es"
  by (induction v and vs and es rule: plain_json_plain_items_plain_entries.induct)
    (simp_all add: resolve_string_plain)

text \<open>The segments of a text are the text again, so interpolation only replaces references.\<close>

fun segment_text :: "segment \<Rightarrow> string" where
  "segment_text (Plain c) = [c]"
| "segment_text (Ref r) = r"

lemma segments_text: "concat (map segment_text (segments s)) = s"
proof (induction s rule: segments.induct)
  case (2 c cs)
  show ?case
  proof (cases "ref_at (c # cs)")
    case None
    then show ?thesis using 2 by simp
  next
    case (Some p)
    then obtain m rest where p: "ref_at (c # cs) = Some (m, rest)" by (cases p) simp
    then have "concat (map segment_text (segments rest)) = rest" using 2 by simp
    moreover have "segments (c # cs) = Ref m # segments rest" using p by simp
    ultimately show ?thesis using ref_at_append(1) [OF p] by (simp del: segments.simps)
  qed
qed simp

lemma find_refs_text:
  "map segment_text (filter (\<lambda>s. case s of Ref _ \<Rightarrow> True | _ \<Rightarrow> False) (segments value)) = find_refs value"
proof -
  have "map segment_text (filter (\<lambda>s. case s of Ref _ \<Rightarrow> True | _ \<Rightarrow> False) ss)
      = concat (map (\<lambda>s. case s of Plain _ \<Rightarrow> [] | Ref r \<Rightarrow> [r]) ss)" for ss
    by (induction ss) (auto split: segment.splits)
  then show ?thesis by (simp add: find_refs_def)
qed

end
