(* ===== verification/ProcessMapping.thy ===== *)
theory ProcessMapping
  imports References
begin

text \<open>
  The mappings that build what a process is given
  (\<open>src/common/mapping/resolve-process-mapping.js\<close>): a direct reference or a JSONata expression is
  evaluated, an object with \<open>itemsRef\<close> and \<open>items\<close> is repeated over the rows it refers to, and every
  other value is taken as it is. An undefined value inside an array is null, as it is stored.
\<close>

section \<open>References\<close>

definition index_step :: "string \<Rightarrow> string option" where
  "index_step s =
     (case (takeWhile digit s, dropWhile digit s) of
        (d # ds, x # rest) \<Rightarrow> if x = CHR '']'' then Some rest else None
      | ([], a # x # rest) \<Rightarrow> if a = CHR ''*'' \<and> x = CHR '']'' then Some rest else None
      | _ \<Rightarrow> None)"

definition mapping_step :: "string \<Rightarrow> string option" where
  "mapping_step s =
     (case s of [] \<Rightarrow> None
      | c # cs \<Rightarrow>
          if c = CHR ''.'' then map_option snd (identifier_at cs)
          else if c = CHR ''['' then index_step cs
          else None)"

lemma index_step_shorter: "index_step s = Some rest \<Longrightarrow> length rest < length s"
proof -
  assume a: "index_step s = Some rest"
  have "length (takeWhile digit s) + length (dropWhile digit s) = length s"
    by (metis length_append takeWhile_dropWhile_id)
  then show ?thesis using a by (auto simp: index_step_def split: list.splits if_splits)
qed

lemma mapping_step_shorter: "mapping_step s = Some rest \<Longrightarrow> length rest < length s"
  by (auto simp: mapping_step_def split: list.splits if_splits
      dest: index_step_shorter identifier_at_append)

function whole_path :: "string \<Rightarrow> bool" where
  "whole_path s = (case mapping_step s of None \<Rightarrow> s = [] | Some rest \<Rightarrow> whole_path rest)"
  by pat_completeness auto
termination by (relation "measure length") (simp_all add: mapping_step_shorter)

declare whole_path.simps [simp del]

definition direct_reference :: "char \<Rightarrow> string \<Rightarrow> bool" where
  "direct_reference sigil mapping \<longleftrightarrow>
     (case mapping of
        c # d # cs \<Rightarrow> c = sigil \<and> d = CHR ''.'' \<and>
          (case identifier_at cs of None \<Rightarrow> False | Some (name, rest) \<Rightarrow> whole_path rest)
      | _ \<Rightarrow> False)"

definition is_direct_reference :: "string \<Rightarrow> bool" where
  "is_direct_reference mapping \<longleftrightarrow> direct_reference CHR 0x24 mapping \<or> direct_reference CHR ''@'' mapping"

definition is_expression :: "string \<Rightarrow> bool" where
  "is_expression mapping = starts_with mapping jsonata_prefix"

definition to_process_expression :: "string \<Rightarrow> string" where
  "to_process_expression mapping =
     row_refs True (if is_expression mapping then drop (length jsonata_prefix) mapping else mapping)"

section \<open>Resolving\<close>

record mapping_scope =
  msEvaluate :: "json option \<Rightarrow> string \<Rightarrow> json option res"
  msRow :: "json option"
  msAllowUnresolved :: bool

definition unresolved_mapping :: "string \<Rightarrow> js_error" where
  "unresolved_mapping mapping = JsError (''Unresolved process mapping '' @ quoted mapping)"

definition resolve_evaluated_value :: "json option \<Rightarrow> string \<Rightarrow> bool \<Rightarrow> json option res" where
  "resolve_evaluated_value resolved mapping allowUnresolved =
     (if resolved = None \<and> \<not> allowUnresolved then Inl (unresolved_mapping mapping) else Inr resolved)"

definition evaluate_mapping :: "mapping_scope \<Rightarrow> string \<Rightarrow> json option res" where
  "evaluate_mapping scope mapping =
     (case msEvaluate scope (msRow scope) (to_process_expression mapping) of
        Inl _ \<Rightarrow> Inl (JsError (''Failed to evaluate process mapping '' @ quoted mapping))
      | Inr v \<Rightarrow> Inr v)"

definition resolve_string_mapping :: "mapping_scope \<Rightarrow> string \<Rightarrow> json option res" where
  "resolve_string_mapping scope mapping =
     (if \<not> is_expression mapping \<and> \<not> is_direct_reference mapping then Inr (Some (JStr mapping))
      else bind_res (evaluate_mapping scope mapping) (\<lambda>v.
             resolve_evaluated_value v mapping (msAllowUnresolved scope)))"

definition is_collection_mapping :: "(string \<times> json) list \<Rightarrow> bool" where
  "is_collection_mapping entries \<longleftrightarrow> ''itemsRef'' \<in> set (map fst entries)"

definition require_collection_shape :: "(string \<times> json) list \<Rightarrow> unit res" where
  "require_collection_shape entries =
     (if ''itemsRef'' \<notin> set (map fst entries) \<or> ''items'' \<notin> set (map fst entries)
      then Inl (JsError ''Process collection mapping requires both itemsRef and items'')
      else if list_ex (\<lambda>k. k \<noteq> ''itemsRef'' \<and> k \<noteq> ''items'') (map fst entries)
      then Inl (JsError ''Process collection mapping only supports itemsRef and items'')
      else Inr ())"

definition require_array :: "json option \<Rightarrow> string \<Rightarrow> json list res" where
  "require_array v reference = (case v of Some (JArr items) \<Rightarrow> Inr items | _ \<Rightarrow> Inl TypeError)"

definition require_collection_resolved :: "json option \<Rightarrow> string \<Rightarrow> json res" where
  "require_collection_resolved v reference =
     (case v of None \<Rightarrow> Inl (unresolved_mapping reference) | Some JNull \<Rightarrow> Inl (unresolved_mapping reference)
      | Some x \<Rightarrow> Inr x)"

definition to_expression_rows :: "json \<Rightarrow> json list" where
  "to_expression_rows v = (case v of JArr items \<Rightarrow> items | _ \<Rightarrow> [v])"

definition evaluate_collection_reference :: "mapping_scope \<Rightarrow> string \<Rightarrow> json option res" where
  "evaluate_collection_reference scope reference =
     (if is_expression reference then evaluate_mapping scope reference
      else resolve_string_mapping scope reference)"

definition require_collection_rows :: "json option \<Rightarrow> string \<Rightarrow> json list res" where
  "require_collection_rows resolved reference =
     (if is_expression reference
      then bind_res (require_collection_resolved resolved reference) (\<lambda>v. Inr (to_expression_rows v))
      else require_array resolved reference)"

text \<open>A reference that is not a text has no \<open>startsWith\<close>.\<close>

definition resolve_collection_rows :: "mapping_scope \<Rightarrow> json \<Rightarrow> json list option res" where
  "resolve_collection_rows scope ref =
     (case ref of
        JStr reference \<Rightarrow>
          bind_res (evaluate_collection_reference scope reference) (\<lambda>resolved.
          if resolved = None \<and> msAllowUnresolved scope then Inr None
          else bind_res (require_collection_rows resolved reference) (\<lambda>rows. Inr (Some rows)))
      | _ \<Rightarrow> Inl TypeError)"

definition in_array :: "json option \<Rightarrow> json" where
  "in_array v = (case v of None \<Rightarrow> JNull | Some x \<Rightarrow> x)"

lemma map_of_smaller: "map_of es k = Some v \<Longrightarrow> size v < Suc (size_list (size_prod (\<lambda>_. 0) size) es)"
  by (induction es) (auto split: if_splits)

function (sequential) resolve_mapping :: "mapping_scope \<Rightarrow> json \<Rightarrow> json option res"
and resolve_array :: "mapping_scope \<Rightarrow> json list \<Rightarrow> json list res"
and resolve_object_entries :: "mapping_scope \<Rightarrow> (string \<times> json) list \<Rightarrow> (string \<times> json) list res" where
  "resolve_mapping scope (JStr mapping) = resolve_string_mapping scope mapping"
| "resolve_mapping scope (JArr items) = bind_res (resolve_array scope items) (\<lambda>vs. Inr (Some (JArr vs)))"
| "resolve_mapping scope (JObj entries) =
     (if is_collection_mapping entries then
        bind_res (require_collection_shape entries) (\<lambda>_.
        bind_res (case map_of entries ''itemsRef'' of None \<Rightarrow> Inl TypeError
                  | Some ref \<Rightarrow> resolve_collection_rows scope ref) (\<lambda>rows.
        case rows of
          None \<Rightarrow> Inr None
        | Some rs \<Rightarrow>
            (case map_of entries ''items'' of
               None \<Rightarrow> Inl TypeError
             | Some item \<Rightarrow>
                 bind_res (map_res (\<lambda>row. resolve_mapping (scope\<lparr>msRow := Some row\<rparr>) item) rs) (\<lambda>vs.
                 Inr (Some (JArr (map in_array vs)))))))
      else bind_res (resolve_object_entries scope entries) (\<lambda>es. Inr (Some (JObj es))))"
| "resolve_mapping scope v = Inr (Some v)"
| "resolve_array scope [] = Inr []"
| "resolve_array scope (v # vs) =
     bind_res (resolve_mapping scope v) (\<lambda>w. bind_res (resolve_array scope vs) (\<lambda>ws. Inr (in_array w # ws)))"
| "resolve_object_entries scope [] = Inr []"
| "resolve_object_entries scope ((k, v) # es) =
     bind_res (resolve_mapping scope v) (\<lambda>w.
     bind_res (resolve_object_entries scope es) (\<lambda>fs.
     Inr (case w of None \<Rightarrow> fs | Some x \<Rightarrow> (k, x) # fs)))"
  by pat_completeness auto
termination
  by (relation "measure (\<lambda>x. case x of Inl (_, v) \<Rightarrow> size v
      | Inr (Inl (_, vs)) \<Rightarrow> size_list size vs
      | Inr (Inr (_, es)) \<Rightarrow> size_list (size_prod (\<lambda>_. 0) size) es)")
    (auto dest: map_of_smaller)

definition resolve_process_mapping ::
  "(json option \<Rightarrow> string \<Rightarrow> json option res) \<Rightarrow> bool \<Rightarrow> json \<Rightarrow> json option res" where
  "resolve_process_mapping evaluateIn allowUnresolved mapping =
     resolve_mapping \<lparr>msEvaluate = evaluateIn, msRow = None, msAllowUnresolved = allowUnresolved\<rparr> mapping"

section \<open>Validating\<close>

definition validate_string_mapping :: "(string \<Rightarrow> unit res) \<Rightarrow> string \<Rightarrow> unit res" where
  "validate_string_mapping compile mapping =
     (if is_expression mapping \<or> is_direct_reference mapping then compile (to_process_expression mapping)
      else Inr ())"

definition validate_collection_reference :: "(string \<Rightarrow> unit res) \<Rightarrow> json option \<Rightarrow> unit res" where
  "validate_collection_reference compile ref =
     (case ref of
        Some (JStr reference) \<Rightarrow>
          if \<not> is_expression reference \<and> \<not> is_direct_reference reference
          then Inl (JsError ''Process collection mapping itemsRef must be a reference or jsonata: expression'')
          else validate_string_mapping compile reference
      | _ \<Rightarrow> Inl (JsError ''Process collection mapping itemsRef must be a reference or jsonata: expression''))"

lemma entries_size: "size_list (size \<circ> snd) es < Suc (size_list (size_prod (\<lambda>_. 0) size) es)"
  by (induction es) auto

function (sequential) validate_mapping :: "(string \<Rightarrow> unit res) \<Rightarrow> json \<Rightarrow> unit res"
and validate_mappings :: "(string \<Rightarrow> unit res) \<Rightarrow> json list \<Rightarrow> unit res" where
  "validate_mapping compile (JStr mapping) = validate_string_mapping compile mapping"
| "validate_mapping compile (JArr items) = validate_mappings compile items"
| "validate_mapping compile (JObj entries) =
     (if is_collection_mapping entries then
        bind_res (require_collection_shape entries) (\<lambda>_.
        bind_res (validate_collection_reference compile (map_of entries ''itemsRef'')) (\<lambda>_.
        (case map_of entries ''items'' of None \<Rightarrow> Inr () | Some item \<Rightarrow> validate_mapping compile item)))
      else validate_mappings compile (map snd entries))"
| "validate_mapping compile v = Inr ()"
| "validate_mappings compile [] = Inr ()"
| "validate_mappings compile (v # vs) = bind_res (validate_mapping compile v) (\<lambda>_. validate_mappings compile vs)"
  by pat_completeness auto
termination
  by (relation "measure (\<lambda>x. case x of Inl (_, v) \<Rightarrow> size v | Inr (_, vs) \<Rightarrow> size_list size vs)")
    (auto dest: map_of_smaller simp: entries_size)

section \<open>What resolving a mapping gives\<close>

text \<open>Unless unresolved values are allowed, a mapping that resolves has a value.\<close>

lemma resolved_value:
  assumes "\<not> msAllowUnresolved scope" and "resolve_mapping scope m = Inr v"
  shows "v \<noteq> None"
  using assms
  by (cases m)
    (auto simp: resolve_string_mapping_def resolve_evaluated_value_def ok_iff resolve_collection_rows_def
      split: if_splits option.splits json.splits)

text \<open>An object of mappings keeps its keys, in order.\<close>

lemma resolved_keys:
  assumes "\<not> msAllowUnresolved scope"
  shows "resolve_object_entries scope es = Inr fs \<Longrightarrow> map fst fs = map fst es"
proof (induction es arbitrary: fs)
  case (Cons e es)
  then show ?case
    by (cases e) (auto simp: bind_res_Inr split: option.splits dest: resolved_value [OF assms])
qed simp

end
