(* ===== verification/EntitlementService.thy ===== *)
theory EntitlementService
  imports Submission GrantResolution References
begin

text \<open>
  Creating and changing the entitlements of an application
  (\<open>src/grants/services/entitlement.service.js\<close>, \<open>update-entitlement.js\<close>, \<open>entitlement-application.js\<close>,
  \<open>entitlement-errors.js\<close>, \<open>entitlement-audit-values.js\<close>, \<open>claims-access.js\<close> and
  \<open>src/grants/repositories/entitlement.repository.js\<close>). Given by the environment: the grant in force
  for a pinned version, the agreement of an application, the evaluation of an expression, the order
  names are sorted in, and the ids minted. \<open>ceMeanwhile n\<close> is what others commit between the reads of
  attempt \<open>n\<close> and its transaction, which the lock on the application then runs alone.
\<close>

section \<open>The environment\<close>

record 'q claims_env =
  ceEnv :: "'q env"
  ceResolve :: "string \<Rightarrow> string option \<Rightarrow> 'q grant option res"
  ceNewId :: string
  ceNewClaimId :: string
  ceEntitlementMessages :: "entitlement \<Rightarrow> string"
  ceClaimMessages :: "claim \<Rightarrow> string"
  ceAgreement :: "string \<Rightarrow> string \<Rightarrow> json option res"
  ceEvaluate :: "(string \<times> json) list \<Rightarrow> json option \<Rightarrow> string \<Rightarrow> json option res"
  ceNumberText :: "js_number \<Rightarrow> string"
  ceSortNames :: "string list \<Rightarrow> string list"
  ceRows :: "config_row list"
  ceMeanwhile :: "nat \<Rightarrow> grants_db \<Rightarrow> grants_db"

section \<open>Errors\<close>

definition coded :: "boom \<Rightarrow> string \<Rightarrow> string \<Rightarrow> js_error" where
  "coded kind message errorCode = Boom kind message [(''errorCode'', errorCode)]"

definition entitlement_application_not_found :: "string \<Rightarrow> string \<Rightarrow> js_error" where
  "entitlement_application_not_found code clientRef =
     coded NotFound (''No matching application found for clientRef '' @ single_quoted clientRef
       @ '' and grantCode '' @ single_quoted code @ ''.'') ''APPLICATION_NOT_FOUND''"

definition invalid_claim_code :: "string \<Rightarrow> string \<Rightarrow> string \<Rightarrow> 'q grant \<Rightarrow> js_error" where
  "invalid_claim_code code clientRef claimCode g =
     (if find_entitlement_template g claimCode = None
      then coded BadData (''Claim code '' @ single_quoted claimCode @ '' is not defined for grant code ''
             @ single_quoted code @ ''.'') ''INVALID_CLAIM_CODE''
      else coded BadData (''Claim code '' @ single_quoted claimCode @ '' is not available for application ''
             @ single_quoted clientRef @ ''.'') ''INVALID_CLAIM_CODE'')"

definition invalid_values_message :: "string list \<Rightarrow> string" where
  "invalid_values_message fieldNames =
     (if length fieldNames = 1 then ''Field '' @ single_quoted (hd fieldNames) @ '' has an invalid value''
      else ''Fields '' @ single_quoted (join (single_quoted '', '') fieldNames) @ '' have invalid values'')"

definition invalid_data_message ::
  "(string list \<Rightarrow> string list) \<Rightarrow> template \<Rightarrow> submitted_data \<Rightarrow> string \<Rightarrow> string" where
  "invalid_data_message sortNames t submitted claimCode =
     (let expected = sortNames (input_field_names t);
          given = sortNames (map fst submitted);
          missing = filter (\<lambda>name. name \<notin> set given) expected;
          unexpected = filter (\<lambda>name. name \<notin> set expected) given;
          problems = (if 0 < length missing then [''missing fields: '' @ join '', '' missing] else [])
            @ (if 0 < length unexpected then [''unexpected fields: '' @ join '', '' unexpected] else []);
          detail = (if join ''; '' problems = [] then invalid_values_message (invalid_input_field_names t submitted)
            else join ''; '' problems) in
      ''Entitlement data for claim code '' @ single_quoted claimCode @ '' does not match the template: ''
        @ detail @ ''.'')"

definition entitlement_not_found :: "string \<Rightarrow> string \<Rightarrow> js_error" where
  "entitlement_not_found clientRef entitlementId =
     coded NotFound (''No entitlement '' @ single_quoted entitlementId @ '' found for application ''
       @ single_quoted clientRef @ ''.'') ''ENTITLEMENT_NOT_FOUND''"

definition entitlement_claimed :: "claimable \<Rightarrow> js_error" where
  "entitlement_claimed c =
     coded Conflict (clName c @ '' has a claim against it and cannot be changed.'') ''ENTITLEMENT_CLAIMED''"

definition configuration_changed :: "string \<Rightarrow> js_error" where
  "configuration_changed code =
     coded Conflict (''Grant configuration for '' @ single_quoted code
       @ '' changed while updating the entitlement. Try again.'') ''CONFIGURATION_CHANGED''"

definition invalid_update_data ::
  "(string list \<Rightarrow> string list) \<Rightarrow> template \<Rightarrow> submitted_data \<Rightarrow> string \<Rightarrow> js_error" where
  "invalid_update_data sortNames t submitted claimCode =
     coded BadData (invalid_data_message sortNames t submitted claimCode) ''INVALID_ENTITLEMENT_DATA''"

section \<open>The application and the grant\<close>

definition map_application_not_found :: "string \<Rightarrow> string \<Rightarrow> (grants_db, application) action" where
  "map_application_not_found code clientRef =
     catch (find_application_by_client_ref_and_code clientRef code)
       (\<lambda>error. case error of
          Boom b _ _ \<Rightarrow> if status_code b = 404 then throw (entitlement_application_not_found code clientRef)
            else throw error
        | _ \<Rightarrow> throw error)"

text \<open>The write that takes the lock is on a counter nothing reads.\<close>

definition lock_application :: "string \<Rightarrow> string \<Rightarrow> (grants_db, application) action" where
  "lock_application code clientRef = (\<lambda>db.
     (case find_application clientRef code db of
        None \<Rightarrow> Inl (entitlement_application_not_found code clientRef) | Some a \<Rightarrow> Inr a, db))"

definition required_claims_roles :: "'q grant \<Rightarrow> required_roles option" where
  "required_claims_roles g = Option.bind (grClaims g) gcRequiredRoles"

definition resolve_claims_access :: "'q grant \<Rightarrow> string list option res \<Rightarrow> claims_access res" where
  "resolve_claims_access g findHeldRoles =
     (case required_claims_roles g of
        None \<Rightarrow> Inr AccessFull
      | Some required \<Rightarrow> bind_res findHeldRoles (\<lambda>held. Inr (claims_access_for (Some required) held)))"

definition require_claims_view :: "'q grant \<Rightarrow> string list option res \<Rightarrow> claims_access res" where
  "require_claims_view g findHeldRoles =
     bind_res (resolve_claims_access g findHeldRoles) (\<lambda>access.
     bind_res (assert_may_view_claims access) (\<lambda>_. Inr access))"

definition require_claims_change :: "'q grant \<Rightarrow> string list option res \<Rightarrow> claims_access res" where
  "require_claims_change g findHeldRoles =
     bind_res (resolve_claims_access g findHeldRoles) (\<lambda>access.
     bind_res (assert_may_change_claims access) (\<lambda>_. Inr access))"

text \<open>A grant that is not there has no templates to read.\<close>

definition grant_in_force :: "'q claims_env \<Rightarrow> string \<Rightarrow> string option \<Rightarrow> 'q grant res" where
  "grant_in_force env code pinnedVersion =
     bind_res (ceResolve env code pinnedVersion) (\<lambda>g. case g of None \<Rightarrow> Inl TypeError | Some x \<Rightarrow> Inr x)"

section \<open>The stored entitlements\<close>

definition find_existing_entitlements :: "string \<Rightarrow> string \<Rightarrow> grants_db \<Rightarrow> entitlement list" where
  "find_existing_entitlements clientRef code db =
     filter (\<lambda>e. enClientRef e = clientRef \<and> enCode e = code) (dbEntitlements db)"

definition entitlement_slot :: "entitlement \<Rightarrow> string \<times> string \<times> string \<times> nat" where
  "entitlement_slot e = (enClientRef e, enCode e, enClaimCode e, enInstanceNumber e)"

text \<open>The collection has a unique index on the slot, and one on the id.\<close>

definition insert_entitlement :: "entitlement \<Rightarrow> (grants_db, bool) action" where
  "insert_entitlement e = (\<lambda>db.
     if entitlement_slot e \<in> set (map entitlement_slot (dbEntitlements db)) then (Inr False, db)
     else if enId e \<in> set (map enId (dbEntitlements db))
     then (Inl (Boom Conflict (''Entitlement with id '' @ quoted (enId e) @ '' exists'') []), db)
     else (Inr True, db\<lparr>dbEntitlements := dbEntitlements db @ [e]\<rparr>))"

definition update_entitlement_data :: "entitlement \<Rightarrow> (grants_db, unit) action" where
  "update_entitlement_data e =
     writes (\<lambda>db. db\<lparr>dbEntitlements := update_one
       (\<lambda>x. enId x = enId e \<and> enClientRef x = enClientRef e \<and> enCode x = enCode e)
       (\<lambda>x. x\<lparr>enData := enData e, enUpdatedAt := enUpdatedAt e\<rparr>) (dbEntitlements db)\<rparr>)"

definition count_by_entitlement :: "string \<Rightarrow> string \<Rightarrow> string \<Rightarrow> grants_db \<Rightarrow> nat" where
  "count_by_entitlement code clientRef entitlementId db =
     length (filter (\<lambda>(_, c). kmCode c = code \<and> kmClientRef c = clientRef \<and> kmEntitlementId c = entitlementId)
       (dbClaims db))"

section \<open>Audited values\<close>

definition input_fields :: "template \<Rightarrow> (string \<times> field_def) list" where
  "input_fields t = filter (\<lambda>(_, f). fdInput f) (template_fields t)"

text \<open>
  A scaled whole number back in the units it was entered in. A number that is not whole has no such
  text and reads as no number.
\<close>

definition unscaled :: "json \<Rightarrow> nat \<Rightarrow> json" where
  "unscaled value_json decimalPlaces =
     (case value_json of
        JNum (Finite m d e) \<Rightarrow>
          if whole_number (Some value_json) then JNum (Finite \<lfloor>number_value (Finite m d e)\<rfloor> decimalPlaces 0)
          else JNum NotFinite
      | _ \<Rightarrow> value_json)"

definition to_entered_value :: "field_def \<Rightarrow> json \<Rightarrow> json" where
  "to_entered_value f stored =
     (if fdUnitType f = DecimalUnit then unscaled stored (case fdDecimalPlaces f of None \<Rightarrow> 0 | Some p \<Rightarrow> p)
      else stored)"

definition with_unit :: "field_def \<Rightarrow> (string \<times> json) list" where
  "with_unit f = (case truthy (fdUnit f) of None \<Rightarrow> [] | Some u \<Rightarrow> [(''unit'', JStr u)])"

definition stored_value :: "entitlement \<Rightarrow> string \<Rightarrow> json" where
  "stored_value e name = (case map_of (enData e) name of None \<Rightarrow> JNull | Some v \<Rightarrow> v)"

definition to_created_entry :: "entitlement \<Rightarrow> string \<times> field_def \<Rightarrow> json" where
  "to_created_entry e nf =
     JObj ([(''field'', JStr (fst nf)), (''to'', to_entered_value (snd nf) (stored_value e (fst nf)))] @ with_unit (snd nf))"

definition to_changed_entry :: "entitlement \<Rightarrow> entitlement \<Rightarrow> string \<times> field_def \<Rightarrow> json" where
  "to_changed_entry before after nf =
     JObj ([(''field'', JStr (fst nf)), (''from'', to_entered_value (snd nf) (stored_value before (fst nf))),
       (''to'', to_entered_value (snd nf) (stored_value after (fst nf)))] @ with_unit (snd nf))"

definition to_values :: "json list \<Rightarrow> (string \<times> json) list" where
  "to_values entries = (if 0 < length entries then [(''values'', JArr entries)] else [])"

definition to_created_values :: "template \<Rightarrow> entitlement \<Rightarrow> (string \<times> json) list" where
  "to_created_values t e = to_values (map (to_created_entry e) (input_fields t))"

definition to_changed_values :: "template \<Rightarrow> entitlement \<Rightarrow> entitlement \<Rightarrow> (string \<times> json) list" where
  "to_changed_values t before after =
     to_values (map (to_changed_entry before after)
       (filter (\<lambda>(name, _). map_of (enData before) name \<noteq> map_of (enData after) name) (input_fields t)))"

section \<open>What may be created\<close>

record creation_option =
  coClaimCode :: string
  coName :: string
  coDescription :: "string option"
  coMaterialised :: bool
  coFields :: "(string \<times> field_def) list option"
  coMaxEntitlements :: nat
  coAvailableAt :: "template_position list"
  coHelp :: "json option"
  coClaim :: "claim_rules option"
  coCreatedCount :: nat
  coRemainingCapacity :: int

definition to_creation_option :: "template \<Rightarrow> entitlement list \<Rightarrow> creation_option" where
  "to_creation_option t existing =
     (let createdCount = length (filter (\<lambda>e. enClaimCode e = tmClaimCode t) existing) in
      \<lparr>coClaimCode = tmClaimCode t, coName = tmName t, coDescription = tmDescription t,
       coMaterialised = tmMaterialised t, coFields = tmFields t, coMaxEntitlements = tmMaxEntitlements t,
       coAvailableAt = tmAvailableAt t, coHelp = tmHelp t, coClaim = tmClaim t,
       coCreatedCount = createdCount,
       coRemainingCapacity = int (tmMaxEntitlements t) - int createdCount\<rparr>)"

record 'q resolved_entitlements =
  reApplication :: application
  reGrant :: "'q grant"
  reOfferable :: "template list"
  reExisting :: "entitlement list"

definition resolve_entitlements ::
  "'q claims_env \<Rightarrow> string \<Rightarrow> string \<Rightarrow> (grants_db, 'q resolved_entitlements) action" where
  "resolve_entitlements env code clientRef =
     andThen (map_application_not_found code clientRef) (\<lambda>app.
     andThen (lift_res (ceResolve env code (pinned_version_of app))) (\<lambda>found.
     andThen (reads (find_existing_entitlements clientRef code)) (\<lambda>existing.
     case found of
       None \<Rightarrow> throw TypeError
     | Some g \<Rightarrow> ret \<lparr>reApplication = app, reGrant = g,
         reOfferable = filter (\<lambda>t. \<not> tmMaterialised t)
           (find_entitlement_templates_available_at g (Some (current_position app))),
         reExisting = existing\<rparr>)))"

record claims_overview =
  ovEntitlements :: "entitlement list"
  ovCreationOptions :: "creation_option list"
  ovApplicationContext :: reference_context
  ovClaimsPage :: "json option"
  ovRequiredRoles :: "required_roles option"
  ovAccess :: claims_access

definition get_application_claims_overview ::
  "'q claims_env \<Rightarrow> string \<Rightarrow> string \<Rightarrow> string list option res \<Rightarrow> (grants_db, claims_overview) action" where
  "get_application_claims_overview env code clientRef findHeldRoles =
     andThen (resolve_entitlements env code clientRef) (\<lambda>r.
     andThen (lift_res (require_claims_view (reGrant r) findHeldRoles)) (\<lambda>access.
     ret \<lparr>ovEntitlements = reExisting r,
          ovCreationOptions = map (\<lambda>t. to_creation_option t (reExisting r)) (reOfferable r),
          ovApplicationContext = reference_context_of (reApplication r),
          ovClaimsPage = Option.bind (grPages (reGrant r)) (field_of ''claims''),
          ovRequiredRoles = required_claims_roles (reGrant r), ovAccess = access\<rparr>))"

definition available_creation_template ::
  "'q grant \<Rightarrow> application \<Rightarrow> string \<Rightarrow> string \<Rightarrow> template res" where
  "available_creation_template g app claimCode clientRef =
     (let refusal = Boom NotFound (''No entitlement available for claim code '' @ quoted claimCode
            @ '' on application '' @ quoted clientRef) [] in
      case find_entitlement_template g claimCode of
        None \<Rightarrow> Inl refusal
      | Some t \<Rightarrow>
          if tmMaterialised t \<or> \<not> is_available_at t (Some (current_position app)) then Inl refusal else Inr t)"

definition get_entitlement_creation_details ::
  "'q claims_env \<Rightarrow> string \<Rightarrow> string \<Rightarrow> string \<Rightarrow> string list option res \<Rightarrow> (grants_db, creation_option) action" where
  "get_entitlement_creation_details env code clientRef claimCode findHeldRoles =
     andThen (resolve_entitlements env code clientRef) (\<lambda>r.
     andThen (lift_res (require_claims_change (reGrant r) findHeldRoles)) (\<lambda>_.
     andThen (lift_res (available_creation_template (reGrant r) (reApplication r) claimCode clientRef)) (\<lambda>t.
     let opt = to_creation_option t (reExisting r) in
     if coCreatedCount opt \<ge> tmMaxEntitlements t
     then throw (Boom Conflict (''Application '' @ quoted clientRef @ '' already has '' @ show_nat (coCreatedCount opt)
            @ '' of '' @ show_nat (tmMaxEntitlements t) @ '' entitlements for claim code '' @ quoted claimCode) [])
     else ret opt)))"

definition get_entitlement_template_details ::
  "'q claims_env \<Rightarrow> string \<Rightarrow> string \<Rightarrow> string \<Rightarrow> (grants_db, creation_option) action" where
  "get_entitlement_template_details env code clientRef entitlementId =
     andThen (resolve_entitlements env code clientRef) (\<lambda>r.
     case find (\<lambda>e. enId e = entitlementId) (reExisting r) of
       None \<Rightarrow> throw (entitlement_not_found clientRef entitlementId)
     | Some e \<Rightarrow>
         (case find_entitlement_template (reGrant r) (enClaimCode e) of
            None \<Rightarrow> throw (invalid_claim_code code clientRef (enClaimCode e) (reGrant r))
          | Some t \<Rightarrow> ret (to_creation_option t (reExisting r))))"

section \<open>Fixed fields\<close>

definition flatten_data :: "submitted_data \<Rightarrow> (string \<times> json) list" where
  "flatten_data data = map (\<lambda>(name, v). (name, case v of None \<Rightarrow> JNull | Some x \<Rightarrow> x)) data"

definition fixed_fields :: "template \<Rightarrow> (string \<times> field_def) list" where
  "fixed_fields t = filter (\<lambda>(_, f). \<not> fdInput f) (template_fields t)"

fun mentions_reference :: "string \<Rightarrow> bool" where
  "mentions_reference (c # d # cs) = (c \<in> {CHR 0x24, CHR ''@''} \<and> d = CHR ''.'' \<or> mentions_reference (d # cs))"
| "mentions_reference _ = False"

definition needs_resolution :: "json option \<Rightarrow> bool" where
  "needs_resolution v =
     (case v of Some (JStr s) \<Rightarrow> starts_with s jsonata_prefix \<or> mentions_reference s | _ \<Rightarrow> False)"

definition unresolved_field :: "string \<Rightarrow> string \<Rightarrow> js_error" where
  "unresolved_field name claimCode =
     coded BadData (''Entitlement data for claim code '' @ single_quoted claimCode
       @ '' could not be resolved: field '' @ single_quoted name
       @ '' requests data the application does not provide.'') ''ENTITLEMENT_DATA_UNRESOLVED''"

definition fixed_value :: "field_def \<Rightarrow> json" where
  "fixed_value f = (case fdValue f of None \<Rightarrow> JNull | Some v \<Rightarrow> v)"

definition resolve_fixed_field :: "scope \<Rightarrow> string \<Rightarrow> string \<Rightarrow> field_def \<Rightarrow> json res" where
  "resolve_fixed_field scope claimCode name f =
     (if \<not> needs_resolution (fdValue f) then Inr (fixed_value f)
      else case resolve_refs scope (fixed_value f) of
        Inr v \<Rightarrow> Inr v
      | Inl (UnresolvedReference _) \<Rightarrow> Inl (unresolved_field name claimCode)
      | Inl e \<Rightarrow> Inl e)"

definition context_entries :: "reference_context \<Rightarrow> (string \<times> json) list" where
  "context_entries c =
     [(''clientRef'', JStr (rcClientRef c)), (''code'', JStr (rcCode c)), (''phase'', JStr (rcPhase c)),
      (''stage'', JStr (rcStage c)), (''status'', JStr (rcStatus c)),
      (''identifiers'', JObj (rcIdentifiers c)), (''answers'', JObj (rcAnswers c))]"

definition load_entitlement_reference_context ::
  "'q claims_env \<Rightarrow> string \<Rightarrow> string \<Rightarrow> (string \<times> json) list res" where
  "load_entitlement_reference_context env code clientRef =
     bind_res (ceAgreement env code clientRef) (\<lambda>a.
       Inr [(''agreement'', case a of None \<Rightarrow> JNull | Some x \<Rightarrow> x)])"

definition resolve_fixed_data ::
  "'q claims_env \<Rightarrow> template \<Rightarrow> application \<Rightarrow> string \<Rightarrow> string \<Rightarrow> (string \<times> json) list res" where
  "resolve_fixed_data env t app code clientRef =
     (let fields = fixed_fields t in
      if length fields = 0 then Inr []
      else
        let valuesNeedResolution = list_ex (\<lambda>(_, f). needs_resolution (fdValue f)) fields in
        bind_res (if valuesNeedResolution then load_entitlement_reference_context env code clientRef else Inr [])
          (\<lambda>referenceContext.
        let entries = context_entries (reference_context_of app);
            context = obj_spread (entries @ [(''application'', JObj entries)]) referenceContext;
            scope = \<lparr>spEvaluate = ceEvaluate env context, spRow = None, spNumberText = ceNumberText env\<rparr> in
        map_res (\<lambda>(name, f).
          bind_res (if valuesNeedResolution then resolve_fixed_field scope (tmClaimCode t) name f
                    else Inr (fixed_value f)) (\<lambda>v. Inr (name, v))) fields))"

section \<open>Creating\<close>

record creation_command =
  ncCode :: string
  ncClientRef :: string
  ncClaimCode :: string
  ncData :: submitted_data
  ncActor :: "json option"

definition max_limit_reached :: "string \<Rightarrow> js_error" where
  "max_limit_reached message = coded Conflict message ''ENTITLEMENT_LIMIT_EXCEEDED''"

definition rejected_creation ::
  "'q claims_env \<Rightarrow> creation_rejection \<Rightarrow> template \<Rightarrow> creation_command \<Rightarrow> 'q grant \<Rightarrow> js_error" where
  "rejected_creation env reason t c g =
     (if reason = InvalidData
      then coded BadData (invalid_data_message (ceSortNames env) t (ncData c) (ncClaimCode c)) ''INVALID_ENTITLEMENT_DATA''
      else if reason = CapacityReached
      then max_limit_reached (''Cannot create entitlement '' @ single_quoted (ncClaimCode c)
             @ ''. Maximum instance limit of '' @ show_nat (tmMaxEntitlements t) @ '' has been reached.'')
      else invalid_claim_code (ncCode c) (ncClientRef c) (ncClaimCode c) g)"

definition write_entitlement :: "entitlement \<Rightarrow> (grants_db, entitlement) action" where
  "write_entitlement e =
     andThen (insert_entitlement e) (\<lambda>inserted.
     if \<not> inserted then throw (RetryCreation ''SLOT_TAKEN'') else ret e)"

definition creation_audit :: "creation_command \<Rightarrow> template \<Rightarrow> entitlement \<Rightarrow> audit" where
  "creation_audit c t e =
     \<lparr>auEntity = ''ENTITLEMENT'', auAction = ''CREATE'', auEntityId = enId e,
      auDetails = [(''code'', JStr (ncCode c)), (''clientRef'', JStr (ncClientRef c)),
        (''claimCode'', JStr (ncClaimCode c)), (''name'', JStr (tmName t)),
        (''actor'', case ncActor c of None \<Rightarrow> JNull | Some a \<Rightarrow> a)] @ to_created_values t e,
      auSegregationRef = enId e\<rparr>"

definition write_entitlement_with_audit ::
  "'q claims_env \<Rightarrow> creation_command \<Rightarrow> template \<Rightarrow> entitlement \<Rightarrow> (grants_db, entitlement) action" where
  "write_entitlement_with_audit env c t e =
     with_audit (evValidAudit (ceEnv env)) (write_entitlement e)
       (\<lambda>result. Inr (map_option (creation_audit c t) result))"

definition entitlement_creation_decision ::
  "'q claims_env \<Rightarrow> creation_command \<Rightarrow> 'q grant \<Rightarrow> application \<Rightarrow> entitlement list \<Rightarrow> (template \<times> nat) res" where
  "entitlement_creation_decision env c g app existing =
     (case find_entitlement_template g (ncClaimCode c) of
        None \<Rightarrow> Inl (invalid_claim_code (ncCode c) (ncClientRef c) (ncClaimCode c) g)
      | Some t \<Rightarrow>
          (case assess_entitlement_creation t (Some (current_position app)) existing (ncData c) of
             Inl reason \<Rightarrow> Inl (rejected_creation env reason t c g)
           | Inr n \<Rightarrow> Inr (t, n)))"

definition entitlement_create ::
  "'q claims_env \<Rightarrow> creation_command \<Rightarrow> nat \<Rightarrow> string option \<Rightarrow> (string \<times> json) list \<Rightarrow> entitlement res" where
  "entitlement_create env c instanceNumber configVersion data =
     new_entitlement (ceEntitlementMessages env)
       \<lparr>enId = ceNewId env, enClientRef = ncClientRef c, enCode = ncCode c, enClaimCode = ncClaimCode c,
        enInstanceNumber = instanceNumber, enConfigVersion = configVersion, enData = data,
        enCreatedAt = evNow (ceEnv env), enUpdatedAt = None\<rparr>"

definition create_in_transaction ::
  "'q claims_env \<Rightarrow> creation_command \<Rightarrow> 'q grant \<Rightarrow> string option \<Rightarrow> (grants_db, entitlement) action" where
  "create_in_transaction env c g pinnedVersion =
     andThen (lock_application (ncCode c) (ncClientRef c)) (\<lambda>app.
     if pinned_version_of app \<noteq> pinnedVersion then throw (RetryCreation ''CONFIG_CHANGED'')
     else
       andThen (reads (find_existing_entitlements (ncClientRef c) (ncCode c))) (\<lambda>existing.
       andThen (lift_res (entitlement_creation_decision env c g app existing)) (\<lambda>(t, n).
       andThen (lift_res (resolve_fixed_data env t app (ncCode c) (ncClientRef c))) (\<lambda>fixed.
       andThen (lift_res (entitlement_create env c n (apCurrentConfigVersion app)
         (obj_spread (flatten_data (ncData c)) fixed))) (\<lambda>e.
       write_entitlement_with_audit env c t e)))))"

definition create_attempt ::
  "'q claims_env \<Rightarrow> nat \<Rightarrow> creation_command \<Rightarrow> string list option res \<Rightarrow> (grants_db, entitlement) action" where
  "create_attempt env n c findHeldRoles =
     andThen (map_application_not_found (ncCode c) (ncClientRef c)) (\<lambda>app.
     let pinnedVersion = pinned_version_of app in
     andThen (lift_res (grant_in_force env (ncCode c) pinnedVersion)) (\<lambda>g.
     andThen (lift_res (require_claims_change g findHeldRoles)) (\<lambda>_.
     andThen (writes (ceMeanwhile env n)) (\<lambda>_.
     with_transaction (create_in_transaction env c g pinnedVersion)))))"

definition creation_exhausted :: "string \<Rightarrow> creation_command \<Rightarrow> js_error" where
  "creation_exhausted reason c =
     (if reason = ''SLOT_TAKEN''
      then max_limit_reached (''Cannot create entitlement '' @ single_quoted (ncClaimCode c)
             @ ''. Maximum instance limit has been reached.'')
      else coded Conflict (''Grant configuration for '' @ single_quoted (ncCode c)
             @ '' changed while creating entitlement '' @ single_quoted (ncClaimCode c) @ ''. Try again.'')
             ''CONFIGURATION_CHANGED'')"

definition creation_retries :: nat where "creation_retries = 1"

fun retry_creation ::
  "'q claims_env \<Rightarrow> creation_command \<Rightarrow> nat \<Rightarrow> string list option res \<Rightarrow> (grants_db, entitlement) action" where
  "retry_creation env c 0 findHeldRoles =
     catch (create_attempt env creation_retries c findHeldRoles) (\<lambda>error.
       case error of RetryCreation reason \<Rightarrow> throw (creation_exhausted reason c) | _ \<Rightarrow> throw error)"
| "retry_creation env c (Suc remaining) findHeldRoles =
     catch (create_attempt env (creation_retries - Suc remaining) c findHeldRoles) (\<lambda>error.
       case error of RetryCreation reason \<Rightarrow> retry_creation env c remaining findHeldRoles | _ \<Rightarrow> throw error)"

definition create_entitlement ::
  "'q claims_env \<Rightarrow> creation_command \<Rightarrow> string list option res \<Rightarrow> (grants_db, entitlement) action" where
  "create_entitlement env c findHeldRoles = retry_creation env c creation_retries findHeldRoles"

section \<open>Changing\<close>

record update_command =
  ucmCode :: string
  ucmClientRef :: string
  ucmEntitlementId :: string
  ucmData :: submitted_data
  ucmActor :: "json option"

definition template_for_update :: "update_command \<Rightarrow> 'q grant \<Rightarrow> entitlement \<Rightarrow> template res" where
  "template_for_update c g e =
     (case find_entitlement_template g (enClaimCode e) of
        None \<Rightarrow> Inl (invalid_claim_code (ucmCode c) (ucmClientRef c) (enClaimCode e) g)
      | Some t \<Rightarrow> Inr t)"

definition entitlement_to_update ::
  "'q claims_env \<Rightarrow> update_command \<Rightarrow> entitlement list \<Rightarrow> entitlement res" where
  "entitlement_to_update env c existing =
     (case find (\<lambda>e. enId e = ucmEntitlementId c) existing of
        None \<Rightarrow> Inl (entitlement_not_found (ucmClientRef c) (ucmEntitlementId c))
      | Some doc \<Rightarrow> new_entitlement (ceEntitlementMessages env) doc)"

definition refuse_once_claimed :: "update_command \<Rightarrow> claimable \<Rightarrow> (grants_db, unit) action" where
  "refuse_once_claimed c claimable =
     andThen (reads (count_by_entitlement (ucmCode c) (ucmClientRef c) (ucmEntitlementId c))) (\<lambda>claimCount.
     if \<not> can_be_changed claimable claimCount then throw (entitlement_claimed claimable) else ret ())"

definition change_entitlement ::
  "'q claims_env \<Rightarrow> update_command \<Rightarrow> entitlement \<Rightarrow> template \<Rightarrow> entitlement res" where
  "change_entitlement env c e t =
     (case with_input_data (ceEntitlementMessages env) e t (ucmData c) (evNow (ceEnv env)) of
        Inl (InvalidEntitlementData _) \<Rightarrow> Inl (invalid_update_data (ceSortNames env) t (ucmData c) (tmClaimCode t))
      | r \<Rightarrow> r)"

definition update_audit :: "update_command \<Rightarrow> template \<Rightarrow> entitlement \<Rightarrow> entitlement \<Rightarrow> audit" where
  "update_audit c t previous e =
     \<lparr>auEntity = ''ENTITLEMENT'', auAction = ''UPDATE'', auEntityId = enId e,
      auDetails = [(''code'', JStr (ucmCode c)), (''clientRef'', JStr (ucmClientRef c)),
        (''claimCode'', JStr (enClaimCode e)), (''name'', JStr (tmName t)),
        (''actor'', case ucmActor c of None \<Rightarrow> JNull | Some a \<Rightarrow> a)] @ to_changed_values t previous e,
      auSegregationRef = enId e\<rparr>"

definition update_in_transaction ::
  "'q claims_env \<Rightarrow> update_command \<Rightarrow> 'q grant \<Rightarrow> string option \<Rightarrow> (grants_db, entitlement) action" where
  "update_in_transaction env c g pinnedVersion =
     andThen (lock_application (ucmCode c) (ucmClientRef c)) (\<lambda>app.
     if pinned_version_of app \<noteq> pinnedVersion then throw (configuration_changed (ucmCode c))
     else
       andThen (reads (find_existing_entitlements (ucmClientRef c) (ucmCode c))) (\<lambda>existing.
       andThen (lift_res (entitlement_to_update env c existing)) (\<lambda>e.
       andThen (lift_res (template_for_update c g e)) (\<lambda>t.
       andThen (refuse_once_claimed c (from_persisted e t)) (\<lambda>_.
       andThen (lift_res (change_entitlement env c e t)) (\<lambda>changed.
       with_audit (evValidAudit (ceEnv env))
         (andThen (update_entitlement_data changed) (\<lambda>_. ret changed))
         (\<lambda>result. Inr (map_option (update_audit c t e) result))))))))"

definition update_entitlement ::
  "'q claims_env \<Rightarrow> update_command \<Rightarrow> string list option res \<Rightarrow> (grants_db, entitlement) action" where
  "update_entitlement env c findHeldRoles =
     andThen (map_application_not_found (ucmCode c) (ucmClientRef c)) (\<lambda>app.
     let pinnedVersion = pinned_version_of app in
     andThen (lift_res (grant_in_force env (ucmCode c) pinnedVersion)) (\<lambda>g.
     andThen (lift_res (require_claims_change g findHeldRoles)) (\<lambda>_.
     andThen (writes (ceMeanwhile env 0)) (\<lambda>_.
     with_transaction (update_in_transaction env c g pinnedVersion)))))"

end
