(* ===== verification/EntitlementLaws.thy ===== *)
theory EntitlementLaws
  imports EntitlementService
begin

text \<open>
  What creating and changing entitlements keep: no two share a slot or an id, no application has
  more of a kind than its template allows, and one with a claim against it stays as it is.
\<close>

section \<open>The transaction and the collections\<close>

lemma settle_outside_collections [simp]:
  "dbEntitlements (settle_outside ws db) = dbEntitlements db"
  "dbClaims (settle_outside ws db) = dbClaims db"
proof -
  have "dbEntitlements (foldl (\<lambda>acc w. apply_outside w acc) db ws) = dbEntitlements db
    \<and> dbClaims (foldl (\<lambda>acc w. apply_outside w acc) db ws) = dbClaims db"
  proof (induction ws arbitrary: db)
    case (Cons w ws)
    then show ?case by (cases w) simp_all
  qed simp
  then show "dbEntitlements (settle_outside ws db) = dbEntitlements db" "dbClaims (settle_outside ws db) = dbClaims db"
    by (simp_all add: settle_outside_def)
qed

lemma find_existing_outside [simp]:
  "find_existing_entitlements r g (db\<lparr>dbOutside := ws\<rparr>) = find_existing_entitlements r g db"
  by (simp add: find_existing_entitlements_def)

lemma count_outside [simp]:
  "count_by_entitlement g r i (db\<lparr>dbOutside := ws\<rparr>) = count_by_entitlement g r i db"
  by (simp add: count_by_entitlement_def)

lemma find_application_not_outside [simp]:
  "find_application r g (db\<lparr>dbOutside := ws\<rparr>) = find_application r g db"
  by (simp add: find_application_def)

text \<open>A transaction that throws changes neither collection.\<close>

lemma failed_transaction:
  assumes "with_transaction cb db = (Inl e, db')"
  shows "dbEntitlements db' = dbEntitlements db" and "dbClaims db' = dbClaims db"
  using assms by (auto simp: with_transaction_failed)

section \<open>Creating\<close>

lemma decision_ok [ok_iff]:
  "entitlement_creation_decision env c g app existing = Inr (t, n) \<longleftrightarrow>
     find_entitlement_template g (ncClaimCode c) = Some t
     \<and> assess_entitlement_creation t (Some (current_position app)) existing (ncData c) = Inr n"
  by (auto simp: entitlement_creation_decision_def split: option.splits sum.splits)

lemma insert_entitlement_ok [ok_iff]:
  "insert_entitlement e s = (Inr True, t) \<longleftrightarrow>
     entitlement_slot e \<notin> set (map entitlement_slot (dbEntitlements s)) \<and> enId e \<notin> set (map enId (dbEntitlements s))
     \<and> t = s\<lparr>dbEntitlements := dbEntitlements s @ [e]\<rparr>"
  by (auto simp: insert_entitlement_def)

lemma created_entitlement:
  assumes "with_transaction (create_in_transaction env c g pin) s = (Inr e, s')"
  obtains app t where "find_application (ncClientRef c) (ncCode c) s = Some app" and "pinned_version_of app = pin"
    and "find_entitlement_template g (ncClaimCode c) = Some t"
    and "assess_entitlement_creation t (Some (current_position app))
           (find_existing_entitlements (ncClientRef c) (ncCode c) s) (ncData c) = Inr (enInstanceNumber e)"
    and "enClientRef e = ncClientRef c" "enCode e = ncCode c" "enClaimCode e = ncClaimCode c" "entitlement_schema e"
    and "dbEntitlements s' = dbEntitlements s @ [e]" "dbClaims s' = dbClaims s"
    and "entitlement_slot e \<notin> set (map entitlement_slot (dbEntitlements s))"
    and "enId e \<notin> set (map enId (dbEntitlements s))"
proof -
  obtain u where run: "create_in_transaction env c g pin (s\<lparr>dbOutside := []\<rparr>) = (Inr e, u)"
    and s': "s' = settle_outside (dbOutside u) u"
    using assms unfolding with_transaction_ok by blast
  obtain app t n fixed e0 where app: "find_application (ncClientRef c) (ncCode c) s = Some app" "pinned_version_of app = pin"
    and t: "find_entitlement_template g (ncClaimCode c) = Some t"
    and n: "assess_entitlement_creation t (Some (current_position app))
        (find_existing_entitlements (ncClientRef c) (ncCode c) s) (ncData c) = Inr n"
    and e0: "entitlement_create env c n (apCurrentConfigVersion app) (obj_spread (flatten_data (ncData c)) fixed) = Inr e0"
    and w: "write_entitlement_with_audit env c t e0 (s\<lparr>dbOutside := []\<rparr>) = (Inr e, u)"
    using run by (auto simp: create_in_transaction_def lock_application_def andThen_Inr decision_ok
        split: if_splits option.splits)
  have fields: "enClientRef e0 = ncClientRef c" "enCode e0 = ncCode c" "enClaimCode e0 = ncClaimCode c"
      "enInstanceNumber e0 = n" "entitlement_schema e0"
    using e0 by (auto simp: entitlement_create_def new_entitlement_def split: if_splits)
  have "e = e0 \<and> entitlement_slot e0 \<notin> set (map entitlement_slot (dbEntitlements s))
      \<and> enId e0 \<notin> set (map enId (dbEntitlements s)) \<and> dbEntitlements u = dbEntitlements s @ [e0] \<and> dbClaims u = dbClaims s"
    using w by (auto simp: write_entitlement_with_audit_def write_entitlement_def ok_iff split: if_splits)
  then show ?thesis using that app t n fields s' by simp
qed

text \<open>An attempt reads, lets others in, and runs its transaction.\<close>

lemma create_attempt_cases:
  assumes "create_attempt env n c held s = (r, s')"
  shows "(\<exists>e. r = Inl e \<and> s' = s) \<or>
    (\<exists>app g. find_application (ncClientRef c) (ncCode c) s = Some app
      \<and> ceResolve env (ncCode c) (pinned_version_of app) = Inr (Some g)
      \<and> require_claims_change g held = Inr AccessFull
      \<and> with_transaction (create_in_transaction env c g (pinned_version_of app)) (ceMeanwhile env n s) = (r, s'))"
proof -
  have change: "require_claims_change g held = Inr a \<Longrightarrow> a = AccessFull" for g :: "'a grant" and a
    by (auto simp: require_claims_change_def ok_iff)
  show ?thesis
    using assms change
    by (auto simp: create_attempt_def map_application_not_found_def find_application_by_client_ref_and_code_def
        catch_def andThen_def Let_def grant_in_force_def application_missing_def bind_res_def
        split: option.splits sum.splits)
qed

section \<open>The store of entitlements\<close>

text \<open>\<open>limit\<close> gives the most there may be of a kind on one application, for each grant and claim code.\<close>

definition of_kind :: "string \<Rightarrow> string \<Rightarrow> string \<Rightarrow> entitlement list \<Rightarrow> entitlement list" where
  "of_kind clientRef code claimCode es =
     filter (\<lambda>e. enClientRef e = clientRef \<and> enCode e = code \<and> enClaimCode e = claimCode) es"

definition entitlements_ok :: "(string \<Rightarrow> string \<Rightarrow> nat) \<Rightarrow> grants_db \<Rightarrow> bool" where
  "entitlements_ok limit db \<longleftrightarrow>
     distinct (map entitlement_slot (dbEntitlements db)) \<and> distinct (map enId (dbEntitlements db))
     \<and> (\<forall>clientRef code claimCode. length (of_kind clientRef code claimCode (dbEntitlements db)) \<le> limit code claimCode)"

definition grants_within :: "(string \<Rightarrow> string \<Rightarrow> nat) \<Rightarrow> 'q claims_env \<Rightarrow> bool" where
  "grants_within limit env \<longleftrightarrow> (\<forall>code v g claimCode t. ceResolve env code v = Inr (Some g) \<longrightarrow>
     find_entitlement_template g claimCode = Some t \<longrightarrow> tmMaxEntitlements t \<le> limit code claimCode)"

definition others_keep :: "(grants_db \<Rightarrow> bool) \<Rightarrow> 'q claims_env \<Rightarrow> bool" where
  "others_keep P env \<longleftrightarrow> (\<forall>n s. P s \<longrightarrow> P (ceMeanwhile env n s))"

lemma instances_of_kind:
  assumes "tmClaimCode t = claimCode"
  shows "instances_of t (find_existing_entitlements clientRef code db) = of_kind clientRef code claimCode (dbEntitlements db)"
  using assms by (auto simp: instances_of_def find_existing_entitlements_def of_kind_def intro: filter_cong)

lemma template_code: "find_entitlement_template g claimCode = Some t \<Longrightarrow> tmClaimCode t = claimCode"
  by (auto simp: find_entitlement_template_def dest: find_SomeD)

lemma created_entitlements_ok:
  assumes ok: "entitlements_ok limit s" and within: "grants_within limit env"
    and g: "ceResolve env (ncCode c) v = Inr (Some g)"
    and run: "with_transaction (create_in_transaction env c g pin) s = (Inr e, s')"
  shows "entitlements_ok limit s'"
  using run
proof (rule created_entitlement)
  fix app t
  assume t: "find_entitlement_template g (ncClaimCode c) = Some t"
    and n: "assess_entitlement_creation t (Some (current_position app))
           (find_existing_entitlements (ncClientRef c) (ncCode c) s) (ncData c) = Inr (enInstanceNumber e)"
    and e: "enClientRef e = ncClientRef c" "enCode e = ncCode c" "enClaimCode e = ncClaimCode c"
    and s': "dbEntitlements s' = dbEntitlements s @ [e]"
    and fresh: "entitlement_slot e \<notin> set (map entitlement_slot (dbEntitlements s))"
      "enId e \<notin> set (map enId (dbEntitlements s))"
  have "tmMaxEntitlements t \<le> limit (ncCode c) (ncClaimCode c)" using within g t unfolding grants_within_def by blast
  moreover have "length (of_kind (ncClientRef c) (ncCode c) (ncClaimCode c) (dbEntitlements s)) < tmMaxEntitlements t"
    using n instances_of_kind [OF template_code [OF t]] by (simp add: assess_allowed)
  ultimately have "length (of_kind r k cc (dbEntitlements s @ [e])) \<le> limit k cc" for r k cc
    using ok e by (auto simp: entitlements_ok_def of_kind_def)
  then show ?thesis using ok fresh s' by (simp add: entitlements_ok_def)
qed

lemma entitlements_ok_same:
  "dbEntitlements t = dbEntitlements s \<Longrightarrow> entitlements_ok limit t = entitlements_ok limit s"
  by (simp add: entitlements_ok_def)

lemma attempt_keeps:
  assumes "grants_within limit env" and "others_keep (entitlements_ok limit) env"
  shows "keeps (entitlements_ok limit) (create_attempt env n c held)"
proof (rule keepsI)
  fix s assume ok: "entitlements_ok limit s"
  obtain r s' where run: "create_attempt env n c held s = (r, s')" by fastforce
  have m: "entitlements_ok limit (ceMeanwhile env n s)" using assms(2) ok by (simp add: others_keep_def)
  have "entitlements_ok limit s'"
    using create_attempt_cases [OF run]
  proof (elim disjE exE conjE)
    fix app g
    assume g: "ceResolve env (ncCode c) (pinned_version_of app) = Inr (Some g)"
      and t: "with_transaction (create_in_transaction env c g (pinned_version_of app)) (ceMeanwhile env n s) = (r, s')"
    show ?thesis
    proof (cases r)
      case (Inl e)
      then show ?thesis using t m failed_transaction(1) entitlements_ok_same by metis
    next
      case (Inr e)
      then show ?thesis using created_entitlements_ok [OF m assms(1) g] t by simp
    qed
  qed (simp add: ok)
  then show "entitlements_ok limit (snd (create_attempt env n c held s))" using run by simp
qed

lemma creation_keeps:
  assumes "grants_within limit env" and "others_keep (entitlements_ok limit) env"
  shows "keeps (entitlements_ok limit) (create_entitlement env c held)"
proof -
  have "keeps (entitlements_ok limit) (retry_creation env c n held)" for n
  proof (induction n)
    case 0
    show ?case using attempt_keeps [OF assms] by (auto split: js_error.splits)
  next
    case (Suc n)
    then show ?case using attempt_keeps [OF assms] by (auto split: js_error.splits)
  qed
  then show ?thesis by (simp add: create_entitlement_def)
qed

end
