(* ===== verification/ClaimsService.thy ===== *)
theory ClaimsService
  imports EntitlementLaws "HOL-Library.List_Lexorder" "HOL-Library.Char_ord"
begin

text \<open>
  Submitting a claim (\<open>src/grants/services/claims.service.js\<close>,
  \<open>src/grants/repositories/claim.repository.js\<close>, \<open>store-claim-case.use-case.js\<close>,
  \<open>has-remaining-application-claim-capacity.use-case.js\<close>, \<open>claim-payment-requested.event.js\<close>): a claim is
  found again by its reference, refused by position or capacity, stored with its audit, told to
  Caseworking, and may move the application on and ask for its payment, all in one transaction on
  the locked application. An attempt that meets a changed version or a duplicate key is made once
  more. The request payload is the entries of its two objects; the route has checked their shape.
\<close>

section \<open>The stored claims\<close>

definition claim_identity :: "claim \<Rightarrow> string \<times> string \<times> string" where
  "claim_identity c = (kmCode c, kmClientRef c, kmClientClaimRef c)"

definition exists_by_client_claim_ref :: "string \<Rightarrow> string \<Rightarrow> string \<Rightarrow> grants_db \<Rightarrow> bool" where
  "exists_by_client_claim_ref code clientRef clientClaimRef db \<longleftrightarrow>
     list_ex (\<lambda>(_, c). kmCode c = code \<and> kmClientRef c = clientRef \<and> kmClientClaimRef c = clientClaimRef) (dbClaims db)"

text \<open>The collection has a unique index on the identity of a claim.\<close>

definition insert_claim_row :: "string \<Rightarrow> claim \<Rightarrow> (grants_db, string) action" where
  "insert_claim_row newId c = (\<lambda>db.
     if claim_identity c \<in> set (map (claim_identity \<circ> snd) (dbClaims db))
     then (Inl (DuplicateKey [''code'', ''clientRef'', ''clientClaimRef'']), db)
     else (Inr newId, db\<lparr>dbClaims := dbClaims db @ [(newId, c)]\<rparr>))"

text \<open>Oldest first: the sort is stable.\<close>

definition find_claims_by_application :: "string \<Rightarrow> string \<Rightarrow> grants_db \<Rightarrow> claim list" where
  "find_claims_by_application code clientRef db =
     sort_key kmCreatedAt (filter (\<lambda>c. kmCode c = code \<and> kmClientRef c = clientRef) (map snd (dbClaims db)))"

section \<open>The command\<close>

record claim_command =
  lcCode :: string
  lcClientRef :: string
  lcMetadata :: "(string \<times> json) list"
  lcClaim :: "(string \<times> json) list"

definition entry_text :: "string \<Rightarrow> (string \<times> json) list \<Rightarrow> string" where
  "entry_text k entries = (case text_entry k entries of None \<Rightarrow> [] | Some s \<Rightarrow> s)"

definition claim_ref_of :: "claim_command \<Rightarrow> string" where
  "claim_ref_of c = entry_text ''clientClaimRef'' (lcMetadata c)"

definition claimed_entitlement_of :: "claim_command \<Rightarrow> string" where
  "claimed_entitlement_of c = entry_text ''entitlementId'' (lcClaim c)"

definition assert_path_matches_payload :: "claim_command \<Rightarrow> unit res" where
  "assert_path_matches_payload c =
     (if text_entry ''grantCode'' (lcMetadata c) \<noteq> Some (lcCode c)
      then Inl (Boom BadRequest ''The grant code provided in the path parameters does not match the grant code specified in the payload metadata.'' [])
      else if text_entry ''clientRef'' (lcMetadata c) \<noteq> Some (lcClientRef c)
      then Inl (Boom BadRequest ''The client reference provided in the path parameters does not match the client reference specified in the payload metadata.'' [])
      else Inr ())"

section \<open>What can be claimed\<close>

definition resolve_claim_grant :: "'q claims_env \<Rightarrow> string \<Rightarrow> string option \<Rightarrow> 'q grant res" where
  "resolve_claim_grant env code pinnedVersion =
     bind_res (ceResolve env code pinnedVersion) (\<lambda>g. case g of
       None \<Rightarrow> Inl (Boom NotFound (''Grant with code '' @ quoted code @ '' not found'') []) | Some x \<Rightarrow> Inr x)"

definition persisted_candidates :: "template \<Rightarrow> entitlement list \<Rightarrow> claimable list" where
  "persisted_candidates t existing =
     map (\<lambda>e. from_persisted e t)
       (sort_key enInstanceNumber (filter (\<lambda>e. enClaimCode e = tmClaimCode t) existing))"

definition candidates_for_template :: "template \<Rightarrow> entitlement list \<Rightarrow> claimable list" where
  "candidates_for_template t existing =
     (if tmClaim t = None then [] else if tmMaterialised t then [] else persisted_candidates t existing)"

definition candidates_for :: "'q grant \<Rightarrow> entitlement list \<Rightarrow> claimable list" where
  "candidates_for g existing = concat (map (\<lambda>t. candidates_for_template t existing) (grEntitlementTemplates g))"

definition entitlement_missing :: "string \<Rightarrow> string \<Rightarrow> js_error" where
  "entitlement_missing entitlementId clientRef = Boom NotFound (''Entitlement '' @ quoted entitlementId
     @ '' not found for application '' @ quoted clientRef) []"

definition claimable_for ::
  "'q grant \<Rightarrow> application \<Rightarrow> entitlement list \<Rightarrow> string \<Rightarrow> claimable res" where
  "claimable_for g app existing entitlementId =
     (case find (\<lambda>e. enId e = entitlementId) existing of
        None \<Rightarrow> Inl (entitlement_missing entitlementId (apClientRef app))
      | Some e \<Rightarrow>
          (case find_entitlement_template g (enClaimCode e) of
             Some t \<Rightarrow> if tmClaim t \<noteq> None then Inr (from_persisted e t)
               else Inl (Boom NotFound (''Entitlement template with claimCode '' @ quoted (enClaimCode e)
                      @ '' not found for grant '' @ quoted (apCode app)) [])
           | None \<Rightarrow> Inl (Boom NotFound (''Entitlement template with claimCode '' @ quoted (enClaimCode e)
                      @ '' not found for grant '' @ quoted (apCode app)) [])))"

definition claimable_id :: "claimable \<Rightarrow> string" where
  "claimable_id c = (case clEntitlement c of None \<Rightarrow> [] | Some e \<Rightarrow> enId e)"

definition count_claims_for :: "claimable \<Rightarrow> grants_db \<Rightarrow> nat" where
  "count_claims_for c db = count_by_entitlement (clCode c) (clClientRef c) (claimable_id c) db"

definition is_claimable_now :: "claimable \<Rightarrow> application \<Rightarrow> grants_db \<Rightarrow> bool" where
  "is_claimable_now c app db \<longleftrightarrow> can_accept_claim c (Some (current_position app)) (count_claims_for c db) = Inr ()"

definition application_and_grant ::
  "'q claims_env \<Rightarrow> string \<Rightarrow> string \<Rightarrow> (grants_db, application \<times> 'q grant) action" where
  "application_and_grant env code clientRef =
     andThen (find_application_by_client_ref_and_code clientRef code) (\<lambda>app.
     andThen (lift_res (resolve_claim_grant env code (pinned_version_of app))) (\<lambda>g. ret (app, g)))"

definition candidates_for_application ::
  "'q claims_env \<Rightarrow> string \<Rightarrow> string \<Rightarrow> (grants_db, application \<times> claimable list) action" where
  "candidates_for_application env code clientRef =
     andThen (application_and_grant env code clientRef) (\<lambda>(app, g).
     andThen (reads (find_existing_entitlements clientRef code)) (\<lambda>existing.
     ret (app, candidates_for g existing)))"

definition list_claimable_entitlements ::
  "'q claims_env \<Rightarrow> string \<Rightarrow> string \<Rightarrow> (grants_db, claimable list) action" where
  "list_claimable_entitlements env code clientRef =
     andThen (candidates_for_application env code clientRef) (\<lambda>(app, candidates).
     reads (\<lambda>db. filter (\<lambda>c. is_claimable_now c app db) candidates))"

definition list_entitlements_with_claim_capacity ::
  "'q claims_env \<Rightarrow> string \<Rightarrow> string \<Rightarrow> (grants_db, (claimable \<times> bool) list) action" where
  "list_entitlements_with_claim_capacity env code clientRef =
     andThen (candidates_for_application env code clientRef) (\<lambda>(app, candidates).
     reads (\<lambda>db. map (\<lambda>c. (c, can_be_changed c (count_claims_for c db)))
       (filter (\<lambda>c. has_remaining_capacity c (count_claims_for c db)) candidates)))"

definition get_changeable_entitlement ::
  "'q claims_env \<Rightarrow> string \<Rightarrow> string \<Rightarrow> string \<Rightarrow> (grants_db, claimable) action" where
  "get_changeable_entitlement env code clientRef entitlementId =
     andThen (candidates_for_application env code clientRef) (\<lambda>(app, candidates).
     case find (\<lambda>c. claimable_id c = entitlementId) candidates of
       None \<Rightarrow> throw (entitlement_not_found clientRef entitlementId)
     | Some c \<Rightarrow>
         andThen (reads (count_claims_for c)) (\<lambda>n.
         if \<not> can_be_changed c n then throw (entitlement_claimed c) else ret c))"

section \<open>A submitted claim as it is listed\<close>

record submitted_claim =
  scmClientClaimRef :: string
  scmClaimCode :: string
  scmName :: string
  scmQuantity :: "(json \<times> string option) option"
  scmTotalClaimAmountPence :: "json option"
  scmRequiresApproval :: bool
  scmSubmittedAt :: string

definition unit_fields :: "template option \<Rightarrow> (string \<times> field_def) list" where
  "unit_fields t = filter (\<lambda>(_, f). truthy (fdUnit f) \<noteq> None) (case t of None \<Rightarrow> [] | Some x \<Rightarrow> template_fields x)"

definition unit_for :: "template option \<Rightarrow> string option" where
  "unit_for t =
     (let fields = unit_fields t in
      case find (\<lambda>(_, f). fdInput f) fields of
        Some (_, f) \<Rightarrow> fdUnit f
      | None \<Rightarrow> (case fields of [] \<Rightarrow> None | (_, f) # _ \<Rightarrow> fdUnit f))"

definition quantity_for :: "claim \<Rightarrow> template option \<Rightarrow> (json \<times> string option) option" where
  "quantity_for c t =
     (case map_of (kmClaim c) ''quantity'' of Some (JNum n) \<Rightarrow> Some (JNum n, unit_for t) | _ \<Rightarrow> None)"

definition requires_approval_for :: "template option \<Rightarrow> bool" where
  "requires_approval_for t =
     (case Option.bind t tmClaim of None \<Rightarrow> False | Some r \<Rightarrow> crRequiresApproval r)"

definition to_submitted_claim :: "'q grant \<Rightarrow> claim \<Rightarrow> submitted_claim" where
  "to_submitted_claim g c =
     (let t = find_entitlement_template g (kmClaimCode c) in
      \<lparr>scmClientClaimRef = kmClientClaimRef c, scmClaimCode = kmClaimCode c,
       scmName = (case t of None \<Rightarrow> kmClaimCode c | Some x \<Rightarrow> tmName x), scmQuantity = quantity_for c t,
       scmTotalClaimAmountPence = map_of (kmClaim c) ''totalClaimAmountPence'',
       scmRequiresApproval = requires_approval_for t, scmSubmittedAt = kmCreatedAt c\<rparr>)"

definition list_submitted_claims ::
  "'q claims_env \<Rightarrow> string \<Rightarrow> string \<Rightarrow> (grants_db, submitted_claim list) action" where
  "list_submitted_claims env code clientRef =
     andThen (reads (find_claims_by_application code clientRef)) (\<lambda>claims.
     if length claims = 0 then ret []
     else andThen (application_and_grant env code clientRef) (\<lambda>(app, g).
          ret (map (to_submitted_claim g) claims)))"

section \<open>Submitting a claim\<close>

text \<open>\<open>Some False\<close> answers a submission that was made before; a new one answers its id.\<close>

datatype claim_result = Replayed | Created string

definition existing_replay :: "claim_command \<Rightarrow> (grants_db, claim_result option) action" where
  "existing_replay c =
     reads (\<lambda>db. if exists_by_client_claim_ref (lcCode c) (lcClientRef c) (claim_ref_of c) db then Some Replayed else None)"

definition claim_audit :: "claim_command \<Rightarrow> string \<Rightarrow> string \<Rightarrow> audit" where
  "claim_audit c claimCode claimId =
     \<lparr>auEntity = ''CLAIM'', auAction = ''SUBMIT'', auEntityId = claimId,
      auDetails = [(''code'', JStr (lcCode c)), (''clientRef'', JStr (lcClientRef c)), (''claimCode'', JStr claimCode)],
      auSegregationRef = claimId\<rparr>"

definition insert_claim :: "'q claims_env \<Rightarrow> claim_command \<Rightarrow> string \<Rightarrow> (grants_db, string \<times> claim) action" where
  "insert_claim env c claimCode =
     andThen (lift_res (claim_create (ceClaimMessages env) (evNow (ceEnv env)) (lcCode c) (lcClientRef c) claimCode
       (claim_ref_of c) (lcMetadata c) (lcClaim c))) (\<lambda>k.
     andThen (insert_claim_row (ceNewClaimId env) k) (\<lambda>insertedId. ret (insertedId, k)))"

definition insert_claim_with_audit ::
  "'q claims_env \<Rightarrow> claim_command \<Rightarrow> string \<Rightarrow> (grants_db, string \<times> claim) action" where
  "insert_claim_with_audit env c claimCode =
     with_audit (evValidAudit (ceEnv env)) (insert_claim env c claimCode)
       (\<lambda>result. Inr (map_option (\<lambda>(i, _). claim_audit c claimCode i) result))"

definition locked_application_for ::
  "claim_command \<Rightarrow> string option \<Rightarrow> (grants_db, application) action" where
  "locked_application_for c pinnedVersion =
     andThen (find_application_by_client_ref_and_code (lcClientRef c) (lcCode c)) (\<lambda>app.
     if pinned_version_of app \<noteq> pinnedVersion then throw RetryClaimSubmission else ret app)"

definition claimable_with_capacity ::
  "claim_command \<Rightarrow> 'q grant \<Rightarrow> application \<Rightarrow> (grants_db, claimable) action" where
  "claimable_with_capacity c g app =
     andThen (reads (find_existing_entitlements (lcClientRef c) (lcCode c))) (\<lambda>existing.
     andThen (lift_res (claimable_for g app existing (claimed_entitlement_of c))) (\<lambda>k.
     andThen (reads (count_by_entitlement (lcCode c) (lcClientRef c) (claimable_id k))) (\<lambda>n.
     case can_accept_claim k (Some (current_position app)) n of
       Inr _ \<Rightarrow> ret k
     | Inl MaximumClaimsReached \<Rightarrow>
         throw (Boom BadData ''Maximum number of claims for this entitlement has been reached.'' [])
     | Inl WrongClaimPosition \<Rightarrow>
         throw (Boom Conflict ''Application is not in a valid state to accept claims for this entitlement.'' []))))"

definition claim_template_for ::
  "claim_command \<Rightarrow> 'q grant \<Rightarrow> (grants_db, template option) action" where
  "claim_template_for c g =
     andThen (reads (find_existing_entitlements (lcClientRef c) (lcCode c))) (\<lambda>existing.
     case find (\<lambda>e. enId e = claimed_entitlement_of c) existing of
       None \<Rightarrow> throw (entitlement_missing (claimed_entitlement_of c) (lcClientRef c))
     | Some e \<Rightarrow> ret (find_entitlement_template g (enClaimCode e)))"

definition template_pays_on_submission :: "template option \<Rightarrow> bool" where
  "template_pays_on_submission t \<longleftrightarrow>
     (case Option.bind t tmClaim of None \<Rightarrow> False | Some r \<Rightarrow> \<not> crRequiresApproval r)"

definition claim_payment_for ::
  "'q claims_env \<Rightarrow> claim_command \<Rightarrow> 'q grant \<Rightarrow> string option \<Rightarrow> (grants_db, bool) action" where
  "claim_payment_for env c g configVersion =
     andThen (claim_template_for c g) (\<lambda>t.
     case truthy configVersion of
       None \<Rightarrow> ret False
     | Some v \<Rightarrow> ret (template_pays_on_submission t
         \<and> find_config_definition (lcCode c) v PaymentFile (ceRows env) \<noteq> None))"

definition supplementary_claim_data :: "claim \<Rightarrow> string \<Rightarrow> (string \<times> json) list" where
  "supplementary_claim_data k claimId =
     obj_spread (filter (\<lambda>(name, _). name \<noteq> ''totalClaimAmountPence'') (kmClaim k))
       ([(''gasClaimId'', JStr claimId), (''clientClaimRef'', JStr (kmClientClaimRef k)),
         (''claimCode'', JStr (kmClaimCode k))]
        @ (case map_of (kmClaim k) ''totalClaimAmountPence'' of None \<Rightarrow> [] | Some a \<Rightarrow> [(''claimAmountPence'', a)])
        @ (case map_of (kmMetadata k) ''sbi'' of None \<Rightarrow> [] | Some s \<Rightarrow> [(''sbi'', s)])
        @ [(''status'', JStr ''SUBMITTED''), (''submittedAt'', JStr (kmCreatedAt k))])"

definition store_claim_case ::
  "'q claims_env \<Rightarrow> claim \<Rightarrow> string \<Rightarrow> (grants_db, unit) action" where
  "store_claim_case env k claimId =
     save_grant_events [(UpdateCaseSupplementaryData
       \<lparr>cuCaseRef = kmClientRef k, cuWorkflowCode = kmCode k, cuTargetNode = ''claims'', cuDataType = ''ARRAY'',
        cuKey = ''gasClaimId'', cuData = supplementary_claim_data k claimId\<rparr>,
       evUpdateCaseStatusTopic (ceEnv env))]"

section \<open>The payment of a claim\<close>

definition claim_facts :: "claim_command \<Rightarrow> (string \<times> json) list" where
  "claim_facts c =
     (case map_of (lcMetadata c) ''sbi'' of None \<Rightarrow> [] | Some v \<Rightarrow> [(''sbi'', v)])
     @ (case map_of (lcMetadata c) ''frn'' of None \<Rightarrow> [] | Some v \<Rightarrow> [(''frn'', v)])
     @ (case map_of (lcClaim c) ''totalClaimAmountPence'' of None \<Rightarrow> [] | Some v \<Rightarrow> [(''totalAmountPence'', v)])"

definition agreement_for :: "'q claims_env \<Rightarrow> claim_command \<Rightarrow> json res" where
  "agreement_for env c =
     bind_res (ceAgreement env (lcCode c) (lcClientRef c)) (\<lambda>found. case found of
       None \<Rightarrow> Inl (Boom BadImplementation (''Claim for '' @ quoted (lcClientRef c)
         @ '' has no Agreement to report its Payment against'') [])
     | Some a \<Rightarrow> Inr a)"

definition natural_of :: "json option \<Rightarrow> nat option" where
  "natural_of v = (case v of Some (JNum (Finite m d e)) \<Rightarrow>
     if whole_number v \<and> 0 \<le> m then Some (nat \<lfloor>number_value (Finite m d e)\<rfloor>) else None | _ \<Rightarrow> None)"

text \<open>
  The schema of the event: every text is there, and the agreement's version is at least one. The
  messages Joi adds to the error's are left out.
\<close>

definition claim_payment_requested ::
  "claim_command \<Rightarrow> string \<Rightarrow> string \<Rightarrow> json \<Rightarrow> claim_payment_request res" where
  "claim_payment_requested c configVersion executedAt agreement =
     (case (field_of ''agreementNumber'' agreement, natural_of (field_of ''version'' agreement),
            field_of ''correlationId'' agreement) of
        (Some (JStr number), Some version, Some (JStr correlation)) \<Rightarrow>
          if number \<noteq> [] \<and> 1 \<le> version \<and> correlation \<noteq> [] \<and> lcCode c \<noteq> [] \<and> lcClientRef c \<noteq> []
             \<and> claim_ref_of c \<noteq> [] \<and> claimed_entitlement_of c \<noteq> [] \<and> configVersion \<noteq> []
          then Inr \<lparr>cqRequestId = ''claim:'' @ lcCode c @ '':'' @ lcClientRef c @ '':'' @ claim_ref_of c,
             cqCode = lcCode c, cqClientRef = lcClientRef c, cqClientClaimRef = claim_ref_of c,
             cqEntitlementId = claimed_entitlement_of c, cqAgreementNumber = number,
             cqAgreementVersion = version, cqCorrelationId = correlation, cqConfigVersion = configVersion,
             cqExecutedAt = executedAt, cqSnapshot = claim_facts c\<rparr>
          else Inl (Boom BadRequest ''Invalid ClaimPaymentRequested'' [])
      | _ \<Rightarrow> Inl (Boom BadRequest ''Invalid ClaimPaymentRequested'' []))"

definition requires_approval :: "claimable \<Rightarrow> bool" where
  "requires_approval k \<longleftrightarrow> (case clClaim k of None \<Rightarrow> False | Some r \<Rightarrow> crRequiresApproval r)"

definition internal_event_target :: string where "internal_event_target = ''internal:event''"

definition request_claim_payment ::
  "'q claims_env \<Rightarrow> claim_command \<Rightarrow> claimable \<Rightarrow> string option \<Rightarrow> bool \<Rightarrow> string \<Rightarrow> (grants_db, unit) action" where
  "request_claim_payment env c k configVersion paymentConfigured executedAt =
     (if \<not> paymentConfigured \<or> requires_approval k then ret ()
      else andThen (lift_res (agreement_for env c)) (\<lambda>agreement.
        andThen (lift_res (claim_payment_requested c (part_string configVersion) executedAt agreement)) (\<lambda>event.
        save_grant_events [(ClaimPaymentRequested event, internal_event_target)])))"

section \<open>Moving on after the last claim\<close>

definition has_remaining_application_claim_capacity ::
  "application \<Rightarrow> claimable list \<Rightarrow> grants_db \<Rightarrow> bool" where
  "has_remaining_application_claim_capacity app claimables db \<longleftrightarrow>
     list_ex (\<lambda>k. has_remaining_capacity k (count_by_entitlement (apCode app) (apClientRef app) (claimable_id k) db))
       claimables"

definition claim_side_effects :: "application \<Rightarrow> state_command" where
  "claim_side_effects app = \<lparr>scSourceSystem = [], scClientRef = apClientRef app, scCode = apCode app,
     scRequestedState = [], scEventData = None\<rparr>"

definition claim_approval_tells_cw :: bool where "claim_approval_tells_cw = True"

definition transition_on_final_claim ::
  "'q claims_env \<Rightarrow> 'q grant \<Rightarrow> application \<Rightarrow> claimable \<Rightarrow> (grants_db, unit) action" where
  "transition_on_final_claim env g app k =
     (if requires_approval k then ret ()
      else case claim_approval_transition_for g (current_position app) of
        None \<Rightarrow> ret ()
      | Some target \<Rightarrow>
          andThen (reads (find_existing_entitlements (apClientRef app) (apCode app))) (\<lambda>existing.
          andThen (reads (has_remaining_application_claim_capacity app (candidates_for g existing))) (\<lambda>remaining.
          if remaining then ret ()
          else transition_application (ceEnv env) app g (config_to_position target) (claim_side_effects app)
                 claim_approval_tells_cw)))"

section \<open>The submission\<close>

definition submit_in_transaction ::
  "'q claims_env \<Rightarrow> claim_command \<Rightarrow> 'q grant \<Rightarrow> string option \<Rightarrow> bool \<Rightarrow> (grants_db, claim_result) action" where
  "submit_in_transaction env c g pinnedVersion paymentConfigured =
     andThen (locked_application_for c pinnedVersion) (\<lambda>app.
     andThen (existing_replay c) (\<lambda>replay.
     case replay of
       Some r \<Rightarrow> ret r
     | None \<Rightarrow>
         andThen (claimable_with_capacity c g app) (\<lambda>k.
         andThen (insert_claim_with_audit env c (clClaimCode k)) (\<lambda>(claimId, saved).
         andThen (store_claim_case env saved claimId) (\<lambda>_.
         andThen (transition_on_final_claim env g app k) (\<lambda>_.
         andThen (request_claim_payment env c k pinnedVersion paymentConfigured (kmCreatedAt saved)) (\<lambda>_.
         ret (Created claimId))))))))"

fun is_duplicate_key :: "js_error \<Rightarrow> bool" where
  "is_duplicate_key (DuplicateKey _) = True"
| "is_duplicate_key _ = False"

definition replay_after_duplicate :: "js_error \<Rightarrow> claim_command \<Rightarrow> (grants_db, claim_result option) action" where
  "replay_after_duplicate error c = (if \<not> is_duplicate_key error then ret None else existing_replay c)"

definition is_retriable :: "js_error \<Rightarrow> bool" where
  "is_retriable error \<longleftrightarrow> error = RetryClaimSubmission \<or> is_duplicate_key error"

definition claim_exhausted :: "claim_command \<Rightarrow> js_error" where
  "claim_exhausted c = Boom Conflict (''Claim '' @ single_quoted (claim_ref_of c)
     @ '' could not be submitted because the application changed concurrently. Try again.'') []"

definition claim_retries :: nat where "claim_retries = 1"

definition attempt_transaction ::
  "'q claims_env \<Rightarrow> nat \<Rightarrow> claim_command \<Rightarrow> 'q grant \<Rightarrow> string option \<Rightarrow> bool \<Rightarrow> (grants_db, claim_result) action" where
  "attempt_transaction env n c g pinnedVersion paymentConfigured =
     andThen (writes (ceMeanwhile env n)) (\<lambda>_.
     with_transaction (submit_in_transaction env c g pinnedVersion paymentConfigured))"

text \<open>\<open>remaining\<close> counts the attempts still left after this one.\<close>

fun submit_attempt :: "'q claims_env \<Rightarrow> claim_command \<Rightarrow> nat \<Rightarrow> (grants_db, claim_result) action"
and retry_or_throw :: "'q claims_env \<Rightarrow> claim_command \<Rightarrow> nat \<Rightarrow> js_error \<Rightarrow> (grants_db, claim_result) action" where
  "submit_attempt env c remaining =
     andThen (find_application_by_client_ref_and_code (lcClientRef c) (lcCode c)) (\<lambda>app.
     let pinnedVersion = pinned_version_of app in
     andThen (lift_res (resolve_claim_grant env (lcCode c) pinnedVersion)) (\<lambda>g.
     andThen (claim_payment_for env c g pinnedVersion) (\<lambda>paymentConfigured.
     catch (attempt_transaction env (claim_retries - remaining) c g pinnedVersion paymentConfigured)
       (\<lambda>error. retry_or_throw env c remaining error))))"
| "retry_or_throw env c remaining error =
     andThen (replay_after_duplicate error c) (\<lambda>replay.
     case replay of
       Some r \<Rightarrow> ret r
     | None \<Rightarrow>
         if \<not> is_retriable error then throw error
         else (case remaining of
             0 \<Rightarrow> throw (claim_exhausted c)
           | Suc r \<Rightarrow> submit_attempt env c r))"

definition submit_valid_claim :: "'q claims_env \<Rightarrow> claim_command \<Rightarrow> (grants_db, claim_result) action" where
  "submit_valid_claim env c =
     andThen (existing_replay c) (\<lambda>replay.
     case replay of Some r \<Rightarrow> ret r | None \<Rightarrow> submit_attempt env c claim_retries)"

definition submit_claim :: "'q claims_env \<Rightarrow> claim_command \<Rightarrow> (grants_db, claim_result) action" where
  "submit_claim env c =
     andThen (lift_res (assert_path_matches_payload c)) (\<lambda>_. submit_valid_claim env c)"

end
