(* ===== verification/ClaimsLaws.thy ===== *)
theory ClaimsLaws
  imports ClaimsService SubmissionLaws
begin

text \<open>
  What submitting claims keeps: no two share an identity, no entitlement has more of them than its
  template allows, and a claim that was submitted is answered as such ever after.
\<close>

section \<open>Changing an entitlement\<close>

lemma with_input_data_ok [ok_iff]:
  "with_input_data jm e t submitted now = Inr e' \<longleftrightarrow>
     tmClaimCode t = enClaimCode e \<and> submitted_data_matches t submitted
     \<and> e' = e\<lparr>enData := obj_spread (enData e) (to_stored_values submitted), enUpdatedAt := Some now\<rparr>
     \<and> entitlement_schema e'"
  by (auto simp: with_input_data_def new_entitlement_def split: if_splits)

lemma updated_entitlement:
  assumes "with_transaction (update_in_transaction env c g pin) s = (Inr e', s')"
  obtains e t where "e \<in> set (dbEntitlements s)" "enId e = ucmEntitlementId c" "enClientRef e = ucmClientRef c"
    "enCode e = ucmCode c" and "find_entitlement_template g (enClaimCode e) = Some t"
    and "count_by_entitlement (ucmCode c) (ucmClientRef c) (ucmEntitlementId c) s = 0"
    and "submitted_data_matches t (ucmData c)"
    and "e' = e\<lparr>enData := obj_spread (enData e) (to_stored_values (ucmData c)), enUpdatedAt := Some (evNow (ceEnv env))\<rparr>"
    and "dbEntitlements s' = update_one (\<lambda>x. enId x = enId e' \<and> enClientRef x = enClientRef e' \<and> enCode x = enCode e')
       (\<lambda>x. x\<lparr>enData := enData e', enUpdatedAt := enUpdatedAt e'\<rparr>) (dbEntitlements s)"
    and "dbClaims s' = dbClaims s"
proof -
  obtain u where run: "update_in_transaction env c g pin (s\<lparr>dbOutside := []\<rparr>) = (Inr e', u)"
    and s': "s' = settle_outside (dbOutside u) u"
    using assms unfolding with_transaction_ok by blast
  obtain e t where e: "entitlement_to_update env c (find_existing_entitlements (ucmClientRef c) (ucmCode c) s) = Inr e"
    and t: "template_for_update c g e = Inr t"
    and n: "can_be_changed (from_persisted e t) (count_by_entitlement (ucmCode c) (ucmClientRef c) (ucmEntitlementId c) s)"
    and ch: "change_entitlement env c e t = Inr e'"
    and u: "dbEntitlements u = update_one
         (\<lambda>x. enId x = enId e' \<and> enClientRef x = enClientRef e' \<and> enCode x = enCode e')
         (\<lambda>x. x\<lparr>enData := enData e', enUpdatedAt := enUpdatedAt e'\<rparr>) (dbEntitlements s)" "dbClaims u = dbClaims s"
    using run by (auto simp: update_in_transaction_def ok_iff lock_application_def refuse_once_claimed_def
        update_entitlement_data_def split: if_splits option.splits)
  have e1: "e \<in> set (dbEntitlements s)" "enId e = ucmEntitlementId c" "enClientRef e = ucmClientRef c" "enCode e = ucmCode c"
    using e by (auto simp: entitlement_to_update_def new_entitlement_def find_existing_entitlements_def
        split: option.splits if_splits dest!: find_SomeD)
  have wi: "with_input_data (ceEntitlementMessages env) e t (ucmData c) (evNow (ceEnv env)) = Inr e'"
    using ch by (auto simp: change_entitlement_def split: sum.splits js_error.splits)
  show ?thesis
  proof (rule that [OF e1])
    show "find_entitlement_template g (enClaimCode e) = Some t"
      using t by (auto simp: template_for_update_def split: option.splits)
    show "count_by_entitlement (ucmCode c) (ucmClientRef c) (ucmEntitlementId c) s = 0"
      using n by (simp add: can_be_changed_def)
    show "submitted_data_matches t (ucmData c)"
      and "e' = e\<lparr>enData := obj_spread (enData e) (to_stored_values (ucmData c)), enUpdatedAt := Some (evNow (ceEnv env))\<rparr>"
      using wi by (simp_all add: ok_iff)
  qed (simp_all add: s' u)
qed

text \<open>With ids of their own, the entitlement named is the one changed.\<close>

lemma changed_rows:
  assumes "distinct (map enId es)" and "e \<in> set es"
    and "e' = e\<lparr>enData := d, enUpdatedAt := w\<rparr>"
  shows "update_one (\<lambda>x. enId x = enId e' \<and> enClientRef x = enClientRef e' \<and> enCode x = enCode e')
      (\<lambda>x. x\<lparr>enData := enData e', enUpdatedAt := enUpdatedAt e'\<rparr>) es
    = map (\<lambda>x. if enId x = enId e then e' else x) es"
proof -
  obtain xs ys where es: "es = xs @ e # ys" using assms(2) by (meson split_list)
  have other: "enId x \<noteq> enId e" if "x \<in> set xs \<union> set ys" for x
    using assms(1) that by (auto simp: es) (metis image_eqI)+
  have "map (\<lambda>x. if enId x = enId e then e' else x) xs = xs" "map (\<lambda>x. if enId x = enId e then e' else x) ys = ys"
    using other by (simp_all add: map_idI)
  moreover have "\<forall>x\<in>set xs. \<not> (enId x = enId e' \<and> enClientRef x = enClientRef e' \<and> enCode x = enCode e')"
    using other assms(3) by auto
  ultimately show ?thesis
    unfolding es by (subst update_one_split) (simp_all add: assms(3))
qed

lemma update_entitlement_cases:
  assumes "update_entitlement env c held s = (r, s')"
  shows "(\<exists>e. r = Inl e \<and> s' = s) \<or>
    (\<exists>app g. find_application (ucmClientRef c) (ucmCode c) s = Some app
      \<and> ceResolve env (ucmCode c) (pinned_version_of app) = Inr (Some g)
      \<and> require_claims_change g held = Inr AccessFull
      \<and> with_transaction (update_in_transaction env c g (pinned_version_of app)) (ceMeanwhile env 0 s) = (r, s'))"
proof -
  have change: "require_claims_change g held = Inr a \<Longrightarrow> a = AccessFull" for g :: "'a grant" and a
    by (auto simp: require_claims_change_def ok_iff)
  show ?thesis
    using assms change
    by (auto simp: update_entitlement_def map_application_not_found_def find_application_by_client_ref_and_code_def
        catch_def andThen_def Let_def grant_in_force_def application_missing_def bind_res_def
        split: option.splits sum.splits)
qed

lemma update_keeps:
  assumes "others_keep (entitlements_ok limit) env"
  shows "keeps (entitlements_ok limit) (update_entitlement env c held)"
proof (rule keepsI)
  fix s assume ok: "entitlements_ok limit s"
  obtain r s' where run: "update_entitlement env c held s = (r, s')" by fastforce
  have m: "entitlements_ok limit (ceMeanwhile env 0 s)" using assms ok by (simp add: others_keep_def)
  have "entitlements_ok limit s'"
    using update_entitlement_cases [OF run]
  proof (elim disjE exE conjE)
    fix app g
    assume t: "with_transaction (update_in_transaction env c g (pinned_version_of app)) (ceMeanwhile env 0 s) = (r, s')"
    show ?thesis
    proof (cases r)
      case (Inl e)
      then show ?thesis using t m failed_transaction(1) entitlements_ok_same by metis
    next
      case (Inr e')
      then obtain p f where s': "dbEntitlements s' = update_one p f (dbEntitlements (ceMeanwhile env 0 s))"
        and f: "f = (\<lambda>x. x\<lparr>enData := enData e', enUpdatedAt := enUpdatedAt e'\<rparr>)"
        using t updated_entitlement [of env c g "pinned_version_of app" "ceMeanwhile env 0 s" e' s'] by metis
      let ?es = "dbEntitlements (ceMeanwhile env 0 s)"
      have same: "map k (update_one p f ?es) = map k ?es"
        if "\<And>x. k (f x) = k x" for k :: "entitlement \<Rightarrow> 'k"
        using that by (rule map_update_one)
      have "length (of_kind r k cc (update_one p f es)) = length (of_kind r k cc es)" for r k cc es
        by (induction es) (simp_all add: of_kind_def f)
      then show ?thesis
        using m same [of entitlement_slot] same [of enId] by (simp add: entitlements_ok_def s' f entitlement_slot_def)
    qed
  qed (simp add: ok)
  then show "entitlements_ok limit (snd (update_entitlement env c held s))" using run by simp
qed

section \<open>Submitting a claim\<close>

lemma accepted_claim:
  "(case d of Inr _ \<Rightarrow> ret k | Inl MaximumClaimsReached \<Rightarrow> throw e1 | Inl WrongClaimPosition \<Rightarrow> throw e2) s = (Inr k', t)
     \<longleftrightarrow> d = Inr () \<and> k' = k \<and> t = s"
proof (cases d)
  case (Inl r)
  then show ?thesis by (cases r) simp_all
qed auto

lemma claimable_with_capacity_ok:
  assumes "claimable_with_capacity c g app s = (Inr k, t)"
  shows "t = s \<and> (\<exists>e tm. e \<in> set (dbEntitlements s) \<and> enId e = claimed_entitlement_of c \<and> enClientRef e = lcClientRef c
      \<and> enCode e = lcCode c \<and> find_entitlement_template g (enClaimCode e) = Some tm \<and> tmClaim tm \<noteq> None
      \<and> k = from_persisted e tm \<and> claimable_at k (Some (current_position app))
      \<and> count_by_entitlement (lcCode c) (lcClientRef c) (enId e) s < maximum_claims k)"
proof -
  obtain n where k: "claimable_for g app (find_existing_entitlements (lcClientRef c) (lcCode c) s)
        (claimed_entitlement_of c) = Inr k" and t: "t = s"
    and n: "n = count_by_entitlement (lcCode c) (lcClientRef c) (claimable_id k) s"
    and ok: "can_accept_claim k (Some (current_position app)) n = Inr ()"
    using assms by (auto simp: claimable_with_capacity_def andThen_Inr accepted_claim)
  obtain e tm where e: "find (\<lambda>e. enId e = claimed_entitlement_of c)
        (find_existing_entitlements (lcClientRef c) (lcCode c) s) = Some e"
    and tm: "find_entitlement_template g (enClaimCode e) = Some tm" "tmClaim tm \<noteq> None" "k = from_persisted e tm"
    using k by (auto simp: claimable_for_def split: option.splits if_splits)
  have "e \<in> set (dbEntitlements s) \<and> enId e = claimed_entitlement_of c \<and> enClientRef e = lcClientRef c \<and> enCode e = lcCode c"
    using find_SomeD [OF e] by (auto simp: find_existing_entitlements_def)
  moreover have "claimable_id k = enId e" using tm by (simp add: claimable_id_def from_persisted_def)
  ultimately show ?thesis using tm t n ok by (auto simp: can_accept_claim_ok)
qed

lemma insert_claim_ok:
  assumes "insert_claim_with_audit env c cc s = (Inr (i, k), t)"
  shows "claim_create (ceClaimMessages env) (evNow (ceEnv env)) (lcCode c) (lcClientRef c) cc (claim_ref_of c)
        (lcMetadata c) (lcClaim c) = Inr k
    \<and> claim_identity k \<notin> set (map (claim_identity \<circ> snd) (dbClaims s))
    \<and> t = s\<lparr>dbClaims := dbClaims s @ [(i, k)], dbOutbox := dbOutbox s @ [Audit (claim_audit c cc i) SUCCESS]\<rparr>"
  using assms by (auto simp: insert_claim_with_audit_def insert_claim_def insert_claim_row_def ok_iff split: if_splits)

lemma final_transition_keeps:
  assumes "transition_on_final_claim env g app k s = (Inr (), t)" and "db_ok s" and "dbOutside s = []"
    and "find_application r code s = Some app"
  shows "dbClaims t = dbClaims s \<and> dbEntitlements t = dbEntitlements s \<and> db_ok t"
proof -
  have app: "application_wf app" "application_key app = (scClientRef (claim_side_effects app), scCode (claim_side_effects app))"
    using find_application_wf [OF assms(2,4)] by (simp_all add: application_key_def claim_side_effects_def)
  have start: "confined (claim_side_effects app) s s" using assms(2,3) by (simp add: confined_def)
  consider "t = s" | target where "transition_application (ceEnv env) app g target (claim_side_effects app)
      claim_approval_tells_cw s = (Inr (), t)"
    using assms(1) by (auto simp: transition_on_final_claim_def ok_iff split: if_splits option.splits)
  then show ?thesis
  proof cases
    case 2
    have "confined (claim_side_effects app) s t"
      using keepsD [OF transition_confined [OF app, of s "ceEnv env" g target claim_approval_tells_cw] start] 2 by simp
    then show ?thesis by (simp add: confined_def)
  qed (simp add: assms(2))
qed

text \<open>What a submission that returns did.\<close>

lemma submitted_claim_cases:
  assumes run: "with_transaction (submit_in_transaction env c g pin pc) s = (Inr r, s')" and ok: "db_ok s"
  shows "dbEntitlements s' = dbEntitlements s \<and> db_ok s' \<and>
    (r = Replayed \<and> exists_by_client_claim_ref (lcCode c) (lcClientRef c) (claim_ref_of c) s \<and> dbClaims s' = dbClaims s
     \<or> (\<exists>i k e tm app. r = Created i \<and> \<not> exists_by_client_claim_ref (lcCode c) (lcClientRef c) (claim_ref_of c) s
         \<and> find_application (lcClientRef c) (lcCode c) s = Some app \<and> pinned_version_of app = pin
         \<and> e \<in> set (dbEntitlements s) \<and> enId e = claimed_entitlement_of c \<and> enClientRef e = lcClientRef c \<and> enCode e = lcCode c
         \<and> find_entitlement_template g (enClaimCode e) = Some tm
         \<and> claimable_at (from_persisted e tm) (Some (current_position app))
         \<and> count_by_entitlement (lcCode c) (lcClientRef c) (enId e) s < maximum_claims (from_persisted e tm)
         \<and> claim_create (ceClaimMessages env) (evNow (ceEnv env)) (lcCode c) (lcClientRef c) (enClaimCode e)
             (claim_ref_of c) (lcMetadata c) (lcClaim c) = Inr k
         \<and> claim_identity k \<notin> set (map (claim_identity \<circ> snd) (dbClaims s))
         \<and> dbClaims s' = dbClaims s @ [(i, k)]))"
proof -
  let ?s = "s\<lparr>dbOutside := []\<rparr>"
  obtain u where u: "submit_in_transaction env c g pin pc ?s = (Inr r, u)" and s': "s' = settle_outside (dbOutside u) u"
    using run unfolding with_transaction_ok by blast
  obtain app where app: "find_application (lcClientRef c) (lcCode c) s = Some app" "pinned_version_of app = pin"
    and rest: "andThen (existing_replay c) (\<lambda>replay.
     case replay of
       Some r \<Rightarrow> ret r
     | None \<Rightarrow>
         andThen (claimable_with_capacity c g app) (\<lambda>k.
         andThen (insert_claim_with_audit env c (clClaimCode k)) (\<lambda>(claimId, saved).
         andThen (store_claim_case env saved claimId) (\<lambda>_.
         andThen (transition_on_final_claim env g app k) (\<lambda>_.
         andThen (request_claim_payment env c k pin pc (kmCreatedAt saved)) (\<lambda>_.
         ret (Created claimId))))))) ?s = (Inr r, u)"
    using u by (auto simp: submit_in_transaction_def locked_application_for_def andThen_Inr
        find_application_by_client_ref_and_code_def split: if_splits option.splits)
  have ex: "exists_by_client_claim_ref a b d ?s = exists_by_client_claim_ref a b d s" for a b d
    by (simp add: exists_by_client_claim_ref_def)
  show ?thesis
  proof (cases "exists_by_client_claim_ref (lcCode c) (lcClientRef c) (claim_ref_of c) s")
    case True
    then have "u = ?s" and r: "r = Replayed" using rest by (auto simp: existing_replay_def ex)
    moreover have "db_ok ?s" using ok by (simp add: db_ok_def)
    ultimately show ?thesis using True by (simp add: s')
  next
    case False
    have replay: "existing_replay c ?s = (Inr None, ?s)" using False by (simp add: existing_replay_def ex)
    have run: "andThen (claimable_with_capacity c g app) (\<lambda>k.
         andThen (insert_claim_with_audit env c (clClaimCode k)) (\<lambda>(claimId, saved).
         andThen (store_claim_case env saved claimId) (\<lambda>_.
         andThen (transition_on_final_claim env g app k) (\<lambda>_.
         andThen (request_claim_payment env c k pin pc (kmCreatedAt saved)) (\<lambda>_.
         ret (Created claimId)))))) ?s = (Inr r, u)"
      using rest by (simp add: andThen_simps(2) [where m = "existing_replay c", OF replay])
    then obtain k t where k': "claimable_with_capacity c g app ?s = (Inr k, t)"
      and run1: "andThen (insert_claim_with_audit env c (clClaimCode k)) (\<lambda>(claimId, saved).
         andThen (store_claim_case env saved claimId) (\<lambda>_.
         andThen (transition_on_final_claim env g app k) (\<lambda>_.
         andThen (request_claim_payment env c k pin pc (kmCreatedAt saved)) (\<lambda>_.
         ret (Created claimId))))) t = (Inr r, u)"
      unfolding andThen_Inr [of "claimable_with_capacity c g app"] by blast
    have t: "t = ?s" using claimable_with_capacity_ok [OF k'] by blast
    note k = k' [unfolded t]
    obtain i saved u1 u2 u3 where
      ins: "insert_claim_with_audit env c (clClaimCode k) ?s = (Inr (i, saved), u1)"
      and st: "store_claim_case env saved i u1 = (Inr (), u2)"
      and tr: "transition_on_final_claim env g app k u2 = (Inr (), u3)"
      and pay: "request_claim_payment env c k pin pc (kmCreatedAt saved) u3 = (Inr (), u)" and r: "r = Created i"
      using run1 unfolding t by (auto simp: andThen_Inr)
    have st': "\<exists>ob. u2 = u1\<lparr>dbOutbox := ob\<rparr>" using st by (auto simp: store_claim_case_def save_grant_events_def)
    have pay': "\<exists>ob. u = u3\<lparr>dbOutbox := ob\<rparr>"
      using pay by (auto simp: request_claim_payment_def save_grant_events_def andThen_Inr split: if_splits
          intro: exI [of _ "dbOutbox u3"])
    note i = insert_claim_ok [OF ins]
    have "db_ok u2" "dbOutside u2 = []" "find_application (lcClientRef c) (lcCode c) u2 = Some app"
      using st' i ok app by (auto simp: db_ok_def find_application_def)
    from final_transition_keeps [OF tr this]
    have "dbClaims u = dbClaims u2" "dbEntitlements u = dbEntitlements u2" "db_ok u"
      using pay' by (auto simp: db_ok_def)
    moreover have "dbClaims u2 = dbClaims s @ [(i, saved)]" "dbEntitlements u2 = dbEntitlements s" using st' i by auto
    moreover obtain e tm where e: "e \<in> set (dbEntitlements s)" "enId e = claimed_entitlement_of c" "enClientRef e = lcClientRef c"
      "enCode e = lcCode c" "find_entitlement_template g (enClaimCode e) = Some tm" and k': "k = from_persisted e tm"
      and cap: "claimable_at (from_persisted e tm) (Some (current_position app))"
      "count_by_entitlement (lcCode c) (lcClientRef c) (enId e) s < maximum_claims (from_persisted e tm)"
      using claimable_with_capacity_ok [OF k] by auto
    moreover have "dbClaims s' = dbClaims u" "dbEntitlements s' = dbEntitlements u" "db_ok s' = db_ok u" by (simp_all add: s')
    moreover have "clClaimCode k = enClaimCode e" by (simp add: k' from_persisted_def)
    ultimately have stores: "dbEntitlements s' = dbEntitlements s" "db_ok s'" "dbClaims s' = dbClaims s @ [(i, saved)]"
      and new: "claim_create (ceClaimMessages env) (evNow (ceEnv env)) (lcCode c) (lcClientRef c) (enClaimCode e)
             (claim_ref_of c) (lcMetadata c) (lcClaim c) = Inr saved"
        "claim_identity saved \<notin> set (map (claim_identity \<circ> snd) (dbClaims s))"
      using i by simp_all
    show ?thesis
      by (intro conjI disjI2 exI [of _ i] exI [of _ saved] exI [of _ e] exI [of _ tm] exI [of _ app])
        (fact stores e cap new app r False)+
  qed
qed

section \<open>The stores of claims and entitlements\<close>

text \<open>
  Every claim is against an entitlement of its own application and kind, claims have identities of
  their own, and \<open>most\<close> bounds the claims against one entitlement, by grant and claim code.
\<close>

definition claim_of :: "entitlement \<Rightarrow> claim \<Rightarrow> bool" where
  "claim_of e k \<longleftrightarrow> kmCode k = enCode e \<and> kmClientRef k = enClientRef e \<and> kmEntitlementId k = enId e"

definition claims_ok :: "(string \<Rightarrow> string \<Rightarrow> nat) \<Rightarrow> grants_db \<Rightarrow> bool" where
  "claims_ok most db \<longleftrightarrow> db_ok db \<and> distinct (map enId (dbEntitlements db))
     \<and> distinct (map (claim_identity \<circ> snd) (dbClaims db))
     \<and> (\<forall>k\<in>set (map snd (dbClaims db)). \<exists>e\<in>set (dbEntitlements db). claim_of e k \<and> enClaimCode e = kmClaimCode k)
     \<and> (\<forall>e\<in>set (dbEntitlements db). length (filter (claim_of e) (map snd (dbClaims db))) \<le> most (enCode e) (enClaimCode e))"

definition claims_within :: "(string \<Rightarrow> string \<Rightarrow> nat) \<Rightarrow> 'q claims_env \<Rightarrow> bool" where
  "claims_within most env \<longleftrightarrow> (\<forall>code v g claimCode t e. ceResolve env code v = Inr (Some g) \<longrightarrow>
     find_entitlement_template g claimCode = Some t \<longrightarrow> maximum_claims (from_persisted e t) \<le> most code claimCode)"

lemma count_by_entitlement_of:
  "count_by_entitlement (enCode e) (enClientRef e) (enId e) db = length (filter (claim_of e) (map snd (dbClaims db)))"
  by (simp add: count_by_entitlement_def claim_of_def filter_map comp_def split_def)

lemma claims_ok_same:
  assumes "db_ok t" and "dbEntitlements t = dbEntitlements s" and "dbClaims t = dbClaims s" and "claims_ok most s"
  shows "claims_ok most t"
  using assms by (simp add: claims_ok_def)

lemma claims_ok_failed:
  assumes "with_transaction cb s = (Inl e, s')" and "claims_ok most s"
  shows "claims_ok most s'"
  using assms by (intro claims_ok_same [of s' s]) (auto simp: with_transaction_failed claims_ok_def)

lemma claims_ok_added:
  assumes ok: "claims_ok most s" and e: "e \<in> set (dbEntitlements s)" "claim_of e k" "enClaimCode e = kmClaimCode k"
    and new: "claim_identity k \<notin> set (map (claim_identity \<circ> snd) (dbClaims s))"
    and room: "length (filter (claim_of e) (map snd (dbClaims s))) < most (enCode e) (enClaimCode e)"
    and s': "db_ok s'" "dbEntitlements s' = dbEntitlements s" "dbClaims s' = dbClaims s @ [(i, k)]"
  shows "claims_ok most s'"
proof -
  have only: "x = e" if "x \<in> set (dbEntitlements s)" "claim_of x k" for x
    using ok that e inj_onD [of enId "set (dbEntitlements s)" x e]
    by (simp add: claims_ok_def claim_of_def distinct_map)
  have "length (filter (claim_of x) (map snd (dbClaims s'))) \<le> most (enCode x) (enClaimCode x)"
    if x: "x \<in> set (dbEntitlements s)" for x
    using x only [OF x] ok room e(2) by (cases "claim_of x k") (auto simp: s' claims_ok_def)
  then show ?thesis using ok e new s' by (auto simp: claims_ok_def)
qed

lemma submitted_claims_ok:
  assumes ok: "claims_ok most s" and within: "claims_within most env"
    and g: "ceResolve env (lcCode c) v = Inr (Some g)"
    and run: "with_transaction (submit_in_transaction env c g pin pc) s = (r, s')"
  shows "claims_ok most s'"
proof (cases r)
  case (Inl e)
  then show ?thesis using run ok claims_ok_failed by blast
next
  case (Inr x)
  have dok: "db_ok s" using ok by (simp add: claims_ok_def)
  note cases = submitted_claim_cases [OF run [unfolded Inr] dok]
  then have s': "dbEntitlements s' = dbEntitlements s" "db_ok s'" by blast+
  consider "dbClaims s' = dbClaims s" | i k e tm where "e \<in> set (dbEntitlements s)" "enClientRef e = lcClientRef c"
      "enCode e = lcCode c" "enId e = claimed_entitlement_of c"
      "find_entitlement_template g (enClaimCode e) = Some tm"
      "count_by_entitlement (lcCode c) (lcClientRef c) (enId e) s < maximum_claims (from_persisted e tm)"
      "claim_create (ceClaimMessages env) (evNow (ceEnv env)) (lcCode c) (lcClientRef c) (enClaimCode e)
             (claim_ref_of c) (lcMetadata c) (lcClaim c) = Inr k"
      "claim_identity k \<notin> set (map (claim_identity \<circ> snd) (dbClaims s))" "dbClaims s' = dbClaims s @ [(i, k)]"
    using cases by metis
  then show ?thesis
  proof cases
    case 1
    then show ?thesis using claims_ok_same [OF s'(2,1)] ok by blast
  next
    case 2
    note k = claim_create_ok [OF 2(7)]
    have "claim_of e k"
      using k 2(2-4) by (simp add: claim_of_def claimed_entitlement_of_def entry_text_def)
    moreover have "maximum_claims (from_persisted e tm) \<le> most (lcCode c) (enClaimCode e)"
      using within g 2(5) unfolding claims_within_def by blast
    then have "length (filter (claim_of e) (map snd (dbClaims s))) < most (enCode e) (enClaimCode e)"
      using 2(2,3,6) count_by_entitlement_of [of e s] by simp
    ultimately show ?thesis using claims_ok_added [OF ok 2(1) _ _ 2(8) _ s'(2,1) 2(9)] k(3) by simp
  qed
qed

text \<open>An attempt reads, lets others in, runs its transaction, and may look for the claim again.\<close>

lemma resolve_claim_grant_ok [ok_iff]:
  "resolve_claim_grant env code v = Inr g \<longleftrightarrow> ceResolve env code v = Inr (Some g)"
  by (auto simp: resolve_claim_grant_def bind_res_def split: sum.splits option.splits)

lemma attempt_transaction_keeps:
  assumes "claims_within most env" and "others_keep (claims_ok most) env"
    and "ceResolve env (lcCode c) v = Inr (Some g)"
  shows "keeps (claims_ok most) (attempt_transaction env n c g pin pc)"
proof (rule keepsI)
  fix s assume "claims_ok most s"
  then have m: "claims_ok most (ceMeanwhile env n s)" using assms(2) by (simp add: others_keep_def)
  then show "claims_ok most (snd (attempt_transaction env n c g pin pc s))"
    using submitted_claims_ok [OF m assms(1,3)]
    by (cases "with_transaction (submit_in_transaction env c g pin pc) (ceMeanwhile env n s)")
      (simp add: attempt_transaction_def andThen_def writes_def)
qed

lemma keeps_found_application [intro]: "keeps P (find_application_by_client_ref_and_code clientRef code)"
  by (simp add: find_application_by_client_ref_and_code_def keeps_def)

lemma submit_attempt_keeps:
  assumes "claims_within most env" and "others_keep (claims_ok most) env"
  shows "keeps (claims_ok most) (submit_attempt env c remaining)"
proof -
  have run: "keeps (claims_ok most) (catch (attempt_transaction env n c g pin pc) h)"
    if "ceResolve env (lcCode c) v = Inr (Some g)" and "\<And>e. keeps (claims_ok most) (h e)" for n g v pin pc h
    using attempt_transaction_keeps [OF assms that(1)] that(2) by (intro keeps_catch) auto
  have again: "keeps (claims_ok most) (retry_or_throw env c r e)"
    if "\<And>q. r = Suc q \<Longrightarrow> keeps (claims_ok most) (submit_attempt env c q)" for r e
    using that by (auto simp: replay_after_duplicate_def existing_replay_def split: option.splits nat.splits)
  have step: "keeps (claims_ok most) (submit_attempt env c r)"
    if "\<And>e. keeps (claims_ok most) (retry_or_throw env c r e)" for r
    using run that
    by (auto simp: Let_def ok_iff claim_payment_for_def claim_template_for_def
        intro!: keeps_andThen keeps_lift_res keeps_found_application split: option.splits)
  show ?thesis
  proof (induction remaining)
    case 0
    show ?case by (rule step, rule again) simp
  next
    case (Suc r)
    show ?case by (rule step, rule again) (use Suc in simp)
  qed
qed

text \<open>Whichever attempt returns, the claim is stored then.\<close>

definition stored_claim :: "claim_command \<Rightarrow> grants_db \<Rightarrow> bool" where
  "stored_claim c db \<longleftrightarrow> exists_by_client_claim_ref (lcCode c) (lcClientRef c) (claim_ref_of c) db"

lemma replay_iff:
  "existing_replay c s = (Inr x, t) \<longleftrightarrow> t = s \<and> x = (if stored_claim c s then Some Replayed else None)"
  by (auto simp: existing_replay_def stored_claim_def)

lemma stored_after_transaction:
  assumes "with_transaction (submit_in_transaction env c g pin pc) s = (Inr r, s')" and "db_ok s"
  shows "stored_claim c s'"
  using submitted_claim_cases [OF assms]
  by (auto simp: stored_claim_def exists_by_client_claim_ref_def dest: claim_create_ok)

lemma attempt_steps:
  assumes "submit_attempt env c n s = (r, s')"
  obtains e where "r = Inl e" "s' = s"
  | app g pc u where "find_application (lcClientRef c) (lcCode c) s = Some app"
      "ceResolve env (lcCode c) (pinned_version_of app) = Inr (Some g)"
      "attempt_transaction env (claim_retries - n) c g (pinned_version_of app) pc s = (r, s')"
  | app g pc e u where "find_application (lcClientRef c) (lcCode c) s = Some app"
      "ceResolve env (lcCode c) (pinned_version_of app) = Inr (Some g)"
      "attempt_transaction env (claim_retries - n) c g (pinned_version_of app) pc s = (Inl e, u)"
      "retry_or_throw env c n e u = (r, s')"
proof -
  have pay: "snd (claim_payment_for env c g v s) = s" for g v
    by (auto simp: claim_payment_for_def claim_template_for_def andThen_def split: option.splits)
  show ?thesis
  proof (cases "find_application (lcClientRef c) (lcCode c) s")
    case None
    then show ?thesis using assms that(1)
      by (auto simp: find_application_by_client_ref_and_code_def andThen_def)
  next
    case (Some app)
    let ?pin = "pinned_version_of app"
    have run: "andThen (lift_res (resolve_claim_grant env (lcCode c) ?pin)) (\<lambda>g.
        andThen (claim_payment_for env c g ?pin) (\<lambda>pc.
        catch (attempt_transaction env (claim_retries - n) c g ?pin pc) (\<lambda>e. retry_or_throw env c n e))) s = (r, s')"
      using assms Some
      by (simp add: find_application_by_client_ref_and_code_def andThen_def Let_def del: retry_or_throw.simps)
    show ?thesis
    proof (cases "resolve_claim_grant env (lcCode c) ?pin")
      case (Inl e)
      then show ?thesis using run that(1) [of e] by (simp add: andThen_def)
    next
      case (Inr g)
      then have g: "ceResolve env (lcCode c) ?pin = Inr (Some g)" by (simp add: ok_iff)
      have run': "andThen (claim_payment_for env c g ?pin) (\<lambda>pc.
          catch (attempt_transaction env (claim_retries - n) c g ?pin pc) (\<lambda>e. retry_or_throw env c n e)) s = (r, s')"
        using run Inr by (simp add: andThen_def del: retry_or_throw.simps)
      obtain p where p: "claim_payment_for env c g ?pin s = (p, s)" using pay [of g ?pin] by (metis prod.collapse)
      show ?thesis
      proof (cases p)
        case (Inl e)
        then show ?thesis using run' p that(1) [of e] by (simp add: andThen_def)
      next
        case (Inr pc)
        then have c: "catch (attempt_transaction env (claim_retries - n) c g ?pin pc) (\<lambda>e. retry_or_throw env c n e) s = (r, s')"
          using run' p by (simp add: andThen_def del: retry_or_throw.simps)
        obtain q u where q: "attempt_transaction env (claim_retries - n) c g ?pin pc s = (q, u)" by fastforce
        show ?thesis
        proof (cases q)
          case (Inl e)
          then show ?thesis using that(3) [OF Some g] q c by (simp add: catch_def del: retry_or_throw.simps)
        next
          case (Inr x)
          then show ?thesis using that(2) [OF Some g] q c by (simp add: catch_def)
        qed
      qed
    qed
  qed
qed

lemma attempt_stores:
  assumes "claims_within most env" and "others_keep (claims_ok most) env"
    and "submit_attempt env c n s = (Inr r, s')" and "claims_ok most s"
  shows "stored_claim c s'"
  using assms(3,4)
proof (induction n arbitrary: s r s')
  case (0 s r s')
  have m: "db_ok (ceMeanwhile env k s)" for k
    using assms(2) 0(2) by (simp add: others_keep_def claims_ok_def)
  from 0(1) show ?case
  proof (cases rule: attempt_steps)
    case (3 app g pc e u)
    then show ?thesis by (auto simp: replay_after_duplicate_def andThen_Inr replay_iff split: if_splits option.splits)
  qed (auto simp: attempt_transaction_def andThen_def writes_def dest: stored_after_transaction [OF _ m])
next
  case (Suc n s r s')
  have m: "db_ok (ceMeanwhile env k s)" for k
    using assms(2) Suc(3) by (simp add: others_keep_def claims_ok_def)
  from Suc(2) show ?case
  proof (cases rule: attempt_steps)
    case (3 app g pc e u)
    have "claims_ok most u"
      using keepsD [OF attempt_transaction_keeps [OF assms(1,2) 3(2)] Suc(3), of _ "pinned_version_of app" pc] 3(3)
      by (metis snd_conv)
    then show ?thesis using 3(4) Suc(1)
      by (auto simp: replay_after_duplicate_def andThen_Inr replay_iff simp del: submit_attempt.simps
          split: if_splits option.splits)
  qed (auto simp: attempt_transaction_def andThen_def writes_def dest: stored_after_transaction [OF _ m])
qed

end
