(* ===== verification/ClaimsProperties.thy ===== *)
theory ClaimsProperties
  imports TransitionProperties ClaimsLaws
begin

text \<open>
  The properties of entitlements and claims, each on a database with one application, one
  entitlement of it and no claim yet.
\<close>

section \<open>Samples\<close>

definition sample_rules :: claim_rules where
  "sample_rules = \<lparr>crClaimableAt = Some [\<lparr>tpPhase = ''PRE'', tpStage = None, tpStatus = None\<rparr>],
     crMaximumClaims = Some 1, crAllowsPartialClaims = False, crRequiresApproval = True, crRequiresEvidence = False\<rparr>"

definition sample_claim_grant :: "unit grant" where
  "sample_claim_grant = sample_grant\<lparr>grEntitlementTemplates := [sample_template\<lparr>tmClaim := Some sample_rules\<rparr>]\<rparr>"

definition sample_entitlement :: entitlement where
  "sample_entitlement = \<lparr>enId = ''e1'', enClientRef = ''ref-1'', enCode = ''wood'', enClaimCode = ''HEDGE'',
     enInstanceNumber = 1, enConfigVersion = Some ''1.0.0'', enData = [(''area'', JNum (Finite 100 2 0))],
     enCreatedAt = ''t0'', enUpdatedAt = None\<rparr>"

definition sample_claims_db :: grants_db where
  "sample_claims_db = sample_db\<lparr>dbEntitlements := [sample_entitlement]\<rparr>"

definition sample_claims_env :: "unit claims_env" where
  "sample_claims_env = \<lparr>ceEnv = sample_env, ceResolve = (\<lambda>_ _. Inr (Some sample_claim_grant)), ceNewId = ''e2'',
     ceNewClaimId = ''c1'', ceEntitlementMessages = (\<lambda>_. ''invalid''), ceClaimMessages = (\<lambda>_. ''invalid''),
     ceAgreement = (\<lambda>_ _. Inr None), ceEvaluate = (\<lambda>_ _ _. Inr None), ceNumberText = (\<lambda>_. []),
     ceSortNames = (\<lambda>names. names), ceRows = [], ceMeanwhile = (\<lambda>_ db. db)\<rparr>"

definition sample_creation :: creation_command where
  "sample_creation = \<lparr>ncCode = ''wood'', ncClientRef = ''ref-1'', ncClaimCode = ''HEDGE'', ncData = sample_data,
     ncActor = None\<rparr>"

definition sample_update :: update_command where
  "sample_update = \<lparr>ucmCode = ''wood'', ucmClientRef = ''ref-1'', ucmEntitlementId = ''e1'', ucmData = sample_data,
     ucmActor = None\<rparr>"

definition sample_claim_command :: claim_command where
  "sample_claim_command = \<lparr>lcCode = ''wood'', lcClientRef = ''ref-1'',
     lcMetadata = [(''grantCode'', JStr ''wood''), (''clientRef'', JStr ''ref-1''), (''clientClaimRef'', JStr ''claim-1'')],
     lcClaim = [(''entitlementId'', JStr ''e1''), (''totalClaimAmountPence'', JNum (Finite 500 0 0))]\<rparr>"

lemma sample_templates:
  "ceResolve sample_claims_env code v = Inr (Some g) \<Longrightarrow> find_entitlement_template g cc = Some t \<Longrightarrow>
     tmMaxEntitlements t \<le> 2 \<and> maximum_claims (from_persisted e t) \<le> 1"
  by (auto simp: sample_claims_env_def sample_claim_grant_def find_entitlement_template_def sample_template_def
      sample_rules_def maximum_claims_def from_persisted_def split: if_splits)

lemma sample_within: "grants_within (\<lambda>_ _. 2) sample_claims_env" "claims_within (\<lambda>_ _. 1) sample_claims_env"
  using sample_templates by (auto simp: grants_within_def claims_within_def)

lemma sample_others: "others_keep P sample_claims_env"
  by (simp add: others_keep_def sample_claims_env_def)

lemma sample_claims_ok: "entitlements_ok (\<lambda>_ _. 2) sample_claims_db" "claims_ok (\<lambda>_ _. 1) sample_claims_db"
  using sample_db_ok
  by (auto simp: entitlements_ok_def claims_ok_def of_kind_def sample_claims_db_def sample_db_def db_ok_def)

section \<open>Entitlements\<close>

text \<open>
  C27. Creating and changing entitlements, whatever others commit between the reads and the
  transaction, keep at most the number of each kind that the grant's templates allow on an
  application, each in a slot of its own and with an id of its own.
\<close>

theorem entitlement_limit_kept:
  assumes "entitlements_ok limit db" and "grants_within limit env" and "others_keep (entitlements_ok limit) env"
  shows "entitlements_ok limit (snd (create_entitlement env c held db))
    \<and> entitlements_ok limit (snd (update_entitlement env u held db))"
  using keepsD [OF creation_keeps [OF assms(2,3)] assms(1)] keepsD [OF update_keeps [OF assms(3)] assms(1)]
  by blast

theorem entitlement_limit_kept_witness:
  "entitlements_ok (\<lambda>_ _. 2) (snd (create_entitlement sample_claims_env sample_creation (Inr None) sample_claims_db))"
  using entitlement_limit_kept [OF sample_claims_ok(1) sample_within(1) sample_others] by blast

text \<open>
  An entitlement that was changed had no claim against it, keeps every value that was not
  submitted and everything but its data and the time of the change; no other entitlement and no
  claim is touched; so one with a claim is refused.
\<close>

theorem entitlement_changed_unclaimed:
  assumes "update_entitlement env c held db = (Inr e', db')"
    and "distinct (map enId (dbEntitlements (ceMeanwhile env 0 db)))"
  shows "\<exists>e\<in>set (dbEntitlements (ceMeanwhile env 0 db)). enId e = ucmEntitlementId c
    \<and> count_by_entitlement (ucmCode c) (ucmClientRef c) (ucmEntitlementId c) (ceMeanwhile env 0 db) = 0
    \<and> e' = e\<lparr>enData := enData e', enUpdatedAt := Some (evNow (ceEnv env))\<rparr>
    \<and> (\<forall>name. name \<notin> set (map fst (ucmData c)) \<longrightarrow> map_of (enData e') name = map_of (enData e) name)
    \<and> dbEntitlements db' = map (\<lambda>x. if enId x = ucmEntitlementId c then e' else x) (dbEntitlements (ceMeanwhile env 0 db))
    \<and> dbClaims db' = dbClaims (ceMeanwhile env 0 db)"
proof -
  let ?m = "ceMeanwhile env 0 db"
  obtain g pin where run: "with_transaction (update_in_transaction env c g pin) ?m = (Inr e', db')"
    using update_entitlement_cases [OF assms(1)] by auto
  from run show ?thesis
  proof (rule updated_entitlement)
    fix e t
    assume e: "e \<in> set (dbEntitlements ?m)" "enId e = ucmEntitlementId c"
      and n: "count_by_entitlement (ucmCode c) (ucmClientRef c) (ucmEntitlementId c) ?m = 0"
      and e': "e' = e\<lparr>enData := obj_spread (enData e) (to_stored_values (ucmData c)), enUpdatedAt := Some (evNow (ceEnv env))\<rparr>"
      and rows: "dbEntitlements db' = update_one (\<lambda>x. enId x = enId e' \<and> enClientRef x = enClientRef e' \<and> enCode x = enCode e')
         (\<lambda>x. x\<lparr>enData := enData e', enUpdatedAt := enUpdatedAt e'\<rparr>) (dbEntitlements ?m)"
      and k: "dbClaims db' = dbClaims ?m"
    have keys: "fst ` set (to_stored_values (ucmData c)) = fst ` set (ucmData c)"
      by (force simp: to_stored_values_def)
    have kept: "map_of (obj_spread (enData e) (to_stored_values (ucmData c))) name = map_of (enData e) name"
      if "name \<notin> set (map fst (ucmData c))" for name
    proof -
      have "map_of (rev (to_stored_values (ucmData c))) name = None" using that keys by (simp add: map_of_eq_None_iff)
      then show ?thesis by (simp add: obj_spread_lookup)
    qed
    have "dbEntitlements db' = map (\<lambda>x. if enId x = enId e then e' else x) (dbEntitlements ?m)"
      using changed_rows [OF assms(2) e(1) e'] rows by simp
    moreover have "e' = e\<lparr>enData := enData e', enUpdatedAt := Some (evNow (ceEnv env))\<rparr>" by (simp add: e')
    moreover have "enData e' = obj_spread (enData e) (to_stored_values (ucmData c))" by (simp add: e')
    ultimately show ?thesis using e n k kept by (intro bexI [of _ e] conjI) (fact | simp)+
  qed
qed

theorem entitlement_changed_unclaimed_witness:
  "\<exists>e' db'. update_entitlement sample_claims_env sample_update (Inr None) sample_claims_db = (Inr e', db')
    \<and> dbEntitlements db' = [e'] \<and> enData e' = [(''area'', JNum (Finite 125 2 0))]"
proof -
  let ?run = "update_entitlement sample_claims_env sample_update (Inr None) sample_claims_db"
  have "(case fst ?run of Inl _ \<Rightarrow> [] | Inr e \<Rightarrow> enData e) = [(''area'', JNum (Finite 125 2 0))]" by code_simp
  then obtain e' db' where run: "?run = (Inr e', db')" "enData e' = [(''area'', JNum (Finite 125 2 0))]"
    by (cases ?run; cases "fst ?run") auto
  have m: "dbEntitlements (ceMeanwhile sample_claims_env 0 sample_claims_db) = [sample_entitlement]"
    by (simp add: sample_claims_env_def sample_claims_db_def)
  have "dbEntitlements db' = [e']"
    using entitlement_changed_unclaimed [OF run(1)] m by (auto simp: sample_update_def)
  then show ?thesis using run by blast
qed

section \<open>Claims\<close>

text \<open>
  C15. Submitting claims, whatever others commit in between, keeps every claim to an entitlement of
  its own application, with an identity of its own, and no entitlement with more claims than the
  template allows.
\<close>

theorem claim_limit_kept:
  assumes "claims_ok most db" and "claims_within most env" and "others_keep (claims_ok most) env"
  shows "claims_ok most (snd (submit_claim env c db))"
proof -
  have "keeps (claims_ok most) (submit_claim env c)"
    using submit_attempt_keeps [OF assms(2,3)]
    by (auto simp: submit_claim_def submit_valid_claim_def existing_replay_def simp del: submit_attempt.simps
        intro!: keeps_andThen split: option.splits)
  then show ?thesis using assms(1) by (rule keepsD)
qed

theorem claim_limit_kept_witness:
  "claims_ok (\<lambda>_ _. 1) (snd (submit_claim sample_claims_env sample_claim_command sample_claims_db))"
  by (rule claim_limit_kept [OF sample_claims_ok(2) sample_within(2) sample_others])

text \<open>
  C16. A submission that was answered is stored; submitting the same claim reference again is
  answered as a replay, whatever the rest of it says, and changes nothing.
\<close>

theorem claim_submitted_once:
  assumes "claims_ok most db" and "claims_within most env" and "others_keep (claims_ok most) env"
    and "submit_claim env c db = (Inr r, db')"
    and "lcCode again = lcCode c" "lcClientRef again = lcClientRef c" "claim_ref_of again = claim_ref_of c"
    and "assert_path_matches_payload again = Inr ()"
  shows "exists_by_client_claim_ref (lcCode c) (lcClientRef c) (claim_ref_of c) db'
    \<and> submit_claim env2 again db' = (Inr Replayed, db')"
proof -
  have "stored_claim c db'"
    using assms(4) attempt_stores [OF assms(2,3) _ assms(1)]
    by (auto simp: submit_claim_def submit_valid_claim_def ok_iff replay_iff simp del: submit_attempt.simps
        split: if_splits)
  then show ?thesis using assms(5-8)
    by (simp add: submit_claim_def submit_valid_claim_def existing_replay_def stored_claim_def andThen_def)
qed

theorem claim_submitted_once_witness:
  "\<exists>db'. submit_claim sample_claims_env sample_claim_command sample_claims_db = (Inr (Created ''c1''), db')
    \<and> submit_claim sample_claims_env sample_claim_command db' = (Inr Replayed, db')"
proof -
  have "fst (submit_claim sample_claims_env sample_claim_command sample_claims_db) = Inr (Created ''c1'')"
    by code_simp
  then obtain db' where run: "submit_claim sample_claims_env sample_claim_command sample_claims_db = (Inr (Created ''c1''), db')"
    by (metis prod.collapse)
  have "assert_path_matches_payload sample_claim_command = Inr ()" by code_simp
  then show ?thesis
    using claim_submitted_once [OF sample_claims_ok(2) sample_within(2) sample_others run refl refl refl] run by blast
qed

end
