(* ===== verification/AgreementModel.thy ===== *)
theory AgreementModel
  imports Publication ConfigCatalog "HOL-Library.List_Lexorder" "HOL-Library.Char_ord"
begin

text \<open>
  The Agreement aggregate of \<open>src/agreements/models\<close>: its values with their schema
  (\<open>src/agreements/schemas/agreement-value.schema.js\<close>), the stable identities of its actions, items
  and instalments (\<open>agreement-identity-sequence.js\<close>, \<open>materialise-agreement-identities.js\<close>), the
  Agreement and its versions (\<open>agreement.js\<close>, \<open>agreement-version.js\<close>, \<open>agreement-number.js\<close>) and its
  lifecycle (\<open>agreement-lifecycle.js\<close>, \<open>agreement-action.js\<close>). A candidate of a funded entry, a line
  item or an instalment is the same record as a persisted one, with the references it still has.
  The properties the code only carries along are kept in a field for the others. An ordinal is exact
  here; the code's are JavaScript numbers, exact up to \<open>2 ^ 53\<close>.
\<close>

section \<open>Values\<close>

record funded_entry =
  fuId :: "string option"
  fuRef :: "string option"
  fuCode :: string
  fuStartDate :: "string option"
  fuEndDate :: "string option"
  fuParcel :: "string option"
  fuQuantity :: "rat option"
  fuUnit :: "string option"
  fuOther :: "(string \<times> json) list"

record line_item =
  liActionRef :: "string option"
  liItemRef :: "string option"
  liActionId :: "string option"
  liItemId :: "string option"
  liAmountPence :: int
  liOther :: "(string \<times> json) list"

record instalment =
  ntId :: "string option"
  ntDueDate :: string
  ntTotalAmountPence :: int
  ntLineItems :: "line_item list"
  ntOther :: "(string \<times> json) list"

record payment_schedule =
  shInstalments :: "instalment list"
  shOther :: "(string \<times> json) list"

record parcel =
  plId :: string
  plSheetId :: string
  plParcelId :: string
  plArea :: "(rat \<times> string) option"

record agreement_values =
  vaStartDate :: "string option"
  vaEndDate :: "string option"
  vaParcels :: "parcel list option"
  vaActions :: "funded_entry list"
  vaItems :: "funded_entry list"
  vaSchedule :: "payment_schedule option"
  vaOther :: "(string \<times> json) list"

section \<open>Dates\<close>

definition leap_year :: "nat \<Rightarrow> bool" where
  "leap_year y \<longleftrightarrow> y mod 4 = 0 \<and> (y mod 100 \<noteq> 0 \<or> y mod 400 = 0)"

definition days_in_month :: "nat \<Rightarrow> nat \<Rightarrow> nat" where
  "days_in_month y m =
     (if m = 2 then (if leap_year y then 29 else 28) else if m \<in> {4, 6, 9, 11} then 30 else 31)"

text \<open>A date reads back as it was set exactly when there is such a day in the calendar.\<close>

definition is_calendar_date :: "string \<Rightarrow> bool" where
  "is_calendar_date s =
     (let y = parse_int (take 4 s); m = parse_int (take 2 (drop 5 s)); d = parse_int (drop 8 s) in
      1 \<le> m \<and> m \<le> 12 \<and> 1 \<le> d \<and> d \<le> days_in_month y m)"

definition agreement_date :: "string \<Rightarrow> bool" where
  "agreement_date s \<longleftrightarrow>
     length s = 10 \<and> all_digits (take 4 s) \<and> s ! 4 = CHR ''-'' \<and> all_digits (take 2 (drop 5 s))
     \<and> s ! 7 = CHR ''-'' \<and> all_digits (drop 8 s) \<and> is_calendar_date s"

definition optional_date :: "string option \<Rightarrow> bool" where
  "optional_date d \<longleftrightarrow> (case d of None \<Rightarrow> True | Some s \<Rightarrow> agreement_date s)"

section \<open>The schema of values\<close>

definition ordinal_text :: "string \<Rightarrow> bool" where
  "ordinal_text s \<longleftrightarrow> all_digits s \<and> hd s \<noteq> CHR ''0''"

definition identity_of :: "string \<Rightarrow> nat \<Rightarrow> string" where
  "identity_of namespace n = namespace @ CHR '':'' # show_nat n"

definition identity_shaped :: "string \<Rightarrow> string \<Rightarrow> bool" where
  "identity_shaped namespace s \<longleftrightarrow>
     starts_with s (namespace @ '':'') \<and> ordinal_text (drop (length namespace + 1) s)"

definition funded_entry_schema :: "string \<Rightarrow> funded_entry \<Rightarrow> bool" where
  "funded_entry_schema namespace e \<longleftrightarrow>
     (case fuId e of None \<Rightarrow> False | Some s \<Rightarrow> identity_shaped namespace s)
     \<and> fuRef e = None \<and> fuCode e \<noteq> [] \<and> optional_date (fuStartDate e) \<and> optional_date (fuEndDate e)
     \<and> fuParcel e \<noteq> Some [] \<and> fuUnit e \<noteq> Some [] \<and> (fuQuantity e = None \<longleftrightarrow> fuUnit e = None)"

definition line_item_schema :: "line_item \<Rightarrow> bool" where
  "line_item_schema l \<longleftrightarrow>
     liActionRef l = None \<and> liItemRef l = None \<and> liActionId l \<noteq> Some [] \<and> liItemId l \<noteq> Some []
     \<and> (liActionId l = None \<longleftrightarrow> liItemId l \<noteq> None)"

definition instalment_schema :: "instalment \<Rightarrow> bool" where
  "instalment_schema i \<longleftrightarrow>
     js_truthy_string (ntId i) \<and> agreement_date (ntDueDate i) \<and> list_all line_item_schema (ntLineItems i)
     \<and> ntTotalAmountPence i = sum_list (map liAmountPence (ntLineItems i))"

definition parcel_schema :: "parcel \<Rightarrow> bool" where
  "parcel_schema p \<longleftrightarrow>
     plSheetId p \<noteq> [] \<and> plParcelId p \<noteq> [] \<and> plId p = plSheetId p @ ''-'' @ plParcelId p
     \<and> (case plArea p of None \<Rightarrow> True | Some (_, u) \<Rightarrow> u \<noteq> [])"

definition schedule_instalments :: "agreement_values \<Rightarrow> instalment list" where
  "schedule_instalments v = (case vaSchedule v of None \<Rightarrow> [] | Some s \<Rightarrow> shInstalments s)"

definition funded_entries :: "agreement_values \<Rightarrow> funded_entry list" where
  "funded_entries v = vaActions v @ vaItems v"

definition date_before :: "string option \<Rightarrow> string option \<Rightarrow> bool" where
  "date_before a b \<longleftrightarrow> (case (a, b) of (Some x, Some y) \<Rightarrow> x < y | _ \<Rightarrow> False)"

definition has_inverted_range :: "string option \<Rightarrow> string option \<Rightarrow> bool" where
  "has_inverted_range startDate endDate \<longleftrightarrow> date_before endDate startDate"

definition out_of_bounds :: "agreement_values \<Rightarrow> string option \<Rightarrow> bool" where
  "out_of_bounds v d \<longleftrightarrow> date_before d (vaStartDate v) \<or> date_before (vaEndDate v) d"

definition find_date_violation :: "agreement_values \<Rightarrow> string option" where
  "find_date_violation v =
     (if has_inverted_range (vaStartDate v) (vaEndDate v) then Some ''agreement.dateRange''
      else if list_ex (\<lambda>e. has_inverted_range (fuStartDate e) (fuEndDate e)) (funded_entries v)
      then Some ''entry.dateRange''
      else if list_ex (\<lambda>e. out_of_bounds v (fuStartDate e) \<or> out_of_bounds v (fuEndDate e)) (funded_entries v)
      then Some ''entry.dateBounds'' else None)"

definition parcels_of :: "agreement_values \<Rightarrow> parcel list" where
  "parcels_of v = (case vaParcels v of None \<Rightarrow> [] | Some ps \<Rightarrow> ps)"

definition over_area :: "funded_entry \<Rightarrow> parcel option \<Rightarrow> bool" where
  "over_area e p \<longleftrightarrow>
     fuUnit e = Some ''ha'' \<and> (case Option.bind p plArea of
       Some (quantity, unit) \<Rightarrow> unit = ''ha'' \<and> (case fuQuantity e of None \<Rightarrow> False | Some q \<Rightarrow> q > quantity)
     | None \<Rightarrow> False)"

definition find_parcel_violation :: "agreement_values \<Rightarrow> string option" where
  "find_parcel_violation v =
     (let parcel_for = (\<lambda>i. find (\<lambda>p. plId p = i) (rev (parcels_of v))) in
      if list_ex (\<lambda>e. case truthy (fuParcel e) of None \<Rightarrow> False | Some i \<Rightarrow> parcel_for i = None) (funded_entries v)
      then Some ''entry.parcelReference''
      else if list_ex (\<lambda>e. over_area e (Option.bind (fuParcel e) parcel_for)) (funded_entries v)
      then Some ''entry.parcelArea'' else None)"

definition dangling_reference :: "funded_entry list \<Rightarrow> string option \<Rightarrow> bool" where
  "dangling_reference entries reference \<longleftrightarrow>
     (case truthy reference of None \<Rightarrow> False | Some i \<Rightarrow> Some i \<notin> set (map fuId entries))"

definition find_line_item_reference_violation :: "agreement_values \<Rightarrow> string option" where
  "find_line_item_reference_violation v =
     (if list_ex (\<lambda>i. list_ex (\<lambda>l. dangling_reference (vaActions v) (liActionId l)
           \<or> dangling_reference (vaItems v) (liItemId l)) (ntLineItems i)) (schedule_instalments v)
      then Some ''lineItem.reference'' else None)"

definition validate_agreement_invariants :: "agreement_values \<Rightarrow> bool" where
  "validate_agreement_invariants v \<longleftrightarrow>
     find_date_violation v = None \<and> find_parcel_violation v = None \<and> find_line_item_reference_violation v = None"

text \<open>The shapes of the properties that are only carried along are given by \<open>otherOk\<close>.\<close>

definition agreement_value_schema :: "((string \<times> json) list \<Rightarrow> bool) \<Rightarrow> agreement_values \<Rightarrow> bool" where
  "agreement_value_schema otherOk v \<longleftrightarrow>
     otherOk (vaOther v) \<and> optional_date (vaStartDate v) \<and> optional_date (vaEndDate v)
     \<and> list_all parcel_schema (parcels_of v) \<and> distinct (map plId (parcels_of v))
     \<and> list_all (funded_entry_schema ''action'') (vaActions v) \<and> distinct (map fuId (vaActions v))
     \<and> list_all (funded_entry_schema ''item'') (vaItems v) \<and> distinct (map fuId (vaItems v))
     \<and> list_all instalment_schema (schedule_instalments v) \<and> distinct (map ntId (schedule_instalments v))
     \<and> validate_agreement_invariants v"

section \<open>The sequence of identities\<close>

record identity_sequence =
  isAction :: nat
  isItem :: nat
  isInstalment :: nat

definition identity_ordinal :: "string option \<Rightarrow> string \<Rightarrow> nat" where
  "identity_ordinal i namespace =
     (case i of None \<Rightarrow> 0
      | Some s \<Rightarrow> if identity_shaped namespace s then parse_int (drop (length namespace + 1) s) else 0)"

definition current_ordinal :: "string option list \<Rightarrow> string \<Rightarrow> nat" where
  "current_ordinal ids namespace = foldl max 0 (map (\<lambda>i. identity_ordinal i namespace) ids)"

definition recorded_sequence :: "identity_sequence option \<Rightarrow> identity_sequence" where
  "recorded_sequence s = (case s of None \<Rightarrow> \<lparr>isAction = 0, isItem = 0, isInstalment = 0\<rparr> | Some q \<Rightarrow> q)"

definition resolve_agreement_identity_sequence ::
  "agreement_values \<Rightarrow> identity_sequence option \<Rightarrow> identity_sequence" where
  "resolve_agreement_identity_sequence v recorded =
     (let q = recorded_sequence recorded in
      \<lparr>isAction = max (isAction q) (current_ordinal (map fuId (vaActions v)) ''action''),
       isItem = max (isItem q) (current_ordinal (map fuId (vaItems v)) ''item''),
       isInstalment = max (isInstalment q) (current_ordinal (map ntId (schedule_instalments v)) ''instalment'')\<rparr>)"

section \<open>The Agreement\<close>

record agreement_record =
  amNumber :: string
  amVersion :: nat
  amCode :: string
  amClientRef :: string
  amConfigVersion :: string
  amCorrelationId :: string
  amIdentifiers :: "(string \<times> json) list"
  amValues :: agreement_values
  amSequence :: identity_sequence
  amState :: string
  amCreatedAt :: string
  amUpdatedAt :: string
  amAcceptedAt :: "string option"

text \<open>Spreading transition values over those there are; the schedule is always among them.\<close>

definition spread_values :: "agreement_values \<Rightarrow> agreement_values option \<Rightarrow> agreement_values" where
  "spread_values old new =
     (case new of None \<Rightarrow> old
      | Some v \<Rightarrow> \<lparr>vaStartDate = or_else (vaStartDate v) (vaStartDate old), vaEndDate = or_else (vaEndDate v) (vaEndDate old),
          vaParcels = or_else (vaParcels v) (vaParcels old), vaActions = vaActions v, vaItems = vaItems v,
          vaSchedule = vaSchedule v, vaOther = obj_spread (vaOther old) (vaOther v)\<rparr>)"

definition with_agreement_number :: "agreement_record \<Rightarrow> string \<Rightarrow> agreement_record" where
  "with_agreement_number a n =
     a\<lparr>amNumber := n, amSequence := resolve_agreement_identity_sequence (amValues a) (Some (amSequence a))\<rparr>"

definition accepted_state :: string where "accepted_state = ''accepted''"

definition resolve_accepted_at :: "agreement_record \<Rightarrow> string \<Rightarrow> string \<Rightarrow> string option" where
  "resolve_accepted_at a target transitionedAt =
     or_else (amAcceptedAt a) (if target = accepted_state then Some transitionedAt else None)"

definition agreement_transition ::
  "agreement_record \<Rightarrow> string \<Rightarrow> string \<Rightarrow> agreement_values option \<Rightarrow> string option \<Rightarrow> agreement_record" where
  "agreement_transition a target transitionedAt vals configVersion =
     (let merged = spread_values (amValues a) vals in
      a\<lparr>amValues := merged, amSequence := resolve_agreement_identity_sequence merged (Some (amSequence a)),
        amAcceptedAt := resolve_accepted_at a target transitionedAt,
        amConfigVersion := (case configVersion of None \<Rightarrow> amConfigVersion a | Some v \<Rightarrow> v),
        amState := target, amVersion := amVersion a + 1, amUpdatedAt := transitionedAt\<rparr>)"

record new_agreement_props =
  nwNumber :: string
  nwCode :: string
  nwClientRef :: string
  nwConfigVersion :: string
  nwCorrelationId :: string
  nwIdentifiers :: "(string \<times> json) list"
  nwValues :: agreement_values
  nwState :: string
  nwCreatedAt :: string

definition agreement_create :: "new_agreement_props \<Rightarrow> agreement_record" where
  "agreement_create p =
     \<lparr>amNumber = nwNumber p, amVersion = 1, amCode = nwCode p, amClientRef = nwClientRef p,
      amConfigVersion = nwConfigVersion p, amCorrelationId = nwCorrelationId p, amIdentifiers = nwIdentifiers p,
      amValues = nwValues p, amSequence = resolve_agreement_identity_sequence (nwValues p) None,
      amState = nwState p, amCreatedAt = nwCreatedAt p, amUpdatedAt = nwCreatedAt p, amAcceptedAt = None\<rparr>"

record action_execution =
  axName :: string
  axIdempotencyKey :: string

record agreement_version =
  avNumber :: string
  avVersion :: nat
  avSnapshot :: agreement_record
  avVersionedAt :: string
  avExecution :: "action_execution option"

definition agreement_version_create :: "agreement_record \<Rightarrow> string \<Rightarrow> agreement_version" where
  "agreement_version_create a versionedAt =
     \<lparr>avNumber = amNumber a, avVersion = amVersion a, avSnapshot = a, avVersionedAt = versionedAt, avExecution = None\<rparr>"

definition to_etag :: "agreement_record \<Rightarrow> string \<Rightarrow> string" where
  "to_etag a resolvedConfigVersion =
     quoted (amNumber a @ '':'' @ show_nat (amVersion a) @ '':'' @ resolvedConfigVersion)"

text \<open>The suffix is drawn by \<open>randomInt\<close>, between the bounds it is asked for.\<close>

definition max_suffix_length :: nat where "max_suffix_length = 14"

definition default_suffix_length :: nat where "default_suffix_length = 9"

definition generate_agreement_number :: "(int \<Rightarrow> int \<Rightarrow> nat) \<Rightarrow> string \<Rightarrow> nat \<Rightarrow> string res" where
  "generate_agreement_number randomInt prefix suffixLength =
     (if prefix = [] then Inl (JsError ''Agreement number prefix is required'')
      else if suffixLength < 1 \<or> max_suffix_length < suffixLength
      then Inl (JsError (''suffixLength must be an integer between 1 and '' @ show_nat max_suffix_length))
      else Inr (prefix @ show_nat (randomInt (10 ^ (suffixLength - 1)) (10 ^ suffixLength))))"

section \<open>Materialising identities\<close>

text \<open>
  An allocation is the next ordinal and, in a transition, the identities that can be selected. A
  workflow is \<open>creation\<close> or \<open>transition\<close>; its entries take their identities in order, and each
  reference is recorded for the line items.
\<close>

record allocation =
  alNamespace :: string
  alLabel :: string
  alExisting :: "string option list option"

definition require_existing_identity :: "allocation \<Rightarrow> string \<Rightarrow> string res" where
  "require_existing_identity al i =
     (if (case alExisting al of None \<Rightarrow> False | Some ids \<Rightarrow> Some i \<in> set ids) then Inr i
      else Inl (Boom BadImplementation (''Agreement transition cannot select unknown stable '' @ alLabel al
             @ '' identity '' @ quoted i) []))"

definition allocate_identity :: "allocation \<Rightarrow> nat \<Rightarrow> (string \<times> nat) res" where
  "allocate_identity al next = Inr (identity_of (alNamespace al) next, next + 1)"

definition resolve_transition_identity ::
  "allocation \<Rightarrow> string option \<Rightarrow> nat \<Rightarrow> (string \<times> nat) res" where
  "resolve_transition_identity al candidate next =
     (case truthy candidate of
        Some i \<Rightarrow> bind_res (require_existing_identity al i) (\<lambda>i. Inr (i, next))
      | None \<Rightarrow> allocate_identity al next)"

definition resolve_identity :: "allocation \<Rightarrow> string option \<Rightarrow> nat \<Rightarrow> (string \<times> nat) res" where
  "resolve_identity al candidate next =
     (if alExisting al = None then allocate_identity al next else resolve_transition_identity al candidate next)"

definition duplicate_reference :: "string \<Rightarrow> string \<Rightarrow> js_error" where
  "duplicate_reference workflow reference =
     Boom BadImplementation (''Agreement '' @ workflow @ '' produced duplicate candidate reference '' @ quoted reference) []"

definition unknown_reference :: "string \<Rightarrow> string option \<Rightarrow> js_error" where
  "unknown_reference workflow reference =
     Boom BadImplementation (''Agreement '' @ workflow @ '' produced unknown candidate reference ''
       @ quoted (case reference of None \<Rightarrow> ''undefined'' | Some r \<Rightarrow> r)) []"

definition record_candidate_reference ::
  "string \<Rightarrow> string option \<Rightarrow> string \<Rightarrow> (string \<times> string) list \<Rightarrow> (string \<times> string) list res" where
  "record_candidate_reference workflow reference i references =
     (case reference of
        None \<Rightarrow> Inr references
      | Some r \<Rightarrow> if map_of references r \<noteq> None then Inl (duplicate_reference workflow r)
          else Inr ((r, i) # references))"

fun materialise_entries ::
  "string \<Rightarrow> allocation \<Rightarrow> nat \<Rightarrow> (string \<times> string) list \<Rightarrow> funded_entry list
     \<Rightarrow> (funded_entry list \<times> (string \<times> string) list) res" where
  "materialise_entries workflow al next references [] = Inr ([], references)"
| "materialise_entries workflow al next references (e # es) =
     bind_res (resolve_identity al (fuId e) next) (\<lambda>(i, next1).
     bind_res (record_candidate_reference workflow (fuRef e) i references) (\<lambda>references1.
     bind_res (materialise_entries workflow al next1 references1 es) (\<lambda>(done, references2).
     Inr (e\<lparr>fuId := Some i, fuRef := None\<rparr> # done, references2))))"

record materialised =
  mtActions :: "funded_entry list"
  mtActionRefs :: "(string \<times> string) list"
  mtItems :: "funded_entry list"
  mtItemRefs :: "(string \<times> string) list"

definition creation_allocation :: "string \<Rightarrow> string \<Rightarrow> allocation" where
  "creation_allocation namespace label = \<lparr>alNamespace = namespace, alLabel = label, alExisting = None\<rparr>"

definition create_transition_allocation :: "string \<Rightarrow> string \<Rightarrow> string option list \<Rightarrow> allocation" where
  "create_transition_allocation namespace label ids =
     \<lparr>alNamespace = namespace, alLabel = label, alExisting = Some ids\<rparr>"

definition materialise_funded ::
  "string \<Rightarrow> allocation \<Rightarrow> nat \<Rightarrow> allocation \<Rightarrow> nat \<Rightarrow> agreement_values \<Rightarrow> materialised res" where
  "materialise_funded workflow actions nextAction items nextItem candidate =
     bind_res (materialise_entries workflow actions nextAction [] (vaActions candidate)) (\<lambda>(as, arefs).
     bind_res (materialise_entries workflow items nextItem [] (vaItems candidate)) (\<lambda>(is, irefs).
     Inr \<lparr>mtActions = as, mtActionRefs = arefs, mtItems = is, mtItemRefs = irefs\<rparr>))"

text \<open>A line item names its entry by the candidate's reference or, in a transition, by its identity.\<close>

definition replace_candidate_reference ::
  "string \<Rightarrow> materialised \<Rightarrow> line_item \<Rightarrow> line_item option res" where
  "replace_candidate_reference workflow m l =
     (case (liActionRef l, liItemRef l) of
        (Some r, _) \<Rightarrow>
          (case truthy (map_of (mtActionRefs m) r) of
             None \<Rightarrow> Inl (unknown_reference workflow (Some r))
           | Some i \<Rightarrow> Inr (Some (l\<lparr>liActionRef := None, liActionId := Some i\<rparr>)))
      | (None, Some r) \<Rightarrow>
          (case truthy (map_of (mtItemRefs m) r) of
             None \<Rightarrow> Inl (unknown_reference workflow (Some r))
           | Some i \<Rightarrow> Inr (Some (l\<lparr>liItemRef := None, liItemId := Some i\<rparr>)))
      | (None, None) \<Rightarrow> Inr None)"

definition resolve_creation_line_item :: "materialised \<Rightarrow> line_item \<Rightarrow> line_item res" where
  "resolve_creation_line_item m l =
     bind_res (replace_candidate_reference ''creation'' m l) (\<lambda>found.
     case found of None \<Rightarrow> Inl (unknown_reference ''creation'' None) | Some l1 \<Rightarrow> Inr l1)"

definition require_surviving_reference :: "materialised \<Rightarrow> line_item \<Rightarrow> line_item res" where
  "require_surviving_reference m l =
     (let refuse = (\<lambda>i. Inl (Boom BadImplementation
            (''Agreement transition produced unknown persisted reference '' @ quoted i) [])) in
      case (liActionId l, liItemId l) of
        (Some i, _) \<Rightarrow> if Some i \<in> set (map fuId (mtActions m)) then Inr l else refuse i
      | (None, Some i) \<Rightarrow> if Some i \<in> set (map fuId (mtItems m)) then Inr l else refuse i
      | (None, None) \<Rightarrow> Inl TypeError)"

definition resolve_transition_line_item :: "materialised \<Rightarrow> line_item \<Rightarrow> line_item res" where
  "resolve_transition_line_item m l =
     bind_res (replace_candidate_reference ''transition'' m l) (\<lambda>found.
     case found of None \<Rightarrow> require_surviving_reference m l | Some l1 \<Rightarrow> Inr l1)"

fun materialise_instalments ::
  "allocation \<Rightarrow> (line_item \<Rightarrow> line_item res) \<Rightarrow> nat \<Rightarrow> instalment list \<Rightarrow> instalment list res" where
  "materialise_instalments al resolveLineItem next [] = Inr []"
| "materialise_instalments al resolveLineItem next (x # xs) =
     bind_res (resolve_identity al (ntId x) next) (\<lambda>(i, next1).
     bind_res (map_res resolveLineItem (ntLineItems x)) (\<lambda>ls.
     bind_res (materialise_instalments al resolveLineItem next1 xs) (\<lambda>done.
     Inr (x\<lparr>ntId := Some i, ntLineItems := ls\<rparr> # done))))"

definition materialise_payment_schedule ::
  "allocation \<Rightarrow> (line_item \<Rightarrow> line_item res) \<Rightarrow> nat \<Rightarrow> payment_schedule option \<Rightarrow> payment_schedule option res" where
  "materialise_payment_schedule al resolveLineItem next schedule =
     (case schedule of
        None \<Rightarrow> Inr None
      | Some s \<Rightarrow> bind_res (materialise_instalments al resolveLineItem next (shInstalments s)) (\<lambda>xs.
          Inr (Some (s\<lparr>shInstalments := xs\<rparr>))))"

definition revenue_action :: string where "revenue_action = ''Revenue Action''"
definition capital_item :: string where "capital_item = ''Capital Item''"
definition schedule_instalment :: string where "schedule_instalment = ''Payment Schedule Instalment''"

definition materialise_creation_identities :: "agreement_values \<Rightarrow> agreement_values res" where
  "materialise_creation_identities candidate =
     bind_res (materialise_funded ''creation'' (creation_allocation ''action'' revenue_action) 1
       (creation_allocation ''item'' capital_item) 1 candidate) (\<lambda>m.
     bind_res (materialise_payment_schedule (creation_allocation ''instalment'' schedule_instalment)
       (resolve_creation_line_item m) 1 (vaSchedule candidate)) (\<lambda>schedule.
     Inr (candidate\<lparr>vaActions := mtActions m, vaItems := mtItems m, vaSchedule := schedule\<rparr>)))"

definition reconcile_transition_identities ::
  "agreement_record \<Rightarrow> agreement_values \<Rightarrow> agreement_values res" where
  "reconcile_transition_identities a candidate =
     (let q = resolve_agreement_identity_sequence (amValues a) (Some (amSequence a)) in
      bind_res (materialise_funded ''transition''
        (create_transition_allocation ''action'' revenue_action (map fuId (vaActions (amValues a)))) (isAction q + 1)
        (create_transition_allocation ''item'' capital_item (map fuId (vaItems (amValues a)))) (isItem q + 1)
        candidate) (\<lambda>m.
      bind_res (materialise_payment_schedule
        (create_transition_allocation ''instalment'' schedule_instalment (map ntId (schedule_instalments (amValues a))))
        (resolve_transition_line_item m) (isInstalment q + 1) (vaSchedule candidate)) (\<lambda>schedule.
      Inr (candidate\<lparr>vaActions := mtActions m, vaItems := mtItems m, vaSchedule := schedule\<rparr>))))"

end
