(* ===== verification/AgreementLifecycle.thy ===== *)
theory AgreementLifecycle
  imports AgreementModel ProcessMapping
begin

text \<open>
  The configured side of an Agreement: the records of a definition
  (\<open>src/agreements/schemas/agreement-definition.schema.js\<close>), the references it may make
  (\<open>validate.js\<close>), its lifecycle and actions (\<open>agreement-lifecycle.js\<close>, \<open>agreement-action.js\<close>) and its
  pages (\<open>agreement-definition.js\<close>). An object of configuration is a list of its entries with
  unique keys; no key is the name of a property every JavaScript object inherits.
\<close>

section \<open>Definitions\<close>

record required_field =
  rqName :: string
  rqValue :: string
  rqHref :: string
  rqMessage :: string

record action_transition =
  atTarget :: string
  atPage :: "string option"
  atValidation :: "required_field list option"
  atValues :: "json option"
  atProcesses :: "string list option"

record state_definition =
  sdPage :: "string option"
  sdProcesses :: "string list option"
  sdOn :: "(string \<times> action_transition) list option"

record creation_definition =
  cnTarget :: string
  cnApplication :: json
  cnValues :: "(string \<times> json) list option"
  cnProcesses :: "string list option"

record endpoint =
  enCode :: string
  enMethod :: string
  enPath :: string
  enService :: string

record process_definition =
  pdType :: string
  pdEndpoint :: "endpoint option"
  pdRequestBody :: "json option"
  pdInput :: "json option"
  pdOutput :: "(string \<times> json) list option"

record agreement_definition =
  adCode :: string
  adConfigVersion :: "string option"
  adNumberPrefix :: string
  adEndpoints :: "endpoint list option"
  adProcessDefinitions :: "(string \<times> process_definition) list option"
  adCreate :: creation_definition
  adStates :: "(string \<times> state_definition) list"
  adPages :: "(string \<times> json) list"
  adTemplates :: "(string \<times> json) list option"

definition or_empty :: "'a list option \<Rightarrow> 'a list" where
  "or_empty xs = (case xs of None \<Rightarrow> [] | Some ys \<Rightarrow> ys)"

lemma or_empty_simps [simp]: "or_empty None = []" "or_empty (Some xs) = xs"
  by (simp_all add: or_empty_def)

text \<open>A version that is not there prints as \<open>undefined\<close>; a compiled definition has one.\<close>

definition definition_version :: "agreement_definition \<Rightarrow> string" where
  "definition_version d = (case adConfigVersion d of None \<Rightarrow> ''undefined'' | Some v \<Rightarrow> v)"

section \<open>References within a definition\<close>

definition has_page :: "(string \<times> json) list \<Rightarrow> string \<Rightarrow> bool" where
  "has_page pages page \<longleftrightarrow> json_truthy (map_of pages page)"

definition find_page_reference_errors ::
  "string option \<Rightarrow> string \<Rightarrow> (string \<times> json) list \<Rightarrow> string list" where
  "find_page_reference_errors page path pages =
     (case truthy page of
        None \<Rightarrow> []
      | Some p \<Rightarrow> if has_page pages p then []
          else [quoted (path @ ''.page'') @ '' ('' @ quoted p @ '') does not match any key in '' @ quoted ''pages''])"

definition find_action_reference_errors ::
  "action_transition \<Rightarrow> string \<Rightarrow> (string \<times> state_definition) list \<Rightarrow> (string \<times> json) list \<Rightarrow> string list" where
  "find_action_reference_errors action path states pages =
     (if map_of states (atTarget action) \<noteq> None then []
      else [quoted (path @ ''.target'') @ '' ('' @ quoted (atTarget action) @ '') does not match any key in ''
              @ quoted ''states''])
     @ find_page_reference_errors (atPage action) path pages"

definition find_state_reference_errors ::
  "state_definition \<Rightarrow> string \<Rightarrow> (string \<times> state_definition) list \<Rightarrow> (string \<times> json) list \<Rightarrow> string list" where
  "find_state_reference_errors state stateName states pages =
     concat (map (\<lambda>(actionName, action).
       find_action_reference_errors action (''states.'' @ stateName @ ''.on.'' @ actionName) states pages)
       (or_empty (sdOn state)))"

definition find_reference_errors :: "agreement_definition \<Rightarrow> string list" where
  "find_reference_errors d =
     (if map_of (adStates d) (cnTarget (adCreate d)) \<noteq> None then []
      else [quoted ''create.target'' @ '' ('' @ quoted (cnTarget (adCreate d)) @ '') does not match any key in ''
              @ quoted ''states''])
     @ concat (map (\<lambda>(stateName, state). find_state_reference_errors state stateName (adStates d) (adPages d))
         (adStates d))"

text \<open>The messages of the shape's validation are given by \<open>joiMessages\<close>, none for a good shape.\<close>

definition invalid_definition :: "agreement_definition \<Rightarrow> string list \<Rightarrow> js_error" where
  "invalid_definition d messages =
     Boom BadImplementation (''Invalid agreement definition '' @ quoted (adCode d) @ '': '' @ join '', '' messages) []"

definition validate_agreement_definition ::
  "(agreement_definition \<Rightarrow> string list) \<Rightarrow> agreement_definition \<Rightarrow> agreement_definition res" where
  "validate_agreement_definition joiMessages d =
     (if joiMessages d \<noteq> [] then Inl (invalid_definition d (joiMessages d))
      else if find_reference_errors d \<noteq> [] then Inl (invalid_definition d (find_reference_errors d))
      else Inr d)"

section \<open>The lifecycle\<close>

record agreement_lifecycle =
  lcCode :: "string option"
  lcCreateTarget :: string
  lcStates :: "(string \<times> state_definition) list"

definition lifecycle_of :: "agreement_definition \<Rightarrow> agreement_lifecycle" where
  "lifecycle_of d = \<lparr>lcCode = Some (adCode d), lcCreateTarget = cnTarget (adCreate d), lcStates = adStates d\<rparr>"

definition moves_to :: "string \<Rightarrow> action_transition" where
  "moves_to target = \<lparr>atTarget = target, atPage = None, atValidation = None, atValues = None, atProcesses = None\<rparr>"

definition state_on :: "(string \<times> action_transition) list option \<Rightarrow> state_definition" where
  "state_on transitions = \<lparr>sdPage = None, sdProcesses = None, sdOn = transitions\<rparr>"

definition default_agreement_lifecycle :: agreement_lifecycle where
  "default_agreement_lifecycle =
     \<lparr>lcCode = None, lcCreateTarget = ''offered'',
      lcStates =
        [(''offered'', state_on (Some [(''accept'', moves_to ''accepted''), (''withdraw'', moves_to ''withdrawn''),
            (''cancel'', moves_to ''cancelled'')])),
         (''accepted'', state_on (Some [(''terminate'', moves_to ''terminated'')])),
         (''withdrawn'', state_on None), (''cancelled'', state_on None), (''terminated'', state_on None)]\<rparr>"

definition agreement_initial_state :: "agreement_lifecycle \<Rightarrow> string" where
  "agreement_initial_state lc = lcCreateTarget lc"

definition require_persisted_agreement_state :: "agreement_lifecycle \<Rightarrow> string \<Rightarrow> state_definition res" where
  "require_persisted_agreement_state lc state =
     (case map_of (lcStates lc) state of
        Some sd \<Rightarrow> Inr sd
      | None \<Rightarrow> Inl (Boom BadImplementation
          (case truthy (lcCode lc) of
             Some c \<Rightarrow> ''Agreement code '' @ quoted c @ '' has unknown persisted state '' @ quoted state
           | None \<Rightarrow> ''Agreement lifecycle has unknown persisted state '' @ quoted state) []))"

definition get_available_actions :: "agreement_lifecycle \<Rightarrow> string \<Rightarrow> string list res" where
  "get_available_actions lc state =
     bind_res (require_persisted_agreement_state lc state) (\<lambda>sd. Inr (map fst (or_empty (sdOn sd))))"

definition invalid_agreement_transition_name :: string where
  "invalid_agreement_transition_name = ''InvalidAgreementTransitionError''"

definition invalid_agreement_transition :: "string \<Rightarrow> string \<Rightarrow> string list \<Rightarrow> js_error" where
  "invalid_agreement_transition from action availableActions =
     NamedError invalid_agreement_transition_name
       (''Cannot perform action '' @ quoted action @ '' from agreement state '' @ quoted from
        @ ''. Available actions: ''
        @ (if availableActions = [] then ''none'' else join '', '' availableActions) @ ''.'')"

definition is_invalid_agreement_transition :: "js_error \<Rightarrow> bool" where
  "is_invalid_agreement_transition e \<longleftrightarrow>
     (case e of NamedError n _ \<Rightarrow> n = invalid_agreement_transition_name | _ \<Rightarrow> False)"

record agreement_action =
  aaFrom :: string
  aaName :: string
  aaPage :: "string option"
  aaTarget :: string
  aaValidation :: "required_field list option"

definition resolve_agreement_action :: "agreement_lifecycle \<Rightarrow> string \<Rightarrow> string \<Rightarrow> agreement_action res" where
  "resolve_agreement_action lc state actionName =
     bind_res (require_persisted_agreement_state lc state) (\<lambda>sd.
     case map_of (or_empty (sdOn sd)) actionName of
       None \<Rightarrow> Inl (invalid_agreement_transition state actionName (map fst (or_empty (sdOn sd))))
     | Some t \<Rightarrow> Inr \<lparr>aaFrom = state, aaName = actionName, aaPage = atPage t, aaTarget = atTarget t,
                      aaValidation = atValidation t\<rparr>)"

definition resolve_action_for_target :: "agreement_lifecycle \<Rightarrow> string \<Rightarrow> string \<Rightarrow> agreement_action res" where
  "resolve_action_for_target lc state target =
     bind_res (require_persisted_agreement_state lc state) (\<lambda>sd.
     let transitions = or_empty (sdOn sd);
         matches = map fst (filter (\<lambda>(_, t). atTarget t = target) transitions) in
     case matches of
       [] \<Rightarrow> Inl (invalid_agreement_transition state (''transition to '' @ target) (map fst transitions))
     | [action] \<Rightarrow> resolve_agreement_action lc state action
     | _ \<Rightarrow> Inl (Boom BadImplementation (''Agreement state '' @ quoted state
              @ '' configures multiple actions targeting '' @ quoted target) []))"

section \<open>Actions\<close>

definition matches_configured_value :: "json option \<Rightarrow> string \<Rightarrow> bool" where
  "matches_configured_value actual expected \<longleftrightarrow>
     (case actual of
        Some (JArr items) \<Rightarrow> JStr expected \<in> set items
      | Some v \<Rightarrow> v = JStr expected
      | None \<Rightarrow> False)"

definition submission_requirements :: "agreement_action \<Rightarrow> (string \<times> string) list" where
  "submission_requirements a = map (\<lambda>r. (rqName r, rqValue r)) (or_empty (aaValidation a))"

definition collect_validation_errors :: "required_field list \<Rightarrow> (string \<times> json) list \<Rightarrow> required_field list" where
  "collect_validation_errors requirements vals =
     filter (\<lambda>r. \<not> matches_configured_value (map_of vals (rqName r)) (rqValue r)) requirements"

datatype action_validation = ValidAction | InvalidAction "string option" "required_field list"

definition validate_action :: "agreement_action \<Rightarrow> (string \<times> json) list \<Rightarrow> action_validation" where
  "validate_action a vals =
     (case aaValidation a of
        None \<Rightarrow> ValidAction
      | Some requirements \<Rightarrow>
          (case collect_validation_errors requirements vals of
             [] \<Rightarrow> ValidAction
           | errors \<Rightarrow> InvalidAction (aaPage a) errors))"

section \<open>Pages\<close>

definition resolve_page :: "agreement_definition \<Rightarrow> string \<Rightarrow> json res" where
  "resolve_page d page =
     (if has_page (adPages d) page then Inr (the (map_of (adPages d) page))
      else Inl (Boom NotFound (''Unknown page '' @ quoted page @ '' for agreement code '' @ quoted (adCode d)) []))"

definition resolve_page_for_state :: "agreement_definition \<Rightarrow> string \<Rightarrow> string res" where
  "resolve_page_for_state d state =
     bind_res (require_persisted_agreement_state (lifecycle_of d) state) (\<lambda>sd.
     let missing = Inl (Boom BadImplementation (''Agreement code '' @ quoted (adCode d) @ '' state '' @ quoted state
            @ '' has no configured page'') []) in
     case truthy (sdPage sd) of
       None \<Rightarrow> missing
     | Some p \<Rightarrow> if has_page (adPages d) p then Inr p else missing)"

definition collect_allowed_pages :: "state_definition \<Rightarrow> string list" where
  "collect_allowed_pages sd =
     List.map_filter truthy (sdPage sd # map (\<lambda>(_, t). atPage t) (or_empty (sdOn sd)))"

definition assert_page_allowed :: "agreement_definition \<Rightarrow> string \<Rightarrow> string \<Rightarrow> unit res" where
  "assert_page_allowed d page state =
     (case map_of (adStates d) state of
        None \<Rightarrow> Inl (Boom NotFound (''Unknown state '' @ quoted state @ '' for agreement code '' @ quoted (adCode d)) [])
      | Some sd \<Rightarrow>
          if page \<in> set (collect_allowed_pages sd) then Inr ()
          else Inl (Boom Forbidden (''Page '' @ quoted page @ '' is not valid for agreement code '' @ quoted (adCode d)
                 @ '' in state '' @ quoted state) []))"

section \<open>What resolving an action gives\<close>

lemma resolved_action [ok_iff]:
  "resolve_agreement_action lc state name = Inr a \<longleftrightarrow>
     (\<exists>sd t. map_of (lcStates lc) state = Some sd \<and> map_of (or_empty (sdOn sd)) name = Some t \<and>
        a = \<lparr>aaFrom = state, aaName = name, aaPage = atPage t, aaTarget = atTarget t, aaValidation = atValidation t\<rparr>)"
  by (auto simp: resolve_agreement_action_def require_persisted_agreement_state_def bind_res_def
      split: option.splits)

lemma resolved_target:
  assumes "resolve_action_for_target lc state target = Inr a"
    and "\<And>sd. map_of (lcStates lc) state = Some sd \<Longrightarrow> distinct (map fst (or_empty (sdOn sd)))"
  shows "resolve_agreement_action lc state (aaName a) = Inr a \<and> aaTarget a = target"
proof -
  obtain sd where sd: "map_of (lcStates lc) state = Some sd"
    using assms by (auto simp: resolve_action_for_target_def require_persisted_agreement_state_def bind_res_def
        split: option.splits)
  let ?on = "or_empty (sdOn sd)"
  obtain n where n: "map fst (filter (\<lambda>(_, t). atTarget t = target) ?on) = [n]"
    and a: "resolve_agreement_action lc state n = Inr a"
    using assms sd by (auto simp: resolve_action_for_target_def require_persisted_agreement_state_def Let_def
        split: list.splits)
  obtain t where t: "filter (\<lambda>(_, t). atTarget t = target) ?on = [(n, t)]" using n by auto
  have "(n, t) \<in> set (filter (\<lambda>(_, t). atTarget t = target) ?on)" by (simp add: t)
  then have "map_of ?on n = Some t" "atTarget t = target" using assms(2) [OF sd] by (auto simp: map_of_eq_Some_iff)
  then show ?thesis using a sd by (auto simp: resolved_action)
qed

text \<open>A definition that passes its checks moves only between its own states.\<close>

lemma valid_definition_targets:
  assumes "validate_agreement_definition jm d = Inr d'" and "map_of (adStates d) s = Some sd"
    and "map_of (or_empty (sdOn sd)) n = Some t"
  shows "map_of (adStates d) (atTarget t) \<noteq> None"
proof -
  have "find_reference_errors d = []"
    using assms(1) by (auto simp: validate_agreement_definition_def split: if_splits)
  then have "find_state_reference_errors sd s (adStates d) (adPages d) = []"
    using map_of_SomeD [OF assms(2)] by (auto simp: find_reference_errors_def)
  then have "find_action_reference_errors t (''states.'' @ s @ ''.on.'' @ n) (adStates d) (adPages d) = []"
    using map_of_SomeD [OF assms(3)] by (auto simp: find_state_reference_errors_def)
  then show ?thesis by (auto simp: find_action_reference_errors_def split: if_splits)
qed

end
