(* ===== verification/AgreementDependencies.thy ===== *)
theory AgreementDependencies
  imports AgreementLifecycle
begin

text \<open>
  What the mappings of a definition mention: the outputs of other processes they read
  (\<open>find-process-output-dependencies.js\<close>), found in the syntax tree JSONata parses an expression to,
  and the fields they fill (\<open>find-unknown-mapping-field.js\<close>), checked against the descriptions of the
  schemas of candidate values (\<open>agreement-value-candidate.schema.js\<close>). A tree is the JSON value the
  parser gives; a node's \<open>type\<close>, \<open>value\<close>, \<open>steps\<close> and \<open>arguments\<close> are its properties.
\<close>

section \<open>Nodes\<close>

fun includes_text :: "string \<Rightarrow> string \<Rightarrow> bool" where
  "includes_text [] t = (t = [])"
| "includes_text (c # cs) t = (starts_with (c # cs) t \<or> includes_text cs t)"

fun node_property :: "string \<Rightarrow> json \<Rightarrow> json option" where
  "node_property k (JObj es) = map_of es k"
| "node_property k v = None"

fun is_ast_object :: "json \<Rightarrow> bool" where
  "is_ast_object (JObj _) = True"
| "is_ast_object (JArr _) = True"
| "is_ast_object v = False"

definition is_node_type :: "json option \<Rightarrow> string \<Rightarrow> bool" where
  "is_node_type node t \<longleftrightarrow>
     (case node of None \<Rightarrow> False | Some v \<Rightarrow> is_ast_object v \<and> node_property ''type'' v = Some (JStr t))"

definition listed_property :: "string \<Rightarrow> json \<Rightarrow> json list" where
  "listed_property k v = (case node_property k v of Some (JArr xs) \<Rightarrow> xs | _ \<Rightarrow> [])"

definition steps_for :: "json \<Rightarrow> json list" where "steps_for = listed_property ''steps''"
definition arguments_for :: "json \<Rightarrow> json list" where "arguments_for = listed_property ''arguments''"

definition nth_node :: "json list \<Rightarrow> nat \<Rightarrow> json option" where
  "nth_node xs i = (if i < length xs then Some (xs ! i) else None)"

definition node_text :: "json option \<Rightarrow> string option" where
  "node_text node = (case Option.bind node (node_property ''value'') of Some (JStr s) \<Rightarrow> Some s | _ \<Rightarrow> None)"

definition node_name :: "json option \<Rightarrow> string option" where
  "node_name node = (if is_node_type node ''name'' then node_text node else None)"

definition is_root_variable :: "json option \<Rightarrow> bool" where
  "is_root_variable node \<longleftrightarrow> is_node_type node ''variable'' \<and> node_text node = Some []"

definition is_outputs_name :: "json option \<Rightarrow> bool" where
  "is_outputs_name node \<longleftrightarrow> node_name node = Some ''outputs''"

definition is_outputs_path :: "json \<Rightarrow> bool" where
  "is_outputs_path node \<longleftrightarrow>
     is_node_type (Some node) ''path'' \<and> is_root_variable (nth_node (steps_for node) 0)
     \<and> is_outputs_name (nth_node (steps_for node) 1)"

definition is_root_outputs_path :: "json \<Rightarrow> bool" where
  "is_root_outputs_path node \<longleftrightarrow> is_outputs_path node \<and> length (steps_for node) = 2"

definition has_stages :: "json option \<Rightarrow> bool" where
  "has_stages node \<longleftrightarrow> json_truthy (Option.bind node (node_property ''stages''))"

definition has_computed_process_key :: "json list \<Rightarrow> bool" where
  "has_computed_process_key steps \<longleftrightarrow> has_stages (nth_node steps 1) \<or> has_stages (nth_node steps 2)"

fun flat_nodes :: "json \<Rightarrow> json list" where
  "flat_nodes (JArr xs) = xs"
| "flat_nodes v = [v]"

fun property_values :: "json \<Rightarrow> json list" where
  "property_values (JObj es) = map snd (filter (\<lambda>(k, _). k \<noteq> ''position'') es)"
| "property_values (JArr xs) = xs"
| "property_values v = []"

definition child_nodes :: "json \<Rightarrow> json list" where
  "child_nodes node = filter is_ast_object (concat (map flat_nodes (property_values node)))"

lemma size_filter: "size_list size (filter P xs) \<le> size_list size xs"
  by (induction xs) auto

lemma size_flat_nodes: "size_list size (concat (map flat_nodes vs)) \<le> size_list size vs"
proof (induction vs)
  case (Cons v vs)
  then show ?case by (cases v) (simp_all add: size_list_append)
qed simp

lemma size_entries: "size_list size (map snd (filter P es)) \<le> size_list (size_prod (\<lambda>_. 0) size) es"
  by (induction es) (auto simp: comp_def)

lemma size_property_values: "is_ast_object v \<Longrightarrow> size_list size (property_values v) < size v"
  using size_entries [of "\<lambda>(k, _). k \<noteq> ''position''"] by (cases v) (auto simp: less_Suc_eq_le)

lemma size_child_nodes [termination_simp]: "size_list size (child_nodes v) < Suc (size v)"
proof -
  have a: "size_list size (child_nodes v) \<le> size_list size (property_values v)"
    unfolding child_nodes_def by (meson le_trans size_filter size_flat_nodes)
  show ?thesis
  proof (cases "is_ast_object v")
    case True
    then show ?thesis using a size_property_values [of v] by simp
  next
    case False
    then have "property_values v = []" by (cases v) auto
    then show ?thesis using a by simp
  qed
qed

function contains_outputs_path :: "json \<Rightarrow> bool" and any_outputs_path :: "json list \<Rightarrow> bool" where
  "contains_outputs_path node = (is_outputs_path node \<or> any_outputs_path (child_nodes node))"
| "any_outputs_path [] = False"
| "any_outputs_path (v # vs) = (contains_outputs_path v \<or> any_outputs_path vs)"
  by pat_completeness auto
termination
  by (relation "measure (\<lambda>x. case x of Inl v \<Rightarrow> 2 * size v + 1 | Inr vs \<Rightarrow> 2 * size_list size vs)")
    (auto simp: size_child_nodes [THEN less_Suc_eq_le [THEN iffD1]] less_Suc_eq_le)

section \<open>Dependencies\<close>

text \<open>A dependency is a process and the output of it that is read, when that is known.\<close>

type_synonym dependency = "string \<times> string option"
type_synonym dependencies = "((string \<times> string) \<times> dependency) list"

definition direct_dependency :: "json \<Rightarrow> dependency option res" where
  "direct_dependency node =
     (if \<not> is_outputs_path node then Inr None
      else let steps = steps_for node in
        case truthy (node_name (nth_node steps 2)) of
          None \<Rightarrow> Inl (JsError ''Agreement Process output access must use a static key'')
        | Some processKey \<Rightarrow>
            if has_computed_process_key steps
            then Inl (JsError ''Agreement Process output access must use a static key'')
            else Inr (Some (processKey, node_name (nth_node steps 3))))"

definition is_lookup :: "json option \<Rightarrow> bool" where
  "is_lookup node \<longleftrightarrow>
     is_node_type node ''function'' \<and> is_node_type (Option.bind node (node_property ''procedure'')) ''variable''
     \<and> node_text (Option.bind node (node_property ''procedure'')) = Some ''lookup''"

definition lookup_node :: "json \<Rightarrow> json option" where
  "lookup_node node = (if is_node_type (Some node) ''path'' then nth_node (steps_for node) 0 else Some node)"

definition lookup_arguments :: "json option \<Rightarrow> json list" where
  "lookup_arguments node = (case node of None \<Rightarrow> [] | Some v \<Rightarrow> arguments_for v)"

definition is_indirect_outputs_lookup :: "json \<Rightarrow> bool" where
  "is_indirect_outputs_lookup node \<longleftrightarrow>
     is_lookup (lookup_node node) \<and>
     (let args = lookup_arguments (lookup_node node) in
      is_root_variable (nth_node args 0) \<and> is_node_type (nth_node args 1) ''string''
      \<and> node_text (nth_node args 1) = Some ''outputs'')"

definition output_after_lookup :: "json \<Rightarrow> string option" where
  "output_after_lookup node =
     (if is_node_type (Some node) ''path'' then node_name (nth_node (steps_for node) 1) else None)"

definition lookup_must_target_outputs :: js_error where
  "lookup_must_target_outputs = JsError ''Agreement Process output lookup must target $.outputs''"

definition require_root_outputs_lookup :: "json \<Rightarrow> unit res" where
  "require_root_outputs_lookup node =
     (if contains_outputs_path node then Inl lookup_must_target_outputs else Inr ())"

text \<open>A lookup without arguments reads the steps of undefined.\<close>

definition lookup_dependency :: "json \<Rightarrow> dependency option res" where
  "lookup_dependency node =
     (if \<not> is_lookup (lookup_node node) then Inr None
      else let args = lookup_arguments (lookup_node node) in
        case nth_node args 0 of
          None \<Rightarrow> Inl TypeError
        | Some target \<Rightarrow>
            if \<not> is_root_outputs_path target
            then bind_res (require_root_outputs_lookup target) (\<lambda>_. Inr None)
            else if \<not> is_node_type (nth_node args 1) ''string''
            then Inl (JsError ''Dynamic Agreement Process output lookup is not supported'')
            else Inr (Some (case node_text (nth_node args 1) of None \<Rightarrow> ''undefined'' | Some k \<Rightarrow> k,
                            output_after_lookup node)))"

definition dependency_key :: "dependency \<Rightarrow> string \<times> string" where
  "dependency_key d = (fst d, case snd d of None \<Rightarrow> [] | Some name \<Rightarrow> name)"

definition reject_hidden_output_access :: "json \<Rightarrow> unit res" where
  "reject_hidden_output_access node =
     (if is_node_type (Some node) ''string'' then
        (case node_text (Some node) of
           None \<Rightarrow> Inl TypeError
         | Some s \<Rightarrow> if includes_text s ''$.outputs''
             then Inl (JsError ''Agreement Process output access cannot be hidden in a string'') else Inr ())
      else Inr ())"

definition reject_indirect_output_access :: "json \<Rightarrow> unit res" where
  "reject_indirect_output_access node =
     (if is_indirect_outputs_lookup node then Inl lookup_must_target_outputs else Inr ())"

definition node_dependency :: "json \<Rightarrow> dependency option res" where
  "node_dependency node =
     bind_res (reject_hidden_output_access node) (\<lambda>_.
     bind_res (reject_indirect_output_access node) (\<lambda>_.
     bind_res (direct_dependency node) (\<lambda>d.
     case d of Some x \<Rightarrow> Inr (Some x) | None \<Rightarrow> lookup_dependency node)))"

function visit_ast :: "json \<Rightarrow> dependencies \<Rightarrow> dependencies res"
and visit_nodes :: "json list \<Rightarrow> dependencies \<Rightarrow> dependencies res" where
  "visit_ast node deps =
     bind_res (node_dependency node) (\<lambda>found.
     case found of
       Some d \<Rightarrow> Inr (obj_put (dependency_key d) d deps)
     | None \<Rightarrow> visit_nodes (child_nodes node) deps)"
| "visit_nodes [] deps = Inr deps"
| "visit_nodes (v # vs) deps = bind_res (visit_ast v deps) (\<lambda>deps1. visit_nodes vs deps1)"
  by pat_completeness auto
termination
  by (relation "measure (\<lambda>x. case x of Inl (v, _) \<Rightarrow> 2 * size v + 1 | Inr (vs, _) \<Rightarrow> 2 * size_list size vs)")
    (auto simp: size_child_nodes [THEN less_Suc_eq_le [THEN iffD1]] less_Suc_eq_le)

section \<open>Mappings\<close>

definition outputs_reference :: string where "outputs_reference = CHR 0x24 # ''.outputs''"

definition is_output_mapping :: "string \<Rightarrow> bool" where
  "is_output_mapping s \<longleftrightarrow>
     is_expression s
     \<or> starts_with s outputs_reference
        \<and> (case drop (length outputs_reference) s of [] \<Rightarrow> True | c # _ \<Rightarrow> c \<in> {CHR ''.'', CHR ''[''})"

definition inspect_string :: "(string \<Rightarrow> json res) \<Rightarrow> string \<Rightarrow> dependencies \<Rightarrow> dependencies res" where
  "inspect_string parse s deps =
     (if \<not> is_output_mapping s then Inr deps
      else bind_res (parse (to_process_expression s)) (\<lambda>ast. visit_ast ast deps))"

function (sequential) inspect_mapping :: "(string \<Rightarrow> json res) \<Rightarrow> json \<Rightarrow> dependencies \<Rightarrow> dependencies res"
and inspect_mappings :: "(string \<Rightarrow> json res) \<Rightarrow> json list \<Rightarrow> dependencies \<Rightarrow> dependencies res" where
  "inspect_mapping parse (JStr s) deps = inspect_string parse s deps"
| "inspect_mapping parse (JArr vs) deps = inspect_mappings parse vs deps"
| "inspect_mapping parse (JObj es) deps = inspect_mappings parse (map snd es) deps"
| "inspect_mapping parse v deps = Inr deps"
| "inspect_mappings parse [] deps = Inr deps"
| "inspect_mappings parse (v # vs) deps =
     bind_res (inspect_mapping parse v deps) (\<lambda>deps1. inspect_mappings parse vs deps1)"
  by pat_completeness auto
termination
  by (relation "measure (\<lambda>x. case x of Inl (_, v, _) \<Rightarrow> size v | Inr (_, vs, _) \<Rightarrow> size_list size vs)")
    (auto simp: entries_size)

definition inspect_optional ::
  "(string \<Rightarrow> json res) \<Rightarrow> json option \<Rightarrow> dependencies \<Rightarrow> dependencies res" where
  "inspect_optional parse m deps = (case m of None \<Rightarrow> Inr deps | Some v \<Rightarrow> inspect_mapping parse v deps)"

definition find_process_output_dependencies ::
  "(string \<Rightarrow> json res) \<Rightarrow> json option \<Rightarrow> json option \<Rightarrow> json option \<Rightarrow> dependency list res" where
  "find_process_output_dependencies parse request input output =
     bind_res (inspect_optional parse request []) (\<lambda>deps1.
     bind_res (inspect_optional parse input deps1) (\<lambda>deps2.
     bind_res (inspect_optional parse output deps2) (\<lambda>deps3. Inr (map snd deps3))))"

definition process_dependencies :: "(string \<Rightarrow> json res) \<Rightarrow> process_definition \<Rightarrow> dependency list res" where
  "process_dependencies parse pd =
     find_process_output_dependencies parse (map_option (\<lambda>b. JObj [(''body'', b)]) (pdRequestBody pd))
       (pdInput pd) (map_option JObj (pdOutput pd))"

section \<open>Descriptions of candidate values\<close>

text \<open>
  What \<open>describe()\<close> tells of a schema, as far as it is read: its type, the schema of an array's
  items, an object's fields, whether unknown fields are allowed and whether it is forbidden.
\<close>

datatype description =
  Description (dsType: string) (dsItems: "description list") (dsKeys: "(string \<times> description) list")
    (dsUnknown: bool) (dsForbidden: bool)

definition a_string :: description where "a_string = Description ''string'' [] [] False False"
definition a_number :: description where "a_number = Description ''number'' [] [] False False"
definition a_forbidden :: description where "a_forbidden = Description ''string'' [] [] False True"
definition an_object :: "(string \<times> description) list \<Rightarrow> description" where
  "an_object known = Description ''object'' [] known False False"
definition any_object :: description where "any_object = Description ''object'' [] [] True False"
definition an_array :: "description \<Rightarrow> description" where "an_array d = Description ''array'' [d] [] False False"

definition strings :: "string list \<Rightarrow> (string \<times> description) list" where
  "strings names = map (\<lambda>n. (n, a_string)) names"

definition applicant_description :: description where
  "applicant_description = an_object
     [(''business'', an_object [(''name'', a_string),
        (''address'', an_object (strings [''line1'', ''line2'', ''line3'', ''line4'', ''line5'', ''street'', ''city'', ''postalCode'']))]),
      (''customer'', an_object [(''name'', an_object (strings [''title'', ''first'', ''middle'', ''last'']))])]"

definition parcel_description :: description where
  "parcel_description = an_object (strings [''id'', ''sheetId'', ''parcelId'']
     @ [(''area'', an_object [(''quantity'', a_number), (''unit'', a_string)])])"

definition funded_entry_fields :: "description \<Rightarrow> (string \<times> description) list" where
  "funded_entry_fields i =
     [(''id'', i)] @ strings [''code'', ''description'', ''version'', ''startDate'', ''endDate'', ''parcel'']
     @ [(''quantity'', a_number), (''unit'', a_string), (''ratePence'', a_number), (''totalAmountPence'', a_number)]"

definition action_description :: "description \<Rightarrow> description" where
  "action_description i = an_object (funded_entry_fields i
     @ [(''durationYears'', a_number), (''annualAmountPence'', a_number), (''ref'', a_string)])"

definition item_description :: "description \<Rightarrow> description" where
  "item_description i = an_object (funded_entry_fields i @ [(''ref'', a_string)])"

definition payment_schedule_description ::
  "(string \<times> description) list \<Rightarrow> (string \<times> description) list \<Rightarrow> description" where
  "payment_schedule_description references identity =
     an_object [(''frequency'', a_string),
       (''instalments'', an_array (an_object ([(''dueDate'', a_string), (''totalAmountPence'', a_number), (''correlationId'', a_string)]
          @ identity
          @ [(''lineItems'', an_array (an_object ([(''amountPence'', a_number), (''description'', a_string)] @ references)))])))]"

definition common_value_fields :: "(string \<times> description) list" where
  "common_value_fields =
     [(''schemeCode'', a_string), (''name'', a_string), (''applicant'', applicant_description), (''startDate'', a_string),
      (''endDate'', a_string), (''parcels'', an_array parcel_description), (''annualAmountPence'', a_number),
      (''totalAmountPence'', a_number)]"

definition process_output_descriptions :: "(string \<times> description) list" where
  "process_output_descriptions = common_value_fields @
     [(''actions'', an_array (action_description a_forbidden)), (''items'', an_array (item_description a_forbidden)),
      (''paymentSchedule'', payment_schedule_description (strings [''actionRef'', ''itemRef'']) [])]"

definition find_agreement_process_output_schema :: "string \<Rightarrow> description option" where
  "find_agreement_process_output_schema field = map_of process_output_descriptions field"

definition transition_candidate_description :: description where
  "transition_candidate_description = an_object (common_value_fields @
     [(''application'', any_object), (''actions'', an_array (action_description a_string)),
      (''items'', an_array (item_description a_string)),
      (''paymentSchedule'', payment_schedule_description (strings [''actionId'', ''itemId'', ''actionRef'', ''itemRef''])
         [(''id'', a_string)])])"

section \<open>Unknown fields of a mapping\<close>

fun is_mapping_object :: "json \<Rightarrow> bool" where
  "is_mapping_object (JObj _) = True"
| "is_mapping_object v = False"

definition array_item_schema :: "description \<Rightarrow> description" where
  "array_item_schema d = (case dsItems d of [] \<Rightarrow> Description [] [] [] False False | i # _ \<Rightarrow> i)"

definition is_unknown_field :: "description option \<Rightarrow> bool" where
  "is_unknown_field d \<longleftrightarrow> (case d of None \<Rightarrow> True | Some x \<Rightarrow> dsForbidden x)"

definition first_found :: "'a option \<Rightarrow> 'a option \<Rightarrow> 'a option" where
  "first_found a b = (case a of None \<Rightarrow> b | Some x \<Rightarrow> Some x)"

lemma size_numbered: "size_list (size \<circ> snd) (zip (map f [0..<length vs]) vs) = size_list size vs"
proof -
  have zipped: "length ns = length vs \<Longrightarrow> size_list (size \<circ> snd) (zip ns vs) = size_list size vs"
    for ns :: "'a list" by (induction ns vs rule: list_induct2) auto
  show ?thesis by (rule zipped) simp
qed

function (sequential) find_unknown_mapping_field :: "json \<Rightarrow> description \<Rightarrow> string \<Rightarrow> string option"
and find_in_literal_array :: "(string \<times> json) list \<Rightarrow> description \<Rightarrow> string \<Rightarrow> string option"
and find_in_fields :: "(string \<times> json) list \<Rightarrow> (string \<times> description) list \<Rightarrow> string \<Rightarrow> string option" where
  "find_unknown_mapping_field (JObj es) d path =
     (if dsType d = ''array'' then
        (case map_of es ''items'' of
           None \<Rightarrow> None
         | Some m \<Rightarrow> find_unknown_mapping_field m (array_item_schema d) path)
      else if dsType d = ''object'' then (if dsUnknown d then None else find_in_fields es (dsKeys d) path)
      else None)"
| "find_unknown_mapping_field (JArr vs) d path =
     (let numbered = zip (map show_nat [0..<length vs]) vs in
      if dsType d = ''array'' then find_in_literal_array numbered (array_item_schema d) path
      else if dsType d = ''object'' then (if dsUnknown d then None else find_in_fields numbered (dsKeys d) path)
      else None)"
| "find_unknown_mapping_field v d path = None"
| "find_in_literal_array [] d path = None"
| "find_in_literal_array ((i, v) # vs) d path =
     first_found (find_unknown_mapping_field v d (path @ ''['' @ i @ '']'')) (find_in_literal_array vs d path)"
| "find_in_fields [] known path = None"
| "find_in_fields ((k, v) # es) known path =
     first_found
       (if is_unknown_field (map_of known k) then Some (path @ ''.'' @ k)
        else find_unknown_mapping_field v (the (map_of known k)) (path @ ''.'' @ k))
       (find_in_fields es known path)"
  by pat_completeness auto
termination
  by (relation "measure (\<lambda>x. case x of Inl (v, _) \<Rightarrow> size v
      | Inr (Inl (vs, _)) \<Rightarrow> size_list (size \<circ> snd) vs | Inr (Inr (es, _)) \<Rightarrow> size_list (size \<circ> snd) es)")
    (auto dest: map_of_smaller
      simp: size_numbered [unfolded comp_def] entries_size [unfolded comp_def] comp_def)

end
