(* ===== verification/AgreementProcesses.thy ===== *)
theory AgreementProcesses
  imports AgreementDependencies
begin

text \<open>
  The processes of an Agreement definition: what compiling them checks
  (\<open>compile-process-definitions.js\<close>, the sequences of \<open>agreement-process-runtime.js\<close>,
  \<open>compile-transition-value-mapping.js\<close>) and what running a sequence does. JSONata, the endpoints
  called and the shapes Joi checks are functions of the environment; a mapping is evaluated in the
  context it is given. Running has no effect on the database: commit operations are staged.
\<close>

section \<open>The environment\<close>

record execution =
  exExecutedAt :: string
  exCorrelationId :: "string option"

type_synonym outputs = "(string \<times> (string \<times> json) list) list"

record process_context =
  pcApplication :: "json option"
  pcAgreement :: "agreement_record option"
  pcTransition :: "(string \<times> (string \<times> json) list) option"
  pcExecution :: execution
  pcLocation :: string
  pcTarget :: string
  pcOutputs :: outputs
  pcResponse :: "json option"

datatype mapping_context =
    InputContext json
  | CreationContext json json
  | ProcessContext process_context
  | TransitionContext agreement_record outputs

record process_handler =
  hdInputSchema :: description
  hdValidateInput :: "json \<Rightarrow> string list + json"
  hdCommitSchema :: "(string list \<Rightarrow> string list) option"
  hdExecute :: "agreement_record option \<Rightarrow> execution \<Rightarrow> json \<Rightarrow> string list option res"
  hdLocations :: "string list"

text \<open>A check of a shape gives the paths at fault, or the value as it was converted.\<close>

record process_env =
  evEvaluate :: "mapping_context \<Rightarrow> json option \<Rightarrow> string \<Rightarrow> json option res"
  evParse :: "string \<Rightarrow> json res"
  evCall :: "endpoint \<Rightarrow> json \<Rightarrow> json res"
  evOutput :: "string \<Rightarrow> json option \<Rightarrow> string list + json option"
  evRead :: "(string \<times> json) list \<Rightarrow> agreement_values res"
  evCandidate :: "json option \<Rightarrow> string list + agreement_values"
  evValueFaults :: "agreement_values \<Rightarrow> string list"
  evOther :: "(string \<times> json) list \<Rightarrow> bool"
  evIsoDate :: "string \<Rightarrow> bool"
  evHandlers :: "(string \<times> process_handler) list"

definition bad_implementation :: "string \<Rightarrow> js_error" where
  "bad_implementation m = Boom BadImplementation m []"

definition resolve_in :: "process_env \<Rightarrow> mapping_context \<Rightarrow> bool \<Rightarrow> json \<Rightarrow> json option res" where
  "resolve_in env ctx allowUnresolved m = resolve_process_mapping (evEvaluate env ctx) allowUnresolved m"

definition compiles :: "process_env \<Rightarrow> string \<Rightarrow> unit res" where
  "compiles env e = bind_res (evParse env e) (\<lambda>_. Inr ())"

definition validate_process_mapping :: "process_env \<Rightarrow> json option \<Rightarrow> unit res" where
  "validate_process_mapping env m = (case m of None \<Rightarrow> Inr () | Some v \<Rightarrow> validate_mapping (compiles env) v)"

definition format_validation_error_paths :: "string list \<Rightarrow> string" where
  "format_validation_error_paths paths = join '', '' (map (\<lambda>p. if p = [] then ''value'' else p) paths)"

definition validate_mapped_value :: "string list + 'a \<Rightarrow> string \<Rightarrow> 'a res" where
  "validate_mapped_value checked message =
     (case checked of
        Inl paths \<Rightarrow> Inl (bad_implementation (message @ '' at: '' @ format_validation_error_paths paths))
      | Inr v \<Rightarrow> Inr v)"

section \<open>The registered handlers\<close>

definition create_agreement_payment :: string where "create_agreement_payment = ''create-agreement-payment''"

definition validate_empty_object :: "json \<Rightarrow> string list + json" where
  "validate_empty_object v =
     (case v of JObj [] \<Rightarrow> Inr v | JObj es \<Rightarrow> Inl (map fst es) | _ \<Rightarrow> Inl [[]])"

definition payment_commit_faults :: "string list \<Rightarrow> string list" where
  "payment_commit_faults operations =
     (if operations = [create_agreement_payment] then [] else [''commitOperations''])"

definition agreement_process_handlers :: "(string \<times> process_handler) list" where
  "agreement_process_handlers =
     [(''CREATE_AGREEMENT_PAYMENT'',
       \<lparr>hdInputSchema = an_object [], hdValidateInput = validate_empty_object,
        hdCommitSchema = Some payment_commit_faults,
        hdExecute = (\<lambda>_ _ _. Inr (Some [create_agreement_payment])), hdLocations = [''transition'']\<rparr>)]"

section \<open>Compiling a process\<close>

definition assert_valid_mapping :: "process_env \<Rightarrow> string \<Rightarrow> string \<Rightarrow> json option \<Rightarrow> unit res" where
  "assert_valid_mapping env processKey path m =
     (case validate_process_mapping env m of
        Inl _ \<Rightarrow> Inl (bad_implementation (''Agreement Process '' @ quoted processKey @ '' '' @ path
                @ '' has an invalid mapping''))
      | Inr _ \<Rightarrow> Inr ())"

definition assert_known_mapping_fields :: "json option \<Rightarrow> description \<Rightarrow> string \<Rightarrow> unit res" where
  "assert_known_mapping_fields m d path =
     (case Option.bind m (\<lambda>v. truthy (find_unknown_mapping_field v d path)) of
        Some p \<Rightarrow> Inl (bad_implementation (''Agreement Process mapping field '' @ quoted p @ '' is unknown''))
      | None \<Rightarrow> Inr ())"

definition assert_known_output_mappings :: "string \<Rightarrow> (string \<times> json) list \<Rightarrow> unit res" where
  "assert_known_output_mappings processKey output =
     for_each (\<lambda>(name, m).
       case find_agreement_process_output_schema name of
         None \<Rightarrow> Inl (bad_implementation (''Agreement Process '' @ quoted processKey
                   @ '' declares unknown output '' @ quoted name))
       | Some d \<Rightarrow> assert_known_mapping_fields (Some m) d (processKey @ ''.output.'' @ name)) output"

definition find_process_handler :: "string \<Rightarrow> (string \<times> process_handler) list \<Rightarrow> process_handler res" where
  "find_process_handler processKey handlers =
     (case map_of handlers processKey of
        Some h \<Rightarrow> Inr h
      | None \<Rightarrow> Inl (bad_implementation (''Agreement Process handler '' @ quoted processKey
                  @ '' has no registered handler'')))"

text \<open>The shape of a definition has a body and an output in every endpoint.\<close>

definition compile_endpoint :: "process_env \<Rightarrow> string \<Rightarrow> process_definition \<Rightarrow> unit res" where
  "compile_endpoint env processKey pd =
     (case (pdRequestBody pd, pdOutput pd) of
        (Some body, Some output) \<Rightarrow>
          bind_res (assert_valid_mapping env processKey ''request.body'' (Some body)) (\<lambda>_.
          bind_res (assert_valid_mapping env processKey ''output'' (Some (JObj output))) (\<lambda>_.
          assert_known_output_mappings processKey output))
      | _ \<Rightarrow> Inl TypeError)"

definition compile_handler :: "process_env \<Rightarrow> string \<Rightarrow> process_definition \<Rightarrow> unit res" where
  "compile_handler env processKey pd =
     bind_res (find_process_handler processKey (evHandlers env)) (\<lambda>h.
     bind_res (assert_valid_mapping env processKey ''input'' (pdInput pd)) (\<lambda>_.
     assert_known_mapping_fields (pdInput pd) (hdInputSchema h) (processKey @ ''.input'')))"

definition compile_process :: "process_env \<Rightarrow> string \<Rightarrow> process_definition \<Rightarrow> unit res" where
  "compile_process env processKey pd =
     bind_res (if pdType pd = ''endpoint'' then compile_endpoint env processKey pd
               else compile_handler env processKey pd) (\<lambda>_.
     case process_dependencies (evParse env) pd of
       Inl e \<Rightarrow> Inl (bad_implementation (''Agreement Process '' @ quoted processKey
                  @ '' has an invalid output dependency: '' @ error_message e))
     | Inr _ \<Rightarrow> Inr ())"

definition process_definitions :: "agreement_definition \<Rightarrow> (string \<times> process_definition) list" where
  "process_definitions d = or_empty (adProcessDefinitions d)"

definition compile_process_definitions :: "process_env \<Rightarrow> (string \<times> process_definition) list \<Rightarrow> unit res" where
  "compile_process_definitions env defs = for_each (\<lambda>(k, pd). compile_process env k pd) defs"

section \<open>Running a process\<close>

record process_result =
  prOutput :: "(string \<times> json) list"
  prOperations :: "string list"

definition map_request :: "process_env \<Rightarrow> string \<Rightarrow> json \<Rightarrow> process_context \<Rightarrow> json option res" where
  "map_request env processKey m ctx =
     (case resolve_in env (ProcessContext ctx) False m of
        Inl _ \<Rightarrow> Inl (bad_implementation (''Agreement Process '' @ quoted processKey @ '' request mapping failed''))
      | Inr v \<Rightarrow> Inr v)"

definition call_endpoint :: "process_env \<Rightarrow> string \<Rightarrow> endpoint \<Rightarrow> json option \<Rightarrow> json res" where
  "call_endpoint env processKey e body =
     (case evCall env e (case body of None \<Rightarrow> JObj [] | Some JNull \<Rightarrow> JObj [] | Some b \<Rightarrow> b) of
        Inr response \<Rightarrow> Inr response
      | Inl (Boom BadGateway m fs) \<Rightarrow> Inl (Boom BadGateway m fs)
      | Inl _ \<Rightarrow> Inl (Boom BadGateway (''Agreement Process '' @ quoted processKey @ '' endpoint call failed'') []))"

definition map_output_entry ::
  "process_env \<Rightarrow> string \<Rightarrow> process_context \<Rightarrow> string \<times> json \<Rightarrow> (string \<times> json) option res" where
  "map_output_entry env processKey ctx = (\<lambda>(name, m).
     bind_res (resolve_in env (ProcessContext ctx) False m) (\<lambda>mapped.
     bind_res (validate_mapped_value (evOutput env name mapped)
       (''Agreement Process '' @ quoted processKey @ '' returned malformed output '' @ quoted name)) (\<lambda>v.
     Inr (map_option (Pair name) v))))"

definition map_output ::
  "process_env \<Rightarrow> string \<Rightarrow> (string \<times> json) list \<Rightarrow> process_context \<Rightarrow> (string \<times> json) list res" where
  "map_output env processKey output ctx =
     (case map_res (map_output_entry env processKey ctx) output of
        Inr entries \<Rightarrow> Inr (List.map_filter id entries)
      | Inl e \<Rightarrow> Inl (Boom BadGateway (if is_boom e then error_message e
            else ''Agreement Process '' @ quoted processKey @ '' received a malformed response'') []))"

definition run_endpoint ::
  "process_env \<Rightarrow> string \<Rightarrow> process_definition \<Rightarrow> process_context \<Rightarrow> process_result res" where
  "run_endpoint env processKey pd ctx =
     (case (pdRequestBody pd, pdOutput pd, pdEndpoint pd) of
        (Some body, Some output, Some e) \<Rightarrow>
          bind_res (map_request env processKey body ctx) (\<lambda>payload.
          bind_res (call_endpoint env processKey (e\<lparr>enCode := processKey\<rparr>) payload) (\<lambda>response.
          bind_res (map_output env processKey output (ctx\<lparr>pcResponse := Some response\<rparr>)) (\<lambda>mapped.
          Inr \<lparr>prOutput = mapped, prOperations = []\<rparr>)))
      | _ \<Rightarrow> Inl TypeError)"

definition map_handler_input :: "process_env \<Rightarrow> string \<Rightarrow> process_definition \<Rightarrow> process_context \<Rightarrow> json option res" where
  "map_handler_input env processKey pd ctx =
     (case pdInput pd of
        None \<Rightarrow> Inr None
      | Some m \<Rightarrow>
          (case resolve_in env (ProcessContext ctx) False m of
             Inl _ \<Rightarrow> Inl (bad_implementation (''Agreement Process '' @ quoted processKey @ '' input mapping failed''))
           | Inr v \<Rightarrow> Inr v))"

definition validate_handler_result :: "string \<Rightarrow> process_handler \<Rightarrow> string list option \<Rightarrow> string list res" where
  "validate_handler_result processKey h result =
     (case result of
        None \<Rightarrow> Inr []
      | Some operations \<Rightarrow>
          (case hdCommitSchema h of
             None \<Rightarrow> Inl (bad_implementation (''Agreement Process handler '' @ quoted processKey
                       @ '' returned unsupported commit operations''))
           | Some faults \<Rightarrow> validate_mapped_value
               (if faults operations = [] then Inr operations else Inl (faults operations))
               (''Agreement Process handler '' @ quoted processKey @ '' returned malformed commit operations'')))"

definition execute_handler ::
  "string \<Rightarrow> process_handler \<Rightarrow> process_context \<Rightarrow> json \<Rightarrow> string list res" where
  "execute_handler processKey h ctx input =
     (case bind_res (hdExecute h (pcAgreement ctx) (pcExecution ctx) input) (validate_handler_result processKey h) of
        Inr operations \<Rightarrow> Inr operations
      | Inl e \<Rightarrow> Inl (if is_boom e then e
            else bad_implementation (''Agreement Process handler '' @ quoted processKey @ '' failed during execution'')))"

definition run_handler ::
  "process_env \<Rightarrow> string \<Rightarrow> process_definition \<Rightarrow> process_context \<Rightarrow> process_result res" where
  "run_handler env processKey pd ctx =
     bind_res (find_process_handler processKey (evHandlers env)) (\<lambda>h.
     bind_res (map_handler_input env processKey pd ctx) (\<lambda>mapped.
     bind_res (validate_mapped_value
       (hdValidateInput h (case mapped of None \<Rightarrow> JObj [] | Some JNull \<Rightarrow> JObj [] | Some v \<Rightarrow> v))
       (''Agreement Process '' @ quoted processKey @ '' input failed validation'')) (\<lambda>input.
     bind_res (execute_handler processKey h ctx input) (\<lambda>operations.
     Inr \<lparr>prOutput = [], prOperations = operations\<rparr>))))"

definition run_process ::
  "process_env \<Rightarrow> string \<Rightarrow> process_definition \<Rightarrow> process_context \<Rightarrow> process_result res" where
  "run_process env processKey pd ctx =
     (if pdType pd = ''endpoint'' then run_endpoint env processKey pd ctx else run_handler env processKey pd ctx)"

end
