(* ===== verification/AgreementRuntime.thy ===== *)
theory AgreementRuntime
  imports AgreementProcesses PayloadChanges
begin

text \<open>
  Running the sequences of an Agreement definition (\<open>agreement-process-runtime.js\<close>), the values a
  transition maps (\<open>compile-transition-value-mapping.js\<close>) and those an Agreement is created with
  (\<open>compile-creation-mappings.js\<close>, \<open>compile-agreement-creation.js\<close>), the execution of an action
  (\<open>compile-agreement-action-execution.js\<close>) and the definition put together from them
  (\<open>agreement-definition.js\<close>). What compiling gives is the definition itself, once its checks pass.
\<close>

section \<open>Checking the values of transitions\<close>

record transition_entry =
  tePath :: string
  teProcesses :: "string list"
  teStateName :: string
  teTransitionName :: string
  teValues :: "json option"

definition transition_entries :: "agreement_definition \<Rightarrow> transition_entry list" where
  "transition_entries d =
     concat (map (\<lambda>(stateName, sd). map (\<lambda>(name, t).
       \<lparr>tePath = ''states.'' @ stateName @ ''.on.'' @ name @ ''.values'', teProcesses = or_empty (atProcesses t),
        teStateName = stateName, teTransitionName = name, teValues = atValues t\<rparr>) (or_empty (sdOn sd)))
       (adStates d))"

definition invalid_in_definition :: "agreement_definition \<Rightarrow> string \<Rightarrow> string \<Rightarrow> js_error" where
  "invalid_in_definition d path problem =
     bad_implementation (''Invalid agreement definition '' @ quoted (adCode d) @ '': '' @ quoted path @ problem)"

definition compile_transition_mapping ::
  "process_env \<Rightarrow> agreement_definition \<Rightarrow> transition_entry \<Rightarrow> json option res" where
  "compile_transition_mapping env d entry =
     (case teValues entry of
        None \<Rightarrow> Inr None
      | Some m \<Rightarrow>
          (case validate_process_mapping env (Some m) of
             Inl _ \<Rightarrow> Inl (invalid_in_definition d (tePath entry) '' contains an invalid mapping'')
           | Inr _ \<Rightarrow>
               (case truthy (find_unknown_mapping_field m transition_candidate_description (tePath entry)) of
                  Some p \<Rightarrow> Inl (invalid_in_definition d p '' is unknown'')
                | None \<Rightarrow> Inr (Some m))))"

definition has_declared_output :: "process_definition \<Rightarrow> string option \<Rightarrow> bool" where
  "has_declared_output pd outputName \<longleftrightarrow>
     (case truthy outputName of None \<Rightarrow> True | Some n \<Rightarrow> map_of (or_empty (pdOutput pd)) n \<noteq> None)"

definition assert_dependency_output ::
  "agreement_definition \<Rightarrow> transition_entry \<Rightarrow> dependency \<Rightarrow> unit res" where
  "assert_dependency_output d entry dep =
     (case map_of (process_definitions d) (fst dep) of
        None \<Rightarrow> Inl (bad_implementation (''Agreement transition values '' @ quoted (tePath entry)
                  @ '' depend on undefined Process '' @ quoted (fst dep)))
      | Some pd \<Rightarrow>
          if has_declared_output pd (snd dep) then Inr ()
          else Inl (bad_implementation (''Agreement transition values '' @ quoted (tePath entry)
                 @ '' depend on missing output '' @ quoted (fst dep @ ''.'' @ part_string (snd dep)))))"

definition assert_producer_before_handlers ::
  "transition_entry \<Rightarrow> string \<Rightarrow> nat option \<Rightarrow> unit res" where
  "assert_producer_before_handlers entry processKey firstHandler =
     (case find_index (\<lambda>p. p = processKey) (teProcesses entry) of
        None \<Rightarrow> Inl (bad_implementation (''Agreement transition values '' @ quoted (tePath entry)
                  @ '' require Process '' @ quoted processKey @ '' in the transition sequence''))
      | Some producer \<Rightarrow>
          (case firstHandler of
             Some h \<Rightarrow> if producer \<ge> h
               then Inl (bad_implementation (''Agreement transition values require '' @ quoted processKey
                      @ '' before staged handler '' @ quoted (teProcesses entry ! h)))
               else Inr ()
           | None \<Rightarrow> Inr ()))"

definition is_handler :: "agreement_definition \<Rightarrow> string \<Rightarrow> bool" where
  "is_handler d processKey \<longleftrightarrow>
     (case map_of (process_definitions d) processKey of None \<Rightarrow> False | Some pd \<Rightarrow> pdType pd = ''handler'')"

definition assert_dependencies_before_handlers ::
  "process_env \<Rightarrow> agreement_definition \<Rightarrow> transition_entry \<Rightarrow> json option \<Rightarrow> unit res" where
  "assert_dependencies_before_handlers env d entry m =
     (case m of
        None \<Rightarrow> Inr ()
      | Some v \<Rightarrow>
          bind_res (find_process_output_dependencies (evParse env) None (Some v) None) (\<lambda>deps.
          for_each (\<lambda>dep.
            bind_res (assert_dependency_output d entry dep) (\<lambda>_.
            assert_producer_before_handlers entry (fst dep) (find_index (is_handler d) (teProcesses entry)))) deps))"

definition compile_transition_value_mappings :: "process_env \<Rightarrow> agreement_definition \<Rightarrow> unit res" where
  "compile_transition_value_mappings env d =
     for_each (\<lambda>entry.
       bind_res (compile_transition_mapping env d entry) (\<lambda>m.
       assert_dependencies_before_handlers env d entry m)) (transition_entries d)"

section \<open>Resolving the values of a transition\<close>

definition validate_with :: "agreement_definition \<Rightarrow> string list + agreement_values \<Rightarrow> agreement_values res" where
  "validate_with d checked =
     (case checked of
        Inl paths \<Rightarrow> Inl (bad_implementation (''Agreement definition '' @ quoted (adCode d)
               @ '' produced invalid transition values at: '' @ format_validation_error_paths paths))
      | Inr v \<Rightarrow> Inr v)"

definition immutable_value_fields :: "string list" where
  "immutable_value_fields = [''schemeCode'', ''name'', ''applicant'', ''application'']"

definition same_optional_json :: "json option \<Rightarrow> json option \<Rightarrow> bool" where
  "same_optional_json a b \<longleftrightarrow>
     (case (a, b) of (None, None) \<Rightarrow> True | (Some x, Some y) \<Rightarrow> same_json x y | _ \<Rightarrow> False)"

definition assert_immutable_values :: "agreement_record \<Rightarrow> agreement_values \<Rightarrow> unit res" where
  "assert_immutable_values a candidate =
     for_each (\<lambda>field.
       if same_optional_json (map_of (vaOther candidate) field) (map_of (vaOther (amValues a)) field) then Inr ()
       else Inl (bad_implementation (''Agreement transition cannot change immutable Agreement field '' @ quoted field)))
       immutable_value_fields"

text \<open>The schema's faults are those of \<open>evValueFaults\<close>; there are none exactly for good values.\<close>

definition check_values :: "process_env \<Rightarrow> agreement_values \<Rightarrow> string list + agreement_values" where
  "check_values env v =
     (if agreement_value_schema (evOther env) v then Inr v else Inl (evValueFaults env v))"

definition resolve_transition_mapping ::
  "process_env \<Rightarrow> agreement_definition \<Rightarrow> json \<Rightarrow> agreement_record \<Rightarrow> outputs \<Rightarrow> agreement_values res" where
  "resolve_transition_mapping env d m a outs =
     (case bind_res (resolve_in env (TransitionContext a outs) False m) (\<lambda>mapped.
           bind_res (validate_with d (evCandidate env mapped)) (\<lambda>candidate.
           bind_res (assert_immutable_values a candidate) (\<lambda>_.
           bind_res (reconcile_transition_identities a candidate) (\<lambda>v.
           validate_with d (check_values env v))))) of
        Inr v \<Rightarrow> Inr v
      | Inl e \<Rightarrow> Inl (if is_boom e then e
            else bad_implementation (''Agreement definition '' @ quoted (adCode d)
                   @ '' could not resolve transition values'')))"

definition find_transition :: "agreement_definition \<Rightarrow> string \<Rightarrow> string \<Rightarrow> action_transition option" where
  "find_transition d state transition =
     Option.bind (map_of (adStates d) state) (\<lambda>sd. map_of (or_empty (sdOn sd)) transition)"

definition resolve_transition_values ::
  "process_env \<Rightarrow> agreement_definition \<Rightarrow> string \<Rightarrow> string \<Rightarrow> agreement_record \<Rightarrow> outputs \<Rightarrow> agreement_values option res" where
  "resolve_transition_values env d state transition a outs =
     (case Option.bind (find_transition d state transition) atValues of
        None \<Rightarrow> Inr None
      | Some m \<Rightarrow> bind_res (resolve_transition_mapping env d m a outs) (\<lambda>v. Inr (Some v)))"

section \<open>Checking sequences\<close>

record process_sequence =
  sqLocation :: string
  sqPath :: string
  sqProcesses :: "string list"
  sqProduced :: "string list"

definition collect_sequences :: "agreement_definition \<Rightarrow> process_sequence list" where
  "collect_sequences d =
     \<lparr>sqLocation = ''create'', sqPath = ''create.processes'', sqProcesses = or_empty (cnProcesses (adCreate d)),
      sqProduced = map fst (or_empty (cnValues (adCreate d)))\<rparr>
     # concat (map (\<lambda>(stateName, sd).
         \<lparr>sqLocation = ''page'', sqPath = ''states.'' @ stateName @ ''.processes'',
          sqProcesses = or_empty (sdProcesses sd), sqProduced = []\<rparr>
         # map (\<lambda>(name, t). \<lparr>sqLocation = ''transition'', sqPath = ''states.'' @ stateName @ ''.on.'' @ name @ ''.processes'',
             sqProcesses = or_empty (atProcesses t), sqProduced = []\<rparr>) (or_empty (sdOn sd))) (adStates d))"

definition require_process_definition ::
  "string \<Rightarrow> process_sequence \<Rightarrow> (string \<times> process_definition) list \<Rightarrow> process_definition res" where
  "require_process_definition processKey sq defs =
     (case map_of defs processKey of
        Some pd \<Rightarrow> Inr pd
      | None \<Rightarrow> Inl (bad_implementation (''Agreement Process reference '' @ quoted (sqPath sq) @ '' names ''
                  @ quoted processKey @ '', which is not defined'')))"

definition assert_produced_output ::
  "dependency \<Rightarrow> string \<Rightarrow> (string \<times> process_definition) list \<Rightarrow> unit res" where
  "assert_produced_output dep processKey defs =
     (case truthy (snd dep) of
        None \<Rightarrow> Inr ()
      | Some n \<Rightarrow>
          (case map_of defs (fst dep) of
             None \<Rightarrow> Inl TypeError
           | Some pd \<Rightarrow> if map_of (or_empty (pdOutput pd)) n \<noteq> None then Inr ()
               else Inl (bad_implementation (''Agreement Process '' @ quoted (fst dep)
                      @ '' does not produce output '' @ quoted n @ '' required by '' @ quoted processKey))))"

definition assert_dependency ::
  "dependency \<Rightarrow> string \<Rightarrow> process_sequence \<Rightarrow> string list \<Rightarrow> (string \<times> process_definition) list \<Rightarrow> unit res" where
  "assert_dependency dep processKey sq seen defs =
     (if fst dep \<notin> set seen
      then Inl (bad_implementation (''Agreement Process '' @ quoted processKey @ '' depends on '' @ quoted (fst dep)
             @ '', which must occur earlier in '' @ quoted (sqPath sq)))
      else assert_produced_output dep processKey defs)"

fun record_outputs :: "process_sequence \<Rightarrow> string list \<Rightarrow> string list \<Rightarrow> string list res" where
  "record_outputs sq [] produced = Inr produced"
| "record_outputs sq (n # ns) produced =
     (if n \<in> set produced
      then Inl (bad_implementation (''Agreement Process sequence '' @ quoted (sqPath sq) @ '' output '' @ quoted n
             @ '' has competing producers''))
      else record_outputs sq ns (n # produced))"

definition assert_handler_location ::
  "string \<Rightarrow> process_definition \<Rightarrow> process_sequence \<Rightarrow> (string \<times> process_handler) list \<Rightarrow> unit res" where
  "assert_handler_location processKey pd sq handlers =
     (if pdType pd \<noteq> ''handler'' then Inr ()
      else bind_res (find_process_handler processKey handlers) (\<lambda>h.
        if sqLocation sq \<in> set (hdLocations h) then Inr ()
        else Inl (bad_implementation (''Agreement Process handler '' @ quoted processKey
               @ '' is not allowed at location '' @ quoted (sqLocation sq)))))"

definition assert_required_creation_values :: "process_sequence \<Rightarrow> string list \<Rightarrow> unit res" where
  "assert_required_creation_values sq produced =
     (if sqLocation sq \<noteq> ''create'' then Inr ()
      else case find (\<lambda>f. f \<notin> set produced) [''actions'', ''items''] of
        None \<Rightarrow> Inr ()
      | Some missing \<Rightarrow> Inl (bad_implementation (''Agreement Process sequence '' @ quoted (sqPath sq)
             @ '' has no producer for required Agreement value '' @ quoted missing)))"

fun validate_steps ::
  "process_env \<Rightarrow> process_sequence \<Rightarrow> (string \<times> process_definition) list \<Rightarrow> string list \<Rightarrow> string list
     \<Rightarrow> string list \<Rightarrow> string list res" where
  "validate_steps env sq defs seen produced [] = Inr produced"
| "validate_steps env sq defs seen produced (processKey # rest) =
     bind_res (require_process_definition processKey sq defs) (\<lambda>pd.
     if processKey \<in> set seen
     then Inl (bad_implementation (''Agreement Process sequence '' @ quoted (sqPath sq) @ '' contains ''
            @ quoted processKey @ '' more than once''))
     else bind_res (process_dependencies (evParse env) pd) (\<lambda>deps.
       bind_res (for_each (\<lambda>dep. assert_dependency dep processKey sq seen defs) deps) (\<lambda>_.
       bind_res (record_outputs sq (map fst (or_empty (pdOutput pd))) produced) (\<lambda>produced1.
       bind_res (assert_handler_location processKey pd sq (evHandlers env)) (\<lambda>_.
       validate_steps env sq defs (processKey # seen) produced1 rest)))))"

definition validate_sequence ::
  "process_env \<Rightarrow> process_sequence \<Rightarrow> (string \<times> process_definition) list \<Rightarrow> unit res" where
  "validate_sequence env sq defs =
     bind_res (validate_steps env sq defs [] (sqProduced sq) (sqProcesses sq)) (\<lambda>produced.
     assert_required_creation_values sq produced)"

definition compile_agreement_processes :: "process_env \<Rightarrow> agreement_definition \<Rightarrow> unit res" where
  "compile_agreement_processes env d =
     bind_res (compile_transition_value_mappings env d) (\<lambda>_.
     bind_res (compile_process_definitions env (process_definitions d)) (\<lambda>_.
     for_each (\<lambda>sq. validate_sequence env sq (process_definitions d)) (collect_sequences d)))"

section \<open>Locations\<close>

record run_context =
  rcApplication :: "json option"
  rcAgreement :: "agreement_record option"
  rcValues :: "(string \<times> json) list option"
  rcExecution :: execution

datatype process_location = CreateLocation | TransitionLocation string string | PageLocation string string

record resolved_location =
  rlLocation :: string
  rlProcesses :: "string list"
  rlState :: string
  rlTransition :: string
  rlTarget :: string

definition missing_path :: "string \<Rightarrow> bool \<Rightarrow> string list" where
  "missing_path path present = (if present then [] else [path])"

definition is_json_object :: "json option \<Rightarrow> bool" where
  "is_json_object v \<longleftrightarrow> (case v of Some (JObj _) \<Rightarrow> True | _ \<Rightarrow> False)"

text \<open>A context has what its location needs and nothing else; fields it should not have come last.\<close>

definition context_faults :: "process_env \<Rightarrow> string \<Rightarrow> run_context \<Rightarrow> string list" where
  "context_faults env location c =
     (let execution = missing_path ''execution.executedAt'' (evIsoDate env (exExecutedAt (rcExecution c))) in
      if location = ''create'' then
        missing_path ''application'' (is_json_object (rcApplication c)) @ execution
        @ missing_path ''agreement'' (rcAgreement c = None) @ missing_path ''transition'' (rcValues c = None)
      else if location = ''transition'' then
        missing_path ''transition'' (rcValues c \<noteq> None) @ missing_path ''agreement'' (rcAgreement c \<noteq> None) @ execution
        @ missing_path ''application'' (rcApplication c = None)
      else
        missing_path ''agreement'' (rcAgreement c \<noteq> None) @ execution
        @ missing_path ''application'' (rcApplication c = None) @ missing_path ''transition'' (rcValues c = None))"

definition validate_context :: "process_env \<Rightarrow> run_context \<Rightarrow> string \<Rightarrow> unit res" where
  "validate_context env c location =
     (case context_faults env location c of
        [] \<Rightarrow> Inr ()
      | paths \<Rightarrow> Inl (bad_implementation (''Invalid Agreement Process '' @ location @ '' context at: ''
                   @ join '', '' paths)))"

definition resolve_transition_location :: "agreement_definition \<Rightarrow> string \<Rightarrow> string \<Rightarrow> resolved_location res" where
  "resolve_transition_location d state transition =
     (case find_transition d state transition of
        None \<Rightarrow> Inl (bad_implementation (''Agreement Process location references unknown transition ''
                  @ quoted (state @ ''.'' @ transition)))
      | Some t \<Rightarrow> Inr \<lparr>rlLocation = ''transition'', rlProcesses = or_empty (atProcesses t), rlState = state,
                       rlTransition = transition, rlTarget = atTarget t\<rparr>)"

definition allowed_pages :: "agreement_definition \<Rightarrow> string \<Rightarrow> string list" where
  "allowed_pages d state =
     (case map_of (adStates d) state of
        None \<Rightarrow> []
      | Some sd \<Rightarrow> collect_allowed_pages sd @ (if has_page (adPages d) ''document'' then [''document''] else []))"

definition resolve_page_location :: "agreement_definition \<Rightarrow> string \<Rightarrow> string \<Rightarrow> resolved_location res" where
  "resolve_page_location d state page =
     (if page \<notin> set (allowed_pages d state)
      then Inl (Boom Forbidden (''Page '' @ quoted page @ '' is not valid for agreement code '' @ quoted (adCode d)
             @ '' in state '' @ quoted state) [])
      else case map_of (adStates d) state of
        None \<Rightarrow> Inl TypeError
      | Some sd \<Rightarrow> Inr \<lparr>rlLocation = ''page'', rlProcesses = or_empty (sdProcesses sd), rlState = state,
                        rlTransition = [], rlTarget = state\<rparr>)"

definition resolve_location :: "agreement_definition \<Rightarrow> process_location \<Rightarrow> resolved_location res" where
  "resolve_location d location =
     (case location of
        CreateLocation \<Rightarrow> Inr \<lparr>rlLocation = ''create'', rlProcesses = or_empty (cnProcesses (adCreate d)), rlState = [],
          rlTransition = [], rlTarget = cnTarget (adCreate d)\<rparr>
      | TransitionLocation state transition \<Rightarrow> resolve_transition_location d state transition
      | PageLocation state page \<Rightarrow> resolve_page_location d state page)"

section \<open>Running a sequence\<close>

definition to_process_context ::
  "run_context \<Rightarrow> resolved_location \<Rightarrow> outputs \<Rightarrow> agreement_record option \<Rightarrow> process_context" where
  "to_process_context c l outs candidate =
     (let a = or_else candidate (rcAgreement c) in
      \<lparr>pcApplication = (if rlLocation l = ''create'' then rcApplication c else None),
       pcAgreement = (if rlLocation l = ''create'' then None else a),
       pcTransition = (if rlLocation l = ''transition'' then map_option (Pair (rlTransition l)) (rcValues c) else None),
       pcExecution = rcExecution c, pcLocation = rlLocation l, pcTarget = rlTarget l, pcOutputs = outs,
       pcResponse = None\<rparr>)"

record candidate =
  caAgreement :: agreement_record
  caValues :: "agreement_values option"

definition resolve_candidate ::
  "process_env \<Rightarrow> agreement_definition \<Rightarrow> resolved_location \<Rightarrow> run_context \<Rightarrow> outputs \<Rightarrow> candidate res" where
  "resolve_candidate env d l c outs =
     (case rcAgreement c of
        None \<Rightarrow> Inl TypeError
      | Some a \<Rightarrow> bind_res (resolve_transition_values env d (rlState l) (rlTransition l) a outs) (\<lambda>v.
          Inr \<lparr>caAgreement = a\<lparr>amValues := spread_values (amValues a) v\<rparr>, caValues = v\<rparr>))"

definition is_transition_handler :: "resolved_location \<Rightarrow> process_definition \<Rightarrow> bool" where
  "is_transition_handler l pd \<longleftrightarrow> rlLocation l = ''transition'' \<and> pdType pd = ''handler''"

definition resolve_when_pending :: "candidate option \<Rightarrow> bool \<Rightarrow> candidate res \<Rightarrow> candidate option res" where
  "resolve_when_pending found pending resolve =
     (case found of
        Some x \<Rightarrow> Inr (Some x)
      | None \<Rightarrow> if pending then bind_res resolve (\<lambda>x. Inr (Some x)) else Inr None)"

type_synonym run_state = "candidate option \<times> outputs \<times> string list"

text \<open>A process that is not defined has no executable.\<close>

definition run_step ::
  "process_env \<Rightarrow> agreement_definition \<Rightarrow> resolved_location \<Rightarrow> run_context \<Rightarrow> string \<Rightarrow> run_state \<Rightarrow> run_state res" where
  "run_step env d l c processKey = (\<lambda>(found, outs, operations).
     case map_of (process_definitions d) processKey of
       None \<Rightarrow> Inl TypeError
     | Some pd \<Rightarrow>
         bind_res (resolve_when_pending found (is_transition_handler l pd) (resolve_candidate env d l c outs)) (\<lambda>found1.
         bind_res (run_process env processKey pd (to_process_context c l outs (map_option caAgreement found1))) (\<lambda>r.
         Inr (found1, obj_put processKey (prOutput r) outs, operations @ prOperations r))))"

fun run_processes ::
  "process_env \<Rightarrow> agreement_definition \<Rightarrow> resolved_location \<Rightarrow> run_context \<Rightarrow> string list \<Rightarrow> run_state \<Rightarrow> run_state res" where
  "run_processes env d l c [] st = Inr st"
| "run_processes env d l c (processKey # rest) st =
     bind_res (run_step env d l c processKey st) (\<lambda>st1. run_processes env d l c rest st1)"

record sequence_result =
  srOutputs :: outputs
  srValues :: "agreement_values option"
  srOperations :: "string list"

definition run_sequence ::
  "process_env \<Rightarrow> agreement_definition \<Rightarrow> resolved_location \<Rightarrow> run_context \<Rightarrow> sequence_result res" where
  "run_sequence env d l c =
     bind_res (run_processes env d l c (rlProcesses l) (None, [], [])) (\<lambda>(found, outs, operations).
     bind_res (resolve_when_pending found (rlLocation l = ''transition'') (resolve_candidate env d l c outs)) (\<lambda>found1.
     Inr \<lparr>srOutputs = outs, srValues = Option.bind found1 caValues, srOperations = operations\<rparr>))"

definition run_agreement_processes ::
  "process_env \<Rightarrow> agreement_definition \<Rightarrow> process_location \<Rightarrow> run_context \<Rightarrow> sequence_result res" where
  "run_agreement_processes env d location c =
     bind_res (resolve_location d location) (\<lambda>l.
     bind_res (validate_context env c (rlLocation l)) (\<lambda>_.
     run_sequence env d l c))"

section \<open>Creating an Agreement\<close>

definition compile_creation_mapping :: "process_env \<Rightarrow> agreement_definition \<Rightarrow> json \<Rightarrow> string \<Rightarrow> unit res" where
  "compile_creation_mapping env d m path =
     (case validate_process_mapping env (Some m) of
        Inl _ \<Rightarrow> Inl (invalid_in_definition d path '' contains an invalid mapping'')
      | Inr _ \<Rightarrow> Inr ())"

definition creation_values :: "agreement_definition \<Rightarrow> (string \<times> json) list" where
  "creation_values d = or_empty (cnValues (adCreate d))"

definition assert_known_creation_value_fields :: "agreement_definition \<Rightarrow> (string \<times> json) list \<Rightarrow> unit res" where
  "assert_known_creation_value_fields d es =
     for_each (\<lambda>(field, m).
       case find_agreement_process_output_schema field of
         None \<Rightarrow> Inl (invalid_in_definition d (''create.values.'' @ field) '' is not a supported Agreement value'')
       | Some s \<Rightarrow>
           (case truthy (find_unknown_mapping_field m s (''create.values.'' @ field)) of
              Some p \<Rightarrow> Inl (invalid_in_definition d p '' is unknown'')
            | None \<Rightarrow> Inr ())) es"

definition compile_creation_mappings :: "process_env \<Rightarrow> agreement_definition \<Rightarrow> unit res" where
  "compile_creation_mappings env d =
     bind_res (compile_creation_mapping env d (cnApplication (adCreate d)) ''create.application'') (\<lambda>_.
     bind_res (compile_creation_mapping env d (JObj (creation_values d)) ''create.values'') (\<lambda>_.
     assert_known_creation_value_fields d (creation_values d)))"

definition resolve_application :: "process_env \<Rightarrow> agreement_definition \<Rightarrow> json \<Rightarrow> json \<Rightarrow> json res" where
  "resolve_application env d m input =
     (case resolve_in env (InputContext input) False m of
        Inl _ \<Rightarrow> Inl (bad_implementation (''Agreement definition '' @ quoted (adCode d) @ '' could not resolve Application''))
      | Inr (Some (JObj es)) \<Rightarrow> Inr (JObj es)
      | Inr _ \<Rightarrow> Inl (bad_implementation (''Agreement definition '' @ quoted (adCode d) @ '' resolved an invalid Application'')))"

text \<open>The actions and the items are required where they are mapped.\<close>

definition validate_creation_value ::
  "process_env \<Rightarrow> agreement_definition \<Rightarrow> string \<Rightarrow> json option \<Rightarrow> json option res" where
  "validate_creation_value env d field v =
     validate_mapped_value
       (if field \<in> {''actions'', ''items''} \<and> v = None then Inl [[]] else evOutput env field v)
       (''Agreement definition '' @ quoted (adCode d) @ '' produced invalid creation value '' @ quoted field)"

definition resolve_creation_values ::
  "process_env \<Rightarrow> agreement_definition \<Rightarrow> (string \<times> json) list \<Rightarrow> json \<Rightarrow> json \<Rightarrow> (string \<times> json) list res" where
  "resolve_creation_values env d es input application =
     bind_res (map_res (\<lambda>(field, m).
       bind_res (case resolve_in env (CreationContext input application) True m of
           Inl _ \<Rightarrow> Inl (bad_implementation (''Agreement definition '' @ quoted (adCode d)
                      @ '' could not resolve creation values''))
         | Inr v \<Rightarrow> Inr v) (\<lambda>v.
       bind_res (validate_creation_value env d field v) (\<lambda>w. Inr (map_option (Pair field) w)))) es) (\<lambda>entries.
     Inr (List.map_filter id entries))"

record creation_input =
  ciCode :: string
  ciClientRef :: string
  ciCurrentConfigVersion :: "string option"
  ciIdentifiers :: "(string \<times> json) list"
  ciDocument :: json

definition spread_all :: "(string \<times> json) list \<Rightarrow> outputs \<Rightarrow> (string \<times> json) list" where
  "spread_all es outs = obj_spread es (foldl (\<lambda>acc (_, out). obj_spread acc out) [] outs)"

definition assemble_agreement_values ::
  "process_env \<Rightarrow> json \<Rightarrow> (string \<times> json) list \<Rightarrow> outputs \<Rightarrow> agreement_values res" where
  "assemble_agreement_values env application mapped outs =
     bind_res (evRead env (spread_all (obj_spread [(''application'', application)] mapped) outs)) (\<lambda>candidate.
     bind_res (materialise_creation_identities candidate) (\<lambda>v.
     if agreement_value_schema (evOther env) v then Inr v
     else Inl (bad_implementation ''Agreement creation produced invalid Agreement values'')))"

definition create_agreement_from ::
  "process_env \<Rightarrow> (string \<Rightarrow> string res) \<Rightarrow> agreement_definition \<Rightarrow> creation_input \<Rightarrow> execution \<Rightarrow> agreement_record res" where
  "create_agreement_from env generateNumber d input execution =
     (if ciCode input \<noteq> adCode d
      then Inl (bad_implementation (''Agreement Creation Input code '' @ quoted (ciCode input)
             @ '' does not match Agreement Definition '' @ quoted (adCode d)))
      else if \<not> js_truthy_string (exCorrelationId execution)
      then Inl (bad_implementation ''Agreement creation requires an Agreement Correlation ID'')
      else bind_res (resolve_application env d (cnApplication (adCreate d)) (ciDocument input)) (\<lambda>application.
        bind_res (resolve_creation_values env d (creation_values d) (ciDocument input) application) (\<lambda>mapped.
        bind_res (run_agreement_processes env d CreateLocation
          \<lparr>rcApplication = Some application, rcAgreement = None, rcValues = None, rcExecution = execution\<rparr>) (\<lambda>r.
        if srOperations r \<noteq> []
        then Inl (bad_implementation ''Agreement creation Processes produced unsupported commit operations'')
        else bind_res (assemble_agreement_values env application mapped (srOutputs r)) (\<lambda>v.
          bind_res (generateNumber (adNumberPrefix d)) (\<lambda>number.
          Inr (agreement_create
            \<lparr>nwNumber = number, nwCode = adCode d, nwClientRef = ciClientRef input,
             nwConfigVersion = definition_version d, nwCorrelationId = part_string (exCorrelationId execution),
             nwIdentifiers = ciIdentifiers input, nwValues = v, nwState = cnTarget (adCreate d),
             nwCreatedAt = exExecutedAt execution\<rparr>)))))))"

section \<open>Executing an action\<close>

record action_result =
  arAgreement :: agreement_record
  arOperations :: "string list"

definition execute_agreement_action ::
  "process_env \<Rightarrow> agreement_definition \<Rightarrow> agreement_record \<Rightarrow> string \<Rightarrow> (string \<times> json) list \<Rightarrow> execution
     \<Rightarrow> action_result res" where
  "execute_agreement_action env d a actionName vals execution =
     bind_res (resolve_agreement_action (lifecycle_of d) (amState a) actionName) (\<lambda>action.
     bind_res (run_agreement_processes env d (TransitionLocation (amState a) actionName)
       \<lparr>rcApplication = None, rcAgreement = Some a, rcValues = Some vals, rcExecution = execution\<rparr>) (\<lambda>r.
     Inr \<lparr>arAgreement = agreement_transition a (aaTarget action) (exExecutedAt execution) (srValues r)
            (if aaTarget action = accepted_state then Some (definition_version d) else None),
          arOperations = srOperations r\<rparr>))"

definition run_page_processes ::
  "process_env \<Rightarrow> agreement_definition \<Rightarrow> agreement_record \<Rightarrow> string \<Rightarrow> execution \<Rightarrow> outputs res" where
  "run_page_processes env d a page execution =
     bind_res (run_agreement_processes env d (PageLocation (amState a) page)
       \<lparr>rcApplication = None, rcAgreement = Some a, rcValues = None, rcExecution = execution\<rparr>) (\<lambda>r.
     if srOperations r \<noteq> []
     then Inl (bad_implementation ''Agreement page Processes produced unsupported commit operations'')
     else Inr (srOutputs r))"

section \<open>Compiling a definition\<close>

definition new_agreement_definition ::
  "process_env \<Rightarrow> (agreement_definition \<Rightarrow> string list) \<Rightarrow> agreement_definition \<Rightarrow> agreement_definition res" where
  "new_agreement_definition env joiMessages raw =
     bind_res (validate_agreement_definition joiMessages raw) (\<lambda>d.
     bind_res (compile_agreement_processes env d) (\<lambda>_.
     bind_res (compile_creation_mappings env d) (\<lambda>_. Inr d)))"

end
