(* ===== verification/AgreementEvents.thy ===== *)
theory AgreementEvents
  imports AgreementModel
begin

text \<open>
  What an Agreement tells others: its status (\<open>src/agreements/events/agreement-status-updated.event.js\<close>),
  the reports of its creation and of its changes (\<open>agreement-reporting.event.js\<close>), the request for its
  payment (\<open>agreement-payment-requested.event.js\<close>) and its audits (\<open>services/agreement-audit.js\<close>). The
  identifiers events get and the time they are built at are left out; the shape of a report is
  checked by the reporting library.
\<close>

section \<open>Status\<close>

record accepted_data =
  acUrl :: string
  acSbi :: "json option"
  acStartDate :: "string option"
  acEndDate :: "string option"

record status_event_data =
  stNumber :: string
  stCorrelationId :: string
  stClientRef :: string
  stCode :: string
  stVersion :: nat
  stStatus :: string
  stDate :: string
  stAccepted :: "accepted_data option"

definition sbi_of :: "agreement_record \<Rightarrow> json option" where
  "sbi_of a = map_of (amIdentifiers a) ''sbi''"

definition without_last_slash :: "string \<Rightarrow> string" where
  "without_last_slash s = (if s \<noteq> [] \<and> last s = CHR ''/'' then butlast s else s)"

definition accepted_lifecycle_data :: "string \<Rightarrow> agreement_record \<Rightarrow> accepted_data" where
  "accepted_lifecycle_data viewUri a =
     \<lparr>acUrl = without_last_slash viewUri @ ''/'' @ amNumber a, acSbi = sbi_of a,
      acStartDate = vaStartDate (amValues a), acEndDate = vaEndDate (amValues a)\<rparr>"

definition agreement_status_data :: "string \<Rightarrow> agreement_record \<Rightarrow> status_event_data" where
  "agreement_status_data viewUri a =
     \<lparr>stNumber = amNumber a, stCorrelationId = amCorrelationId a, stClientRef = amClientRef a, stCode = amCode a,
      stVersion = amVersion a, stStatus = amState a, stDate = amUpdatedAt a,
      stAccepted = (if amState a = accepted_state then Some (accepted_lifecycle_data viewUri a) else None)\<rparr>"

section \<open>Reports\<close>

record reporting_option =
  roParcel :: string
  roSize :: "rat option"
  roCode :: string
  roYear :: "int option"
  roStart :: "string option"
  roEnd :: "string option"
  roQuantity :: rat
  roAmount :: rat

record reporting_event =
  reCorrelationId :: string
  reDatetime :: string
  reEventType :: string
  reAgreementId :: string
  reStatus :: string
  reStart :: "string option"
  reEnd :: "string option"
  reAmount :: "rat option"
  reParcels :: "string list"
  reAgreementType :: "string option"
  reSbi :: "json option"
  reStatusDate :: "string option"
  reOptions :: "reporting_option list"

definition calendar_date :: "string option \<Rightarrow> string option" where
  "calendar_date d = map_option (take 10) d"

definition reporting_date_time :: "string option \<Rightarrow> string \<Rightarrow> string option" where
  "reporting_date_time d time = map_option (\<lambda>x. x @ ''T'' @ time @ ''Z'') (calendar_date d)"

definition reporting_start :: "string option \<Rightarrow> string option" where
  "reporting_start d = reporting_date_time d ''00:00:00.000''"

definition reporting_inclusive_end :: "string option \<Rightarrow> string option" where
  "reporting_inclusive_end d = reporting_date_time d ''23:59:59.999''"

definition date_parts :: "string \<Rightarrow> nat \<times> nat \<times> nat" where
  "date_parts s = (parse_int (take 4 s), parse_int (take 2 (drop 5 s)), parse_int (drop 8 s))"

definition next_day :: "nat \<times> nat \<times> nat \<Rightarrow> nat \<times> nat \<times> nat" where
  "next_day = (\<lambda>(y, m, d).
     if d < days_in_month y m then (y, m, d + 1) else if m < 12 then (y, m + 1, 1) else (y + 1, 1, 1))"

definition month_day_number :: "nat \<times> nat \<times> nat \<Rightarrow> nat" where
  "month_day_number = (\<lambda>(_, m, d). (m - 1) * 100 + d)"

text \<open>The dates are days of the calendar, as the schema of values has them.\<close>

definition inclusive_whole_years :: "string option \<Rightarrow> string option \<Rightarrow> int option" where
  "inclusive_whole_years startDate endDate =
     (case (startDate, endDate) of
        (Some s, Some e) \<Rightarrow>
          let start = date_parts s; exclusiveEnd = next_day (date_parts e) in
          Some (int (fst exclusiveEnd) - int (fst start)
            - (if month_day_number exclusiveEnd < month_day_number start then 1 else 0))
      | _ \<Rightarrow> None)"

definition pounds :: "json option \<Rightarrow> rat option" where
  "pounds v = (case v of Some (JNum n) \<Rightarrow> Some (number_value n / 100) | _ \<Rightarrow> None)"

definition parcel_area :: "funded_entry \<Rightarrow> parcel list \<Rightarrow> rat option" where
  "parcel_area e parcels =
     Option.bind (fuParcel e) (\<lambda>i. Option.bind (find (\<lambda>p. plId p = i) (rev parcels)) (\<lambda>p. map_option fst (plArea p)))"

definition to_reporting_option :: "agreement_values \<Rightarrow> funded_entry \<Rightarrow> reporting_option option" where
  "to_reporting_option v e =
     (let startDate = calendar_date (or_else (fuStartDate e) (vaStartDate v));
          endDate = calendar_date (or_else (fuEndDate e) (vaEndDate v)) in
      case (fuQuantity e, pounds (map_of (fuOther e) ''totalAmountPence'')) of
        (Some quantity, Some amount) \<Rightarrow> Some \<lparr>roParcel = (case fuParcel e of None \<Rightarrow> [] | Some p \<Rightarrow> p),
          roSize = parcel_area e (parcels_of v), roCode = fuCode e, roYear = inclusive_whole_years startDate endDate,
          roStart = reporting_start startDate, roEnd = reporting_inclusive_end endDate, roQuantity = quantity,
          roAmount = amount\<rparr>
      | _ \<Rightarrow> None)"

definition reporting_options :: "agreement_values \<Rightarrow> reporting_option list" where
  "reporting_options v = List.map_filter (to_reporting_option v) (funded_entries v)"

definition common_report :: "agreement_record \<Rightarrow> string \<Rightarrow> string \<Rightarrow> reporting_event" where
  "common_report a datetime eventType =
     (let v = amValues a in
      \<lparr>reCorrelationId = amCorrelationId a, reDatetime = datetime, reEventType = eventType,
       reAgreementId = amNumber a, reStatus = amState a, reStart = reporting_start (vaStartDate v),
       reEnd = reporting_inclusive_end (vaEndDate v), reAmount = pounds (map_of (vaOther v) ''totalAmountPence''),
       reParcels = map plId (parcels_of v), reAgreementType = None, reSbi = None, reStatusDate = None,
       reOptions = reporting_options v\<rparr>)"

definition validate_report :: "(reporting_event \<Rightarrow> string list) \<Rightarrow> reporting_event \<Rightarrow> reporting_event res" where
  "validate_report faults e =
     (case faults e of [] \<Rightarrow> Inr e
      | errors \<Rightarrow> Inl (JsError (''Invalid Agreement reporting event: '' @ join '', '' errors)))"

definition created_report :: "agreement_record \<Rightarrow> reporting_event" where
  "created_report a = (common_report a (amCreatedAt a) ''AGREEMENT_CREATED'')
     \<lparr>reAgreementType := Some (amCode a), reSbi := sbi_of a\<rparr>"

definition status_changed_report :: "agreement_record \<Rightarrow> reporting_event" where
  "status_changed_report a = (common_report a (amUpdatedAt a) ''AGREEMENT_STATUS_CHANGED'')
     \<lparr>reStatusDate := Some (amUpdatedAt a)\<rparr>"

section \<open>Payment\<close>

record agreement_payment_request =
  aqRequestId :: string
  aqNumber :: string
  aqVersion :: nat
  aqCode :: string
  aqConfigVersion :: string
  aqExecutedAt :: string
  aqSnapshot :: agreement_record

text \<open>The messages Joi adds to the error's are left out.\<close>

definition agreement_payment_requested ::
  "(string \<Rightarrow> bool) \<Rightarrow> agreement_record \<Rightarrow> string \<Rightarrow> agreement_payment_request res" where
  "agreement_payment_requested isoDate a executedAt =
     (if amNumber a \<noteq> [] \<and> 1 \<le> amVersion a \<and> amCode a \<noteq> [] \<and> amConfigVersion a \<noteq> [] \<and> amCorrelationId a \<noteq> []
         \<and> isoDate executedAt
      then Inr \<lparr>aqRequestId = ''agreement:'' @ amNumber a @ '':v'' @ show_nat (amVersion a), aqNumber = amNumber a,
             aqVersion = amVersion a, aqCode = amCode a, aqConfigVersion = amConfigVersion a,
             aqExecutedAt = executedAt, aqSnapshot = a\<rparr>
      else Inl (Boom BadRequest ''Invalid AgreementPaymentRequested'' []))"

section \<open>Publications\<close>

datatype agreement_event =
    AgreementStatusUpdated status_event_data
  | AgreementReported reporting_event
  | AgreementPaymentRequested agreement_payment_request

text \<open>A publication has its target, the reference its work is kept apart by, and its event.\<close>

type_synonym agreement_publication = "string \<times> string option \<times> agreement_event"

record publication_config =
  pbStatusTopic :: string
  pbReportingTopic :: string
  pbViewUri :: string
  pbReportFaults :: "reporting_event \<Rightarrow> string list"
  pbIsoDate :: "string \<Rightarrow> bool"

definition lifecycle_publications :: "publication_config \<Rightarrow> agreement_record \<Rightarrow> agreement_publication list" where
  "lifecycle_publications cfg a =
     [(pbStatusTopic cfg, None, AgreementStatusUpdated (agreement_status_data (pbViewUri cfg) a))]"

fun create_agreement_publications ::
  "publication_config \<Rightarrow> string list \<Rightarrow> agreement_record \<Rightarrow> agreement_publication list res" where
  "create_agreement_publications cfg [] a = Inr []"
| "create_agreement_publications cfg (t # ts) a =
     (if t \<noteq> ''lifecycle'' then Inl (JsError (''Unsupported Agreement publication type: '' @ quoted t))
      else bind_res (create_agreement_publications cfg ts a) (\<lambda>ps. Inr (lifecycle_publications cfg a @ ps)))"

definition reporting_publication :: "publication_config \<Rightarrow> agreement_record \<Rightarrow> reporting_event \<Rightarrow> agreement_publication res" where
  "reporting_publication cfg a e =
     bind_res (validate_report (pbReportFaults cfg) e) (\<lambda>e. Inr (pbReportingTopic cfg, Some (amNumber a), AgreementReported e))"

definition creation_publications :: "publication_config \<Rightarrow> agreement_record \<Rightarrow> agreement_publication list res" where
  "creation_publications cfg a =
     bind_res (create_agreement_publications cfg [''lifecycle''] a) (\<lambda>lifecycle.
     bind_res (reporting_publication cfg a (created_report a)) (\<lambda>created.
     bind_res (reporting_publication cfg a (status_changed_report a)) (\<lambda>changed.
     Inr (lifecycle @ [created, changed]))))"

definition change_publications ::
  "publication_config \<Rightarrow> agreement_record \<Rightarrow> agreement_record \<Rightarrow> agreement_publication list res" where
  "change_publications cfg current after =
     (if amState current = amState after then Inr []
      else bind_res (create_agreement_publications cfg [''lifecycle''] after) (\<lambda>lifecycle.
        bind_res (reporting_publication cfg after (status_changed_report after)) (\<lambda>changed.
        Inr (lifecycle @ [changed]))))"

definition internal_payment_target :: string where "internal_payment_target = ''internal:event''"

definition action_publications ::
  "publication_config \<Rightarrow> agreement_record \<Rightarrow> agreement_record \<Rightarrow> bool \<Rightarrow> agreement_publication list res" where
  "action_publications cfg current after paymentRequested =
     bind_res (change_publications cfg current after) (\<lambda>lifecycle.
     if \<not> paymentRequested then Inr lifecycle
     else bind_res (agreement_payment_requested (pbIsoDate cfg) after (amUpdatedAt after)) (\<lambda>e.
       Inr (lifecycle @ [(internal_payment_target, Some (amNumber after), AgreementPaymentRequested e)])))"

section \<open>Audits\<close>

record security_detail =
  sePmccode :: string
  seTransactionCode :: string
  seMessage :: string
  seAdditionalInfo :: string

definition agreement_details :: "agreement_record \<Rightarrow> (string \<times> json) list" where
  "agreement_details a =
     List.map_filter (\<lambda>k. map_option (Pair k) (map_of (amIdentifiers a) k)) [''sbi'', ''frn'', ''crn'']
     @ [(''agreementNumber'', JStr (amNumber a)), (''clientRef'', JStr (amClientRef a)), (''code'', JStr (amCode a)),
        (''version'', JNum (Finite (int (amVersion a)) 0 0)), (''state'', JStr (amState a)),
        (''correlationId'', JStr (amCorrelationId a))]"

definition agreement_audit_of :: "string \<Rightarrow> agreement_record \<Rightarrow> (string \<times> json) list \<Rightarrow> audit" where
  "agreement_audit_of action a details =
     \<lparr>auEntity = ''AGREEMENT'', auAction = action, auEntityId = amNumber a, auDetails = details,
      auSegregationRef = ''agreement-'' @ amNumber a\<rparr>"

definition build_agreement_creation_audit :: "agreement_record \<Rightarrow> audit" where
  "build_agreement_creation_audit a = agreement_audit_of ''CREATE_AGREEMENT_RECORD'' a (agreement_details a)"

definition build_agreement_view_audit ::
  "agreement_record \<Rightarrow> string \<Rightarrow> (string \<times> json) list \<Rightarrow> audit" where
  "build_agreement_view_audit a view details =
     agreement_audit_of ''VIEW_AGREEMENT'' a (obj_spread (agreement_details a @ [(''view'', JStr view)]) details)"

text \<open>What was attempted is the Agreement as changed, or the state it should have moved to.\<close>

datatype attempted = NotAttempted | AttemptedState string | AttemptedAgreement agreement_record

fun attempted_state :: "attempted \<Rightarrow> string option" where
  "attempted_state NotAttempted = None"
| "attempted_state (AttemptedState s) = Some s"
| "attempted_state (AttemptedAgreement a) = Some (amState a)"

fun attempted_version :: "attempted \<Rightarrow> nat option" where
  "attempted_version (AttemptedAgreement a) = Some (amVersion a)"
| "attempted_version _ = None"

definition is_acceptance_attempt :: "string \<Rightarrow> attempted \<Rightarrow> bool" where
  "is_acceptance_attempt actionName t \<longleftrightarrow> actionName = ''accept'' \<or> attempted_state t = Some accepted_state"

definition action_audit_classification ::
  "string \<Rightarrow> agreement_record \<Rightarrow> attempted \<Rightarrow> string \<times> security_detail" where
  "action_audit_classification actionName current t =
     (let info = ''agreementNumber: '' @ amNumber current in
      if is_acceptance_attempt actionName t \<and> amState current \<noteq> accepted_state
      then (''ACCEPT_AGREEMENT_OFFER'', \<lparr>sePmccode = ''0704'', seTransactionCode = ''2311'',
              seMessage = ''Agreement accepted'', seAdditionalInfo = info\<rparr>)
      else (''UPDATE_AGREEMENT'', \<lparr>sePmccode = ''0706'', seTransactionCode = ''2309'',
              seMessage = ''Agreement updated'', seAdditionalInfo = info\<rparr>))"

definition given :: "string \<Rightarrow> json option \<Rightarrow> (string \<times> json) list" where
  "given k v = (case v of None \<Rightarrow> [] | Some x \<Rightarrow> [(k, x)])"

text \<open>A success without an Agreement to show has no details of it to read.\<close>

definition build_agreement_action_audit ::
  "string \<Rightarrow> agreement_record \<Rightarrow> attempted \<Rightarrow> audit_status \<Rightarrow> js_error option \<Rightarrow> string option
     \<Rightarrow> (audit \<times> security_detail) res" where
  "build_agreement_action_audit actionName current t status error idempotencyKey =
     (let classified = action_audit_classification actionName current t;
          persisted = (if status = FAILURE then Some current
            else case t of AttemptedAgreement a \<Rightarrow> Some a | _ \<Rightarrow> None) in
      case persisted of
        None \<Rightarrow> Inl TypeError
      | Some a \<Rightarrow> Inr (agreement_audit_of (fst classified) current
          (agreement_details a @ [(''actionName'', JStr actionName), (''previousState'', JStr (amState current))]
           @ (if status = FAILURE
              then given ''attemptedState'' (map_option JStr (attempted_state t))
                   @ given ''attemptedVersion'' (map_option (\<lambda>n. JNum (Finite (int n) 0 0)) (attempted_version t))
              else [])
           @ given ''idempotencyKey'' (map_option JStr (truthy idempotencyKey))
           @ given ''error'' (map_option (\<lambda>e. JStr (error_message e)) error)), snd classified))"

end
