(* ===== verification/AgreementLoading.thy ===== *)
theory AgreementLoading
  imports AgreementRuntime AgreementEvents GrantResolution
begin

text \<open>
  The store of the Agreements module and the loading of its definitions
  (\<open>src/agreements/use-cases/load-agreement-definition.js\<close>, \<open>compile-agreement-definition.js\<close>,
  \<open>store-agreement-definition.js\<close>, \<open>repositories/agreement-definition.repository.js\<close>): the version
  is resolved in the catalogue, its file is stored or fetched, compiled and cached, a failure is
  recorded against the version, and a version that can never be used gives way to an older one.
  A call runs on its own here, so no load of the same version is in flight when it starts. The file
  in S3 is what \<open>fetch_config_file\<close> gives for it.
\<close>

section \<open>The state\<close>

record stored_definition =
  sfCode :: string
  sfVersion :: string
  sfDefinition :: agreement_definition

datatype agreement_outbox =
    AgreementMessage agreement_publication
  | AgreementAudit audit "security_detail option" audit_status

record agreements_db =
  abAgreements :: "agreement_record list"
  abVersions :: "agreement_version list"
  abOutbox :: "agreement_outbox list"
  abCatalog :: "config_row list"
  abDefinitions :: "stored_definition list"
  abCompiled :: "(string \<times> agreement_definition) list"

text \<open>
  The environment of the module: its processes, its variables and what it asks of others. The
  first argument of \<open>agRandomInt\<close> counts the draws of a call; \<open>agRender\<close> is the content of a page,
  without its actions when the last argument is true.
\<close>

record agreements_env =
  agProcess :: process_env
  agShape :: "agreement_definition \<Rightarrow> string list"
  agVariable :: "string \<Rightarrow> string option"
  agFetch :: "string option \<Rightarrow> string option \<Rightarrow> agreement_definition res"
  agNow :: string
  agUuid :: string
  agRandomInt :: "nat \<Rightarrow> int \<Rightarrow> int \<Rightarrow> nat"
  agPublish :: publication_config
  agValidAudit :: "audit \<Rightarrow> bool"
  agRender :: "agreement_definition \<Rightarrow> agreement_record \<Rightarrow> outputs \<Rightarrow> string \<Rightarrow> bool \<Rightarrow> json res"

section \<open>The services an endpoint needs\<close>

definition endpoint_service_url_error :: "string \<Rightarrow> js_error" where
  "endpoint_service_url_error m = NamedError ''EndpointServiceUrlError'' m"

definition is_endpoint_service_url_error :: "js_error \<Rightarrow> bool" where
  "is_endpoint_service_url_error e \<longleftrightarrow>
     (case e of NamedError n _ \<Rightarrow> n = ''EndpointServiceUrlError'' | _ \<Rightarrow> False)"

definition process_endpoints_for :: "agreement_definition \<Rightarrow> endpoint list" where
  "process_endpoints_for d =
     List.map_filter (\<lambda>(_, pd). if pdType pd = ''endpoint'' then pdEndpoint pd else None) (process_definitions d)"

definition endpoints_for :: "agreement_definition \<Rightarrow> endpoint list" where
  "endpoints_for d = or_empty (adEndpoints d) @ process_endpoints_for d"

definition url_variable :: "string \<Rightarrow> string" where
  "url_variable service = service @ ''_URL''"

definition missing_endpoint_service_urls :: "(string \<Rightarrow> string option) \<Rightarrow> agreement_definition list \<Rightarrow> string list" where
  "missing_endpoint_service_urls variable ds =
     filter (\<lambda>v. truthy (variable v) = None)
       (map url_variable (rev (remdups (rev (map enService (concat (map endpoints_for ds)))))))"

definition validate_endpoint_service_urls :: "(string \<Rightarrow> string option) \<Rightarrow> agreement_definition list \<Rightarrow> unit res" where
  "validate_endpoint_service_urls variable ds =
     (case missing_endpoint_service_urls variable ds of
        [] \<Rightarrow> Inr ()
      | missing \<Rightarrow> Inl (endpoint_service_url_error (''Missing required endpoint URL env var(s): '' @ join '', '' missing)))"

definition resolve_endpoint_service_url :: "(string \<Rightarrow> string option) \<Rightarrow> string \<Rightarrow> string res" where
  "resolve_endpoint_service_url variable service =
     (case truthy (variable (url_variable service)) of
        Some url \<Rightarrow> Inr url
      | None \<Rightarrow> Inl (endpoint_service_url_error (''No URL configured for service '' @ quoted service
                  @ '' (expected env var '' @ url_variable service @ '')'')))"

definition build_url :: "string \<Rightarrow> string \<Rightarrow> string" where
  "build_url baseUrl path =
     (if baseUrl \<noteq> [] \<and> last baseUrl = CHR ''/'' then butlast baseUrl else baseUrl)
     @ (if starts_with path ''/'' then path else CHR ''/'' # path)"

definition resolve_endpoint_url :: "(string \<Rightarrow> string option) \<Rightarrow> endpoint \<Rightarrow> string res" where
  "resolve_endpoint_url variable e =
     bind_res (resolve_endpoint_service_url variable (enService e)) (\<lambda>url. Inr (build_url url (enPath e)))"

section \<open>Compiling a stored definition\<close>

definition to_versioned_definition :: "agreement_definition \<Rightarrow> string \<Rightarrow> string \<Rightarrow> agreement_definition res" where
  "to_versioned_definition raw code version =
     (if adCode raw \<noteq> code
      then Inl (bad_implementation (''Agreement definition code '' @ quoted (adCode raw) @ '' does not match '' @ quoted code))
      else if adConfigVersion raw \<noteq> None
      then Inl (bad_implementation (''Agreement definition '' @ quoted code
             @ '' must not declare configVersion; it is applied from the config catalog''))
      else Inr (raw\<lparr>adConfigVersion := Some version\<rparr>))"

definition compile_agreement_definition ::
  "agreements_env \<Rightarrow> agreement_definition \<Rightarrow> string \<Rightarrow> string \<Rightarrow> agreement_definition res" where
  "compile_agreement_definition env raw code version =
     bind_res (to_versioned_definition raw code version) (\<lambda>d.
     bind_res (new_agreement_definition (agProcess env) (agShape env) d) (\<lambda>compiled.
     bind_res (validate_endpoint_service_urls (agVariable env) [compiled]) (\<lambda>_. Inr compiled)))"

definition check_stored_agreement_definition ::
  "agreements_env \<Rightarrow> agreement_definition \<Rightarrow> string \<Rightarrow> string \<Rightarrow> agreement_definition res" where
  "check_stored_agreement_definition env raw code version =
     bind_res (to_versioned_definition raw code version) (\<lambda>d.
     new_agreement_definition (agProcess env) (agShape env) d)"

definition check_agreement_definition ::
  "agreements_env \<Rightarrow> agreement_definition \<Rightarrow> string \<Rightarrow> string \<Rightarrow> unit res" where
  "check_agreement_definition env raw code version =
     (case compile_agreement_definition env raw code version of
        Inr _ \<Rightarrow> Inr ()
      | Inl e \<Rightarrow> if is_endpoint_service_url_error e then Inr () else Inl e)"

definition find_stored_definition :: "string \<Rightarrow> string \<Rightarrow> agreements_db \<Rightarrow> agreement_definition option" where
  "find_stored_definition code version db =
     map_option sfDefinition (find (\<lambda>s. sfCode s = code \<and> sfVersion s = version) (abDefinitions db))"

text \<open>Inside a transaction (\<open>session\<close>) a version stored first by someone else is thrown.\<close>

definition insert_agreement_definition ::
  "bool \<Rightarrow> string \<Rightarrow> string \<Rightarrow> agreement_definition \<Rightarrow> (agreements_db, unit) action" where
  "insert_agreement_definition session code version d = (\<lambda>db.
     if find_stored_definition code version db \<noteq> None
     then (if session then Inl (DuplicateKey [''code'', ''version'']) else Inr (), db)
     else (Inr (), db\<lparr>abDefinitions := abDefinitions db @ [\<lparr>sfCode = code, sfVersion = version, sfDefinition = d\<rparr>]\<rparr>))"

definition store_agreement_definition ::
  "agreements_env \<Rightarrow> bool \<Rightarrow> string \<Rightarrow> string \<Rightarrow> agreement_definition \<Rightarrow> (agreements_db, unit) action" where
  "store_agreement_definition env session grantCode version d =
     andThen (lift_res (check_agreement_definition env d grantCode version)) (\<lambda>_.
     insert_agreement_definition session grantCode version d)"

section \<open>Resolving a version\<close>

datatype definition_resolution = Creation | SameMajor | Exact

record load_options =
  loCode :: string
  loConfigVersion :: "string option"
  loResolution :: definition_resolution

definition unavailable :: "string \<Rightarrow> string option \<Rightarrow> js_error" where
  "unavailable code version =
     bad_implementation (''Agreement definition '' @ quoted code @ '' version ''
       @ quoted (case version of None \<Rightarrow> ''undefined'' | Some v \<Rightarrow> v) @ '' is unavailable'')"

definition parse_version :: "string option \<Rightarrow> semver res" where
  "parse_version version =
     (case Option.bind version parse_semver of
        None \<Rightarrow> Inl (unavailable ''unknown'' version)
      | Some v \<Rightarrow> Inr v)"

definition resolve_exact :: "load_options \<Rightarrow> agreements_db \<Rightarrow> config_definition option" where
  "resolve_exact opts db =
     Option.bind (loConfigVersion opts) (\<lambda>v. find_config_definition (loCode opts) v AgreementFile (abCatalog db))"

definition resolve_same_major :: "load_options \<Rightarrow> agreements_db \<Rightarrow> config_definition option res" where
  "resolve_same_major opts db =
     bind_res (parse_version (loConfigVersion opts)) (\<lambda>v.
     Inr (find_latest_usable_definition (loCode opts) (svMajor v) None AgreementFile (abCatalog db)))"

definition resolve_creation :: "load_options \<Rightarrow> agreements_db \<Rightarrow> config_definition option res" where
  "resolve_creation opts db =
     bind_res (parse_version (loConfigVersion opts)) (\<lambda>v.
     let usable = find_latest_usable_definition (loCode opts) (svMajor v) (Some (svMinor v, svPatch v))
           AgreementFile (abCatalog db) in
     Inr (case resolve_exact opts db of
        Some exact \<Rightarrow>
          if cdStatus exact = active \<and> fsFetchStatus (cdFile exact) \<noteq> FetchPermanent then Some exact else usable
      | None \<Rightarrow> usable))"

definition find_target :: "load_options \<Rightarrow> agreements_db \<Rightarrow> config_definition option res" where
  "find_target opts db =
     (case loResolution opts of
        Creation \<Rightarrow> resolve_creation opts db
      | SameMajor \<Rightarrow> resolve_same_major opts db
      | Exact \<Rightarrow> Inr (resolve_exact opts db))"

definition can_fall_back :: "definition_resolution \<Rightarrow> bool" where
  "can_fall_back r \<longleftrightarrow> r \<noteq> Exact"

definition resolve_target :: "load_options \<Rightarrow> agreements_db \<Rightarrow> config_definition res" where
  "resolve_target opts db =
     bind_res (find_target opts db) (\<lambda>found.
     case found of None \<Rightarrow> Inl (unavailable (loCode opts) (loConfigVersion opts)) | Some t \<Rightarrow> Inr t)"

section \<open>Loading a version\<close>

definition target_key :: "config_definition \<Rightarrow> string" where
  "target_key t = at_version (cdGrantCode t) (cdVersion t)"

definition update_status ::
  "agreements_env \<Rightarrow> config_definition \<Rightarrow> fetch_status \<Rightarrow> string option \<Rightarrow> (agreements_db, unit) action" where
  "update_status env t status error =
     writes (\<lambda>db. db\<lparr>abCatalog :=
       update_definition_fetch_status (cdGrantCode t) (cdVersion t) AgreementFile status error (agNow env) (abCatalog db)\<rparr>)"

definition guard_definition_status :: "config_definition \<Rightarrow> unit res" where
  "guard_definition_status t =
     (if fsFetchStatus (cdFile t) = FetchPermanent then Inl (unavailable (cdGrantCode t) (Some (cdVersion t)))
      else Inr ())"

definition classify_failure :: "js_error \<Rightarrow> fetch_status \<times> bool" where
  "classify_failure e =
     (if is_endpoint_service_url_error e then (FetchTransient, False)
      else if is_s3_error e
      then (if s3_is_permanent e \<or> s3_is_parse_error e then FetchPermanent else FetchTransient, True)
      else (if is_boom e then FetchPermanent else FetchTransient, True))"

definition compile_and_cache ::
  "agreements_env \<Rightarrow> config_definition \<Rightarrow> agreement_definition option \<Rightarrow> (agreements_db, agreement_definition) action" where
  "compile_and_cache env t stored =
     andThen (lift_res (case stored of Some d \<Rightarrow> Inr d
                        | None \<Rightarrow> agFetch env (cdS3Bucket t) (fsS3Key (cdFile t)))) (\<lambda>raw.
     andThen (lift_res (compile_agreement_definition env raw (cdGrantCode t) (cdVersion t))) (\<lambda>compiled.
     andThen (if stored \<noteq> None then ret ()
              else insert_agreement_definition False (cdGrantCode t) (cdVersion t) raw) (\<lambda>_.
     andThen (if fsFetchStatus (cdFile t) = Fetched then ret () else update_status env t Fetched None) (\<lambda>_.
     andThen (writes (\<lambda>db. db\<lparr>abCompiled := obj_put (target_key t) compiled (abCompiled db)\<rparr>)) (\<lambda>_.
     ret compiled)))))"

definition load_target ::
  "agreements_env \<Rightarrow> config_definition \<Rightarrow> (agreements_db, agreement_definition) action" where
  "load_target env t =
     andThen (lift_res (guard_definition_status t)) (\<lambda>_.
     andThen (reads (find_stored_definition (cdGrantCode t) (cdVersion t))) (\<lambda>stored.
     catch (compile_and_cache env t stored)
       (\<lambda>e. andThen (if snd (classify_failure e) then update_status env t (fst (classify_failure e)) (Some (error_message e))
                      else ret ()) (\<lambda>_. throw e))))"

definition load_compiled ::
  "agreements_env \<Rightarrow> config_definition \<Rightarrow> (agreements_db, agreement_definition) action" where
  "load_compiled env t = (\<lambda>db.
     case map_of (abCompiled db) (target_key t) of
       Some d \<Rightarrow> (Inr d, db)
     | None \<Rightarrow> load_target env t db)"

definition should_fall_back :: "definition_resolution \<Rightarrow> js_error \<Rightarrow> bool" where
  "should_fall_back r e \<longleftrightarrow> can_fall_back r \<and> fst (classify_failure e) = FetchPermanent"

definition try_load ::
  "agreements_env \<Rightarrow> config_definition \<Rightarrow> load_options \<Rightarrow> (agreements_db, agreement_definition option) action" where
  "try_load env t opts =
     catch (andThen (load_compiled env t) (\<lambda>d. ret (Some d)))
       (\<lambda>e. if should_fall_back (loResolution opts) e then ret None else throw e)"

section \<open>The loop over versions\<close>

definition catalog_keys :: "agreements_db \<Rightarrow> string set" where
  "catalog_keys db = (\<lambda>r. at_version (crGrantCode r) (crVersion r)) ` set (abCatalog db)"

lemma finite_catalog_keys [simp]: "finite (catalog_keys db)"
  by (simp add: catalog_keys_def)

lemma to_definition_key:
  "to_definition t doc = Some d \<Longrightarrow> \<exists>r. doc = Some r \<and> cdGrantCode d = crGrantCode r \<and> cdVersion d = crVersion r
     \<and> map_of (crDefinitions r) t = Some (cdFile d) \<and> cdStatus d = crStatus r \<and> cdSemver d = crSemver r"
  by (auto simp: to_definition_def bind_eq_Some_conv)

lemma resolved_target_row:
  assumes "resolve_target opts db = Inr t"
  shows "\<exists>r\<in>set (abCatalog db). cdGrantCode t = crGrantCode r \<and> cdVersion t = crVersion r
      \<and> map_of (crDefinitions r) AgreementFile = Some (cdFile t) \<and> cdStatus t = crStatus r \<and> cdSemver t = crSemver r
      \<and> crGrantCode r = loCode opts"
proof -
  have found: "\<exists>r\<in>set (abCatalog db). cdGrantCode t = crGrantCode r \<and> cdVersion t = crVersion r
      \<and> map_of (crDefinitions r) AgreementFile = Some (cdFile t) \<and> cdStatus t = crStatus r \<and> cdSemver t = crSemver r
      \<and> crGrantCode r = loCode opts"
    if "find_latest_usable_definition (loCode opts) m b AgreementFile (abCatalog db) = Some t
        \<or> resolve_exact opts db = Some t" for m b
  proof (cases "resolve_exact opts db = Some t")
    case True
    then obtain v where d: "to_definition AgreementFile (find (same_version (loCode opts) v) (abCatalog db)) = Some t"
      by (auto simp: resolve_exact_def find_config_definition_def bind_eq_Some_conv)
    then obtain r where f: "find (same_version (loCode opts) v) (abCatalog db) = Some r"
      using to_definition_key by metis
    then have "r \<in> set (abCatalog db)" "crGrantCode r = loCode opts"
      by (auto simp: find_Some_iff same_version_def)
    then show ?thesis using to_definition_key [OF d] f by (auto intro!: bexI [of _ r])
  next
    case False
    then have "find_latest_usable_definition (loCode opts) m b AgreementFile (abCatalog db) = Some t" using that by simp
    then obtain r where l: "latest (\<lambda>r. (svMinor (crSemver r), svPatch (crSemver r)))
        (filter (usable_definition (loCode opts) m b AgreementFile) (abCatalog db)) = Some r"
      and d: "to_definition AgreementFile (Some r) = Some t"
      unfolding find_latest_usable_definition_def using to_definition_key by metis
    have "r \<in> set (filter (usable_definition (loCode opts) m b AgreementFile) (abCatalog db))"
      using latest_Some [OF l] by blast
    then show ?thesis using to_definition_key [OF d]
      by (auto simp: usable_definition_def intro!: bexI [of _ r])
  qed
  have "find_target opts db = Inr (Some t)"
    using assms by (auto simp: resolve_target_def bind_res_Inr split: option.splits)
  then show ?thesis
    by (auto simp: find_target_def resolve_creation_def resolve_same_major_def bind_res_Inr Let_def
        split: definition_resolution.splits option.splits if_splits intro: found)
qed

lemma target_in_catalog: "resolve_target opts db = Inr t \<Longrightarrow> target_key t \<in> catalog_keys db"
  by (drule resolved_target_row, unfold catalog_keys_def target_key_def, erule bexE, rule image_eqI) simp_all

lemma update_one_keys:
  assumes "\<And>r. crGrantCode (f r) = crGrantCode r" and "\<And>r. crVersion (f r) = crVersion r"
  shows "(\<lambda>r. at_version (crGrantCode r) (crVersion r)) ` set (update_one p f rows)
      = (\<lambda>r. at_version (crGrantCode r) (crVersion r)) ` set rows"
  by (induction rows) (auto simp: assms)

lemma catalog_keys_set:
  "catalog_keys (db\<lparr>abCatalog := rows\<rparr>) = (\<lambda>r. at_version (crGrantCode r) (crVersion r)) ` set rows"
  by (simp add: catalog_keys_def)

lemma update_status_keys [intro]: "keeps (\<lambda>db. catalog_keys db = K) (update_status env t st e)"
proof (rule keepsI)
  fix db assume "catalog_keys db = K"
  then show "catalog_keys (snd (update_status env t st e db)) = K"
    unfolding update_status_def writes_def update_definition_fetch_status_def snd_conv catalog_keys_set
    by (subst update_one_keys) (simp_all add: with_worst_fetch_status_def catalog_keys_def)
qed

lemma keeps_when [intro]: "keeps P m \<Longrightarrow> keeps P n \<Longrightarrow> keeps P (if c then m else n)"
  by simp

lemma keeps_definition_insert [intro]:
  "keeps (\<lambda>db. catalog_keys db = K) (insert_agreement_definition session code version d)"
  by (simp add: keeps_def insert_agreement_definition_def catalog_keys_def)

lemma keeps_compiled_write [intro]: "keeps (\<lambda>db. catalog_keys db = K) (writes (\<lambda>db. db\<lparr>abCompiled := f db\<rparr>))"
  by (simp add: keeps_def writes_def catalog_keys_def)

lemma try_load_keys: "keeps (\<lambda>db. catalog_keys db = K) (try_load env t opts)"
proof -
  have compile: "keeps (\<lambda>db. catalog_keys db = K) (compile_and_cache env t stored)" for stored
    unfolding compile_and_cache_def by (intro keeps_andThen keeps_when) auto
  have "keeps (\<lambda>db. catalog_keys db = K) (load_target env t)"
    unfolding load_target_def by (intro keeps_andThen keeps_catch keeps_when compile) auto
  then have "keeps (\<lambda>db. catalog_keys db = K) (load_compiled env t)"
    by (auto simp: load_compiled_def keeps_def split: option.splits)
  then show ?thesis unfolding try_load_def by (intro keeps_catch keeps_andThen keeps_when) auto
qed

text \<open>
  Each turn attempts a version of the catalogue it has not attempted, so there are at most as many
  turns as versions: no limit is needed.
\<close>

function load_versions ::
  "agreements_env \<Rightarrow> load_options \<Rightarrow> string list \<Rightarrow> agreements_db \<Rightarrow> agreement_definition res \<times> agreements_db" where
  "load_versions env opts attempted db =
     (case resolve_target opts db of
        Inl e \<Rightarrow> (Inl e, db)
      | Inr t \<Rightarrow>
          if target_key t \<in> set attempted then (Inl (unavailable (loCode opts) (loConfigVersion opts)), db)
          else case try_load env t opts db of
            (Inl e, db1) \<Rightarrow> (Inl e, db1)
          | (Inr (Some d), db1) \<Rightarrow> (Inr d, db1)
          | (Inr None, db1) \<Rightarrow> load_versions env opts (target_key t # attempted) db1)"
  by pat_completeness auto
termination
proof (relation "measure (\<lambda>(env, opts, attempted, db). card (catalog_keys db - set attempted))", goal_cases)
  case (2 env opts attempted db t r db1 found)
  have keys: "catalog_keys db1 = catalog_keys db"
    using keepsD [OF try_load_keys [of "catalog_keys db" env t opts] refl] 2(3) by (metis snd_conv)
  have "target_key t \<in> catalog_keys db"
    by (rule target_in_catalog [OF 2(1)])
  then have "card (catalog_keys db - insert (target_key t) (set attempted)) < card (catalog_keys db - set attempted)"
    using 2(2) by (intro psubset_card_mono) auto
  then show ?case using keys by simp
qed simp

declare load_versions.simps [simp del]

definition load_agreement_definition ::
  "agreements_env \<Rightarrow> load_options \<Rightarrow> (agreements_db, agreement_definition) action" where
  "load_agreement_definition env opts = load_versions env opts []"

definition load_definition_for_agreement ::
  "agreements_env \<Rightarrow> agreement_record \<Rightarrow> (agreements_db, agreement_definition) action" where
  "load_definition_for_agreement env a =
     load_agreement_definition env \<lparr>loCode = amCode a, loConfigVersion = Some (amConfigVersion a),
       loResolution = (if truthy (amAcceptedAt a) \<noteq> None then Exact else SameMajor)\<rparr>"

end
