(* ===== verification/AgreementService.thy ===== *)
theory AgreementService
  imports AgreementLoading
begin

text \<open>
  The use cases of the Agreements module over its store: the repository with its unique indexes
  (\<open>src/agreements/repositories/agreement.repository.js\<close>), creating an Agreement
  (\<open>create-agreement.use-case.js\<close>), executing an action on it (\<open>execute-agreement-action.use-case.js\<close>),
  the command that moves it to a status (\<open>handle-update-agreement-status-command.use-case.js\<close>) and
  reading it (\<open>load-current-agreement.js\<close> and the contexts built on it). An agreement's document has
  its number as \<open>_id\<close>; documents of the other collections have one of their own.
\<close>

section \<open>The repository\<close>

definition find_agreement_by_number :: "string \<Rightarrow> agreements_db \<Rightarrow> agreement_record option" where
  "find_agreement_by_number number db = find (\<lambda>a. amNumber a = number) (abAgreements db)"

definition find_agreement_by_source_identity :: "string \<Rightarrow> string \<Rightarrow> agreements_db \<Rightarrow> agreement_record option" where
  "find_agreement_by_source_identity code clientRef db =
     find (\<lambda>a. amCode a = code \<and> amClientRef a = clientRef) (abAgreements db)"

definition insert_current_agreement :: "agreement_record \<Rightarrow> (agreements_db, unit) action" where
  "insert_current_agreement a = (\<lambda>db.
     if find_agreement_by_number (amNumber a) db \<noteq> None then (Inl (DuplicateKey [''_id'']), db)
     else if find_agreement_by_source_identity (amCode a) (amClientRef a) db \<noteq> None
     then (Inl (DuplicateKey [''code'', ''clientRef'']), db)
     else (Inr (), db\<lparr>abAgreements := abAgreements db @ [a]\<rparr>))"

definition same_idempotency_key :: "string \<Rightarrow> string \<Rightarrow> agreement_version \<Rightarrow> bool" where
  "same_idempotency_key number key v \<longleftrightarrow>
     avNumber v = number \<and> (case avExecution v of None \<Rightarrow> False | Some x \<Rightarrow> axIdempotencyKey x = key)"

definition insert_agreement_version :: "agreement_version \<Rightarrow> (agreements_db, unit) action" where
  "insert_agreement_version v = (\<lambda>db.
     if list_ex (\<lambda>w. avNumber w = avNumber v \<and> avVersion w = avVersion v) (abVersions db)
     then (Inl (DuplicateKey [''agreementNumber'', ''version'']), db)
     else if (case avExecution v of None \<Rightarrow> False
              | Some x \<Rightarrow> list_ex (same_idempotency_key (avNumber v) (axIdempotencyKey x)) (abVersions db))
     then (Inl (DuplicateKey [''agreementNumber'', ''actionExecution.idempotencyKey'']), db)
     else (Inr (), db\<lparr>abVersions := abVersions db @ [v]\<rparr>))"

text \<open>The result is \<open>modifiedCount\<close>; a document that would stay as it is counts as not modified.\<close>

definition replace_current_agreement :: "agreement_record \<Rightarrow> nat \<Rightarrow> (agreements_db, nat) action" where
  "replace_current_agreement a expectedVersion = (\<lambda>db.
     case find (\<lambda>x. amNumber x = amNumber a \<and> amVersion x = expectedVersion) (abAgreements db) of
       None \<Rightarrow> (Inr 0, db)
     | Some stored \<Rightarrow>
         if stored = a then (Inr 0, db)
         else (Inr 1, db\<lparr>abAgreements :=
           update_one (\<lambda>x. amNumber x = amNumber a \<and> amVersion x = expectedVersion) (\<lambda>_. a) (abAgreements db)\<rparr>))"

definition find_version_by_idempotency_key :: "string \<Rightarrow> string \<Rightarrow> agreements_db \<Rightarrow> agreement_version option" where
  "find_version_by_idempotency_key number key db = find (same_idempotency_key number key) (abVersions db)"

definition agreement_transaction :: "(agreements_db, 'a) action \<Rightarrow> (agreements_db, 'a) action" where
  "agreement_transaction callback = (\<lambda>db.
     case callback db of (Inr x, t) \<Rightarrow> (Inr x, t) | (Inl e, t) \<Rightarrow> (Inl e, db))"

definition save_agreement_events :: "agreement_publication list \<Rightarrow> (agreements_db, unit) action" where
  "save_agreement_events ps = writes (\<lambda>db. db\<lparr>abOutbox := abOutbox db @ map AgreementMessage ps\<rparr>)"

definition write_agreement_audit ::
  "agreements_env \<Rightarrow> audit \<Rightarrow> security_detail option \<Rightarrow> audit_status \<Rightarrow> (agreements_db, unit) action" where
  "write_agreement_audit env a security status =
     (if \<not> agValidAudit env a then throw (JsError ''Audit event failed validation'')
      else writes (\<lambda>db. db\<lparr>abOutbox := abOutbox db @ [AgreementAudit a security status]\<rparr>))"

section \<open>Creating an Agreement\<close>

definition is_source_identity_conflict :: "js_error \<Rightarrow> bool" where
  "is_source_identity_conflict e \<longleftrightarrow>
     (case e of DuplicateKey key \<Rightarrow> ''code'' \<in> set key \<and> ''clientRef'' \<in> set key | _ \<Rightarrow> False)"

definition is_agreement_number_conflict :: "js_error \<Rightarrow> bool" where
  "is_agreement_number_conflict e \<longleftrightarrow> (case e of DuplicateKey key \<Rightarrow> ''_id'' \<in> set key | _ \<Rightarrow> False)"

definition persist_agreement :: "agreements_env \<Rightarrow> agreement_record \<Rightarrow> (agreements_db, agreement_record) action" where
  "persist_agreement env a =
     andThen (lift_res (creation_publications (agPublish env) a)) (\<lambda>ps.
     agreement_transaction
       (andThen (insert_current_agreement a) (\<lambda>_.
        andThen (insert_agreement_version (agreement_version_create a (amCreatedAt a))) (\<lambda>_.
        andThen (save_agreement_events ps) (\<lambda>_.
        andThen (write_agreement_audit env (build_agreement_creation_audit a) None SUCCESS) (\<lambda>_.
        ret a))))))"

definition max_agreement_number_attempts :: nat where "max_agreement_number_attempts = 5"

definition agreement_number_exhausted :: js_error where
  "agreement_number_exhausted = bad_implementation (''Could not generate a unique agreement number after ''
     @ show_nat max_agreement_number_attempts @ '' attempts'')"

definition draw_number :: "agreements_env \<Rightarrow> nat \<Rightarrow> string \<Rightarrow> string res" where
  "draw_number env n prefix = generate_agreement_number (agRandomInt env n) prefix default_suffix_length"

fun persist_attempts ::
  "agreements_env \<Rightarrow> agreement_definition \<Rightarrow> nat \<Rightarrow> nat \<Rightarrow> agreement_record \<Rightarrow> (agreements_db, agreement_record) action" where
  "persist_attempts env d 0 drawn candidate = throw agreement_number_exhausted"
| "persist_attempts env d (Suc left) drawn candidate =
     catch (persist_agreement env candidate)
       (\<lambda>e. if \<not> is_agreement_number_conflict e then throw e
            else andThen (lift_res (draw_number env drawn (adNumberPrefix d))) (\<lambda>number.
              persist_attempts env d left (Suc drawn) (with_agreement_number candidate number)))"

definition persist_with_agreement_number_retry ::
  "agreements_env \<Rightarrow> agreement_definition \<Rightarrow> agreement_record \<Rightarrow> (agreements_db, agreement_record) action" where
  "persist_with_agreement_number_retry env d a = persist_attempts env d max_agreement_number_attempts 1 a"

definition create_new_agreement :: "agreements_env \<Rightarrow> creation_input \<Rightarrow> (agreements_db, agreement_record) action" where
  "create_new_agreement env input =
     andThen (reads (find_agreement_by_source_identity (ciCode input) (ciClientRef input))) (\<lambda>existing.
     case existing of
       Some a \<Rightarrow> ret a
     | None \<Rightarrow>
         andThen (load_agreement_definition env \<lparr>loCode = ciCode input,
             loConfigVersion = ciCurrentConfigVersion input, loResolution = Creation\<rparr>) (\<lambda>d.
         andThen (lift_res (create_agreement_from (agProcess env) (draw_number env 0) d input
             \<lparr>exExecutedAt = agNow env, exCorrelationId = Some (agUuid env)\<rparr>)) (\<lambda>a.
         persist_with_agreement_number_retry env d a)))"

definition agreement_creation_use_case ::
  "agreements_env \<Rightarrow> creation_input \<Rightarrow> (agreements_db, agreement_record option) action" where
  "agreement_creation_use_case env input =
     catch (andThen (create_new_agreement env input) (\<lambda>a. ret (Some a)))
       (\<lambda>e. if is_source_identity_conflict e
            then reads (find_agreement_by_source_identity (ciCode input) (ciClientRef input)) else throw e)"

section \<open>Reading an Agreement\<close>

record agreement_access =
  xsSource :: "string option"
  xsCode :: "string option"
  xsSbi :: "string option"
  xsClientRef :: "string option"

definition agreement_not_found :: js_error where
  "agreement_not_found = Boom NotFound ''Agreement not found'' []"

definition require_agreement :: "agreement_record option \<Rightarrow> agreement_record res" where
  "require_agreement a = (case a of None \<Rightarrow> Inl agreement_not_found | Some x \<Rightarrow> Inr x)"

definition assert_sbi :: "agreement_record \<Rightarrow> string option \<Rightarrow> agreement_record res" where
  "assert_sbi a sbi = (if sbi_of a = map_option JStr sbi then Inr a else Inl agreement_not_found)"

definition load_current_agreement ::
  "string \<Rightarrow> string \<Rightarrow> string option \<Rightarrow> agreements_db \<Rightarrow> agreement_record res" where
  "load_current_agreement code clientRef sbi db =
     bind_res (require_agreement (find_agreement_by_source_identity code clientRef db)) (\<lambda>a. assert_sbi a sbi)"

definition load_current_agreement_by_number :: "string \<Rightarrow> agreements_db \<Rightarrow> agreement_record res" where
  "load_current_agreement_by_number number db = require_agreement (find_agreement_by_number number db)"

definition is_matching_document_access :: "agreement_record \<Rightarrow> agreement_access \<Rightarrow> bool" where
  "is_matching_document_access a access \<longleftrightarrow>
     xsSource access \<in> {Some ''defra'', Some ''entra''} \<and> sbi_of a = map_option JStr (xsSbi access)"

definition assert_document_access :: "agreement_record \<Rightarrow> agreement_access \<Rightarrow> agreement_record res" where
  "assert_document_access a access = require_agreement (if is_matching_document_access a access then Some a else None)"

definition assert_action_access :: "agreement_record \<Rightarrow> agreement_access \<Rightarrow> agreement_record res" where
  "assert_action_access a access =
     require_agreement (if xsSource access = Some ''defra'' \<and> is_matching_document_access a access then Some a else None)"

definition load_agreement_document :: "string \<Rightarrow> agreement_access \<Rightarrow> agreements_db \<Rightarrow> agreement_record res" where
  "load_agreement_document number access db =
     bind_res (load_current_agreement_by_number number db) (\<lambda>a. assert_document_access a access)"

definition load_agreement_for_action :: "string \<Rightarrow> agreement_access \<Rightarrow> agreements_db \<Rightarrow> agreement_record res" where
  "load_agreement_for_action number access db =
     bind_res (load_current_agreement_by_number number db) (\<lambda>a. assert_action_access a access)"

record agreement_context =
  gxAgreement :: agreement_record
  gxDefinition :: agreement_definition
  gxEtag :: string

definition load_context_of :: "agreements_env \<Rightarrow> agreement_record \<Rightarrow> (agreements_db, agreement_context) action" where
  "load_context_of env a =
     andThen (load_definition_for_agreement env a) (\<lambda>d.
     ret \<lparr>gxAgreement = a, gxDefinition = d, gxEtag = to_etag a (definition_version d)\<rparr>)"

definition resolve_action_or_conflict :: "agreement_definition \<Rightarrow> string \<Rightarrow> string \<Rightarrow> agreement_action res" where
  "resolve_action_or_conflict d state actionName =
     (case resolve_agreement_action (lifecycle_of d) state actionName of
        Inr a \<Rightarrow> Inr a
      | Inl e \<Rightarrow> Inl (if is_invalid_agreement_transition e then Boom Conflict (error_message e) [] else e))"

definition current_agreement_location :: string where "current_agreement_location = ''/agreements/current''"

definition stale_error :: "string option \<Rightarrow> js_error" where
  "stale_error etag = Boom PreconditionFailed ''Agreement version is stale''
     ((''location'', current_agreement_location) # (case truthy etag of None \<Rightarrow> [] | Some t \<Rightarrow> [(''etag'', t)]))"

definition assert_current_agreement :: "string option \<Rightarrow> string \<Rightarrow> unit res" where
  "assert_current_agreement ifMatch etag =
     (if ifMatch = None \<or> ifMatch = Some etag then Inr () else Inl (stale_error (Some etag)))"

definition load_action_context ::
  "agreements_env \<Rightarrow> agreement_record \<Rightarrow> string \<Rightarrow> string option
     \<Rightarrow> (agreements_db, agreement_action \<times> agreement_context) action" where
  "load_action_context env a actionName ifMatch =
     andThen (load_context_of env a) (\<lambda>ctx.
     andThen (lift_res (assert_current_agreement ifMatch (gxEtag ctx))) (\<lambda>_.
     andThen (lift_res (resolve_action_or_conflict (gxDefinition ctx) (amState a) actionName)) (\<lambda>action.
     ret (action, ctx))))"

section \<open>Committing an action\<close>

definition find_completed :: "string \<Rightarrow> string \<Rightarrow> string \<Rightarrow> agreements_db \<Rightarrow> bool res" where
  "find_completed number actionName key db =
     (case Option.bind (find_version_by_idempotency_key number key db) avExecution of
        None \<Rightarrow> Inr False
      | Some x \<Rightarrow> if axName x = actionName then Inr True
          else Inl (Boom Conflict ''Idempotency key has already been used'' []))"

definition has_payment_commit_operation :: "string list \<Rightarrow> bool res" where
  "has_payment_commit_operation operations =
     (case find (\<lambda>t. t \<noteq> create_agreement_payment) operations of
        Some t \<Rightarrow> Inl (bad_implementation (''Unsupported Agreement Action commit operation '' @ quoted t))
      | None \<Rightarrow>
          if length operations > 1
          then Inl (bad_implementation ''Agreement Action cannot create more than one Payment'')
          else Inr (length operations = 1))"

record action_commit =
  kmActionName :: string
  kmCurrent :: agreement_record
  kmKey :: string
  kmNext :: action_result

datatype commit_outcome = CommitCompleted | CommitLost

definition commit_action_transaction ::
  "agreements_env \<Rightarrow> action_commit \<Rightarrow> bool \<Rightarrow> (agreements_db, commit_outcome) action" where
  "commit_action_transaction env c paymentRequested =
     (let current = kmCurrent c; after = arAgreement (kmNext c) in
      andThen (reads (find_completed (amNumber current) (kmActionName c) (kmKey c))) (\<lambda>r.
      andThen (lift_res r) (\<lambda>completed.
      if completed then ret CommitCompleted
      else andThen (replace_current_agreement after (amVersion current)) (\<lambda>modified.
        if modified \<noteq> 1 then ret CommitLost
        else andThen (insert_agreement_version \<lparr>avNumber = amNumber current, avVersion = amVersion after,
               avSnapshot = after, avVersionedAt = amUpdatedAt after,
               avExecution = Some \<lparr>axName = kmActionName c, axIdempotencyKey = kmKey c\<rparr>\<rparr>) (\<lambda>_.
          andThen (lift_res (action_publications (agPublish env) current after paymentRequested)) (\<lambda>ps.
          andThen (save_agreement_events ps) (\<lambda>_.
          andThen (lift_res (build_agreement_action_audit (kmActionName c) current (AttemptedAgreement after) SUCCESS
                     None None)) (\<lambda>(a, security).
          andThen (write_agreement_audit env a (Some security) SUCCESS) (\<lambda>_.
          ret CommitCompleted)))))))))"

definition is_concurrent_action_conflict :: "js_error \<Rightarrow> bool" where
  "is_concurrent_action_conflict e \<longleftrightarrow>
     (case e of DuplicateKey key \<Rightarrow> ''agreementNumber'' \<in> set key
        \<and> (''version'' \<in> set key \<or> ''actionExecution.idempotencyKey'' \<in> set key) | _ \<Rightarrow> False)"

definition stale_etag :: "agreements_env \<Rightarrow> agreement_record \<Rightarrow> (agreements_db, string option) action" where
  "stale_etag env a =
     catch (andThen (load_context_of env a) (\<lambda>ctx. ret (Some (gxEtag ctx)))) (\<lambda>_. ret None)"

definition concurrency_loss_field :: string where "concurrency_loss_field = ''agreementActionConcurrencyLoss''"

fun concurrency_loss :: "js_error \<Rightarrow> js_error" where
  "concurrency_loss (Boom b m fs) = Boom b m (fs @ [(concurrency_loss_field, ''true'')])"
| "concurrency_loss e = e"

fun is_agreement_action_concurrency_loss :: "js_error \<Rightarrow> bool" where
  "is_agreement_action_concurrency_loss (Boom _ _ fs) = (map_of fs concurrency_loss_field = Some ''true'')"
| "is_agreement_action_concurrency_loss e = False"

definition resolve_concurrent_update ::
  "agreements_env \<Rightarrow> string \<Rightarrow> string \<Rightarrow> string \<Rightarrow> (agreements_db, unit) action" where
  "resolve_concurrent_update env number actionName key =
     andThen (reads (find_completed number actionName key)) (\<lambda>r.
     andThen (lift_res r) (\<lambda>completed.
     if completed then ret ()
     else andThen (reads (find_agreement_by_number number)) (\<lambda>found.
       case found of
         None \<Rightarrow> throw (concurrency_loss agreement_not_found)
       | Some a \<Rightarrow> andThen (stale_etag env a) (\<lambda>etag. throw (concurrency_loss (stale_error etag))))))"

definition commit_agreement_action :: "agreements_env \<Rightarrow> action_commit \<Rightarrow> (agreements_db, unit) action" where
  "commit_agreement_action env c =
     (let resolve = resolve_concurrent_update env (amNumber (kmCurrent c)) (kmActionName c) (kmKey c) in
      andThen (lift_res (has_payment_commit_operation (arOperations (kmNext c)))) (\<lambda>paymentRequested.
      andThen (catch (agreement_transaction (commit_action_transaction env c paymentRequested))
        (\<lambda>e. if is_concurrent_action_conflict e then ret CommitLost else throw e)) (\<lambda>outcome.
      if outcome = CommitLost then resolve else ret ())))"

section \<open>Executing an action\<close>

definition record_agreement_action_failure ::
  "agreements_env \<Rightarrow> string \<Rightarrow> agreement_record \<Rightarrow> attempted \<Rightarrow> js_error \<Rightarrow> string \<Rightarrow> (agreements_db, unit) action" where
  "record_agreement_action_failure env actionName current t error key =
     catch (andThen (lift_res (build_agreement_action_audit actionName current t FAILURE (Some error) (Some key)))
              (\<lambda>(a, security). write_agreement_audit env a (Some security) FAILURE))
       (\<lambda>_. ret ())"

definition record_attempt_failure ::
  "agreements_env \<Rightarrow> string \<Rightarrow> agreement_record \<Rightarrow> attempted \<Rightarrow> js_error \<Rightarrow> string \<Rightarrow> (agreements_db, unit) action" where
  "record_attempt_failure env actionName current t error key =
     (if is_agreement_action_concurrency_loss error then ret ()
      else record_agreement_action_failure env actionName current t error key)"

definition build_agreement_page_model ::
  "agreements_env \<Rightarrow> agreement_definition \<Rightarrow> agreement_record \<Rightarrow> string option \<Rightarrow> string \<Rightarrow> json res" where
  "build_agreement_page_model env d a page mode =
     (if mode \<notin> {''view'', ''print''} then Inl (Boom NotFound (''Unsupported mode '' @ quoted mode) [])
      else bind_res (assert_page_allowed d (part_string page) (amState a)) (\<lambda>_.
        bind_res (run_page_processes (agProcess env) d a (part_string page)
          \<lparr>exExecutedAt = agNow env, exCorrelationId = Some (amCorrelationId a)\<rparr>) (\<lambda>outs.
        bind_res (resolve_page d (part_string page)) (\<lambda>_.
        agRender env d a outs (part_string page) (mode = ''print'')))))"

datatype action_response = ActionDone | ActionRefused json "(string \<times> json) list" "required_field list" string

record action_request =
  rxNumber :: string
  rxActionName :: string
  rxKey :: string
  rxIfMatch :: "string option"
  rxValues :: "(string \<times> json) list"
  rxAccess :: agreement_access

text \<open>
  The attempt knows what it attempted once the action is resolved, and more once it has executed: a
  failure is recorded with what was known when it happened.
\<close>

definition failing_with ::
  "agreements_env \<Rightarrow> action_request \<Rightarrow> agreement_record \<Rightarrow> attempted \<Rightarrow> (agreements_db, 'a) action
     \<Rightarrow> (agreements_db, 'a) action" where
  "failing_with env rq a t m =
     catch m (\<lambda>e. andThen (record_attempt_failure env (rxActionName rq) a t e (rxKey rq)) (\<lambda>_. throw e))"

definition refuse_submission ::
  "agreements_env \<Rightarrow> action_request \<Rightarrow> agreement_context \<Rightarrow> agreement_action \<Rightarrow> string option \<Rightarrow> required_field list
     \<Rightarrow> (agreements_db, action_response) action" where
  "refuse_submission env rq ctx action page errors =
     (let a = gxAgreement ctx in
      andThen (lift_res (build_agreement_page_model env (gxDefinition ctx) a page ''view'')) (\<lambda>model.
      andThen (record_agreement_action_failure env (rxActionName rq) a (AttemptedState (aaTarget action))
        (Boom BadRequest ''Agreement action validation failed'' []) (rxKey rq)) (\<lambda>_.
      ret (ActionRefused model (rxValues rq) errors (gxEtag ctx)))))"

definition execute_agreement_action_attempt ::
  "agreements_env \<Rightarrow> action_request \<Rightarrow> agreement_record \<Rightarrow> (agreements_db, action_response) action" where
  "execute_agreement_action_attempt env rq a =
     andThen (failing_with env rq a NotAttempted (load_action_context env a (rxActionName rq) (rxIfMatch rq)))
       (\<lambda>(action, ctx).
     let t = AttemptedState (aaTarget action) in
     if rxIfMatch rq \<noteq> Some (gxEtag ctx) then failing_with env rq a t (throw (stale_error (Some (gxEtag ctx))))
     else case validate_action action (rxValues rq) of
       InvalidAction page errors \<Rightarrow> failing_with env rq a t (refuse_submission env rq ctx action page errors)
     | ValidAction \<Rightarrow>
         andThen (failing_with env rq a t (lift_res (execute_agreement_action (agProcess env) (gxDefinition ctx) a
             (rxActionName rq) (rxValues rq)
             \<lparr>exExecutedAt = agNow env, exCorrelationId = Some (amCorrelationId a)\<rparr>))) (\<lambda>next.
         failing_with env rq a (AttemptedAgreement (arAgreement next))
           (andThen (commit_agreement_action env \<lparr>kmActionName = rxActionName rq, kmCurrent = a, kmKey = rxKey rq,
              kmNext = next\<rparr>) (\<lambda>_. ret ActionDone))))"

definition execute_agreement_action_use_case ::
  "agreements_env \<Rightarrow> action_request \<Rightarrow> (agreements_db, action_response) action" where
  "execute_agreement_action_use_case env rq =
     andThen (reads (load_agreement_for_action (rxNumber rq) (rxAccess rq))) (\<lambda>r.
     andThen (lift_res r) (\<lambda>a.
     andThen (reads (find_completed (rxNumber rq) (rxActionName rq) (rxKey rq))) (\<lambda>r.
     andThen (lift_res r) (\<lambda>completed.
     if completed then ret ActionDone else execute_agreement_action_attempt env rq a))))"

section \<open>Moving to a status\<close>

record status_command =
  sxId :: string
  sxNumber :: string
  sxStatus :: string

datatype status_outcome = AlreadyMoved agreement_record | StatusMoved | StatusRejected

definition is_rejected_transition :: "js_error \<Rightarrow> bool" where
  "is_rejected_transition e \<longleftrightarrow>
     is_invalid_agreement_transition e \<or> (case e of Boom b _ _ \<Rightarrow> status_code b = 412 | _ \<Rightarrow> False)"

definition failing_status ::
  "agreements_env \<Rightarrow> status_command \<Rightarrow> agreement_record \<Rightarrow> string \<Rightarrow> (agreements_db, status_outcome) action
     \<Rightarrow> (agreements_db, status_outcome) action" where
  "failing_status env cmd a actionName m =
     catch m (\<lambda>e.
       andThen (record_attempt_failure env actionName a (AttemptedState (sxStatus cmd)) e (sxId cmd)) (\<lambda>_.
       if is_rejected_transition e then ret StatusRejected else throw e))"

definition execute_status_transition ::
  "agreements_env \<Rightarrow> status_command \<Rightarrow> agreement_context \<Rightarrow> (agreements_db, status_outcome) action" where
  "execute_status_transition env cmd ctx =
     (let a = gxAgreement ctx; d = gxDefinition ctx in
      case resolve_action_for_target (lifecycle_of d) (amState a) (sxStatus cmd) of
        Inl e \<Rightarrow> failing_status env cmd a (sxStatus cmd) (throw e)
      | Inr action \<Rightarrow> failing_status env cmd a (aaName action)
          (andThen (lift_res (execute_agreement_action (agProcess env) d a (aaName action) []
             \<lparr>exExecutedAt = agNow env, exCorrelationId = Some (amCorrelationId a)\<rparr>)) (\<lambda>next.
           andThen (commit_agreement_action env \<lparr>kmActionName = aaName action, kmCurrent = a, kmKey = sxId cmd,
             kmNext = next\<rparr>) (\<lambda>_. ret StatusMoved))))"

definition handle_update_agreement_status ::
  "agreements_env \<Rightarrow> status_command \<Rightarrow> (agreements_db, status_outcome) action" where
  "handle_update_agreement_status env cmd =
     andThen (reads (find_version_by_idempotency_key (sxNumber cmd) (sxId cmd))) (\<lambda>found.
     case found of
       Some v \<Rightarrow> ret (AlreadyMoved (avSnapshot v))
     | None \<Rightarrow>
         andThen (reads (load_current_agreement_by_number (sxNumber cmd))) (\<lambda>r.
         andThen (lift_res r) (\<lambda>a.
         andThen (load_context_of env a) (\<lambda>ctx.
         execute_status_transition env cmd ctx))))"

end
