(* ===== verification/AgreementLaws.thy ===== *)
theory AgreementLaws
  imports AgreementService
begin

text \<open>
  What the use cases of the Agreements module keep: loading a definition touches neither the
  Agreements nor their versions, a commit either changes nothing of them or appends one version and
  replaces the Agreement by it, and the history of every Agreement stays complete and in order.
\<close>

section \<open>Loading leaves the Agreements alone\<close>

definition ledger :: "agreements_db \<Rightarrow> agreement_record list \<times> agreement_version list \<times> agreement_outbox list" where
  "ledger db = (abAgreements db, abVersions db, abOutbox db)"

lemma ledger_other [simp]:
  "ledger (db\<lparr>abCatalog := c\<rparr>) = ledger db" "ledger (db\<lparr>abDefinitions := ds\<rparr>) = ledger db"
  "ledger (db\<lparr>abCompiled := ks\<rparr>) = ledger db"
  by (simp_all add: ledger_def)

lemma ledger_eq: "ledger db' = ledger db \<longleftrightarrow>
    abAgreements db' = abAgreements db \<and> abVersions db' = abVersions db \<and> abOutbox db' = abOutbox db"
  by (simp add: ledger_def)

lemma keeps_ledger [intro]:
  "keeps (\<lambda>db. ledger db = K) (update_status env t st e)"
  "keeps (\<lambda>db. ledger db = K) (insert_agreement_definition session code version d)"
  "keeps (\<lambda>db. ledger db = K) (writes (\<lambda>db. db\<lparr>abCompiled := f db\<rparr>))"
  by (auto simp: keeps_def update_status_def insert_agreement_definition_def)

lemma try_load_ledger: "keeps (\<lambda>db. ledger db = K) (try_load env t opts)"
proof -
  have compile: "keeps (\<lambda>db. ledger db = K) (compile_and_cache env t stored)" for stored
    unfolding compile_and_cache_def by (intro keeps_andThen keeps_when) auto
  have "keeps (\<lambda>db. ledger db = K) (load_target env t)"
    unfolding load_target_def by (intro keeps_andThen keeps_catch keeps_when compile) auto
  then have "keeps (\<lambda>db. ledger db = K) (load_compiled env t)"
    by (auto simp: load_compiled_def keeps_def split: option.splits)
  then show ?thesis unfolding try_load_def by (intro keeps_catch keeps_andThen keeps_when) auto
qed

lemma load_versions_ledger: "ledger (snd (load_versions env opts attempted db)) = ledger db"
proof (induction env opts attempted db rule: load_versions.induct)
  case (1 env opts attempted db)
  show ?case
  proof (cases "resolve_target opts db")
    case (Inr t)
    have kept: "ledger (snd (try_load env t opts db)) = ledger db"
      using keepsD [OF try_load_ledger refl] .
    obtain r db1 where tl: "try_load env t opts db = (r, db1)" by (cases "try_load env t opts db")
    show ?thesis
    proof (cases "target_key t \<in> set attempted")
      case True
      then show ?thesis using Inr by (simp add: load_versions.simps)
    next
      case False
      show ?thesis
      proof (cases "r = Inr None")
        case True
        then have "ledger (snd (load_versions env opts (target_key t # attempted) db1)) = ledger db1"
          using 1 [OF Inr False] tl by simp
        then show ?thesis using Inr False tl True kept by (subst load_versions.simps) simp
      next
        case other: False
        then show ?thesis using Inr False tl kept
          by (subst load_versions.simps) (auto split: sum.splits option.splits)
      qed
    qed
  qed (simp add: load_versions.simps)
qed

lemma load_context_ledger [intro]: "keeps (\<lambda>db. ledger db = K) (load_context_of env a)"
  unfolding load_context_of_def load_definition_for_agreement_def load_agreement_definition_def
  by (intro keeps_andThen keepsI) (simp_all add: load_versions_ledger)

lemma stale_etag_ledger [intro]: "keeps (\<lambda>db. ledger db = K) (stale_etag env a)"
  unfolding stale_etag_def by (intro keeps_catch keeps_andThen load_context_ledger) auto

lemma resolve_concurrent_ledger [intro]: "keeps (\<lambda>db. ledger db = K) (resolve_concurrent_update env n name key)"
  unfolding resolve_concurrent_update_def
  by (intro keeps_andThen keeps_when) (auto split: option.splits intro!: keeps_andThen)

section \<open>What a commit does\<close>

definition source_of :: "agreement_record \<Rightarrow> string \<times> string" where
  "source_of a = (amCode a, amClientRef a)"

definition action_version :: "action_commit \<Rightarrow> agreement_version" where
  "action_version c = \<lparr>avNumber = amNumber (kmCurrent c), avVersion = amVersion (arAgreement (kmNext c)),
     avSnapshot = arAgreement (kmNext c), avVersionedAt = amUpdatedAt (arAgreement (kmNext c)),
     avExecution = Some \<lparr>axName = kmActionName c, axIdempotencyKey = kmKey c\<rparr>\<rparr>"

definition is_current :: "agreement_record \<Rightarrow> agreement_record \<Rightarrow> agreement_record \<Rightarrow> bool" where
  "is_current current after x \<longleftrightarrow> amNumber x = amNumber after \<and> amVersion x = amVersion current"

definition committed :: "action_commit \<Rightarrow> agreements_db \<Rightarrow> agreements_db \<Rightarrow> bool" where
  "committed c db db' \<longleftrightarrow>
     (let current = kmCurrent c; after = arAgreement (kmNext c) in
      (\<exists>x\<in>set (abAgreements db). is_current current after x)
      \<and> abAgreements db' = update_one (is_current current after) (\<lambda>_. after) (abAgreements db)
      \<and> abVersions db' = abVersions db @ [action_version c]
      \<and> (\<forall>w\<in>set (abVersions db). \<not> (avNumber w = amNumber current \<and> avVersion w = amVersion after))
      \<and> (\<forall>w\<in>set (abVersions db). \<not> same_idempotency_key (amNumber current) (kmKey c) w))"

lemma replaced:
  assumes "replace_current_agreement a v db = (Inr (Suc 0), db')"
  shows "(\<exists>x\<in>set (abAgreements db). amNumber x = amNumber a \<and> amVersion x = v)
      \<and> db' = db\<lparr>abAgreements := update_one (\<lambda>x. amNumber x = amNumber a \<and> amVersion x = v) (\<lambda>_. a) (abAgreements db)\<rparr>"
  using assms by (auto simp: replace_current_agreement_def find_Some_iff split: option.splits if_splits)

lemma version_inserted:
  assumes "insert_agreement_version v db = (Inr u, db')"
  shows "db' = db\<lparr>abVersions := abVersions db @ [v]\<rparr>
      \<and> (\<forall>w\<in>set (abVersions db). \<not> (avNumber w = avNumber v \<and> avVersion w = avVersion v))
      \<and> (\<forall>x w. avExecution v = Some x \<longrightarrow> w \<in> set (abVersions db) \<longrightarrow> \<not> same_idempotency_key (avNumber v) (axIdempotencyKey x) w)"
  using assms by (auto simp: insert_agreement_version_def list_ex_iff split: option.splits if_splits)

lemma commit_transaction_cases:
  assumes "commit_action_transaction env c pr db = (Inr out, db')"
  shows "db' = db \<and> (out = CommitCompleted \<longrightarrow> find_completed (amNumber (kmCurrent c)) (kmActionName c) (kmKey c) db = Inr True)
      \<or> (out = CommitCompleted \<and> committed c db db')"
proof -
  let ?current = "kmCurrent c" and ?after = "arAgreement (kmNext c)"
  obtain completed where completed: "find_completed (amNumber ?current) (kmActionName c) (kmKey c) db = Inr completed"
    using assms by (auto simp: commit_action_transaction_def Let_def andThen_Inr)
  show ?thesis
  proof (cases completed)
    case True
    then show ?thesis using assms completed by (auto simp: commit_action_transaction_def Let_def andThen_Inr)
  next
    case False
    obtain modified db1 where m: "replace_current_agreement ?after (amVersion ?current) db = (Inr modified, db1)"
      using assms completed False by (auto simp: commit_action_transaction_def Let_def andThen_Inr)
    show ?thesis
    proof (cases "modified = 1")
      case False
      then have "modified = 0 \<and> db1 = db"
        using m by (auto simp: replace_current_agreement_def split: option.splits if_splits)
      then show ?thesis using assms completed \<open>\<not> completed\<close> m
        by (auto simp: commit_action_transaction_def Let_def andThen_Inr)
    next
      case True
      obtain u db2 where v: "insert_agreement_version (action_version c) db1 = (Inr u, db2)"
        and out: "out = CommitCompleted" and rest: "abAgreements db' = abAgreements db2" "abVersions db' = abVersions db2"
        using assms completed \<open>\<not> completed\<close> m True
        by (auto simp: commit_action_transaction_def Let_def andThen_Inr action_version_def save_agreement_events_def
            write_agreement_audit_def split: if_splits)
      have r: "(\<exists>x\<in>set (abAgreements db). is_current ?current ?after x)
          \<and> db1 = db\<lparr>abAgreements := update_one (is_current ?current ?after) (\<lambda>_. ?after) (abAgreements db)\<rparr>"
        using replaced m True unfolding is_current_def by simp
      show ?thesis using version_inserted [OF v] r rest out
        by (auto simp: committed_def Let_def action_version_def)
    qed
  qed
qed

lemma transaction_cases:
  "agreement_transaction m db = (r, db') \<Longrightarrow> m db = (r, db') \<or> (db' = db \<and> (\<exists>e t. r = Inl e \<and> m db = (Inl e, t)))"
  by (auto simp: agreement_transaction_def split: prod.splits sum.splits)

lemma transaction_Inr: "agreement_transaction m db = (Inr x, db') \<longleftrightarrow> m db = (Inr x, db')"
  by (auto simp: agreement_transaction_def split: prod.splits sum.splits)

lemma transaction_Inl: "agreement_transaction m db = (Inl e, db') \<Longrightarrow> db' = db"
  by (auto simp: agreement_transaction_def split: prod.splits sum.splits)

lemma resolved_completed:
  "resolve_concurrent_update env n name key db = (Inr u, db') \<Longrightarrow> find_completed n name key db = Inr True"
  by (auto simp: resolve_concurrent_update_def andThen_Inr split: if_splits option.splits)

lemma commit_cases:
  assumes "commit_agreement_action env c db = (r, db')"
  shows "ledger db' = ledger db
        \<and> (r = Inr () \<longrightarrow> find_completed (amNumber (kmCurrent c)) (kmActionName c) (kmKey c) db = Inr True)
      \<or> (r = Inr () \<and> committed c db db')"
proof (cases "has_payment_commit_operation (arOperations (kmNext c))")
  case (Inl e)
  then show ?thesis using assms by (auto simp: commit_agreement_action_def Let_def andThen_def)
next
  case (Inr pr)
  let ?tx = "agreement_transaction (commit_action_transaction env c pr)"
  let ?resolve = "resolve_concurrent_update env (amNumber (kmCurrent c)) (kmActionName c) (kmKey c)"
  have kept: "ledger (snd (?resolve db)) = ledger db" for db
    using keepsD [OF resolve_concurrent_ledger refl] .
  have lost: ?thesis if "?resolve db = (r, db')"
    using that kept [of db] resolved_completed by auto
  obtain o1 db1 where tx: "?tx db = (o1, db1)" by (cases "?tx db")
  show ?thesis
  proof (cases o1)
    case (Inl e)
    then have "db1 = db" using tx by (auto dest: transaction_Inl)
    then show ?thesis using assms Inr tx Inl lost
      by (auto simp: commit_agreement_action_def Let_def andThen_def catch_def split: if_splits)
  next
    case finished: (Inr out)
    then have c: "db1 = db \<and> (out = CommitCompleted \<longrightarrow>
          find_completed (amNumber (kmCurrent c)) (kmActionName c) (kmKey c) db = Inr True)
        \<or> (out = CommitCompleted \<and> committed c db db1)"
      using tx commit_transaction_cases by (metis transaction_Inr)
    show ?thesis
    proof (cases "out = CommitLost")
      case True
      then have "db1 = db" using c by simp
      then show ?thesis using assms Inr tx finished True lost
        by (auto simp: commit_agreement_action_def Let_def andThen_def catch_def)
    next
      case False
      then have "r = Inr () \<and> db' = db1 \<and> out = CommitCompleted"
        using assms Inr tx finished by (cases out) (auto simp: commit_agreement_action_def Let_def andThen_def catch_def)
      then show ?thesis using c by auto
    qed
  qed
qed

section \<open>Creating\<close>

definition opened :: "agreement_record \<Rightarrow> agreements_db \<Rightarrow> agreements_db \<Rightarrow> bool" where
  "opened a db db' \<longleftrightarrow>
     abAgreements db' = abAgreements db @ [a]
     \<and> abVersions db' = abVersions db @ [agreement_version_create a (amCreatedAt a)]
     \<and> find_agreement_by_number (amNumber a) db = None
     \<and> find_agreement_by_source_identity (amCode a) (amClientRef a) db = None"

lemma persist_cases:
  assumes "persist_agreement env a db = (r, db')"
  shows "(db' = db \<and> (\<exists>e. r = Inl e)) \<or> (r = Inr a \<and> opened a db db')"
proof (cases r)
  case (Inl e)
  then have "db' = db"
    using assms by (auto simp: persist_agreement_def andThen_def split: sum.splits dest: transaction_Inl)
  then show ?thesis using Inl by simp
next
  case (Inr x)
  obtain u t where i: "insert_current_agreement a db = (Inr u, t)"
    and v: "\<exists>w t'. insert_agreement_version (agreement_version_create a (amCreatedAt a)) t = (Inr w, t')
        \<and> abAgreements db' = abAgreements t' \<and> abVersions db' = abVersions t'" and x: "x = a"
    using assms Inr
    by (auto simp: persist_agreement_def andThen_Inr transaction_Inr save_agreement_events_def
        write_agreement_audit_def split: if_splits)
  have "t = db\<lparr>abAgreements := abAgreements db @ [a]\<rparr>" "find_agreement_by_number (amNumber a) db = None"
    "find_agreement_by_source_identity (amCode a) (amClientRef a) db = None"
    using i by (auto simp: insert_current_agreement_def split: if_splits)
  then have "opened a db db'"
    using v by (auto simp: opened_def dest!: version_inserted)
  then show ?thesis using Inr x by simp
qed

lemma renumbered [simp]:
  "amVersion (with_agreement_number a n) = amVersion a" "amCode (with_agreement_number a n) = amCode a"
  "amClientRef (with_agreement_number a n) = amClientRef a" "amValues (with_agreement_number a n) = amValues a"
  by (simp_all add: with_agreement_number_def)

text \<open>The sequence of an Agreement covers the identities its values have.\<close>

definition seeded :: "agreement_record \<Rightarrow> bool" where
  "seeded a \<longleftrightarrow> (\<exists>r. amSequence a = resolve_agreement_identity_sequence (amValues a) r)"

lemma seeded_renumbered [simp]: "seeded (with_agreement_number a n)"
  by (auto simp: seeded_def with_agreement_number_def)

lemma persist_attempts_cases:
  "persist_attempts env d left drawn a db = (r, db') \<Longrightarrow> seeded a \<Longrightarrow>
     (db' = db \<and> (\<exists>e. r = Inl e))
     \<or> (\<exists>b. r = Inr b \<and> opened b db db' \<and> amVersion b = amVersion a \<and> source_of b = source_of a \<and> seeded b)"
proof (induction left arbitrary: drawn a)
  case 0
  then show ?case by auto
next
  case (Suc left)
  obtain r1 db1 where p: "persist_agreement env a db = (r1, db1)" by (cases "persist_agreement env a db")
  show ?case
  proof (cases r1)
    case (Inr x)
    then show ?thesis using Suc.prems p persist_cases [OF p] by (auto simp: catch_def)
  next
    case (Inl e)
    then have db1: "db1 = db" using persist_cases [OF p] by auto
    show ?thesis
    proof (cases "is_agreement_number_conflict e \<and> (\<exists>n. draw_number env drawn (adNumberPrefix d) = Inr n)")
      case True
      then obtain n where "persist_attempts env d left (Suc drawn) (with_agreement_number a n) db = (r, db')"
        using Suc.prems(1) p Inl db1 by (auto simp: catch_def andThen_def)
      then show ?thesis using Suc.IH [OF _ seeded_renumbered] by (fastforce simp: source_of_def)
    next
      case False
      then show ?thesis using Suc.prems p Inl db1
        by (auto simp: catch_def andThen_def split: if_splits sum.splits)
    qed
  qed
qed

section \<open>The history of an Agreement\<close>

definition history :: "agreements_db \<Rightarrow> string \<Rightarrow> agreement_version list" where
  "history db n = filter (\<lambda>v. avNumber v = n) (abVersions db)"

definition version_keys :: "agreement_version list \<Rightarrow> (string \<times> string) list" where
  "version_keys vs = List.map_filter (\<lambda>v. map_option (\<lambda>x. (avNumber v, axIdempotencyKey x)) (avExecution v)) vs"

definition complete_history :: "agreements_db \<Rightarrow> agreement_record \<Rightarrow> bool" where
  "complete_history db a \<longleftrightarrow>
     (let h = history db (amNumber a) in
      h \<noteq> [] \<and> map avVersion h = [1..<Suc (amVersion a)] \<and> avSnapshot (last h) = a
      \<and> (\<forall>v\<in>set h. amNumber (avSnapshot v) = amNumber a \<and> amVersion (avSnapshot v) = avVersion v
           \<and> source_of (avSnapshot v) = source_of a))"

definition agreements_ok :: "agreements_db \<Rightarrow> bool" where
  "agreements_ok db \<longleftrightarrow>
     distinct (map amNumber (abAgreements db)) \<and> distinct (map source_of (abAgreements db))
     \<and> (\<forall>v\<in>set (abVersions db). avNumber v \<in> amNumber ` set (abAgreements db))
     \<and> (\<forall>a\<in>set (abAgreements db). complete_history db a)
     \<and> distinct (version_keys (abVersions db))"

definition records :: "agreements_db \<Rightarrow> agreement_record list \<times> agreement_version list" where
  "records db = (abAgreements db, abVersions db)"

lemma records_of_ledger: "ledger db' = ledger db \<Longrightarrow> records db' = records db"
  by (simp add: ledger_def records_def)

lemma agreements_ok_records: "records db' = records db \<Longrightarrow> agreements_ok db' = agreements_ok db"
  by (simp add: records_def agreements_ok_def complete_history_def history_def Let_def)

lemma opened_records: "records db1 = records db \<Longrightarrow> opened a db1 db' = opened a db db'"
  by (simp add: records_def opened_def find_agreement_by_number_def find_agreement_by_source_identity_def)

lemma committed_records: "records db1 = records db \<Longrightarrow> committed c db1 db' = committed c db db'"
  by (simp add: records_def committed_def Let_def)

lemma opened_ok:
  assumes ok: "agreements_ok db" and o: "opened a db db'" and first: "amVersion a = 1"
  shows "agreements_ok db'"
proof -
  have as: "abAgreements db' = abAgreements db @ [a]"
    and vs: "abVersions db' = abVersions db @ [agreement_version_create a (amCreatedAt a)]"
    and new: "amNumber a \<notin> amNumber ` set (abAgreements db)" "source_of a \<notin> source_of ` set (abAgreements db)"
    using o by (auto simp: opened_def find_agreement_by_number_def find_agreement_by_source_identity_def
        find_None_iff source_of_def)
  have none: "history db (amNumber a) = []"
    using ok new unfolding history_def agreements_ok_def filter_empty_conv by metis
  have other: "history db' n = history db n" if "n \<noteq> amNumber a" for n
    using vs that by (simp add: history_def agreement_version_create_def)
  have own: "history db' (amNumber a) = [agreement_version_create a (amCreatedAt a)]"
    using vs none by (simp add: history_def agreement_version_create_def)
  have "complete_history db' b" if "b \<in> set (abAgreements db)" for b
  proof -
    have "amNumber b \<noteq> amNumber a" using new(1) that by (metis imageI)
    then show ?thesis using ok that other by (simp add: agreements_ok_def complete_history_def)
  qed
  moreover have "complete_history db' a"
    using own first by (simp add: complete_history_def agreement_version_create_def)
  moreover have "version_keys (abVersions db') = version_keys (abVersions db)"
    by (simp add: vs version_keys_def agreement_version_create_def map_filter_def)
  ultimately show ?thesis using ok as vs new
    by (auto simp: agreements_ok_def agreement_version_create_def)
qed

text \<open>
  A commit of what was computed from a version of the Agreement goes through only when that version
  is still the Agreement there is: no update is lost.
\<close>

definition succeeds :: "agreement_record \<Rightarrow> agreement_record \<Rightarrow> bool" where
  "succeeds current after \<longleftrightarrow>
     amNumber after = amNumber current \<and> amVersion after = Suc (amVersion current) \<and> source_of after = source_of current"

lemma history_position:
  assumes "complete_history db a" and "v \<in> set (history db (amNumber a))" and "avVersion v = amVersion a"
  shows "avSnapshot v = a"
proof -
  let ?h = "history db (amNumber a)"
  have vs: "map avVersion ?h = [1..<Suc (amVersion a)]" and ne: "?h \<noteq> []" and l: "avSnapshot (last ?h) = a"
    using assms(1) by (auto simp: complete_history_def Let_def)
  have len: "length ?h = amVersion a" using arg_cong [OF vs, of length] by simp
  obtain i where i: "i < length ?h" "?h ! i = v" using assms(2) by (auto simp: in_set_conv_nth)
  have "map avVersion ?h ! i = [1..<Suc (amVersion a)] ! i" using vs by simp
  then have "avVersion v = Suc i" using i len by (simp only: nth_map nth_upt)
  then have "i = length ?h - 1" using assms(3) len by simp
  then have "v = last ?h" using i ne by (simp add: last_conv_nth)
  then show ?thesis using l by simp
qed

lemma committed_current:
  assumes ok: "agreements_ok db" and c: "committed c db db'" and s: "succeeds (kmCurrent c) (arAgreement (kmNext c))"
    and v: "v \<in> set (abVersions db)" "avSnapshot v = kmCurrent c"
  shows "kmCurrent c \<in> set (abAgreements db)"
proof -
  obtain x where x: "x \<in> set (abAgreements db)" "amNumber x = amNumber (kmCurrent c)" "amVersion x = amVersion (kmCurrent c)"
    using c s unfolding committed_def Let_def is_current_def succeeds_def by metis
  have "avNumber v \<in> amNumber ` set (abAgreements db)" using ok v(1) by (simp add: agreements_ok_def)
  then obtain a where a: "a \<in> set (abAgreements db)" "amNumber a = avNumber v" by auto
  have h: "complete_history db a" "v \<in> set (history db (amNumber a))"
    using ok a v by (simp_all add: agreements_ok_def history_def)
  then have "amNumber (avSnapshot v) = amNumber a \<and> amVersion (avSnapshot v) = avVersion v"
    by (simp add: complete_history_def Let_def)
  then have "amNumber (kmCurrent c) = avNumber v \<and> amVersion (kmCurrent c) = avVersion v" using a v by simp
  then have "v \<in> set (history db (amNumber x))" "avVersion v = amVersion x" using v x by (auto simp: history_def)
  moreover have "complete_history db x" using ok x(1) by (simp add: agreements_ok_def)
  ultimately have "avSnapshot v = x" using history_position by blast
  then show ?thesis using v(2) x(1) by metis
qed

lemma update_one_at:
  assumes "distinct (map g xs)" and "x \<in> set xs" and "p x" and "\<And>y. p y \<Longrightarrow> g y = g x"
  obtains ys zs where "xs = ys @ x # zs" and "update_one p (\<lambda>_. z) xs = ys @ z # zs"
proof -
  obtain ys zs where xs: "xs = ys @ x # zs" using assms(2) by (meson split_list)
  have "\<not> p y" if y: "y \<in> set ys" for y
  proof
    assume "p y"
    then have "g y = g x" by (rule assms(4))
    moreover have "g x \<notin> g ` set ys" using assms(1) xs by simp
    ultimately show False using y by (metis imageI)
  qed
  then have "update_one p (\<lambda>_. z) xs = ys @ z # zs" using assms(3) xs by (simp add: update_one_split)
  then show thesis by (rule that [OF xs])
qed

lemma committed_ok:
  assumes ok: "agreements_ok db" and c: "committed c db db'" and s: "succeeds (kmCurrent c) (arAgreement (kmNext c))"
    and cur: "kmCurrent c \<in> set (abAgreements db)"
  shows "agreements_ok db'"
proof -
  let ?x = "kmCurrent c" and ?z = "arAgreement (kmNext c)"
  have as: "abAgreements db' = update_one (is_current ?x ?z) (\<lambda>_. ?z) (abAgreements db)"
    and vs: "abVersions db' = abVersions db @ [action_version c]"
    and fresh: "\<forall>w\<in>set (abVersions db). \<not> same_idempotency_key (amNumber ?x) (kmKey c) w"
    using c by (auto simp: committed_def Let_def)
  have z: "amNumber ?z = amNumber ?x" "amVersion ?z = Suc (amVersion ?x)" "source_of ?z = source_of ?x"
    using s by (auto simp: succeeds_def)
  have dn: "distinct (map amNumber (abAgreements db))" and ds: "distinct (map source_of (abAgreements db))"
    using ok by (auto simp: agreements_ok_def)
  have p: "is_current ?x ?z ?x" using z by (simp add: is_current_def)
  have only: "is_current ?x ?z y \<Longrightarrow> amNumber y = amNumber ?x" for y using z by (simp add: is_current_def)
  obtain ys zs where xs: "abAgreements db = ys @ ?x # zs" and xs': "abAgreements db' = ys @ ?z # zs"
    using update_one_at [of amNumber "abAgreements db" ?x "is_current ?x ?z" ?z, OF dn cur p only]
    unfolding as by blast
  have numbers: "map amNumber (abAgreements db') = map amNumber (abAgreements db)"
    and sources: "map source_of (abAgreements db') = map source_of (abAgreements db)"
    using xs xs' z by simp_all
  have "?x \<notin> set ys" "?x \<notin> set zs" using dn xs by auto
  then have members: "set (abAgreements db') = insert ?z (set (abAgreements db) - {?x})" using xs xs' by auto
  have old: "complete_history db ?x" using ok cur by (simp add: agreements_ok_def)
  have other: "history db' n = history db n" if "n \<noteq> amNumber ?x" for n
    using vs that by (simp add: history_def action_version_def)
  have own: "history db' (amNumber ?x) = history db (amNumber ?x) @ [action_version c]"
    using vs by (simp add: history_def action_version_def)
  have "complete_history db' b" if "b \<in> set (abAgreements db) - {?x}" for b
  proof -
    have "amNumber b \<noteq> amNumber ?x" using dn that cur by (auto simp: distinct_map inj_on_def)
    then show ?thesis using ok that other by (simp add: agreements_ok_def complete_history_def)
  qed
  moreover have "complete_history db' ?z"
    using old own z by (auto simp: complete_history_def Let_def action_version_def)
  moreover have "distinct (version_keys (abVersions db'))"
  proof -
    have keys: "version_keys (abVersions db') = version_keys (abVersions db) @ [(amNumber ?x, kmKey c)]"
      by (simp add: vs version_keys_def map_filter_def action_version_def)
    have "(amNumber ?x, kmKey c) \<notin> set (version_keys (abVersions db))"
      using fresh by (auto simp: version_keys_def map_filter_def same_idempotency_key_def)
    then show ?thesis using ok keys by (simp add: agreements_ok_def)
  qed
  moreover have "avNumber v \<in> amNumber ` set (abAgreements db')" if "v \<in> set (abVersions db')" for v
  proof -
    have "set (map amNumber (abAgreements db')) = set (map amNumber (abAgreements db))" using numbers by simp
    then have img: "amNumber ` set (abAgreements db') = amNumber ` set (abAgreements db)" by simp
    have "avNumber v \<in> amNumber ` set (abAgreements db)"
      using that vs ok cur by (auto simp: agreements_ok_def action_version_def)
    then show ?thesis using img by simp
  qed
  ultimately show ?thesis using numbers sources members dn ds by (auto simp: agreements_ok_def)
qed

section \<open>The use cases\<close>

lemma created_first:
  assumes "create_agreement_from env gen d input ex = Inr a"
  shows "amVersion a = 1 \<and> amState a = cnTarget (adCreate d) \<and> source_of a = (ciCode input, ciClientRef input) \<and> seeded a"
  using assms
  by (auto simp: create_agreement_from_def bind_res_Inr agreement_create_def source_of_def seeded_def split: if_splits)

lemma load_definition_ledger:
  "load_agreement_definition env opts db = (r, db') \<Longrightarrow> ledger db' = ledger db"
  using load_versions_ledger [of env opts "[]" db] by (simp add: load_agreement_definition_def)

lemma create_cases:
  assumes "agreement_creation_use_case env input db = (r, db')"
  shows "ledger db' = ledger db
      \<or> (\<exists>a. r = Inr (Some a) \<and> opened a db db' \<and> amVersion a = 1
          \<and> source_of a = (ciCode input, ciClientRef input) \<and> seeded a)"
proof -
  obtain r0 db0 where c: "create_new_agreement env input db = (r0, db0)" by (cases "create_new_agreement env input db")
  have d: "db' = db0" and r: "\<And>a. r0 = Inr a \<Longrightarrow> r = Inr (Some a)"
    using assms c by (auto simp: agreement_creation_use_case_def catch_def andThen_def split: if_splits sum.splits)
  have "ledger db0 = ledger db
      \<or> (\<exists>a. r0 = Inr a \<and> opened a db db0 \<and> amVersion a = 1
          \<and> source_of a = (ciCode input, ciClientRef input) \<and> seeded a)"
  proof (cases "find_agreement_by_source_identity (ciCode input) (ciClientRef input) db")
    case (Some a)
    then show ?thesis using c by (auto simp: create_new_agreement_def)
  next
    case None
    let ?opts = "\<lparr>loCode = ciCode input, loConfigVersion = ciCurrentConfigVersion input, loResolution = Creation\<rparr>"
    obtain l db1 where l: "load_agreement_definition env ?opts db = (l, db1)"
      by (cases "load_agreement_definition env ?opts db")
    have led: "ledger db1 = ledger db" using load_definition_ledger [OF l] .
    show ?thesis
    proof (cases l)
      case (Inl e)
      then show ?thesis using c None l led by (auto simp: create_new_agreement_def andThen_def)
    next
      case (Inr d)
      let ?a = "create_agreement_from (agProcess env) (draw_number env 0) d input
          \<lparr>exExecutedAt = agNow env, exCorrelationId = Some (agUuid env)\<rparr>"
      show ?thesis
      proof (cases ?a)
        case (Inl e)
        then show ?thesis using c None l Inr led by (auto simp: create_new_agreement_def andThen_def)
      next
        case made: (Inr a)
        then have "persist_attempts env d max_agreement_number_attempts 1 a db1 = (r0, db0)"
          using c None l Inr by (auto simp: create_new_agreement_def andThen_def persist_with_agreement_number_retry_def)
        then have "(db0 = db1) \<or> (\<exists>b. r0 = Inr b \<and> opened b db1 db0 \<and> amVersion b = amVersion a \<and> source_of b = source_of a \<and> seeded b)"
          using persist_attempts_cases created_first [OF made] by blast
        then show ?thesis
          using led created_first [OF made] opened_records [OF records_of_ledger [OF led]] by auto
      qed
    qed
  qed
  then show ?thesis using d r by auto
qed

lemma executed_succeeds:
  assumes "execute_agreement_action env d a name vals ex = Inr next"
  shows "succeeds a (arAgreement next)"
    and "\<exists>t. find_transition d (amState a) name = Some t \<and> amState (arAgreement next) = atTarget t"
proof -
  obtain action and r :: sequence_result where action: "resolve_agreement_action (lifecycle_of d) (amState a) name = Inr action"
    and e: "Inr \<lparr>arAgreement = agreement_transition a (aaTarget action) (exExecutedAt ex) (srValues r)
            (if aaTarget action = accepted_state then Some (definition_version d) else None),
          arOperations = srOperations r\<rparr> = (Inr next :: action_result res)"
    using assms unfolding execute_agreement_action_def bind_res_Inr by blast
  then have n: "arAgreement next = agreement_transition a (aaTarget action) (exExecutedAt ex) (srValues r)
            (if aaTarget action = accepted_state then Some (definition_version d) else None)" by auto
  show "succeeds a (arAgreement next)" by (simp add: n succeeds_def agreement_transition_def Let_def source_of_def)
  have "find_transition d (amState a) name \<noteq> None \<and> aaTarget action = atTarget (the (find_transition d (amState a) name))"
    using action by (auto simp: resolved_action find_transition_def lifecycle_of_def)
  then show "\<exists>t. find_transition d (amState a) name = Some t \<and> amState (arAgreement next) = atTarget t"
    by (auto simp: n agreement_transition_def Let_def)
qed

lemma failure_records: "records (snd (record_attempt_failure env name a t e key db)) = records db"
proof -
  have "records (snd (record_agreement_action_failure env name a t e key db)) = records db"
    by (auto simp: record_agreement_action_failure_def write_agreement_audit_def records_def catch_def andThen_def
        split: sum.splits prod.splits)
  then show ?thesis by (simp add: record_attempt_failure_def)
qed

lemma action_failure_records: "records (snd (record_agreement_action_failure env name a t e key db)) = records db"
  by (auto simp: record_agreement_action_failure_def write_agreement_audit_def records_def catch_def andThen_def
      split: sum.splits prod.splits)

text \<open>What fails is recorded and thrown; what returns is as it was.\<close>

lemma failing_with_Inr: "failing_with env rq a t m db = (Inr x, db') \<longleftrightarrow> m db = (Inr x, db')"
  by (auto simp: failing_with_def catch_def andThen_def split: prod.splits sum.splits)

lemma failing_with_Inl:
  assumes "failing_with env rq a t m db = (Inl e, db')"
  shows "\<exists>db1. m db = (Inl e, db1) \<and> records db' = records db1"
proof -
  obtain r db1 where m: "m db = (r, db1)" by (cases "m db")
  show ?thesis
  proof (cases r)
    case (Inr x)
    then show ?thesis using assms m by (simp add: failing_with_def catch_def)
  next
    case (Inl e1)
    obtain r2 db2 where f: "record_attempt_failure env (rxActionName rq) a t e1 (rxKey rq) db1 = (r2, db2)"
      by (cases "record_attempt_failure env (rxActionName rq) a t e1 (rxKey rq) db1")
    have "\<exists>u. r2 = Inr u"
      using f by (auto simp: record_attempt_failure_def record_agreement_action_failure_def write_agreement_audit_def
          catch_def andThen_def split: sum.splits prod.splits if_splits)
    then have "e = e1 \<and> db' = db2" using assms m Inl f by (auto simp: failing_with_def catch_def andThen_def)
    then show ?thesis using m Inl f failure_records [of env "rxActionName rq" a t e1 "rxKey rq" db1] by auto
  qed
qed

lemma load_action_context_ledger: "keeps (\<lambda>db. ledger db = K) (load_action_context env a name ifMatch)"
  unfolding load_action_context_def by (intro keeps_andThen load_context_ledger) auto

lemma failing_with_records:
  assumes "failing_with env rq a t m db = (r, db')" and "records (snd (m db)) = records db"
  shows "records db' = records db"
proof (cases r)
  case (Inl e)
  then show ?thesis using assms failing_with_Inl by fastforce
next
  case (Inr x)
  then show ?thesis using assms by (simp add: failing_with_Inr)
qed

lemma refuse_records: "records (snd (refuse_submission env rq ctx action page errors db)) = records db"
proof -
  let ?m = "build_agreement_page_model env (gxDefinition ctx) (gxAgreement ctx) page ''view''"
  let ?f = "record_agreement_action_failure env (rxActionName rq) (gxAgreement ctx) (AttemptedState (aaTarget action))
        (Boom BadRequest ''Agreement action validation failed'' []) (rxKey rq) db"
  obtain r1 db1 where f: "?f = (r1, db1)" by (cases ?f)
  have "records db1 = records db" using action_failure_records [of env "rxActionName rq" "gxAgreement ctx"] f by (metis snd_conv)
  then show ?thesis using f by (cases ?m; cases r1) (simp_all add: refuse_submission_def Let_def andThen_def)
qed

lemma find_completed_records: "records db1 = records db \<Longrightarrow> find_completed n name key db1 = find_completed n name key db"
  by (simp add: records_def find_completed_def find_version_by_idempotency_key_def)

lemma attempt_cases:
  assumes "execute_agreement_action_attempt env rq a db = (r, db')"
  shows "(records db' = records db
          \<and> (r = Inr ActionDone \<longrightarrow> find_completed (amNumber a) (rxActionName rq) (rxKey rq) db = Inr True))
      \<or> (r = Inr ActionDone \<and> (\<exists>d db1 next ex. load_definition_for_agreement env a db = (Inr d, db1)
          \<and> execute_agreement_action (agProcess env) d a (rxActionName rq) (rxValues rq) ex = Inr next
          \<and> committed \<lparr>kmActionName = rxActionName rq, kmCurrent = a, kmKey = rxKey rq, kmNext = next\<rparr> db db'))"
proof -
  let ?load = "failing_with env rq a NotAttempted (load_action_context env a (rxActionName rq) (rxIfMatch rq))"
  obtain r1 db1 where l: "?load db = (r1, db1)" by (cases "?load db")
  have rec1: "records db1 = records db"
    by (rule failing_with_records [OF l]) (rule records_of_ledger, rule keepsD [OF load_action_context_ledger refl])
  show ?thesis
  proof (cases r1)
    case (Inl e)
    then show ?thesis using assms l rec1 by (auto simp: execute_agreement_action_attempt_def)
  next
    case (Inr p)
    obtain action ctx where p: "p = (action, ctx)" by (cases p)
    let ?t = "AttemptedState (aaTarget action)"
    have l': "?load db = (Inr (action, ctx), db1)" using l Inr p by simp
    obtain t where ld: "load_definition_for_agreement env a db = (Inr (gxDefinition ctx), t)"
      using l' by (auto simp: failing_with_Inr load_action_context_def load_context_of_def andThen_Inr)
    note run = assms [unfolded execute_agreement_action_attempt_def
        andThen_simps(2) [of ?load db "(action, ctx)" db1, OF l'] prod.case Let_def]
    show ?thesis
    proof (cases "rxIfMatch rq = Some (gxEtag ctx)")
      case False
      then have f: "failing_with env rq a ?t (throw (stale_error (Some (gxEtag ctx)))) db1 = (r, db')" using run by simp
      have "records db' = records db1" by (rule failing_with_records [OF f]) simp
      moreover have "r \<noteq> Inr ActionDone" using f by (auto simp: failing_with_Inr)
      ultimately show ?thesis using rec1 by simp
    next
      case match: True
      show ?thesis
      proof (cases "validate_action action (rxValues rq)")
        case (InvalidAction page errors)
        then have f: "failing_with env rq a ?t (refuse_submission env rq ctx action page errors) db1 = (r, db')"
          using run match by simp
        have "records db' = records db1" by (rule failing_with_records [OF f refuse_records])
        moreover have "r \<noteq> Inr ActionDone"
          using f by (auto simp: failing_with_Inr refuse_submission_def Let_def andThen_Inr)
        ultimately show ?thesis using rec1 by simp
      next
        case ValidAction
        let ?ex = "\<lparr>exExecutedAt = agNow env, exCorrelationId = Some (amCorrelationId a)\<rparr>"
        let ?run = "execute_agreement_action (agProcess env) (gxDefinition ctx) a (rxActionName rq) (rxValues rq) ?ex"
        obtain r2 db2 where e: "failing_with env rq a ?t (lift_res ?run) db1 = (r2, db2)"
          by (cases "failing_with env rq a ?t (lift_res ?run) db1")
        have rec2: "records db2 = records db1" by (rule failing_with_records [OF e]) simp
        show ?thesis
        proof (cases r2)
          case (Inl err)
          then show ?thesis using run match ValidAction e rec1 rec2 by auto
        next
          case ran: (Inr nx)
          have nx: "?run = Inr nx" "db2 = db1" using e ran by (auto simp: failing_with_Inr)
          let ?c = "\<lparr>kmActionName = rxActionName rq, kmCurrent = a, kmKey = rxKey rq, kmNext = nx\<rparr>"
          have f: "failing_with env rq a (AttemptedAgreement (arAgreement nx))
              (andThen (commit_agreement_action env ?c) (\<lambda>_. ret ActionDone)) db1 = (r, db')"
            using run match ValidAction e ran nx by simp
          obtain r3 db3 where cm: "commit_agreement_action env ?c db1 = (r3, db3)"
            by (cases "commit_agreement_action env ?c db1")
          note cases = commit_cases [OF cm]
          show ?thesis
          proof (cases r3)
            case (Inr u)
            then have rd: "r = Inr ActionDone" "db' = db3"
              using f cm by (auto simp: failing_with_def catch_def andThen_def)
            have "(ledger db3 = ledger db1 \<and> find_completed (amNumber a) (rxActionName rq) (rxKey rq) db1 = Inr True)
                \<or> committed ?c db1 db3" using cases Inr by auto
            then show ?thesis
            proof (elim disjE conjE)
              assume "ledger db3 = ledger db1" "find_completed (amNumber a) (rxActionName rq) (rxKey rq) db1 = Inr True"
              then show ?thesis using rd rec1 records_of_ledger find_completed_records [OF rec1] by metis
            next
              assume "committed ?c db1 db3"
              then have "committed ?c db db'" using rd committed_records [OF rec1] by simp
              then show ?thesis using rd nx(1) ld by blast
            qed
          next
            case (Inl err)
            then have led: "ledger db3 = ledger db1" using cases by auto
            have "records db' = records db1"
              by (rule failing_with_records [OF f]) (simp add: cm Inl andThen_def records_of_ledger [OF led])
            moreover have "r \<noteq> Inr ActionDone" using f cm Inl by (auto simp: failing_with_Inr andThen_def)
            ultimately show ?thesis using rec1 by simp
          qed
        qed
      qed
    qed
  qed
qed

lemma loaded_by_number:
  assumes "load_agreement_for_action n access db = Inr a"
  shows "find_agreement_by_number n db = Some a" and "amNumber a = n" and "a \<in> set (abAgreements db)"
proof -
  show f: "find_agreement_by_number n db = Some a"
    using assms by (auto simp: load_agreement_for_action_def load_current_agreement_by_number_def require_agreement_def
        assert_action_access_def bind_res_Inr split: option.splits if_splits)
  show "amNumber a = n" "a \<in> set (abAgreements db)"
    using f by (auto simp: find_agreement_by_number_def find_Some_iff)
qed

lemma execute_cases:
  assumes "execute_agreement_action_use_case env rq db = (r, db')"
  shows "(records db' = records db
          \<and> (r = Inr ActionDone \<longrightarrow> find_completed (rxNumber rq) (rxActionName rq) (rxKey rq) db = Inr True))
      \<or> (r = Inr ActionDone \<and> (\<exists>a d db1 next ex. load_agreement_for_action (rxNumber rq) (rxAccess rq) db = Inr a
          \<and> load_definition_for_agreement env a db = (Inr d, db1)
          \<and> execute_agreement_action (agProcess env) d a (rxActionName rq) (rxValues rq) ex = Inr next
          \<and> committed \<lparr>kmActionName = rxActionName rq, kmCurrent = a, kmKey = rxKey rq, kmNext = next\<rparr> db db'))"
proof (cases "load_agreement_for_action (rxNumber rq) (rxAccess rq) db")
  case (Inl e)
  then show ?thesis using assms by (auto simp: execute_agreement_action_use_case_def andThen_def)
next
  case (Inr a)
  show ?thesis
  proof (cases "find_completed (rxNumber rq) (rxActionName rq) (rxKey rq) db = Inr False")
    case False
    then show ?thesis using assms Inr
      by (cases "find_completed (rxNumber rq) (rxActionName rq) (rxKey rq) db")
        (auto simp: execute_agreement_action_use_case_def andThen_def)
  next
    case True
    then have "execute_agreement_action_attempt env rq a db = (r, db')"
      using assms Inr by (simp add: execute_agreement_action_use_case_def andThen_def)
    then show ?thesis using attempt_cases Inr loaded_by_number(2) [OF Inr] by metis
  qed
qed

lemma failing_status_Inr:
  assumes "failing_status env cmd a name m db = (r, db')"
  shows "m db = (r, db') \<or> (r \<noteq> Inr StatusMoved \<and> (\<exists>e db1. m db = (Inl e, db1) \<and> records db' = records db1))"
proof -
  obtain r1 db1 where m: "m db = (r1, db1)" by (cases "m db")
  show ?thesis
  proof (cases r1)
    case (Inr x)
    then show ?thesis using assms m by (simp add: failing_status_def catch_def)
  next
    case (Inl e)
    obtain r2 db2 where f: "record_attempt_failure env name a (AttemptedState (sxStatus cmd)) e (sxId cmd) db1 = (r2, db2)"
      by (cases "record_attempt_failure env name a (AttemptedState (sxStatus cmd)) e (sxId cmd) db1")
    have "records db2 = records db1"
      using failure_records [of env name a "AttemptedState (sxStatus cmd)" e "sxId cmd" db1] f by simp
    then show ?thesis using assms m Inl f
      by (cases r2) (auto simp: failing_status_def catch_def andThen_def split: if_splits)
  qed
qed

lemma status_transition_cases:
  assumes "execute_status_transition env cmd ctx db = (r, db')"
  shows "records db' = records db \<or> (r = Inr StatusMoved \<and> (\<exists>d name next ex key.
          execute_agreement_action (agProcess env) d (gxAgreement ctx) name [] ex = Inr next
          \<and> committed \<lparr>kmActionName = name, kmCurrent = gxAgreement ctx, kmKey = key, kmNext = next\<rparr> db db'))"
proof -
  let ?a = "gxAgreement ctx" and ?d = "gxDefinition ctx"
  show ?thesis
  proof (cases "resolve_action_for_target (lifecycle_of ?d) (amState ?a) (sxStatus cmd)")
    case (Inl e)
    then have "failing_status env cmd ?a (sxStatus cmd) (throw e) db = (r, db')"
      using assms by (simp add: execute_status_transition_def Let_def)
    then show ?thesis using failing_status_Inr by fastforce
  next
    case (Inr action)
    let ?ex = "\<lparr>exExecutedAt = agNow env, exCorrelationId = Some (amCorrelationId ?a)\<rparr>"
    let ?run = "execute_agreement_action (agProcess env) ?d ?a (aaName action) [] ?ex"
    let ?m = "andThen (lift_res ?run) (\<lambda>next. andThen (commit_agreement_action env \<lparr>kmActionName = aaName action,
        kmCurrent = ?a, kmKey = sxId cmd, kmNext = next\<rparr>) (\<lambda>_. ret StatusMoved))"
    have f: "failing_status env cmd ?a (aaName action) ?m db = (r, db')"
      using assms Inr by (simp add: execute_status_transition_def Let_def)
    show ?thesis
    proof (cases ?run)
      case (Inl e)
      then show ?thesis using failing_status_Inr [OF f] by auto
    next
      case ran: (Inr nx)
      let ?c = "\<lparr>kmActionName = aaName action, kmCurrent = ?a, kmKey = sxId cmd, kmNext = nx\<rparr>"
      obtain r3 db3 where cm: "commit_agreement_action env ?c db = (r3, db3)" by (cases "commit_agreement_action env ?c db")
      have m: "?m db = (case r3 of Inl e \<Rightarrow> Inl e | Inr u \<Rightarrow> Inr StatusMoved, db3)"
        by (cases r3) (simp_all add: ran cm andThen_def)
      have "records db' = records db3" using failing_status_Inr [OF f] m by auto
      moreover have "records db3 = records db \<or> (r3 = Inr () \<and> committed ?c db db3)"
        using commit_cases [OF cm] records_of_ledger by blast
      moreover have "r3 = Inr () \<Longrightarrow> r = Inr StatusMoved \<and> db' = db3" using failing_status_Inr [OF f] m by auto
      ultimately show ?thesis using ran by metis
    qed
  qed
qed

lemma status_cases:
  assumes "handle_update_agreement_status env cmd db = (r, db')"
  shows "records db' = records db \<or> (r = Inr StatusMoved \<and> (\<exists>a d name next ex key.
          find_agreement_by_number (sxNumber cmd) db = Some a
          \<and> execute_agreement_action (agProcess env) d a name [] ex = Inr next
          \<and> committed \<lparr>kmActionName = name, kmCurrent = a, kmKey = key, kmNext = next\<rparr> db db'))"
proof (cases "find_version_by_idempotency_key (sxNumber cmd) (sxId cmd) db")
  case (Some v)
  then show ?thesis using assms by (auto simp: handle_update_agreement_status_def)
next
  case None
  show ?thesis
  proof (cases "find_agreement_by_number (sxNumber cmd) db")
    case missing: None
    then show ?thesis using assms None
      by (auto simp: handle_update_agreement_status_def load_current_agreement_by_number_def require_agreement_def andThen_def)
  next
    case (Some a)
    obtain r1 db1 where l: "load_context_of env a db = (r1, db1)" by (cases "load_context_of env a db")
    have led: "ledger db1 = ledger db" using keepsD [OF load_context_ledger refl, of env a db] l by simp
    have run: "(case r1 of Inl e \<Rightarrow> (Inl e, db1) | Inr ctx \<Rightarrow> execute_status_transition env cmd ctx db1) = (r, db')"
      using assms None Some l
      by (simp add: handle_update_agreement_status_def load_current_agreement_by_number_def require_agreement_def
          andThen_def split: sum.splits)
    show ?thesis
    proof (cases r1)
      case (Inl e)
      then show ?thesis using run records_of_ledger [OF led] by auto
    next
      case (Inr ctx)
      have "gxAgreement ctx = a" using l Inr by (auto simp: load_context_of_def andThen_Inr)
      then show ?thesis using run Inr status_transition_cases [of env cmd ctx db1 r db']
          records_of_ledger [OF led] committed_records [OF records_of_ledger [OF led]] Some by fastforce
    qed
  qed
qed

section \<open>Runs\<close>

text \<open>
  The use cases run one after another, and an attempt that another one overtook commits what it
  computed from any version of the Agreement there has been. Others write the catalogue.
\<close>

inductive agreement_step :: "agreements_db \<Rightarrow> agreements_db \<Rightarrow> bool" where
  Created: "agreement_creation_use_case env input db = (r, db') \<Longrightarrow> agreement_step db db'"
| Executed: "execute_agreement_action_use_case env rq db = (r, db') \<Longrightarrow> agreement_step db db'"
| StatusHandled: "handle_update_agreement_status env cmd db = (r, db') \<Longrightarrow> agreement_step db db'"
| Overtaken: "v \<in> set (abVersions db) \<Longrightarrow>
    execute_agreement_action penv d (avSnapshot v) name vals ex = Inr next \<Longrightarrow>
    commit_agreement_action env \<lparr>kmActionName = name, kmCurrent = avSnapshot v, kmKey = key, kmNext = next\<rparr> db = (r, db')
    \<Longrightarrow> agreement_step db db'"
| Configured: "agreement_step db (db\<lparr>abCatalog := rows, abDefinitions := ds, abCompiled := cache\<rparr>)"

inductive agreements_reachable :: "agreements_db \<Rightarrow> bool" where
  Start: "abAgreements db = [] \<Longrightarrow> abVersions db = [] \<Longrightarrow> agreements_reachable db"
| Step: "agreements_reachable db \<Longrightarrow> agreement_step db db' \<Longrightarrow> agreements_reachable db'"

lemma commit_keeps_ok:
  assumes "agreements_ok db" and "committed \<lparr>kmActionName = name, kmCurrent = a, kmKey = key, kmNext = next\<rparr> db db'"
    and "execute_agreement_action penv d a name vals ex = Inr next" and "a \<in> set (abAgreements db)"
  shows "agreements_ok db'"
  using committed_ok [OF assms(1,2)] executed_succeeds(1) [OF assms(3)] assms(4) by simp

lemma step_keeps_ok: "agreement_step db db' \<Longrightarrow> agreements_ok db \<Longrightarrow> agreements_ok db'"
proof (induction rule: agreement_step.induct)
  case (Created env input db r db')
  then show ?case using create_cases [OF Created(1)] opened_ok agreements_ok_records records_of_ledger by blast
next
  case (Executed env rq db r db')
  then show ?case using execute_cases [OF Executed(1)] agreements_ok_records commit_keeps_ok loaded_by_number(3) by meson
next
  case (StatusHandled env cmd db r db')
  have "a \<in> set (abAgreements db)" if "find_agreement_by_number n db = Some a" for n a
    using that by (auto simp: find_agreement_by_number_def find_Some_iff)
  then show ?case using status_cases [OF StatusHandled(1)] StatusHandled(2) agreements_ok_records commit_keeps_ok by meson
next
  case (Overtaken v db penv d name vals ex "next" env key r db')
  let ?c = "\<lparr>kmActionName = name, kmCurrent = avSnapshot v, kmKey = key, kmNext = next\<rparr>"
  show ?case
  proof (cases "committed ?c db db'")
    case True
    have "succeeds (kmCurrent ?c) (arAgreement (kmNext ?c))" using executed_succeeds(1) [OF Overtaken(2)] by simp
    then have "kmCurrent ?c \<in> set (abAgreements db)"
      by (rule committed_current [OF Overtaken(4) True _ Overtaken(1)]) simp
    then show ?thesis using commit_keeps_ok [OF Overtaken(4) True Overtaken(2)] by simp
  next
    case False
    then have "ledger db' = ledger db" using commit_cases [OF Overtaken(3)] by auto
    then show ?thesis using Overtaken(4) agreements_ok_records records_of_ledger by blast
  qed
next
  case (Configured db rows ds cache)
  then show ?case by (simp add: agreements_ok_def complete_history_def history_def)
qed

lemma reachable_agreements_ok: "agreements_reachable db \<Longrightarrow> agreements_ok db"
proof (induction rule: agreements_reachable.induct)
  case (Start db)
  then show ?case by (simp add: agreements_ok_def version_keys_def map_filter_def)
next
  case (Step db db')
  then show ?case using step_keeps_ok by blast
qed

section \<open>The abstract log\<close>

text \<open>
  What a reader of an Agreement's history sees: its states in order, each with the action that led to
  it. The configured lifecycle says how a log may grow.
\<close>

type_synonym agreement_log = "string \<Rightarrow> (string \<times> string option) list"

definition log_of :: "agreements_db \<Rightarrow> agreement_log" where
  "log_of db n = map (\<lambda>v. (amState (avSnapshot v), map_option axName (avExecution v))) (history db n)"

definition lifecycle_move :: "agreement_definition \<Rightarrow> string \<Rightarrow> string \<Rightarrow> agreement_log \<Rightarrow> agreement_log option" where
  "lifecycle_move d n name h =
     (if h n = [] then None
      else map_option (\<lambda>t. h(n := h n @ [(atTarget t, Some name)])) (find_transition d (fst (last (h n))) name))"

lemma log_of_records: "records db' = records db \<Longrightarrow> log_of db' = log_of db"
  by (auto simp: records_def log_of_def history_def)

lemma log_last:
  assumes "agreements_ok db" and "a \<in> set (abAgreements db)"
  shows "log_of db (amNumber a) \<noteq> [] \<and> fst (last (log_of db (amNumber a))) = amState a"
  using assms by (auto simp: agreements_ok_def complete_history_def Let_def log_of_def last_map)

lemma committed_log:
  assumes "committed \<lparr>kmActionName = name, kmCurrent = a, kmKey = key, kmNext = next\<rparr> db db'"
  shows "log_of db' = (log_of db)(amNumber a := log_of db (amNumber a) @ [(amState (arAgreement next), Some name)])"
  using assms by (auto simp: committed_def Let_def log_of_def history_def action_version_def)

lemma commit_refines:
  assumes "agreements_ok db" and "a \<in> set (abAgreements db)"
    and "execute_agreement_action penv d a name vals ex = Inr next"
    and "committed \<lparr>kmActionName = name, kmCurrent = a, kmKey = key, kmNext = next\<rparr> db db'"
  shows "lifecycle_move d (amNumber a) name (log_of db) = Some (log_of db')"
  using log_last [OF assms(1,2)] executed_succeeds(2) [OF assms(3)] committed_log [OF assms(4)]
  by (auto simp: lifecycle_move_def)

section \<open>Actions completed\<close>

lemma version_keys_Cons:
  "version_keys (v # vs) = (case avExecution v of None \<Rightarrow> [] | Some x \<Rightarrow> [(avNumber v, axIdempotencyKey x)]) @ version_keys vs"
  by (simp add: version_keys_def map_filter_def split: option.splits)

lemma version_key_in: "v \<in> set vs \<Longrightarrow> same_idempotency_key n k v \<Longrightarrow> (n, k) \<in> set (version_keys vs)"
  by (induction vs) (auto simp: version_keys_Cons same_idempotency_key_def split: option.splits)

lemma version_key_unique:
  "distinct (version_keys vs) \<Longrightarrow> v \<in> set vs \<Longrightarrow> w \<in> set vs \<Longrightarrow> same_idempotency_key n k v \<Longrightarrow>
     same_idempotency_key n k w \<Longrightarrow> v = w"
proof (induction vs)
  case (Cons u vs)
  have not_both: False if "same_idempotency_key n k u" "x \<in> set vs" "same_idempotency_key n k x" for x
    using Cons.prems(1) version_key_in [OF that(2,3)] that(1)
    by (auto simp: version_keys_Cons same_idempotency_key_def split: option.splits)
  have "distinct (version_keys vs)" using Cons.prems(1) by (simp add: version_keys_Cons)
  then show ?case using Cons not_both by auto
qed simp

definition done_under :: "string \<Rightarrow> string \<Rightarrow> string \<Rightarrow> agreement_version \<Rightarrow> bool" where
  "done_under n name k v \<longleftrightarrow> avNumber v = n \<and> avExecution v = Some \<lparr>axName = name, axIdempotencyKey = k\<rparr>"

lemma done_under_key: "done_under n name k v \<Longrightarrow> same_idempotency_key n k v"
  by (simp add: done_under_def same_idempotency_key_def)

lemma completed_iff:
  assumes "distinct (version_keys (abVersions db))"
  shows "find_completed n name k db = Inr True \<longleftrightarrow> (\<exists>v\<in>set (abVersions db). done_under n name k v)"
proof (cases "find (same_idempotency_key n k) (abVersions db)")
  case None
  then have "\<not> done_under n name k v" if "v \<in> set (abVersions db)" for v
    using that done_under_key by (auto simp: find_None_iff)
  then show ?thesis using None by (simp add: find_completed_def find_version_by_idempotency_key_def)
next
  case (Some w)
  then have w: "w \<in> set (abVersions db)" "same_idempotency_key n k w" by (auto simp: find_Some_iff)
  then obtain x where x: "avExecution w = Some x" "axIdempotencyKey x = k" "avNumber w = n"
    by (auto simp: same_idempotency_key_def split: option.splits)
  have "find_completed n name k db = Inr True \<longleftrightarrow> axName x = name"
    using Some x by (simp add: find_completed_def find_version_by_idempotency_key_def)
  moreover have "axName x = name \<longleftrightarrow> done_under n name k w" using x by (cases x) (auto simp: done_under_def)
  moreover have "done_under n name k v \<Longrightarrow> v \<in> set (abVersions db) \<Longrightarrow> v = w" for v
    using version_key_unique [OF assms] w done_under_key by metis
  ultimately show ?thesis using w by metis
qed

lemma records_versions: "records db' = records db \<Longrightarrow> set (abVersions db) \<subseteq> set (abVersions db')"
  by (simp add: records_def)

lemma committed_versions: "committed c db db' \<Longrightarrow> set (abVersions db) \<subseteq> set (abVersions db')"
  by (auto simp: committed_def Let_def)

lemma opened_versions: "opened a db db' \<Longrightarrow> set (abVersions db) \<subseteq> set (abVersions db')"
  by (auto simp: opened_def)

lemma step_keeps_versions: "agreement_step db db' \<Longrightarrow> set (abVersions db) \<subseteq> set (abVersions db')"
proof (induction rule: agreement_step.induct)
  case (Created env input db r db')
  from create_cases [OF Created(1)] show ?case
    using records_versions [OF records_of_ledger] opened_versions by blast
next
  case (Executed env rq db r db')
  from execute_cases [OF Executed(1)] show ?case using records_versions committed_versions by blast
next
  case (StatusHandled env cmd db r db')
  from status_cases [OF StatusHandled(1)] show ?case using records_versions committed_versions by blast
next
  case (Overtaken v db penv d name vals ex "next" env key r db')
  from commit_cases [OF Overtaken(3)] show ?case
    using records_versions [OF records_of_ledger] committed_versions by blast
qed simp

lemma run_keeps:
  assumes "rtranclp agreement_step db db'" and "agreements_reachable db"
  shows "agreements_reachable db' \<and> set (abVersions db) \<subseteq> set (abVersions db')"
  using assms
proof (induction rule: rtranclp_induct)
  case (step y z)
  then show ?case using Step [OF _ step(2)] step_keeps_versions [OF step(2)] by blast
qed simp

lemma action_done_recorded:
  assumes "agreements_ok db" and "execute_agreement_action_use_case env rq db = (Inr ActionDone, db')"
  shows "\<exists>v\<in>set (abVersions db'). done_under (rxNumber rq) (rxActionName rq) (rxKey rq) v"
  using execute_cases [OF assms(2)]
proof (elim disjE conjE exE)
  assume r: "records db' = records db"
    and f: "Inr ActionDone = Inr ActionDone \<longrightarrow> find_completed (rxNumber rq) (rxActionName rq) (rxKey rq) db = Inr True"
  have "distinct (version_keys (abVersions db))" using assms(1) by (simp add: agreements_ok_def)
  then have "\<exists>v\<in>set (abVersions db). done_under (rxNumber rq) (rxActionName rq) (rxKey rq) v" using f completed_iff by simp
  then show ?thesis using records_versions [OF r] by blast
next
  fix a d db1 "next" ex
  assume l: "load_agreement_for_action (rxNumber rq) (rxAccess rq) db = Inr a"
    and "committed \<lparr>kmActionName = rxActionName rq, kmCurrent = a, kmKey = rxKey rq, kmNext = next\<rparr> db db'"
  then show ?thesis using loaded_by_number(2) [OF l] by (auto simp: committed_def Let_def action_version_def done_under_def)
qed

end
