(* ===== verification/Digits.thy ===== *)
theory Digits
  imports ConfigCatalog
begin

text \<open>
  Natural numbers in decimal text: what is shown is digits, is read back as the number, and has no
  leading zero unless it is zero.
\<close>

lemma digit_value: "n < 10 \<Longrightarrow> (of_char (char_of (48 + n) :: char) :: nat) = 48 + n"
  by simp

lemma show_nat_digits: "show_nat n \<noteq> [] \<and> list_all is_digit (show_nat n)"
proof (induction n rule: show_nat.induct)
  case (1 n)
  show ?case
  proof (cases "n < 10")
    case True
    then show ?thesis by (simp add: is_digit_def show_nat.simps [of n])
  next
    case False
    have "n mod 10 < 10" by simp
    then show ?thesis using 1 False by (simp add: is_digit_def show_nat.simps [of n])
  qed
qed

lemma parse_show_nat: "parse_int (show_nat n) = n"
proof (induction n rule: show_nat.induct)
  case (1 n)
  show ?case
  proof (cases "n < 10")
    case True
    then show ?thesis by (subst show_nat.simps) (simp add: parse_int_def)
  next
    case False
    have m: "n mod 10 < 10" by simp
    have "parse_int (show_nat n) = 10 * parse_int (show_nat (n div 10)) + n mod 10"
      using False m by (subst show_nat.simps) (simp add: parse_int_def)
    also have "\<dots> = 10 * (n div 10) + n mod 10" using 1 False by simp
    finally show ?thesis by simp
  qed
qed

lemma show_nat_leading: "0 < n \<Longrightarrow> hd (show_nat n) \<noteq> CHR ''0''"
proof (induction n rule: show_nat.induct)
  case (1 n)
  show ?case
  proof (cases "n < 10")
    case True
    have "(of_char (CHR ''0'') :: nat) = 48" by simp
    moreover have "(of_char (char_of (48 + n) :: char) :: nat) = 48 + n" using True by simp
    ultimately have "char_of (48 + n) \<noteq> CHR ''0''" using 1(2) by (metis add_cancel_right_right less_irrefl)
    then show ?thesis using True by (subst show_nat.simps) simp
  next
    case False
    then have "0 < n div 10" by simp
    then have "hd (show_nat (n div 10)) \<noteq> CHR ''0''" using 1(1) False by simp
    then show ?thesis using False show_nat_digits [of "n div 10"] by (subst show_nat.simps) simp
  qed
qed

lemma parse_leading_zeros: "parse_int (replicate k (CHR ''0'') @ s) = parse_int s"
  by (induction k) (simp_all add: parse_int_def)

end
