(* ===== verification/AgreementIdentities.thy ===== *)
theory AgreementIdentities
  imports AgreementLaws Digits
begin

text \<open>
  The identities of actions, items and instalments over the life of an Agreement: the values of a
  transition keep identities there are or take ordinals never given before, so an identity that was
  dropped does not come back.
\<close>

section \<open>Ordinals in text\<close>

lemma starts_with_append [simp]: "starts_with (p @ s) p"
  by (simp add: starts_with_def)

lemma identity_ordinal_of: "0 < n \<Longrightarrow> identity_ordinal (Some (identity_of ns n)) ns = n"
proof -
  assume "0 < n"
  have split: "identity_of ns n = (ns @ '':'') @ show_nat n" by (simp add: identity_of_def)
  have "drop (length ns + 1) (identity_of ns n) = show_nat n" by (simp add: split)
  moreover have "starts_with (identity_of ns n) (ns @ '':'')" unfolding split by (rule starts_with_append)
  ultimately show ?thesis using show_nat_digits [of n] show_nat_leading \<open>0 < n\<close> parse_show_nat
    by (simp add: identity_ordinal_def identity_shaped_def ordinal_text_def all_digits_def)
qed

section \<open>Kinds of identity\<close>

datatype identity_kind = ActionIds | ItemIds | InstalmentIds

fun ids_of :: "identity_kind \<Rightarrow> agreement_values \<Rightarrow> string option list" where
  "ids_of ActionIds v = map fuId (vaActions v)"
| "ids_of ItemIds v = map fuId (vaItems v)"
| "ids_of InstalmentIds v = map ntId (schedule_instalments v)"

fun kind_name :: "identity_kind \<Rightarrow> string" where
  "kind_name ActionIds = ''action''"
| "kind_name ItemIds = ''item''"
| "kind_name InstalmentIds = ''instalment''"

fun last_ordinal :: "identity_kind \<Rightarrow> identity_sequence \<Rightarrow> nat" where
  "last_ordinal ActionIds q = isAction q"
| "last_ordinal ItemIds q = isItem q"
| "last_ordinal InstalmentIds q = isInstalment q"

lemma foldl_max: "foldl max (m :: nat) xs = Max (insert m (set xs))"
proof (induction xs arbitrary: m)
  case (Cons x xs)
  have "insert (max m x) (set xs) \<noteq> {}" by simp
  have "Max (insert (max m x) (set xs)) = Max (insert m (insert x (set xs)))"
    by (cases "set xs = {}") (simp_all add: max.assoc)
  then show ?case using Cons by simp
qed simp

lemma current_ordinal_ge: "i \<in> set ids \<Longrightarrow> identity_ordinal i ns \<le> current_ordinal ids ns"
  by (simp add: current_ordinal_def foldl_max)

lemma resolved_ordinal:
  "last_ordinal k (resolve_agreement_identity_sequence v r) =
     max (last_ordinal k (recorded_sequence r)) (current_ordinal (ids_of k v) (kind_name k))"
  by (cases k) (simp_all add: resolve_agreement_identity_sequence_def Let_def)

definition settled :: "agreement_record \<Rightarrow> bool" where
  "settled a \<longleftrightarrow> (\<forall>k. \<forall>i\<in>set (ids_of k (amValues a)). identity_ordinal i (kind_name k) \<le> last_ordinal k (amSequence a))"

lemma settled_seeded: "seeded a \<Longrightarrow> settled a"
  unfolding settled_def seeded_def by (metis resolved_ordinal current_ordinal_ge max.coboundedI2)

section \<open>What materialising gives\<close>

definition taken_or_fresh :: "allocation \<Rightarrow> nat \<Rightarrow> string \<Rightarrow> bool" where
  "taken_or_fresh al next i \<longleftrightarrow>
     (case alExisting al of None \<Rightarrow> False | Some ids \<Rightarrow> Some i \<in> set ids)
     \<or> (\<exists>m\<ge>next. i = identity_of (alNamespace al) m)"

lemma resolved_identity:
  assumes "resolve_identity al c next = Inr (i, next1)"
  shows "taken_or_fresh al next i \<and> next \<le> next1"
  using assms
  by (auto simp: resolve_identity_def resolve_transition_identity_def allocate_identity_def require_existing_identity_def
      taken_or_fresh_def bind_res_Inr split: option.splits if_splits)

lemma taken_or_fresh_mono: "taken_or_fresh al n i \<Longrightarrow> m \<le> n \<Longrightarrow> taken_or_fresh al m i"
  unfolding taken_or_fresh_def by (metis le_trans)

lemma materialised_entries:
  "materialise_entries w al next refs es = Inr (out, refs') \<Longrightarrow>
     \<forall>e\<in>set out. \<exists>i. fuId e = Some i \<and> taken_or_fresh al next i"
proof (induction es arbitrary: "next" refs out refs')
  case (Cons e es)
  then obtain i next1 refs1 out1 where i: "resolve_identity al (fuId e) next = Inr (i, next1)"
    and rest: "materialise_entries w al next1 refs1 es = Inr (out1, refs')"
    and out: "out = e\<lparr>fuId := Some i, fuRef := None\<rparr> # out1"
    by (auto simp: bind_res_Inr)
  have "\<forall>e\<in>set out1. \<exists>i. fuId e = Some i \<and> taken_or_fresh al next i"
    using Cons.IH [OF rest] resolved_identity [OF i] taken_or_fresh_mono by metis
  then show ?case using resolved_identity [OF i] out by simp
qed simp

lemma materialised_instalments:
  "materialise_instalments al f next xs = Inr out \<Longrightarrow> \<forall>x\<in>set out. \<exists>i. ntId x = Some i \<and> taken_or_fresh al next i"
proof (induction xs arbitrary: "next" out)
  case (Cons x xs)
  then obtain i next1 ls out1 where i: "resolve_identity al (ntId x) next = Inr (i, next1)"
    and rest: "materialise_instalments al f next1 xs = Inr out1"
    and out: "out = x\<lparr>ntId := Some i, ntLineItems := ls\<rparr> # out1"
    by (auto simp: bind_res_Inr)
  have "\<forall>x\<in>set out1. \<exists>i. ntId x = Some i \<and> taken_or_fresh al next i"
    using Cons.IH [OF rest] resolved_identity [OF i] taken_or_fresh_mono by metis
  then show ?case using resolved_identity [OF i] out by simp
qed simp

lemma reconciled_ids:
  assumes "reconcile_transition_identities a candidate = Inr v" and "i \<in> set (ids_of k v)"
  shows "i \<in> set (ids_of k (amValues a)) \<or> last_ordinal k (amSequence a) < identity_ordinal i (kind_name k)"
proof -
  let ?q = "resolve_agreement_identity_sequence (amValues a) (Some (amSequence a))"
  have fresh: "j \<in> set (ids_of k (amValues a)) \<or> last_ordinal k (amSequence a) < identity_ordinal j (kind_name k)"
    if j: "j = Some s" and given: "taken_or_fresh (create_transition_allocation (kind_name k) label (ids_of k (amValues a)))
      (last_ordinal k ?q + 1) s" for j s label
  proof (cases "j \<in> set (ids_of k (amValues a))")
    case False
    then obtain m where m: "last_ordinal k ?q + 1 \<le> m" "s = identity_of (kind_name k) m"
      using j given by (auto simp: taken_or_fresh_def create_transition_allocation_def)
    have "last_ordinal k (amSequence a) \<le> last_ordinal k ?q" by (simp add: resolved_ordinal recorded_sequence_def)
    then have "last_ordinal k (amSequence a) < m" using m(1) by linarith
    moreover have "identity_ordinal j (kind_name k) = m"
      unfolding j m(2) by (rule identity_ordinal_of) (use m(1) in linarith)
    ultimately show ?thesis by simp
  qed simp
  let ?actions = "create_transition_allocation ''action'' revenue_action (map fuId (vaActions (amValues a)))"
  let ?items = "create_transition_allocation ''item'' capital_item (map fuId (vaItems (amValues a)))"
  let ?instalments = "create_transition_allocation ''instalment'' schedule_instalment
      (map ntId (schedule_instalments (amValues a)))"
  obtain m schedule where m: "materialise_funded ''transition'' ?actions (isAction ?q + 1) ?items (isItem ?q + 1) candidate = Inr m"
    and s: "materialise_payment_schedule ?instalments (resolve_transition_line_item m) (isInstalment ?q + 1)
      (vaSchedule candidate) = Inr schedule"
    and v: "v = candidate\<lparr>vaActions := mtActions m, vaItems := mtItems m, vaSchedule := schedule\<rparr>"
    using assms(1) unfolding reconcile_transition_identities_def Let_def bind_res_Inr by auto
  show ?thesis
  proof (cases k)
    case ActionIds
    have "\<exists>refs. materialise_entries ''transition'' ?actions (isAction ?q + 1) [] (vaActions candidate) = Inr (mtActions m, refs)"
      using m by (auto simp: materialise_funded_def bind_res_Inr)
    then obtain j where "i = Some j" "taken_or_fresh ?actions (isAction ?q + 1) j"
      using materialised_entries assms(2) ActionIds v by fastforce
    then show ?thesis using fresh [of i j revenue_action] ActionIds by simp
  next
    case ItemIds
    have "\<exists>refs. materialise_entries ''transition'' ?items (isItem ?q + 1) [] (vaItems candidate) = Inr (mtItems m, refs)"
      using m by (auto simp: materialise_funded_def bind_res_Inr)
    then obtain j where "i = Some j" "taken_or_fresh ?items (isItem ?q + 1) j"
      using materialised_entries assms(2) ItemIds v by fastforce
    then show ?thesis using fresh [of i j capital_item] ItemIds by simp
  next
    case InstalmentIds
    then obtain x where x: "x \<in> set (schedule_instalments v)" "i = ntId x" using assms(2) by auto
    then obtain w where w: "schedule = Some w" "x \<in> set (shInstalments w)"
      using v by (auto simp: schedule_instalments_def split: option.splits)
    then have "\<exists>xs. materialise_instalments ?instalments (resolve_transition_line_item m) (isInstalment ?q + 1) xs
        = Inr (shInstalments w)"
      using s by (auto simp: materialise_payment_schedule_def bind_res_Inr split: option.splits)
    then obtain j where "i = Some j" "taken_or_fresh ?instalments (isInstalment ?q + 1) j"
      using materialised_instalments w(2) x(2) by fastforce
    then show ?thesis using fresh [of i j schedule_instalment] InstalmentIds by simp
  qed
qed

section \<open>What a transition does to identities\<close>

lemma validated [ok_iff]: "validate_with d c = Inr v \<longleftrightarrow> c = Inr v"
  by (simp add: validate_with_def split: sum.splits)

lemma checked_values [ok_iff]: "check_values env v = Inr w \<longleftrightarrow> agreement_value_schema (evOther env) v \<and> w = v"
  by (auto simp: check_values_def)

lemma mapping_reconciled:
  assumes "resolve_transition_mapping env d m a outs = Inr v"
  shows "\<exists>candidate. reconcile_transition_identities a candidate = Inr v"
  using assms unfolding resolve_transition_mapping_def by (auto simp: ok_iff split: sum.splits)

lemma candidate_reconciled:
  assumes "resolve_candidate env d l c outs = Inr x" and "rcAgreement c = Some a" and "caValues x = Some v"
  shows "\<exists>candidate. reconcile_transition_identities a candidate = Inr v"
proof -
  have "resolve_transition_values env d (rlState l) (rlTransition l) a outs = Inr (Some v)"
    using assms by (auto simp: resolve_candidate_def bind_res_Inr)
  then show ?thesis
    using mapping_reconciled by (auto simp: resolve_transition_values_def bind_res_Inr split: option.splits)
qed

definition reconciled :: "agreement_record \<Rightarrow> candidate option \<Rightarrow> bool" where
  "reconciled a found \<longleftrightarrow>
     (\<forall>x v. found = Some x \<longrightarrow> caValues x = Some v \<longrightarrow> (\<exists>candidate. reconcile_transition_identities a candidate = Inr v))"

lemma pending_reconciled:
  "resolve_when_pending found pending (resolve_candidate env d l c outs) = Inr found1 \<Longrightarrow> rcAgreement c = Some a \<Longrightarrow>
     reconciled a found \<Longrightarrow> reconciled a found1"
  unfolding reconciled_def
  by (auto simp: resolve_when_pending_def bind_res_Inr candidate_reconciled split: option.splits if_splits)

lemma run_reconciled:
  "run_processes env d l c ks st = Inr st1 \<Longrightarrow> rcAgreement c = Some a \<Longrightarrow> reconciled a (fst st) \<Longrightarrow> reconciled a (fst st1)"
proof (induction ks arbitrary: st)
  case (Cons k ks)
  then obtain st0 where s: "run_step env d l c k st = Inr st0" "run_processes env d l c ks st0 = Inr st1"
    by (auto simp: bind_res_Inr)
  obtain found outs ops where st: "st = (found, outs, ops)" by (metis prod_cases3)
  obtain pd where "resolve_when_pending found (is_transition_handler l pd) (resolve_candidate env d l c outs) = Inr (fst st0)"
    using s(1) st by (auto simp: run_step_def bind_res_Inr split: option.splits)
  then have "reconciled a (fst st0)" using pending_reconciled Cons.prems(2,3) st by (metis fst_conv)
  then show ?case using Cons.IH [OF s(2)] Cons.prems(2) by blast
qed simp

definition moved :: "agreement_record \<Rightarrow> agreement_record \<Rightarrow> bool" where
  "moved a b \<longleftrightarrow>
     seeded b \<and> (\<forall>k. last_ordinal k (amSequence a) \<le> last_ordinal k (amSequence b)
       \<and> (\<forall>i\<in>set (ids_of k (amValues b)). i \<in> set (ids_of k (amValues a))
            \<or> last_ordinal k (amSequence a) < identity_ordinal i (kind_name k)))"

lemma transition_moved:
  assumes "\<And>v. vals = Some v \<Longrightarrow> \<exists>candidate. reconcile_transition_identities a candidate = Inr v"
  shows "moved a (agreement_transition a target now vals version)"
proof -
  let ?b = "agreement_transition a target now vals version"
  have q: "amSequence ?b = resolve_agreement_identity_sequence (amValues ?b) (Some (amSequence a))"
    and v: "amValues ?b = spread_values (amValues a) vals"
    by (simp_all add: agreement_transition_def Let_def)
  have "i \<in> set (ids_of k (amValues a)) \<or> last_ordinal k (amSequence a) < identity_ordinal i (kind_name k)"
    if i: "i \<in> set (ids_of k (amValues ?b))" for k i
  proof (cases vals)
    case None
    then show ?thesis using i v by (simp add: spread_values_def)
  next
    case (Some w)
    then have "i \<in> set (ids_of k w)" using i v by (cases k) (auto simp: spread_values_def schedule_instalments_def)
    then show ?thesis using assms [OF Some] reconciled_ids by blast
  qed
  moreover have "last_ordinal k (amSequence a) \<le> last_ordinal k (amSequence ?b)" for k
    unfolding q by (simp add: resolved_ordinal recorded_sequence_def)
  moreover have "seeded ?b" using q by (auto simp: seeded_def)
  ultimately show ?thesis by (simp add: moved_def)
qed

lemma executed_moved:
  assumes "execute_agreement_action env d a name vals ex = Inr next"
  shows "moved a (arAgreement next)"
proof -
  let ?c = "\<lparr>rcApplication = None, rcAgreement = Some a, rcValues = Some vals, rcExecution = ex\<rparr>"
  obtain action and r :: sequence_result where "resolve_agreement_action (lifecycle_of d) (amState a) name = Inr action"
      and run: "run_agreement_processes env d (TransitionLocation (amState a) name) ?c = Inr r"
      and n: "Inr \<lparr>arAgreement = agreement_transition a (aaTarget action) (exExecutedAt ex) (srValues r)
            (if aaTarget action = accepted_state then Some (definition_version d) else None),
          arOperations = srOperations r\<rparr> = (Inr next :: action_result res)"
    using assms unfolding execute_agreement_action_def bind_res_Inr by blast
  obtain l where seq: "run_sequence env d l ?c = Inr r"
    using run unfolding run_agreement_processes_def bind_res_Inr by blast
  obtain st and found1 :: "candidate option" where st: "run_processes env d l ?c (rlProcesses l) (None, [], []) = Inr st"
    and f: "resolve_when_pending (fst st) (rlLocation l = ''transition'') (resolve_candidate env d l ?c (fst (snd st))) = Inr found1"
    and v: "srValues r = Option.bind found1 caValues"
    using seq by (auto simp: run_sequence_def bind_res_Inr)
  have "reconciled a (fst st)" using run_reconciled [OF st] by (simp add: reconciled_def)
  then have "reconciled a found1" using pending_reconciled [OF f] by simp
  then have "\<exists>candidate. reconcile_transition_identities a candidate = Inr w" if "srValues r = Some w" for w
    using that v by (auto simp: reconciled_def bind_eq_Some_conv)
  then show ?thesis using transition_moved n by auto
qed

section \<open>Histories\<close>

definition snapshots :: "agreements_db \<Rightarrow> string \<Rightarrow> agreement_record list" where
  "snapshots db n = map avSnapshot (history db n)"

definition identities_ok :: "agreements_db \<Rightarrow> bool" where
  "identities_ok db \<longleftrightarrow> (\<forall>n. successively moved (snapshots db n) \<and> (\<forall>a\<in>set (snapshots db n). seeded a))"

lemma snapshots_records: "records db' = records db \<Longrightarrow> snapshots db' = snapshots db"
  by (rule ext) (simp add: records_def snapshots_def history_def)

lemma identities_ok_records: "records db' = records db \<Longrightarrow> identities_ok db' = identities_ok db"
  unfolding identities_ok_def by (drule snapshots_records) simp

lemma opened_identities:
  assumes "identities_ok db" and "agreements_ok db" and "opened a db db'" and "seeded a"
  shows "identities_ok db'"
proof -
  have n: "amNumber a \<notin> amNumber ` set (abAgreements db)" and v: "abVersions db' = abVersions db @ [agreement_version_create a (amCreatedAt a)]"
    using assms(3) by (auto simp: opened_def find_agreement_by_number_def find_None_iff)
  have "\<forall>v\<in>set (abVersions db). avNumber v \<noteq> amNumber a"
    using assms(2) n unfolding agreements_ok_def by metis
  then have none: "snapshots db (amNumber a) = []" by (simp add: snapshots_def history_def filter_empty_conv)
  have "snapshots db' n = (if n = amNumber a then [a] else snapshots db n)" for n
    using none by (simp add: v snapshots_def history_def agreement_version_create_def)
  then show ?thesis using assms(1,4) by (simp add: identities_ok_def)
qed

lemma committed_identities:
  assumes "identities_ok db" and "agreements_ok db" and "a \<in> set (abAgreements db)"
    and "execute_agreement_action penv d a name vals ex = Inr next"
    and "committed \<lparr>kmActionName = name, kmCurrent = a, kmKey = key, kmNext = next\<rparr> db db'"
  shows "identities_ok db'"
proof -
  have last: "snapshots db (amNumber a) \<noteq> []" "last (snapshots db (amNumber a)) = a"
    using assms(2,3) by (auto simp: agreements_ok_def complete_history_def Let_def snapshots_def last_map)
  have m: "moved a (arAgreement next)" using executed_moved [OF assms(4)] .
  have v: "abVersions db' = abVersions db @ [action_version \<lparr>kmActionName = name, kmCurrent = a, kmKey = key, kmNext = next\<rparr>]"
    using assms(5) by (simp add: committed_def Let_def)
  have "snapshots db' n = (if n = amNumber a then snapshots db n @ [arAgreement next] else snapshots db n)" for n
    by (simp add: v snapshots_def history_def action_version_def)
  moreover have "seeded (arAgreement next)" using m by (simp add: moved_def)
  ultimately show ?thesis using assms(1) last m by (simp add: identities_ok_def successively_append_iff)
qed

lemma step_identities:
  "agreement_step db db' \<Longrightarrow> agreements_ok db \<Longrightarrow> identities_ok db \<Longrightarrow> identities_ok db'"
proof (induction rule: agreement_step.induct)
  case (Created env input db r db')
  from create_cases [OF Created(1)] show ?case
    using opened_identities [OF Created(3,2)] identities_ok_records [OF records_of_ledger] Created(3) by blast
next
  case (Executed env rq db r db')
  from execute_cases [OF Executed(1)] show ?case
    using identities_ok_records Executed(3) committed_identities [OF Executed(3,2)] loaded_by_number(3) by meson
next
  case (StatusHandled env cmd db r db')
  have "a \<in> set (abAgreements db)" if "find_agreement_by_number n db = Some a" for n a
    using that by (auto simp: find_agreement_by_number_def find_Some_iff)
  then show ?case
    using status_cases [OF StatusHandled(1)] identities_ok_records StatusHandled(3)
      committed_identities [OF StatusHandled(3,2)] by meson
next
  case (Overtaken v db penv d name vals ex "next" env key r db')
  let ?c = "\<lparr>kmActionName = name, kmCurrent = avSnapshot v, kmKey = key, kmNext = next\<rparr>"
  show ?case
  proof (cases "committed ?c db db'")
    case True
    have "succeeds (kmCurrent ?c) (arAgreement (kmNext ?c))" using executed_succeeds(1) [OF Overtaken(2)] by simp
    then have "kmCurrent ?c \<in> set (abAgreements db)"
      by (rule committed_current [OF Overtaken(4) True _ Overtaken(1)]) simp
    then show ?thesis using committed_identities [OF Overtaken(5,4) _ Overtaken(2) True] by simp
  next
    case False
    then have "ledger db' = ledger db" using commit_cases [OF Overtaken(3)] by auto
    then show ?thesis using Overtaken(5) identities_ok_records [OF records_of_ledger] by blast
  qed
next
  case (Configured db rows ds cache)
  then show ?case by (simp add: identities_ok_def snapshots_def history_def)
qed

lemma reachable_identities: "agreements_reachable db \<Longrightarrow> identities_ok db"
proof (induction rule: agreements_reachable.induct)
  case (Start db)
  then show ?case by (simp add: identities_ok_def snapshots_def history_def)
next
  case (Step db db')
  then show ?case using step_identities [OF Step(2) reachable_agreements_ok [OF Step(1)]] by blast
qed

lemma dropped_stays_dropped:
  assumes "successively moved (a # xs)" and "identity_ordinal i (kind_name k) \<le> last_ordinal k (amSequence a)"
    and "i \<notin> set (ids_of k (amValues a))" and "x \<in> set xs"
  shows "i \<notin> set (ids_of k (amValues x))"
  using assms
proof (induction xs arbitrary: a)
  case (Cons b xs)
  have m: "moved a b" and s: "successively moved (b # xs)" using Cons.prems(1) by simp_all
  have absent: "i \<notin> set (ids_of k (amValues b))"
    using m Cons.prems(2,3) unfolding moved_def by (metis leD)
  have ordinal: "identity_ordinal i (kind_name k) \<le> last_ordinal k (amSequence b)"
    using m Cons.prems(2) unfolding moved_def by (meson order_trans)
  show ?case using Cons.IH [OF s ordinal absent] Cons.prems(4) absent by auto
qed simp

lemma sequence_grows:
  "successively moved (a # xs) \<Longrightarrow> x \<in> set xs \<Longrightarrow> last_ordinal k (amSequence a) \<le> last_ordinal k (amSequence x)"
proof (induction xs arbitrary: a)
  case (Cons b xs)
  then have "last_ordinal k (amSequence a) \<le> last_ordinal k (amSequence b)" by (simp add: moved_def)
  then show ?case using Cons by (auto intro: order_trans)
qed simp

end
