(* ===== verification/AgreementProperties.thy ===== *)
theory AgreementProperties
  imports AgreementIdentities
begin

text \<open>
  The properties of Agreements: their history is complete and never loses an update, an action moves
  an Agreement as its lifecycle is configured and is executed once, and identities are not used again.
\<close>

section \<open>A concrete Agreement\<close>

definition w_values :: agreement_values where
  "w_values = \<lparr>vaStartDate = None, vaEndDate = None, vaParcels = None, vaActions = [], vaItems = [],
     vaSchedule = None, vaOther = [(''application'', JObj [])]\<rparr>"

definition w_process_env :: process_env where
  "w_process_env = \<lparr>evEvaluate = (\<lambda>_ _ _. Inr None), evParse = (\<lambda>_. Inr JNull), evCall = (\<lambda>_ _. Inr JNull),
     evOutput = (\<lambda>_ v. Inr v), evRead = (\<lambda>_. Inr w_values), evCandidate = (\<lambda>_. Inl []), evValueFaults = (\<lambda>_. []),
     evOther = (\<lambda>_. True), evIsoDate = (\<lambda>_. True), evHandlers = agreement_process_handlers\<rparr>"

definition w_env :: agreements_env where
  "w_env = \<lparr>agProcess = w_process_env, agShape = (\<lambda>_. []), agVariable = (\<lambda>_. None), agFetch = (\<lambda>_ _. Inl TypeError),
     agNow = ''2026-01-01T00:00:00.000Z'', agUuid = ''c1'', agRandomInt = (\<lambda>n _ _. 7 + n),
     agPublish = \<lparr>pbStatusTopic = ''status'', pbReportingTopic = ''reports'', pbViewUri = ''/view'',
        pbReportFaults = (\<lambda>_. []), pbIsoDate = (\<lambda>_. True)\<rparr>,
     agValidAudit = (\<lambda>_. True), agRender = (\<lambda>_ _ _ _ _. Inr JNull)\<rparr>"

definition w_definition :: agreement_definition where
  "w_definition = \<lparr>adCode = ''g'', adConfigVersion = Some ''1.0.0'', adNumberPrefix = ''AG'', adEndpoints = None,
     adProcessDefinitions = Some [(''CREATE_AGREEMENT_PAYMENT'', \<lparr>pdType = ''handler'', pdEndpoint = None,
        pdRequestBody = None, pdInput = None, pdOutput = None\<rparr>)],
     adCreate = \<lparr>cnTarget = ''offered'', cnApplication = JObj [], cnValues = None, cnProcesses = None\<rparr>,
     adStates = [(''offered'', \<lparr>sdPage = None, sdProcesses = None, sdOn = Some [(''accept'', \<lparr>atTarget = ''accepted'',
          atPage = None, atValidation = None, atValues = None,
          atProcesses = Some [''CREATE_AGREEMENT_PAYMENT'']\<rparr>)]\<rparr>),
        (''accepted'', \<lparr>sdPage = None, sdProcesses = None, sdOn = None\<rparr>)],
     adPages = [], adTemplates = None\<rparr>"

definition w_row :: config_row where
  "w_row = \<lparr>crGrantCode = ''g'', crVersion = ''1.0.0'', crSemver = Semver 1 0 0, crStatus = active, crS3Bucket = None,
     crReceivedAt = [], crDefinitions = [(AgreementFile, new_fetch_state (Some ''k''))], crWorstFetchStatus = None\<rparr>"

definition w_start :: agreements_db where
  "w_start = \<lparr>abAgreements = [], abVersions = [], abOutbox = [], abCatalog = [w_row], abDefinitions = [],
     abCompiled = [(''g@1.0.0'', w_definition)]\<rparr>"

definition w_input :: creation_input where
  "w_input = \<lparr>ciCode = ''g'', ciClientRef = ''r'', ciCurrentConfigVersion = Some ''1.0.0'',
     ciIdentifiers = [(''sbi'', JStr ''1'')], ciDocument = JObj []\<rparr>"

definition w_request :: action_request where
  "w_request = \<lparr>rxNumber = ''AG7'', rxActionName = ''accept'', rxKey = ''k1'',
     rxIfMatch = Some (quoted ''AG7:1:1.0.0''), rxValues = [],
     rxAccess = \<lparr>xsSource = Some ''defra'', xsCode = None, xsSbi = Some ''1'', xsClientRef = None\<rparr>\<rparr>"

definition w_offered :: agreements_db where
  "w_offered = snd (agreement_creation_use_case w_env w_input w_start)"

definition w_accepted :: agreements_db where
  "w_accepted = snd (execute_agreement_action_use_case w_env w_request w_offered)"

lemma w_offered_one: "map amNumber (abAgreements w_offered) = [''AG7'']"
  by code_simp

lemma w_accepted_done: "fst (execute_agreement_action_use_case w_env w_request w_offered) = Inr ActionDone"
  by code_simp

lemma w_reachable: "agreements_reachable w_offered" "agreements_reachable w_accepted"
proof -
  have s: "agreements_reachable w_start" by (rule Start) (simp_all add: w_start_def)
  show o: "agreements_reachable w_offered"
    unfolding w_offered_def by (rule Step [OF s], rule Created, rule surjective_pairing)
  show "agreements_reachable w_accepted"
    unfolding w_accepted_def by (rule Step [OF o], rule Executed, rule surjective_pairing)
qed

section \<open>History\<close>

text \<open>
  C3. In every reachable state no two Agreements share a number or a source identity, and the versions of
  each are numbered one by one up to its own, the last of them being the Agreement itself.
\<close>

theorem agreement_history_complete:
  assumes "agreements_reachable db" and "a \<in> set (abAgreements db)"
  shows "distinct (map amNumber (abAgreements db)) \<and> distinct (map (\<lambda>b. (amCode b, amClientRef b)) (abAgreements db))
      \<and> map avVersion (filter (\<lambda>v. avNumber v = amNumber a) (abVersions db)) = [1..<Suc (amVersion a)]
      \<and> avSnapshot (last (filter (\<lambda>v. avNumber v = amNumber a) (abVersions db))) = a"
  using reachable_agreements_ok [OF assms(1)] assms(2)
  by (simp add: agreements_ok_def complete_history_def history_def Let_def source_of_def [abs_def])

lemma w_accepted_agreements: "length (abAgreements w_accepted) = 1 \<and> amVersion (hd (abAgreements w_accepted)) = 2"
  by code_simp

theorem agreement_history_complete_witness:
  "map avVersion (filter (\<lambda>v. avNumber v = amNumber (hd (abAgreements w_accepted))) (abVersions w_accepted)) = [1..<Suc 2]"
proof -
  have "hd (abAgreements w_accepted) \<in> set (abAgreements w_accepted)"
    using w_accepted_agreements by (cases "abAgreements w_accepted") simp_all
  from agreement_history_complete [OF w_reachable(2) this] show ?thesis using w_accepted_agreements by simp
qed

text \<open>
  C4. Executing an action refines the configured lifecycle: when it answers that the action is done and it
  was not done before, the Agreement's log grows by the one move the definition loaded for it
  configures from its last state, and no other log changes; otherwise no log changes.
\<close>

theorem action_refines_lifecycle:
  assumes "agreements_reachable db" and "load_agreement_for_action (rxNumber rq) (rxAccess rq) db = Inr a"
    and "load_definition_for_agreement env a db = (Inr d, db1)"
    and "find_completed (rxNumber rq) (rxActionName rq) (rxKey rq) db = Inr False"
    and "execute_agreement_action_use_case env rq db = (r, db')"
  shows "if r = Inr ActionDone then lifecycle_move d (rxNumber rq) (rxActionName rq) (log_of db) = Some (log_of db')
         else log_of db' = log_of db"
proof (cases "r = Inr ActionDone")
  case True
  then obtain "next" ex where e: "execute_agreement_action (agProcess env) d a (rxActionName rq) (rxValues rq) ex = Inr next"
    and c: "committed \<lparr>kmActionName = rxActionName rq, kmCurrent = a, kmKey = rxKey rq, kmNext = next\<rparr> db db'"
    using execute_cases [OF assms(5)] assms(2,3,4) by auto
  show ?thesis
    using True commit_refines [OF reachable_agreements_ok [OF assms(1)] loaded_by_number(3) [OF assms(2)] e c]
      loaded_by_number(2) [OF assms(2)] by simp
next
  case False
  then have "records db' = records db" using execute_cases [OF assms(5)] by blast
  from log_of_records [OF this] show ?thesis using False by simp
qed

lemma w_owned: "load_agreement_for_action (rxNumber w_request) (rxAccess w_request) w_offered = Inr (hd (abAgreements w_offered))"
  by code_simp

lemma w_not_completed: "find_completed (rxNumber w_request) (rxActionName w_request) (rxKey w_request) w_offered = Inr False"
  by code_simp

lemma w_definition_loaded: "fst (load_definition_for_agreement w_env (hd (abAgreements w_offered)) w_offered) = Inr w_definition"
  by code_simp

lemma w_loaded: "load_definition_for_agreement w_env (hd (abAgreements w_offered)) w_offered =
    (Inr w_definition, snd (load_definition_for_agreement w_env (hd (abAgreements w_offered)) w_offered))"
  using w_definition_loaded by (simp add: prod_eq_iff)

lemma w_executed: "execute_agreement_action_use_case w_env w_request w_offered = (Inr ActionDone, w_accepted)"
  using w_accepted_done by (simp add: w_accepted_def prod_eq_iff)

theorem action_refines_lifecycle_witness:
  "lifecycle_move w_definition ''AG7'' ''accept'' (log_of w_offered) = Some (log_of w_accepted)"
  using action_refines_lifecycle [OF w_reachable(1) w_owned w_loaded w_not_completed w_executed] by (simp add: w_request_def)

text \<open>
  C5. An action computed from a version of an Agreement that is no longer the current one changes neither
  Agreements, versions nor the outbox when it is committed; it reports success only when the same
  action had been completed under its key.
\<close>

theorem overtaken_action_changes_nothing:
  assumes "agreements_reachable db" and "v \<in> set (abVersions db)" and "avSnapshot v \<notin> set (abAgreements db)"
    and "execute_agreement_action penv d (avSnapshot v) name vals ex = Inr next"
    and "commit_agreement_action env \<lparr>kmActionName = name, kmCurrent = avSnapshot v, kmKey = key, kmNext = next\<rparr> db = (r, db')"
  shows "abAgreements db' = abAgreements db \<and> abVersions db' = abVersions db \<and> abOutbox db' = abOutbox db
      \<and> (r = Inr () \<longrightarrow> find_completed (amNumber (avSnapshot v)) name key db = Inr True)"
proof -
  let ?c = "\<lparr>kmActionName = name, kmCurrent = avSnapshot v, kmKey = key, kmNext = next\<rparr>"
  have "succeeds (kmCurrent ?c) (arAgreement (kmNext ?c))" using executed_succeeds(1) [OF assms(4)] by simp
  then have "\<not> committed ?c db db'"
    using committed_current [OF reachable_agreements_ok [OF assms(1)], of ?c db' v] assms(2,3) by auto
  then show ?thesis using commit_cases [OF assms(5)] by (auto simp: ledger_eq)
qed

definition w_first :: agreement_version where "w_first = hd (abVersions w_accepted)"

definition w_next :: action_result where
  "w_next = (case execute_agreement_action w_process_env w_definition (avSnapshot w_first) ''accept'' []
       \<lparr>exExecutedAt = ''2026-01-02T00:00:00.000Z'', exCorrelationId = None\<rparr> of Inr n \<Rightarrow> n | Inl _ \<Rightarrow> undefined)"

lemma w_first_version: "abVersions w_accepted \<noteq> []"
  by code_simp

lemma w_overtaken: "amVersion (avSnapshot w_first) \<notin> set (map amVersion (abAgreements w_accepted))"
  by code_simp

lemma w_computed: "\<not> isl (execute_agreement_action w_process_env w_definition (avSnapshot w_first) ''accept'' []
     \<lparr>exExecutedAt = ''2026-01-02T00:00:00.000Z'', exCorrelationId = None\<rparr>)"
  by code_simp

theorem overtaken_action_changes_nothing_witness:
  "abAgreements (snd (commit_agreement_action w_env \<lparr>kmActionName = ''accept'', kmCurrent = avSnapshot w_first,
      kmKey = ''k2'', kmNext = w_next\<rparr> w_accepted)) = abAgreements w_accepted"
proof -
  let ?run = "execute_agreement_action w_process_env w_definition (avSnapshot w_first) ''accept'' []
     \<lparr>exExecutedAt = ''2026-01-02T00:00:00.000Z'', exCorrelationId = None\<rparr>"
  have n: "?run = Inr w_next" using w_computed by (cases ?run) (simp_all add: w_next_def)
  have v: "w_first \<in> set (abVersions w_accepted)" using w_first_version by (simp add: w_first_def)
  have o: "avSnapshot w_first \<notin> set (abAgreements w_accepted)" using w_overtaken by auto
  show ?thesis using overtaken_action_changes_nothing [OF w_reachable(2) v o n surjective_pairing] by blast
qed

section \<open>Once only\<close>

text \<open>
  C6. Once an action of an Agreement has been answered as done, asking for it again under the same key is
  answered as done and changes nothing, whatever use cases ran in between.
\<close>

theorem action_executed_once:
  assumes "agreements_reachable db" and "execute_agreement_action_use_case env rq db = (Inr ActionDone, db1)"
    and "rtranclp agreement_step db1 db2"
    and "rxNumber again = rxNumber rq" and "rxActionName again = rxActionName rq" and "rxKey again = rxKey rq"
    and "\<not> isl (load_agreement_for_action (rxNumber again) (rxAccess again) db2)"
  shows "execute_agreement_action_use_case env2 again db2 = (Inr ActionDone, db2)"
proof -
  have r1: "agreements_reachable db1" using Step [OF assms(1) Executed [OF assms(2)]] .
  have r2: "agreements_reachable db2" and kept: "set (abVersions db1) \<subseteq> set (abVersions db2)"
    using run_keeps [OF assms(3) r1] by simp_all
  have "distinct (version_keys (abVersions db2))" using reachable_agreements_ok [OF r2] by (simp add: agreements_ok_def)
  then have "find_completed (rxNumber again) (rxActionName again) (rxKey again) db2 = Inr True"
    using action_done_recorded [OF reachable_agreements_ok [OF assms(1)] assms(2)] kept assms(4-6) completed_iff by auto
  then show ?thesis
    using assms(7)
    by (cases "load_agreement_for_action (rxNumber again) (rxAccess again) db2")
      (simp_all add: execute_agreement_action_use_case_def)
qed

lemma w_still_owned: "\<not> isl (load_agreement_for_action (rxNumber w_request) (rxAccess w_request) w_accepted)"
  by code_simp

theorem action_executed_once_witness:
  "execute_agreement_action_use_case w_env w_request w_accepted = (Inr ActionDone, w_accepted)"
  by (rule action_executed_once [OF w_reachable(1) w_executed rtranclp.rtrancl_refl refl refl refl w_still_owned])

section \<open>Identities\<close>

text \<open>
  C7. The identity of an action, an item or an instalment that a version of an Agreement no longer has is not
  given to anything in a later version: no ordinal is used twice in the life of an Agreement.
\<close>

theorem dropped_identity_never_returns:
  assumes "agreements_reachable db"
    and "map avSnapshot (filter (\<lambda>v. avNumber v = n) (abVersions db)) = xs @ a # ys @ b # zs"
    and "i \<in> set (ids_of k (amValues a))" and "i \<notin> set (ids_of k (amValues b))" and "c \<in> set zs"
  shows "i \<notin> set (ids_of k (amValues c))"
proof -
  have "snapshots db n = xs @ a # ys @ b # zs" using assms(2) by (simp add: snapshots_def history_def)
  then have m: "successively moved (xs @ a # ys @ b # zs)" and a: "seeded a"
    using reachable_identities [OF assms(1)] unfolding identities_ok_def by (metis, metis in_set_conv_decomp)
  have s: "successively moved (a # ys @ b # zs)" using m unfolding successively_append_iff by blast
  have "identity_ordinal i (kind_name k) \<le> last_ordinal k (amSequence a)"
    using settled_seeded [OF a] assms(3) by (simp add: settled_def)
  also have "\<dots> \<le> last_ordinal k (amSequence b)" by (rule sequence_grows [OF s]) simp
  finally have "identity_ordinal i (kind_name k) \<le> last_ordinal k (amSequence b)" .
  moreover have "successively moved (b # zs)"
    using s by (metis append_Cons successively_append_iff)
  ultimately show ?thesis using dropped_stays_dropped assms(4,5) by blast
qed

definition w_item :: funded_entry where
  "w_item = \<lparr>fuId = None, fuRef = None, fuCode = ''C1'', fuStartDate = None, fuEndDate = None, fuParcel = None,
     fuQuantity = None, fuUnit = None, fuOther = []\<rparr>"

definition w_item_env :: agreements_env where
  "w_item_env = w_env\<lparr>agProcess := w_process_env\<lparr>
     evRead := (\<lambda>_. Inr (w_values\<lparr>vaItems := [w_item]\<rparr>)),
     evCandidate := (\<lambda>v. Inr (case v of Some (JObj []) \<Rightarrow> w_values | _ \<Rightarrow> w_values\<lparr>vaItems := [w_item]\<rparr>))\<rparr>\<rparr>"

definition w_amend :: "json \<Rightarrow> action_transition" where
  "w_amend m = \<lparr>atTarget = ''offered'', atPage = None, atValidation = None, atValues = Some m, atProcesses = None\<rparr>"

definition w_item_definition :: agreement_definition where
  "w_item_definition = w_definition\<lparr>adStates := [(''offered'', \<lparr>sdPage = None, sdProcesses = None,
     sdOn = Some [(''drop'', w_amend (JObj [])), (''add'', w_amend (JObj [(''items'', JNull)]))]\<rparr>)]\<rparr>"

definition w_item_start :: agreements_db where
  "w_item_start = w_start\<lparr>abCompiled := [(''g@1.0.0'', w_item_definition)]\<rparr>"

definition w_item_offered :: agreements_db where
  "w_item_offered = snd (agreement_creation_use_case w_item_env w_input w_item_start)"

definition w_item_dropped :: agreements_db where
  "w_item_dropped = snd (execute_agreement_action_use_case w_item_env
     (w_request\<lparr>rxActionName := ''drop''\<rparr>) w_item_offered)"

definition w_item_added :: agreements_db where
  "w_item_added = snd (execute_agreement_action_use_case w_item_env
     (w_request\<lparr>rxActionName := ''add'', rxKey := ''k2'', rxIfMatch := Some (quoted ''AG7:2:1.0.0'')\<rparr>) w_item_dropped)"

lemma w_item_reachable: "agreements_reachable w_item_added"
proof -
  have s: "agreements_reachable w_item_start" by (rule Start) (simp_all add: w_item_start_def w_start_def)
  have o: "agreements_reachable w_item_offered"
    unfolding w_item_offered_def by (rule Step [OF s], rule Created, rule surjective_pairing)
  have d: "agreements_reachable w_item_dropped"
    unfolding w_item_dropped_def by (rule Step [OF o], rule Executed, rule surjective_pairing)
  show ?thesis unfolding w_item_added_def by (rule Step [OF d], rule Executed, rule surjective_pairing)
qed

lemma w_item_versions:
  "map (\<lambda>a. ids_of ItemIds (amValues a)) (map avSnapshot (filter (\<lambda>v. avNumber v = ''AG7'') (abVersions w_item_added)))
     = [[Some ''item:1''], [], [Some ''item:2'']]"
  by code_simp

lemma w_item_numbers: "list_all (\<lambda>v. avNumber v = ''AG7'') (abVersions w_item_added)"
  by code_simp

theorem dropped_identity_never_returns_witness:
  "Some ''item:1'' \<notin> set (ids_of ItemIds (amValues (avSnapshot (last (abVersions w_item_added)))))"
proof -
  let ?h = "filter (\<lambda>v. avNumber v = ''AG7'') (abVersions w_item_added)"
  have "length ?h = 3" using arg_cong [OF w_item_versions, of length] by simp
  then obtain u v w where h: "?h = [u, v, w]" by (auto simp: numeral_3_eq_3 length_Suc_conv)
  have ids: "ids_of ItemIds (amValues (avSnapshot u)) = [Some ''item:1'']" "ids_of ItemIds (amValues (avSnapshot v)) = []"
    using w_item_versions h by simp_all
  have "Some ''item:1'' \<notin> set (ids_of ItemIds (amValues (avSnapshot w)))"
    by (rule dropped_identity_never_returns [OF w_item_reachable, where n = "''AG7''" and xs = "[]" and ys = "[]"
          and zs = "[avSnapshot w]" and a = "avSnapshot u" and b = "avSnapshot v"])
      (use h ids in simp_all)
  moreover have "last (abVersions w_item_added) = w"
  proof -
    have "list_all (\<lambda>v. avNumber v = ''AG7'') (abVersions w_item_added)" using w_item_numbers .
    then have "?h = abVersions w_item_added" by (simp add: filter_id_conv list_all_iff)
    then have "abVersions w_item_added = [u, v, w]" using h by (rule trans [OF sym])
    then show ?thesis by simp
  qed
  ultimately show ?thesis by simp
qed

end
