(* ===== verification/AgreementTyping.thy ===== *)
theory AgreementTyping
  imports AgreementRuntime
begin

text \<open>
  What compiling a definition buys its runs: every process of a sequence is defined and occurs once,
  and when it runs, each process it reads an output of has run before it and declares that output.
\<close>

section \<open>Sequences\<close>

definition transition_sequence :: "string \<Rightarrow> string \<times> action_transition \<Rightarrow> process_sequence" where
  "transition_sequence stateName = (\<lambda>(name, t).
     \<lparr>sqLocation = ''transition'', sqPath = ''states.'' @ stateName @ ''.on.'' @ name @ ''.processes'',
      sqProcesses = or_empty (atProcesses t), sqProduced = []\<rparr>)"

lemma resolved_sequence:
  assumes "resolve_location d location = Inr l"
  shows "\<exists>sq\<in>set (collect_sequences d). sqProcesses sq = rlProcesses l \<and> sqLocation sq = rlLocation l"
proof (cases location)
  case CreateLocation
  then show ?thesis using assms by (auto simp: resolve_location_def collect_sequences_def)
next
  case (TransitionLocation state transition)
  then obtain t where t: "find_transition d state transition = Some t" and l: "rlProcesses l = or_empty (atProcesses t)"
      "rlLocation l = ''transition''"
    using assms by (auto simp: resolve_location_def resolve_transition_location_def split: option.splits)
  then obtain sd where "(state, sd) \<in> set (adStates d)" "(transition, t) \<in> set (or_empty (sdOn sd))"
    by (auto simp: find_transition_def bind_eq_Some_conv dest!: map_of_SomeD)
  then have "transition_sequence state (transition, t) \<in> set (collect_sequences d)"
    unfolding collect_sequences_def transition_sequence_def by force
  then show ?thesis using l by (intro bexI [where x = "transition_sequence state (transition, t)"])
      (simp_all add: transition_sequence_def)
next
  case (PageLocation state page)
  then obtain sd where sd: "map_of (adStates d) state = Some sd" and l: "rlProcesses l = or_empty (sdProcesses sd)"
      "rlLocation l = ''page''"
    using assms by (auto simp: resolve_location_def resolve_page_location_def split: option.splits if_splits)
  have "(state, sd) \<in> set (adStates d)" using sd by (rule map_of_SomeD)
  then show ?thesis using l by (fastforce simp: collect_sequences_def)
qed

lemma steps_checked:
  "validate_steps env sq defs seen produced (before @ k # after) = Inr p \<Longrightarrow>
     k \<notin> set seen \<union> set before \<and> (\<exists>pd deps. map_of defs k = Some pd \<and> process_dependencies (evParse env) pd = Inr deps
       \<and> (\<forall>dep\<in>set deps. fst dep \<in> set seen \<union> set before \<and> assert_produced_output dep k defs = Inr ()))"
proof (induction before arbitrary: seen produced)
  case Nil
  then obtain pd deps where pd: "map_of defs k = Some pd" and new: "k \<notin> set seen"
    and deps: "process_dependencies (evParse env) pd = Inr deps"
    and each: "for_each (\<lambda>dep. assert_dependency dep k sq seen defs) deps = Inr ()"
    by (auto simp: bind_res_Inr require_process_definition_def split: option.splits if_splits)
  have "\<forall>dep\<in>set deps. fst dep \<in> set seen \<and> assert_produced_output dep k defs = Inr ()"
    using each by (auto simp: for_each_Inr assert_dependency_def split: if_splits)
  then show ?case using pd new deps by auto
next
  case (Cons b before)
  then obtain produced1 where "validate_steps env sq defs (b # seen) produced1 (before @ k # after) = Inr p"
    by (auto simp: bind_res_Inr split: if_splits)
  from Cons.IH [OF this] show ?case by auto
qed

lemma produced_output:
  "assert_produced_output dep k defs = Inr () \<Longrightarrow> truthy (snd dep) = Some n \<Longrightarrow>
     \<exists>pd. map_of defs (fst dep) = Some pd \<and> n \<in> fst ` set (or_empty (pdOutput pd))"
  by (auto simp: assert_produced_output_def map_of_eq_None_iff split: option.splits if_splits)

section \<open>Outputs\<close>

lemma mapped_output: "map_output env k es ctx = Inr out \<Longrightarrow> fst ` set out \<subseteq> fst ` set es"
proof -
  assume "map_output env k es ctx = Inr out"
  then obtain entries where e: "map_res (map_output_entry env k ctx) es = Inr entries"
    and out: "out = List.map_filter id entries" by (auto simp: map_output_def split: sum.splits)
  then have all: "list_all2 (\<lambda>x e. map_output_entry env k ctx x = Inr e) es entries" by (simp add: map_res_Inr)
  have "fst v \<in> fst ` set es" if v: "Some v \<in> set entries" for v
  proof -
    obtain x where x: "x \<in> set es" "map_output_entry env k ctx x = Inr (Some v)"
      using list_all2_in_right [OF all v] by blast
    have "fst v = fst x" using x(2) by (auto simp: map_output_entry_def bind_res_Inr split: prod.splits)
    then show ?thesis using x(1) by simp
  qed
  then show ?thesis unfolding out by (auto simp: map_filter_def image_subset_iff)
qed

lemma declared_output:
  assumes "run_process env k pd ctx = Inr r"
  shows "fst ` set (prOutput r) \<subseteq> fst ` set (or_empty (pdOutput pd))"
proof (cases "pdType pd = ''endpoint''")
  case True
  then obtain es ctx1 where "pdOutput pd = Some es" "map_output env k es ctx1 = Inr (prOutput r)"
    using assms by (auto simp: run_process_def run_endpoint_def bind_res_Inr split: option.splits)
  then show ?thesis using mapped_output by simp
next
  case False
  then show ?thesis using assms by (auto simp: run_process_def run_handler_def bind_res_Inr)
qed

definition declared :: "agreement_definition \<Rightarrow> outputs \<Rightarrow> bool" where
  "declared d outs \<longleftrightarrow> (\<forall>k out. map_of outs k = Some out \<longrightarrow>
     (\<exists>pd. map_of (process_definitions d) k = Some pd \<and> fst ` set out \<subseteq> fst ` set (or_empty (pdOutput pd))))"

lemma step_outputs:
  assumes "run_step env d l c k (found, outs, ops) = Inr (found', outs', ops')" and "declared d outs"
  shows "declared d outs' \<and> dom (map_of outs') = insert k (dom (map_of outs))"
proof -
  obtain pd ctx r where pd: "map_of (process_definitions d) k = Some pd" and r: "run_process env k pd ctx = Inr r"
    and outs': "outs' = obj_put k (prOutput r) outs"
    using assms(1) by (auto simp: run_step_def bind_res_Inr split: option.splits)
  show ?thesis using assms(2) pd declared_output [OF r] unfolding outs'
    by (auto simp: declared_def obj_put_lookup split: if_splits)
qed

lemma run_outputs:
  "run_processes env d l c ks st = Inr st' \<Longrightarrow> declared d (fst (snd st)) \<Longrightarrow>
     declared d (fst (snd st')) \<and> dom (map_of (fst (snd st'))) = set ks \<union> dom (map_of (fst (snd st)))"
proof (induction ks arbitrary: st)
  case (Cons k ks)
  then obtain st1 where s: "run_step env d l c k st = Inr st1" and r: "run_processes env d l c ks st1 = Inr st'"
    by (auto simp: bind_res_Inr)
  have "declared d (fst (snd st1)) \<and> dom (map_of (fst (snd st1))) = insert k (dom (map_of (fst (snd st))))"
    using step_outputs s Cons.prems(2) by (metis prod.collapse)
  then show ?case using Cons.IH [OF r] by auto
qed simp

section \<open>The property\<close>

text \<open>
  C12. When a sequence of a compiled definition has run up to one of its processes, that process is
  defined and has not run yet, and every process its mappings read an output of has run, with an
  output made of the values it declares, among them the one that is read.
\<close>

theorem process_reads_declared_outputs:
  assumes "compile_agreement_processes env d = Inr ()" and "resolve_location d location = Inr l"
    and "rlProcesses l = before @ processKey # after"
    and "run_processes env d l c before (None, [], []) = Inr (found, outs, operations)"
  shows "processKey \<notin> set before \<and> (\<exists>pd deps. map_of (process_definitions d) processKey = Some pd
      \<and> process_dependencies (evParse env) pd = Inr deps
      \<and> (\<forall>(source, name)\<in>set deps. \<exists>out pd'. map_of outs source = Some out
            \<and> map_of (process_definitions d) source = Some pd' \<and> fst ` set out \<subseteq> fst ` set (or_empty (pdOutput pd'))
            \<and> (\<forall>n. truthy name = Some n \<longrightarrow> n \<in> fst ` set (or_empty (pdOutput pd')))))"
proof -
  obtain sq where sq: "sq \<in> set (collect_sequences d)" "sqProcesses sq = before @ processKey # after"
    using resolved_sequence [OF assms(2)] assms(3) by auto
  have "for_each (\<lambda>sq. validate_sequence env sq (process_definitions d)) (collect_sequences d) = Inr ()"
    using assms(1) by (auto simp: compile_agreement_processes_def bind_res_Inr)
  then have "validate_sequence env sq (process_definitions d) = Inr ()" using sq(1) by (simp add: for_each_Inr)
  then obtain p where "validate_steps env sq (process_definitions d) [] (sqProduced sq) (before @ processKey # after) = Inr p"
    using sq(2) by (auto simp: validate_sequence_def bind_res_Inr)
  from steps_checked [OF this] obtain pd deps where new: "processKey \<notin> set before"
    and pd: "map_of (process_definitions d) processKey = Some pd" "process_dependencies (evParse env) pd = Inr deps"
    and deps: "\<forall>dep\<in>set deps. fst dep \<in> set before \<and> assert_produced_output dep processKey (process_definitions d) = Inr ()"
    by auto
  have outs: "declared d outs" "dom (map_of outs) = set before"
    using run_outputs [OF assms(4)] by (auto simp: declared_def)
  have "\<exists>out pd'. map_of outs source = Some out \<and> map_of (process_definitions d) source = Some pd'
      \<and> fst ` set out \<subseteq> fst ` set (or_empty (pdOutput pd'))
      \<and> (\<forall>n. truthy name = Some n \<longrightarrow> n \<in> fst ` set (or_empty (pdOutput pd')))"
    if dep: "(source, name) \<in> set deps" for source name
  proof -
    have "source \<in> dom (map_of outs)" using deps dep outs(2) by fastforce
    then obtain out pd' where o: "map_of outs source = Some out" "map_of (process_definitions d) source = Some pd'"
        "fst ` set out \<subseteq> fst ` set (or_empty (pdOutput pd'))"
      using outs(1) unfolding declared_def by blast
    have "n \<in> fst ` set (or_empty (pdOutput pd'))" if "truthy name = Some n" for n
      using produced_output [of "(source, name)" processKey "process_definitions d" n] deps dep that o(2) by auto
    then show ?thesis using o by blast
  qed
  then show ?thesis using new pd by blast
qed

definition t_name :: "string \<Rightarrow> json" where
  "t_name v = JObj [(''type'', JStr ''name''), (''value'', JStr v)]"

definition t_env :: process_env where
  "t_env = \<lparr>evEvaluate = (\<lambda>_ _ _. Inr (Some (JStr ''x''))),
     evParse = (\<lambda>e. Inr (JObj [(''type'', JStr ''path''), (''steps'', JArr
       [JObj [(''type'', JStr ''variable''), (''value'', JStr [])], t_name ''outputs'', t_name ''P1'', t_name ''name''])])),
     evCall = (\<lambda>_ _. Inr JNull), evOutput = (\<lambda>_ v. Inr v), evRead = (\<lambda>_. Inl TypeError), evCandidate = (\<lambda>_. Inl []),
     evValueFaults = (\<lambda>_. []), evOther = (\<lambda>_. True), evIsoDate = (\<lambda>_. True), evHandlers = []\<rparr>"

definition t_process :: "string \<Rightarrow> string \<Rightarrow> process_definition" where
  "t_process body name = \<lparr>pdType = ''endpoint'',
     pdEndpoint = Some \<lparr>enCode = [], enMethod = ''POST'', enPath = ''/'', enService = ''S''\<rparr>,
     pdRequestBody = Some (JObj [(''body'', JStr body)]), pdInput = None, pdOutput = Some [(name, JStr ''n'')]\<rparr>"

definition t_definition :: agreement_definition where
  "t_definition = \<lparr>adCode = ''g'', adConfigVersion = Some ''1.0.0'', adNumberPrefix = ''AG'', adEndpoints = None,
     adProcessDefinitions = Some [(''P1'', t_process ''b'' ''name''), (''P2'', t_process ''$.outputs.P1.name'' ''schemeCode'')],
     adCreate = \<lparr>cnTarget = ''offered'', cnApplication = JObj [],
       cnValues = Some [(''actions'', JArr []), (''items'', JArr [])], cnProcesses = Some [''P1'', ''P2'']\<rparr>,
     adStates = [], adPages = [], adTemplates = None\<rparr>"

definition t_location :: resolved_location where
  "t_location = \<lparr>rlLocation = ''create'', rlProcesses = [''P1'', ''P2''], rlState = [], rlTransition = [], rlTarget = ''offered''\<rparr>"

definition t_context :: run_context where
  "t_context = \<lparr>rcApplication = Some (JObj []), rcAgreement = None, rcValues = None,
     rcExecution = \<lparr>exExecutedAt = [], exCorrelationId = None\<rparr>\<rparr>"

lemma t_compiles: "compile_agreement_processes t_env t_definition = Inr ()"
  by code_simp

lemma t_resolves: "resolve_location t_definition CreateLocation = Inr t_location"
  by code_simp

lemma t_runs: "run_processes t_env t_definition t_location t_context [''P1''] (None, [], []) =
    Inr (None, [(''P1'', [(''name'', JStr ''n'')])], [])"
  by code_simp

lemma t_depends: "process_dependencies (evParse t_env) (t_process ''$.outputs.P1.name'' ''schemeCode'') =
    Inr [(''P1'', Some ''name'')]"
  by code_simp

theorem process_reads_declared_outputs_witness:
  "\<exists>pd'. map_of (process_definitions t_definition) ''P1'' = Some pd' \<and> ''name'' \<in> fst ` set (or_empty (pdOutput pd'))"
proof -
  have l: "rlProcesses t_location = [''P1''] @ ''P2'' # []" by (simp add: t_location_def)
  have p: "map_of (process_definitions t_definition) ''P2'' = Some (t_process ''$.outputs.P1.name'' ''schemeCode'')"
    by (simp add: process_definitions_def t_definition_def)
  from process_reads_declared_outputs [OF t_compiles t_resolves l t_runs] show ?thesis
    using p t_depends by (auto simp: truthy_def)
qed

end
