(* ===== verification/Payments.thy ===== *)
theory Payments
  imports GrantResolution ProcessMapping "HOL-Library.Monad_Syntax"
begin

text \<open>
  Payments (\<open>src/payments\<close>): the immutable record of an amount owed (\<open>models/payment.js\<close>), the
  published definition that maps a snapshot of an Agreement or a Claim to it
  (\<open>models/payment-definition.js\<close>, \<open>schemas/payment-definition.schema.js\<close>), loading that definition
  (\<open>use-cases/load-payment-definition.js\<close>), raising the Payment once
  (\<open>find-or-create-payment.use-case.js\<close>, the two handlers, the repositories) and the message to the
  Payment Service (\<open>events/create-payment.event.js\<close>). Pence are integers: JavaScript's are exact up to
  \<open>2 ^ 53\<close>, which is what a number has to stay under to be accepted. The messages Joi adds to an
  error are given by the environment or left out.
\<close>

section \<open>Values\<close>

record invoice_line =
  nlSchemeCode :: string
  nlDescription :: string
  nlAmountPence :: int
  nlAccountCode :: string
  nlFundCode :: string
  nlDeliveryBody :: string
  nlMarketingYear :: string

record resolved_due =
  rdDueDate :: string
  rdTotalAmountPence :: int
  rdInvoiceLines :: "invoice_line list"

record resolved_payment =
  rpSbi :: string
  rpFrn :: string
  rpOriginalInvoiceNumber :: string
  rpScheme :: string
  rpSourceSystem :: string
  rpDeliveryBody :: string
  rpFesCode :: string
  rpLedger :: string
  rpTotalAmountPence :: int
  rpCurrency :: string
  rpMarketingYear :: string
  rpPayments :: "resolved_due list"

record due_payment =
  dyDueDate :: string
  dyTotalAmountPence :: int
  dyStatus :: string
  dyCorrelationId :: string
  dyInvoiceLines :: "invoice_line list"

datatype payment_source =
    AgreementSource string nat
  | ClaimSource (sourceCode: string) (sourceClientRef: string) (sourceClaimRef: string) (sourceEntitlementId: string)
      (sourceAgreementNumber: string) (sourceAgreementVersion: nat)

record payment =
  pyId :: string
  pySource :: payment_source
  pySbi :: string
  pyFrn :: string
  pyPaymentHubClaimId :: string
  pyScheme :: string
  pySourceSystem :: string
  pyDeliveryBody :: string
  pyFesCode :: string
  pyPaymentRequestNumber :: nat
  pyCorrelationId :: string
  pyInvoiceNumber :: string
  pyOriginalInvoiceNumber :: string
  pyLedger :: string
  pyTotalAmountPence :: int
  pyCurrency :: string
  pyMarketingYear :: string
  pyPayments :: "due_payment list"
  pyCreatedAt :: string

section \<open>The Payment\<close>

definition lines_total :: "invoice_line list \<Rightarrow> int" where
  "lines_total ls = sum_list (map nlAmountPence ls)"

definition invoice_line_schema :: "invoice_line \<Rightarrow> bool" where
  "invoice_line_schema l \<longleftrightarrow>
     nlSchemeCode l \<noteq> [] \<and> nlDescription l \<noteq> [] \<and> nlAccountCode l \<noteq> [] \<and> nlFundCode l \<noteq> []
     \<and> nlDeliveryBody l \<noteq> [] \<and> nlMarketingYear l \<noteq> []"

definition due_payment_schema :: "due_payment \<Rightarrow> bool" where
  "due_payment_schema d \<longleftrightarrow>
     dyDueDate d \<noteq> [] \<and> dyStatus d \<noteq> [] \<and> dyCorrelationId d \<noteq> [] \<and> dyInvoiceLines d \<noteq> []
     \<and> list_all invoice_line_schema (dyInvoiceLines d)"

definition balances_with_invoice_lines :: "due_payment list \<Rightarrow> bool" where
  "balances_with_invoice_lines ps \<longleftrightarrow> list_all (\<lambda>d. dyTotalAmountPence d = lines_total (dyInvoiceLines d)) ps"

definition source_schema :: "payment_source \<Rightarrow> bool" where
  "source_schema s \<longleftrightarrow>
     (case s of
        AgreementSource number version \<Rightarrow> number \<noteq> [] \<and> 1 \<le> version
      | ClaimSource code clientRef clientClaimRef entitlementId agreementNumber agreementVersion \<Rightarrow>
          code \<noteq> [] \<and> clientRef \<noteq> [] \<and> clientClaimRef \<noteq> [] \<and> entitlementId \<noteq> [] \<and> agreementNumber \<noteq> []
          \<and> 1 \<le> agreementVersion)"

definition payment_schema :: "payment \<Rightarrow> bool" where
  "payment_schema p \<longleftrightarrow>
     pyId p \<noteq> [] \<and> source_schema (pySource p) \<and> pySbi p \<noteq> [] \<and> pyFrn p \<noteq> [] \<and> pyPaymentHubClaimId p \<noteq> []
     \<and> pyScheme p \<noteq> [] \<and> pySourceSystem p \<noteq> [] \<and> pyDeliveryBody p \<noteq> [] \<and> pyFesCode p \<noteq> []
     \<and> 1 \<le> pyPaymentRequestNumber p \<and> pyCorrelationId p \<noteq> [] \<and> pyInvoiceNumber p \<noteq> [] \<and> pyLedger p \<noteq> []
     \<and> pyCurrency p \<noteq> [] \<and> pyMarketingYear p \<noteq> [] \<and> pyCreatedAt p \<noteq> []
     \<and> pyPayments p \<noteq> [] \<and> list_all due_payment_schema (pyPayments p)
     \<and> balances_with_invoice_lines (pyPayments p)
     \<and> sum_list (map dyTotalAmountPence (pyPayments p)) = pyTotalAmountPence p"

definition new_payment :: "payment \<Rightarrow> payment res" where
  "new_payment p = (if payment_schema p then Inr p else Inl (Boom BadRequest ''Invalid Payment'' []))"

fun application_of :: "payment_source \<Rightarrow> (string \<times> string) option" where
  "application_of (ClaimSource code clientRef _ _ _ _) = Some (code, clientRef)"
| "application_of (AgreementSource _ _) = None"

section \<open>Numbers of claims and invoices\<close>

definition pad_start :: "nat \<Rightarrow> nat \<Rightarrow> string" where
  "pad_start n k = replicate (n - length (show_nat k)) (CHR ''0'') @ show_nat k"

definition claim_id_padding :: nat where "claim_id_padding = 8"
definition invoice_number_padding :: nat where "invoice_number_padding = 3"

definition format_claim_id :: "nat \<Rightarrow> string" where
  "format_claim_id sequence = CHR ''R'' # pad_start claim_id_padding sequence"

definition format_invoice_number :: "string \<Rightarrow> nat \<Rightarrow> string" where
  "format_invoice_number claimId paymentRequestNumber =
     claimId @ ''-V'' @ pad_start invoice_number_padding paymentRequestNumber @ ''QX''"

section \<open>What a definition resolves to\<close>

definition max_safe_integer :: int where "max_safe_integer = 9007199254740991"

definition integer_value :: "js_number \<Rightarrow> int option" where
  "integer_value n =
     (let (p, q) = quotient_of (number_value n) in
      if n \<noteq> NotFinite \<and> q = 1 \<and> \<bar>p\<bar> \<le> max_safe_integer then Some p else None)"

definition text_of :: "(string \<times> json) list \<Rightarrow> string \<Rightarrow> string option" where
  "text_of es k = (case map_of es k of Some (JStr s) \<Rightarrow> if s = [] then None else Some s | _ \<Rightarrow> None)"

definition text_or_empty_of :: "(string \<times> json) list \<Rightarrow> string \<Rightarrow> string option" where
  "text_or_empty_of es k = (case map_of es k of Some (JStr s) \<Rightarrow> Some s | _ \<Rightarrow> None)"

definition pence_of :: "(string \<times> json) list \<Rightarrow> string \<Rightarrow> int option" where
  "pence_of es k = (case map_of es k of Some (JNum n) \<Rightarrow> integer_value n | _ \<Rightarrow> None)"

definition listed_of :: "(string \<times> json) list \<Rightarrow> string \<Rightarrow> json list option" where
  "listed_of es k = (case map_of es k of Some (JArr (x # xs)) \<Rightarrow> Some (x # xs) | _ \<Rightarrow> None)"

fun all_of :: "('a \<Rightarrow> 'b option) \<Rightarrow> 'a list \<Rightarrow> 'b list option" where
  "all_of f [] = Some []"
| "all_of f (x # xs) = (case f x of None \<Rightarrow> None | Some y \<Rightarrow> map_option (Cons y) (all_of f xs))"

definition invoice_line_fields :: "string list" where
  "invoice_line_fields = [''schemeCode'', ''description'', ''amountPence'', ''accountCode'', ''fundCode'',
     ''deliveryBody'', ''marketingYear'']"

definition due_payment_fields :: "string list" where
  "due_payment_fields = [''dueDate'', ''totalAmountPence'', ''invoiceLines'']"

definition mapping_fields :: "string list" where
  "mapping_fields = [''sbi'', ''frn'', ''originalInvoiceNumber'', ''scheme'', ''sourceSystem'', ''deliveryBody'',
     ''fesCode'', ''ledger'', ''totalAmountPence'', ''currency'', ''marketingYear'', ''payments'']"

definition only :: "string list \<Rightarrow> (string \<times> json) list \<Rightarrow> bool" where
  "only allowed es \<longleftrightarrow> list_all (\<lambda>(k, _). k \<in> set allowed) es"

definition read_invoice_line :: "json \<Rightarrow> invoice_line option" where
  "read_invoice_line v =
     (case v of
        JObj es \<Rightarrow> if \<not> only invoice_line_fields es then None else do {
          schemeCode \<leftarrow> text_of es ''schemeCode'';
          description \<leftarrow> text_of es ''description'';
          amountPence \<leftarrow> pence_of es ''amountPence'';
          accountCode \<leftarrow> text_of es ''accountCode'';
          fundCode \<leftarrow> text_of es ''fundCode'';
          deliveryBody \<leftarrow> text_of es ''deliveryBody'';
          marketingYear \<leftarrow> text_of es ''marketingYear'';
          Some \<lparr>nlSchemeCode = schemeCode, nlDescription = description, nlAmountPence = amountPence,
            nlAccountCode = accountCode, nlFundCode = fundCode, nlDeliveryBody = deliveryBody,
            nlMarketingYear = marketingYear\<rparr> }
      | _ \<Rightarrow> None)"

definition read_due_payment :: "json \<Rightarrow> resolved_due option" where
  "read_due_payment v =
     (case v of
        JObj es \<Rightarrow> if \<not> only due_payment_fields es then None else do {
          dueDate \<leftarrow> text_of es ''dueDate'';
          totalAmountPence \<leftarrow> pence_of es ''totalAmountPence'';
          listed \<leftarrow> listed_of es ''invoiceLines'';
          invoiceLines \<leftarrow> all_of read_invoice_line listed;
          Some \<lparr>rdDueDate = dueDate, rdTotalAmountPence = totalAmountPence, rdInvoiceLines = invoiceLines\<rparr> }
      | _ \<Rightarrow> None)"

definition resolved_balances :: "resolved_payment \<Rightarrow> bool" where
  "resolved_balances r \<longleftrightarrow>
     list_all (\<lambda>d. rdTotalAmountPence d = lines_total (rdInvoiceLines d)) (rpPayments r)
     \<and> rpTotalAmountPence r = sum_list (map rdTotalAmountPence (rpPayments r))"

definition read_resolved_payment :: "json option \<Rightarrow> resolved_payment option" where
  "read_resolved_payment v =
     (case v of
        Some (JObj es) \<Rightarrow> if \<not> only mapping_fields es then None else do {
          sbi \<leftarrow> text_of es ''sbi'';
          frn \<leftarrow> text_of es ''frn'';
          originalInvoiceNumber \<leftarrow> text_or_empty_of es ''originalInvoiceNumber'';
          scheme \<leftarrow> text_of es ''scheme'';
          sourceSystem \<leftarrow> text_of es ''sourceSystem'';
          deliveryBody \<leftarrow> text_of es ''deliveryBody'';
          fesCode \<leftarrow> text_of es ''fesCode'';
          ledger \<leftarrow> text_of es ''ledger'';
          totalAmountPence \<leftarrow> pence_of es ''totalAmountPence'';
          currency \<leftarrow> text_of es ''currency'';
          marketingYear \<leftarrow> text_of es ''marketingYear'';
          listed \<leftarrow> listed_of es ''payments'';
          payments \<leftarrow> all_of read_due_payment listed;
          let r = \<lparr>rpSbi = sbi, rpFrn = frn, rpOriginalInvoiceNumber = originalInvoiceNumber, rpScheme = scheme,
            rpSourceSystem = sourceSystem, rpDeliveryBody = deliveryBody, rpFesCode = fesCode, rpLedger = ledger,
            rpTotalAmountPence = totalAmountPence, rpCurrency = currency, rpMarketingYear = marketingYear,
            rpPayments = payments\<rparr> in
          if resolved_balances r then Some r else None }
      | _ \<Rightarrow> None)"

section \<open>A payment definition\<close>

function mapping_items :: "json \<Rightarrow> json list" and mapping_items_list :: "json list \<Rightarrow> json list" where
  "mapping_items (JArr xs) = mapping_items_list xs"
| "mapping_items (JObj es) =
     (if map_of es ''itemsRef'' \<noteq> None
      then (case map_of es ''items'' of None \<Rightarrow> [] | Some m \<Rightarrow> mapping_items m)
      else [JObj es])"
| "mapping_items JNull = [JNull]"
| "mapping_items (JBool b) = [JBool b]"
| "mapping_items (JNum n) = [JNum n]"
| "mapping_items (JStr s) = [JStr s]"
| "mapping_items_list [] = []"
| "mapping_items_list (x # xs) = mapping_items x @ mapping_items_list xs"
  by pat_completeness auto
termination
  by (relation "measure (\<lambda>p. case p of Inl v \<Rightarrow> 2 * size v | Inr vs \<Rightarrow> 2 * size_list size vs + 1)")
    (auto dest: map_of_smaller)

text \<open>The first of the results that is a name; a mapping that is absent has no items.\<close>

definition find_unknown_field ::
  "json option \<Rightarrow> string list \<Rightarrow> ((string \<times> json) list \<Rightarrow> string option) \<Rightarrow> string option" where
  "find_unknown_field mapping allowed findNestedField =
     (case List.map_filter (\<lambda>item. case item of
          JObj es \<Rightarrow> truthy (or_else (truthy (find (\<lambda>k. k \<notin> set allowed) (map fst es))) (findNestedField es))
        | _ \<Rightarrow> None) (case mapping of None \<Rightarrow> [] | Some m \<Rightarrow> mapping_items m) of
        [] \<Rightarrow> None
      | unknown # _ \<Rightarrow> Some unknown)"

definition find_unknown_invoice_line_field :: "json option \<Rightarrow> string option" where
  "find_unknown_invoice_line_field mapping = find_unknown_field mapping invoice_line_fields (\<lambda>_. None)"

definition find_unknown_due_payment_field :: "json option \<Rightarrow> string option" where
  "find_unknown_due_payment_field mapping =
     find_unknown_field mapping due_payment_fields (\<lambda>es.
       map_option (\<lambda>unknown. ''invoiceLines.'' @ unknown)
         (find_unknown_invoice_line_field (map_of es ''invoiceLines'')))"

record payment_definition =
  pdnCode :: string
  pdnMappings :: "(string \<times> json) list"

text \<open>
  What the module asks of others: JSONata over a context, the file of a version in S3, the messages of
  a shape that is not accepted, the text of a code that is none, ids and the clock, and what others
  commit between a handler's first read and its transaction and while the transaction is open.
\<close>

record payment_row =
  prCode :: string
  prVersion :: string
  prDefinition :: json

record payment_message =
  pmTopic :: string
  pmSegregationRef :: string
  pmRefs :: "(string \<times> string) option"
  pmEvent :: json

record payments_db =
  ydPayments :: "payment list"
  ydClaimIds :: "nat option"
  ydOutbox :: "payment_message list"
  ydCatalog :: "config_row list"
  ydDefinitions :: "payment_row list"
  ydCompiled :: "(string \<times> payment_definition) list"

record payments_env =
  yeEvaluate :: "json \<Rightarrow> json option \<Rightarrow> string \<Rightarrow> json option res"
  yeCompile :: "string \<Rightarrow> unit res"
  yeFetch :: "string option \<Rightarrow> string option \<Rightarrow> json res"
  yeShapeMessage :: "json \<Rightarrow> string"
  yeResolvedMessage :: "json option \<Rightarrow> string"
  yeCodeText :: "json \<Rightarrow> string"
  yeNow :: string
  yePaymentId :: string
  yeDueId :: "nat \<Rightarrow> string"
  yeTopic :: string
  yeMeanwhile :: "payments_db \<Rightarrow> payments_db"
  yeDuring :: "payments_db \<Rightarrow> payments_db"

definition code_text :: "payments_env \<Rightarrow> json \<Rightarrow> string" where
  "code_text env raw =
     (case raw of
        JObj es \<Rightarrow> (case map_of es ''code'' of
            None \<Rightarrow> ''undefined'' | Some (JStr s) \<Rightarrow> s | Some v \<Rightarrow> yeCodeText env v)
      | _ \<Rightarrow> ''undefined'')"

definition invalid_payment_definition :: "string \<Rightarrow> string \<Rightarrow> js_error" where
  "invalid_payment_definition code message =
     Boom BadImplementation (''Invalid Payment definition '' @ quoted code @ '': '' @ message) []"

definition invalid_payment_mapping :: "string \<Rightarrow> string \<Rightarrow> js_error" where
  "invalid_payment_mapping code message =
     Boom BadImplementation (''Payment mapping failed for '' @ quoted code @ '': '' @ message) []"

definition payment_definition_shape :: "(string \<times> json) list \<Rightarrow> string option" where
  "payment_definition_shape es =
     (if only (''code'' # mapping_fields) es \<and> list_all (\<lambda>k. map_of es k \<noteq> None) mapping_fields
      then text_of es ''code'' else None)"

definition select_mappings :: "(string \<times> json) list \<Rightarrow> (string \<times> json) list" where
  "select_mappings es = List.map_filter (\<lambda>k. map_option (Pair k) (map_of es k)) mapping_fields"

definition new_payment_definition :: "payments_env \<Rightarrow> json \<Rightarrow> payment_definition res" where
  "new_payment_definition env raw =
     (let invalid = (\<lambda>message. Inl (invalid_payment_definition (code_text env raw) message)) in
      case raw of
        JObj es \<Rightarrow>
          (case payment_definition_shape es of
             None \<Rightarrow> invalid (yeShapeMessage env raw)
           | Some code \<Rightarrow>
               let mappings = select_mappings es in
               (case validate_mapping (yeCompile env) (JObj mappings) of
                  Inl e \<Rightarrow> invalid (error_message e)
                | Inr _ \<Rightarrow>
                    (case find_unknown_due_payment_field (map_of mappings ''payments'') of
                       Some unknown \<Rightarrow> invalid (quoted (''payments.'' @ unknown) @ '' is not allowed'')
                     | None \<Rightarrow> Inr \<lparr>pdnCode = code, pdnMappings = mappings\<rparr>)))
      | _ \<Rightarrow> invalid ''Payment definition must be an object'')"

definition resolve_payment :: "payments_env \<Rightarrow> payment_definition \<Rightarrow> json \<Rightarrow> resolved_payment res" where
  "resolve_payment env d context =
     (case resolve_process_mapping (yeEvaluate env context) False (JObj (pdnMappings d)) of
        Inl e \<Rightarrow> Inl (invalid_payment_mapping (pdnCode d) (error_message e))
      | Inr resolved \<Rightarrow>
          (case read_resolved_payment resolved of
             None \<Rightarrow> Inl (invalid_payment_mapping (pdnCode d) (yeResolvedMessage env resolved))
           | Some r \<Rightarrow> Inr r))"

definition compile_payment_definition :: "payments_env \<Rightarrow> json \<Rightarrow> string \<Rightarrow> payment_definition res" where
  "compile_payment_definition env raw code =
     bind_res (new_payment_definition env raw) (\<lambda>d.
     if pdnCode d \<noteq> code
     then Inl (Boom BadImplementation (''Payment definition code '' @ quoted (pdnCode d) @ '' does not match ''
            @ quoted code) [])
     else Inr d)"

section \<open>Loading a definition\<close>

definition payment_definition_unavailable :: "string \<Rightarrow> string \<Rightarrow> js_error" where
  "payment_definition_unavailable code version =
     mark_permanent_failure (Boom BadImplementation (''Payment definition '' @ quoted code @ '' version '' @ quoted version
       @ '' is unavailable'') [])"

definition update_payment_status ::
  "payments_env \<Rightarrow> config_definition \<Rightarrow> fetch_status \<Rightarrow> string option \<Rightarrow> (payments_db, unit) action" where
  "update_payment_status env t status error =
     writes (\<lambda>db. db\<lparr>ydCatalog :=
       update_definition_fetch_status (cdGrantCode t) (cdVersion t) PaymentFile status error (yeNow env) (ydCatalog db)\<rparr>)"

definition payment_failure_status :: "js_error \<Rightarrow> fetch_status" where
  "payment_failure_status e =
     (if is_s3_error e
      then (if s3_is_permanent e \<or> s3_is_parse_error e then FetchPermanent else FetchTransient)
      else if is_boom e then FetchPermanent else FetchTransient)"

definition find_payment_definition :: "string \<Rightarrow> string \<Rightarrow> payments_db \<Rightarrow> json option" where
  "find_payment_definition code version db =
     (case map_option prDefinition (find (\<lambda>r. prCode r = code \<and> prVersion r = version) (ydDefinitions db)) of
        Some JNull \<Rightarrow> None
      | found \<Rightarrow> found)"

text \<open>Inside a transaction (\<open>session\<close>) a version stored first by someone else is thrown.\<close>

definition insert_payment_definition :: "bool \<Rightarrow> string \<Rightarrow> string \<Rightarrow> json \<Rightarrow> (payments_db, unit) action" where
  "insert_payment_definition session code version raw = (\<lambda>db.
     if find (\<lambda>r. prCode r = code \<and> prVersion r = version) (ydDefinitions db) \<noteq> None
     then (if session then Inl (DuplicateKey [''code'', ''version'']) else Inr (), db)
     else (Inr (), db\<lparr>ydDefinitions := ydDefinitions db @ [\<lparr>prCode = code, prVersion = version, prDefinition = raw\<rparr>]\<rparr>))"

definition compile_and_store ::
  "payments_env \<Rightarrow> config_definition \<Rightarrow> string \<Rightarrow> string \<Rightarrow> (payments_db, payment_definition) action" where
  "compile_and_store env t code cacheKey =
     andThen (reads (find_payment_definition (cdGrantCode t) (cdVersion t))) (\<lambda>stored.
     andThen (lift_res (case stored of Some raw \<Rightarrow> Inr raw
                        | None \<Rightarrow> yeFetch env (cdS3Bucket t) (fsS3Key (cdFile t)))) (\<lambda>raw.
     andThen (lift_res (compile_payment_definition env raw code)) (\<lambda>d.
     andThen (if stored \<noteq> None then ret ()
              else insert_payment_definition False (cdGrantCode t) (cdVersion t) raw) (\<lambda>_.
     andThen (if fsFetchStatus (cdFile t) = Fetched then ret () else update_payment_status env t Fetched None) (\<lambda>_.
     andThen (writes (\<lambda>db. db\<lparr>ydCompiled := obj_put cacheKey d (ydCompiled db)\<rparr>)) (\<lambda>_.
     ret d))))))"

definition load_payment ::
  "payments_env \<Rightarrow> config_definition \<Rightarrow> string \<Rightarrow> string \<Rightarrow> (payments_db, payment_definition) action" where
  "load_payment env t code cacheKey =
     catch (compile_and_store env t code cacheKey)
       (\<lambda>e. andThen (update_payment_status env t (payment_failure_status e) (Some (error_message e))) (\<lambda>_.
         throw (if payment_failure_status e = FetchPermanent then mark_permanent_failure e else e)))"

definition load_payment_compiled ::
  "payments_env \<Rightarrow> config_definition \<Rightarrow> string \<Rightarrow> string \<Rightarrow> (payments_db, payment_definition) action" where
  "load_payment_compiled env t code cacheKey = (\<lambda>db.
     case map_of (ydCompiled db) cacheKey of
       Some d \<Rightarrow> (Inr d, db)
     | None \<Rightarrow> load_payment env t code cacheKey db)"

definition load_payment_definition ::
  "payments_env \<Rightarrow> string \<Rightarrow> string \<Rightarrow> (payments_db, payment_definition) action" where
  "load_payment_definition env code version =
     andThen (reads (\<lambda>db. find_config_definition code version PaymentFile (ydCatalog db))) (\<lambda>found.
     case found of
       None \<Rightarrow> throw (payment_definition_unavailable code version)
     | Some t \<Rightarrow>
         if fsFetchStatus (cdFile t) = FetchPermanent then throw (payment_definition_unavailable code version)
         else load_payment_compiled env t code (at_version code version))"

definition store_payment_definition ::
  "payments_env \<Rightarrow> bool \<Rightarrow> string \<Rightarrow> string \<Rightarrow> json \<Rightarrow> (payments_db, unit) action" where
  "store_payment_definition env session grantCode version raw =
     andThen (lift_res (compile_payment_definition env raw grantCode)) (\<lambda>_.
     insert_payment_definition session grantCode version raw)"

definition resolve_payment_definition ::
  "payments_env \<Rightarrow> string \<Rightarrow> string \<Rightarrow> json \<Rightarrow> (payments_db, resolved_payment) action" where
  "resolve_payment_definition env code version context =
     andThen (load_payment_definition env code version) (\<lambda>d. lift_res (resolve_payment env d context))"

section \<open>Building a Payment\<close>

definition payment_request_number :: nat where "payment_request_number = 1"
definition pending :: string where "pending = ''pending''"

text \<open>The Correlation ID comes from a snapshot: what is no text is refused with the rest of the shape.\<close>

definition require_correlation_id :: "json option \<Rightarrow> string res" where
  "require_correlation_id v =
     (if \<not> json_truthy v then Inl (Boom BadImplementation ''createPayment requires the Correlation ID'' [])
      else case v of Some (JStr s) \<Rightarrow> Inr s | _ \<Rightarrow> Inl (Boom BadRequest ''Invalid Payment'' []))"

definition to_due_payment :: "payments_env \<Rightarrow> nat \<times> resolved_due \<Rightarrow> due_payment" where
  "to_due_payment env = (\<lambda>(i, d). \<lparr>dyDueDate = rdDueDate d, dyTotalAmountPence = rdTotalAmountPence d,
     dyStatus = pending, dyCorrelationId = yeDueId env i, dyInvoiceLines = rdInvoiceLines d\<rparr>)"

definition build_payment ::
  "payments_env \<Rightarrow> payment_source \<Rightarrow> json option \<Rightarrow> resolved_payment \<Rightarrow> string \<Rightarrow> payment res" where
  "build_payment env source correlationId r paymentHubClaimId =
     bind_res (require_correlation_id correlationId) (\<lambda>correlation.
     new_payment \<lparr>pyId = yePaymentId env, pySource = source, pySbi = rpSbi r, pyFrn = rpFrn r,
       pyPaymentHubClaimId = paymentHubClaimId, pyScheme = rpScheme r, pySourceSystem = rpSourceSystem r,
       pyDeliveryBody = rpDeliveryBody r, pyFesCode = rpFesCode r, pyPaymentRequestNumber = payment_request_number,
       pyCorrelationId = correlation,
       pyInvoiceNumber = format_invoice_number paymentHubClaimId payment_request_number,
       pyOriginalInvoiceNumber = rpOriginalInvoiceNumber r, pyLedger = rpLedger r,
       pyTotalAmountPence = rpTotalAmountPence r, pyCurrency = rpCurrency r, pyMarketingYear = rpMarketingYear r,
       pyPayments = map (to_due_payment env) (enumerate 0 (rpPayments r)), pyCreatedAt = yeNow env\<rparr>)"

section \<open>The repository\<close>

text \<open>What identifies a source, as the unique indexes have it.\<close>

datatype payment_key = AgreementKey string nat | ClaimKey string string string

fun source_key :: "payment_source \<Rightarrow> payment_key" where
  "source_key (AgreementSource number version) = AgreementKey number version"
| "source_key (ClaimSource code clientRef clientClaimRef _ _ _) = ClaimKey code clientRef clientClaimRef"

fun source_index :: "payment_source \<Rightarrow> string list" where
  "source_index (AgreementSource _ _) = [''source.agreementNumber'', ''source.version'']"
| "source_index (ClaimSource _ _ _ _ _ _) = [''source.code'', ''source.clientRef'', ''source.clientClaimRef'']"

text \<open>A stored document is checked again as it is read.\<close>

definition find_payment_by_source :: "payment_source \<Rightarrow> payments_db \<Rightarrow> payment option res" where
  "find_payment_by_source source db =
     (case find (\<lambda>p. source_key (pySource p) = source_key source) (ydPayments db) of
        None \<Rightarrow> Inr None
      | Some p \<Rightarrow> bind_res (new_payment p) (\<lambda>q. Inr (Some q)))"

definition lookup_payment :: "payment_source \<Rightarrow> (payments_db, payment option) action" where
  "lookup_payment source = andThen (reads (find_payment_by_source source)) lift_res"

definition insert_payment :: "payment \<Rightarrow> (payments_db, unit) action" where
  "insert_payment p = (\<lambda>db.
     if pyId p \<in> set (map pyId (ydPayments db)) then (Inl (DuplicateKey [''_id'']), db)
     else if source_key (pySource p) \<in> set (map (\<lambda>q. source_key (pySource q)) (ydPayments db))
     then (Inl (DuplicateKey (source_index (pySource p))), db)
     else (Inr (), db\<lparr>ydPayments := ydPayments db @ [p]\<rparr>))"

definition find_claim_payment_client_claim_refs :: "string \<Rightarrow> string \<Rightarrow> payments_db \<Rightarrow> string set" where
  "find_claim_payment_client_claim_refs code clientRef db =
     set (List.map_filter (\<lambda>p. case pySource p of
         ClaimSource c r claimRef _ _ _ \<Rightarrow> if c = code \<and> r = clientRef then Some claimRef else None
       | _ \<Rightarrow> None) (ydPayments db))"

definition find_stored_versions :: "string \<Rightarrow> string list \<Rightarrow> payments_db \<Rightarrow> string list" where
  "find_stored_versions code versions db =
     map prVersion (filter (\<lambda>r. prCode r = code \<and> prVersion r \<in> set versions) (ydDefinitions db))"

definition next_sequence :: "nat option \<Rightarrow> nat" where
  "next_sequence counter = (case counter of None \<Rightarrow> 1 | Some n \<Rightarrow> n + 1)"

definition allocate_next_sequence :: "(payments_db, nat) action" where
  "allocate_next_sequence = (\<lambda>db.
     (Inr (next_sequence (ydClaimIds db)), db\<lparr>ydClaimIds := Some (next_sequence (ydClaimIds db))\<rparr>))"

section \<open>The message to the Payment Service\<close>

definition to_pence :: "int \<Rightarrow> string" where
  "to_pence n = (if n < 0 then CHR ''-'' # show_nat (nat (- n)) else show_nat (nat n))"

definition to_invoice_line :: "invoice_line \<Rightarrow> json" where
  "to_invoice_line l = JObj
     [(''accountCode'', JStr (nlAccountCode l)), (''amountPence'', JStr (to_pence (nlAmountPence l))),
      (''deliveryBody'', JStr (nlDeliveryBody l)), (''description'', JStr (nlDescription l)),
      (''fundCode'', JStr (nlFundCode l)), (''marketingYear'', JStr (nlMarketingYear l)),
      (''schemeCode'', JStr (nlSchemeCode l))]"

definition to_due_payment_message :: "due_payment \<Rightarrow> json" where
  "to_due_payment_message d = JObj
     [(''dueDate'', JStr (dyDueDate d)), (''totalAmountPence'', JStr (to_pence (dyTotalAmountPence d))),
      (''status'', JStr (dyStatus d)), (''correlationId'', JStr (dyCorrelationId d)),
      (''invoiceLines'', JArr (map to_invoice_line (dyInvoiceLines d)))]"

fun agreement_number_of :: "payment_source \<Rightarrow> string" where
  "agreement_number_of (AgreementSource number _) = number"
| "agreement_number_of (ClaimSource _ _ _ _ number _) = number"

definition to_grant :: "payment \<Rightarrow> json" where
  "to_grant p = JObj
     [(''sourceSystem'', JStr (pySourceSystem p)), (''deliveryBody'', JStr (pyDeliveryBody p)),
      (''fesCode'', JStr (pyFesCode p)),
      (''paymentRequestNumber'', JNum (Finite (int (pyPaymentRequestNumber p)) 0 0)),
      (''correlationId'', JStr (pyCorrelationId p)), (''invoiceNumber'', JStr (pyInvoiceNumber p)),
      (''ledger'', JStr (pyLedger p)), (''originalInvoiceNumber'', JStr (pyOriginalInvoiceNumber p)),
      (''agreementNumber'', JStr (agreement_number_of (pySource p))),
      (''totalAmountPence'', JStr (to_pence (pyTotalAmountPence p))), (''currency'', JStr (pyCurrency p)),
      (''marketingYear'', JStr (pyMarketingYear p)), (''payments'', JArr (map to_due_payment_message (pyPayments p)))]"

definition create_payment_type :: string where "create_payment_type = ''io.onsite.agreement.create-payment''"
definition create_payment_source :: string where "create_payment_source = ''urn:service:agreement''"

text \<open>The envelope without its id and its time.\<close>

definition create_payment_event :: "payment \<Rightarrow> json" where
  "create_payment_event p = JObj
     [(''source'', JStr create_payment_source), (''specversion'', JStr ''1.0''), (''type'', JStr create_payment_type),
      (''datacontenttype'', JStr ''application/json''),
      (''data'', JObj [(''sbi'', JStr (pySbi p)), (''frn'', JStr (pyFrn p)), (''claimId'', JStr (pyPaymentHubClaimId p)),
         (''scheme'', JStr (pyScheme p)), (''grants'', JArr [to_grant p])])]"

fun payment_segregation_ref :: "payment_source \<Rightarrow> string" where
  "payment_segregation_ref (ClaimSource _ clientRef _ _ _ _) = clientRef"
| "payment_segregation_ref (AgreementSource number _) = number"

definition create_payment_publication :: "payments_env \<Rightarrow> payment \<Rightarrow> payment_message" where
  "create_payment_publication env p =
     \<lparr>pmTopic = yeTopic env, pmSegregationRef = payment_segregation_ref (pySource p),
      pmRefs = application_of (pySource p), pmEvent = create_payment_event p\<rparr>"

section \<open>Raising a Payment\<close>

text \<open>
  While the transaction is open others may commit, unseen by its first read but met by the unique
  indexes and the counter; when it fails, what it did is undone and what others did stays.
\<close>

definition find_or_create_payment ::
  "payments_env \<Rightarrow> payment_source \<Rightarrow> json option \<Rightarrow> resolved_payment \<Rightarrow> (payments_db, payment) action" where
  "find_or_create_payment env source correlationId r =
     andThen (lookup_payment source) (\<lambda>existing.
     case existing of
       Some p \<Rightarrow> ret p
     | None \<Rightarrow>
         andThen (writes (yeDuring env)) (\<lambda>_.
         andThen allocate_next_sequence (\<lambda>sequence.
         andThen (lift_res (build_payment env source correlationId r (format_claim_id sequence))) (\<lambda>p.
         andThen (insert_payment p) (\<lambda>_.
         andThen (writes (\<lambda>db. db\<lparr>ydOutbox := ydOutbox db @ [create_payment_publication env p]\<rparr>)) (\<lambda>_.
         ret p))))))"

definition payment_transaction :: "payments_env \<Rightarrow> (payments_db, 'a) action \<Rightarrow> (payments_db, 'a) action" where
  "payment_transaction env m = (\<lambda>db. case m db of (Inr x, t) \<Rightarrow> (Inr x, t) | (Inl e, _) \<Rightarrow> (Inl e, yeDuring env db))"

definition is_source_duplicate :: "payment_source \<Rightarrow> js_error \<Rightarrow> bool" where
  "is_source_duplicate source e \<longleftrightarrow>
     (case e of DuplicateKey keys \<Rightarrow> set (source_index source) \<subseteq> set keys | _ \<Rightarrow> False)"

definition recover_source_duplicate :: "payment_source \<Rightarrow> js_error \<Rightarrow> (payments_db, payment) action" where
  "recover_source_duplicate source e =
     (if \<not> is_source_duplicate source e then throw e
      else andThen (lookup_payment source) (\<lambda>winner.
        case winner of Some p \<Rightarrow> ret p | None \<Rightarrow> throw e))"

definition raise_payment ::
  "payments_env \<Rightarrow> payment_source \<Rightarrow> string \<Rightarrow> string \<Rightarrow> json \<Rightarrow> json option \<Rightarrow> (payments_db, payment) action" where
  "raise_payment env source code version context correlationId =
     andThen (lookup_payment source) (\<lambda>existing.
     case existing of
       Some p \<Rightarrow> ret p
     | None \<Rightarrow>
         andThen (resolve_payment_definition env code version context) (\<lambda>r.
         andThen (writes (yeMeanwhile env)) (\<lambda>_.
         catch (payment_transaction env (find_or_create_payment env source correlationId r))
           (recover_source_duplicate source))))"

text \<open>A request as its message has it; the snapshot is an object.\<close>

record agreement_request =
  arNumber :: string
  arVersion :: nat
  arCode :: string
  arConfigVersion :: string
  arExecutedAt :: string
  arSnapshot :: "(string \<times> json) list"

record claim_request =
  clrCode :: string
  clrClientRef :: string
  clrClientClaimRef :: string
  clrEntitlementId :: string
  clrAgreementNumber :: string
  clrAgreementVersion :: nat
  clrCorrelationId :: "json option"
  clrConfigVersion :: string
  clrExecutedAt :: string
  clrSnapshot :: json

definition executed_at :: "string \<Rightarrow> json" where
  "executed_at t = JObj [(''executedAt'', JStr t)]"

definition agreement_payment_source :: "agreement_request \<Rightarrow> payment_source" where
  "agreement_payment_source rq = AgreementSource (arNumber rq) (arVersion rq)"

definition handle_agreement_payment_requested ::
  "payments_env \<Rightarrow> agreement_request \<Rightarrow> (payments_db, payment) action" where
  "handle_agreement_payment_requested env rq =
     raise_payment env (agreement_payment_source rq) (arCode rq) (arConfigVersion rq)
       (JObj [(''agreement'', JObj (arSnapshot rq)), (''execution'', executed_at (arExecutedAt rq))])
       (map_of (arSnapshot rq) ''correlationId'')"

definition claim_payment_source :: "claim_request \<Rightarrow> payment_source" where
  "claim_payment_source rq = ClaimSource (clrCode rq) (clrClientRef rq) (clrClientClaimRef rq) (clrEntitlementId rq)
     (clrAgreementNumber rq) (clrAgreementVersion rq)"

definition handle_claim_payment_requested ::
  "payments_env \<Rightarrow> claim_request \<Rightarrow> (payments_db, payment) action" where
  "handle_claim_payment_requested env rq =
     raise_payment env (claim_payment_source rq) (clrCode rq) (clrConfigVersion rq)
       (JObj [(''claim'', clrSnapshot rq), (''execution'', executed_at (clrExecutedAt rq))])
       (clrCorrelationId rq)"

text \<open>The handlers the module registers, by the type of the event.\<close>

datatype payment_event = AgreementPaymentEvent agreement_request | ClaimPaymentEvent claim_request

fun handle_payment_event :: "payments_env \<Rightarrow> payment_event \<Rightarrow> (payments_db, payment) action" where
  "handle_payment_event env (AgreementPaymentEvent rq) = handle_agreement_payment_requested env rq"
| "handle_payment_event env (ClaimPaymentEvent rq) = handle_claim_payment_requested env rq"

fun event_source :: "payment_event \<Rightarrow> payment_source" where
  "event_source (AgreementPaymentEvent rq) = agreement_payment_source rq"
| "event_source (ClaimPaymentEvent rq) = claim_payment_source rq"

end
