(* ===== verification/PaymentLaws.thy ===== *)
theory PaymentLaws
  imports Payments ResolutionLaws Digits
begin

text \<open>
  What raising a Payment promises: one Payment for a source, a claim id of its own, amounts that
  balance and one message, whatever others commit while a request is being answered.
\<close>

section \<open>Claim ids\<close>

lemma pad_start_parses: "parse_int (pad_start k n) = n"
  by (simp add: pad_start_def parse_leading_zeros parse_show_nat)

lemma format_claim_id_eq [simp]: "format_claim_id m = format_claim_id n \<longleftrightarrow> m = n"
proof
  assume "format_claim_id m = format_claim_id n"
  then have "parse_int (pad_start claim_id_padding m) = parse_int (pad_start claim_id_padding n)"
    by (simp add: format_claim_id_def)
  then show "m = n" by (simp add: pad_start_parses)
qed simp

section \<open>The ledger\<close>

definition key_of :: "payment \<Rightarrow> payment_key" where
  "key_of p = source_key (pySource p)"

definition claim_ids_ok :: "payment list \<Rightarrow> nat option \<Rightarrow> bool" where
  "claim_ids_ok ps counter \<longleftrightarrow>
     distinct (map pyPaymentHubClaimId ps)
     \<and> (\<forall>p\<in>set ps. \<exists>n < next_sequence counter. pyPaymentHubClaimId p = format_claim_id n)"

definition payments_ok :: "payments_env \<Rightarrow> payments_db \<Rightarrow> bool" where
  "payments_ok env db \<longleftrightarrow>
     distinct (map pyId (ydPayments db)) \<and> distinct (map key_of (ydPayments db))
     \<and> claim_ids_ok (ydPayments db) (ydClaimIds db) \<and> (\<forall>p\<in>set (ydPayments db). payment_schema p)
     \<and> ydOutbox db = map (create_payment_publication env) (ydPayments db)"

lemma key_of_unique:
  assumes "payments_ok env db" and "p \<in> set (ydPayments db)" and "q \<in> set (ydPayments db)" and "key_of p = key_of q"
  shows "p = q"
  using assms unfolding payments_ok_def by (metis distinct_map inj_on_eq_iff)

lemma found_payment:
  assumes "payments_ok env db" and "p \<in> set (ydPayments db)" and "key_of p = source_key source"
  shows "find_payment_by_source source db = Inr (Some p)"
proof -
  obtain q where q: "find (\<lambda>p. source_key (pySource p) = source_key source) (ydPayments db) = Some q"
    using assms(2,3) by (cases "find (\<lambda>p. source_key (pySource p) = source_key source) (ydPayments db)")
      (auto simp: find_None_iff key_of_def)
  then have "q \<in> set (ydPayments db)" "key_of q = source_key source"
    by (auto dest!: find_SomeD simp: key_of_def)
  then have "q = p" using key_of_unique [OF assms(1) _ assms(2)] assms(3) by simp
  then show ?thesis using q assms(1,2) by (auto simp: find_payment_by_source_def new_payment_def payments_ok_def)
qed

lemma find_payment_cases:
  assumes "payments_ok env db"
  obtains "find_payment_by_source source db = Inr None" "\<And>p. p \<in> set (ydPayments db) \<Longrightarrow> key_of p \<noteq> source_key source"
  | p where "find_payment_by_source source db = Inr (Some p)" "p \<in> set (ydPayments db)" "key_of p = source_key source"
proof (cases "\<exists>p\<in>set (ydPayments db). key_of p = source_key source")
  case True
  then show ?thesis using found_payment [OF assms] that(2) by blast
next
  case False
  then have "find (\<lambda>p. source_key (pySource p) = source_key source) (ydPayments db) = None"
    by (auto simp: find_None_iff key_of_def)
  then show ?thesis using False that(1) by (auto simp: find_payment_by_source_def)
qed

lemma lookup_payment_run: "lookup_payment source db = (find_payment_by_source source db, db)"
  by (simp add: lookup_payment_def)

section \<open>Loading a definition leaves the ledger\<close>

definition ledger_part :: "payments_db \<Rightarrow> payment list \<times> nat option \<times> payment_message list" where
  "ledger_part db = (ydPayments db, ydClaimIds db, ydOutbox db)"

lemma payments_ok_part: "ledger_part db = ledger_part db' \<Longrightarrow> payments_ok env db \<longleftrightarrow> payments_ok env db'"
  by (simp add: ledger_part_def payments_ok_def)

lemma load_keeps:
  assumes rows: "\<And>s rows. P s \<Longrightarrow> P (s\<lparr>ydCatalog := rows\<rparr>)"
    and stored: "\<And>s ds. P s \<Longrightarrow> P (s\<lparr>ydDefinitions := ds\<rparr>)"
    and compiled: "\<And>s cs. P s \<Longrightarrow> P (s\<lparr>ydCompiled := cs\<rparr>)"
  shows "keeps P (load_payment_definition env code version)"
proof -
  have up: "keeps P (update_payment_status env t st e)" for t st e
    using rows by (simp add: keeps_def update_payment_status_def)
  have ins: "keeps P (insert_payment_definition b c v raw)" for b c v raw
    using stored by (simp add: keeps_def insert_payment_definition_def)
  have put: "keeps P (writes (\<lambda>db. db\<lparr>ydCompiled := obj_put k d (ydCompiled db)\<rparr>))" for k d
    using compiled by (simp add: keeps_def)
  have cs: "keeps P (compile_and_store env t code k)" for t k
    unfolding compile_and_store_def by (intro keeps_andThen keeps_if keeps_basic up ins put)
  have ld: "keeps P (load_payment env t code k)" for t k
    unfolding load_payment_def by (intro keeps_catch keeps_andThen keeps_basic cs up)
  have lc: "keeps P (load_payment_compiled env t code k)" for t k
    using ld [of t k] by (simp add: load_payment_compiled_def keeps_def split: option.splits)
  show ?thesis unfolding load_payment_definition_def
    by (intro keeps_andThen keeps_option keeps_if keeps_basic lc)
qed

lemma resolve_keeps_ledger:
  "ledger_part (snd (resolve_payment_definition env code version context db)) = ledger_part db"
proof -
  have "keeps (\<lambda>s. ledger_part s = ledger_part db) (load_payment_definition env code version)"
    by (rule load_keeps) (simp_all add: ledger_part_def)
  then have "keeps (\<lambda>s. ledger_part s = ledger_part db) (resolve_payment_definition env code version context)"
    unfolding resolve_payment_definition_def by (intro keeps_andThen keeps_basic)
  then show ?thesis by (simp add: keeps_def)
qed

section \<open>Raising a Payment\<close>

text \<open>What others commit keeps the ledger in order and takes nothing out of it.\<close>

definition grows :: "payments_env \<Rightarrow> (payments_db \<Rightarrow> payments_db) \<Rightarrow> bool" where
  "grows env f \<longleftrightarrow>
     (\<forall>db. payments_ok env db \<longrightarrow> payments_ok env (f db) \<and> set (ydPayments db) \<subseteq> set (ydPayments (f db)))"

lemma growsD:
  assumes "grows env f" and "payments_ok env db"
  shows "payments_ok env (f db)" and "set (ydPayments db) \<subseteq> set (ydPayments (f db))"
  using assms by (auto simp: grows_def)

lemma build_payment_Inr:
  assumes "build_payment env source correlationId r cid = Inr p"
  shows "payment_schema p" and "pySource p = source" and "pyPaymentHubClaimId p = cid"
  using assms by (auto simp: build_payment_def new_payment_def bind_res_Inr split: if_splits)

lemma insert_payment_Inr:
  "insert_payment p db = (Inr u, db') \<longleftrightarrow>
     pyId p \<notin> pyId ` set (ydPayments db) \<and> key_of p \<notin> key_of ` set (ydPayments db)
     \<and> db' = db\<lparr>ydPayments := ydPayments db @ [p]\<rparr>"
  by (auto simp: insert_payment_def key_of_def)

lemma raised_ok:
  assumes ok: "payments_ok env db" and schema: "payment_schema p"
    and cid: "pyPaymentHubClaimId p = format_claim_id (next_sequence (ydClaimIds db))"
    and new: "pyId p \<notin> pyId ` set (ydPayments db)" "key_of p \<notin> key_of ` set (ydPayments db)"
  shows "payments_ok env (db\<lparr>ydClaimIds := Some (next_sequence (ydClaimIds db)), ydPayments := ydPayments db @ [p],
    ydOutbox := ydOutbox db @ [create_payment_publication env p]\<rparr>)"
proof -
  let ?n = "next_sequence (ydClaimIds db)"
  have ids: "claim_ids_ok (ydPayments db) (ydClaimIds db)" using ok by (simp add: payments_ok_def)
  then have fresh: "pyPaymentHubClaimId p \<notin> pyPaymentHubClaimId ` set (ydPayments db)"
    by (auto simp: claim_ids_ok_def cid)
  have next_claim: "next_sequence (Some ?n) = Suc ?n" by (simp add: next_sequence_def)
  have "claim_ids_ok (ydPayments db @ [p]) (Some ?n)"
    using ids fresh cid unfolding claim_ids_ok_def next_claim
    by (auto intro: less_SucI)
  then show ?thesis using ok schema new by (auto simp: payments_ok_def)
qed

text \<open>How a transaction ends: an earlier Payment is answered, one is added to what others committed, or
  only their work stays.\<close>

lemma payment_transaction_cases:
  assumes ok: "payments_ok env db" and during: "grows env (yeDuring env)"
  obtains
    p where "payment_transaction env (find_or_create_payment env source cid r) db = (Inr p, db)"
      "p \<in> set (ydPayments db)" "key_of p = source_key source"
  | p db' where "payment_transaction env (find_or_create_payment env source cid r) db = (Inr p, db')"
      "payments_ok env db'" "ydPayments db' = ydPayments (yeDuring env db) @ [p]" "key_of p = source_key source"
  | e where "payment_transaction env (find_or_create_payment env source cid r) db = (Inl e, yeDuring env db)"
proof (cases rule: find_payment_cases [OF ok, of source])
  case (2 p)
  then show ?thesis using that(1)
    by (simp add: payment_transaction_def find_or_create_payment_def lookup_payment_run)
next
  case 1
  let ?d = "yeDuring env db" and ?n = "next_sequence (ydClaimIds (yeDuring env db))"
  let ?e = "?d\<lparr>ydClaimIds := Some ?n\<rparr>"
  let ?b = "build_payment env source cid r (format_claim_id ?n)"
  have run: "find_or_create_payment env source cid r db =
      andThen (lift_res ?b) (\<lambda>p. andThen (insert_payment p)
        (\<lambda>_. andThen (writes (\<lambda>db. db\<lparr>ydOutbox := ydOutbox db @ [create_payment_publication env p]\<rparr>)) (\<lambda>_. ret p))) ?e"
    using 1 by (simp add: find_or_create_payment_def lookup_payment_run allocate_next_sequence_def)
  show ?thesis
  proof (cases ?b)
    case (Inl err)
    then show ?thesis using that(3) by (simp add: payment_transaction_def run)
  next
    case (Inr p)
    show ?thesis
    proof (cases "insert_payment p ?e")
      case (Pair a e')
      show ?thesis
      proof (cases a)
        case (Inl err)
        then show ?thesis using that(3) \<open>?b = Inr p\<close> Pair by (simp add: payment_transaction_def run)
      next
        case (Inr u)
        then have ins: "insert_payment p ?e = (Inr u, e')" using Pair by simp
        then have new: "pyId p \<notin> pyId ` set (ydPayments ?d)" "key_of p \<notin> key_of ` set (ydPayments ?d)"
          and e': "e' = ?e\<lparr>ydPayments := ydPayments ?d @ [p]\<rparr>" by (simp_all add: insert_payment_Inr)
        let ?db' = "?d\<lparr>ydClaimIds := Some ?n, ydPayments := ydPayments ?d @ [p],
          ydOutbox := ydOutbox ?d @ [create_payment_publication env p]\<rparr>"
        have "payment_transaction env (find_or_create_payment env source cid r) db = (Inr p, ?db')"
          using \<open>?b = Inr p\<close> ins by (simp add: payment_transaction_def run e')
        moreover have "payments_ok env ?db'"
          using raised_ok [OF growsD(1) [OF during ok]] build_payment_Inr [OF \<open>?b = Inr p\<close>] new by blast
        moreover have "key_of p = source_key source"
          using build_payment_Inr(2) [OF \<open>?b = Inr p\<close>] by (simp add: key_of_def)
        ultimately show ?thesis using that(2) by simp
      qed
    qed
  qed
qed

lemma recover_cases:
  assumes "payments_ok env db"
  obtains e' where "recover_source_duplicate source e db = (Inl e', db)"
  | p where "recover_source_duplicate source e db = (Inr p, db)" "p \<in> set (ydPayments db)" "key_of p = source_key source"
proof (cases rule: find_payment_cases [OF assms, of source])
  case 1
  then show ?thesis using that
    by (cases "is_source_duplicate source e") (simp_all add: recover_source_duplicate_def lookup_payment_run)
next
  case (2 p)
  then show ?thesis using that by (cases "is_source_duplicate source e") (simp_all add: recover_source_duplicate_def lookup_payment_run)
qed

text \<open>What every way of answering a request has in common.\<close>

definition settled :: "payments_env \<Rightarrow> payment_source \<Rightarrow> payments_db \<Rightarrow> payment res \<times> payments_db \<Rightarrow> bool" where
  "settled env source db = (\<lambda>(answer, db').
     payments_ok env db' \<and> set (ydPayments db) \<subseteq> set (ydPayments db')
     \<and> (case answer of Inl _ \<Rightarrow> True | Inr p \<Rightarrow> p \<in> set (ydPayments db') \<and> key_of p = source_key source))"

lemma transaction_settled:
  assumes ok: "payments_ok env db" and during: "grows env (yeDuring env)"
  shows "settled env source db
    (catch (payment_transaction env (find_or_create_payment env source cid r)) (recover_source_duplicate source) db)"
proof (cases rule: payment_transaction_cases [OF ok during, of source cid r])
  case (1 p)
  then show ?thesis using ok by (simp add: settled_def catch_def)
next
  case (2 p db')
  then show ?thesis using growsD(2) [OF during ok] by (auto simp: settled_def catch_def)
next
  case (3 e)
  have ok': "payments_ok env (yeDuring env db)" using growsD(1) [OF during ok] .
  show ?thesis
    by (cases rule: recover_cases [OF ok', of source e])
      (use 3 ok' growsD(2) [OF during ok] in \<open>auto simp: settled_def catch_def\<close>)
qed

lemma settled_later:
  assumes "settled env source db' x" and "set (ydPayments db) \<subseteq> set (ydPayments db')"
  shows "settled env source db x"
  using assms by (auto simp: settled_def)

lemma raise_payment_settled:
  assumes ok: "payments_ok env db" and meanwhile: "grows env (yeMeanwhile env)" and during: "grows env (yeDuring env)"
  shows "settled env source db (raise_payment env source code version context cid db)"
proof (cases rule: find_payment_cases [OF ok, of source])
  case (2 p)
  then show ?thesis using ok by (simp add: raise_payment_def lookup_payment_run settled_def)
next
  case 1
  obtain a db1 where res: "resolve_payment_definition env code version context db = (a, db1)" by fastforce
  have part: "ledger_part db1 = ledger_part db"
    using resolve_keeps_ledger by (metis res snd_conv)
  have same: "ydPayments db1 = ydPayments db" using part by (simp add: ledger_part_def)
  have ok1: "payments_ok env db1" using ok payments_ok_part [OF part] by blast
  show ?thesis
  proof (cases a)
    case (Inl e)
    then show ?thesis using 1 res ok1 same by (simp add: raise_payment_def lookup_payment_run settled_def)
  next
    case (Inr r)
    have "settled env source (yeMeanwhile env db1)
      (catch (payment_transaction env (find_or_create_payment env source cid r)) (recover_source_duplicate source)
        (yeMeanwhile env db1))"
      using transaction_settled [OF growsD(1) [OF meanwhile ok1] during] .
    then have "settled env source db
      (catch (payment_transaction env (find_or_create_payment env source cid r)) (recover_source_duplicate source)
        (yeMeanwhile env db1))"
      by (rule settled_later) (use growsD(2) [OF meanwhile ok1] same in simp)
    then show ?thesis using 1 res Inr by (simp add: raise_payment_def lookup_payment_run)
  qed
qed

lemma handled_settled:
  assumes "payments_ok env db" and "grows env (yeMeanwhile env)" and "grows env (yeDuring env)"
  shows "settled env (event_source event) db (handle_payment_event env event db)"
  by (cases event)
    (simp_all add: handle_agreement_payment_requested_def handle_claim_payment_requested_def raise_payment_settled [OF assms])

lemma singleton_list: "distinct xs \<Longrightarrow> set xs = {p} \<Longrightarrow> xs = [p]"
  by (cases xs; cases "tl xs") auto

lemma only_payment:
  assumes ok: "payments_ok env db" and "p \<in> set (ydPayments db)" and "key_of p = k"
  shows "filter (\<lambda>q. key_of q = k) (ydPayments db) = [p]"
proof (rule singleton_list)
  show "distinct (filter (\<lambda>q. key_of q = k) (ydPayments db))"
    using ok by (auto simp: payments_ok_def distinct_map)
  show "set (filter (\<lambda>q. key_of q = k) (ydPayments db)) = {p}"
  proof -
    have "q = p" if "q \<in> set (ydPayments db)" "key_of q = k" for q
      by (rule key_of_unique [OF ok that(1) assms(2)]) (use that(2) assms(3) in simp)
    then show ?thesis unfolding set_filter using assms(2,3) by blast
  qed
qed

section \<open>Definitions that are given up\<close>

lemma find_updated:
  assumes "\<And>r. p r \<Longrightarrow> p (f r)"
  shows "find p (update_one p f rows) = map_option f (find p rows)"
  using assms by (induction rows) auto

lemma find_after_status:
  assumes "find_config_definition code v t rows = Some d"
  shows "\<exists>d'. find_config_definition code v t (update_definition_fetch_status code v t st e w rows) = Some d'
    \<and> fsFetchStatus (cdFile d') = st"
proof -
  obtain r fl where r: "find (same_version code v) rows = Some r" and fl: "map_of (crDefinitions r) t = Some fl"
    using assms by (auto simp: find_config_definition_def to_definition_def split: Option.bind_splits)
  show ?thesis unfolding find_config_definition_def update_definition_fetch_status_def
    by (subst find_updated) (simp_all add: same_version_def [abs_def] with_worst_fetch_status_def to_definition_def r [unfolded same_version_def [abs_def]] fl)
qed

lemma found_definition:
  assumes "find_config_definition code v t rows = Some d"
  shows "cdGrantCode d = code" and "cdVersion d = v"
  using assms by (auto simp: find_config_definition_def to_definition_def same_version_def dest!: find_SomeD
      split: Option.bind_splits)

lemma defect_is_boom:
  assumes "compile_payment_definition env raw code = Inl e"
  shows "is_boom e" and "\<not> is_s3_error e"
  using assms
  by (auto simp: compile_payment_definition_def new_payment_definition_def invalid_payment_definition_def bind_res_def
      Let_def split: json.splits option.splits sum.splits if_splits)

text \<open>The raw definition of a version: the one stored, or the file.\<close>

definition raw_definition :: "payments_env \<Rightarrow> config_definition \<Rightarrow> payments_db \<Rightarrow> json res" where
  "raw_definition env t db =
     (case find_payment_definition (cdGrantCode t) (cdVersion t) db of
        Some raw \<Rightarrow> Inr raw | None \<Rightarrow> yeFetch env (cdS3Bucket t) (fsS3Key (cdFile t)))"

lemma defective_definition_fails:
  assumes t: "find_config_definition code v PaymentFile (ydCatalog db) = Some t"
    and open_file: "fsFetchStatus (cdFile t) \<noteq> FetchPermanent" and cold: "map_of (ydCompiled db) (at_version code v) = None"
    and raw: "raw_definition env t db = Inr raw" and defect: "compile_payment_definition env raw code = Inl e"
  shows "load_payment_definition env code v db = (Inl (PermanentFailure e), db\<lparr>ydCatalog :=
    update_definition_fetch_status code v PaymentFile FetchPermanent (Some (error_message e)) (yeNow env) (ydCatalog db)\<rparr>)"
proof -
  have st: "payment_failure_status e = FetchPermanent"
    using defect_is_boom [OF defect] by (simp add: payment_failure_status_def)
  have "compile_and_store env t code (at_version code v) db = (Inl e, db)"
    using raw defect by (simp add: compile_and_store_def raw_definition_def)
  then show ?thesis
    using t open_file cold st found_definition [OF t]
    by (simp add: load_payment_definition_def load_payment_compiled_def load_payment_def catch_def
        update_payment_status_def mark_permanent_failure_def)
qed

section \<open>What a definition resolves to\<close>

lemma text_of_Some: "text_of es k = Some s \<Longrightarrow> s \<noteq> []"
  by (auto simp: text_of_def split: option.splits json.splits if_splits)

lemma all_of_Some: "all_of f xs = Some ys \<Longrightarrow> length ys = length xs \<and> (\<forall>y\<in>set ys. \<exists>x\<in>set xs. f x = Some y)"
  by (induction xs arbitrary: ys) (fastforce split: option.splits)+

lemma listed_of_Some: "listed_of es k = Some xs \<Longrightarrow> xs \<noteq> []"
  by (auto simp: listed_of_def split: option.splits json.splits list.splits)

lemma read_line_schema: "read_invoice_line v = Some l \<Longrightarrow> invoice_line_schema l"
  by (auto simp: read_invoice_line_def invoice_line_schema_def split: json.splits if_splits Option.bind_splits
      dest: text_of_Some)

definition resolved_due_schema :: "resolved_due \<Rightarrow> bool" where
  "resolved_due_schema d \<longleftrightarrow> rdDueDate d \<noteq> [] \<and> rdInvoiceLines d \<noteq> [] \<and> list_all invoice_line_schema (rdInvoiceLines d)"

lemma read_due_schema: "read_due_payment v = Some d \<Longrightarrow> resolved_due_schema d"
  by (auto simp: read_due_payment_def resolved_due_schema_def list_all_iff split: json.splits if_splits Option.bind_splits
      dest!: all_of_Some listed_of_Some dest: text_of_Some read_line_schema)

definition resolved_schema :: "resolved_payment \<Rightarrow> bool" where
  "resolved_schema r \<longleftrightarrow>
     rpSbi r \<noteq> [] \<and> rpFrn r \<noteq> [] \<and> rpScheme r \<noteq> [] \<and> rpSourceSystem r \<noteq> [] \<and> rpDeliveryBody r \<noteq> [] \<and> rpFesCode r \<noteq> []
     \<and> rpLedger r \<noteq> [] \<and> rpCurrency r \<noteq> [] \<and> rpMarketingYear r \<noteq> [] \<and> rpPayments r \<noteq> []
     \<and> list_all resolved_due_schema (rpPayments r) \<and> resolved_balances r"

lemma read_resolved_schema: "read_resolved_payment v = Some r \<Longrightarrow> resolved_schema r"
  by (auto simp: read_resolved_payment_def resolved_schema_def list_all_iff Let_def
      split: option.splits json.splits if_splits Option.bind_splits
      dest!: all_of_Some listed_of_Some dest: text_of_Some read_due_schema)

lemma resolve_payment_schema: "resolve_payment env d v = Inr r \<Longrightarrow> resolved_schema r"
  by (auto simp: resolve_payment_def split: sum.splits option.splits intro: read_resolved_schema)

text \<open>What the clock and the generator of ids give is never empty.\<close>

definition ids_given :: "payments_env \<Rightarrow> bool" where
  "ids_given env \<longleftrightarrow> yePaymentId env \<noteq> [] \<and> yeNow env \<noteq> [] \<and> (\<forall>i. yeDueId env i \<noteq> [])"

lemma to_due_total [simp]: "dyTotalAmountPence (to_due_payment env x) = rdTotalAmountPence (snd x)"
  by (simp add: to_due_payment_def split: prod.splits)

lemma due_totals: "map (\<lambda>x. rdTotalAmountPence (snd x)) (enumerate n ds) = map rdTotalAmountPence ds"
  by (induction ds arbitrary: n) simp_all

lemma due_lines: "map (\<lambda>x. dyInvoiceLines (to_due_payment env x)) (enumerate n ds) = map rdInvoiceLines ds"
  by (induction ds arbitrary: n) (simp_all add: to_due_payment_def)

lemma due_schema:
  assumes "resolved_due_schema d" and "\<forall>i. yeDueId env i \<noteq> []"
  shows "due_payment_schema (to_due_payment env (i, d))"
  using assms by (simp add: to_due_payment_def due_payment_schema_def resolved_due_schema_def pending_def)

lemma build_payment_succeeds:
  assumes r: "resolved_schema r" and ids: "ids_given env" and source: "source_schema source" and "c \<noteq> []" and cid: "cid \<noteq> []"
  shows "\<exists>p. build_payment env source (Some (JStr c)) r cid = Inr p \<and> payment_schema p \<and> pySource p = source
    \<and> pyPaymentHubClaimId p = cid \<and> pyCorrelationId p = c
    \<and> pyTotalAmountPence p = sum_list (map (\<lambda>d. lines_total (rdInvoiceLines d)) (rpPayments r))
    \<and> map dyInvoiceLines (pyPayments p) = map rdInvoiceLines (rpPayments r)"
proof -
  have member: "snd x \<in> set (rpPayments r)" if "x \<in> set (enumerate 0 (rpPayments r))" for x
  proof -
    have "snd x \<in> set (map snd (enumerate 0 (rpPayments r)))" unfolding set_map using that by (rule imageI)
    then show ?thesis by (simp only: map_snd_enumerate)
  qed
  have dues: "list_all due_payment_schema (map (to_due_payment env) (enumerate 0 (rpPayments r)))"
    unfolding list_all_iff set_map
  proof (rule ballI, erule imageE)
    fix y x assume y: "y = to_due_payment env x" and x: "x \<in> set (enumerate 0 (rpPayments r))"
    have "resolved_due_schema (snd x)" using member [OF x] r by (simp add: resolved_schema_def list_all_iff)
    then show "due_payment_schema y" using due_schema [of "snd x" env "fst x"] ids y by (simp add: ids_given_def)
  qed
  have balances: "balances_with_invoice_lines (map (to_due_payment env) (enumerate 0 (rpPayments r)))"
    using member r unfolding balances_with_invoice_lines_def list_all_iff resolved_schema_def resolved_balances_def
    by (auto simp: to_due_payment_def)
  have lines: "map (\<lambda>d. lines_total (rdInvoiceLines d)) (rpPayments r) = map rdTotalAmountPence (rpPayments r)"
    using r by (auto simp: resolved_schema_def resolved_balances_def list_all_iff)
  have same: "map dyInvoiceLines (map (to_due_payment env) (enumerate 0 (rpPayments r))) = map rdInvoiceLines (rpPayments r)"
    by (simp add: comp_def due_lines)
  have total: "sum_list (map dyTotalAmountPence (map (to_due_payment env) (enumerate 0 (rpPayments r)))) = rpTotalAmountPence r"
    using r by (simp add: comp_def due_totals resolved_schema_def resolved_balances_def)
  have sum: "rpTotalAmountPence r = sum_list (map (\<lambda>d. lines_total (rdInvoiceLines d)) (rpPayments r))"
    using r by (simp add: lines resolved_schema_def resolved_balances_def)
  have some_due: "enumerate 0 (rpPayments r) \<noteq> []" using r by (cases "rpPayments r") (simp_all add: resolved_schema_def)
  show ?thesis
    using assms dues balances sum same total some_due
    by (simp add: build_payment_def require_correlation_id_def bind_res_def new_payment_def payment_schema_def
        resolved_schema_def ids_given_def payment_request_number_def format_invoice_number_def)
qed

end
