(* ===== verification/PaymentProperties.thy ===== *)
theory PaymentProperties
  imports PaymentLaws
begin

text \<open>
  The properties of Payments: one for a request however it is delivered, amounts that balance, what a
  definition resolves to makes a Payment, and a definition that is none is given up.
\<close>

section \<open>Samples\<close>

definition sample_line :: json where
  "sample_line = JObj [(''schemeCode'', JStr ''CMOR1''), (''description'', JStr ''moorland''),
     (''amountPence'', JNum (Finite 1060 0 0)), (''accountCode'', JStr ''SOS710''), (''fundCode'', JStr ''DRD10''),
     (''deliveryBody'', JStr ''RP00''), (''marketingYear'', JStr ''2026'')]"

definition sample_mappings :: "(string \<times> json) list" where
  "sample_mappings = [(''sbi'', JStr ''$.agreement.sbi''), (''frn'', JStr ''1102838829''),
     (''originalInvoiceNumber'', JStr []), (''scheme'', JStr ''WMP''), (''sourceSystem'', JStr ''FPTT''),
     (''deliveryBody'', JStr ''RP00''), (''fesCode'', JStr ''FALS_FPTT''), (''ledger'', JStr ''AP''),
     (''totalAmountPence'', JNum (Finite 1060 0 0)), (''currency'', JStr ''GBP''), (''marketingYear'', JStr ''2026''),
     (''payments'', JArr [JObj [(''dueDate'', JStr ''2026-12-05''), (''totalAmountPence'', JNum (Finite 1060 0 0)),
        (''invoiceLines'', JArr [sample_line])]])]"

definition sample_payment_definition :: payment_definition where
  "sample_payment_definition = \<lparr>pdnCode = ''wood'', pdnMappings = sample_mappings\<rparr>"

definition sample_payment_file :: json where
  "sample_payment_file = JObj ((''code'', JStr ''wood'') # sample_mappings)"

definition sample_payment_row :: config_row where
  "sample_payment_row = with_worst_fetch_status \<lparr>crGrantCode = ''wood'', crVersion = ''1.0.0'',
     crSemver = Semver 1 0 0, crStatus = ''active'', crS3Bucket = Some ''bucket'',
     crReceivedAt = ''t0'', crDefinitions = [(GrantFile, new_fetch_state (Some ''grant.json'')),
       (PaymentFile, new_fetch_state (Some ''payment.json''))], crWorstFetchStatus = None\<rparr>"

definition sample_payments_db :: payments_db where
  "sample_payments_db = \<lparr>ydPayments = [], ydClaimIds = Some 41, ydOutbox = [], ydCatalog = [sample_payment_row],
     ydDefinitions = [], ydCompiled = []\<rparr>"

definition sample_payments_env :: "json \<Rightarrow> payments_env" where
  "sample_payments_env raw = \<lparr>yeEvaluate = (\<lambda>_ _ _. Inr (Some (JStr ''106284736''))), yeCompile = (\<lambda>_. Inr ()),
     yeFetch = (\<lambda>_ _. Inr raw), yeShapeMessage = (\<lambda>_. ''invalid''), yeResolvedMessage = (\<lambda>_. ''invalid''),
     yeCodeText = (\<lambda>_. ''invalid''), yeNow = ''t1'', yePaymentId = ''p1'', yeDueId = (\<lambda>i. ''d'' @ show_nat i),
     yeTopic = ''create_payment'', yeMeanwhile = (\<lambda>db. db), yeDuring = (\<lambda>db. db)\<rparr>"

definition sample_request :: payment_event where
  "sample_request = AgreementPaymentEvent \<lparr>arNumber = ''FPTT264870631'', arVersion = 2, arCode = ''wood'',
     arConfigVersion = ''1.0.0'', arExecutedAt = ''t1'', arSnapshot = [(''correlationId'', JStr ''corr-1'')]\<rparr>"

lemma sample_quiet: "grows (sample_payments_env raw) (yeMeanwhile (sample_payments_env raw))"
    "grows (sample_payments_env raw) (yeDuring (sample_payments_env raw))"
  by (simp_all add: grows_def sample_payments_env_def)

lemma sample_payments_ok: "payments_ok env sample_payments_db"
  by (simp add: payments_ok_def claim_ids_ok_def sample_payments_db_def)

definition sample_answer :: "payment res \<times> payments_db" where
  "sample_answer = handle_payment_event (sample_payments_env sample_payment_file) sample_request sample_payments_db"

lemma sample_compiles:
  "compile_payment_definition (sample_payments_env raw) sample_payment_file ''wood'' = Inr sample_payment_definition"
  by code_simp

definition sample_resolved :: "resolved_payment res" where
  "sample_resolved = resolve_payment (sample_payments_env JNull) sample_payment_definition JNull"

lemma sample_resolves:
  "case sample_resolved of Inl _ \<Rightarrow> False
   | Inr r \<Rightarrow> sum_list (map (\<lambda>d. lines_total (rdInvoiceLines d)) (rpPayments r)) = 1060"
  by code_simp

lemma sample_ids: "ids_given (sample_payments_env raw)"
  by (simp add: ids_given_def sample_payments_env_def)

lemma sample_source: "source_schema (AgreementSource ''FPTT264870631'' 2)"
  by (simp add: source_schema_def)

lemma sample_payment_found:
  "\<exists>t. find_config_definition ''wood'' ''1.0.0'' PaymentFile (ydCatalog sample_payments_db) = Some t
     \<and> fsFetchStatus (cdFile t) = FetchPending \<and> cdGrantCode t = ''wood'' \<and> cdVersion t = ''1.0.0''"
  by (simp add: find_config_definition_def sample_payments_db_def sample_payment_row_def with_worst_fetch_status_def
      same_version_def to_definition_def new_fetch_state_def)

lemma resolve_same: "resolve_payment (sample_payments_env raw) d v = resolve_payment (sample_payments_env JNull) d JNull"
  by (simp add: resolve_payment_def sample_payments_env_def split: sum.split option.split)

lemma sample_raised: "\<exists>p db. sample_answer = (Inr p, db) \<and> ydPayments db = [p] \<and> pyTotalAmountPence p = 1060"
proof -
  let ?env = "sample_payments_env sample_payment_file" and ?source = "AgreementSource ''FPTT264870631'' 2"
  obtain r where r: "sample_resolved = Inr r" "sum_list (map (\<lambda>d. lines_total (rdInvoiceLines d)) (rpPayments r)) = 1060"
    using sample_resolves by (auto split: sum.splits)
  have schema: "resolved_schema r" using r(1) resolve_payment_schema by (auto simp: sample_resolved_def)
  obtain p where p: "build_payment ?env ?source (Some (JStr ''corr-1'')) r (format_claim_id 42) = Inr p"
      "pyTotalAmountPence p = 1060"
    using build_payment_succeeds [OF schema sample_ids sample_source, of "''corr-1''" "format_claim_id 42"] r(2)
    by (fastforce simp: format_claim_id_def)
  obtain t where t: "find_config_definition ''wood'' ''1.0.0'' PaymentFile (ydCatalog sample_payments_db) = Some t"
      "fsFetchStatus (cdFile t) = FetchPending" "cdGrantCode t = ''wood''" "cdVersion t = ''1.0.0''"
    using sample_payment_found by blast
  let ?v = "JObj [(''agreement'', JObj [(''correlationId'', JStr ''corr-1'')]), (''execution'', executed_at ''t1'')]"
  obtain a db1 where load: "resolve_payment_definition ?env ''wood'' ''1.0.0'' ?v sample_payments_db = (a, db1)" by fastforce
  have given: "map_of (ydCompiled sample_payments_db) k = None" "find_payment_definition c v sample_payments_db = None"
      "find (\<lambda>r. prCode r = c \<and> prVersion r = v) (ydDefinitions sample_payments_db) = None"
      "yeFetch ?env bucket key = Inr sample_payment_file" for k c v bucket key
    by (simp_all add: sample_payments_db_def find_payment_definition_def sample_payments_env_def)
  obtain db0 where stored: "compile_and_store ?env t ''wood'' (at_version ''wood'' ''1.0.0'') sample_payments_db
      = (Inr sample_payment_definition, db0)"
    using t(2) given by (simp add: compile_and_store_def sample_compiles insert_payment_definition_def update_payment_status_def)
  have "fst (load_payment_definition ?env ''wood'' ''1.0.0'' sample_payments_db) = Inr sample_payment_definition"
    using t(1,2) given(1) stored
    by (simp add: load_payment_definition_def load_payment_compiled_def load_payment_def catch_def)
  then have "fst (resolve_payment_definition ?env ''wood'' ''1.0.0'' ?v sample_payments_db) = Inr r"
    using r(1) resolve_same [of sample_payment_file sample_payment_definition ?v]
    by (auto simp: resolve_payment_definition_def andThen_def sample_resolved_def split: prod.splits)
  then have a: "a = Inr r" using load by simp
  have "ledger_part db1 = ledger_part sample_payments_db"
    using resolve_keeps_ledger [of ?env "''wood''" "''1.0.0''" ?v sample_payments_db] load by simp
  then have db1: "ydPayments db1 = []" "ydClaimIds db1 = Some 41" by (simp_all add: ledger_part_def sample_payments_db_def)
  have quiet: "yeMeanwhile ?env db = db" "yeDuring ?env db = db" for db by (simp_all add: sample_payments_env_def)
  have unpaid: "lookup_payment ?source db = (Inr None, db)" if "ydPayments db = []" for db
    using that by (simp add: lookup_payment_run find_payment_by_source_def)
  let ?db2 = "db1\<lparr>ydClaimIds := Some 42, ydPayments := [p], ydOutbox := ydOutbox db1 @ [create_payment_publication ?env p]\<rparr>"
  have "payment_transaction ?env (find_or_create_payment ?env ?source (Some (JStr ''corr-1'')) r) db1 = (Inr p, ?db2)"
    using p(1) db1 unpaid
    by (simp add: payment_transaction_def find_or_create_payment_def quiet allocate_next_sequence_def next_sequence_def
        insert_payment_def)
  then have "sample_answer = (Inr p, ?db2)"
    using load a unpaid [of sample_payments_db]
    by (simp add: sample_answer_def sample_request_def handle_agreement_payment_requested_def agreement_payment_source_def
        raise_payment_def) (simp add: sample_payments_db_def catch_def quiet)
  then show ?thesis using p(2) by (intro exI [of _ p] exI [of _ ?db2]) simp
qed

section \<open>Properties\<close>

text \<open>
  C8. Answering a payment request, of an Agreement or a Claim, keeps the ledger in order whatever others
  that keep it commit in between, and whether it succeeds or not: no two Payments share an id, a source
  or a claim id, each balances with its payments and these with their invoice lines, and there is one
  message for each Payment. No Payment is lost, and one that is answered is the only one of its source.
\<close>

theorem payment_raised_once:
  assumes "payments_ok env db" and "grows env (yeMeanwhile env)" and "grows env (yeDuring env)"
  shows "payments_ok env (snd (handle_payment_event env event db))
    \<and> set (ydPayments db) \<subseteq> set (ydPayments (snd (handle_payment_event env event db)))
    \<and> (\<forall>p. fst (handle_payment_event env event db) = Inr p \<longrightarrow>
      filter (\<lambda>q. key_of q = source_key (event_source event))
        (ydPayments (snd (handle_payment_event env event db))) = [p])"
  using handled_settled [OF assms, of event] only_payment
  by (auto simp: settled_def split: prod.splits)

lemma payment_raised_once_witness:
  "payments_ok (sample_payments_env sample_payment_file) (snd sample_answer)
   \<and> map pyTotalAmountPence (ydPayments (snd sample_answer)) = [1060]"
  using payment_raised_once [OF sample_payments_ok sample_quiet, of sample_payment_file sample_request] sample_raised
  by (auto simp: sample_answer_def)

text \<open>
  C9. A request whose Payment was raised is answered with that Payment and changes nothing, whatever is
  published, missing or given up by then and whatever else is going on.
\<close>

theorem payment_replayed:
  assumes "payments_ok env db" and "p \<in> set (ydPayments db)" and "key_of p = source_key (event_source event)"
  shows "handle_payment_event env' event db = (Inr p, db)"
  using found_payment [OF assms]
  by (cases event)
    (simp_all add: handle_agreement_payment_requested_def handle_claim_payment_requested_def raise_payment_def
      lookup_payment_run)

lemma payment_replayed_witness:
  "\<exists>p. fst sample_answer = Inr p
     \<and> handle_payment_event (sample_payments_env JNull) sample_request (snd sample_answer) = (Inr p, snd sample_answer)"
proof -
  obtain p db where answer: "sample_answer = (Inr p, db)" and paid: "ydPayments db = [p]"
    using sample_raised by blast
  have settled: "settled (sample_payments_env sample_payment_file) (event_source sample_request) sample_payments_db (Inr p, db)"
    using handled_settled [OF sample_payments_ok sample_quiet, of sample_payment_file sample_request] answer
    by (simp add: sample_answer_def)
  then have ok: "payments_ok (sample_payments_env sample_payment_file) db"
    and key: "key_of p = source_key (event_source sample_request)"
    by (simp_all add: settled_def)
  have "handle_payment_event (sample_payments_env JNull) sample_request db = (Inr p, db)"
    by (rule payment_replayed [OF ok _ key]) (simp add: paid)
  then show ?thesis unfolding answer by simp
qed



text \<open>
  C14. A payment definition that is none, stored or fetched, fails the request for good, is recorded as
  given up with what was wrong and raises nothing; every later load of that version is refused without
  fetching the file or changing anything.
\<close>

theorem defective_definition_given_up:
  assumes "find_config_definition code v PaymentFile (ydCatalog db) = Some t"
    and "fsFetchStatus (cdFile t) \<noteq> FetchPermanent" and "map_of (ydCompiled db) (at_version code v) = None"
    and "raw_definition env t db = Inr raw" and "compile_payment_definition env raw code = Inl e"
  shows "\<exists>db'. load_payment_definition env code v db = (Inl (PermanentFailure e), db')
    \<and> ledger_part db' = ledger_part db
    \<and> (\<forall>env'. load_payment_definition env' code v db' = (Inl (payment_definition_unavailable code v), db'))"
proof -
  let ?rows = "update_definition_fetch_status code v PaymentFile FetchPermanent (Some (error_message e)) (yeNow env) (ydCatalog db)"
  obtain t' where "find_config_definition code v PaymentFile ?rows = Some t'" "fsFetchStatus (cdFile t') = FetchPermanent"
    using find_after_status [OF assms(1)] by blast
  then have "load_payment_definition env' code v (db\<lparr>ydCatalog := ?rows\<rparr>)
      = (Inl (payment_definition_unavailable code v), db\<lparr>ydCatalog := ?rows\<rparr>)" for env'
    by (simp add: load_payment_definition_def)
  then show ?thesis using defective_definition_fails [OF assms] by (simp add: ledger_part_def)
qed

lemma defective_definition_given_up_witness:
  "\<exists>e db'. load_payment_definition (sample_payments_env JNull) ''wood'' ''1.0.0'' sample_payments_db = (Inl (PermanentFailure e), db')
     \<and> load_payment_definition (sample_payments_env sample_payment_file) ''wood'' ''1.0.0'' db'
       = (Inl (payment_definition_unavailable ''wood'' ''1.0.0''), db')"
proof -
  obtain t where t: "find_config_definition ''wood'' ''1.0.0'' PaymentFile (ydCatalog sample_payments_db) = Some t"
      "fsFetchStatus (cdFile t) = FetchPending"
    by (simp add: find_config_definition_def sample_payments_db_def sample_payment_row_def with_worst_fetch_status_def
        same_version_def to_definition_def new_fetch_state_def)
  have raw: "raw_definition (sample_payments_env JNull) t sample_payments_db = Inr JNull"
    by (simp add: raw_definition_def find_payment_definition_def sample_payments_db_def sample_payments_env_def)
  obtain e where "compile_payment_definition (sample_payments_env JNull) JNull ''wood'' = Inl e"
    by (simp add: compile_payment_definition_def new_payment_definition_def bind_res_def Let_def)
  then show ?thesis
    using defective_definition_given_up [OF t(1) _ _ raw, of e] t(2) by (auto simp: sample_payments_db_def)
qed

end
