(* ===== verification/ConfigArrival.thy ===== *)
theory ConfigArrival
  imports Poller Transition AgreementLoading Payments
begin

text \<open>
  The arrival of published configuration (\<open>grants/use-cases/process-config-version.use-case.js\<close>,
  \<open>validate-config-definitions.js\<close>, \<open>save-config-version-inbox-message.use-case.js\<close>): a version is
  recorded with the files its manifest names once each was checked by the module that owns it. Also
  the operator's view of a version's files (\<open>models/config-version-files.js\<close>,
  \<open>load-config-version-files.js\<close>, \<open>services/config-version.service.js\<close>) and the fetch of those that are
  missing (\<open>fetch-config-definitions.use-case.js\<close>). The catalogue and the three collections of stored
  definitions are one state here; the stores of Agreements and Payments run on their part of it.
\<close>

section \<open>The manifest\<close>

definition variant_file_name :: "string \<Rightarrow> string \<Rightarrow> string" where
  "variant_file_name name variant =
     (if variant = [] \<or> \<not> ends_with name ''.json'' then name
      else take (length name - 5) name @ CHR ''.'' # variant @ ''.json'')"

definition manifest_match :: "string list \<Rightarrow> string \<Rightarrow> string \<Rightarrow> string option" where
  "manifest_match manifest dir name = find (\<lambda>path. ends_with path (CHR ''/'' # dir @ CHR ''/'' # name)) manifest"

definition find_s3_key_in_manifest :: "string list \<Rightarrow> string \<Rightarrow> string \<Rightarrow> string \<Rightarrow> bool \<Rightarrow> string option res" where
  "find_s3_key_in_manifest manifest dir name variant required =
     (case if variant = [] then None else manifest_match manifest dir (variant_file_name name variant) of
        Some path \<Rightarrow> Inr (Some path)
      | None \<Rightarrow>
          (case manifest_match manifest dir name of
             Some path \<Rightarrow> Inr (Some path)
           | None \<Rightarrow>
               if required
               then Inl (Boom BadRequest (''Manifest does not contain required config file '' @ dir @ CHR ''/'' # name
                      @ '' (manifest: '' @ join '', '' manifest @ '')'') [])
               else Inr None))"

section \<open>Files and their checks\<close>

datatype 'q config_file = GrantContent "'q raw_definition" | AgreementContent agreement_definition | PaymentContent json

record 'q broker_db =
  bkRows :: "config_row list"
  bkGrants :: "'q grant list"
  bkAgreements :: "stored_definition list"
  bkPayments :: "payment_row list"
  bkAudits :: "(audit \<times> audit_status) list"

text \<open>
  What the modules are built with, the schema texts, the compiler of questions, the clock, what the
  driver labels transient and what others commit between the reads of a fetch and its transaction.
\<close>

record 'q broker_env =
  beGrants :: "'q fetch_env"
  beAgreements :: agreements_env
  bePayments :: payments_env
  beSchemaMessages :: "'q grant \<Rightarrow> string"
  beCompileQuestions :: "'q \<Rightarrow> unit res"
  beVariant :: string
  beNow :: string
  beIsoDate :: "string \<Rightarrow> bool"
  beFilesMessages :: string
  beTransient :: "js_error \<Rightarrow> bool"
  beValidAudit :: "audit \<Rightarrow> bool"
  beMeanwhile :: "'q broker_db \<Rightarrow> 'q broker_db"

definition fetch_file ::
  "'q broker_env \<Rightarrow> definition_type \<Rightarrow> string option \<Rightarrow> string option \<Rightarrow> 'q config_file res" where
  "fetch_file env t bucket key =
     (case t of
        GrantFile \<Rightarrow> bind_res (fetch_config_file (beGrants env) bucket key) (\<lambda>d. Inr (GrantContent d))
      | AgreementFile \<Rightarrow> bind_res (agFetch (beAgreements env) bucket key) (\<lambda>d. Inr (AgreementContent d))
      | PaymentFile \<Rightarrow> bind_res (yeFetch (bePayments env) bucket key) (\<lambda>d. Inr (PaymentContent d)))"

definition check_grant_definition :: "'q broker_env \<Rightarrow> 'q raw_definition \<Rightarrow> string \<Rightarrow> 'q grant res" where
  "check_grant_definition env raw version =
     (case raw of
        Malformed e \<Rightarrow> Inl e
      | Shaped d _ \<Rightarrow> from_definition (beSchemaMessages env) (feTemplateMessages (beGrants env)) is_grant_process
          (beCompileQuestions env) d version)"

definition run_check :: "'q broker_env \<Rightarrow> 'q config_file \<Rightarrow> string \<Rightarrow> string \<Rightarrow> unit res" where
  "run_check env content grantCode version =
     (case content of
        GrantContent raw \<Rightarrow> bind_res (check_grant_definition env raw version) (\<lambda>_. Inr ())
      | AgreementContent d \<Rightarrow> check_agreement_definition (beAgreements env) d grantCode version
      | PaymentContent raw \<Rightarrow> bind_res (compile_payment_definition (bePayments env) raw grantCode) (\<lambda>_. Inr ()))"

definition check_definition ::
  "'q broker_env \<Rightarrow> definition_type \<Rightarrow> string \<Rightarrow> string option \<Rightarrow> string \<Rightarrow> string \<Rightarrow> unit res" where
  "check_definition env t s3Key s3Bucket grantCode version =
     bind_res (fetch_file env t s3Bucket (Some s3Key)) (\<lambda>content. run_check env content grantCode version)"

definition file_types :: "definition_type list" where
  "file_types = [GrantFile, AgreementFile, PaymentFile]"

definition validate_config_definitions ::
  "'q broker_env \<Rightarrow> string \<Rightarrow> string \<Rightarrow> string option \<Rightarrow> (definition_type \<Rightarrow> string option) \<Rightarrow> unit res" where
  "validate_config_definitions env grantCode version s3Bucket s3Keys =
     for_each (\<lambda>t. case truthy (s3Keys t) of
        None \<Rightarrow> Inr () | Some key \<Rightarrow> check_definition env t key s3Bucket grantCode version) file_types"

section \<open>Recording a version\<close>

text \<open>The data of the broker's event; a manifest that is no array is None.\<close>

record version_event =
  veGrantCode :: "string option"
  veVersion :: "string option"
  veStatus :: "string option"
  veBucket :: "string option"
  veManifest :: "string list option"

definition valid_statuses :: "string list" where
  "valid_statuses = [''active'', ''draft'']"

definition assert_identified :: "version_event \<Rightarrow> unit res" where
  "assert_identified e =
     (if truthy (veGrantCode e) = None \<or> truthy (veVersion e) = None
      then Inl (Boom BadRequest (''Config version event missing required fields: grantCode='' @ part_string (veGrantCode e)
             @ '', version='' @ part_string (veVersion e)) [])
      else Inr ())"

definition assert_has_bucket :: "version_event \<Rightarrow> unit res" where
  "assert_has_bucket e =
     (if truthy (veBucket e) = None
      then Inl (Boom BadRequest (''Config version event for '' @ part_string (veGrantCode e) @ CHR ''@'' # part_string (veVersion e)
             @ '' has no bucket'') [])
      else Inr ())"

definition assert_valid_status :: "version_event \<Rightarrow> unit res" where
  "assert_valid_status e =
     (case truthy (veStatus e) of
        Some s \<Rightarrow> if s \<in> set valid_statuses then Inr ()
          else Inl (Boom BadRequest (''Config version event has invalid status: '' @ quoted s
                 @ '' (expected one of: '' @ join '', '' valid_statuses @ '')'') [])
      | None \<Rightarrow> Inl (Boom BadRequest (''Config version event has invalid status: '' @ quoted (part_string (veStatus e))
                 @ '' (expected one of: '' @ join '', '' valid_statuses @ '')'') []))"

definition assert_has_manifest :: "version_event \<Rightarrow> unit res" where
  "assert_has_manifest e =
     (case veManifest e of
        Some (_ # _) \<Rightarrow> Inr ()
      | _ \<Rightarrow> Inl (Boom BadRequest ''Config version event missing required field: manifest (expected a non-empty array)'' []))"

definition assert_semver :: "version_event \<Rightarrow> unit res" where
  "assert_semver e =
     (if Option.bind (veVersion e) parse_semver = None
      then Inl (Boom BadRequest (''Invalid semver version in config event: '' @ part_string (veVersion e)) [])
      else Inr ())"

definition validate_event_data :: "version_event \<Rightarrow> unit res" where
  "validate_event_data e =
     bind_res (assert_identified e) (\<lambda>_. bind_res (assert_has_bucket e) (\<lambda>_. bind_res (assert_valid_status e) (\<lambda>_.
     bind_res (assert_has_manifest e) (\<lambda>_. assert_semver e))))"

text \<open>An error that is no failure of S3 is for good when it is a Boom or a TypeError.\<close>

definition cannot_be_fixed_by_retrying :: "js_error \<Rightarrow> bool" where
  "cannot_be_fixed_by_retrying e \<longleftrightarrow>
     is_boom e \<or> (if is_s3_error e then s3_is_permanent e \<or> s3_is_parse_error e else e = TypeError)"

definition manifest_key :: "'q broker_env \<Rightarrow> string list \<Rightarrow> definition_type \<Rightarrow> string option res" where
  "manifest_key env manifest t =
     (case t of
        GrantFile \<Rightarrow> find_s3_key_in_manifest manifest ''gas'' ''gas.json'' (beVariant env) True
      | AgreementFile \<Rightarrow> find_s3_key_in_manifest manifest ''gas'' ''agreement.json'' (beVariant env) False
      | PaymentFile \<Rightarrow> find_s3_key_in_manifest manifest ''gas'' ''payment.json'' (beVariant env) False)"

definition apply_config_version :: "'q broker_env \<Rightarrow> version_event \<Rightarrow> ('q broker_db, unit) action" where
  "apply_config_version env e =
     (let grantCode = part_string (veGrantCode e); version = part_string (veVersion e); manifest = or_empty (veManifest e) in
      andThen (lift_res (validate_event_data e)) (\<lambda>_.
      andThen (lift_res (manifest_key env manifest GrantFile)) (\<lambda>s3Key.
      andThen (lift_res (manifest_key env manifest AgreementFile)) (\<lambda>agreementS3Key.
      andThen (lift_res (manifest_key env manifest PaymentFile)) (\<lambda>paymentS3Key.
      andThen (lift_res (validate_config_definitions env grantCode version (veBucket e)
        (\<lambda>t. case t of GrantFile \<Rightarrow> s3Key | AgreementFile \<Rightarrow> agreementS3Key | PaymentFile \<Rightarrow> paymentS3Key))) (\<lambda>_.
      andThen (lift_res (config_version_new (feVersionMessages (beGrants env)) (beNow env) grantCode version
        (part_string (veStatus e)) s3Key (veBucket e))) (\<lambda>v.
      writes (\<lambda>db. db\<lparr>bkRows := upsert v (truthy agreementS3Key) (truthy paymentS3Key) (bkRows db)\<rparr>))))))))"

definition process_config_version :: "'q broker_env \<Rightarrow> version_event \<Rightarrow> ('q broker_db, unit) action" where
  "process_config_version env e =
     catch (apply_config_version env e)
       (\<lambda>err. throw (if cannot_be_fixed_by_retrying err then mark_permanent_failure err else err))"

section \<open>Saving the broker's message\<close>

definition ungrouped_segregation_ref :: string where
  "ungrouped_segregation_ref = ''unknown-grant''"

text \<open>The attributes of the message, by name; the clock reads a time in milliseconds.\<close>

definition to_event_time :: "(string \<Rightarrow> string option) \<Rightarrow> string \<Rightarrow> string option \<Rightarrow> string" where
  "to_event_time isoOfMillis now sentTimeStamp =
     (case Option.bind (truthy sentTimeStamp) isoOfMillis of None \<Rightarrow> now | Some t \<Rightarrow> t)"

definition optional_entry :: "string \<Rightarrow> json option \<Rightarrow> (string \<times> json) list" where
  "optional_entry k v = (case v of None \<Rightarrow> [] | Some x \<Rightarrow> [(k, x)])"

definition config_version_event :: "string \<Rightarrow> string \<Rightarrow> (string \<Rightarrow> string option) \<Rightarrow> json \<Rightarrow> json" where
  "config_version_event type time attribute manifest = JObj [(''type'', JStr type), (''time'', JStr time),
     (''data'', JObj (optional_entry ''grantCode'' (map_option JStr (attribute ''grant''))
        @ optional_entry ''version'' (map_option JStr (attribute ''version''))
        @ optional_entry ''status'' (map_option JStr (attribute ''status''))
        @ optional_entry ''s3Bucket'' (map_option JStr (attribute ''path'')) @ [(''manifest'', manifest)]))]"

definition save_config_version_inbox_message ::
  "queue_config \<Rightarrow> string \<Rightarrow> (json \<Rightarrow> string option \<Rightarrow> string \<times> string list) \<Rightarrow> int \<Rightarrow> nat
     \<Rightarrow> (string \<Rightarrow> string option) \<Rightarrow> string \<Rightarrow> string option \<Rightarrow> string
     \<Rightarrow> json \<Rightarrow> (string \<Rightarrow> string option) \<Rightarrow> string option \<Rightarrow> string option \<Rightarrow> (inbox_row list, unit) action" where
  "save_config_version_inbox_message cfg joiMessage stamps now newId isoOfMillis nowText traceparent type
     manifest attribute messageId sentTimeStamp =
     save_inbox_message cfg joiMessage stamps now newId
       \<lparr>imId = messageId, imType = Some type, imTraceparent = traceparent,
        imEvent = config_version_event type (to_event_time isoOfMillis nowText sentTimeStamp) attribute manifest\<rparr>
       ''CB''
       (Some (case truthy (attribute ''grant'') of None \<Rightarrow> ungrouped_segregation_ref | Some g \<Rightarrow> g))"

section \<open>The files of a version\<close>

record version_file =
  vfStored :: bool
  vfFetchStatus :: fetch_status
  vfFetchError :: "string option"
  vfFetchAttempts :: nat
  vfS3Key :: "string option"

record version_files =
  vsGrantCode :: string
  vsVersion :: string
  vsStatus :: string
  vsReceivedAt :: string
  vsS3Bucket :: "string option"
  vsWorst :: "fetch_status option"
  vsFiles :: "(definition_type \<times> version_file) list"

definition types_in :: "config_row \<Rightarrow> definition_type list" where
  "types_in r = filter (\<lambda>t. map_of (crDefinitions r) t \<noteq> None) file_types"

definition version_files_schema :: "'q broker_env \<Rightarrow> version_files \<Rightarrow> bool" where
  "version_files_schema env v \<longleftrightarrow>
     vsGrantCode v \<noteq> [] \<and> parse_semver (vsVersion v) \<noteq> None \<and> vsStatus v \<in> set valid_statuses
     \<and> vsReceivedAt v \<noteq> [] \<and> beIsoDate env (vsReceivedAt v) \<and> vsS3Bucket v \<noteq> Some []
     \<and> map_of (vsFiles v) GrantFile \<noteq> None
     \<and> list_all (\<lambda>(_, f). vfFetchError f \<noteq> Some [] \<and> vfS3Key f \<noteq> Some []) (vsFiles v)"

definition new_version_files :: "'q broker_env \<Rightarrow> version_files \<Rightarrow> version_files res" where
  "new_version_files env v =
     (if version_files_schema env v then Inr v
      else Inl (Boom BadImplementation (''Invalid ConfigVersionFiles: '' @ beFilesMessages env) []))"

definition missing_files :: "version_files \<Rightarrow> definition_type list" where
  "missing_files v = filter (\<lambda>t. case map_of (vsFiles v) t of None \<Rightarrow> False | Some f \<Rightarrow> \<not> vfStored f) file_types"

definition all_stored :: "version_files \<Rightarrow> bool" where
  "all_stored v \<longleftrightarrow> length (missing_files v) = 0"

definition version_file_of :: "definition_type set \<Rightarrow> config_row \<Rightarrow> definition_type \<Rightarrow> (definition_type \<times> version_file) option" where
  "version_file_of storedTypes r t =
     map_option (\<lambda>f. (t, \<lparr>vfStored = t \<in> storedTypes, vfFetchStatus = fsFetchStatus f, vfFetchError = fsFetchError f,
       vfFetchAttempts = fsFetchAttempts f, vfS3Key = fsS3Key f\<rparr>)) (map_of (crDefinitions r) t)"

definition version_files_from_document ::
  "'q broker_env \<Rightarrow> config_row \<Rightarrow> definition_type set \<Rightarrow> version_files res" where
  "version_files_from_document env r storedTypes =
     new_version_files env \<lparr>vsGrantCode = crGrantCode r, vsVersion = crVersion r, vsStatus = crStatus r,
       vsReceivedAt = crReceivedAt r, vsS3Bucket = crS3Bucket r, vsWorst = crWorstFetchStatus r,
       vsFiles = List.map_filter (version_file_of storedTypes r) (types_in r)\<rparr>"

text \<open>What is stored of a type, as its module answers: Grants its own, the others through their store.\<close>

definition stored_versions :: "definition_type \<Rightarrow> string \<Rightarrow> string list \<Rightarrow> 'q broker_db \<Rightarrow> string set" where
  "stored_versions t code versions db =
     (case t of
        GrantFile \<Rightarrow> set (List.map_filter (\<lambda>g. if grCode g = code then
            (case grVersion g of Some v \<Rightarrow> if v \<in> set versions then Some v else None | None \<Rightarrow> None) else None) (bkGrants db))
      | AgreementFile \<Rightarrow> set (map sfVersion (filter (\<lambda>s. sfCode s = code \<and> sfVersion s \<in> set versions) (bkAgreements db)))
      | PaymentFile \<Rightarrow> set (map prVersion (filter (\<lambda>s. prCode s = code \<and> prVersion s \<in> set versions) (bkPayments db))))"

definition versions_by_type :: "config_row list \<Rightarrow> definition_type \<Rightarrow> string list" where
  "versions_by_type docs t = map crVersion (filter (\<lambda>r. t \<in> set (types_in r)) docs)"

definition find_versions_by_grant_code :: "string \<Rightarrow> string list option \<Rightarrow> config_row list \<Rightarrow> config_row list" where
  "find_versions_by_grant_code code versions rows =
     rev (sort_key crSemver (filter (\<lambda>r. crGrantCode r = code
       \<and> (case versions of None \<Rightarrow> True | Some vs \<Rightarrow> crVersion r \<in> set vs)) rows))"

definition load_config_version_files ::
  "'q broker_env \<Rightarrow> string \<Rightarrow> string list option \<Rightarrow> 'q broker_db \<Rightarrow> version_files list res" where
  "load_config_version_files env code versions db =
     (let docs = find_versions_by_grant_code code versions (bkRows db) in
      map_res (\<lambda>r. version_files_from_document env r
        {t \<in> set (types_in r). crVersion r \<in> stored_versions t code (versions_by_type docs t) db}) docs)"

record version_entry =
  vyVersion :: string
  vyStatus :: string
  vyReceivedAt :: string
  vyFetchStatus :: "fetch_status option"
  vyStored :: bool

definition to_version_entry :: "version_files \<Rightarrow> version_entry" where
  "to_version_entry v = \<lparr>vyVersion = vsVersion v, vyStatus = vsStatus v, vyReceivedAt = vsReceivedAt v,
     vyFetchStatus = vsWorst v, vyStored = all_stored v\<rparr>"

definition find_config_versions ::
  "'q broker_env \<Rightarrow> string \<Rightarrow> 'q broker_db \<Rightarrow> (string option \<times> version_entry list) option res" where
  "find_config_versions env code db =
     bind_res (load_config_version_files env code None db) (\<lambda>versions.
     bind_res (find_latest_active (feVersionMessages (beGrants env)) code (bkRows db)) (\<lambda>current.
     Inr (if versions = [] then None else Some (map_option cvVersion current, map to_version_entry versions))))"

definition find_config_version_files ::
  "'q broker_env \<Rightarrow> string \<Rightarrow> string \<Rightarrow> 'q broker_db \<Rightarrow> version_files option res" where
  "find_config_version_files env code version db =
     bind_res (load_config_version_files env code (Some [version]) db) (\<lambda>found.
     Inr (case found of [] \<Rightarrow> None | v # _ \<Rightarrow> Some v))"

definition grant_version_exists :: "string \<Rightarrow> string \<Rightarrow> 'q broker_db \<Rightarrow> bool" where
  "grant_version_exists code version db \<longleftrightarrow> find (same_version code version) (bkRows db) \<noteq> None"

section \<open>Fetching the files that are missing\<close>

datatype file_outcome = StoredFile definition_type | FailedFile definition_type string "string option"

definition is_failed :: "file_outcome \<Rightarrow> bool" where
  "is_failed o' = (case o' of FailedFile _ _ _ \<Rightarrow> True | StoredFile _ \<Rightarrow> False)"

definition message_max :: nat where "message_max = 500"

definition no_location :: js_error where
  "no_location = NamedError ''NoLocation'' []"

definition s3_reason_of :: "string \<Rightarrow> string" where
  "s3_reason_of code =
     (if code = ''NoSuchKey'' then ''missing'' else if code = ''AccessDenied'' then ''forbidden''
      else if code = ''PARSE_ERROR'' then ''unparseable'' else ''timeout'')"

definition reason_of :: "js_error \<Rightarrow> string option" where
  "reason_of e =
     (if e = no_location then Some ''missing''
      else case e of
        S3FetchError _ _ code \<Rightarrow> Some (s3_reason_of code)
      | _ \<Rightarrow> if is_definition_defect e then Some ''invalid'' else None)"

definition failed :: "definition_type \<Rightarrow> string \<Rightarrow> js_error \<Rightarrow> file_outcome" where
  "failed t reason e = FailedFile t reason (if reason = ''invalid'' then Some (take message_max (error_message e)) else None)"

definition type_name :: "definition_type \<Rightarrow> string" where
  "type_name t = (case t of GrantFile \<Rightarrow> ''grant'' | AgreementFile \<Rightarrow> ''agreement'' | PaymentFile \<Rightarrow> ''payment'')"

text \<open>The data of the error: the files that failed, with why.\<close>

definition fetch_stopped :: "file_outcome list \<Rightarrow> js_error" where
  "fetch_stopped handled = Boom BadImplementation ''Fetch definitions stopped''
     (List.map_filter (\<lambda>o'. case o' of FailedFile t reason _ \<Rightarrow> Some (type_name t, reason) | _ \<Rightarrow> None) handled)"

definition settle ::
  "'q broker_env \<Rightarrow> definition_type \<Rightarrow> (file_outcome \<Rightarrow> 'a) \<Rightarrow> file_outcome list \<Rightarrow> ('s, 'a) action \<Rightarrow> ('s, 'a) action" where
  "settle env t asFailed handled step =
     catch step (\<lambda>e. case reason_of e of
        Some reason \<Rightarrow> ret (asFailed (failed t reason e))
      | None \<Rightarrow> if beTransient env e then throw e else throw (fetch_stopped handled))"

datatype 'q file_read = ReadFile definition_type "'q config_file" | ReadFailed file_outcome

definition read_file :: "'q broker_env \<Rightarrow> string \<Rightarrow> string \<Rightarrow> definition_type \<Rightarrow> ('q broker_db, 'q config_file) action" where
  "read_file env grantCode version t =
     andThen (reads (\<lambda>db. find_config_definition grantCode version t (bkRows db))) (\<lambda>location.
     case location of
       None \<Rightarrow> throw no_location
     | Some l \<Rightarrow> if truthy (fsS3Key (cdFile l)) = None then throw no_location
         else lift_res (fetch_file env t (cdS3Bucket l) (fsS3Key (cdFile l))))"

definition failed_reads :: "'q file_read list \<Rightarrow> file_outcome list" where
  "failed_reads rs = List.map_filter (\<lambda>r. case r of ReadFailed o' \<Rightarrow> Some o' | _ \<Rightarrow> None) rs"

fun read_each ::
  "'q broker_env \<Rightarrow> string \<Rightarrow> string \<Rightarrow> 'q file_read list \<Rightarrow> definition_type list
     \<Rightarrow> ('q broker_db, 'q file_read list) action" where
  "read_each env grantCode version handled [] = ret handled"
| "read_each env grantCode version handled (t # ts) =
     andThen (settle env t ReadFailed (failed_reads handled)
       (andThen (read_file env grantCode version t) (\<lambda>content. ret (ReadFile t content)))) (\<lambda>r.
     read_each env grantCode version (handled @ [r]) ts)"

definition assert_for_grant :: "'q grant \<Rightarrow> string \<Rightarrow> unit res" where
  "assert_for_grant g grantCode =
     (if grCode g \<noteq> grantCode
      then Inl (Boom BadImplementation (''Definition is for '' @ quoted (grCode g) @ '', not '' @ quoted grantCode) [])
      else Inr ())"

text \<open>The parts of the database the modules' own writes run on.\<close>

definition on_grants :: "('q config_store, 'a) action \<Rightarrow> ('q broker_db, 'a) action" where
  "on_grants m = (\<lambda>db. case m \<lparr>csRows = bkRows db, csGrants = bkGrants db, csCache = []\<rparr> of
     (r, t) \<Rightarrow> (r, db\<lparr>bkGrants := csGrants t\<rparr>))"

definition on_agreements :: "(agreements_db, 'a) action \<Rightarrow> ('q broker_db, 'a) action" where
  "on_agreements m = (\<lambda>db. case m \<lparr>abAgreements = [], abVersions = [], abOutbox = [], abCatalog = bkRows db,
       abDefinitions = bkAgreements db, abCompiled = []\<rparr> of
     (r, t) \<Rightarrow> (r, db\<lparr>bkAgreements := abDefinitions t\<rparr>))"

definition on_payments :: "(payments_db, 'a) action \<Rightarrow> ('q broker_db, 'a) action" where
  "on_payments m = (\<lambda>db. case m \<lparr>ydPayments = [], ydClaimIds = None, ydOutbox = [], ydCatalog = bkRows db,
       ydDefinitions = bkPayments db, ydCompiled = []\<rparr> of
     (r, t) \<Rightarrow> (r, db\<lparr>bkPayments := ydDefinitions t\<rparr>))"

definition store_grant :: "'q broker_env \<Rightarrow> string \<Rightarrow> string \<Rightarrow> 'q raw_definition \<Rightarrow> ('q broker_db, unit) action" where
  "store_grant env grantCode version raw =
     andThen (lift_res (check_grant_definition env raw version)) (\<lambda>g.
     andThen (lift_res (assert_for_grant g grantCode)) (\<lambda>_.
     on_grants (save_grant (beGrants env) g (case raw of Shaped _ startDate \<Rightarrow> startDate | Malformed _ \<Rightarrow> None))))"

definition store_file :: "'q broker_env \<Rightarrow> string \<Rightarrow> string \<Rightarrow> 'q config_file \<Rightarrow> ('q broker_db, unit) action" where
  "store_file env grantCode version content =
     (case content of
        GrantContent raw \<Rightarrow> store_grant env grantCode version raw
      | AgreementContent d \<Rightarrow> on_agreements (store_agreement_definition (beAgreements env) True grantCode version d)
      | PaymentContent raw \<Rightarrow> on_payments (store_payment_definition (bePayments env) True grantCode version raw))"

definition is_stored :: "definition_type \<Rightarrow> string \<Rightarrow> string \<Rightarrow> 'q broker_db \<Rightarrow> bool" where
  "is_stored t grantCode version db \<longleftrightarrow> version \<in> stored_versions t grantCode [version] db"

fun store_each ::
  "'q broker_env \<Rightarrow> string \<Rightarrow> string \<Rightarrow> file_outcome list \<Rightarrow> 'q file_read list
     \<Rightarrow> ('q broker_db, file_outcome list) action" where
  "store_each env grantCode version handled [] = ret handled"
| "store_each env grantCode version handled (ReadFailed o' # rs) = store_each env grantCode version (handled @ [o']) rs"
| "store_each env grantCode version handled (ReadFile t content # rs) =
     andThen (settle env t (\<lambda>o'. o') handled
       (andThen (reads (is_stored t grantCode version)) (\<lambda>stored.
        andThen (if stored then ret () else store_file env grantCode version content) (\<lambda>_.
        ret (StoredFile t))))) (\<lambda>o'.
     store_each env grantCode version (handled @ [o']) rs)"

definition config_version_not_found :: js_error where
  "config_version_not_found = Boom NotFound ''grant version not found'' [(''reason'', ''GRANT_VERSION_NOT_FOUND'')]"

definition read_missing_files :: "'q broker_env \<Rightarrow> string \<Rightarrow> string \<Rightarrow> ('q broker_db, 'q file_read list) action" where
  "read_missing_files env grantCode version =
     andThen (reads (load_config_version_files env grantCode (Some [version]))) (\<lambda>loaded.
     andThen (lift_res loaded) (\<lambda>found.
     case found of
       [] \<Rightarrow> throw config_version_not_found
     | v # _ \<Rightarrow> read_each env grantCode version [] (missing_files v)))"

section \<open>The audit of a fetch\<close>

definition error_code_of :: "js_error \<Rightarrow> string" where
  "error_code_of e =
     (case e of
        Boom _ _ payload \<Rightarrow> if map_of payload ''reason'' = Some ''GRANT_VERSION_NOT_FOUND'' then ''GRANT_VERSION_NOT_FOUND''
          else ''UNEXPECTED_FAILURE''
      | _ \<Rightarrow> ''UNEXPECTED_FAILURE'')"

definition to_audit_file :: "string \<times> string option \<Rightarrow> json" where
  "to_audit_file = (\<lambda>(name, reason). JObj (case reason of
      None \<Rightarrow> [(''file'', JStr name), (''outcome'', JStr ''stored'')]
    | Some why \<Rightarrow> [(''file'', JStr name), (''outcome'', JStr ''failed''), (''reason'', JStr why)]))"

definition outcome_entry :: "file_outcome \<Rightarrow> string \<times> string option" where
  "outcome_entry o' = (case o' of StoredFile t \<Rightarrow> (type_name t, None) | FailedFile t reason _ \<Rightarrow> (type_name t, Some reason))"

text \<open>A refused or stopped fetch names the files of its error's data; the reason of a refusal is none.\<close>

definition audited_files :: "js_error + file_outcome list \<Rightarrow> json" where
  "audited_files answer = JArr (map to_audit_file (case answer of
      Inr files \<Rightarrow> map outcome_entry files
    | Inl e \<Rightarrow> (case e of
        Boom BadImplementation _ files \<Rightarrow> map (\<lambda>(name, why). (name, Some why)) files
      | _ \<Rightarrow> [])))"

record fetch_request =
  fqGrantCode :: string
  fqVersion :: string
  fqCaller :: json

definition build_fetch_config_definitions_audit :: "fetch_request \<Rightarrow> file_outcome list res \<Rightarrow> audit" where
  "build_fetch_config_definitions_audit rq answer =
     \<lparr>auEntity = ''GRANT'', auAction = ''FETCH_CONFIG_DEFINITION'', auEntityId = fqGrantCode rq,
      auDetails = [(''caller'', fqCaller rq), (''version'', JStr (fqVersion rq)), (''files'', audited_files answer)]
        @ (case answer of Inl e \<Rightarrow> [(''errorCode'', JStr (error_code_of e))] | Inr _ \<Rightarrow> []),
      auSegregationRef = fqGrantCode rq\<rparr>"

text \<open>The audit of a failure is written on its own and its own failure is not thrown.\<close>

definition audit_failure :: "'q broker_env \<Rightarrow> fetch_request \<Rightarrow> js_error \<Rightarrow> 'q broker_db \<Rightarrow> 'q broker_db" where
  "audit_failure env rq e db =
     (let a = build_fetch_config_definitions_audit rq (Inl e) in
      if beValidAudit env a then db\<lparr>bkAudits := bkAudits db @ [(a, FAILURE)]\<rparr> else db)"

text \<open>
  S3 is read before the transaction. The files and the audit of the fetch are committed together: an
  error leaves what others did, with the audit of the failure. An error the driver labels transient
  makes it run the transaction again, which is left out.
\<close>

definition store_fetched ::
  "'q broker_env \<Rightarrow> fetch_request \<Rightarrow> 'q file_read list \<Rightarrow> ('q broker_db, file_outcome list) action" where
  "store_fetched env rq rs = store_each env (fqGrantCode rq) (fqVersion rq) [] rs"

definition store_fetched_with_audit ::
  "'q broker_env \<Rightarrow> fetch_request \<Rightarrow> 'q file_read list \<Rightarrow> ('q broker_db, file_outcome list) action" where
  "store_fetched_with_audit env rq rs = (\<lambda>db.
     case store_fetched env rq rs db of
       (Inl e, _) \<Rightarrow> (Inl e, audit_failure env rq e db)
     | (Inr files, t) \<Rightarrow>
         let a = build_fetch_config_definitions_audit rq (Inr files) in
         if beValidAudit env a then (Inr files, t\<lparr>bkAudits := bkAudits t @ [(a, SUCCESS)]\<rparr>)
         else (Inl (JsError ''Audit event failed validation''), db))"

definition fetch_config_definitions :: "'q broker_env \<Rightarrow> fetch_request \<Rightarrow> ('q broker_db, file_outcome list) action" where
  "fetch_config_definitions env rq = (\<lambda>db.
     case read_missing_files env (fqGrantCode rq) (fqVersion rq) db of
       (Inl refusal, _) \<Rightarrow> (Inl refusal, audit_failure env rq refusal db)
     | (Inr rs, _) \<Rightarrow> store_fetched_with_audit env rq rs (beMeanwhile env db))"

end
