(* ===== verification/ArrivalLaws.thy ===== *)
theory ArrivalLaws
  imports ConfigArrival PaymentLaws "HOL-Library.Sublist"
begin

text \<open>
  What the arrival of a version and the fetch of its files promise: the row a version is recorded in,
  that recording it again changes nothing, and what a fetch adds to the stored definitions.
\<close>

section \<open>Rows\<close>

lemma obj_put_same: "map_of es k = Some v \<Longrightarrow> obj_put k v es = es"
  by (induction es) auto

lemma place_definition_again:
  "place_definition t f (place_definition t f ds) = place_definition t f ds"
  by (simp add: place_definition_def obj_put_same)

lemma place_definition_settled:
  assumes "map_of ds t = Some g" and "fsS3Key g = fsS3Key f"
  shows "place_definition t f ds = ds"
  using assms by (simp add: place_definition_def obj_put_same)

lemma upsert_update_idem:
  assumes "cv' = cv\<lparr>cvReceivedAt := w\<rparr>"
  shows "upsert_update cv' a p (upsert_update cv a p r) = upsert_update cv a p r"
proof (cases a; cases p)
qed (simp_all add: assms upsert_update_def with_worst_fetch_status_def place_definition_settled place_definition_keys)

lemma update_one_idem:
  assumes "\<And>r. p (f r) = p r" and "\<And>r. g (f r) = f r"
  shows "update_one p g (update_one p f rows) = update_one p f rows"
  using assms by (induction rows) auto

lemma list_ex_update_one: "(\<And>r. p (f r) = p r) \<Longrightarrow> list_ex p (update_one p f rows) = list_ex p rows"
  by (induction rows) auto

lemma upsert_update_version [simp]:
  "crGrantCode (upsert_update cv a p r) = crGrantCode r" "crVersion (upsert_update cv a p r) = crVersion r"
  using upsert_row_key [of cv a p r] by (simp_all add: row_key_def)

lemma same_version_upsert [simp]: "same_version c v (upsert_update cv a p r) = same_version c v r"
  by (simp add: same_version_def)

definition new_row :: "config_version \<Rightarrow> config_row" where
  "new_row cv = (config_version_to_document cv)\<lparr>crDefinitions := []\<rparr>"

lemma same_version_new_row [simp]: "same_version (cvGrantCode cv) (cvVersion cv) (new_row cv)"
  by (simp add: new_row_def same_version_def config_version_to_document_def)

lemma update_one_append_none:
  "\<not> list_ex p rows \<Longrightarrow> update_one p f (rows @ [r]) = rows @ (if p r then [f r] else [r])"
  by (induction rows) auto

lemma upsert_again:
  assumes "cv' = cv\<lparr>cvReceivedAt := w\<rparr>"
  shows "upsert cv' a p (upsert cv a p rows) = upsert cv a p rows"
proof -
  let ?p = "same_version (cvGrantCode cv) (cvVersion cv)"
  have key: "cvGrantCode cv' = cvGrantCode cv" "cvVersion cv' = cvVersion cv" using assms by simp_all
  have idem: "upsert_update cv' a p (upsert_update cv a p r) = upsert_update cv a p r" for r
    using upsert_update_idem [OF assms] .
  show ?thesis
  proof (cases "list_ex ?p rows")
    case True
    have "list_ex ?p (update_one ?p (upsert_update cv a p) rows)" using True by (simp add: list_ex_update_one)
    then show ?thesis using True by (simp add: upsert_def key update_one_idem idem)
  next
    case False
    have "upsert cv a p rows = rows @ [upsert_update cv a p (new_row cv)]" using False by (simp add: upsert_def new_row_def)
    then show ?thesis using False by (simp add: upsert_def key update_one_append_none idem)
  qed
qed

lemma find_appended: "find p (xs @ ys) = (case find p xs of None \<Rightarrow> find p ys | Some x \<Rightarrow> Some x)"
  by (induction xs) auto

lemma upsert_find:
  "find (same_version (cvGrantCode cv) (cvVersion cv)) (upsert cv a p rows)
     = Some (upsert_update cv a p (case find (same_version (cvGrantCode cv) (cvVersion cv)) rows of Some r \<Rightarrow> r | None \<Rightarrow> new_row cv))"
proof (cases "list_ex (same_version (cvGrantCode cv) (cvVersion cv)) rows")
  case True
  then obtain r where "find (same_version (cvGrantCode cv) (cvVersion cv)) rows = Some r"
    by (metis find_None_iff list_ex_iff not_None_eq)
  then show ?thesis using True by (simp add: upsert_def find_updated)
next
  case False
  then have "find (same_version (cvGrantCode cv) (cvVersion cv)) rows = None" by (metis find_None_iff list_ex_iff)
  then show ?thesis using False by (simp add: upsert_def new_row_def [symmetric] find_appended)
qed

lemma upsert_others:
  assumes "c \<noteq> cvGrantCode cv \<or> v \<noteq> cvVersion cv"
  shows "find (same_version c v) (upsert cv a p rows) = find (same_version c v) rows"
proof -
  have "\<not> same_version c v r" if "same_version (cvGrantCode cv) (cvVersion cv) r" for r
    using assms that by (auto simp: same_version_def)
  then have "find (same_version c v) (update_one (same_version (cvGrantCode cv) (cvVersion cv)) (upsert_update cv a p) rows)
      = find (same_version c v) rows"
    by (induction rows) auto
  moreover have "\<not> same_version c v (new_row cv)" using assms by (auto simp: new_row_def same_version_def config_version_to_document_def)
  ultimately show ?thesis
    by (simp add: upsert_def new_row_def [symmetric] find_appended split: option.splits)
qed

section \<open>Arrival\<close>

definition event_key :: "version_event \<Rightarrow> string \<times> string" where
  "event_key e = (part_string (veGrantCode e), part_string (veVersion e))"

definition keys_of :: "'q broker_env \<Rightarrow> version_event \<Rightarrow> definition_type \<Rightarrow> string option" where
  "keys_of env e t = (case manifest_key env (or_empty (veManifest e)) t of Inr k \<Rightarrow> k | Inl _ \<Rightarrow> None)"

lemma manifest_key_nonempty:
  assumes "manifest_key env ms t = Inr (Some k)"
  shows "k \<noteq> []"
proof -
  have "\<not> ends_with [] (x # xs)" for x xs by (simp add: ends_with_def starts_with_def)
  then have "manifest_match ms dir nm \<noteq> Some []" for dir nm
    by (auto simp: manifest_match_def dest!: find_SomeD)
  then show ?thesis using assms
    by (auto simp: manifest_key_def find_s3_key_in_manifest_def split: definition_type.splits option.splits if_splits)
qed

lemma apply_config_version_Inr:
  assumes "apply_config_version env e db = (Inr (), db')"
  shows "\<exists>cv. validate_event_data e = Inr ()
    \<and> (\<forall>t. manifest_key env (or_empty (veManifest e)) t = Inr (keys_of env e t))
    \<and> validate_config_definitions env (fst (event_key e)) (snd (event_key e)) (veBucket e) (keys_of env e) = Inr ()
    \<and> config_version_new (feVersionMessages (beGrants env)) (beNow env) (fst (event_key e)) (snd (event_key e))
        (part_string (veStatus e)) (keys_of env e GrantFile) (veBucket e) = Inr cv
    \<and> db' = db\<lparr>bkRows := upsert cv (keys_of env e AgreementFile) (keys_of env e PaymentFile) (bkRows db)\<rparr>"
proof -
  let ?ms = "or_empty (veManifest e)"
  obtain g a p where keys: "manifest_key env ?ms GrantFile = Inr g" "manifest_key env ?ms AgreementFile = Inr a"
      "manifest_key env ?ms PaymentFile = Inr p"
    using assms by (auto simp: apply_config_version_def Let_def andThen_Inr)
  then have each: "manifest_key env ?ms t = Inr (keys_of env e t)" for t
    by (cases t) (simp_all add: keys_of_def)
  have truthy: "truthy (keys_of env e t) = keys_of env e t" for t
    using manifest_key_nonempty [of env ?ms t] each [of t]
    by (cases "keys_of env e t") (auto simp: truthy_def split: list.splits)
  have fn: "(\<lambda>t. case t of GrantFile \<Rightarrow> keys_of env e GrantFile | AgreementFile \<Rightarrow> keys_of env e AgreementFile
      | PaymentFile \<Rightarrow> keys_of env e PaymentFile) = keys_of env e"
    by (rule ext) (simp split: definition_type.split)
  show ?thesis using assms each truthy fn
    by (auto simp: apply_config_version_def Let_def andThen_Inr event_key_def)
qed

lemma process_config_version_Inr [simp]:
  "process_config_version env e db = (Inr x, db') \<longleftrightarrow> apply_config_version env e db = (Inr x, db')"
  by (auto simp: process_config_version_def catch_def split: prod.splits sum.splits)

lemma apply_config_version_Inl: "apply_config_version env e db = (Inl err, db') \<Longrightarrow> db' = db"
  by (auto simp: apply_config_version_def Let_def andThen_def lift_res_def writes_def split: prod.splits sum.splits)

text \<open>The row of a version that arrived: its files where the manifest has them, as far as they were.\<close>

lemma new_fetch_key [simp]: "fsS3Key (new_fetch_state k) = k"
  by (simp add: new_fetch_state_def)

lemma upserted_file:
  assumes "keys GrantFile = Some gk" and "cvGrant cv = new_fetch_state (keys GrantFile)"
  shows "map_of (crDefinitions (upsert_update cv (keys AgreementFile) (keys PaymentFile) r)) t =
    (case keys t of
       None \<Rightarrow> map_of (crDefinitions r) t
     | Some k \<Rightarrow> Some ((case map_of (crDefinitions r) t of None \<Rightarrow> new_fetch_state (Some k) | Some f \<Rightarrow> f)\<lparr>fsS3Key := Some k\<rparr>))"
  using assms
  by (cases t; cases "keys AgreementFile"; cases "keys PaymentFile")
    (simp_all add: upsert_update_def with_worst_fetch_status_def place_definition_keys)

lemma config_version_new_Inr:
  assumes "config_version_new jm now code version status key bucket = Inr cv"
  shows "cvGrantCode cv = code" and "cvVersion cv = version" and "cvStatus cv = status" and "cvS3Bucket cv = bucket"
    and "cvGrant cv = new_fetch_state key" and "parse_semver version = Some (cvSemver cv)"
    and "config_version_new jm now' code version status key bucket = Inr (cv\<lparr>cvReceivedAt := now'\<rparr>)"
  using assms by (auto simp: config_version_new_def new_config_version_def config_version_schema_def
      split: option.splits if_splits)

lemma same_checks:
  "manifest_key (env\<lparr>beNow := w\<rparr>) = manifest_key env" "keys_of (env\<lparr>beNow := w\<rparr>) = keys_of env"
  "validate_config_definitions (env\<lparr>beNow := w\<rparr>) = validate_config_definitions env"
proof -
  show keys: "manifest_key (env\<lparr>beNow := w\<rparr>) = manifest_key env"
    by (simp add: fun_eq_iff manifest_key_def split: definition_type.split)
  show "keys_of (env\<lparr>beNow := w\<rparr>) = keys_of env" by (simp add: fun_eq_iff keys_of_def keys)
  have "fetch_file (env\<lparr>beNow := w\<rparr>) = fetch_file env"
    by (simp add: fun_eq_iff fetch_file_def split: definition_type.split)
  moreover have "check_grant_definition (env\<lparr>beNow := w\<rparr>) = check_grant_definition env"
    by (simp add: fun_eq_iff check_grant_definition_def split: raw_definition.split)
  then have "run_check (env\<lparr>beNow := w\<rparr>) = run_check env"
    by (simp add: fun_eq_iff run_check_def split: config_file.split)
  ultimately have "check_definition (env\<lparr>beNow := w\<rparr>) = check_definition env"
    by (simp add: fun_eq_iff check_definition_def)
  then show "validate_config_definitions (env\<lparr>beNow := w\<rparr>) = validate_config_definitions env"
    unfolding validate_config_definitions_def [abs_def] by (simp only:)
qed

lemma truthy_keys:
  assumes "manifest_key env (or_empty (veManifest e)) t = Inr (keys_of env e t)"
  shows "truthy (keys_of env e t) = keys_of env e t"
  using manifest_key_nonempty [of env "or_empty (veManifest e)" t] assms
  by (cases "keys_of env e t") (auto simp: truthy_def split: list.splits)

lemma checked_file:
  assumes "validate_config_definitions env code version bucket keys = Inr ()" and "keys t = Some k" and "k \<noteq> []"
  shows "\<exists>content. fetch_file env t bucket (Some k) = Inr content \<and> run_check env content code version = Inr ()"
proof -
  have "t \<in> set file_types" by (cases t) (simp_all add: file_types_def)
  then have "check_definition env t k bucket code version = Inr ()"
    using assms by (fastforce simp: validate_config_definitions_def for_each_Inr truthy_def split: list.splits)
  then show ?thesis by (auto simp: check_definition_def bind_res_Inr)
qed

section \<open>Fetching\<close>

text \<open>The stored definitions only grow, and nothing else but the audits changes.\<close>

definition adds_files :: "'q broker_db \<Rightarrow> 'q broker_db \<Rightarrow> bool" where
  "adds_files db db' \<longleftrightarrow>
     bkRows db' = bkRows db \<and> bkAudits db' = bkAudits db \<and> prefix (bkGrants db) (bkGrants db')
     \<and> prefix (bkAgreements db) (bkAgreements db') \<and> prefix (bkPayments db) (bkPayments db')"

lemma adds_files_refl [simp]: "adds_files db db"
  by (simp add: adds_files_def)

lemma adds_files_trans: "adds_files a b \<Longrightarrow> adds_files b c \<Longrightarrow> adds_files a c"
  unfolding adds_files_def by (metis prefix_order.trans)

definition content_type :: "'q config_file \<Rightarrow> definition_type" where
  "content_type content = (case content of GrantContent _ \<Rightarrow> GrantFile | AgreementContent _ \<Rightarrow> AgreementFile
     | PaymentContent _ \<Rightarrow> PaymentFile)"

lemma is_stored_kept:
  assumes "adds_files db db'" and "is_stored t code v db"
  shows "is_stored t code v db'"
  using assms
  by (cases t) (auto simp: adds_files_def prefix_def is_stored_def stored_versions_def List.map_filter_def
      split: if_splits option.splits)

lemma store_grant_adds:
  assumes "store_grant env code v raw db = (Inr (), db')"
  shows "adds_files db db' \<and> is_stored GrantFile code v db'"
proof -
  obtain g where g: "check_grant_definition env raw v = Inr g" "grCode g = code"
      and save: "on_grants (save_grant (beGrants env) g (case raw of Shaped _ s \<Rightarrow> s | Malformed _ \<Rightarrow> None)) db = (Inr (), db')"
    using assms by (auto simp: store_grant_def andThen_Inr assert_for_grant_def split: if_splits)
  obtain d s where "raw = Shaped d s" using g(1) by (cases raw) (simp_all add: check_grant_definition_def)
  then have version: "grVersion g = Some v"
    using g(1) by (auto simp: check_grant_definition_def from_definition_def bind_res_Inr dest: new_grant_version)
  obtain start where db': "db' = db\<lparr>bkGrants := bkGrants db @ [g\<lparr>grStartDate := start\<rparr>]\<rparr>"
    using save g(2) version
    by (auto simp: on_grants_def save_grant_def andThen_Inr grant_document_def bind_res_Inr split: prod.splits if_splits)
  let ?doc = "g\<lparr>grStartDate := start\<rparr>"
  have doc: "grCode ?doc = code" "grVersion ?doc = Some v" using g(2) version by simp_all
  have "adds_files db db'" by (simp add: adds_files_def db')
  then show ?thesis using doc by (auto simp: is_stored_def stored_versions_def db' List.map_filter_def)
qed

lemma store_file_adds:
  assumes "store_file env code v content db = (Inr (), db')"
  shows "adds_files db db' \<and> is_stored (content_type content) code v db'"
proof (cases content)
    case (GrantContent raw)
    then show ?thesis using assms store_grant_adds by (simp add: store_file_def content_type_def)
  next
    case (AgreementContent d)
    let ?new = "\<lparr>sfCode = code, sfVersion = v, sfDefinition = d\<rparr>"
    have db': "db' = db\<lparr>bkAgreements := bkAgreements db @ [?new]\<rparr>"
      using assms AgreementContent
      by (auto simp: store_file_def on_agreements_def store_agreement_definition_def insert_agreement_definition_def
          andThen_Inr split: prod.splits if_splits)
    have "adds_files db db'" by (simp add: adds_files_def db')
    then show ?thesis using AgreementContent by (simp add: is_stored_def stored_versions_def content_type_def db')
  next
    case (PaymentContent raw)
    let ?new = "\<lparr>prCode = code, prVersion = v, prDefinition = raw\<rparr>"
    have db': "db' = db\<lparr>bkPayments := bkPayments db @ [?new]\<rparr>"
      using assms PaymentContent
      by (auto simp: store_file_def on_payments_def store_payment_definition_def insert_payment_definition_def
          andThen_Inr split: prod.splits if_splits)
    have "adds_files db db'" by (simp add: adds_files_def db')
    then show ?thesis using PaymentContent by (simp add: is_stored_def stored_versions_def content_type_def db')
qed

text \<open>Each file is settled: a failure is an outcome, the stores of a file that is not there add it.\<close>

lemma settle_Inr:
  "settle env t asFailed handled step s = (Inr x, u) \<longleftrightarrow> step s = (Inr x, u)
     \<or> (\<exists>e reason. step s = (Inl e, u) \<and> reason_of e = Some reason \<and> x = asFailed (failed t reason e))"
  by (auto simp: settle_def catch_Inr split: option.splits if_splits)

definition outcome_type :: "file_outcome \<Rightarrow> definition_type" where
  "outcome_type o' = (case o' of StoredFile t \<Rightarrow> t | FailedFile t _ _ \<Rightarrow> t)"

definition read_type :: "'q file_read \<Rightarrow> definition_type" where
  "read_type r = (case r of ReadFile t _ \<Rightarrow> t | ReadFailed o' \<Rightarrow> outcome_type o')"

definition read_ok :: "'q file_read \<Rightarrow> bool" where
  "read_ok r \<longleftrightarrow> (case r of ReadFile t content \<Rightarrow> content_type content = t | ReadFailed o' \<Rightarrow> is_failed o')"

lemma outcome_types [simp]: "outcome_type (StoredFile t) = t" "outcome_type (failed t reason e) = t" "is_failed (failed t reason e)"
  "read_type (ReadFile t content) = t" "read_type (ReadFailed o') = outcome_type o'" "\<not> is_failed (StoredFile t)"
  by (simp_all add: outcome_type_def failed_def is_failed_def read_type_def)

lemma store_file_fails: "store_file env code v content db = (Inl e, db') \<Longrightarrow> db' = db"
  by (cases content)
    (auto simp: store_file_def store_grant_def on_grants_def save_grant_def on_agreements_def store_agreement_definition_def
      insert_agreement_definition_def on_payments_def store_payment_definition_def insert_payment_definition_def
      andThen_def lift_res_def split: prod.splits sum.splits if_splits)

lemma fetch_file_type: "fetch_file env t bucket key = Inr content \<Longrightarrow> content_type content = t"
  by (cases t) (auto simp: fetch_file_def bind_res_Inr content_type_def)

lemma read_file_Inr:
  "read_file env code v t db = (Inr content, db') \<Longrightarrow> content_type content = t \<and> db' = db"
  by (auto simp: read_file_def andThen_Inr dest: fetch_file_type split: option.splits if_splits)

lemma read_file_state: "snd (read_file env code v t db) = db"
  by (auto simp: read_file_def andThen_def split: option.splits prod.splits sum.splits)

lemma read_each_Inr:
  assumes "read_each env code v handled ts db = (Inr rs, db')"
  shows "db' = db \<and> (\<exists>new. rs = handled @ new \<and> map read_type new = ts \<and> list_all read_ok new)"
  using assms
proof (induction ts arbitrary: handled)
  case (Cons t ts)
  obtain r where step: "settle env t ReadFailed (failed_reads handled)
       (andThen (read_file env code v t) (\<lambda>content. ret (ReadFile t content))) db = (Inr r, db)"
      and rest: "read_each env code v (handled @ [r]) ts db = (Inr rs, db')"
    using Cons.prems read_file_state [of env code v t db]
    by (auto simp: andThen_Inr settle_Inr andThen_def split: prod.splits sum.splits)
  have "read_type r = t \<and> read_ok r"
    using step by (auto simp: settle_Inr andThen_Inr read_ok_def dest!: read_file_Inr)
  then show ?case using Cons.IH [OF rest] by auto
qed simp

lemma store_step:
  assumes "settle env t (\<lambda>o'. o') handled (andThen (reads (is_stored t code v)) (\<lambda>stored.
       andThen (if stored then ret () else store_file env code v content) (\<lambda>_. ret (StoredFile t)))) db = (Inr x, db1)"
    and "content_type content = t"
  shows "adds_files db db1 \<and> outcome_type x = t \<and> (\<forall>t'. x = StoredFile t' \<longrightarrow> is_stored t' code v db1)"
proof (cases "is_stored t code v db")
  case True
  then show ?thesis using assms(1) by (auto simp: settle_Inr)
next
  case False
  show ?thesis
  proof (cases "fst (store_file env code v content db)")
    case (Inl e)
    then have "store_file env code v content db = (Inl e, db)" using store_file_fails by (metis prod.collapse)
    then show ?thesis using assms(1) False by (auto simp: settle_Inr failed_def outcome_type_def)
  next
    case (Inr u)
    then obtain db2 where store: "store_file env code v content db = (Inr (), db2)" by (metis prod.collapse old.unit.exhaust)
    then show ?thesis using assms False store_file_adds [OF store] by (auto simp: settle_Inr)
  qed
qed

lemma store_each_Inr:
  assumes "store_each env code v handled rs db = (Inr files, db')" and "list_all read_ok rs"
  shows "adds_files db db' \<and> (\<exists>new. files = handled @ new \<and> map outcome_type new = map read_type rs
    \<and> (\<forall>t. StoredFile t \<in> set new \<longrightarrow> is_stored t code v db'))"
  using assms
proof (induction env code v handled rs arbitrary: db rule: store_each.induct)
  case (2 env code v handled x rs)
  obtain new where new: "files = (handled @ [x]) @ new" "map outcome_type new = map read_type rs"
      "\<forall>t. StoredFile t \<in> set new \<longrightarrow> is_stored t code v db'" and "adds_files db db'"
    using "2.IH" 2(2,3) by auto
  moreover have "is_failed x" using 2(3) by (simp add: read_ok_def)
  then have "x \<noteq> StoredFile t" for t by auto
  ultimately show ?case by (intro conjI exI [of _ "x # new"]) auto
next
  case (3 env code v handled t content rs)
  obtain x db1 where step: "settle env t (\<lambda>o'. o') handled (andThen (reads (is_stored t code v)) (\<lambda>stored.
       andThen (if stored then ret () else store_file env code v content) (\<lambda>_. ret (StoredFile t)))) db = (Inr x, db1)"
      and rest: "store_each env code v (handled @ [x]) rs db1 = (Inr files, db')"
    using 3(2) by (auto simp: andThen_Inr)
  have x: "adds_files db db1" "outcome_type x = t" "\<And>t'. x = StoredFile t' \<Longrightarrow> is_stored t' code v db1"
    using store_step [OF step] 3(3) by (auto simp: read_ok_def)
  obtain new where new: "files = (handled @ [x]) @ new" "map outcome_type new = map read_type rs"
      "\<forall>t. StoredFile t \<in> set new \<longrightarrow> is_stored t code v db'" and adds: "adds_files db1 db'"
    using "3.IH" [OF rest] 3(3) by auto
  have "adds_files db db'" by (rule adds_files_trans [OF x(1) adds])
  moreover have "is_stored t' code v db'" if "StoredFile t' \<in> set (x # new)" for t'
  proof (cases "x = StoredFile t'")
    case True
    then show ?thesis using is_stored_kept [OF adds x(3)] by blast
  next
    case False
    then show ?thesis using that new(3) by auto
  qed
  moreover have "files = handled @ x # new" "map outcome_type (x # new) = map read_type (ReadFile t content # rs)"
    using new(1,2) x(2) by simp_all
  ultimately show ?case by blast
qed simp

section \<open>What arrival and fetching promise\<close>

lemma grant_key_required: "manifest_key env ms GrantFile \<noteq> Inr None"
  by (simp add: manifest_key_def find_s3_key_in_manifest_def split: option.splits)

lemma recorded_version:
  assumes "process_config_version env e db = (Inr (), db')" and key: "event_key e = (code, version)"
  shows "keys_of env e GrantFile \<noteq> None
    \<and> (\<forall>t key. keys_of env e t = Some key \<longrightarrow>
         (\<exists>content. fetch_file env t (veBucket e) (Some key) = Inr content \<and> run_check env content code version = Inr ())
         \<and> (\<exists>d. find_config_definition code version t (bkRows db') = Some d \<and> cdS3Bucket d = veBucket e
              \<and> cdFile d = (case find_config_definition code version t (bkRows db) of
                   None \<Rightarrow> new_fetch_state (Some key) | Some d0 \<Rightarrow> cdFile d0)\<lparr>fsS3Key := Some key\<rparr>))
    \<and> (\<forall>c v. (c, v) \<noteq> (code, version) \<longrightarrow>
         find (same_version c v) (bkRows db') = find (same_version c v) (bkRows db))
    \<and> process_config_version (env\<lparr>beNow := later\<rparr>) e db' = (Inr (), db')"
proof -
  let ?keys = "keys_of env e"
  obtain cv where valid: "validate_event_data e = Inr ()"
      and each: "\<And>t. manifest_key env (or_empty (veManifest e)) t = Inr (?keys t)"
      and checks: "validate_config_definitions env code version (veBucket e) ?keys = Inr ()"
      and new: "config_version_new (feVersionMessages (beGrants env)) (beNow env) code version
        (part_string (veStatus e)) (?keys GrantFile) (veBucket e) = Inr cv"
      and db': "db' = db\<lparr>bkRows := upsert cv (?keys AgreementFile) (?keys PaymentFile) (bkRows db)\<rparr>"
    using apply_config_version_Inr assms key by fastforce
  note cv = config_version_new_Inr [OF new]
  have "?keys GrantFile \<noteq> None"
    using each [of GrantFile]
    by (metis grant_key_required)
  then obtain gk where gk: "?keys GrantFile = Some gk" by blast
  let ?old = "find (same_version code version) (bkRows db)"
  let ?r = "case ?old of Some r \<Rightarrow> r | None \<Rightarrow> new_row cv"
  have row: "find (same_version code version) (bkRows db') = Some (upsert_update cv (?keys AgreementFile) (?keys PaymentFile) ?r)"
    using upsert_find [of cv] cv(1,2) by (simp add: db')
  have entry: "\<exists>d. find_config_definition code version t (bkRows db') = Some d \<and> cdS3Bucket d = veBucket e
      \<and> cdFile d = (case find_config_definition code version t (bkRows db) of
           None \<Rightarrow> new_fetch_state (Some k) | Some d0 \<Rightarrow> cdFile d0)\<lparr>fsS3Key := Some k\<rparr>" if k: "?keys t = Some k" for t k
  proof -
    have bucket: "crS3Bucket (upsert_update cv a p r) = veBucket e" for a p r
      by (simp add: upsert_update_def with_worst_fetch_status_def cv(4))
    have "map_of (crDefinitions (upsert_update cv (?keys AgreementFile) (?keys PaymentFile) ?r)) t =
        Some ((case map_of (crDefinitions ?r) t of None \<Rightarrow> new_fetch_state (Some k) | Some f \<Rightarrow> f)\<lparr>fsS3Key := Some k\<rparr>)"
      using upserted_file [of ?keys, OF gk cv(5), of ?r t] k by simp
    moreover have "map_of (crDefinitions ?r) t = map_option cdFile (find_config_definition code version t (bkRows db))"
      by (cases ?old) (simp_all add: find_config_definition_def to_definition_def new_row_def option.map_comp comp_def option.map_ident)
    ultimately show ?thesis
      by (simp add: find_config_definition_def to_definition_def row bucket)
        (cases "find_config_definition code version t (bkRows db)"; simp add: find_config_definition_def to_definition_def)
  qed
  have checked: "\<exists>content. fetch_file env t (veBucket e) (Some k) = Inr content \<and> run_check env content code version = Inr ()"
    if k: "?keys t = Some k" for t k
    using checked_file [OF checks k] manifest_key_nonempty each [of t] k by metis
  have others: "find (same_version c v) (bkRows db') = find (same_version c v) (bkRows db)" if "(c, v) \<noteq> (code, version)" for c v
    using upsert_others [of c cv v] that cv(1,2) by (auto simp: db')
  have again: "upsert (cv\<lparr>cvReceivedAt := later\<rparr>) (?keys AgreementFile) (?keys PaymentFile) (bkRows db') = bkRows db'"
    by (simp add: db' upsert_again [OF refl])
  have "truthy (?keys t) = ?keys t" for t using truthy_keys [OF each] .
  moreover have fn: "(\<lambda>t. case t of GrantFile \<Rightarrow> ?keys GrantFile | AgreementFile \<Rightarrow> ?keys AgreementFile
      | PaymentFile \<Rightarrow> ?keys PaymentFile) = ?keys"
    by (rule ext) (simp split: definition_type.split)
  ultimately have "apply_config_version (env\<lparr>beNow := later\<rparr>) e db' = (Inr (), db')"
    using valid each checks cv(7) again key
    by (simp add: apply_config_version_def Let_def event_key_def same_checks)
  then show ?thesis using gk entry checked others by simp
qed

lemma arrived_loads:
  assumes arrived: "process_config_version env e db = (Inr (), db')" and key: "event_key e = (code, version)"
    and k: "keys_of env e PaymentFile = Some key" and rows: "ydCatalog pdb = bkRows db'"
    and t: "find_config_definition code version PaymentFile (ydCatalog pdb) = Some t"
    and usable: "fsFetchStatus (cdFile t) \<noteq> FetchPermanent" and cold: "map_of (ydCompiled pdb) (at_version code version) = None"
    and none: "find_payment_definition code version pdb = None"
  shows "\<exists>d pdb'. load_payment_definition (bePayments env) code version pdb = (Inr d, pdb') \<and> pdnCode d = code"
proof -
  note recorded = recorded_version [OF arrived key, THEN conjunct2, THEN conjunct1, rule_format, OF k]
  obtain content where content: "fetch_file env PaymentFile (veBucket e) (Some key) = Inr content"
      "run_check env content code version = Inr ()" using recorded by blast
  obtain raw where raw: "yeFetch (bePayments env) (veBucket e) (Some key) = Inr raw" and "content = PaymentContent raw"
    using content(1) by (auto simp: fetch_file_def bind_res_Inr)
  then obtain d where d: "compile_payment_definition (bePayments env) raw code = Inr d"
    using content(2) by (auto simp: run_check_def bind_res_Inr)
  have place: "cdS3Bucket t = veBucket e" "fsS3Key (cdFile t) = Some key" using recorded t rows by auto
  have "pdnCode d = code" using d by (auto simp: compile_payment_definition_def bind_res_Inr split: if_splits)
  moreover have "\<exists>pdb'. compile_and_store (bePayments env) t code (at_version code version) pdb = (Inr d, pdb')"
    using found_definition [OF t] none place raw d
    by (simp add: compile_and_store_def insert_payment_definition_def update_payment_status_def andThen_def)
  ultimately show ?thesis using t usable cold
    by (auto simp: load_payment_definition_def load_payment_compiled_def load_payment_def catch_def)
qed

lemma read_missing_Inr:
  assumes "read_missing_files env code version db = (Inr rs, db0)"
  shows "\<exists>v. find_config_version_files env code version db = Inr (Some v)
    \<and> read_each env code version [] (missing_files v) db = (Inr rs, db0)"
proof -
  obtain found where found: "load_config_version_files env code (Some [version]) db = Inr found"
    and rest: "(case found of [] \<Rightarrow> throw config_version_not_found
      | v # _ \<Rightarrow> read_each env code version [] (missing_files v)) db = (Inr rs, db0)"
    using assms by (auto simp: read_missing_files_def andThen_Inr)
  then show ?thesis by (cases found) (simp_all add: find_config_version_files_def)
qed

lemma fetched:
  assumes "fetch_config_definitions env rq db = (answer, db')"
  shows "case answer of
      Inl _ \<Rightarrow> \<exists>audits. db' = db\<lparr>bkAudits := audits\<rparr> \<or> db' = (beMeanwhile env db)\<lparr>bkAudits := audits\<rparr>
    | Inr outcomes \<Rightarrow>
        (\<exists>v. find_config_version_files env (fqGrantCode rq) (fqVersion rq) db = Inr (Some v)
           \<and> map outcome_type outcomes = missing_files v)
        \<and> (\<forall>t. StoredFile t \<in> set outcomes \<longrightarrow> is_stored t (fqGrantCode rq) (fqVersion rq) db')
        \<and> bkRows db' = bkRows (beMeanwhile env db)
        \<and> prefix (bkGrants (beMeanwhile env db)) (bkGrants db')
        \<and> prefix (bkAgreements (beMeanwhile env db)) (bkAgreements db')
        \<and> prefix (bkPayments (beMeanwhile env db)) (bkPayments db')"
proof -
  let ?code = "fqGrantCode rq" and ?v = "fqVersion rq" and ?db = "beMeanwhile env db"
  have audited: "\<exists>audits. audit_failure env rq e d = d\<lparr>bkAudits := audits\<rparr>" for e d
    by (cases "beValidAudit env (build_fetch_config_definitions_audit rq (Inl e))")
      (auto simp: audit_failure_def Let_def intro: exI [of _ "bkAudits d"])
  show ?thesis
  proof (cases "read_missing_files env ?code ?v db")
    case (Pair read db0)
    show ?thesis
    proof (cases read)
      case (Inl refusal)
      then show ?thesis using assms Pair audited [of refusal db] by (auto simp: fetch_config_definitions_def)
    next
      case (Inr rs)
      obtain v where v: "find_config_version_files env ?code ?v db = Inr (Some v)"
          and "read_each env ?code ?v [] (missing_files v) db = (Inr rs, db0)"
        using Pair Inr read_missing_Inr [of env ?code ?v db rs db0] by blast
      then have rs: "map read_type rs = missing_files v" "list_all read_ok rs" using read_each_Inr by fastforce+
      have run: "store_fetched_with_audit env rq rs ?db = (answer, db')"
        using assms Pair Inr by (simp add: fetch_config_definitions_def)
      show ?thesis
      proof (cases "store_each env ?code ?v [] rs ?db")
        case (Pair stored t)
        show ?thesis
        proof (cases stored)
          case (Inl err)
          then show ?thesis using run Pair audited [of err ?db]
            by (auto simp: store_fetched_with_audit_def store_fetched_def)
        next
          case (Inr files)
          note adds = store_each_Inr [OF Pair [unfolded Inr] rs(2)]
          show ?thesis
          proof (cases answer)
            case (Inl err)
            then have "db' = ?db\<lparr>bkAudits := bkAudits ?db\<rparr>" using run Pair Inr
              by (auto simp: store_fetched_with_audit_def store_fetched_def Let_def split: if_splits)
            then show ?thesis using Inl by (simp only: sum.case) blast
          next
            case (Inr outcomes)
            then have same: "outcomes = files" "\<exists>audits. db' = t\<lparr>bkAudits := audits\<rparr>"
              using run Pair \<open>stored = Inr files\<close>
              by (auto simp: store_fetched_with_audit_def store_fetched_def Let_def split: if_splits)
            have "is_stored ty ?code ?v (t\<lparr>bkAudits := audits\<rparr>) = is_stored ty ?code ?v t" for ty audits
              by (cases ty) (simp_all add: is_stored_def stored_versions_def)
            then show ?thesis using Inr same adds rs(1) v by (auto simp: adds_files_def)
          qed
        qed
      qed
    qed
  qed
qed

end
