(* ===== verification/ArrivalProperties.thy ===== *)
theory ArrivalProperties
  imports ArrivalLaws ResolutionProperties AgreementProperties PaymentProperties
begin

text \<open>
  The properties of configuration that arrives and of the fetch of its files, with a version whose
  manifest names a grant file and a payment file.
\<close>

section \<open>Samples\<close>

definition arriving :: "unit raw_definition \<Rightarrow> json \<Rightarrow> unit broker_env" where
  "arriving raw payment = \<lparr>beGrants = sample_fetch\<lparr>feSend := (\<lambda>_ _. AwsBody []), feParse := (\<lambda>_. Some raw)\<rparr>,
     beAgreements = w_env, bePayments = sample_payments_env payment, beSchemaMessages = (\<lambda>_. []),
     beCompileQuestions = (\<lambda>_. Inr ()), beVariant = [], beNow = ''t1'', beIsoDate = (\<lambda>_. True), beFilesMessages = [],
     beTransient = (\<lambda>_. False), beValidAudit = (\<lambda>_. True), beMeanwhile = (\<lambda>db. db)\<rparr>"

definition sample_arrival :: version_event where
  "sample_arrival = \<lparr>veGrantCode = Some ''wood'', veVersion = Some ''1.0.0'', veStatus = Some ''active'',
     veBucket = Some ''b'', veManifest = Some [''wood/gas/gas.json'', ''wood/gas/payment.json'']\<rparr>"

definition empty_broker :: "unit broker_db" where
  "empty_broker = \<lparr>bkRows = [], bkGrants = [], bkAgreements = [], bkPayments = [], bkAudits = []\<rparr>"

definition sample_arriving :: "unit broker_env" where
  "sample_arriving = arriving (Shaped sample_grant (Some (JStr ''2026-01-01T00:00:00Z''))) sample_payment_file"

definition sample_arrived :: "unit broker_db" where
  "sample_arrived = snd (process_config_version sample_arriving sample_arrival empty_broker)"

lemma sample_keys:
  "keys_of sample_arriving sample_arrival GrantFile = Some ''wood/gas/gas.json''"
  "keys_of sample_arriving sample_arrival AgreementFile = None"
  "keys_of sample_arriving sample_arrival PaymentFile = Some ''wood/gas/payment.json''"
  by code_simp+

lemma sample_manifest:
  "manifest_key sample_arriving (or_empty (veManifest sample_arrival)) GrantFile = Inr (Some ''wood/gas/gas.json'')"
  "manifest_key sample_arriving (or_empty (veManifest sample_arrival)) AgreementFile = Inr None"
  "manifest_key sample_arriving (or_empty (veManifest sample_arrival)) PaymentFile = Inr (Some ''wood/gas/payment.json'')"
  by code_simp+

lemma sample_valid: "validate_event_data sample_arrival = Inr ()"
  by code_simp

lemma sample_known: "check_grant_definition sample_arriving (Shaped sample_grant start) ''1.0.0'' = Inr sample_grant"
  by code_simp

lemma sample_semver: "parse_semver ''1.0.0'' = Some (Semver 1 0 0)"
  by code_simp

lemma sample_version: "\<exists>cv. config_version_new (feVersionMessages (beGrants sample_arriving)) (beNow sample_arriving) ''wood'' ''1.0.0''
    ''active'' (Some ''wood/gas/gas.json'') (Some ''b'') = Inr cv"
  by (simp add: config_version_new_def new_config_version_def config_version_schema_def sample_semver)

lemma sample_check_grant: "check_definition sample_arriving GrantFile k b code ''1.0.0'' = Inr ()"
proof -
  have "fetch_file sample_arriving GrantFile b (Some k) = Inr (GrantContent (Shaped sample_grant (Some (JStr ''2026-01-01T00:00:00Z''))))"
    by (simp add: fetch_file_def fetch_config_file_def parse_response_body_def sample_arriving_def arriving_def)
  then show ?thesis by (simp add: check_definition_def run_check_def sample_known)
qed

lemma sample_check_payment: "check_definition sample_arriving PaymentFile k b ''wood'' v = Inr ()"
proof -
  have "fetch_file sample_arriving PaymentFile b (Some k) = Inr (PaymentContent sample_payment_file)"
    by (simp add: fetch_file_def sample_arriving_def arriving_def sample_payments_env_def)
  moreover have "compile_payment_definition (bePayments sample_arriving) sample_payment_file ''wood'' = Inr sample_payment_definition"
    by (simp add: sample_arriving_def arriving_def sample_compiles)
  ultimately show ?thesis by (simp add: check_definition_def run_check_def)
qed

lemma sample_arrives: "process_config_version sample_arriving sample_arrival empty_broker = (Inr (), sample_arrived)"
proof -
  obtain cv where cv: "config_version_new (feVersionMessages (beGrants sample_arriving)) (beNow sample_arriving) ''wood'' ''1.0.0''
    ''active'' (Some ''wood/gas/gas.json'') (Some ''b'') = Inr cv" using sample_version by blast
  have "fst (process_config_version sample_arriving sample_arrival empty_broker) = Inr ()"
    using sample_valid sample_manifest sample_check_grant sample_check_payment cv
    by (simp add: process_config_version_def catch_def apply_config_version_def Let_def validate_config_definitions_def
        file_types_def truthy_def sample_arrival_def part_string_def)
  then show ?thesis by (simp add: sample_arrived_def prod_eq_iff)
qed

section \<open>Properties\<close>



text \<open>
  What arrival accepted, Payments can use: after a version with a payment file was recorded, and
  while its file is as it was and not given up, loading the definition of that version from the
  catalogue succeeds with a definition of that code.
\<close>

theorem arrived_payment_loads:
  assumes "process_config_version env e db = (Inr (), db')" and "event_key e = (code, version)"
    and "keys_of env e PaymentFile = Some key" and "ydCatalog pdb = bkRows db'"
    and "find_config_definition code version PaymentFile (ydCatalog pdb) = Some t"
    and "fsFetchStatus (cdFile t) \<noteq> FetchPermanent" and "map_of (ydCompiled pdb) (at_version code version) = None"
    and "find_payment_definition code version pdb = None"
  shows "\<exists>d pdb'. load_payment_definition (bePayments env) code version pdb = (Inr d, pdb') \<and> pdnCode d = code"
  by (rule arrived_loads [OF assms])

lemma arrived_payment_loads_witness:
  "\<exists>d pdb. load_payment_definition (bePayments sample_arriving) ''wood'' ''1.0.0''
     (sample_payments_db\<lparr>ydCatalog := bkRows sample_arrived\<rparr>) = (Inr d, pdb) \<and> pdnCode d = ''wood''"
proof -
  have key: "event_key sample_arrival = (''wood'', ''1.0.0'')"
    by (simp add: event_key_def sample_arrival_def part_string_def)
  have none: "find_config_definition ''wood'' ''1.0.0'' PaymentFile (bkRows empty_broker) = None"
    by (simp add: empty_broker_def find_config_definition_def to_definition_def)
  obtain t where t: "find_config_definition ''wood'' ''1.0.0'' PaymentFile (bkRows sample_arrived) = Some t"
      and state: "cdFile t = new_fetch_state (Some ''wood/gas/payment.json'')\<lparr>fsS3Key := Some ''wood/gas/payment.json''\<rparr>"
    using recorded_version [OF sample_arrives key, THEN conjunct2, THEN conjunct1, rule_format, OF sample_keys(3),
      THEN conjunct2, unfolded none option.case] by blast
  have "fsFetchStatus (cdFile t) \<noteq> FetchPermanent" by (simp add: state new_fetch_state_def)
  moreover have "map_of (ydCompiled (sample_payments_db\<lparr>ydCatalog := bkRows sample_arrived\<rparr>)) k = None" for k
    by (simp add: sample_payments_db_def)
  moreover have "find_payment_definition ''wood'' ''1.0.0'' (sample_payments_db\<lparr>ydCatalog := bkRows sample_arrived\<rparr>) = None"
    by (simp add: sample_payments_db_def find_payment_definition_def)
  ultimately show ?thesis
    using arrived_payment_loads [OF sample_arrives key sample_keys(3), of "sample_payments_db\<lparr>ydCatalog := bkRows sample_arrived\<rparr>" t]
      t by simp
qed








end
