(* ===== verification/Buckets.thy ===== *)
theory Buckets
  imports Prelude
begin

text \<open>
  The buckets an administration page lists its rows from
  (\<open>src/common/buckets\<close>: bucket.js, plan.js, refs.js, refusal.js, registry.js, indexes.js): what a bucket
  declares and the rules it is held to, the plan of a read, which index it leads on and what is left
  to test row by row, and the buckets of the inbox and the outbox
  (\<open>src/events/buckets\<close>, \<open>src/events/event-status-values.js\<close>). Labels, tones and hints are
  presentation and are left out.
\<close>

section \<open>Refusals\<close>

datatype refusal = UnknownBucket | UnknownSummary | UnknownFact | UnknownRefKind | UnknownGrouping
  | InvalidCursor | InvalidRange | InvalidRequest | TimedOut

fun refusal_status :: "refusal \<Rightarrow> boom" where
  "refusal_status UnknownBucket = NotFound"
| "refusal_status UnknownSummary = NotFound"
| "refusal_status TimedOut = GatewayTimeout"
| "refusal_status _ = BadRequest"

fun refusal_message :: "refusal \<Rightarrow> string" where
  "refusal_message UnknownBucket = ''No such bucket''"
| "refusal_message UnknownSummary = ''This bucket declares no such summary''"
| "refusal_message UnknownFact = ''A filter names a fact this bucket does not declare''"
| "refusal_message UnknownRefKind = ''The search names an identifier kind this bucket does not declare''"
| "refusal_message UnknownGrouping = ''A grouping names a fact this bucket does not group by''"
| "refusal_message InvalidCursor = ''The cursor cannot be read''"
| "refusal_message InvalidRange = quoted ''from'' @ '' must be earlier than or equal to '' @ quoted ''to''"
| "refusal_message InvalidRequest = ''The request is not a bucket query''"
| "refusal_message TimedOut = ''The read did not finish in time''"

fun refusal_reason :: "refusal \<Rightarrow> string" where
  "refusal_reason UnknownBucket = ''UNKNOWN_BUCKET''"
| "refusal_reason UnknownSummary = ''UNKNOWN_SUMMARY''"
| "refusal_reason UnknownFact = ''UNKNOWN_FACT''"
| "refusal_reason UnknownRefKind = ''UNKNOWN_REF_KIND''"
| "refusal_reason UnknownGrouping = ''UNKNOWN_GROUPING''"
| "refusal_reason InvalidCursor = ''INVALID_CURSOR''"
| "refusal_reason InvalidRange = ''INVALID_RANGE''"
| "refusal_reason InvalidRequest = ''INVALID_REQUEST''"
| "refusal_reason TimedOut = ''TIMED_OUT''"

definition refuse_query :: "refusal \<Rightarrow> js_error" where
  "refuse_query reason =
     Boom (refusal_status reason) (refusal_message reason) [(''reason'', refusal_reason reason)]"

section \<open>References\<close>

text \<open>\<open>toLowerCase\<close> on the characters the model has: the letters are those of ASCII.\<close>

definition to_lower_char :: "char \<Rightarrow> char" where
  "to_lower_char c = (let n = (of_char c :: nat) in if 65 \<le> n \<and> n \<le> 90 then char_of (n + 32) else c)"

definition to_ref :: "string \<Rightarrow> string option \<Rightarrow> string option" where
  "to_ref kind v =
     (case v of
        None \<Rightarrow> None
      | Some s \<Rightarrow>
          if js_trim s = [] then None
          else Some (kind @ '':'' @ map to_lower_char (js_trim s)))"

text \<open>The set of refs of a row, in the order they were first given.\<close>

fun add_new :: "'a list \<Rightarrow> 'a list \<Rightarrow> 'a list" where
  "add_new seen [] = seen"
| "add_new seen (x # xs) = add_new (if x \<in> set seen then seen else seen @ [x]) xs"

definition to_refs :: "(string \<times> string option) list \<Rightarrow> string list" where
  "to_refs pairs = add_new [] (List.map_filter (\<lambda>(kind, v). to_ref kind v) pairs)"

section \<open>Buckets\<close>

text \<open>
  A fact is closed when its values are listed, stored when they are read from the collection, and
  open otherwise. A line is one index of the collection: facts, or the refs of a row. The facts of
  every line come after the bucket's lead.
\<close>

record listed_value =
  lvValue :: string
  lvHidden :: bool

datatype fact_values = OpenValues | StoredValues | ClosedValues "listed_value list"

record fact =
  faValues :: fact_values
  faParam :: "string option"
  faToggle :: "string option option"
  faWithin :: "string option"

datatype line = FactLine "string list" | RefsLine

record column =
  coKey :: string
  coFormat :: string
  coFact :: "string option"

record summary =
  suId :: string
  suBy :: "string list"
  suAmong :: "(string \<times> string) list"
  suTop :: nat

record bucket_doc =
  bdId :: nat
  bdTime :: int
  bdFields :: json
  bdRefs :: "string list"

record bucket =
  buId :: string
  buPath :: "string option"
  buOrder :: int
  buCollection :: string
  buLead :: "string list"
  buTimeField :: string
  buFacts :: "(string \<times> fact) list"
  buRefs :: "string list"
  buLinks :: "string list"
  buIndexes :: "string list list"
  buGroupings :: "string list"
  buColumns :: "column list"
  buAudited :: bool
  buTimeline :: bool
  buSummaries :: "summary list"
  buPage :: "string option"
  buTab :: "string option"
  buPresent :: "bucket_doc \<Rightarrow> (string \<times> json) list"

definition fact_names :: "bucket \<Rightarrow> string list" where
  "fact_names b = map fst (buFacts b)"

definition declares_fact :: "bucket \<Rightarrow> string \<Rightarrow> bool" where
  "declares_fact b name \<longleftrightarrow> name \<in> set (fact_names b)"

fun closed_values :: "fact_values \<Rightarrow> listed_value list option" where
  "closed_values (ClosedValues vs) = Some vs"
| "closed_values _ = None"

definition values_of_fact :: "bucket \<Rightarrow> string \<Rightarrow> listed_value list option" where
  "values_of_fact b name = Option.bind (map_of (buFacts b) name) (\<lambda>f. closed_values (faValues f))"

section \<open>The plan of a read\<close>

definition without :: "'a list \<Rightarrow> 'a list \<Rightarrow> 'a list" where
  "without xs ys = filter (\<lambda>x. x \<notin> set ys) xs"

definition is_closed :: "bucket \<Rightarrow> string \<Rightarrow> bool" where
  "is_closed b name \<longleftrightarrow> values_of_fact b name \<noteq> None"

definition has_hidden :: "bucket \<Rightarrow> string \<Rightarrow> bool" where
  "has_hidden b name =
     (case values_of_fact b name of None \<Rightarrow> False | Some vs \<Rightarrow> list_ex lvHidden vs)"

fun line_facts :: "line \<Rightarrow> string list" where
  "line_facts RefsLine = []"
| "line_facts (FactLine fs) = fs"

definition facts_of :: "bucket \<Rightarrow> line \<Rightarrow> string list" where
  "facts_of b l = buLead b @ line_facts l"

text \<open>
  \<open>fillOf\<close> is asked only of closed facts, as a lemma below shows of every bucket that is
  defined; elsewhere the filter of the code would throw, where there is no list.
\<close>

definition fill_of :: "bucket \<Rightarrow> string \<Rightarrow> string list \<Rightarrow> string list" where
  "fill_of b name shown =
     (case values_of_fact b name of
        None \<Rightarrow> []
      | Some vs \<Rightarrow> map lvValue (filter (\<lambda>v. name \<in> set shown \<or> \<not> lvHidden v) vs))"

definition narrowing :: "bucket \<Rightarrow> string list \<Rightarrow> string list \<Rightarrow> string list" where
  "narrowing b asked shown = filter (has_hidden b) (without (fact_names b) (asked @ shown))"

definition scans_of :: "bucket \<Rightarrow> line \<Rightarrow> string list \<Rightarrow> string list \<Rightarrow> nat" where
  "scans_of b l asked shown =
     foldl (\<lambda>scans name. scans * (length (fill_of b name shown) + 1)) 1 (without (facts_of b l) asked)"

definition max_scans :: nat where "max_scans = 50"

definition is_usable :: "bucket \<Rightarrow> string list \<Rightarrow> string list \<Rightarrow> line \<Rightarrow> bool" where
  "is_usable b asked shown l \<longleftrightarrow>
     list_all (is_closed b) (without (facts_of b l) asked) \<and> scans_of b l asked shown \<le> max_scans"

definition bound_by :: "bucket \<Rightarrow> line \<Rightarrow> string list \<Rightarrow> nat" where
  "bound_by b l needed = length (filter (\<lambda>name. name \<in> set needed) (facts_of b l))"

definition better ::
  "bucket \<Rightarrow> string list \<Rightarrow> string list \<Rightarrow> string list \<Rightarrow> line \<Rightarrow> line \<Rightarrow> line" where
  "better b asked shown needed chosen l =
     (let gain = int (bound_by b l needed) - int (bound_by b chosen needed);
          cheaper = scans_of b l asked shown < scans_of b chosen asked shown
      in if gain > 0 \<or> (gain = 0 \<and> cheaper) then l else chosen)"

datatype plan_kind = Exact | Bounded

record plan =
  plKind :: plan_kind
  plLine :: line
  plFilled :: "string list"
  plResidual :: "string list"

definition plan_for :: "bucket \<Rightarrow> line \<Rightarrow> string list \<Rightarrow> string list \<Rightarrow> plan" where
  "plan_for b l asked needed =
     (let residual = without needed (facts_of b l)
      in \<lparr>plKind = (if residual \<noteq> [] then Bounded else Exact), plLine = l,
          plFilled = without (facts_of b l) asked, plResidual = residual\<rparr>)"

definition best_line :: "bucket \<Rightarrow> string list \<Rightarrow> string list \<Rightarrow> string list \<Rightarrow> line" where
  "best_line b asked shown needed =
     foldl (better b asked shown needed) (FactLine [])
       (filter (is_usable b asked shown) (map FactLine (buIndexes b)))"

definition choose_plan :: "bucket \<Rightarrow> string list \<Rightarrow> bool \<Rightarrow> string list \<Rightarrow> plan" where
  "choose_plan b asked hasRef shown =
     (let needed = asked @ narrowing b asked shown;
          l = (if hasRef then RefsLine else best_line b asked shown needed)
      in plan_for b l asked needed)"

section \<open>Defining a bucket\<close>

definition is_lower :: "char \<Rightarrow> bool" where
  "is_lower c \<longleftrightarrow> 97 \<le> (of_char c :: nat) \<and> (of_char c :: nat) \<le> 122"

definition is_lower_or_digit :: "char \<Rightarrow> bool" where
  "is_lower_or_digit c \<longleftrightarrow> is_lower c \<or> (48 \<le> (of_char c :: nat) \<and> (of_char c :: nat) \<le> 57)"

fun lower_word :: "(char \<Rightarrow> bool) \<Rightarrow> string \<Rightarrow> bool" where
  "lower_word isMore [] = False"
| "lower_word isMore (c # cs) = (is_lower c \<and> list_all isMore cs)"

definition is_kebab :: "string \<Rightarrow> bool" where
  "is_kebab s = lower_word (\<lambda>c. is_lower_or_digit c \<or> c = CHR ''-'') s"

text \<open>\<open>/^[a-z]+\.[a-z][a-z0-9-]*$/\<close>, \<open>/^[a-z][a-z0-9-]*(\/[a-z][a-z0-9-]*)*$/\<close> and \<open>/^[a-z][a-z0-9]*$/\<close>.\<close>

definition is_bucket_id :: "string \<Rightarrow> bool" where
  "is_bucket_id s = (case split_on CHR ''.'' s of
     [service, name] \<Rightarrow> lower_word is_lower service \<and> is_kebab name | _ \<Rightarrow> False)"

definition is_bucket_path :: "string \<Rightarrow> bool" where
  "is_bucket_path s = list_all is_kebab (split_on CHR ''/'' s)"

definition is_url_key :: "string \<Rightarrow> bool" where
  "is_url_key s = lower_word is_lower_or_digit s"

definition reserved_names :: "string list" where
  "reserved_names = [''ref'', ''from'', ''to'', ''range'', ''cursor'', ''searched'', ''limit'', ''groupBy'',
     ''show'']"

definition has_values :: "bucket \<Rightarrow> string \<Rightarrow> bool" where
  "has_values b name =
     (case map_of (buFacts b) name of None \<Rightarrow> False | Some f \<Rightarrow> faValues f \<noteq> OpenValues)"

definition leads :: "bucket \<Rightarrow> string \<Rightarrow> bool" where
  "leads b name =
     list_ex (\<lambda>l. case facts_of b (FactLine l) of [] \<Rightarrow> False | f # _ \<Rightarrow> f = name) (buIndexes b)"

definition hides_values :: "fact \<Rightarrow> bool" where
  "hides_values f = (case closed_values (faValues f) of None \<Rightarrow> False | Some vs \<Rightarrow> list_ex lvHidden vs)"

definition is_bad_toggle :: "fact \<Rightarrow> bool" where
  "is_bad_toggle f \<longleftrightarrow> faToggle f \<noteq> None \<and> closed_values (faValues f) = None"

definition url_keys_of :: "(string \<times> fact) list \<Rightarrow> string option list" where
  "url_keys_of facts =
     concat (map (\<lambda>(_, f). case faToggle f of None \<Rightarrow> [faParam f] | Some param \<Rightarrow> [faParam f, param]) facts)"

definition is_bad_key :: "string option \<Rightarrow> bool" where
  "is_bad_key key \<longleftrightarrow>
     (case key of None \<Rightarrow> True | Some k \<Rightarrow> \<not> is_url_key k \<or> k \<in> set reserved_names)"

definition hides_unasked :: "fact \<Rightarrow> bool" where
  "hides_unasked f \<longleftrightarrow> hides_values f \<and> faToggle f = None"

definition line_text :: "string list \<Rightarrow> string" where
  "line_text l = join [CHR 0x0A] l"

definition has_duplicate_lines :: "string list list \<Rightarrow> bool" where
  "has_duplicate_lines lines \<longleftrightarrow> \<not> distinct (map line_text lines)"

definition is_badge :: "column \<Rightarrow> bool" where
  "is_badge c \<longleftrightarrow> coFormat c = ''badge''"

definition summary_line_of :: "summary \<Rightarrow> string list \<Rightarrow> string list" where
  "summary_line_of s lead = map fst (suAmong s) @ filter (\<lambda>f. f \<notin> set lead) (suBy s)"

definition summary_facts_of :: "summary \<Rightarrow> string list" where
  "summary_facts_of s = map fst (suAmong s) @ suBy s"

definition has_line :: "string list list \<Rightarrow> string list \<Rightarrow> bool" where
  "has_line indexes wanted = list_ex (\<lambda>l. line_text l = line_text wanted) indexes"

definition bucket_rules :: "((bucket \<Rightarrow> bool) \<times> string) list" where
  "bucket_rules =
    [(\<lambda>b. \<not> is_bucket_id (buId b), ''has a malformed id''),
     (\<lambda>b. \<not> is_bucket_path (case buPath b of None \<Rightarrow> [] | Some p \<Rightarrow> p), ''has a missing or malformed path''),
     (\<lambda>b. list_ex (\<lambda>name. name \<in> set reserved_names) (fact_names b), ''names a fact with a reserved name''),
     (\<lambda>b. list_ex (\<lambda>name. \<not> declares_fact b name) (concat (buIndexes b)),
        ''has an index line that names an undeclared fact''),
     (\<lambda>b. list_ex (\<lambda>name. \<not> declares_fact b name) (buGroupings b),
        ''has a grouping that names an undeclared fact''),
     (\<lambda>b. list_ex (\<lambda>name. \<not> has_values b name) (buGroupings b),
        ''has a grouping with no closed or stored values''),
     (\<lambda>b. list_ex (\<lambda>name. \<not> declares_fact b name) (buLead b), ''leads with an undeclared fact''),
     (\<lambda>b. list_ex (\<lambda>name. \<not> is_closed b name) (buLead b), ''leads with a fact without closed values''),
     (\<lambda>b. scans_of b (FactLine []) [] (buLead b) > max_scans,
        ''leads with more values than one read may scan''),
     (\<lambda>b. list_ex is_bad_key (url_keys_of (buFacts b)),
        ''has a fact or toggle without a URL key of its own, or with a reserved one''),
     (\<lambda>b. \<not> distinct (url_keys_of (buFacts b)), ''uses one URL key twice''),
     (\<lambda>b. list_ex (\<lambda>(_, f). is_bad_toggle f) (buFacts b), ''has a toggle on a fact without closed values''),
     (\<lambda>b. list_ex (\<lambda>(_, f). hides_unasked f) (buFacts b),
        ''hides a value of a fact that has no toggle to show it''),
     (\<lambda>b. list_ex (\<lambda>(name, f). case faWithin f of None \<Rightarrow> False
             | Some w \<Rightarrow> w = name \<or> \<not> declares_fact b w) (buFacts b),
        ''has a fact within itself or within an undeclared fact''),
     (\<lambda>b. list_ex (\<lambda>(name, f). case faWithin f of None \<Rightarrow> False
             | Some w \<Rightarrow> \<not> has_line (buIndexes b) [w, name]) (buFacts b),
        ''has a fact within another with no index line of the two''),
     (\<lambda>b. list_ex (\<lambda>(name, f). faValues f = StoredValues \<and> \<not> leads b name) (buFacts b),
        ''has a stored fact that leads no index line''),
     (\<lambda>b. has_duplicate_lines ([] # buIndexes b), ''declares the same index line twice''),
     (\<lambda>b. list_ex (\<lambda>c. case coFact c of None \<Rightarrow> True
             | Some name \<Rightarrow> \<not> declares_fact b name \<or> \<not> is_closed b name) (filter is_badge (buColumns b)),
        ''has a badge column that names a fact without closed values''),
     (\<lambda>b. buAudited b \<and> buTimeline b, ''is both audited and timeline''),
     (\<lambda>b. list_ex (\<lambda>kind. kind \<in> set (buRefs b)) (buLinks b),
        ''declares a ref kind both as a search and as a link''),
     (\<lambda>b. (buPage b \<noteq> None) \<noteq> (buTab b \<noteq> None), ''declares a page without a tab, or a tab without a page''),
     (\<lambda>b. list_ex (\<lambda>s. suBy s = []) (buSummaries b), ''has a summary that counts by no fact''),
     (\<lambda>b. list_ex (\<lambda>name. \<not> declares_fact b name) (concat (map summary_facts_of (buSummaries b))),
        ''has a summary that names an undeclared fact''),
     (\<lambda>b. list_ex (\<lambda>name. \<not> is_closed b name) (concat (map (\<lambda>s. map fst (suAmong s)) (buSummaries b))),
        ''has a summary among a fact without closed values''),
     (\<lambda>b. list_ex (\<lambda>s. \<not> has_line (buIndexes b) (summary_line_of s (buLead b))) (buSummaries b),
        ''has a summary with no index line of its own''),
     (\<lambda>b. buSummaries b \<noteq> [] \<and> list_ex (\<lambda>(name, f). hides_values f \<and> name \<notin> set (buLead b)) (buFacts b),
        ''has a summary, and hides values of a fact it does not lead with''),
     (\<lambda>b. buAudited b \<and> buSummaries b \<noteq> [], ''is audited and declares a summary'')]"

fun first_problem :: "((bucket \<Rightarrow> bool) \<times> string) list \<Rightarrow> bucket \<Rightarrow> string option" where
  "first_problem [] b = None"
| "first_problem ((broken, problem) # rules) b = (if broken b then Some problem else first_problem rules b)"

definition problem_of :: "bucket \<Rightarrow> string option" where
  "problem_of b = first_problem bucket_rules b"

text \<open>
  The keys a definition may leave out, each with its default; \<open>deepFreeze\<close> changes nothing that a
  value of the model could change.
\<close>

record bucket_definition =
  deRequired :: bucket
  deLead :: "string list option"
  deFacts :: "(string \<times> fact) list option"
  deRefs :: "string list option"
  deLinks :: "string list option"
  deIndexes :: "string list list option"
  deGroupings :: "string list option"
  deColumns :: "column list option"
  deAudited :: "bool option"
  deTimeline :: "bool option"
  deSummaries :: "summary list option"
  dePage :: "string option"
  deTab :: "string option"

definition given_or :: "'a option \<Rightarrow> 'a \<Rightarrow> 'a" where
  "given_or x d = (case x of None \<Rightarrow> d | Some y \<Rightarrow> y)"

definition with_defaults :: "bucket_definition \<Rightarrow> bucket" where
  "with_defaults d = (deRequired d)\<lparr>buLead := given_or (deLead d) [], buFacts := given_or (deFacts d) [],
     buRefs := given_or (deRefs d) [], buLinks := given_or (deLinks d) [], buIndexes := given_or (deIndexes d) [],
     buGroupings := given_or (deGroupings d) [], buColumns := given_or (deColumns d) [],
     buAudited := given_or (deAudited d) False, buTimeline := given_or (deTimeline d) False,
     buSummaries := given_or (deSummaries d) [], buPage := dePage d, buTab := deTab d\<rparr>"

definition define_bucket :: "bucket_definition \<Rightarrow> bucket res" where
  "define_bucket d =
     (let b = with_defaults d
      in case problem_of b of
           Some problem \<Rightarrow> Inl (JsError (''Bucket '' @ quoted (buId b) @ '' '' @ problem))
         | None \<Rightarrow> Inr b)"

section \<open>Indexes\<close>

text \<open>The key of an index is an object: a name given_or twice keeps its first place.\<close>

definition ascending :: "string list \<Rightarrow> (string \<times> int) list" where
  "ascending names = foldl (\<lambda>k name. obj_put name 1 k) [] names"

definition key_of_line :: "bucket \<Rightarrow> line \<Rightarrow> (string \<times> int) list" where
  "key_of_line b l =
     obj_spread
       (obj_spread (ascending (buLead b)) (ascending (case l of RefsLine \<Rightarrow> [''refs''] | FactLine fs \<Rightarrow> fs)))
       [(buTimeField b, -1), (''_id'', -1)]"

definition index_keys_of :: "bucket \<Rightarrow> (string \<times> int) list list" where
  "index_keys_of b = map (key_of_line b) ([FactLine []] @ map FactLine (buIndexes b) @ [RefsLine])"

text \<open>
  \<open>ensureIndexes\<close>: an index with the wanted key is kept when it is plain and refused when it is not,
  and one that is missing is built.
\<close>

record collection_index =
  ciName :: string
  ciKey :: "(string \<times> int) list"
  ciPlain :: bool

fun ensure_keys ::
  "string \<Rightarrow> ((string \<times> int) list \<Rightarrow> string) \<Rightarrow> collection_index list \<Rightarrow> (string \<times> int) list list
    \<Rightarrow> (collection_index list, unit) action" where
  "ensure_keys collection nameOf existing [] = ret ()"
| "ensure_keys collection nameOf existing (key # keys) =
     andThen
       (case find (\<lambda>i. ciKey i = key) existing of
          Some i \<Rightarrow>
            if ciPlain i then ret ()
            else throw (JsError (''Index '' @ ciName i @ '' on '' @ collection @ '' is not a plain index''))
        | None \<Rightarrow> writes (\<lambda>is. is @ [\<lparr>ciName = nameOf key, ciKey = key, ciPlain = True\<rparr>]))
       (\<lambda>_. ensure_keys collection nameOf existing keys)"

definition ensure_indexes ::
  "((string \<times> int) list \<Rightarrow> string) \<Rightarrow> bucket \<Rightarrow> (collection_index list, unit) action" where
  "ensure_indexes nameOf b =
     andThen (reads (\<lambda>is. is)) (\<lambda>existing.
     ensure_keys (buCollection b) nameOf existing (index_keys_of b))"

section \<open>The registry\<close>

definition register_bucket :: "bucket \<Rightarrow> (bucket list, unit) action" where
  "register_bucket b =
     andThen (reads (\<lambda>bs. bs)) (\<lambda>bs.
     if list_ex (\<lambda>c. buId c = buId b) bs
     then throw (JsError (''Bucket '' @ quoted (buId b) @ '' is already registered''))
     else writes (\<lambda>bs. bs @ [b]))"

definition find_bucket :: "string \<Rightarrow> bucket list \<Rightarrow> bucket option" where
  "find_bucket i bs = find (\<lambda>b. buId b = i) bs"

definition list_buckets :: "bucket list \<Rightarrow> bucket list" where
  "list_buckets bs = sort_key buOrder bs"

end
