(* ===== verification/BucketEngine.thy ===== *)
theory BucketEngine
  imports Buckets "HOL-Library.Product_Lexorder"
begin

text \<open>
  Reading a bucket (\<open>src/common/buckets\<close>: engine.js, cursor.js, the request of schema.js): the filter a
  planned read asks of MongoDB, a page and the cursor to the next, the counts of a grouping, the
  timeline of a record and the entry of a bucket in the catalogue (catalogue.js). A bucket reads one
  state of its collection; every row it lists has its time, kept as an instant, since both stored
  forms sort as the instants do. The deadline of a read only shows as the failure of one.
\<close>

section \<open>Filters\<close>

text \<open>
  The tests the engine composes, by field. A stored value is absent when its path leads nowhere or
  to null, as \<open>{ f: null }\<close> and \<open>{ f: { $in: [null] } }\<close> take it.
\<close>

datatype mongo_test =
    FactIs string "json option"
  | FactIn string "json option list"
  | HasRef string
  | TimeFrom int
  | TimeTo int
  | TimeBefore int
  | NotAtFrom int nat
  | NotAtBelow int nat

fun json_at :: "json \<Rightarrow> string list \<Rightarrow> json option" where
  "json_at v [] = (if v = JNull then None else Some v)"
| "json_at (JObj kvs) (k # ks) = (case map_of kvs k of None \<Rightarrow> None | Some v \<Rightarrow> json_at v ks)"
| "json_at _ (k # ks) = None"

definition field_value :: "bucket_doc \<Rightarrow> string \<Rightarrow> json option" where
  "field_value d name = json_at (bdFields d) (split_on CHR ''.'' name)"

fun mongo_holds :: "bucket_doc \<Rightarrow> mongo_test \<Rightarrow> bool" where
  "mongo_holds d (FactIs name v) = (field_value d name = v)"
| "mongo_holds d (FactIn name vs) = (field_value d name \<in> set vs)"
| "mongo_holds d (HasRef r) = (r \<in> set (bdRefs d))"
| "mongo_holds d (TimeFrom t) = (bdTime d \<ge> t)"
| "mongo_holds d (TimeTo t) = (bdTime d \<le> t)"
| "mongo_holds d (TimeBefore t) = (bdTime d < t)"
| "mongo_holds d (NotAtFrom t i) = (\<not> (bdTime d = t \<and> bdId d \<ge> i))"
| "mongo_holds d (NotAtBelow t i) = (\<not> (bdTime d = t \<and> bdId d < i))"

type_synonym mongo_filter = "mongo_test list list"

definition and_parts :: "mongo_filter \<Rightarrow> mongo_filter" where
  "and_parts parts = filter (\<lambda>part. part \<noteq> []) parts"

definition mongo_matches :: "mongo_filter \<Rightarrow> bucket_doc \<Rightarrow> bool" where
  "mongo_matches parts d = list_all (list_all (mongo_holds d)) parts"

text \<open>
  What is outside: the failure of a read with its code, the order \<open>$group\<close> gives distinct values in,
  the texts of dates and of ObjectIds, JSON and base64url, and the collation of \<open>localeCompare\<close>.
\<close>

record bucket_env =
  veFailure :: "mongo_filter \<Rightarrow> (nat \<times> js_error) option"
  veGroups :: "json option list \<Rightarrow> json option list"
  veIso :: "int \<Rightarrow> string"
  veInstant :: "string \<Rightarrow> int option"
  veHex :: "nat \<Rightarrow> string"
  veObjectId :: "string \<Rightarrow> nat option"
  veStringify :: "json \<Rightarrow> string"
  veParse :: "string \<Rightarrow> json option"
  veToBase64 :: "string \<Rightarrow> string"
  veFromBase64 :: "string \<Rightarrow> string"
  veText :: "json \<Rightarrow> string"
  veBefore :: "string \<Rightarrow> string \<Rightarrow> bool"

definition max_time_ms_expired :: nat where "max_time_ms_expired = 50"

definition refuse_timed_out :: "nat \<times> js_error \<Rightarrow> js_error" where
  "refuse_timed_out = (\<lambda>(code, e). if code = max_time_ms_expired then refuse_query TimedOut else e)"

definition run_read :: "bucket_env \<Rightarrow> mongo_filter \<Rightarrow> (mongo_filter \<Rightarrow> 'a) \<Rightarrow> 'a res" where
  "run_read env parts answer =
     (case veFailure env parts of Some f \<Rightarrow> Inl (refuse_timed_out f) | None \<Rightarrow> Inr (answer parts))"

definition newest_first :: "bucket_doc list \<Rightarrow> bucket_doc list" where
  "newest_first docs = sort_key (\<lambda>d. (- bdTime d, - int (bdId d))) docs"

definition find_newest :: "bucket_doc list \<Rightarrow> nat \<Rightarrow> nat \<Rightarrow> mongo_filter \<Rightarrow> bucket_doc list" where
  "find_newest docs skip limit parts =
     take limit (drop skip (newest_first (filter (mongo_matches parts) docs)))"

section \<open>Cursors\<close>

type_synonym row_position = "int \<times> nat"

definition position_of :: "bucket_doc \<Rightarrow> row_position" where
  "position_of d = (bdTime d, bdId d)"

definition encode_cursor :: "bucket_env \<Rightarrow> row_position \<Rightarrow> string" where
  "encode_cursor env = (\<lambda>(t, i).
     veToBase64 env (veStringify env (JObj [(''t'', JStr (veIso env t)), (''i'', JStr (veHex env i))])))"

definition cursor_time :: "bucket_env \<Rightarrow> json option \<Rightarrow> int option" where
  "cursor_time env v = (case v of Some (JStr s) \<Rightarrow> veInstant env s | _ \<Rightarrow> None)"

definition cursor_id :: "bucket_env \<Rightarrow> json option \<Rightarrow> nat option" where
  "cursor_id env v = (case v of Some (JStr s) \<Rightarrow> if s = [] then None else veObjectId env s | _ \<Rightarrow> None)"

definition decode_cursor :: "bucket_env \<Rightarrow> string \<Rightarrow> row_position res" where
  "decode_cursor env cursor =
     (case veParse env (veFromBase64 env cursor) of
        Some (JObj kvs) \<Rightarrow>
          (case (cursor_time env (map_of kvs ''t''), cursor_id env (map_of kvs ''i'')) of
             (Some t, Some i) \<Rightarrow> Inr (t, i)
           | _ \<Rightarrow> Inl (refuse_query InvalidCursor))
      | _ \<Rightarrow> Inl (refuse_query InvalidCursor))"

section \<open>The query\<close>

record bucket_request =
  brWhere :: "(string \<times> string) list"
  brShow :: "string list"
  brRef :: "string option"
  brFrom :: "int option"
  brTo :: "int option"
  brCursor :: "string option"
  brLimit :: nat
  brGroupBy :: "string list"

record bucket_query =
  bqWhere :: "(string \<times> json option) list"
  bqAsked :: "string list"
  bqShow :: "string list"
  bqRef :: "string option"
  bqRefKind :: "string option"
  bqGroupBy :: "string list"
  bqCursor :: "row_position option"
  bqFrom :: "int option"
  bqTo :: "int option"
  bqLimit :: nat
  bqPlan :: plan

text \<open>What the schema of a request asks, with its defaults filled in.\<close>

definition page_size :: nat where "page_size = 20"
definition max_page_size :: nat where "max_page_size = 100"
definition max_groupings :: nat where "max_groupings = 3"
definition max_link_length :: nat where "max_link_length = 4096"
definition timeline_limit :: nat where "timeline_limit = 50"

definition empty_query :: bucket_request where
  "empty_query = \<lparr>brWhere = [], brShow = [], brRef = None, brFrom = None, brTo = None,
     brCursor = None, brLimit = page_size, brGroupBy = []\<rparr>"

definition short_name :: "string \<Rightarrow> bool" where
  "short_name s \<longleftrightarrow> s \<noteq> [] \<and> length s \<le> 100"

definition valid_request :: "bucket_request \<Rightarrow> bool" where
  "valid_request r \<longleftrightarrow>
     list_all (\<lambda>(name, v). short_name name \<and> 1 \<le> length v \<and> length v \<le> 200) (brWhere r)
     \<and> length (brWhere r) \<le> 8
     \<and> list_all short_name (brShow r) \<and> length (brShow r) \<le> 8
     \<and> (case brRef r of None \<Rightarrow> True | Some s \<Rightarrow> s \<noteq> [] \<and> length s \<le> max_link_length)
     \<and> (case brCursor r of None \<Rightarrow> True | Some s \<Rightarrow> s \<noteq> [] \<and> length s \<le> 512)
     \<and> 1 \<le> brLimit r \<and> brLimit r \<le> max_page_size
     \<and> list_all short_name (brGroupBy r) \<and> length (brGroupBy r) \<le> max_groupings"

definition parse_where :: "bucket \<Rightarrow> (string \<times> string) list \<Rightarrow> (string \<times> json option) list res" where
  "parse_where b wh = map_res (\<lambda>(name, v).
     if declares_fact b name then Inr (name, Some (JStr v)) else Inl (refuse_query UnknownFact)) wh"

definition declares_kind :: "bucket \<Rightarrow> string \<Rightarrow> bool" where
  "declares_kind b kind \<longleftrightarrow> kind \<in> set (buRefs b) \<or> kind \<in> set (buLinks b)"

definition parse_ref :: "bucket \<Rightarrow> string option \<Rightarrow> (string option \<times> string option) res" where
  "parse_ref b txt =
     (case txt of
        None \<Rightarrow> Inr (None, None)
      | Some s \<Rightarrow>
          let hasColon = CHR '':'' \<in> set s;
              kind = (if hasColon then takeWhile (\<lambda>c. c \<noteq> CHR '':'') s else []);
              ref = to_ref kind (Some (if hasColon then tl (dropWhile (\<lambda>c. c \<noteq> CHR '':'') s) else s))
          in if \<not> declares_kind b kind \<or> ref = None then Inl (refuse_query UnknownRefKind)
             else Inr (ref, Some kind))"

definition parse_show :: "bucket \<Rightarrow> string list \<Rightarrow> string list res" where
  "parse_show b show =
     (if list_all (declares_fact b) show then Inr show else Inl (refuse_query UnknownFact))"

definition parse_group_by :: "bucket \<Rightarrow> string list \<Rightarrow> string list res" where
  "parse_group_by b groupBy =
     (if list_all (\<lambda>name. name \<in> set (buGroupings b)) groupBy then Inr groupBy
      else Inl (refuse_query UnknownGrouping))"

definition parse_cursor :: "bucket_env \<Rightarrow> string option \<Rightarrow> row_position option res" where
  "parse_cursor env cursor =
     (case cursor of None \<Rightarrow> Inr None | Some c \<Rightarrow> bind_res (decode_cursor env c) (\<lambda>p. Inr (Some p)))"

definition parse_range :: "int option \<Rightarrow> int option \<Rightarrow> (int option \<times> int option) res" where
  "parse_range from to =
     (case (from, to) of
        (Some f, Some t) \<Rightarrow> if f > t then Inl (refuse_query InvalidRange) else Inr (from, to)
      | _ \<Rightarrow> Inr (from, to))"

definition parse_query :: "bucket_env \<Rightarrow> bucket \<Rightarrow> bucket_request \<Rightarrow> bucket_query res" where
  "parse_query env b r =
     bind_res (parse_where b (brWhere r)) (\<lambda>wh.
     bind_res (parse_ref b (brRef r)) (\<lambda>(ref, kind).
     bind_res (parse_show b (brShow r)) (\<lambda>show.
     bind_res (parse_group_by b (brGroupBy r)) (\<lambda>groupBy.
     bind_res (parse_cursor env (brCursor r)) (\<lambda>cursor.
     bind_res (parse_range (brFrom r) (brTo r)) (\<lambda>(from, to).
     Inr \<lparr>bqWhere = wh, bqAsked = map fst wh, bqShow = show, bqRef = ref, bqRefKind = kind,
       bqGroupBy = groupBy, bqCursor = cursor, bqFrom = from, bqTo = to, bqLimit = brLimit r,
       bqPlan = choose_plan b (map fst wh) (ref \<noteq> None) show\<rparr>))))))"

section \<open>The filter of a read\<close>

record bucket_read =
  rdBucket :: bucket
  rdQuery :: bucket_query
  rdPlan :: plan

definition value_asked :: "bucket_query \<Rightarrow> string \<Rightarrow> json option" where
  "value_asked q name = Option.bind (map_of (bqWhere q) name) (\<lambda>v. v)"

definition bound_facts :: "bucket_read \<Rightarrow> string list" where
  "bound_facts rd =
     filter (\<lambda>name. name \<in> set (bqAsked (rdQuery rd))) (facts_of (rdBucket rd) (plLine (rdPlan rd)))"

definition bound_part :: "bucket_read \<Rightarrow> mongo_test list" where
  "bound_part rd = map (\<lambda>name. FactIs name (value_asked (rdQuery rd) name)) (bound_facts rd)"

definition fill_of_fact :: "bucket_read \<Rightarrow> string \<Rightarrow> json option list \<Rightarrow> mongo_test" where
  "fill_of_fact rd name unset =
     FactIn name (map (\<lambda>v. Some (JStr v)) (fill_of (rdBucket rd) name (bqShow (rdQuery rd))) @ unset)"

definition filled_part :: "bucket_read \<Rightarrow> json option list \<Rightarrow> mongo_test list" where
  "filled_part rd unset = map (\<lambda>name. fill_of_fact rd name unset) (plFilled (rdPlan rd))"

definition ref_part :: "bucket_read \<Rightarrow> mongo_test list" where
  "ref_part rd = (case bqRef (rdQuery rd) of None \<Rightarrow> [] | Some r \<Rightarrow> [HasRef r])"

definition range_part :: "bucket_read \<Rightarrow> mongo_test list" where
  "range_part rd =
     (case bqFrom (rdQuery rd) of None \<Rightarrow> [] | Some t \<Rightarrow> [TimeFrom t])
     @ (case bqTo (rdQuery rd) of None \<Rightarrow> [] | Some t \<Rightarrow> [TimeTo t])"

definition residual_of :: "bucket_read \<Rightarrow> string \<Rightarrow> mongo_test" where
  "residual_of rd name =
     (if name \<in> set (bqAsked (rdQuery rd)) then FactIs name (value_asked (rdQuery rd) name)
      else fill_of_fact rd name [None])"

definition residual_part :: "bucket_read \<Rightarrow> mongo_test list" where
  "residual_part rd = map (residual_of rd) (plResidual (rdPlan rd))"

definition keyset_parts :: "bucket_read \<Rightarrow> mongo_filter" where
  "keyset_parts rd =
     (case bqCursor (rdQuery rd) of None \<Rightarrow> [] | Some (t, i) \<Rightarrow> [[TimeTo t], [NotAtFrom t i]])"

definition older_than_cursor :: "bucket_read \<Rightarrow> mongo_test list" where
  "older_than_cursor rd = (case bqCursor (rdQuery rd) of None \<Rightarrow> [] | Some (t, i) \<Rightarrow> [TimeBefore t])"

definition within_edge :: "bucket_doc option \<Rightarrow> mongo_filter" where
  "within_edge edge =
     (case map_option position_of edge of
        None \<Rightarrow> []
      | Some (t, i) \<Rightarrow> [[TimeFrom t], [NotAtBelow t i]])"

definition match_parts :: "bucket_read \<Rightarrow> mongo_filter" where
  "match_parts rd = [bound_part rd, filled_part rd [None], ref_part rd, range_part rd]"

section \<open>Pages\<close>

definition scan_budget :: nat where "scan_budget = 20000"

definition read_edge :: "bucket_env \<Rightarrow> bucket_read \<Rightarrow> bucket_doc list \<Rightarrow> bucket_doc option res" where
  "read_edge env rd docs =
     bind_res
       (run_read env
         (and_parts [bound_part rd, filled_part rd [], ref_part rd, range_part rd, older_than_cursor rd])
         (find_newest docs (scan_budget - 1) 1))
       (\<lambda>found. Inr (case found of [] \<Rightarrow> None | edge # _ \<Rightarrow> Some edge))"

definition read_rows ::
  "bucket_env \<Rightarrow> bucket_read \<Rightarrow> bucket_doc option \<Rightarrow> bucket_doc list \<Rightarrow> bucket_doc list res" where
  "read_rows env rd edge docs =
     run_read env (and_parts (match_parts rd @ keyset_parts rd @ [residual_part rd] @ within_edge edge))
       (find_newest docs 0 (bqLimit (rdQuery rd) + 1))"

definition to_row :: "bucket_env \<Rightarrow> bucket \<Rightarrow> bucket_doc \<Rightarrow> (string \<times> json) list" where
  "to_row env b d =
     obj_spread [(''id'', JStr (veHex env (bdId d))), (''time'', JStr (veIso env (bdTime d)))] (buPresent b d)"

record page =
  pgNext :: "string option"
  pgKeepLooking :: "string option"
  pgSearchedTo :: "string option"
  pgComplete :: bool

definition page_after :: "bucket_env \<Rightarrow> bucket_doc \<Rightarrow> page" where
  "page_after env final = \<lparr>pgNext = Some (encode_cursor env (position_of final)), pgKeepLooking = None,
     pgSearchedTo = None, pgComplete = False\<rparr>"

definition page_within :: "bucket_env \<Rightarrow> bucket_doc option \<Rightarrow> page" where
  "page_within env edge =
     (case edge of
        Some d \<Rightarrow> \<lparr>pgNext = None, pgKeepLooking = Some (encode_cursor env (position_of d)),
          pgSearchedTo = Some (veIso env (bdTime d)), pgComplete = False\<rparr>
      | None \<Rightarrow> \<lparr>pgNext = None, pgKeepLooking = None, pgSearchedTo = None, pgComplete = True\<rparr>)"

definition read_page ::
  "bucket_env \<Rightarrow> bucket_read \<Rightarrow> bucket_doc list \<Rightarrow> ((string \<times> json) list list \<times> page) res" where
  "read_page env rd docs =
     bind_res (if plKind (rdPlan rd) = Bounded then read_edge env rd docs else Inr None) (\<lambda>edge.
     bind_res (read_rows env rd edge docs) (\<lambda>found.
     let kept = take (bqLimit (rdQuery rd)) found
     in Inr (map (to_row env (rdBucket rd)) kept,
          if length found > bqLimit (rdQuery rd) then page_after env (last kept) else page_within env edge)))"

section \<open>Counts\<close>

definition count_cap :: nat where "count_cap = 10000"
definition summary_count_cap :: nat where "summary_count_cap = 100000"
definition max_values :: nat where "max_values = 100"

record counted =
  ctCount :: nat
  ctCapped :: bool

definition read_count :: "bucket_env \<Rightarrow> bucket_read \<Rightarrow> nat \<Rightarrow> bucket_doc list \<Rightarrow> counted res" where
  "read_count env rd cap docs =
     bind_res
       (run_read env (and_parts (match_parts rd))
         (\<lambda>parts. min (cap + 1) (length (filter (mongo_matches parts) docs))))
       (\<lambda>found. Inr \<lparr>ctCount = min found cap, ctCapped = found > cap\<rparr>)"

text \<open>An array's \<open>sort\<close> with the collation of texts.\<close>

fun insert_text :: "(string \<Rightarrow> string \<Rightarrow> bool) \<Rightarrow> ('a \<Rightarrow> string) \<Rightarrow> 'a \<Rightarrow> 'a list \<Rightarrow> 'a list" where
  "insert_text before txt x [] = [x]"
| "insert_text before txt x (y # ys) =
     (if before (txt x) (txt y) then x # y # ys else y # insert_text before txt x ys)"

definition sort_texts :: "(string \<Rightarrow> string \<Rightarrow> bool) \<Rightarrow> ('a \<Rightarrow> string) \<Rightarrow> 'a list \<Rightarrow> 'a list" where
  "sort_texts before txt xs = foldr (insert_text before txt) xs []"

definition read_stored_values :: "bucket_env \<Rightarrow> string \<Rightarrow> bucket_doc list \<Rightarrow> json list option res" where
  "read_stored_values env name docs =
     bind_res
       (run_read env [] (\<lambda>_. take (max_values + 1) (veGroups env (map (\<lambda>d. field_value d name) docs))))
       (\<lambda>groups.
       let vals = sort_texts (veBefore env) (veText env) (List.map_filter (\<lambda>v. v) groups)
       in Inr (if length vals > max_values then None else Some vals))"

definition values_of :: "bucket_env \<Rightarrow> bucket \<Rightarrow> string \<Rightarrow> bucket_doc list \<Rightarrow> json list option res" where
  "values_of env b name docs =
     (case values_of_fact b name of
        None \<Rightarrow> read_stored_values env name docs
      | Some vs \<Rightarrow> Inr (Some (map (\<lambda>v. JStr (lvValue v)) vs)))"

definition asking :: "bucket_read \<Rightarrow> string list \<Rightarrow> string \<Rightarrow> json option \<Rightarrow> bucket_read" where
  "asking rd asked name v =
     rd\<lparr>rdQuery := (rdQuery rd)\<lparr>bqAsked := asked, bqWhere := obj_put name v (bqWhere (rdQuery rd))\<rparr>\<rparr>"

definition count_value ::
  "bucket_env \<Rightarrow> bucket_read \<Rightarrow> string list \<Rightarrow> string \<Rightarrow> bucket_doc list \<Rightarrow> json \<Rightarrow> (json \<times> counted) res" where
  "count_value env rd asked name docs v =
     bind_res (read_count env (asking rd asked name (Some v)) count_cap docs) (\<lambda>c. Inr (v, c))"

definition count_values ::
  "bucket_env \<Rightarrow> bucket_read \<Rightarrow> string list \<Rightarrow> string \<Rightarrow> bucket_doc list \<Rightarrow> (json \<times> counted) list option res" where
  "count_values env rd asked name docs =
     bind_res (values_of env (rdBucket rd) name docs) (\<lambda>vals.
     case vals of
       None \<Rightarrow> Inr None
     | Some vs \<Rightarrow> bind_res (map_res (count_value env rd asked name docs) vs) (\<lambda>cs. Inr (Some cs)))"

definition plan_of :: "bucket_read \<Rightarrow> string list \<Rightarrow> plan" where
  "plan_of rd asked =
     choose_plan (rdBucket rd) asked (bqRef (rdQuery rd) \<noteq> None) (bqShow (rdQuery rd))"

definition read_group_values ::
  "bucket_env \<Rightarrow> bucket_read \<Rightarrow> string list \<Rightarrow> string \<Rightarrow> bucket_doc list \<Rightarrow> (json \<times> counted) list option res" where
  "read_group_values env rd others name docs =
     (let asked = others @ [name]; p = plan_of rd asked
      in if plKind p = Exact then count_values env (rd\<lparr>rdPlan := p\<rparr>) asked name docs else Inr None)"

definition read_group_total ::
  "bucket_env \<Rightarrow> bucket_read \<Rightarrow> string list \<Rightarrow> bucket_doc list \<Rightarrow> counted option res" where
  "read_group_total env rd others docs =
     (let p = plan_of rd others
      in if plKind p = Exact
         then bind_res (read_count env (rd\<lparr>rdPlan := p, rdQuery := (rdQuery rd)\<lparr>bqAsked := others\<rparr>\<rparr>)
                count_cap docs) (\<lambda>c. Inr (Some c))
         else Inr None)"

record group_counts =
  gcBy :: string
  gcValues :: "(json \<times> counted) list option"
  gcTotal :: "counted option"

definition read_group :: "bucket_env \<Rightarrow> bucket_read \<Rightarrow> bucket_doc list \<Rightarrow> string \<Rightarrow> group_counts res" where
  "read_group env rd docs name =
     (let others = filter (\<lambda>n. n \<noteq> name) (bqAsked (rdQuery rd))
      in bind_res (read_group_values env rd others name docs) (\<lambda>vals.
         bind_res (read_group_total env rd others docs) (\<lambda>total.
         Inr \<lparr>gcBy = name, gcValues = vals, gcTotal = total\<rparr>)))"

section \<open>Answers\<close>

record plan_description =
  pdKind :: plan_kind
  pdIndex :: "string list"
  pdBound :: "string list"
  pdFilled :: "string list"
  pdResidual :: "string list"
  pdScans :: nat

definition describe_plan :: "bucket_read \<Rightarrow> plan_description" where
  "describe_plan rd = \<lparr>pdKind = plKind (rdPlan rd),
     pdIndex = map fst (key_of_line (rdBucket rd) (plLine (rdPlan rd))),
     pdBound = bound_facts rd @ (if plLine (rdPlan rd) = RefsLine then [''ref''] else []),
     pdFilled = plFilled (rdPlan rd), pdResidual = plResidual (rdPlan rd),
     pdScans = scans_of (rdBucket rd) (plLine (rdPlan rd)) (bqAsked (rdQuery rd)) (bqShow (rdQuery rd))\<rparr>"

record bucket_answer =
  anBucket :: string
  anPlan :: plan_description
  anRows :: "(string \<times> json) list list"
  anPage :: page
  anGroups :: "group_counts list"

definition run_query :: "bucket_env \<Rightarrow> bucket \<Rightarrow> bucket_query \<Rightarrow> bucket_doc list \<Rightarrow> bucket_answer res" where
  "run_query env b q docs =
     (let rd = \<lparr>rdBucket = b, rdQuery = q, rdPlan = bqPlan q\<rparr>
      in bind_res (read_page env rd docs) (\<lambda>(rows, pg).
         bind_res (map_res (read_group env rd docs) (bqGroupBy q)) (\<lambda>groups.
         Inr \<lparr>anBucket = buId b, anPlan = describe_plan rd, anRows = rows, anPage = pg, anGroups = groups\<rparr>)))"

text \<open>
  \<open>queryBucketUseCase\<close> (\<open>src/grant-admin/use-cases/query-bucket.use-case.js\<close>): a bucket of this service
  is read here and one of Caseworking's is asked of it; the audit of a read is left out.
\<close>

datatype bucket_owner = OwnBucket | CaseworkingBucket

definition owner_of :: "string \<Rightarrow> bucket_owner option" where
  "owner_of i =
     (if \<not> is_bucket_id i then None
      else if hd (split_on CHR ''.'' i) = ''gas'' then Some OwnBucket
      else if hd (split_on CHR ''.'' i) = ''cw'' then Some CaseworkingBucket
      else None)"

definition query_own_bucket ::
  "bucket_env \<Rightarrow> bucket list \<Rightarrow> (string \<Rightarrow> bucket_doc list) \<Rightarrow> string \<Rightarrow> bucket_request \<Rightarrow> bucket_answer res" where
  "query_own_bucket env registry collections i r =
     (case find_bucket i registry of
        None \<Rightarrow> Inl (refuse_query UnknownBucket)
      | Some b \<Rightarrow> bind_res (parse_query env b r) (\<lambda>q. run_query env b q (collections (buCollection b))))"

definition query_bucket_use_case ::
  "bucket_env \<Rightarrow> (string \<Rightarrow> bucket_request \<Rightarrow> bucket_answer res) \<Rightarrow> bucket list \<Rightarrow> (string \<Rightarrow> bucket_doc list)
    \<Rightarrow> string \<Rightarrow> bucket_request \<Rightarrow> bucket_answer res" where
  "query_bucket_use_case env forwardToCw registry collections i r =
     (case owner_of i of
        None \<Rightarrow> Inl (refuse_query UnknownBucket)
      | Some OwnBucket \<Rightarrow> query_own_bucket env registry collections i r
      | Some CaseworkingBucket \<Rightarrow> forwardToCw i r)"

record timeline_entry =
  tlId :: string
  tlRows :: "(string \<times> json) list list option"
  tlMore :: bool

definition read_timeline_of ::
  "bucket_env \<Rightarrow> string \<Rightarrow> (string \<Rightarrow> bucket_doc list) \<Rightarrow> bucket \<Rightarrow> timeline_entry" where
  "read_timeline_of env ref collections b =
     (case bind_res (parse_query env b (empty_query\<lparr>brRef := Some ref, brLimit := timeline_limit\<rparr>))
        (\<lambda>q. run_query env b q (collections (buCollection b))) of
        Inr a \<Rightarrow> \<lparr>tlId = buId b, tlRows = Some (anRows a), tlMore = (pgNext (anPage a) \<noteq> None)\<rparr>
      | Inl _ \<Rightarrow> \<lparr>tlId = buId b, tlRows = None, tlMore = False\<rparr>)"

definition read_timeline ::
  "bucket_env \<Rightarrow> bucket list \<Rightarrow> string \<Rightarrow> (string \<Rightarrow> bucket_doc list) \<Rightarrow> timeline_entry list" where
  "read_timeline env registry ref collections =
     map (read_timeline_of env ref collections) (filter buTimeline (list_buckets registry))"

definition read_bucket_timeline ::
  "bucket_env \<Rightarrow> bucket list \<Rightarrow> string \<Rightarrow> string \<Rightarrow> (string \<Rightarrow> bucket_doc list) \<Rightarrow> timeline_entry list res" where
  "read_bucket_timeline env registry i ref collections =
     (case find_bucket i registry of
        None \<Rightarrow> Inl TypeError
      | Some b \<Rightarrow> Inr [read_timeline_of env ref collections b])"

text \<open>A fact as the catalogue describes it: its values, read where they are stored, and whether its toggle shows.\<close>

record fact_description =
  fdName :: string
  fdParam :: "string option"
  fdValues :: "json list option"
  fdToggle :: "string option option"
  fdWithin :: "string option"

definition describe_fact ::
  "bucket_env \<Rightarrow> bucket_doc list \<Rightarrow> string \<times> fact \<Rightarrow> fact_description res" where
  "describe_fact env docs = (\<lambda>(name, f).
     bind_res
       (case faValues f of
          StoredValues \<Rightarrow> read_stored_values env name docs
        | ClosedValues vs \<Rightarrow> Inr (Some (map (\<lambda>v. JStr (lvValue v)) vs))
        | OpenValues \<Rightarrow> Inr None)
       (\<lambda>vals. Inr \<lparr>fdName = name, fdParam = faParam f, fdValues = vals,
          fdToggle = (if hides_values f then faToggle f else None), fdWithin = faWithin f\<rparr>))"

record bucket_description =
  dsId :: string
  dsFacts :: "fact_description list"
  dsIndexes :: "string list list"
  dsGroupings :: "string list"

definition describe_bucket :: "bucket_env \<Rightarrow> bucket \<Rightarrow> bucket_doc list \<Rightarrow> bucket_description res" where
  "describe_bucket env b docs =
     bind_res (map_res (describe_fact env docs) (buFacts b)) (\<lambda>facts.
     let unreadable = (\<lambda>name. list_ex (\<lambda>(n, f). n = name \<and> faValues f = StoredValues) (buFacts b)
           \<and> list_ex (\<lambda>d. fdName d = name \<and> fdValues d = None) facts)
     in Inr \<lparr>dsId = buId b, dsFacts = facts,
          dsIndexes = map (\<lambda>l. facts_of b (FactLine l)) ([] # buIndexes b),
          dsGroupings = filter (\<lambda>name. \<not> unreadable name) (buGroupings b)\<rparr>)"

end
