(* ===== verification/BucketLaws.thy ===== *)
theory BucketLaws
  imports BucketEngine
begin

text \<open>
  What reading a bucket promises: a bucket that is defined can be read by every plan chosen for it,
  the filter of a plan lists the same rows whatever index it leads on, and the pages of a list follow
  one another without gap or repetition.
\<close>

section \<open>Plans\<close>

lemma in_without [simp]: "x \<in> set (without xs ys) \<longleftrightarrow> x \<in> set xs \<and> x \<notin> set ys"
  by (auto simp: without_def)

lemma first_problem_None: "first_problem rules b = None \<longleftrightarrow> list_all (\<lambda>(broken, _). \<not> broken b) rules"
  by (induction rules b rule: first_problem.induct) auto

lemma define_bucket_ok:
  assumes "define_bucket d = Inr b"
  shows "list_all (\<lambda>(broken, _). \<not> broken b) bucket_rules"
  using assms by (auto simp: define_bucket_def Let_def problem_of_def first_problem_None split: option.splits)

lemma defined_facts:
  assumes "define_bucket d = Inr b"
  shows "\<forall>l\<in>set (buIndexes b). \<forall>name\<in>set l. declares_fact b name"
    and "\<forall>name\<in>set (buLead b). declares_fact b name \<and> is_closed b name"
    and "scans_of b (FactLine []) [] (buLead b) \<le> max_scans"
  using define_bucket_ok [OF assms]
  by (auto simp: bucket_rules_def list_ex_iff Let_def)

lemma foldl_times: "foldl (\<lambda>n x. n * f x) (k :: nat) xs = k * prod_list (map f xs)"
  by (induction xs arbitrary: k) (simp_all add: algebra_simps)

lemma scans_of_prod:
  "scans_of b l asked shown = prod_list (map (\<lambda>name. length (fill_of b name shown) + 1) (without (facts_of b l) asked))"
  unfolding scans_of_def foldl_times by (rule mult_1)

lemma prod_filter_le:
  assumes "\<And>x. x \<in> set xs \<Longrightarrow> f x \<le> g x" and "\<And>x. x \<in> set xs \<Longrightarrow> 1 \<le> g x"
  shows "prod_list (map f (filter P xs)) \<le> (prod_list (map g xs) :: nat)"
  using assms
proof (induction xs)
  case (Cons x xs)
  have rest: "prod_list (map f (filter P xs)) \<le> prod_list (map g xs)" using Cons by simp
  have "1 * prod_list (map f (filter P xs)) \<le> g x * prod_list (map g xs)"
    using rest Cons.prems(2) [of x] by (intro mult_le_mono) auto
  then show ?case using rest Cons.prems by (auto intro!: mult_le_mono)
qed simp

lemma fill_of_shown: "name \<in> set names \<Longrightarrow> length (fill_of b name shown) \<le> length (fill_of b name names)"
  by (auto simp: fill_of_def split: option.splits)

lemma lead_scans:
  assumes "define_bucket d = Inr b" and "line_facts l = []"
  shows "is_usable b asked shown l"
proof -
  have "scans_of b l asked shown \<le> scans_of b (FactLine []) [] (buLead b)"
    unfolding scans_of_prod facts_of_def assms(2) without_def
    using fill_of_shown [of _ "buLead b" b shown] by (auto intro!: prod_filter_le)
  then show ?thesis
    using defined_facts [OF assms(1)] by (auto simp: is_usable_def list_all_iff facts_of_def assms(2))
qed

lemma better_cases: "better b asked shown needed c l \<in> {c, l}"
  by (auto simp: better_def Let_def)

lemma foldl_choice:
  assumes "\<And>c l. f c l \<in> {c, l}"
  shows "foldl f c ls \<in> insert c (set ls)"
proof (induction ls arbitrary: c)
  case (Cons l ls)
  show ?case using Cons.IH [of "f c l"] assms [of c l] by auto
qed simp

lemma best_line_cases:
  "best_line b asked shown needed = FactLine []
   \<or> (is_usable b asked shown (best_line b asked shown needed)
      \<and> best_line b asked shown needed \<in> FactLine ` set (buIndexes b))"
  using foldl_choice [of "better b asked shown needed" "FactLine []"
      "filter (is_usable b asked shown) (map FactLine (buIndexes b))", OF better_cases]
  unfolding best_line_def by auto

text \<open>Where the plan of a defined bucket leads.\<close>

lemma plan_line:
  assumes "define_bucket d = Inr b" and l_def: "l = plLine (choose_plan b asked hasRef shown)"
  shows "is_usable b asked shown l"
    and "l \<in> {FactLine [], RefsLine} \<union> FactLine ` set (buIndexes b)"
    and "\<forall>name\<in>set (facts_of b l). declares_fact b name"
proof -
  have l: "l = (if hasRef then RefsLine else best_line b asked shown (asked @ narrowing b asked shown))"
    by (simp add: l_def choose_plan_def plan_for_def Let_def)
  note best = best_line_cases [of b asked shown "asked @ narrowing b asked shown"]
  show mem: "l \<in> {FactLine [], RefsLine} \<union> FactLine ` set (buIndexes b)"
    using best l by auto
  show "is_usable b asked shown l"
    using best l lead_scans [OF assms(1), of RefsLine] lead_scans [OF assms(1), of "FactLine []"] by auto
  show "\<forall>name\<in>set (facts_of b l). declares_fact b name"
    using mem defined_facts [OF assms(1)] by (auto simp: facts_of_def)
qed

lemma plan_parts:
  "plFilled (choose_plan b asked hasRef shown) = without (facts_of b (plLine (choose_plan b asked hasRef shown))) asked"
  "plResidual (choose_plan b asked hasRef shown)
     = without (asked @ narrowing b asked shown) (facts_of b (plLine (choose_plan b asked hasRef shown)))"
  "plKind (choose_plan b asked hasRef shown) = Exact \<longleftrightarrow> plResidual (choose_plan b asked hasRef shown) = []"
  by (simp_all add: choose_plan_def plan_for_def Let_def)

section \<open>The rows a query asks for\<close>

text \<open>
  A closed fact nothing asks for shows the values that are not hidden, and rows without a value. This
  says nothing of indexes.
\<close>

definition shows_value :: "bucket \<Rightarrow> string list \<Rightarrow> string \<Rightarrow> bucket_doc \<Rightarrow> bool" where
  "shows_value b shown name d \<longleftrightarrow>
     (case values_of_fact b name of
        None \<Rightarrow> True
      | Some vs \<Rightarrow> field_value d name = None
          \<or> list_ex (\<lambda>v. field_value d name = Some (JStr (lvValue v)) \<and> (name \<in> set shown \<or> \<not> lvHidden v)) vs)"

definition wanted :: "bucket \<Rightarrow> bucket_query \<Rightarrow> bucket_doc \<Rightarrow> bool" where
  "wanted b q d \<longleftrightarrow>
     list_all (\<lambda>name. field_value d name = value_asked q name) (bqAsked q)
     \<and> list_all (\<lambda>name. name \<in> set (bqAsked q) \<or> shows_value b (bqShow q) name d) (fact_names b)
     \<and> (case bqRef q of None \<Rightarrow> True | Some r \<Rightarrow> r \<in> set (bdRefs d))
     \<and> (case bqFrom q of None \<Rightarrow> True | Some t \<Rightarrow> bdTime d \<ge> t)
     \<and> (case bqTo q of None \<Rightarrow> True | Some t \<Rightarrow> bdTime d \<le> t)"

text \<open>A row holds declared values when each closed fact of it is one of those listed, or is not there.\<close>

definition holds_declared :: "bucket \<Rightarrow> bucket_doc \<Rightarrow> bool" where
  "holds_declared b d \<longleftrightarrow> list_all (\<lambda>name. shows_value b (fact_names b) name d) (fact_names b)"

lemma matches_and_parts [simp]: "mongo_matches (and_parts parts) d = mongo_matches parts d"
  by (auto simp: mongo_matches_def and_parts_def list_all_iff)

lemma matches_and_parts_fun [simp]: "mongo_matches (and_parts parts) = mongo_matches parts"
  by (rule ext) (rule matches_and_parts)

lemma matches_append [simp]: "mongo_matches (p @ q) d \<longleftrightarrow> mongo_matches p d \<and> mongo_matches q d"
  by (simp add: mongo_matches_def)

lemma matches_Cons [simp]:
  "mongo_matches (p # ps) d \<longleftrightarrow> list_all (mongo_holds d) p \<and> mongo_matches ps d"
  "mongo_matches [] d"
  by (simp_all add: mongo_matches_def)

lemma fill_of_fact_holds:
  assumes "is_closed (rdBucket rd) name"
  shows "mongo_holds d (fill_of_fact rd name [None]) = shows_value (rdBucket rd) (bqShow (rdQuery rd)) name d"
  using assms by (auto simp: fill_of_fact_def fill_of_def shows_value_def is_closed_def list_ex_iff)

lemma unhidden_shows:
  assumes "holds_declared b d" and "name \<in> set (fact_names b)"
    and "\<not> has_hidden b name \<or> name \<in> set shown"
  shows "shows_value b shown name d"
  using assms by (auto simp: holds_declared_def shows_value_def has_hidden_def list_all_iff list_ex_iff
      split: option.splits)

text \<open>The filter of a plan asks for the rows that are wanted, whatever line it leads on.\<close>

lemma planned_matches:
  assumes "define_bucket df = Inr b" and "holds_declared b d" and "rdBucket rd = b"
    and plan: "rdPlan rd = choose_plan b (bqAsked (rdQuery rd)) hasRef (bqShow (rdQuery rd))"
  shows "mongo_matches (match_parts rd @ [residual_part rd]) d \<longleftrightarrow> wanted b (rdQuery rd) d"
proof -
  let ?q = "rdQuery rd" and ?p = "rdPlan rd"
  let ?asked = "bqAsked ?q" and ?shown = "bqShow ?q"
  let ?facts = "set (facts_of b (plLine ?p))" and ?hid = "set (narrowing b ?asked ?shown)"
  note line = plan_line [OF assms(1) arg_cong [OF plan, of plLine]]
  have filled: "set (plFilled ?p) = ?facts - set ?asked"
    and residual: "set (plResidual ?p) = (set ?asked \<union> ?hid) - ?facts"
    unfolding plan plan_parts by (auto simp: plan_parts)
  have closed: "is_closed b name" if "name \<in> set (plFilled ?p)" for name
    using line(1) that unfolding is_usable_def list_all_iff filled by auto
  have hid: "name \<in> ?hid \<longleftrightarrow> name \<in> set (fact_names b) \<and> name \<notin> set ?asked \<and> name \<notin> set ?shown \<and> has_hidden b name" for name
    by (auto simp: narrowing_def)
  have hid_closed: "is_closed b name" if "name \<in> ?hid" for name
    using that by (auto simp: hid has_hidden_def is_closed_def split: option.splits)
  have declared: "name \<in> set (fact_names b)" if "name \<in> ?facts" for name
    using line(3) that by (auto simp: declares_fact_def)
  have bound: "list_all (mongo_holds d) (bound_part rd) \<longleftrightarrow> (\<forall>name \<in> set ?asked \<inter> ?facts. field_value d name = value_asked ?q name)"
    by (auto simp: bound_part_def bound_facts_def list_all_iff assms(3))
  have fills: "list_all (mongo_holds d) (filled_part rd [None]) \<longleftrightarrow> (\<forall>name \<in> ?facts - set ?asked. shows_value b ?shown name d)"
    using fill_of_fact_holds [of rd _ d, unfolded assms(3)] closed filled
    by (simp add: filled_part_def list_all_iff)
  have rest: "list_all (mongo_holds d) (residual_part rd) \<longleftrightarrow>
      (\<forall>name \<in> set ?asked - ?facts. field_value d name = value_asked ?q name)
      \<and> (\<forall>name \<in> ?hid - ?facts. shows_value b ?shown name d)"
  proof -
    have "mongo_holds d (residual_of rd name) \<longleftrightarrow>
        (if name \<in> set ?asked then field_value d name = value_asked ?q name else shows_value b ?shown name d)"
      if "name \<in> set ?asked \<union> ?hid" for name
      using that fill_of_fact_holds [of rd name d, unfolded assms(3)] hid_closed by (auto simp: residual_of_def)
    moreover have "name \<notin> set ?asked" if "name \<in> ?hid" for name using that hid by blast
    ultimately show ?thesis
      by (auto simp: residual_part_def list.pred_map list.pred_set residual)
  qed
  have shown: "(\<forall>name \<in> ?facts - set ?asked. shows_value b ?shown name d) \<and> (\<forall>name \<in> ?hid - ?facts. shows_value b ?shown name d)
      \<longleftrightarrow> (\<forall>name \<in> set (fact_names b). name \<in> set ?asked \<or> shows_value b ?shown name d)"
    using unhidden_shows [OF assms(2)] declared unfolding Ball_def Diff_iff hid by blast
  have refs: "list_all (mongo_holds d) (ref_part rd) = (case bqRef ?q of None \<Rightarrow> True | Some r \<Rightarrow> r \<in> set (bdRefs d))"
    by (simp add: ref_part_def split: option.split)
  have range: "list_all (mongo_holds d) (range_part rd) \<longleftrightarrow>
      (case bqFrom ?q of None \<Rightarrow> True | Some t \<Rightarrow> bdTime d \<ge> t) \<and> (case bqTo ?q of None \<Rightarrow> True | Some t \<Rightarrow> bdTime d \<le> t)"
    by (simp add: range_part_def split: option.split)
  have asked: "(\<forall>name \<in> set ?asked \<inter> ?facts. field_value d name = value_asked ?q name)
      \<and> (\<forall>name \<in> set ?asked - ?facts. field_value d name = value_asked ?q name)
      \<longleftrightarrow> list_all (\<lambda>name. field_value d name = value_asked ?q name) ?asked"
    unfolding list_all_iff by blast
  have all: "(\<forall>name \<in> set (fact_names b). name \<in> set ?asked \<or> shows_value b ?shown name d)
      = list_all (\<lambda>name. name \<in> set ?asked \<or> shows_value b ?shown name d) (fact_names b)"
    by (simp add: list_all_iff)
  show ?thesis
    unfolding wanted_def match_parts_def append.simps matches_Cons bound fills rest refs range
      asked [symmetric] all [symmetric] shown [symmetric]
    by (simp only: matches_Cons(2) simp_thms conj_ac)
qed

lemma exact_matches:
  assumes "define_bucket df = Inr b" and "holds_declared b d" and "rdBucket rd = b"
    and "rdPlan rd = choose_plan b (bqAsked (rdQuery rd)) hasRef (bqShow (rdQuery rd))"
    and "plKind (rdPlan rd) = Exact"
  shows "mongo_matches (match_parts rd) d \<longleftrightarrow> wanted b (rdQuery rd) d"
proof -
  have "residual_part rd = []" using assms(4,5) by (simp add: residual_part_def plan_parts)
  then show ?thesis using planned_matches [OF assms(1-4)] by simp
qed

section \<open>Pages\<close>

definition rank :: "row_position \<Rightarrow> int \<times> int" where
  "rank = (\<lambda>(t, i). (- t, - int i))"

definition rank_of :: "bucket_doc \<Rightarrow> int \<times> int" where
  "rank_of d = rank (position_of d)"

definition after :: "row_position option \<Rightarrow> bucket_doc \<Rightarrow> bool" where
  "after c d = (case c of None \<Rightarrow> True | Some p \<Rightarrow> rank p < rank_of d)"

definition listing :: "bucket \<Rightarrow> bucket_query \<Rightarrow> bucket_doc list \<Rightarrow> bucket_doc list" where
  "listing b q docs = newest_first (filter (\<lambda>d. wanted b q d \<and> after (bqCursor q) d) docs)"

lemma newest_rank: "newest_first docs = sort_key rank_of docs"
  by (simp add: newest_first_def rank_of_def [abs_def] rank_def position_of_def)

lemma keyset_matches: "mongo_matches (keyset_parts rd) d = after (bqCursor (rdQuery rd)) d"
  by (auto simp: keyset_parts_def after_def rank_def rank_of_def position_of_def split: option.splits)

lemma edge_matches: "mongo_matches (within_edge (Some e)) d \<longleftrightarrow> rank_of d \<le> rank_of e"
  by (auto simp: within_edge_def rank_def rank_of_def position_of_def)

lemma newest_strict:
  assumes "distinct (map bdId docs)"
  shows "sorted_wrt (\<lambda>x y. rank_of x < rank_of y) (newest_first (filter P docs))"
proof -
  have "distinct (map rank_of docs)"
    using assms by (auto simp: distinct_map rank_of_def rank_def position_of_def inj_on_def)
  then have "distinct (map rank_of (newest_first (filter P docs)))"
    unfolding newest_rank by (auto simp: distinct_map inj_on_def)
  moreover have "sorted (map rank_of (newest_first (filter P docs)))"
    unfolding newest_rank by simp
  ultimately show ?thesis by (metis strict_sorted_iff sorted_wrt_map)
qed

lemma split_last:
  assumes "sorted_wrt (\<lambda>x y. f x < (f y :: 'k :: linorder)) (xs @ ys)" and "xs \<noteq> []"
  shows "filter (\<lambda>d. f (last xs) < f d) (xs @ ys) = ys"
proof -
  obtain zs z where xs: "xs = zs @ [z]" using assms(2) by (metis append_butlast_last_id)
  show ?thesis using assms(1) unfolding xs
    by (auto simp: sorted_wrt_append filter_empty_conv filter_id_conv dest: less_asym)
qed

lemma split_at:
  assumes "sorted_wrt (\<lambda>x y. f x < (f y :: 'k :: linorder)) xs"
  shows "filter (\<lambda>d. f d \<le> k) xs @ filter (\<lambda>d. k < f d) xs = xs"
  using assms
proof (induction xs)
  case (Cons x xs)
  have "filter (\<lambda>d. f d \<le> k) xs = []" if "k < f x"
    using that Cons.prems by (auto simp: filter_empty_conv)
  then show ?case using Cons by (auto simp: not_le filter_id_conv)
qed simp

lemma fewer_left:
  assumes "\<And>x. P x \<Longrightarrow> Q x" and "x \<in> set xs" and "Q x" and "\<not> P x"
  shows "length (filter P xs) < length (filter Q xs)"
proof -
  have "filter P xs = filter P (filter Q xs)"
    using assms(1) by (auto intro: filter_cong)
  then show ?thesis using length_filter_less [of x "filter Q xs" P] assms(2-4) by auto
qed

text \<open>The row a page of a bounded read stops at: a row of the collection older than the cursor.\<close>

lemma read_edge_Inr:
  assumes "read_edge env rd docs = Inr (Some e)"
  shows "e \<in> set docs" and "after (bqCursor (rdQuery rd)) e"
proof -
  let ?parts = "and_parts [bound_part rd, filled_part rd [], ref_part rd, range_part rd, older_than_cursor rd]"
  have "e \<in> set (find_newest docs (scan_budget - 1) 1 ?parts)"
    using assms by (auto simp: read_edge_def run_read_def bind_res_Inr split: option.splits list.splits)
  then have e: "e \<in> set docs" "mongo_matches ?parts e"
    by (auto simp: find_newest_def newest_rank dest!: in_set_takeD in_set_dropD)
  show "e \<in> set docs" by (rule e(1))
  show "after (bqCursor (rdQuery rd)) e"
    using e(2) by (auto simp: older_than_cursor_def after_def rank_def rank_of_def position_of_def split: option.splits)
qed

definition quiet :: "bucket_env \<Rightarrow> bool" where
  "quiet env \<longleftrightarrow> (\<forall>parts. veFailure env parts = None)"

lemma quiet_reads: "quiet env \<Longrightarrow> run_read env parts f = Inr (f parts)"
  by (simp add: quiet_def run_read_def)

lemma quiet_edge: "quiet env \<Longrightarrow> \<exists>e. read_edge env rd docs = Inr e"
  by (simp add: read_edge_def quiet_reads)

text \<open>What a page answers, and that what it shows and what is left are what there was.\<close>

definition page_cursor :: "page \<Rightarrow> string option" where
  "page_cursor pg = (case pgNext pg of Some c \<Rightarrow> Some c | None \<Rightarrow> pgKeepLooking pg)"

lemma page_splits:
  assumes b: "define_bucket df = Inr b" and docs: "list_all (holds_declared b) docs" "distinct (map bdId docs)"
    and rd: "rdBucket rd = b" "rdQuery rd = q"
      "rdPlan rd = choose_plan b (bqAsked q) hasRef (bqShow q)"
    and env: "quiet env" and limit: "bqLimit q > 0"
  shows "\<exists>rows pg. read_page env rd docs = Inr (rows, pg) \<and>
    (case page_cursor pg of
       None \<Rightarrow> rows = map (to_row env b) (listing b q docs)
     | Some c \<Rightarrow> \<exists>d\<in>set docs. c = encode_cursor env (position_of d) \<and> after (bqCursor q) d
         \<and> map (to_row env b) (listing b q docs)
            = rows @ map (to_row env b) (filter (\<lambda>e. rank_of d < rank_of e) (listing b q docs)))"
proof -
  let ?L = "listing b q docs"
  obtain edge where edge: "(if plKind (rdPlan rd) = Bounded then read_edge env rd docs else Inr None) = Inr edge"
    using quiet_edge [OF env] by (cases "plKind (rdPlan rd) = Bounded") force+
  let ?in = "\<lambda>d. case edge of None \<Rightarrow> True | Some e \<Rightarrow> rank_of d \<le> rank_of e"
  let ?M = "filter ?in ?L" and ?N = "filter (\<lambda>d. \<not> ?in d) ?L"
  have strict: "sorted_wrt (\<lambda>x y. rank_of x < rank_of y) ?L"
    unfolding listing_def by (rule newest_strict [OF docs(2)])
  have L: "?M @ ?N = ?L"
    using split_at [OF strict] by (cases edge) (simp_all add: not_le)
  have matches: "mongo_matches (match_parts rd @ keyset_parts rd @ [residual_part rd] @ within_edge edge) d
      \<longleftrightarrow> wanted b q d \<and> after (bqCursor q) d \<and> ?in d" if "d \<in> set docs" for d
    using planned_matches [OF b, of d rd hasRef] docs(1) that keyset_matches [of rd d] edge_matches
    by (cases edge) (auto simp: list_all_iff rd within_edge_def)
  have "newest_first (filter (mongo_matches (match_parts rd @ keyset_parts rd @ [residual_part rd] @ within_edge edge)) docs)
      = newest_first (filter ?in (filter (\<lambda>d. wanted b q d \<and> after (bqCursor q) d) docs))"
    using matches by (auto intro!: arg_cong [of _ _ newest_first] filter_cong simp: filter_filter)
  then have rows: "read_rows env rd edge docs = Inr (take (bqLimit q + 1) ?M)"
    by (simp add: read_rows_def quiet_reads [OF env] find_newest_def listing_def newest_rank filter_sort rd
        del: matches_append)
  have pages: "read_page env rd docs = Inr (map (to_row env b) (take (bqLimit q) ?M),
      if length ?M > bqLimit q then page_after env (last (take (bqLimit q) ?M)) else page_within env edge)"
    unfolding read_page_def edge bind_res_simps rows Let_def rd(1,2) by (simp add: min_def)
  show ?thesis
  proof (cases "length ?M > bqLimit q")
    case True
    let ?kept = "take (bqLimit q) ?M"
    have kept: "?kept \<noteq> []" using True limit by auto
    have split: "?kept @ (drop (bqLimit q) ?M @ ?N) = ?L" using L by (metis append.assoc append_take_drop_id)
    have "last ?kept \<in> set ?L" using last_in_set [OF kept] by (auto dest: in_set_takeD)
    then have d: "last ?kept \<in> set docs" "after (bqCursor q) (last ?kept)"
      by (auto simp: listing_def newest_rank)
    have left: "filter (\<lambda>e. rank_of (last ?kept) < rank_of e) ?L = drop (bqLimit q) ?M @ ?N"
      using split_last [of rank_of ?kept "drop (bqLimit q) ?M @ ?N"] strict kept unfolding split by blast
    have "read_page env rd docs = Inr (map (to_row env b) ?kept, page_after env (last ?kept))"
      using True pages by simp
    moreover have "page_cursor (page_after env (last ?kept)) = Some (encode_cursor env (position_of (last ?kept)))"
      by (simp add: page_cursor_def page_after_def)
    moreover have "map (to_row env b) ?L = map (to_row env b) ?kept
        @ map (to_row env b) (filter (\<lambda>e. rank_of (last ?kept) < rank_of e) ?L)"
      unfolding left by (metis map_append split)
    ultimately show ?thesis using d by fastforce
  next
    case False
    then have page: "read_page env rd docs = Inr (map (to_row env b) ?M, page_within env edge)"
      using pages by simp
    show ?thesis
    proof (cases edge)
      case None
      then show ?thesis using page by (simp add: page_cursor_def page_within_def)
    next
      case (Some e)
      have "read_edge env rd docs = Inr (Some e)"
        using edge Some by (cases "plKind (rdPlan rd) = Bounded") auto
      note e = read_edge_Inr [OF this, unfolded rd]
      have "map (to_row env b) ?L = map (to_row env b) ?M @ map (to_row env b) (filter (\<lambda>d. rank_of e < rank_of d) ?L)"
        using L unfolding Some by (metis (no_types, lifting) map_append not_le option.simps(5) filter_cong)
      then show ?thesis using page e Some by (auto simp: page_cursor_def page_within_def)
    qed
  qed
qed

section \<open>Counts\<close>

definition counts :: "nat \<Rightarrow> nat \<Rightarrow> counted" where
  "counts cap n = \<lparr>ctCount = min n cap, ctCapped = n > cap\<rparr>"

lemma quiet_count:
  assumes "quiet env"
  shows "read_count env rd cap docs = Inr (counts cap (length (filter (mongo_matches (match_parts rd)) docs)))"
  by (simp add: read_count_def quiet_reads [OF assms] counts_def)

lemma map_res_total:
  assumes "\<And>x. x \<in> set xs \<Longrightarrow> f x = Inr (g x)"
  shows "map_res f xs = Inr (map g xs)"
  using assms by (induction xs) auto

definition number_wanted :: "bucket \<Rightarrow> bucket_query \<Rightarrow> bucket_doc list \<Rightarrow> nat" where
  "number_wanted b q docs = length (filter (wanted b q) docs)"

text \<open>The query a tile of a grouping stands for, and the one its total stands for.\<close>

definition tile_query :: "bucket_query \<Rightarrow> string \<Rightarrow> json \<Rightarrow> bucket_query" where
  "tile_query q name v = q\<lparr>bqAsked := filter (\<lambda>n. n \<noteq> name) (bqAsked q) @ [name],
     bqWhere := obj_put name (Some v) (bqWhere q)\<rparr>"

definition total_query :: "bucket_query \<Rightarrow> string \<Rightarrow> bucket_query" where
  "total_query q name = q\<lparr>bqAsked := filter (\<lambda>n. n \<noteq> name) (bqAsked q)\<rparr>"

lemma exact_count:
  assumes "define_bucket df = Inr b" and "list_all (holds_declared b) docs" and "rdBucket rd = b"
    and "rdPlan rd = choose_plan b (bqAsked (rdQuery rd)) hasRef (bqShow (rdQuery rd))"
    and "plKind (rdPlan rd) = Exact" and "quiet env"
  shows "read_count env rd cap docs = Inr (counts cap (number_wanted b (rdQuery rd) docs))"
proof -
  have "filter (mongo_matches (match_parts rd)) docs = filter (wanted b (rdQuery rd)) docs"
    using exact_matches [OF assms(1) _ assms(3-5)] assms(2) by (auto simp: list_all_iff intro: filter_cong)
  then show ?thesis by (simp add: quiet_count [OF assms(6)] number_wanted_def)
qed

text \<open>A grouping is read without failing, and what it counts are the rows its tiles would list.\<close>

definition group_of :: "bucket \<Rightarrow> bucket_query \<Rightarrow> bucket_doc list \<Rightarrow> string \<Rightarrow> group_counts \<Rightarrow> bool" where
  "group_of b q docs name g \<longleftrightarrow> gcBy g = name
     \<and> (case gcValues g of None \<Rightarrow> True
        | Some vs \<Rightarrow> list_all (\<lambda>(v, c). c = counts count_cap (number_wanted b (tile_query q name v) docs)) vs)
     \<and> (case gcTotal g of None \<Rightarrow> True | Some c \<Rightarrow> c = counts count_cap (number_wanted b (total_query q name) docs))"

lemma quiet_values: "quiet env \<Longrightarrow> \<exists>vals. values_of env b name docs = Inr vals"
  by (auto simp: values_of_def read_stored_values_def quiet_reads Let_def split: option.splits)

lemma quiet_group:
  assumes b: "define_bucket df = Inr b" and docs: "list_all (holds_declared b) docs" and env: "quiet env"
    and rd: "rdBucket rd = b" "rdQuery rd = q"
  shows "\<exists>g. read_group env rd docs name = Inr g \<and> group_of b q docs name g"
proof -
  let ?others = "filter (\<lambda>n. n \<noteq> name) (bqAsked q)"
  note count = exact_count [OF b docs _ _ _ env]
  have plans: "plan_of rd xs = choose_plan b xs (bqRef q \<noteq> None) (bqShow q)" for xs
    by (simp add: plan_of_def rd)
  have total: "\<exists>t. read_group_total env rd ?others docs = Inr t
      \<and> (case t of None \<Rightarrow> True | Some c \<Rightarrow> c = counts count_cap (number_wanted b (total_query q name) docs))"
    by (auto simp: read_group_total_def Let_def plans rd total_query_def
        count [where hasRef = "bqRef q \<noteq> None"])
  have tile: "count_value env (rd\<lparr>rdPlan := plan_of rd (?others @ [name])\<rparr>) (?others @ [name]) name docs v
      = Inr (v, counts count_cap (number_wanted b (tile_query q name v) docs))"
    if "plKind (plan_of rd (?others @ [name])) = Exact" for v
    using that by (simp add: count_value_def asking_def plans rd tile_query_def
        count [where hasRef = "bqRef q \<noteq> None"])
  have vals: "\<exists>t. read_group_values env rd ?others name docs = Inr t
      \<and> (case t of None \<Rightarrow> True
         | Some vs \<Rightarrow> list_all (\<lambda>(v, c). c = counts count_cap (number_wanted b (tile_query q name v) docs)) vs)"
  proof -
    obtain vs where "values_of env b name docs = Inr vs" using quiet_values [OF env] by blast
    then show ?thesis
      by (cases vs) (auto simp: read_group_values_def count_values_def Let_def rd list_all_iff
          map_res_total [OF tile])
  qed
  show ?thesis using total vals unfolding read_group_def rd Let_def group_of_def by fastforce
qed

lemma quiet_groups:
  assumes "define_bucket df = Inr b" and "list_all (holds_declared b) docs" and "quiet env"
    and "rdBucket rd = b" "rdQuery rd = q"
  shows "\<exists>gs. map_res (read_group env rd docs) names = Inr gs \<and> list_all2 (group_of b q docs) names gs"
proof (induction names)
  case (Cons name names)
  then show ?case using quiet_group [OF assms, of name] by fastforce
qed simp

section \<open>Following the pages of a list\<close>

text \<open>
  What a reader does: ask again with the cursor of the page before, until a page has none. The fuel
  is the number of pages; \<open>pages_follow\<close> shows that one more than the rows of the collection is enough.
\<close>

fun follow_pages ::
  "nat \<Rightarrow> bucket_env \<Rightarrow> bucket \<Rightarrow> bucket_request \<Rightarrow> bucket_doc list \<Rightarrow> (string \<times> json) list list res option" where
  "follow_pages 0 env b r docs = None"
| "follow_pages (Suc n) env b r docs =
     (case bind_res (parse_query env b r) (\<lambda>q. run_query env b q docs) of
        Inl e \<Rightarrow> Some (Inl e)
      | Inr a \<Rightarrow>
          (case page_cursor (anPage a) of
             None \<Rightarrow> Some (Inr (anRows a))
           | Some c \<Rightarrow> map_option (\<lambda>rows. bind_res rows (\<lambda>rs. Inr (anRows a @ rs)))
               (follow_pages n env b (r\<lparr>brCursor := Some c\<rparr>) docs)))"

lemma parse_query_cursor:
  assumes "parse_query env b r = Inr q" and "parse_cursor env x = Inr y"
  shows "parse_query env b (r\<lparr>brCursor := x\<rparr>) = Inr (q\<lparr>bqCursor := y\<rparr>)"
  using assms by (auto simp: parse_query_def bind_res_Inr)

lemma parse_query_fields:
  assumes "parse_query env b r = Inr q"
  shows "bqLimit q = brLimit r" and "bqAsked q = map fst (bqWhere q)"
    and "bqPlan q = choose_plan b (bqAsked q) (bqRef q \<noteq> None) (bqShow q)"
    and "parse_cursor env (brCursor r) = Inr (bqCursor q)"
  using assms by (auto simp: parse_query_def bind_res_Inr)

definition reads_back :: "bucket_env \<Rightarrow> bucket_doc \<Rightarrow> bool" where
  "reads_back env d \<longleftrightarrow> decode_cursor env (encode_cursor env (position_of d)) = Inr (position_of d)"

lemma listing_after:
  assumes "after (bqCursor q) d"
  shows "listing b (q\<lparr>bqCursor := Some (position_of d)\<rparr>) docs = filter (\<lambda>e. rank_of d < rank_of e) (listing b q docs)"
proof -
  have "after (bqCursor q) e" if "rank_of d < rank_of e" for e
    using assms that by (auto simp: after_def split: option.splits)
  then have "filter (\<lambda>e. wanted b q e \<and> rank_of d < rank_of e) docs
      = filter (\<lambda>e. rank_of d < rank_of e) (filter (\<lambda>e. wanted b q e \<and> after (bqCursor q) e) docs)"
    by (auto intro: filter_cong)
  moreover have "wanted b (q\<lparr>bqCursor := Some (position_of d)\<rparr>) = wanted b q"
    by (rule ext) (simp add: wanted_def value_asked_def)
  ultimately show ?thesis
    by (simp add: listing_def newest_rank filter_sort after_def rank_of_def [symmetric])
qed

lemma run_query_ok:
  assumes b: "define_bucket df = Inr b" and docs: "list_all (holds_declared b) docs" "distinct (map bdId docs)"
    and q: "bqPlan q = choose_plan b (bqAsked q) hasRef (bqShow q)"
    and env: "quiet env" and limit: "bqLimit q > 0"
  shows "\<exists>a. run_query env b q docs = Inr a \<and> list_all2 (group_of b q docs) (bqGroupBy q) (anGroups a) \<and>
    (case page_cursor (anPage a) of
       None \<Rightarrow> anRows a = map (to_row env b) (listing b q docs)
     | Some c \<Rightarrow> \<exists>d\<in>set docs. c = encode_cursor env (position_of d) \<and> after (bqCursor q) d
         \<and> map (to_row env b) (listing b q docs)
            = anRows a @ map (to_row env b) (listing b (q\<lparr>bqCursor := Some (position_of d)\<rparr>) docs))"
proof -
  let ?rd = "\<lparr>rdBucket = b, rdQuery = q, rdPlan = bqPlan q\<rparr>"
  obtain rows pg where page: "read_page env ?rd docs = Inr (rows, pg)"
    and splits: "case page_cursor pg of
       None \<Rightarrow> rows = map (to_row env b) (listing b q docs)
     | Some c \<Rightarrow> \<exists>d\<in>set docs. c = encode_cursor env (position_of d) \<and> after (bqCursor q) d
         \<and> map (to_row env b) (listing b q docs)
            = rows @ map (to_row env b) (filter (\<lambda>e. rank_of d < rank_of e) (listing b q docs))"
    using page_splits [OF b docs, of ?rd q hasRef env] q env limit by auto
  obtain gs where gs: "map_res (read_group env ?rd docs) (bqGroupBy q) = Inr gs"
    "list_all2 (group_of b q docs) (bqGroupBy q) gs"
    using quiet_groups [OF b docs(1) env, of ?rd q] by auto
  show ?thesis
    using splits gs(2) by (auto simp: run_query_def Let_def page gs(1) listing_after split: option.splits)
qed

lemma pages_follow:
  assumes b: "define_bucket df = Inr b" and docs: "list_all (holds_declared b) docs" "distinct (map bdId docs)"
    and env: "quiet env" "list_all (reads_back env) docs" and limit: "brLimit r > 0"
    and r: "parse_query env b r = Inr q" and n: "length (filter (after (bqCursor q)) docs) < n"
  shows "follow_pages n env b r docs = Some (Inr (map (to_row env b) (listing b q docs)))"
  using r n limit
proof (induction n arbitrary: r q)
  case (Suc n)
  note q = parse_query_fields [OF Suc.prems(1)]
  obtain a where a: "run_query env b q docs = Inr a" and splits: "case page_cursor (anPage a) of
       None \<Rightarrow> anRows a = map (to_row env b) (listing b q docs)
     | Some c \<Rightarrow> \<exists>d\<in>set docs. c = encode_cursor env (position_of d) \<and> after (bqCursor q) d
         \<and> map (to_row env b) (listing b q docs)
            = anRows a @ map (to_row env b) (listing b (q\<lparr>bqCursor := Some (position_of d)\<rparr>) docs)"
    using run_query_ok [OF b docs q(3) env(1)] q(1) Suc.prems(3) by auto
  show ?case
  proof (cases "page_cursor (anPage a)")
    case None
    then show ?thesis using a splits Suc.prems(1) by simp
  next
    case (Some c)
    then obtain d where d: "d \<in> set docs" "c = encode_cursor env (position_of d)" "after (bqCursor q) d"
      and rest: "map (to_row env b) (listing b q docs)
         = anRows a @ map (to_row env b) (listing b (q\<lparr>bqCursor := Some (position_of d)\<rparr>) docs)"
      using splits by auto
    let ?q = "q\<lparr>bqCursor := Some (position_of d)\<rparr>"
    have "parse_cursor env (Some c) = Inr (Some (position_of d))"
      using env(2) d(1) by (auto simp: parse_cursor_def d(2) list_all_iff reads_back_def)
    then have parsed: "parse_query env b (r\<lparr>brCursor := Some c\<rparr>) = Inr ?q"
      using parse_query_cursor [OF Suc.prems(1)] by simp
    have "length (filter (after (Some (position_of d))) docs) < length (filter (after (bqCursor q)) docs)"
      using d by (intro fewer_left [of _ _ d]) (auto simp: after_def rank_of_def split: option.splits)
    then have "follow_pages n env b (r\<lparr>brCursor := Some c\<rparr>) docs = Some (Inr (map (to_row env b) (listing b ?q docs)))"
      using Suc.IH [OF parsed] Suc.prems(2,3) by simp
    then show ?thesis using a Suc.prems(1) Some rest by simp
  qed
qed simp

end
