(* ===== verification/EventStamps.thy ===== *)
theory EventStamps
  imports BucketEngine
begin

text \<open>
  What a row of a box is found by (\<open>src/events\<close>: event-types.js, case-refs.js, stamps.js, the audit
  predicate of event-audit.js): the registry of event types, the stamp of a row, its event type and
  its refs, and the links that list the events of one application, case or configuration version.
  The buckets of this service's collections follow (\<open>src/events/buckets\<close>, \<open>src/grants/buckets\<close>), whose
  event types come from the registry.
\<close>

section \<open>Links\<close>

definition hex_digit :: "nat \<Rightarrow> char" where
  "hex_digit n = char_of (if n < 10 then 48 + n else 87 + n)"

fun show_hex :: "nat \<Rightarrow> string" where
  "show_hex n = (if n < 16 then [hex_digit n] else show_hex (n div 16) @ [hex_digit (n mod 16)])"

declare show_hex.simps [simp del]

definition is_plain_char :: "char \<Rightarrow> bool" where
  "is_plain_char c \<longleftrightarrow> is_lower_or_digit c \<or> c = CHR ''-''"

definition keep_char :: "char \<Rightarrow> string" where
  "keep_char c = (if is_plain_char c then [c] else ''~'' @ show_hex (of_char c) @ ''.'')"

definition keep_case :: "string \<Rightarrow> string" where
  "keep_case v = concat (map keep_char (js_trim v))"

definition has_ref_value :: "string option \<Rightarrow> bool" where
  "has_ref_value v \<longleftrightarrow> to_ref ''value'' v \<noteq> None"

definition link_key :: "char \<Rightarrow> string option \<Rightarrow> string option \<Rightarrow> string option" where
  "link_key sep a b =
     (case (a, b) of
        (Some x, Some y) \<Rightarrow>
          if has_ref_value a \<and> has_ref_value b then Some (keep_case x @ [sep] @ keep_case y) else None
      | _ \<Rightarrow> None)"

definition application_key_of :: "string option \<Rightarrow> string option \<Rightarrow> string option" where
  "application_key_of = link_key CHR '':''"

definition case_key_of :: "string option \<Rightarrow> string option \<Rightarrow> string option" where
  "case_key_of = link_key CHR '':''"

definition config_key_of :: "string option \<Rightarrow> string option \<Rightarrow> string option" where
  "config_key_of = link_key CHR ''@''"

definition to_application_link :: "string option \<Rightarrow> string option \<Rightarrow> string option" where
  "to_application_link code clientRef = to_ref ''application'' (application_key_of code clientRef)"

definition to_case_link :: "string option \<Rightarrow> string option \<Rightarrow> string option" where
  "to_case_link workflowCode caseRef = to_ref ''case'' (case_key_of workflowCode caseRef)"

definition to_config_link :: "string option \<Rightarrow> string option \<Rightarrow> string option" where
  "to_config_link code version = to_ref ''config'' (config_key_of code version)"

type_synonym ref_pairs = "(string \<times> string option) list"

definition application_refs_of :: "string option \<Rightarrow> string option \<Rightarrow> ref_pairs" where
  "application_refs_of code clientRef =
     [(''ref'', clientRef), (''application'', application_key_of code clientRef)]"

definition case_refs_of :: "string option \<Rightarrow> string option \<Rightarrow> ref_pairs" where
  "case_refs_of workflowCode caseRef = [(''ref'', caseRef), (''case'', case_key_of workflowCode caseRef)]"

definition config_refs_of :: "string option \<Rightarrow> string option \<Rightarrow> ref_pairs" where
  "config_refs_of code version = [(''ref'', code), (''config'', config_key_of code version)]"

section \<open>Event types\<close>

datatype event_box_name = InboxBox | OutboxBox

record event_type =
  etName :: string
  etSentAs :: "string option"
  etRecognise :: "(json \<Rightarrow> bool) option"
  etBoxes :: "event_box_name list"
  etRefs :: "json \<Rightarrow> string option \<Rightarrow> ref_pairs"
  etHidden :: bool

text \<open>The registry is a \<open>Map\<close> by name: a name declared again keeps its place.\<close>

fun put_event_type :: "event_type \<Rightarrow> event_type list \<Rightarrow> event_type list" where
  "put_event_type t [] = [t]"
| "put_event_type t (u # us) = (if etName u = etName t then t # us else u # put_event_type t us)"

definition assert_sent_as_is_free :: "event_type \<Rightarrow> event_type list \<Rightarrow> unit res" where
  "assert_sent_as_is_free t declared =
     (case (etSentAs t, find (\<lambda>u. etSentAs u = etSentAs t \<and> etName u \<noteq> etName t) declared) of
        (Some sentAs, Some other) \<Rightarrow>
          if sentAs = [] then Inr ()
          else Inl (JsError (''Event type '' @ quoted sentAs @ '' is already declared as '' @ quoted (etName other)))
      | _ \<Rightarrow> Inr ())"

definition define_event_type :: "event_type \<Rightarrow> (event_type list, event_type) action" where
  "define_event_type t =
     andThen (reads (\<lambda>declared. declared)) (\<lambda>declared.
     andThen (lift_res (assert_sent_as_is_free t declared)) (\<lambda>_.
     andThen (writes (put_event_type t)) (\<lambda>_. ret t)))"

text \<open>\<open>/^cloud\.defra\.[^.]+\./\<close>, with the environment replaced by a star.\<close>

definition any_environment :: "string \<Rightarrow> string" where
  "any_environment t =
     (let rest = drop (length ''cloud.defra.'') t
      in if starts_with ''cloud.defra.'' t \<and> takeWhile (\<lambda>c. c \<noteq> CHR ''.'') rest \<noteq> [] \<and> CHR ''.'' \<in> set rest
         then ''cloud.defra.*'' @ dropWhile (\<lambda>c. c \<noteq> CHR ''.'') rest else t)"

definition event_type_text :: "json \<Rightarrow> string option" where
  "event_type_text event = (case json_at event [''type''] of Some (JStr t) \<Rightarrow> Some t | _ \<Rightarrow> None)"

definition is_sent_as :: "json \<Rightarrow> event_type \<Rightarrow> bool" where
  "is_sent_as event t \<longleftrightarrow> etSentAs t \<noteq> None \<and> etSentAs t = event_type_text event"

definition is_sent_as_in_any_environment :: "json \<Rightarrow> event_type \<Rightarrow> bool" where
  "is_sent_as_in_any_environment event t \<longleftrightarrow>
     etSentAs t \<noteq> None \<and> map_option any_environment (etSentAs t) = map_option any_environment (event_type_text event)"

definition recognises :: "json \<Rightarrow> event_type \<Rightarrow> bool" where
  "recognises event t = (case etRecognise t of None \<Rightarrow> False | Some r \<Rightarrow> r event)"

fun first_of :: "(event_type \<Rightarrow> bool) list \<Rightarrow> event_type list \<Rightarrow> event_type option" where
  "first_of [] declared = None"
| "first_of (m # ms) declared =
     (case find m declared of Some t \<Rightarrow> Some t | None \<Rightarrow> first_of ms declared)"

definition find_event_type :: "json \<Rightarrow> event_type list \<Rightarrow> event_type option" where
  "find_event_type event = first_of [is_sent_as event, recognises event]"

definition find_event_type_in_any_environment :: "json \<Rightarrow> event_type list \<Rightarrow> event_type option" where
  "find_event_type_in_any_environment event =
     first_of [is_sent_as event, recognises event, is_sent_as_in_any_environment event]"

definition audit_type :: event_type where
  "audit_type = \<lparr>etName = ''Audit'', etSentAs = None, etRecognise = None, etBoxes = [OutboxBox],
     etRefs = (\<lambda>_ _. []), etHidden = True\<rparr>"

definition unrecognised_type :: event_type where
  "unrecognised_type = \<lparr>etName = ''Unrecognised'', etSentAs = None, etRecognise = None, etBoxes = [],
     etRefs = (\<lambda>_ _. []), etHidden = False\<rparr>"

definition event_types_of ::
  "(string \<Rightarrow> string \<Rightarrow> bool) \<Rightarrow> event_box_name \<Rightarrow> event_type list \<Rightarrow> event_type list" where
  "event_types_of before box declared =
     sort_texts before etName (filter (\<lambda>t. box \<in> set (etBoxes t)) declared) @ [unrecognised_type]"

definition event_type_names ::
  "(string \<Rightarrow> string \<Rightarrow> bool) \<Rightarrow> event_box_name \<Rightarrow> event_type list \<Rightarrow> string list" where
  "event_type_names before box declared = map etName (event_types_of before box declared)"

definition event_type_values ::
  "(string \<Rightarrow> string \<Rightarrow> bool) \<Rightarrow> event_box_name \<Rightarrow> event_type list \<Rightarrow> listed_value list" where
  "event_type_values before box declared =
     map (\<lambda>t. \<lparr>lvValue = etName t, lvHidden = etHidden t\<rparr>) (event_types_of before box declared)"

section \<open>Stamps\<close>

record stamps =
  stEventType :: string
  stRefs :: "string list"

definition declared_for :: "event_box_name \<Rightarrow> event_type option \<Rightarrow> event_type option" where
  "declared_for box t = (case t of Some u \<Rightarrow> if box \<in> set (etBoxes u) then Some u else None | None \<Rightarrow> None)"

definition is_hex_char :: "char \<Rightarrow> bool" where
  "is_hex_char c = (let n = (of_char (to_lower_char c) :: nat) in (48 \<le> n \<and> n \<le> 57) \<or> (97 \<le> n \<and> n \<le> 102))"

definition is_hex :: "nat \<Rightarrow> string \<Rightarrow> bool" where
  "is_hex n s \<longleftrightarrow> length s = n \<and> list_all is_hex_char s"

definition to_trace_id :: "string option \<Rightarrow> string option" where
  "to_trace_id traceparent =
     (case map_option (split_on CHR ''-'') traceparent of
        Some [version, trace, parent, flags] \<Rightarrow>
          if is_hex 2 version \<and> is_hex 32 trace \<and> is_hex 16 parent \<and> is_hex 2 flags then Some trace
          else traceparent
      | _ \<Rightarrow> traceparent)"

text \<open>\<open>String\<close> of an identifier that is no text is a parameter.\<close>

definition id_text :: "(json \<Rightarrow> string) \<Rightarrow> json option \<Rightarrow> string option" where
  "id_text show v = (case v of None \<Rightarrow> None | Some (JStr s) \<Rightarrow> Some s | Some j \<Rightarrow> Some (show j))"

definition message_stamps ::
  "(json \<Rightarrow> string) \<Rightarrow> event_type \<Rightarrow> json \<Rightarrow> string option \<Rightarrow> string option \<Rightarrow> ref_pairs \<Rightarrow> stamps" where
  "message_stamps show t event segregationRef traceparent refs =
     \<lparr>stEventType = etName t,
      stRefs = to_refs (etRefs t event segregationRef @ refs
        @ [(''id'', id_text show (json_at event [''id''])), (''trace'', to_trace_id traceparent)])\<rparr>"

definition outbox_stamps ::
  "(json \<Rightarrow> string) \<Rightarrow> event_type list \<Rightarrow> json \<Rightarrow> string option \<Rightarrow> ref_pairs \<Rightarrow> stamps res" where
  "outbox_stamps show declared event segregationRef refs =
     (case declared_for OutboxBox (find_event_type event declared) of
        None \<Rightarrow> Inl (JsError (''Event type '' @ quoted (case id_text show (json_at event [''type'']) of None \<Rightarrow> ''undefined'' | Some t \<Rightarrow> t)
          @ '' is not declared''))
      | Some t \<Rightarrow> Inr (message_stamps show t event segregationRef
          (id_text show (json_at event [''traceparent''])) refs))"

definition or_unrecognised :: "event_type option \<Rightarrow> event_type" where
  "or_unrecognised t = (case t of None \<Rightarrow> unrecognised_type | Some u \<Rightarrow> u)"

definition inbox_stamps ::
  "(json \<Rightarrow> string) \<Rightarrow> event_type list \<Rightarrow> json \<Rightarrow> string option \<Rightarrow> stamps" where
  "inbox_stamps show declared message segregationRef =
     message_stamps show (or_unrecognised (declared_for InboxBox (find_event_type message declared)))
       message segregationRef (id_text show (json_at message [''traceparent''])) []"

definition audit_stamps :: "(json \<Rightarrow> string) \<Rightarrow> json \<Rightarrow> stamps" where
  "audit_stamps show payload =
     \<lparr>stEventType = etName audit_type,
      stRefs = to_refs [(''trace'', id_text show (json_at payload [''correlationid'']))]\<rparr>"

text \<open>Topics are compared by name, the text after the last colon of their ARN.\<close>

definition topic_name :: "string option \<Rightarrow> string option" where
  "topic_name arn = map_option (\<lambda>s. last (split_on CHR '':'' s)) arn"

definition is_audit_target :: "string option \<Rightarrow> string option \<Rightarrow> bool" where
  "is_audit_target auditTopicArn target =
     (case topic_name auditTopicArn of None \<Rightarrow> False | Some n \<Rightarrow> n \<noteq> [] \<and> topic_name target = Some n)"

text \<open>
  The short label of a type: what follows \<open>/^cloud\.defra\.[^.]+\.[^.]+\./\<close>, or the whole when nothing does.
\<close>

definition label_for_missing_type :: "bool \<Rightarrow> string" where
  "label_for_missing_type isAudit = (if isAudit then ''audit'' else ''unknown'')"

definition without_namespace :: "string \<Rightarrow> string" where
  "without_namespace t =
     (case split_on CHR ''.'' t of
        cloud # defra # environment # service # rest \<Rightarrow>
          if cloud = ''cloud'' \<and> defra = ''defra'' \<and> environment \<noteq> [] \<and> service \<noteq> [] \<and> rest \<noteq> []
          then join ''.'' rest else t
      | _ \<Rightarrow> t)"

definition short_event_type :: "string option \<Rightarrow> bool \<Rightarrow> string" where
  "short_event_type storedType isAudit =
     (case storedType of
        None \<Rightarrow> label_for_missing_type isAudit
      | Some t \<Rightarrow> if t = [] then label_for_missing_type isAudit
                   else if without_namespace t = [] then t else without_namespace t)"

record stamped_doc =
  sdOriginalPayload :: "json option"
  sdEvent :: "json option"
  sdTarget :: "string option"
  sdSegregationRef :: "string option"
  sdTraceparent :: "string option"

definition envelope_of :: "stamped_doc \<Rightarrow> json" where
  "envelope_of d = (case sdOriginalPayload d of Some v \<Rightarrow> v
     | None \<Rightarrow> (case sdEvent d of Some v \<Rightarrow> v | None \<Rightarrow> JObj []))"

definition backfill_outbox_stamps ::
  "(json \<Rightarrow> string) \<Rightarrow> string option \<Rightarrow> event_type list \<Rightarrow> stamped_doc \<Rightarrow> ref_pairs \<Rightarrow> stamps" where
  "backfill_outbox_stamps show auditTopicArn declared d refs =
     (let event = envelope_of d
      in if is_audit_target auditTopicArn (sdTarget d) then audit_stamps show event
         else message_stamps show
           (or_unrecognised (declared_for OutboxBox (find_event_type_in_any_environment event declared)))
           event (sdSegregationRef d) (id_text show (json_at event [''traceparent''])) refs)"

definition backfill_inbox_stamps ::
  "(json \<Rightarrow> string) \<Rightarrow> event_type list \<Rightarrow> stamped_doc \<Rightarrow> stamps" where
  "backfill_inbox_stamps show declared d =
     (let event = envelope_of d
      in message_stamps show
           (or_unrecognised (declared_for InboxBox (find_event_type_in_any_environment event declared)))
           event (sdSegregationRef d) (sdTraceparent d) [])"

definition stamped_fields :: "string list" where
  "stamped_fields = [''eventType'', ''refs'']"

definition without_stamps :: "(string \<times> json) list \<Rightarrow> (string \<times> json) list" where
  "without_stamps document = filter (\<lambda>(key, _). key \<notin> set stamped_fields) document"

section \<open>The buckets of this service\<close>

definition or_null :: "json option \<Rightarrow> json" where
  "or_null v = (case v of None \<Rightarrow> JNull | Some j \<Rightarrow> j)"

definition at_key :: "string \<Rightarrow> json option \<Rightarrow> (string \<times> json) list" where
  "at_key k v = (case v of None \<Rightarrow> [] | Some j \<Rightarrow> [(k, j)])"

definition doc_field :: "bucket_doc \<Rightarrow> string \<Rightarrow> json option" where
  "doc_field d k = (case bdFields d of JObj kvs \<Rightarrow> map_of kvs k | _ \<Rightarrow> None)"

definition event_status_values :: "listed_value list" where
  "event_status_values = map (\<lambda>v. \<lparr>lvValue = v, lvHidden = False\<rparr>)
     [''PUBLISHED'', ''PROCESSING'', ''FAILED'', ''RESUBMITTED'', ''COMPLETED'', ''DEAD_LETTER'', ''PURGED'']"

definition plain_fact :: "fact_values \<Rightarrow> string \<Rightarrow> fact" where
  "plain_fact vs param = \<lparr>faValues = vs, faParam = Some param, faToggle = None, faWithin = None\<rparr>"

definition errors_summary :: summary where
  "errors_summary = \<lparr>suId = ''errors'', suBy = [''errorKey'', ''eventType''],
     suAmong = [(''status'', ''DEAD_LETTER'')], suTop = 20\<rparr>"

definition status_column :: column where
  "status_column = \<lparr>coKey = ''status'', coFormat = ''badge'', coFact = Some ''status''\<rparr>"

definition bare_bucket ::
  "string \<Rightarrow> string \<Rightarrow> int \<Rightarrow> string \<Rightarrow> string \<Rightarrow> (bucket_doc \<Rightarrow> (string \<times> json) list) \<Rightarrow> bucket" where
  "bare_bucket i path order collection timeField present = \<lparr>buId = i, buPath = Some path, buOrder = order,
     buCollection = collection, buLead = [], buTimeField = timeField, buFacts = [], buRefs = [], buLinks = [],
     buIndexes = [], buGroupings = [], buColumns = [], buAudited = False, buTimeline = False,
     buSummaries = [], buPage = None, buTab = None, buPresent = present\<rparr>"

definition present_event ::
  "(nat \<Rightarrow> string) \<Rightarrow> (json option \<Rightarrow> json) \<Rightarrow> string \<Rightarrow> string \<Rightarrow> bucket_doc \<Rightarrow> (string \<times> json) list" where
  "present_event hex toIso box subtitle d =
     [(''title'', or_null (field_value d ''eventType'')), (''subtitle'', or_null (field_value d subtitle)),
      (''cells'', JObj (at_key ''status'' (doc_field d ''status'')
         @ [(''completedAt'', toIso (field_value d ''completionDate''))])),
      (''link'', JObj [(''kind'', JStr ''event''), (''service'', JStr ''gas''), (''box'', JStr box),
         (''id'', JStr (hex (bdId d)))])]"

definition outbox_bucket ::
  "(nat \<Rightarrow> string) \<Rightarrow> (json option \<Rightarrow> json) \<Rightarrow> listed_value list \<Rightarrow> bucket_definition" where
  "outbox_bucket hex toIso types =
     \<lparr>deRequired = bare_bucket ''gas.outbox'' ''events/gas/outbox'' 10 ''outbox'' ''publicationDate''
        (present_event hex toIso ''outbox'' ''event.id''),
      deLead = Some [''eventType''],
      deFacts = Some
        [(''status'', plain_fact (ClosedValues event_status_values) ''status''),
         (''eventType'', (plain_fact (ClosedValues types) ''event'')\<lparr>faToggle := Some (Some ''audit'')\<rparr>),
         (''lastError.name'', plain_fact OpenValues ''errorname''),
         (''errorKey'', plain_fact OpenValues ''error'')],
      deRefs = Some [''ref'', ''trace'', ''id''], deLinks = Some [''application''],
      deIndexes = Some [[''status''], [''status'', ''lastError.name''], [''status'', ''errorKey'']],
      deGroupings = Some [''status''], deColumns = Some [status_column],
      deAudited = Some False, deTimeline = Some True, deSummaries = Some [errors_summary],
      dePage = Some ''events'', deTab = Some ''Outbox''\<rparr>"

definition inbox_bucket ::
  "(nat \<Rightarrow> string) \<Rightarrow> (json option \<Rightarrow> json) \<Rightarrow> listed_value list \<Rightarrow> bucket_definition" where
  "inbox_bucket hex toIso types =
     \<lparr>deRequired = bare_bucket ''gas.inbox'' ''events/gas/inbox'' 20 ''inbox'' ''publicationDate''
        (present_event hex toIso ''inbox'' ''messageId''),
      deLead = None,
      deFacts = Some
        [(''status'', plain_fact (ClosedValues event_status_values) ''status''),
         (''eventType'', plain_fact (ClosedValues types) ''event''),
         (''lastError.name'', plain_fact OpenValues ''errorname''),
         (''errorKey'', plain_fact OpenValues ''error'')],
      deRefs = Some [''ref'', ''trace'', ''id''], deLinks = Some [''application'', ''config''],
      deIndexes = Some [[''status''], [''status'', ''eventType''], [''status'', ''lastError.name''],
        [''status'', ''errorKey'', ''eventType'']],
      deGroupings = Some [''status''], deColumns = Some [status_column],
      deAudited = Some False, deTimeline = Some True, deSummaries = Some [errors_summary],
      dePage = Some ''events'', deTab = Some ''Inbox''\<rparr>"

definition to_versioned :: "(json \<Rightarrow> string) \<Rightarrow> json option \<Rightarrow> json option \<Rightarrow> json" where
  "to_versioned show code version =
     (if json_truthy code \<and> json_truthy version
      then JStr (show (or_null code) @ ''@'' @ show (or_null version)) else or_null code)"

definition to_position_cell :: "bucket_doc \<Rightarrow> json" where
  "to_position_cell d = JObj [(''phase'', or_null (field_value d ''currentPhase'')),
     (''stage'', or_null (field_value d ''currentStage'')), (''status'', or_null (field_value d ''currentStatus''))]"

definition applications_bucket :: "(json \<Rightarrow> string) \<Rightarrow> bucket_definition" where
  "applications_bucket show =
     \<lparr>deRequired = bare_bucket ''gas.applications'' ''applications'' 70 ''applications'' ''createdAt'' (\<lambda>d.
        [(''title'', or_null (field_value d ''clientRef'')), (''subtitle'', JNull),
         (''cells'', JObj [(''code'', to_versioned show (field_value d ''code'') (field_value d ''currentConfigVersion'')),
            (''position'', to_position_cell d)]),
         (''link'', JObj ((''kind'', JStr ''application'') # at_key ''code'' (doc_field d ''code'')
            @ at_key ''clientRef'' (doc_field d ''clientRef'')))]),
      deLead = None,
      deFacts = Some [(''code'', plain_fact StoredValues ''grant''),
        (''currentConfigVersion'', (plain_fact OpenValues ''version'')\<lparr>faWithin := Some ''code''\<rparr>)],
      deRefs = Some [''ref'', ''sbi'', ''frn'', ''crn'', ''agreement''], deLinks = None,
      deIndexes = Some [[''code''], [''code'', ''currentConfigVersion'']],
      deGroupings = None,
      deColumns = Some [\<lparr>coKey = ''code'', coFormat = ''mono'', coFact = None\<rparr>,
        \<lparr>coKey = ''position'', coFormat = ''position'', coFact = None\<rparr>],
      deAudited = Some True, deTimeline = Some False, deSummaries = None, dePage = None, deTab = None\<rparr>"

definition listed :: "string list \<Rightarrow> fact_values" where
  "listed vs = ClosedValues (map (\<lambda>v. \<lparr>lvValue = v, lvHidden = False\<rparr>) vs)"

definition grants_bucket :: bucket_definition where
  "grants_bucket =
     \<lparr>deRequired = bare_bucket ''gas.grants'' ''grants'' 75 ''config_versions'' ''receivedAt'' (\<lambda>d.
        at_key ''title'' (doc_field d ''grantCode'') @
        [(''subtitle'', JNull),
         (''cells'', JObj (at_key ''version'' (doc_field d ''version'') @ at_key ''status'' (doc_field d ''status'')
            @ at_key ''definition'' (doc_field d ''worstFetchStatus''))),
         (''link'', JObj ((''kind'', JStr ''grant'') # at_key ''code'' (doc_field d ''grantCode'')
            @ at_key ''version'' (doc_field d ''version'')))]),
      deLead = None,
      deFacts = Some [(''grantCode'', plain_fact StoredValues ''grant''),
        (''status'', plain_fact (listed [''active'', ''draft'']) ''status''),
        (''worstFetchStatus'', plain_fact (listed [''fetched'', ''pending'', ''transient_error'', ''permanent_error''])
           ''definition'')],
      deRefs = None, deLinks = None,
      deIndexes = Some [[''grantCode'', ''status'', ''worstFetchStatus''], [''status'', ''worstFetchStatus'']],
      deGroupings = None,
      deColumns = Some [\<lparr>coKey = ''version'', coFormat = ''mono'', coFact = None\<rparr>,
        \<lparr>coKey = ''definition'', coFormat = ''badge'', coFact = Some ''worstFetchStatus''\<rparr>, status_column],
      deAudited = Some False, deTimeline = Some False, deSummaries = None, dePage = None, deTab = None\<rparr>"

end
