(* ===== verification/StampLaws.thy ===== *)
theory StampLaws
  imports EventStamps
begin

text \<open>
  What the links of rows promise: the link of an application, a case or a version is never that of
  another, although refs are kept in lower case.
\<close>

definition hex_digit_number :: "char \<Rightarrow> nat" where
  "hex_digit_number c = (let n = of_char c in if n < 58 then n - 48 else n - 87)"

definition read_hex :: "string \<Rightarrow> nat" where
  "read_hex s = foldl (\<lambda>n c. 16 * n + hex_digit_number c) 0 s"

lemma hex_digit_value: "n < 16 \<Longrightarrow> hex_digit_number (hex_digit n) = n"
  by (auto simp: hex_digit_number_def hex_digit_def Let_def)

lemma read_show_hex: "read_hex (show_hex n) = n"
proof (induction n rule: show_hex.induct)
  case (1 n)
  show ?case
    by (subst show_hex.simps) (use 1 in \<open>auto simp: read_hex_def hex_digit_value\<close>)
qed

lemma hex_digit_plain: "n < 16 \<Longrightarrow> is_lower_or_digit (hex_digit n)"
  by (auto simp: is_lower_or_digit_def is_lower_def hex_digit_def)

lemma show_hex_plain: "list_all is_lower_or_digit (show_hex n)"
proof (induction n rule: show_hex.induct)
  case (1 n)
  show ?case by (subst show_hex.simps) (use 1 in \<open>auto simp: hex_digit_plain\<close>)
qed

text \<open>The characters a link is written with: none is a blank or an upper-case letter.\<close>

definition is_link_char :: "char \<Rightarrow> bool" where
  "is_link_char c \<longleftrightarrow> is_lower_or_digit c \<or> c \<in> {CHR ''-'', CHR ''~'', CHR ''.'', CHR '':'', CHR ''@''}"

lemma link_char_kept: "is_link_char c \<Longrightarrow> to_lower_char c = c \<and> \<not> is_blank_char c"
  by (auto simp: is_link_char_def is_lower_or_digit_def is_lower_def to_lower_char_def is_blank_char_def Let_def)

lemma keep_char_link: "list_all is_link_char (keep_char c)"
  using show_hex_plain [of "of_char c"]
  by (auto simp: keep_char_def is_plain_char_def is_link_char_def list_all_iff)

lemma keep_case_link: "list_all is_link_char (keep_case v)"
  using keep_char_link by (auto simp: keep_case_def list_all_iff)

lemma separators_not_plain:
  "\<not> is_lower_or_digit CHR ''.''" "\<not> is_lower_or_digit CHR '':''" "\<not> is_lower_or_digit CHR ''@''"
  "\<not> is_lower_or_digit CHR ''~''" "\<not> is_lower_or_digit CHR ''-''"
  by (simp_all add: is_lower_or_digit_def is_lower_def)

lemma upto_separator:
  assumes "u @ [c] @ x = v @ [c] @ y" and "c \<notin> set u" "c \<notin> set v"
  shows "u = v \<and> x = y"
proof -
  have "takeWhile (\<lambda>d. d \<noteq> c) (u @ [c] @ x) = u" "takeWhile (\<lambda>d. d \<noteq> c) (v @ [c] @ y) = v"
    using assms(2,3) by (auto simp: takeWhile_append)
  then show ?thesis using assms(1) by auto
qed

lemma keep_char_prefix:
  assumes "keep_char a @ x = keep_char b @ y"
  shows "a = b \<and> x = y"
proof -
  have tilde: "\<not> is_plain_char CHR ''~''" by (simp add: is_plain_char_def separators_not_plain)
  have "CHR ''.'' \<notin> set (show_hex n)" for n
    using show_hex_plain [of n] separators_not_plain(1) by (auto simp: list_all_iff)
  then have "a = b \<and> x = y" if "\<not> is_plain_char a" "\<not> is_plain_char b"
    using upto_separator [of "show_hex (of_char a)" "CHR ''.''" x "show_hex (of_char b)" y] assms that read_show_hex
    by (auto simp: keep_char_def) (metis char_of_char read_show_hex)
  then show ?thesis using assms tilde by (auto simp: keep_char_def split: if_splits)
qed

lemma keep_chars_inject:
  "concat (map keep_char s) = concat (map keep_char t) \<Longrightarrow> s = t"
proof (induction s arbitrary: t)
  case Nil
  then show ?case by (cases t) (auto simp: keep_char_def split: if_splits)
next
  case (Cons a s)
  then obtain b u where "t = b # u" by (cases t) (auto simp: keep_char_def split: if_splits)
  then show ?case using Cons keep_char_prefix [of a "concat (map keep_char s)" b "concat (map keep_char u)"] by auto
qed

lemma keep_case_inject: "keep_case v = keep_case w \<longleftrightarrow> js_trim v = js_trim w"
  using keep_chars_inject by (auto simp: keep_case_def)

lemma keep_case_no_separator: "CHR '':'' \<notin> set (keep_case v)" "CHR ''@'' \<notin> set (keep_case v)"
proof -
  have "CHR '':'' \<notin> set (keep_char c) \<and> CHR ''@'' \<notin> set (keep_char c)" for c
    using show_hex_plain [of "of_char c"] separators_not_plain
    by (auto simp: keep_char_def is_plain_char_def list_all_iff)
  then show "CHR '':'' \<notin> set (keep_case v)" "CHR ''@'' \<notin> set (keep_case v)"
    by (auto simp: keep_case_def)
qed

lemma trim_kept:
  assumes "list_all is_link_char s"
  shows "js_trim s = s" and "map to_lower_char s = s"
proof -
  have "dropWhile is_blank_char u = u" if "list_all is_link_char u" for u
    using that link_char_kept by (cases u) auto
  then show "js_trim s = s" using assms by (simp add: js_trim_def list_all_iff)
  show "map to_lower_char s = s" using assms link_char_kept by (auto simp: list_all_iff intro: map_idI)
qed

lemma link_key_kept:
  assumes "link_key sep a b = Some k" and "sep \<in> {CHR '':'', CHR ''@''}"
  obtains x y where "a = Some x" "b = Some y" "k = keep_case x @ [sep] @ keep_case y" "list_all is_link_char k"
  using assms keep_case_link
  by (auto simp: link_key_def is_link_char_def split: option.splits if_splits)

lemma link_key_inject:
  assumes "link_key sep a b = Some k" "link_key sep a' b' = Some k" and "sep \<in> {CHR '':'', CHR ''@''}"
  shows "map_option js_trim a = map_option js_trim a' \<and> map_option js_trim b = map_option js_trim b'"
proof -
  obtain x y where ab: "a = Some x" "b = Some y" and k: "k = keep_case x @ [sep] @ keep_case y"
    using link_key_kept [OF assms(1,3)] by blast
  obtain x' y' where ab': "a' = Some x'" "b' = Some y'" and k': "k = keep_case x' @ [sep] @ keep_case y'"
    using link_key_kept [OF assms(2,3)] by blast
  have "keep_case x = keep_case x' \<and> keep_case y = keep_case y'"
    using upto_separator [of "keep_case x" sep "keep_case y" "keep_case x'" "keep_case y'"]
      k k' keep_case_no_separator assms(3) by auto
  then show ?thesis by (simp add: ab ab' keep_case_inject)
qed

lemma link_of_key:
  assumes "to_ref kind (link_key sep a b) = Some l" and "sep \<in> {CHR '':'', CHR ''@''}"
  obtains k where "link_key sep a b = Some k" "l = kind @ '':'' @ k"
proof -
  obtain k where k: "link_key sep a b = Some k" using assms(1) by (auto simp: to_ref_def split: option.splits)
  have "list_all is_link_char k" using link_key_kept [OF k assms(2)] by blast
  then have "l = kind @ '':'' @ k"
    using assms(1) by (auto simp: to_ref_def k trim_kept split: if_splits)
  then show thesis using that k by blast
qed

end
