(* ===== verification/BucketProperties.thy ===== *)
theory BucketProperties
  imports BucketLaws StampLaws
begin

text \<open>
  The properties of buckets: the pages of a list, the plan of a read, the counts of a grouping and the
  links of rows, with the outbox as the example: three rows, one of them an audit event.
\<close>

section \<open>A small outbox\<close>

definition sample_view :: bucket_env where
  "sample_view = \<lparr>veFailure = (\<lambda>_. None), veGroups = remdups,
     veIso = (\<lambda>t. replicate (nat t) CHR ''1''), veInstant = (\<lambda>s. Some (int (length s))),
     veHex = (\<lambda>i. replicate (Suc i) CHR ''a''), veObjectId = (\<lambda>s. Some (length s - 1)),
     veStringify = (\<lambda>v. case v of JObj [(_, JStr t), (_, JStr i)] \<Rightarrow> t @ i | _ \<Rightarrow> []),
     veParse = (\<lambda>s. Some (JObj [(''t'', JStr (filter (\<lambda>c. c = CHR ''1'') s)),
        (''i'', JStr (filter (\<lambda>c. c = CHR ''a'') s))])),
     veToBase64 = (\<lambda>s. s), veFromBase64 = (\<lambda>s. s), veText = (\<lambda>_. []), veBefore = (\<lambda>_ _. True)\<rparr>"

definition sample_types :: "listed_value list" where
  "sample_types = [\<lparr>lvValue = ''Audit'', lvHidden = True\<rparr>, \<lparr>lvValue = ''CaseCreate'', lvHidden = False\<rparr>]"

definition sample_bucket_definition :: bucket_definition where
  "sample_bucket_definition = outbox_bucket (veHex sample_view) or_null sample_types"

definition sample_outbox :: bucket where
  "sample_outbox = with_defaults sample_bucket_definition"

lemma sample_defined: "define_bucket sample_bucket_definition = Inr sample_outbox"
proof -
  have "problem_of (with_defaults sample_bucket_definition) = None" by code_simp
  then show ?thesis by (simp add: define_bucket_def sample_outbox_def Let_def)
qed

definition sample_event :: "nat \<Rightarrow> int \<Rightarrow> string \<Rightarrow> string \<Rightarrow> bucket_doc" where
  "sample_event i t status eventType = \<lparr>bdId = i, bdTime = t,
     bdFields = JObj [(''status'', JStr status), (''eventType'', JStr eventType)], bdRefs = []\<rparr>"

definition sample_rows :: "bucket_doc list" where
  "sample_rows = [sample_event 0 1 ''FAILED'' ''CaseCreate'', sample_event 1 2 ''FAILED'' ''Audit'',
     sample_event 2 2 ''FAILED'' ''CaseCreate'']"

definition sample_failed :: bucket_request where
  "sample_failed = empty_query\<lparr>brWhere := [(''status'', ''FAILED'')], brLimit := 1, brGroupBy := [''status'']\<rparr>"

definition sample_failed_query :: bucket_query where
  "sample_failed_query = (case parse_query sample_view sample_outbox sample_failed of Inr q \<Rightarrow> q)"

lemma sample_parsed: "parse_query sample_view sample_outbox sample_failed = Inr sample_failed_query"
proof -
  have "(case parse_query sample_view sample_outbox sample_failed of Inr _ \<Rightarrow> True | Inl _ \<Rightarrow> False)" by code_simp
  then show ?thesis by (auto simp: sample_failed_query_def split: sum.splits)
qed

lemma sample_rows_ok:
  "list_all (holds_declared sample_outbox) sample_rows" "distinct (map bdId sample_rows)" "quiet sample_view"
proof -
  show "list_all (holds_declared sample_outbox) sample_rows" by code_simp
  show "distinct (map bdId sample_rows)" by (simp add: sample_rows_def sample_event_def)
  show "quiet sample_view" by (simp add: quiet_def sample_view_def)
qed

section \<open>Pages\<close>

text \<open>
  What a cursor relies on outside: base64url and JSON give back the object they were given_or, a date and
  an ObjectId are read back from their text.
\<close>

definition cursor_object :: "bucket_env \<Rightarrow> bucket_doc \<Rightarrow> json" where
  "cursor_object env d = JObj [(''t'', JStr (veIso env (bdTime d))), (''i'', JStr (veHex env (bdId d)))]"

definition texts_read_back :: "bucket_env \<Rightarrow> bucket_doc \<Rightarrow> bool" where
  "texts_read_back env d \<longleftrightarrow>
     veParse env (veFromBase64 env (veToBase64 env (veStringify env (cursor_object env d)))) = Some (cursor_object env d)
     \<and> veInstant env (veIso env (bdTime d)) = Some (bdTime d)
     \<and> veHex env (bdId d) \<noteq> [] \<and> veObjectId env (veHex env (bdId d)) = Some (bdId d)"

lemma cursor_reads_back: "texts_read_back env d \<Longrightarrow> reads_back env d"
  by (simp add: texts_read_back_def reads_back_def encode_cursor_def decode_cursor_def position_of_def
      cursor_object_def cursor_time_def cursor_id_def)

text \<open>
  C21. Following the cursors of a list shows exactly the rows its filters ask for, each once, newest
  first, whatever index the reads lead on and wherever a bounded read stopped for its budget.
\<close>

theorem pages_list_wanted:
  assumes "define_bucket df = Inr b" and "list_all (holds_declared b) docs" and "distinct (map bdId docs)"
    and "quiet env" and "list_all (texts_read_back env) docs"
    and r: "parse_query env b r = Inr q" "brCursor r = None" "brLimit r > 0"
  shows "follow_pages (Suc (length docs)) env b r docs
    = Some (Inr (map (to_row env b) (newest_first (filter (wanted b q) docs))))"
proof -
  have cursor: "bqCursor q = None" using parse_query_fields(4) [OF r(1)] r(2) by (simp add: parse_cursor_def)
  have "list_all (reads_back env) docs" using assms(5) cursor_reads_back by (auto simp: list_all_iff)
  moreover have "length (filter (after (bqCursor q)) docs) < Suc (length docs)" by (simp add: le_imp_less_Suc)
  ultimately have "follow_pages (Suc (length docs)) env b r docs = Some (Inr (map (to_row env b) (listing b q docs)))"
    using pages_follow assms(1-4) r(1,3) by blast
  then show ?thesis by (simp add: listing_def cursor after_def)
qed

theorem pages_list_wanted_witness:
  "follow_pages 4 sample_view sample_outbox sample_failed sample_rows
     = Some (Inr (map (to_row sample_view sample_outbox)
         [sample_event 2 2 ''FAILED'' ''CaseCreate'', sample_event 0 1 ''FAILED'' ''CaseCreate'']))"
proof -
  have "list_all (texts_read_back sample_view) sample_rows"
    by (simp add: texts_read_back_def cursor_object_def sample_view_def sample_rows_def sample_event_def)
  moreover have "brCursor sample_failed = None" "brLimit sample_failed > 0"
    by (simp_all add: sample_failed_def empty_query_def)
  moreover have "newest_first (filter (wanted sample_outbox sample_failed_query) sample_rows)
      = [sample_event 2 2 ''FAILED'' ''CaseCreate'', sample_event 0 1 ''FAILED'' ''CaseCreate'']"
  proof -
    have "filter (wanted sample_outbox sample_failed_query) sample_rows
        = [sample_event 0 1 ''FAILED'' ''CaseCreate'', sample_event 2 2 ''FAILED'' ''CaseCreate'']"
      by code_simp
    then show ?thesis by (simp add: newest_first_def sample_event_def)
  qed
  moreover have "length sample_rows = 3" by (simp add: sample_rows_def)
  ultimately show ?thesis
    using pages_list_wanted [OF sample_defined sample_rows_ok(1-3) _ sample_parsed] by (simp add: numeral_eq_Suc)
qed

section \<open>Plans\<close>

text \<open>
  C22. Every read planned on a bucket that was accepted leads on an index the bucket declares, merges at
  most \<open>MAX_SCANS\<close> scans, fills only facts with listed values, and tests each asked or hiding fact, on
  the index or row by row.
\<close>

theorem planned_reads_bounded:
  assumes "define_bucket df = Inr b" and "p = choose_plan b asked hasRef shown"
  shows "key_of_line b (plLine p) \<in> set (index_keys_of b)
    \<and> scans_of b (plLine p) asked shown \<le> max_scans
    \<and> list_all (is_closed b) (plFilled p)
    \<and> list_all (\<lambda>name. name \<in> set (facts_of b (plLine p)) \<or> name \<in> set (plResidual p))
        (asked @ narrowing b asked shown)"
proof -
  note line = plan_line [OF assms(1), of "plLine p" asked hasRef shown]
  have "key_of_line b (plLine p) \<in> set (index_keys_of b)"
    using line(2) assms(2) by (auto simp: index_keys_of_def)
  moreover have "scans_of b (plLine p) asked shown \<le> max_scans"
    using line(1) assms(2) by (simp add: is_usable_def)
  moreover have "list_all (is_closed b) (plFilled p)"
    using line(1) unfolding assms(2) plan_parts by (auto simp: is_usable_def)
  moreover have "list_all (\<lambda>name. name \<in> set (facts_of b (plLine p)) \<or> name \<in> set (plResidual p))
      (asked @ narrowing b asked shown)"
    unfolding assms(2) by (auto simp: plan_parts(2) list_all_iff)
  ultimately show ?thesis by blast
qed

lemma planned_reads_bounded_witness:
  "key_of_line sample_outbox (plLine (choose_plan sample_outbox [''status''] False []))
       \<in> set (index_keys_of sample_outbox)
     \<and> scans_of sample_outbox (plLine (choose_plan sample_outbox [''status''] False [])) [''status''] [] \<le> max_scans"
  using planned_reads_bounded [OF sample_defined refl] by blast

section \<open>Counts\<close>

text \<open>
  Each tile of a grouping counts the rows the list would show with the tile's value as the filter of
  its fact, up to the cap, and the total counts those with that filter left out.
\<close>

theorem tiles_count_rows:
  assumes "define_bucket df = Inr b" and "list_all (holds_declared b) docs" and "quiet env"
    and "run_query env b q docs = Inr a"
  shows "list_all2 (group_of b q docs) (bqGroupBy q) (anGroups a)"
  using quiet_groups [OF assms(1-3), of "\<lparr>rdBucket = b, rdQuery = q, rdPlan = bqPlan q\<rparr>" q "bqGroupBy q"] assms(4)
  by (auto simp: run_query_def Let_def bind_res_Inr)

lemma tiles_count_rows_witness:
  "case run_query sample_view sample_outbox sample_failed_query sample_rows of
     Inl _ \<Rightarrow> False
   | Inr a \<Rightarrow> list_all2 (group_of sample_outbox sample_failed_query sample_rows)
       (bqGroupBy sample_failed_query) (anGroups a)"
proof -
  have "bqLimit sample_failed_query > 0"
    using parse_query_fields(1) [OF sample_parsed] by (simp add: sample_failed_def empty_query_def)
  then obtain a where "run_query sample_view sample_outbox sample_failed_query sample_rows = Inr a"
    using run_query_ok [OF sample_defined sample_rows_ok(1,2) parse_query_fields(3) [OF sample_parsed] sample_rows_ok(3)]
    by blast
  then show ?thesis using tiles_count_rows [OF sample_defined sample_rows_ok(1,3)] by simp
qed

text \<open>
  Listing the values of a stored fact stops one value late when rows without a value are there: a
  hundred values are answered as if they were all.
\<close>

lemma stored_values_cut_short:
  assumes "quiet env" and "veGroups env (map (\<lambda>d. field_value d name) docs) = None # map Some vs"
    and "length vs > max_values"
  shows "read_stored_values env name docs = Inr (Some (sort_texts (veBefore env) (veText env) (take max_values vs)))"
proof -
  have "length (sort_texts before g xs) = length xs" for before g and xs :: "json list"
  proof -
    have "length (insert_text before g x ys) = Suc (length ys)" for x and ys :: "json list"
      by (induction ys) auto
    then show ?thesis by (induction xs) (auto simp: sort_texts_def)
  qed
  moreover have "List.map_filter (\<lambda>v. v) (None # map Some xs) = xs" for xs :: "json list"
    by (induction xs) (auto simp: List.map_filter_simps)
  moreover have "take (max_values + 1) (None # map Some vs) = None # map Some (take max_values vs)"
    by (simp add: take_map)
  ultimately show ?thesis
    by (simp add: read_stored_values_def quiet_reads [OF assms(1)] assms(2) Let_def
        del: List.map_filter_simps take_Suc_Cons)
qed

section \<open>Links\<close>

text \<open>
  The links of two applications are the same only when their grant codes and their references are,
  blanks around them apart: letter case is kept although refs are written in lower case.
\<close>

theorem links_tell_apart:
  assumes "to_application_link code clientRef = Some l" and "to_application_link code' clientRef' = Some l"
  shows "map_option js_trim code = map_option js_trim code'
    \<and> map_option js_trim clientRef = map_option js_trim clientRef'"
proof -
  obtain k where k: "link_key CHR '':'' code clientRef = Some k" "l = ''application'' @ '':'' @ k"
    by (rule link_of_key [OF assms(1) [unfolded to_application_link_def application_key_of_def] insertI1]) (rule that)
  obtain k' where k': "link_key CHR '':'' code' clientRef' = Some k'" "l = ''application'' @ '':'' @ k'"
    by (rule link_of_key [OF assms(2) [unfolded to_application_link_def application_key_of_def] insertI1]) (rule that)
  have "k' = k" using k(2) k'(2) by simp
  then show ?thesis using link_key_inject [OF k(1) _ insertI1] k'(1) by blast
qed

lemma links_tell_apart_witness:
  "to_application_link (Some ''Ab'') (Some ''C-1'') = Some ''application:~41.b:~43.-1''
   \<and> map_option js_trim (Some '' Ab'') = map_option js_trim (Some ''Ab'')"
proof -
  have l: "to_application_link (Some ''Ab'') (Some ''C-1'') = Some ''application:~41.b:~43.-1''"
    "to_application_link (Some '' Ab'') (Some ''C-1'') = Some ''application:~41.b:~43.-1''"
    by (simp_all add: to_application_link_def application_key_of_def link_key_def has_ref_value_def to_ref_def
        js_trim_def is_blank_char_def keep_case_def keep_char_def is_plain_char_def is_lower_or_digit_def
        is_lower_def show_hex.simps hex_digit_def to_lower_char_def char_of_def bit_0 Let_def)
  then show ?thesis using links_tell_apart [OF l(2,1)] by blast
qed

end
