(* ===== verification/BucketSummary.thy ===== *)
theory BucketSummary
  imports BucketEngine
begin

text \<open>
  A summary of a bucket (\<open>src/common/buckets/summary.js\<close>): the combinations of values the rows it picks
  out hold, found one fact at a time on the summary's own index line, each with the count of its rows
  and the first and last time of them, the most frequent first.
\<close>

record summary_query =
  sqSummary :: summary
  sqShow :: "string list"
  sqFrom :: "int option"
  sqTo :: "int option"

definition parse_summary ::
  "bucket \<Rightarrow> string \<Rightarrow> string list \<Rightarrow> int option \<Rightarrow> int option \<Rightarrow> summary_query res" where
  "parse_summary b summaryId show from to =
     (case find (\<lambda>s. suId s = summaryId) (buSummaries b) of
        None \<Rightarrow> Inl (refuse_query UnknownSummary)
      | Some s \<Rightarrow>
          bind_res (parse_show b show) (\<lambda>shown.
          bind_res (parse_range from to) (\<lambda>(f, t).
          Inr \<lparr>sqSummary = s, sqShow = shown, sqFrom = f, sqTo = t\<rparr>)))"

definition summary_read :: "bucket \<Rightarrow> summary_query \<Rightarrow> bucket_read" where
  "summary_read b sq =
     (let s = sqSummary sq; fs = summary_line_of s (buLead b);
          p = \<lparr>plKind = Exact, plLine = FactLine fs,
                plFilled = filter (\<lambda>name. name \<notin> set fs) (facts_of b (FactLine fs)), plResidual = []\<rparr>
      in \<lparr>rdBucket = b,
          rdQuery = \<lparr>bqWhere = map (\<lambda>(name, v). (name, Some (JStr v))) (suAmong s),
             bqAsked = map fst (suAmong s), bqShow = sqShow sq, bqRef = None, bqRefKind = None,
             bqGroupBy = [], bqCursor = None, bqFrom = sqFrom sq, bqTo = sqTo sq, bqLimit = 0, bqPlan = p\<rparr>,
          rdPlan = p\<rparr>)"

type_synonym combination = "(string \<times> json option) list"

text \<open>Each way to fill the facts of the lead, with null the last value of each.\<close>

definition fills_of :: "bucket_read \<Rightarrow> combination list" where
  "fills_of rd =
     foldl (\<lambda>fills name. concat (map (\<lambda>fill.
         map (\<lambda>v. obj_put name v fill)
           (map (\<lambda>v. Some (JStr v)) (fill_of (rdBucket rd) name (bqShow (rdQuery rd))) @ [None])) fills))
       [[]] (plFilled (rdPlan rd))"

definition match_of :: "bucket_read \<Rightarrow> combination \<Rightarrow> combination \<Rightarrow> mongo_test list" where
  "match_of rd fill combo =
     map (\<lambda>(name, v). FactIs name v) (obj_spread (obj_spread fill (bqWhere (rdQuery rd))) combo) @ range_part rd"

definition step_values ::
  "bucket_env \<Rightarrow> string \<Rightarrow> mongo_test list \<Rightarrow> bucket_doc list \<Rightarrow> json option list res" where
  "step_values env name match docs =
     run_read env [match] (\<lambda>parts.
       take (max_values + 1)
         (veGroups env (map (\<lambda>d. field_value d name) (filter (mongo_matches parts) docs))))"

definition widen ::
  "bucket_env \<Rightarrow> bucket_read \<Rightarrow> bucket_doc list \<Rightarrow> combination \<Rightarrow> string \<Rightarrow> combination \<Rightarrow> combination list res" where
  "widen env rd docs fill name combo =
     bind_res (step_values env name (match_of rd fill combo) docs) (\<lambda>found.
     Inr (map (\<lambda>v. obj_put name v combo) found))"

fun widen_all ::
  "bucket_env \<Rightarrow> bucket_read \<Rightarrow> bucket_doc list \<Rightarrow> combination \<Rightarrow> string list \<Rightarrow> combination list
    \<Rightarrow> combination list res" where
  "widen_all env rd docs fill [] pending = Inr pending"
| "widen_all env rd docs fill (name # names) pending =
     bind_res (map_res (widen env rd docs fill name) pending) (\<lambda>widened.
     widen_all env rd docs fill names (concat widened))"

definition value_in :: "combination \<Rightarrow> string \<Rightarrow> json option" where
  "value_in combo name = Option.bind (map_of combo name) (\<lambda>v. v)"

definition read_values_within ::
  "bucket_env \<Rightarrow> bucket_read \<Rightarrow> bucket_doc list \<Rightarrow> string list \<Rightarrow> combination \<Rightarrow> combination list res" where
  "read_values_within env rd docs by_facts fill =
     (let held = map fst fill;
          fixed = map (\<lambda>name. (name, value_in fill name)) (filter (\<lambda>name. name \<in> set held) by_facts)
      in bind_res (widen_all env rd docs fill (filter (\<lambda>name. name \<notin> set held) by_facts) [fixed]) (\<lambda>combos.
         Inr (map (\<lambda>combo. map (\<lambda>name. (name, value_in combo name)) by_facts) combos)))"

definition combination_text :: "bucket_env \<Rightarrow> combination \<Rightarrow> string" where
  "combination_text env combo =
     veStringify env (JArr (map (\<lambda>(_, v). case v of None \<Rightarrow> JNull | Some j \<Rightarrow> j) combo))"

text \<open>A \<open>Map\<close> by text keeps the place of the first and the value of the last.\<close>

fun distinct_by_text :: "(combination \<Rightarrow> string) \<Rightarrow> combination list \<Rightarrow> combination list \<Rightarrow> combination list" where
  "distinct_by_text text_of seen [] = seen"
| "distinct_by_text text_of seen (c # cs) =
     distinct_by_text text_of
       (if text_of c \<in> set (map text_of seen) then map (\<lambda>d. if text_of d = text_of c then c else d) seen else seen @ [c]) cs"

definition read_summary_values ::
  "bucket_env \<Rightarrow> bucket_read \<Rightarrow> bucket_doc list \<Rightarrow> string list \<Rightarrow> combination list res" where
  "read_summary_values env rd docs by_facts =
     bind_res (map_res (read_values_within env rd docs by_facts) (fills_of rd)) (\<lambda>found.
     Inr (sort_texts (veBefore env) (combination_text env)
       (distinct_by_text (combination_text env) [] (concat found))))"

definition read_last_time :: "bucket_env \<Rightarrow> bucket_read \<Rightarrow> bucket_doc list \<Rightarrow> string option res" where
  "read_last_time env rd docs =
     bind_res (run_read env (and_parts (match_parts rd)) (find_newest docs 0 1)) (\<lambda>found.
     Inr (case found of [] \<Rightarrow> None | d # _ \<Rightarrow> Some (veIso env (bdTime d))))"

definition find_oldest :: "bucket_doc list \<Rightarrow> mongo_filter \<Rightarrow> bucket_doc list" where
  "find_oldest docs parts = take 1 (sort_key (\<lambda>d. (bdTime d, int (bdId d))) (filter (mongo_matches parts) docs))"

definition read_first_time :: "bucket_env \<Rightarrow> bucket_read \<Rightarrow> bucket_doc list \<Rightarrow> string option res" where
  "read_first_time env rd docs =
     bind_res (run_read env (and_parts (match_parts rd)) (find_oldest docs)) (\<lambda>found.
     Inr (case found of [] \<Rightarrow> None | d # _ \<Rightarrow> Some (veIso env (bdTime d))))"

record summary_entry =
  seValues :: combination
  seCounted :: counted
  seFirstAt :: "string option"
  seLastAt :: "string option"

definition narrowed_to :: "bucket_read \<Rightarrow> combination \<Rightarrow> bucket_read" where
  "narrowed_to rd combo =
     rd\<lparr>rdQuery := (rdQuery rd)\<lparr>bqAsked := bqAsked (rdQuery rd) @ map fst combo,
        bqWhere := obj_spread (bqWhere (rdQuery rd)) combo\<rparr>\<rparr>"

definition read_entry :: "bucket_env \<Rightarrow> bucket_read \<Rightarrow> bucket_doc list \<Rightarrow> combination \<Rightarrow> summary_entry res" where
  "read_entry env rd docs combo =
     bind_res (read_count env (narrowed_to rd combo) summary_count_cap docs) (\<lambda>c.
     bind_res (read_first_time env (narrowed_to rd combo) docs) (\<lambda>f.
     bind_res (read_last_time env (narrowed_to rd combo) docs) (\<lambda>l.
     Inr \<lparr>seValues = combo, seCounted = c, seFirstAt = f, seLastAt = l\<rparr>)))"

fun insert_entry :: "(summary_entry \<Rightarrow> summary_entry \<Rightarrow> bool) \<Rightarrow> summary_entry \<Rightarrow> summary_entry list \<Rightarrow> summary_entry list" where
  "insert_entry before x [] = [x]"
| "insert_entry before x (y # ys) = (if before x y then x # y # ys else y # insert_entry before x ys)"

definition most_first :: "bucket_env \<Rightarrow> summary_entry \<Rightarrow> summary_entry \<Rightarrow> bool" where
  "most_first env a b \<longleftrightarrow>
     ctCount (seCounted a) > ctCount (seCounted b)
     \<or> (ctCount (seCounted a) = ctCount (seCounted b)
        \<and> veBefore env (combination_text env (seValues a)) (combination_text env (seValues b)))"

record summary_answer =
  saBucket :: string
  saSummary :: string
  saEntries :: "summary_entry list"
  saMore :: bool
  saComplete :: bool

definition run_summary ::
  "bucket_env \<Rightarrow> bucket \<Rightarrow> summary_query \<Rightarrow> bucket_doc list \<Rightarrow> summary_answer res" where
  "run_summary env b sq docs =
     (let s = sqSummary sq; rd = summary_read b sq
      in bind_res (read_summary_values env rd docs (suBy s)) (\<lambda>vals.
         bind_res (map_res (read_entry env rd docs) (take max_values vals)) (\<lambda>counted.
         let entries = foldr (insert_entry (most_first env)) (filter (\<lambda>e. ctCount (seCounted e) > 0) counted) []
         in Inr \<lparr>saBucket = buId b, saSummary = suId s, saEntries = take (suTop s) entries,
              saMore = length entries > suTop s, saComplete = length vals \<le> max_values\<rparr>)))"

definition summarise_own_bucket ::
  "bucket_env \<Rightarrow> bucket list \<Rightarrow> (string \<Rightarrow> bucket_doc list) \<Rightarrow> string \<Rightarrow> string \<Rightarrow> string list
    \<Rightarrow> int option \<Rightarrow> int option \<Rightarrow> summary_answer res" where
  "summarise_own_bucket env registry collections i summaryId show from to =
     (case find_bucket i registry of
        None \<Rightarrow> Inl (refuse_query UnknownBucket)
      | Some b \<Rightarrow> bind_res (parse_summary b summaryId show from to) (\<lambda>sq.
          run_summary env b sq (collections (buCollection b))))"

definition summarise_bucket_use_case ::
  "bucket_env \<Rightarrow> (string \<Rightarrow> string \<Rightarrow> summary_answer res) \<Rightarrow> bucket list \<Rightarrow> (string \<Rightarrow> bucket_doc list)
    \<Rightarrow> string \<Rightarrow> string \<Rightarrow> string list \<Rightarrow> int option \<Rightarrow> int option \<Rightarrow> summary_answer res" where
  "summarise_bucket_use_case env forwardToCw registry collections i summaryId show from to =
     (case owner_of i of
        None \<Rightarrow> Inl (refuse_query UnknownBucket)
      | Some OwnBucket \<Rightarrow> summarise_own_bucket env registry collections i summaryId show from to
      | Some CaseworkingBucket \<Rightarrow> forwardToCw i summaryId)"

end
