(* ===== verification/GrantAccess.thy ===== *)
theory GrantAccess
  imports GrantResolution Publication Buckets
begin

text \<open>
  Who may apply for a grant and who may say so (\<open>src/grants/models\<close>: grant-allow-list.js,
  grant-settings.js, grant-access.js, grant-admin-access.js, with their repositories and the use cases
  that read, replace and check them). A grant is resolved as in \<open>GrantResolution\<close>; the roles of the
  user are what the caller's \<open>findUserRoles\<close> answers. A stored document and a submitted list are
  JSON, so that malformed ones are values too.
\<close>

section \<open>The allow list\<close>

datatype identifier_kind = Sbi | Crn

fun identifier_length :: "identifier_kind \<Rightarrow> nat" where
  "identifier_length Sbi = 9"
| "identifier_length Crn = 10"

definition is_identifier :: "identifier_kind \<Rightarrow> json \<Rightarrow> bool" where
  "is_identifier kind v =
     (case v of JStr s \<Rightarrow> length s = identifier_length kind \<and> list_all is_digit s | _ \<Rightarrow> False)"

record allow_list =
  alGrantCode :: string
  alSbi :: "string list"
  alCrn :: "string list"

definition satisfies_restriction :: "string list \<Rightarrow> string option \<Rightarrow> bool" where
  "satisfies_restriction identifiers identifier \<longleftrightarrow>
     identifiers = [] \<or> (case identifier of None \<Rightarrow> False | Some i \<Rightarrow> i \<noteq> [] \<and> i \<in> set identifiers)"

definition malformed_stored_state :: js_error where
  "malformed_stored_state =
     Boom BadImplementation ''Stored grant allow list is malformed'' [(''errorCode'', ''MALFORMED_ALLOW_LIST'')]"

fun json_member :: "string \<Rightarrow> json \<Rightarrow> json option" where
  "json_member k (JObj kvs) = map_of kvs k"
| "json_member _ _ = None"

fun json_array :: "json option \<Rightarrow> json list option" where
  "json_array (Some (JArr vs)) = Some vs"
| "json_array _ = None"

fun normalize_value :: "json \<Rightarrow> json" where
  "normalize_value (JStr s) = JStr (js_trim s)"
| "normalize_value v = v"

definition normalize_values :: "json list \<Rightarrow> json list" where
  "normalize_values vs = filter (\<lambda>v. v \<noteq> JStr []) (map normalize_value vs)"

text \<open>
  What is wrong with a list: the values of the wrong shape, each once, and those given again, each
  once. Two equal objects are the same value here and two values in the code; neither is an
  identifier, so both are reported as of the wrong shape.
\<close>

fun repeated_values :: "'a list \<Rightarrow> 'a list \<Rightarrow> 'a list \<Rightarrow> 'a list" where
  "repeated_values seen dups [] = dups"
| "repeated_values seen dups (v # vs) =
     repeated_values (v # seen) (if v \<in> set seen \<and> v \<notin> set dups then dups @ [v] else dups) vs"

record identifier_problems =
  ipInvalid :: "json list"
  ipDuplicate :: "json list"

definition identifier_problems_in :: "identifier_kind \<Rightarrow> json list \<Rightarrow> identifier_problems" where
  "identifier_problems_in kind vs =
     \<lparr>ipInvalid = add_new [] (filter (\<lambda>v. \<not> is_identifier kind v) vs), ipDuplicate = repeated_values [] [] vs\<rparr>"

definition has_problems :: "identifier_problems \<Rightarrow> bool" where
  "has_problems p \<longleftrightarrow> ipInvalid p \<noteq> [] \<or> ipDuplicate p \<noteq> []"

text \<open>The refusal's details, the problems of both lists, are not part of the error here.\<close>

definition allow_list_validation_failed :: "string \<Rightarrow> js_error" where
  "allow_list_validation_failed message =
     Boom BadRequest message [(''errorCode'', ''ALLOW_LIST_VALIDATION_FAILED'')]"

definition texts_in :: "json list \<Rightarrow> string list" where
  "texts_in vs = List.map_filter (\<lambda>v. case v of JStr s \<Rightarrow> Some s | _ \<Rightarrow> None) vs"

definition validate_global :: "json list \<Rightarrow> json list \<Rightarrow> (string list \<times> string list) res" where
  "validate_global sbi crn =
     (if has_problems (identifier_problems_in Sbi sbi) \<or> has_problems (identifier_problems_in Crn crn)
      then Inl (allow_list_validation_failed ''The allow list contains invalid entries'')
      else Inr (texts_in sbi, texts_in crn))"

definition replace_global :: "json option \<Rightarrow> allow_list \<Rightarrow> allow_list res" where
  "replace_global given l =
     (case (Option.bind given (\<lambda>g. json_array (json_member ''sbi'' g)),
            Option.bind given (\<lambda>g. json_array (json_member ''crn'' g))) of
        (Some sbi, Some crn) \<Rightarrow>
          bind_res (validate_global (normalize_values sbi) (normalize_values crn)) (\<lambda>(s, c).
          Inr (l\<lparr>alSbi := s, alCrn := c\<rparr>))
      | _ \<Rightarrow> Inl (allow_list_validation_failed ''Both SBI and CRN collections must be arrays''))"

definition unrestricted :: "string \<Rightarrow> allow_list" where
  "unrestricted grantCode = \<lparr>alGrantCode = grantCode, alSbi = [], alCrn = []\<rparr>"

definition has_malformed_identifiers :: "identifier_kind \<Rightarrow> json option \<Rightarrow> bool" where
  "has_malformed_identifiers kind v =
     (case json_array v of None \<Rightarrow> True | Some vs \<Rightarrow> \<not> list_all (is_identifier kind) vs \<or> \<not> distinct vs)"

definition allow_list_from_document :: "json \<Rightarrow> allow_list res" where
  "allow_list_from_document document =
     (case (json_member ''grantCode'' document, json_member ''global'' document) of
        (Some (JStr code), Some global) \<Rightarrow>
          if code = [] \<or> has_malformed_identifiers Sbi (json_member ''sbi'' global)
             \<or> has_malformed_identifiers Crn (json_member ''crn'' global)
          then Inl malformed_stored_state
          else (case replace_global (Some global) (unrestricted code) of
                  Inl _ \<Rightarrow> Inl malformed_stored_state | Inr l \<Rightarrow> Inr l)
      | _ \<Rightarrow> Inl malformed_stored_state)"

definition global_to_json :: "allow_list \<Rightarrow> json" where
  "global_to_json l = JObj [(''sbi'', JArr (map JStr (alSbi l))), (''crn'', JArr (map JStr (alCrn l)))]"

definition allow_list_to_document :: "allow_list \<Rightarrow> json" where
  "allow_list_to_document l =
     JObj [(''grantCode'', JStr (alGrantCode l)), (''global'', global_to_json l)]"

definition allow_list_allows :: "allow_list \<Rightarrow> string option \<Rightarrow> string option \<Rightarrow> bool" where
  "allow_list_allows l sbi crn \<longleftrightarrow> satisfies_restriction (alSbi l) sbi \<and> satisfies_restriction (alCrn l) crn"

definition allow_list_for_grant ::
  "string \<Rightarrow> 'q grant option \<Rightarrow> allow_list option \<Rightarrow> allow_list res" where
  "allow_list_for_grant grantCode g storedList =
     (case g of
        None \<Rightarrow> Inl (Boom NotFound (''Grant with code '' @ quoted grantCode @ '' not found'') [])
      | Some gr \<Rightarrow>
          if grCode gr \<noteq> grantCode
             \<or> (case storedList of None \<Rightarrow> False | Some l \<Rightarrow> alGrantCode l \<noteq> grantCode)
          then Inl malformed_stored_state
          else Inr (case storedList of None \<Rightarrow> unrestricted grantCode | Some l \<Rightarrow> l))"

section \<open>The settings\<close>

record grant_settings =
  gsGrantCode :: string
  gsOpen :: bool

definition set_open :: "json option \<Rightarrow> grant_settings \<Rightarrow> grant_settings res" where
  "set_open opened s =
     (case opened of
        Some (JBool b) \<Rightarrow> Inr (s\<lparr>gsOpen := b\<rparr>)
      | _ \<Rightarrow> Inl (Boom BadRequest ''Grant open status must be a boolean''
               [(''errorCode'', ''GRANT_SETTINGS_VALIDATION_FAILED'')]))"

definition settings_from_document :: "json \<Rightarrow> grant_settings res" where
  "settings_from_document document =
     (case (json_member ''grantCode'' document, json_member ''open'' document) of
        (Some (JStr code), Some (JBool b)) \<Rightarrow>
          if js_trim code = [] then Inl (Boom BadImplementation ''Stored grant settings are malformed''
              [(''errorCode'', ''MALFORMED_GRANT_SETTINGS'')])
          else Inr \<lparr>gsGrantCode = code, gsOpen = b\<rparr>
      | _ \<Rightarrow> Inl (Boom BadImplementation ''Stored grant settings are malformed''
               [(''errorCode'', ''MALFORMED_GRANT_SETTINGS'')]))"

definition settings_closed :: "string \<Rightarrow> grant_settings" where
  "settings_closed grantCode = \<lparr>gsGrantCode = grantCode, gsOpen = False\<rparr>"

definition settings_to_document :: "grant_settings \<Rightarrow> (string \<times> json) list" where
  "settings_to_document s = [(''grantCode'', JStr (gsGrantCode s)), (''open'', JBool (gsOpen s))]"

section \<open>Access\<close>

definition grant_access :: "grant_settings option \<Rightarrow> allow_list \<Rightarrow> (grant_settings \<times> allow_list) res" where
  "grant_access settings l =
     (let s = (case settings of None \<Rightarrow> settings_closed (alGrantCode l) | Some s \<Rightarrow> s)
      in if gsGrantCode s \<noteq> alGrantCode l
         then Inl (Boom BadImplementation ''Grant settings and allow list must belong to the same grant'' [])
         else Inr (s, l))"

definition access_allows :: "grant_settings \<times> allow_list \<Rightarrow> string option \<Rightarrow> string option \<Rightarrow> bool" where
  "access_allows = (\<lambda>(s, l) sbi crn. gsOpen s \<and> allow_list_allows l sbi crn)"

definition admin_role :: "json option \<Rightarrow> json option" where
  "admin_role admin = Option.bind admin (json_member ''role'')"

definition access_forbidden :: js_error where
  "access_forbidden = Boom Forbidden ''You do not have access to administration for this grant'' []"

definition configured_role :: "json option \<Rightarrow> string option" where
  "configured_role admin =
     (case admin_role admin of Some (JStr r) \<Rightarrow> if js_trim r = [] then None else Some r | _ \<Rightarrow> None)"

definition assert_configured :: "json option \<Rightarrow> unit res" where
  "assert_configured admin = (if configured_role admin = None then Inl access_forbidden else Inr ())"

definition assert_admin_access :: "json option \<Rightarrow> string list option \<Rightarrow> unit res" where
  "assert_admin_access admin heldRoles =
     bind_res (assert_configured admin) (\<lambda>_.
     case (configured_role admin, heldRoles) of
       (Some r, Some held) \<Rightarrow> if r \<in> set held then Inr () else Inl access_forbidden
     | _ \<Rightarrow> Inl access_forbidden)"

section \<open>The store\<close>

text \<open>
  The two collections are lists of documents. The accounts an audit names are left out. Audits are the rows they become of the outbox, each with
  its status; those of failures are written whatever becomes of the transaction.
\<close>

record 'q access_db =
  adConfig :: "'q config_store"
  adLists :: "json list"
  adSettings :: "json list"
  adAudits :: "(audit \<times> audit_status) list"

record 'q access_env =
  aeFetch :: "'q fetch_env"
  aeValidAudit :: "audit \<Rightarrow> bool"

definition on_config :: "('q config_store, 'a) action \<Rightarrow> ('q access_db, 'a) action" where
  "on_config m = (\<lambda>db. case m (adConfig db) of (r, s) \<Rightarrow> (r, db\<lparr>adConfig := s\<rparr>))"

definition has_grant_code :: "string \<Rightarrow> json \<Rightarrow> bool" where
  "has_grant_code grantCode document \<longleftrightarrow> json_member ''grantCode'' document = Some (JStr grantCode)"

definition find_allow_list :: "string \<Rightarrow> ('q access_db, allow_list option) action" where
  "find_allow_list grantCode =
     andThen (reads (\<lambda>db. find (has_grant_code grantCode) (adLists db))) (\<lambda>found.
     case found of
       None \<Rightarrow> ret None
     | Some d \<Rightarrow> andThen (lift_res (allow_list_from_document d)) (\<lambda>l. ret (Some l)))"

definition replace_allow_list :: "allow_list \<Rightarrow> ('q access_db, unit) action" where
  "replace_allow_list l = writes (\<lambda>db.
     db\<lparr>adLists := (if list_ex (has_grant_code (alGrantCode l)) (adLists db)
        then update_one (has_grant_code (alGrantCode l)) (\<lambda>_. allow_list_to_document l) (adLists db)
        else adLists db @ [allow_list_to_document l])\<rparr>)"

definition find_settings :: "string \<Rightarrow> ('q access_db, grant_settings option) action" where
  "find_settings grantCode =
     andThen (reads (\<lambda>db. find (has_grant_code grantCode) (adSettings db))) (\<lambda>found.
     case found of
       None \<Rightarrow> ret None
     | Some d \<Rightarrow> andThen (lift_res (settings_from_document d)) (\<lambda>s. ret (Some s)))"

fun set_members :: "(string \<times> json) list \<Rightarrow> json \<Rightarrow> json" where
  "set_members kvs (JObj ps) = JObj (obj_spread ps kvs)"
| "set_members kvs _ = JObj kvs"

definition save_settings :: "grant_settings \<Rightarrow> ('q access_db, unit) action" where
  "save_settings s = writes (\<lambda>db.
     db\<lparr>adSettings := (if list_ex (has_grant_code (gsGrantCode s)) (adSettings db)
        then update_one (has_grant_code (gsGrantCode s)) (set_members (settings_to_document s)) (adSettings db)
        else adSettings db @ [JObj (settings_to_document s)])\<rparr>)"

section \<open>Audits\<close>

definition write_audit ::
  "(audit \<Rightarrow> bool) \<Rightarrow> audit \<Rightarrow> audit_status \<Rightarrow> ('q access_db, unit) action" where
  "write_audit valid a status =
     (if valid a then writes (\<lambda>db. db\<lparr>adAudits := adAudits db @ [(a, status)]\<rparr>)
      else throw (JsError ''Audit event failed validation''))"

definition write_failure ::
  "(audit \<Rightarrow> bool) \<Rightarrow> audit \<Rightarrow> 'q access_db \<Rightarrow> 'q access_db" where
  "write_failure valid a db = snd (write_audit valid a FAILURE db)"

text \<open>
  \<open>auditedRead\<close>: what was read is given out once its audit is written. \<open>withTransaction\<close> around
  \<open>withAudit\<close>: the audit of a success commits with it, and the audit of a failure is written although
  nothing else is.
\<close>

definition audited_read ::
  "(audit \<Rightarrow> bool) \<Rightarrow> ('q access_db, 'a) action \<Rightarrow> ('a option \<Rightarrow> audit) \<Rightarrow> ('q access_db, 'a) action" where
  "audited_read valid rd build = (\<lambda>db.
     case rd db of
       (Inl e, t) \<Rightarrow> (Inl e, write_failure valid (build None) t)
     | (Inr x, t) \<Rightarrow> andThen (write_audit valid (build (Some x)) SUCCESS) (\<lambda>_. ret x) t)"

definition audited_transaction ::
  "(audit \<Rightarrow> bool) \<Rightarrow> ('q access_db, 'a) action \<Rightarrow> ('a + js_error \<Rightarrow> audit) \<Rightarrow> ('q access_db, 'a) action" where
  "audited_transaction valid f build = (\<lambda>db.
     case f db of
       (Inl e, t) \<Rightarrow> (Inl e, write_failure valid (build (Inr e)) db)
     | (Inr x, t) \<Rightarrow>
         (case write_audit valid (build (Inl x)) SUCCESS t of
            (Inl e, _) \<Rightarrow> (Inl e, db)
          | (Inr _, u) \<Rightarrow> (Inr x, u)))"

definition failing_audited ::
  "(audit \<Rightarrow> bool) \<Rightarrow> ('q access_db, 'a) action \<Rightarrow> (js_error \<Rightarrow> audit) \<Rightarrow> ('q access_db, 'a) action" where
  "failing_audited valid f build = (\<lambda>db.
     case f db of (Inl e, t) \<Rightarrow> (Inl e, write_failure valid (build e) t) | (Inr x, t) \<Rightarrow> (Inr x, t))"

definition domain_error_code :: "string list \<Rightarrow> js_error \<Rightarrow> string" where
  "domain_error_code domain e =
     (case e of
        Boom kind _ payload \<Rightarrow>
          (case map_of payload ''errorCode'' of
             Some c \<Rightarrow> if c \<in> set domain then c
               else if kind = Forbidden then ''GRANT_ADMIN_ACCESS_DENIED''
               else if kind = NotFound then ''GRANT_NOT_FOUND'' else ''UNEXPECTED_FAILURE''
           | None \<Rightarrow> if kind = Forbidden then ''GRANT_ADMIN_ACCESS_DENIED''
               else if kind = NotFound then ''GRANT_NOT_FOUND'' else ''UNEXPECTED_FAILURE'')
      | _ \<Rightarrow> ''UNEXPECTED_FAILURE'')"

definition grant_audit :: "string \<Rightarrow> string \<Rightarrow> (string \<times> json) list \<Rightarrow> audit" where
  "grant_audit action_name grantCode details = \<lparr>auEntity = ''GRANT'', auAction = action_name,
     auEntityId = grantCode, auDetails = details, auSegregationRef = grantCode\<rparr>"

section \<open>Use cases\<close>

definition resolve_grant_administration ::
  "'q access_env \<Rightarrow> string \<Rightarrow> string list option res \<Rightarrow> ('q access_db, unit) action" where
  "resolve_grant_administration env grantCode userRoles =
     andThen (on_config (resolve_and_fetch_grant (aeFetch env) grantCode None)) (\<lambda>r.
     let admin = Option.bind (rsGrant r) grAdmin
     in andThen (lift_res (assert_configured admin)) (\<lambda>_.
        andThen (lift_res userRoles) (\<lambda>roles.
        lift_res (assert_admin_access admin roles))))"

record access_request =
  arGrantCode :: string
  arCaller :: json
  arRoles :: "string list option res"

definition json_count :: "'a list \<Rightarrow> json" where
  "json_count xs = JNum (Finite (int (length xs)) 0 0)"

definition stored_or_unrestricted :: "string \<Rightarrow> allow_list option \<Rightarrow> allow_list" where
  "stored_or_unrestricted grantCode found = (case found of None \<Rightarrow> unrestricted grantCode | Some l \<Rightarrow> l)"

definition get_grant_allow_list :: "'q access_env \<Rightarrow> access_request \<Rightarrow> ('q access_db, allow_list) action" where
  "get_grant_allow_list env rq =
     audited_read (aeValidAudit env)
       (andThen (resolve_grant_administration env (arGrantCode rq) (arRoles rq)) (\<lambda>_.
        andThen (find_allow_list (arGrantCode rq)) (\<lambda>found.
        ret (stored_or_unrestricted (arGrantCode rq) found))))
       (\<lambda>result. grant_audit ''VIEW_ALLOW_LIST'' (arGrantCode rq)
         ((''caller'', arCaller rq) # (case result of None \<Rightarrow> []
            | Some l \<Rightarrow> [(''sbiCount'', json_count (alSbi l)), (''crnCount'', json_count (alCrn l)),
                (''global'', global_to_json l)])))"

definition replace_allow_list_of ::
  "string \<Rightarrow> json option \<Rightarrow> ('q access_db, allow_list \<times> allow_list) action" where
  "replace_allow_list_of grantCode global =
     andThen (find_allow_list grantCode) (\<lambda>found.
     let previous = stored_or_unrestricted grantCode found
     in andThen (lift_res (replace_global global previous)) (\<lambda>l.
        andThen (replace_allow_list l) (\<lambda>_. ret (previous, l))))"

definition replace_allow_list_audit ::
  "access_request \<Rightarrow> (allow_list \<times> allow_list) + js_error \<Rightarrow> audit" where
  "replace_allow_list_audit rq outcome = grant_audit ''REPLACE_ALLOW_LIST'' (arGrantCode rq)
     ((''caller'', arCaller rq) #
      (case outcome of
         Inr e \<Rightarrow> [(''errorCode'', JStr (domain_error_code [''ALLOW_LIST_VALIDATION_FAILED''] e))]
       | Inl (old, new) \<Rightarrow>
           [(''oldSbiCount'', json_count (alSbi old)), (''oldCrnCount'', json_count (alCrn old)),
            (''newSbiCount'', json_count (alSbi new)), (''newCrnCount'', json_count (alCrn new)),
            (''oldGlobal'', global_to_json old), (''newGlobal'', global_to_json new)]))"

definition replace_grant_allow_list ::
  "'q access_env \<Rightarrow> access_request \<Rightarrow> json option \<Rightarrow> ('q access_db, allow_list) action" where
  "replace_grant_allow_list env rq global =
     andThen (failing_audited (aeValidAudit env)
       (resolve_grant_administration env (arGrantCode rq) (arRoles rq))
       (\<lambda>e. replace_allow_list_audit rq (Inr e))) (\<lambda>_.
     andThen (audited_transaction (aeValidAudit env) (replace_allow_list_of (arGrantCode rq) global)
       (replace_allow_list_audit rq)) (\<lambda>(_, l). ret l))"

definition get_grant_settings :: "'q access_env \<Rightarrow> access_request \<Rightarrow> ('q access_db, grant_settings) action" where
  "get_grant_settings env rq =
     audited_read (aeValidAudit env)
       (andThen (resolve_grant_administration env (arGrantCode rq) (arRoles rq)) (\<lambda>_.
        andThen (find_settings (arGrantCode rq)) (\<lambda>found.
        ret (case found of None \<Rightarrow> settings_closed (arGrantCode rq) | Some s \<Rightarrow> s))))
       (\<lambda>result. grant_audit ''VIEW_GRANT_SETTINGS'' (arGrantCode rq)
         ((''caller'', arCaller rq) # (case result of None \<Rightarrow> []
            | Some s \<Rightarrow> [(''settings'', JObj (settings_to_document s))])))"

definition save_settings_of ::
  "string \<Rightarrow> json option \<Rightarrow> ('q access_db, grant_settings \<times> grant_settings) action" where
  "save_settings_of grantCode opened =
     andThen (find_settings grantCode) (\<lambda>found.
     let previous = (case found of None \<Rightarrow> settings_closed grantCode | Some s \<Rightarrow> s)
     in andThen (lift_res (set_open opened previous)) (\<lambda>s.
        andThen (save_settings s) (\<lambda>_. ret (previous, s))))"

definition save_settings_audit ::
  "access_request \<Rightarrow> (grant_settings \<times> grant_settings) + js_error \<Rightarrow> audit" where
  "save_settings_audit rq outcome = grant_audit ''SAVE_GRANT_SETTINGS'' (arGrantCode rq)
     ((''caller'', arCaller rq) #
      (case outcome of
         Inr e \<Rightarrow> [(''errorCode'', JStr (domain_error_code [''GRANT_SETTINGS_VALIDATION_FAILED''] e))]
       | Inl (old, new) \<Rightarrow> [(''oldSettings'', JObj (settings_to_document old)),
            (''newSettings'', JObj (settings_to_document new))]))"

definition save_grant_settings ::
  "'q access_env \<Rightarrow> access_request \<Rightarrow> json option \<Rightarrow> ('q access_db, grant_settings) action" where
  "save_grant_settings env rq opened =
     andThen (failing_audited (aeValidAudit env)
       (resolve_grant_administration env (arGrantCode rq) (arRoles rq))
       (\<lambda>e. save_settings_audit rq (Inr e))) (\<lambda>_.
     andThen (audited_transaction (aeValidAudit env) (save_settings_of (arGrantCode rq) opened)
       (save_settings_audit rq)) (\<lambda>(_, s). ret s))"

definition check_grant_allow_list ::
  "'q access_env \<Rightarrow> string \<Rightarrow> json \<Rightarrow> string option \<Rightarrow> string option \<Rightarrow> ('q access_db, bool) action" where
  "check_grant_allow_list env grantCode caller sbi crn =
     audited_read (aeValidAudit env)
       (andThen (on_config (resolve_and_fetch_grant (aeFetch env) grantCode None)) (\<lambda>r.
        andThen (find_allow_list grantCode) (\<lambda>storedList.
        andThen (lift_res (allow_list_for_grant grantCode (rsGrant r) storedList)) (\<lambda>l.
        andThen (find_settings grantCode) (\<lambda>settings.
        andThen (lift_res (grant_access settings l)) (\<lambda>access.
        ret (access_allows access sbi crn)))))))
       (\<lambda>result. grant_audit ''CHECK_ALLOW_LIST'' grantCode
         ((''caller'', caller) # (case result of None \<Rightarrow> [] | Some allowed \<Rightarrow> [(''allowed'', JBool allowed)])))"

end
