(* ===== verification/Authentication.thy ===== *)
theory Authentication
  imports Buckets
begin

text \<open>
  Who is calling (\<open>src/auth\<close>: auth.js, caller-token.js, seed-access-token.js;
  \<open>src/agreements/services/resolve-agreement-access.js\<close>): the bearer token of a service, the token of the
  caller a service forwards on the Agreement routes, and the identity an Agreement is read or acted on
  under. SHA-256 and the JWT library are parameters: the library's parse of a token and its check of
  a signature under a secret, which answers with the message of the error it throws.
\<close>

section \<open>The caller's token\<close>

record token_parts =
  tpHeader :: "json option"
  tpPayload :: "json option"

record jwt_library =
  jwDecode :: "string \<Rightarrow> token_parts option"
  jwVerify :: "string \<Rightarrow> string \<Rightarrow> string option"

record token_options =
  toAudience :: string
  toAllowedIssuers :: "string list"
  toNowSec :: int
  toDefaultKid :: "string option"
  toKeyring :: "(string \<times> string) list"

fun member_of :: "string \<Rightarrow> json option \<Rightarrow> json option" where
  "member_of k (Some (JObj kvs)) = (case map_of kvs k of Some JNull \<Rightarrow> None | v \<Rightarrow> v)"
| "member_of _ _ = None"

text \<open>A key id is looked up among the ring's own keys, which are texts.\<close>

definition resolve_secret :: "json option \<Rightarrow> string \<Rightarrow> token_options \<Rightarrow> string option" where
  "resolve_secret kid defaultSecret opts =
     (if kid = None \<or> kid = map_option JStr (toDefaultKid opts) then Some defaultSecret
      else (case kid of Some (JStr k) \<Rightarrow> map_of (toKeyring opts) k | _ \<Rightarrow> None))"

definition map_signature_error :: "string \<Rightarrow> string" where
  "map_signature_error message =
     (if message = ''Unsupported algorithm'' then ''unsupported-alg'' else ''bad-signature'')"

definition audience_warning :: "json option \<Rightarrow> string \<Rightarrow> string option" where
  "audience_warning aud audience =
     (if aud = Some (JStr audience)
         \<or> (case aud of Some (JArr vs) \<Rightarrow> JStr audience \<in> set vs | _ \<Rightarrow> False)
      then None else Some ''audience'')"

definition issuer_warning :: "json option \<Rightarrow> string list \<Rightarrow> string option" where
  "issuer_warning issuer allowedIssuers =
     (case issuer of
        None \<Rightarrow> Some ''missing-iss''
      | Some v \<Rightarrow> if v \<in> JStr ` set allowedIssuers then None else Some ''unknown-issuer'')"

definition expiry_warning :: "json option \<Rightarrow> string option" where
  "expiry_warning expiry =
     (case expiry of
        None \<Rightarrow> Some ''missing-exp''
      | Some (JNum (Finite _ _ _)) \<Rightarrow> None
      | Some _ \<Rightarrow> Some ''invalid-exp'')"

definition subject_warning :: "json option \<Rightarrow> string option" where
  "subject_warning subject =
     (case subject of
        None \<Rightarrow> Some ''missing-sub''
      | Some (JStr s) \<Rightarrow> if js_trim s = [] then Some ''invalid-sub'' else None
      | Some _ \<Rightarrow> Some ''invalid-sub'')"

definition claim_warnings :: "json option \<Rightarrow> token_options \<Rightarrow> string list" where
  "claim_warnings payload opts =
     List.map_filter (\<lambda>w. w)
       [audience_warning (member_of ''aud'' payload) (toAudience opts),
        issuer_warning (member_of ''iss'' payload) (toAllowedIssuers opts),
        expiry_warning (member_of ''exp'' payload),
        subject_warning (member_of ''sub'' payload)]"

record token_result =
  trVerified :: bool
  trReason :: "string option"
  trPayload :: "json option"
  trWarnings :: "string list"

definition token_refused :: "string \<Rightarrow> json option \<Rightarrow> token_result" where
  "token_refused reason payload =
     \<lparr>trVerified = False, trReason = Some reason, trPayload = payload, trWarnings = []\<rparr>"

definition is_past :: "json option \<Rightarrow> int \<Rightarrow> bool" where
  "is_past expiry nowSec =
     (case expiry of Some (JNum (Finite m d e)) \<Rightarrow> number_value (Finite m d e) \<le> of_int nowSec | _ \<Rightarrow> False)"

definition verify_caller_token ::
  "jwt_library \<Rightarrow> string \<Rightarrow> string option \<Rightarrow> token_options \<Rightarrow> token_result" where
  "verify_caller_token jwt token secret opts =
     (case secret of
        None \<Rightarrow> token_refused ''no-secret'' None
      | Some s \<Rightarrow>
          if s = [] then token_refused ''no-secret'' None
          else (case jwDecode jwt token of
             None \<Rightarrow> token_refused ''malformed'' None
           | Some parts \<Rightarrow>
               (case resolve_secret (member_of ''kid'' (tpHeader parts)) s opts of
                  None \<Rightarrow> token_refused ''unknown-kid'' (tpPayload parts)
                | Some key \<Rightarrow>
                    if key = [] then token_refused ''unknown-kid'' (tpPayload parts)
                    else (case jwVerify jwt token key of
                       Some message \<Rightarrow> token_refused (map_signature_error message) (tpPayload parts)
                     | None \<Rightarrow>
                         let payload = (case tpPayload parts of None \<Rightarrow> Some (JObj []) | Some p \<Rightarrow> Some p)
                         in if is_past (member_of ''exp'' payload) (toNowSec opts)
                            then token_refused ''expired'' payload
                            else \<lparr>trVerified = True, trReason = None, trPayload = payload,
                                  trWarnings = claim_warnings payload opts\<rparr>))))"

section \<open>The service's token\<close>

record access_token =
  tkId :: string
  tkClient :: string
  tkClientId :: string
  tkExpiresAt :: "int option"
  tkSeeded :: bool

definition get_bearer_token :: "string option \<Rightarrow> string res" where
  "get_bearer_token header =
     (case header of
        Some h \<Rightarrow> if starts_with ''Bearer '' h then Inr (js_trim (drop 7 h))
                  else Inl (Boom Unauthorized ''Missing bearer token'' [])
      | None \<Rightarrow> Inl (Boom Unauthorized ''Missing bearer token'' []))"

definition is_expired :: "int \<Rightarrow> access_token \<Rightarrow> bool" where
  "is_expired now t = (case tkExpiresAt t of None \<Rightarrow> False | Some e \<Rightarrow> now > e)"

record credentials =
  crService :: string
  crTokenId :: string
  crClient :: string

definition authenticate_service ::
  "(string \<Rightarrow> string) \<Rightarrow> int \<Rightarrow> access_token list \<Rightarrow> string option \<Rightarrow> credentials res" where
  "authenticate_service hash now tokens header =
     bind_res (get_bearer_token header) (\<lambda>raw.
     case find (\<lambda>t. tkId t = hash raw) tokens of
       None \<Rightarrow> Inl (Boom Unauthorized ''Invalid token'' [])
     | Some t \<Rightarrow>
         if is_expired now t then Inl (Boom Unauthorized ''Invalid token'' [])
         else Inr \<lparr>crService = tkClientId t, crTokenId = tkId t, crClient = tkClient t\<rparr>)"

section \<open>The token of a request\<close>

record auth_config =
  cfEnforce :: bool
  cfSecret :: "string option"
  cfOptions :: token_options

record routed_request =
  rqPath :: string
  rqHeaders :: "(string \<times> string) list"

definition caller_token_routes :: "string list" where
  "caller_token_routes = [''/agreements/current'', ''/agreements/{agreementNumber}/document'',
     ''/agreements/{agreementNumber}/actions/{actionName}'']"

definition caller_token_of :: "routed_request \<Rightarrow> string option" where
  "caller_token_of rq =
     (case map_of (rqHeaders rq) ''x-user-context'' of
        Some t \<Rightarrow> Some t
      | None \<Rightarrow> map_of (rqHeaders rq) ''x-encrypted-auth'')"

definition handle_warn_only ::
  "jwt_library \<Rightarrow> auth_config \<Rightarrow> string option \<Rightarrow> token_result" where
  "handle_warn_only jwt cfg token =
     (case token of
        Some t \<Rightarrow> if t = [] then token_refused ''missing-token'' None
                  else verify_caller_token jwt t (cfSecret cfg) (cfOptions cfg)
      | None \<Rightarrow> token_refused ''missing-token'' None)"

definition handle_enforced ::
  "jwt_library \<Rightarrow> auth_config \<Rightarrow> string option \<Rightarrow> token_result res" where
  "handle_enforced jwt cfg token =
     (case token of
        None \<Rightarrow> Inl (Boom Unauthorized ''Caller token required'' [])
      | Some t \<Rightarrow>
          if t = [] then Inl (Boom Unauthorized ''Caller token required'' [])
          else let result = verify_caller_token jwt t (cfSecret cfg) (cfOptions cfg)
               in if \<not> trVerified result then Inl (Boom Unauthorized ''Invalid caller token'' [])
                  else if trWarnings result \<noteq> [] then Inl (Boom Unauthorized ''Invalid caller token'' [])
                  else Inr result)"

text \<open>What the \<open>onPostAuth\<close> hook leaves on the request, or the refusal of it.\<close>

definition on_post_auth ::
  "jwt_library \<Rightarrow> auth_config \<Rightarrow> routed_request \<Rightarrow> token_result option res" where
  "on_post_auth jwt cfg rq =
     (if rqPath rq \<notin> set caller_token_routes then Inr None
      else if cfEnforce cfg then bind_res (handle_enforced jwt cfg (caller_token_of rq)) (\<lambda>r. Inr (Some r))
      else Inr (Some (handle_warn_only jwt cfg (caller_token_of rq))))"

section \<open>The identity of the caller\<close>

record caller_identity =
  axSource :: "json option"
  axCode :: "json option"
  axSbi :: "json option"
  axClientRef :: "json option"

definition access_from_token :: "json option \<Rightarrow> caller_identity" where
  "access_from_token payload = \<lparr>axSource = member_of ''source'' payload, axCode = member_of ''grantCode'' payload,
     axSbi = member_of ''sbi'' payload, axClientRef = member_of ''clientRef'' payload\<rparr>"

definition access_from_headers :: "(string \<times> string) list \<Rightarrow> caller_identity" where
  "access_from_headers headers =
     (let h = (\<lambda>k. map_option JStr (map_of headers k))
      in \<lparr>axSource = h ''x-agreement-source'', axCode = h ''x-agreement-code'',
          axSbi = h ''x-agreement-sbi'', axClientRef = h ''x-agreement-client-ref''\<rparr>)"

definition resolve_agreement_access ::
  "auth_config \<Rightarrow> routed_request \<Rightarrow> token_result option \<Rightarrow> caller_identity" where
  "resolve_agreement_access cfg rq callerToken =
     (case callerToken of
        Some r \<Rightarrow> if cfEnforce cfg \<and> trVerified r then access_from_token (trPayload r)
                  else access_from_headers (rqHeaders rq)
      | None \<Rightarrow> access_from_headers (rqHeaders rq))"

definition request_identity ::
  "jwt_library \<Rightarrow> auth_config \<Rightarrow> routed_request \<Rightarrow> caller_identity res" where
  "request_identity jwt cfg rq =
     bind_res (on_post_auth jwt cfg rq) (\<lambda>callerToken. Inr (resolve_agreement_access cfg rq callerToken))"

section \<open>Seeding the configured client's token\<close>

text \<open>\<open>/^([a-z0-9-]+):([0-9a-f]{64})$/\<close>.\<close>

definition is_hash_char :: "char \<Rightarrow> bool" where
  "is_hash_char c = (let n = (of_char c :: nat) in (48 \<le> n \<and> n \<le> 57) \<or> (97 \<le> n \<and> n \<le> 102))"

definition parse_token_hash :: "string option \<Rightarrow> (string \<times> string) option" where
  "parse_token_hash v =
     (case split_on CHR '':'' (js_trim (case v of None \<Rightarrow> [] | Some s \<Rightarrow> s)) of
        [client, h] \<Rightarrow>
          if client \<noteq> [] \<and> list_all (\<lambda>c. is_lower_or_digit c \<or> c = CHR ''-'') client
             \<and> length h = 64 \<and> list_all is_hash_char h
          then Some (client, h) else None
      | _ \<Rightarrow> None)"

text \<open>
  The token is stored under its client; a write that fails, a duplicate of the unique \<open>id\<close> included, is
  logged and changes nothing.
\<close>

definition seed_access_token :: "string option \<Rightarrow> access_token list \<Rightarrow> access_token list" where
  "seed_access_token configured tokens =
     (case parse_token_hash configured of
        None \<Rightarrow> tokens
      | Some (client, h) \<Rightarrow>
          let mine = (\<lambda>t. tkSeeded t \<and> tkClient t = client);
              new = \<lparr>tkId = h, tkClient = client, tkClientId = client, tkExpiresAt = None, tkSeeded = True\<rparr>;
              stored = (if list_ex mine tokens then update_one mine (\<lambda>_. new) tokens else tokens @ [new])
          in if distinct (map tkId stored) then stored else tokens)"

end
