(* ===== verification/AccessProperties.thy ===== *)
theory AccessProperties
  imports AccessLaws ResolutionProperties
begin

text \<open>
  The properties of access: an allow list decides who may apply, only an administrator changes one, and
  the identity of a caller comes from a signed token once tokens are enforced.
\<close>

section \<open>A grant with an administrator\<close>

definition sample_admin_grant :: "unit grant" where
  "sample_admin_grant = sample_grant\<lparr>grAdmin := Some (JObj [(''role'', JStr ''ADMIN'')])\<rparr>"

definition sample_admin_store :: "unit config_store" where
  "sample_admin_store = \<lparr>csRows = [sample_row ''1.0.0'' (Semver 1 0 0) Fetched],
     csGrants = [sample_admin_grant], csCache = []\<rparr>"

definition sample_access :: "unit access_env" where
  "sample_access = \<lparr>aeFetch = sample_fetch, aeValidAudit = (\<lambda>_. True)\<rparr>"

definition sample_access_db :: "unit access_db" where
  "sample_access_db = \<lparr>adConfig = sample_admin_store, adLists = [],
     adSettings = [JObj [(''grantCode'', JStr ''wood''), (''open'', JBool True)]], adAudits = []\<rparr>"

definition sample_administrator :: access_request where
  "sample_administrator = \<lparr>arGrantCode = ''wood'', arCaller = JNull, arRoles = Inr (Some [''ADMIN''])\<rparr>"

lemma sample_admin_resolved:
  "\<exists>src. resolve_and_fetch_grant sample_fetch ''wood'' None sample_admin_store
     = (Inr \<lparr>rsGrant = Some sample_admin_grant, rsVersion = Some ''1.0.0'', rsSource = src\<rparr>, sample_admin_store)"
proof -
  have "new_grant (\<lambda>_. ''invalid'') sample_admin_grant = Inr sample_admin_grant" by code_simp
  moreover have "grCode sample_admin_grant = ''wood''" "grVersion sample_admin_grant = Some ''1.0.0''"
    by (simp_all add: sample_admin_grant_def sample_grant_def)
  moreover have "find_latest_active (\<lambda>_. ''invalid'') ''wood'' (csRows sample_admin_store)
      = Inr (Some \<lparr>cvGrantCode = ''wood'', cvVersion = ''1.0.0'', cvSemver = Semver 1 0 0, cvStatus = active,
          cvS3Bucket = Some ''configs'', cvReceivedAt = ''t0'', cvGrant = sample_file Fetched\<rparr>)"
    by (simp add: find_latest_active_def sample_admin_store_def sample_row_def with_worst_fetch_status_def
        file_status_is_def sample_file_def new_fetch_state_def active_def
        config_version_from_document_def new_config_version_def config_version_schema_def)
  ultimately show ?thesis
    by (simp add: resolve_and_fetch_grant_def select_version_def guard_fetch_status_def find_stored_grant_def
        find_by_code_def same_grant_def andThen_def Let_def sample_fetch_def sample_file_def new_fetch_state_def
        sample_admin_store_def reads_def ret_def lift_res_def)
qed

section \<open>What a replaced list decides\<close>

lemma replaced_list:
  assumes "replace_allow_list_of code global t0 = (Inr (old, l), t)"
  shows "alGrantCode l = code" and "usable_list l"
    and "find (has_grant_code code) (adLists t) = Some (allow_list_to_document l)"
    and "adSettings t = adSettings t0" and "\<exists>previous. replace_global global previous = Inr l"
proof -
  obtain found where found: "find_allow_list code t0 = (Inr found, t0)"
    and l: "replace_global global (stored_or_unrestricted code found) = Inr l"
    and t: "t = snd (replace_allow_list l t0)"
    using assms find_allow_list_state [of code t0]
    by (cases "find_allow_list code t0")
      (auto simp: replace_allow_list_of_def andThen_def lift_res_def ret_def Let_def replace_allow_list_def writes_def
        split: sum.splits)
  have "alGrantCode (stored_or_unrestricted code found) = code"
    using found find_SomeD [of "has_grant_code code" "adLists t0"] stored_document_code
    by (fastforce simp: find_allow_list_def andThen_def reads_def ret_def lift_res_def stored_or_unrestricted_def
        unrestricted_def has_grant_code_def split: option.splits sum.splits)
  then show code: "alGrantCode l = code" using replace_global_Inr(2) [OF l] by simp
  show "usable_list l" by (rule replace_global_Inr(1) [OF l])
  have "has_grant_code code (allow_list_to_document l)"
    by (simp add: has_grant_code_def allow_list_to_document_def code)
  then show "find (has_grant_code code) (adLists t) = Some (allow_list_to_document l)"
    using find_appended_or_updated [of "has_grant_code code" "allow_list_to_document l" "adLists t0"]
    unfolding t replace_allow_list_def writes_def code by simp
  show "adSettings t = adSettings t0" by (simp add: t replace_allow_list_def writes_def)
  show "\<exists>previous. replace_global global previous = Inr l" using l by blast
qed

lemma replaced_in_store:
  assumes "replace_grant_allow_list env rq global db = (Inr l, db1)"
  obtains old t0 t where "replace_allow_list_of (arGrantCode rq) global t0 = (Inr (old, l), t)"
    and "adLists db1 = adLists t" "adSettings db1 = adSettings t"
    and "resolve_grant_administration env (arGrantCode rq) (arRoles rq) db = (Inr (), t0)"
    and "aeValidAudit env (replace_allow_list_audit rq (Inl (old, l)))"
    and "adAudits db1 = adAudits t @ [(replace_allow_list_audit rq (Inl (old, l)), SUCCESS)]"
  using assms
  by (auto simp: replace_grant_allow_list_def andThen_Inr failing_audited_Inr ret_def
      elim!: audited_transaction_Inr)

lemma found_list:
  assumes "find (has_grant_code code) (adLists db) = Some (allow_list_to_document l)"
    and "usable_list l" "alGrantCode l = code" "code \<noteq> []"
  shows "find_allow_list code db = (Inr (Some l), db)"
  using assms allow_list_roundtrip [of l]
  by (simp add: find_allow_list_def andThen_def reads_def ret_def lift_res_def)

lemma checked_answer:
  assumes "check_grant_allow_list env code caller sbi crn db = (Inr allowed, db')"
    and "find (has_grant_code code) (adLists db) = Some (allow_list_to_document l)"
    and "usable_list l" "alGrantCode l = code"
  shows "allowed \<longleftrightarrow> (case fst (find_settings code db) of Inr (Some s) \<Rightarrow> gsOpen s | _ \<Rightarrow> False)
    \<and> allow_list_allows l sbi crn"
proof -
  obtain r t where r: "on_config (resolve_and_fetch_grant (aeFetch env) code None) db = (r, t)" by force
  have t: "adLists t = adLists db" "adSettings t = adSettings db"
    using on_config_lists [of "resolve_and_fetch_grant (aeFetch env) code None" db] r by auto
  have code: "code \<noteq> []"
    using assms by (auto simp: check_grant_allow_list_def audited_read_def andThen_def r find_allow_list_def reads_def
        t lift_res_def allow_list_from_document_def allow_list_to_document_def split: sum.splits)
  have found: "find_allow_list code t = (Inr (Some l), t)"
    using found_list [of code t l] assms(2-4) code by (simp add: t)
  have settings: "fst (find_settings code t) = fst (find_settings code db)"
    by (simp add: find_settings_def andThen_def reads_def t ret_def lift_res_def split: option.splits sum.splits)
  obtain s where s: "find_settings code t = (s, t)"
    using find_settings_state [of code t] by (metis prod.collapse)
  show ?thesis
    using assms(1,4) settings s
    by (auto simp: check_grant_allow_list_def audited_read_def andThen_def r found lift_res_def ret_def
        allow_list_for_grant_def grant_access_def access_allows_def settings_closed_def Let_def
        split: sum.splits option.splits if_splits prod.splits)
qed

text \<open>
  C24. After an allow list was replaced, an applicant is admitted exactly when the grant is open and each
  list submitted, trimmed, is empty or holds their identifier, as long as both requests are answered.
\<close>

theorem list_decides_applicants:
  assumes "replace_grant_allow_list env rq
      (Some (JObj [(''sbi'', JArr (map JStr sbis)), (''crn'', JArr (map JStr crns))])) db = (Inr l, db1)"
    and "check_grant_allow_list env' (arGrantCode rq) caller sbi crn db1 = (Inr allowed, db2)"
  shows "allowed \<longleftrightarrow>
    (case fst (find_settings (arGrantCode rq) db1) of Inr (Some s) \<Rightarrow> gsOpen s | _ \<Rightarrow> False)
    \<and> satisfies_restriction (filter (\<lambda>s. s \<noteq> []) (map js_trim sbis)) sbi
    \<and> satisfies_restriction (filter (\<lambda>s. s \<noteq> []) (map js_trim crns)) crn"
proof (rule replaced_in_store [OF assms(1)])
  fix old t0 t
  let ?global = "Some (JObj [(''sbi'', JArr (map JStr sbis)), (''crn'', JArr (map JStr crns))])"
  assume run: "replace_allow_list_of (arGrantCode rq) ?global t0 = (Inr (old, l), t)"
    and t: "adLists db1 = adLists t"
  note l = replaced_list [OF run]
  obtain previous where "replace_global ?global previous = Inr l" using l(5) ..
  note lists = replace_global_Inr(3) [OF this refl]
  show ?thesis
    using checked_answer [OF assms(2) _ l(2,1)] l(3) t lists by (simp add: allow_list_allows_def)
qed

definition sample_submitted :: json where
  "sample_submitted = JObj [(''sbi'', JArr (map JStr ['' 123456789''])), (''crn'', JArr (map JStr []))]"

lemma sample_administers:
  "\<exists>u. resolve_grant_administration sample_access ''wood'' (Inr (Some [''ADMIN''])) sample_access_db = (Inr u, sample_access_db)"
  using sample_admin_resolved
  by (auto simp: resolve_grant_administration_def on_config_def andThen_def sample_access_def sample_access_db_def
      lift_res_def Let_def sample_admin_grant_def assert_configured_def assert_admin_access_def configured_role_def
      admin_role_def js_trim_def is_blank_char_def)

lemma sample_replaced:
  "\<exists>l db1. replace_grant_allow_list sample_access sample_administrator (Some sample_submitted) sample_access_db = (Inr l, db1)
    \<and> adLists db1 = [JObj [(''grantCode'', JStr ''wood''), (''global'', JObj [(''sbi'', JArr [JStr ''123456789'']), (''crn'', JArr [])])]]
    \<and> adConfig db1 = sample_admin_store \<and> adSettings db1 = adSettings sample_access_db"
proof -
  have "replace_global (Some sample_submitted) (unrestricted ''wood'')
      = Inr \<lparr>alGrantCode = ''wood'', alSbi = [''123456789''], alCrn = []\<rparr>"
    by code_simp
  then show ?thesis
    using sample_administers
    by (auto simp: replace_grant_allow_list_def failing_audited_def audited_transaction_def andThen_def ret_def
        sample_administrator_def replace_allow_list_of_def find_allow_list_def reads_def lift_res_def Let_def
        stored_or_unrestricted_def replace_allow_list_def writes_def write_audit_def sample_access_def
        sample_access_db_def allow_list_to_document_def global_to_json_def)
qed

theorem list_decides_applicants_witness:
  "\<exists>l db1 db2. replace_grant_allow_list sample_access sample_administrator (Some sample_submitted) sample_access_db = (Inr l, db1)
    \<and> check_grant_allow_list sample_access ''wood'' JNull (Some ''123456789'') None db1 = (Inr True, db2)"
proof -
  obtain l db1 where run: "replace_grant_allow_list sample_access sample_administrator (Some sample_submitted) sample_access_db = (Inr l, db1)"
    and db1: "adLists db1 = [JObj [(''grantCode'', JStr ''wood''), (''global'', JObj [(''sbi'', JArr [JStr ''123456789'']), (''crn'', JArr [])])]]"
      "adConfig db1 = sample_admin_store" "adSettings db1 = adSettings sample_access_db"
    using sample_replaced by blast
  have list: "allow_list_from_document (JObj [(''grantCode'', JStr ''wood''), (''global'', JObj [(''sbi'', JArr [JStr ''123456789'']), (''crn'', JArr [])])])
      = Inr \<lparr>alGrantCode = ''wood'', alSbi = [''123456789''], alCrn = []\<rparr>"
    by code_simp
  have settings: "find_settings ''wood'' db1 = (Inr (Some \<lparr>gsGrantCode = ''wood'', gsOpen = True\<rparr>), db1)"
    by (simp add: find_settings_def andThen_def reads_def db1 sample_access_db_def has_grant_code_def
        settings_from_document_def js_trim_def is_blank_char_def lift_res_def ret_def)
  have stored: "find_allow_list ''wood'' db1 = (Inr (Some \<lparr>alGrantCode = ''wood'', alSbi = [''123456789''], alCrn = []\<rparr>), db1)"
    using list by (simp add: find_allow_list_def andThen_def reads_def db1 has_grant_code_def lift_res_def ret_def)
  have same: "db1\<lparr>adConfig := sample_admin_store\<rparr> = db1" using db1(2) by simp
  obtain src where resolved: "on_config (resolve_and_fetch_grant sample_fetch ''wood'' None) db1
      = (Inr \<lparr>rsGrant = Some sample_admin_grant, rsVersion = Some ''1.0.0'', rsSource = src\<rparr>, db1)"
    using sample_admin_resolved by (auto simp: on_config_def db1(2) same)
  have code: "grCode sample_admin_grant = ''wood''" by (simp add: sample_admin_grant_def sample_grant_def)
  obtain allowed db2 where check: "check_grant_allow_list sample_access ''wood'' JNull (Some ''123456789'') None db1 = (Inr allowed, db2)"
    using resolved settings stored code
    by (simp add: check_grant_allow_list_def audited_read_def andThen_def sample_access_def lift_res_def ret_def
        allow_list_for_grant_def grant_access_def write_audit_def writes_def Let_def)
  have "allowed"
    using list_decides_applicants [of sample_access sample_administrator "['' 123456789'']" "[]" sample_access_db l db1
        sample_access JNull "Some ''123456789''" None allowed db2] run check settings
    by (simp add: sample_submitted_def sample_administrator_def satisfies_restriction_def js_trim_def is_blank_char_def)
  then have "check_grant_allow_list sample_access ''wood'' JNull (Some ''123456789'') None db1 = (Inr True, db2)"
    using check by simp
  then show ?thesis using run by (intro exI conjI)
qed

section \<open>Administrators\<close>

text \<open>
  C25. Replacing an allow list and saving the settings of a grant change nothing unless the user holds the
  role the resolved definition of the grant names; a change that is made is audited with it.
\<close>

theorem only_administrators_change:
  assumes "replace_grant_allow_list env rq global db = (res, db1)"
    and "save_grant_settings env rq opened db = (res', db2)"
  shows "(case res of
       Inl _ \<Rightarrow> adLists db1 = adLists db \<and> adSettings db1 = adSettings db
     | Inr _ \<Rightarrow> may_administer env rq db \<and> adSettings db1 = adSettings db
         \<and> length (adAudits db1) = Suc (length (adAudits db)))
    \<and> (case res' of
       Inl _ \<Rightarrow> adLists db2 = adLists db \<and> adSettings db2 = adSettings db
     | Inr _ \<Rightarrow> may_administer env rq db \<and> adLists db2 = adLists db
         \<and> length (adAudits db2) = Suc (length (adAudits db)))"
proof
  show "case res of
       Inl _ \<Rightarrow> adLists db1 = adLists db \<and> adSettings db1 = adSettings db
     | Inr _ \<Rightarrow> may_administer env rq db \<and> adSettings db1 = adSettings db
         \<and> length (adAudits db1) = Suc (length (adAudits db))"
  proof (cases res)
    case (Inl e)
    show ?thesis using assms(1) administration_lists audited_transaction_Inl unfolding Inl
      by (fastforce simp: replace_grant_allow_list_def andThen_def failing_audited_Inr ret_def
          elim: failing_audited_Inl split: prod.splits sum.splits)
  next
    case (Inr l)
    then obtain old t0 t where run: "replace_allow_list_of (arGrantCode rq) global t0 = (Inr (old, l), t)"
      and t: "adSettings db1 = adSettings t" "length (adAudits db1) = Suc (length (adAudits t))"
      and admin: "resolve_grant_administration env (arGrantCode rq) (arRoles rq) db = (Inr (), t0)"
      using replaced_in_store [of env rq global db l db1] assms(1) by (metis length_append_singleton)
    have "adAudits t = adAudits t0"
      using run find_allow_list_state [of "arGrantCode rq" t0]
      by (cases "find_allow_list (arGrantCode rq) t0") (auto simp: replace_allow_list_of_def andThen_def lift_res_def
          ret_def Let_def replace_allow_list_def writes_def split: sum.splits)
    then show ?thesis
      using Inr t replaced_list(4) [OF run] administration_lists [OF admin] administration_allowed [OF admin] by simp
  qed
  show "case res' of
       Inl _ \<Rightarrow> adLists db2 = adLists db \<and> adSettings db2 = adSettings db
     | Inr _ \<Rightarrow> may_administer env rq db \<and> adLists db2 = adLists db
         \<and> length (adAudits db2) = Suc (length (adAudits db))"
  proof (cases res')
    case (Inl e)
    show ?thesis using assms(2) administration_lists audited_transaction_Inl unfolding Inl
      by (fastforce simp: save_grant_settings_def andThen_def failing_audited_Inr ret_def
          elim: failing_audited_Inl split: prod.splits sum.splits)
  next
    case (Inr s)
    then obtain t0 p t where admin: "resolve_grant_administration env (arGrantCode rq) (arRoles rq) db = (Inr (), t0)"
      and run: "save_settings_of (arGrantCode rq) opened t0 = (Inr p, t)"
      and t: "adLists db2 = adLists t" "length (adAudits db2) = Suc (length (adAudits t))"
      using assms(2) by (auto simp: save_grant_settings_def andThen_Inr failing_audited_Inr ret_def
          elim!: audited_transaction_Inr)
    have "adLists t = adLists t0 \<and> adAudits t = adAudits t0"
      using run find_settings_state [of "arGrantCode rq" t0]
      by (cases "find_settings (arGrantCode rq) t0") (auto simp: save_settings_of_def andThen_def lift_res_def
          ret_def Let_def save_settings_def writes_def split: sum.splits)
    then show ?thesis
      using Inr t administration_lists [OF admin] administration_allowed [OF admin] by simp
  qed
qed

theorem only_administrators_change_witness: "may_administer sample_access sample_administrator sample_access_db"
proof -
  obtain l db1 where run: "replace_grant_allow_list sample_access sample_administrator (Some sample_submitted) sample_access_db = (Inr l, db1)"
    using sample_replaced by blast
  obtain res db2 where "save_grant_settings sample_access sample_administrator None sample_access_db = (res, db2)" by force
  then show ?thesis using only_administrators_change [OF run] by simp
qed

section \<open>The identity of a caller\<close>

definition signed_for_us :: "jwt_library \<Rightarrow> auth_config \<Rightarrow> string \<Rightarrow> json option \<Rightarrow> bool" where
  "signed_for_us jwt cfg token claims \<longleftrightarrow>
     (\<exists>key. (cfSecret cfg = Some key \<or> key \<in> snd ` set (toKeyring (cfOptions cfg)))
        \<and> key \<noteq> [] \<and> jwVerify jwt token key = None)
     \<and> audience_warning (member_of ''aud'' claims) (toAudience (cfOptions cfg)) = None
     \<and> (\<exists>issuer \<in> set (toAllowedIssuers (cfOptions cfg)). member_of ''iss'' claims = Some (JStr issuer))
     \<and> (\<exists>m d e. member_of ''exp'' claims = Some (JNum (Finite m d e))
          \<and> number_value (Finite m d e) > of_int (toNowSec (cfOptions cfg)))
     \<and> (\<exists>s. member_of ''sub'' claims = Some (JStr s) \<and> js_trim s \<noteq> [])"

lemma verified_token:
  assumes "trVerified (verify_caller_token jwt token secret opts)"
  obtains key s where "secret = Some s" "key = s \<or> key \<in> snd ` set (toKeyring opts)" "key \<noteq> []"
    "jwVerify jwt token key = None"
    "\<not> is_past (member_of ''exp'' (trPayload (verify_caller_token jwt token secret opts))) (toNowSec opts)"
    "trWarnings (verify_caller_token jwt token secret opts)
       = claim_warnings (trPayload (verify_caller_token jwt token secret opts)) opts"
proof -
  obtain s parts key where s: "secret = Some s" "s \<noteq> []" and parts: "jwDecode jwt token = Some parts"
    and key: "resolve_secret (member_of ''kid'' (tpHeader parts)) s opts = Some key" "key \<noteq> []"
      "jwVerify jwt token key = None"
    using assms by (auto simp: verify_caller_token_def token_refused_def split: option.splits if_splits)
  have "key = s \<or> key \<in> snd ` set (toKeyring opts)"
    using key(1) by (force simp: resolve_secret_def dest: map_of_SomeD split: if_splits option.splits json.splits)
  then show thesis
    using that [of s key] s parts key assms
    by (auto simp: verify_caller_token_def Let_def token_refused_def split: option.splits if_splits)
qed

text \<open>
  C23. With enforcement on, a request to an Agreement route is only answered under the identity in the
  claims of the token it carries: one signed under a configured secret, not past, with an expiry, for this
  audience, from an allowed issuer and with a subject. The headers that name an identity do not matter.
\<close>

theorem enforced_identity_signed:
  assumes "cfEnforce cfg" and "rqPath rq \<in> set caller_token_routes"
    and "request_identity jwt cfg rq = Inr identity"
  shows "\<exists>token claims. caller_token_of rq = Some token \<and> signed_for_us jwt cfg token claims
    \<and> identity = access_from_token claims"
proof -
  obtain r where r: "handle_enforced jwt cfg (caller_token_of rq) = Inr r"
    and resolved: "identity = resolve_agreement_access cfg rq (Some r)"
    using assms by (auto simp: request_identity_def on_post_auth_def bind_res_Inr)
  obtain token where token: "caller_token_of rq = Some token"
    and passed: "r = verify_caller_token jwt token (cfSecret cfg) (cfOptions cfg)" "trVerified r" "trWarnings r = []"
    using r by (cases "caller_token_of rq") (simp_all add: handle_enforced_def Let_def split: if_splits)
  have ok: "trVerified (verify_caller_token jwt token (cfSecret cfg) (cfOptions cfg))"
      "trWarnings (verify_caller_token jwt token (cfSecret cfg) (cfOptions cfg)) = []"
    and identity: "identity = access_from_token (trPayload (verify_caller_token jwt token (cfSecret cfg) (cfOptions cfg)))"
    using resolved passed assms(1) by (simp_all add: resolve_agreement_access_def)
  let ?claims = "trPayload (verify_caller_token jwt token (cfSecret cfg) (cfOptions cfg))"
  obtain key s where key: "cfSecret cfg = Some s" "key = s \<or> key \<in> snd ` set (toKeyring (cfOptions cfg))"
      "key \<noteq> []" "jwVerify jwt token key = None"
    and past: "\<not> is_past (member_of ''exp'' ?claims) (toNowSec (cfOptions cfg))"
    and warnings: "claim_warnings ?claims (cfOptions cfg) = []"
    using verified_token [OF ok(1)] ok(2) by metis
  have none: "audience_warning (member_of ''aud'' ?claims) (toAudience (cfOptions cfg)) = None"
      "issuer_warning (member_of ''iss'' ?claims) (toAllowedIssuers (cfOptions cfg)) = None"
      "expiry_warning (member_of ''exp'' ?claims) = None" "subject_warning (member_of ''sub'' ?claims) = None"
    using warnings by (auto simp: claim_warnings_def List.map_filter_simps split: option.splits)
  have "signed_for_us jwt cfg token ?claims"
    unfolding signed_for_us_def using key none past
    by (auto simp: issuer_warning_def expiry_warning_def subject_warning_def is_past_def
        split: option.splits json.splits js_number.splits if_splits)
  then show ?thesis using token identity by blast
qed

definition sample_claims :: json where
  "sample_claims = JObj [(''aud'', JStr ''gas''), (''iss'', JStr ''ui''), (''exp'', JNum (Finite 20 0 0)),
     (''sub'', JStr ''u1''), (''sbi'', JStr ''123456789''), (''source'', JStr ''defra'')]"

definition sample_jwt :: jwt_library where
  "sample_jwt = \<lparr>jwDecode = (\<lambda>_. Some \<lparr>tpHeader = Some (JObj []), tpPayload = Some sample_claims\<rparr>),
     jwVerify = (\<lambda>_ key. if key = ''secret'' then None else Some ''Invalid token signature'')\<rparr>"

definition sample_auth :: auth_config where
  "sample_auth = \<lparr>cfEnforce = True, cfSecret = Some ''secret'', cfOptions = \<lparr>toAudience = ''gas'',
     toAllowedIssuers = [''ui''], toNowSec = 10, toDefaultKid = None, toKeyring = []\<rparr>\<rparr>"

definition sample_routed :: routed_request where
  "sample_routed = \<lparr>rqPath = ''/agreements/current'',
     rqHeaders = [(''x-user-context'', ''t''), (''x-agreement-sbi'', ''999999999'')]\<rparr>"

theorem enforced_identity_signed_witness:
  "\<exists>token claims. caller_token_of sample_routed = Some token \<and> signed_for_us sample_jwt sample_auth token claims
    \<and> axSbi (access_from_token claims) = Some (JStr ''123456789'')"
proof -
  have "request_identity sample_jwt sample_auth sample_routed = Inr (access_from_token (Some sample_claims))"
    by code_simp
  moreover have "cfEnforce sample_auth" "rqPath sample_routed \<in> set caller_token_routes"
    by (simp_all add: sample_auth_def sample_routed_def caller_token_routes_def)
  moreover have "axSbi (access_from_token (Some sample_claims)) = Some (JStr ''123456789'')"
    by (simp add: access_from_token_def sample_claims_def)
  ultimately show ?thesis using enforced_identity_signed by metis
qed

end
