(* ===== verification/JsValues.thy ===== *)
theory JsValues
  imports Prelude
begin

text \<open>
  What the code does with values it was given as JSON: their text, the properties an object has of
  its own, reading a property, leaving keys out and picking them.
\<close>

text \<open>What \<open>String\<close> makes of a value, the properties an object has of its own, and reading one.\<close>

fun js_text :: "(js_number \<Rightarrow> string) \<Rightarrow> json \<Rightarrow> string" where
  "js_text numText JNull = ''null''"
| "js_text numText (JBool b) = (if b then ''true'' else ''false'')"
| "js_text numText (JNum n) = numText n"
| "js_text numText (JStr s) = s"
| "js_text numText (JArr items) = join '','' (map (\<lambda>v. if v = JNull then [] else js_text numText v) items)"
| "js_text numText (JObj _) = ''[object Object]''"

definition js_texts :: "(js_number \<Rightarrow> string) \<Rightarrow> json option \<Rightarrow> string" where
  "js_texts numText v = (case v of None \<Rightarrow> ''undefined'' | Some x \<Rightarrow> js_text numText x)"

fun own_entries :: "json \<Rightarrow> (string \<times> json) list" where
  "own_entries (JObj es) = es"
| "own_entries (JArr items) =
     zip (map show_nat [0..<length items]) items @ [(''length'', JNum (Finite (int (length items)) 0 0))]"
| "own_entries _ = []"

fun entries_of :: "json \<Rightarrow> (string \<times> json) list" where
  "entries_of (JObj es) = es"
| "entries_of _ = []"

definition get_field :: "string \<Rightarrow> json \<Rightarrow> json option" where "get_field k v = map_of (entries_of v) k"

definition read_prop :: "json option \<Rightarrow> string \<Rightarrow> json option res" where
  "read_prop v k = (case v of None \<Rightarrow> Inl TypeError | Some JNull \<Rightarrow> Inl TypeError | Some x \<Rightarrow> Inr (get_field k x))"

definition omit :: "string \<Rightarrow> (string \<times> 'a) list \<Rightarrow> (string \<times> 'a) list" where
  "omit k es = filter (\<lambda>(k', _). k' \<noteq> k) es"

definition present :: "string \<Rightarrow> 'a option \<Rightarrow> (string \<times> 'a) list" where
  "present k v = (case v of None \<Rightarrow> [] | Some x \<Rightarrow> [(k, x)])"

definition pick :: "string list \<Rightarrow> json \<Rightarrow> (string \<times> json) list" where
  "pick ks v = concat (map (\<lambda>k. present k (get_field k v)) ks)"

lemma map_of_omit [simp]: "map_of (omit k es) k' = (if k' = k then None else map_of es k')"
  by (induction es) (auto simp: omit_def)

section \<open>Components of URIs\<close>

text \<open>
  \<open>encodeURIComponent\<close> on characters up to \<open>U+00FF\<close>: those above \<open>U+007F\<close> are two bytes of UTF-8.
\<close>

definition upper_hex :: "nat \<Rightarrow> char" where
  "upper_hex n = char_of (if n < 10 then 48 + n else 55 + n)"

definition percent_byte :: "nat \<Rightarrow> string" where
  "percent_byte n = [CHR 0x25, upper_hex (n div 16), upper_hex (n mod 16)]"

definition is_unreserved :: "char \<Rightarrow> bool" where
  "is_unreserved c \<longleftrightarrow>
     (let n = (of_char c :: nat) in
      48 \<le> n \<and> n \<le> 57 \<or> 65 \<le> n \<and> n \<le> 90 \<or> 97 \<le> n \<and> n \<le> 122
      \<or> n \<in> {45, 95, 46, 33, 126, 42, 39, 40, 41})"

definition encode_char :: "char \<Rightarrow> string" where
  "encode_char c =
     (let n = (of_char c :: nat) in
      if is_unreserved c then [c]
      else if n < 128 then percent_byte n
      else percent_byte (192 + n div 64) @ percent_byte (128 + n mod 64))"

definition encode_uri_component :: "string \<Rightarrow> string" where
  "encode_uri_component s = concat (map encode_char s)"

end
