(* ===== verification/AgreementPages.thy ===== *)
theory AgreementPages
  imports AgreementService References JsValues
begin

text \<open>
  The pages of an Agreement (\<open>src/agreements/services\<close>: format.js, resolve-page-href.js,
  integrations/resolve-effect-params.js, resolve-components.js, resolve-page-actions.js,
  build-agreement-page-model.js, apply-action-validation.js). A page of a definition is a tree of
  components with references in it. Its components are resolved against the Agreement, forms and
  buttons are bound to the actions the lifecycle allows, and a printed page has neither.

  A template may be used within itself, and then the code never answers. The model counts how deep lists
  of components nest: a page that is not resolved within the depth given is \<open>None\<close>. What
  \<open>Promise.all\<close> awaits is resolved in order, so of several errors the first is the one thrown.
  The names every JavaScript object inherits, such as \<open>constructor\<close>, are not taken for
  formats, kinds of components or parameters.
\<close>

section \<open>Results that may be pending\<close>

type_synonym 'a pending = "'a res option"

definition and_then :: "'a pending \<Rightarrow> ('a \<Rightarrow> 'b pending) \<Rightarrow> 'b pending" where
  "and_then m f =
     (case m of None \<Rightarrow> None | Some (Inl e) \<Rightarrow> Some (Inl e) | Some (Inr x) \<Rightarrow> f x)"

definition settled :: "'a res \<Rightarrow> 'a pending" where "settled r = Some r"

fun gather :: "'a pending list \<Rightarrow> 'a list pending" where
  "gather [] = Some (Inr [])"
| "gather (m # ms) = and_then m (\<lambda>x. and_then (gather ms) (\<lambda>xs. Some (Inr (x # xs))))"

lemma and_then_simps [simp]:
  "and_then None f = None" "and_then (Some (Inl e)) f = Some (Inl e)" "and_then (Some (Inr x)) f = f x"
  by (simp_all add: and_then_def)

lemma and_then_Inr: "and_then m f = Some (Inr y) \<longleftrightarrow> (\<exists>x. m = Some (Inr x) \<and> f x = Some (Inr y))"
  by (auto simp: and_then_def split: option.splits sum.splits)

lemma settled_Inr [simp]: "settled r = Some (Inr x) \<longleftrightarrow> r = Inr x"
  by (simp add: settled_def)

lemma gather_Inr: "gather ms = Some (Inr xs) \<longleftrightarrow> list_all2 (\<lambda>m x. m = Some (Inr x)) ms xs"
  by (induction ms arbitrary: xs) (auto simp: and_then_Inr list_all2_Cons1)

section \<open>What rendering asks for\<close>

definition component_is :: "string \<Rightarrow> (string \<times> json) list \<Rightarrow> bool" where
  "component_is kind es \<longleftrightarrow> map_of es ''component'' = Some (JStr kind)"

text \<open>
  References are read in the context of the page, or of one row of a table. Reading numbers and
  dates, and the text of a number, are JavaScript's own; \<open>pgNumber\<close> takes the texts of infinities for none.
\<close>

datatype page_context =
    PageContext agreement_record "(string \<times> json) list" outputs
  | RowContext json

record page_env =
  pgEvaluate :: "page_context \<Rightarrow> json option \<Rightarrow> string \<Rightarrow> json option res"
  pgNumberText :: "js_number \<Rightarrow> string"
  pgNumber :: "string \<Rightarrow> rat option"
  pgDate :: "string \<Rightarrow> (nat \<times> nat \<times> nat) option"

record page_scope =
  psContext :: page_context
  psRow :: "json option"

definition refs_scope :: "page_env \<Rightarrow> page_scope \<Rightarrow> scope" where
  "refs_scope pg s = \<lparr>spEvaluate = pgEvaluate pg (psContext s), spRow = psRow s, spNumberText = pgNumberText pg\<rparr>"

definition condition_holds :: "page_env \<Rightarrow> page_scope \<Rightarrow> json option \<Rightarrow> bool res" where
  "condition_holds pg s condition =
     (case condition of Some (JStr c) \<Rightarrow> resolve_condition (refs_scope pg s) c | _ \<Rightarrow> Inl TypeError)"

section \<open>Formats\<close>

definition amount_of :: "page_env \<Rightarrow> json option \<Rightarrow> rat option" where
  "amount_of pg v =
     (case v of
        Some (JNum (Finite m d e)) \<Rightarrow> Some (number_value (Finite m d e))
      | Some (JStr s) \<Rightarrow> if js_trim s = [] then None else pgNumber pg s
      | _ \<Rightarrow> None)"

definition cannot_format :: "page_env \<Rightarrow> json option \<Rightarrow> string \<Rightarrow> js_error" where
  "cannot_format pg v formatName =
     NamedError ''TypeError'' (''Cannot format '' @ quoted (js_texts (pgNumberText pg) v) @ '' as '' @ formatName)"

definition to_amount :: "page_env \<Rightarrow> json option \<Rightarrow> string \<Rightarrow> rat res" where
  "to_amount pg v formatName =
     (case amount_of pg v of None \<Rightarrow> Inl (cannot_format pg v formatName) | Some a \<Rightarrow> Inr a)"

text \<open>Digits in threes from the right, as \<open>en-GB\<close> writes them.\<close>

fun grouped_rev :: "string \<Rightarrow> string" where
  "grouped_rev (a # b # c # d # ds) = a # b # c # CHR '','' # grouped_rev (d # ds)"
| "grouped_rev ds = ds"

definition grouped :: "nat \<Rightarrow> string" where "grouped n = rev (grouped_rev (rev (show_nat n)))"

definition pound_sign :: string where "pound_sign = [CHR 0xA3]"

definition minus_of :: "rat \<Rightarrow> string" where "minus_of a = (if a < 0 then ''-'' else [])"

text \<open>\<open>Math.round\<close> rounds a half up; an amount between minus a half and zero is minus zero.\<close>

definition pounds_no_decimals :: "page_env \<Rightarrow> json option \<Rightarrow> string res" where
  "pounds_no_decimals pg v =
     bind_res (to_amount pg v ''poundsNoDecimals'') (\<lambda>a.
     Inr (pound_sign @ minus_of a @ grouped (nat \<bar>\<lfloor>a + 1 / 2\<rfloor>\<bar>)))"

text \<open>A currency is rounded half away from zero, to pence unless the amount is in whole pounds.\<close>

definition pounds_from_pence :: "page_env \<Rightarrow> json option \<Rightarrow> string res" where
  "pounds_from_pence pg v =
     bind_res (to_amount pg v ''poundsFromPence'') (\<lambda>a.
     let pence = nat \<lfloor>\<bar>a\<bar> + 1 / 2\<rfloor>; fraction = pence mod 100 in
     Inr (minus_of a @ pound_sign @ grouped (pence div 100)
       @ (if a = of_int (100 * \<lfloor>a / 100\<rfloor>) then []
          else ''.'' @ (if fraction < 10 then ''0'' else []) @ show_nat fraction)))"

definition is_iso_date :: "string \<Rightarrow> bool" where
  "is_iso_date s \<longleftrightarrow>
     length s = 10 \<and> all_digits (take 4 s) \<and> s ! 4 = CHR ''-'' \<and> all_digits (take 2 (drop 5 s))
     \<and> s ! 7 = CHR ''-'' \<and> all_digits (drop 8 s)"

definition month_names :: "string list" where
  "month_names = [''January'', ''February'', ''March'', ''April'', ''May'', ''June'', ''July'', ''August'',
     ''September'', ''October'', ''November'', ''December'']"

text \<open>\<open>pgDate\<close> is the day, the month and the year in UTC of the instant that a text is read as.\<close>

definition parse_date :: "page_env \<Rightarrow> string \<Rightarrow> (nat \<times> nat \<times> nat) option" where
  "parse_date pg s = pgDate pg (if is_iso_date s then s @ ''T00:00:00.000Z'' else s)"

definition date_long :: "page_env \<Rightarrow> json option \<Rightarrow> string res" where
  "date_long pg v =
     (case v of
        Some (JStr s) \<Rightarrow>
          (case parse_date pg s of
             Some (d, m, y) \<Rightarrow> Inr (show_nat d @ '' '' @ month_names ! (m - 1) @ '' '' @ show_nat y)
           | None \<Rightarrow> Inl (cannot_format pg v ''dateLong''))
      | _ \<Rightarrow> Inl (cannot_format pg v ''dateLong''))"

definition apply_format :: "page_env \<Rightarrow> json option \<Rightarrow> json \<Rightarrow> string res" where
  "apply_format pg v formatName =
     (let name = js_text (pgNumberText pg) formatName in
      if name = ''dateLong'' then date_long pg v
      else if name = ''poundsFromPence'' then pounds_from_pence pg v
      else if name = ''poundsNoDecimals'' then pounds_no_decimals pg v
      else Inl (JsError (''Unsupported format '' @ quoted name)))"

fun apply_formats :: "page_env \<Rightarrow> json \<Rightarrow> json res"
and apply_formats_items :: "page_env \<Rightarrow> json list \<Rightarrow> json list res"
and apply_formats_entries :: "page_env \<Rightarrow> (string \<times> json) list \<Rightarrow> (string \<times> json) list res" where
  "apply_formats pg (JArr items) = bind_res (apply_formats_items pg items) (\<lambda>vs. Inr (JArr vs))"
| "apply_formats pg (JObj es) =
     bind_res (apply_formats_entries pg es) (\<lambda>fs.
     case map_of es ''format'' of
       None \<Rightarrow> Inr (JObj fs)
     | Some f \<Rightarrow> bind_res (apply_format pg (map_of fs ''text'') f) (\<lambda>t. Inr (JObj (obj_put ''text'' (JStr t) fs))))"
| "apply_formats pg v = Inr v"
| "apply_formats_items pg [] = Inr []"
| "apply_formats_items pg (v # vs) =
     bind_res (apply_formats pg v) (\<lambda>w. bind_res (apply_formats_items pg vs) (\<lambda>ws. Inr (w # ws)))"
| "apply_formats_entries pg [] = Inr []"
| "apply_formats_entries pg ((k, v) # es) =
     (if k = ''format'' then apply_formats_entries pg es
      else bind_res (apply_formats pg v) (\<lambda>w. bind_res (apply_formats_entries pg es) (\<lambda>fs. Inr ((k, w) # fs))))"

section \<open>Links\<close>

definition is_effect_ref :: "string \<Rightarrow> bool" where "is_effect_ref s = starts_with s ''$.''"

definition resolve_effect_ref :: "page_env \<Rightarrow> page_context \<Rightarrow> string \<Rightarrow> json res" where
  "resolve_effect_ref pg ctx ref =
     bind_res (pgEvaluate pg ctx None ref) (\<lambda>v.
     case v of None \<Rightarrow> Inl (JsError (''Unresolved reference '' @ quoted ref @ '' in effect params'')) | Some w \<Rightarrow> Inr w)"

fun resolve_effect_params :: "page_env \<Rightarrow> page_context \<Rightarrow> json \<Rightarrow> json res"
and resolve_effect_items :: "page_env \<Rightarrow> page_context \<Rightarrow> json list \<Rightarrow> json list res"
and resolve_effect_entries :: "page_env \<Rightarrow> page_context \<Rightarrow> (string \<times> json) list \<Rightarrow> (string \<times> json) list res" where
  "resolve_effect_params pg ctx (JStr s) = (if is_effect_ref s then resolve_effect_ref pg ctx s else Inr (JStr s))"
| "resolve_effect_params pg ctx (JArr items) = bind_res (resolve_effect_items pg ctx items) (\<lambda>vs. Inr (JArr vs))"
| "resolve_effect_params pg ctx (JObj es) = bind_res (resolve_effect_entries pg ctx es) (\<lambda>fs. Inr (JObj fs))"
| "resolve_effect_params pg ctx v = Inr v"
| "resolve_effect_items pg ctx [] = Inr []"
| "resolve_effect_items pg ctx (v # vs) =
     bind_res (resolve_effect_params pg ctx v) (\<lambda>w. bind_res (resolve_effect_items pg ctx vs) (\<lambda>ws. Inr (w # ws)))"
| "resolve_effect_entries pg ctx [] = Inr []"
| "resolve_effect_entries pg ctx ((k, v) # es) =
     bind_res (resolve_effect_params pg ctx v) (\<lambda>w. bind_res (resolve_effect_entries pg ctx es) (\<lambda>fs. Inr ((k, w) # fs)))"

text \<open>The pattern of a parameter: word characters in braces.\<close>

datatype href_part = HrefChar char | HrefParam string

definition word_char :: "char \<Rightarrow> bool" where
  "word_char c \<longleftrightarrow> between 65 90 c \<or> between 97 122 c \<or> between 48 57 c \<or> c = CHR ''_''"

definition braced :: "char \<Rightarrow> string \<Rightarrow> bool" where
  "braced c cs \<longleftrightarrow> c = CHR ''{'' \<and> takeWhile word_char cs \<noteq> [] \<and> starts_with (dropWhile word_char cs) ''}''"

function href_parts :: "string \<Rightarrow> href_part list" where
  "href_parts [] = []"
| "href_parts (c # cs) =
     (if braced c cs then HrefParam (takeWhile word_char cs) # href_parts (tl (dropWhile word_char cs))
      else HrefChar c # href_parts cs)"
  by pat_completeness auto
termination
  by (relation "measure length") (auto simp: less_Suc_eq_le intro: le_trans [OF diff_le_self length_dropWhile_le])

definition unresolved_param :: "string \<Rightarrow> string \<Rightarrow> js_error" where
  "unresolved_param key urlTemplate =
     JsError (''Unresolved param '' @ quoted key @ '' in href template '' @ quoted urlTemplate)"

definition apply_href_template :: "page_env \<Rightarrow> json option \<Rightarrow> json \<Rightarrow> string res" where
  "apply_href_template pg urlTemplate params =
     (case urlTemplate of
        Some (JStr template) \<Rightarrow>
          bind_res (map_res (\<lambda>p. case p of HrefChar c \<Rightarrow> Inr [c]
            | HrefParam key \<Rightarrow>
                (case map_of (own_entries params) key of
                   None \<Rightarrow> Inl (unresolved_param key template)
                 | Some v \<Rightarrow> Inr (js_text (pgNumberText pg) v))) (href_parts template)) (\<lambda>ts. Inr (concat ts))
      | _ \<Rightarrow> Inl TypeError)"

definition or_empty_object :: "json option \<Rightarrow> json" where
  "or_empty_object v = (case v of None \<Rightarrow> JObj [] | Some JNull \<Rightarrow> JObj [] | Some x \<Rightarrow> x)"

definition resolve_page_href :: "page_env \<Rightarrow> page_context \<Rightarrow> json option \<Rightarrow> json res" where
  "resolve_page_href pg ctx href =
     (case href of
        Some (JStr s) \<Rightarrow> Inr (JStr s)
      | None \<Rightarrow> Inl TypeError
      | Some JNull \<Rightarrow> Inl TypeError
      | Some h \<Rightarrow>
          bind_res (resolve_effect_params pg ctx (or_empty_object (get_field ''params'' h))) (\<lambda>params.
          bind_res (apply_href_template pg (get_field ''urlTemplate'' h) params) (\<lambda>url. Inr (JStr url))))"

section \<open>Components\<close>

text \<open>A link is resolved as text when it is one, whatever the kind of component it stands in.\<close>

definition resolve_url :: "page_env \<Rightarrow> page_scope \<Rightarrow> (string \<times> json) list \<Rightarrow> json res" where
  "resolve_url pg s es =
     bind_res (resolve_object (refs_scope pg s) (omit ''href'' es)) (\<lambda>fs.
     bind_res (case map_of es ''href'' of
         Some (JStr h) \<Rightarrow> resolve_refs (refs_scope pg s) (JStr h)
       | href \<Rightarrow> resolve_page_href pg (psContext s) href) (\<lambda>h.
     apply_formats pg (JObj (fs @ [(''href'', h)]))))"

fun resolve_display_value :: "page_env \<Rightarrow> page_scope \<Rightarrow> json \<Rightarrow> json res"
and resolve_display_items :: "page_env \<Rightarrow> page_scope \<Rightarrow> json list \<Rightarrow> json list res"
and resolve_display_object :: "page_env \<Rightarrow> page_scope \<Rightarrow> (string \<times> json) list \<Rightarrow> (string \<times> json) list res" where
  "resolve_display_value pg s (JArr items) = bind_res (resolve_display_items pg s items) (\<lambda>vs. Inr (JArr vs))"
| "resolve_display_value pg s (JObj es) =
     (if component_is ''url'' es then resolve_url pg s es
      else bind_res (resolve_display_object pg s es) (\<lambda>fs. Inr (JObj fs)))"
| "resolve_display_value pg s v = resolve_refs (refs_scope pg s) v"
| "resolve_display_items pg s [] = Inr []"
| "resolve_display_items pg s (v # vs) =
     bind_res (resolve_display_value pg s v) (\<lambda>w. bind_res (resolve_display_items pg s vs) (\<lambda>ws. Inr (w # ws)))"
| "resolve_display_object pg s [] = Inr []"
| "resolve_display_object pg s ((k, v) # es) =
     bind_res (resolve_display_value pg s v) (\<lambda>w. bind_res (resolve_display_object pg s es) (\<lambda>fs. Inr ((k, w) # fs)))"

definition resolve_display_component ::
  "page_env \<Rightarrow> page_scope \<Rightarrow> (string \<times> json) list \<Rightarrow> json list res" where
  "resolve_display_component pg s es =
     bind_res (resolve_display_value pg s (JObj es)) (\<lambda>v. bind_res (apply_formats pg v) (\<lambda>w. Inr [w]))"

text \<open>The schema has references be texts, which is how the message below shows them.\<close>

definition require_component_array :: "page_env \<Rightarrow> string \<Rightarrow> string \<Rightarrow> json option \<Rightarrow> json \<Rightarrow> json list res" where
  "require_component_array pg component key ref v =
     (case v of
        JArr items \<Rightarrow> Inr items
      | _ \<Rightarrow> Inl (JsError (''A '' @ quoted component @ '' component'' @ [CHR 0x27] @ ''s '' @ quoted key @ '' (''
               @ quoted (js_texts (pgNumberText pg) ref) @ '') must resolve to an array'')))"

definition resolve_optional_refs :: "scope \<Rightarrow> json option \<Rightarrow> json option res" where
  "resolve_optional_refs scope v =
     (case v of None \<Rightarrow> Inr None | Some x \<Rightarrow> bind_res (resolve_refs scope x) (\<lambda>y. Inr (Some y)))"

text \<open>The cells of a table are read against one row, which is both their context and their row.\<close>

definition resolve_cell :: "page_env \<Rightarrow> json \<Rightarrow> json \<Rightarrow> json res" where
  "resolve_cell pg item template =
     bind_res (resolve_refs (refs_scope pg \<lparr>psContext = RowContext item, psRow = Some item\<rparr>) template)
       (apply_formats pg)"

definition resolve_table_row :: "page_env \<Rightarrow> json \<Rightarrow> json \<Rightarrow> json res" where
  "resolve_table_row pg rowTemplate item =
     (case rowTemplate of
        JArr cells \<Rightarrow> bind_res (map_res (resolve_cell pg item) cells) (\<lambda>vs. Inr (JArr vs))
      | _ \<Rightarrow> Inl TypeError)"

definition resolve_table :: "page_env \<Rightarrow> page_scope \<Rightarrow> (string \<times> json) list \<Rightarrow> json list res" where
  "resolve_table pg s es =
     (let rowsRef = map_of es ''rowsRef''; rowTemplate = map_of es ''rows'' in
      if \<not> json_truthy rowsRef \<or> \<not> json_truthy rowTemplate
      then Inl (JsError (''A '' @ quoted ''table'' @ '' component must configure both '' @ quoted ''rowsRef'' @ '' and ''
             @ quoted ''rows''))
      else
        bind_res (resolve_object (refs_scope pg s) (omit ''rowsRef'' (omit ''rows'' es))) (\<lambda>rest.
        bind_res (resolve_refs (refs_scope pg s) (the rowsRef)) (\<lambda>v.
        bind_res (require_component_array pg ''table'' ''rowsRef'' rowsRef v) (\<lambda>items.
        bind_res (map_res (resolve_table_row pg (the rowTemplate)) items) (\<lambda>rows.
        bind_res (apply_formats pg (JObj rest)) (\<lambda>shown.
        Inr [JObj (obj_put ''rows'' (JArr rows) (entries_of shown))]))))))"

text \<open>
  The components that hold others are given \<open>nested\<close>, which resolves a list of components one level
  deeper.
\<close>

type_synonym nested = "page_scope \<Rightarrow> json option \<Rightarrow> json list pending"

definition to_array :: "json \<Rightarrow> json" where
  "to_array v = (case v of JArr items \<Rightarrow> v | _ \<Rightarrow> JArr [v])"

definition resolve_conditional :: "page_env \<Rightarrow> nested \<Rightarrow> page_scope \<Rightarrow> (string \<times> json) list \<Rightarrow> json list pending" where
  "resolve_conditional pg nested s es =
     and_then (settled (condition_holds pg s (map_of es ''condition''))) (\<lambda>holds.
     case map_of es (if holds then ''whenTrue'' else ''whenFalse'') of
       None \<Rightarrow> Some (Inr [])
     | Some branch \<Rightarrow> nested s (Some (to_array branch)))"

definition or_no_components :: "json option \<Rightarrow> json option" where
  "or_no_components v = (case v of None \<Rightarrow> Some (JArr []) | Some JNull \<Rightarrow> Some (JArr []) | _ \<Rightarrow> v)"

definition resolve_repeat :: "page_env \<Rightarrow> nested \<Rightarrow> page_scope \<Rightarrow> (string \<times> json) list \<Rightarrow> json list pending" where
  "resolve_repeat pg nested s es =
     and_then (settled (resolve_optional_refs (refs_scope pg s) (map_of es ''itemsRef''))) (\<lambda>v.
     and_then (settled (require_component_array pg ''repeat'' ''itemsRef'' (map_of es ''itemsRef'')
        (case v of None \<Rightarrow> JNull | Some x \<Rightarrow> x))) (\<lambda>rows.
     if rows = [] then nested s (or_no_components (map_of es ''emptyContent''))
     else
       and_then (nested s (or_no_components (map_of es ''beforeContent''))) (\<lambda>before.
       and_then (gather (map (\<lambda>row. nested (s\<lparr>psRow := Some row\<rparr>) (map_of es ''items'')) rows)) (\<lambda>repeated.
       Some (Inr (before @ concat repeated))))))"

definition find_template :: "page_env \<Rightarrow> json option \<Rightarrow> json option \<Rightarrow> json option" where
  "find_template pg templates key =
     Option.bind templates (\<lambda>t. map_of (own_entries t) (js_texts (pgNumberText pg) key))"

definition resolve_template :: "page_env \<Rightarrow> nested \<Rightarrow> page_scope \<Rightarrow> (string \<times> json) list \<Rightarrow> json list pending" where
  "resolve_template pg nested s es =
     and_then (settled (resolve_optional_refs (refs_scope pg s) (map_of es ''templateRef''))) (\<lambda>templates.
     and_then (settled (resolve_optional_refs (refs_scope pg s) (map_of es ''templateKey''))) (\<lambda>key.
     let template = find_template pg templates key in
     if \<not> json_truthy template
     then Some (Inl (JsError (''A '' @ quoted ''template'' @ '' component references ''
            @ quoted (js_texts (pgNumberText pg) (map_of es ''templateRef'')) @ '' which has no template ''
            @ quoted (js_texts (pgNumberText pg) key))))
     else
       and_then (case map_of es ''dataRef'' of
           None \<Rightarrow> Some (Inr (psRow s))
         | Some ref \<Rightarrow> and_then (settled (resolve_refs (refs_scope pg s) ref)) (\<lambda>v. Some (Inr (Some v)))) (\<lambda>row.
       nested (s\<lparr>psRow := row\<rparr>) (get_field ''content'' (the template)))))"

definition resolve_tree_node :: "page_env \<Rightarrow> nested \<Rightarrow> page_scope \<Rightarrow> (string \<times> json) list \<Rightarrow> json list pending" where
  "resolve_tree_node pg nested s es =
     (case map_of es ''components'' of
        Some (JArr cs) \<Rightarrow>
          and_then (settled (resolve_display_value pg s (JObj (omit ''components'' es)))) (\<lambda>node.
          and_then (nested s (Some (JArr cs))) (\<lambda>children.
          and_then (settled (apply_formats pg node)) (\<lambda>shown.
          Some (Inr [JObj (obj_put ''components'' (JArr children) (entries_of shown))]))))
      | _ \<Rightarrow> Some (Inl (JsError (''A '' @ quoted (js_texts (pgNumberText pg) (map_of es ''component''))
               @ '' component must configure '' @ quoted ''components''))))"

definition resolve_by_kind ::
  "page_env \<Rightarrow> nested \<Rightarrow> page_scope \<Rightarrow> string \<Rightarrow> (string \<times> json) list \<Rightarrow> json list pending" where
  "resolve_by_kind pg nested s kind es =
     (if kind = ''conditional'' then resolve_conditional pg nested s es
      else if kind = ''repeat'' then resolve_repeat pg nested s es
      else if kind = ''table'' then settled (resolve_table pg s es)
      else if kind = ''template'' then resolve_template pg nested s es
      else if kind = ''url'' then and_then (settled (resolve_url pg s es)) (\<lambda>v. Some (Inr [v]))
      else if kind = ''component-container'' then nested s (map_of es ''content'')
      else if kind \<in> {''grid-row'', ''grid-column'', ''form''} then resolve_tree_node pg nested s es
      else settled (resolve_display_component pg s es))"

definition is_hidden :: "page_env \<Rightarrow> page_scope \<Rightarrow> json option \<Rightarrow> bool res" where
  "is_hidden pg s condition =
     (case condition of None \<Rightarrow> Inr False
      | Some c \<Rightarrow> bind_res (condition_holds pg s (Some c)) (\<lambda>holds. Inr (\<not> holds)))"

text \<open>The schema has a component be an object.\<close>

definition resolve_component :: "page_env \<Rightarrow> nested \<Rightarrow> page_scope \<Rightarrow> json \<Rightarrow> json list pending" where
  "resolve_component pg nested s component =
     (case component of
        JObj es \<Rightarrow>
          if component_is ''conditional'' es then resolve_conditional pg nested s es
          else
            and_then (settled (is_hidden pg s (map_of es ''condition''))) (\<lambda>hidden.
            if hidden then Some (Inr [])
            else resolve_by_kind pg nested s (js_texts (pgNumberText pg) (map_of es ''component'')) (omit ''condition'' es))
      | _ \<Rightarrow> Some (Inl TypeError))"

fun resolve_component_list :: "page_env \<Rightarrow> nat \<Rightarrow> page_scope \<Rightarrow> json option \<Rightarrow> json list pending" where
  "resolve_component_list pg 0 s components = None"
| "resolve_component_list pg (Suc depth) s components =
     (case components of
        Some (JArr cs) \<Rightarrow>
          and_then (gather (map (resolve_component pg (resolve_component_list pg depth) s) cs)) (\<lambda>found.
          Some (Inr (concat found)))
      | _ \<Rightarrow> Some (Inl TypeError))"

definition resolve_components :: "page_env \<Rightarrow> nat \<Rightarrow> page_context \<Rightarrow> json option \<Rightarrow> json list pending" where
  "resolve_components pg depth ctx components =
     resolve_component_list pg depth \<lparr>psContext = ctx, psRow = None\<rparr> components"

section \<open>Binding actions\<close>

record binding =
  bdNumber :: string
  bdResolve :: "string \<Rightarrow> agreement_action res"
  bdWithinForm :: bool

definition action_href :: "string \<Rightarrow> string \<Rightarrow> string" where
  "action_href number action = ''/agreements/'' @ number @ ''/actions/'' @ action"

definition require_action :: "json option \<Rightarrow> string \<Rightarrow> string res" where
  "require_action action component =
     (case action of
        Some (JStr s) \<Rightarrow> if js_trim s = [] then Inl (JsError (component @ '' must configure an action'')) else Inr (js_trim s)
      | _ \<Rightarrow> Inl (JsError (component @ '' must configure an action'')))"

definition or_empty_array :: "json option \<Rightarrow> json" where
  "or_empty_array v = (case v of None \<Rightarrow> JArr [] | Some JNull \<Rightarrow> JArr [] | Some x \<Rightarrow> x)"

definition requirements_json :: "agreement_action \<Rightarrow> json" where
  "requirements_json action =
     JArr (map (\<lambda>(name, v). JObj [(''name'', JStr name), (''value'', JStr v)]) (submission_requirements action))"

definition bound_form :: "string \<Rightarrow> string \<Rightarrow> agreement_action \<Rightarrow> (string \<times> json) list \<Rightarrow> json" where
  "bound_form number name action form =
     JObj (obj_spread form [(''method'', JStr ''POST''), (''formAction'', JStr (action_href number name)),
       (''hiddenFields'', or_empty_array (map_of form ''hiddenFields'')),
       (''submissionRequirements'', requirements_json action)])"

definition bind_button :: "binding \<Rightarrow> (string \<times> json) list \<Rightarrow> json res" where
  "bind_button bd es =
     (if bdWithinForm bd then Inr (JObj (obj_put ''submit'' (JBool True) (omit ''action'' es)))
      else bind_res (require_action (map_of es ''action'') (''A standalone '' @ quoted ''button'' @ '' component''))
        (\<lambda>action. Inr (JObj (obj_put ''href'' (JStr (action_href (bdNumber bd) action)) (omit ''action'' es)))))"

text \<open>Within a form only its components are bound; \<open>bind_form_entries\<close> leaves the other entries as they are.\<close>

fun bind_actions :: "binding \<Rightarrow> json \<Rightarrow> json res"
and bind_action_items :: "binding \<Rightarrow> json list \<Rightarrow> json list res"
and bind_action_entries :: "binding \<Rightarrow> (string \<times> json) list \<Rightarrow> (string \<times> json) list res"
and bind_form_entries :: "binding \<Rightarrow> (string \<times> json) list \<Rightarrow> (string \<times> json) list res" where
  "bind_actions bd (JArr items) = bind_res (bind_action_items bd items) (\<lambda>vs. Inr (JArr vs))"
| "bind_actions bd (JObj es) =
     (if component_is ''form'' es then
        bind_res (require_action (map_of es ''action'') (''A '' @ quoted ''form'' @ '' component'')) (\<lambda>name.
        bind_res (bdResolve bd name) (\<lambda>action.
        bind_res (bind_form_entries (bd\<lparr>bdWithinForm := True\<rparr>) es) (\<lambda>form.
        Inr (bound_form (bdNumber bd) name action (omit ''action'' form)))))
      else if component_is ''button'' es then bind_button bd es
      else bind_res (bind_action_entries bd es) (\<lambda>fs. Inr (JObj fs)))"
| "bind_actions bd v = Inr v"
| "bind_action_items bd [] = Inr []"
| "bind_action_items bd (v # vs) =
     bind_res (bind_actions bd v) (\<lambda>w. bind_res (bind_action_items bd vs) (\<lambda>ws. Inr (w # ws)))"
| "bind_action_entries bd [] = Inr []"
| "bind_action_entries bd ((k, v) # es) =
     bind_res (bind_actions bd v) (\<lambda>w. bind_res (bind_action_entries bd es) (\<lambda>fs. Inr ((k, w) # fs)))"
| "bind_form_entries bd [] = Inr []"
| "bind_form_entries bd ((k, v) # es) =
     bind_res (if k = ''components'' then bind_actions bd v else Inr v) (\<lambda>w.
     bind_res (bind_form_entries bd es) (\<lambda>fs. Inr ((k, w) # fs)))"

record page_tree =
  trComponents :: "json list"
  trSections :: "(string \<times> json) list list"

definition page_binding :: "agreement_definition \<Rightarrow> agreement_record \<Rightarrow> binding" where
  "page_binding d a =
     \<lparr>bdNumber = amNumber a, bdResolve = resolve_agreement_action (lifecycle_of d) (amState a), bdWithinForm = False\<rparr>"

definition items_of :: "json option \<Rightarrow> json list" where
  "items_of v = (case v of Some (JArr cs) \<Rightarrow> cs | _ \<Rightarrow> [])"

definition resolve_page_actions :: "agreement_definition \<Rightarrow> agreement_record \<Rightarrow> page_tree \<Rightarrow> page_tree res" where
  "resolve_page_actions d a tree =
     (let bind_all = bind_action_items (page_binding d a) in
      bind_res (bind_all (trComponents tree)) (\<lambda>cs.
      bind_res (map_res (\<lambda>sec. bind_res (bind_all (items_of (map_of sec ''components'')))
        (\<lambda>ds. Inr (obj_put ''components'' (JArr ds) sec))) (trSections tree)) (\<lambda>secs.
      Inr \<lparr>trComponents = cs, trSections = secs\<rparr>)))"

section \<open>A printed page\<close>

fun remove_action_node :: "json \<Rightarrow> json list"
and remove_action_nodes :: "json list \<Rightarrow> json list"
and remove_nested_nodes :: "(string \<times> json) list \<Rightarrow> (string \<times> json) list" where
  "remove_action_node (JObj es) =
     (if component_is ''button'' es then []
      else
        let fs = remove_nested_nodes es in
        case map_of fs ''components'' of
          Some (JArr children) \<Rightarrow>
            if component_is ''form'' es then children
            else if children = [] then [] else [JObj fs]
        | _ \<Rightarrow> [JObj es])"
| "remove_action_node v = [v]"
| "remove_action_nodes [] = []"
| "remove_action_nodes (v # vs) = remove_action_node v @ remove_action_nodes vs"
| "remove_nested_nodes [] = []"
| "remove_nested_nodes ((k, v) # es) =
     (k, if k = ''components'' then (case v of JArr cs \<Rightarrow> JArr (remove_action_nodes cs) | _ \<Rightarrow> v) else v)
     # remove_nested_nodes es"

definition without_page_actions :: "bool \<Rightarrow> page_tree \<Rightarrow> page_tree" where
  "without_page_actions removeActions tree =
     (if removeActions then
        \<lparr>trComponents = remove_action_nodes (trComponents tree),
         trSections = map (\<lambda>sec. obj_put ''components''
            (JArr (remove_action_nodes (items_of (map_of sec ''components'')))) sec) (trSections tree)\<rparr>
      else tree)"

section \<open>Sections and metadata\<close>

definition page_scope_of :: "page_context \<Rightarrow> page_scope" where
  "page_scope_of ctx = \<lparr>psContext = ctx, psRow = None\<rparr>"

definition resolve_section ::
  "page_env \<Rightarrow> nat \<Rightarrow> page_context \<Rightarrow> json \<Rightarrow> (string \<times> json) list option pending" where
  "resolve_section pg depth ctx sec =
     (let es = entries_of sec; s = page_scope_of ctx in
      and_then (settled (is_hidden pg s (map_of es ''condition''))) (\<lambda>hidden.
      if hidden then Some (Inr None)
      else
        and_then (settled (resolve_optional_refs (refs_scope pg s) (map_of es ''title''))) (\<lambda>title.
        and_then (resolve_components pg depth ctx (map_of es ''components'')) (\<lambda>cs.
        Some (Inr (Some (present ''id'' (map_of es ''id'') @ present ''title'' title @ [(''components'', JArr cs)])))))))"

definition resolve_sections ::
  "page_env \<Rightarrow> nat \<Rightarrow> page_context \<Rightarrow> json option \<Rightarrow> (string \<times> json) list list pending" where
  "resolve_sections pg depth ctx sections =
     (case sections of
        None \<Rightarrow> Some (Inr [])
      | Some (JArr secs) \<Rightarrow>
          and_then (gather (map (resolve_section pg depth ctx) secs)) (\<lambda>found.
          Some (Inr (List.map_filter id found)))
      | _ \<Rightarrow> Some (Inl TypeError))"

definition resolve_watermark :: "json option \<Rightarrow> string \<Rightarrow> json option" where
  "resolve_watermark watermarks state =
     map_option (\<lambda>text. JObj [(''text'', text)]) (Option.bind watermarks (get_field state))"

definition resolve_back_link :: "page_env \<Rightarrow> page_context \<Rightarrow> json option \<Rightarrow> json option res" where
  "resolve_back_link pg ctx backLink =
     (case backLink of
        None \<Rightarrow> Inr None
      | Some (JObj es) \<Rightarrow>
          bind_res (resolve_object (refs_scope pg (page_scope_of ctx)) (omit ''href'' es)) (\<lambda>shown.
          bind_res (resolve_page_href pg ctx (map_of es ''href'')) (\<lambda>h.
          Inr (Some (JObj (shown @ [(''href'', h)])))))
      | _ \<Rightarrow> Inl TypeError)"

definition build_page_metadata ::
  "page_env \<Rightarrow> string \<Rightarrow> json \<Rightarrow> page_context \<Rightarrow> string \<Rightarrow> (string \<times> json) list res" where
  "build_page_metadata pg page pd ctx state =
     bind_res (resolve_back_link pg ctx (get_field ''backLink'' pd)) (\<lambda>backLink.
     Inr ((''name'', JStr page) # present ''title'' (get_field ''title'' pd)
       @ present ''layout'' (get_field ''layout'' pd) @ present ''contents'' (get_field ''contents'' pd)
       @ present ''print'' (get_field ''print'' pd)
       @ present ''watermark'' (resolve_watermark (get_field ''watermarks'' pd) state)
       @ present ''backLink'' backLink))"

definition to_applicant_summary :: "json \<Rightarrow> json res" where
  "to_applicant_summary applicant =
     bind_res (read_prop (get_field ''business'' applicant) ''name'') (\<lambda>business.
     bind_res (read_prop (get_field ''customer'' applicant) ''name'') (\<lambda>name.
     bind_res (read_prop name ''first'') (\<lambda>first.
     bind_res (read_prop name ''last'') (\<lambda>surname.
     Inr (JObj [(''business'', JObj (present ''name'' business)),
       (''customer'', JObj [(''name'', JObj (present ''first'' first @ present ''last'' surname))])])))))"

definition to_agreement_summary :: "agreement_record \<Rightarrow> json res" where
  "to_agreement_summary a =
     (let applicant = map_of (vaOther (amValues a)) ''applicant'' in
      bind_res (if json_truthy applicant then bind_res (to_applicant_summary (the applicant)) (\<lambda>v. Inr (Some v)) else Inr None)
        (\<lambda>summary.
      Inr (JObj ([(''agreementNumber'', JStr (amNumber a)), (''code'', JStr (amCode a)), (''clientRef'', JStr (amClientRef a)),
        (''identifiers'', JObj (present ''sbi'' (map_of (amIdentifiers a) ''sbi''))), (''state'', JStr (amState a)),
        (''version'', JNum (Finite (int (amVersion a)) 0 0))] @ present ''applicant'' summary))))"

section \<open>The model of a page\<close>

definition page_context_of :: "agreement_definition \<Rightarrow> agreement_record \<Rightarrow> outputs \<Rightarrow> page_context" where
  "page_context_of d a outs = PageContext a (or_empty (adTemplates d)) outs"

definition page_failed :: "string \<Rightarrow> agreement_record \<Rightarrow> js_error" where
  "page_failed page a =
     bad_implementation (''Unable to build page model '' @ quoted page @ '' for agreement '' @ quoted (amNumber a))"

definition page_content ::
  "page_env \<Rightarrow> nat \<Rightarrow> agreement_definition \<Rightarrow> agreement_record \<Rightarrow> bool \<Rightarrow> outputs \<Rightarrow> string \<Rightarrow> bool \<Rightarrow> json
     \<Rightarrow> json pending" where
  "page_content pg depth d a includeSections outs page removeActions pd =
     (let ctx = page_context_of d a outs in
      and_then (resolve_components pg depth ctx (get_field ''components'' pd)) (\<lambda>cs.
      and_then (if includeSections then resolve_sections pg depth ctx (get_field ''sections'' pd) else Some (Inr [])) (\<lambda>secs.
      and_then (settled (build_page_metadata pg page pd ctx (amState a))) (\<lambda>metadata.
      and_then (settled (resolve_page_actions d a \<lparr>trComponents = cs, trSections = secs\<rparr>)) (\<lambda>tree.
      let shown = without_page_actions removeActions tree in
      and_then (settled (to_agreement_summary a)) (\<lambda>summary.
      Some (Inr (JObj ([(''agreement'', summary), (''page'', JObj metadata), (''components'', JArr (trComponents shown))]
        @ present ''sections'' (if includeSections then Some (JArr (map JObj (trSections shown))) else None))))))))))"

definition build_page_model ::
  "page_env \<Rightarrow> nat \<Rightarrow> agreement_definition \<Rightarrow> agreement_record \<Rightarrow> bool \<Rightarrow> outputs \<Rightarrow> string \<Rightarrow> bool \<Rightarrow> json pending" where
  "build_page_model pg depth d a includeSections outs page removeActions =
     and_then (settled (resolve_page d page)) (\<lambda>pd.
     case page_content pg depth d a includeSections outs page removeActions pd of
       Some (Inl e) \<Rightarrow> Some (Inl (page_failed page a))
     | m \<Rightarrow> m)"

definition build_page_with_processes ::
  "agreements_env \<Rightarrow> page_env \<Rightarrow> nat \<Rightarrow> agreement_definition \<Rightarrow> agreement_record \<Rightarrow> bool \<Rightarrow> string \<Rightarrow> bool \<Rightarrow> json pending" where
  "build_page_with_processes env pg depth d a includeSections page removeActions =
     and_then (settled (run_page_processes (agProcess env) d a page
         \<lparr>exExecutedAt = agNow env, exCorrelationId = Some (amCorrelationId a)\<rparr>)) (\<lambda>outs.
     build_page_model pg depth d a includeSections outs page removeActions)"

definition agreement_page_modes :: "string list" where "agreement_page_modes = [''view'', ''print'']"

definition assert_supported_page_mode :: "string \<Rightarrow> unit res" where
  "assert_supported_page_mode mode =
     (if mode \<in> set agreement_page_modes then Inr ()
      else Inl (Boom NotFound (''Unsupported mode '' @ quoted mode) []))"

definition build_agreement_page ::
  "agreements_env \<Rightarrow> page_env \<Rightarrow> nat \<Rightarrow> agreement_definition \<Rightarrow> agreement_record \<Rightarrow> string \<Rightarrow> string \<Rightarrow> json pending" where
  "build_agreement_page env pg depth d a page mode =
     and_then (settled (assert_supported_page_mode mode)) (\<lambda>_.
     and_then (settled (assert_page_allowed d page (amState a))) (\<lambda>_.
     build_page_with_processes env pg depth d a False page (mode = ''print'')))"

definition document_page :: string where "document_page = ''document''"

definition build_agreement_document_page ::
  "agreements_env \<Rightarrow> page_env \<Rightarrow> nat \<Rightarrow> agreement_definition \<Rightarrow> agreement_record \<Rightarrow> json pending" where
  "build_agreement_document_page env pg depth d a = build_page_with_processes env pg depth d a True document_page False"

section \<open>A refused submission\<close>

text \<open>The page is shown again with what was submitted and what is wrong with it.\<close>

fun strictly_equal :: "json option \<Rightarrow> json \<Rightarrow> bool" where
  "strictly_equal (Some v) w = same_leaf v w"
| "strictly_equal None w = False"

definition matches_item :: "json option \<Rightarrow> json \<Rightarrow> bool" where
  "matches_item actual expected =
     (case actual of Some (JArr items) \<Rightarrow> list_ex (\<lambda>v. strictly_equal (Some v) expected) items
      | v \<Rightarrow> strictly_equal v expected)"

definition apply_checkbox_item :: "json option \<Rightarrow> json \<Rightarrow> json res" where
  "apply_checkbox_item submitted item =
     (case item of
        JNull \<Rightarrow> Inl TypeError
      | JObj es \<Rightarrow>
          (case map_of es ''value'' of
             None \<Rightarrow> Inr item
           | Some v \<Rightarrow> Inr (JObj (obj_put ''checked'' (JBool (matches_item submitted v)) es)))
      | _ \<Rightarrow> Inr item)"

definition apply_checkbox_values :: "json option \<Rightarrow> (string \<times> json) list \<Rightarrow> (string \<times> json) list res" where
  "apply_checkbox_values submitted es =
     (case map_of es ''items'' of
        Some (JArr items) \<Rightarrow>
          bind_res (map_res (apply_checkbox_item submitted) items) (\<lambda>vs. Inr (obj_put ''items'' (JArr vs) es))
      | _ \<Rightarrow> Inl TypeError)"

definition apply_submitted_value ::
  "(string \<times> json) list \<Rightarrow> string \<Rightarrow> (string \<times> json) list \<Rightarrow> (string \<times> json) list res" where
  "apply_submitted_value vals name es =
     (if component_is ''checkboxes'' es then apply_checkbox_values (map_of vals name) es
      else case map_of vals name of None \<Rightarrow> Inr es | Some v \<Rightarrow> Inr (obj_put ''value'' v es))"

definition error_named :: "required_field list \<Rightarrow> string \<Rightarrow> required_field option" where
  "error_named errors name = find (\<lambda>e. rqName e = name) (rev errors)"

definition apply_component_state ::
  "(string \<times> json) list \<Rightarrow> required_field list \<Rightarrow> (string \<times> json) list \<Rightarrow> (string \<times> json) list res" where
  "apply_component_state vals errors es =
     (case (map_of es ''component'', map_of es ''name'') of
        (Some (JStr _), Some (JStr name)) \<Rightarrow>
          bind_res (apply_submitted_value vals name es) (\<lambda>fs.
          case error_named errors name of
            None \<Rightarrow> Inr fs
          | Some e \<Rightarrow> Inr (obj_put ''errorMessage'' (JObj [(''text'', JStr (rqMessage e))]) fs))
      | _ \<Rightarrow> Inr es)"

fun apply_component_tree :: "(string \<times> json) list \<Rightarrow> required_field list \<Rightarrow> json \<Rightarrow> json res"
and apply_component_items :: "(string \<times> json) list \<Rightarrow> required_field list \<Rightarrow> json list \<Rightarrow> json list res"
and apply_component_entries ::
  "(string \<times> json) list \<Rightarrow> required_field list \<Rightarrow> (string \<times> json) list \<Rightarrow> (string \<times> json) list res" where
  "apply_component_tree vals errors (JArr items) =
     bind_res (apply_component_items vals errors items) (\<lambda>vs. Inr (JArr vs))"
| "apply_component_tree vals errors (JObj es) =
     bind_res (apply_component_entries vals errors es) (\<lambda>fs.
     bind_res (apply_component_state vals errors fs) (\<lambda>gs. Inr (JObj gs)))"
| "apply_component_tree vals errors v = Inr v"
| "apply_component_items vals errors [] = Inr []"
| "apply_component_items vals errors (v # vs) =
     bind_res (apply_component_tree vals errors v) (\<lambda>w.
     bind_res (apply_component_items vals errors vs) (\<lambda>ws. Inr (w # ws)))"
| "apply_component_entries vals errors [] = Inr []"
| "apply_component_entries vals errors ((k, v) # es) =
     bind_res (apply_component_tree vals errors v) (\<lambda>w.
     bind_res (apply_component_entries vals errors es) (\<lambda>fs. Inr ((k, w) # fs)))"

definition to_error_summary :: "required_field \<Rightarrow> json" where
  "to_error_summary e = JObj [(''href'', JStr (rqHref e)), (''text'', JStr (rqMessage e))]"

definition apply_action_validation ::
  "json \<Rightarrow> (string \<times> json) list \<Rightarrow> required_field list \<Rightarrow> json res" where
  "apply_action_validation pageModel vals errors =
     bind_res (apply_component_tree vals errors (case get_field ''components'' pageModel of None \<Rightarrow> JNull | Some v \<Rightarrow> v)) (\<lambda>cs.
     Inr (JObj (obj_spread (entries_of pageModel)
       [(''components'', cs), (''values'', JObj vals), (''errors'', JArr (map to_error_summary errors))])))"

section \<open>Viewing an Agreement\<close>

text \<open>
  A view is audited once it has been answered; its audit is written outside a transaction, and one that
  cannot be written is only logged. A view that is never answered is not audited.
\<close>

definition await :: "'a pending \<Rightarrow> ('s, 'a option) action" where
  "await m = (case m of None \<Rightarrow> ret None | Some (Inl e) \<Rightarrow> throw e | Some (Inr x) \<Rightarrow> ret (Some x))"

type_synonym viewed = "(agreement_record \<times> json \<times> string) option"

definition audited_view ::
  "agreements_env \<Rightarrow> string \<Rightarrow> (string \<times> json) list \<Rightarrow> (agreements_db, viewed) action \<Rightarrow> (agreements_db, viewed) action" where
  "audited_view env view details m =
     andThen m (\<lambda>r.
     case r of
       None \<Rightarrow> ret None
     | Some (a, model, etag) \<Rightarrow>
         andThen (catch (write_agreement_audit env (build_agreement_view_audit a view details) None SUCCESS) (\<lambda>_. ret ()))
           (\<lambda>_. ret r))"

definition viewed_page :: "agreement_context \<Rightarrow> json pending \<Rightarrow> (agreements_db, viewed) action" where
  "viewed_page ctx m =
     andThen (await m) (\<lambda>model. ret (map_option (\<lambda>v. (gxAgreement ctx, v, gxEtag ctx)) model))"

record current_query =
  cqNumber :: "string option"
  cqCode :: string
  cqClientRef :: string
  cqSbi :: "string option"
  cqMode :: "string option"

definition load_current_for :: "current_query \<Rightarrow> agreements_db \<Rightarrow> agreement_record res" where
  "load_current_for q db =
     (case truthy (cqNumber q) of
        Some number \<Rightarrow> load_current_agreement_by_number number db
      | None \<Rightarrow> load_current_agreement (cqCode q) (cqClientRef q) (cqSbi q) db)"

definition get_current_agreement_page ::
  "agreements_env \<Rightarrow> page_env \<Rightarrow> nat \<Rightarrow> current_query \<Rightarrow> (agreements_db, viewed) action" where
  "get_current_agreement_page env pg depth q =
     audited_view env ''current'' []
       (andThen (reads (load_current_for q)) (\<lambda>r.
        andThen (lift_res r) (\<lambda>a.
        andThen (load_context_of env a) (\<lambda>ctx.
        andThen (lift_res (resolve_page_for_state (gxDefinition ctx) (amState a))) (\<lambda>page.
        viewed_page ctx (build_agreement_page env pg depth (gxDefinition ctx) a page
          (case cqMode q of None \<Rightarrow> ''view'' | Some m \<Rightarrow> m)))))))"

definition get_agreement_document ::
  "agreements_env \<Rightarrow> page_env \<Rightarrow> nat \<Rightarrow> string \<Rightarrow> agreement_access \<Rightarrow> (agreements_db, viewed) action" where
  "get_agreement_document env pg depth number access =
     audited_view env ''document'' []
       (andThen (reads (load_agreement_document number access)) (\<lambda>r.
        andThen (lift_res r) (\<lambda>a.
        andThen (load_context_of env a) (\<lambda>ctx.
        viewed_page ctx (build_agreement_document_page env pg depth (gxDefinition ctx) a)))))"

definition prepare_action_page ::
  "agreements_env \<Rightarrow> page_env \<Rightarrow> nat \<Rightarrow> string \<Rightarrow> string \<Rightarrow> agreement_access \<Rightarrow> (agreements_db, viewed) action" where
  "prepare_action_page env pg depth actionName number access =
     audited_view env ''action-preparation'' [(''actionName'', JStr actionName)]
       (andThen (reads (load_agreement_for_action number access)) (\<lambda>r.
        andThen (lift_res r) (\<lambda>a.
        andThen (load_action_context env a actionName None) (\<lambda>(action, ctx).
        case truthy (aaPage action) of
          None \<Rightarrow> throw (bad_implementation (''Agreement action '' @ quoted actionName @ '' has no configured preparation page''))
        | Some page \<Rightarrow> viewed_page ctx (build_agreement_page env pg depth (gxDefinition ctx) a page ''view'')))))"

end
