(* ===== verification/AgreementPageLaws.thy ===== *)
theory AgreementPageLaws
  imports AgreementPages
begin

text \<open>
  What the pages of an Agreement promise: resolving deeper never changes an answer, components without
  templates are resolved within the depth they have, and what is bound or printed has the actions it
  should.
\<close>

section \<open>Depth\<close>

text \<open>A pending result may settle when more depth is given; a settled one stays.\<close>

definition sooner :: "'a pending \<Rightarrow> 'a pending \<Rightarrow> bool" where
  "sooner m m' \<longleftrightarrow> m = None \<or> m = m'"

lemma sooner_refl [simp, intro]: "sooner m m"
  by (simp add: sooner_def)

lemma sooner_and_then: "sooner m m' \<Longrightarrow> (\<And>x. sooner (f x) (f' x)) \<Longrightarrow> sooner (and_then m f) (and_then m' f')"
  by (auto simp: sooner_def and_then_def split: option.splits sum.splits)

lemma sooner_gather: "(\<And>x. x \<in> set xs \<Longrightarrow> sooner (f x) (g x)) \<Longrightarrow> sooner (gather (map f xs)) (gather (map g xs))"
  by (induction xs) (auto intro!: sooner_and_then)

definition nested_sooner :: "nested \<Rightarrow> nested \<Rightarrow> bool" where
  "nested_sooner f g \<longleftrightarrow> (\<forall>s c. sooner (f s c) (g s c))"

lemma nested_soonerD [intro]: "nested_sooner f g \<Longrightarrow> sooner (f s c) (g s c)"
  by (simp add: nested_sooner_def)

lemma sooner_if: "sooner m m' \<Longrightarrow> sooner k k' \<Longrightarrow> sooner (if b then m else k) (if b then m' else k')"
  by simp

lemma sooner_option:
  "sooner m m' \<Longrightarrow> (\<And>x. sooner (f x) (f' x))
     \<Longrightarrow> sooner (case v of None \<Rightarrow> m | Some x \<Rightarrow> f x) (case v of None \<Rightarrow> m' | Some x \<Rightarrow> f' x)"
  by (cases v) simp_all

lemmas sooner_intros = sooner_if sooner_option sooner_and_then sooner_gather sooner_refl

lemma resolve_tree_node_sooner:
  assumes "nested_sooner f g"
  shows "sooner (resolve_tree_node pg f s es) (resolve_tree_node pg g s es)"
proof (cases "map_of es ''components''")
  case (Some v)
  then show ?thesis
    by (cases v) (simp_all add: resolve_tree_node_def sooner_intros nested_soonerD [OF assms])
qed (simp add: resolve_tree_node_def)

lemma resolve_by_kind_sooner:
  assumes "nested_sooner f g"
  shows "sooner (resolve_by_kind pg f s kind es) (resolve_by_kind pg g s kind es)"
  unfolding resolve_by_kind_def resolve_conditional_def resolve_repeat_def resolve_template_def Let_def
  by (intro sooner_intros resolve_tree_node_sooner nested_soonerD [OF assms] assms)

lemma resolve_component_sooner:
  assumes "nested_sooner f g"
  shows "sooner (resolve_component pg f s c) (resolve_component pg g s c)"
proof (cases c)
  case (JObj es)
  then show ?thesis unfolding resolve_component_def resolve_conditional_def
    by simp (intro conjI impI sooner_intros resolve_by_kind_sooner nested_soonerD [OF assms] assms)
qed (simp_all add: resolve_component_def)

lemma resolve_component_list_sooner: "nested_sooner (resolve_component_list pg n) (resolve_component_list pg (n + k))"
proof (induction n)
  case 0
  show ?case by (simp add: nested_sooner_def sooner_def)
next
  case (Suc n)
  have "sooner (resolve_component_list pg (Suc n) s (Some (JArr cs))) (resolve_component_list pg (Suc (n + k)) s (Some (JArr cs)))"
    for s cs by simp (intro sooner_intros resolve_component_sooner Suc)
  moreover have "resolve_component_list pg (Suc m) s c = Some (Inl TypeError)" if "\<nexists>cs. c = Some (JArr cs)" for m s c
    using that by (auto split: option.splits json.splits)
  ultimately have "sooner (resolve_component_list pg (Suc n) s c) (resolve_component_list pg (Suc (n + k)) s c)" for s c
    by (cases "\<exists>cs. c = Some (JArr cs)") (fastforce simp del: resolve_component_list.simps(2))+
  then show ?case by (simp add: nested_sooner_def del: resolve_component_list.simps(2))
qed

lemma deeper_same:
  assumes "resolve_component_list pg n s c = Some r" and "n \<le> m"
  shows "resolve_component_list pg m s c = Some r"
  using resolve_component_list_sooner [of pg n "m - n"] assms
  by (auto simp: nested_sooner_def sooner_def) (metis option.distinct(1))

section \<open>Components without templates\<close>

fun height :: "json \<Rightarrow> nat" where
  "height (JArr items) = Suc (foldr max (map height items) 0)"
| "height (JObj es) = Suc (foldr max (map (\<lambda>(k, v). height v) es) 0)"
| "height _ = 0"

fun no_template :: "(js_number \<Rightarrow> string) \<Rightarrow> json \<Rightarrow> bool" where
  "no_template numText (JArr items) = list_all (no_template numText) items"
| "no_template numText (JObj es) =
     (js_texts numText (map_of es ''component'') \<noteq> ''template'' \<and> list_all (\<lambda>(k, v). no_template numText v) es)"
| "no_template _ _ = True"

lemma height_max: "x \<in> set xs \<Longrightarrow> f x \<le> foldr max (map f xs) (0 :: nat)"
  by (induction xs) (auto simp: le_max_iff_disj)

lemma height_item: "v \<in> set items \<Longrightarrow> height v < height (JArr items)"
  using height_max [of v items height] by simp

lemma height_field: "map_of es k = Some v \<Longrightarrow> height v < height (JObj es)"
  using height_max [of "(k, v)" es "\<lambda>(k, v). height v"] by (auto dest!: map_of_SomeD)

lemma no_template_field:
  assumes "no_template numText (JObj es)" and "map_of es k = Some v"
  shows "no_template numText v"
  using assms by (auto simp: list_all_iff dest!: map_of_SomeD)

text \<open>An answer is a value or an error; without one the code is still resolving.\<close>

definition answered :: "'a pending \<Rightarrow> bool" where
  "answered m \<longleftrightarrow> m \<noteq> None"

text \<open>A resolver of lists that settles whatever is lower than \<open>n\<close> and has no template.\<close>

definition settles :: "page_env \<Rightarrow> nested \<Rightarrow> nat \<Rightarrow> bool" where
  "settles pg nested n \<longleftrightarrow>
     (\<forall>s v. (\<forall>w. v = Some w \<longrightarrow> height w < n \<and> no_template (pgNumberText pg) w) \<longrightarrow> answered (nested s v))"

lemma settlesD:
  assumes "settles pg nested n" and "\<And>w. v = Some w \<Longrightarrow> height w < n \<and> no_template (pgNumberText pg) w"
  shows "answered (nested s v)"
  using assms by (auto simp: settles_def)

lemma answered_if: "answered m \<Longrightarrow> answered k \<Longrightarrow> answered (if b then m else k)"
  by simp

lemma answered_option:
  "answered m \<Longrightarrow> (\<And>x. v = Some x \<Longrightarrow> answered (f x)) \<Longrightarrow> answered (case v of None \<Rightarrow> m | Some x \<Rightarrow> f x)"
  by (cases v) simp_all

lemma answered_and_then: "answered m \<Longrightarrow> (\<And>x. m = Some (Inr x) \<Longrightarrow> answered (f x)) \<Longrightarrow> answered (and_then m f)"
  by (auto simp: answered_def and_then_def split: option.splits sum.splits)

lemma answered_now [simp]: "answered (Some r)" "answered (settled r)"
  by (simp_all add: answered_def settled_def)

lemma answered_gather: "\<forall>m\<in>set ms. answered m \<Longrightarrow> answered (gather ms)"
  by (induction ms) (auto intro!: answered_and_then)

lemmas answered_intros = answered_if answered_option answered_and_then answered_now

text \<open>The lists that a component holds are lower than the list it stands in.\<close>

definition holds_lower :: "page_env \<Rightarrow> (string \<times> json) list \<Rightarrow> nat \<Rightarrow> bool" where
  "holds_lower pg es n \<longleftrightarrow>
     1 < n \<and> (\<forall>k v. map_of es k = Some v \<longrightarrow> Suc (height v) < n \<and> no_template (pgNumberText pg) v)"

lemma holds_lower_object:
  assumes "height (JObj es) < n" and "no_template (pgNumberText pg) (JObj es)"
  shows "holds_lower pg es n"
  using assms no_template_field [OF assms(2)] height_field [of es] unfolding holds_lower_def
  by (auto simp del: no_template.simps) (fastforce simp del: height.simps)

lemma holds_lower_omit: "holds_lower pg es n \<Longrightarrow> holds_lower pg (omit k es) n"
  by (auto simp: holds_lower_def)

lemma held_settles:
  assumes "settles pg nested n" and "holds_lower pg es n"
  shows "answered (nested s (map_of es k))"
    and "map_of es k = Some v \<Longrightarrow> answered (nested s (Some (to_array v)))"
    and "map_of es k = Some (JArr cs) \<Longrightarrow> answered (nested s (Some (JArr cs)))"
    and "answered (nested s (or_no_components (map_of es k)))"
proof -
  have l: "Suc (height v) < n" "no_template (pgNumberText pg) v" if "map_of es k = Some v" for k v
    using assms(2) that by (auto simp: holds_lower_def)
  show "answered (nested s (map_of es k))" using l by (intro settlesD [OF assms(1)]) fastforce
  show "map_of es k = Some v \<Longrightarrow> answered (nested s (Some (to_array v)))"
    using l by (intro settlesD [OF assms(1)]) (fastforce simp: to_array_def split: json.splits)
  show "map_of es k = Some (JArr cs) \<Longrightarrow> answered (nested s (Some (JArr cs)))"
    using l by (intro settlesD [OF assms(1)]) fastforce
  show "answered (nested s (or_no_components (map_of es k)))"
  proof (intro settlesD [OF assms(1)])
    fix w assume "or_no_components (map_of es k) = Some w"
    then have "map_of es k = Some w \<or> w = JArr []"
      by (auto simp: or_no_components_def split: option.splits json.splits)
    then show "height w < n \<and> no_template (pgNumberText pg) w"
      using l [of k w] assms(2) by (auto simp: holds_lower_def dest: Suc_lessD)
  qed
qed

lemma resolve_tree_node_settles:
  assumes "settles pg nested n" and "holds_lower pg es n"
  shows "answered (resolve_tree_node pg nested s es)"
proof (cases "map_of es ''components''")
  case (Some v)
  have "answered (resolve_tree_node pg nested s es)" if "v = JArr cs" for cs
    using held_settles(3) [OF assms, of "''components''" cs] Some that unfolding resolve_tree_node_def
    by (simp del: resolve_display_value.simps) (intro answered_intros)
  then show ?thesis using Some by (cases v) (simp_all add: resolve_tree_node_def)
qed (simp add: resolve_tree_node_def)

lemma resolve_by_kind_settles:
  assumes "settles pg nested n" and "holds_lower pg es n" and "kind \<noteq> ''template''"
  shows "answered (resolve_by_kind pg nested s kind es)"
proof -
  have "answered (resolve_conditional pg nested s es)" unfolding resolve_conditional_def
    by (intro answered_intros held_settles(2) [OF assms(1,2)])
  moreover have "answered (resolve_repeat pg nested s es)" unfolding resolve_repeat_def
    by (intro answered_intros held_settles(4) [OF assms(1,2)] answered_gather) (auto intro: held_settles(1) [OF assms(1,2)])
  moreover have "answered (and_then (settled (resolve_url pg s es)) (\<lambda>v. Some (Inr [v])))"
    by (intro answered_intros)
  ultimately show ?thesis unfolding resolve_by_kind_def using assms(3)
    by (simp add: resolve_tree_node_settles [OF assms(1,2)] held_settles(1) [OF assms(1,2)])
qed

lemma resolve_component_settles:
  assumes "settles pg nested n" and "height c < n" and "no_template (pgNumberText pg) c"
  shows "answered (resolve_component pg nested s c)"
proof (cases c)
  case (JObj es)
  have l: "holds_lower pg es n" using assms(2,3) unfolding JObj by (rule holds_lower_object)
  have k: "js_texts (pgNumberText pg) (map_of es ''component'') \<noteq> ''template''" using assms(3) JObj by simp
  show ?thesis unfolding JObj resolve_component_def resolve_conditional_def
    by simp (intro conjI impI answered_intros held_settles(2) [OF assms(1) l]
      resolve_by_kind_settles [OF assms(1) holds_lower_omit [OF l] k])
qed (simp_all add: resolve_component_def)

lemma components_settle: "settles pg (resolve_component_list pg (Suc n)) (Suc n)"
proof (induction n)
  case 0
  show ?case unfolding settles_def by (auto split: option.splits json.splits)
next
  case (Suc n)
  have "answered (gather (map (resolve_component pg (resolve_component_list pg (Suc n)) s) cs))"
    if "height (JArr cs) < Suc (Suc n)" "no_template (pgNumberText pg) (JArr cs)" for s cs
  proof (intro answered_gather ballI)
    fix m assume "m \<in> set (map (resolve_component pg (resolve_component_list pg (Suc n)) s) cs)"
    then obtain c where c: "c \<in> set cs" and m: "m = resolve_component pg (resolve_component_list pg (Suc n)) s c" by auto
    have "height c < Suc n" using height_item [OF c] that(1) by simp
    moreover have "no_template (pgNumberText pg) c" using that(2) c by (simp add: list_all_iff)
    ultimately show "answered (m)" unfolding m by (rule resolve_component_settles [OF Suc])
  qed
  then show ?case unfolding settles_def
    by (subst resolve_component_list.simps) (auto intro!: answered_and_then simp del: resolve_component_list.simps
      split: option.splits json.splits)
qed

lemma components_answered:
  assumes "no_template (pgNumberText pg) v" and "height v < depth"
  shows "answered (resolve_components pg depth ctx (Some v))"
  using components_settle [of pg "depth - 1"] assms unfolding resolve_components_def by (intro settlesD) simp_all

section \<open>What a page offers\<close>

text \<open>
  The components that are shown, from the top of a tree through the lists of components; what lies within
  a button belongs to the button.
\<close>

fun tree_nodes :: "json \<Rightarrow> json list"
and list_nodes :: "json list \<Rightarrow> json list"
and entry_nodes :: "(string \<times> json) list \<Rightarrow> json list" where
  "tree_nodes (JObj es) = JObj es # (if component_is ''button'' es then [] else entry_nodes es)"
| "tree_nodes v = []"
| "list_nodes [] = []"
| "list_nodes (v # vs) = tree_nodes v @ list_nodes vs"
| "entry_nodes [] = []"
| "entry_nodes ((k, v) # es) =
     (if k = ''components'' then (case v of JArr cs \<Rightarrow> list_nodes cs | _ \<Rightarrow> []) else entry_nodes es)"

definition is_form :: "json \<Rightarrow> bool" where "is_form n \<longleftrightarrow> component_is ''form'' (entries_of n)"

definition is_button :: "json \<Rightarrow> bool" where "is_button n \<longleftrightarrow> component_is ''button'' (entries_of n)"

text \<open>
  A form posts to an action that resolves, with the requirements of that action; a button submits its
  form or links to an action.
\<close>

definition action_bound :: "string \<Rightarrow> (string \<Rightarrow> agreement_action res) \<Rightarrow> json \<Rightarrow> bool" where
  "action_bound number resolve n \<longleftrightarrow>
     (is_form n \<longrightarrow> (\<exists>name action. resolve name = Inr action
        \<and> get_field ''formAction'' n = Some (JStr (action_href number name))
        \<and> get_field ''submissionRequirements'' n = Some (requirements_json action)))
     \<and> (is_button n \<longrightarrow> get_field ''submit'' n = Some (JBool True)
        \<or> (\<exists>name. get_field ''href'' n = Some (JStr (action_href number name))))"

lemma map_of_components: "entry_nodes es = (case map_of es ''components'' of Some (JArr cs) \<Rightarrow> list_nodes cs | _ \<Rightarrow> [])"
  by (induction es) auto

lemma action_bound_field:
  assumes "\<And>k. k \<noteq> ''components'' \<Longrightarrow> map_of fs k = map_of es k"
  shows "action_bound number resolve (JObj fs) \<longleftrightarrow> action_bound number resolve (JObj es)"
  using assms by (simp add: action_bound_def is_form_def is_button_def component_is_def get_field_def)

lemma bind_keeps_text:
  assumes "bind_actions bd v = Inr w"
  shows "w = JStr t \<longleftrightarrow> v = JStr t"
  using assms by (cases v) (auto simp: bind_button_def bound_form_def bind_res_Inr split: if_splits)

lemma bind_entries_kind:
  "bind_action_entries bd es = Inr fs \<Longrightarrow> component_is kind fs = component_is kind es"
  "bind_form_entries bd es = Inr fs \<Longrightarrow> k \<noteq> ''components'' \<Longrightarrow> map_of fs k = map_of es k"
proof (induction es arbitrary: fs)
  case (Cons e es)
  {
    case 1
    then show ?case using Cons.IH(1) bind_keeps_text
      by (cases e) (fastforce simp: bind_res_Inr component_is_def)
  next
    case 2
    then show ?case using Cons.IH(2) by (cases e) (auto simp: bind_res_Inr split: if_splits)
  }
qed simp_all

lemma bound_form_shows:
  assumes "resolve name = Inr action" and "component_is ''form'' form"
  shows "action_bound number resolve (bound_form number name action (omit ''action'' form))"
    and "map_of (entries_of (bound_form number name action (omit ''action'' form))) ''components'' = map_of form ''components''"
  using assms by (auto simp: action_bound_def is_form_def is_button_def component_is_def get_field_def bound_form_def
      obj_spread_def)

lemma bound_button_shows:
  assumes "bind_button bd es = Inr w" and "component_is ''button'' es"
  shows "tree_nodes w = [w]" and "action_bound (bdNumber bd) resolve w" and "w \<noteq> JArr cs"
  using assms by (auto simp: bind_button_def bind_res_Inr action_bound_def is_form_def is_button_def component_is_def
      get_field_def split: if_splits)

lemma nodes_below:
  assumes "map_of fs ''components'' = map_of es ''components''"
  shows "entry_nodes fs = entry_nodes es"
  using assms by (simp add: map_of_components)

lemma bound_nodes:
  fixes bd :: binding
  defines "B \<equiv> action_bound (bdNumber bd) (bdResolve bd)"
  shows "bind_actions bd v = Inr w \<Longrightarrow> list_all B (tree_nodes w) \<and> (\<forall>cs. w = JArr cs \<longrightarrow> list_all B (list_nodes cs))"
    and "bind_action_items bd vs = Inr ws \<Longrightarrow> list_all B (list_nodes ws)"
    and "bind_action_entries bd es = Inr fs \<Longrightarrow> list_all B (entry_nodes fs)"
    and "bind_form_entries bd es' = Inr fs' \<Longrightarrow> list_all B (entry_nodes fs')"
  unfolding B_def
proof (induction bd v and bd vs and bd es and bd es' arbitrary: w and ws and fs and fs'
    rule: bind_actions_bind_action_items_bind_action_entries_bind_form_entries.induct)
  case (2 bd es)
  let ?B = "action_bound (bdNumber bd) (bdResolve bd)"
  consider (form) "component_is ''form'' es" | (button) "\<not> component_is ''form'' es" "component_is ''button'' es"
    | (other) "\<not> component_is ''form'' es" "\<not> component_is ''button'' es" by blast
  then show ?case
  proof cases
    case form
    then obtain name action f where r: "bdResolve bd name = Inr action"
      and f: "bind_form_entries (bd\<lparr>bdWithinForm := True\<rparr>) es = Inr f"
      and w: "w = bound_form (bdNumber bd) name action (omit ''action'' f)"
      using "2.prems" by (auto simp: bind_res_Inr)
    have k: "component_is ''form'' f" using bind_entries_kind(2) [OF f, of "''component''"] form by (simp add: component_is_def)
    have "list_all ?B (entry_nodes f)" using "2.IH"(1) [OF form f] by simp
    moreover have "entry_nodes (entries_of w) = entry_nodes f"
      unfolding w by (rule nodes_below) (rule bound_form_shows(2) [where resolve = "bdResolve bd", OF r k])
    moreover have "?B w" unfolding w by (rule bound_form_shows(1) [where resolve = "bdResolve bd", OF r k])
    moreover obtain ws where "w = JObj ws" unfolding w bound_form_def by simp
    ultimately show ?thesis by simp
  next
    case button
    then show ?thesis using "2.prems" bound_button_shows [of bd es w] by auto
  next
    case other
    then obtain f where f: "bind_action_entries bd es = Inr f" and w: "w = JObj f"
      using "2.prems" by (auto simp: bind_res_Inr)
    have "?B w" using other bind_entries_kind(1) [OF f] unfolding w
      by (simp add: action_bound_def is_form_def is_button_def)
    then show ?thesis using "2.IH"(2) [OF other f] w by simp
  qed
qed (auto simp: bind_res_Inr split: if_splits json.splits)

section \<open>What a printed page keeps\<close>

lemma removed_kind:
  "k \<noteq> ''components'' \<Longrightarrow> map_of (remove_nested_nodes es) k = map_of es k"
  "map_of (remove_nested_nodes es) ''components'' =
     map_option (\<lambda>v. case v of JArr cs \<Rightarrow> JArr (remove_action_nodes cs) | _ \<Rightarrow> v) (map_of es ''components'')"
  by (induction es) (auto split: json.splits)

lemma list_nodes_append [simp]: "list_nodes (vs @ ws) = list_nodes vs @ list_nodes ws"
  by (induction vs) auto

definition printable :: "json \<Rightarrow> bool" where
  "printable n \<longleftrightarrow> \<not> is_button n \<and> (is_form n \<longrightarrow> (\<nexists>cs. get_field ''components'' n = Some (JArr cs)))"

lemma removed_nodes:
  assumes "\<And>es fs. (\<And>k. k \<noteq> ''components'' \<Longrightarrow> map_of fs k = map_of es k) \<Longrightarrow> B (JObj es) \<Longrightarrow> B (JObj fs)"
  shows "list_all B (tree_nodes v) \<Longrightarrow> list_all (\<lambda>n. B n \<and> printable n) (list_nodes (remove_action_node v))"
    and "list_all B (list_nodes vs) \<Longrightarrow> list_all (\<lambda>n. B n \<and> printable n) (list_nodes (remove_action_nodes vs))"
    and "list_all B (entry_nodes es) \<Longrightarrow> list_all (\<lambda>n. B n \<and> printable n) (entry_nodes (remove_nested_nodes es))"
proof (induction v and vs and es rule: remove_action_node_remove_action_nodes_remove_nested_nodes.induct)
  case (1 es)
  show ?case
  proof (cases "component_is ''button'' es")
    case False
    let ?fs = "remove_nested_nodes es"
    have nested: "list_all (\<lambda>n. B n \<and> printable n) (entry_nodes ?fs)" and b: "B (JObj es)"
      using 1 False by simp_all
    have kind: "component_is k ?fs = component_is k es" for k by (simp add: component_is_def removed_kind(1))
    have bf: "B (JObj ?fs)" using assms [OF removed_kind(1) b] .
    show ?thesis
    proof (cases "\<exists>cs. map_of ?fs ''components'' = Some (JArr cs)")
      case True
      then obtain cs where cs: "map_of ?fs ''components'' = Some (JArr cs)" by blast
      then have "list_all (\<lambda>n. B n \<and> printable n) (list_nodes cs)" using nested by (simp add: map_of_components)
      then show ?thesis using False cs nested kind bf by (simp add: printable_def is_button_def is_form_def)
    next
      case other: False
      then have none: "entry_nodes es = []" "get_field ''components'' (JObj es) \<noteq> Some (JArr cs)" for cs
        by (auto simp: removed_kind(2) map_of_components get_field_def split: option.splits json.splits)
      have "remove_action_node (JObj es) = [JObj es]" using other False
        by (auto simp: Let_def split: option.splits json.splits)
      then show ?thesis using False b none by (simp add: printable_def is_button_def del: remove_action_node.simps)
    qed
  qed simp
qed (auto split: json.splits)

section \<open>Building a page\<close>

definition shown_nodes :: "json \<Rightarrow> json list" where
  "shown_nodes model =
     list_nodes (items_of (get_field ''components'' model))
     @ concat (map (\<lambda>sec. list_nodes (items_of (get_field ''components'' sec))) (items_of (get_field ''sections'' model)))"

lemma page_actions_bound:
  assumes "resolve_page_actions d a tree = Inr bound"
  shows "list_all (action_bound (amNumber a) (resolve_agreement_action (lifecycle_of d) (amState a)))
      (list_nodes (trComponents bound))"
    and "\<forall>sec\<in>set (trSections bound). list_all (action_bound (amNumber a)
      (resolve_agreement_action (lifecycle_of d) (amState a))) (list_nodes (items_of (map_of sec ''components'')))"
proof -
  from assms obtain cs secs where c: "bind_action_items (page_binding d a) (trComponents tree) = Inr cs"
    and b: "bound = \<lparr>trComponents = cs, trSections = secs\<rparr>"
    and s: "list_all2 (\<lambda>sec sec'. \<exists>ds. bind_action_items (page_binding d a) (items_of (map_of sec ''components'')) = Inr ds
      \<and> obj_put ''components'' (JArr ds) sec = sec') (trSections tree) secs"
    by (auto simp: resolve_page_actions_def Let_def bind_res_Inr map_res_Inr)
  show "list_all (action_bound (amNumber a) (resolve_agreement_action (lifecycle_of d) (amState a)))
      (list_nodes (trComponents bound))"
    using bound_nodes(2) [OF c] b by (simp add: page_binding_def)
  show "\<forall>sec\<in>set (trSections bound). list_all (action_bound (amNumber a)
      (resolve_agreement_action (lifecycle_of d) (amState a))) (list_nodes (items_of (map_of sec ''components'')))"
  proof
    fix sec' assume "sec' \<in> set (trSections bound)"
    then obtain sec ds where "bind_action_items (page_binding d a) (items_of (map_of sec ''components'')) = Inr ds"
      and "obj_put ''components'' (JArr ds) sec = sec'"
      using list_all2_in_right [OF s] b by auto blast
    then show "list_all (action_bound (amNumber a) (resolve_agreement_action (lifecycle_of d) (amState a)))
        (list_nodes (items_of (map_of sec' ''components'')))"
      using bound_nodes(2) [of "page_binding d a"] by (auto simp: page_binding_def items_of_def)
  qed
qed

lemma page_content_tree:
  assumes "page_content pg depth d a includeSections outs page removeActions pd = Some (Inr model)"
  obtains tree bound where "resolve_page_actions d a tree = Inr bound"
    and "get_field ''components'' model = Some (JArr (trComponents (without_page_actions removeActions bound)))"
    and "items_of (get_field ''sections'' model) = []
      \<or> items_of (get_field ''sections'' model) = map JObj (trSections (without_page_actions removeActions bound))"
proof -
  from assms obtain tree bound summary metadata secs where "resolve_page_actions d a tree = Inr bound"
    and m: "model = JObj ([(''agreement'', summary), (''page'', JObj metadata),
        (''components'', JArr (trComponents (without_page_actions removeActions bound)))]
      @ present ''sections'' (if includeSections then Some (JArr (map JObj (trSections (without_page_actions removeActions bound))))
          else None))"
    by (auto simp: page_content_def Let_def and_then_Inr)
  then show ?thesis using that [of tree bound] by (auto simp: get_field_def items_of_def present_def)
qed

lemma shown_sections:
  "concat (map (\<lambda>sec. list_nodes (items_of (get_field ''components'' sec))) (map JObj secs))
     = concat (map (\<lambda>sec. list_nodes (items_of (map_of sec ''components''))) secs)"
  by (induction secs) (simp_all add: get_field_def)

lemma page_content_Inr:
  assumes "build_page_model pg depth d a includeSections outs page removeActions = Some (Inr model)"
  obtains pd where "page_content pg depth d a includeSections outs page removeActions pd = Some (Inr model)"
proof -
  from assms obtain pd where
    "(case page_content pg depth d a includeSections outs page removeActions pd of
        Some (Inl e) \<Rightarrow> Some (Inl (page_failed page a)) | m \<Rightarrow> m) = Some (Inr model)"
    unfolding build_page_model_def and_then_Inr by blast
  then show ?thesis using that [of pd] by (cases "page_content pg depth d a includeSections outs page removeActions pd")
    (simp_all split: sum.splits)
qed

text \<open>Every component of a page is bound as it should be, and printable where its actions are removed.\<close>

lemma page_shows:
  assumes "build_page_model pg depth d a includeSections outs page removeActions = Some (Inr model)"
    and "n \<in> set (shown_nodes model)"
  shows "action_bound (amNumber a) (resolve_agreement_action (lifecycle_of d) (amState a)) n"
    and "removeActions \<longrightarrow> printable n"
proof -
  let ?B = "action_bound (amNumber a) (resolve_agreement_action (lifecycle_of d) (amState a))"
  let ?P = "\<lambda>n. ?B n \<and> (removeActions \<longrightarrow> printable n)"
  from assms(1) obtain pd where "page_content pg depth d a includeSections outs page removeActions pd = Some (Inr model)"
    by (rule page_content_Inr)
  then obtain tree bound where bound: "resolve_page_actions d a tree = Inr bound"
    and cs: "get_field ''components'' model = Some (JArr (trComponents (without_page_actions removeActions bound)))"
    and secs: "items_of (get_field ''sections'' model) = []
      \<or> items_of (get_field ''sections'' model) = map JObj (trSections (without_page_actions removeActions bound))"
    by (rule page_content_tree)
  have removed: "list_all (\<lambda>n. ?B n \<and> printable n) (list_nodes (remove_action_nodes vs))"
    if "list_all ?B (list_nodes vs)" for vs
    using that by (rule removed_nodes(2) [rotated]) (rule action_bound_field [THEN iffD2], assumption+)
  note b = page_actions_bound [OF bound]
  have "list_all ?P (list_nodes (trComponents (without_page_actions removeActions bound)))"
    using b(1) removed [OF b(1)] by (simp add: without_page_actions_def)
  moreover have "list_all ?P (list_nodes (items_of (map_of sec ''components'')))"
    if s: "sec \<in> set (trSections (without_page_actions removeActions bound))" for sec
  proof (cases removeActions)
    case True
    then obtain sec' where "sec' \<in> set (trSections bound)"
      and "sec = obj_put ''components'' (JArr (remove_action_nodes (items_of (map_of sec' ''components'')))) sec'"
      using s by (auto simp: without_page_actions_def)
    then show ?thesis using removed [of "items_of (map_of sec' ''components'')"] b(2) True
      by (simp add: items_of_def [of "Some _"])
  next
    case False
    then show ?thesis using s b(2) by (simp add: without_page_actions_def)
  qed
  then have "list_all ?P (concat (map (\<lambda>sec. list_nodes (items_of (map_of sec ''components'')))
      (trSections (without_page_actions removeActions bound))))"
    by (simp add: list_all_iff)
  ultimately have "list_all ?P (shown_nodes model)"
    using secs unfolding shown_nodes_def cs items_of_def [of "Some _"] by (auto simp: shown_sections simp del: map_map)
  then show "?B n" and "removeActions \<longrightarrow> printable n" using assms(2) by (simp_all add: list_all_iff)
qed

section \<open>An answer, however deep\<close>

lemma resolve_components_sooner: "n \<le> m \<Longrightarrow> sooner (resolve_components pg n ctx v) (resolve_components pg m ctx v)"
  using resolve_component_list_sooner [of pg n "m - n"] by (simp add: resolve_components_def nested_sooner_def)

lemma resolve_sections_sooner: "n \<le> m \<Longrightarrow> sooner (resolve_sections pg n ctx v) (resolve_sections pg m ctx v)"
  by (auto simp: resolve_sections_def resolve_section_def Let_def split: option.splits json.splits
      intro!: sooner_and_then sooner_gather sooner_if resolve_components_sooner)

lemma page_content_sooner:
  assumes "n \<le> m"
  shows "sooner (page_content pg n d a secs outs page removeActions pd) (page_content pg m d a secs outs page removeActions pd)"
  unfolding page_content_def Let_def
  by (intro sooner_intros resolve_components_sooner [OF assms] resolve_sections_sooner [OF assms])

lemma build_page_model_sooner:
  assumes "n \<le> m"
  shows "sooner (build_page_model pg n d a secs outs page removeActions) (build_page_model pg m d a secs outs page removeActions)"
  unfolding build_page_model_def
proof (rule sooner_and_then [OF sooner_refl])
  fix pd
  have "sooner (page_content pg n d a secs outs page removeActions pd) (page_content pg m d a secs outs page removeActions pd)"
    using assms by (rule page_content_sooner)
  then show "sooner (case page_content pg n d a secs outs page removeActions pd of
        Some (Inl e) \<Rightarrow> Some (Inl (page_failed page a)) | k \<Rightarrow> k)
      (case page_content pg m d a secs outs page removeActions pd of
        Some (Inl e) \<Rightarrow> Some (Inl (page_failed page a)) | k \<Rightarrow> k)"
    by (auto simp: sooner_def)
qed

lemma sections_answered:
  assumes "no_template (pgNumberText pg) v" and "height v \<le> depth"
  shows "answered (resolve_sections pg depth ctx (Some v))"
proof (cases v)
  case (JArr secs)
  have "answered (resolve_section pg depth ctx sec)" if sec: "sec \<in> set secs" for sec
  proof -
    have low: "no_template (pgNumberText pg) w \<and> height w < depth" if w: "map_of (entries_of sec) ''components'' = Some w" for w
    proof (cases sec)
      case (JObj es)
      have "height w < height (JObj es)" using w JObj height_field by simp
      moreover have "height (JObj es) < height v" using height_item [OF sec] JArr JObj by simp
      moreover have "no_template (pgNumberText pg) (JObj es)" using assms(1) sec JArr JObj
        by (simp add: list_all_iff del: no_template.simps(2))
      ultimately show ?thesis using no_template_field [of _ es] w JObj assms(2) by fastforce
    qed (use w in simp_all)
    have "0 < depth" using assms(2) JArr by simp
    have "answered (resolve_components pg depth ctx (map_of (entries_of sec) ''components''))"
    proof (cases "map_of (entries_of sec) ''components''")
      case None
      then show ?thesis using \<open>0 < depth\<close> by (cases depth) (simp_all add: resolve_components_def)
    next
      case (Some w)
      then show ?thesis using low [OF Some] components_answered by simp
    qed
    then show ?thesis unfolding resolve_section_def Let_def by (intro answered_intros)
  qed
  then have "answered (gather (map (resolve_section pg depth ctx) secs))" by (intro answered_gather) simp
  then show ?thesis using JArr by (simp add: resolve_sections_def) (intro answered_intros)
qed (simp_all add: resolve_sections_def)

lemma page_content_answered:
  assumes "no_template (pgNumberText pg) pd" and "height pd \<le> depth" and "0 < depth"
  shows "answered (page_content pg depth d a secs outs page removeActions pd)"
proof -
  have low: "no_template (pgNumberText pg) v" "height v < depth" if "get_field k pd = Some v" for k v
    using that assms(1,2) no_template_field height_field [of "entries_of pd" k v]
    by (cases pd; fastforce simp: get_field_def)+
  have "answered (resolve_components pg depth ctx (get_field ''components'' pd))" for ctx
  proof (cases "get_field ''components'' pd")
    case None
    then show ?thesis using assms(3) by (cases depth) (simp_all add: resolve_components_def)
  next
    case (Some v)
    then show ?thesis using low components_answered by simp
  qed
  moreover have "answered (resolve_sections pg depth ctx (get_field ''sections'' pd))" for ctx
  proof (cases "get_field ''sections'' pd")
    case (Some v)
    then show ?thesis using low [OF Some] sections_answered by simp
  qed (simp add: resolve_sections_def)
  ultimately show ?thesis unfolding page_content_def Let_def by (intro answered_intros)
qed

lemma build_page_model_answered:
  assumes "\<And>pd. resolve_page d page = Inr pd \<Longrightarrow> no_template (pgNumberText pg) pd \<and> height pd \<le> depth" and "0 < depth"
  shows "answered (build_page_model pg depth d a secs outs page removeActions)"
  unfolding build_page_model_def
proof (intro answered_and_then answered_now)
  fix pd assume "settled (resolve_page d page) = Some (Inr pd)"
  then have "answered (page_content pg depth d a secs outs page removeActions pd)"
    using assms page_content_answered by simp
  then show "answered (case page_content pg depth d a secs outs page removeActions pd of
      Some (Inl e) \<Rightarrow> Some (Inl (page_failed page a)) | m \<Rightarrow> m)"
    by (auto simp: answered_def split: sum.splits)
qed

end
