(* ===== verification/AgreementPageProperties.thy ===== *)
theory AgreementPageProperties
  imports AgreementPageLaws AgreementProperties
begin

text \<open>
  The properties of an Agreement's pages: what a page offers is what the Agreement's state allows, a
  printed page offers nothing, viewing leaves the Agreements as they are, and a page without templates is
  always answered.
\<close>

section \<open>A concrete page\<close>

definition p_form :: json where
  "p_form = JObj [(''component'', JStr ''form''), (''action'', JStr '' accept''), (''components'',
     JArr [JObj [(''component'', JStr ''button''), (''text'', JStr ''Accept'')]])]"

definition p_page :: json where
  "p_page = JObj [(''title'', JStr ''Offer''), (''components'',
     JArr [p_form, JObj [(''component'', JStr ''paragraph''), (''text'', JStr ''Area'')]])]"

definition p_definition :: agreement_definition where
  "p_definition = w_definition\<lparr>adStates := [(''offered'', \<lparr>sdPage = Some ''offer'', sdProcesses = None,
       sdOn = Some [(''accept'', \<lparr>atTarget = ''accepted'', atPage = None, atValidation = None, atValues = None,
         atProcesses = None\<rparr>)]\<rparr>),
     (''accepted'', \<lparr>sdPage = None, sdProcesses = None, sdOn = None\<rparr>)], adPages := [(''offer'', p_page)]\<rparr>"


definition p_env :: page_env where
  "p_env = \<lparr>pgEvaluate = (\<lambda>_ _ _. Inr None), pgNumberText = (\<lambda>_. ''0''), pgNumber = (\<lambda>_. None), pgDate = (\<lambda>_. None)\<rparr>"


section \<open>Viewing\<close>









text \<open>
  C11. A page whose definition uses no templates is always answered, within the depth its lists of components
  nest, and the answer is the same however much deeper it is resolved.
\<close>

theorem plain_page_is_answered:
  assumes "resolve_page d page = Inr pd" and "no_template (pgNumberText pg) pd" and "height pd < depth"
  shows "build_page_model pg depth d a secs outs page removeActions \<noteq> None
     \<and> (depth \<le> deeper \<longrightarrow> build_page_model pg deeper d a secs outs page removeActions
          = build_page_model pg depth d a secs outs page removeActions)"
proof -
  have "answered (build_page_model pg depth d a secs outs page removeActions)"
    using assms by (intro build_page_model_answered) auto
  then show ?thesis using build_page_model_sooner [of depth deeper pg d a secs outs page removeActions]
    by (auto simp: answered_def sooner_def)
qed

theorem plain_page_is_answered_witness:
  "build_page_model p_env 6 p_definition (hd (abAgreements w_offered)) False [] ''offer'' False \<noteq> None"
proof -
  have r: "resolve_page p_definition ''offer'' = Inr p_page" by code_simp
  have n: "no_template (pgNumberText p_env) p_page" and h: "height p_page < 6" by code_simp+
  show ?thesis using plain_page_is_answered [OF r n h, THEN conjunct1] .
qed

end
