(* ===== verification/CaseworkingClient.thy ===== *)
theory CaseworkingClient
  imports JsValues Queue BucketEngine Publication
begin

text \<open>
  Asking Caseworking (\<open>src/grant-admin/repositories\<close>: cw-http.js, cw-actuators.repository.js,
  cw-workflows.repository.js, cw-users.repository.js; \<open>services/operator-roles.js\<close>, \<open>services/cw-conflict.js\<close>).
  A request is built, sent, and answered with a payload or an error of the HTTP client that carries the
  status and the body Caseworking sent. What a failure becomes is looked up by its status; of the body only
  a known status of an event and a known reason are read. The addition of the path to the base URL,
  the client and the shapes Joi checks are parameters; a value the code sets to null in an error's payload
  is left out of it.
\<close>

section \<open>Sending\<close>

datatype cw_payload = NoPayload | RawPayload string | ParsedPayload json

record cw_error =
  ceStatus :: "nat option"
  cePayload :: cw_payload

record cw_call =
  ccMethod :: string
  ccPath :: string
  ccBody :: "json option"
  ccHeaders :: "(string \<times> string) list"
  ccMaxBytes :: "nat option"
  ccTimeout :: nat

datatype cw_schema = CatalogueAnswer | SummaryAnswer | TimelineAnswer | QueryAnswer
  | WorkflowVersionsAnswer | WorkflowVersionAnswer | ExistenceAnswer | FetchAnswer

record cw_env =
  cvUrl :: "string option"
  cvToken :: "string option"
  cvTimeout :: nat
  cvUser :: "string option"
  cvParse :: "string \<Rightarrow> json option"
  cvNumText :: "js_number \<Rightarrow> string"
  cvReads :: "cw_schema \<Rightarrow> json \<Rightarrow> json option"
  cvSend :: "cw_call \<Rightarrow> cw_error + json"

definition is_cw_configured :: "cw_env \<Rightarrow> bool" where
  "is_cw_configured env \<longleftrightarrow> js_truthy_string (cvUrl env) \<and> js_truthy_string (cvToken env)"

definition timeout_statuses :: "nat list" where "timeout_statuses = [504, 408]"

definition describe_cw_error :: "cw_error \<Rightarrow> string" where
  "describe_cw_error e =
     (case ceStatus e of
        None \<Rightarrow> ''read failed''
      | Some st \<Rightarrow> if st \<in> set timeout_statuses then ''timeout'' else ''HTTP '' @ show_nat st)"

definition actor_id_header :: "cw_env \<Rightarrow> (string \<times> string) list" where
  "actor_id_header env = (if js_truthy_string (cvUser env) then present ''x-actor-id'' (cvUser env) else [])"

definition request_headers :: "cw_env \<Rightarrow> (string \<times> string) list \<Rightarrow> (string \<times> string) list" where
  "request_headers env headers =
     obj_spread ((''authorization'', ''Bearer '' @ (case cvToken env of None \<Rightarrow> ''undefined'' | Some t \<Rightarrow> t))
       # actor_id_header env) headers"

text \<open>The body of an error: parsed if the client left it raw, null if it cannot be.\<close>

definition body_of :: "cw_env \<Rightarrow> cw_error \<Rightarrow> json option" where
  "body_of env e =
     (case cePayload e of
        NoPayload \<Rightarrow> None
      | RawPayload s \<Rightarrow> (case cvParse env s of None \<Rightarrow> Some JNull | Some v \<Rightarrow> Some v)
      | ParsedPayload v \<Rightarrow> Some v)"

definition body_field :: "cw_env \<Rightarrow> string \<Rightarrow> cw_error \<Rightarrow> json option" where
  "body_field env k e = Option.bind (body_of env e) (get_field k)"

type_synonym failure = "cw_env \<Rightarrow> cw_error \<Rightarrow> string \<Rightarrow> string \<Rightarrow> js_error"

record failures =
  flCases :: "(nat \<times> failure) list"
  flOtherwise :: "failure option"

definition cw_unavailable :: failure where
  "cw_unavailable env e label expected = Boom BadGateway (''CW-BE is unavailable: '' @ describe_cw_error e) []"

definition to_failure :: "failures \<Rightarrow> failure" where
  "to_failure fl env e label expected =
     (case Option.bind (ceStatus e) (map_of (flCases fl)) of
        Some f \<Rightarrow> f env e label expected
      | None \<Rightarrow> (case flOtherwise fl of Some f \<Rightarrow> f env e label expected | None \<Rightarrow> cw_unavailable env e label expected))"

record cw_request =
  cqMethod :: string
  cqPath :: string
  cqLabel :: string
  cqBody :: "json option"
  cqExpected :: string
  cqFailures :: failures
  cqHeaders :: "(string \<times> string) list"
  cqMaxBytes :: "nat option"

definition call_of :: "cw_env \<Rightarrow> cw_request \<Rightarrow> cw_call" where
  "call_of env rq = \<lparr>ccMethod = cqMethod rq, ccPath = cqPath rq, ccBody = cqBody rq,
     ccHeaders = request_headers env (cqHeaders rq), ccMaxBytes = cqMaxBytes rq, ccTimeout = cvTimeout env\<rparr>"

text \<open>An error that is thrown remembers the status it answers, for the retry without the document.\<close>

definition cw_send :: "cw_env \<Rightarrow> cw_request \<Rightarrow> json res" where
  "cw_send env rq =
     (if \<not> is_cw_configured env then Inl (Boom BadGateway ''CW-BE is not configured'' [])
      else case cvSend env (call_of env rq) of
        Inr payload \<Rightarrow> Inr payload
      | Inl e \<Rightarrow> Inl (to_failure (cqFailures rq) env e (cqLabel rq) (cqExpected rq)))"

definition operator_headers :: "string option \<Rightarrow> bool \<Rightarrow> (string \<times> string) list" where
  "operator_headers actor repeat =
     (if js_truthy_string actor then present ''x-actor'' actor else [])
     @ (if repeat then [(''x-search-repeat'', ''1'')] else [])"

definition is_document_too_large :: "string option \<Rightarrow> js_error \<Rightarrow> bool" where
  "is_document_too_large include e \<longleftrightarrow>
     js_truthy_string include \<and> (case e of Boom b _ _ \<Rightarrow> status_code b = 413 | _ \<Rightarrow> False)"

text \<open>A document over the limit is read again without it.\<close>

definition with_document_retry :: "(string option \<Rightarrow> 'a res) \<Rightarrow> string option \<Rightarrow> ('a \<times> bool) res" where
  "with_document_retry rd include =
     (case rd include of
        Inr x \<Rightarrow> Inr (x, False)
      | Inl e \<Rightarrow> if is_document_too_large include e then bind_res (rd None) (\<lambda>x. Inr (x, True)) else Inl e)"

section \<open>Events\<close>

definition event_statuses :: "string list" where
  "event_statuses = map status_text [PUBLISHED, PROCESSING, FAILED, RESUBMITTED, COMPLETED, DEAD_LETTER, PURGED]"

definition known_text :: "string list \<Rightarrow> json option \<Rightarrow> string option" where
  "known_text known v = (case v of Some (JStr s) \<Rightarrow> if s \<in> set known then Some s else None | _ \<Rightarrow> None)"

definition conflict_status_of :: "cw_env \<Rightarrow> cw_error \<Rightarrow> string option" where
  "conflict_status_of env e = known_text event_statuses (body_field env ''status'' e)"

definition to_conflict :: failure where
  "to_conflict env e label expected =
     (case conflict_status_of env e of
        Some st \<Rightarrow> Boom Conflict (''CW-BE '' @ label @ '' is '' @ st @ '', not '' @ expected) [(''status'', st)]
      | None \<Rightarrow> Boom Conflict (''CW-BE '' @ label @ '' is not '' @ expected) [])"

definition edit_refusal_reasons :: "string list" where
  "edit_refusal_reasons = [''TOO_LARGE'', ''UNCHANGED'', ''NOT_AN_OBJECT'', ''DOLLAR_KEY'']"

definition refusal_reason_of :: "cw_env \<Rightarrow> cw_error \<Rightarrow> string option" where
  "refusal_reason_of env e = known_text edit_refusal_reasons (body_field env ''reason'' e)"

definition to_refusal :: failure where
  "to_refusal env e label expected =
     Boom BadData (''CW-BE refused the payload of '' @ label) (present ''reason'' (refusal_reason_of env e))"

definition event_not_found_failure :: failure where
  "event_not_found_failure env e label expected = Boom NotFound (''CW-BE '' @ label @ '' not found'') []"

definition event_stale :: failure where
  "event_stale env e label expected =
     Boom PreconditionFailed (''CW-BE '' @ label @ '' was edited since the revision given'') []"

definition event_timed_out :: failure where
  "event_timed_out env e label expected = Boom GatewayTimeout (''CW-BE did not answer in time for '' @ label) []"

definition event_failures :: failures where
  "event_failures = \<lparr>flCases = [(404, event_not_found_failure), (409, to_conflict), (412, event_stale), (422, to_refusal),
     (504, event_timed_out), (408, event_timed_out)], flOtherwise = None\<rparr>"

definition event_path :: "string \<Rightarrow> string \<Rightarrow> string" where
  "event_path box i = ''/actuators/events/'' @ box @ ''/'' @ encode_uri_component i"

definition label_for :: "string \<Rightarrow> string \<Rightarrow> string" where "label_for box i = box @ '' event '' @ quoted i"

definition event_request :: "string \<Rightarrow> string \<Rightarrow> string \<Rightarrow> string \<Rightarrow> json option \<Rightarrow> string \<Rightarrow> cw_request" where
  "event_request http box i path body expected =
     \<lparr>cqMethod = http, cqPath = path, cqLabel = label_for box i, cqBody = body, cqExpected = expected,
      cqFailures = event_failures, cqHeaders = [], cqMaxBytes = None\<rparr>"

definition find_cw_event :: "cw_env \<Rightarrow> string \<Rightarrow> string \<Rightarrow> json res" where
  "find_cw_event env box i = cw_send env (event_request ''get'' box i (event_path box i) None (status_text DEAD_LETTER))"

definition with_actor :: "string \<Rightarrow> string option \<Rightarrow> string" where
  "with_actor path who =
     (case truthy who of None \<Rightarrow> path | Some w \<Rightarrow> path @ ''?by='' @ encode_uri_component w)"

definition redrive_cw_event :: "cw_env \<Rightarrow> string \<Rightarrow> string \<Rightarrow> string option \<Rightarrow> json res" where
  "redrive_cw_event env box i who =
     cw_send env (event_request ''post'' box i (with_actor (event_path box i @ ''/redrive'') who) None redrivable_description)"

definition purge_body :: "string \<Rightarrow> string option \<Rightarrow> json" where
  "purge_body reasonCode note = JObj ((''reasonCode'', JStr reasonCode) # present ''note'' (map_option JStr note))"

definition purge_cw_event :: "cw_env \<Rightarrow> string \<Rightarrow> string \<Rightarrow> string \<Rightarrow> string \<Rightarrow> string option \<Rightarrow> json res" where
  "purge_cw_event env box i who reasonCode note =
     cw_send env (event_request ''post'' box i (event_path box i @ ''/purge?by='' @ encode_uri_component who)
       (Some (purge_body reasonCode note)) (status_text DEAD_LETTER))"

definition edit_cw_payload :: "cw_env \<Rightarrow> string \<Rightarrow> string \<Rightarrow> string \<Rightarrow> json \<Rightarrow> json \<Rightarrow> nat \<Rightarrow> json res" where
  "edit_cw_payload env box i who payload note revision =
     cw_send env (event_request ''post'' box i (event_path box i @ ''/payload?by='' @ encode_uri_component who)
       (Some (JObj [(''payload'', payload), (''note'', note), (''revision'', JNum (Finite (int revision) 0 0))]))
       editable_description)"

text \<open>A conflict gains the label of its status, as this service's own conflicts have it.\<close>

definition with_status_label :: "js_error \<Rightarrow> js_error" where
  "with_status_label e =
     (case e of
        Boom b m payload \<Rightarrow>
          (case truthy (map_of payload ''status'') of
             None \<Rightarrow> e
           | Some st \<Rightarrow> Boom b m (obj_put ''statusLabel''
               (case find (\<lambda>s. status_text s = st) [PROCESSING, PUBLISHED, FAILED, COMPLETED, RESUBMITTED, DEAD_LETTER, PURGED] of
                  Some s \<Rightarrow> status_label_of s | None \<Rightarrow> st) payload))
      | _ \<Rightarrow> e)"

section \<open>Cases\<close>

definition case_not_found_reason :: string where "case_not_found_reason = ''CASE_NOT_FOUND''"

definition case_max_bytes :: nat where "case_max_bytes = 4 * 1024 * 1024"

definition not_found_or_missing_route :: failure where
  "not_found_or_missing_route env e label expected =
     (if body_field env ''reason'' e = Some (JStr case_not_found_reason)
      then Boom NotFound ''case not found'' [(''reason'', case_not_found_reason)]
      else Boom BadGateway ''CW-BE has no cases route'' [])"

definition case_too_large :: failure where
  "case_too_large env e label expected = Boom EntityTooLarge ''CW-BE case is over the read limit'' []"

definition case_unavailable :: failure where
  "case_unavailable env e label expected = Boom BadGateway (''CW-BE cases unavailable: '' @ describe_cw_error e) []"

definition case_timed_out :: failure where
  "case_timed_out env e label expected = Boom GatewayTimeout ''CW-BE cases did not answer in time'' []"

definition case_failures :: failures where
  "case_failures = \<lparr>flCases = [(404, not_found_or_missing_route), (413, case_too_large), (504, case_timed_out),
     (408, case_timed_out)], flOtherwise = Some case_unavailable\<rparr>"

definition case_request :: "string \<Rightarrow> string option \<Rightarrow> cw_request" where
  "case_request path actor =
     \<lparr>cqMethod = ''get'', cqPath = path, cqLabel = ''cases'', cqBody = None, cqExpected = ''undefined'',
      cqFailures = case_failures, cqHeaders = operator_headers actor False, cqMaxBytes = Some case_max_bytes\<rparr>"

definition case_path :: "string \<Rightarrow> string \<Rightarrow> string" where
  "case_path workflowCode caseRef =
     ''/actuators/cases/'' @ encode_uri_component workflowCode @ ''/'' @ encode_uri_component caseRef"

definition to_series_member :: "json \<Rightarrow> json res" where
  "to_series_member v =
     (if v = JNull then Inl TypeError else Inr (JObj (pick [''caseRef'', ''position'', ''createdAt'', ''closedAt''] v)))"

definition to_case_series :: "json \<Rightarrow> json res" where
  "to_case_series v =
     (case get_field ''members'' v of
        None \<Rightarrow> Inr (JObj (pick [''latestRef'', ''refs''] v))
      | Some (JArr members) \<Rightarrow>
          bind_res (map_res to_series_member members) (\<lambda>ms.
          Inr (JObj (pick [''latestRef'', ''refs''] v @ [(''members'', JArr ms)])))
      | _ \<Rightarrow> Inl TypeError)"

definition to_case_summary :: "json option \<Rightarrow> json res" where
  "to_case_summary found =
     bind_res (read_prop found ''ref'') (\<lambda>ref.
     bind_res (read_prop ref ''caseRef'') (\<lambda>caseRef.
     bind_res (read_prop ref ''workflowCode'') (\<lambda>workflowCode.
     bind_res (case Option.bind found (get_field ''series'') of
         None \<Rightarrow> Inr None
       | Some v \<Rightarrow> if json_truthy (Some v) then bind_res (to_case_series v) (\<lambda>s. Inr (Some s)) else Inr (Some v)) (\<lambda>series.
     Inr (JObj (present ''caseRef'' caseRef @ present ''workflowCode'' workflowCode
       @ pick [''position'', ''closed'', ''closedAt'', ''createdAt'', ''originalConfigVersion'', ''currentConfigVersion'']
           (the found)
       @ present ''series'' series))))))"

record case_read =
  crSummary :: json
  crStoredBytes :: "json option"
  crDocument :: json

definition nullish :: "json option \<Rightarrow> json" where
  "nullish v = (case v of None \<Rightarrow> JNull | Some x \<Rightarrow> x)"

definition include_query :: "string option \<Rightarrow> string" where
  "include_query include = (case truthy include of None \<Rightarrow> [] | Some i \<Rightarrow> ''?include='' @ encode_uri_component i)"

definition read_cw_case :: "cw_env \<Rightarrow> string \<Rightarrow> string \<Rightarrow> string option \<Rightarrow> string option \<Rightarrow> case_read res" where
  "read_cw_case env workflowCode caseRef actor include =
     bind_res (cw_send env (case_request (case_path workflowCode caseRef @ include_query include) actor)) (\<lambda>answer.
     bind_res (read_prop (Some answer) ''case'') (\<lambda>found.
     bind_res (to_case_summary found) (\<lambda>summary.
     Inr \<lparr>crSummary = summary, crStoredBytes = get_field ''storedBytes'' answer,
          crDocument = nullish (get_field ''document'' answer)\<rparr>)))"

definition find_cw_case ::
  "cw_env \<Rightarrow> string \<Rightarrow> string \<Rightarrow> string option \<Rightarrow> string option \<Rightarrow> (case_read \<times> bool) res" where
  "find_cw_case env workflowCode caseRef actor include =
     with_document_retry (read_cw_case env workflowCode caseRef actor) include"

definition find_cw_case_existence :: "cw_env \<Rightarrow> string \<Rightarrow> string \<Rightarrow> json res" where
  "find_cw_case_existence env workflowCode caseRef =
     cw_send env (case_request (case_path workflowCode caseRef @ ''/existence'') None)"

section \<open>Buckets\<close>

definition all_refusals :: "refusal list" where
  "all_refusals = [UnknownBucket, UnknownSummary, UnknownFact, UnknownRefKind, UnknownGrouping, InvalidCursor,
     InvalidRange, InvalidRequest, TimedOut]"

definition buckets_unavailable :: failure where
  "buckets_unavailable env e label expected = Boom BadGateway (''CW-BE buckets unavailable: '' @ describe_cw_error e) []"

definition buckets_timed_out :: failure where
  "buckets_timed_out env e label expected = refuse_query TimedOut"

definition bucket_refusal_of :: "cw_env \<Rightarrow> cw_error \<Rightarrow> js_error option" where
  "bucket_refusal_of env e =
     map_option refuse_query (find (\<lambda>r. body_field env ''reason'' e = Some (JStr (refusal_reason r))) all_refusals)"

definition bucket_refused :: failure where
  "bucket_refused env e label expected =
     (case bucket_refusal_of env e of Some r \<Rightarrow> r | None \<Rightarrow> buckets_unavailable env e label expected)"

definition bucket_not_found :: failure where
  "bucket_not_found env e label expected =
     (case bucket_refusal_of env e of Some r \<Rightarrow> r | None \<Rightarrow> Boom BadGateway ''CW-BE has no bucket routes'' [])"

definition bucket_failures :: failures where
  "bucket_failures = \<lparr>flCases = [(400, bucket_refused), (404, bucket_not_found), (504, buckets_timed_out),
     (408, buckets_timed_out)], flOtherwise = Some buckets_unavailable\<rparr>"

record operator =
  opActor :: "string option"
  opRepeat :: bool

definition buckets_request :: "string \<Rightarrow> string \<Rightarrow> operator \<Rightarrow> json option \<Rightarrow> cw_request" where
  "buckets_request http path who body =
     \<lparr>cqMethod = http, cqPath = path, cqLabel = ''buckets'', cqBody = body, cqExpected = ''undefined'',
      cqFailures = bucket_failures, cqHeaders = operator_headers (opActor who) (opRepeat who), cqMaxBytes = None\<rparr>"

definition unreadable_answer :: "string \<Rightarrow> js_error" where
  "unreadable_answer what = Boom BadGateway (''CW-BE answered '' @ what @ '' that cannot be read'') []"

definition read_answer :: "cw_env \<Rightarrow> cw_schema \<Rightarrow> string \<Rightarrow> json \<Rightarrow> json res" where
  "read_answer env schema what payload =
     (case cvReads env schema payload of None \<Rightarrow> Inl (unreadable_answer what) | Some v \<Rightarrow> Inr v)"

definition is_cw_entry :: "json \<Rightarrow> bool" where
  "is_cw_entry entry \<longleftrightarrow> (case get_field ''id'' entry of Some (JStr i) \<Rightarrow> starts_with i ''cw.'' | _ \<Rightarrow> False)"

definition array_items :: "json option \<Rightarrow> json list" where
  "array_items v = (case v of Some (JArr items) \<Rightarrow> items | _ \<Rightarrow> [])"

definition find_cw_buckets :: "cw_env \<Rightarrow> json list res" where
  "find_cw_buckets env =
     bind_res (cw_send env (buckets_request ''get'' ''/actuators/buckets'' \<lparr>opActor = None, opRepeat = False\<rparr> None)) (\<lambda>payload.
     bind_res (read_answer env CatalogueAnswer ''a bucket catalogue'' payload) (\<lambda>v.
     Inr (filter is_cw_entry (array_items (get_field ''buckets'' v)))))"

definition query_cw_bucket :: "cw_env \<Rightarrow> string \<Rightarrow> json \<Rightarrow> operator \<Rightarrow> json res" where
  "query_cw_bucket env bucketId body who =
     cw_send env (buckets_request ''post'' (''/actuators/buckets/'' @ encode_uri_component bucketId @ ''/query'') who (Some body))"

definition summarise_cw_bucket :: "cw_env \<Rightarrow> string \<Rightarrow> string \<Rightarrow> json \<Rightarrow> operator \<Rightarrow> json res" where
  "summarise_cw_bucket env bucketId summaryId body who =
     bind_res (cw_send env (buckets_request ''post'' (''/actuators/buckets/'' @ encode_uri_component bucketId
         @ ''/summaries/'' @ encode_uri_component summaryId) who (Some body)))
       (read_answer env SummaryAnswer ''a summary'')"

definition read_cw_timeline :: "cw_env \<Rightarrow> json \<Rightarrow> operator \<Rightarrow> json res" where
  "read_cw_timeline env ref who =
     bind_res (cw_send env (buckets_request ''post'' ''/actuators/timeline'' who (Some (JObj [(''ref'', ref)]))))
       (read_answer env TimelineAnswer ''a timeline'')"

definition to_cw_bucket_timeline :: "json \<Rightarrow> json res" where
  "to_cw_bucket_timeline v =
     bind_res (read_prop (get_field ''page'' v) ''next'') (\<lambda>next_page.
     Inr (JObj [(''buckets'', JArr [JObj (present ''id'' (get_field ''bucket'' v) @ [(''label'', JStr ''CW-BE'')]
       @ present ''rows'' (get_field ''rows'' v) @ [(''more'', JBool (next_page \<noteq> Some JNull))])])]))"

definition read_cw_bucket_timeline :: "cw_env \<Rightarrow> string \<Rightarrow> json \<Rightarrow> operator \<Rightarrow> json res" where
  "read_cw_bucket_timeline env bucketId ref who =
     bind_res (query_cw_bucket env bucketId
         (JObj [(''ref'', ref), (''limit'', JNum (Finite (int timeline_limit) 0 0))]) who) (\<lambda>payload.
     bind_res (read_answer env QueryAnswer ''a bucket page'' payload) to_cw_bucket_timeline)"

section \<open>Workflows\<close>

definition workflow_reasons :: "(string \<times> string) list" where
  "workflow_reasons = [(''WORKFLOW_NOT_FOUND'', ''workflow not found''),
     (''WORKFLOW_VERSION_NOT_FOUND'', ''workflow version not found'')]"

text \<open>
  A reason is looked up as a key, so by its text, which for an array of one text is that text. The code puts
  the value itself in the payload, the model its text.
\<close>

definition reason_key :: "cw_env \<Rightarrow> json option \<Rightarrow> string" where
  "reason_key env v = (case v of None \<Rightarrow> [] | Some JNull \<Rightarrow> [] | Some x \<Rightarrow> js_text (cvNumText env) x)"

definition workflow_reason_of :: "cw_env \<Rightarrow> cw_error \<Rightarrow> string option" where
  "workflow_reason_of env e =
     (let r = reason_key env (body_field env ''reason'' e) in
      if r \<in> set (map fst workflow_reasons) then Some r else None)"

definition workflow_not_found :: failure where
  "workflow_not_found env e label expected =
     (case workflow_reason_of env e of
        None \<Rightarrow> Boom BadGateway ''CW-BE has no workflow routes'' []
      | Some r \<Rightarrow> Boom NotFound (the (map_of workflow_reasons r)) [(''reason'', r)])"

definition workflow_too_large :: failure where
  "workflow_too_large env e label expected = Boom EntityTooLarge ''CW-BE workflow is over the read limit'' []"

definition workflows_unavailable :: failure where
  "workflows_unavailable env e label expected =
     Boom BadGateway (''CW-BE workflows unavailable: '' @ describe_cw_error e) []"

definition workflows_timed_out :: failure where
  "workflows_timed_out env e label expected = Boom GatewayTimeout ''CW-BE workflows did not answer in time'' []"

definition workflow_failures :: failures where
  "workflow_failures = \<lparr>flCases = [(404, workflow_not_found), (413, workflow_too_large), (504, workflows_timed_out),
     (408, workflows_timed_out)], flOtherwise = Some workflows_unavailable\<rparr>"

definition workflow_max_bytes :: nat where "workflow_max_bytes = 4 * 1024 * 1024"

definition workflow_request :: "string \<Rightarrow> string option \<Rightarrow> cw_request" where
  "workflow_request path actor =
     \<lparr>cqMethod = ''get'', cqPath = path, cqLabel = ''workflows'', cqBody = None, cqExpected = ''undefined'',
      cqFailures = workflow_failures, cqHeaders = operator_headers actor False, cqMaxBytes = Some workflow_max_bytes\<rparr>"

definition versions_path :: "string \<Rightarrow> string" where
  "versions_path code = ''/actuators/workflows/'' @ encode_uri_component code @ ''/versions''"

definition version_path :: "string \<Rightarrow> string \<Rightarrow> string" where
  "version_path code version = versions_path code @ ''/'' @ encode_uri_component version"

definition find_cw_workflow_versions :: "cw_env \<Rightarrow> string \<Rightarrow> string option \<Rightarrow> json res" where
  "find_cw_workflow_versions env code actor =
     bind_res (cw_send env (workflow_request (versions_path code) actor))
       (read_answer env WorkflowVersionsAnswer ''workflow versions'')"

definition read_workflow_version :: "cw_env \<Rightarrow> string \<Rightarrow> string \<Rightarrow> string option \<Rightarrow> string option \<Rightarrow> json res" where
  "read_workflow_version env code version actor include =
     bind_res (cw_send env (workflow_request (version_path code version @ include_query include) actor)) (\<lambda>payload.
     bind_res (read_answer env WorkflowVersionAnswer ''a workflow version'' payload) (\<lambda>answer.
     Inr (JObj (obj_spread (entries_of answer)
       [(''document'', nullish (get_field ''document'' answer)), (''addresses'', nullish (get_field ''addresses'' answer))]))))"

definition find_cw_workflow_version ::
  "cw_env \<Rightarrow> string \<Rightarrow> string \<Rightarrow> string option \<Rightarrow> string option \<Rightarrow> (json \<times> bool) res" where
  "find_cw_workflow_version env code version actor include =
     with_document_retry (read_workflow_version env code version actor) include"

definition find_cw_workflow_version_existence :: "cw_env \<Rightarrow> string \<Rightarrow> string \<Rightarrow> json res" where
  "find_cw_workflow_version_existence env code version =
     bind_res (cw_send env (workflow_request (version_path code version @ ''/existence'') None))
       (read_answer env ExistenceAnswer (''a workflow version'' @ [CHR 0x27] @ ''s existence''))"

definition to_fetched_file :: "json \<Rightarrow> json" where
  "to_fetched_file v =
     JObj (pick [''file'', ''outcome''] v
       @ (if get_field ''outcome'' v = Some (JStr ''stored'') then []
          else present ''reason'' (get_field ''reason'' v) @ [(''message'', nullish (get_field ''message'' v))]))"

definition fetch_cw_workflow_definition :: "cw_env \<Rightarrow> string \<Rightarrow> string \<Rightarrow> string \<Rightarrow> json res" where
  "fetch_cw_workflow_definition env code version who =
     bind_res (cw_send env \<lparr>cqMethod = ''post'', cqPath = version_path code version @ ''/fetch?by='' @ encode_uri_component who,
         cqLabel = ''workflows'', cqBody = None, cqExpected = ''undefined'', cqFailures = workflow_failures, cqHeaders = [],
         cqMaxBytes = None\<rparr>) (\<lambda>payload.
     bind_res (read_answer env FetchAnswer ''a workflow fetch'' payload) (\<lambda>v.
     Inr (JObj [(''files'', JArr (map to_fetched_file (array_items (get_field ''files'' v))))])))"

section \<open>The roles of an operator\<close>

text \<open>Roles that cannot be had are not an error until they are needed.\<close>

datatype cw_roles = RolesKnown "string list" | RolesUnknown string

definition role_name :: "json \<Rightarrow> string option" where
  "role_name role = (case get_field ''roleName'' role of Some (JStr n) \<Rightarrow> Some n | _ \<Rightarrow> None)"

definition to_role_names :: "json \<Rightarrow> cw_roles" where
  "to_role_names payload =
     (case get_field ''appRoles'' payload of
        Some (JArr roles) \<Rightarrow>
          if list_all (\<lambda>r. role_name r \<noteq> None) roles then RolesKnown (map (the \<circ> role_name) roles)
          else RolesUnknown ''Caseworking answered an unreadable body''
      | _ \<Rightarrow> RolesUnknown ''Caseworking answered an unreadable body'')"

definition find_cw_user_roles :: "cw_env \<Rightarrow> string \<Rightarrow> cw_roles" where
  "find_cw_user_roles env entraId =
     (if \<not> is_cw_configured env then RolesUnknown ''Caseworking is not configured''
      else case cvSend env \<lparr>ccMethod = ''get'', ccPath = ''/api/users/'' @ encode_uri_component entraId @ ''/roles'',
          ccBody = None, ccHeaders = request_headers env [], ccMaxBytes = None, ccTimeout = cvTimeout env\<rparr> of
        Inr payload \<Rightarrow> to_role_names payload
      | Inl e \<Rightarrow> RolesUnknown (''Caseworking is unavailable ('' @ describe_cw_error e @ '')''))"

definition roles_unavailable :: js_error where
  "roles_unavailable = Boom ServerUnavailable ''Caseworking roles could not be determined''
     [(''errorCode'', ''CASEWORKING_ROLES_UNAVAILABLE'')]"

definition find_operator_roles :: "cw_env \<Rightarrow> string list res" where
  "find_operator_roles env =
     (case truthy (cvUser env) of
        None \<Rightarrow> Inr []
      | Some actorId \<Rightarrow>
          (case find_cw_user_roles env actorId of RolesKnown rs \<Rightarrow> Inr rs | RolesUnknown _ \<Rightarrow> Inl roles_unavailable))"

end
