(* ===== verification/CaseworkingLaws.thy ===== *)
theory CaseworkingLaws
  imports CaseworkingClient
begin

text \<open>
  What asking Caseworking promises: what a caller is answered depends on a failure's status and on the
  known words of its body alone. The failures of the client are discreet one by one, then its tables of
  them, then every request sent with such a table, then every operation.
\<close>

section \<open>Known words\<close>

definition known_reasons :: "string list" where
  "known_reasons = edit_refusal_reasons @ case_not_found_reason # map refusal_reason all_refusals @ map fst workflow_reasons"

text \<open>Two values agree on words when neither is one of them without the other being it too.\<close>

definition agree_on :: "'a list \<Rightarrow> 'a \<Rightarrow> 'a \<Rightarrow> bool" where
  "agree_on ws v w \<longleftrightarrow> list_all (\<lambda>x. (v = x) = (w = x)) ws"

text \<open>Two errors report the same: their statuses are equal, and their bodies agree on the known words.\<close>

definition same_report :: "cw_env \<Rightarrow> cw_error \<Rightarrow> cw_error \<Rightarrow> bool" where
  "same_report env e e' \<longleftrightarrow>
     ceStatus e = ceStatus e'
     \<and> agree_on (map (Some \<circ> JStr) event_statuses) (body_field env ''status'' e) (body_field env ''status'' e')
     \<and> agree_on (map (Some \<circ> JStr) known_reasons) (body_field env ''reason'' e) (body_field env ''reason'' e')
     \<and> agree_on (map fst workflow_reasons) (reason_key env (body_field env ''reason'' e))
         (reason_key env (body_field env ''reason'' e'))"

text \<open>Caseworking answers alike: the same payloads, and errors that report the same.\<close>

definition answers_alike :: "cw_env \<Rightarrow> (cw_call \<Rightarrow> cw_error + json) \<Rightarrow> bool" where
  "answers_alike env send \<longleftrightarrow>
     (\<forall>call. case cvSend env call of
        Inr payload \<Rightarrow> send call = Inr payload
      | Inl e \<Rightarrow> (case send call of Inl e' \<Rightarrow> same_report env e e' | Inr _ \<Rightarrow> False))"

lemma known_text_Some: "known_text known v = Some s \<longleftrightarrow> v = Some (JStr s) \<and> s \<in> set known"
  by (auto simp: known_text_def split: option.splits json.splits)

lemma known_word:
  assumes "agree_on (map (Some \<circ> JStr) known) v w" and "s \<in> set known"
  shows "w = Some (JStr s) \<longleftrightarrow> v = Some (JStr s)"
  using assms by (auto simp: agree_on_def list_all_iff)

lemma known_text_agree:
  assumes "agree_on (map (Some \<circ> JStr) known) v w" and "set few \<subseteq> set known"
  shows "known_text few w = known_text few v"
proof -
  have same: "known_text few w = Some s \<longleftrightarrow> known_text few v = Some s" for s
    using known_word [OF assms(1)] assms(2) by (auto simp: known_text_Some)
  show ?thesis
  proof (cases "known_text few v")
    case None then show ?thesis using same by (cases "known_text few w") auto
  next
    case (Some s) then show ?thesis using same [of s] by simp
  qed
qed

lemma find_cong_on: "(\<And>x. x \<in> set xs \<Longrightarrow> p x = q x) \<Longrightarrow> find p xs = find q xs"
  by (induction xs) auto

lemma reported:
  assumes "same_report env e e'"
  shows "describe_cw_error e' = describe_cw_error e" and "conflict_status_of env e' = conflict_status_of env e"
    and "refusal_reason_of env e' = refusal_reason_of env e"
    and "body_field env ''reason'' e' = Some (JStr case_not_found_reason)
       \<longleftrightarrow> body_field env ''reason'' e = Some (JStr case_not_found_reason)"
    and "bucket_refusal_of env e' = bucket_refusal_of env e"
    and "workflow_reason_of env e' = workflow_reason_of env e"
proof -
  have r: "agree_on (map (Some \<circ> JStr) known_reasons) (body_field env ''reason'' e) (body_field env ''reason'' e')"
    and st: "agree_on (map (Some \<circ> JStr) event_statuses) (body_field env ''status'' e) (body_field env ''status'' e')"
    using assms by (simp_all add: same_report_def)
  show "describe_cw_error e' = describe_cw_error e" using assms by (simp add: same_report_def describe_cw_error_def)
  show "conflict_status_of env e' = conflict_status_of env e" unfolding conflict_status_of_def
    by (rule known_text_agree [OF st]) simp
  show "refusal_reason_of env e' = refusal_reason_of env e" unfolding refusal_reason_of_def
    by (rule known_text_agree [OF r]) (auto simp: known_reasons_def)
  show "body_field env ''reason'' e' = Some (JStr case_not_found_reason)
       \<longleftrightarrow> body_field env ''reason'' e = Some (JStr case_not_found_reason)"
    by (rule known_word [OF r]) (simp add: known_reasons_def)
  show "bucket_refusal_of env e' = bucket_refusal_of env e" unfolding bucket_refusal_of_def
    by (intro arg_cong [where f = "map_option _"] find_cong_on known_word [OF r]) (simp add: known_reasons_def)
  show "workflow_reason_of env e' = workflow_reason_of env e"
    using assms by (auto simp: workflow_reason_of_def same_report_def agree_on_def list_all_iff Let_def)
qed

section \<open>The failures of the client\<close>

lemma body_of_send [simp]: "body_of (env\<lparr>cvSend := send\<rparr>) e = body_of env e"
  by (simp add: body_of_def split: cw_payload.split)

lemma body_field_send [simp]: "body_field (env\<lparr>cvSend := send\<rparr>) k e = body_field env k e"
  by (simp add: body_field_def)

lemma reason_key_send [simp]: "reason_key (env\<lparr>cvSend := send\<rparr>) v = reason_key env v"
  by (simp add: reason_key_def split: option.split json.split)

lemma words_of_send [simp]:
  "conflict_status_of (env\<lparr>cvSend := send\<rparr>) e = conflict_status_of env e"
  "refusal_reason_of (env\<lparr>cvSend := send\<rparr>) e = refusal_reason_of env e"
  "bucket_refusal_of (env\<lparr>cvSend := send\<rparr>) e = bucket_refusal_of env e"
  "workflow_reason_of (env\<lparr>cvSend := send\<rparr>) e = workflow_reason_of env e"
  by (simp_all add: conflict_status_of_def refusal_reason_of_def bucket_refusal_of_def workflow_reason_of_def)

lemma asking_of_send [simp]:
  "is_cw_configured (env\<lparr>cvSend := send\<rparr>) = is_cw_configured env"
  "request_headers (env\<lparr>cvSend := send\<rparr>) = request_headers env"
  "call_of (env\<lparr>cvSend := send\<rparr>) = call_of env"
  "read_answer (env\<lparr>cvSend := send\<rparr>) = read_answer env"
  by (simp_all add: fun_eq_iff is_cw_configured_def request_headers_def actor_id_header_def call_of_def read_answer_def)

text \<open>A failure says nothing of an error but what it reports.\<close>

definition discreet :: "failure \<Rightarrow> bool" where
  "discreet f \<longleftrightarrow> (\<forall>env send e e' label expected. same_report env e e'
     \<longrightarrow> f (env\<lparr>cvSend := send\<rparr>) e' label expected = f env e label expected)"

lemmas failure_defs = cw_unavailable_def event_not_found_failure_def to_conflict_def event_stale_def to_refusal_def
  event_timed_out_def not_found_or_missing_route_def case_too_large_def case_timed_out_def case_unavailable_def
  bucket_refused_def bucket_not_found_def buckets_timed_out_def buckets_unavailable_def workflow_not_found_def
  workflow_too_large_def workflows_timed_out_def workflows_unavailable_def

lemma failures_discreet [simp]:
  "discreet cw_unavailable" "discreet event_not_found_failure" "discreet to_conflict" "discreet event_stale"
  "discreet to_refusal" "discreet event_timed_out" "discreet not_found_or_missing_route" "discreet case_too_large"
  "discreet case_timed_out" "discreet case_unavailable" "discreet bucket_refused" "discreet bucket_not_found"
  "discreet buckets_timed_out" "discreet buckets_unavailable" "discreet workflow_not_found" "discreet workflow_too_large"
  "discreet workflows_timed_out" "discreet workflows_unavailable"
  by (simp_all add: discreet_def failure_defs reported split: option.split)

definition discreet_failures :: "failures \<Rightarrow> bool" where
  "discreet_failures fl \<longleftrightarrow> list_all (discreet \<circ> snd) (flCases fl) \<and> pred_option discreet (flOtherwise fl)"

lemma tables_discreet [simp]:
  "discreet_failures event_failures" "discreet_failures case_failures" "discreet_failures bucket_failures"
  "discreet_failures workflow_failures"
  by (simp_all add: discreet_failures_def event_failures_def case_failures_def bucket_failures_def workflow_failures_def)

lemma to_failure_discreet:
  assumes "discreet_failures fl" and "same_report env e e'"
  shows "to_failure fl (env\<lparr>cvSend := send\<rparr>) e' label expected = to_failure fl env e label expected"
proof -
  have s: "ceStatus e' = ceStatus e" using assms(2) by (simp add: same_report_def)
  have d: "f (env\<lparr>cvSend := send\<rparr>) e' label expected = f env e label expected" if "discreet f" for f
    using that assms(2) by (simp add: discreet_def)
  show ?thesis
  proof (cases "Option.bind (ceStatus e) (map_of (flCases fl))")
    case (Some f)
    then have "f \<in> snd ` set (flCases fl)" by (auto simp: bind_eq_Some_conv dest!: map_of_SomeD intro: rev_image_eqI)
    then have "discreet f" using assms(1) by (auto simp: discreet_failures_def list_all_iff)
    then show ?thesis using Some s d by (simp add: to_failure_def)
  next
    case None
    then show ?thesis using s d assms(1) by (auto simp: to_failure_def discreet_failures_def split: option.splits)
  qed
qed

lemma answered_alike:
  assumes "answers_alike env send"
  obtains payload where "cvSend env call = Inr payload" and "send call = Inr payload"
  | e e' where "cvSend env call = Inl e" and "send call = Inl e'" and "same_report env e e'"
proof -
  have "case cvSend env call of
        Inr payload \<Rightarrow> send call = Inr payload
      | Inl e \<Rightarrow> (case send call of Inl e' \<Rightarrow> same_report env e e' | Inr _ \<Rightarrow> False)"
    using assms unfolding answers_alike_def by blast
  then show thesis by (cases "cvSend env call"; cases "send call") (auto intro: that)
qed

lemma cw_send_discreet:
  assumes "answers_alike env send" and "discreet_failures (cqFailures rq)"
  shows "cw_send (env\<lparr>cvSend := send\<rparr>) rq = cw_send env rq"
  using assms(1)
proof (cases rule: answered_alike [of env send "call_of env rq"])
  case 2 then show ?thesis by (simp add: cw_send_def to_failure_discreet [OF assms(2)])
qed (simp add: cw_send_def)

lemma sends_discreet:
  assumes "answers_alike env send"
  shows "cw_send (env\<lparr>cvSend := send\<rparr>) (event_request http box i path body expected)
      = cw_send env (event_request http box i path body expected)"
    and "cw_send (env\<lparr>cvSend := send\<rparr>) (case_request path actor) = cw_send env (case_request path actor)"
    and "cw_send (env\<lparr>cvSend := send\<rparr>) (buckets_request http path who body) = cw_send env (buckets_request http path who body)"
    and "cw_send (env\<lparr>cvSend := send\<rparr>) (workflow_request path actor) = cw_send env (workflow_request path actor)"
  by (simp_all add: cw_send_discreet [OF assms] event_request_def case_request_def buckets_request_def workflow_request_def)

lemma user_roles_discreet:
  assumes "answers_alike env send"
  shows "find_cw_user_roles (env\<lparr>cvSend := send\<rparr>) i = find_cw_user_roles env i"
  using assms
proof (cases rule: answered_alike [of env send "\<lparr>ccMethod = ''get'',
    ccPath = ''/api/users/'' @ encode_uri_component i @ ''/roles'', ccBody = None,
    ccHeaders = request_headers env [], ccMaxBytes = None, ccTimeout = cvTimeout env\<rparr>"])
  case 2 then show ?thesis by (simp add: find_cw_user_roles_def reported)
qed (simp add: find_cw_user_roles_def)

lemma roles_discreet: "answers_alike env send \<Longrightarrow> find_operator_roles (env\<lparr>cvSend := send\<rparr>) = find_operator_roles env"
  by (simp add: find_operator_roles_def user_roles_discreet split: option.split)

section \<open>The operations of the client\<close>

lemma with_document_retry_cong:
  "(\<And>i. rd i = rd' i) \<Longrightarrow> with_document_retry rd include = with_document_retry rd' include"
  by (simp add: with_document_retry_def split: sum.split)

lemma events_discreet:
  assumes "answers_alike env send"
  shows "find_cw_event (env\<lparr>cvSend := send\<rparr>) box i = find_cw_event env box i"
    and "redrive_cw_event (env\<lparr>cvSend := send\<rparr>) box i who = redrive_cw_event env box i who"
    and "purge_cw_event (env\<lparr>cvSend := send\<rparr>) box i by code note = purge_cw_event env box i by code note"
    and "edit_cw_payload (env\<lparr>cvSend := send\<rparr>) box i by payload text revision
      = edit_cw_payload env box i by payload text revision"
  by (simp_all add: find_cw_event_def redrive_cw_event_def purge_cw_event_def edit_cw_payload_def sends_discreet [OF assms])

lemma cases_discreet:
  assumes "answers_alike env send"
  shows "find_cw_case (env\<lparr>cvSend := send\<rparr>) code ref actor include = find_cw_case env code ref actor include"
    and "find_cw_case_existence (env\<lparr>cvSend := send\<rparr>) code ref = find_cw_case_existence env code ref"
  by (simp_all add: find_cw_case_def read_cw_case_def find_cw_case_existence_def sends_discreet [OF assms] fun_eq_iff
      cong: with_document_retry_cong)

lemma buckets_discreet:
  assumes "answers_alike env send"
  shows "find_cw_buckets (env\<lparr>cvSend := send\<rparr>) = find_cw_buckets env"
    and "query_cw_bucket (env\<lparr>cvSend := send\<rparr>) bucket body who = query_cw_bucket env bucket body who"
    and "summarise_cw_bucket (env\<lparr>cvSend := send\<rparr>) bucket summary body who = summarise_cw_bucket env bucket summary body who"
    and "read_cw_timeline (env\<lparr>cvSend := send\<rparr>) row who = read_cw_timeline env row who"
    and "read_cw_bucket_timeline (env\<lparr>cvSend := send\<rparr>) bucket row who = read_cw_bucket_timeline env bucket row who"
  by (simp_all add: find_cw_buckets_def query_cw_bucket_def summarise_cw_bucket_def read_cw_timeline_def
      read_cw_bucket_timeline_def sends_discreet [OF assms])

lemma workflows_discreet:
  assumes "answers_alike env send"
  shows "find_cw_workflow_versions (env\<lparr>cvSend := send\<rparr>) code actor = find_cw_workflow_versions env code actor"
    and "find_cw_workflow_version (env\<lparr>cvSend := send\<rparr>) code version actor include
      = find_cw_workflow_version env code version actor include"
    and "find_cw_workflow_version_existence (env\<lparr>cvSend := send\<rparr>) code version
      = find_cw_workflow_version_existence env code version"
    and "fetch_cw_workflow_definition (env\<lparr>cvSend := send\<rparr>) code version by
      = fetch_cw_workflow_definition env code version by"
  by (simp_all add: find_cw_workflow_versions_def find_cw_workflow_version_def read_workflow_version_def
      find_cw_workflow_version_existence_def fetch_cw_workflow_definition_def sends_discreet [OF assms]
      cw_send_discreet [OF assms] cong: with_document_retry_cong)

text \<open>A document over the limit costs nothing but itself.\<close>

lemma too_large_is_read_again:
  assumes "rd include = Inl (Boom EntityTooLarge m p)" and "js_truthy_string include"
  shows "with_document_retry rd include = bind_res (rd None) (\<lambda>x. Inr (x, True))"
  using assms by (simp add: with_document_retry_def is_document_too_large_def)

end
