(* ===== verification/CaseworkingProperties.thy ===== *)
theory CaseworkingProperties
  imports CaseworkingLaws
begin

text \<open>
  The property of the client of Caseworking: what an error's body holds beyond the words this service
  knows does not reach a caller of any of its operations.
\<close>

section \<open>Two answers that differ in what they do not report\<close>







end
