(* ===== verification/LifecycleDescription.thy ===== *)
theory LifecycleDescription
  imports ClaimsService GrantResolution
begin

text \<open>
  What the admin is told of a grant's lifecycle: \<open>describeLifecycle\<close> of \<open>src/grants/models/grant.js\<close> with
  \<open>lifecycle-phases.js\<close>, \<open>external-status-mapping.js\<close> and \<open>schemas/grant/stored-lifecycle.js\<close>, and the lookups
  of \<open>services/config-version.service.js\<close> that answer with it. The code compares entries by identity; an
  entry is named here by where it stands in its list. A name that is null is none.
\<close>

section \<open>Phases\<close>

record code_name =
  cnCode :: string
  cnName :: "string option"

definition code_and_name :: "string \<Rightarrow> string option \<Rightarrow> code_name" where
  "code_and_name code name = \<lparr>cnCode = code, cnName = name\<rparr>"

definition describe_phases ::
  "'q phase_def list \<Rightarrow> (code_name \<times> (code_name \<times> code_name list) list) list" where
  "describe_phases phases =
     map (\<lambda>phase. (code_and_name (phCode phase) (phName phase),
       map (\<lambda>stage. (code_and_name (tgCode stage) (tgName stage),
         map (\<lambda>status. code_and_name (sdCode status) (sdName status)) (tgStatuses stage)))
       (phStages phase))) phases"

definition assert_describable :: "('q grant \<Rightarrow> string) \<Rightarrow> 'q grant \<Rightarrow> unit res" where
  "assert_describable schemaMessages g =
     (if phases_schema (grPhases g) \<and> external_map_schema (grExternalStatusMap g) then Inr ()
      else Inl (Boom BadImplementation (''Grant '' @ quoted (grCode g) @ '' has a lifecycle GAS cannot read: ''
        @ schemaMessages g) []))"

definition initial_position :: "'q grant \<Rightarrow> string res" where
  "initial_position g =
     bind_res (get_initial_state g) (\<lambda>(phase, stage, status).
     case status of None \<Rightarrow> Inl TypeError
     | Some d \<Rightarrow> Inr (position_to_string
         \<lparr>posPhase = phCode phase, posStage = tgCode stage, posStatus = sdCode d\<rparr>))"

section \<open>The ways into a status\<close>

datatype way_kind = WayAny | WayMove string matched_by | WayUnmatched string matched_by

record way_in =
  wyTo :: string
  wyKind :: way_kind
  wyProcesses :: processes_value

definition matches_any_of :: "valid_from \<Rightarrow> position list \<Rightarrow> bool" where
  "matches_any_of entry positions \<longleftrightarrow> list_ex (\<lambda>p. valid_from_matches entry (position_to_string p)) positions"

definition first_entry :: "valid_from list \<Rightarrow> string \<Rightarrow> nat option" where
  "first_entry validFrom current = find_index (\<lambda>entry. valid_from_matches entry current) validFrom"

text \<open>Each source moves by the first entry it matches.\<close>

definition ways_into_by ::
  "valid_from list \<Rightarrow> position \<Rightarrow> position list \<Rightarrow> nat \<Rightarrow> valid_from \<Rightarrow> way_in list" where
  "ways_into_by validFrom to positions i entry =
     (let target = position_to_string to;
          moves = map (\<lambda>source. \<lparr>wyTo = target, wyKind = WayMove source (valid_from_matched_by entry),
                    wyProcesses = ProcessList (vfProcesses entry)\<rparr>)
                  (filter (\<lambda>source. source \<noteq> target \<and> first_entry validFrom source = Some i)
                    (map position_to_string positions)) in
      if moves \<noteq> [] \<or> matches_any_of entry positions then moves
      else [\<lparr>wyTo = target, wyKind = WayUnmatched (vfCode entry) (valid_from_matched_by entry),
             wyProcesses = ProcessList (vfProcesses entry)\<rparr>])"

definition ways_into :: "'q grant \<Rightarrow> position list \<Rightarrow> position \<Rightarrow> way_in list" where
  "ways_into g positions to =
     (case find_status_definition g to of
        None \<Rightarrow> []
      | Some d \<Rightarrow>
          if is_from_any_status d
          then [\<lparr>wyTo = position_to_string to, wyKind = WayAny,
                 wyProcesses = (case sdProcesses d of None \<Rightarrow> ProcessList [] | Some v \<Rightarrow> v)\<rparr>]
          else concat (map (\<lambda>(i, entry). ways_into_by (status_valid_from d) to positions i entry)
                 (enumerate 0 (status_valid_from d))))"

section \<open>The external statuses that are mapped\<close>

type_synonym mapping_place = "nat \<times> nat \<times> nat"

definition phases_of_map :: "external_status_map \<Rightarrow> external_phase list" where
  "phases_of_map m = (case m of None \<Rightarrow> [] | Some phases \<Rightarrow> phases)"

definition placed_mappings :: "external_status_map \<Rightarrow> (mapping_place \<times> external_mapping) list" where
  "placed_mappings m =
     concat (map (\<lambda>(i, phase). concat (map (\<lambda>(j, stage). map (\<lambda>(k, status).
       ((i, j, k), \<lparr>emEntry = status, emPhase = epCode phase, emStage = esCode stage\<rparr>))
       (enumerate 0 (esStatuses stage))) (enumerate 0 (epStages phase)))) (enumerate 0 (phases_of_map m)))"

text \<open>Where the lookup that moves an application finds its mapping.\<close>

definition found_mapping_place ::
  "external_status_map \<Rightarrow> string \<Rightarrow> string \<Rightarrow> string \<Rightarrow> string \<Rightarrow> mapping_place option" where
  "found_mapping_place m phase stage code source =
     Option.bind (find_index (\<lambda>p. epCode p = phase) (phases_of_map m)) (\<lambda>i.
     let stages = epStages (phases_of_map m ! i) in
     Option.bind (find_index (\<lambda>s. esCode s = stage) stages) (\<lambda>j.
     let statuses = esStatuses (stages ! j) in
     Option.bind (find_index (external_status_match code source) statuses) (\<lambda>k.
     if js_truthy_string (exMappedTo (statuses ! k)) then Some (i, j, k) else None)))"

record described_mapping =
  dmSource :: string
  dmCode :: string
  dmWhileIn :: string
  dmMappedTo :: "string option"
  dmTo :: "string option"

definition describe_mapping :: "external_mapping \<Rightarrow> described_mapping res" where
  "describe_mapping m =
     bind_res (external_mapping_target m) (\<lambda>target.
     Inr \<lparr>dmSource = exSource (emEntry m), dmCode = exCode (emEntry m),
          dmWhileIn = emPhase m @ '':'' @ emStage m, dmMappedTo = exMappedTo (emEntry m),
          dmTo = map_option position_to_string target\<rparr>)"

definition is_applied :: "external_status_map \<Rightarrow> mapping_place \<times> external_mapping \<Rightarrow> bool" where
  "is_applied m = (\<lambda>(place, em).
     found_mapping_place m (emPhase em) (emStage em) (exCode (emEntry em)) (exSource (emEntry em)) = Some place)"

definition applied_external_status_mappings :: "external_status_map \<Rightarrow> described_mapping list res" where
  "applied_external_status_mappings m =
     map_res (describe_mapping \<circ> snd) (filter (is_applied m) (placed_mappings m))"

section \<open>The lifecycle\<close>

definition describe_claim_approval :: "'q grant \<Rightarrow> (string \<times> string) option res" where
  "describe_claim_approval g =
     (case on_claim_approval_of g of
        None \<Rightarrow> Inr None
      | Some transition \<Rightarrow>
          (case (ocCurrentPosition transition, ocTargetPosition transition) of
             (Some c, Some t) \<Rightarrow> Inr (Some (format_config_position c, format_config_position t))
           | _ \<Rightarrow> Inl TypeError))"

record lifecycle_description =
  ldPhases :: "(code_name \<times> (code_name \<times> code_name list) list) list"
  ldInitialPosition :: string
  ldAmendablePositions :: "string list"
  ldWaysIn :: "way_in list"
  ldExternalMappings :: "described_mapping list"
  ldClaimApproval :: "(string \<times> string) option"

definition describe_lifecycle :: "('q grant \<Rightarrow> string) \<Rightarrow> 'q grant \<Rightarrow> lifecycle_description res" where
  "describe_lifecycle schemaMessages g =
     bind_res (assert_describable schemaMessages g) (\<lambda>_.
     let positions = distinct_positions (grPhases g) in
     bind_res (initial_position g) (\<lambda>initialPosition.
     bind_res (applied_external_status_mappings (grExternalStatusMap g)) (\<lambda>mappings.
     bind_res (describe_claim_approval g) (\<lambda>claimApproval.
     Inr \<lparr>ldPhases = describe_phases (grPhases g), ldInitialPosition = initialPosition,
          ldAmendablePositions = grAmendablePositions g,
          ldWaysIn = concat (map (ways_into g positions) positions),
          ldExternalMappings = mappings, ldClaimApproval = claimApproval\<rparr>))))"

section \<open>What the service answers\<close>

definition problem_max_length :: nat where "problem_max_length = 500"

record lifecycle_view =
  lvDescription :: lifecycle_description
  lvProcessEffects :: "process_effects list list"
  lvClaimApprovalTellsCw :: "bool option"

datatype lifecycle_answer = LifecycleKnown lifecycle_view | Problem string

definition as_problem :: "js_error \<Rightarrow> lifecycle_answer" where
  "as_problem e = Problem (take problem_max_length (error_message e))"

definition effects_of_way :: "way_in \<Rightarrow> process_effects list res" where
  "effects_of_way way =
     (case wyProcesses way of ProcessList ps \<Rightarrow> Inr (List.map_filter process_effects_of ps) | _ \<Rightarrow> Inl TypeError)"

definition with_process_effects :: "lifecycle_description \<Rightarrow> lifecycle_view res" where
  "with_process_effects d =
     bind_res (map_res effects_of_way (ldWaysIn d)) (\<lambda>effects.
     Inr \<lparr>lvDescription = d, lvProcessEffects = effects,
          lvClaimApprovalTellsCw = map_option (\<lambda>_. claim_approval_tells_cw) (ldClaimApproval d)\<rparr>)"

definition lifecycle_of_grant :: "('q grant \<Rightarrow> string) \<Rightarrow> 'q grant \<Rightarrow> lifecycle_answer res" where
  "lifecycle_of_grant schemaMessages g =
     (case bind_res (describe_lifecycle schemaMessages g) with_process_effects of
        Inr view \<Rightarrow> Inr (LifecycleKnown view)
      | Inl e \<Rightarrow> if is_boom e then Inr (as_problem e) else Inl e)"

datatype 'q stored_grant = GrantLoaded "'q grant option" | GrantDefect js_error

definition stored_grant_of ::
  "'q fetch_env \<Rightarrow> string \<Rightarrow> string \<Rightarrow> ('q config_store, 'q stored_grant) action" where
  "stored_grant_of env code version =
     catch (andThen (find_by_code env code (Some version)) (\<lambda>g. ret (GrantLoaded g)))
       (\<lambda>e. if is_definition_defect e then ret (GrantDefect e) else throw e)"

definition find_grant_lifecycle ::
  "'q fetch_env \<Rightarrow> ('q grant \<Rightarrow> string) \<Rightarrow> string \<Rightarrow> string
     \<Rightarrow> ('q config_store, lifecycle_answer option) action" where
  "find_grant_lifecycle env schemaMessages code version =
     andThen (stored_grant_of env code version) (\<lambda>found.
     case found of
       GrantDefect e \<Rightarrow> ret (Some (as_problem e))
     | GrantLoaded None \<Rightarrow> ret None
     | GrantLoaded (Some g) \<Rightarrow> andThen (lift_res (lifecycle_of_grant schemaMessages g)) (\<lambda>answer. ret (Some answer)))"

definition named_statuses_of :: "'q phase_def \<Rightarrow> stage_def \<Rightarrow> (string \<times> string) list" where
  "named_statuses_of phase stage =
     List.map_filter (\<lambda>d. map_option (\<lambda>name. (position_to_string
       \<lparr>posPhase = phCode phase, posStage = tgCode stage, posStatus = sdCode d\<rparr>, name)) (sdName d)) (tgStatuses stage)"

definition status_names_of :: "'q phase_def list \<Rightarrow> (string \<times> string) list" where
  "status_names_of phases =
     obj_spread [] (concat (map (\<lambda>phase. concat (map (named_statuses_of phase) (phStages phase))) phases))"

record grant_entitlements =
  geTemplates :: "template list"
  geClaims :: "grant_claims option"
  geStatusNames :: "(string \<times> string) list"

definition find_grant_version_entitlements ::
  "'q fetch_env \<Rightarrow> string \<Rightarrow> string \<Rightarrow> ('q config_store, grant_entitlements option) action" where
  "find_grant_version_entitlements env code version =
     andThen (find_by_code env code (Some version)) (\<lambda>found.
     ret (map_option (\<lambda>g. \<lparr>geTemplates = grEntitlementTemplates g, geClaims = grClaims g,
       geStatusNames = status_names_of (grPhases g)\<rparr>) found))"

end
