(* ===== verification/DescriptionProperties.thy ===== *)
theory DescriptionProperties
  imports LifecycleDescription CoreProperties
begin

text \<open>
  What the admin is told of a lifecycle is what happens: the ways described into a status are the moves an
  application makes, with the processes they run, and the external mappings described are those applied.
\<close>

section \<open>Ways in\<close>

text \<open>A way leads from a source when it is from any status or a move from that one.\<close>

definition leads_from :: "string \<Rightarrow> way_in \<Rightarrow> bool" where
  "leads_from source w =
     (case wyKind w of WayAny \<Rightarrow> True | WayMove s _ \<Rightarrow> s = source | WayUnmatched _ _ \<Rightarrow> False)"

lemma filter_distinct_one: "distinct xs \<Longrightarrow> x \<in> set xs \<Longrightarrow> filter (\<lambda>y. y = x \<and> P y) xs = (if P x then [x] else [])"
  by (induction xs) (auto simp: filter_empty_conv)

lemma filter_concat: "filter P (concat xss) = concat (map (filter P) xss)"
  by (induction xss) auto

lemma filter_concat_one:
  assumes "distinct (map f xs)" and "x \<in> set xs"
    and "\<And>y w. y \<in> set xs \<Longrightarrow> w \<in> set (h y) \<Longrightarrow> key w = f y"
  shows "filter (\<lambda>w. key w = f x \<and> P w) (concat (map h xs)) = filter P (h x)"
  using assms
proof (induction xs)
  case Nil then show ?case by simp
next
  case (Cons y ys)
  have rest: "filter (\<lambda>w. key w = f x \<and> P w) (concat (map h ys)) = (if x \<in> set ys then filter P (h x) else [])"
  proof (cases "x \<in> set ys")
    case True then show ?thesis using Cons by simp
  next
    case False
    then have "x = y" using Cons.prems(2) by simp
    then have "key w \<noteq> f x" if "z \<in> set ys" "w \<in> set (h z)" for z w
      using Cons.prems(1) Cons.prems(3) [of z w] that by (metis image_eqI list.set_intros(2) list.set_map distinct.simps(2) list.simps(9))
    then show ?thesis using False by (auto simp: filter_empty_conv)
  qed
  have here: "filter (\<lambda>w. key w = f x \<and> P w) (h y) = (if f x = f y then filter P (h y) else [])"
    using Cons.prems(3) [of y] by (auto intro!: filter_cong simp: filter_empty_conv)
  have "inj_on f (set (y # ys))" using Cons.prems(1) by (simp only: distinct_map)
  then have "f x = f y \<longleftrightarrow> x = y" using Cons.prems(2) by (rule inj_on_eq_iff) simp
  moreover have "\<not> (x = y \<and> x \<in> set ys)" using Cons.prems(1) by auto
  ultimately show ?case using rest here Cons.prems(2) by auto
qed

lemma concat_enumerate_one:
  "concat (map (\<lambda>(i, e). if i = j then [h e] else []) (enumerate n xs))
    = (if n \<le> j \<and> j < n + length xs then [h (xs ! (j - n))] else [])"
  by (induction xs arbitrary: n) (auto simp: nth_Cons')

lemma ways_by_from:
  assumes "distinct (map position_to_string positions)" and "source \<in> set (map position_to_string positions)"
    and "source \<noteq> position_to_string to"
  shows "filter (leads_from source) (ways_into_by validFrom to positions i entry)
    = (if first_entry validFrom source = Some i
       then [\<lparr>wyTo = position_to_string to, wyKind = WayMove source (valid_from_matched_by entry),
              wyProcesses = ProcessList (vfProcesses entry)\<rparr>] else [])"
proof -
  let ?move = "\<lambda>s. \<lparr>wyTo = position_to_string to, wyKind = WayMove s (valid_from_matched_by entry),
              wyProcesses = ProcessList (vfProcesses entry)\<rparr>"
  let ?taken = "\<lambda>s. s \<noteq> position_to_string to \<and> first_entry validFrom s = Some i"
  let ?sources = "filter ?taken (map position_to_string positions)"
  have "filter (leads_from source) (map ?move ?sources)
      = map ?move (filter (\<lambda>s. s = source \<and> ?taken s) (map position_to_string positions))"
    by (simp add: filter_map comp_def leads_from_def filter_filter conj_ac)
  also have "\<dots> = (if ?taken source then [?move source] else [])"
    by (simp add: filter_distinct_one [OF assms(1,2)])
  finally have moves: "filter (leads_from source) (map ?move ?sources) = (if ?taken source then [?move source] else [])" .
  have "?sources \<noteq> []" if "?taken source" using that assms(2) by (auto simp: filter_empty_conv)
  then show ?thesis using moves assms(3)
    by (auto simp: ways_into_by_def Let_def leads_from_def)
qed

lemma ways_from:
  assumes "distinct (map position_to_string positions)" and "source \<in> set (map position_to_string positions)"
    and "source \<noteq> position_to_string to"
    and "\<And>sd. find_status_definition g to = Some sd \<Longrightarrow> status_schema sd"
  shows "map wyProcesses (filter (leads_from source) (ways_into g positions to))
    = (let c = is_valid_transition g to source in if trValid c then [the (trProcesses c)] else [])"
proof (cases "find_status_definition g to")
  case None then show ?thesis by (simp add: ways_into_def is_valid_transition_def)
next
  case (Some sd)
  note found = Some
  show ?thesis
  proof (cases "is_from_any_status sd")
    case True
    have "processes_or_empty (sdProcesses sd) = (case sdProcesses sd of None \<Rightarrow> ProcessList [] | Some v \<Rightarrow> v)"
      using assms(4) [OF found] by (auto simp: status_schema_def processes_or_empty_def split: option.splits processes_value.splits)
    then show ?thesis using True found
      by (simp add: ways_into_def is_valid_transition_def leads_from_def Let_def)
  next
    case False
    let ?vf = "status_valid_from sd"
    let ?way = "\<lambda>entry. \<lparr>wyTo = position_to_string to, wyKind = WayMove source (valid_from_matched_by entry),
              wyProcesses = ProcessList (vfProcesses entry)\<rparr>"
    have "filter (leads_from source) (ways_into g positions to)
      = concat (map (\<lambda>(i, e). if first_entry ?vf source = Some i then [?way e] else []) (enumerate 0 ?vf))"
      using False found
      by (simp add: ways_into_def filter_concat comp_def split_def ways_by_from [OF assms(1-3)])
    also have "\<dots> = (case first_entry ?vf source of None \<Rightarrow> [] | Some j \<Rightarrow> [?way (?vf ! j)])"
    proof (cases "first_entry ?vf source")
      case None then show ?thesis by (simp add: case_prod_beta)
    next
      case (Some j)
      then have "j < length ?vf" using find_index_SomeD by (auto simp: first_entry_def)
      then show ?thesis using Some concat_enumerate_one [of j ?way 0 ?vf] by (simp add: eq_commute [of j])
    qed
    finally show ?thesis using False found
      by (simp add: is_valid_transition_def valid_from_match_def find_find_index Let_def first_entry_def split: option.split)
  qed
qed

section \<open>External mappings\<close>

definition tagged :: "('a \<Rightarrow> ('p \<times> 'b) list) \<Rightarrow> 'a list \<Rightarrow> ((nat \<times> 'p) \<times> 'b) list" where
  "tagged h xs = concat (map (\<lambda>(i, x). map (\<lambda>(p, y). ((i, p), y)) (h x)) (enumerate 0 xs))"

lemma set_tagged: "((i, p), y) \<in> set (tagged h xs) \<longleftrightarrow> i < length xs \<and> (p, y) \<in> set (h (xs ! i))"
  by (force simp: tagged_def in_set_enumerate_eq)

lemma distinct_tagged_from:
  assumes "\<And>x. distinct (map fst (h x))"
  shows "distinct (map fst (concat (map (\<lambda>(i, x). map (\<lambda>(p, y). ((i, p), y)) (h x)) (enumerate n xs))))"
proof (induction xs arbitrary: n)
  case Nil then show ?case by simp
next
  case (Cons x xs)
  have "distinct (map (\<lambda>z. (n, fst z)) (h x))"
    using assms [of x] by (simp add: distinct_map inj_on_def)
  moreover have "i \<noteq> n" if "(i, x') \<in> set (enumerate (Suc n) xs)" for i x'
    using that by (auto simp: in_set_enumerate_eq)
  ultimately show ?case using Cons [of "Suc n"]
    by (force simp: split_def comp_def)
qed

lemma distinct_tagged: "(\<And>x. distinct (map fst (h x))) \<Longrightarrow> distinct (map fst (tagged h xs))"
  unfolding tagged_def by (rule distinct_tagged_from)

definition mapping_of :: "external_phase \<Rightarrow> external_stage \<Rightarrow> external_status \<Rightarrow> external_mapping" where
  "mapping_of phase stage status = \<lparr>emEntry = status, emPhase = epCode phase, emStage = esCode stage\<rparr>"

lemma placed_mappings_tagged:
  "placed_mappings m = tagged (\<lambda>phase. tagged (\<lambda>stage.
     map (\<lambda>(k, status). (k, mapping_of phase stage status)) (enumerate 0 (esStatuses stage))) (epStages phase))
     (phases_of_map m)"
  by (simp add: placed_mappings_def tagged_def mapping_of_def map_concat comp_def split_def)

lemma placed_mappings_distinct: "distinct (map fst (placed_mappings m))"
  unfolding placed_mappings_tagged
  by (intro distinct_tagged) (simp add: comp_def split_def distinct_enumerate flip: fst_def)

lemma placed_mappings_at:
  assumes "i < length (phases_of_map m)" and "phase = phases_of_map m ! i"
    and "j < length (epStages phase)" and "stage = epStages phase ! j"
    and "k < length (esStatuses stage)"
  shows "((i, j, k), mapping_of phase stage (esStatuses stage ! k)) \<in> set (placed_mappings m)"
  using assms by (force simp: placed_mappings_tagged set_tagged in_set_enumerate_eq)

text \<open>The mapping the lookup finds, and its place.\<close>

lemma found_place_None:
  "found_mapping_place (grExternalStatusMap g) phase stage code source = None \<longleftrightarrow>
     find_external_status_mapping g phase stage code source = None"
  by (auto simp: found_mapping_place_def find_external_status_mapping_def find_external_stage_def find_find_index
      phases_of_map_def Let_def split: option.splits bind_splits)

lemma found_place_Some:
  assumes "found_mapping_place (grExternalStatusMap g) phase stage code source = Some place"
  obtains em where "(place, em) \<in> set (placed_mappings (grExternalStatusMap g))"
    and "emPhase em = phase" and "emStage em = stage" and "exCode (emEntry em) = code" and "exSource (emEntry em) = source"
    and "find_external_status_mapping g phase stage code source = Some (emEntry em)"
proof -
  let ?ps = "phases_of_map (grExternalStatusMap g)"
  obtain i j k where i: "find_index (\<lambda>p. epCode p = phase) ?ps = Some i"
    and j: "find_index (\<lambda>s. esCode s = stage) (epStages (?ps ! i)) = Some j"
    and k: "find_index (external_status_match code source) (esStatuses (epStages (?ps ! i) ! j)) = Some k"
    and t: "js_truthy_string (exMappedTo (esStatuses (epStages (?ps ! i) ! j) ! k))" and place: "place = (i, j, k)"
    using assms by (auto simp: found_mapping_place_def Let_def Option.bind_eq_Some_conv split: if_splits)
  let ?stage = "epStages (?ps ! i) ! j"
  let ?em = "mapping_of (?ps ! i) ?stage (esStatuses ?stage ! k)"
  have "find_external_status_mapping g phase stage code source = Some (emEntry ?em)"
    using i j k t by (simp add: find_external_status_mapping_def find_external_stage_def find_find_index
        phases_of_map_def mapping_of_def)
  moreover have "(place, ?em) \<in> set (placed_mappings (grExternalStatusMap g))"
    unfolding place using find_index_SomeD [OF i] find_index_SomeD [OF j] find_index_SomeD [OF k]
    by (intro placed_mappings_at) auto
  ultimately show ?thesis using that find_index_SomeD [OF i] find_index_SomeD [OF j] find_index_SomeD [OF k]
    by (auto simp: mapping_of_def external_status_match_def)
qed

lemma filter_key:
  assumes "distinct (map fst xs)" and "(p, e) \<in> set xs"
  shows "filter (\<lambda>(q, f). q = p \<and> P q f) xs = (if P p e then [(p, e)] else [])"
  using assms
proof (induction xs)
  case Nil then show ?case by simp
next
  case (Cons x xs)
  show ?case
  proof (cases "x = (p, e)")
    case True
    then have "filter (\<lambda>(q, f). q = p \<and> P q f) xs = []"
      using Cons.prems(1) by (force simp: filter_empty_conv)
    then show ?thesis using True by simp
  next
    case False
    then have m: "(p, e) \<in> set xs" using Cons.prems(2) by auto
    then have "p \<in> fst ` set xs" by force
    then have "fst x \<noteq> p" using Cons.prems(1) by auto
    then show ?thesis using Cons m by (auto simp: split_def)
  qed
qed

definition mapping_in :: "string \<Rightarrow> string \<Rightarrow> string \<Rightarrow> string \<Rightarrow> external_mapping \<Rightarrow> bool" where
  "mapping_in phase stage code source em \<longleftrightarrow>
     emPhase em = phase \<and> emStage em = stage \<and> exCode (emEntry em) = code \<and> exSource (emEntry em) = source"

lemma applied_in_place:
  "map snd (filter (\<lambda>z. mapping_in phase stage code source (snd z))
      (filter (is_applied (grExternalStatusMap g)) (placed_mappings (grExternalStatusMap g))))
    = (case find_external_status_mapping g phase stage code source of None \<Rightarrow> []
       | Some entry \<Rightarrow> [\<lparr>emEntry = entry, emPhase = phase, emStage = stage\<rparr>])"
proof -
  let ?m = "grExternalStatusMap g"
  have both: "filter (\<lambda>z. mapping_in phase stage code source (snd z)) (filter (is_applied ?m) (placed_mappings ?m))
      = filter (\<lambda>(place, em). found_mapping_place ?m phase stage code source = Some place
          \<and> mapping_in phase stage code source em) (placed_mappings ?m)"
    by (auto simp: filter_filter is_applied_def mapping_in_def intro!: filter_cong)
  show ?thesis
  proof (cases "found_mapping_place ?m phase stage code source")
    case None
    then show ?thesis unfolding both using found_place_None [of g phase stage code source] by simp
  next
    case (Some place)
    then obtain em where em: "(place, em) \<in> set (placed_mappings ?m)"
      and at: "emPhase em = phase" "emStage em = stage" "exCode (emEntry em) = code" "exSource (emEntry em) = source"
      and found: "find_external_status_mapping g phase stage code source = Some (emEntry em)"
      by (rule found_place_Some)
    have "filter (\<lambda>(q, f). q = place \<and> mapping_in phase stage code source f) (placed_mappings ?m) = [(place, em)]"
      using filter_key [OF placed_mappings_distinct em, of "\<lambda>_. mapping_in phase stage code source"] at
      by (simp add: mapping_in_def)
    then show ?thesis unfolding both using Some found at by (simp add: eq_commute [of place])
  qed
qed

lemma describe_mapping_Inr:
  assumes "describe_mapping em = Inr dm"
  shows "dmSource dm = exSource (emEntry em) \<and> dmCode dm = exCode (emEntry em)
    \<and> dmWhileIn dm = emPhase em @ '':'' @ emStage em
    \<and> dmTo dm = map_option position_to_string
        (Option.bind (exMappedTo (emEntry em)) (\<lambda>t. mapping_target t (emPhase em) (emStage em)))"
  using assms by (auto simp: describe_mapping_def bind_res_Inr external_mapping_target_def split: option.splits)

lemma described_mappings_filter:
  assumes "map_res (describe_mapping \<circ> snd) zs = Inr dms"
    and "\<And>z dm. z \<in> set zs \<Longrightarrow> describe_mapping (snd z) = Inr dm \<Longrightarrow> P dm = Q (snd z)"
  shows "map dmTo (filter P dms) = map (\<lambda>z. map_option position_to_string
      (Option.bind (exMappedTo (emEntry (snd z))) (\<lambda>t. mapping_target t (emPhase (snd z)) (emStage (snd z)))))
      (filter (\<lambda>z. Q (snd z)) zs)"
  using assms
proof (induction zs arbitrary: dms)
  case Nil then show ?case by simp
next
  case (Cons z zs)
  obtain dm rest where dm: "describe_mapping (snd z) = Inr dm" and rest: "map_res (describe_mapping \<circ> snd) zs = Inr rest"
    and dms: "dms = dm # rest" using Cons.prems(1) by (auto simp: bind_res_Inr comp_def)
  show ?case using Cons.IH [OF rest] Cons.prems(2) Cons.prems(2) [OF _ dm] describe_mapping_Inr [OF dm] dms by simp
qed

lemma colon_split:
  assumes "plain_code a" and "plain_code b" and "a @ '':'' @ c = b @ '':'' @ d"
  shows "a = b \<and> c = d"
proof -
  have "takeWhile (\<lambda>x. x \<noteq> CHR '':'') (e @ '':'' @ f) = e" if "plain_code e" for e f
    using that by (subst takeWhile_append2) (auto simp: plain_code_def)
  then have "a = b" using assms by metis
  then show ?thesis using assms(3) by simp
qed

lemma described_mappings_applied:
  assumes "applied_external_status_mappings (grExternalStatusMap g) = Inr dms"
    and "plain_code phase" and "list_all (\<lambda>p. plain_code (epCode p)) (phases_of_map (grExternalStatusMap g))"
  shows "map dmTo (filter (\<lambda>m. dmWhileIn m = phase @ '':'' @ stage \<and> dmCode m = code \<and> dmSource m = source) dms)
    = (if has_external_status_mapping g code source phase stage
       then [map_option position_to_string (map_external_state g phase stage code source)] else [])"
proof -
  let ?m = "grExternalStatusMap g"
  let ?zs = "filter (is_applied ?m) (placed_mappings ?m)"
  have plain: "plain_code (emPhase (snd z))" if "z \<in> set ?zs" for z
    using that assms(3) by (force simp: placed_mappings_def in_set_enumerate_eq list_all_iff)
  have key: "(dmWhileIn dm = phase @ '':'' @ stage \<and> dmCode dm = code \<and> dmSource dm = source)
      = mapping_in phase stage code source (snd z)" if "z \<in> set ?zs" and "describe_mapping (snd z) = Inr dm" for z dm
    using describe_mapping_Inr [OF that(2)] colon_split [OF plain [OF that(1)] assms(2), of "emStage (snd z)" stage]
    by (auto simp: mapping_in_def)
  have "map dmTo (filter (\<lambda>m. dmWhileIn m = phase @ '':'' @ stage \<and> dmCode m = code \<and> dmSource m = source) dms)
      = map (\<lambda>em. map_option position_to_string
          (Option.bind (exMappedTo (emEntry em)) (\<lambda>t. mapping_target t (emPhase em) (emStage em))))
        (map snd (filter (\<lambda>z. mapping_in phase stage code source (snd z)) ?zs))"
    unfolding map_map comp_def using assms(1) unfolding applied_external_status_mappings_def
    by (rule described_mappings_filter) (rule key)
  then show ?thesis unfolding applied_in_place
    by (auto simp: has_external_status_mapping_def map_external_state_def split: option.splits)
qed

section \<open>The description\<close>

lemma describe_lifecycle_Inr:
  assumes "describe_lifecycle msgs g = Inr d"
  shows "phases_schema (grPhases g)"
    and "ldWaysIn d = concat (map (ways_into g (distinct_positions (grPhases g))) (distinct_positions (grPhases g)))"
    and "applied_external_status_mappings (grExternalStatusMap g) = Inr (ldExternalMappings d)"
  using assms by (auto simp: describe_lifecycle_def bind_res_Inr assert_describable_def Let_def split: if_splits)

lemma found_status_schema:
  assumes "phases_schema (grPhases g)" and "find_status_definition g to = Some sd"
  shows "status_schema sd"
  using assms(2) by (rule find_status_definition_SomeD) (use assms(1) in \<open>auto simp: phases_schema_def list_all_iff\<close>)

lemma ways_into_target: "w \<in> set (ways_into g positions to) \<Longrightarrow> wyTo w = position_to_string to"
  by (auto simp: ways_into_def ways_into_by_def Let_def split: option.splits if_splits)

lemma described_ways:
  assumes "describe_lifecycle msgs g = Inr d" and "to \<in> set (distinct_positions (grPhases g))"
    and "source \<in> position_to_string ` set (declared_positions (grPhases g))" and "source \<noteq> position_to_string to"
  shows "map wyProcesses (filter (\<lambda>w. wyTo w = position_to_string to \<and> leads_from source w) (ldWaysIn d))
    = (let c = is_valid_transition g to source in if trValid c then [the (trProcesses c)] else [])"
proof -
  let ?ps = "distinct_positions (grPhases g)"
  have "filter (\<lambda>w. wyTo w = position_to_string to \<and> leads_from source w) (ldWaysIn d)
      = filter (leads_from source) (ways_into g ?ps to)"
    unfolding describe_lifecycle_Inr(2) [OF assms(1)]
    by (intro filter_concat_one distinct_positions_strings(1) assms(2) ways_into_target)
  moreover have "source \<in> set (map position_to_string ?ps)" using assms(3) by (simp only: distinct_positions_strings(2))
  moreover have "status_schema sd" if "find_status_definition g to = Some sd" for sd
    using found_status_schema [OF describe_lifecycle_Inr(1) [OF assms(1)] that] .
  ultimately show ?thesis
    using ways_from [OF distinct_positions_strings(1) _ assms(4), of "grPhases g" g] by simp
qed

text \<open>
  C33. Between two different positions a grant declares, the lifecycle the admin is shown has a way exactly when
  an application makes that move, once and with the processes it runs; and it shows an external status mapped
  while in a phase and stage exactly when a message with that status is mapped there, with the position
  it asks for.
\<close>

theorem described_lifecycle_happens:
  assumes "describe_lifecycle msgs g = Inr d"
    and "to \<in> set (distinct_positions (grPhases g))"
    and "get_fully_qualified_status app \<in> position_to_string ` set (declared_positions (grPhases g))"
    and "get_fully_qualified_status app \<noteq> position_to_string to"
    and "plain_code phase" and "list_all (\<lambda>p. plain_code (epCode p)) (phases_of_map (grExternalStatusMap g))"
  shows "map wyProcesses (filter (\<lambda>w. wyTo w = position_to_string to
          \<and> leads_from (get_fully_qualified_status app) w) (ldWaysIn d))
      = (case move_to now to g app of Inl _ \<Rightarrow> [] | Inr (_, move) \<Rightarrow> [mvProcesses move])
    \<and> map dmTo (filter (\<lambda>m. dmWhileIn m = phase @ '':'' @ stage \<and> dmCode m = code \<and> dmSource m = source)
        (ldExternalMappings d))
      = (if has_external_status_mapping g code source phase stage
         then [map_option position_to_string (map_external_state g phase stage code source)] else [])"
proof (rule conjI)
  have "trProcesses (is_valid_transition g to s) \<noteq> None" if "trValid (is_valid_transition g to s)" for s
    using that by (auto simp: is_valid_transition_def split: option.splits if_splits)
  then show "map wyProcesses (filter (\<lambda>w. wyTo w = position_to_string to
          \<and> leads_from (get_fully_qualified_status app) w) (ldWaysIn d))
      = (case move_to now to g app of Inl _ \<Rightarrow> [] | Inr (_, move) \<Rightarrow> [mvProcesses move])"
    unfolding described_ways [OF assms(1-4)] using assms(4)
    by (force simp: move_to_def Let_def split: option.split)
qed (rule described_mappings_applied [OF describe_lifecycle_Inr(3) [OF assms(1)] assms(5,6)])

text \<open>A status entered from another by two entries, of which the first is used.\<close>

definition d_grant :: "unit grant" where
  "d_grant = sample_grant\<lparr>grPhases := [\<lparr>phCode = ''PRE'', phName = None,
     phStages = [\<lparr>tgCode = ''ASSESS'', tgName = None,
       tgStatuses = [sample_status ''RECEIVED'' None [],
         sample_status ''REVIEW'' (Some [\<lparr>vfCode = ''RECEIVED'', vfProcesses = [''GENERATE_OFFER'']\<rparr>,
           \<lparr>vfCode = ''PRE:ASSESS:RECEIVED'', vfProcesses = []\<rparr>]) []]\<rparr>], phQuestions = Some ()\<rparr>]\<rparr>"

definition d_description :: lifecycle_description where
  "d_description = \<lparr>ldPhases = describe_phases (grPhases d_grant), ldInitialPosition = ''PRE:ASSESS:RECEIVED'',
     ldAmendablePositions = [''PRE:ASSESS:RECEIVED''],
     ldWaysIn = [\<lparr>wyTo = ''PRE:ASSESS:RECEIVED'', wyKind = WayAny, wyProcesses = ProcessList []\<rparr>,
       \<lparr>wyTo = ''PRE:ASSESS:REVIEW'', wyKind = WayMove ''PRE:ASSESS:RECEIVED'' ByStatus,
        wyProcesses = ProcessList [''GENERATE_OFFER'']\<rparr>],
     ldExternalMappings = [\<lparr>dmSource = ''CW'', dmCode = ''in-review'', dmWhileIn = ''PRE:ASSESS'',
       dmMappedTo = Some ''::REVIEW'', dmTo = Some ''PRE:ASSESS:REVIEW''\<rparr>],
     ldClaimApproval = Some (''PRE:ASSESS:RECEIVED'', ''PRE:ASSESS:REVIEW'')\<rparr>"

lemma d_described: "describe_lifecycle (\<lambda>_. []) d_grant = Inr d_description"
  by code_simp

lemma d_moves: "(case move_to ''t1'' position_review d_grant sample_application of
    Inl _ \<Rightarrow> [] | Inr (_, move) \<Rightarrow> [mvProcesses move]) = [ProcessList [''GENERATE_OFFER'']]"
  by code_simp

theorem described_lifecycle_happens_witness:
  "map wyProcesses (filter (\<lambda>w. wyTo w = position_to_string position_review
      \<and> leads_from (get_fully_qualified_status sample_application) w) (ldWaysIn d_description))
    = [ProcessList [''GENERATE_OFFER'']]
   \<and> map dmTo (filter (\<lambda>m. dmWhileIn m = ''PRE'' @ '':'' @ ''ASSESS'' \<and> dmCode m = ''in-review'' \<and> dmSource m = ''CW'')
      (ldExternalMappings d_description))
    = (if has_external_status_mapping d_grant ''in-review'' ''CW'' ''PRE'' ''ASSESS''
       then [map_option position_to_string (map_external_state d_grant ''PRE'' ''ASSESS'' ''in-review'' ''CW'')] else [])"
proof -
  have "position_review \<in> set (distinct_positions (grPhases d_grant))" by code_simp
  moreover have "get_fully_qualified_status sample_application \<in> position_to_string ` set (declared_positions (grPhases d_grant))"
    by code_simp
  moreover have "get_fully_qualified_status sample_application \<noteq> position_to_string position_review" by code_simp
  moreover have "plain_code ''PRE''" by code_simp
  moreover have "list_all (\<lambda>p. plain_code (epCode p)) (phases_of_map (grExternalStatusMap d_grant))" by code_simp
  ultimately show ?thesis
    using described_lifecycle_happens [OF d_described, of position_review sample_application "''PRE''" "''t1''"] d_moves by simp
qed

end
