(* ===== verification/ApplicationStorage.thy ===== *)
theory ApplicationStorage
  imports JsValues Buckets Submission
begin

text \<open>
  How applications are stored (\<open>src/grants/repositories/application.repository.js\<close>,
  \<open>models/application-document.js\<close>): the document of an application with the refs it is found by, what is
  read of a document, old ones with a single version included, and the writes of the collection. The use
  cases are modelled on the applications themselves (\<open>Publication\<close>); the laws of this theory's sibling
  relate the two. A field that is null and one that is absent read the same, so both are none; refs that are
  absent are an empty list. The size of a document is a parameter.
\<close>

section \<open>Documents\<close>

record stored_application =
  saCurrentPhase :: string
  saCurrentStage :: string
  saCurrentStatus :: string
  saClientRef :: string
  saCode :: string
  saOriginalConfigVersion :: "string option"
  saCurrentConfigVersion :: "string option"
  saConfigVersion :: "string option"
  saCreatedAt :: string
  saUpdatedAt :: string
  saSubmittedAt :: "string option"
  saIdentifiers :: "(string \<times> json) list option"
  saMetadata :: "(string \<times> json) list option"
  saPhases :: "app_phase list"
  saAgreements :: "(string \<times> agreement) list option"
  saRefs :: "string list"
  saClaimSubmissionLockVersion :: nat

definition ref_value :: "(js_number \<Rightarrow> string) \<Rightarrow> json option \<Rightarrow> string option" where
  "ref_value numText v = (case v of None \<Rightarrow> None | Some JNull \<Rightarrow> None | Some x \<Rightarrow> Some (js_text numText x))"

definition application_refs :: "(js_number \<Rightarrow> string) \<Rightarrow> application \<Rightarrow> string list" where
  "application_refs numText app =
     to_refs ([(''ref'', Some (apClientRef app)),
        (''sbi'', ref_value numText (map_of (apIdentifiers app) ''sbi'')),
        (''frn'', ref_value numText (map_of (apIdentifiers app) ''frn'')),
        (''crn'', ref_value numText (map_of (apIdentifiers app) ''crn''))]
       @ map (\<lambda>number. (''agreement'', Some number)) (map fst (apAgreements app)))"

definition refs_of_series :: "string list \<Rightarrow> string list" where
  "refs_of_series clientRefs = to_refs (map (\<lambda>clientRef. (''ref'', Some clientRef)) clientRefs)"

definition application_document :: "(js_number \<Rightarrow> string) \<Rightarrow> application \<Rightarrow> stored_application" where
  "application_document numText app =
     \<lparr>saCurrentPhase = apCurrentPhase app, saCurrentStage = apCurrentStage app, saCurrentStatus = apCurrentStatus app,
      saClientRef = apClientRef app, saCode = apCode app, saOriginalConfigVersion = apOriginalConfigVersion app,
      saCurrentConfigVersion = apCurrentConfigVersion app, saConfigVersion = None, saCreatedAt = apCreatedAt app,
      saUpdatedAt = apUpdatedAt app, saSubmittedAt = apSubmittedAt app, saIdentifiers = Some (apIdentifiers app),
      saMetadata = Some (apMetadata app), saPhases = apPhases app, saAgreements = Some (apAgreements app),
      saRefs = application_refs numText app, saClaimSubmissionLockVersion = 0\<rparr>"

definition stored_list :: "'a list option \<Rightarrow> 'a list" where
  "stored_list xs = (case xs of None \<Rightarrow> [] | Some ys \<Rightarrow> ys)"

definition original_version_of :: "stored_application \<Rightarrow> string option" where
  "original_version_of doc = or_else (saOriginalConfigVersion doc) (saConfigVersion doc)"

definition current_version_of :: "stored_application \<Rightarrow> string option" where
  "current_version_of doc = or_else (saCurrentConfigVersion doc) (saConfigVersion doc)"

definition to_application :: "(application \<Rightarrow> string) \<Rightarrow> stored_application \<Rightarrow> application res" where
  "to_application joiMessages doc =
     new_application joiMessages None
       \<lparr>apCurrentPhase = saCurrentPhase doc, apCurrentStage = saCurrentStage doc, apCurrentStatus = saCurrentStatus doc,
        apClientRef = saClientRef doc, apCode = saCode doc, apOriginalConfigVersion = original_version_of doc,
        apCurrentConfigVersion = current_version_of doc, apCreatedAt = saCreatedAt doc, apUpdatedAt = saUpdatedAt doc,
        apSubmittedAt = saSubmittedAt doc, apIdentifiers = stored_list (saIdentifiers doc),
        apMetadata = stored_list (saMetadata doc), apPhases = saPhases doc, apAgreements = stored_list (saAgreements doc)\<rparr>"

section \<open>The collection\<close>

definition same_stored :: "string \<Rightarrow> string \<Rightarrow> stored_application \<Rightarrow> bool" where
  "same_stored clientRef code doc \<longleftrightarrow> saClientRef doc = clientRef \<and> saCode doc = code"

type_synonym ('a) stored_action = "(stored_application list, 'a) action"

text \<open>The collection has a unique index on the reference and the code.\<close>

definition save_stored :: "(js_number \<Rightarrow> string) \<Rightarrow> application \<Rightarrow> unit stored_action" where
  "save_stored numText app = (\<lambda>docs.
     if list_ex (same_stored (apClientRef app) (apCode app)) docs
     then (Inl (Boom Conflict (''Application with clientRef '' @ quoted (apClientRef app) @ '' exists'') []), docs)
     else (Inr (), docs @ [application_document numText app]))"

text \<open>\<open>$set\<close> of every field of the document but its refs, which are added to those there.\<close>

definition set_document :: "stored_application \<Rightarrow> stored_application \<Rightarrow> stored_application" where
  "set_document new doc =
     new\<lparr>saConfigVersion := saConfigVersion doc, saRefs := add_new (saRefs doc) (saRefs new),
         saClaimSubmissionLockVersion := saClaimSubmissionLockVersion doc\<rparr>"

definition update_stored :: "(js_number \<Rightarrow> string) \<Rightarrow> application \<Rightarrow> unit stored_action" where
  "update_stored numText app = (\<lambda>docs.
     let here = same_stored (apClientRef app) (apCode app);
         write = set_document (application_document numText app) in
     case find here docs of
       None \<Rightarrow> (Inl (update_failed app), docs)
     | Some doc \<Rightarrow>
         if write doc = doc then (Inl (update_failed app), docs) else (Inr (), update_one here write docs))"

definition link_series :: "string \<Rightarrow> string list \<Rightarrow> unit stored_action" where
  "link_series code clientRefs =
     writes (map (\<lambda>doc. if saCode doc = code \<and> saClientRef doc \<in> set clientRefs
       then doc\<lparr>saRefs := add_new (saRefs doc) (refs_of_series clientRefs)\<rparr> else doc))"

definition read_found ::
  "(application \<Rightarrow> string) \<Rightarrow> stored_application option \<Rightarrow> application option res" where
  "read_found joiMessages found =
     (case found of None \<Rightarrow> Inr None | Some doc \<Rightarrow> bind_res (to_application joiMessages doc) (\<lambda>app. Inr (Some app)))"

definition find_by_client_ref_and_code ::
  "(application \<Rightarrow> string) \<Rightarrow> string \<Rightarrow> string \<Rightarrow> application option stored_action" where
  "find_by_client_ref_and_code joiMessages clientRef code = (\<lambda>docs.
     (read_found joiMessages (find (same_stored clientRef code) docs), docs))"

definition find_by_client_ref ::
  "(application \<Rightarrow> string) \<Rightarrow> string \<Rightarrow> application option stored_action" where
  "find_by_client_ref joiMessages clientRef = (\<lambda>docs.
     (read_found joiMessages (find (\<lambda>doc. saClientRef doc = clientRef) docs), docs))"

definition update_current_config_version :: "string \<Rightarrow> string \<Rightarrow> string \<Rightarrow> unit stored_action" where
  "update_current_config_version clientRef code version =
     writes (update_one (same_stored clientRef code) (\<lambda>doc. doc\<lparr>saCurrentConfigVersion := Some version\<rparr>))"

definition lock_for_update ::
  "(application \<Rightarrow> string) \<Rightarrow> string \<Rightarrow> string \<Rightarrow> application option stored_action" where
  "lock_for_update joiMessages clientRef code = (\<lambda>docs.
     let here = same_stored clientRef code;
         locked = update_one here (\<lambda>doc. doc\<lparr>saClaimSubmissionLockVersion := saClaimSubmissionLockVersion doc + 1\<rparr>) docs in
     (read_found joiMessages (find here locked), locked))"

section \<open>What the admin reads\<close>

record application_row =
  arwClientRef :: string
  arwCode :: string
  arwPosition :: position
  arwCreatedAt :: string

definition stored_position :: "stored_application \<Rightarrow> position" where
  "stored_position doc =
     \<lparr>posPhase = saCurrentPhase doc, posStage = saCurrentStage doc, posStatus = saCurrentStatus doc\<rparr>"

definition to_application_row :: "stored_application \<Rightarrow> application_row" where
  "to_application_row doc =
     \<lparr>arwClientRef = saClientRef doc, arwCode = saCode doc, arwPosition = stored_position doc, arwCreatedAt = saCreatedAt doc\<rparr>"

record stored_identifiers =
  siSbi :: json
  siFrn :: json
  siCrn :: json

definition to_identifiers :: "(string \<times> json) list option \<Rightarrow> stored_identifiers" where
  "to_identifiers identifiers =
     (let read = (\<lambda>k. case map_of (stored_list identifiers) k of None \<Rightarrow> JNull | Some v \<Rightarrow> v) in
      \<lparr>siSbi = read ''sbi'', siFrn = read ''frn'', siCrn = read ''crn''\<rparr>)"

record application_summary =
  asRow :: application_row
  asOriginalConfigVersion :: "string option"
  asCurrentConfigVersion :: "string option"
  asSubmittedAt :: "string option"
  asUpdatedAt :: string
  asIdentifiers :: stored_identifiers

definition to_application_summary :: "stored_application \<Rightarrow> application_summary" where
  "to_application_summary doc =
     \<lparr>asRow = to_application_row doc, asOriginalConfigVersion = original_version_of doc,
      asCurrentConfigVersion = current_version_of doc, asSubmittedAt = saSubmittedAt doc, asUpdatedAt = saUpdatedAt doc,
      asIdentifiers = to_identifiers (saIdentifiers doc)\<rparr>"

text \<open>The order of the rows is that of the index and not modelled.\<close>

definition find_application_rows_by_client_refs ::
  "string list \<Rightarrow> string \<Rightarrow> stored_application list \<Rightarrow> application_row list" where
  "find_application_rows_by_client_refs clientRefs code docs =
     map to_application_row (filter (\<lambda>doc. saClientRef doc \<in> set clientRefs \<and> saCode doc = code) docs)"

definition find_application_summary_row ::
  "(stored_application \<Rightarrow> nat) \<Rightarrow> string \<Rightarrow> string \<Rightarrow> stored_application list \<Rightarrow> (application_summary \<times> nat) option" where
  "find_application_summary_row storedBytes clientRef code docs =
     map_option (\<lambda>doc. (to_application_summary doc, storedBytes doc)) (find (same_stored clientRef code) docs)"

text \<open>A document over the limit is answered by its size alone.\<close>

definition find_stored_application_document ::
  "(stored_application \<Rightarrow> nat) \<Rightarrow> nat \<Rightarrow> string \<Rightarrow> string \<Rightarrow> stored_application list
     \<Rightarrow> (nat \<times> stored_application option) option" where
  "find_stored_application_document storedBytes maxBytes clientRef code docs =
     map_option (\<lambda>doc. (storedBytes doc, if storedBytes doc \<le> maxBytes then Some doc else None))
       (find (same_stored clientRef code) docs)"

definition find_application_identifiers ::
  "string \<Rightarrow> string \<Rightarrow> stored_application list \<Rightarrow> stored_identifiers option" where
  "find_application_identifiers clientRef code docs =
     map_option (\<lambda>doc. to_identifiers (saIdentifiers doc)) (find (same_stored clientRef code) docs)"

end
