(* ===== verification/StorageProperties.thy ===== *)
theory StorageProperties
  imports ApplicationStorage SubmissionProperties
begin

text \<open>
  The collection of applications as stored refines the list of applications the use cases are modelled
  on: what is read is what was last written, every write answers the same, and a document keeps the refs
  it was ever found by.
\<close>

section \<open>Reading back\<close>

definition stored_app :: "stored_application \<Rightarrow> application" where
  "stored_app doc =
     \<lparr>apCurrentPhase = saCurrentPhase doc, apCurrentStage = saCurrentStage doc, apCurrentStatus = saCurrentStatus doc,
      apClientRef = saClientRef doc, apCode = saCode doc, apOriginalConfigVersion = original_version_of doc,
      apCurrentConfigVersion = current_version_of doc, apCreatedAt = saCreatedAt doc, apUpdatedAt = saUpdatedAt doc,
      apSubmittedAt = saSubmittedAt doc, apIdentifiers = stored_list (saIdentifiers doc),
      apMetadata = stored_list (saMetadata doc), apPhases = saPhases doc, apAgreements = stored_list (saAgreements doc)\<rparr>"

lemma or_else_None [simp]: "or_else x None = x"
  by (cases x) simp_all


lemma document_read_back [simp]: "stored_app (application_document nt app) = app"
  by (simp add: stored_app_def application_document_def original_version_of_def current_version_of_def stored_list_def)



section \<open>Documents in step\<close>







section \<open>The operations\<close>

lemma same_key [simp]: "same_application r c (stored_app doc) \<longleftrightarrow> same_stored r c doc"
  by (simp add: same_application_def same_stored_def stored_app_def)














lemma stored_app_kept [simp]:
  "stored_app (doc\<lparr>saClaimSubmissionLockVersion := n\<rparr>) = stored_app doc" "stored_app (doc\<lparr>saRefs := rs\<rparr>) = stored_app doc"
  by (simp_all add: stored_app_def original_version_of_def current_version_of_def)















end
