(* ===== verification/OperatorActions.thy ===== *)
theory OperatorActions
  imports EventAdmin CaseworkingClient
begin

text \<open>
  The use cases behind an operator's action on one event (\<open>src/grant-admin/use-cases\<close>: redrive-event,
  purge-event, edit-payload; \<open>src/events/with-audit.js\<close>): on a row of this service's boxes in a
  transaction with its audit, on Caseworking's by asking it. An audit is a row of the outbox as well; it is
  kept in a list of its own, because no action is on a row added by it. What a database that fails does is not
  modelled. In an audit's details a null value is left out when it is published.
\<close>

section \<open>State\<close>

datatype admin_service = GasService | CaseworkingService
datatype admin_box = InboxBox | OutboxBox

fun service_text :: "admin_service \<Rightarrow> string" where
  "service_text GasService = ''gas''"
| "service_text CaseworkingService = ''caseworking''"

fun box_text :: "admin_box \<Rightarrow> string" where
  "box_text InboxBox = ''inbox''"
| "box_text OutboxBox = ''outbox''"

record events_db =
  evInbox :: "inbox_row list"
  evOutbox :: "outbox_row list"
  evAudits :: "(audit \<times> audit_status) list"

record operator_env =
  oeConfig :: queue_config
  oeJoiMessage :: string
  oePrettyBytes :: "json \<Rightarrow> nat"
  oePayloadHash :: "json \<Rightarrow> string"
  oeNow :: int
  oeValidAudit :: "audit \<Rightarrow> bool"
  oeCw :: cw_env

record operator_request =
  vqService :: admin_service
  vqBox :: admin_box
  vqId :: string
  vqCaller :: json
  vqActor :: "string option"

definition on_inbox :: "(inbox_row list, 'a) action \<Rightarrow> (events_db, 'a) action" where
  "on_inbox m = (\<lambda>db. case m (evInbox db) of (r, rows) \<Rightarrow> (r, db\<lparr>evInbox := rows\<rparr>))"

definition on_outbox :: "(outbox_row list, 'a) action \<Rightarrow> (events_db, 'a) action" where
  "on_outbox m = (\<lambda>db. case m (evOutbox db) of (r, rows) \<Rightarrow> (r, db\<lparr>evOutbox := rows\<rparr>))"

section \<open>Audits\<close>

definition add_audit :: "audit \<Rightarrow> audit_status \<Rightarrow> events_db \<Rightarrow> events_db" where
  "add_audit a status db = db\<lparr>evAudits := evAudits db @ [(a, status)]\<rparr>"

text \<open>An audit outside a transaction that is not valid is left out.\<close>

definition audit_outside :: "(audit \<Rightarrow> bool) \<Rightarrow> audit \<Rightarrow> audit_status \<Rightarrow> events_db \<Rightarrow> events_db" where
  "audit_outside valid a status db = (if valid a then add_audit a status db else db)"

text \<open>
  The action of a use case, wrapped in its audit. In a transaction the audit of a success is part of the
  commit, and that of a failure is written outside it.
\<close>

definition audited_in_transaction ::
  "(audit \<Rightarrow> bool) \<Rightarrow> (events_db, 'a) action \<Rightarrow> ('a + js_error \<Rightarrow> audit) \<Rightarrow> (events_db, 'a) action" where
  "audited_in_transaction valid f build = (\<lambda>db.
     case f db of
       (Inl e, _) \<Rightarrow> (Inl e, audit_outside valid (build (Inr e)) FAILURE db)
     | (Inr x, t) \<Rightarrow>
         if valid (build (Inl x)) then (Inr x, add_audit (build (Inl x)) SUCCESS t)
         else (Inl (JsError ''Audit event failed validation''), db))"

definition audited_call ::
  "(audit \<Rightarrow> bool) \<Rightarrow> (events_db, 'a) action \<Rightarrow> ('a + js_error \<Rightarrow> audit) \<Rightarrow> (events_db, 'a) action" where
  "audited_call valid f build = (\<lambda>db.
     case f db of
       (Inl e, t) \<Rightarrow> (Inl e, audit_outside valid (build (Inr e)) FAILURE t)
     | (Inr x, t) \<Rightarrow> (Inr x, audit_outside valid (build (Inl x)) SUCCESS t))"

definition run_event_action ::
  "operator_env \<Rightarrow> operator_request \<Rightarrow> (events_db, 'a) action \<Rightarrow> ('a + js_error \<Rightarrow> audit) \<Rightarrow> (events_db, 'a) action" where
  "run_event_action env rq f build =
     (if vqService rq = GasService then audited_in_transaction (oeValidAudit env) f build
      else audited_call (oeValidAudit env) f build)"

definition json_or_null :: "string option \<Rightarrow> json" where
  "json_or_null v = (case v of None \<Rightarrow> JNull | Some s \<Rightarrow> JStr s)"

definition event_audit :: "string \<Rightarrow> operator_request \<Rightarrow> (string \<times> json) list \<Rightarrow> audit" where
  "event_audit auditAction rq details =
     \<lparr>auEntity = ''EVENT'', auAction = auditAction, auEntityId = vqId rq,
      auDetails = [(''service'', JStr (service_text (vqService rq))), (''box'', JStr (box_text (vqBox rq))),
        (''caller'', vqCaller rq), (''actor'', json_or_null (vqActor rq))] @ details,
      auSegregationRef = ''event-'' @ vqId rq\<rparr>"

text \<open>What Caseworking refuses is thrown on with the label of its status.\<close>

definition ask_caseworking :: "'a res \<Rightarrow> (events_db, 'a) action" where
  "ask_caseworking answer = lift_res (case answer of Inl e \<Rightarrow> Inl (with_status_label e) | Inr x \<Rightarrow> Inr x)"

definition by_text :: "string option \<Rightarrow> string" where
  "by_text actor = (case actor of None \<Rightarrow> ''undefined'' | Some s \<Rightarrow> s)"

section \<open>Redrive\<close>

definition redrive_event :: "operator_env \<Rightarrow> operator_request \<Rightarrow> (events_db, unit) action" where
  "redrive_event env rq =
     (if vqService rq = GasService
      then (case vqBox rq of
          InboxBox \<Rightarrow> on_inbox (redrive_gas_event (inbox_ops (oeConfig env) (oeJoiMessage env)) ''inbox''
            (vqId rq) (vqActor rq) (oeNow env))
        | OutboxBox \<Rightarrow> on_outbox (redrive_gas_event (outbox_ops (oeConfig env) (oeJoiMessage env)) ''outbox''
            (vqId rq) (vqActor rq) (oeNow env)))
      else andThen (ask_caseworking (redrive_cw_event (oeCw env) (box_text (vqBox rq)) (vqId rq) (vqActor rq)))
             (\<lambda>_. ret ()))"

definition redrive_event_use_case :: "operator_env \<Rightarrow> operator_request \<Rightarrow> (events_db, unit) action" where
  "redrive_event_use_case env rq =
     run_event_action env rq (redrive_event env rq) (\<lambda>_. event_audit ''REDRIVE_EVENT'' rq [])"

section \<open>Purge\<close>

definition purge_event ::
  "operator_env \<Rightarrow> operator_request \<Rightarrow> string \<Rightarrow> string option \<Rightarrow> (events_db, unit) action" where
  "purge_event env rq reasonCode remark =
     (if vqService rq = GasService
      then (case vqBox rq of
          InboxBox \<Rightarrow> on_inbox (purge_gas_event (inbox_ops (oeConfig env) (oeJoiMessage env)) ''inbox''
            (vqId rq) (vqActor rq) reasonCode remark (oeNow env))
        | OutboxBox \<Rightarrow> on_outbox (purge_gas_event (outbox_ops (oeConfig env) (oeJoiMessage env)) ''outbox''
            (vqId rq) (vqActor rq) reasonCode remark (oeNow env)))
      else andThen (ask_caseworking (purge_cw_event (oeCw env) (box_text (vqBox rq)) (vqId rq)
             (by_text (vqActor rq)) reasonCode remark)) (\<lambda>_. ret ()))"

definition purge_event_use_case ::
  "operator_env \<Rightarrow> operator_request \<Rightarrow> string \<Rightarrow> string option \<Rightarrow> (events_db, unit) action" where
  "purge_event_use_case env rq reasonCode remark =
     run_event_action env rq (purge_event env rq reasonCode remark)
       (\<lambda>_. event_audit ''PURGE_EVENT'' rq [(''reasonCode'', JStr reasonCode)])"

section \<open>Edit\<close>

text \<open>The edit's answer: Caseworking's as it sent it, of which only these fields are taken.\<close>

record edit_answer =
  enPayloadRevision :: "json option"
  enChangedPaths :: "json option"
  enChangedPathsTruncated :: "json option"
  enBeforeHash :: "string option"
  enAfterHash :: "string option"

definition json_nat :: "nat \<Rightarrow> json" where "json_nat n = JNum (Finite (int n) 0 0)"

definition gas_edit_answer :: "edit_result \<Rightarrow> edit_answer" where
  "gas_edit_answer x =
     \<lparr>enPayloadRevision = Some (json_nat (exPayloadRevision x)),
      enChangedPaths = Some (JArr (map JStr (exChangedPaths x))),
      enChangedPathsTruncated = Some (JBool (exChangedPathsTruncated x)),
      enBeforeHash = Some (exBeforeHash x), enAfterHash = Some (exAfterHash x)\<rparr>"

definition cw_edit_answer :: "json \<Rightarrow> edit_answer res" where
  "cw_edit_answer v =
     (if v = JNull then Inl TypeError
      else Inr \<lparr>enPayloadRevision = get_field ''payloadRevision'' v, enChangedPaths = get_field ''changedPaths'' v,
        enChangedPathsTruncated = get_field ''changedPathsTruncated'' v, enBeforeHash = None, enAfterHash = None\<rparr>)"

record edit_params =
  epPayload :: json
  epNote :: string
  epRevision :: nat

definition edit_request_of :: "operator_request \<Rightarrow> edit_params \<Rightarrow> edit_request" where
  "edit_request_of rq p =
     \<lparr>erActor = vqActor rq, erPayload = epPayload p, erNote = epNote p, erRevision = epRevision p\<rparr>"

definition edit_event :: "operator_env \<Rightarrow> operator_request \<Rightarrow> edit_params \<Rightarrow> (events_db, edit_answer) action" where
  "edit_event env rq p =
     (if vqService rq = GasService
      then andThen (case vqBox rq of
          InboxBox \<Rightarrow> on_inbox (edit_gas_event (inbox_ops (oeConfig env) (oeJoiMessage env)) (oePrettyBytes env)
            (oePayloadHash env) ''inbox'' (vqId rq) (edit_request_of rq p) (oeNow env))
        | OutboxBox \<Rightarrow> on_outbox (edit_gas_event (outbox_ops (oeConfig env) (oeJoiMessage env)) (oePrettyBytes env)
            (oePayloadHash env) ''outbox'' (vqId rq) (edit_request_of rq p) (oeNow env)))
          (\<lambda>x. ret (gas_edit_answer x))
      else andThen (ask_caseworking (edit_cw_payload (oeCw env) (box_text (vqBox rq)) (vqId rq)
             (by_text (vqActor rq)) (epPayload p) (JStr (epNote p)) (epRevision p))) (\<lambda>v.
           lift_res (cw_edit_answer v)))"

definition audited_result :: "edit_answer \<Rightarrow> (string \<times> json) list" where
  "audited_result x =
     present ''changedPaths'' (enChangedPaths x) @ present ''changedPathsTruncated'' (enChangedPathsTruncated x)
     @ present ''beforeHash'' (map_option JStr (enBeforeHash x)) @ present ''afterHash'' (map_option JStr (enAfterHash x))"

definition edit_payload_audit :: "operator_request \<Rightarrow> edit_params \<Rightarrow> edit_answer + js_error \<Rightarrow> audit" where
  "edit_payload_audit rq p outcome =
     event_audit ''EDIT_EVENT_PAYLOAD'' rq ((''revision'', json_nat (epRevision p)) #
       (case outcome of Inl x \<Rightarrow> audited_result x
        | Inr e \<Rightarrow> [(''reason'', json_or_null (edit_failure_reason e))]))"

definition edit_payload_use_case ::
  "operator_env \<Rightarrow> operator_request \<Rightarrow> edit_params \<Rightarrow> (events_db, edit_answer) action" where
  "edit_payload_use_case env rq p = run_event_action env rq (edit_event env rq p) (edit_payload_audit rq p)"

end
