(* ===== verification/OperatorProperties.thy ===== *)
theory OperatorProperties
  imports OperatorActions QueueProperties
begin

text \<open>
  What an operator's action does to this service: it acts on the one row it names and only when that row
  allows it, a refused one changes no row, and it is audited once either way, without the payload or the note.
\<close>

section \<open>One row of a box\<close>

definition others_kept :: "nat \<Rightarrow> 'a queue_row_scheme list \<Rightarrow> 'a queue_row_scheme list \<Rightarrow> bool" where
  "others_kept i rows rows' \<longleftrightarrow> length rows' = length rows \<and> (\<forall>r\<in>set rows. qId r \<noteq> Some i \<longrightarrow> r \<in> set rows')"

lemma others_kept_update_one:
  assumes "\<And>r. p r \<Longrightarrow> qId r = Some i"
  shows "others_kept i rows (update_one p f rows)"
proof -
  have "length (update_one p f rows) = length rows" by (induction rows) auto
  moreover have "r \<in> set (update_one p f rows)" if "r \<in> set rows" and "qId r \<noteq> Some i" for r
    using that assms [of r] by (intro update_one_kept) auto
  ultimately show ?thesis by (simp add: others_kept_def)
qed

lemma find_update_first:
  assumes "find (\<lambda>r. qId r = k) rows = Some r" and "p r" and "\<And>x. p x \<Longrightarrow> qId x = k" and "\<And>x. qId (f x) = qId x"
  shows "find (\<lambda>r. qId r = k) (update_one p f rows) = Some (f r)"
  using assms(1,2) by (induction rows) (auto simp: assms(3,4) split: if_splits)

datatype operator_op = Redrive | Purge string "string option" | Edit edit_params

fun op_allowed :: "(json \<Rightarrow> nat) \<Rightarrow> operator_op \<Rightarrow> 'a queue_row_scheme \<Rightarrow> bool" where
  "op_allowed bytes Redrive r = (qStatus r \<in> set redrivable_statuses)"
| "op_allowed bytes (Purge _ _) r = (qStatus r = DEAD_LETTER)"
| "op_allowed bytes (Edit p) r = (qStatus r \<in> set redrivable_statuses \<and> payload_revision_of r = epRevision p
     \<and> assert_storable bytes (epPayload p) = Inr () \<and> \<not> same_json (qEvent r) (epPayload p))"

fun op_done :: "operator_op \<Rightarrow> 'a queue_row_scheme \<Rightarrow> 'a queue_row_scheme \<Rightarrow> bool" where
  "op_done Redrive r r' = (qStatus r' = RESUBMITTED \<and> qCompletionAttempts r' = 0)"
| "op_done (Purge _ _) r r' = (qStatus r' = PURGED)"
| "op_done (Edit p) r r' = (qStatus r' = qStatus r \<and> qEvent r' = epPayload p \<and> payload_revision_of r' = epRevision p + 1)"

definition box_acted ::
  "(json \<Rightarrow> nat) \<Rightarrow> operator_op \<Rightarrow> string \<Rightarrow> bool \<Rightarrow> 'a queue_row_scheme list \<Rightarrow> 'a queue_row_scheme list \<Rightarrow> bool" where
  "box_acted bytes op i ok rows rows' \<longleftrightarrow>
     (case find_editable_by_id i rows of
        None \<Rightarrow> \<not> ok
      | Some r \<Rightarrow> (ok \<longleftrightarrow> op_allowed bytes op r)
          \<and> (ok \<longrightarrow> (\<exists>r'. find_editable_by_id i rows' = Some r' \<and> op_done op r r')))
     \<and> (if ok then others_kept (object_id i) rows rows' else rows' = rows)"

context operated_box
begin

lemma redrive_acts:
  assumes "distinct (map qId rows)" and "redrive_gas_event ops box i actor now rows = (answer, rows')"
  shows "box_acted bytes Redrive i (\<not> isl answer) rows rows'"
proof (cases "find (\<lambda>r. qId r = Some (object_id i)) rows")
  case None
  then show ?thesis using assms(2) unfolding redrive_result [OF assms(1)]
    by (auto simp: box_acted_def find_status_by_id_def find_editable_by_id_def)
next
  case (Some r)
  have new: "qId (redriven actor now x) = qId x \<and> qStatus (redriven actor now x) = RESUBMITTED
      \<and> qCompletionAttempts (redriven actor now x) = 0" for x
    using redriven_is [of actor now x] by (simp add: same_columns_def redrive_update_def)
  show ?thesis
  proof (cases "qStatus r \<in> set redrivable_statuses")
    case True
    have "redrivable (object_id i) r" using True find_SomeD [OF Some] by (simp add: redrivable_def)
    then have "find (\<lambda>r. qId r = Some (object_id i)) (update_one (redrivable (object_id i)) (redriven actor now) rows)
        = Some (redriven actor now r)"
      using new by (intro find_update_first [OF Some]) (auto simp: redrivable_def)
    moreover have "others_kept (object_id i) rows (update_one (redrivable (object_id i)) (redriven actor now) rows)"
      by (rule others_kept_update_one) (simp add: redrivable_def)
    ultimately show ?thesis using assms(2) Some True new unfolding redrive_result [OF assms(1)]
      by (auto simp: box_acted_def find_status_by_id_def find_editable_by_id_def)
  next
    case False
    then show ?thesis using assms(2) Some unfolding redrive_result [OF assms(1)]
      by (auto simp: box_acted_def find_status_by_id_def find_editable_by_id_def)
  qed
qed

lemma purge_acts:
  assumes "distinct (map qId rows)" and "purge_gas_event ops box i actor reason msg now rows = (answer, rows')"
  shows "box_acted bytes (Purge reason msg) i (\<not> isl answer) rows rows'"
proof -
  let ?p = "\<lambda>r. qId r = Some (object_id i) \<and> qStatus r = DEAD_LETTER"
  let ?f = "purge_update actor reason msg days now"
  have new: "qId (?f x) = qId x \<and> qStatus (?f x) = PURGED" for x by (simp add: purge_update_def)
  have same: "update_one ?p ?f rows = rows" if "matched_count ?p rows = 0"
    using that by (intro update_one_none) (auto simp: matched_count_def split: if_splits)
  show ?thesis
  proof (cases "find (\<lambda>r. qId r = Some (object_id i)) rows")
    case None
    then have "matched_count ?p rows = 0" by (auto simp: find_None_iff matched_count_def)
    then show ?thesis using assms(2) None same
      by (auto simp: purge_gas_event_def purge_is box_acted_def find_status_by_id_def find_editable_by_id_def Let_def)
  next
    case (Some r)
    have m: "matched_count ?p rows > 0 \<longleftrightarrow> qStatus r = DEAD_LETTER" by (rule found_matches [OF assms(1) Some])
    have others: "others_kept (object_id i) rows (update_one ?p ?f rows)"
      by (rule others_kept_update_one) simp
    show ?thesis
    proof (cases "qStatus r = DEAD_LETTER")
      case True
      then have "find (\<lambda>r. qId r = Some (object_id i)) (update_one ?p ?f rows) = Some (?f r)"
        using new find_SomeD [OF Some] by (intro find_update_first [OF Some]) auto
      then show ?thesis using assms(2) Some True m new others
        by (auto simp: purge_gas_event_def purge_is box_acted_def find_status_by_id_def find_editable_by_id_def Let_def)
    next
      case False
      then show ?thesis using assms(2) Some m same
        by (auto simp: purge_gas_event_def purge_is box_acted_def find_status_by_id_def find_editable_by_id_def Let_def)
    qed
  qed
qed

lemma edit_acts:
  assumes "distinct (map qId rows)"
    and "edit_gas_event ops bytes hash box i (edit_request_of rq p) now rows = (answer, rows')"
  shows "box_acted bytes (Edit p) i (\<not> isl answer) rows rows'"
proof (cases answer)
  case (Inl e)
  let ?q = "\<lambda>s. redrivable (object_id i) s \<and> revision_filter (epRevision p) (qPayloadRevision s)"
  have rows: "rows' = rows"
  proof (rule ccontr)
    assume "rows' \<noteq> rows"
    then obtain f where "rows' = update_one ?q f rows" and none: "\<not> matched_count ?q rows > 0"
      using assms(2) Inl by (auto simp: edit_gas_event_def andThen_run edit_is edit_request_of_def Let_def
          ret_def split: sum.splits if_splits)
    then show False using \<open>rows' \<noteq> rows\<close>
      by (metis matched_count_pos update_one_none)
  qed
  have "\<not> (\<exists>res rows'. edit_gas_event ops bytes hash box i (edit_request_of rq p) now rows = (Inr res, rows'))"
    using assms(2) Inl by simp
  then show ?thesis unfolding edit_result_iff [OF assms(1)] using rows Inl
    by (auto simp: box_acted_def edit_request_of_def split: option.split)
next
  case (Inr res)
  obtain r where r: "find_editable_by_id i rows = Some r" and allowed: "op_allowed bytes (Edit p) r"
    using edit_result_iff [OF assms(1), of bytes hash box i "edit_request_of rq p" now] assms(2) Inr
    by (auto simp: edit_request_of_def)
  obtain r' where "find_editable_by_id i rows' = Some r'" and "op_done (Edit p) r r'"
    using edit_stored [OF assms(1) assms(2) [unfolded Inr] r] by (auto simp: edit_request_of_def)
  moreover have "others_kept (object_id i) rows rows'"
  proof -
    obtain f where "rows' = update_one (\<lambda>s. redrivable (object_id i) s \<and> revision_filter (epRevision p) (qPayloadRevision s)) f rows"
      using assms(2) Inr by (auto simp: edit_gas_event_def andThen_run edit_is edit_request_of_def Let_def ret_def
          split: sum.splits if_splits)
    then show ?thesis by (simp only:) (rule others_kept_update_one, simp add: redrivable_def)
  qed
  ultimately show ?thesis using r allowed Inr by (auto simp: box_acted_def)
qed

end

section \<open>The use cases\<close>

fun op_run :: "operator_env \<Rightarrow> operator_request \<Rightarrow> operator_op \<Rightarrow> (events_db, unit) action" where
  "op_run env rq Redrive = redrive_event_use_case env rq"
| "op_run env rq (Purge reason remark) = purge_event_use_case env rq reason remark"
| "op_run env rq (Edit p) = andThen (edit_payload_use_case env rq p) (\<lambda>_. ret ())"

fun op_name :: "operator_op \<Rightarrow> string" where
  "op_name Redrive = ''REDRIVE_EVENT''"
| "op_name (Purge _ _) = ''PURGE_EVENT''"
| "op_name (Edit _) = ''EDIT_EVENT_PAYLOAD''"

definition audit_of_action :: "operator_request \<Rightarrow> operator_op \<Rightarrow> audit \<Rightarrow> bool" where
  "audit_of_action rq op a \<longleftrightarrow> auEntity a = ''EVENT'' \<and> auAction a = op_name op \<and> auEntityId a = vqId rq
     \<and> fst ` set (auDetails a) \<subseteq> {''service'', ''box'', ''caller'', ''actor'', ''reasonCode'', ''revision'',
          ''changedPaths'', ''changedPathsTruncated'', ''beforeHash'', ''afterHash'', ''reason''}"

definition boxes_acted ::
  "operator_env \<Rightarrow> operator_request \<Rightarrow> operator_op \<Rightarrow> bool \<Rightarrow> events_db \<Rightarrow> events_db \<Rightarrow> bool" where
  "boxes_acted env rq op ok db db' \<longleftrightarrow>
     (case (vqService rq, vqBox rq) of
        (CaseworkingService, _) \<Rightarrow> evInbox db' = evInbox db \<and> evOutbox db' = evOutbox db
      | (GasService, InboxBox) \<Rightarrow>
          box_acted (oePrettyBytes env) op (vqId rq) ok (evInbox db) (evInbox db') \<and> evOutbox db' = evOutbox db
      | (GasService, OutboxBox) \<Rightarrow>
          box_acted (oePrettyBytes env) op (vqId rq) ok (evOutbox db) (evOutbox db') \<and> evInbox db' = evInbox db)"

lemma on_box_run:
  "on_inbox m db = (r, t) \<longleftrightarrow> (\<exists>rows. m (evInbox db) = (r, rows) \<and> t = db\<lparr>evInbox := rows\<rparr>)"
  "on_outbox n db = (r', t) \<longleftrightarrow> (\<exists>rows. n (evOutbox db) = (r', rows) \<and> t = db\<lparr>evOutbox := rows\<rparr>)"
  by (auto simp: on_inbox_def on_outbox_def split: prod.splits)

text \<open>An action that acts on the boxes and leaves the audits, run with its audit.\<close>

lemma audited_action:
  assumes "\<And>a. oeValidAudit env a" and "run_event_action env rq f build db = (answer, db')"
    and "\<And>r t. f db = (r, t) \<Longrightarrow> evAudits t = evAudits db \<and> boxes_acted env rq op (\<not> isl r) db t"
    and "\<And>x. audit_of_action rq op (build x)"
  shows "(\<exists>a. evAudits db' = evAudits db @ [(a, if isl answer then FAILURE else SUCCESS)] \<and> audit_of_action rq op a)
    \<and> boxes_acted env rq op (\<not> isl answer) db db'"
proof -
  obtain r t where f: "f db = (r, t)" by force
  note acted = assms(3) [OF f]
  have added: "boxes_acted env rq op ok db (add_audit a s u) = boxes_acted env rq op ok db u" for ok a s u
    by (simp add: boxes_acted_def add_audit_def split: admin_service.split admin_box.split)
  show ?thesis
  proof (cases "vqService rq")
    case GasService
    have refused: "boxes_acted env rq op False db db" if "isl r"
      using acted that GasService by (auto simp: boxes_acted_def box_acted_def split: admin_box.splits option.splits)
    show ?thesis
    proof (cases r)
      case (Inl e)
      then have "answer = Inl e \<and> db' = add_audit (build (Inr e)) FAILURE db"
        using assms(1,2) f GasService
        by (auto simp: run_event_action_def audited_in_transaction_def audit_outside_def)
      then show ?thesis using refused Inl assms(4) by (auto simp: added) (auto simp: add_audit_def)
    next
      case (Inr x)
      then have "answer = Inr x \<and> db' = add_audit (build (Inl x)) SUCCESS t"
        using assms(1,2) f GasService by (auto simp: run_event_action_def audited_in_transaction_def)
      then show ?thesis using acted Inr assms(4) by (auto simp: added) (auto simp: add_audit_def)
    qed
  next
    case CaseworkingService
    then obtain x where "answer = r \<and> db' = add_audit (build x) (if isl r then FAILURE else SUCCESS) t"
      using assms(1,2) f
      by (auto simp: run_event_action_def audited_call_def audit_outside_def split: sum.splits)
    then show ?thesis using acted assms(4) by (auto simp: added) (auto simp: add_audit_def)
  qed
qed

lemma asked_caseworking: "ask_caseworking m db = (r, t) \<Longrightarrow> t = db"
  by (simp add: ask_caseworking_def lift_res_def)

lemma redrive_event_acts:
  assumes "distinct (map qId (evInbox db))" and "distinct (map qId (evOutbox db))" and "redrive_event env rq db = (r, t)"
  shows "evAudits t = evAudits db \<and> boxes_acted env rq Redrive (\<not> isl r) db t"
proof (cases "vqService rq")
  case GasService
  then show ?thesis
    using assms inbox_admin.redrive_acts [OF assms(1)] outbox_admin.redrive_acts [OF assms(2)]
    by (cases "vqBox rq") (auto simp: redrive_event_def on_box_run boxes_acted_def)
next
  case CaseworkingService
  then show ?thesis using assms(3)
    by (auto simp: redrive_event_def boxes_acted_def andThen_def ret_def dest!: asked_caseworking split: prod.splits sum.splits)
qed

lemma purge_event_acts:
  assumes "distinct (map qId (evInbox db))" and "distinct (map qId (evOutbox db))"
    and "purge_event env rq reason remark db = (r, t)"
  shows "evAudits t = evAudits db \<and> boxes_acted env rq (Purge reason remark) (\<not> isl r) db t"
proof (cases "vqService rq")
  case GasService
  then show ?thesis
    using assms inbox_admin.purge_acts [OF assms(1)] outbox_admin.purge_acts [OF assms(2)]
    by (cases "vqBox rq") (auto simp: purge_event_def on_box_run boxes_acted_def)
next
  case CaseworkingService
  then show ?thesis using assms(3)
    by (auto simp: purge_event_def boxes_acted_def andThen_def ret_def dest!: asked_caseworking split: prod.splits sum.splits)
qed

lemma mapped_answer:
  "andThen m (\<lambda>x. ret (g x)) db = (r, t) \<longleftrightarrow> (\<exists>r0. m db = (r0, t) \<and> r = map_sum id g r0)"
  by (cases "m db"; cases "fst (m db)") (auto simp: andThen_def ret_def)

lemma edit_event_acts:
  assumes "distinct (map qId (evInbox db))" and "distinct (map qId (evOutbox db))" and "edit_event env rq p db = (r, t)"
  shows "evAudits t = evAudits db \<and> boxes_acted env rq (Edit p) (\<not> isl r) db t"
proof (cases "vqService rq")
  case GasService
  show ?thesis
  proof (cases "vqBox rq")
    case InboxBox
    then obtain r0 rows where e: "edit_gas_event (inbox_ops (oeConfig env) (oeJoiMessage env)) (oePrettyBytes env)
          (oePayloadHash env) ''inbox'' (vqId rq) (edit_request_of rq p) (oeNow env) (evInbox db) = (r0, rows)"
      and "t = db\<lparr>evInbox := rows\<rparr>" and "isl r = isl r0"
      using assms(3) GasService by (auto simp: edit_event_def mapped_answer on_box_run isl_map_sum)
    then show ?thesis using inbox_admin.edit_acts [OF assms(1) e] GasService InboxBox by (simp add: boxes_acted_def)
  next
    case OutboxBox
    then obtain r0 rows where e: "edit_gas_event (outbox_ops (oeConfig env) (oeJoiMessage env)) (oePrettyBytes env)
          (oePayloadHash env) ''outbox'' (vqId rq) (edit_request_of rq p) (oeNow env) (evOutbox db) = (r0, rows)"
      and "t = db\<lparr>evOutbox := rows\<rparr>" and "isl r = isl r0"
      using assms(3) GasService by (auto simp: edit_event_def mapped_answer on_box_run isl_map_sum)
    then show ?thesis using outbox_admin.edit_acts [OF assms(2) e] GasService OutboxBox by (simp add: boxes_acted_def)
  qed
next
  case CaseworkingService
  then show ?thesis using assms(3)
    by (auto simp: edit_event_def boxes_acted_def andThen_def lift_res_def dest!: asked_caseworking split: prod.splits sum.splits)
qed

text \<open>
  C30. An operator's redrive, purge or edit of an event is audited exactly once, as done or as refused, under
  the event's id and without its payload or the note. On a box of this service it is done exactly when the row it
  names is there in a status, and for an edit at the revision and with a payload, that allow it; then that row
  is as the action says and no other is touched, and refused it touches none. On Caseworking's it touches
  no row of this service.
\<close>

theorem operator_action_audited:
  assumes "\<forall>a. oeValidAudit env a" and "distinct (map qId (evInbox db))" and "distinct (map qId (evOutbox db))"
    and "op_run env rq op db = (answer, db')"
  shows "(\<exists>a. evAudits db' = evAudits db @ [(a, if isl answer then FAILURE else SUCCESS)] \<and> audit_of_action rq op a)
    \<and> boxes_acted env rq op (\<not> isl answer) db db'"
proof (cases op)
  case Redrive
  show ?thesis using assms(1,4) Redrive
    by (intro audited_action [where f = "redrive_event env rq" and build = "\<lambda>_. event_audit ''REDRIVE_EVENT'' rq []"])
      (auto simp: redrive_event_use_case_def audit_of_action_def event_audit_def redrive_event_acts [OF assms(2,3)])
next
  case (Purge reason remark)
  show ?thesis using assms(1,4) Purge
    by (intro audited_action [where f = "purge_event env rq reason remark"
          and build = "\<lambda>_. event_audit ''PURGE_EVENT'' rq [(''reasonCode'', JStr reason)]"])
      (auto simp: purge_event_use_case_def audit_of_action_def event_audit_def purge_event_acts [OF assms(2,3)])
next
  case (Edit p)
  then obtain r0 where run: "edit_payload_use_case env rq p db = (r0, db')" and same: "isl answer = isl r0"
    using assms(4) by (auto simp: mapped_answer isl_map_sum)
  have "(\<exists>a. evAudits db' = evAudits db @ [(a, if isl r0 then FAILURE else SUCCESS)] \<and> audit_of_action rq op a)
      \<and> boxes_acted env rq op (\<not> isl r0) db db'"
    using assms(1) run [unfolded edit_payload_use_case_def] edit_event_acts [OF assms(2,3)] unfolding Edit
    by (intro audited_action [where f = "edit_event env rq p" and build = "edit_payload_audit rq p"])
      (auto simp: audit_of_action_def edit_payload_audit_def event_audit_def audited_result_def present_def
        split: sum.splits option.splits)
  then show ?thesis by (simp only: same)
qed

definition o_env :: operator_env where
  "o_env = \<lparr>oeConfig = sample_config, oeJoiMessage = [], oePrettyBytes = (\<lambda>_. 10), oePayloadHash = (\<lambda>_. []),
     oeNow = 9, oeValidAudit = (\<lambda>_. True), oeCw = \<lparr>cvUrl = None, cvToken = None, cvTimeout = 5000, cvUser = None,
       cvParse = (\<lambda>_. None), cvNumText = (\<lambda>_. ''0''), cvReads = (\<lambda>_ v. Some v),
       cvSend = (\<lambda>_. Inl \<lparr>ceStatus = None, cePayload = NoPayload\<rparr>)\<rparr>\<rparr>"

definition o_request :: "admin_service \<Rightarrow> operator_request" where
  "o_request service = \<lparr>vqService = service, vqBox = InboxBox, vqId = ''01'', vqCaller = JStr ''admin'', vqActor = Some ''u1''\<rparr>"

definition o_db :: events_db where
  "o_db = \<lparr>evInbox = [sample_row 1 5 DEAD_LETTER 3, sample_row 2 6 DEAD_LETTER 3], evOutbox = [], evAudits = []\<rparr>"

lemma o_purged: "fst (op_run o_env (o_request GasService) (Purge ''TEST'' (Some ''why'')) o_db) = Inr ()
    \<and> map qStatus (evInbox (snd (op_run o_env (o_request GasService) (Purge ''TEST'' (Some ''why'')) o_db))) = [PURGED, DEAD_LETTER]"
  by (simp add: purge_event_use_case_def run_event_action_def audited_in_transaction_def purge_event_def o_env_def
      o_request_def o_db_def on_inbox_def purge_gas_event_def inbox_ops_def inbox_purge_by_id_def matched_count_def
      sample_row_def object_id_def purge_update_def add_audit_def Let_def)

theorem operator_action_audited_witness:
  "(\<exists>a. evAudits (snd (op_run o_env (o_request GasService) (Purge ''TEST'' (Some ''why'')) o_db)) = [(a, SUCCESS)]
      \<and> audit_of_action (o_request GasService) (Purge ''TEST'' (Some ''why'')) a)
   \<and> map qStatus (evInbox (snd (op_run o_env (o_request GasService) (Purge ''TEST'' (Some ''why'')) o_db))) = [PURGED, DEAD_LETTER]"
proof -
  have "\<forall>a. oeValidAudit o_env a" by (simp add: o_env_def)
  moreover have "distinct (map qId (evInbox o_db))" and "distinct (map qId (evOutbox o_db))"
    by (simp_all add: o_db_def sample_row_def)
  ultimately have "(\<exists>a. evAudits (snd (op_run o_env (o_request GasService) (Purge ''TEST'' (Some ''why'')) o_db))
      = evAudits o_db @ [(a, if isl (fst (op_run o_env (o_request GasService) (Purge ''TEST'' (Some ''why'')) o_db))
          then FAILURE else SUCCESS)]
      \<and> audit_of_action (o_request GasService) (Purge ''TEST'' (Some ''why'')) a)"
    using operator_action_audited [OF _ _ _ surjective_pairing] by blast
  then show ?thesis using o_purged by (simp add: o_db_def)
qed

end
