(* ===== verification/Spec2Isabelle.thy ===== *)
theory Spec2Isabelle
  imports QueueProperties ResolutionProperties SubmissionProperties ProcessMapping ClaimsProperties
    AgreementProperties AgreementTyping PaymentProperties ArrivalProperties BucketProperties BucketSummary
    AccessProperties AgreementPageProperties CaseworkingProperties
    DescriptionProperties StorageProperties OperatorProperties
begin

text \<open>
  A verification development for the farming grants backend (\<open>fg-gas-backend\<close>, the JavaScript under
  \<open>src/src\<close>).

  \<^bold>\<open>The program.\<close> The backend keeps grants, the applications made for them, the agreements reached,
  the claims against an application's entitlements and the payments owed. Grants, agreements and
  payments are configured: a definition file is published in versions by a configuration broker, is
  read from S3, checked, stored, and decides the life of what was made under it. The service talks to
  others by messages. A message received is a row of the inbox and a message to be sent is a row of
  the outbox; pollers take the rows in order, one worker per segregation reference, and operators may
  redrive, purge or edit a row. A use case reads and writes in one transaction of the database, the
  rows it adds to the outbox and its audit included.

  \<^bold>\<open>The theories.\<close> Paths are below \<open>src/src\<close>; a definition keeps the name of its function, in snake
  case, and a method has the record it works on as an argument.

  \<^item> \<open>Prelude\<close>: errors as values, results (\<open>'a res\<close>), actions on a state that may throw (\<open>('s, 'a) action\<close>
    with \<open>andThen\<close>, \<open>ret\<close>, \<open>throw\<close>), the relation \<open>keeps\<close> that carries an invariant through an
    action, first-match lookups, updates of one or many documents, objects as association lists in
    insertion order, the string operations the code uses. \<open>Digits\<close>: numbers in decimal text.
    \<open>JsValues\<close>: what the code does with values given as JSON, and components of URIs.
  \<^item> Grants and applications (\<open>grants/models\<close>, \<open>grants/schemas\<close>): \<open>Lifecycle\<close> (positions, statuses,
    stages, phases, external status map), \<open>Entitlements\<close> (templates, instances, submitted data, access),
    \<open>Grant\<close>, \<open>Application\<close> (with its agreements and its series), \<open>Claims\<close>;
    \<open>LifecycleDescription\<close> (what the admin is told of a lifecycle, with
    \<open>services/config-version.service.js\<close>) and \<open>ApplicationStorage\<close> (the stored documents of applications).
  \<^item> Messages (\<open>events\<close>, \<open>grant-admin/use-cases\<close>): \<open>Queue\<close> (the columns of a row and what both
    repositories do to them), \<open>Inbox\<close>, \<open>Outbox\<close>, \<open>FifoLock\<close>, \<open>Poller\<close>, \<open>PayloadChanges\<close>, \<open>EventAdmin\<close>;
    \<open>BoxSteps\<close> (any number of workers and operators on one box, as a step relation), \<open>QueueLaws\<close>.
  \<^item> Use cases of applications (\<open>grants/use-cases\<close>, \<open>grants/services\<close>): \<open>Publication\<close> (the database,
    its transactions, commands, events and audits), \<open>Transition\<close> (a status change and the nine
    processes it may run) with \<open>TransitionLaws\<close> and \<open>TransitionEffects\<close>, \<open>Submission\<close> with
    \<open>SubmissionLaws\<close>, \<open>EntitlementService\<close> with \<open>EntitlementLaws\<close>, \<open>ClaimsService\<close> with \<open>ClaimsLaws\<close>.
  \<^item> Configuration (\<open>common/config-broker\<close>, \<open>common/semver.js\<close>, \<open>grants/repositories\<close>): \<open>ConfigCatalog\<close> (versions,
    the state of their files), \<open>GrantResolution\<close> (which version is in force, its fetch and its cache)
    with \<open>ResolutionLaws\<close>, \<open>ConfigArrival\<close> (a version is announced, its files are fetched) with
    \<open>ArrivalLaws\<close>.
  \<^item> Mapping (\<open>common/resolve-refs.js\<close>, \<open>common/mapping\<close>): \<open>References\<close>, \<open>ProcessMapping\<close>.
  \<^item> Agreements (\<open>agreements\<close>): \<open>AgreementModel\<close> (the aggregate and its identities), \<open>AgreementLifecycle\<close>,
    \<open>AgreementDependencies\<close>, \<open>AgreementProcesses\<close> and \<open>AgreementRuntime\<close> (the definition, compiled and
    run), \<open>AgreementEvents\<close>, \<open>AgreementLoading\<close>, \<open>AgreementService\<close> (the use cases), \<open>AgreementPages\<close>
    (what a viewer is shown), and the lemmas of \<open>AgreementLaws\<close>, \<open>AgreementIdentities\<close>,
    \<open>AgreementTyping\<close> and \<open>AgreementPageLaws\<close>.
  \<^item> Payments (\<open>payments\<close>): \<open>Payments\<close> with \<open>PaymentLaws\<close>.
  \<^item> Lists of the administration (\<open>common/buckets\<close>): \<open>Buckets\<close> (what a bucket is, its plan, refs and
    refusals), \<open>BucketEngine\<close> (the filter, the cursor and the pages of a read), \<open>BucketSummary\<close> (counting
    by group), \<open>BucketLaws\<close>; \<open>EventStamps\<close> (\<open>events\<close>: event types, what a row is stamped and linked with)
    with \<open>StampLaws\<close>.
  \<^item> Access: \<open>GrantAccess\<close> (\<open>grants\<close>: allow lists and their administration), \<open>Authentication\<close> (\<open>auth\<close>:
    service tokens and callers' tokens), \<open>AccessLaws\<close>.
  \<^item> \<open>CaseworkingClient\<close> (\<open>grant-admin/repositories\<close>: what the administration asks of the Caseworking
    service and what becomes of its errors) with \<open>CaseworkingLaws\<close>; \<open>OperatorActions\<close> (\<open>grant-admin/use-cases\<close>,
    \<open>events/with-audit.js\<close>: an operator's redrive, purge or edit of a row, on this service or on Caseworking,
    with its audit).
  \<^item> \<open>CoreProperties\<close>, \<open>QueueProperties\<close>, \<open>TransitionProperties\<close>, \<open>SubmissionProperties\<close>,
    \<open>ClaimsProperties\<close>, \<open>ResolutionProperties\<close>, \<open>ArrivalProperties\<close>, \<open>AgreementProperties\<close>,
    \<open>AgreementTyping\<close>, \<open>AgreementPageProperties\<close>, \<open>PaymentProperties\<close>, \<open>BucketProperties\<close>,
    \<open>BucketSummary\<close>, \<open>AccessProperties\<close>, \<open>CaseworkingProperties\<close>, \<open>DescriptionProperties\<close>,
    \<open>StorageProperties\<close> and \<open>OperatorProperties\<close> state the properties, each with an instance on concrete data
    where it has a hypothesis.
\<close>

text \<open>
  \<^bold>\<open>State.\<close> A collection of the database is a list of records in insertion order, and its unique indexes
  are checks of the insertion that reports a duplicate. The grants module has \<open>grants_db\<close> of
  \<open>Publication\<close>; the resolution of a grant works on \<open>config_store\<close>, the Agreements module on
  \<open>agreements_db\<close> and payments on \<open>payments_db\<close>. A transaction runs an action on a
  copy and keeps it only when nothing was thrown; \<open>dbOutside\<close> and the environment's \<open>meanwhile\<close>
  functions are what others commit between a read outside the transaction and the transaction, so that
  the retries of the code are retries against a changed database. Exceptions are values of \<open>js_error\<close>,
  split as the code splits them: Boom errors by status, duplicate keys, failures of S3, plain errors.

  \<^bold>\<open>Interfaces.\<close> \<open>event_box\<close> is what the pollers need of a box (the six operations of \<open>box_ops\<close> with their
  laws); invariant, step diagram, order and progress of rows are proved once in it and
  interpreted on the inbox and on the outbox. \<open>operated_box\<close> is what an operator's use case needs, again
  interpreted on both. \<open>lock_store\<close> is what a worker relies on when it takes a lock, interpreted on the
  collection of FIFO locks. The type class \<open>linorder\<close> is instantiated for semantic versions.

  \<^bold>\<open>What the lemmas show.\<close>
  \<^item> Rows of a box stay well formed under every interleaving, follow one diagram, are claimed first in
    first out per reference, and a row whose attempts are used up is dead-lettered; a handler that
    outlived its claim writes nothing; a poll ends; two workers do not both hold a lock.
  \<^item> A status change is atomic, touches one application, and publishes what the registry of processes
    declares; the external status map of a published grant leads to declared positions.
  \<^item> What the admin is told of a lifecycle is what moves an application; the stored documents of
    applications refine the applications the use cases are modelled on and keep the refs they are found by.
  \<^item> Submitting and replacing keep every application in one series; entitlements and claims stay within
    the limits of their template whatever is retried; a claim is submitted once.
  \<^item> The version of a grant in force is the greatest usable one; a version that cannot be read or cannot
    be used is given up after a bounded number of attempts; a version is recorded only when each of
    its files is usable, and a payment file that arrived loads.
  \<^item> The history of an Agreement is complete and in order, an action refines the configured lifecycle,
    is executed once per key and changes nothing when it was overtaken; an identity dropped from the
    values is not given again; a process reads only outputs that are there; a page offers only what the
    state allows, and a printed page nothing.
  \<^item> A Payment is raised once for a source, has a claim id of its own and amounts that balance, and is
    answered again without its definition.
  \<^item> The pages of a bucket's list follow one another without gap or repetition, by any plan; a read scans
    no more than its limit; a summary counts every row once; the links of two rows are apart when what
    they link to is.
  \<^item> An allow list decides who may apply and only a caller with the role the definition names changes it;
    where tokens are enforced the caller is one a valid token was signed for.
  \<^item> Of an error's body that Caseworking sends, nothing but known words reaches a caller.
    An operator's action acts on the one row it names, only when that row allows it, and is audited once.

  \<^bold>\<open>Bounds and termination.\<close> \<open>get_next_available\<close> has fuel, one more than the rows of the box: each round
  dead-letters a row without a reference, and \<open>get_next_available_enough\<close> shows that it never runs out.
  The attempts of the code are the recursion of the model: five for an agreement number, the retries
  of an entitlement and of a claim, five for the fetch of a definition. \<open>load_versions\<close> falls back to
  older versions and ends because each version it tried leaves the set of catalogue keys not tried yet.
  Walks over JSON values end by the size of the value. A page whose templates use themselves is never
  answered by the code; \<open>resolve_component_list\<close> takes the depth to which lists of components may nest, a
  greater depth never changes an answer, and a page without templates is answered within its height. No integer of the modelled code is near the bounds of
  JavaScript's safe integers, so they are \<open>int\<close> or \<open>nat\<close>; amounts are pence.

  \<^bold>\<open>Parameters.\<close> What is not in the repository is an argument of the definitions that use it: parsing and
  evaluating JSONata, S3, HTTP, Joi's error texts and the shapes of configured schemas, AJV, new
  identifiers, the clock and reading instants, the signature check of the JWT library, SHA-256, the
  text of a cursor, the sending of a request to Caseworking, and the order in which MongoDB returns groups. The properties assume of them only what they name.

  \<^bold>\<open>Not modelled.\<close> The HTTP routes (Hapi), the SQS subscribers, clients and
  configuration (I/O around libraries), the presentation of the administration's pages (what they show of
  what is stored), migrations and scripts (run once on stored data), logging and metrics, and caches that only share a
  request in flight. The use case that
  executes an action takes the page it shows when it refuses as a parameter; \<open>AgreementPages\<close> models that page.
\<close>

end
